(* ===== verification/Prelude.thy ===== *)
theory Prelude
  imports Main "HOL-Library.AList" "HOL-Library.List_Lexorder" "HOL-Library.Char_ord"
    "HOL-Library.FSet"
begin

text \<open>
  What the component theories share: exceptions and results, insertion-ordered
  dictionaries, decimal numerals, the two rounding rules the code uses, and the
  collections of rules the component proofs draw on.

  Python's \<open>dict\<close> keeps insertion order and an assignment to an existing key keeps
  its place.  That is exactly \<^const>\<open>AList.update\<close> on an association list with
  distinct keys, so a dictionary is such a list, \<open>d.get(k)\<close> is \<^const>\<open>map_of\<close> and
  \<open>d.pop(k, None)\<close> is \<^const>\<open>AList.delete\<close>.
\<close>

named_theorems dict_simps \<open>rewriting of dictionary operations\<close>
named_theorems store_simps \<open>rewriting of the graph store operations\<close>
named_theorems frame_simps \<open>what an operation leaves unchanged\<close>

section \<open>String literals\<close>

text \<open>
  \<open>repr(s)\<close>: single quotes unless the text holds one and no double quote; backslash, the
  quote, and the control characters escaped.
\<close>

definition hex_digit :: "nat \<Rightarrow> char" where
  "hex_digit n = char_of (if n < 10 then 48 + n else 87 + n)"

definition repr_char :: "char \<Rightarrow> char \<Rightarrow> string" where
  "repr_char q c =
     (if c = CHR 0x5C \<or> c = q then [CHR 0x5C, c]
      else if c = CHR 0x0A then [CHR 0x5C, CHR ''n'']
      else if c = CHR 0x0D then [CHR 0x5C, CHR ''r'']
      else if c = CHR 0x09 then [CHR 0x5C, CHR ''t'']
      else let n = of_char c :: nat in
        if n < 32 \<or> n = 127
        then [CHR 0x5C, CHR ''x'', hex_digit (n div 16), hex_digit (n mod 16)]
        else [c])"

definition repr_str :: "string \<Rightarrow> string" where
  "repr_str s =
     (let q = (if CHR 0x27 \<in> set s \<and> CHR 0x22 \<notin> set s then CHR 0x22 else CHR 0x27)
      in [q] @ concat (map (repr_char q) s) @ [q])"

text \<open>\<open>sep.join(xs)\<close>, and the \<open>repr\<close> of a list of strings.\<close>

fun join_strs :: "string \<Rightarrow> string list \<Rightarrow> string" where
  "join_strs sep [] = []"
| "join_strs sep [x] = x"
| "join_strs sep (x # y # zs) = x @ sep @ join_strs sep (y # zs)"

definition repr_str_list :: "string list \<Rightarrow> string" where
  "repr_str_list xs = ''['' @ join_strs '', '' (map repr_str xs) @ '']''"

text \<open>The UTF-8 bytes of an em dash.\<close>

definition em_dash :: string where
  "em_dash = [CHR 0xE2, CHR 0x80, CHR 0x94]"

section \<open>Exceptions and results\<close>

text \<open>
  A raised exception is its class name and its text (\<open>str(exc)\<close>); a computation that may
  raise returns \<open>Inl\<close> of it.  The traceback text is a rendering of the interpreter's
  stack and is not modelled.
\<close>

datatype py_exn = PyExn (exn_type: string) (exn_text: string)

type_synonym 'a res = "py_exn + 'a"

abbreviation ValueError :: "string \<Rightarrow> py_exn" where
  "ValueError msg \<equiv> PyExn ''ValueError'' msg"

text \<open>The text of a \<open>KeyError\<close> is the \<open>repr\<close> of its argument.\<close>

abbreviation KeyError :: "string \<Rightarrow> py_exn" where
  "KeyError msg \<equiv> PyExn ''KeyError'' (repr_str msg)"

abbreviation RuntimeError :: "string \<Rightarrow> py_exn" where
  "RuntimeError msg \<equiv> PyExn ''RuntimeError'' msg"

fun res_bind :: "'a res \<Rightarrow> ('a \<Rightarrow> 'b res) \<Rightarrow> 'b res" where
  "res_bind (Inl e) f = Inl e"
| "res_bind (Inr x) f = f x"

lemma res_bind_Inr_iff: "res_bind m f = Inr y \<longleftrightarrow> (\<exists>x. m = Inr x \<and> f x = Inr y)"
  by (cases m) auto

section \<open>Dictionaries\<close>

type_synonym ('k, 'v) dict = "('k \<times> 'v) list"

abbreviation dict_get :: "('k, 'v) dict \<Rightarrow> 'k \<Rightarrow> 'v option" where
  "dict_get \<equiv> map_of"

abbreviation dict_set :: "'k \<Rightarrow> 'v \<Rightarrow> ('k, 'v) dict \<Rightarrow> ('k, 'v) dict" where
  "dict_set \<equiv> AList.update"

abbreviation dict_pop :: "'k \<Rightarrow> ('k, 'v) dict \<Rightarrow> ('k, 'v) dict" where
  "dict_pop \<equiv> AList.delete"

abbreviation dict_keys :: "('k, 'v) dict \<Rightarrow> 'k list" where
  "dict_keys d \<equiv> map fst d"

abbreviation dict_values :: "('k, 'v) dict \<Rightarrow> 'v list" where
  "dict_values d \<equiv> map snd d"

definition dict_wf :: "('k, 'v) dict \<Rightarrow> bool" where
  "dict_wf d \<longleftrightarrow> distinct (dict_keys d)"

lemma dict_wf_Nil [simp]: "dict_wf []"
  by (simp add: dict_wf_def)

lemma dict_get_set [dict_simps]:
  "dict_get (dict_set k v d) k' = (if k' = k then Some v else dict_get d k')"
  by (simp add: update_conv')

lemma dict_get_pop [dict_simps]:
  "dict_get (dict_pop k d) k' = (if k' = k then None else dict_get d k')"
  by (simp add: delete_conv')

lemma dict_wf_set [intro]: "dict_wf d \<Longrightarrow> dict_wf (dict_set k v d)"
  by (simp add: dict_wf_def distinct_update)

lemma dict_wf_pop [intro]: "dict_wf d \<Longrightarrow> dict_wf (dict_pop k d)"
  by (simp add: dict_wf_def distinct_delete)

lemma dict_wf_Cons: "dict_wf ((k, v) # d) \<longleftrightarrow> k \<notin> set (dict_keys d) \<and> dict_wf d"
  by (simp add: dict_wf_def)

lemma dict_keys_set: "fst ` set (dict_set k v d) = insert k (fst ` set d)"
  by (induction d) auto

lemma dict_get_Some_iff: "dict_wf d \<Longrightarrow> dict_get d k = Some v \<longleftrightarrow> (k, v) \<in> set d"
  by (simp add: dict_wf_def map_of_eq_Some_iff)

lemma dict_get_None_iff: "dict_get d k = None \<longleftrightarrow> k \<notin> set (dict_keys d)"
  by (simp add: map_of_eq_None_iff)

lemma dict_set_new: "dict_get d k = None \<Longrightarrow> dict_set k v d = d @ [(k, v)]"
  by (induction d) (auto split: if_splits)

lemma dict_set_same_keys:
  "dict_get d k \<noteq> None \<Longrightarrow> dict_keys (dict_set k v d) = dict_keys d"
  by (induction d) (auto split: if_splits)

lemma dict_set_entry:
  "(k', v') \<in> set (dict_set k v d) \<Longrightarrow> (k', v') = (k, v) \<or> (k', v') \<in> set d"
  by (induction d) (auto split: if_splits)

text \<open>An assignment of the value a key already holds changes nothing.\<close>

lemma dict_set_idem: "dict_get d k = Some v \<Longrightarrow> dict_set k v d = d"
  by (induction d) (auto split: if_splits)

lemma dict_set_set: "dict_set k v (dict_set k w d) = dict_set k v d"
  by (induction d) auto

section \<open>Decimal numerals\<close>

text \<open>\<open>str(n)\<close> of an \<open>int\<close>.\<close>

fun digit_char :: "nat \<Rightarrow> char" where
  "digit_char n = char_of (48 + n)"

fun nat_digits :: "nat \<Rightarrow> string" where
  "nat_digits n = (if n < 10 then [digit_char n]
                   else nat_digits (n div 10) @ [digit_char (n mod 10)])"

declare nat_digits.simps [simp del]

definition str_nat :: "nat \<Rightarrow> string" where
  "str_nat n = nat_digits n"

definition str_int :: "int \<Rightarrow> string" where
  "str_int i = (if i < 0 then ''-'' @ nat_digits (nat (- i)) else nat_digits (nat i))"

text \<open>Zero-padded decimal of fixed width, as \<open>f"{n:02d}"\<close> writes it for \<open>n < 10 ^ w\<close>.\<close>

fun pad_digits :: "nat \<Rightarrow> nat \<Rightarrow> string" where
  "pad_digits 0 n = []"
| "pad_digits (Suc w) n = pad_digits w (n div 10) @ [digit_char (n mod 10)]"

lemma length_pad_digits [simp]: "length (pad_digits w n) = w"
  by (induction w arbitrary: n) auto

section \<open>Rounding\<close>

text \<open>
  \<open>round(x)\<close> is half to even; \<open>Decimal.quantize(..., ROUND_HALF_UP)\<close> to a whole number is
  half away from zero.
\<close>

definition round_half_even :: "rat \<Rightarrow> int" where
  "round_half_even x =
     (let f = \<lfloor>x\<rfloor>; d = x - of_int f
      in if d < 1 / 2 then f else if 1 / 2 < d then f + 1 else if even f then f else f + 1)"

definition round_half_up :: "rat \<Rightarrow> int" where
  "round_half_up x = (if 0 \<le> x then \<lfloor>x + 1 / 2\<rfloor> else - \<lfloor>1 / 2 - x\<rfloor>)"

lemma round_half_even_of_int [simp]: "round_half_even (of_int n) = n"
  by (simp add: round_half_even_def)

lemma round_half_up_of_int [simp]: "round_half_up (of_int n) = n"
proof -
  have "\<lfloor>(of_int n :: rat) + 1 / 2\<rfloor> = n" by (simp add: floor_eq_iff)
  moreover have "\<lfloor>1 / 2 - (of_int n :: rat)\<rfloor> = - n" by (simp add: floor_eq_iff)
  ultimately show ?thesis by (simp add: round_half_up_def)
qed

lemma round_half_up_error: "\<bar>of_int (round_half_up x) - x\<bar> \<le> 1 / 2"
proof (cases "0 \<le> x")
  case True
  have "of_int \<lfloor>x + 1 / 2\<rfloor> \<le> x + 1 / 2" and "x + 1 / 2 < of_int \<lfloor>x + 1 / 2\<rfloor> + 1"
    by linarith+
  then have "\<bar>of_int \<lfloor>x + 1 / 2\<rfloor> - x\<bar> \<le> 1 / 2" by linarith
  with True show ?thesis by (simp add: round_half_up_def)
next
  case False
  have "of_int \<lfloor>1 / 2 - x\<rfloor> \<le> 1 / 2 - x" and "1 / 2 - x < of_int \<lfloor>1 / 2 - x\<rfloor> + 1"
    by linarith+
  then have "\<bar>of_int (- \<lfloor>1 / 2 - x\<rfloor>) - x\<bar> \<le> 1 / 2" unfolding of_int_minus by linarith
  with False show ?thesis by (simp add: round_half_up_def)
qed

lemma round_half_up_nonneg: "0 \<le> x \<Longrightarrow> 0 \<le> round_half_up x"
  by (simp add: round_half_up_def)

lemma round_half_up_mono: "0 \<le> x \<Longrightarrow> x \<le> y \<Longrightarrow> round_half_up x \<le> round_half_up y"
  by (simp add: round_half_up_def floor_mono)

lemma round_half_even_error: "\<bar>of_int (round_half_even x) - x\<bar> \<le> 1 / 2"
proof -
  have "of_int \<lfloor>x\<rfloor> \<le> x" and "x < of_int \<lfloor>x\<rfloor> + 1" by linarith+
  then show ?thesis by (auto simp: round_half_even_def Let_def abs_le_iff)
qed

lemma round_half_even_mono:
  assumes "x \<le> y"
  shows "round_half_even x \<le> round_half_even y"
proof (rule ccontr)
  assume "\<not> round_half_even x \<le> round_half_even y"
  then have gap: "round_half_even y + 1 \<le> round_half_even x" by simp
  have "of_int (round_half_even x) \<le> x + 1 / 2" "y - 1 / 2 \<le> of_int (round_half_even y)"
    using round_half_even_error [of x] round_half_even_error [of y] by linarith+
  moreover have "(of_int (round_half_even y) :: rat) + 1 \<le> of_int (round_half_even x)"
    using gap by linarith
  ultimately have "x = y" using assms by linarith
  with gap show False by simp
qed

section \<open>Fixed-point text\<close>

text \<open>\<open>f"{x:.nf}"\<close>: \<open>n\<close> decimals, ties to even, the sign of a value that rounds to zero kept.\<close>

definition fixed_text :: "nat \<Rightarrow> rat \<Rightarrow> string" where
  "fixed_text n x =
     (let t = nat \<bar>round_half_even (10 ^ n * x)\<bar>
      in (if x < 0 then ''-'' else []) @ str_nat (t div 10 ^ n)
       @ (if n = 0 then [] else ''.'' @ pad_digits n (t mod 10 ^ n)))"

text \<open>
  \<open>s.upper()\<close> and \<open>s in t\<close>.  Only the letters \<open>a\<close> to \<open>z\<close> change case; ticker symbols are ASCII.
\<close>

definition upper_char :: "char \<Rightarrow> char" where
  "upper_char c = (let n = of_char c :: nat in if 97 \<le> n \<and> n \<le> 122 then char_of (n - 32) else c)"

definition upper :: "string \<Rightarrow> string" where
  "upper s = map upper_char s"

fun starts_with :: "string \<Rightarrow> string \<Rightarrow> bool" where
  "starts_with s [] = True"
| "starts_with [] (p # ps) = False"
| "starts_with (c # s) (p # ps) = (c = p \<and> starts_with s ps)"

fun contains_text :: "string \<Rightarrow> string \<Rightarrow> bool" where
  "contains_text p [] = (p = [])"
| "contains_text p (c # s) = (starts_with (c # s) p \<or> contains_text p s)"

lemma upper_char_idem: "upper_char (upper_char c) = upper_char c"
proof (cases "97 \<le> (of_char c :: nat) \<and> (of_char c :: nat) \<le> 122")
  case True
  moreover from this have "(of_char c :: nat) - 32 < 256" by linarith
  ultimately have "of_char (upper_char c) = (of_char c :: nat) - 32"
    by (simp add: upper_char_def Let_def mod_less)
  moreover from True have "\<not> 97 \<le> (of_char c :: nat) - 32" by linarith
  ultimately show ?thesis by (simp only: upper_char_def [of "upper_char c"] Let_def) simp
qed (auto simp: upper_char_def Let_def)

lemma upper_idem [simp]: "upper (upper s) = upper s"
  by (simp add: upper_def upper_char_idem)

text \<open>\<open>itertools.pairwise\<close>.\<close>

fun pairwise :: "'a list \<Rightarrow> ('a \<times> 'a) list" where
  "pairwise (x # y # zs) = (x, y) # pairwise (y # zs)"
| "pairwise xs = []"

end
