(* ===== verification/PyValue.thy ===== *)
theory PyValue
  imports Prelude
begin

text \<open>
  The values graph properties and message payloads carry, Python's equality on them, and
  the freezing of \<open>kernel/graph_support.py\<close> (\<open>_frozen_value\<close>, \<open>_frozen_props\<close>).

  Floats are exact rationals here: no operation of this theory rounds, and \<open>nan\<close> and the
  infinities, which JSON cannot carry, have no value.  \<open>PObj\<close> stands for any other
  object (a datetime, an enum member), compared by what it is.
\<close>

datatype pyval =
    PNone
  | PBool bool
  | PInt int
  | PFloat rat
  | PStr string
  | PList "pyval list"
  | PTuple "pyval list"
  | PDict "(string \<times> pyval) list"
  | PProxy "(string \<times> pyval) list"
  | PSet "pyval list"
  | PFrozenSet "pyval list"
  | PObj string

type_synonym props = "(string, pyval) dict"

section \<open>Equality\<close>

text \<open>
  Python compares numbers by value across \<open>bool\<close>, \<open>int\<close> and \<open>float\<close>, lists and
  tuples elementwise but never with one another, mappings as sets of pairs whatever
  their order and whether or not they sit behind a \<open>MappingProxyType\<close>, and sets and
  frozen sets as sets.  All of that is equality of one canonical form.
\<close>

datatype cval =
    CNone
  | CNum rat
  | CStr string
  | CList "cval list"
  | CTuple "cval list"
  | CMap "(string \<times> cval) fset"
  | CSet "cval fset"
  | CObj string

fun canon :: "pyval \<Rightarrow> cval" where
  "canon PNone = CNone"
| "canon (PBool b) = CNum (if b then 1 else 0)"
| "canon (PInt i) = CNum (of_int i)"
| "canon (PFloat q) = CNum q"
| "canon (PStr s) = CStr s"
| "canon (PList xs) = CList (map canon xs)"
| "canon (PTuple xs) = CTuple (map canon xs)"
| "canon (PDict kvs) = CMap (fset_of_list (map (\<lambda>(k, v). (k, canon v)) kvs))"
| "canon (PProxy kvs) = CMap (fset_of_list (map (\<lambda>(k, v). (k, canon v)) kvs))"
| "canon (PSet xs) = CSet (fset_of_list (map canon xs))"
| "canon (PFrozenSet xs) = CSet (fset_of_list (map canon xs))"
| "canon (PObj s) = CObj s"

definition py_eq :: "pyval \<Rightarrow> pyval \<Rightarrow> bool" where
  "py_eq v w \<longleftrightarrow> canon v = canon w"

lemma py_eq_refl [simp, intro]: "py_eq v v"
  by (simp add: py_eq_def)

lemma py_eq_sym: "py_eq v w \<Longrightarrow> py_eq w v"
  by (simp add: py_eq_def)

lemma py_eq_trans [trans]: "py_eq u v \<Longrightarrow> py_eq v w \<Longrightarrow> py_eq u w"
  by (simp add: py_eq_def)

lemma py_eq_PStr [simp]: "py_eq (PStr s) v \<longleftrightarrow> v = PStr s"
  by (cases v) (auto simp: py_eq_def)

text \<open>\<open>d.get(k) == s\<close> for a string \<open>s\<close>: an absent key reads \<open>None\<close>, which is no string.\<close>

definition prop_is :: "props \<Rightarrow> string \<Rightarrow> string \<Rightarrow> bool" where
  "prop_is p k s \<longleftrightarrow> (case dict_get p k of None \<Rightarrow> False | Some v \<Rightarrow> py_eq v (PStr s))"

lemma prop_is_iff: "prop_is p k s \<longleftrightarrow> dict_get p k = Some (PStr s)"
  by (auto simp: prop_is_def py_eq_sym dest: py_eq_sym split: option.splits)

section \<open>Truth\<close>

definition py_truth :: "pyval \<Rightarrow> bool" where
  "py_truth v =
     (case v of
        PNone \<Rightarrow> False
      | PBool b \<Rightarrow> b
      | PInt i \<Rightarrow> i \<noteq> 0
      | PFloat q \<Rightarrow> q \<noteq> 0
      | PStr s \<Rightarrow> s \<noteq> []
      | PList xs \<Rightarrow> xs \<noteq> []
      | PTuple xs \<Rightarrow> xs \<noteq> []
      | PDict d \<Rightarrow> d \<noteq> []
      | PProxy d \<Rightarrow> d \<noteq> []
      | PSet xs \<Rightarrow> xs \<noteq> []
      | PFrozenSet xs \<Rightarrow> xs \<noteq> []
      | PObj s \<Rightarrow> True)"

section \<open>Freezing\<close>

fun frozen_value :: "pyval \<Rightarrow> pyval" where
  "frozen_value (PDict kvs) = PProxy (map (\<lambda>(k, v). (k, frozen_value v)) kvs)"
| "frozen_value (PProxy kvs) = PProxy (map (\<lambda>(k, v). (k, frozen_value v)) kvs)"
| "frozen_value (PList xs) = PTuple (map frozen_value xs)"
| "frozen_value (PTuple xs) = PTuple (map frozen_value xs)"
| "frozen_value (PSet xs) = PFrozenSet (map frozen_value xs)"
| "frozen_value (PFrozenSet xs) = PFrozenSet (map frozen_value xs)"
| "frozen_value v = v"

definition frozen_props :: "props \<Rightarrow> props" where
  "frozen_props p = map (\<lambda>(k, v). (k, frozen_value v)) p"

text \<open>A frozen value holds nothing that can be mutated in place.\<close>

fun immutable :: "pyval \<Rightarrow> bool" where
  "immutable (PDict kvs) = False"
| "immutable (PList xs) = False"
| "immutable (PSet xs) = False"
| "immutable (PProxy kvs) = list_all (\<lambda>(k, v). immutable v) kvs"
| "immutable (PTuple xs) = list_all immutable xs"
| "immutable (PFrozenSet xs) = list_all immutable xs"
| "immutable v = True"

lemma frozen_value_immutable: "immutable (frozen_value v)"
  by (induction v rule: frozen_value.induct) (fastforce simp: list_all_iff)+

lemma immutable_frozen_value: "immutable v \<Longrightarrow> frozen_value v = v"
  by (induction v rule: immutable.induct)
    (fastforce simp: list_all_iff intro: map_idI)+

lemma frozen_value_idem [simp]: "frozen_value (frozen_value v) = frozen_value v"
  by (rule immutable_frozen_value [OF frozen_value_immutable])

lemma frozen_value_PStr_iff [simp]: "frozen_value v = PStr s \<longleftrightarrow> v = PStr s"
  by (cases v) auto

lemma frozen_props_get [simp]:
  "dict_get (frozen_props p) k = map_option frozen_value (dict_get p k)"
  by (induction p) (auto simp: frozen_props_def)

lemma frozen_props_keys [simp]: "dict_keys (frozen_props p) = dict_keys p"
  by (induction p) (auto simp: frozen_props_def)

lemma frozen_props_wf [simp]: "dict_wf (frozen_props p) = dict_wf p"
  by (simp add: dict_wf_def)

lemma frozen_props_idem [simp]: "frozen_props (frozen_props p) = frozen_props p"
  by (simp add: frozen_props_def comp_def case_prod_unfold)

definition props_frozen :: "props \<Rightarrow> bool" where
  "props_frozen p \<longleftrightarrow> list_all (\<lambda>(k, v). immutable v) p"

lemma frozen_props_frozen [simp]: "props_frozen (frozen_props p)"
  by (auto simp: props_frozen_def frozen_props_def list_all_iff frozen_value_immutable)

lemma props_frozen_id: "props_frozen p \<Longrightarrow> frozen_props p = p"
  by (auto simp: props_frozen_def frozen_props_def list_all_iff
      intro!: map_idI dest!: immutable_frozen_value)

lemma props_frozen_set:
  "props_frozen p \<Longrightarrow> immutable v \<Longrightarrow> props_frozen (dict_set k v p)"
  by (fastforce simp: props_frozen_def list_all_iff dest: dict_set_entry)

end
