(* ===== verification/PyTime.thy ===== *)
theory PyTime
  imports Prelude
begin

text \<open>
  The part of Python's \<open>datetime\<close> the code uses: calendar dates by proleptic ordinal,
  aware and naive timestamps, \<open>isoformat\<close>, \<open>astimezone(UTC)\<close> and time differences.
  A timestamp's offset is in whole minutes, \<open>None\<close> for a naive one.

  Main fact: on valid UTC timestamps the order of the \<open>isoformat\<close> texts is the order
  of time, although the text of a whole second is shorter than the others.
\<close>

section \<open>Dates\<close>

definition is_leap :: "nat \<Rightarrow> bool" where
  "is_leap y \<longleftrightarrow> y mod 4 = 0 \<and> (y mod 100 \<noteq> 0 \<or> y mod 400 = 0)"

definition days_before_year :: "nat \<Rightarrow> nat" where
  "days_before_year y = (y - 1) * 365 + (y - 1) div 4 - (y - 1) div 100 + (y - 1) div 400"

fun days_in_month :: "nat \<Rightarrow> nat \<Rightarrow> nat" where
  "days_in_month y m =
     (if m = 2 then (if is_leap y then 29 else 28)
      else if m = 4 \<or> m = 6 \<or> m = 9 \<or> m = 11 then 30 else 31)"

fun days_before_month :: "nat \<Rightarrow> nat \<Rightarrow> nat" where
  "days_before_month y 0 = 0"
| "days_before_month y (Suc 0) = 0"
| "days_before_month y (Suc (Suc m)) = days_before_month y (Suc m) + days_in_month y (Suc m)"

text \<open>The same by subtraction, for closed months.\<close>

lemma days_before_month_unfold:
  "days_before_month y m =
     (if m \<le> 1 then 0 else days_before_month y (m - 1) + days_in_month y (m - 1))"
  by (cases "(y, m)" rule: days_before_month.cases) auto

definition ymd2ord :: "nat \<Rightarrow> nat \<Rightarrow> nat \<Rightarrow> nat" where
  "ymd2ord y m d = days_before_year y + days_before_month y m + d"

definition valid_date :: "nat \<Rightarrow> nat \<Rightarrow> nat \<Rightarrow> bool" where
  "valid_date y m d \<longleftrightarrow>
     1 \<le> y \<and> y \<le> 9999 \<and> 1 \<le> m \<and> m \<le> 12 \<and> 1 \<le> d \<and> d \<le> days_in_month y m"

text \<open>\<open>date.weekday()\<close>: Monday is 0.\<close>

definition weekday :: "nat \<Rightarrow> nat" where
  "weekday n = (n + 6) mod 7"

lemma days_before_year_Suc:
  assumes "1 \<le> y"
  shows "days_before_year (Suc y) = days_before_year y + (if is_leap y then 366 else 365)"
proof -
  obtain x where y: "y = Suc x" using assms by (cases y) auto
  define b c d where bcd: "b = x div 4" "c = x div 100" "d = x div 400"
  have q4: "Suc x div 4 = b + (if Suc x mod 4 = 0 then 1 else 0)"
    and q100: "Suc x div 100 = c + (if Suc x mod 100 = 0 then 1 else 0)"
    and q400: "Suc x div 400 = d + (if Suc x mod 400 = 0 then 1 else 0)"
    by (simp_all add: bcd div_Suc)
  have "c \<le> b" by (simp add: bcd div_le_mono2)
  moreover have "Suc x mod 100 = 0 \<Longrightarrow> Suc x mod 4 = 0"
    and "Suc x mod 400 = 0 \<Longrightarrow> Suc x mod 100 = 0" by presburger+
  ultimately show ?thesis
    unfolding y days_before_year_def is_leap_def diff_Suc_1 q4 q100 q400 bcd [symmetric]
    by (cases "Suc x mod 4 = 0"; cases "Suc x mod 100 = 0"; cases "Suc x mod 400 = 0") simp_all
qed

lemma days_before_month_13: "days_before_month y 13 = (if is_leap y then 366 else 365)"
  by (simp add: numeral_eq_Suc)

lemma days_before_month_mono:
  "1 \<le> m \<Longrightarrow> m < m' \<Longrightarrow> days_before_month y m + days_in_month y m \<le> days_before_month y m'"
proof (induction m')
  case (Suc k)
  then obtain j where k: "k = Suc j" by (cases k) auto
  show ?case
  proof (cases "m = k")
    case True
    then show ?thesis by (simp add: k del: days_in_month.simps)
  next
    case False
    with Suc show ?thesis by (auto simp: k simp del: days_in_month.simps)
  qed
qed simp

lemma days_before_year_mono: "1 \<le> y \<Longrightarrow> y \<le> y' \<Longrightarrow> days_before_year y \<le> days_before_year y'"
proof (induction "y' - y" arbitrary: y')
  case (Suc n)
  then obtain z where z: "y' = Suc z" "y \<le> z" "n = z - y"
    by (cases y') (auto simp: Suc_diff_le)
  with Suc have "days_before_year y \<le> days_before_year z" by simp
  then show ?case using z Suc.prems by (auto simp: days_before_year_Suc)
qed simp

text \<open>Every valid date of a year lies before the next year starts.\<close>

lemma ymd2ord_less_next_year:
  assumes "valid_date y m d"
  shows "ymd2ord y m d \<le> days_before_year (Suc y)"
proof -
  have "days_before_month y m + days_in_month y m \<le> days_before_month y 13"
    by (rule days_before_month_mono) (use assms in \<open>auto simp: valid_date_def\<close>)
  with assms show ?thesis
    by (auto simp: valid_date_def ymd2ord_def days_before_year_Suc days_before_month_13
        simp del: days_in_month.simps split: if_splits)
qed

lemma ymd2ord_less:
  assumes v: "valid_date y m d" and v': "valid_date y' m' d'"
    and less: "y < y' \<or> y = y' \<and> (m < m' \<or> m = m' \<and> d < d')"
  shows "ymd2ord y m d < ymd2ord y' m' d'"
  using less
proof (elim disjE conjE)
  assume "y < y'"
  then have "days_before_year (Suc y) \<le> days_before_year y'"
    by (intro days_before_year_mono) auto
  with ymd2ord_less_next_year [OF v] v' show ?thesis
    by (auto simp: ymd2ord_def valid_date_def)
next
  assume "y = y'" "m < m'"
  with days_before_month_mono [of m m' y] v v' show ?thesis
    by (auto simp: ymd2ord_def valid_date_def simp del: days_in_month.simps)
qed (simp add: ymd2ord_def)

section \<open>Timestamps\<close>

record timestamp =
  ts_year :: nat
  ts_month :: nat
  ts_day :: nat
  ts_hour :: nat
  ts_minute :: nat
  ts_second :: nat
  ts_micro :: nat
  ts_offset :: "int option"

definition valid_timestamp :: "timestamp \<Rightarrow> bool" where
  "valid_timestamp t \<longleftrightarrow>
     valid_date (ts_year t) (ts_month t) (ts_day t) \<and> ts_hour t < 24 \<and> ts_minute t < 60 \<and>
     ts_second t < 60 \<and> ts_micro t < 1000000"

text \<open>A fixed valid timestamp, for the worked instances of the theorems.\<close>

definition sample_time :: timestamp where
  "sample_time = \<lparr>ts_year = 2026, ts_month = 9, ts_day = 25, ts_hour = 14, ts_minute = 30,
     ts_second = 0, ts_micro = 0, ts_offset = Some 0\<rparr>"

definition is_utc :: "timestamp \<Rightarrow> bool" where
  "is_utc t \<longleftrightarrow> ts_offset t = Some 0"

text \<open>Microseconds since the start of year 1, UTC (a naive timestamp reads as its local time).\<close>

definition local_micros :: "timestamp \<Rightarrow> int" where
  "local_micros t =
     (((int (ymd2ord (ts_year t) (ts_month t) (ts_day t)) * 24 + int (ts_hour t)) * 60
        + int (ts_minute t)) * 60 + int (ts_second t)) * 1000000 + int (ts_micro t)"

definition instant :: "timestamp \<Rightarrow> int" where
  "instant t = local_micros t - (case ts_offset t of None \<Rightarrow> 0 | Some o' \<Rightarrow> o' * 60000000)"

text \<open>\<open>(a - b).total_seconds()\<close> of two aware timestamps.\<close>

definition seconds_between :: "timestamp \<Rightarrow> timestamp \<Rightarrow> rat" where
  "seconds_between a b = of_int (instant a - instant b) / 1000000"

definition offset_text :: "int option \<Rightarrow> string" where
  "offset_text o' =
     (case o' of
        None \<Rightarrow> ''''
      | Some m \<Rightarrow>
          (if m < 0 then ''-'' else ''+'')
          @ pad_digits 2 (nat \<bar>m\<bar> div 60) @ '':'' @ pad_digits 2 (nat \<bar>m\<bar> mod 60))"

definition micro_text :: "nat \<Rightarrow> string" where
  "micro_text us = (if us = 0 then '''' else ''.'' @ pad_digits 6 us)"

definition isoformat :: "timestamp \<Rightarrow> string" where
  "isoformat t =
     pad_digits 4 (ts_year t) @ ''-'' @ pad_digits 2 (ts_month t) @ ''-''
     @ pad_digits 2 (ts_day t) @ ''T'' @ pad_digits 2 (ts_hour t) @ '':''
     @ pad_digits 2 (ts_minute t) @ '':'' @ pad_digits 2 (ts_second t)
     @ micro_text (ts_micro t) @ offset_text (ts_offset t)"

section \<open>Text order is time order\<close>

lemma append_less_append:
  "length xs = length ys \<Longrightarrow>
     (xs @ us < ys @ vs) = (xs < ys \<or> xs = ys \<and> us < vs)" for xs :: "'a::linorder list"
  by (induction xs ys rule: list_induct2) auto

lemma digit_char_less: "a < 10 \<Longrightarrow> b < 10 \<Longrightarrow> (digit_char a < digit_char b) = (a < b)"
  by (simp add: less_char_def)

lemma digit_char_eq: "a < 10 \<Longrightarrow> b < 10 \<Longrightarrow> (digit_char a = digit_char b) = (a = b)"
  by (metis digit_char_less less_irrefl linorder_neqE_nat)

lemma div_mod_less: "(a div 10 < b div 10 \<or> a div 10 = b div 10 \<and> a mod 10 < b mod 10) = (a < b)"
  for a b :: nat
proof -
  have "a = 10 * (a div 10) + a mod 10" "b = 10 * (b div 10) + b mod 10"
    "a mod 10 < 10" "b mod 10 < 10" by simp_all
  then show ?thesis by linarith
qed

lemma pad_digits_eq: "a < 10 ^ w \<Longrightarrow> b < 10 ^ w \<Longrightarrow> (pad_digits w a = pad_digits w b) = (a = b)"
proof (induction w arbitrary: a b)
  case (Suc w)
  have "(a div 10 = b div 10 \<and> a mod 10 = b mod 10) = (a = b)" by (metis div_mult_mod_eq)
  with Suc show ?case
    by (simp add: digit_char_eq less_mult_imp_div_less mult.commute del: digit_char.simps)
qed simp

lemma pad_digits_less: "a < 10 ^ w \<Longrightarrow> b < 10 ^ w \<Longrightarrow> (pad_digits w a < pad_digits w b) = (a < b)"
proof (induction w arbitrary: a b)
  case (Suc w)
  have bounds: "a div 10 < 10 ^ w" "b div 10 < 10 ^ w"
    using Suc.prems by (simp_all add: less_mult_imp_div_less mult.commute)
  have "(pad_digits (Suc w) a < pad_digits (Suc w) b) =
      (a div 10 < b div 10 \<or> a div 10 = b div 10 \<and> a mod 10 < b mod 10)"
    using Suc.IH [OF bounds] pad_digits_eq [OF bounds]
    by (simp add: append_less_append digit_char_less del: digit_char.simps)
  also have "\<dots> = (a < b)" by (rule div_mod_less)
  finally show ?case .
qed simp

text \<open>The fields in order of weight, compared lexicographically.\<close>

definition ts_less :: "timestamp \<Rightarrow> timestamp \<Rightarrow> bool" where
  "ts_less a b \<longleftrightarrow>
     ts_year a < ts_year b \<or> ts_year a = ts_year b \<and>
    (ts_month a < ts_month b \<or> ts_month a = ts_month b \<and>
    (ts_day a < ts_day b \<or> ts_day a = ts_day b \<and>
    (ts_hour a < ts_hour b \<or> ts_hour a = ts_hour b \<and>
    (ts_minute a < ts_minute b \<or> ts_minute a = ts_minute b \<and>
    (ts_second a < ts_second b \<or> ts_second a = ts_second b \<and> ts_micro a < ts_micro b)))))"

lemma micro_text_less:
  assumes "u < 1000000" "v < 1000000"
  shows "(micro_text u @ offset_text (Some 0) < micro_text v @ offset_text (Some 0)) = (u < v)"
  using assms pad_digits_less [of u 6 v] pad_digits_eq [of u 6 v]
  by (auto simp: micro_text_def offset_text_def append_less_append less_char_def)

lemma isoformat_less_ts_less:
  assumes a: "valid_timestamp a" "is_utc a" and b: "valid_timestamp b" "is_utc b"
  shows "(isoformat a < isoformat b) = ts_less a b"
proof -
  have two: "(pad_digits 2 m < pad_digits 2 n) = (m < n)"
    "(pad_digits 2 m = pad_digits 2 n) = (m = n)" if "m < 100" "n < 100" for m n
    using that by (simp_all add: pad_digits_less pad_digits_eq)
  have day: "days_in_month y m < 100" for y m by simp
  have lt: "ts_month a < 100" "ts_month b < 100" "ts_day a < 100" "ts_day b < 100"
    "ts_year a < 10 ^ 4" "ts_year b < 10 ^ 4"
    using a b day [of "ts_year a" "ts_month a"] day [of "ts_year b" "ts_month b"]
    by (auto simp: valid_timestamp_def valid_date_def simp del: days_in_month.simps)
  show ?thesis
    using a b lt
    by (simp add: isoformat_def is_utc_def ts_less_def append_less_append two
        pad_digits_less pad_digits_eq micro_text_less valid_timestamp_def)
qed

lemma ts_less_local_micros:
  assumes v: "valid_timestamp a" "valid_timestamp b" and less: "ts_less a b"
  shows "local_micros a < local_micros b"
proof (cases "(ts_year a, ts_month a, ts_day a) = (ts_year b, ts_month b, ts_day b)")
  case True
  with v less show ?thesis
    by (auto simp: ts_less_def local_micros_def valid_timestamp_def)
next
  case False
  with v less have "ymd2ord (ts_year a) (ts_month a) (ts_day a)
      < ymd2ord (ts_year b) (ts_month b) (ts_day b)"
    by (intro ymd2ord_less) (auto simp: ts_less_def valid_timestamp_def)
  with v show ?thesis by (auto simp: local_micros_def valid_timestamp_def)
qed

lemma ts_less_total: "ts_less a b \<or> ts_less b a \<or> local_micros a = local_micros b"
  unfolding ts_less_def local_micros_def by auto

lemma isoformat_less_iff:
  assumes "valid_timestamp a" "is_utc a" "valid_timestamp b" "is_utc b"
  shows "isoformat a < isoformat b \<longleftrightarrow> instant a < instant b"
  using assms ts_less_total [of a b] ts_less_local_micros [of a b] ts_less_local_micros [of b a]
  by (auto simp: isoformat_less_ts_less instant_def is_utc_def)

lemma isoformat_le_iff:
  assumes "valid_timestamp a" "is_utc a" "valid_timestamp b" "is_utc b"
  shows "isoformat a \<le> isoformat b \<longleftrightarrow> instant a \<le> instant b"
  using isoformat_less_iff [of b a] assms by (auto simp: not_less [symmetric])

section \<open>Conversion to UTC\<close>

text \<open>\<open>date.fromordinal\<close>: the last year, then the last month, that starts before the day.\<close>

function year_from :: "nat \<Rightarrow> nat \<Rightarrow> nat" where
  "year_from y n = (if days_before_year (Suc y) < n \<and> y < n then year_from (Suc y) n else y)"
  by pat_completeness auto
termination
  by (relation "measure (\<lambda>(y, n). n - y)") auto

function month_from :: "nat \<Rightarrow> nat \<Rightarrow> nat \<Rightarrow> nat" where
  "month_from y m n =
     (if m < 12 \<and> days_before_month y (Suc m) < n then month_from y (Suc m) n else m)"
  by pat_completeness auto
termination
  by (relation "measure (\<lambda>(y, m, n). 12 - m)") auto

declare year_from.simps [simp del] month_from.simps [simp del]

definition ord2ymd :: "nat \<Rightarrow> nat \<times> nat \<times> nat" where
  "ord2ymd n =
     (let y = year_from (max 1 ((n - 1) div 366)) n;
          r = n - days_before_year y;
          m = month_from y 1 r
      in (y, m, r - days_before_month y m))"

definition max_ordinal :: nat where
  "max_ordinal = 3652059"

text \<open>A UTC timestamp from microseconds; outside years 1 to 9999 the conversion raises.\<close>

definition utc_of_instant :: "int \<Rightarrow> timestamp res" where
  "utc_of_instant us =
     (let days = us div 86400000000; r = nat (us mod 86400000000)
      in if days < 1 \<or> int max_ordinal < days
         then Inl (PyExn ''OverflowError'' ''date value out of range'')
         else let (y, m, d) = ord2ymd (nat days) in
           Inr \<lparr>ts_year = y, ts_month = m, ts_day = d, ts_hour = r div 3600000000,
                ts_minute = r div 60000000 mod 60, ts_second = r div 1000000 mod 60,
                ts_micro = r mod 1000000, ts_offset = Some 0\<rparr>)"

definition astimezone_utc :: "timestamp \<Rightarrow> timestamp res" where
  "astimezone_utc t = (if is_utc t then Inr t else utc_of_instant (instant t))"

section \<open>The conversion is exact\<close>

lemma days_before_year_lower: "1 \<le> y \<Longrightarrow> y \<le> days_before_year (Suc y)"
proof -
  assume "1 \<le> y"
  have "y div 100 \<le> y div 4" by (simp add: div_le_mono2)
  then show ?thesis by (simp add: days_before_year_def)
qed

lemma days_before_year_upper: "days_before_year y \<le> (y - 1) * 366"
proof -
  define x where "x = y - 1"
  have "x div 400 \<le> x div 100" by (simp add: div_le_mono2)
  moreover have "x div 4 \<le> x" by (rule div_le_dividend)
  ultimately show ?thesis unfolding days_before_year_def x_def [symmetric] by linarith
qed

lemma year_from_spec:
  assumes "1 \<le> y" "days_before_year y < n"
  shows "1 \<le> year_from y n" "days_before_year (year_from y n) < n"
    "n \<le> days_before_year (Suc (year_from y n))"
proof -
  have "1 \<le> year_from y n \<and> days_before_year (year_from y n) < n
      \<and> n \<le> days_before_year (Suc (year_from y n))"
    using assms
  proof (induction y n rule: year_from.induct)
    case (1 y n)
    show ?case
    proof (cases "days_before_year (Suc y) < n \<and> y < n")
      case True
      with 1 show ?thesis by (simp add: year_from.simps [of y n])
    next
      case False
      with 1 days_before_year_lower [of y] show ?thesis
        by (auto simp: year_from.simps [of y n])
    qed
  qed
  then show "1 \<le> year_from y n" "days_before_year (year_from y n) < n"
    "n \<le> days_before_year (Suc (year_from y n))" by simp_all
qed

lemma month_from_spec:
  assumes "1 \<le> m" "m \<le> 12" "days_before_month y m < r"
  shows "1 \<le> month_from y m r \<and> month_from y m r \<le> 12 \<and> days_before_month y (month_from y m r) < r
    \<and> (month_from y m r < 12 \<longrightarrow> r \<le> days_before_month y (Suc (month_from y m r)))"
  using assms
proof (induction y m r rule: month_from.induct)
  case (1 y m r)
  show ?case
  proof (cases "m < 12 \<and> days_before_month y (Suc m) < r")
    case True
    with 1 show ?thesis by (simp add: month_from.simps [of y m r])
  next
    case False
    with 1 show ?thesis by (auto simp: month_from.simps [of y m r])
  qed
qed

lemma month_length:
  assumes "1 \<le> m" "m \<le> 12" "r \<le> days_before_month y 13"
    and "m < 12 \<longrightarrow> r \<le> days_before_month y (Suc m)"
  shows "r \<le> days_before_month y m + days_in_month y m"
proof -
  from assms(1) obtain k where m: "m = Suc k" by (cases m) auto
  have "days_before_month y (Suc m) = days_before_month y m + days_in_month y m"
    by (simp add: m del: days_in_month.simps)
  moreover have "r \<le> days_before_month y (Suc m)"
  proof (cases "m < 12")
    case False
    with assms have "Suc m = 13" by simp
    with assms(3) show ?thesis by simp
  qed (use assms in simp)
  ultimately show ?thesis by simp
qed

lemma year_from_start:
  assumes "1 \<le> n"
  shows "days_before_year (max 1 ((n - 1) div 366)) < n"
proof (cases "(n - 1) div 366 \<le> 1")
  case True
  with assms show ?thesis by (simp add: days_before_year_def max_def)
next
  case False
  have "(n - 1) div 366 * 366 \<le> n - 1" by (rule div_times_less_eq_dividend)
  with days_before_year_upper [of "(n - 1) div 366"] False assms show ?thesis
    by (simp add: max_def)
qed

lemma year_at_most_9999:
  assumes "days_before_year y < n" "n \<le> max_ordinal"
  shows "y \<le> 9999"
proof (rule ccontr)
  assume "\<not> y \<le> 9999"
  then have "days_before_year 10000 \<le> days_before_year y" by (intro days_before_year_mono) auto
  moreover have "days_before_year 10000 = max_ordinal"
    by (simp add: days_before_year_def max_ordinal_def)
  ultimately show False using assms by simp
qed

lemma ord2ymd_exact:
  assumes n: "1 \<le> n" "n \<le> max_ordinal" and ymd: "ord2ymd n = (y, m, d)"
  shows "ymd2ord y m d = n" "valid_date y m d"
proof -
  define r where "r = n - days_before_year y"
  have y: "y = year_from (max 1 ((n - 1) div 366)) n" and m: "m = month_from y 1 r"
    and d: "d = r - days_before_month y m"
    using ymd unfolding ord2ymd_def Let_def prod.inject r_def by blast+
  have Y: "1 \<le> y" "days_before_year y < n" "n \<le> days_before_year (Suc y)"
    unfolding y using year_from_spec [OF max.cobounded1 year_from_start [OF n(1)]] by blast+
  have R: "0 < r" "r \<le> days_before_month y 13"
    using Y days_before_year_Suc [OF Y(1)] unfolding r_def days_before_month_13 by auto
  have "days_before_month y 1 < r" using R(1) by simp
  from month_from_spec [OF _ _ this] have M: "1 \<le> m" "m \<le> 12" "days_before_month y m < r"
    "m < 12 \<longrightarrow> r \<le> days_before_month y (Suc m)" unfolding m by auto
  from Y M show "ymd2ord y m d = n" by (simp add: d r_def ymd2ord_def)
  from month_length [OF M(1,2) R(2) M(4)] M year_at_most_9999 [OF Y(2) n(2)] Y
  show "valid_date y m d" by (auto simp: d valid_date_def simp del: days_in_month.simps)
qed

lemma utc_of_instant_exact:
  assumes "utc_of_instant us = Inr t"
  shows "valid_timestamp t" "is_utc t" "instant t = us"
proof -
  let ?days = "us div 86400000000" and ?r = "nat (us mod 86400000000)"
  obtain y m d where ymd: "ord2ymd (nat ?days) = (y, m, d)" by (cases "ord2ymd (nat ?days)")
  have range: "1 \<le> ?days" "?days \<le> int max_ordinal"
    using assms by (auto simp: utc_of_instant_def Let_def split: if_splits)
  have t: "t = \<lparr>ts_year = y, ts_month = m, ts_day = d, ts_hour = ?r div 3600000000,
      ts_minute = ?r div 60000000 mod 60, ts_second = ?r div 1000000 mod 60,
      ts_micro = ?r mod 1000000, ts_offset = Some 0\<rparr>"
    using assms ymd range by (simp add: utc_of_instant_def Let_def)
  have n: "1 \<le> nat ?days" "nat ?days \<le> max_ordinal" using range by auto
  note date = ord2ymd_exact [OF n ymd]
  have r: "?r < 86400000000" by (simp add: nat_less_iff)
  then have "?r div 3600000000 < 24" by (simp add: less_mult_imp_div_less)
  with date show "valid_timestamp t" "is_utc t" by (simp_all add: t valid_timestamp_def is_utc_def)
  define r where "r = ?r"
  have h: "r div 3600000000 = r div 60000000 div 60"
    and mi: "r div 60000000 = r div 1000000 div 60"
    by (simp_all flip: div_mult2_eq)
  have split: "((r div 3600000000 * 60 + r div 60000000 mod 60) * 60 + r div 1000000 mod 60)
      * 1000000 + r mod 1000000 = r"
    unfolding h by (simp only: mi div_mult_mod_eq)
  have "instant t = ?days * 86400000000 + int (((r div 3600000000 * 60 + r div 60000000 mod 60)
      * 60 + r div 1000000 mod 60) * 1000000 + r mod 1000000)"
    using date range
    by (simp add: t instant_def local_micros_def r_def [symmetric] del: of_nat_div of_nat_mod)
  also have "\<dots> = us" unfolding split by (simp add: r_def)
  finally show "instant t = us" .
qed

lemma astimezone_utc_exact:
  assumes "astimezone_utc t = Inr u" "valid_timestamp t"
  shows "valid_timestamp u \<and> is_utc u \<and> instant u = instant t"
  using assms utc_of_instant_exact [of "instant t" u]
  by (auto simp: astimezone_utc_def split: if_splits)

end
