(* ===== verification/Faults.thy ===== *)
theory Faults
  imports PyValue PyTime
begin

text \<open>
  Structured faults (\<open>kernel/errors.py\<close>): \<open>AgentFault\<close>, the collecting sink, and the
  fault boundary that turns a raised exception into a recorded fault, re-raised or not.
\<close>

datatype severity = Info | Warning | Error | Critical

fun severity_text :: "severity \<Rightarrow> string" where
  "severity_text Info = ''info''"
| "severity_text Warning = ''warning''"
| "severity_text Error = ''error''"
| "severity_text Critical = ''critical''"

record agent_fault =
  flt_occurred_at :: timestamp
  flt_agent :: string
  flt_module :: string
  flt_capability :: "string option"
  flt_severity :: severity
  flt_error_type :: string
  flt_message :: string
  flt_correlation_id :: "string option"
  flt_context :: props

text \<open>\<open>CollectingFaultSink.submit\<close>: append to the list of faults.\<close>

definition collect_fault :: "agent_fault list \<Rightarrow> agent_fault \<Rightarrow> agent_fault list" where
  "collect_fault faults f = faults @ [f]"

definition fault_from_exception ::
  "timestamp \<Rightarrow> string \<Rightarrow> string \<Rightarrow> string option \<Rightarrow> severity \<Rightarrow> string option \<Rightarrow> props \<Rightarrow> py_exn
     \<Rightarrow> agent_fault" where
  "fault_from_exception now agent modul capability sev correlation context e =
     \<lparr>flt_occurred_at = now, flt_agent = agent, flt_module = modul,
      flt_capability = capability, flt_severity = sev, flt_error_type = exn_type e,
      flt_message = exn_text e, flt_correlation_id = correlation, flt_context = context\<rparr>"

text \<open>
  \<open>fault_boundary\<close> around a block that ended in \<open>r\<close>: the sink afterwards and what was
  captured.  With \<open>reraise\<close> the caller sees the exception again, that is, goes on with
  \<open>r\<close> itself; without it the caller goes on and reads the capture.
\<close>

fun fault_boundary ::
  "('k \<Rightarrow> agent_fault \<Rightarrow> 'k) \<Rightarrow> timestamp \<Rightarrow> string \<Rightarrow> string \<Rightarrow> string option \<Rightarrow> 'k \<Rightarrow> 'a res
     \<Rightarrow> 'k \<times> agent_fault option" where
  "fault_boundary submit now agent modul capability sink (Inr x) = (sink, None)"
| "fault_boundary submit now agent modul capability sink (Inl e) =
     (let f = fault_from_exception now agent modul capability Error None [] e
      in (submit sink f, Some f))"

lemma fault_boundary_captures:
  "snd (fault_boundary submit now agent modul capability sink r) = None \<longleftrightarrow> (\<exists>x. r = Inr x)"
  by (cases r) (auto simp: Let_def)

lemma fault_boundary_records:
  "fst (fault_boundary collect_fault now agent modul capability sink r) =
     sink @ (case r of Inr _ \<Rightarrow> []
             | Inl e \<Rightarrow> [fault_from_exception now agent modul capability Error None [] e])"
  by (cases r) (auto simp: Let_def collect_fault_def)

end
