(* ===== verification/GraphStore.thy ===== *)
theory GraphStore
  imports Faults
begin

text \<open>
  The append-only graph store (\<open>kernel/graph.py\<close>, \<open>kernel/graph_support.py\<close>,
  \<open>kernel/graph_memory.py\<close>): nodes identified by label and key, whose properties may be
  extended but never overwritten, and directed typed edges between existing nodes.

  Operations take the store and return the store afterwards with the result or the
  exception; an exception leaves a fault in the store's sink.
\<close>

section \<open>Nodes, edges and the store\<close>

type_synonym node_key = "string \<times> string"

record gnode =
  gn_label :: string
  gn_key :: string
  gn_props :: props
  gn_version :: int

record gedge =
  ge_parent :: node_key
  ge_child :: node_key
  ge_type :: string
  ge_props :: props

record store =
  st_nodes :: "(node_key, gnode) dict"
  st_edges :: "gedge list"
  st_faults :: "agent_fault list"

definition empty_store :: store where
  "empty_store = \<lparr>st_nodes = [], st_edges = [], st_faults = []\<rparr>"

text \<open>\<open>Node(...)\<close> and \<open>Edge(...)\<close> freeze their properties on construction.\<close>

definition make_node :: "string \<Rightarrow> string \<Rightarrow> props \<Rightarrow> int \<Rightarrow> gnode" where
  "make_node label key p version =
     \<lparr>gn_label = label, gn_key = key, gn_props = frozen_props p, gn_version = version\<rparr>"

definition make_edge :: "node_key \<Rightarrow> node_key \<Rightarrow> string \<Rightarrow> props \<Rightarrow> gedge" where
  "make_edge parent child edge_type p =
     \<lparr>ge_parent = parent, ge_child = child, ge_type = edge_type, ge_props = frozen_props p\<rparr>"

definition node_key_of :: "gnode \<Rightarrow> node_key" where
  "node_key_of n = (gn_label n, gn_key n)"

definition edge_key_of :: "gedge \<Rightarrow> node_key \<times> node_key \<times> string" where
  "edge_key_of e = (ge_parent e, ge_child e, ge_type e)"

lemma make_node_simps [simp]:
  "gn_label (make_node l k p v) = l" "gn_key (make_node l k p v) = k"
  "gn_props (make_node l k p v) = frozen_props p" "gn_version (make_node l k p v) = v"
  "node_key_of (make_node l k p v) = (l, k)"
  by (simp_all add: make_node_def node_key_of_def)

section \<open>Appending properties\<close>

definition partial_completion_props :: "string list" where
  "partial_completion_props =
     [''broker_status'', ''broker_price_cents'', ''broker_status_refreshed_at'',
      ''realized_pnl_cents'']"

definition is_partial_completion :: "props \<Rightarrow> props \<Rightarrow> string \<Rightarrow> bool" where
  "is_partial_completion existing new name \<longleftrightarrow>
     name \<in> set partial_completion_props
     \<and> prop_is existing ''broker_status'' ''partial''
     \<and> prop_is new ''broker_status'' ''filled''"

fun append_props_loop :: "props \<Rightarrow> props \<Rightarrow> props \<Rightarrow> props \<Rightarrow> props res" where
  "append_props_loop existing new [] merged = Inr merged"
| "append_props_loop existing new ((name, v) # rest) merged =
     (let frozen = frozen_value v in
      if (case dict_get merged name of None \<Rightarrow> False
          | Some old \<Rightarrow> \<not> py_eq (frozen_value old) frozen)
         \<and> \<not> is_partial_completion existing new name
      then Inl (ValueError (''property '' @ repr_str name @ '' cannot be overwritten''))
      else append_props_loop existing new rest (dict_set name frozen merged))"

definition append_props :: "props \<Rightarrow> props \<Rightarrow> props res" where
  "append_props existing new = append_props_loop existing new new existing"

section \<open>Writing\<close>

definition merge_core ::
  "(node_key, gnode) dict \<Rightarrow> string \<Rightarrow> string \<Rightarrow> props \<Rightarrow> int
     \<Rightarrow> ((node_key, gnode) dict \<times> gnode) res" where
  "merge_core nodes label key p version =
     (if version < 1 then Inl (ValueError ''schema_version must be positive'')
      else case dict_get nodes (label, key) of
        None \<Rightarrow> let n = make_node label key p version in Inr (dict_set (label, key) n nodes, n)
      | Some current \<Rightarrow>
          (if gn_version current \<noteq> version
           then Inl (ValueError ''schema_version cannot change for an existing node'')
           else case append_props (gn_props current) p of
             Inl e \<Rightarrow> Inl e
           | Inr merged \<Rightarrow>
               (let n = make_node label key merged version
                in Inr (dict_set (label, key) n nodes, n))))"

text \<open>The store with the faults a boundary recorded around a block that ended in \<open>r\<close>.\<close>

definition guarded_faults :: "timestamp \<Rightarrow> 'a res \<Rightarrow> store \<Rightarrow> store" where
  "guarded_faults now r s =
     s\<lparr>st_faults :=
         fst (fault_boundary collect_fault now ''kernel'' ''kernel.graph'' None (st_faults s) r)\<rparr>"

definition merge_node ::
  "timestamp \<Rightarrow> store \<Rightarrow> string \<Rightarrow> string \<Rightarrow> props \<Rightarrow> int \<Rightarrow> store \<times> gnode res" where
  "merge_node now s label key p version =
     (case merge_core (st_nodes s) label key p version of
        Inl e \<Rightarrow> (guarded_faults now (Inl e :: gnode res) s, Inl e)
      | Inr (nodes, n) \<Rightarrow> (s\<lparr>st_nodes := nodes\<rparr>, Inr n))"

definition require_node :: "(node_key, gnode) dict \<Rightarrow> gnode \<Rightarrow> unit res" where
  "require_node nodes n =
     (if dict_get nodes (node_key_of n) = None
      then Inl (KeyError (''missing graph node '' @ gn_label n @ ''.'' @ gn_key n))
      else Inr ())"

definition add_edge_core ::
  "store \<Rightarrow> gnode \<Rightarrow> gnode \<Rightarrow> string \<Rightarrow> props option \<Rightarrow> (gedge list) res" where
  "add_edge_core s parent child edge_type p =
     res_bind (require_node (st_nodes s) parent) (\<lambda>_.
     res_bind (require_node (st_nodes s) child) (\<lambda>_.
       let e = make_edge (node_key_of parent) (node_key_of child) edge_type
                 (case p of None \<Rightarrow> [] | Some q \<Rightarrow> q)
       in Inr (if list_all (\<lambda>current. edge_key_of current \<noteq> edge_key_of e) (st_edges s)
               then st_edges s @ [e] else st_edges s)))"

definition add_edge ::
  "timestamp \<Rightarrow> store \<Rightarrow> gnode \<Rightarrow> gnode \<Rightarrow> string \<Rightarrow> props option \<Rightarrow> store \<times> unit res" where
  "add_edge now s parent child edge_type p =
     (case add_edge_core s parent child edge_type p of
        Inl e \<Rightarrow> (guarded_faults now (Inl e :: unit res) s, Inl e)
      | Inr edges \<Rightarrow> (s\<lparr>st_edges := edges\<rparr>, Inr ()))"

section \<open>Reading\<close>

definition get_node :: "store \<Rightarrow> string \<Rightarrow> string \<Rightarrow> gnode option" where
  "get_node s label key = dict_get (st_nodes s) (label, key)"

definition list_nodes :: "store \<Rightarrow> string \<Rightarrow> gnode list" where
  "list_nodes s label = filter (\<lambda>n. gn_label n = label) (dict_values (st_nodes s))"

definition created_at_bound :: "timestamp \<Rightarrow> string res" where
  "created_at_bound t =
     (if ts_offset t = None then Inl (ValueError ''created_at_from must be timezone-aware'')
      else res_bind (astimezone_utc t) (\<lambda>u. Inr (isoformat u)))"

definition created_at_on_or_after :: "props \<Rightarrow> string option \<Rightarrow> bool" where
  "created_at_on_or_after p bound =
     (case bound of
        None \<Rightarrow> True
      | Some b \<Rightarrow> (case dict_get p ''created_at'' of Some (PStr c) \<Rightarrow> b \<le> c | _ \<Rightarrow> False))"

definition linked_keys :: "gedge list \<Rightarrow> string \<Rightarrow> bool \<Rightarrow> node_key list" where
  "linked_keys edges edge_type downstream =
     map (\<lambda>e. if downstream then ge_parent e else ge_child e)
       (filter (\<lambda>e. ge_type e = edge_type) edges)"

definition keys_without_edge_core ::
  "store \<Rightarrow> string \<Rightarrow> string \<Rightarrow> bool \<Rightarrow> string option \<Rightarrow> string list" where
  "keys_without_edge_core s label edge_type downstream bound =
     (let linked = linked_keys (st_edges s) edge_type downstream
      in map (\<lambda>(k, n). gn_key n)
           (filter (\<lambda>(k, n). gn_label n = label \<and> k \<notin> set linked
                     \<and> created_at_on_or_after (gn_props n) bound) (st_nodes s)))"

definition keys_without_edge ::
  "timestamp \<Rightarrow> store \<Rightarrow> string \<Rightarrow> string \<Rightarrow> bool \<Rightarrow> timestamp option
     \<Rightarrow> store \<times> (string list) res" where
  "keys_without_edge now s label edge_type downstream created_at_from =
     (let bound = (case created_at_from of None \<Rightarrow> Inr None
                   | Some t \<Rightarrow> (case created_at_bound t of Inl e \<Rightarrow> Inl e | Inr b \<Rightarrow> Inr (Some b)));
          r = res_bind bound (\<lambda>b. Inr (keys_without_edge_core s label edge_type downstream b))
      in (guarded_faults now r s, r))"

definition edge_allowed :: "gedge \<Rightarrow> string list option \<Rightarrow> bool" where
  "edge_allowed e types = (case types of None \<Rightarrow> True | Some ts \<Rightarrow> ge_type e \<in> set ts)"

section \<open>The well-formed store\<close>

definition node_wf :: "node_key \<Rightarrow> gnode \<Rightarrow> bool" where
  "node_wf k n \<longleftrightarrow> node_key_of n = k \<and> dict_wf (gn_props n) \<and> props_frozen (gn_props n)
     \<and> 1 \<le> gn_version n"

definition node_keys :: "(node_key, gnode) dict \<Rightarrow> node_key set" where
  "node_keys nodes = set (dict_keys nodes)"

definition store_wf :: "store \<Rightarrow> bool" where
  "store_wf s \<longleftrightarrow>
     dict_wf (st_nodes s)
     \<and> (\<forall>(k, n) \<in> set (st_nodes s). node_wf k n)
     \<and> (\<forall>e \<in> set (st_edges s).
          ge_parent e \<in> node_keys (st_nodes s) \<and> ge_child e \<in> node_keys (st_nodes s))
     \<and> distinct (map edge_key_of (st_edges s))"

lemma store_wf_empty [simp]: "store_wf empty_store"
  by (simp add: store_wf_def empty_store_def)

lemma store_wf_faults [simp]: "store_wf (s\<lparr>st_faults := f\<rparr>) = store_wf s"
  by (simp add: store_wf_def)

lemma store_wf_node: "store_wf s \<Longrightarrow> dict_get (st_nodes s) k = Some n \<Longrightarrow> node_wf k n"
  by (auto simp: store_wf_def dict_get_Some_iff)

lemma guarded_faults_frame [simp]:
  "st_nodes (guarded_faults now r s) = st_nodes s"
  "st_edges (guarded_faults now r s) = st_edges s"
  "store_wf (guarded_faults now r s) = store_wf s"
  "get_node (guarded_faults now r s) = get_node s"
  "list_nodes (guarded_faults now r s) = list_nodes s"
  by (simp_all add: guarded_faults_def get_node_def list_nodes_def fun_eq_iff)

lemma guarded_faults_Inr [simp]: "guarded_faults now (Inr x) s = s"
  by (simp add: guarded_faults_def)

end
