(* ===== verification/GraphHistory.thy ===== *)
theory GraphHistory
  imports GraphStore
begin

text \<open>
  What the graph store promises its writers: well-formedness is kept by every operation,
  a write is idempotent, and along any history of operations no node, no edge and no
  property is lost, and no property changes its value, with one exception: a node whose
  \<open>broker_status\<close> goes from \<open>partial\<close> (or from absent) to a settled one may complete the
  four broker properties, once.
\<close>

section \<open>Appending\<close>

lemma append_loop_get:
  assumes "append_props_loop existing new items merged = Inr p" and "dict_get merged name = Some v"
  shows "\<exists>w. dict_get p name = Some w
      \<and> (py_eq (frozen_value v) (frozen_value w) \<or> is_partial_completion existing new name)"
  using assms
proof (induction items arbitrary: merged v)
  case Nil
  then show ?case by auto
next
  case (Cons item rest)
  obtain k x where item: "item = (k, x)" by (cases item)
  let ?m = "dict_set k (frozen_value x) merged"
  have loop: "append_props_loop existing new rest ?m = Inr p"
    using Cons.prems(1) by (auto simp: item Let_def split: if_splits)
  show ?case
  proof (cases "name = k")
    case False
    then show ?thesis using Cons.IH [OF loop] Cons.prems(2) by (simp add: dict_simps)
  next
    case True
    then obtain w where w: "dict_get p name = Some w"
      "py_eq (frozen_value x) (frozen_value w) \<or> is_partial_completion existing new name"
      using Cons.IH [OF loop, of "frozen_value x"] by (auto simp: dict_simps)
    have "py_eq (frozen_value v) (frozen_value x) \<or> is_partial_completion existing new name"
      using Cons.prems True by (auto simp: item Let_def split: if_splits)
    with w show ?thesis by (blast intro: py_eq_trans)
  qed
qed

lemma append_loop_wf:
  assumes "append_props_loop existing new items merged = Inr p"
  shows "(dict_wf merged \<longrightarrow> dict_wf p) \<and> (props_frozen merged \<longrightarrow> props_frozen p)"
  using assms
proof (induction items arbitrary: merged)
  case (Cons item rest)
  obtain k x where item: "item = (k, x)" by (cases item)
  have "append_props_loop existing new rest (dict_set k (frozen_value x) merged) = Inr p"
    using Cons.prems by (auto simp: item Let_def split: if_splits)
  from Cons.IH [OF this] show ?case
    by (auto intro: props_frozen_set frozen_value_immutable)
qed simp

text \<open>Every property of the write ends up in the node with its frozen value.\<close>

lemma append_loop_written:
  assumes "append_props_loop existing new items merged = Inr p" and "dict_wf items"
  shows "dict_get p name =
      (case dict_get items name of Some v \<Rightarrow> Some (frozen_value v) | None \<Rightarrow> dict_get merged name)"
  using assms
proof (induction items arbitrary: merged)
  case (Cons item rest)
  obtain k x where item: "item = (k, x)" by (cases item)
  have loop: "append_props_loop existing new rest (dict_set k (frozen_value x) merged) = Inr p"
    using Cons.prems(1) by (auto simp: item Let_def split: if_splits)
  have "dict_wf rest" "dict_get rest k = None"
    using Cons.prems(2) by (auto simp: item dict_wf_Cons dict_get_None_iff)
  with Cons.IH [OF loop] show ?case by (auto simp: item dict_simps split: option.splits)
qed simp

text \<open>Appending what is there already succeeds and changes nothing.\<close>

lemma append_loop_same:
  assumes "\<And>k v. (k, v) \<in> set items \<Longrightarrow> dict_get merged k = Some (frozen_value v)"
  shows "append_props_loop existing new items merged = Inr merged"
  using assms
proof (induction items)
  case (Cons item rest)
  obtain k x where item: "item = (k, x)" by (cases item)
  have get: "dict_get merged k = Some (frozen_value x)" using Cons.prems by (simp add: item)
  have "append_props_loop existing new rest merged = Inr merged" using Cons by simp
  with get show ?case by (simp add: item Let_def dict_set_idem)
qed simp

section \<open>Well-formedness\<close>

lemma merge_core_wf:
  assumes "merge_core nodes label key p version = Inr (nodes', n)"
    and "dict_wf nodes" "\<forall>(k, n) \<in> set nodes. node_wf k n" "dict_wf p"
  shows "dict_wf nodes' \<and> (\<forall>(k, n) \<in> set nodes'. node_wf k n)
    \<and> node_keys nodes' = insert (label, key) (node_keys nodes)
    \<and> dict_get nodes' (label, key) = Some n
    \<and> (\<forall>k. k \<noteq> (label, key) \<longrightarrow> dict_get nodes' k = dict_get nodes k)"
proof -
  have nodes': "nodes' = dict_set (label, key) n nodes" and n: "node_wf (label, key) n"
  proof -
    show "nodes' = dict_set (label, key) n nodes"
      using assms(1) by (auto simp: merge_core_def Let_def split: if_splits option.splits sum.splits)
    show "node_wf (label, key) n"
    proof (cases "dict_get nodes (label, key)")
      case None
      with assms show ?thesis
        by (auto simp: merge_core_def node_wf_def Let_def split: if_splits)
    next
      case (Some current)
      then have "node_wf (label, key) current"
        using assms(2,3) by (auto simp: dict_get_Some_iff)
      with assms(1) Some show ?thesis
        by (auto simp: merge_core_def node_wf_def append_props_def Let_def
            dest!: append_loop_wf split: if_splits sum.splits)
    qed
  qed
  have "\<forall>(k, m) \<in> set nodes'. node_wf k m"
    using assms(3) n by (auto simp: nodes' dest: dict_set_entry)
  then show ?thesis
    using assms(2) by (auto simp: nodes' node_keys_def dict_keys_set dict_simps)
qed

lemma merge_node_wf:
  assumes "store_wf s" "dict_wf p"
  shows "store_wf (fst (merge_node now s label key p version))"
proof (cases "merge_core (st_nodes s) label key p version")
  case (Inl e)
  with assms show ?thesis by (simp add: merge_node_def)
next
  case (Inr r)
  obtain nodes' n where r: "r = (nodes', n)" by (cases r)
  have "dict_wf (st_nodes s)" "\<forall>(k, n) \<in> set (st_nodes s). node_wf k n"
    using assms by (simp_all add: store_wf_def)
  from merge_core_wf [OF Inr [unfolded r] this assms(2)] assms(1) show ?thesis
    by (auto simp: merge_node_def Inr r store_wf_def)
qed

lemma require_node_ok: "require_node nodes n = Inr u \<longleftrightarrow> node_key_of n \<in> node_keys nodes"
  by (auto simp: require_node_def dict_get_None_iff node_keys_def)

lemma make_edge_simps [simp]:
  "edge_key_of (make_edge a b t p) = (a, b, t)"
  "ge_parent (make_edge a b t p) = a" "ge_child (make_edge a b t p) = b"
  "ge_type (make_edge a b t p) = t"
  by (simp_all add: make_edge_def edge_key_of_def)

lemma add_edge_core_cases:
  assumes "add_edge_core s a b t p = Inr es"
  shows "node_key_of a \<in> node_keys (st_nodes s) \<and> node_key_of b \<in> node_keys (st_nodes s)
    \<and> (es = st_edges s \<and> (node_key_of a, node_key_of b, t) \<in> edge_key_of ` set (st_edges s)
       \<or> (\<exists>e. es = st_edges s @ [e] \<and> edge_key_of e = (node_key_of a, node_key_of b, t)
            \<and> (node_key_of a, node_key_of b, t) \<notin> edge_key_of ` set (st_edges s)))"
  using assms
  by (auto simp: add_edge_core_def res_bind_Inr_iff require_node_ok Let_def list_all_iff
      split: if_splits) (force simp: image_iff)+

lemma add_edge_wf:
  assumes "store_wf s"
  shows "store_wf (fst (add_edge now s a b t p))"
proof (cases "add_edge_core s a b t p")
  case (Inl e)
  with assms show ?thesis by (simp add: add_edge_def)
next
  case (Inr es)
  from add_edge_core_cases [OF Inr] assms show ?thesis
    by (auto simp: add_edge_def Inr store_wf_def edge_key_of_def)
qed


section \<open>Histories\<close>

text \<open>A write request; the clock reading stamps a fault if the write fails.\<close>

datatype graph_write =
    MergeNode timestamp string string props int
  | AddEdge timestamp gnode gnode string "props option"

fun apply_write :: "store \<Rightarrow> graph_write \<Rightarrow> store" where
  "apply_write s (MergeNode now label key p version) = fst (merge_node now s label key p version)"
| "apply_write s (AddEdge now a b t p) = fst (add_edge now s a b t p)"

definition apply_writes :: "store \<Rightarrow> graph_write list \<Rightarrow> store" where
  "apply_writes s ws = fold (\<lambda>w s. apply_write s w) ws s"

fun write_ok :: "graph_write \<Rightarrow> bool" where
  "write_ok (MergeNode now label key p version) = dict_wf p"
| "write_ok (AddEdge now a b t p) = True"

lemma apply_writes_simps [simp]:
  "apply_writes s [] = s" "apply_writes s (w # ws) = apply_writes (apply_write s w) ws"
  by (simp_all add: apply_writes_def)

lemma apply_writes_wf:
  "store_wf s \<Longrightarrow> list_all write_ok ws \<Longrightarrow> store_wf (apply_writes s ws)"
proof (induction ws arbitrary: s)
  case (Cons w ws)
  then have "store_wf (apply_write s w)" by (cases w) (auto intro: merge_node_wf add_edge_wf)
  with Cons show ?case by simp
qed simp

text \<open>
  A node is settled when it records a \<open>broker_status\<close> other than \<open>partial\<close>.  \<open>keeps n n'\<close>:
  \<open>n'\<close> is \<open>n\<close> later on.
\<close>

definition settled :: "gnode \<Rightarrow> bool" where
  "settled n \<longleftrightarrow> (case dict_get (gn_props n) ''broker_status'' of
     None \<Rightarrow> False | Some v \<Rightarrow> v \<noteq> PStr ''partial'')"

definition keeps :: "gnode \<Rightarrow> gnode \<Rightarrow> bool" where
  "keeps n n' \<longleftrightarrow>
     gn_version n' = gn_version n
     \<and> (\<forall>name v. dict_get (gn_props n) name = Some v \<longrightarrow>
          (\<exists>w. dict_get (gn_props n') name = Some w
             \<and> (py_eq v w
                \<or> name \<in> set partial_completion_props \<and> \<not> settled n \<and> settled n')))"

lemma keeps_refl [simp, intro]: "keeps n n"
  by (auto simp: keeps_def)

lemma keeps_get:
  assumes "keeps n n'" "dict_get (gn_props n) name = Some v"
  obtains w where "dict_get (gn_props n') name = Some w"
    "py_eq v w \<or> name \<in> set partial_completion_props \<and> \<not> settled n \<and> settled n'"
  using assms by (auto simp: keeps_def)

lemma keeps_settled:
  assumes "keeps n n'" "settled n"
  shows "settled n'"
proof -
  obtain v where v: "dict_get (gn_props n) ''broker_status'' = Some v" "v \<noteq> PStr ''partial''"
    using assms(2) by (auto simp: settled_def split: option.splits)
  obtain w where w: "dict_get (gn_props n') ''broker_status'' = Some w" "py_eq v w"
    using keeps_get [OF assms(1) v(1)] assms(2) by blast
  have "w \<noteq> PStr ''partial''" using v w(2) by (metis py_eq_PStr py_eq_sym)
  with w(1) show ?thesis by (simp add: settled_def)
qed

lemma keeps_trans [trans]:
  assumes a: "keeps n n'" and b: "keeps n' n''"
  shows "keeps n n''"
  unfolding keeps_def
proof (intro conjI allI impI)
  show "gn_version n'' = gn_version n" using a b by (simp add: keeps_def)
  fix name v
  assume "dict_get (gn_props n) name = Some v"
  from keeps_get [OF a this] obtain w where w: "dict_get (gn_props n') name = Some w"
    "py_eq v w \<or> name \<in> set partial_completion_props \<and> \<not> settled n \<and> settled n'" .
  from keeps_get [OF b w(1)] obtain u where u: "dict_get (gn_props n'') name = Some u"
    "py_eq w u \<or> name \<in> set partial_completion_props \<and> \<not> settled n' \<and> settled n''" .
  from w(2) u(2) keeps_settled [OF a] keeps_settled [OF b]
  have "py_eq v u \<or> name \<in> set partial_completion_props \<and> \<not> settled n \<and> settled n''"
    by (blast intro: py_eq_trans)
  with u(1) show "\<exists>w. dict_get (gn_props n'') name = Some w
      \<and> (py_eq v w \<or> name \<in> set partial_completion_props \<and> \<not> settled n \<and> settled n'')"
    by blast
qed

text \<open>One merge: the node it replaces is kept.\<close>

lemma append_props_keeps:
  assumes "append_props (gn_props n) p = Inr merged" "props_frozen (gn_props n)" "dict_wf p"
  shows "keeps n (make_node (gn_label n) (gn_key n) merged (gn_version n))"
proof -
  note loop = assms(1) [unfolded append_props_def]
  have frozen: "frozen_props merged = merged"
    using append_loop_wf [OF loop] assms(2) by (simp add: props_frozen_id)
  have old: "frozen_value v = v" if "dict_get (gn_props n) name = Some v" for name v
    using assms(2) map_of_SomeD [OF that]
    by (auto simp: props_frozen_def list_all_iff intro: immutable_frozen_value)
  have new: "frozen_value w = w" if "dict_get merged name = Some w" for name w
    using frozen_props_get [of merged name] that by (simp add: frozen)
  show ?thesis
    unfolding keeps_def
  proof (intro conjI allI impI)
    fix name v
    assume v: "dict_get (gn_props n) name = Some v"
    from append_loop_get [OF loop v] obtain w where w: "dict_get merged name = Some w"
      "py_eq v w \<or> is_partial_completion (gn_props n) p name"
      using old [OF v] new by force
    have "settled (make_node (gn_label n) (gn_key n) merged (gn_version n)) \<and> \<not> settled n"
      if "is_partial_completion (gn_props n) p name"
      using that append_loop_written [OF loop assms(3), of "''broker_status''"]
      by (auto simp: is_partial_completion_def settled_def prop_is_iff frozen)
    with w show "\<exists>w. dict_get (gn_props (make_node (gn_label n) (gn_key n) merged (gn_version n)))
        name = Some w \<and> (py_eq v w \<or> name \<in> set partial_completion_props \<and> \<not> settled n
        \<and> settled (make_node (gn_label n) (gn_key n) merged (gn_version n)))"
      by (auto simp: frozen is_partial_completion_def)
  qed simp
qed

lemma merge_core_keeps:
  assumes "merge_core nodes label key p version = Inr (nodes', m)"
    and "\<forall>(k, n) \<in> set nodes. node_wf k n" "dict_wf nodes" "dict_wf p"
    and "dict_get nodes k = Some n"
  shows "\<exists>n'. dict_get nodes' k = Some n' \<and> keeps n n'"
proof (cases "k = (label, key)")
  case False
  with assms show ?thesis
    by (auto simp: merge_core_def Let_def dict_simps split: if_splits option.splits sum.splits)
next
  case True
  have wf: "node_wf k n" using assms(2,3,5) by (auto simp: dict_get_Some_iff)
  obtain merged where "append_props (gn_props n) p = Inr merged" "gn_version n = version"
    "nodes' = dict_set (label, key) (make_node label key merged version) nodes"
    using assms(1,5) True
    by (auto simp: merge_core_def Let_def split: if_splits sum.splits)
  with append_props_keeps [of n p merged] wf assms(4) True show ?thesis
    by (auto simp: node_wf_def node_key_of_def dict_simps)
qed

lemma apply_write_keeps:
  assumes "store_wf s" "write_ok w" "dict_get (st_nodes s) k = Some n"
  shows "\<exists>n'. dict_get (st_nodes (apply_write s w)) k = Some n' \<and> keeps n n'"
proof (cases w)
  case (MergeNode now label key p version)
  show ?thesis
  proof (cases "merge_core (st_nodes s) label key p version")
    case (Inl e)
    with assms(3) show ?thesis by (auto simp: MergeNode merge_node_def)
  next
    case (Inr r)
    obtain nodes' m where r: "r = (nodes', m)" by (cases r)
    from merge_core_keeps [OF Inr [unfolded r] _ _ _ assms(3)] assms show ?thesis
      by (simp add: MergeNode merge_node_def Inr r store_wf_def)
  qed
next
  case (AddEdge now a b t p)
  with assms(3) show ?thesis by (auto simp: add_edge_def split: sum.splits)
qed

lemma apply_writes_keeps:
  "store_wf s \<Longrightarrow> list_all write_ok ws \<Longrightarrow> dict_get (st_nodes s) k = Some n \<Longrightarrow>
     \<exists>n'. dict_get (st_nodes (apply_writes s ws)) k = Some n' \<and> keeps n n'"
proof (induction ws arbitrary: s n)
  case (Cons w ws)
  then have "store_wf (apply_write s w)" by (cases w) (auto intro: merge_node_wf add_edge_wf)
  moreover obtain n' where "dict_get (st_nodes (apply_write s w)) k = Some n'" "keeps n n'"
    using apply_write_keeps [of s w k n] Cons.prems by auto
  ultimately show ?case using Cons.IH Cons.prems by (fastforce intro: keeps_trans)
qed auto

lemma apply_write_edges: "\<exists>es. st_edges (apply_write s w) = st_edges s @ es"
proof (cases w)
  case (AddEdge now a b t p)
  then show ?thesis
    by (cases "add_edge_core s a b t p") (auto simp: add_edge_def dest: add_edge_core_cases)
qed (auto simp: merge_node_def split: sum.splits)

lemma apply_writes_edges: "\<exists>es. st_edges (apply_writes s ws) = st_edges s @ es"
proof (induction ws arbitrary: s)
  case (Cons w ws)
  obtain es where "st_edges (apply_write s w) = st_edges s @ es" using apply_write_edges by blast
  moreover obtain es' where "st_edges (apply_writes (apply_write s w) ws)
      = st_edges (apply_write s w) @ es'" using Cons.IH by blast
  ultimately show ?case by simp
qed simp

section \<open>Properties\<close>

text \<open>
  C1. The graph store is append-only over any history of writes, failed ones included: a
  node that exists keeps existing with its schema version, every property it has keeps its
  value up to Python equality (the four broker properties of a node that had no settled
  \<open>broker_status\<close> may be completed, and only on the way to a settled one), and the list of
  edges only grows at its end.
\<close>

theorem store_append_only:
  assumes "store_wf s" "list_all write_ok ws"
  shows "(\<forall>k n. dict_get (st_nodes s) k = Some n \<longrightarrow>
            (\<exists>n'. dict_get (st_nodes (apply_writes s ws)) k = Some n' \<and> keeps n n'))
       \<and> (\<exists>es. st_edges (apply_writes s ws) = st_edges s @ es)"
  using apply_writes_keeps [OF assms] apply_writes_edges by blast

lemma store_append_only_witness:
  "let t = sample_time;
       n = make_node ''Fill'' ''f1''
             [(''broker_status'', PStr ''partial''), (''ticker'', PStr ''AAPL'')] 1;
       s = empty_store\<lparr>st_nodes := [((''Fill'', ''f1''), n)]\<rparr>;
       ws = [MergeNode t ''Fill'' ''f1'' [(''broker_status'', PStr ''filled'')] 1,
             MergeNode t ''Fill'' ''f1'' [(''ticker'', PStr ''MSFT'')] 1]
   in (\<forall>k n. dict_get (st_nodes s) k = Some n \<longrightarrow>
          (\<exists>n'. dict_get (st_nodes (apply_writes s ws)) k = Some n' \<and> keeps n n'))
      \<and> (\<exists>es. st_edges (apply_writes s ws) = st_edges s @ es)
      \<and> length (st_faults (apply_writes s ws)) = 1"
  unfolding Let_def
  by (intro conjI store_append_only [THEN conjunct1] store_append_only [THEN conjunct2])
    (simp_all add: store_wf_def empty_store_def node_wf_def node_keys_def dict_wf_def
      frozen_props_def props_frozen_def merge_node_def merge_core_def append_props_def
      is_partial_completion_def partial_completion_props_def prop_is_def
      guarded_faults_def collect_fault_def py_eq_def Let_def)

lemma append_props_again:
  assumes "append_props old p = Inr merged" "dict_wf p"
  shows "append_props merged p = Inr merged"
  unfolding append_props_def
proof (rule append_loop_same)
  fix k v
  assume "(k, v) \<in> set p"
  then have "dict_get p k = Some v" using assms(2) by (simp add: dict_get_Some_iff)
  then show "dict_get merged k = Some (frozen_value v)"
    using append_loop_written [OF assms(1) [unfolded append_props_def] assms(2), of k] by simp
qed

lemma append_props_fresh: "dict_wf p \<Longrightarrow> append_props (frozen_props p) p = Inr (frozen_props p)"
  unfolding append_props_def
  by (rule append_loop_same) (simp add: dict_get_Some_iff [THEN iffD2])

text \<open>
  Merging is idempotent: a merge that succeeded, repeated with the same arguments at
  any later time before another write, returns the same node and leaves the store as it is.
\<close>

lemma merge_node_idempotent:
  assumes "store_wf s" "dict_wf p" "merge_node now s label key p version = (s', Inr n)"
  shows "merge_node later s' label key p version = (s', Inr n)"
proof -
  obtain nodes' where core: "merge_core (st_nodes s) label key p version = Inr (nodes', n)"
    and s': "s' = s\<lparr>st_nodes := nodes'\<rparr>"
    using assms(3) by (auto simp: merge_node_def split: sum.splits)
  have wf: "\<forall>(k, n) \<in> set (st_nodes s). node_wf k n" "dict_wf (st_nodes s)"
    using assms(1) by (simp_all add: store_wf_def)
  have get: "dict_get nodes' (label, key) = Some n"
    using merge_core_wf [OF core wf(2,1) assms(2)] by blast
  obtain merged where m: "append_props merged p = Inr merged" "n = make_node label key merged version"
    "\<not> version < 1" "props_frozen merged"
  proof (cases "dict_get (st_nodes s) (label, key)")
    case None
    with core append_props_fresh [OF assms(2)] show ?thesis
      by (intro that [of "frozen_props p"])
        (auto simp: merge_core_def Let_def make_node_def split: if_splits)
  next
    case (Some current)
    then have "props_frozen (gn_props current)"
      using wf by (auto simp: dict_get_Some_iff node_wf_def)
    with core Some assms(2) show ?thesis
      by (auto simp: merge_core_def Let_def append_props_def dest: append_loop_wf
          intro!: that append_props_again [unfolded append_props_def]
          split: if_splits sum.splits)
  qed
  have "merge_core nodes' label key p version = Inr (nodes', n)"
    using get m by (simp add: merge_core_def props_frozen_id dict_set_idem Let_def)
  then show ?thesis by (simp add: merge_node_def s')
qed

end
