(* ===== verification/GraphPending.thy ===== *)
theory GraphPending
  imports GraphHistory
begin

text \<open>
  The graph as a work queue (\<open>keys_without_edge\<close> of \<open>kernel/graph_memory.py\<close>,
  \<open>kernel/graph_pending.py\<close>, the \<open>created_at\<close> bound of \<open>kernel/graph_support.py\<close>): a poll
  asks for the nodes of a label that no processed edge leaves.
\<close>

definition pending_nodes ::
  "timestamp \<Rightarrow> store \<Rightarrow> string \<Rightarrow> string \<Rightarrow> timestamp option \<Rightarrow> store \<times> (gnode list) res" where
  "pending_nodes now s label edge_type created_at_from =
     (case keys_without_edge now s label edge_type True created_at_from of
        (s', Inl e) \<Rightarrow> (s', Inl e)
      | (s', Inr keys) \<Rightarrow> (s', Inr (List.map_filter (\<lambda>k. get_node s' label k) keys)))"

section \<open>Which nodes are pending\<close>

text \<open>No edge of the type leaves the node.\<close>

definition unprocessed :: "store \<Rightarrow> string \<Rightarrow> gnode \<Rightarrow> bool" where
  "unprocessed s edge_type n \<longleftrightarrow>
     (\<forall>e \<in> set (st_edges s). ge_type e = edge_type \<longrightarrow> ge_parent e \<noteq> node_key_of n)"

lemma linked_keys_parent:
  "node_key_of n \<notin> set (linked_keys (st_edges s) edge_type True) \<longleftrightarrow> unprocessed s edge_type n"
  by (force simp: linked_keys_def unprocessed_def)

lemma keys_filter_eq:
  assumes "\<forall>(k, n) \<in> set xs. node_key_of n = k"
  shows "map (\<lambda>(k, n). gn_key n)
        (filter (\<lambda>(k, n). gn_label n = label \<and> k \<notin> L \<and> Q n) xs)
      = map gn_key (filter (\<lambda>n. node_key_of n \<notin> L \<and> Q n)
          (filter (\<lambda>n. gn_label n = label) (map snd xs)))"
  using assms
proof (induction xs)
  case (Cons x xs)
  obtain n where "x = (node_key_of n, n)" using Cons.prems by (cases x) auto
  moreover have "map (\<lambda>(k, n). gn_key n)
        (filter (\<lambda>(k, n). gn_label n = label \<and> k \<notin> L \<and> Q n) xs)
      = map gn_key (filter (\<lambda>n. node_key_of n \<notin> L \<and> Q n)
          (filter (\<lambda>n. gn_label n = label) (map snd xs)))"
    by (rule Cons.IH) (use Cons.prems in simp)
  ultimately show ?case by simp
qed simp

lemma keys_without_edge_core_eq:
  assumes "store_wf s"
  shows "keys_without_edge_core s label edge_type True bound =
      map gn_key (filter (\<lambda>n. unprocessed s edge_type n \<and> created_at_on_or_after (gn_props n) bound)
        (list_nodes s label))"
proof -
  have "\<forall>(k, n) \<in> set (st_nodes s). node_key_of n = k"
    using assms by (auto simp: store_wf_def node_wf_def)
  then show ?thesis
    unfolding keys_without_edge_core_def list_nodes_def Let_def linked_keys_parent [symmetric]
    by (rule keys_filter_eq)
qed

lemma list_nodes_get:
  assumes "store_wf s" "n \<in> set (list_nodes s label)"
  shows "get_node s label (gn_key n) = Some n"
proof -
  obtain k where k: "(k, n) \<in> set (st_nodes s)" "gn_label n = label"
    using assms(2) by (auto simp: list_nodes_def)
  then have "k = (label, gn_key n)" and "dict_wf (st_nodes s)"
    using assms(1) by (auto simp: store_wf_def node_wf_def node_key_of_def)
  with k show ?thesis by (simp add: get_node_def dict_get_Some_iff)
qed

lemma pending_nodes_bound:
  assumes "store_wf s"
    and "(case created_at_from of None \<Rightarrow> bound = None
          | Some t \<Rightarrow> \<exists>b. created_at_bound t = Inr b \<and> bound = Some b)"
  shows "pending_nodes now s label edge_type created_at_from =
      (s, Inr (filter (\<lambda>n. unprocessed s edge_type n \<and> created_at_on_or_after (gn_props n) bound)
                 (list_nodes s label)))"
proof -
  let ?ns = "filter (\<lambda>n. unprocessed s edge_type n \<and> created_at_on_or_after (gn_props n) bound)
      (list_nodes s label)"
  have "List.map_filter (\<lambda>k. get_node s label k) (map gn_key xs) = xs"
    if "set xs \<subseteq> set (list_nodes s label)" for xs
    using that list_nodes_get [OF assms(1)]
    by (induction xs) (auto simp: List.map_filter_simps)
  then have "List.map_filter (\<lambda>k. get_node s label k) (map gn_key ?ns) = ?ns" by auto
  moreover have "keys_without_edge now s label edge_type True created_at_from
      = (s, Inr (map gn_key ?ns))"
    using assms(2) keys_without_edge_core_eq [OF assms(1)]
    by (auto simp: keys_without_edge_def Let_def split: option.splits)
  ultimately show ?thesis by (simp add: pending_nodes_def)
qed

section \<open>Properties\<close>

text \<open>
  A poll without a time bound returns exactly the nodes of the label that no edge of
  the type leaves, each once and in the order the store lists them, and changes nothing.
\<close>

lemma pending_nodes_exact:
  assumes "store_wf s"
  shows "pending_nodes now s label edge_type None =
      (s, Inr (filter (\<lambda>n. \<forall>e \<in> set (st_edges s). ge_type e = edge_type \<longrightarrow>
                  (ge_parent e \<noteq> (gn_label n, gn_key n))) (list_nodes s label)))"
  using pending_nodes_bound [OF assms, of None None now label edge_type]
  by (simp add: created_at_on_or_after_def unprocessed_def node_key_of_def)

text \<open>
  With a time bound the poll keeps exactly the nodes created at or after it: for a
  valid aware timestamp in any zone (whose UTC time is in Python's range), a node stamped
  the way the fleet stamps nodes, with the \<open>isoformat\<close> of a valid UTC time, passes the
  text comparison if and only if its instant is not before the bound's.
\<close>

theorem created_at_bound_is_time:
  assumes "valid_timestamp t" "created_at_bound t = Inr bound"
    and "valid_timestamp c" "is_utc c"
    and "dict_get p ''created_at'' = Some (PStr (isoformat c))"
  shows "created_at_on_or_after p (Some bound) \<longleftrightarrow> instant t \<le> instant c"
proof -
  obtain u where u: "astimezone_utc t = Inr u" "bound = isoformat u"
    using assms(2) by (auto simp: created_at_bound_def res_bind_Inr_iff split: if_splits)
  have "valid_timestamp u" "is_utc u" "instant u = instant t"
    using astimezone_utc_exact [OF u(1) assms(1)] by simp_all
  with isoformat_le_iff [of u c] assms(3-5) u(2) show ?thesis
    by (simp add: created_at_on_or_after_def)
qed

end

