(* ===== verification/GraphWalk.thy ===== *)
theory GraphWalk
  imports GraphHistory
begin

text \<open>
  Walking the graph (\<open>InMemoryGraphStore._walk\<close>, \<open>ancestors\<close>, \<open>descendants\<close>): level by
  level over the edge list, to a bounded depth, each node once and never the start.  The
  walk returns exactly the nodes a path of at most \<open>max_depth\<close> allowed edges leads to.
\<close>

section \<open>The walk\<close>

definition edge_source :: "bool \<Rightarrow> gedge \<Rightarrow> node_key" where
  "edge_source downstream e = (if downstream then ge_parent e else ge_child e)"

definition edge_target :: "bool \<Rightarrow> gedge \<Rightarrow> node_key" where
  "edge_target downstream e = (if downstream then ge_child e else ge_parent e)"

definition key_text :: "node_key \<Rightarrow> string" where
  "key_text k = ''('' @ repr_str (fst k) @ '', '' @ repr_str (snd k) @ '')''"

text \<open>One pass over the edges: \<open>seen\<close>, the next frontier and the output grow together.\<close>

fun walk_edges ::
  "(node_key, gnode) dict \<Rightarrow> bool \<Rightarrow> string list option \<Rightarrow> node_key list \<Rightarrow> gedge list
     \<Rightarrow> node_key list \<times> node_key list \<times> gnode list
     \<Rightarrow> (node_key list \<times> node_key list \<times> gnode list) res" where
  "walk_edges nodes downstream types frontier [] (seen, next_frontier, out) =
     Inr (seen, next_frontier, out)"
| "walk_edges nodes downstream types frontier (e # es) (seen, next_frontier, out) =
     (let source = edge_source downstream e; target = edge_target downstream e in
      if source \<in> set frontier \<and> edge_allowed e types
      then case dict_get nodes target of
             None \<Rightarrow> Inl (PyExn ''KeyError'' (key_text target))
           | Some found \<Rightarrow>
               (if target \<notin> set seen
                then walk_edges nodes downstream types frontier es
                       (seen @ [target], next_frontier @ [target], out @ [found])
                else walk_edges nodes downstream types frontier es (seen, next_frontier, out))
      else walk_edges nodes downstream types frontier es (seen, next_frontier, out))"

text \<open>The loop over \<open>range(max_depth)\<close>, left early when a frontier is empty.\<close>

fun walk_levels ::
  "(node_key, gnode) dict \<Rightarrow> bool \<Rightarrow> string list option \<Rightarrow> gedge list \<Rightarrow> nat
     \<Rightarrow> node_key list \<Rightarrow> node_key list \<Rightarrow> gnode list \<Rightarrow> (gnode list) res" where
  "walk_levels nodes downstream types edges 0 seen frontier out = Inr out"
| "walk_levels nodes downstream types edges (Suc d) seen frontier out =
     (case walk_edges nodes downstream types frontier edges (seen, [], out) of
        Inl e \<Rightarrow> Inl e
      | Inr (seen', next_frontier, out') \<Rightarrow>
          (if next_frontier = [] then Inr out'
           else walk_levels nodes downstream types edges d seen' next_frontier out'))"

definition walk :: "store \<Rightarrow> gnode \<Rightarrow> int \<Rightarrow> string list option \<Rightarrow> bool \<Rightarrow> (gnode list) res" where
  "walk s n max_depth types downstream =
     (if max_depth < 1 then Inr []
      else walk_levels (st_nodes s) downstream types (st_edges s) (nat max_depth)
             [node_key_of n] [node_key_of n] [])"

definition ancestors ::
  "timestamp \<Rightarrow> store \<Rightarrow> gnode \<Rightarrow> int \<Rightarrow> string list option \<Rightarrow> store \<times> (gnode list) res" where
  "ancestors now s n max_depth types =
     (let r = walk s n max_depth types False in (guarded_faults now r s, r))"

definition descendants ::
  "timestamp \<Rightarrow> store \<Rightarrow> gnode \<Rightarrow> int \<Rightarrow> string list option \<Rightarrow> store \<times> (gnode list) res" where
  "descendants now s n max_depth types =
     (let r = walk s n max_depth types True in (guarded_faults now r s, r))"

section \<open>Steps and reachability\<close>

definition step_rel :: "bool \<Rightarrow> string list option \<Rightarrow> gedge list \<Rightarrow> (node_key \<times> node_key) set" where
  "step_rel downstream types edges =
     {(edge_source downstream e, edge_target downstream e) | e. e \<in> set edges \<and> edge_allowed e types}"

text \<open>The keys at most \<open>d\<close> steps away from \<open>k\<close>.\<close>

primrec within :: "(node_key \<times> node_key) set \<Rightarrow> nat \<Rightarrow> node_key \<Rightarrow> node_key set" where
  "within R 0 k = {k}"
| "within R (Suc d) k = within R d k \<union> R `` within R d k"

lemma within_iff_path: "x \<in> within R d k \<longleftrightarrow> (\<exists>i \<le> d. (k, x) \<in> R ^^ i)"
proof (induction d arbitrary: x)
  case (Suc d)
  have "(\<exists>i \<le> Suc d. (k, x) \<in> R ^^ i) \<longleftrightarrow>
      (\<exists>i \<le> d. (k, x) \<in> R ^^ i) \<or> (\<exists>i \<le> d. \<exists>y. (k, y) \<in> R ^^ i \<and> (y, x) \<in> R)"
  proof
    assume "\<exists>i \<le> Suc d. (k, x) \<in> R ^^ i"
    then obtain i where i: "i \<le> Suc d" "(k, x) \<in> R ^^ i" by blast
    then show "(\<exists>i \<le> d. (k, x) \<in> R ^^ i) \<or> (\<exists>i \<le> d. \<exists>y. (k, y) \<in> R ^^ i \<and> (y, x) \<in> R)"
      by (cases i) (auto elim: relpow_Suc_E)
  qed (auto intro: le_SucI relpow_Suc_I)
  then show ?case
    by (simp only: within.simps Un_iff Image_iff Bex_def Suc.IH) blast
qed auto

lemma within_fixed:
  assumes "R `` within R d k \<subseteq> within R d k"
  shows "within R (d + n) k = within R d k"
  using assms by (induction n) auto

section \<open>One level\<close>

abbreviation nodes_at :: "(node_key, gnode) dict \<Rightarrow> node_key list \<Rightarrow> gnode list" where
  "nodes_at nodes ks \<equiv> map (\<lambda>k. the (dict_get nodes k)) ks"

lemma walk_edges_spec:
  assumes "\<forall>e \<in> set es. dict_get nodes (edge_target downstream e) \<noteq> None"
  shows "\<exists>new. walk_edges nodes downstream types frontier es (seen, nf, out)
        = Inr (seen @ new, nf @ new, out @ nodes_at nodes new)
      \<and> distinct new
      \<and> set new = step_rel downstream types es `` set frontier - set seen"
  using assms
proof (induction es arbitrary: seen nf out)
  case Nil
  show ?case by (intro exI [of _ "[]"]) (simp add: step_rel_def)
next
  case (Cons e es)
  let ?s = "edge_source downstream e" and ?t = "edge_target downstream e"
  obtain found where found: "dict_get nodes ?t = Some found" using Cons.prems by auto
  have rel: "step_rel downstream types (e # es)
      = (if edge_allowed e types then insert (?s, ?t) else id) (step_rel downstream types es)"
    by (auto simp: step_rel_def)
  have tail: "\<forall>e \<in> set es. dict_get nodes (edge_target downstream e) \<noteq> None"
    using Cons.prems by simp
  show ?case
  proof (cases "?s \<in> set frontier \<and> edge_allowed e types \<and> ?t \<notin> set seen")
    case True
    obtain new where "walk_edges nodes downstream types frontier es
          (seen @ [?t], nf @ [?t], out @ [found])
        = Inr ((seen @ [?t]) @ new, (nf @ [?t]) @ new, (out @ [found]) @ nodes_at nodes new)"
      "distinct new" "set new = step_rel downstream types es `` set frontier - set (seen @ [?t])"
      using Cons.IH [OF tail] by metis
    with True found show ?thesis
      by (intro exI [of _ "?t # new"]) (auto simp: rel Let_def)
  next
    case False
    obtain new where "walk_edges nodes downstream types frontier es (seen, nf, out)
        = Inr (seen @ new, nf @ new, out @ nodes_at nodes new)"
      "distinct new" "set new = step_rel downstream types es `` set frontier - set seen"
      using Cons.IH [OF tail] by metis
    with False found show ?thesis
      by (intro exI [of _ new]) (auto simp: rel Let_def)
  qed
qed

section \<open>All levels\<close>

lemma walk_levels_spec:
  assumes targets: "\<forall>e \<in> set edges. dict_get nodes (edge_target downstream e) \<noteq> None"
    and R: "R = step_rel downstream types edges"
    and seen: "set (k # ks) = within R d k" "distinct (k # ks)"
    and frontier: "set frontier \<subseteq> set (k # ks)" "R `` (set (k # ks) - set frontier) \<subseteq> set (k # ks)"
  shows "\<exists>ks'. walk_levels nodes downstream types edges fuel (k # ks) frontier (nodes_at nodes ks)
        = Inr (nodes_at nodes ks')
      \<and> distinct (k # ks') \<and> set (k # ks') = within R (d + fuel) k"
  using seen frontier
proof (induction fuel arbitrary: d ks frontier)
  case 0
  then show ?case by (intro exI [of _ ks]) simp
next
  case (Suc fuel)
  obtain new where new: "walk_edges nodes downstream types frontier edges (k # ks, [], nodes_at nodes ks)
      = Inr ((k # ks) @ new, [] @ new, nodes_at nodes ks @ nodes_at nodes new)"
    "distinct new" "set new = R `` set frontier - set (k # ks)"
    using walk_edges_spec [OF targets] unfolding R by metis
  have image: "set (k # ks) \<union> R `` set (k # ks) = set (k # ks) \<union> set new"
    using new(3) Suc.prems(3,4) by blast
  show ?case
  proof (cases "new = []")
    case True
    then have "R `` within R d k \<subseteq> within R d k" using image Suc.prems(1) by auto
    from within_fixed [OF this, of "Suc fuel"] new(1) True Suc.prems(1,2) show ?thesis
      by (intro exI [of _ ks]) simp
  next
    case False
    have "\<exists>ks'. walk_levels nodes downstream types edges fuel (k # ks @ new) new
          (nodes_at nodes (ks @ new)) = Inr (nodes_at nodes ks')
        \<and> distinct (k # ks') \<and> set (k # ks') = within R (Suc d + fuel) k"
    proof (rule Suc.IH)
      show "set (k # ks @ new) = within R (Suc d) k" using image Suc.prems(1) by auto
      show "distinct (k # ks @ new)" using new Suc.prems(2) by auto
      show "set new \<subseteq> set (k # ks @ new)" by auto
      have "set (k # ks @ new) = set (k # ks) \<union> set new" by auto
      then show "R `` (set (k # ks @ new) - set new) \<subseteq> set (k # ks @ new)"
        using image by blast
    qed
    with new(1) False show ?thesis by simp
  qed
qed

lemma store_wf_target:
  "store_wf s \<Longrightarrow> e \<in> set (st_edges s) \<Longrightarrow> dict_get (st_nodes s) (edge_target downstream e) \<noteq> None"
  by (auto simp: store_wf_def edge_target_def node_keys_def dict_get_None_iff)

lemma nodes_at_keys:
  assumes "store_wf s" "\<And>k. k \<in> set ks \<Longrightarrow> dict_get (st_nodes s) k \<noteq> None"
  shows "map node_key_of (nodes_at (st_nodes s) ks) = ks"
proof -
  have "node_key_of (the (dict_get (st_nodes s) k)) = k" if "k \<in> set ks" for k
    using assms(2) [OF that] store_wf_node [OF assms(1)] by (auto simp: node_wf_def)
  then show ?thesis by (simp add: map_idI)
qed

lemma walk_spec:
  assumes wf: "store_wf s"
  shows "\<exists>out. walk s n max_depth types downstream = Inr out
      \<and> distinct (map node_key_of out)
      \<and> set out \<subseteq> set (dict_values (st_nodes s))
      \<and> set (map node_key_of out)
        = within (step_rel downstream types (st_edges s)) (nat max_depth) (node_key_of n)
          - {node_key_of n}"
proof (cases "max_depth < 1")
  case True
  then show ?thesis by (simp add: walk_def)
next
  case False
  let ?R = "step_rel downstream types (st_edges s)" and ?k = "node_key_of n"
  obtain ks where ks: "walk_levels (st_nodes s) downstream types (st_edges s) (nat max_depth)
        [?k] [?k] [] = Inr (nodes_at (st_nodes s) ks)"
    "distinct (?k # ks)" "set (?k # ks) = within ?R (nat max_depth) ?k"
    using walk_levels_spec [of "st_edges s" "st_nodes s" downstream ?R types ?k "[]" 0 "[?k]"
        "nat max_depth"] store_wf_target [OF wf]
    by auto
  have present: "dict_get (st_nodes s) k \<noteq> None" if "k \<in> set ks" for k
  proof -
    have "k \<noteq> ?k" using ks(2) that by auto
    moreover have "k \<in> within ?R (nat max_depth) ?k" using that unfolding ks(3) [symmetric] by simp
    ultimately obtain i where "(?k, k) \<in> ?R ^^ i" "k \<noteq> ?k" by (auto simp: within_iff_path)
    then have "k \<in> Range ?R" by (cases i) (auto elim: relpow_Suc_E)
    then show ?thesis using store_wf_target [OF wf] by (auto simp: step_rel_def)
  qed
  have "set (nodes_at (st_nodes s) ks) \<subseteq> set (dict_values (st_nodes s))"
    using present by (force dest: map_of_SomeD)
  moreover have "map node_key_of (nodes_at (st_nodes s) ks) = ks"
    by (rule nodes_at_keys [OF wf present])
  moreover have "set ks = within ?R (nat max_depth) ?k - {?k}"
    using ks(2) unfolding ks(3) [symmetric] by simp
  moreover have "walk s n max_depth types downstream = Inr (nodes_at (st_nodes s) ks)"
    using False ks(1) by (simp add: walk_def)
  ultimately show ?thesis using ks(2) by (metis distinct.simps(2))
qed

section \<open>Properties\<close>

text \<open>
  C32. \<open>descendants\<close> on a well-formed store never fails, leaves the store as it is, and
  returns each node once: exactly the nodes other than the start to which a path of at most
  \<open>max_depth\<close> edges of the allowed types leads.  (No edge of the store dangles, so the
  lookup of an edge's target never raises.)
\<close>

theorem descendants_exact:
  assumes "store_wf s"
  shows "\<exists>out. descendants now s n max_depth types = (s, Inr out)
      \<and> distinct (map node_key_of out)
      \<and> set out \<subseteq> set (dict_values (st_nodes s))
      \<and> (\<forall>k. k \<in> set (map node_key_of out) \<longleftrightarrow>
            k \<noteq> node_key_of n
            \<and> (\<exists>i \<le> nat max_depth. (node_key_of n, k) \<in>
                 {(ge_parent e, ge_child e) | e. e \<in> set (st_edges s) \<and> edge_allowed e types} ^^ i))"
  using walk_spec [OF assms, of n max_depth types True]
  by (auto simp: descendants_def Let_def within_iff_path step_rel_def edge_source_def
      edge_target_def)

lemma descendants_exact_witness:
  "let a = make_node ''Run'' ''r1'' [] 1; b = make_node ''Scan'' ''s1'' [] 1;
       s = \<lparr>st_nodes = [((''Run'', ''r1''), a), ((''Scan'', ''s1''), b)],
            st_edges = [make_edge (''Run'', ''r1'') (''Scan'', ''s1'') ''SCANNED_BY'' []],
            st_faults = []\<rparr>
   in descendants sample_time s a 3 (Some [''SCANNED_BY'']) = (s, Inr [b])"
proof -
  let ?a = "make_node ''Run'' ''r1'' [] 1" and ?b = "make_node ''Scan'' ''s1'' [] 1"
  let ?s = "\<lparr>st_nodes = [((''Run'', ''r1''), ?a), ((''Scan'', ''s1''), ?b)],
      st_edges = [make_edge (''Run'', ''r1'') (''Scan'', ''s1'') ''SCANNED_BY'' []], st_faults = []\<rparr>"
  have "store_wf ?s"
    by (simp add: store_wf_def dict_wf_def node_wf_def node_keys_def frozen_props_def props_frozen_def)
  from descendants_exact [OF this, of sample_time ?a 3 "Some [''SCANNED_BY'']"]
  obtain out where "descendants sample_time ?s ?a 3 (Some [''SCANNED_BY'']) = (?s, Inr out)" by blast
  moreover have "snd (descendants sample_time ?s ?a 3 (Some [''SCANNED_BY''])) = Inr [?b]"
    by (simp add: descendants_def walk_def edge_source_def edge_target_def edge_allowed_def
        numeral_eq_Suc Let_def)
  ultimately show ?thesis by (simp add: Let_def)
qed

end
