(* ===== verification/GraphPort.thy ===== *)
theory GraphPort
  imports GraphWalk GraphPending
begin

text \<open>
  The \<open>GraphStore\<close> protocol of \<open>kernel/graph.py\<close> as a record of operations over any state,
  the contract its clients rely on as the locale \<open>graph_store\<close>, and the in-memory store as
  the first provider.
\<close>

record 's graph_port =
  gp_merge :: "timestamp \<Rightarrow> 's \<Rightarrow> string \<Rightarrow> string \<Rightarrow> props \<Rightarrow> int \<Rightarrow> 's \<times> gnode res"
  gp_edge :: "timestamp \<Rightarrow> 's \<Rightarrow> gnode \<Rightarrow> gnode \<Rightarrow> string \<Rightarrow> props option \<Rightarrow> 's \<times> unit res"
  gp_get :: "'s \<Rightarrow> string \<Rightarrow> string \<Rightarrow> gnode option"
  gp_list :: "'s \<Rightarrow> string \<Rightarrow> gnode list"
  gp_keys :: "timestamp \<Rightarrow> 's \<Rightarrow> string \<Rightarrow> string \<Rightarrow> bool \<Rightarrow> timestamp option
     \<Rightarrow> 's \<times> (string list) res"
  gp_ancestors :: "timestamp \<Rightarrow> 's \<Rightarrow> gnode \<Rightarrow> int \<Rightarrow> string list option \<Rightarrow> 's \<times> (gnode list) res"
  gp_descendants :: "timestamp \<Rightarrow> 's \<Rightarrow> gnode \<Rightarrow> int \<Rightarrow> string list option \<Rightarrow> 's \<times> (gnode list) res"

text \<open>What a written property reads back as.\<close>

definition holds_props :: "gnode \<Rightarrow> props \<Rightarrow> bool" where
  "holds_props n p \<longleftrightarrow>
     (\<forall>name v. dict_get p name = Some v \<longrightarrow> dict_get (gn_props n) name = Some (frozen_value v))"

section \<open>The contract\<close>

locale graph_store =
  fixes port :: "'s graph_port"
    and ok :: "'s \<Rightarrow> bool"
  assumes merge_ok: "ok s \<Longrightarrow> dict_wf p \<Longrightarrow> ok (fst (gp_merge port now s label key p version))"
    and merge_written: "ok s \<Longrightarrow> dict_wf p \<Longrightarrow>
      gp_merge port now s label key p version = (s', Inr n) \<Longrightarrow>
      gp_get port s' label key = Some n \<and> gn_label n = label \<and> gn_key n = key \<and> holds_props n p"
    and merge_other: "(label', key') \<noteq> (label, key) \<Longrightarrow>
      gp_get port (fst (gp_merge port now s label key p version)) label' key'
        = gp_get port s label' key'"
    and merge_failed: "gp_merge port now s label key p version = (s', Inl e) \<Longrightarrow>
      gp_get port s' = gp_get port s"
    and edge_ok: "ok s \<Longrightarrow> ok (fst (gp_edge port now s a b t q))"
    and edge_get: "gp_get port (fst (gp_edge port now s a b t q)) = gp_get port s"
begin

text \<open>What a merge leaves of the view \<open>get_node\<close> gives, whatever its outcome.\<close>

lemma merge_get:
  assumes "ok s" "dict_wf p"
  shows "gp_get port (fst (gp_merge port now s label key p version)) label' key' =
     (case snd (gp_merge port now s label key p version) of
        Inl e \<Rightarrow> gp_get port s label' key'
      | Inr n \<Rightarrow> if (label', key') = (label, key) then Some n else gp_get port s label' key')"
proof (cases "gp_merge port now s label key p version")
  case (Pair s' r)
  show ?thesis
  proof (cases r)
    case (Inl e)
    with Pair merge_failed show ?thesis by fastforce
  next
    case (Inr n)
    with Pair merge_written [OF assms] merge_other [of label' key' label key now s p version]
    show ?thesis by auto
  qed
qed

text \<open>A node once there stays there.\<close>

lemma merge_present:
  assumes "ok s" "dict_wf p" "gp_get port s label' key' \<noteq> None"
  shows "gp_get port (fst (gp_merge port now s label key p version)) label' key' \<noteq> None"
  using assms by (auto simp: merge_get split: sum.splits)

end

section \<open>The in-memory store\<close>

definition mem_port :: "store graph_port" where
  "mem_port = \<lparr>gp_merge = merge_node, gp_edge = add_edge, gp_get = get_node, gp_list = list_nodes,
     gp_keys = keys_without_edge, gp_ancestors = ancestors, gp_descendants = descendants\<rparr>"

lemma mem_port_simps [simp]:
  "gp_merge mem_port = merge_node" "gp_edge mem_port = add_edge" "gp_get mem_port = get_node"
  "gp_list mem_port = list_nodes" "gp_keys mem_port = keys_without_edge"
  "gp_ancestors mem_port = ancestors" "gp_descendants mem_port = descendants"
  by (simp_all add: mem_port_def)

lemma append_props_holds:
  assumes "append_props old p = Inr merged" "dict_wf p"
  shows "holds_props (make_node l k merged v) p"
  using append_loop_written [OF assms(1) [unfolded append_props_def] assms(2)]
  by (auto simp: holds_props_def)

lemma merge_node_written:
  assumes "store_wf s" "dict_wf p" "merge_node now s label key p version = (s', Inr n)"
  shows "get_node s' label key = Some n \<and> gn_label n = label \<and> gn_key n = key \<and> holds_props n p"
proof -
  obtain nodes' where core: "merge_core (st_nodes s) label key p version = Inr (nodes', n)"
    and s': "s' = s\<lparr>st_nodes := nodes'\<rparr>"
    using assms(3) by (auto simp: merge_node_def split: sum.splits)
  have "dict_wf (st_nodes s)" "\<forall>(k, n) \<in> set (st_nodes s). node_wf k n"
    using assms(1) by (simp_all add: store_wf_def)
  note wf = merge_core_wf [OF core this assms(2)]
  have n: "node_wf (label, key) n"
    using wf by (auto simp: dict_get_Some_iff)
  have "holds_props n p"
    using core append_props_holds [OF _ assms(2)]
    by (auto simp: merge_core_def Let_def holds_props_def split: if_splits option.splits sum.splits)
  with wf n show ?thesis by (simp add: s' get_node_def node_wf_def node_key_of_def)
qed

lemma merge_node_other:
  "(label', key') \<noteq> (label, key) \<Longrightarrow>
     get_node (fst (merge_node now s label key p version)) label' key' = get_node s label' key'"
  by (auto simp: merge_node_def merge_core_def get_node_def dict_simps Let_def
      split: sum.splits option.splits)

lemma merge_node_failed:
  "merge_node now s label key p version = (s', Inl e) \<Longrightarrow> get_node s' = get_node s"
  by (auto simp: merge_node_def split: sum.splits)

lemma add_edge_get: "get_node (fst (add_edge now s a b t q)) = get_node s"
  by (auto simp: add_edge_def get_node_def fun_eq_iff split: sum.splits)

interpretation mem: graph_store mem_port store_wf
  by unfold_locales
    (simp_all add: merge_node_wf add_edge_wf merge_node_written merge_node_other
      merge_node_failed add_edge_get)

text \<open>
  Sequences of graph operations: a step takes the world and gives the world after it together with
  a result or the exception that ended it, and what was written before an exception stays written.
\<close>

type_synonym ('w, 'a) step = "'w \<Rightarrow> 'w \<times> 'a res"

definition step_return :: "'a \<Rightarrow> ('w, 'a) step" where
  "step_return x w = (w, Inr x)"

definition step_bind :: "('w, 'a) step \<Rightarrow> ('a \<Rightarrow> ('w, 'b) step) \<Rightarrow> ('w, 'b) step" where
  "step_bind m f w = (case m w of (w', Inl e) \<Rightarrow> (w', Inl e) | (w', Inr x) \<Rightarrow> f x w')"

definition step_forget :: "('w, 'a) step \<Rightarrow> ('w, unit) step" where
  "step_forget m = step_bind m (\<lambda>_. step_return ())"

definition step_res :: "'a res \<Rightarrow> ('w, 'a) step" where
  "step_res r w = (w, r)"

fun step_each :: "('a \<Rightarrow> ('w, unit) step) \<Rightarrow> 'a list \<Rightarrow> ('w, unit) step" where
  "step_each f [] = step_return ()"
| "step_each f (x # xs) = step_bind (f x) (\<lambda>_. step_each f xs)"

lemma step_bind_Inr:
  "step_bind m f w = (w', Inr y) \<longleftrightarrow> (\<exists>w1 x. m w = (w1, Inr x) \<and> f x w1 = (w', Inr y))"
  by (auto simp: step_bind_def split: prod.splits sum.splits)

lemma step_res_Inr: "step_res r w = (w', Inr y) \<longleftrightarrow> w' = w \<and> r = Inr y"
  by (auto simp: step_res_def)

lemma step_return_Inr: "step_return x w = (w', Inr y) \<longleftrightarrow> w' = w \<and> y = x"
  by (auto simp: step_return_def)

text \<open>What every outcome of every step keeps, a sequence keeps.\<close>

definition step_keeps :: "('w \<Rightarrow> bool) \<Rightarrow> ('w, 'a) step \<Rightarrow> bool" where
  "step_keeps P m \<longleftrightarrow> (\<forall>w. P w \<longrightarrow> P (fst (m w)))"

lemma step_keeps_return [intro, simp]: "step_keeps P (step_return x)"
  by (simp add: step_keeps_def step_return_def)

lemma step_keeps_res [intro, simp]: "step_keeps P (step_res r)"
  by (simp add: step_keeps_def step_res_def)

lemma step_keeps_bind [intro]:
  "step_keeps P m \<Longrightarrow> (\<And>x. step_keeps P (f x)) \<Longrightarrow> step_keeps P (step_bind m f)"
  unfolding step_keeps_def step_bind_def by (auto split: prod.split sum.split)

lemma step_keeps_forget [intro]: "step_keeps P m \<Longrightarrow> step_keeps P (step_forget m)"
  unfolding step_forget_def by (intro step_keeps_bind step_keeps_return)

lemma step_keeps_each [intro]:
  "(\<And>x. x \<in> set xs \<Longrightarrow> step_keeps P (f x)) \<Longrightarrow> step_keeps P (step_each f xs)"
  by (induction xs) auto

lemma step_keepsD: "step_keeps P m \<Longrightarrow> P w \<Longrightarrow> m w = (w', r) \<Longrightarrow> P w'"
  by (metis step_keeps_def fst_conv)

text \<open>A sequence of node writes, remembering the first node written; an exception ends the writes.\<close>

fun write_nodes :: "('w, gnode) step list \<Rightarrow> gnode option \<Rightarrow> ('w, gnode option) step" where
  "write_nodes [] first = step_return first"
| "write_nodes (m # ms) first =
     step_bind m (\<lambda>n. write_nodes ms (case first of None \<Rightarrow> Some n | Some k \<Rightarrow> Some k))"

lemma write_nodes_keeps [intro]:
  "(\<And>m. m \<in> set ms \<Longrightarrow> step_keeps P m) \<Longrightarrow> step_keeps P (write_nodes ms first)"
  by (induction ms arbitrary: first) auto

end
