(* ===== verification/Vocabulary.thy ===== *)
theory Vocabulary
  imports GraphPort
begin

text \<open>
  The declared vocabulary (\<open>kernel/graph_vocabulary.py\<close>) and the store wrapper that checks
  every write against it (\<open>kernel/graph_guarded.py\<close>).

  A frozen set of names is a list read through membership only; where the code sorts one for
  a message, repetitions are removed first.  Parsed declarations are Python values; the text
  of a float in one (\<open>str(1.5)\<close>) is the parameter \<open>flt\<close>.
\<close>

section \<open>Coercing a declaration\<close>

fun py_repr :: "(rat \<Rightarrow> string) \<Rightarrow> pyval \<Rightarrow> string" where
  "py_repr flt PNone = ''None''"
| "py_repr flt (PBool b) = (if b then ''True'' else ''False'')"
| "py_repr flt (PInt i) = str_int i"
| "py_repr flt (PFloat q) = flt q"
| "py_repr flt (PStr s) = repr_str s"
| "py_repr flt (PList xs) = ''['' @ join_strs '', '' (map (py_repr flt) xs) @ '']''"
| "py_repr flt (PTuple xs) =
     ''('' @ join_strs '', '' (map (py_repr flt) xs) @ (if length xs = 1 then '',)'' else '')'')"
| "py_repr flt (PDict kvs) =
     ''{'' @ join_strs '', '' (map (\<lambda>(k, v). repr_str k @ '': '' @ py_repr flt v) kvs) @ ''}''"
| "py_repr flt (PProxy kvs) =
     ''mappingproxy({'' @ join_strs '', '' (map (\<lambda>(k, v). repr_str k @ '': '' @ py_repr flt v) kvs)
       @ ''})''"
| "py_repr flt (PSet xs) =
     (if xs = [] then ''set()'' else ''{'' @ join_strs '', '' (map (py_repr flt) xs) @ ''}'')"
| "py_repr flt (PFrozenSet xs) =
     (if xs = [] then ''frozenset()''
      else ''frozenset({'' @ join_strs '', '' (map (py_repr flt) xs) @ ''})'')"
| "py_repr flt (PObj s) = s"

fun py_str :: "(rat \<Rightarrow> string) \<Rightarrow> pyval \<Rightarrow> string" where
  "py_str flt (PStr s) = s"
| "py_str flt v = py_repr flt v"

fun iterable_items :: "pyval \<Rightarrow> pyval list" where
  "iterable_items (PList xs) = xs"
| "iterable_items (PTuple xs) = xs"
| "iterable_items (PSet xs) = xs"
| "iterable_items (PFrozenSet xs) = xs"
| "iterable_items (PDict kvs) = map (\<lambda>(k, v). PStr k) kvs"
| "iterable_items (PProxy kvs) = map (\<lambda>(k, v). PStr k) kvs"
| "iterable_items _ = []"

definition declared_names :: "(rat \<Rightarrow> string) \<Rightarrow> pyval \<Rightarrow> string list" where
  "declared_names flt v = map (py_str flt) (iterable_items v)"

fun declared_pairs :: "pyval \<Rightarrow> (string \<times> pyval) list" where
  "declared_pairs (PDict kvs) = kvs"
| "declared_pairs (PProxy kvs) = kvs"
| "declared_pairs _ = []"

type_synonym edge_signature = "string \<times> string \<times> string"

fun signature_of_parts :: "string list \<Rightarrow> edge_signature option" where
  "signature_of_parts [a, b, c] = Some (a, b, c)"
| "signature_of_parts _ = None"

definition declared_signatures :: "(rat \<Rightarrow> string) \<Rightarrow> pyval \<Rightarrow> edge_signature list" where
  "declared_signatures flt v =
     List.map_filter (\<lambda>row. signature_of_parts (map (py_str flt) (iterable_items row)))
       (iterable_items v)"

section \<open>The vocabulary\<close>

record vocabulary =
  voc_labels :: "string list"
  voc_edge_types :: "string list"
  voc_edge_signatures :: "edge_signature list"
  voc_owners :: "(string, string list) dict"
  voc_properties :: "(string, string list) dict"

definition data_get :: "props \<Rightarrow> string \<Rightarrow> pyval" where
  "data_get data name = (case dict_get data name of None \<Rightarrow> PNone | Some v \<Rightarrow> v)"

definition names_by_key :: "(rat \<Rightarrow> string) \<Rightarrow> pyval \<Rightarrow> (string, string list) dict" where
  "names_by_key flt v = fold (\<lambda>(k, w) d. dict_set k (declared_names flt w) d) (declared_pairs v) []"

definition vocabulary_from_mapping :: "(rat \<Rightarrow> string) \<Rightarrow> props \<Rightarrow> vocabulary" where
  "vocabulary_from_mapping flt data =
     \<lparr>voc_labels = declared_names flt (data_get data ''labels''),
      voc_edge_types = declared_names flt (data_get data ''edge_types''),
      voc_edge_signatures = declared_signatures flt (data_get data ''edge_signatures''),
      voc_owners = names_by_key flt (data_get data ''owners''),
      voc_properties = names_by_key flt (data_get data ''properties'')\<rparr>"

abbreviation VocabularyError :: "string \<Rightarrow> py_exn" where
  "VocabularyError msg \<equiv> PyExn ''VocabularyError'' msg"

definition sorted_names :: "string list \<Rightarrow> string list" where
  "sorted_names xs = sort (remdups xs)"

definition check_properties :: "vocabulary \<Rightarrow> string \<Rightarrow> props option \<Rightarrow> unit res" where
  "check_properties voc label p =
     (case (dict_get (voc_properties voc) label, p) of
        (Some declared, Some q) \<Rightarrow>
          (let unknown = filter (\<lambda>name. name \<notin> set declared) (dict_keys q)
           in if unknown \<noteq> []
              then Inl (VocabularyError (''undeclared properties for label '' @ repr_str label
                     @ '': '' @ repr_str_list (sorted_names unknown)))
              else Inr ())
      | _ \<Rightarrow> Inr ())"

definition check_node :: "vocabulary \<Rightarrow> string \<Rightarrow> string \<Rightarrow> props option \<Rightarrow> unit res" where
  "check_node voc label writer p =
     (if label \<notin> set (voc_labels voc)
      then Inl (VocabularyError (''undeclared node label '' @ repr_str label @ '' '' @ em_dash
             @ '' add it to the vocabulary or fix the spelling''))
      else case dict_get (voc_owners voc) writer of
        Some owned \<Rightarrow>
          (if writer \<noteq> [] \<and> label \<notin> set owned
           then Inl (VocabularyError (repr_str writer @ '' may not write label '' @ repr_str label
                  @ ''; it declared '' @ repr_str_list (sorted_names owned)))
           else check_properties voc label p)
      | None \<Rightarrow> check_properties voc label p)"

definition check_edge :: "vocabulary \<Rightarrow> string \<Rightarrow> string \<Rightarrow> string \<Rightarrow> unit res" where
  "check_edge voc parent_label edge_type child_label =
     (if edge_type \<notin> set (voc_edge_types voc)
      then Inl (VocabularyError (''undeclared edge type '' @ repr_str edge_type @ '' '' @ em_dash
             @ '' add it to the vocabulary or fix the spelling''))
      else if voc_edge_signatures voc = [] then Inr ()
      else if (parent_label, edge_type, child_label) \<notin> set (voc_edge_signatures voc)
      then Inl (VocabularyError (''edge '' @ repr_str edge_type @ '' is not declared to run ''
             @ parent_label @ '' -> '' @ child_label))
      else Inr ())"

section \<open>The guarded store\<close>

definition guarded_merge_node ::
  "vocabulary \<Rightarrow> string \<Rightarrow> 's graph_port \<Rightarrow> timestamp \<Rightarrow> 's \<Rightarrow> string \<Rightarrow> string \<Rightarrow> props \<Rightarrow> int
     \<Rightarrow> 's \<times> gnode res" where
  "guarded_merge_node voc writer inner now s label key p version =
     (case check_node voc label writer (Some p) of
        Inl e \<Rightarrow> (s, Inl e)
      | Inr _ \<Rightarrow> gp_merge inner now s label key p version)"

definition guarded_add_edge ::
  "vocabulary \<Rightarrow> 's graph_port \<Rightarrow> timestamp \<Rightarrow> 's \<Rightarrow> gnode \<Rightarrow> gnode \<Rightarrow> string \<Rightarrow> props option
     \<Rightarrow> 's \<times> unit res" where
  "guarded_add_edge voc inner now s parent child edge_type p =
     (case check_edge voc (gn_label parent) edge_type (gn_label child) of
        Inl e \<Rightarrow> (s, Inl e)
      | Inr _ \<Rightarrow> gp_edge inner now s parent child edge_type p)"

text \<open>Reads go through untouched.\<close>

definition guarded_port :: "vocabulary \<Rightarrow> string \<Rightarrow> 's graph_port \<Rightarrow> 's graph_port" where
  "guarded_port voc writer inner =
     inner\<lparr>gp_merge := guarded_merge_node voc writer inner,
           gp_edge := guarded_add_edge voc inner\<rparr>"

section \<open>The guard keeps the store's contract\<close>

context graph_store begin

lemma guarded_store: "graph_store (guarded_port voc writer port) ok"
  by unfold_locales
    (auto simp: guarded_port_def guarded_merge_node_def guarded_add_edge_def
      merge_ok merge_other edge_ok edge_get
      intro: merge_failed dest: merge_written split: sum.splits)

end

interpretation guarded_mem: graph_store "guarded_port voc writer mem_port" store_wf for voc writer
  by (rule mem.guarded_store)

section \<open>What the checks accept\<close>

definition node_allowed :: "vocabulary \<Rightarrow> string \<Rightarrow> string \<Rightarrow> string set \<Rightarrow> bool" where
  "node_allowed voc writer label names \<longleftrightarrow>
     label \<in> set (voc_labels voc)
     \<and> (writer = [] \<or> (\<forall>owned. dict_get (voc_owners voc) writer = Some owned \<longrightarrow> label \<in> set owned))
     \<and> (\<forall>declared. dict_get (voc_properties voc) label = Some declared \<longrightarrow> names \<subseteq> set declared)"

definition edge_declared :: "vocabulary \<Rightarrow> string \<Rightarrow> string \<Rightarrow> string \<Rightarrow> bool" where
  "edge_declared voc parent_label edge_type child_label \<longleftrightarrow>
     edge_type \<in> set (voc_edge_types voc)
     \<and> (voc_edge_signatures voc = []
        \<or> (parent_label, edge_type, child_label) \<in> set (voc_edge_signatures voc))"

lemma check_properties_ok:
  "check_properties voc label (Some p) = Inr u \<longleftrightarrow>
     (\<forall>declared. dict_get (voc_properties voc) label = Some declared \<longrightarrow> fst ` set p \<subseteq> set declared)"
  by (auto simp: check_properties_def Let_def filter_empty_conv split: option.splits)

lemma check_node_ok:
  "check_node voc label writer (Some p) = Inr u \<longleftrightarrow> node_allowed voc writer label (fst ` set p)"
  by (auto simp: check_node_def node_allowed_def check_properties_ok split: option.splits)

lemma check_edge_ok: "check_edge voc a t b = Inr u \<longleftrightarrow> edge_declared voc a t b"
  by (auto simp: check_edge_def edge_declared_def)

section \<open>Histories of guarded writes\<close>

definition conforms :: "vocabulary \<Rightarrow> string \<Rightarrow> store \<Rightarrow> bool" where
  "conforms voc writer s \<longleftrightarrow>
     (\<forall>((label, key), n) \<in> set (st_nodes s). node_allowed voc writer label (fst ` set (gn_props n)))
     \<and> (\<forall>e \<in> set (st_edges s). edge_declared voc (fst (ge_parent e)) (ge_type e) (fst (ge_child e)))"

fun guarded_write :: "vocabulary \<Rightarrow> string \<Rightarrow> store \<Rightarrow> graph_write \<Rightarrow> store" where
  "guarded_write voc writer s (MergeNode now label key p version) =
     fst (gp_merge (guarded_port voc writer mem_port) now s label key p version)"
| "guarded_write voc writer s (AddEdge now a b t p) =
     fst (gp_edge (guarded_port voc writer mem_port) now s a b t p)"

lemma append_loop_keys:
  "append_props_loop existing new rest merged = Inr m \<Longrightarrow>
     fst ` set m = fst ` set rest \<union> fst ` set merged"
proof (induction rest arbitrary: merged)
  case (Cons entry rest)
  obtain name v where entry: "entry = (name, v)" by (cases entry)
  from Cons.prems have "append_props_loop existing new rest (dict_set name (frozen_value v) merged) = Inr m"
    by (auto simp: entry Let_def split: if_splits)
  from Cons.IH [OF this] show ?case by (auto simp: entry dict_keys_set)
qed simp

lemma node_allowed_Un:
  "node_allowed voc writer label (A \<union> B) \<longleftrightarrow>
     node_allowed voc writer label A \<and> node_allowed voc writer label B"
  by (auto simp: node_allowed_def)

lemma keys_frozen_props: "fst ` set (frozen_props p) = fst ` set p"
  by (simp add: frozen_props_def image_image case_prod_beta)

lemma merge_core_entries:
  assumes "merge_core nodes label key p version = Inr (nodes', n)"
    and "(k, m) \<in> set nodes'"
  shows "(k, m) \<in> set nodes
    \<or> k = (label, key) \<and> (\<exists>old. fst ` set (gn_props m) = fst ` set p \<union> fst ` set old
        \<and> (old = [] \<or> (\<exists>c. (k, c) \<in> set nodes \<and> old = gn_props c)))"
proof (cases "dict_get nodes (label, key)")
  case None
  with assms have "nodes' = dict_set (label, key) (make_node label key p version) nodes"
    by (auto simp: merge_core_def Let_def split: if_splits)
  with assms(2) have "(k, m) = ((label, key), make_node label key p version) \<or> (k, m) \<in> set nodes"
    using dict_set_entry by fast
  then show ?thesis by (auto simp: keys_frozen_props) (rule exI [where x = "[]"], simp)
next
  case (Some c)
  with assms obtain merged where merged: "append_props (gn_props c) p = Inr merged"
    and nodes': "nodes' = dict_set (label, key) (make_node label key merged version) nodes"
    by (auto simp: merge_core_def Let_def split: if_splits sum.splits)
  have c: "((label, key), c) \<in> set nodes" using Some by (rule map_of_SomeD)
  from merged have "fst ` set merged = fst ` set p \<union> fst ` set (gn_props c)"
    by (simp add: append_props_def append_loop_keys)
  moreover have "(k, m) = ((label, key), make_node label key merged version) \<or> (k, m) \<in> set nodes"
    using nodes' assms(2) dict_set_entry by fast
  ultimately show ?thesis using c by (auto simp: keys_frozen_props) (rule exI [where x = "gn_props c"], auto)
qed

lemma conforms_edges_faults [simp]:
  "conforms voc writer (s\<lparr>st_faults := f\<rparr>) = conforms voc writer s"
  by (simp add: conforms_def)

lemma merge_node_conforms:
  assumes "conforms voc writer s" and allowed: "node_allowed voc writer label (fst ` set p)"
  shows "conforms voc writer (fst (merge_node now s label key p version))"
proof (cases "merge_core (st_nodes s) label key p version")
  case (Inr out)
  then obtain nodes' n where core: "merge_core (st_nodes s) label key p version = Inr (nodes', n)"
    by (cases out) simp
  have "node_allowed voc writer l (fst ` set (gn_props m))" if "((l, k), m) \<in> set nodes'" for l k m
  proof (cases "((l, k), m) \<in> set (st_nodes s)")
    case True
    with assms(1) show ?thesis by (auto simp: conforms_def)
  next
    case False
    with merge_core_entries [OF core that] obtain old where "l = label"
      and keys: "fst ` set (gn_props m) = fst ` set p \<union> fst ` set old"
      and old: "old = [] \<or> (\<exists>c. ((l, k), c) \<in> set (st_nodes s) \<and> old = gn_props c)"
      by auto
    have "node_allowed voc writer label (fst ` set (gn_props c))" if "((l, k), c) \<in> set (st_nodes s)" for c
      using assms(1) that \<open>l = label\<close> by (auto simp: conforms_def)
    moreover have "node_allowed voc writer label {}"
      using allowed by (simp add: node_allowed_def)
    ultimately have "node_allowed voc writer label (fst ` set old)"
      using old by auto
    with allowed \<open>l = label\<close> show ?thesis unfolding keys by (auto simp: node_allowed_Un)
  qed
  with assms(1) core show ?thesis by (auto simp: merge_node_def conforms_def)
qed (use assms in \<open>simp add: merge_node_def guarded_faults_def\<close>)

lemma add_edge_conforms:
  assumes "conforms voc writer s" "edge_declared voc (gn_label a) t (gn_label b)"
  shows "conforms voc writer (fst (add_edge now s a b t p))"
  using assms
  by (cases "add_edge_core s a b t p")
    (auto simp: add_edge_def add_edge_core_def guarded_faults_def make_edge_def
      conforms_def res_bind_Inr_iff Let_def node_key_of_def split: if_splits)

lemma guarded_write_conforms:
  assumes "conforms voc writer s"
  shows "conforms voc writer (guarded_write voc writer s w)"
proof (cases w)
  case (MergeNode now label key p version)
  show ?thesis
    using assms check_node_ok [of voc label writer p]
    by (auto simp: MergeNode guarded_port_def guarded_merge_node_def merge_node_conforms
        split: sum.split)
next
  case (AddEdge now a b t p)
  show ?thesis
    using assms check_edge_ok [of voc "gn_label a" t "gn_label b"]
    by (auto simp: AddEdge guarded_port_def guarded_add_edge_def add_edge_conforms
        split: sum.split)
qed

text \<open>
  C30. However the writes of an agent turn out, a store it only writes through the guard holds
  nothing outside the declared vocabulary: every label is declared, and among the writer's own where
  the vocabulary lists them; every property is declared where it lists the label's properties; every
  edge has a declared type and, where it lists signatures, runs as one of them does.  Conversely a
  node or an edge the vocabulary allows is written exactly as the wrapped store writes it, and any
  other is refused with a VocabularyError and no effect.
\<close>

theorem guarded_history_conforms:
  assumes "conforms voc writer s"
  shows "conforms voc writer (fold (\<lambda>w s. guarded_write voc writer s w) ws s)
    \<and> gp_merge (guarded_port voc writer mem_port) now s label key p version =
        (if node_allowed voc writer label (set (dict_keys p))
         then merge_node now s label key p version
         else (s, Inl (VocabularyError (exn_text
                (projl (check_node voc label writer (Some p)))))))
    \<and> gp_edge (guarded_port voc writer mem_port) now s a b t q =
        (if edge_declared voc (gn_label a) t (gn_label b) then add_edge now s a b t q
         else (s, Inl (VocabularyError (exn_text
                (projl (check_edge voc (gn_label a) t (gn_label b)))))))"
proof (intro conjI)
  show "conforms voc writer (fold (\<lambda>w s. guarded_write voc writer s w) ws s)"
    using assms by (induction ws arbitrary: s) (simp_all add: guarded_write_conforms)
  have "exn_type e = ''VocabularyError''" if "check_node voc label writer (Some p) = Inl e" for e
    using that by (auto simp: check_node_def check_properties_def Let_def
        split: if_splits option.splits)
  then show "gp_merge (guarded_port voc writer mem_port) now s label key p version =
        (if node_allowed voc writer label (set (dict_keys p))
         then merge_node now s label key p version
         else (s, Inl (VocabularyError (exn_text
                (projl (check_node voc label writer (Some p)))))))"
    using check_node_ok [of voc label writer p]
    by (cases "check_node voc label writer (Some p)")
      (auto simp: guarded_port_def guarded_merge_node_def py_exn.expand)
  have "exn_type e = ''VocabularyError''" if "check_edge voc (gn_label a) t (gn_label b) = Inl e" for e
    using that by (auto simp: check_edge_def split: if_splits)
  then show "gp_edge (guarded_port voc writer mem_port) now s a b t q =
        (if edge_declared voc (gn_label a) t (gn_label b) then add_edge now s a b t q
         else (s, Inl (VocabularyError (exn_text
                (projl (check_edge voc (gn_label a) t (gn_label b)))))))"
    using check_edge_ok [of voc "gn_label a" t "gn_label b"]
    by (cases "check_edge voc (gn_label a) t (gn_label b)")
      (auto simp: guarded_port_def guarded_add_edge_def py_exn.expand)
qed

lemma guarded_history_conforms_witness:
  "let voc = vocabulary_from_mapping (\<lambda>q. [])
         [(''labels'', PList [PStr ''Run'', PStr ''Signal'']), (''edge_types'', PList [PStr ''HAS'']),
          (''edge_signatures'', PList [PList [PStr ''Run'', PStr ''HAS'', PStr ''Signal'']]),
          (''owners'', PDict [(''scanner'', PList [PStr ''Run''])])];
       ws = [MergeNode sample_time ''Run'' ''1'' [] 1, MergeNode sample_time ''Signal'' ''2'' [] 1]
   in conforms voc ''scanner'' (fold (\<lambda>w s. guarded_write voc ''scanner'' s w) ws empty_store)
      \<and> fst (gp_merge (guarded_port voc ''scanner'' mem_port) sample_time empty_store ''Signal'' ''2'' [] 1)
          = empty_store
      \<and> fst (gp_edge (guarded_port voc ''scanner'' mem_port) sample_time empty_store
           (make_node ''Signal'' ''2'' [] 1) (make_node ''Run'' ''1'' [] 1) ''HAS'' None) = empty_store"
proof -
  let ?voc = "vocabulary_from_mapping (\<lambda>q. [])
         [(''labels'', PList [PStr ''Run'', PStr ''Signal'']), (''edge_types'', PList [PStr ''HAS'']),
          (''edge_signatures'', PList [PList [PStr ''Run'', PStr ''HAS'', PStr ''Signal'']]),
          (''owners'', PDict [(''scanner'', PList [PStr ''Run''])])]"
  let ?a = "make_node ''Signal'' ''2'' [] 1" and ?b = "make_node ''Run'' ''1'' [] 1"
  have "conforms ?voc ''scanner'' empty_store" by (simp add: conforms_def empty_store_def)
  note holds = guarded_history_conforms [OF this]
  have "\<not> node_allowed ?voc ''scanner'' ''Signal'' (set (dict_keys []))"
    by (simp add: node_allowed_def vocabulary_from_mapping_def names_by_key_def data_get_def
        declared_names_def)
  moreover have "\<not> edge_declared ?voc (gn_label ?a) ''HAS'' (gn_label ?b)"
    by (simp add: edge_declared_def vocabulary_from_mapping_def names_by_key_def data_get_def
        declared_signatures_def map_filter_def make_node_def)
  ultimately show ?thesis
    using holds [of _ sample_time "''Signal''" "''2''" "[]" 1 ?a ?b "''HAS''" None]
    unfolding Let_def by (metis fst_conv)
qed

end
