(* ===== verification/StopSignal.thy ===== *)
theory StopSignal
  imports Prelude
begin

text \<open>
  The stop signal of a container's main loop (\<open>kernel/stop.py\<close>): the flag a signal handler
  sets, the sliced sleep on it, and the closing of what a stopped loop held.

  Seconds are exact rationals.  A callback is a function of the world it runs in; the world
  holds the clock and, where a handler may set it meanwhile, the signal itself.
\<close>

section \<open>The signal\<close>

record stop_signal =
  stp_requested :: bool
  stp_requested_at :: rat
  stp_reason :: string

definition new_stop_signal :: stop_signal where
  "new_stop_signal = \<lparr>stp_requested = False, stp_requested_at = 0, stp_reason = []\<rparr>"

definition stop_request :: "rat \<Rightarrow> string \<Rightarrow> stop_signal \<Rightarrow> stop_signal" where
  "stop_request now reason s =
     (if \<not> stp_requested s
      then s\<lparr>stp_reason := reason, stp_requested_at := now, stp_requested := True\<rparr> else s)"

definition seconds_since_request :: "rat \<Rightarrow> stop_signal \<Rightarrow> rat" where
  "seconds_since_request now s = (if stp_requested s then now - stp_requested_at s else 0)"

definition seconds_left :: "rat \<Rightarrow> stop_signal \<Rightarrow> rat \<Rightarrow> rat" where
  "seconds_left now s budget = max (budget - seconds_since_request now s) 0"

text \<open>The handler \<open>install\<close> routes SIGTERM to: the signal afterwards and the line it writes.\<close>

definition stop_handler :: "string \<Rightarrow> string \<Rightarrow> rat \<Rightarrow> stop_signal \<Rightarrow> stop_signal \<times> string" where
  "stop_handler agent name now s =
     (stop_request now name s,
      ''['' @ agent @ ''] stop signal '' @ name @ '': taking no new work'' @ [CHR 0x0A])"

section \<open>The sliced sleep\<close>

definition wake_seconds :: rat where
  "wake_seconds = 1"

text \<open>
  \<open>threading.Event.wait\<close> is the parameter \<open>ev_wait\<close>.  \<open>None\<close> is a loop that has not ended
  within the fuel.
\<close>

record 'w stop_clock =
  sc_requested :: "'w \<Rightarrow> bool"
  sc_monotonic :: "'w \<Rightarrow> rat"
  sc_event_wait :: "rat \<Rightarrow> 'w \<Rightarrow> 'w"

fun wait_until :: "nat \<Rightarrow> 'w stop_clock \<Rightarrow> rat \<Rightarrow> 'w \<Rightarrow> 'w option" where
  "wait_until 0 c deadline w = None"
| "wait_until (Suc fuel) c deadline w =
     (if sc_requested c w then Some w
      else let remaining = deadline - sc_monotonic c w
        in if remaining \<le> 0 then Some w
           else wait_until fuel c deadline (sc_event_wait c (min remaining wake_seconds) w))"

definition stop_wait :: "nat \<Rightarrow> 'w stop_clock \<Rightarrow> rat \<Rightarrow> 'w \<Rightarrow> 'w option" where
  "stop_wait fuel c seconds w = wait_until fuel c (sc_monotonic c w + max seconds 0) w"

section \<open>Closing\<close>

type_synonym 'w step = "string \<times> ('w \<Rightarrow> 'w \<times> unit res)"

text \<open>What has a \<open>close\<close> method is given by it.\<close>

definition closing_steps ::
  "('w \<Rightarrow> 'w \<times> unit res) option \<Rightarrow> ('w \<Rightarrow> 'w \<times> unit res) option
     \<Rightarrow> ('w \<Rightarrow> 'w \<times> unit res) option \<Rightarrow> 'w step list" where
  "closing_steps faults requests_close graph_close =
     (case faults of None \<Rightarrow> [] | Some f \<Rightarrow> [(''faults'', f)])
     @ (case requests_close of None \<Rightarrow> [] | Some c \<Rightarrow> [(''requests'', c)])
     @ (case graph_close of None \<Rightarrow> [] | Some c \<Rightarrow> [(''graph'', c)])"

fun run_steps :: "'w step list \<Rightarrow> 'w \<Rightarrow> string list \<Rightarrow> string list \<Rightarrow> 'w \<times> string list \<times> string list"
where
  "run_steps [] w done_names failed = (w, done_names, failed)"
| "run_steps ((name, step) # steps) w done_names failed =
     (case step w of
        (w', Inl e) \<Rightarrow> run_steps steps w' done_names (failed @ [name @ '' ('' @ exn_type e @ '')''])
      | (w', Inr _) \<Rightarrow> run_steps steps w' (done_names @ [name]) failed)"

definition closing_detail :: "string list \<Rightarrow> string list \<Rightarrow> string list \<Rightarrow> string" where
  "closing_detail unfinished done_names failed =
     (let parts = (if unfinished \<noteq> [] then [''left '' @ join_strs '', '' unfinished] else [])
            @ (if done_names \<noteq> [] then [''closed '' @ join_strs '', '' done_names] else [])
            @ (if failed \<noteq> [] then [''NOT closed '' @ join_strs '', '' failed] else []);
          text = join_strs ''; '' parts
      in if text = [] then ''nothing to close'' else text)"

text \<open>
  \<open>finish\<close> with the signal and the clock as they read when the line is written: the world, the
  closing line and whether the stop was clean.
\<close>

definition stop_finish ::
  "('w \<Rightarrow> stop_signal) \<Rightarrow> ('w \<Rightarrow> rat) \<Rightarrow> string \<Rightarrow> 'w step list \<Rightarrow> string list \<Rightarrow> 'w
     \<Rightarrow> 'w \<times> string \<times> bool" where
  "stop_finish signal clock agent steps unfinished w =
     (case run_steps steps w [] [] of (w', done_names, failed) \<Rightarrow>
        let problems = length unfinished + length failed
        in (w',
            ''['' @ agent @ ''] stopped on '' @ stp_reason (signal w') @ '' after ''
              @ fixed_text 1 (seconds_since_request (clock w') (signal w')) @ '' s: ''
              @ closing_detail unfinished done_names failed
              @ ''; exit '' @ str_nat (min problems 1) @ [CHR 0x0A],
            problems = 0))"

definition end_loop ::
  "('w \<Rightarrow> stop_signal) \<Rightarrow> ('w \<Rightarrow> rat) \<Rightarrow> string \<Rightarrow> 'w step list \<Rightarrow> 'w \<Rightarrow> 'w \<times> string \<times> unit res" where
  "end_loop signal clock agent steps w =
     (case stop_finish signal clock agent steps [] w of (w', line, clean) \<Rightarrow>
        (w', line, if clean then Inr () else Inl (PyExn ''SystemExit'' ''1'')))"

section \<open>Properties\<close>

lemma stop_request_once:
  "stp_requested s \<Longrightarrow> stop_request now reason s = s"
  by (simp add: stop_request_def)

lemma stop_request_requested [simp]: "stp_requested (stop_request now reason s)"
  by (simp add: stop_request_def)

text \<open>A signal asked for once keeps its first reason and time through any later requests.\<close>

lemma stop_request_first:
  assumes "\<not> stp_requested s"
  shows "fold (\<lambda>(t, r) s. stop_request t r s) ((now, reason) # later) s =
     \<lparr>stp_requested = True, stp_requested_at = now, stp_reason = reason\<rparr>"
proof -
  have *: "fold (\<lambda>(t, r) s. stop_request t r s) later s = s" if "stp_requested s" for s
    using that by (induction later) (auto simp: stop_request_once)
  have "stop_request now reason s =
      \<lparr>stp_requested = True, stp_requested_at = now, stp_reason = reason\<rparr>"
    using assms by (cases s) (simp add: stop_request_def)
  then show ?thesis using * by simp
qed

lemma wait_until_returns:
  assumes wait: "\<And>t w. 0 < t \<Longrightarrow> sc_requested c (sc_event_wait c t w)
      \<or> sc_monotonic c w + t \<le> sc_monotonic c (sc_event_wait c t w)"
    and "deadline - sc_monotonic c w \<le> of_nat n"
  shows "\<exists>w'. wait_until (Suc n) c deadline w = Some w'
    \<and> (sc_requested c w' \<or> deadline \<le> sc_monotonic c w')"
  using assms(2)
proof (induction n arbitrary: w)
  case (Suc n)
  show ?case
  proof (cases "sc_requested c w \<or> deadline - sc_monotonic c w \<le> 0")
    case False
    let ?t = "min (deadline - sc_monotonic c w) wake_seconds"
    let ?w = "sc_event_wait c ?t w"
    have t: "0 < ?t" using False by (auto simp: wake_seconds_def)
    from wait [OF this, of w] show ?thesis
    proof
      assume "sc_requested c ?w"
      then show ?thesis using False by (simp add: Let_def)
    next
      assume adv: "sc_monotonic c w + ?t \<le> sc_monotonic c ?w"
      have "deadline - sc_monotonic c ?w \<le> of_nat n"
        using adv Suc.prems by (auto simp: wake_seconds_def min_def split: if_splits)
      from Suc.IH [OF this] obtain w' where "wait_until (Suc n) c deadline ?w = Some w'"
        "sc_requested c w' \<or> deadline \<le> sc_monotonic c w'" by blast
      then show ?thesis using False by (subst wait_until.simps) (auto simp: Let_def)
    qed
  qed (auto simp: Let_def)
qed (auto simp: Let_def)

lemma run_steps_acc:
  "run_steps steps w dn fl =
     (let (w', d, f) = run_steps steps w [] [] in (w', dn @ d, fl @ f))"
proof (induction steps arbitrary: w dn fl)
  case (Cons s steps)
  obtain name step where s: "s = (name, step)" by (cases s)
  show ?case
  proof (cases "step w")
    case (Pair w' r)
    show ?thesis
      using Cons.IH [of w' dn "fl @ _"] Cons.IH [of w' "dn @ _" fl]
        Cons.IH [of w' "[]" "[_]"] Cons.IH [of w' "[_]" "[]"]
      by (cases r) (auto simp: s Pair Let_def split: prod.splits)
  qed
qed simp

lemma run_steps_world:
  "fst (run_steps steps w dn fl) = fold (\<lambda>(name, step) w. fst (step w)) steps w"
  by (induction steps w dn fl rule: run_steps.induct) (auto split: prod.splits sum.splits)

lemma run_steps_count:
  "run_steps steps w dn fl = (w', d, f) \<Longrightarrow> length d + length f = length steps + length dn + length fl"
  by (induction steps w dn fl rule: run_steps.induct) (auto split: prod.splits sum.splits)

text \<open>What each step comes to, each run in the world the one before it left.\<close>

fun step_outcomes :: "'w step list \<Rightarrow> 'w \<Rightarrow> (string \<times> unit res) list" where
  "step_outcomes [] w = []"
| "step_outcomes ((name, step) # steps) w = (name, snd (step w)) # step_outcomes steps (fst (step w))"

definition succeeded :: "(string \<times> unit res) list \<Rightarrow> string list" where
  "succeeded outs = [name. (name, Inr u) \<leftarrow> outs]"

definition raised :: "(string \<times> unit res) list \<Rightarrow> string list" where
  "raised outs = [name @ '' ('' @ exn_type e @ '')''. (name, Inl e) \<leftarrow> outs]"

lemma run_steps_outcomes:
  "run_steps steps w dn fl =
     (fold (\<lambda>(name, step) w. fst (step w)) steps w,
      dn @ succeeded (step_outcomes steps w), fl @ raised (step_outcomes steps w))"
  by (induction steps w dn fl rule: run_steps.induct)
    (auto simp: succeeded_def raised_def split: prod.splits sum.splits)

lemma raised_empty: "raised outs = [] \<longleftrightarrow> (\<forall>(name, r) \<in> set outs. r = Inr ())"
proof (induction outs)
  case (Cons x outs)
  then show ?case by (cases x, cases "snd x") (auto simp: raised_def)
qed (simp add: raised_def)

text \<open>
  Closing a stopped loop runs every closing step once, in order, each whether or not an
  earlier one raised; the stop is reported clean exactly when no work was left and no step
  raised; and \<open>end_loop\<close> ends the process with status 1 exactly when the stop was not clean.
\<close>

lemma finish_runs_every_step:
  "(case stop_finish signal clock agent steps unfinished w of (w', line, clean) \<Rightarrow>
      w' = fold (\<lambda>(name, step) w. fst (step w)) steps w
      \<and> (clean \<longleftrightarrow> unfinished = [] \<and> (\<forall>(name, r) \<in> set (step_outcomes steps w). r = Inr ()))
      \<and> line = ''['' @ agent @ ''] stopped on '' @ stp_reason (signal w') @ '' after ''
            @ fixed_text 1 (seconds_since_request (clock w') (signal w')) @ '' s: ''
            @ closing_detail unfinished (succeeded (step_outcomes steps w)) (raised (step_outcomes steps w))
            @ ''; exit '' @ (if clean then ''0'' else ''1'') @ [CHR 0x0A])
   \<and> (snd (snd (end_loop signal clock agent steps w)) = Inl (PyExn ''SystemExit'' ''1'')
        \<longleftrightarrow> (\<exists>(name, r) \<in> set (step_outcomes steps w). r \<noteq> Inr ()))"
proof -
  let ?f = "raised (step_outcomes steps w)"
  have one: "char_of (49 :: nat) = CHR ''1''" and zero: "char_of (48 :: nat) = CHR ''0''"
    by code_simp+
  have exit: "str_nat (min (length unfinished + length ?f) 1) =
      (if unfinished = [] \<and> ?f = [] then ''0'' else ''1'')"
  proof (cases "length unfinished + length ?f = 0")
    case False
    then have "min (length unfinished + length ?f) 1 = 1" by linarith
    with False show ?thesis by (auto simp: str_nat_def nat_digits.simps one)
  qed (simp add: str_nat_def nat_digits.simps zero)
  show ?thesis
    using raised_empty [of "step_outcomes steps w"] exit
    by (auto simp: stop_finish_def end_loop_def run_steps_outcomes Let_def)
qed

text \<open>
  The sliced sleep ends: after at most one slice per second of the sleep it returns, and then
  either a stop was asked for or the whole time has passed.  The event's own wait is only
  assumed to end by a set flag or by its timeout.
\<close>

theorem stop_wait_returns:
  assumes "\<And>t w. 0 < t \<Longrightarrow> sc_requested c (sc_event_wait c t w)
      \<or> sc_monotonic c w + t \<le> sc_monotonic c (sc_event_wait c t w)"
  shows "\<exists>w'. stop_wait (Suc (nat \<lceil>seconds\<rceil>)) c seconds w = Some w'
    \<and> (sc_requested c w' \<or> sc_monotonic c w + seconds \<le> sc_monotonic c w')"
proof -
  have "max seconds 0 \<le> of_nat (nat \<lceil>seconds\<rceil>)"
    by (cases "0 \<le> seconds") (auto simp: max_def le_of_int_ceiling)
  then have "sc_monotonic c w + max seconds 0 - sc_monotonic c w \<le> of_nat (nat \<lceil>seconds\<rceil>)" by simp
  from wait_until_returns [OF assms this] show ?thesis
    unfolding stop_wait_def by fastforce
qed

end
