(* ===== verification/WorkLoop.thy ===== *)
theory WorkLoop
  imports Vocabulary StopSignal
begin

text \<open>
  The graph-pull work loop (\<open>kernel/work_loop.py\<close>) with its retry ledger
  (\<open>work_loop_state.py\<close>), retry policy (\<open>work_loop_policy.py\<close>) and quarantine markers
  (\<open>work_loop_quarantine.py\<close>).

  The callbacks the loop is given are functions of a world \<open>'w\<close> that holds whatever they
  read and change: the graph, the clock, the stop signal.  Seconds are exact rationals.
\<close>

section \<open>The retry policy\<close>

record work_policy =
  wp_poll_interval :: rat
  wp_backoff_base :: rat
  wp_backoff_multiplier :: rat
  wp_backoff_ceiling :: rat
  wp_max_attempts :: int

text \<open>The field bounds and the model validator; a policy outside them is not constructed.\<close>

definition policy_valid :: "work_policy \<Rightarrow> bool" where
  "policy_valid p \<longleftrightarrow> 0 < wp_poll_interval p \<and> 0 < wp_backoff_base p \<and> 1 < wp_backoff_multiplier p
     \<and> 0 < wp_backoff_ceiling p \<and> 1 \<le> wp_max_attempts p \<and> wp_backoff_base p \<le> wp_backoff_ceiling p"

definition default_work_policy :: work_policy where
  "default_work_policy = \<lparr>wp_poll_interval = 60, wp_backoff_base = 60, wp_backoff_multiplier = 2,
     wp_backoff_ceiling = 900, wp_max_attempts = 5\<rparr>"

definition resolve_policy :: "work_policy \<Rightarrow> rat option \<Rightarrow> work_policy" where
  "resolve_policy p poll_interval =
     (case poll_interval of None \<Rightarrow> p | Some t \<Rightarrow> p\<lparr>wp_poll_interval := t\<rparr>)"

definition backoff_delay :: "work_policy \<Rightarrow> int \<Rightarrow> rat" where
  "backoff_delay p attempts =
     min (wp_backoff_base p * wp_backoff_multiplier p ^ nat (max (attempts - 1) 0))
       (wp_backoff_ceiling p)"

section \<open>Quarantine markers\<close>

record 'w quarantine_port =
  qp_check :: "'w \<Rightarrow> string \<Rightarrow> bool"
  qp_mark :: "'w \<Rightarrow> string \<Rightarrow> int \<Rightarrow> string \<Rightarrow> 'w \<times> bool res"

definition quarantine_label :: string where
  "quarantine_label = ''WorkItemQuarantine''"

definition quarantine_key :: "string \<Rightarrow> string \<Rightarrow> string" where
  "quarantine_key agent item_key = ''work-quarantine:'' @ agent @ '':'' @ item_key"

definition graph_is_quarantined :: "string \<Rightarrow> 's graph_port \<Rightarrow> 's \<Rightarrow> string \<Rightarrow> bool" where
  "graph_is_quarantined agent port s item_key =
     (gp_get port s quarantine_label (quarantine_key agent item_key) \<noteq> None)"

definition quarantine_props :: "string \<Rightarrow> string \<Rightarrow> int \<Rightarrow> string \<Rightarrow> timestamp \<Rightarrow> props" where
  "quarantine_props agent item_key attempts reason now =
     [(''source_agent'', PStr agent), (''item_key'', PStr item_key), (''attempts'', PInt attempts),
      (''reason'', PStr reason), (''status'', PStr ''quarantined''),
      (''quarantined_at'', PStr (isoformat now))]"

definition graph_quarantine ::
  "string \<Rightarrow> ('s \<Rightarrow> timestamp) \<Rightarrow> 's graph_port \<Rightarrow> 's \<Rightarrow> string \<Rightarrow> int \<Rightarrow> string \<Rightarrow> 's \<times> bool res" where
  "graph_quarantine agent wall port s item_key attempts reason =
     (let key = quarantine_key agent item_key
      in if gp_get port s quarantine_label key \<noteq> None then (s, Inr False)
         else case gp_merge port (wall s) s quarantine_label key
                (quarantine_props agent item_key attempts reason (wall s)) 1 of
             (s', Inl e) \<Rightarrow> (s', Inl e)
           | (s', Inr _) \<Rightarrow> (s', Inr True))"

definition graph_quarantine_sink ::
  "string \<Rightarrow> ('s \<Rightarrow> timestamp) \<Rightarrow> 's graph_port \<Rightarrow> 's quarantine_port" where
  "graph_quarantine_sink agent wall port =
     \<lparr>qp_check = graph_is_quarantined agent port, qp_mark = graph_quarantine agent wall port\<rparr>"

section \<open>The retry ledger\<close>

record failure_record =
  fr_attempts :: int
  fr_next_retry_at :: rat
  fr_reason :: string

record retry_state =
  rs_failures :: "(string, failure_record) dict"
  rs_quarantined :: "string list"

definition new_retry_state :: retry_state where
  "new_retry_state = \<lparr>rs_failures = [], rs_quarantined = []\<rparr>"

definition is_quarantined :: "'w quarantine_port option \<Rightarrow> 'w \<Rightarrow> retry_state \<Rightarrow> string \<Rightarrow> bool" where
  "is_quarantined sink w st key \<longleftrightarrow>
     key \<in> set (rs_quarantined st) \<or> (case sink of None \<Rightarrow> False | Some q \<Rightarrow> qp_check q w key)"

definition backing_off :: "retry_state \<Rightarrow> rat \<Rightarrow> string \<Rightarrow> bool" where
  "backing_off st now key =
     (case dict_get (rs_failures st) key of None \<Rightarrow> False | Some r \<Rightarrow> now < fr_next_retry_at r)"

fun eligible_items ::
  "'w quarantine_port option \<Rightarrow> 'w \<Rightarrow> retry_state \<Rightarrow> rat \<Rightarrow> ('i \<Rightarrow> string) \<Rightarrow> 'i list \<Rightarrow> 'i list \<times> nat"
where
  "eligible_items sink w st now item_key [] = ([], 0)"
| "eligible_items sink w st now item_key (item # items) =
     (let (ready, skipped) = eligible_items sink w st now item_key items; key = item_key item
      in if is_quarantined sink w st key then (ready, skipped + 1)
         else if backing_off st now key then (ready, skipped + 1)
         else (item # ready, skipped))"

definition record_success :: "retry_state \<Rightarrow> string \<Rightarrow> retry_state" where
  "record_success st key = st\<lparr>rs_failures := dict_pop key (rs_failures st)\<rparr>"

definition record_failure ::
  "'w quarantine_port option \<Rightarrow> 'w \<times> retry_state \<Rightarrow> string \<Rightarrow> rat \<Rightarrow> work_policy \<Rightarrow> string
     \<Rightarrow> ('w \<times> retry_state) \<times> (bool \<times> rat option) res" where
  "record_failure sink ws key now p reason =
     (case ws of (w, st) \<Rightarrow>
        if is_quarantined sink w st key then ((w, st), Inr (False, None))
        else
          let attempts = (case dict_get (rs_failures st) key of None \<Rightarrow> 0 | Some r \<Rightarrow> fr_attempts r) + 1
          in if wp_max_attempts p \<le> attempts
             then
               let st' = st\<lparr>rs_failures := dict_pop key (rs_failures st),
                            rs_quarantined := List.insert key (rs_quarantined st)\<rparr>
               in (case sink of
                     None \<Rightarrow> ((w, st'), Inr (True, None))
                   | Some q \<Rightarrow> (case qp_mark q w key attempts reason of
                        (w', Inl e) \<Rightarrow> ((w', st'), Inl e)
                      | (w', Inr _) \<Rightarrow> ((w', st'), Inr (True, None))))
             else
               let delay = backoff_delay p attempts
               in ((w, st\<lparr>rs_failures := dict_set key
                      \<lparr>fr_attempts = attempts, fr_next_retry_at = now + delay, fr_reason = reason\<rparr>
                      (rs_failures st)\<rparr>),
                   Inr (False, Some delay)))"

definition next_ready_delay :: "retry_state \<Rightarrow> rat \<Rightarrow> ('i \<Rightarrow> string) \<Rightarrow> 'i list \<Rightarrow> rat option" where
  "next_ready_delay st now item_key items =
     (let delays = List.map_filter (\<lambda>item. case dict_get (rs_failures st) (item_key item) of
              None \<Rightarrow> None
            | Some r \<Rightarrow> if now < fr_next_retry_at r then Some (fr_next_retry_at r - now) else None) items
      in if delays = [] then None else Some (min_list delays))"

text \<open>Graph nodes, work items that wrap one, and anything else by its \<open>repr\<close>.\<close>

datatype work_item = NodeItem gnode | WrappedItem "string option" gnode | OtherItem string

fun default_work_item_key :: "work_item \<Rightarrow> string" where
  "default_work_item_key (WrappedItem kind n) =
     (case kind of None \<Rightarrow> [] | Some k \<Rightarrow> k @ '':'') @ gn_label n @ '':'' @ gn_key n"
| "default_work_item_key (NodeItem n) = gn_label n @ '':'' @ gn_key n"
| "default_work_item_key (OtherItem r) = r"

section \<open>One pass\<close>

record ('w, 'i) work_env =
  we_find :: "'w \<Rightarrow> 'w \<times> ('i list) res"
  we_process :: "'i \<Rightarrow> 'w \<Rightarrow> 'w \<times> unit res"
  we_key :: "'i \<Rightarrow> string"
  we_stop :: "'w \<Rightarrow> bool"
  we_clock :: "'w \<Rightarrow> rat"
  we_sink :: "'w quarantine_port option"

record 'i tally =
  ta_completed :: "'i list"
  ta_attempted :: nat
  ta_failed :: nat
  ta_advanced :: nat
  ta_no_progress :: nat
  ta_quarantined :: nat
  ta_delays :: "rat list"

definition new_tally :: "'i tally" where
  "new_tally = \<lparr>ta_completed = [], ta_attempted = 0, ta_failed = 0, ta_advanced = 0,
     ta_no_progress = 0, ta_quarantined = 0, ta_delays = []\<rparr>"

record run_result =
  rr_found :: nat
  rr_attempted :: nat
  rr_advanced :: nat
  rr_failed :: nat
  rr_no_progress :: nat
  rr_skipped :: nat
  rr_quarantined :: nat
  rr_next_retry_delay :: "rat option"

definition made_progress :: "run_result \<Rightarrow> bool" where
  "made_progress r \<longleftrightarrow> 0 < rr_advanced r"

text \<open>What \<open>record_failure\<close> answered, entered in the tally.\<close>

definition tally_failure :: "bool \<times> rat option \<Rightarrow> 'i tally \<Rightarrow> 'i tally" where
  "tally_failure out ta =
     ta\<lparr>ta_quarantined := ta_quarantined ta + (if fst out then 1 else 0),
        ta_delays := ta_delays ta @ (case snd out of None \<Rightarrow> [] | Some d \<Rightarrow> [d])\<rparr>"

fun attempt_items ::
  "('w, 'i) work_env \<Rightarrow> work_policy \<Rightarrow> rat \<Rightarrow> 'i list \<Rightarrow> 'w \<times> retry_state \<Rightarrow> 'i tally
     \<Rightarrow> ('w \<times> retry_state) \<times> 'i tally res" where
  "attempt_items env p now [] ws ta = (ws, Inr ta)"
| "attempt_items env p now (item # items) (w, st) ta =
     (if we_stop env w then ((w, st), Inr ta)
      else let ta = ta\<lparr>ta_attempted := ta_attempted ta + 1\<rparr> in
        case we_process env item w of
          (w1, Inr _) \<Rightarrow> attempt_items env p now items (w1, st)
             (ta\<lparr>ta_completed := ta_completed ta @ [item]\<rparr>)
        | (w1, Inl e) \<Rightarrow>
            (case record_failure (we_sink env) (w1, st) (we_key env item) now p
                    (exn_type e @ '': '' @ exn_text e) of
               (ws, Inl e') \<Rightarrow> (ws, Inl e')
             | (ws, Inr out) \<Rightarrow> attempt_items env p now items ws
                 (tally_failure out (ta\<lparr>ta_failed := ta_failed ta + 1\<rparr>))))"

fun settle_items ::
  "('w, 'i) work_env \<Rightarrow> work_policy \<Rightarrow> rat \<Rightarrow> string list \<Rightarrow> 'i list \<Rightarrow> 'w \<times> retry_state \<Rightarrow> 'i tally
     \<Rightarrow> ('w \<times> retry_state) \<times> 'i tally res" where
  "settle_items env p now remaining [] ws ta = (ws, Inr ta)"
| "settle_items env p now remaining (item # items) (w, st) ta =
     (let key = we_key env item in
      if key \<in> set remaining
      then (case record_failure (we_sink env) (w, st) key now p ''still pending after processing'' of
              (ws, Inl e) \<Rightarrow> (ws, Inl e)
            | (ws, Inr out) \<Rightarrow> settle_items env p now remaining items ws
                (tally_failure out (ta\<lparr>ta_no_progress := ta_no_progress ta + 1\<rparr>)))
      else settle_items env p now remaining items (w, record_success st key)
             (ta\<lparr>ta_advanced := ta_advanced ta + 1\<rparr>))"

definition pass_result :: "nat \<Rightarrow> nat \<Rightarrow> rat option \<Rightarrow> 'i tally \<Rightarrow> run_result" where
  "pass_result found skipped ready_delay ta =
     \<lparr>rr_found = found, rr_attempted = ta_attempted ta, rr_advanced = ta_advanced ta,
      rr_failed = ta_failed ta, rr_no_progress = ta_no_progress ta, rr_skipped = skipped,
      rr_quarantined = ta_quarantined ta,
      rr_next_retry_delay = (if ta_delays ta \<noteq> [] then Some (min_list (ta_delays ta)) else ready_delay)\<rparr>"

definition run_once ::
  "('w, 'i) work_env \<Rightarrow> work_policy \<Rightarrow> 'w \<times> retry_state \<Rightarrow> ('w \<times> retry_state) \<times> run_result res" where
  "run_once env p ws =
     (case ws of (w, st) \<Rightarrow>
      let now = we_clock env w in
      case we_find env w of
        (w1, Inl e) \<Rightarrow> ((w1, st), Inl e)
      | (w1, Inr items) \<Rightarrow>
         (case eligible_items (we_sink env) w1 st now (we_key env) items of (ready, skipped) \<Rightarrow>
          case attempt_items env p now ready (w1, st) new_tally of
            (ws2, Inl e) \<Rightarrow> (ws2, Inl e)
          | ((w2, st2), Inr ta) \<Rightarrow>
             (case we_find env w2 of
                (w3, Inl e) \<Rightarrow> ((w3, st2), Inl e)
              | (w3, Inr still) \<Rightarrow>
                 (case settle_items env p now (map (we_key env) still) (ta_completed ta) (w3, st2) ta of
                    (ws4, Inl e) \<Rightarrow> (ws4, Inl e)
                  | ((w4, st4), Inr ta') \<Rightarrow>
                      ((w4, st4), Inr (pass_result (length items) skipped
                         (next_ready_delay st4 now (we_key env) items) ta'))))))"

section \<open>The loop\<close>

record 'w loop_env =
  le_signal :: "'w \<Rightarrow> stop_signal"
  le_signal_clock :: "'w \<Rightarrow> rat"
  le_pause :: "rat \<Rightarrow> 'w \<Rightarrow> 'w"
  le_flush :: "('w \<Rightarrow> 'w \<times> unit res) option"
  le_graph_close :: "('w \<Rightarrow> 'w \<times> unit res) option"
  le_max_iterations :: "int option"

definition sleep_duration :: "rat \<Rightarrow> run_result \<Rightarrow> rat" where
  "sleep_duration poll_interval r =
     (case rr_next_retry_delay r of None \<Rightarrow> poll_interval | Some d \<Rightarrow> min poll_interval d)"

definition loop_goes_on :: "'w loop_env \<Rightarrow> 'w \<Rightarrow> run_result list \<Rightarrow> bool" where
  "loop_goes_on l w results \<longleftrightarrow> \<not> stp_requested (le_signal l w)
     \<and> (case le_max_iterations l of None \<Rightarrow> True | Some m \<Rightarrow> int (length results) < m)"

definition flush_faults :: "'w loop_env \<Rightarrow> 'w \<Rightarrow> 'w \<times> unit res" where
  "flush_faults l w = (case le_flush l of None \<Rightarrow> (w, Inr ()) | Some f \<Rightarrow> f w)"

definition after_pass :: "'w loop_env \<Rightarrow> work_policy \<Rightarrow> run_result \<Rightarrow> 'w \<Rightarrow> 'w \<times> unit res" where
  "after_pass l p r w =
     (case (if rr_quarantined r \<noteq> 0 then flush_faults l w else (w, Inr ())) of
        (w', Inl e) \<Rightarrow> (w', Inl e)
      | (w', Inr _) \<Rightarrow>
          (if made_progress r then w' else le_pause l (sleep_duration (wp_poll_interval p) r) w', Inr ()))"

text \<open>\<open>None\<close> is a loop still running when the fuel is spent.\<close>

fun work_passes ::
  "nat \<Rightarrow> ('w, 'i) work_env \<Rightarrow> 'w loop_env \<Rightarrow> work_policy \<Rightarrow> run_result list \<Rightarrow> 'w \<times> retry_state
     \<Rightarrow> (('w \<times> retry_state) \<times> (run_result list) res) option" where
  "work_passes 0 env l p results ws = None"
| "work_passes (Suc fuel) env l p results (w, st) =
     (if \<not> loop_goes_on l w results then Some ((w, st), Inr results)
      else case run_once env p (w, st) of
          (ws1, Inl e) \<Rightarrow> Some (ws1, Inl e)
        | ((w1, st1), Inr r) \<Rightarrow>
            (case after_pass l p r w1 of
               (w2, Inl e) \<Rightarrow> Some ((w2, st1), Inl e)
             | (w2, Inr _) \<Rightarrow> work_passes fuel env l p (results @ [r]) (w2, st1)))"

definition work_end ::
  "'w loop_env \<Rightarrow> string \<Rightarrow> 'w \<Rightarrow> 'w \<times> unit res" where
  "work_end l name w =
     (if stp_requested (le_signal l w)
      then case end_loop (le_signal l) (le_signal_clock l) name
                  (closing_steps (le_flush l) None (le_graph_close l)) w of
             (w', line, r) \<Rightarrow> (w', r)
      else flush_faults l w)"

definition work_loop ::
  "nat \<Rightarrow> ('w, 'i) work_env \<Rightarrow> 'w loop_env \<Rightarrow> work_policy \<Rightarrow> rat option \<Rightarrow> string \<Rightarrow> 'w \<times> retry_state
     \<Rightarrow> (('w \<times> retry_state) \<times> (run_result list) res) option" where
  "work_loop fuel env l p poll_interval name ws =
     (case work_passes fuel (env\<lparr>we_stop := \<lambda>w. stp_requested (le_signal l w)\<rparr>) l
             (resolve_policy p poll_interval) [] ws of
        None \<Rightarrow> None
      | Some (ws', Inl e) \<Rightarrow> Some (ws', Inl e)
      | Some ((w, st), Inr results) \<Rightarrow>
          (case work_end l name w of
             (w', Inl e) \<Rightarrow> Some ((w', st), Inl e)
           | (w', Inr _) \<Rightarrow> Some ((w', st), Inr results)))"

section \<open>The contract of a quarantine sink\<close>

locale quarantine_sink =
  fixes sink :: "'w quarantine_port"
    and ok :: "'w \<Rightarrow> bool"
  assumes mark_ok: "ok w \<Longrightarrow> ok (fst (qp_mark sink w key n reason))"
    and marked: "ok w \<Longrightarrow> qp_mark sink w key n reason = (w', Inr b) \<Longrightarrow> qp_check sink w' key"
    and marked_before: "qp_check sink w key \<Longrightarrow> qp_mark sink w key n reason = (w, Inr False)"
    and check_mark: "ok w \<Longrightarrow> k \<noteq> key \<Longrightarrow>
      qp_check sink (fst (qp_mark sink w key n reason)) k = qp_check sink w k"

text \<open>A sink that never refuses a new marker.\<close>

locale reliable_sink = quarantine_sink +
  assumes mark_succeeds: "ok w \<Longrightarrow> \<not> qp_check sink w key \<Longrightarrow>
      \<exists>w'. qp_mark sink w key n reason = (w', Inr True)"

text \<open>Any graph store makes the graph sink one.\<close>

lemma quarantine_props_wf: "dict_wf (quarantine_props agent item_key n reason now)"
  by (simp add: quarantine_props_def dict_wf_def)

lemma quarantine_key_inj [simp]: "quarantine_key agent k = quarantine_key agent k' \<longleftrightarrow> k = k'"
  by (simp add: quarantine_key_def)

context graph_store begin

lemma merge_result:
  assumes "gp_merge port now s label key p version = (s', r)" "ok s" "dict_wf p"
  shows "ok s'"
    and "gp_get port s' l k = (case r of Inl e \<Rightarrow> gp_get port s l k
           | Inr n \<Rightarrow> if (l, k) = (label, key) then Some n else gp_get port s l k)"
  using merge_ok [OF assms(2,3)] merge_get [OF assms(2,3), of now label key version l k] assms(1)
  by (metis fst_conv, simp)

lemma graph_sink: "quarantine_sink (graph_quarantine_sink agent wall port) ok"
  by unfold_locales
    (auto simp: graph_quarantine_sink_def graph_quarantine_def graph_is_quarantined_def Let_def
      merge_result [OF _ _ quarantine_props_wf]
      split: prod.splits sum.splits if_splits)

end

sublocale graph_store \<subseteq> sink: quarantine_sink "graph_quarantine_sink agent wall port" ok for agent wall
  by (rule graph_sink)

lemma mem_quarantine_succeeds:
  assumes "\<not> qp_check (graph_quarantine_sink agent wall mem_port) s key"
  shows "\<exists>s'. qp_mark (graph_quarantine_sink agent wall mem_port) s key n reason = (s', Inr True)"
  using assms
  by (auto simp: graph_quarantine_sink_def graph_quarantine_def graph_is_quarantined_def Let_def
      merge_node_def merge_core_def get_node_def)

interpretation mem_sink: reliable_sink "graph_quarantine_sink agent wall mem_port" store_wf for agent wall
  by unfold_locales (rule mem_quarantine_succeeds)

interpretation guarded_sink:
  quarantine_sink "graph_quarantine_sink agent wall (guarded_port voc writer mem_port)" store_wf
  for agent wall voc writer
  by (rule guarded_mem.sink.quarantine_sink_axioms)

section \<open>Backoff\<close>

lemma backoff_delay_bounds:
  assumes "policy_valid p"
  shows "wp_backoff_base p \<le> backoff_delay p n" and "backoff_delay p n \<le> wp_backoff_ceiling p"
    and "0 < backoff_delay p n"
proof -
  have "1 \<le> wp_backoff_multiplier p ^ k" for k
    using assms by (simp add: policy_valid_def)
  then have "wp_backoff_base p * 1 \<le> wp_backoff_base p * wp_backoff_multiplier p ^ k" for k
    using assms by (intro mult_left_mono) (auto simp: policy_valid_def)
  then show "wp_backoff_base p \<le> backoff_delay p n"
    using assms by (simp add: backoff_delay_def policy_valid_def)
  then show "0 < backoff_delay p n" using assms by (simp add: policy_valid_def)
  show "backoff_delay p n \<le> wp_backoff_ceiling p" by (simp add: backoff_delay_def)
qed

lemma backoff_delay_mono:
  assumes "policy_valid p" "m \<le> n"
  shows "backoff_delay p m \<le> backoff_delay p n"
proof -
  have "wp_backoff_multiplier p ^ nat (max (m - 1) 0) \<le> wp_backoff_multiplier p ^ nat (max (n - 1) 0)"
    using assms by (intro power_increasing) (auto simp: policy_valid_def)
  then have "wp_backoff_base p * wp_backoff_multiplier p ^ nat (max (m - 1) 0)
      \<le> wp_backoff_base p * wp_backoff_multiplier p ^ nat (max (n - 1) 0)"
    using assms by (intro mult_left_mono) (auto simp: policy_valid_def)
  then show ?thesis by (auto simp: backoff_delay_def min_le_iff_disj)
qed

section \<open>A poisoned item\<close>

text \<open>One failure after another of the same item, and what each is answered.\<close>

fun record_failures ::
  "'w quarantine_port option \<Rightarrow> work_policy \<Rightarrow> string \<Rightarrow> (rat \<times> string) list \<Rightarrow> 'w \<times> retry_state
     \<Rightarrow> ('w \<times> retry_state) \<times> (bool \<times> rat option) res list" where
  "record_failures sink p key [] ws = (ws, [])"
| "record_failures sink p key ((now, reason) # fs) ws =
     (let (ws', out) = record_failure sink ws key now p reason;
          (ws'', outs) = record_failures sink p key fs ws'
      in (ws'', out # outs))"

definition failure_answer :: "work_policy \<Rightarrow> int \<Rightarrow> bool \<times> rat option" where
  "failure_answer p n =
     (if n < wp_max_attempts p then (False, Some (backoff_delay p n))
      else if n = wp_max_attempts p then (True, None) else (False, None))"

definition failure_answers :: "work_policy \<Rightarrow> int \<Rightarrow> nat \<Rightarrow> (bool \<times> rat option) res list" where
  "failure_answers p a n = map (\<lambda>i. Inr (failure_answer p (a + int i + 1))) [0..<n]"

lemma failure_answers_simps [simp]:
  "failure_answers p a 0 = []"
  "failure_answers p a (Suc n) = Inr (failure_answer p (a + 1)) # failure_answers p (a + 1) n"
  unfolding failure_answers_def upt_conv_Cons [OF zero_less_Suc] map_Suc_upt [symmetric]
  by (simp_all add: algebra_simps)

lemma failure_answers_after:
  "wp_max_attempts p \<le> a \<Longrightarrow> failure_answers p a n = replicate n (Inr (False, None))"
  by (simp add: failure_answers_def failure_answer_def map_replicate_const)

definition attempts_of :: "retry_state \<Rightarrow> string \<Rightarrow> int" where
  "attempts_of st key = (case dict_get (rs_failures st) key of None \<Rightarrow> 0 | Some r \<Rightarrow> fr_attempts r)"

lemma record_failure_quarantined:
  "is_quarantined sink w st key \<Longrightarrow> record_failure sink (w, st) key now p reason = ((w, st), Inr (False, None))"
  by (simp add: record_failure_def)

lemma record_failures_quarantined:
  "is_quarantined sink w st key \<Longrightarrow>
     record_failures sink p key fs (w, st) = ((w, st), replicate (length fs) (Inr (False, None)))"
  by (induction fs) (auto simp: record_failure_quarantined)

lemma record_failure_retry:
  assumes "\<not> is_quarantined sink w st key" "attempts_of st key + 1 < wp_max_attempts p"
  obtains st' where
    "record_failure sink (w, st) key now p reason
       = ((w, st'), Inr (False, Some (backoff_delay p (attempts_of st key + 1))))"
    "attempts_of st' key = attempts_of st key + 1" "\<not> is_quarantined sink w st' key"
  using assms
  by (auto simp: record_failure_def Let_def attempts_of_def is_quarantined_def dict_simps
      split: option.splits intro!: that)

context reliable_sink begin

lemma record_failure_cap:
  assumes "ok w" "\<not> is_quarantined (Some sink) w st key" "wp_max_attempts p \<le> attempts_of st key + 1"
  obtains w' st' where
    "record_failure (Some sink) (w, st) key now p reason = ((w', st'), Inr (True, None))"
    "is_quarantined (Some sink) w' st' key"
proof -
  have "\<not> qp_check sink w key" using assms(2) by (simp add: is_quarantined_def)
  from mark_succeeds [OF assms(1) this]
  obtain w' where mark: "qp_mark sink w key (attempts_of st key + 1) reason = (w', Inr True)" by blast
  have "record_failure (Some sink) (w, st) key now p reason =
      ((w', st\<lparr>rs_failures := dict_pop key (rs_failures st),
               rs_quarantined := List.insert key (rs_quarantined st)\<rparr>), Inr (True, None))"
    using assms(2,3) mark by (simp add: record_failure_def attempts_of_def Let_def split: option.splits)
  then show ?thesis by (rule that) (simp add: is_quarantined_def)
qed

lemma record_failures_answers:
  assumes "ok w" "\<not> is_quarantined (Some sink) w st key" "attempts_of st key = a"
    "a < wp_max_attempts p"
  shows "case record_failures (Some sink) p key fs (w, st) of ((w', st'), outs) \<Rightarrow>
      outs = failure_answers p a (length fs)
      \<and> (is_quarantined (Some sink) w' st' key \<longleftrightarrow> wp_max_attempts p \<le> a + int (length fs))"
  using assms
proof (induction fs arbitrary: w st a)
  case (Cons f fs)
  obtain now reason where f: "f = (now, reason)" by (cases f)
  show ?case
  proof (cases "a + 1 < wp_max_attempts p")
    case True
    with Cons.prems obtain st' where
      step: "record_failure (Some sink) (w, st) key now p reason
         = ((w, st'), Inr (False, Some (backoff_delay p (a + 1))))"
      and "attempts_of st' key = a + 1" "\<not> is_quarantined (Some sink) w st' key"
      using record_failure_retry [of "Some sink" w st key p] by metis
    moreover have "failure_answer p (a + 1) = (False, Some (backoff_delay p (a + 1)))"
      using True by (simp add: failure_answer_def)
    ultimately show ?thesis
      using Cons.IH [of w st' "a + 1"] Cons.prems(1) True
      by (auto simp: f step Let_def split: prod.splits)
  next
    case False
    with Cons.prems have "wp_max_attempts p \<le> attempts_of st key + 1" by simp
    with Cons.prems obtain w' st' where
      step: "record_failure (Some sink) (w, st) key now p reason = ((w', st'), Inr (True, None))"
      and q: "is_quarantined (Some sink) w' st' key"
      by (rule_tac record_failure_cap [of w st key p now reason]) auto
    have max: "wp_max_attempts p = a + 1" using False Cons.prems by simp
    then have "failure_answers p (a + 1) (length fs) = replicate (length fs) (Inr (False, None))"
      by (simp add: failure_answers_after)
    moreover have "failure_answer p (a + 1) = (True, None)" using max by (simp add: failure_answer_def)
    ultimately have "failure_answers p a (length (f # fs))
        = Inr (True, None) # replicate (length fs) (Inr (False, None))"
      by (simp only: length_Cons failure_answers_simps)
    then show ?thesis
      using q by (simp add: f step record_failures_quarantined [OF q] max)
  qed
qed simp

end

text \<open>
  C24. An item that fails again and again gets its whole retry budget and no more: with the graph
  sink on the in-memory store, attempt number i is answered with the i-th backoff delay while
  i is below the policy's cap, attempt number cap writes the marker and reports the quarantine,
  every later failure is refused, and the item is quarantined exactly when the cap is reached.
\<close>

theorem poisoned_item_capped:
  assumes "store_wf w" "\<not> is_quarantined (Some (graph_quarantine_sink agent wall mem_port)) w st key"
    "dict_get (rs_failures st) key = None" "1 \<le> wp_max_attempts p"
  shows "case record_failures (Some (graph_quarantine_sink agent wall mem_port)) p key fs (w, st) of
      ((w', st'), outs) \<Rightarrow>
        outs = map (\<lambda>i. Inr (if int i < wp_max_attempts p then (False, Some (backoff_delay p (int i)))
                            else if int i = wp_max_attempts p then (True, None) else (False, None)))
                 [1..<Suc (length fs)]
        \<and> (is_quarantined (Some (graph_quarantine_sink agent wall mem_port)) w' st' key
             \<longleftrightarrow> wp_max_attempts p \<le> int (length fs))"
proof -
  have "failure_answers p 0 n = map (\<lambda>i. Inr (if int i < wp_max_attempts p
      then (False, Some (backoff_delay p (int i)))
      else if int i = wp_max_attempts p then (True, None) else (False, None))) [1..<Suc n]" for n
    unfolding failure_answers_def failure_answer_def One_nat_def map_Suc_upt [symmetric]
    by (simp add: add.commute)
  with mem_sink.record_failures_answers [OF assms(1,2), of 0 p fs] assms(3,4)
  show ?thesis by (simp add: attempts_of_def)
qed

lemma poisoned_item_capped_witness:
  "snd (record_failures (Some (graph_quarantine_sink ''scanner'' (\<lambda>s. sample_time) mem_port))
      (default_work_policy\<lparr>wp_max_attempts := 2\<rparr>) ''k'' [(0, ''a''), (60, ''b''), (61, ''c'')]
      (empty_store, new_retry_state))
    = [Inr (False, Some 60), Inr (True, None), Inr (False, None)]"
proof -
  have "\<not> is_quarantined (Some (graph_quarantine_sink ''scanner'' (\<lambda>s. sample_time) mem_port))
      empty_store new_retry_state ''k''"
    by (simp add: is_quarantined_def new_retry_state_def graph_quarantine_sink_def
        graph_is_quarantined_def get_node_def empty_store_def)
  from poisoned_item_capped [OF store_wf_empty this, of "default_work_policy\<lparr>wp_max_attempts := 2\<rparr>"
      "[(0, ''a''), (60, ''b''), (61, ''c'')]"]
  show ?thesis
    by (simp add: new_retry_state_def default_work_policy_def backoff_delay_def upt_rec
        del: record_failures.simps split: prod.splits)
qed

section \<open>What a pass accounts for\<close>

lemma eligible_items_split:
  "eligible_items sink w st now item_key items =
     (filter (\<lambda>i. \<not> is_quarantined sink w st (item_key i) \<and> \<not> backing_off st now (item_key i)) items,
      length (filter (\<lambda>i. is_quarantined sink w st (item_key i) \<or> backing_off st now (item_key i)) items))"
  by (induction items) (auto simp: Let_def)

definition tally_ok :: "'i tally \<Rightarrow> bool" where
  "tally_ok ta \<longleftrightarrow> ta_attempted ta = ta_failed ta + length (ta_completed ta)
     \<and> ta_quarantined ta \<le> ta_failed ta + ta_no_progress ta"

lemma tally_failure_simps [simp]:
  "ta_completed (tally_failure out ta) = ta_completed ta"
  "ta_attempted (tally_failure out ta) = ta_attempted ta"
  "ta_failed (tally_failure out ta) = ta_failed ta"
  "ta_advanced (tally_failure out ta) = ta_advanced ta"
  "ta_no_progress (tally_failure out ta) = ta_no_progress ta"
  by (simp_all add: tally_failure_def)

lemma tally_failure_quarantined: "ta_quarantined (tally_failure out ta) \<le> ta_quarantined ta + 1"
  by (simp add: tally_failure_def)

lemma attempt_items_tally:
  assumes "attempt_items env p now items ws ta = (ws', Inr ta')" "tally_ok ta"
  shows "tally_ok ta' \<and> ta_advanced ta' = ta_advanced ta \<and> ta_no_progress ta' = ta_no_progress ta
    \<and> ta_attempted ta' \<le> ta_attempted ta + length items
    \<and> ((\<forall>w. \<not> we_stop env w) \<longrightarrow> ta_attempted ta' = ta_attempted ta + length items)"
  using assms
proof (induction items arbitrary: ws ta)
  case (Cons item items)
  obtain w st where ws: "ws = (w, st)" by (cases ws)
  let ?ta = "ta\<lparr>ta_attempted := ta_attempted ta + 1\<rparr>"
  show ?case
  proof (cases "we_stop env w")
    case False
    obtain w1 r where run: "we_process env item w = (w1, r)" by (rule prod.exhaust)
    show ?thesis
    proof (cases r)
      case (Inr u)
      with Cons.prems False run
      have "attempt_items env p now items (w1, st) (?ta\<lparr>ta_completed := ta_completed ta @ [item]\<rparr>)
          = (ws', Inr ta')" by (simp add: ws Let_def)
      from Cons.IH [OF this] Cons.prems(2) show ?thesis by (auto simp: tally_ok_def)
    next
      case (Inl e)
      obtain ws1 r1 where rec: "record_failure (we_sink env) (w1, st) (we_key env item) now p
          (exn_type e @ '': '' @ exn_text e) = (ws1, r1)" by (rule prod.exhaust)
      with Cons.prems False run Inl obtain out where "r1 = Inr out"
        by (cases r1) (simp_all add: ws Let_def)
      with Cons.prems False run Inl rec
      have "attempt_items env p now items ws1 (tally_failure out (?ta\<lparr>ta_failed := ta_failed ta + 1\<rparr>))
          = (ws', Inr ta')" by (simp add: ws Let_def)
      from Cons.IH [OF this] Cons.prems(2)
        tally_failure_quarantined [of out "?ta\<lparr>ta_failed := ta_failed ta + 1\<rparr>"]
      show ?thesis by (auto simp: tally_ok_def)
    qed
  qed (use Cons.prems in \<open>auto simp: ws\<close>)
qed simp

lemma settle_items_tally:
  assumes "settle_items env p now remaining items ws ta = (ws', Inr ta')"
    "ta_quarantined ta \<le> ta_failed ta + ta_no_progress ta"
  shows "ta_attempted ta' = ta_attempted ta \<and> ta_failed ta' = ta_failed ta
    \<and> ta_completed ta' = ta_completed ta
    \<and> ta_advanced ta' + ta_no_progress ta' = ta_advanced ta + ta_no_progress ta + length items
    \<and> ta_quarantined ta' \<le> ta_failed ta' + ta_no_progress ta'"
  using assms
proof (induction items arbitrary: ws ta)
  case (Cons item items)
  obtain w st where ws: "ws = (w, st)" by (cases ws)
  show ?case
  proof (cases "we_key env item \<in> set remaining")
    case False
    with Cons.prems have "settle_items env p now remaining items (w, record_success st (we_key env item))
        (ta\<lparr>ta_advanced := ta_advanced ta + 1\<rparr>) = (ws', Inr ta')" by (simp add: ws Let_def)
    from Cons.IH [OF this] Cons.prems(2) show ?thesis by simp
  next
    case True
    obtain ws1 r where step: "record_failure (we_sink env) (w, st) (we_key env item) now p
        ''still pending after processing'' = (ws1, r)" by (rule prod.exhaust)
    with Cons.prems True obtain out where "r = Inr out" by (cases r) (simp_all add: ws Let_def)
    with Cons.prems True step
    have "settle_items env p now remaining items ws1
        (tally_failure out (ta\<lparr>ta_no_progress := ta_no_progress ta + 1\<rparr>)) = (ws', Inr ta')"
      by (simp add: ws Let_def)
    from Cons.IH [OF this] Cons.prems(2)
      tally_failure_quarantined [of out "ta\<lparr>ta_no_progress := ta_no_progress ta + 1\<rparr>"]
    show ?thesis by simp
  qed
qed simp

text \<open>
  A pass that returns accounts for every item: each one attempted either advanced, failed or
  made no progress, at most those that did not advance were quarantined, nothing is attempted
  and skipped at once, and unless a stop is asked for every pending item is one or the other.
\<close>

lemma run_once_accounts:
  assumes "run_once env p ws = (ws', Inr r)"
  shows "rr_attempted r = rr_advanced r + rr_failed r + rr_no_progress r
    \<and> rr_quarantined r \<le> rr_failed r + rr_no_progress r
    \<and> rr_attempted r + rr_skipped r \<le> rr_found r
    \<and> ((\<forall>w. \<not> we_stop env w) \<longrightarrow> rr_attempted r + rr_skipped r = rr_found r)"
proof -
  obtain w st where ws: "ws = (w, st)" by (cases ws)
  obtain w1 items ready skipped w2 st2 ta w3 still w4 st4 ta' where
    items: "we_find env w = (w1, Inr items)"
    and ready: "eligible_items (we_sink env) w1 st (we_clock env w) (we_key env) items = (ready, skipped)"
    and ta: "attempt_items env p (we_clock env w) ready (w1, st) new_tally = ((w2, st2), Inr ta)"
    and ta': "settle_items env p (we_clock env w) (map (we_key env) still) (ta_completed ta) (w3, st2) ta
        = ((w4, st4), Inr ta')"
    and r: "r = pass_result (length items) skipped
        (next_ready_delay st4 (we_clock env w) (we_key env) items) ta'"
    using assms unfolding run_once_def ws Let_def
    by (auto split: prod.splits sum.splits)
  have "length ready + skipped = length items"
    using ready sum_length_filter_compl [of "\<lambda>i. is_quarantined (we_sink env) w1 st (we_key env i)
        \<or> backing_off st (we_clock env w) (we_key env i)" items]
    by (auto simp: eligible_items_split)
  moreover have "tally_ok (new_tally :: 'b tally)" by (simp add: tally_ok_def new_tally_def)
  note attempt_items_tally [OF ta this]
  moreover note settle_items_tally [OF ta']
  ultimately show ?thesis
    by (auto simp: r pass_result_def tally_ok_def new_tally_def)
qed

text \<open>A concrete pass over a world that lists the work still pending, \<open>''bad''\<close> always raising.\<close>

definition sample_env :: "(string list, string) work_env" where
  "sample_env = \<lparr>we_find = \<lambda>w. (w, Inr w),
     we_process = \<lambda>i w. if i = ''bad'' then (w, Inl (ValueError ''no'')) else (remove1 i w, Inr ()),
     we_key = \<lambda>i. i, we_stop = \<lambda>w. False, we_clock = \<lambda>w. 0, we_sink = None\<rparr>"

lemma sample_env_run:
  "run_once sample_env default_work_policy ([''a'', ''bad'', ''b''], new_retry_state) =
     (([''bad''], \<lparr>rs_failures = [(''bad'', \<lparr>fr_attempts = 1, fr_next_retry_at = 60,
          fr_reason = ''ValueError: no''\<rparr>)], rs_quarantined = []\<rparr>),
      Inr \<lparr>rr_found = 3, rr_attempted = 3, rr_advanced = 2, rr_failed = 1, rr_no_progress = 0,
           rr_skipped = 0, rr_quarantined = 0, rr_next_retry_delay = Some 60\<rparr>)"
  by (simp add: run_once_def sample_env_def new_retry_state_def is_quarantined_def backing_off_def
      new_tally_def record_failure_def tally_failure_def record_success_def backoff_delay_def
      default_work_policy_def pass_result_def Let_def)

section \<open>Poisoned items do not touch their siblings\<close>

lemma attempt_items_process_cong:
  assumes "\<forall>i \<in> set items. we_process env i = f i"
  shows "attempt_items (env\<lparr>we_process := f\<rparr>) p now items ws ta = attempt_items env p now items ws ta"
  using assms
proof (induction items arbitrary: ws ta)
  case (Cons item items)
  obtain w st where "ws = (w, st)" by (cases ws)
  with Cons show ?case by (simp split: prod.split sum.split)
qed simp

lemma settle_items_process:
  "settle_items (env\<lparr>we_process := f\<rparr>) p now remaining items ws ta = settle_items env p now remaining items ws ta"
proof (induction items arbitrary: ws ta)
  case (Cons item items)
  obtain w st where "ws = (w, st)" by (cases ws)
  with Cons show ?case by (simp add: Let_def split: prod.split sum.split)
qed simp

text \<open>
  A pass never runs the processing of an item that is quarantined or still backing off: the
  whole pass, world, ledger and counts, is the same whatever the processing would do to
  such items.
\<close>

lemma blocked_items_untouched:
  assumes "we_find env w = (w1, Inr items)"
    and "\<forall>i \<in> set items. \<not> is_quarantined (we_sink env) w1 st (we_key env i)
        \<and> \<not> backing_off st (we_clock env w) (we_key env i) \<longrightarrow> we_process env i = f i"
  shows "run_once (env\<lparr>we_process := f\<rparr>) p (w, st) = run_once env p (w, st)"
proof -
  have "attempt_items (env\<lparr>we_process := f\<rparr>) p now
        (fst (eligible_items (we_sink env) w1 st (we_clock env w) (we_key env) items)) ws ta
      = attempt_items env p now
        (fst (eligible_items (we_sink env) w1 st (we_clock env w) (we_key env) items)) ws ta" for now ws ta
    using assms(2) by (intro attempt_items_process_cong) (auto simp: eligible_items_split)
  then show ?thesis
    by (simp add: run_once_def assms(1) settle_items_process Let_def eligible_items_split
        split: prod.split sum.split)
qed

section \<open>The loop returns\<close>

lemma work_passes_bounded:
  assumes "le_max_iterations l = Some m" "nat m \<le> length results + n"
  shows "\<exists>ws' r. work_passes (Suc n) env l p results ws = Some (ws', r)
    \<and> (\<forall>rs. r = Inr rs \<longrightarrow> length rs \<le> max (length results) (nat m))"
  using assms(2)
proof (induction n arbitrary: results ws)
  case 0
  then show ?case using assms(1) by (cases ws) (auto simp: loop_goes_on_def)
next
  case (Suc n)
  obtain w st where ws: "ws = (w, st)" by (cases ws)
  show ?case
  proof (cases "loop_goes_on l w results")
    case True
    then have len: "length results < nat m" using assms(1) by (auto simp: loop_goes_on_def)
    obtain w1 st1 r where run: "run_once env p (w, st) = ((w1, st1), r)" by (metis prod.exhaust)
    show ?thesis
    proof (cases r)
      case (Inr res)
      obtain w2 r2 where after: "after_pass l p res w1 = (w2, r2)" by (rule prod.exhaust)
      have "nat m \<le> length (results @ [res]) + n" using Suc.prems by simp
      note rest = Suc.IH [OF this, of "(w2, st1)"]
      have "work_passes (Suc (Suc n)) env l p results ws =
          (case r2 of Inl e \<Rightarrow> Some ((w2, st1), Inl e)
           | Inr _ \<Rightarrow> work_passes (Suc n) env l p (results @ [res]) (w2, st1))"
        using True run Inr after by (simp add: ws del: work_passes.simps(2))
          (subst work_passes.simps(2), simp del: work_passes.simps(2) split: sum.split)
      with rest len show ?thesis by (cases r2) (auto simp del: work_passes.simps)
    qed (use True run in \<open>auto simp: ws\<close>)
  qed (auto simp: ws)
qed

text \<open>
  A work loop given a number of iterations returns, after at most that many passes, whatever
  the callbacks do; and a loop whose stop was asked for before it began starts no pass at all.
\<close>

lemma work_loop_returns:
  assumes "le_max_iterations l = Some m"
  shows "(\<exists>ws' r. work_loop (Suc (nat m)) env l p poll name ws = Some (ws', r)
      \<and> (\<forall>results. r = Inr results \<longrightarrow> length results \<le> nat m))
    \<and> (stp_requested (le_signal l (fst ws)) \<longrightarrow>
        work_loop (Suc (nat m)) env l p poll name ws =
          (let (w', r) = work_end l name (fst ws)
           in Some ((w', snd ws), map_sum id (\<lambda>_. []) r)))"
proof
  from work_passes_bounded [OF assms, of "[]" "nat m"]
  show "\<exists>ws' r. work_loop (Suc (nat m)) env l p poll name ws = Some (ws', r)
      \<and> (\<forall>results. r = Inr results \<longrightarrow> length results \<le> nat m)"
  proof -
    obtain w' st' r where passes: "work_passes (Suc (nat m))
        (env\<lparr>we_stop := \<lambda>w. stp_requested (le_signal l w)\<rparr>) l (resolve_policy p poll) [] ws
          = Some ((w', st'), r)" and len: "\<forall>rs. r = Inr rs \<longrightarrow> length rs \<le> nat m"
      using work_passes_bounded [OF assms, of "[]" "nat m"] by fastforce
    then show ?thesis
      by (cases r; cases "work_end l name w'"; cases "snd (work_end l name w')")
        (auto simp: work_loop_def simp del: work_passes.simps)
  qed
  show "stp_requested (le_signal l (fst ws)) \<longrightarrow>
        work_loop (Suc (nat m)) env l p poll name ws =
          (let (w', r) = work_end l name (fst ws)
           in Some ((w', snd ws), map_sum id (\<lambda>_. []) r))"
    by (cases ws; cases "work_end l name (fst ws)"; cases "snd (work_end l name (fst ws))")
      (auto simp: work_loop_def loop_goes_on_def)
qed

definition sample_loop :: "string list loop_env" where
  "sample_loop = \<lparr>le_signal = \<lambda>w. new_stop_signal, le_signal_clock = \<lambda>w. 0, le_pause = \<lambda>t w. w,
     le_flush = None, le_graph_close = None, le_max_iterations = Some 2\<rparr>"

end
