(* ===== verification/Bus.thy ===== *)
theory Bus
  imports Faults
begin

text \<open>
  The message envelope (\<open>kernel/envelope.py\<close>), the contract descriptors
  (\<open>kernel/contract.py\<close>), the in-process bus (\<open>kernel/bus.py\<close>, with the request metric of
  \<open>kernel/metrics.py\<close>) and the binding of an agent's contract to it (\<open>kernel/agent.py\<close>).

  Handlers, the fault sink and the metrics backend act on a world \<open>'w\<close>; fresh message ids and
  the clock are read from it.  Pydantic's validation of a typed payload is a parameter.
\<close>

section \<open>The envelope\<close>

type_synonym uuid = string

datatype message_type = MRequest | MResponse | MNotification | MError

record agent_message =
  am_id :: uuid
  am_sent_at :: timestamp
  am_sender :: string
  am_recipient :: string
  am_type :: message_type
  am_capability :: string
  am_payload :: props
  am_correlation_id :: "uuid option"

text \<open>Whitespace as \<open>str.strip\<close> takes it off, in the ASCII range.\<close>

definition is_space :: "char \<Rightarrow> bool" where
  "is_space c = (let n = of_char c :: nat in 9 \<le> n \<and> n \<le> 13 \<or> 28 \<le> n \<and> n \<le> 32)"

definition str_strip :: "string \<Rightarrow> string" where
  "str_strip s = rev (dropWhile is_space (rev (dropWhile is_space s)))"

definition validate_message :: "agent_message \<Rightarrow> agent_message res" where
  "validate_message m =
     (if am_sender m = am_recipient m
      then Inl (ValueError ''sender and recipient must differ'')
      else if am_type m = MRequest \<and> am_correlation_id m \<noteq> None
      then Inl (ValueError ''request messages must not carry a correlation_id'')
      else if am_type m \<in> {MResponse, MError} \<and> am_correlation_id m = None
      then Inl (ValueError ''response/error messages must carry a correlation_id'')
      else if str_strip (am_capability m) = []
      then Inl (ValueError ''capability must be non-empty'')
      else Inr m)"

text \<open>Messages are frozen and only come out of the validator.\<close>

definition valid_message :: "agent_message \<Rightarrow> bool" where
  "valid_message m \<longleftrightarrow> validate_message m = Inr m"

section \<open>Contracts\<close>

text \<open>
  The payload classes of a capability are given by what the binding uses of them:
  \<open>request.model_validate\<close>, and \<open>response.model_validate\<close> followed by \<open>model_dump\<close>.
\<close>

record ('q, 'r) capability =
  cap_name :: string
  cap_summary :: string
  cap_request :: "props \<Rightarrow> 'q res"
  cap_response :: "'r \<Rightarrow> props res"
  cap_mcp :: bool
  cap_allowed_callers :: "string list"

record ('q, 'r) agent_contract =
  ac_name :: string
  ac_version :: string
  ac_mission :: string
  ac_consumes :: "('q, 'r) capability list"
  ac_emits :: "string list"
  ac_owns_graph :: "string list"
  ac_external_io :: "string list"
  ac_depends_on :: "string list"
  ac_mcp_tools :: "string list"
  ac_never :: "string list"

definition contract_capability ::
  "('q, 'r) agent_contract \<Rightarrow> string \<Rightarrow> ('q, 'r) capability res" where
  "contract_capability c name =
     (case List.find (\<lambda>cap. cap_name cap = name) (ac_consumes c) of
        Some cap \<Rightarrow> Inr cap
      | None \<Rightarrow> Inl (KeyError (ac_name c @ '' has no capability '' @ repr_str name)))"

section \<open>The bus\<close>

type_synonym 'w message_handler = "props \<Rightarrow> 'w \<Rightarrow> 'w \<times> props res"
type_synonym 'w event_handler = "props \<Rightarrow> 'w \<Rightarrow> 'w \<times> unit res"

record 'w bus =
  bus_handlers :: "(string \<times> string, 'w message_handler) dict"
  bus_allowed :: "(string \<times> string, string list) dict"
  bus_subscribers :: "(string, 'w event_handler list) dict"

definition new_bus :: "'w bus" where
  "new_bus = \<lparr>bus_handlers = [], bus_allowed = [], bus_subscribers = []\<rparr>"

record 'w bus_env =
  be_new_id :: "'w \<Rightarrow> 'w \<times> uuid"
  be_now :: "'w \<Rightarrow> timestamp"
  be_submit :: "'w \<Rightarrow> agent_fault \<Rightarrow> 'w"
  be_record_request :: "string \<Rightarrow> string \<Rightarrow> bool \<Rightarrow> 'w \<Rightarrow> 'w"

definition caller_authorized :: "string list \<Rightarrow> string \<Rightarrow> bool" where
  "caller_authorized allowed_callers sender \<longleftrightarrow> allowed_callers = [] \<or> sender \<in> set allowed_callers"

definition bus_register ::
  "'w bus \<Rightarrow> string \<Rightarrow> string \<Rightarrow> 'w message_handler \<Rightarrow> string list \<Rightarrow> 'w bus" where
  "bus_register b recipient capability handler allowed_callers =
     b\<lparr>bus_handlers := dict_set (recipient, capability) handler (bus_handlers b),
       bus_allowed := dict_set (recipient, capability) allowed_callers (bus_allowed b)\<rparr>"

definition new_message ::
  "'w bus_env \<Rightarrow> 'w \<Rightarrow> string \<Rightarrow> string \<Rightarrow> message_type \<Rightarrow> string \<Rightarrow> props \<Rightarrow> uuid option
     \<Rightarrow> 'w \<times> agent_message res" where
  "new_message env w sender recipient mt capability payload correlation =
     (let (w', i) = be_new_id env w
      in (w', validate_message \<lparr>am_id = i, am_sent_at = be_now env w', am_sender = sender,
                am_recipient = recipient, am_type = mt, am_capability = capability,
                am_payload = payload, am_correlation_id = correlation\<rparr>))"

definition error_message ::
  "'w bus_env \<Rightarrow> 'w \<Rightarrow> agent_message \<Rightarrow> string \<Rightarrow> string \<Rightarrow> 'w \<times> agent_message res" where
  "error_message env w m error_type msg =
     new_message env w (am_recipient m) (am_sender m) MError (am_capability m)
       [(''error_type'', PStr error_type), (''message'', PStr msg)] (Some (am_id m))"

text \<open>The block \<open>request_metric\<close> times: the world, the message and whether it was marked ok.\<close>

definition dispatch ::
  "'w bus_env \<Rightarrow> 'w bus \<Rightarrow> 'w \<Rightarrow> agent_message \<Rightarrow> 'w \<times> agent_message res \<times> bool" where
  "dispatch env b w m =
     (let key = (am_recipient m, am_capability m) in
      case dict_get (bus_handlers b) key of
        None \<Rightarrow>
          (let (w1, r) = error_message env w m ''UnknownCapability''
                 (''No handler registered for '' @ am_recipient m @ ''.'' @ am_capability m)
           in (w1, r, False))
      | Some handler \<Rightarrow>
          (let allowed = (case dict_get (bus_allowed b) key of None \<Rightarrow> [] | Some a \<Rightarrow> a) in
           if \<not> caller_authorized allowed (am_sender m)
           then (let (w1, r) = error_message env w m ''Unauthorized''
                       (am_sender m @ '' is not an authorized caller of '' @ am_recipient m @ ''.''
                          @ am_capability m)
                 in (w1, r, False))
           else
             (let (w1, out) = handler (am_payload m) w;
                  (w2, captured) = fault_boundary (be_submit env) (be_now env w1) (am_recipient m)
                     ''kernel.bus'' (Some (am_capability m)) w1 out
              in case captured of
                   Some f \<Rightarrow>
                     (let (w3, r) = error_message env w2 m (flt_error_type f) (flt_message f)
                      in (w3, r, False))
                 | None \<Rightarrow>
                     (let (w3, r) = new_message env w2 (am_recipient m) (am_sender m) MResponse
                            (am_capability m) (case out of Inr p \<Rightarrow> p | Inl e \<Rightarrow> []) (Some (am_id m))
                      in (w3, r, True)))))"

definition bus_request ::
  "'w bus_env \<Rightarrow> 'w bus \<Rightarrow> agent_message \<Rightarrow> 'w \<Rightarrow> 'w \<times> agent_message res" where
  "bus_request env b m w =
     (let (w1, r, ok) = dispatch env b w m
      in (be_record_request env (am_recipient m) (am_capability m) ok w1, r))"

definition bus_subscribe :: "'w bus \<Rightarrow> string \<Rightarrow> 'w event_handler \<Rightarrow> 'w bus" where
  "bus_subscribe b topic handler =
     b\<lparr>bus_subscribers := dict_set topic
         ((case dict_get (bus_subscribers b) topic of None \<Rightarrow> [] | Some hs \<Rightarrow> hs) @ [handler])
         (bus_subscribers b)\<rparr>"

definition subscribers_of :: "'w bus \<Rightarrow> string \<Rightarrow> 'w event_handler list" where
  "subscribers_of b topic = (case dict_get (bus_subscribers b) topic of None \<Rightarrow> [] | Some hs \<Rightarrow> hs)"

fun deliver :: "'w event_handler list \<Rightarrow> props \<Rightarrow> 'w \<Rightarrow> 'w \<times> unit res" where
  "deliver [] event w = (w, Inr ())"
| "deliver (h # hs) event w =
     (case h event w of (w1, Inl e) \<Rightarrow> (w1, Inl e) | (w1, Inr _) \<Rightarrow> deliver hs event w1)"

definition bus_publish :: "'w bus \<Rightarrow> string \<Rightarrow> props \<Rightarrow> 'w \<Rightarrow> 'w \<times> unit res" where
  "bus_publish b topic event w = deliver (subscribers_of b topic) event w"

section \<open>Binding a contract\<close>

type_synonym ('w, 'q, 'r) agent_handler = "'q \<Rightarrow> 'w \<Rightarrow> 'w \<times> 'r res"

definition bus_handler ::
  "('q, 'r) capability \<Rightarrow> ('w, 'q, 'r) agent_handler \<Rightarrow> 'w message_handler" where
  "bus_handler cap handler payload w =
     (case cap_request cap payload of
        Inl e \<Rightarrow> (w, Inl e)
      | Inr q \<Rightarrow> (case handler q w of
           (w1, Inl e) \<Rightarrow> (w1, Inl e)
         | (w1, Inr r) \<Rightarrow> (w1, cap_response cap r)))"

fun bind_capabilities ::
  "string \<Rightarrow> (string, ('w, 'q, 'r) agent_handler) dict \<Rightarrow> ('q, 'r) capability list \<Rightarrow> 'w bus
     \<Rightarrow> 'w bus \<times> unit res" where
  "bind_capabilities name handlers [] b = (b, Inr ())"
| "bind_capabilities name handlers (cap # caps) b =
     (case dict_get handlers (cap_name cap) of
        None \<Rightarrow> (b, Inl (KeyError (cap_name cap)))
      | Some h \<Rightarrow> bind_capabilities name handlers caps
          (bus_register b name (cap_name cap) (bus_handler cap h) (cap_allowed_callers cap)))"

definition agent_bind ::
  "('q, 'r) agent_contract \<Rightarrow> (string, ('w, 'q, 'r) agent_handler) dict \<Rightarrow> 'w bus \<Rightarrow> 'w bus \<times> unit res"
where
  "agent_bind c handlers b = bind_capabilities (ac_name c) handlers (ac_consumes c) b"

section \<open>The answer to a request\<close>

text \<open>What a caller may rely on: the answer goes back to it, in the thread of its request.\<close>

definition answers :: "agent_message \<Rightarrow> agent_message \<Rightarrow> bool" where
  "answers m r \<longleftrightarrow> valid_message r \<and> am_sender r = am_recipient m \<and> am_recipient r = am_sender m
     \<and> am_capability r = am_capability m \<and> am_correlation_id r = Some (am_id m)
     \<and> am_type r \<in> {MResponse, MError}"

lemma validate_message_same: "validate_message m = Inr m' \<Longrightarrow> m' = m"
  by (auto simp: validate_message_def split: if_splits)

lemma new_message_answers:
  assumes "valid_message m" "mt \<in> {MResponse, MError}"
    "new_message env w (am_recipient m) (am_sender m) mt (am_capability m) payload (Some (am_id m)) = (w', r)"
  shows "\<exists>a. r = Inr a \<and> answers m a \<and> am_type a = mt \<and> am_payload a = payload
    \<and> w' = fst (be_new_id env w)"
proof -
  obtain w1 i where new: "be_new_id env w = (w1, i)" by (rule prod.exhaust)
  let ?a = "\<lparr>am_id = i, am_sent_at = be_now env w1, am_sender = am_recipient m,
    am_recipient = am_sender m, am_type = mt, am_capability = am_capability m,
    am_payload = payload, am_correlation_id = Some (am_id m)\<rparr>"
  have "am_sender m \<noteq> am_recipient m" "str_strip (am_capability m) \<noteq> []"
    using assms(1) by (auto simp: valid_message_def validate_message_def split: if_splits)
  then have "validate_message ?a = Inr ?a"
    using assms(2) by (auto simp: validate_message_def)
  moreover have "w' = w1" "r = validate_message ?a"
    using assms(3) by (auto simp: new_message_def new)
  ultimately show ?thesis using assms(2) by (simp add: answers_def valid_message_def new)
qed

text \<open>
  The abstract outcome of a request: what the handler made of the payload, or the error the
  caller sees, with the world the handler left.
\<close>

definition rpc_outcome ::
  "'w bus_env \<Rightarrow> 'w bus \<Rightarrow> agent_message \<Rightarrow> 'w \<Rightarrow> 'w \<times> (string \<times> string + props)" where
  "rpc_outcome env b m w =
     (case dict_get (bus_handlers b) (am_recipient m, am_capability m) of
        None \<Rightarrow> (w, Inl (''UnknownCapability'',
          ''No handler registered for '' @ am_recipient m @ ''.'' @ am_capability m))
      | Some h \<Rightarrow>
          if \<not> caller_authorized (case dict_get (bus_allowed b) (am_recipient m, am_capability m) of
                None \<Rightarrow> [] | Some a \<Rightarrow> a) (am_sender m)
          then (w, Inl (''Unauthorized'', am_sender m @ '' is not an authorized caller of ''
                 @ am_recipient m @ ''.'' @ am_capability m))
          else case h (am_payload m) w of
              (w1, Inr p) \<Rightarrow> (w1, Inr p)
            | (w1, Inl e) \<Rightarrow>
                (be_submit env w1 (fault_from_exception (be_now env w1) (am_recipient m) ''kernel.bus''
                   (Some (am_capability m)) Error None [] e), Inl (exn_type e, exn_text e)))"

fun outcome_payload :: "string \<times> string + props \<Rightarrow> message_type \<times> props" where
  "outcome_payload (Inr p) = (MResponse, p)"
| "outcome_payload (Inl (t, msg)) = (MError, [(''error_type'', PStr t), (''message'', PStr msg)])"

lemma dispatch_outcome:
  assumes "valid_message m" "rpc_outcome env b m w = (w1, out)"
  shows "\<exists>a. dispatch env b w m = (fst (be_new_id env w1), Inr a, am_type a = MResponse)
    \<and> answers m a \<and> (am_type a, am_payload a) = outcome_payload out"
proof -
  let ?mt = "fst (outcome_payload out)" and ?p = "snd (outcome_payload out)"
  obtain w2 r where msg: "new_message env w1 (am_recipient m) (am_sender m) ?mt (am_capability m) ?p
      (Some (am_id m)) = (w2, r)" by (rule prod.exhaust)
  have mt: "?mt \<in> {MResponse, MError}" by (cases out) auto
  have "dispatch env b w m = (w2, r, ?mt = MResponse)"
    using assms(2) msg
    by (auto simp: dispatch_def rpc_outcome_def error_message_def Let_def fault_from_exception_def
        split: option.splits prod.splits sum.splits if_splits)
  with new_message_answers [OF assms(1) mt msg] show ?thesis by auto
qed

lemma request_answered:
  "valid_message m \<Longrightarrow> \<exists>w' a. bus_request env b m w = (w', Inr a) \<and> answers m a"
  using dispatch_outcome [OF _ prod.collapse [symmetric], of m env b w]
  by (auto simp: bus_request_def)

text \<open>
  C20. A request on the in-process bus never raises: every message built by the validator is
  answered by one valid message, sent back from the recipient to the sender with the same
  capability and the request's id as correlation, that carries exactly the outcome of the
  handler, of the missing handler, or of the caller gate; a handler's exception becomes one
  fault in the sink and an error message, and every request is counted once in the metrics,
  as ok exactly when the answer is a response.
\<close>

theorem request_answers:
  assumes "valid_message m"
  shows "\<exists>a. bus_request env b m w =
      (let (w1, out) = rpc_outcome env b m w
       in be_record_request env (am_recipient m) (am_capability m) (am_type a = MResponse)
            (fst (be_new_id env w1)), Inr a)
    \<and> answers m a \<and> (am_type a, am_payload a) = outcome_payload (snd (rpc_outcome env b m w))"
proof -
  obtain w1 out where out: "rpc_outcome env b m w = (w1, out)" by (rule prod.exhaust)
  from dispatch_outcome [OF assms out] show ?thesis by (auto simp: bus_request_def out Let_def)
qed

lemma request_answers_witness:
  "\<exists>a. bus_request \<lparr>be_new_id = \<lambda>w. (w + 1, str_nat w), be_now = \<lambda>w. sample_time,
        be_submit = \<lambda>w f. w, be_record_request = \<lambda>r c ok w. w\<rparr>
      (bus_register new_bus ''analyst'' ''score'' (\<lambda>p w. (w + 10, Inr p)) [''scanner''])
      \<lparr>am_id = ''1'', am_sent_at = sample_time, am_sender = ''reporter'', am_recipient = ''analyst'',
       am_type = MRequest, am_capability = ''score'', am_payload = [], am_correlation_id = None\<rparr>
      (0 :: nat) = (1, Inr a) \<and> am_type a = MError \<and> am_correlation_id a = Some ''1''"
proof -
  let ?env = "\<lparr>be_new_id = \<lambda>w. (w + 1, str_nat w), be_now = \<lambda>w. sample_time,
        be_submit = \<lambda>w f. w, be_record_request = \<lambda>r c ok w. w\<rparr> :: nat bus_env"
  let ?m = "\<lparr>am_id = ''1'', am_sent_at = sample_time, am_sender = ''reporter'', am_recipient = ''analyst'',
       am_type = MRequest, am_capability = ''score'', am_payload = [], am_correlation_id = None\<rparr>"
  let ?b = "bus_register new_bus ''analyst'' ''score'' (\<lambda>p w. (w + 10, Inr p)) [''scanner''] :: nat bus"
  have "valid_message ?m"
    by (simp add: valid_message_def validate_message_def str_strip_def is_space_def)
  from request_answers [OF this, of ?env ?b 0] show ?thesis
    by (auto simp: rpc_outcome_def new_bus_def bus_register_def caller_authorized_def answers_def)
qed

section \<open>A bound contract is enforced\<close>

lemma bus_register_get [dict_simps]:
  "dict_get (bus_handlers (bus_register b n k h a)) x = (if x = (n, k) then Some h else dict_get (bus_handlers b) x)"
  "dict_get (bus_allowed (bus_register b n k h a)) x = (if x = (n, k) then Some a else dict_get (bus_allowed b) x)"
  by (simp_all add: bus_register_def dict_simps)

lemma bind_other:
  "bind_capabilities name handlers caps b = (b', r) \<Longrightarrow> n \<noteq> name \<or> k \<notin> cap_name ` set caps \<Longrightarrow>
     dict_get (bus_handlers b') (n, k) = dict_get (bus_handlers b) (n, k)
     \<and> dict_get (bus_allowed b') (n, k) = dict_get (bus_allowed b) (n, k)"
  by (induction name handlers caps b rule: bind_capabilities.induct)
    (auto simp: dict_simps split: option.splits)

lemma bind_bound:
  assumes "bind_capabilities name handlers caps b = (b', Inr ())" "distinct (map cap_name caps)"
    "cap \<in> set caps"
  shows "\<exists>h. dict_get handlers (cap_name cap) = Some h
    \<and> dict_get (bus_handlers b') (name, cap_name cap) = Some (bus_handler cap h)
    \<and> dict_get (bus_allowed b') (name, cap_name cap) = Some (cap_allowed_callers cap)"
  using assms
proof (induction name handlers caps b rule: bind_capabilities.induct)
  case (2 name handlers c caps b)
  then obtain h where h: "dict_get handlers (cap_name c) = Some h"
    and rest: "bind_capabilities name handlers caps
      (bus_register b name (cap_name c) (bus_handler c h) (cap_allowed_callers c)) = (b', Inr ())"
    by (auto split: option.splits)
  show ?case
  proof (cases "cap = c")
    case True
    with bind_other [OF rest, of name "cap_name c"] 2(3) h show ?thesis by (auto simp: dict_simps)
  next
    case False
    with 2 h rest show ?thesis by auto
  qed
qed simp

text \<open>
  Binding an agent puts its contract in force: for a capability of the contract the caller gate
  is the declared one, so a sender outside a non-empty \<open>allowed_callers\<close> is refused before any
  handler runs, and an admitted request is validated by the declared request model, handled by
  the agent's own handler and answered with the declared response model's dump; capabilities of
  other agents are left as they were.
\<close>

lemma bound_contract_enforced:
  assumes "agent_bind c handlers b = (b', Inr ())" "distinct (map cap_name (ac_consumes c))"
    "cap \<in> set (ac_consumes c)" "am_recipient m = ac_name c" "am_capability m = cap_name cap"
  shows "contract_capability c (cap_name cap) = Inr cap
    \<and> (\<exists>h. dict_get handlers (cap_name cap) = Some h
        \<and> rpc_outcome env b' m w =
            (if cap_allowed_callers cap \<noteq> [] \<and> am_sender m \<notin> set (cap_allowed_callers cap)
             then (w, Inl (''Unauthorized'', am_sender m @ '' is not an authorized caller of ''
                    @ ac_name c @ ''.'' @ cap_name cap))
             else case cap_request cap (am_payload m) of
                 Inl e \<Rightarrow> (be_submit env w (fault_from_exception (be_now env w) (ac_name c) ''kernel.bus''
                            (Some (cap_name cap)) Error None [] e), Inl (exn_type e, exn_text e))
               | Inr q \<Rightarrow>
                  (case h q w of (w1, out) \<Rightarrow>
                   case res_bind out (cap_response cap) of
                     Inr p \<Rightarrow> (w1, Inr p)
                   | Inl e \<Rightarrow> (be_submit env w1 (fault_from_exception (be_now env w1) (ac_name c)
                       ''kernel.bus'' (Some (cap_name cap)) Error None [] e),
                       Inl (exn_type e, exn_text e)))))
    \<and> (n \<noteq> ac_name c \<longrightarrow> dict_get (bus_handlers b') (n, k) = dict_get (bus_handlers b) (n, k))"
proof (intro conjI)
  show "contract_capability c (cap_name cap) = Inr cap"
  proof -
    have "List.find (\<lambda>x. cap_name x = cap_name cap) caps = Some cap"
      if "distinct (map cap_name caps)" "cap \<in> set caps" for caps
      using that by (induction caps) (auto simp: image_iff)
    with assms show ?thesis by (simp add: contract_capability_def)
  qed
  from bind_bound [OF assms(1) [unfolded agent_bind_def] assms(2,3)] obtain h where
    h: "dict_get handlers (cap_name cap) = Some h"
      "dict_get (bus_handlers b') (ac_name c, cap_name cap) = Some (bus_handler cap h)"
      "dict_get (bus_allowed b') (ac_name c, cap_name cap) = Some (cap_allowed_callers cap)"
    by blast
  show "\<exists>h. dict_get handlers (cap_name cap) = Some h
        \<and> rpc_outcome env b' m w =
            (if cap_allowed_callers cap \<noteq> [] \<and> am_sender m \<notin> set (cap_allowed_callers cap)
             then (w, Inl (''Unauthorized'', am_sender m @ '' is not an authorized caller of ''
                    @ ac_name c @ ''.'' @ cap_name cap))
             else case cap_request cap (am_payload m) of
                 Inl e \<Rightarrow> (be_submit env w (fault_from_exception (be_now env w) (ac_name c) ''kernel.bus''
                            (Some (cap_name cap)) Error None [] e), Inl (exn_type e, exn_text e))
               | Inr q \<Rightarrow>
                  (case h q w of (w1, out) \<Rightarrow>
                   case res_bind out (cap_response cap) of
                     Inr p \<Rightarrow> (w1, Inr p)
                   | Inl e \<Rightarrow> (be_submit env w1 (fault_from_exception (be_now env w1) (ac_name c)
                       ''kernel.bus'' (Some (cap_name cap)) Error None [] e),
                       Inl (exn_type e, exn_text e))))"
    using h assms(4,5)
    by (intro exI [where x = h])
      (auto simp: rpc_outcome_def bus_handler_def caller_authorized_def split: sum.split prod.split)
  show "n \<noteq> ac_name c \<longrightarrow> dict_get (bus_handlers b') (n, k) = dict_get (bus_handlers b) (n, k)"
    using bind_other [OF assms(1) [unfolded agent_bind_def], of n k] by blast
qed

definition sample_capability :: "(int, int) capability" where
  "sample_capability = \<lparr>cap_name = ''score'', cap_summary = [],
     cap_request = \<lambda>p. (case dict_get p ''n'' of Some (PInt i) \<Rightarrow> Inr i
        | _ \<Rightarrow> Inl (PyExn ''ValidationError'' ''n'')),
     cap_response = \<lambda>r. Inr [(''n'', PInt r)], cap_mcp = False, cap_allowed_callers = [''scanner'']\<rparr>"

definition sample_contract :: "(int, int) agent_contract" where
  "sample_contract = \<lparr>ac_name = ''analyst'', ac_version = ''1'', ac_mission = [],
     ac_consumes = [sample_capability], ac_emits = [], ac_owns_graph = [], ac_external_io = [],
     ac_depends_on = [], ac_mcp_tools = [], ac_never = []\<rparr>"

end
