(* ===== verification/ClaimCheck.thy ===== *)
theory ClaimCheck
  imports Bus GraphPort
begin

text \<open>
  The claim check (\<open>kernel/claim_check.py\<close>): an artifact is written to the graph and only a small
  ready event travels on the bus; a consumer resolves the event back to the node.

  The text of a pydantic validation error is the parameter \<open>vtext\<close>.
\<close>

record ready_event =
  rev_topic :: string
  rev_label :: string
  rev_ref :: string
  rev_run_id :: "string option"

definition ready_event_dump :: "ready_event \<Rightarrow> props" where
  "ready_event_dump e =
     [(''topic'', PStr (rev_topic e)), (''label'', PStr (rev_label e)), (''ref'', PStr (rev_ref e)),
      (''run_id'', (case rev_run_id e of None \<Rightarrow> PNone | Some r \<Rightarrow> PStr r))]"

fun str_field :: "pyval option \<Rightarrow> string option" where
  "str_field (Some (PStr s)) = Some s"
| "str_field _ = None"

fun optional_str_field :: "pyval option \<Rightarrow> string option option" where
  "optional_str_field None = Some None"
| "optional_str_field (Some PNone) = Some None"
| "optional_str_field (Some (PStr s)) = Some (Some s)"
| "optional_str_field (Some _) = None"

definition ready_event_validate :: "(props \<Rightarrow> string) \<Rightarrow> props \<Rightarrow> ready_event res" where
  "ready_event_validate vtext d =
     (case (str_field (dict_get d ''topic''), str_field (dict_get d ''label''),
            str_field (dict_get d ''ref''), optional_str_field (dict_get d ''run_id'')) of
        (Some t, Some l, Some r, Some run) \<Rightarrow>
          Inr \<lparr>rev_topic = t, rev_label = l, rev_ref = r, rev_run_id = run\<rparr>
      | _ \<Rightarrow> Inl (PyExn ''ValidationError'' (vtext d)))"

definition claim_check_write ::
  "'w bus \<Rightarrow> 'w graph_port \<Rightarrow> ('w \<Rightarrow> timestamp) \<Rightarrow> 'w \<Rightarrow> string \<Rightarrow> string \<Rightarrow> string \<Rightarrow> props
     \<Rightarrow> string option \<Rightarrow> 'w \<times> ready_event res" where
  "claim_check_write b port wall w topic label ref p run_id =
     (case gp_merge port (wall w) w label ref p 1 of
        (w1, Inl e) \<Rightarrow> (w1, Inl e)
      | (w1, Inr n) \<Rightarrow>
          (let event = \<lparr>rev_topic = topic, rev_label = label, rev_ref = ref, rev_run_id = run_id\<rparr>
           in case bus_publish b topic (ready_event_dump event) w1 of
                (w2, Inl e) \<Rightarrow> (w2, Inl e)
              | (w2, Inr _) \<Rightarrow> (w2, Inr event)))"

definition claim_check_read ::
  "(props \<Rightarrow> string) \<Rightarrow> 'w graph_port \<Rightarrow> 'w \<Rightarrow> props \<Rightarrow> gnode res" where
  "claim_check_read vtext port w event =
     res_bind (ready_event_validate vtext event) (\<lambda>ready.
       case gp_get port w (rev_label ready) (rev_ref ready) of
         Some n \<Rightarrow> Inr n
       | None \<Rightarrow> Inl (RuntimeError (''claim_check_read: no '' @ repr_str (rev_label ready)
                  @ '' node for ref '' @ repr_str (rev_ref ready))))"

lemma ready_event_roundtrip: "ready_event_validate vtext (ready_event_dump e) = Inr e"
  by (cases "rev_run_id e") (simp_all add: ready_event_validate_def ready_event_dump_def)

lemma deliver_keeps:
  assumes "\<forall>h \<in> set hs. \<forall>w. f (fst (h event w)) = f w"
  shows "f (fst (deliver hs event w)) = f w"
  using assms
proof (induction hs arbitrary: w)
  case (Cons h hs)
  obtain w1 r where step: "h event w = (w1, r)" by (rule prod.exhaust)
  from Cons.prems have "f (fst (h event w)) = f w" by simp
  with Cons step show ?case by (cases r) auto
qed simp

context graph_store begin

text \<open>Whoever reads the event, on delivery or later, finds the artifact.\<close>

lemma claim_check_resolves:
  assumes "ok w" "dict_wf p"
    and announced: "claim_check_write b port wall w topic label ref p run_id = (w', Inr event)"
    and keep: "\<forall>h \<in> set (subscribers_of b topic). \<forall>e w. gp_get port (fst (h e w)) label ref = gp_get port w label ref"
  shows "\<exists>n. claim_check_read vtext port w' (ready_event_dump event) = Inr n \<and> holds_props n p"
proof -
  obtain w1 n where merge: "gp_merge port (wall w) w label ref p 1 = (w1, Inr n)"
    and event: "event = \<lparr>rev_topic = topic, rev_label = label, rev_ref = ref, rev_run_id = run_id\<rparr>"
    and pub: "bus_publish b topic (ready_event_dump event) w1 = (w', Inr ())"
    using announced by (auto simp: claim_check_write_def Let_def split: prod.splits sum.splits)
  have n: "gp_get port w1 label ref = Some n" "holds_props n p"
    using merge_written [OF assms(1,2) merge] by auto
  have "gp_get port (fst (bus_publish b topic (ready_event_dump event) w1)) label ref
      = gp_get port w1 label ref"
    unfolding bus_publish_def by (rule deliver_keeps) (use keep in blast)
  with pub n show ?thesis
    by (simp add: claim_check_read_def ready_event_roundtrip event)
qed

end

text \<open>
  C31. An artifact written through the claim check can be resolved: with any subscribers that leave
  the announced node alone, whatever else they do, the event that was published reads back, on the
  in-memory store, as a node that holds every property written.
\<close>

theorem claim_check_roundtrip:
  assumes "store_wf s" "dict_wf p"
    and "claim_check_write b mem_port wall s topic label ref p run_id = (s', Inr event)"
    and "\<forall>h \<in> set (subscribers_of b topic). \<forall>e s. get_node (fst (h e s)) label ref = get_node s label ref"
  shows "\<exists>n. claim_check_read vtext mem_port s' (ready_event_dump event) = Inr n \<and> holds_props n p"
  using mem.claim_check_resolves [OF assms(1,2,3)] assms(4) by simp

lemma claim_check_roundtrip_witness:
  "\<exists>s' n. claim_check_write (bus_subscribe new_bus ''ready'' (\<lambda>e s. (s, Inr ()))) mem_port
        (\<lambda>s. sample_time) empty_store ''ready'' ''Bars'' ''b1'' [(''rows'', PInt 3)] None
      = (s', Inr \<lparr>rev_topic = ''ready'', rev_label = ''Bars'', rev_ref = ''b1'', rev_run_id = None\<rparr>)
    \<and> claim_check_read (\<lambda>d. []) mem_port s'
        [(''topic'', PStr ''ready''), (''label'', PStr ''Bars''), (''ref'', PStr ''b1''), (''run_id'', PNone)]
      = Inr n \<and> dict_get (gn_props n) ''rows'' = Some (PInt 3)"
proof -
  let ?b = "bus_subscribe new_bus ''ready'' (\<lambda>e s. (s, Inr ())) :: store bus"
  let ?e = "\<lparr>rev_topic = ''ready'', rev_label = ''Bars'', rev_ref = ''b1'', rev_run_id = None\<rparr>"
  let ?p = "[(''rows'', PInt 3)]"
  obtain s' where announced: "claim_check_write ?b mem_port (\<lambda>s. sample_time) empty_store ''ready'' ''Bars''
      ''b1'' ?p None = (s', Inr ?e)"
    by (simp add: claim_check_write_def merge_node_def merge_core_def empty_store_def bus_publish_def
        bus_subscribe_def subscribers_of_def new_bus_def Let_def)
  have "\<forall>h \<in> set (subscribers_of ?b ''ready''). \<forall>e s. get_node (fst (h e s)) ''Bars'' ''b1'' = get_node s ''Bars'' ''b1''"
    by (simp add: subscribers_of_def bus_subscribe_def new_bus_def)
  from claim_check_roundtrip [OF store_wf_empty _ announced this, of "\<lambda>d. []"] announced show ?thesis
    by (auto simp: dict_wf_def ready_event_dump_def holds_props_def)
qed

end
