(* ===== verification/ServeLoop.thy ===== *)
theory ServeLoop
  imports Bus StopSignal
begin

text \<open>
  The serve loop of an RPC agent (\<open>kernel/serve_loop.py\<close>): take the pending requests, dispatch
  each through the bus, reply; a reply that fails is one fault and does not stop the others.
\<close>

section \<open>Consumers\<close>

record 'w request_consumer =
  rc_poll :: "'w \<Rightarrow> 'w \<times> (agent_message list) res"
  rc_reply :: "agent_message \<Rightarrow> 'w \<Rightarrow> 'w \<times> unit res"
  rc_close :: "('w \<Rightarrow> 'w \<times> unit res) option"

text \<open>The in-process inbox, beside whatever else the world \<open>'v\<close> holds.\<close>

record local_consumer =
  lc_inbox :: "agent_message list"
  lc_replies :: "agent_message list"

definition local_submit :: "agent_message \<Rightarrow> local_consumer \<Rightarrow> local_consumer" where
  "local_submit m c = c\<lparr>lc_inbox := lc_inbox c @ [m]\<rparr>"

definition local_poll :: "local_consumer \<Rightarrow> local_consumer \<times> agent_message list" where
  "local_poll c = (c\<lparr>lc_inbox := []\<rparr>, lc_inbox c)"

definition local_reply :: "agent_message \<Rightarrow> local_consumer \<Rightarrow> local_consumer" where
  "local_reply m c = c\<lparr>lc_replies := lc_replies c @ [m]\<rparr>"

definition local_request_consumer :: "(local_consumer \<times> 'v) request_consumer" where
  "local_request_consumer =
     \<lparr>rc_poll = \<lambda>(c, v). let (c', ms) = local_poll c in ((c', v), Inr ms),
      rc_reply = \<lambda>m (c, v). ((local_reply m c, v), Inr ()),
      rc_close = None\<rparr>"

text \<open>A bus that works on the rest of that world.\<close>

definition beside :: "('m \<Rightarrow> 'v \<Rightarrow> 'v \<times> 'r) \<Rightarrow> 'm \<Rightarrow> 'c \<times> 'v \<Rightarrow> ('c \<times> 'v) \<times> 'r" where
  "beside f m = (\<lambda>(c, v). let (v', r) = f m v in ((c, v'), r))"

section \<open>Serving\<close>

record 'w serve_env =
  se_request :: "agent_message \<Rightarrow> 'w \<Rightarrow> 'w \<times> agent_message res"
  se_submit :: "'w \<Rightarrow> agent_fault \<Rightarrow> 'w"
  se_now :: "'w \<Rightarrow> timestamp"

fun serve_requests ::
  "'w request_consumer \<Rightarrow> 'w serve_env \<Rightarrow> agent_message list \<Rightarrow> 'w \<Rightarrow> 'w \<times> unit res" where
  "serve_requests c env [] w = (w, Inr ())"
| "serve_requests c env (m # ms) w =
     (case se_request env m w of
        (w1, Inl e) \<Rightarrow> (w1, Inl e)
      | (w1, Inr response) \<Rightarrow>
          (let (w2, r) = rc_reply c response w1;
               (w3, _) = fault_boundary (se_submit env) (se_now env w2) (am_recipient m)
                  ''kernel.serve_loop'' (Some (am_capability m)) w2 r
           in serve_requests c env ms w3))"

definition serve_once :: "'w request_consumer \<Rightarrow> 'w serve_env \<Rightarrow> 'w \<Rightarrow> 'w \<times> nat res" where
  "serve_once c env w =
     (case rc_poll c w of
        (w1, Inl e) \<Rightarrow> (w1, Inl e)
      | (w1, Inr ms) \<Rightarrow>
          (case serve_requests c env ms w1 of
             (w2, Inl e) \<Rightarrow> (w2, Inl e)
           | (w2, Inr _) \<Rightarrow> (w2, Inr (length ms))))"

record 'w serve_loop_env =
  sl_signal :: "'w \<Rightarrow> stop_signal"
  sl_signal_clock :: "'w \<Rightarrow> rat"
  sl_wait :: "rat \<Rightarrow> 'w \<Rightarrow> 'w"
  sl_flush :: "('w \<Rightarrow> 'w \<times> unit res) option"
  sl_graph_close :: "('w \<Rightarrow> 'w \<times> unit res) option"

text \<open>\<open>None\<close> is a loop still serving when the fuel is spent.\<close>

fun serve_passes ::
  "nat \<Rightarrow> 'w request_consumer \<Rightarrow> 'w serve_env \<Rightarrow> 'w serve_loop_env \<Rightarrow> rat \<Rightarrow> nat \<Rightarrow> 'w
     \<Rightarrow> ('w \<times> nat res) option" where
  "serve_passes 0 c env l poll_interval served w = None"
| "serve_passes (Suc fuel) c env l poll_interval served w =
     (if stp_requested (sl_signal l w) then Some (w, Inr served)
      else case serve_once c env w of
          (w1, Inl e) \<Rightarrow> Some (w1, Inl e)
        | (w1, Inr count) \<Rightarrow>
            serve_passes fuel c env l poll_interval (served + count)
              (if count = 0 then sl_wait l poll_interval w1 else w1))"

definition serve_loop ::
  "nat \<Rightarrow> 'w request_consumer \<Rightarrow> 'w serve_env \<Rightarrow> 'w serve_loop_env \<Rightarrow> rat \<Rightarrow> string \<Rightarrow> 'w
     \<Rightarrow> ('w \<times> nat res) option" where
  "serve_loop fuel c env l poll_interval name w =
     (case serve_passes fuel c env l poll_interval 0 w of
        None \<Rightarrow> None
      | Some (w1, Inl e) \<Rightarrow> Some (w1, Inl e)
      | Some (w1, Inr served) \<Rightarrow>
          (case end_loop (sl_signal l) (sl_signal_clock l) name
                  (closing_steps (sl_flush l) (rc_close c) (sl_graph_close l)) w1 of
             (w2, line, Inl e) \<Rightarrow> Some (w2, Inl e)
           | (w2, line, Inr _) \<Rightarrow> Some (w2, Inr served)))"

section \<open>What the loop relies on\<close>

text \<open>A bus answers every valid request.\<close>

locale message_bus =
  fixes request :: "agent_message \<Rightarrow> 'w \<Rightarrow> 'w \<times> agent_message res"
  assumes answered: "valid_message m \<Longrightarrow> \<exists>w' a. request m w = (w', Inr a) \<and> answers m a"
begin

text \<open>Replies may fail one by one; no failure and no bad request ends the pass.\<close>

lemma serve_requests_total:
  assumes "\<forall>m \<in> set ms. valid_message m" "se_request env = request"
  shows "\<exists>w'. serve_requests c env ms w = (w', Inr ())"
  using assms
proof (induction ms arbitrary: w)
  case (Cons m ms)
  then obtain w1 a where "request m w = (w1, Inr a)" using answered by force
  with Cons show ?case by (simp add: Let_def split: prod.splits)
qed simp

lemma serve_once_total:
  assumes "rc_poll c w = (w1, Inr ms)" "\<forall>m \<in> set ms. valid_message m" "se_request env = request"
  shows "\<exists>w'. serve_once c env w = (w', Inr (length ms))"
  using serve_requests_total [OF assms(2,3), of c w1] assms(1) by (auto simp: serve_once_def)

text \<open>On the local consumer the replies line up with the requests.\<close>

lemma serve_requests_local:
  assumes "\<forall>m \<in> set ms. valid_message m" "se_request env = beside request"
  shows "\<exists>v' as. serve_requests local_request_consumer env ms (c, v)
      = ((c\<lparr>lc_replies := lc_replies c @ as\<rparr>, v'), Inr ()) \<and> list_all2 answers ms as"
  using assms
proof (induction ms arbitrary: c v)
  case Nil
  show ?case by (rule exI [where x = v], rule exI [where x = "[]"]) simp
next
  case (Cons m ms)
  then obtain v1 a where a: "request m v = (v1, Inr a)" "answers m a" using answered by force
  from Cons.IH [of "local_reply a c" v1] Cons.prems obtain v' as where
    "serve_requests local_request_consumer env ms (local_reply a c, v1)
      = ((c\<lparr>lc_replies := lc_replies c @ a # as\<rparr>, v'), Inr ())" "list_all2 answers ms as"
    by (auto simp: local_reply_def)
  with a Cons.prems(2) show ?case
    by (intro exI [where x = v'] exI [where x = "a # as"])
      (simp add: beside_def local_request_consumer_def)
qed

end

interpretation in_process: message_bus "bus_request env b" for env b
  by unfold_locales (rule request_answered)

text \<open>
  Serving the local inbox through the in-process bus answers every request taken, in order:
  the pass returns the number of requests, the inbox is empty afterwards, and exactly one reply
  per request is appended, the i-th one a valid answer to the i-th request.
\<close>

lemma serve_once_answers_all:
  assumes "\<forall>m \<in> set (lc_inbox c). valid_message m" "se_request env = beside (bus_request benv b)"
  shows "\<exists>v' as. serve_once local_request_consumer env (c, v)
      = ((\<lparr>lc_inbox = [], lc_replies = lc_replies c @ as\<rparr>, v'), Inr (length (lc_inbox c)))
    \<and> list_all2 answers (lc_inbox c) as"
proof -
  have "rc_poll local_request_consumer (c, v) = ((c\<lparr>lc_inbox := []\<rparr>, v), Inr (lc_inbox c))"
    by (simp add: local_request_consumer_def local_poll_def)
  moreover obtain v' as where "serve_requests local_request_consumer env (lc_inbox c) (c\<lparr>lc_inbox := []\<rparr>, v)
      = ((\<lparr>lc_inbox = [], lc_replies = lc_replies c @ as\<rparr>, v'), Inr ())" "list_all2 answers (lc_inbox c) as"
    using in_process.serve_requests_local [OF assms, of "c\<lparr>lc_inbox := []\<rparr>" v] by (cases c) auto
  ultimately show ?thesis by (simp add: serve_once_def)
qed

end
