(* ===== verification/EhloRetry.thy ===== *)
theory EhloRetry
  imports Prelude
begin

text \<open>
  Resending the activation request of a booting agent (\<open>kernel/ehlo_retry.py\<close>, with the bounds
  of \<open>kernel/ehlo_settings.py\<close>): which failures are worth resending, the jittered backoff, and
  the loop inside its attempt cap and time budget.

  The sender, the clock, the sleep and the jitter source are functions of a world \<open>'w\<close>; the
  log lines are returned.  Seconds are exact rationals.
\<close>

section \<open>Settings\<close>

record ehlo_settings =
  es_attempt_timeout :: rat
  es_max_attempts :: int
  es_budget :: rat
  es_backoff_base :: rat
  es_backoff_cap :: rat

definition ehlo_settings_valid :: "ehlo_settings \<Rightarrow> bool" where
  "ehlo_settings_valid s \<longleftrightarrow>
     5 \<le> es_attempt_timeout s \<and> es_attempt_timeout s \<le> 120
     \<and> 1 \<le> es_max_attempts s \<and> es_max_attempts s \<le> 20
     \<and> 30 \<le> es_budget s \<and> es_budget s \<le> 600
     \<and> 1 / 10 \<le> es_backoff_base s \<and> es_backoff_base s \<le> 10
     \<and> 1 \<le> es_backoff_cap s \<and> es_backoff_cap s \<le> 120"

definition min_attempt_timeout :: rat where
  "min_attempt_timeout = 1"

section \<open>Failures\<close>

text \<open>
  What a send can raise: an \<open>HTTPError\<close> with its status, a \<open>URLError\<close> whose reason is an
  exception or not, or anything else, with the classes it is an instance of.
\<close>

datatype send_error =
    HttpError int py_exn
  | UrlError "send_error option" py_exn
  | PlainError "string list" py_exn

fun send_error_exn :: "send_error \<Rightarrow> py_exn" where
  "send_error_exn (HttpError code e) = e"
| "send_error_exn (UrlError reason e) = e"
| "send_error_exn (PlainError classes e) = e"

definition transient_statuses :: "int list" where
  "transient_statuses = [502, 503, 504]"

definition transient_errors :: "string list" where
  "transient_errors = [''TimeoutError'', ''ConnectionRefusedError'', ''ConnectionResetError'',
     ''ConnectionAbortedError'', ''RemoteDisconnected'']"

fun is_transient :: "send_error \<Rightarrow> bool" where
  "is_transient (HttpError code e) \<longleftrightarrow> code \<in> set transient_statuses"
| "is_transient (UrlError reason e) \<longleftrightarrow> (case reason of None \<Rightarrow> False | Some r \<Rightarrow> is_transient r)"
| "is_transient (PlainError classes e) \<longleftrightarrow> (\<exists>c \<in> set classes. c \<in> set transient_errors)"

definition describe_exn :: "py_exn \<Rightarrow> string" where
  "describe_exn e = exn_type e @ '': '' @ exn_text e"

section \<open>The retry loop\<close>

text \<open>\<open>rand\<close> answers in the half-open unit interval.\<close>

definition ehlo_ceiling :: "ehlo_settings \<Rightarrow> nat \<Rightarrow> rat" where
  "ehlo_ceiling s attempt = min (es_backoff_cap s) (es_backoff_base s * 2 ^ (attempt - 1))"

definition ehlo_backoff :: "nat \<Rightarrow> ehlo_settings \<Rightarrow> rat \<Rightarrow> rat" where
  "ehlo_backoff attempt s rand = rand * ehlo_ceiling s attempt"

record ('w, 'a) ehlo_env =
  ee_send :: "rat \<Rightarrow> 'w \<Rightarrow> 'w \<times> (send_error + 'a)"
  ee_clock :: "'w \<Rightarrow> 'w \<times> rat"
  ee_sleep :: "rat \<Rightarrow> 'w \<Rightarrow> 'w"
  ee_rand :: "'w \<Rightarrow> 'w \<times> rat"

text \<open>
  How the loop ended: the answer, the final failure as it was raised, or the budget error with
  the number of attempts, the elapsed seconds and the last cause.
\<close>

datatype 'a ehlo_outcome =
    Activated 'a
  | FinalFailure send_error
  | BudgetExhausted nat rat send_error

definition budget_message :: "string \<Rightarrow> nat \<Rightarrow> rat \<Rightarrow> send_error \<Rightarrow> string" where
  "budget_message url attempts elapsed cause =
     ''EHLO to '' @ url @ '' failed after '' @ str_nat attempts @ '' attempt(s) in ''
     @ fixed_text 1 elapsed @ ''s; last cause: '' @ describe_exn (send_error_exn cause)"

definition attempt_line ::
  "string \<Rightarrow> ehlo_settings \<Rightarrow> nat \<Rightarrow> rat \<Rightarrow> send_error \<Rightarrow> bool \<Rightarrow> rat \<Rightarrow> string" where
  "attempt_line url s attempt elapsed cause spent delay =
     ''[ehlo] attempt '' @ str_nat attempt @ ''/'' @ str_int (es_max_attempts s) @ '' to '' @ url
     @ '' failed after '' @ fixed_text 1 elapsed @ ''s: '' @ describe_exn (send_error_exn cause) @ ''; ''
     @ (if spent then ''budget spent'' else ''resending in '' @ fixed_text 1 delay @ ''s'')"

text \<open>One attempt: the world, its log line, and the outcome if the loop ends here.\<close>

definition ehlo_attempt ::
  "('w, 'a) ehlo_env \<Rightarrow> string \<Rightarrow> ehlo_settings \<Rightarrow> rat \<Rightarrow> nat \<Rightarrow> 'w
     \<Rightarrow> 'w \<times> string list \<times> 'a ehlo_outcome option" where
  "ehlo_attempt env url s started attempt w =
     (let (w1, t1) = ee_clock env w;
          remaining = es_budget s - (t1 - started);
          timeout = min (es_attempt_timeout s) (max remaining min_attempt_timeout)
      in case ee_send env timeout w1 of
          (w2, Inr a) \<Rightarrow> (w2, [], Some (Activated a))
        | (w2, Inl e) \<Rightarrow>
            (if \<not> is_transient e then (w2, [], Some (FinalFailure e))
             else
               let (w3, t3) = ee_clock env w2; elapsed = t3 - started;
                   (w4, u) = ee_rand env w3; delay = ehlo_backoff attempt s u;
                   spent = (es_max_attempts s \<le> int attempt \<or> es_budget s \<le> elapsed + delay);
                   line = attempt_line url s attempt elapsed e spent delay
               in if spent then (w4, [line], Some (BudgetExhausted attempt elapsed e))
                  else (ee_sleep env delay w4, [line], None)))"

text \<open>\<open>None\<close> is a loop still resending when the fuel is spent; \<open>attempt\<close> counts those made.\<close>

fun ehlo_loop ::
  "nat \<Rightarrow> ('w, 'a) ehlo_env \<Rightarrow> string \<Rightarrow> ehlo_settings \<Rightarrow> rat \<Rightarrow> nat \<Rightarrow> 'w
     \<Rightarrow> ('w \<times> string list \<times> 'a ehlo_outcome \<times> nat) option" where
  "ehlo_loop 0 env url s started attempt w = None"
| "ehlo_loop (Suc fuel) env url s started attempt w =
     (case ehlo_attempt env url s started (attempt + 1) w of
        (w', lines, Some out) \<Rightarrow> Some (w', lines, out, attempt + 1)
      | (w', lines, None) \<Rightarrow>
          (case ehlo_loop fuel env url s started (attempt + 1) w' of
             None \<Rightarrow> None
           | Some (w'', lines', out, n) \<Rightarrow> Some (w'', lines @ lines', out, n)))"

definition send_with_retry ::
  "nat \<Rightarrow> ('w, 'a) ehlo_env \<Rightarrow> string \<Rightarrow> ehlo_settings \<Rightarrow> 'w
     \<Rightarrow> ('w \<times> string list \<times> 'a ehlo_outcome \<times> nat) option" where
  "send_with_retry fuel env url s w =
     (let (w1, started) = ee_clock env w in ehlo_loop fuel env url s started 0 w1)"

section \<open>Properties\<close>

lemma ehlo_backoff_bounds:
  assumes "ehlo_settings_valid s" "0 \<le> u" "u < 1"
  shows "0 \<le> ehlo_backoff attempt s u" "ehlo_backoff attempt s u < es_backoff_cap s"
proof -
  have pos: "0 < ehlo_ceiling s attempt"
    using assms(1) by (auto simp: ehlo_ceiling_def ehlo_settings_valid_def)
  show "0 \<le> ehlo_backoff attempt s u" using pos assms(2) by (simp add: ehlo_backoff_def)
  have "ehlo_backoff attempt s u < 1 * ehlo_ceiling s attempt"
    unfolding ehlo_backoff_def using pos assms(3) by (intro mult_strict_right_mono) auto
  also have "1 * ehlo_ceiling s attempt \<le> es_backoff_cap s" by (simp add: ehlo_ceiling_def)
  finally show "ehlo_backoff attempt s u < es_backoff_cap s" .
qed

lemma ehlo_attempt_last:
  "es_max_attempts s \<le> int attempt \<Longrightarrow> \<exists>w' lines out. ehlo_attempt env url s started attempt w = (w', lines, Some out)"
  by (auto simp: ehlo_attempt_def Let_def split: prod.splits sum.splits)

lemma ehlo_attempt_outcome:
  assumes "ehlo_attempt env url s started attempt w = (w', lines, Some out)"
  shows "(\<forall>n t e. out = BudgetExhausted n t e \<longrightarrow> is_transient e \<and> n = attempt)
    \<and> (\<forall>e. out = FinalFailure e \<longrightarrow> \<not> is_transient e)
    \<and> length lines = (case out of BudgetExhausted n t e \<Rightarrow> 1 | _ \<Rightarrow> 0)"
  using assms by (auto simp: ehlo_attempt_def Let_def split: prod.splits sum.splits if_splits)

lemma ehlo_attempt_resend:
  "ehlo_attempt env url s started attempt w = (w', lines, None) \<Longrightarrow>
     length lines = 1 \<and> int attempt < es_max_attempts s"
  by (auto simp: ehlo_attempt_def Let_def split: prod.splits sum.splits if_splits)

lemma ehlo_loop_ends:
  assumes "es_max_attempts s \<le> int (attempt + fuel)" "int attempt < es_max_attempts s"
  shows "\<exists>w' lines out n. ehlo_loop fuel env url s started attempt w = Some (w', lines, out, n)
    \<and> attempt < n \<and> int n \<le> es_max_attempts s
    \<and> length lines = n - attempt - (case out of BudgetExhausted _ _ _ \<Rightarrow> 0 | _ \<Rightarrow> 1)
    \<and> (\<forall>k t e. out = BudgetExhausted k t e \<longrightarrow> is_transient e \<and> k = n)
    \<and> (\<forall>e. out = FinalFailure e \<longrightarrow> \<not> is_transient e)"
  using assms
proof (induction fuel arbitrary: attempt w)
  case (Suc fuel)
  obtain w' lines res where step: "ehlo_attempt env url s started (attempt + 1) w = (w', lines, res)"
    by (metis prod.exhaust)
  show ?case
  proof (cases res)
    case (Some out)
    with ehlo_attempt_outcome [OF step [unfolded Some]] step Suc.prems show ?thesis
      by (auto split: ehlo_outcome.split)
  next
    case None
    note resend = ehlo_attempt_resend [OF step [unfolded None]]
    have "es_max_attempts s \<le> int (attempt + 1 + fuel)" using Suc.prems by simp
    from Suc.IH [OF this, of w'] resend obtain w'' lines' out n where
      rest: "ehlo_loop fuel env url s started (attempt + 1) w' = Some (w'', lines', out, n)"
        "attempt + 1 < n" "int n \<le> es_max_attempts s"
        "length lines' = n - (attempt + 1) - (case out of BudgetExhausted _ _ _ \<Rightarrow> 0 | _ \<Rightarrow> 1)"
        "\<forall>k t e. out = BudgetExhausted k t e \<longrightarrow> is_transient e \<and> k = n"
        "\<forall>e. out = FinalFailure e \<longrightarrow> \<not> is_transient e"
      by auto
    with step None resend show ?thesis by (auto split: ehlo_outcome.splits)
  qed
qed simp

text \<open>
  C33. Whatever the network does, the boot ends: with at most \<open>es_max_attempts\<close> sends the loop
  returns an answer, the first failure that is not worth resending, or the budget error naming
  the number of attempts made and a transient last cause; one log line is written per transient
  failure and none for an answer.
\<close>

theorem send_with_retry_ends:
  assumes "ehlo_settings_valid s"
  shows "\<exists>w' lines out n. send_with_retry (nat (es_max_attempts s)) env url s w = Some (w', lines, out, n)
    \<and> 1 \<le> n \<and> int n \<le> es_max_attempts s
    \<and> length lines = n - (case out of BudgetExhausted _ _ _ \<Rightarrow> 0 | _ \<Rightarrow> 1)
    \<and> (\<forall>k t e. out = BudgetExhausted k t e \<longrightarrow> is_transient e \<and> k = n)
    \<and> (\<forall>e. out = FinalFailure e \<longrightarrow> \<not> is_transient e)"
proof -
  obtain w1 started where "ee_clock env w = (w1, started)" by (rule prod.exhaust)
  moreover have "es_max_attempts s \<le> int (0 + nat (es_max_attempts s))" "int 0 < es_max_attempts s"
    using assms by (auto simp: ehlo_settings_valid_def)
  from ehlo_loop_ends [OF this, of env url started w1] obtain w' lines out n where
    "ehlo_loop (nat (es_max_attempts s)) env url s started 0 w1 = Some (w', lines, out, n)"
    "0 < n" "int n \<le> es_max_attempts s"
    "length lines = n - 0 - (case out of BudgetExhausted _ _ _ \<Rightarrow> 0 | _ \<Rightarrow> 1)"
    "\<forall>k t e. out = BudgetExhausted k t e \<longrightarrow> is_transient e \<and> k = n"
    "\<forall>e. out = FinalFailure e \<longrightarrow> \<not> is_transient e" by auto
  ultimately show ?thesis by (simp add: send_with_retry_def Suc_le_eq)
qed

lemma send_with_retry_ends_witness:
  "\<exists>w' lines out n. send_with_retry 2
      \<lparr>ee_send = \<lambda>timeout w. (w + timeout, Inl (HttpError 503 (PyExn ''HTTPError'' ''503''))),
       ee_clock = \<lambda>w. (w, w), ee_sleep = (+), ee_rand = \<lambda>w. (w, 1 / 2)\<rparr> ''u''
      \<lparr>es_attempt_timeout = 5, es_max_attempts = 2, es_budget = 30, es_backoff_base = 1,
       es_backoff_cap = 30\<rparr> 0 = Some (w', lines, (out :: unit ehlo_outcome), n) \<and> 1 \<le> n \<and> int n \<le> 2"
proof -
  let ?s = "\<lparr>es_attempt_timeout = 5, es_max_attempts = 2, es_budget = 30, es_backoff_base = 1,
       es_backoff_cap = 30\<rparr>"
  have "ehlo_settings_valid ?s" by (simp add: ehlo_settings_valid_def)
  let ?env = "\<lparr>ee_send = \<lambda>timeout w. (w + timeout, Inl (HttpError 503 (PyExn ''HTTPError'' ''503''))),
       ee_clock = \<lambda>w. (w, w), ee_sleep = (+), ee_rand = \<lambda>w. (w, 1 / 2)\<rparr> :: (rat, unit) ehlo_env"
  from send_with_retry_ends [OF \<open>ehlo_settings_valid ?s\<close>, of ?env "''u''" 0]
  obtain w' lines out n where
    "send_with_retry (nat (es_max_attempts ?s)) ?env ''u'' ?s 0 = Some (w', lines, out, n)"
    "1 \<le> n" "int n \<le> es_max_attempts ?s" by blast
  moreover have "nat (es_max_attempts ?s) = 2" "es_max_attempts ?s = 2" by simp_all
  ultimately show ?thesis by (simp only:) blast
qed

end
