(* ===== verification/FaultSink.thy ===== *)
theory FaultSink
  imports Vocabulary
begin

text \<open>
  The fault sink that persists faults in the graph (\<open>kernel/fault_graph.py\<close>), collapsing the
  repetitions of one failure into a first fault and a summary (\<open>kernel/fault_collapse.py\<close>), and
  the live incidents read back from it (\<open>kernel/fault_incidents.py\<close>).

  The graph is any \<open>graph_port\<close> over a world that also holds the wrapped sink.  SHA-256 is
  the parameter \<open>digest\<close>, the traceback text of a fault the parameter \<open>trace\<close>.
\<close>

section \<open>Collapse windows\<close>

record fault_signature =
  fsig_key :: string
  fsig_digest :: string

record fault_window =
  fwin_signature :: fault_signature
  fwin_first :: agent_fault
  fwin_first_key :: string
  fwin_suppressed :: nat
  fwin_last_seen :: "string option"

definition occurrence_count :: "fault_window \<Rightarrow> nat" where
  "occurrence_count win = fwin_suppressed win + 1"

text \<open>\<open>fault.capability or "none"\<close>.\<close>

definition capability_text :: "string option \<Rightarrow> string" where
  "capability_text c = (case c of None \<Rightarrow> ''none'' | Some s \<Rightarrow> if s = [] then ''none'' else s)"

definition fault_signature_of :: "(string \<Rightarrow> string) \<Rightarrow> agent_fault \<Rightarrow> fault_signature" where
  "fault_signature_of digest f =
     (let d = digest (flt_message f)
      in \<lparr>fsig_key = flt_agent f @ '':'' @ flt_module f @ '':'' @ capability_text (flt_capability f)
            @ '':'' @ flt_error_type f @ '':'' @ d,
          fsig_digest = d\<rparr>)"

definition within_window :: "agent_fault \<Rightarrow> agent_fault \<Rightarrow> rat \<Rightarrow> bool" where
  "within_window first f window_seconds =
     (let age = seconds_between (flt_occurred_at f) (flt_occurred_at first)
      in 0 \<le> age \<and> age \<le> window_seconds)"

definition suppression_key :: "fault_window \<Rightarrow> string" where
  "suppression_key win = ''fault-suppression:'' @ fsig_key (fwin_signature win) @ '':''
     @ isoformat (flt_occurred_at (fwin_first win))"

definition opt_str :: "string option \<Rightarrow> pyval" where
  "opt_str s = (case s of None \<Rightarrow> PNone | Some t \<Rightarrow> PStr t)"

definition suppression_props :: "fault_window \<Rightarrow> props" where
  "suppression_props win =
     (let first = fwin_first win; started = isoformat (flt_occurred_at first)
      in [(''first_fault_key'', PStr (fwin_first_key win)), (''source_agent'', PStr (flt_agent first)),
          (''source_module'', PStr (flt_module first)), (''capability'', opt_str (flt_capability first)),
          (''error_type'', PStr (flt_error_type first)),
          (''message_digest'', PStr (fsig_digest (fwin_signature win))),
          (''window_started_at'', PStr started),
          (''window_last_seen_at'', PStr (case fwin_last_seen win of None \<Rightarrow> started
             | Some t \<Rightarrow> if t = [] then started else t)),
          (''occurrence_count'', PInt (int (occurrence_count win))),
          (''suppressed_count'', PInt (int (fwin_suppressed win))),
          (''status'', PStr ''summarized'')])"

section \<open>The sink\<close>

definition fault_label :: string where "fault_label = ''Fault''"

definition fault_suppression_label :: string where "fault_suppression_label = ''FaultSuppression''"

record 'w fault_sink_env =
  fse_port :: "'w graph_port"
  fse_wall :: "'w \<Rightarrow> timestamp"
  fse_inner :: "'w \<Rightarrow> agent_fault \<Rightarrow> 'w \<times> unit res"
  fse_digest :: "string \<Rightarrow> string"
  fse_trace :: "agent_fault \<Rightarrow> string"
  fse_window_seconds :: rat

type_synonym fault_windows = "(string, fault_window) dict"

definition fault_node_key :: "agent_fault \<Rightarrow> string" where
  "fault_node_key f = ''fault:'' @ flt_agent f @ '':'' @ flt_module f @ '':''
     @ capability_text (flt_capability f) @ '':'' @ isoformat (flt_occurred_at f)"

definition fault_props :: "(agent_fault \<Rightarrow> string) \<Rightarrow> agent_fault \<Rightarrow> props" where
  "fault_props trace f =
     [(''source_agent'', PStr (flt_agent f)), (''source_module'', PStr (flt_module f)),
      (''capability'', opt_str (flt_capability f)), (''severity'', PStr (severity_text (flt_severity f))),
      (''error_type'', PStr (flt_error_type f)), (''message'', PStr (flt_message f)),
      (''traceback'', PStr (trace f)), (''correlation_id'', opt_str (flt_correlation_id f)),
      (''context'', PDict (flt_context f)), (''occurred_at'', PStr (isoformat (flt_occurred_at f))),
      (''status'', PStr ''pending'')]"

definition merge_unit :: "'w fault_sink_env \<Rightarrow> 'w \<Rightarrow> string \<Rightarrow> string \<Rightarrow> props \<Rightarrow> 'w \<times> unit res" where
  "merge_unit env w label key p =
     (case gp_merge (fse_port env) (fse_wall env w) w label key p 1 of
        (w', Inl e) \<Rightarrow> (w', Inl e)
      | (w', Inr n) \<Rightarrow> (w', Inr ()))"

text \<open>\<open>_flush\<close> takes the window out before it writes, so a refused write loses it.\<close>

definition flush_window ::
  "'w fault_sink_env \<Rightarrow> string \<Rightarrow> 'w \<times> fault_windows \<Rightarrow> ('w \<times> fault_windows) \<times> unit res" where
  "flush_window env key wd =
     (case wd of (w, windows) \<Rightarrow>
      case dict_get windows key of
        None \<Rightarrow> (wd, Inl (KeyError key))
      | Some win \<Rightarrow>
          if fwin_suppressed win = 0 then ((w, dict_pop key windows), Inr ())
          else (case merge_unit env w fault_suppression_label (suppression_key win) (suppression_props win) of
                  (w', r) \<Rightarrow> ((w', dict_pop key windows), r)))"

definition write_first ::
  "'w fault_sink_env \<Rightarrow> agent_fault \<Rightarrow> fault_signature \<Rightarrow> 'w \<times> fault_windows
     \<Rightarrow> ('w \<times> fault_windows) \<times> unit res" where
  "write_first env f sig wd =
     (case wd of (w, windows) \<Rightarrow>
      case merge_unit env w fault_label (fault_node_key f) (fault_props (fse_trace env) f) of
        (w', Inl e) \<Rightarrow> ((w', windows), Inl e)
      | (w', Inr _) \<Rightarrow>
          ((w', dict_set (fsig_key sig)
             \<lparr>fwin_signature = sig, fwin_first = f, fwin_first_key = fault_node_key f,
              fwin_suppressed = 0, fwin_last_seen = Some (isoformat (flt_occurred_at f))\<rparr> windows), Inr ()))"

definition forward_fault ::
  "'w fault_sink_env \<Rightarrow> agent_fault \<Rightarrow> 'w \<times> fault_windows \<Rightarrow> ('w \<times> fault_windows) \<times> unit res" where
  "forward_fault env f wd = (let (w', r) = fse_inner env (fst wd) f in ((w', snd wd), r))"

definition sink_submit ::
  "'w fault_sink_env \<Rightarrow> 'w \<times> fault_windows \<Rightarrow> agent_fault \<Rightarrow> ('w \<times> fault_windows) \<times> unit res" where
  "sink_submit env wd f =
     (let sig = fault_signature_of (fse_digest env) f; k = fsig_key sig in
      case dict_get (snd wd) k of
        Some win \<Rightarrow>
          if within_window (fwin_first win) f (fse_window_seconds env)
          then forward_fault env f (fst wd, dict_set k
                 (win\<lparr>fwin_suppressed := fwin_suppressed win + 1,
                      fwin_last_seen := Some (isoformat (flt_occurred_at f))\<rparr>) (snd wd))
          else (case flush_window env k wd of
                  (wd1, Inl e) \<Rightarrow> (wd1, Inl e)
                | (wd1, Inr _) \<Rightarrow>
                    (case write_first env f sig wd1 of
                       (wd2, Inl e) \<Rightarrow> (wd2, Inl e)
                     | (wd2, Inr _) \<Rightarrow> forward_fault env f wd2))
      | None \<Rightarrow>
          (case write_first env f sig wd of
             (wd2, Inl e) \<Rightarrow> (wd2, Inl e)
           | (wd2, Inr _) \<Rightarrow> forward_fault env f wd2))"

fun flush_keys ::
  "'w fault_sink_env \<Rightarrow> string list \<Rightarrow> 'w \<times> fault_windows \<Rightarrow> ('w \<times> fault_windows) \<times> unit res" where
  "flush_keys env [] wd = (wd, Inr ())"
| "flush_keys env (k # ks) wd =
     (case flush_window env k wd of
        (wd1, Inl e) \<Rightarrow> (wd1, Inl e)
      | (wd1, Inr _) \<Rightarrow> flush_keys env ks wd1)"

definition sink_flush ::
  "'w fault_sink_env \<Rightarrow> 'w \<times> fault_windows \<Rightarrow> ('w \<times> fault_windows) \<times> unit res" where
  "sink_flush env wd = flush_keys env (dict_keys (snd wd)) wd"

section \<open>Live incidents\<close>

definition node_day :: "(rat \<Rightarrow> string) \<Rightarrow> gnode \<Rightarrow> string" where
  "node_day flt n =
     (let v = (let a = data_get (gn_props n) ''occurred_at''
               in if py_truth a then a else data_get (gn_props n) ''created_at'')
      in if py_truth v then take 10 (py_str flt v) else [])"

definition latest_day :: "(rat \<Rightarrow> string) \<Rightarrow> gnode list \<Rightarrow> string" where
  "latest_day flt nodes = fold max (map (node_day flt) nodes) []"

definition latest_graph_run_day :: "(rat \<Rightarrow> string) \<Rightarrow> 'w graph_port \<Rightarrow> 'w \<Rightarrow> gnode list \<Rightarrow> string" where
  "latest_graph_run_day flt port w faults =
     (let d = latest_day flt (gp_list port w ''BrokerPositionSnapshot'')
      in if d \<noteq> [] then d else latest_day flt faults)"

definition in_scope :: "(rat \<Rightarrow> string) \<Rightarrow> gnode \<Rightarrow> string \<Rightarrow> bool" where
  "in_scope flt n scope_day =
     (let d = node_day flt n in scope_day = [] \<or> d = [] \<or> d = scope_day)"

definition resolved_fault_keys :: "(rat \<Rightarrow> string) \<Rightarrow> 'w graph_port \<Rightarrow> 'w \<Rightarrow> string list" where
  "resolved_fault_keys flt port w =
     List.map_filter (\<lambda>n. map_option (py_str flt) (dict_get (gn_props n) ''fault_key''))
       (gp_list port w ''FaultResolution'')"

definition is_live_incident :: "(rat \<Rightarrow> string) \<Rightarrow> gnode \<Rightarrow> string list \<Rightarrow> string \<Rightarrow> bool" where
  "is_live_incident flt n resolved scope_day =
     (if prop_is (gn_props n) ''status'' ''resolved'' \<or> gn_key n \<in> set resolved then False
      else let sev = (case dict_get (gn_props n) ''severity'' of None \<Rightarrow> ''error'' | Some v \<Rightarrow> py_str flt v)
        in (sev = ''error'' \<or> sev = ''critical'') \<and> in_scope flt n scope_day)"

definition live_fault_incidents :: "(rat \<Rightarrow> string) \<Rightarrow> 'w graph_port \<Rightarrow> 'w \<Rightarrow> gnode list" where
  "live_fault_incidents flt port w =
     (let faults = gp_list port w ''Fault'';
          resolved = resolved_fault_keys flt port w;
          scope_day = latest_graph_run_day flt port w faults
      in filter (\<lambda>n. is_live_incident flt n resolved scope_day) faults)"

section \<open>No fault is lost\<close>

text \<open>
  The occurrences the nodes of a graph stand for, and those still held in open windows; a history of
  submissions, whatever the wrapped sink answers to each.
\<close>

definition suppressed_of :: "gnode \<Rightarrow> int" where
  "suppressed_of n = (case dict_get (gn_props n) ''suppressed_count'' of Some (PInt i) \<Rightarrow> i | _ \<Rightarrow> 0)"

definition faults_on_record :: "store \<Rightarrow> int" where
  "faults_on_record s = int (length (list_nodes s ''Fault''))
     + sum_list (map suppressed_of (list_nodes s ''FaultSuppression''))"

definition held :: "fault_windows \<Rightarrow> int" where
  "held windows = sum_list (map (\<lambda>(k, win). int (fwin_suppressed win)) windows)"

definition submit_history ::
  "'w fault_sink_env \<Rightarrow> agent_fault list \<Rightarrow> 'w \<times> fault_windows \<Rightarrow> 'w \<times> fault_windows" where
  "submit_history env fs wd = fold (\<lambda>f wd. fst (sink_submit env wd f)) fs wd"

text \<open>The key of the summary of a window that a fault opens.\<close>

definition summary_key_of :: "'w fault_sink_env \<Rightarrow> agent_fault \<Rightarrow> string" where
  "summary_key_of env f = ''fault-suppression:'' @ fsig_key (fault_signature_of (fse_digest env) f)
     @ '':'' @ isoformat (flt_occurred_at f)"

lemma held_pop:
  "dict_wf d \<Longrightarrow> dict_get d k = Some win \<Longrightarrow> held (dict_pop k d) = held d - int (fwin_suppressed win)"
proof (induction d)
  case (Cons kv d)
  obtain k' v where kv: "kv = (k', v)" by (cases kv)
  show ?case
  proof (cases "k = k'")
    case True
    with Cons.prems kv have "k \<notin> fst ` set d" by (auto simp: dict_wf_Cons)
    then have "dict_pop k d = d" by (rule AList.delete_id)
    with True Cons.prems kv show ?thesis by (simp add: held_def)
  qed (use Cons kv in \<open>auto simp: held_def dict_wf_Cons\<close>)
qed simp

lemma held_set:
  "dict_wf d \<Longrightarrow> held (dict_set k win d) =
     held d + int (fwin_suppressed win) - (case dict_get d k of None \<Rightarrow> 0 | Some old \<Rightarrow> int (fwin_suppressed old))"
proof (induction d)
  case (Cons kv d)
  then show ?case by (cases kv) (auto simp: held_def dict_wf_Cons split: option.splits)
qed (simp add: held_def)

text \<open>A node under a fresh key is always written, and is the only change.\<close>

lemma merge_fresh:
  assumes "get_node s label key = None" "store_wf s" "dict_wf p"
  shows "\<exists>s'. merge_node now s label key p 1 = (s', Inr (make_node label key p 1)) \<and> store_wf s'
    \<and> (\<forall>l k. get_node s' l k = (if l = label \<and> k = key then Some (make_node label key p 1) else get_node s l k))
    \<and> list_nodes s' l = list_nodes s l @ (if l = label then [make_node label key p 1] else [])"
proof -
  let ?n = "make_node label key p 1"
  let ?s = "s\<lparr>st_nodes := dict_set (label, key) ?n (st_nodes s)\<rparr>"
  have run: "merge_node now s label key p 1 = (?s, Inr ?n)"
    using assms(1) by (simp add: merge_node_def merge_core_def get_node_def Let_def)
  moreover have "store_wf ?s" using merge_node_wf [OF assms(2, 3), of now label key 1] by (simp add: run)
  moreover have "list_nodes ?s l = list_nodes s l @ (if l = label then [?n] else [])"
    using assms(1) by (simp add: list_nodes_def get_node_def dict_set_new make_node_def)
  moreover have "get_node ?s l k = (if l = label \<and> k = key then Some ?n else get_node s l k)" for l k
    by (simp add: get_node_def dict_simps)
  ultimately show ?thesis by blast
qed

lemma fault_props_wf: "dict_wf (fault_props trace f)" "dict_wf (suppression_props win)"
  by (simp_all add: dict_wf_def fault_props_def suppression_props_def Let_def)

lemma suppressed_of_summary:
  "suppressed_of (make_node label key (suppression_props win) 1) = int (fwin_suppressed win)"
  by (simp add: suppressed_of_def make_node_def suppression_props_def Let_def frozen_props_def)

text \<open>
  What a history keeps: the keys the faults to come will write are free, and so is the summary key of
  every open window, each its own.
\<close>

definition sink_sound :: "store fault_sink_env \<Rightarrow> agent_fault list \<Rightarrow> store \<Rightarrow> fault_windows \<Rightarrow> bool" where
  "sink_sound env rest s d \<longleftrightarrow>
     store_wf s \<and> dict_wf d
     \<and> (\<forall>f \<in> set rest. get_node s ''Fault'' (fault_node_key f) = None
          \<and> get_node s ''FaultSuppression'' (summary_key_of env f) = None
          \<and> (\<forall>k win. dict_get d k = Some win \<longrightarrow> suppression_key win \<noteq> summary_key_of env f))
     \<and> (\<forall>k win. dict_get d k = Some win \<longrightarrow> get_node s ''FaultSuppression'' (suppression_key win) = None)
     \<and> (\<forall>k k' win win'. dict_get d k = Some win \<longrightarrow> dict_get d k' = Some win' \<longrightarrow> k \<noteq> k' \<longrightarrow>
          suppression_key win \<noteq> suppression_key win')"

lemma flush_window_sound:
  assumes "sink_sound env rest s d" "fse_port env = mem_port" "dict_get d k = Some win"
  shows "\<exists>s'. flush_window env k (s, d) = ((s', dict_pop k d), Inr ()) \<and> sink_sound env rest s' (dict_pop k d)
    \<and> faults_on_record s' + held (dict_pop k d) = faults_on_record s + held d"
proof -
  have wf: "store_wf s" "dict_wf d" using assms(1) by (simp_all add: sink_sound_def)
  note pop = held_pop [OF wf(2) assms(3)]
  show ?thesis
  proof (cases "fwin_suppressed win = 0")
    case True
    have "sink_sound env rest s (dict_pop k d)"
      using assms(1) unfolding sink_sound_def by (auto simp: dict_simps)
    with True assms(3) pop show ?thesis by (intro exI [of _ s]) (simp add: flush_window_def)
  next
    case False
    have free: "get_node s ''FaultSuppression'' (suppression_key win) = None"
      using assms(1, 3) by (simp add: sink_sound_def)
    from merge_fresh [OF free wf(1) fault_props_wf(2) [of win], of "fse_wall env s"] obtain s' where
      run: "merge_node (fse_wall env s) s ''FaultSuppression'' (suppression_key win) (suppression_props win) 1
          = (s', Inr (make_node ''FaultSuppression'' (suppression_key win) (suppression_props win) 1))"
      and s': "store_wf s'" "\<And>l key. get_node s' l key = (if l = ''FaultSuppression'' \<and> key = suppression_key win
          then Some (make_node ''FaultSuppression'' (suppression_key win) (suppression_props win) 1) else get_node s l key)"
      by blast
    have lists: "list_nodes s' ''Fault'' = list_nodes s ''Fault''"
      "list_nodes s' ''FaultSuppression'' = list_nodes s ''FaultSuppression''
        @ [make_node ''FaultSuppression'' (suppression_key win) (suppression_props win) 1]"
      using merge_fresh [OF free wf(1) fault_props_wf(2) [of win], of "fse_wall env s"] by (auto simp: run)
    have "sink_sound env rest s' (dict_pop k d)"
      using assms(1, 3) s'(1) unfolding sink_sound_def s'(2) by (auto simp: dict_simps) metis+
    moreover have "flush_window env k (s, d) = ((s', dict_pop k d), Inr ())"
      using False assms(2, 3) run
      by (simp add: flush_window_def merge_unit_def fault_suppression_label_def)
    ultimately show ?thesis
      using pop by (intro exI [of _ s']) (simp add: faults_on_record_def lists suppressed_of_summary)
  qed
qed

lemma write_first_sound:
  assumes "sink_sound env (f # rest) s d" "fse_port env = mem_port"
    "fault_node_key f \<notin> fault_node_key ` set rest" "summary_key_of env f \<notin> summary_key_of env ` set rest"
    "sig = fault_signature_of (fse_digest env) f" "dict_get d (fsig_key sig) = None"
  shows "\<exists>s' d'. write_first env f sig (s, d) = ((s', d'), Inr ()) \<and> sink_sound env rest s' d'
    \<and> faults_on_record s' + held d' = faults_on_record s + held d + 1"
proof -
  have wf: "store_wf s" "dict_wf d" and free: "get_node s ''Fault'' (fault_node_key f) = None"
    using assms(1) by (simp_all add: sink_sound_def)
  let ?n = "make_node ''Fault'' (fault_node_key f) (fault_props (fse_trace env) f) 1"
  from merge_fresh [OF free wf(1) fault_props_wf(1) [of "fse_trace env" f], of "fse_wall env s"] obtain s' where
    run: "merge_node (fse_wall env s) s ''Fault'' (fault_node_key f) (fault_props (fse_trace env) f) 1 = (s', Inr ?n)"
    and s': "store_wf s'" "\<And>l key. get_node s' l key = (if l = ''Fault'' \<and> key = fault_node_key f
          then Some ?n else get_node s l key)"
    by blast
  have lists: "list_nodes s' ''Fault'' = list_nodes s ''Fault'' @ [?n]"
    "list_nodes s' ''FaultSuppression'' = list_nodes s ''FaultSuppression''"
    using merge_fresh [OF free wf(1) fault_props_wf(1) [of "fse_trace env" f], of "fse_wall env s"] by (auto simp: run)
  let ?win = "\<lparr>fwin_signature = sig, fwin_first = f, fwin_first_key = fault_node_key f,
    fwin_suppressed = 0, fwin_last_seen = Some (isoformat (flt_occurred_at f))\<rparr>"
  have key: "suppression_key ?win = summary_key_of env f"
    by (simp add: suppression_key_def summary_key_of_def assms(5))
  have "sink_sound env rest s' (dict_set (fsig_key sig) ?win d)"
    using assms(1, 3, 4, 6) s'(1) unfolding sink_sound_def s'(2)
    by (auto simp: dict_simps key image_iff split: if_splits) metis+
  moreover have "write_first env f sig (s, d) = ((s', dict_set (fsig_key sig) ?win d), Inr ())"
    using assms(2) run by (simp add: write_first_def merge_unit_def fault_label_def)
  ultimately show ?thesis
    using held_set [OF wf(2), of "fsig_key sig" ?win] assms(6)
    by (intro exI [of _ s'] exI conjI) (auto simp: faults_on_record_def lists)
qed

lemma sink_submit_sound:
  assumes "sink_sound env (f # rest) s d" "fse_port env = mem_port" "\<And>s f. fst (fse_inner env s f) = s"
    "fault_node_key f \<notin> fault_node_key ` set rest" "summary_key_of env f \<notin> summary_key_of env ` set rest"
  shows "\<exists>s' d'. fst (sink_submit env (s, d) f) = (s', d') \<and> sink_sound env rest s' d'
    \<and> faults_on_record s' + held d' = faults_on_record s + held d + 1"
proof -
  let ?sig = "fault_signature_of (fse_digest env) f"
  let ?k = "fsig_key ?sig"
  have pass: "fst (forward_fault env f wd) = wd" for wd
    using assms(3) [of "fst wd" f] by (simp add: forward_fault_def prod.case_eq_if)
  have first: "\<exists>s' d'. fst (case write_first env f ?sig (s1, d1) of (wd2, Inl e) \<Rightarrow> (wd2, Inl e)
        | (wd2, Inr _) \<Rightarrow> forward_fault env f wd2) = (s', d') \<and> sink_sound env rest s' d'
      \<and> faults_on_record s' + held d' = faults_on_record s1 + held d1 + 1"
    if sound: "sink_sound env (f # rest) s1 d1" "dict_get d1 ?k = None" for s1 d1
  proof -
    from write_first_sound [OF sound(1) assms(2, 4, 5) refl sound(2)] obtain s' d' where
      "write_first env f ?sig (s1, d1) = ((s', d'), Inr ())" "sink_sound env rest s' d'"
      "faults_on_record s' + held d' = faults_on_record s1 + held d1 + 1" by blast
    then show ?thesis by (simp add: pass)
  qed
  show ?thesis
  proof (cases "dict_get d ?k")
    case None
    with first [OF assms(1)] show ?thesis by (simp add: sink_submit_def Let_def)
  next
    case (Some win)
    have wf: "dict_wf d" using assms(1) by (simp add: sink_sound_def)
    show ?thesis
    proof (cases "within_window (fwin_first win) f (fse_window_seconds env)")
      case True
      let ?win = "win\<lparr>fwin_suppressed := fwin_suppressed win + 1,
          fwin_last_seen := Some (isoformat (flt_occurred_at f))\<rparr>"
      have "suppression_key ?win = suppression_key win" by (simp add: suppression_key_def)
      then have "sink_sound env rest s (dict_set ?k ?win d)"
        using assms(1) Some unfolding sink_sound_def by (auto simp: dict_simps split: if_splits)
      moreover have "fst (sink_submit env (s, d) f) = (s, dict_set ?k ?win d)"
        using Some True by (simp add: sink_submit_def Let_def pass)
      ultimately show ?thesis using held_set [OF wf, of ?k ?win] Some by simp
    next
      case False
      from flush_window_sound [OF assms(1, 2) Some] obtain s1 where
        fl: "flush_window env ?k (s, d) = ((s1, dict_pop ?k d), Inr ())" "sink_sound env (f # rest) s1 (dict_pop ?k d)"
          "faults_on_record s1 + held (dict_pop ?k d) = faults_on_record s + held d" by blast
      from first [OF fl(2)] Some False fl show ?thesis by (simp add: sink_submit_def Let_def dict_simps)
    qed
  qed
qed

lemma submit_history_sound:
  assumes "sink_sound env fs s d" "fse_port env = mem_port" "\<And>s f. fst (fse_inner env s f) = s"
    "distinct (map fault_node_key fs)" "distinct (map (summary_key_of env) fs)"
  shows "\<exists>s' d'. submit_history env fs (s, d) = (s', d') \<and> sink_sound env [] s' d'
    \<and> faults_on_record s' + held d' = faults_on_record s + held d + int (length fs)"
  using assms(1, 4, 5)
proof (induction fs arbitrary: s d)
  case (Cons f fs)
  from sink_submit_sound [OF Cons.prems(1) assms(2, 3)] Cons.prems(2, 3) obtain s1 d1 where
    one: "fst (sink_submit env (s, d) f) = (s1, d1)" "sink_sound env fs s1 d1"
      "faults_on_record s1 + held d1 = faults_on_record s + held d + 1" by auto
  from Cons.IH [OF one(2)] Cons.prems(2, 3) obtain s' d' where
    "submit_history env fs (s1, d1) = (s', d')" "sink_sound env [] s' d'"
    "faults_on_record s' + held d' = faults_on_record s1 + held d1 + int (length fs)" by auto
  with one show ?case by (simp add: submit_history_def)
qed (simp add: submit_history_def)

lemma flush_keys_sound:
  assumes "sink_sound env [] s d" "fse_port env = mem_port" "ks = dict_keys d"
  shows "\<exists>s'. flush_keys env ks (s, d) = ((s', []), Inr ())
    \<and> faults_on_record s' = faults_on_record s + held d"
  using assms(1, 3)
proof (induction ks arbitrary: s d)
  case (Cons k ks)
  then obtain win d1 where d: "d = (k, win) # d1" "ks = dict_keys d1" by (cases d) auto
  moreover have "dict_wf d" using Cons.prems(1) by (simp add: sink_sound_def)
  ultimately have pop: "dict_pop k d1 = d1" by (auto simp: dict_wf_Cons intro: AList.delete_id)
  from flush_window_sound [OF Cons.prems(1) assms(2), of k win] d obtain s1 where
    one: "flush_window env k (s, d) = ((s1, d1), Inr ())" "sink_sound env [] s1 d1"
      "faults_on_record s1 + held d1 = faults_on_record s + held d" by (auto simp: pop)
  from Cons.IH [OF one(2) d(2)] one show ?case by auto
qed (simp add: held_def)

text \<open>
  C19. Collapsing loses no fault.  On the in-memory graph, under a wrapped sink that leaves the graph
  alone, whether it raises or not: take any history of submissions of faults that differ in their node
  key (origin and time) and in their summary key (signature and time), none of them a key of the graph
  yet.  Then no write is refused, the final flush returns and leaves no window open, and the nodes the
  graph has gained, one fault for each Fault node and its suppressed_count for each FaultSuppression
  node, account for exactly the faults submitted.
\<close>

theorem no_fault_lost:
  assumes "fse_port env = mem_port" "\<And>s f. fst (fse_inner env s f) = s" "store_wf s"
    and "distinct (map fault_node_key fs)" "distinct (map (summary_key_of env) fs)"
    and "\<And>f. f \<in> set fs \<Longrightarrow> get_node s ''Fault'' (fault_node_key f) = None
      \<and> get_node s ''FaultSuppression'' (summary_key_of env f) = None"
  shows "\<exists>s'. sink_flush env (submit_history env fs (s, [])) = ((s', []), Inr ())
    \<and> int (length (list_nodes s' ''Fault'')) + sum_list (map suppressed_of (list_nodes s' ''FaultSuppression''))
      = int (length (list_nodes s ''Fault'')) + sum_list (map suppressed_of (list_nodes s ''FaultSuppression''))
        + int (length fs)"
proof -
  have "sink_sound env fs s []" using assms(3, 6) by (simp add: sink_sound_def)
  from submit_history_sound [OF this assms(1, 2, 4, 5)] obtain s1 d1 where
    hist: "submit_history env fs (s, []) = (s1, d1)" "sink_sound env [] s1 d1"
      "faults_on_record s1 + held d1 = faults_on_record s + held [] + int (length fs)" by blast
  from flush_keys_sound [OF hist(2) assms(1) refl] hist show ?thesis
    by (auto simp: sink_flush_def faults_on_record_def held_def)
qed

definition sample_sink_env :: "store fault_sink_env" where
  "sample_sink_env = \<lparr>fse_port = mem_port, fse_wall = \<lambda>s. sample_time,
     fse_inner = \<lambda>s f. (s, Inl (ValueError ''the wrapped sink raises'')), fse_digest = \<lambda>s. s,
     fse_trace = \<lambda>f. [], fse_window_seconds = 3600\<rparr>"

definition sample_fault_at :: "nat \<Rightarrow> agent_fault" where
  "sample_fault_at second = fault_from_exception (sample_time\<lparr>ts_second := second\<rparr>) ''scanner'' ''m'' None Error None []
     (ValueError ''x'')"

lemma no_fault_lost_witness:
  "\<exists>s'. sink_flush sample_sink_env (submit_history sample_sink_env (map sample_fault_at [1, 2, 3]) (empty_store, []))
      = ((s', []), Inr ())
    \<and> int (length (list_nodes s' ''Fault'')) + sum_list (map suppressed_of (list_nodes s' ''FaultSuppression'')) = 3"
proof -
  let ?fs = "map sample_fault_at [1, 2, 3]"
  have env: "fse_port sample_sink_env = mem_port" "\<And>s f. fst (fse_inner sample_sink_env s f) = s"
    by (simp_all add: sample_sink_env_def)
  have none: "get_node empty_store l k = None" "list_nodes empty_store l = []" "store_wf empty_store" for l k
    by (simp_all add: get_node_def list_nodes_def empty_store_def store_wf_def)
  have "distinct (map isoformat (map (\<lambda>f. flt_occurred_at f) ?fs))"
    by (simp add: sample_fault_at_def fault_from_exception_def sample_time_def isoformat_def pad_digits_eq)
  then have "distinct (map fault_node_key ?fs)" "distinct (map (summary_key_of sample_sink_env) ?fs)"
    by (simp_all add: fault_node_key_def summary_key_of_def fault_signature_of_def Let_def sample_fault_at_def
        fault_from_exception_def)
  from no_fault_lost [OF env none(3) this] show ?thesis by (simp add: none)
qed

end
