(* ===== verification/Broker.thy ===== *)
theory Broker
  imports Faults
begin

text \<open>
  Money (\<open>contracts/common.py\<close>), broker outcomes (\<open>agents/execution/broker.py\<close>), the order
  price tolerance (\<open>order_tolerance.py\<close>, \<open>alpaca_orders.bounded_limit_price\<close>), and the price
  arithmetic they share with the paper broker.

  \<open>Decimal\<close> amounts are exact rationals: the default context keeps 28 significant digits, more
  than any price times a basis-point factor needs.  ATR percentages, floats in the code that are
  read through \<open>Decimal(str(v))\<close>, are exact rationals too; an infinite or not-a-number reading
  is \<open>None\<close>.
\<close>

section \<open>Money\<close>

record money =
  mny_amount :: rat
  mny_currency :: string

text \<open>The field bound of the model: \<open>amount\<close> is not negative.\<close>

definition money_valid :: "money \<Rightarrow> bool" where
  "money_valid m \<longleftrightarrow> 0 \<le> mny_amount m"

definition usd :: "rat \<Rightarrow> money" where
  "usd a = \<lparr>mny_amount = a, mny_currency = ''USD''\<rparr>"

text \<open>\<open>quantize(CENT, ROUND_HALF_UP)\<close>.\<close>

definition quantize_cent :: "rat \<Rightarrow> rat" where
  "quantize_cent x = of_int (round_half_up (x * 100)) / 100"

definition money_to_cents :: "money \<Rightarrow> int" where
  "money_to_cents m = round_half_up (mny_amount m * 100)"

datatype order_side = Buy | Sell

fun side_text :: "order_side \<Rightarrow> string" where
  "side_text Buy = ''buy''"
| "side_text Sell = ''sell''"

text \<open>The factor a side and a number of basis points give a price.\<close>

definition band_factor :: "order_side \<Rightarrow> int \<Rightarrow> rat" where
  "band_factor side bps =
     (let t = of_int bps / 10000 in case side of Buy \<Rightarrow> 1 + t | Sell \<Rightarrow> max 0 (1 - t))"

definition bounded_limit_price :: "money \<Rightarrow> order_side \<Rightarrow> int \<Rightarrow> rat" where
  "bounded_limit_price decided side tolerance_bps =
     quantize_cent (mny_amount decided * band_factor side tolerance_bps)"

section \<open>Broker outcomes\<close>

datatype fill_status = Filled | Partial | Rejected | Pending

fun status_text :: "fill_status \<Rightarrow> string" where
  "status_text Filled = ''filled''"
| "status_text Partial = ''partial''"
| "status_text Rejected = ''rejected''"
| "status_text Pending = ''pending''"

datatype tolerance_mode = Flat | Scaled

record broker_fill =
  bf_key :: string
  bf_ticker :: string
  bf_side :: order_side
  bf_quantity :: int
  bf_price :: money
  bf_order_id :: string
  bf_status :: fill_status
  bf_reason :: "string option"
  bf_submitted_at :: "string option"
  bf_order_type :: "string option"
  bf_time_in_force :: "string option"
  bf_tolerance_mode :: "tolerance_mode option"
  bf_counterfactual_mode :: "tolerance_mode option"
  bf_decided_price :: "money option"
  bf_applied_tolerance_bps :: "int option"
  bf_applied_limit_price :: "money option"
  bf_counterfactual_tolerance_bps :: "int option"
  bf_counterfactual_limit_price :: "money option"
  bf_flat_tolerance_bps :: "int option"
  bf_flat_limit_price :: "money option"
  bf_scaled_tolerance_bps :: "int option"
  bf_scaled_limit_price :: "money option"
  bf_decision_atr_pct :: "rat option"
  bf_volatility_present :: "bool option"
  bf_volatility_fallback :: "bool option"
  bf_order_status :: "string option"
  bf_filled_quantity :: "int option"

text \<open>A fill with the optional fields at their defaults.\<close>

definition broker_fill_of ::
  "string \<Rightarrow> string \<Rightarrow> order_side \<Rightarrow> int \<Rightarrow> money \<Rightarrow> string \<Rightarrow> fill_status \<Rightarrow> broker_fill" where
  "broker_fill_of key ticker side quantity price order_id status =
     \<lparr>bf_key = key, bf_ticker = ticker, bf_side = side, bf_quantity = quantity, bf_price = price,
      bf_order_id = order_id, bf_status = status, bf_reason = None, bf_submitted_at = None,
      bf_order_type = None, bf_time_in_force = None, bf_tolerance_mode = None,
      bf_counterfactual_mode = None, bf_decided_price = None, bf_applied_tolerance_bps = None,
      bf_applied_limit_price = None, bf_counterfactual_tolerance_bps = None,
      bf_counterfactual_limit_price = None, bf_flat_tolerance_bps = None,
      bf_flat_limit_price = None, bf_scaled_tolerance_bps = None, bf_scaled_limit_price = None,
      bf_decision_atr_pct = None, bf_volatility_present = None, bf_volatility_fallback = None,
      bf_order_status = None, bf_filled_quantity = None\<rparr>"

lemma broker_fill_of_simps [simp]:
  "bf_key (broker_fill_of k t s q p i st) = k" "bf_ticker (broker_fill_of k t s q p i st) = t"
  "bf_side (broker_fill_of k t s q p i st) = s" "bf_quantity (broker_fill_of k t s q p i st) = q"
  "bf_price (broker_fill_of k t s q p i st) = p" "bf_order_id (broker_fill_of k t s q p i st) = i"
  "bf_status (broker_fill_of k t s q p i st) = st" "bf_reason (broker_fill_of k t s q p i st) = None"
  "bf_filled_quantity (broker_fill_of k t s q p i st) = None"
  by (simp_all add: broker_fill_of_def)

definition executed_quantity :: "broker_fill \<Rightarrow> int" where
  "executed_quantity f =
     (case bf_filled_quantity f of
        Some q \<Rightarrow> q
      | None \<Rightarrow> if bf_status f \<in> {Filled, Partial} then bf_quantity f else 0)"

text \<open>\<open>BrokerRejectedError\<close> carries the rejected outcome; anything else is a plain exception.\<close>

datatype broker_exn = BrokerRejected broker_fill | BrokerFailed py_exn

fun broker_exn_exn :: "broker_exn \<Rightarrow> py_exn" where
  "broker_exn_exn (BrokerRejected f) = PyExn ''BrokerRejectedError''
     (case bf_reason f of None \<Rightarrow> ''broker_rejected'' | Some r \<Rightarrow> if r = [] then ''broker_rejected'' else r)"
| "broker_exn_exn (BrokerFailed e) = e"

record broker_position =
  bp_ticker :: string
  bp_quantity :: int
  bp_avg_entry_cents :: int
  bp_market_value_cents :: int

record broker_account =
  ba_cash_cents :: int
  ba_equity_cents :: int
  ba_buying_power_cents :: int

section \<open>Order tolerance\<close>

record tolerance_config =
  tc_mode :: tolerance_mode
  tc_flat_bps :: int
  tc_scaled_atr_multiplier :: rat
  tc_scaled_floor_bps :: int
  tc_scaled_ceiling_bps :: int

record tolerance_evidence =
  te_mode :: tolerance_mode
  te_counterfactual_mode :: tolerance_mode
  te_decided_price :: money
  te_applied_tolerance_bps :: int
  te_applied_limit_price :: money
  te_counterfactual_tolerance_bps :: int
  te_counterfactual_limit_price :: money
  te_flat_tolerance_bps :: int
  te_flat_limit_price :: money
  te_scaled_tolerance_bps :: int
  te_scaled_limit_price :: money
  te_decision_atr_pct :: "rat option"
  te_volatility_present :: bool
  te_volatility_fallback :: bool

definition usable_atr_pct :: "rat option \<Rightarrow> rat option" where
  "usable_atr_pct v = (case v of None \<Rightarrow> None | Some x \<Rightarrow> if x < 0 then None else Some x)"

definition scaled_tolerance_bps :: "rat option \<Rightarrow> tolerance_config \<Rightarrow> int \<times> bool \<times> bool" where
  "scaled_tolerance_bps atr_pct c =
     (case usable_atr_pct atr_pct of
        None \<Rightarrow> (tc_flat_bps c, False, True)
      | Some v \<Rightarrow>
          (min (tc_scaled_ceiling_bps c)
             (max (tc_scaled_floor_bps c) (round_half_up (v * 100 * tc_scaled_atr_multiplier c))),
           True, False))"

definition limit_price :: "money \<Rightarrow> order_side \<Rightarrow> int \<Rightarrow> money" where
  "limit_price decided side bps = decided\<lparr>mny_amount := bounded_limit_price decided side bps\<rparr>"

definition resolve_order_tolerance ::
  "money \<Rightarrow> rat option \<Rightarrow> order_side \<Rightarrow> tolerance_config \<Rightarrow> tolerance_evidence" where
  "resolve_order_tolerance est_price atr_pct side c =
     (let flat_bps = tc_flat_bps c;
          (scaled_bps, present, fallback) = scaled_tolerance_bps atr_pct c;
          flat_limit = limit_price est_price side flat_bps;
          scaled_limit = limit_price est_price side scaled_bps;
          scaled = (tc_mode c = Scaled)
      in \<lparr>te_mode = tc_mode c,
          te_counterfactual_mode = (if scaled then Flat else Scaled),
          te_decided_price = est_price,
          te_applied_tolerance_bps = (if scaled then scaled_bps else flat_bps),
          te_applied_limit_price = (if scaled then scaled_limit else flat_limit),
          te_counterfactual_tolerance_bps = (if scaled then flat_bps else scaled_bps),
          te_counterfactual_limit_price = (if scaled then flat_limit else scaled_limit),
          te_flat_tolerance_bps = flat_bps, te_flat_limit_price = flat_limit,
          te_scaled_tolerance_bps = scaled_bps, te_scaled_limit_price = scaled_limit,
          te_decision_atr_pct = usable_atr_pct atr_pct,
          te_volatility_present = present, te_volatility_fallback = fallback\<rparr>)"

definition attach_order_tolerance :: "broker_fill \<Rightarrow> tolerance_evidence \<Rightarrow> broker_fill" where
  "attach_order_tolerance f e =
     f\<lparr>bf_tolerance_mode := Some (te_mode e),
       bf_counterfactual_mode := Some (te_counterfactual_mode e),
       bf_decided_price := Some (te_decided_price e),
       bf_applied_tolerance_bps := Some (te_applied_tolerance_bps e),
       bf_applied_limit_price := Some (te_applied_limit_price e),
       bf_counterfactual_tolerance_bps := Some (te_counterfactual_tolerance_bps e),
       bf_counterfactual_limit_price := Some (te_counterfactual_limit_price e),
       bf_flat_tolerance_bps := Some (te_flat_tolerance_bps e),
       bf_flat_limit_price := Some (te_flat_limit_price e),
       bf_scaled_tolerance_bps := Some (te_scaled_tolerance_bps e),
       bf_scaled_limit_price := Some (te_scaled_limit_price e),
       bf_decision_atr_pct := te_decision_atr_pct e,
       bf_volatility_present := Some (te_volatility_present e),
       bf_volatility_fallback := Some (te_volatility_fallback e)\<rparr>"

lemma attach_order_tolerance_facts [simp]:
  "bf_key (attach_order_tolerance f e) = bf_key f" "bf_ticker (attach_order_tolerance f e) = bf_ticker f"
  "bf_side (attach_order_tolerance f e) = bf_side f" "bf_quantity (attach_order_tolerance f e) = bf_quantity f"
  "bf_price (attach_order_tolerance f e) = bf_price f" "bf_order_id (attach_order_tolerance f e) = bf_order_id f"
  "bf_status (attach_order_tolerance f e) = bf_status f" "bf_reason (attach_order_tolerance f e) = bf_reason f"
  by (simp_all add: attach_order_tolerance_def)

section \<open>Bounds\<close>

lemma quantize_cent_error: "\<bar>quantize_cent x - x\<bar> \<le> 1 / 200"
  using round_half_up_error [of "x * 100"] unfolding quantize_cent_def by (simp add: abs_le_iff field_simps)

lemma band_factor_nonneg: "side = Sell \<or> -10000 \<le> bps \<Longrightarrow> 0 \<le> band_factor side bps"
  by (cases side) (auto simp: band_factor_def Let_def field_simps)

lemma quantize_cent_nonneg: "0 \<le> x \<Longrightarrow> 0 \<le> quantize_cent x"
  by (simp add: quantize_cent_def round_half_up_nonneg)

lemma quantize_cent_mono: "0 \<le> x \<Longrightarrow> x \<le> y \<Longrightarrow> quantize_cent x \<le> quantize_cent y"
  by (simp add: quantize_cent_def divide_right_mono round_half_up_mono)

lemma quantize_cent_cents [simp]: "quantize_cent (of_int n / 100) = of_int n / 100"
  by (simp add: quantize_cent_def)

lemma limit_price_bounds:
  assumes "0 \<le> bps" "money_valid price"
  shows "\<bar>mny_amount (limit_price price side bps) - mny_amount price * band_factor side bps\<bar> \<le> 1 / 200"
    and "0 \<le> mny_amount (limit_price price side bps)"
    and "mny_amount price = of_int n / 100 \<Longrightarrow> side = Buy \<Longrightarrow> mny_amount price \<le> mny_amount (limit_price price side bps)"
    and "mny_amount price = of_int n / 100 \<Longrightarrow> side = Sell \<Longrightarrow> mny_amount (limit_price price side bps) \<le> mny_amount price"
proof -
  let ?p = "mny_amount price" and ?f = "band_factor side bps"
  have lim: "mny_amount (limit_price price side bps) = quantize_cent (?p * ?f)"
    by (simp add: limit_price_def bounded_limit_price_def)
  have f: "0 \<le> ?f" using assms(1) by (intro band_factor_nonneg) auto
  have p: "0 \<le> ?p" using assms(2) by (simp add: money_valid_def)
  show "\<bar>mny_amount (limit_price price side bps) - ?p * ?f\<bar> \<le> 1 / 200"
    unfolding lim by (rule quantize_cent_error)
  show "0 \<le> mny_amount (limit_price price side bps)"
    unfolding lim using p f by (intro quantize_cent_nonneg mult_nonneg_nonneg)
  assume cents: "?p = of_int n / 100"
  {
    assume "side = Buy"
    then have "1 \<le> ?f" using assms(1) by (simp add: band_factor_def Let_def)
    then have "?p * 1 \<le> ?p * ?f" using p by (rule mult_left_mono)
    then have "quantize_cent ?p \<le> quantize_cent (?p * ?f)" using p by (intro quantize_cent_mono) simp_all
    then show "?p \<le> mny_amount (limit_price price side bps)" unfolding lim by (simp add: cents)
  next
    assume "side = Sell"
    then have "?f \<le> 1" using assms(1) by (simp add: band_factor_def Let_def)
    then have "?p * ?f \<le> ?p * 1" using p by (rule mult_left_mono)
    then have "quantize_cent (?p * ?f) \<le> quantize_cent ?p" using p f by (intro quantize_cent_mono) simp_all
    then show "mny_amount (limit_price price side bps) \<le> ?p" unfolding lim by (simp add: cents)
  }
qed

lemma scaled_tolerance_nonneg:
  assumes "tc_scaled_floor_bps c \<le> tc_scaled_ceiling_bps c" "0 \<le> tc_scaled_floor_bps c" "0 \<le> tc_flat_bps c"
  shows "0 \<le> fst (scaled_tolerance_bps atr c)"
  using assms by (auto simp: scaled_tolerance_bps_def split: option.split)

text \<open>
  The tolerance an order is submitted with stays in its band whatever volatility the analyst
  reported: with a usable reading the scaled tolerance lies between the configured floor and
  ceiling, without one it falls back to the flat one and says so; the limit is within half a cent
  of the decided price moved by the applied tolerance, is never negative, and a buyer's limit is
  never below, a seller's never above, a decided price in whole cents.
\<close>

lemma order_tolerance_banded:
  assumes "tc_scaled_floor_bps c \<le> tc_scaled_ceiling_bps c" "0 \<le> tc_scaled_floor_bps c"
    "0 \<le> tc_flat_bps c" "money_valid price"
  shows "let e = resolve_order_tolerance price atr side c;
             lim = mny_amount (te_applied_limit_price e)
      in (case usable_atr_pct atr of
            None \<Rightarrow> te_scaled_tolerance_bps e = tc_flat_bps c \<and> te_volatility_fallback e
          | Some v \<Rightarrow> te_scaled_tolerance_bps e \<in> {tc_scaled_floor_bps c .. tc_scaled_ceiling_bps c}
              \<and> \<not> te_volatility_fallback e)
        \<and> \<bar>lim - mny_amount price * band_factor side (te_applied_tolerance_bps e)\<bar> \<le> 1 / 200
        \<and> 0 \<le> lim
        \<and> (mny_amount price = of_int n / 100 \<longrightarrow>
             (if side = Buy then mny_amount price \<le> lim else lim \<le> mny_amount price))"
proof -
  let ?e = "resolve_order_tolerance price atr side c"
  obtain b present fallback where scaled: "scaled_tolerance_bps atr c = (b, present, fallback)"
    by (metis prod.exhaust)
  have "0 \<le> b" using scaled_tolerance_nonneg [OF assms(1-3), of atr] scaled by simp
  then have bps: "0 \<le> te_applied_tolerance_bps ?e"
    using assms(3) scaled by (simp add: resolve_order_tolerance_def Let_def)
  have lim: "te_applied_limit_price ?e = limit_price price side (te_applied_tolerance_bps ?e)"
    using scaled by (simp add: resolve_order_tolerance_def Let_def)
  have "(case usable_atr_pct atr of
            None \<Rightarrow> te_scaled_tolerance_bps ?e = tc_flat_bps c \<and> te_volatility_fallback ?e
          | Some v \<Rightarrow> te_scaled_tolerance_bps ?e \<in> {tc_scaled_floor_bps c .. tc_scaled_ceiling_bps c}
              \<and> \<not> te_volatility_fallback ?e)"
    using assms(1) by (auto simp: resolve_order_tolerance_def scaled_tolerance_bps_def Let_def
        split: option.split)
  then show ?thesis
    unfolding Let_def lim using limit_price_bounds(1,2) [OF bps assms(4), of side] limit_price_bounds(3,4) [OF bps assms(4), of n side]
    by (cases side) auto
qed

definition sample_tolerance :: tolerance_config where
  "sample_tolerance = \<lparr>tc_mode = Scaled, tc_flat_bps = 50, tc_scaled_atr_multiplier = 1 / 2,
     tc_scaled_floor_bps = 10, tc_scaled_ceiling_bps = 80\<rparr>"

end
