(* ===== verification/PaperBroker.thy ===== *)
theory PaperBroker
  imports Broker
begin

text \<open>
  The deterministic paper broker (\<open>agents/execution/paper_broker.py\<close>, \<open>paper_broker_math.py\<close>,
  \<open>paper_broker_orders.py\<close>): orders retained under their idempotency key, resting stops that can be
  replaced in place, and the book and the account its fills imply.
\<close>

section \<open>Prices\<close>

definition paper_price :: "money \<Rightarrow> order_side \<Rightarrow> int \<Rightarrow> money" where
  "paper_price limit side slippage_bps =
     limit\<lparr>mny_amount := quantize_cent (mny_amount limit * band_factor side slippage_bps)\<rparr>"

definition within_tolerance :: "money \<Rightarrow> money \<Rightarrow> order_side \<Rightarrow> int \<Rightarrow> bool" where
  "within_tolerance reference execution side tolerance_bps \<longleftrightarrow>
     (case side of
        Buy \<Rightarrow> mny_amount execution \<le> mny_amount reference * band_factor Buy tolerance_bps
      | Sell \<Rightarrow> mny_amount reference * band_factor Sell tolerance_bps \<le> mny_amount execution)"

section \<open>The broker\<close>

type_synonym fills = "(string, broker_fill) dict"

record paper_broker =
  pb_stop_order_status :: string
  pb_slippage_bps :: int
  pb_tolerance_bps :: int
  pb_reject_tickers :: "string list"
  pb_initial_cash_cents :: int
  pb_fills :: fills
  pb_cancelled :: "string list"

definition new_paper_broker ::
  "int \<Rightarrow> int \<Rightarrow> string list \<Rightarrow> money \<Rightarrow> string \<Rightarrow> paper_broker" where
  "new_paper_broker slippage_bps tolerance_bps reject_tickers starting_cash stop_order_status =
     \<lparr>pb_stop_order_status = stop_order_status, pb_slippage_bps = slippage_bps,
      pb_tolerance_bps = tolerance_bps, pb_reject_tickers = reject_tickers,
      pb_initial_cash_cents = money_to_cents starting_cash, pb_fills = [], pb_cancelled = []\<rparr>"

definition order_count :: "paper_broker \<Rightarrow> nat" where
  "order_count b = length (pb_fills b)"

definition paper_order_id :: "string \<Rightarrow> string" where
  "paper_order_id key = ''paper:'' @ key"

definition put_fill :: "paper_broker \<Rightarrow> broker_fill \<Rightarrow> paper_broker" where
  "put_fill b f = b\<lparr>pb_fills := dict_set (bf_key f) f (pb_fills b)\<rparr>"

definition replay_order :: "broker_fill \<Rightarrow> broker_exn + broker_fill" where
  "replay_order f = (if bf_status f = Rejected then Inl (BrokerRejected f) else Inr f)"

definition reject_order ::
  "paper_broker \<Rightarrow> string \<Rightarrow> string \<Rightarrow> order_side \<Rightarrow> int \<Rightarrow> money
     \<Rightarrow> paper_broker \<times> (broker_exn + broker_fill)" where
  "reject_order b key ticker side quantity price =
     (let f = (broker_fill_of key ticker side quantity price (paper_order_id key) Rejected)
            \<lparr>bf_reason := Some ''paper_broker_rejected'', bf_order_type := Some ''limit'',
             bf_time_in_force := Some ''day''\<rparr>
      in (put_fill b f, Inl (BrokerRejected f)))"

definition paper_submit ::
  "paper_broker \<Rightarrow> string \<Rightarrow> string \<Rightarrow> order_side \<Rightarrow> int \<Rightarrow> money \<Rightarrow> int option
     \<Rightarrow> paper_broker \<times> (broker_exn + broker_fill)" where
  "paper_submit b key ticker side quantity limit tolerance_bps =
     (case dict_get (pb_fills b) key of
        Some current \<Rightarrow> (b, replay_order current)
      | None \<Rightarrow>
          if ticker \<in> set (pb_reject_tickers b) then reject_order b key ticker side quantity limit
          else
            let simulated = paper_price limit side (pb_slippage_bps b);
                tolerance = (case tolerance_bps of None \<Rightarrow> pb_tolerance_bps b | Some t \<Rightarrow> t);
                f = (if \<not> within_tolerance limit simulated side tolerance
                     then (broker_fill_of key ticker side quantity limit (paper_order_id key) Pending)
                       \<lparr>bf_reason := Some ''outside_order_price_tolerance'',
                        bf_order_type := Some ''limit'', bf_time_in_force := Some ''day''\<rparr>
                     else (broker_fill_of key ticker side quantity simulated (paper_order_id key) Filled)
                       \<lparr>bf_order_type := Some ''limit'', bf_time_in_force := Some ''day''\<rparr>)
            in (put_fill b f, Inr f))"

definition paper_submit_stop ::
  "paper_broker \<Rightarrow> string \<Rightarrow> string \<Rightarrow> order_side \<Rightarrow> int \<Rightarrow> money \<Rightarrow> string
     \<Rightarrow> paper_broker \<times> (broker_exn + broker_fill)" where
  "paper_submit_stop b key ticker side quantity stop_price tif =
     (case dict_get (pb_fills b) key of
        Some current \<Rightarrow> (b, replay_order current)
      | None \<Rightarrow>
          if ticker \<in> set (pb_reject_tickers b) then reject_order b key ticker side quantity stop_price
          else
            let f = (broker_fill_of key ticker side quantity stop_price (paper_order_id key) Pending)
                  \<lparr>bf_order_type := Some ''stop'', bf_time_in_force := Some tif,
                   bf_order_status := Some (pb_stop_order_status b)\<rparr>
            in (put_fill b f, Inr f))"

text \<open>The loop over the orders as they were: the first open one with the id decides.\<close>

fun find_open_order :: "string \<Rightarrow> fills \<Rightarrow> (string \<times> broker_fill) option" where
  "find_open_order order_id [] = None"
| "find_open_order order_id ((key, old) # rest) =
     (if bf_order_id old \<noteq> order_id \<or> bf_status old \<noteq> Pending then find_open_order order_id rest
      else Some (key, old))"

definition opt_text :: "string option \<Rightarrow> string" where
  "opt_text s = (case s of None \<Rightarrow> ''None'' | Some t \<Rightarrow> t)"

definition paper_replace_stop ::
  "paper_broker \<Rightarrow> string \<Rightarrow> int \<Rightarrow> string \<Rightarrow> paper_broker \<times> (broker_exn + broker_fill)" where
  "paper_replace_stop b order_id stop_price_cents key' =
     (case find_open_order order_id (pb_fills b) of
        None \<Rightarrow> (b, Inl (BrokerFailed (PyExn ''LookupError'' (''no open paper order '' @ order_id))))
      | Some (key, old) \<Rightarrow>
          if bf_order_status old \<noteq> Some ''new''
          then (b, Inl (BrokerFailed (RuntimeError (''422 cannot replace order in ''
                  @ opt_text (bf_order_status old) @ '' status''))))
          else
            let new = old\<lparr>bf_key := key', bf_price := usd (of_int stop_price_cents / 100),
                          bf_order_id := paper_order_id key'\<rparr>;
                closed = old\<lparr>bf_status := Rejected, bf_reason := Some ''replaced'',
                             bf_order_status := Some ''replaced''\<rparr>
            in (b\<lparr>pb_fills := dict_set key' new (dict_set key closed (pb_fills b))\<rparr>, Inr new))"

definition cancel_fill :: "string \<Rightarrow> broker_fill \<Rightarrow> broker_fill" where
  "cancel_fill order_id f =
     (if bf_order_id f = order_id \<and> bf_status f = Pending
      then f\<lparr>bf_status := Rejected, bf_reason := Some ''canceled''\<rparr> else f)"

definition paper_cancel :: "paper_broker \<Rightarrow> string \<Rightarrow> paper_broker" where
  "paper_cancel b order_id =
     b\<lparr>pb_cancelled := (if order_id \<in> set (pb_cancelled b) then pb_cancelled b
                        else pb_cancelled b @ [order_id]),
       pb_fills := map (\<lambda>(key, f). (key, cancel_fill order_id f)) (pb_fills b)\<rparr>"

section \<open>The book and the account\<close>

definition sell_from_book :: "int \<Rightarrow> int \<Rightarrow> int \<Rightarrow> int \<times> int" where
  "sell_from_book qty cost_cents sold =
     (if qty \<le> sold \<or> qty \<le> 0 then (0, 0)
      else let avg = round_half_even (of_int cost_cents / of_int qty)
        in (qty - sold, cost_cents - sold * avg))"

definition executed :: "broker_fill \<Rightarrow> bool" where
  "executed f \<longleftrightarrow> bf_status f \<in> {Filled, Partial} \<and> 0 < bf_quantity f"

type_synonym book = "(string, int \<times> int) dict"

definition book_fill :: "broker_fill \<Rightarrow> book \<Rightarrow> book" where
  "book_fill f book =
     (if \<not> executed f then book
      else
        let (qty, cost) = (case dict_get book (bf_ticker f) of None \<Rightarrow> (0, 0) | Some qc \<Rightarrow> qc);
            (qty', cost') =
              (case bf_side f of
                 Buy \<Rightarrow> (qty + bf_quantity f, cost + bf_quantity f * money_to_cents (bf_price f))
               | Sell \<Rightarrow> sell_from_book qty cost (bf_quantity f))
        in if 0 < qty' then dict_set (bf_ticker f) (qty', cost') book else dict_pop (bf_ticker f) book)"

definition book_of :: "broker_fill list \<Rightarrow> book" where
  "book_of fs = fold book_fill fs []"

definition positions_from_fills :: "broker_fill list \<Rightarrow> broker_position list" where
  "positions_from_fills fs =
     map (\<lambda>(ticker, qty, cost).
            \<lparr>bp_ticker = ticker, bp_quantity = qty,
             bp_avg_entry_cents = round_half_even (of_int cost / of_int qty),
             bp_market_value_cents = cost\<rparr>)
       (sort_key fst (book_of fs))"

definition cash_delta :: "broker_fill \<Rightarrow> int" where
  "cash_delta f =
     (if \<not> executed f then 0
      else let d = money_to_cents (bf_price f) * bf_quantity f
        in case bf_side f of Sell \<Rightarrow> d | Buy \<Rightarrow> - d)"

definition account_from_fills :: "broker_fill list \<Rightarrow> int \<Rightarrow> broker_account" where
  "account_from_fills fs initial_cash_cents =
     (let cash = initial_cash_cents + sum_list (map cash_delta fs);
          market = sum_list (map bp_market_value_cents (positions_from_fills fs))
      in \<lparr>ba_cash_cents = cash, ba_equity_cents = cash + market, ba_buying_power_cents = max cash 0\<rparr>)"

definition paper_fills :: "paper_broker \<Rightarrow> broker_fill list" where
  "paper_fills b = dict_values (pb_fills b)"

definition paper_positions :: "paper_broker \<Rightarrow> broker_position list" where
  "paper_positions b = positions_from_fills (dict_values (pb_fills b))"

definition paper_account :: "paper_broker \<Rightarrow> broker_account" where
  "paper_account b = account_from_fills (dict_values (pb_fills b)) (pb_initial_cash_cents b)"

section \<open>The well-formed broker\<close>

definition paper_wf :: "paper_broker \<Rightarrow> bool" where
  "paper_wf b \<longleftrightarrow> dict_wf (pb_fills b)
     \<and> (\<forall>(key, f) \<in> set (pb_fills b). bf_key f = key \<and> bf_order_id f = paper_order_id key)"

lemma paper_order_id_inj [simp]: "paper_order_id a = paper_order_id b \<longleftrightarrow> a = b"
  by (simp add: paper_order_id_def)

lemma new_paper_broker_wf: "paper_wf (new_paper_broker s t r c o')"
  by (simp add: paper_wf_def new_paper_broker_def)

lemma put_fill_wf:
  "paper_wf b \<Longrightarrow> bf_order_id f = paper_order_id (bf_key f) \<Longrightarrow> paper_wf (put_fill b f)"
  by (auto simp: paper_wf_def put_fill_def dest!: dict_set_entry)

lemma paper_submit_wf: "paper_wf b \<Longrightarrow> paper_wf (fst (paper_submit b key ticker side q limit tol))"
  by (auto simp: paper_submit_def reject_order_def Let_def intro!: put_fill_wf split: option.split)

lemma paper_submit_stop_wf: "paper_wf b \<Longrightarrow> paper_wf (fst (paper_submit_stop b key ticker side q p tif))"
  by (auto simp: paper_submit_stop_def reject_order_def Let_def intro!: put_fill_wf split: option.split)

lemma paper_cancel_wf: "paper_wf b \<Longrightarrow> paper_wf (paper_cancel b i)"
  by (auto simp: paper_wf_def paper_cancel_def dict_wf_def cancel_fill_def comp_def case_prod_beta)

lemma find_open_order_some:
  "find_open_order i d = Some (key, old) \<Longrightarrow> (key, old) \<in> set d \<and> bf_order_id old = i \<and> bf_status old = Pending"
  by (induction d) (auto split: if_splits)

lemma paper_replace_stop_wf:
  assumes "paper_wf b"
  shows "paper_wf (fst (paper_replace_stop b i c key'))"
proof (cases "find_open_order i (pb_fills b)")
  case (Some kf)
  obtain key old where kf: "kf = (key, old)" by (cases kf)
  from find_open_order_some [OF Some [unfolded kf]] assms
  have "bf_key old = key" "bf_order_id old = paper_order_id key" by (auto simp: paper_wf_def)
  with assms Some kf show ?thesis
    by (auto simp: paper_replace_stop_def paper_wf_def Let_def dest!: dict_set_entry)
qed (use assms in \<open>simp add: paper_replace_stop_def\<close>)

section \<open>Orders\<close>

lemma put_fill_get [dict_simps]:
  "dict_get (pb_fills (put_fill b f)) k = (if k = bf_key f then Some f else dict_get (pb_fills b) k)"
  by (simp add: put_fill_def dict_simps)

lemma paper_submit_new:
  assumes "dict_get (pb_fills b) key = None" "ticker \<notin> set (pb_reject_tickers b)"
    "paper_submit b key ticker side q limit tol = (b', r)"
  shows "\<exists>f. r = Inr f \<and> b' = put_fill b f \<and> bf_key f = key \<and> bf_ticker f = ticker \<and> bf_side f = side
    \<and> bf_quantity f = q
    \<and> (if within_tolerance limit (paper_price limit side (pb_slippage_bps b)) side
            (case tol of None \<Rightarrow> pb_tolerance_bps b | Some t \<Rightarrow> t)
       then bf_status f = Filled \<and> bf_price f = paper_price limit side (pb_slippage_bps b)
       else bf_status f = Pending \<and> bf_price f = limit)"
  using assms by (auto simp: paper_submit_def Let_def broker_fill_of_def)

lemma within_tolerance_exact:
  assumes "0 \<le> tol" "money_valid limit" "mny_amount limit = of_int n / 100"
  shows "paper_price limit side 0 = limit" "within_tolerance limit limit side tol"
proof -
  have "quantize_cent (mny_amount limit) = mny_amount limit" by (simp add: assms(3))
  then show "paper_price limit side 0 = limit"
    by (cases side) (simp_all add: paper_price_def band_factor_def)
  have f: "1 \<le> band_factor Buy tol" "band_factor Sell tol \<le> 1"
    using assms(1) by (simp_all add: band_factor_def Let_def)
  have p: "0 \<le> mny_amount limit" using assms(2) by (simp add: money_valid_def)
  show "within_tolerance limit limit side tol"
    using mult_left_mono [OF f(1) p] mult_left_mono [OF f(2) p]
    by (cases side) (simp_all add: within_tolerance_def)
qed

text \<open>
  A new order on the paper broker is recorded under its key and either filled at the
  deterministic slipped price, and then inside the order's tolerance, or left pending at its
  limit: a filled buy never costs more than the limit raised by the tolerance, a filled sell never
  brings less than the limit lowered by it; without slippage an order at a price in whole cents
  always fills at its limit.
\<close>

lemma paper_fill_in_band:
  assumes "dict_get (pb_fills b) key = None" "ticker \<notin> set (pb_reject_tickers b)"
    "paper_submit b key ticker side q limit (Some tol) = (b', r)" "money_valid limit"
  shows "\<exists>f. r = Inr f \<and> dict_get (pb_fills b') key = Some f
    \<and> (bf_status f = Filled \<and> bf_price f = paper_price limit side (pb_slippage_bps b)
         \<and> (side = Buy \<longrightarrow> mny_amount (bf_price f) \<le> mny_amount limit * (1 + of_int tol / 10000))
         \<and> (side = Sell \<longrightarrow> mny_amount limit * (1 - of_int tol / 10000) \<le> mny_amount (bf_price f))
       \<or> bf_status f = Pending \<and> bf_price f = limit)
    \<and> (pb_slippage_bps b = 0 \<and> 0 \<le> tol \<and> mny_amount limit = of_int n / 100 \<longrightarrow>
         bf_status f = Filled \<and> bf_price f = limit)"
proof -
  from paper_submit_new [OF assms(1-3)] obtain f where f: "r = Inr f" "b' = put_fill b f" "bf_key f = key"
    and out: "if within_tolerance limit (paper_price limit side (pb_slippage_bps b)) side tol
       then bf_status f = Filled \<and> bf_price f = paper_price limit side (pb_slippage_bps b)
       else bf_status f = Pending \<and> bf_price f = limit" by auto
  have sell: "mny_amount limit * (1 - of_int tol / 10000) \<le> p"
    if "mny_amount limit * band_factor Sell tol \<le> p" for p
  proof -
    have "1 - of_int tol / 10000 \<le> band_factor Sell tol" by (simp add: band_factor_def Let_def)
    from mult_left_mono [OF this] assms(4) that show ?thesis
      unfolding money_valid_def by (meson order_trans)
  qed
  have exact: "pb_slippage_bps b = 0 \<and> 0 \<le> tol \<and> mny_amount limit = of_int n / 100 \<longrightarrow>
      within_tolerance limit (paper_price limit side (pb_slippage_bps b)) side tol
      \<and> paper_price limit side (pb_slippage_bps b) = limit"
    using within_tolerance_exact [of tol limit n side] assms(4) by auto
  show ?thesis
    using f out sell exact
    by (intro exI [where x = f])
      (auto simp: dict_simps within_tolerance_def band_factor_def Let_def split: if_splits order_side.splits)
qed

section \<open>Moving a stop\<close>

definition open_orders :: "fills \<Rightarrow> string \<Rightarrow> nat" where
  "open_orders d ticker =
     length (filter (\<lambda>(key, f). bf_ticker f = ticker \<and> bf_status f = Pending) d)"

lemma open_orders_set_new:
  "dict_get d k = None \<Longrightarrow> open_orders (dict_set k f d) t =
     open_orders d t + (if bf_ticker f = t \<and> bf_status f = Pending then 1 else 0)"
  by (simp add: dict_set_new open_orders_def)

lemma open_orders_set_old:
  "dict_wf d \<Longrightarrow> dict_get d k = Some g \<Longrightarrow>
     open_orders (dict_set k f d) t + (if bf_ticker g = t \<and> bf_status g = Pending then 1 else 0) =
     open_orders d t + (if bf_ticker f = t \<and> bf_status f = Pending then 1 else 0)"
  by (induction d) (auto simp: open_orders_def dict_wf_Cons split: if_splits)

text \<open>
  Moving a resting stop never leaves the position unprotected: a replacement that succeeds
  closes the old order and opens one under the new key for the same ticker, side and quantity at
  the new price, so as many orders are open for every ticker as before and no other order changes;
  one that is refused changes nothing at all.
\<close>

lemma replace_stop_keeps_protection:
  assumes "paper_wf b" "dict_get (pb_fills b) key' = None"
    "paper_replace_stop b order_id cents key' = (b', r)"
  shows "case r of
      Inl e \<Rightarrow> b' = b
    | Inr new \<Rightarrow> \<exists>key old. dict_get (pb_fills b) key = Some old \<and> bf_order_id old = order_id
        \<and> bf_status old = Pending
        \<and> dict_get (pb_fills b') key' = Some new \<and> bf_status new = Pending
        \<and> bf_ticker new = bf_ticker old \<and> bf_side new = bf_side old \<and> bf_quantity new = bf_quantity old
        \<and> bf_price new = usd (of_int cents / 100)
        \<and> (\<exists>closed. dict_get (pb_fills b') key = Some closed \<and> bf_status closed = Rejected)
        \<and> (\<forall>k. k \<noteq> key \<and> k \<noteq> key' \<longrightarrow> dict_get (pb_fills b') k = dict_get (pb_fills b) k)
        \<and> (\<forall>t. open_orders (pb_fills b') t = open_orders (pb_fills b) t)"
proof (cases "find_open_order order_id (pb_fills b)")
  case None
  with assms(3) show ?thesis by (auto simp: paper_replace_stop_def)
next
  case (Some kf)
  obtain key old where kf: "kf = (key, old)" by (cases kf)
  have wf: "dict_wf (pb_fills b)" using assms(1) by (simp add: paper_wf_def)
  from find_open_order_some [OF Some [unfolded kf]] wf
  have old: "dict_get (pb_fills b) key = Some old" "bf_order_id old = order_id" "bf_status old = Pending"
    by (auto simp: dict_get_Some_iff)
  with assms(2) have ne: "key' \<noteq> key" by auto
  show ?thesis
  proof (cases "bf_order_status old = Some ''new''")
    case False
    with assms(3) Some kf show ?thesis by (auto simp: paper_replace_stop_def)
  next
    case True
    define new where "new = old\<lparr>bf_key := key', bf_price := usd (of_int cents / 100),
        bf_order_id := paper_order_id key'\<rparr>"
    define closed where "closed = old\<lparr>bf_status := Rejected, bf_reason := Some ''replaced'',
        bf_order_status := Some ''replaced''\<rparr>"
    have out: "b' = b\<lparr>pb_fills := dict_set key' new (dict_set key closed (pb_fills b))\<rparr>" "r = Inr new"
      using assms(3) Some kf True by (auto simp: paper_replace_stop_def Let_def new_def closed_def)
    have facts: "bf_status new = Pending" "bf_ticker new = bf_ticker old" "bf_side new = bf_side old"
      "bf_quantity new = bf_quantity old" "bf_price new = usd (of_int cents / 100)"
      "bf_status closed = Rejected"
      using old(3) by (simp_all add: new_def closed_def)
    have "open_orders (pb_fills b') t = open_orders (pb_fills b) t" for t
      using open_orders_set_old [OF wf old(1), of closed t]
        open_orders_set_new [of "dict_set key closed (pb_fills b)" key' new t] assms(2) ne facts old(3)
      by (auto simp: out dict_simps split: if_splits)
    then show ?thesis
      using old facts ne assms(2) unfolding out(2) sum.case
      by (intro exI [where x = key] exI [where x = old]) (simp add: out dict_simps)
  qed
qed

section \<open>The book\<close>

text \<open>Shares of a ticker bought less those sold.\<close>

definition net_quantity :: "broker_fill list \<Rightarrow> string \<Rightarrow> int" where
  "net_quantity fs ticker = sum_list (map (\<lambda>f.
     if executed f \<and> bf_ticker f = ticker
     then (case bf_side f of Buy \<Rightarrow> bf_quantity f | Sell \<Rightarrow> - bf_quantity f) else 0) fs)"

definition quantity_in :: "book \<Rightarrow> string \<Rightarrow> int" where
  "quantity_in d t = (case dict_get d t of None \<Rightarrow> 0 | Some (q, c) \<Rightarrow> q)"

definition book_ok :: "book \<Rightarrow> bool" where
  "book_ok d \<longleftrightarrow> dict_wf d \<and> (\<forall>(t, q, c) \<in> set d. 0 < q)"

lemma book_ok_get: "book_ok d \<Longrightarrow> dict_get d t = Some (q, c) \<Longrightarrow> 0 < q"
  by (auto simp: book_ok_def dict_get_Some_iff)

lemma book_fill_ok: "book_ok d \<Longrightarrow> book_ok (book_fill f d)"
  by (auto simp: book_fill_def book_ok_def Let_def dict_wf_set dict_wf_pop
      dest!: dict_set_entry split: prod.splits if_splits)
    (auto simp: AList.delete_eq)

lemma book_of_ok: "book_ok (book_of fs)"
proof -
  have "book_ok (fold book_fill fs d)" if "book_ok d" for d
    using that by (induction fs arbitrary: d) (auto intro: book_fill_ok)
  moreover have "book_ok []" by (simp add: book_ok_def)
  ultimately show ?thesis unfolding book_of_def by blast
qed

lemma filter_key:
  "dict_wf d \<Longrightarrow> filter (\<lambda>kv. fst kv = k) d = (case dict_get d k of None \<Rightarrow> [] | Some v \<Rightarrow> [(k, v)])"
proof (induction d)
  case (Cons kv d)
  obtain k' v where kv: "kv = (k', v)" by (cases kv)
  with Cons.prems have "dict_get d k' = None" "dict_wf d"
    by (auto simp: dict_wf_Cons dict_get_None_iff)
  with Cons.IH kv show ?case by auto
qed simp

lemma net_quantity_snoc:
  "net_quantity (fs @ [f]) t = net_quantity fs t +
     (if executed f \<and> bf_ticker f = t then (case bf_side f of Buy \<Rightarrow> bf_quantity f | Sell \<Rightarrow> - bf_quantity f) else 0)"
  by (simp add: net_quantity_def)

lemma book_fill_quantity:
  assumes "book_ok d"
  shows "quantity_in (book_fill f d) t =
    (if executed f \<and> bf_ticker f = t
     then (case bf_side f of Buy \<Rightarrow> quantity_in d t + bf_quantity f
           | Sell \<Rightarrow> max 0 (quantity_in d t - bf_quantity f))
     else quantity_in d t)"
proof -
  have pos: "0 < q" if "dict_get d t = Some (q, c)" for q c t using book_ok_get [OF assms that] .
  show ?thesis
    using pos [of "bf_ticker f"]
    by (auto simp: book_fill_def quantity_in_def executed_def sell_from_book_def Let_def dict_simps
        split: option.splits order_side.splits if_splits prod.splits)
qed

lemma quantity_in_nonneg: "book_ok d \<Longrightarrow> 0 \<le> quantity_in d t"
  by (auto simp: quantity_in_def dest: book_ok_get split: option.split)

lemma book_of_net:
  assumes "\<forall>n \<le> length fs. 0 \<le> net_quantity (take n fs) t"
  shows "quantity_in (book_of fs) t = net_quantity fs t"
  using assms
proof (induction fs rule: rev_induct)
  case Nil
  show ?case by (simp add: book_of_def quantity_in_def net_quantity_def)
next
  case (snoc f fs)
  have "0 \<le> net_quantity (take n fs) t" if "n \<le> length fs" for n
    using snoc.prems [rule_format, of n] that by simp
  then have IH: "quantity_in (book_of fs) t = net_quantity fs t" by (intro snoc.IH) simp
  have last: "0 \<le> net_quantity (fs @ [f]) t" using snoc.prems [rule_format, of "Suc (length fs)"] by simp
  have "book_of (fs @ [f]) = book_fill f (book_of fs)" by (simp add: book_of_def)
  with IH last book_fill_quantity [OF book_of_ok, of f fs t] show ?case
    by (auto simp: net_quantity_snoc split: order_side.splits if_splits)
qed

text \<open>
  The positions are the book the fills imply: they are listed once per ticker, in ticker
  order, every quantity is positive, and for a ticker whose sells never exceeded what was held the
  quantity is exactly what was bought less what was sold, with no position when that is nothing.
\<close>

lemma positions_are_net_fills:
  assumes "\<forall>n \<le> length fs. 0 \<le> net_quantity (take n fs) t"
  shows "sorted (map bp_ticker (positions_from_fills fs)) \<and> distinct (map bp_ticker (positions_from_fills fs))
    \<and> list_all (\<lambda>p. 0 < bp_quantity p) (positions_from_fills fs)
    \<and> filter (\<lambda>p. bp_ticker p = t) (positions_from_fills fs) =
        (case dict_get (book_of fs) t of None \<Rightarrow> []
         | Some (q, c) \<Rightarrow> [\<lparr>bp_ticker = t, bp_quantity = net_quantity fs t,
              bp_avg_entry_cents = round_half_even (of_int c / of_int (net_quantity fs t)),
              bp_market_value_cents = c\<rparr>])
    \<and> (dict_get (book_of fs) t = None \<longleftrightarrow> net_quantity fs t = 0)"
proof -
  let ?d = "book_of fs" and ?ps = "positions_from_fills fs"
  have ok: "book_ok ?d" by (rule book_of_ok)
  have tickers: "map bp_ticker ?ps = map fst (sort_key fst ?d)"
    by (simp add: positions_from_fills_def comp_def case_prod_beta)
  have "distinct (map fst (sort_key fst ?d))"
    using ok by (simp add: book_ok_def dict_wf_def distinct_map inj_on_def)
  moreover have "list_all (\<lambda>p. 0 < bp_quantity p) ?ps"
    using ok by (auto simp: positions_from_fills_def list_all_iff book_ok_def)
  moreover have "filter (\<lambda>p. bp_ticker p = t) ?ps =
      map (\<lambda>(ticker, qty, cost). \<lparr>bp_ticker = ticker, bp_quantity = qty,
             bp_avg_entry_cents = round_half_even (of_int cost / of_int qty),
             bp_market_value_cents = cost\<rparr>) (filter (\<lambda>kv. fst kv = t) ?d)"
    unfolding sort_key_stable [of fst t ?d, symmetric] positions_from_fills_def filter_map
    by (simp add: comp_def case_prod_beta)
  moreover have "filter (\<lambda>kv. fst kv = t) ?d = (case dict_get ?d t of None \<Rightarrow> [] | Some qc \<Rightarrow> [(t, qc)])"
    using ok by (intro filter_key) (simp add: book_ok_def)
  moreover have "quantity_in ?d t = net_quantity fs t" using assms by (rule book_of_net)
  ultimately show ?thesis
    using book_ok_get [OF ok, of t]
    by (auto simp: tickers quantity_in_def split: option.splits)
qed

end
