(* ===== verification/Payloads.thy ===== *)
theory Payloads
  imports Broker
begin

text \<open>
  The payloads the deciding agents exchange (\<open>kernel/payload.py\<close>, \<open>contracts/analyst.py\<close>,
  \<open>contracts/portfolio_manager.py\<close>, \<open>contracts/provider.py\<close>), with the field bounds the code relies
  on.  Floats are exact rationals.  Fields that no modelled operation reads are left out: of a
  recommendation its technical, sentiment and fundamental scores and the score arithmetic, of the
  market data and the regime what the portfolio manager and the monitor do not read; the records of
  \<open>ScanFilters\<close> and \<open>AnalystRules\<close> extend these where the scanner and the analyst read more.
\<close>

section \<open>Evidence\<close>

record explanation =
  ex_summary :: string
  ex_evidence_refs :: "string list"

record provenance =
  pv_run_id :: string
  pv_source_agent :: string
  pv_correlation_id :: "string option"
  pv_graph_node_id :: "string option"
  pv_incident_refs :: "string list"

section \<open>Recommendations\<close>

datatype trade_action = BuyAction | SellAction | HoldAction

fun action_text :: "trade_action \<Rightarrow> string" where
  "action_text BuyAction = ''buy''"
| "action_text SellAction = ''sell''"
| "action_text HoldAction = ''hold''"

record quant_metric =
  qm_name :: string
  qm_value :: rat

record stop_target_evidence =
  ste_mode :: tolerance_mode
  ste_applied_stop_pct :: rat
  ste_applied_target_pct :: rat
  ste_flat_stop_pct :: rat
  ste_flat_target_pct :: rat
  ste_favorable_pct :: "rat option"
  ste_favorable_horizon_days :: "int option"
  ste_favorable_sample_count :: "int option"

record recommendation =
  rec_ticker :: string
  rec_action :: trade_action
  rec_confidence :: rat
  rec_stop_pct :: "rat option"
  rec_target_pct :: "rat option"
  rec_metrics :: "quant_metric list"
  rec_evidence :: "stop_target_evidence option"

record recommendation_set =
  rs_run_id :: string
  rs_recommendations :: "recommendation list"
  rs_provenance :: provenance

section \<open>Gate outcomes and order intents\<close>

datatype gate_status = Passed | Failed | NotEvaluated

fun gate_status_text :: "gate_status \<Rightarrow> string" where
  "gate_status_text Passed = ''passed''"
| "gate_status_text Failed = ''failed''"
| "gate_status_text NotEvaluated = ''not_evaluated''"

record gate_outcome =
  go_name :: string
  go_value :: rat
  go_threshold :: rat
  go_outcome :: gate_status
  go_detail :: string

text \<open>The two-state view of a gate, which a gate that was not evaluated refuses.\<close>

definition gate_passed :: "gate_outcome \<Rightarrow> bool res" where
  "gate_passed g =
     (if go_outcome g = NotEvaluated
      then Inl (ValueError (''gate '' @ repr_str (go_name g)
             @ '' was not evaluated; read .outcome, not .passed (PM-NEV-09)''))
      else Inr (go_outcome g = Passed))"

record order_intent =
  oi_ticker :: string
  oi_action :: trade_action
  oi_quantity :: int
  oi_est_price :: money
  oi_decision_atr_pct :: "rat option"
  oi_stop_pct :: "rat option"
  oi_target_pct :: "rat option"
  oi_position_ref :: "string option"
  oi_rationale :: explanation
  oi_gate_report :: "gate_outcome list"

text \<open>The field bounds of an intent; the text of the validation error is a parameter.\<close>

fun unit_pct :: "rat option \<Rightarrow> bool" where
  "unit_pct None = True"
| "unit_pct (Some q) = (0 \<le> q \<and> q \<le> 1)"

definition intent_valid :: "order_intent \<Rightarrow> bool" where
  "intent_valid oi \<longleftrightarrow> 1 \<le> oi_quantity oi \<and> unit_pct (oi_stop_pct oi) \<and> unit_pct (oi_target_pct oi)"

definition make_intent :: "(order_intent \<Rightarrow> string) \<Rightarrow> order_intent \<Rightarrow> order_intent res" where
  "make_intent vtext oi =
     (if intent_valid oi then Inr oi else Inl (PyExn ''ValidationError'' (vtext oi)))"

record rejected_order =
  ro_ticker :: string
  ro_reason :: string
  ro_gate_report :: "gate_outcome list"

record order_intent_set =
  ois_run_id :: string
  ois_approved :: "order_intent list"
  ois_rejected :: "rejected_order list"
  ois_explanation :: explanation
  ois_provenance :: provenance

section \<open>Market facts\<close>

text \<open>A bar's date is its day number.\<close>

record ohlcv_bar =
  bar_ticker :: string
  bar_date :: int
  bar_open :: rat
  bar_high :: rat
  bar_low :: rat
  bar_close :: rat
  bar_volume :: int

definition bar_valid :: "ohlcv_bar \<Rightarrow> bool" where
  "bar_valid b \<longleftrightarrow> 0 < bar_open b \<and> 0 < bar_high b \<and> 0 < bar_low b \<and> 0 < bar_close b \<and> 0 \<le> bar_volume b"

record market_data =
  mkt_bars :: "ohlcv_bar list"
  mkt_sectors :: "(string, string) dict"
  mkt_used_fallback :: bool
  mkt_provenance :: provenance

record regime_context =
  rc_base_stop_loss_pct :: rat
  rc_base_take_profit_pct :: rat
  rc_provenance :: provenance

end
