(* ===== verification/Orders.thy ===== *)
theory Orders
  imports PaperBroker Payloads
begin

text \<open>
  From approved intents to broker outcomes (\<open>agents/execution/domain/orders.py\<close>,
  \<open>submit.py\<close>, \<open>reconcile.py\<close>, \<open>result.py\<close>), over any broker that keeps the port's contract; the
  paper broker keeps it.
\<close>

section \<open>Orders\<close>

record broker_order =
  bo_key :: string
  bo_ticker :: string
  bo_side :: order_side
  bo_quantity :: int
  bo_limit_price :: money
  bo_tolerance_bps :: int
  bo_evidence :: tolerance_evidence

fun broker_side :: "trade_action \<Rightarrow> order_side res" where
  "broker_side BuyAction = Inr Buy"
| "broker_side SellAction = Inr Sell"
| "broker_side HoldAction = Inl (ValueError ''execution can submit only buy or sell order intents'')"

definition order_key :: "string \<Rightarrow> order_intent \<Rightarrow> order_side \<Rightarrow> string" where
  "order_key run_id intent side =
     (case (oi_action intent, oi_position_ref intent) of
        (SellAction, Some ref) \<Rightarrow> ''exit:'' @ ref @ '':'' @ oi_ticker intent @ '':sell''
      | _ \<Rightarrow> run_id @ '':'' @ oi_ticker intent @ '':'' @ side_text side)"

definition order_from_intent :: "string \<Rightarrow> order_intent \<Rightarrow> tolerance_config \<Rightarrow> broker_order res" where
  "order_from_intent run_id intent c =
     res_bind (broker_side (oi_action intent)) (\<lambda>side.
       let e = resolve_order_tolerance (oi_est_price intent) (oi_decision_atr_pct intent) side c
       in Inr \<lparr>bo_key = order_key run_id intent side, bo_ticker = oi_ticker intent, bo_side = side,
               bo_quantity = oi_quantity intent, bo_limit_price = oi_est_price intent,
               bo_tolerance_bps = te_applied_tolerance_bps e, bo_evidence = e\<rparr>)"

record fill =
  fl_ticker :: string
  fl_side :: order_side
  fl_quantity :: int
  fl_price :: money
  fl_order_id :: string
  fl_status :: fill_status

definition fill_from_broker :: "broker_fill \<Rightarrow> fill" where
  "fill_from_broker f = \<lparr>fl_ticker = bf_ticker f, fl_side = bf_side f, fl_quantity = bf_quantity f,
     fl_price = bf_price f, fl_order_id = bf_order_id f, fl_status = bf_status f\<rparr>"

definition rejected_broker_fill :: "broker_order \<Rightarrow> string \<Rightarrow> broker_fill" where
  "rejected_broker_fill ord reason =
     attach_order_tolerance
       ((broker_fill_of (bo_key ord) (bo_ticker ord) (bo_side ord) (bo_quantity ord) (bo_limit_price ord)
           (''rejected:'' @ bo_key ord) Rejected)\<lparr>bf_reason := Some reason\<rparr>)
       (bo_evidence ord)"

section \<open>Submission\<close>

record 'b broker_port =
  br_submit :: "'b \<Rightarrow> string \<Rightarrow> string \<Rightarrow> order_side \<Rightarrow> int \<Rightarrow> money \<Rightarrow> int option
     \<Rightarrow> 'b \<times> (broker_exn + broker_fill)"
  br_fills :: "'b \<Rightarrow> broker_fill list"

definition submit_order ::
  "'b broker_port \<Rightarrow> timestamp \<Rightarrow> string \<Rightarrow> broker_order \<Rightarrow> 'b \<times> agent_fault list
     \<Rightarrow> ('b \<times> agent_fault list) \<times> broker_fill" where
  "submit_order port now capability ord bs =
     (case br_submit port (fst bs) (bo_key ord) (bo_ticker ord) (bo_side ord) (bo_quantity ord)
             (bo_limit_price ord) (Some (bo_tolerance_bps ord)) of
        (b', Inr f) \<Rightarrow> ((b', snd bs), attach_order_tolerance f (bo_evidence ord))
      | (b', Inl x) \<Rightarrow>
          (let faults' = fst (fault_boundary collect_fault now ''execution''
                 ''agents.execution.domain.submit'' (Some capability) (snd bs)
                 (Inl (broker_exn_exn x) :: unit res))
           in case x of
                BrokerRejected f \<Rightarrow> ((b', faults'), attach_order_tolerance f (bo_evidence ord))
              | BrokerFailed e \<Rightarrow> ((b', faults'), rejected_broker_fill ord (exn_text e))))"

fun submit_orders ::
  "'b broker_port \<Rightarrow> timestamp \<Rightarrow> string \<Rightarrow> broker_order list \<Rightarrow> 'b \<times> agent_fault list
     \<Rightarrow> ('b \<times> agent_fault list) \<times> broker_fill list" where
  "submit_orders port now capability [] bs = (bs, [])"
| "submit_orders port now capability (ord # ords) bs =
     (let (bs1, f) = submit_order port now capability ord bs;
          (bs2, fs) = submit_orders port now capability ords bs1
      in (bs2, f # fs))"

definition remember :: "fills \<Rightarrow> broker_fill list \<Rightarrow> fills" where
  "remember recorded fs = fold (\<lambda>f d. dict_set (bf_key f) f d) fs recorded"

section \<open>Reconciliation and results\<close>

definition fill_signature ::
  "broker_fill \<Rightarrow> string \<times> order_side \<times> int \<times> money \<times> string \<times> fill_status \<times> string option" where
  "fill_signature f = (bf_ticker f, bf_side f, bf_quantity f, bf_price f, bf_order_id f, bf_status f, bf_reason f)"

definition reconcile_key :: "fills \<Rightarrow> fills \<Rightarrow> string \<Rightarrow> string option" where
  "reconcile_key recorded_by_key broker_by_key key =
     (case dict_get broker_by_key key of
        None \<Rightarrow> Some (key @ '': missing_broker_fill'')
      | Some bf \<Rightarrow>
          if map_option fill_signature (dict_get recorded_by_key key) \<noteq> Some (fill_signature bf)
          then Some (key @ '': broker_mismatch'') else None)"

definition reconcile_fills :: "broker_fill list \<Rightarrow> broker_fill list \<Rightarrow> nat \<times> string list" where
  "reconcile_fills recorded broker =
     (let recorded_by_key = remember [] recorded; broker_by_key = remember [] broker;
          keys = sort (dict_keys recorded_by_key);
          unrecorded = sort (filter (\<lambda>k. k \<notin> set (dict_keys recorded_by_key)) (dict_keys broker_by_key))
      in (length (filter (\<lambda>k. reconcile_key recorded_by_key broker_by_key k = None) keys),
          List.map_filter (reconcile_key recorded_by_key broker_by_key) keys
          @ map (\<lambda>k. k @ '': unrecorded_broker_fill'') unrecorded))"

definition is_dropped :: "broker_fill \<Rightarrow> bool" where
  "is_dropped f \<longleftrightarrow> (case bf_reason f of None \<Rightarrow> False | Some r \<Rightarrow> take 8 r = ''dropped:'')"

record execution_result =
  er_run_id :: string
  er_fills :: "fill list"
  er_submitted :: nat
  er_rejected :: nat
  er_dropped :: nat
  er_skipped :: nat

definition execution_result_of :: "string \<Rightarrow> broker_fill list \<Rightarrow> nat \<Rightarrow> execution_result" where
  "execution_result_of run_id fs skipped =
     \<lparr>er_run_id = run_id, er_fills = map fill_from_broker fs,
      er_submitted = length (filter (\<lambda>f. bf_status f \<noteq> Rejected) fs),
      er_rejected = length (filter (\<lambda>f. bf_status f = Rejected \<and> \<not> is_dropped f) fs),
      er_dropped = length (filter is_dropped fs), er_skipped = skipped\<rparr>"

section \<open>The contract of a broker\<close>

locale broker =
  fixes port :: "'b broker_port"
    and recorded :: "'b \<Rightarrow> string \<Rightarrow> broker_fill option"
    and ok :: "'b \<Rightarrow> bool"
  assumes submit_ok: "ok b \<Longrightarrow> ok (fst (br_submit port b k t s q p tol))"
    and submit_replay: "recorded b k = Some f \<Longrightarrow> br_submit port b k t s q p tol = (b, replay_order f)"
    and submit_new: "ok b \<Longrightarrow> recorded b k = None \<Longrightarrow> br_submit port b k t s q p tol = (b', r) \<Longrightarrow>
      (\<exists>f. recorded b' k = Some f \<and> bf_key f = k \<and> (r = Inr f \<or> r = Inl (BrokerRejected f)))
      \<or> (\<exists>e. r = Inl (BrokerFailed e))"
    and submit_other: "k' \<noteq> k \<Longrightarrow> recorded (fst (br_submit port b k t s q p tol)) k' = recorded b k'"
    and recorded_key: "ok b \<Longrightarrow> recorded b k = Some f \<Longrightarrow> bf_key f = k"
begin

lemma submit_keeps:
  "recorded b k' = Some f \<Longrightarrow> recorded (fst (br_submit port b k t s q p tol)) k' = Some f"
  by (cases "k' = k") (simp_all add: submit_replay submit_other)

text \<open>Every submission has an outcome under the order's key, whatever the broker did.\<close>

lemma submit_order_key:
  assumes "ok (fst bs)"
  shows "bf_key (snd (submit_order port now cap ord bs)) = bo_key ord"
proof -
  obtain b' r where sub: "br_submit port (fst bs) (bo_key ord) (bo_ticker ord) (bo_side ord)
      (bo_quantity ord) (bo_limit_price ord) (Some (bo_tolerance_bps ord)) = (b', r)"
    by (rule prod.exhaust)
  show ?thesis
  proof (cases "recorded (fst bs) (bo_key ord)")
    case None
    from submit_new [OF assms None sub] sub show ?thesis
      by (auto simp: submit_order_def rejected_broker_fill_def broker_fill_of_def Let_def)
  next
    case (Some f)
    with sub submit_replay [OF Some] recorded_key [OF assms Some] show ?thesis
      by (auto simp: submit_order_def replay_order_def Let_def split: if_splits)
  qed
qed

lemma submit_order_ok: "ok (fst bs) \<Longrightarrow> ok (fst (fst (submit_order port now cap ord bs)))"
  using submit_ok [of "fst bs" "bo_key ord" "bo_ticker ord" "bo_side ord" "bo_quantity ord"
      "bo_limit_price ord" "Some (bo_tolerance_bps ord)"]
  by (auto simp: submit_order_def Let_def split: prod.splits sum.splits broker_exn.splits)

lemma submit_order_keeps:
  "recorded (fst bs) k = Some f \<Longrightarrow> recorded (fst (fst (submit_order port now cap ord bs))) k = Some f"
  using submit_keeps [of "fst bs" k f "bo_key ord" "bo_ticker ord" "bo_side ord" "bo_quantity ord"
      "bo_limit_price ord" "Some (bo_tolerance_bps ord)"]
  by (auto simp: submit_order_def Let_def split: prod.splits sum.splits broker_exn.splits)

lemma submit_orders_keeps:
  "recorded (fst bs) k = Some f \<Longrightarrow> recorded (fst (fst (submit_orders port now cap ords bs))) k = Some f"
proof (induction ords arbitrary: bs)
  case (Cons ord ords)
  from Cons.IH [OF submit_order_keeps [OF Cons.prems]] show ?case
    by (simp add: Let_def case_prod_beta)
qed simp

lemma submit_order_recorded:
  assumes "ok (fst bs)" "recorded (fst bs) (bo_key ord) = Some f"
  shows "fst (fst (submit_order port now cap ord bs)) = fst bs"
    and "snd (submit_order port now cap ord bs) = attach_order_tolerance f (bo_evidence ord)"
  using submit_replay [OF assms(2)]
  by (auto simp: submit_order_def replay_order_def Let_def)

text \<open>A broker that never fails otherwise than by rejecting.\<close>

lemma submit_order_records:
  assumes "ok (fst bs)"
    "\<And>b k t s q p tol e. snd (br_submit port b k t s q p tol) \<noteq> Inl (BrokerFailed e)"
  shows "\<exists>f. recorded (fst (fst (submit_order port now cap ord bs))) (bo_key ord) = Some f
    \<and> snd (submit_order port now cap ord bs) = attach_order_tolerance f (bo_evidence ord)"
proof (cases "recorded (fst bs) (bo_key ord)")
  case (Some f)
  with submit_order_recorded [OF assms(1) Some] show ?thesis by simp
next
  case None
  obtain b' r where sub: "br_submit port (fst bs) (bo_key ord) (bo_ticker ord) (bo_side ord)
      (bo_quantity ord) (bo_limit_price ord) (Some (bo_tolerance_bps ord)) = (b', r)"
    by (rule prod.exhaust)
  with assms(2) have "r \<noteq> Inl (BrokerFailed e)" for e by (metis snd_conv)
  with submit_new [OF assms(1) None sub] sub show ?thesis
    by (auto simp: submit_order_def Let_def)
qed

lemma submit_orders_again:
  assumes never_fails: "\<And>b k t s q p tol e. snd (br_submit port b k t s q p tol) \<noteq> Inl (BrokerFailed e)"
    and "ok (fst bs)" "submit_orders port now cap ords bs = (bs1, fs)"
  shows "list_all2 (\<lambda>ord f. \<exists>g. recorded (fst bs1) (bo_key ord) = Some g
        \<and> f = attach_order_tolerance g (bo_evidence ord)) ords fs \<and> ok (fst bs1)"
  using assms(2,3)
proof (induction ords arbitrary: bs fs)
  case (Cons ord ords)
  obtain bs0 f where one: "submit_order port now cap ord bs = (bs0, f)" by (rule prod.exhaust)
  with Cons.prems(2) obtain fs' where fs: "fs = f # fs'" "submit_orders port now cap ords bs0 = (bs1, fs')"
    by (auto simp: Let_def split: prod.splits)
  have ok0: "ok (fst bs0)" using submit_order_ok [OF Cons.prems(1), of now cap ord] one by simp
  obtain g where "recorded (fst bs0) (bo_key ord) = Some g" "f = attach_order_tolerance g (bo_evidence ord)"
    using submit_order_records [OF Cons.prems(1) never_fails, of now cap ord] one by auto
  with submit_orders_keeps [of bs0 "bo_key ord" g now cap ords] fs Cons.IH [OF ok0 fs(2)]
  show ?case by auto
qed simp

lemma submit_orders_replay:
  assumes "list_all2 (\<lambda>ord f. \<exists>g. recorded (fst bs) (bo_key ord) = Some g
        \<and> f = attach_order_tolerance g (bo_evidence ord)) ords fs" "ok (fst bs)"
  shows "fst (fst (submit_orders port now cap ords bs)) = fst bs
    \<and> snd (submit_orders port now cap ords bs) = fs"
  using assms
proof (induction ords arbitrary: bs fs)
  case (Cons ord ords)
  from Cons.prems(1) obtain f fs' g where fs: "fs = f # fs'"
    and g: "recorded (fst bs) (bo_key ord) = Some g" "f = attach_order_tolerance g (bo_evidence ord)"
    and rest: "list_all2 (\<lambda>ord f. \<exists>g. recorded (fst bs) (bo_key ord) = Some g
        \<and> f = attach_order_tolerance g (bo_evidence ord)) ords fs'"
    by (auto simp: list_all2_Cons1)
  obtain bs0 f0 where one: "submit_order port now cap ord bs = (bs0, f0)" by (rule prod.exhaust)
  with submit_order_recorded [OF Cons.prems(2) g(1), of now cap] g have "fst bs0 = fst bs" "f0 = f" by auto
  with Cons.IH [of bs0 fs'] Cons.prems(2) rest one fs show ?case by (simp add: Let_def case_prod_beta)
qed simp

end

definition paper_port :: "paper_broker broker_port" where
  "paper_port = \<lparr>br_submit = paper_submit, br_fills = paper_fills\<rparr>"

lemma paper_submit_cases:
  "dict_get (pb_fills b) k = None \<Longrightarrow> \<exists>f. bf_key f = k \<and> fst (paper_submit b k t s q p tol) = put_fill b f
     \<and> snd (paper_submit b k t s q p tol) \<in> {Inr f, Inl (BrokerRejected f)}"
  by (auto simp: paper_submit_def reject_order_def Let_def broker_fill_of_def)

interpretation paper: broker paper_port "\<lambda>b. dict_get (pb_fills b)" paper_wf
proof
  fix b b' k k' t s q p tol r f
  show "paper_wf b \<Longrightarrow> paper_wf (fst (br_submit paper_port b k t s q p tol))"
    by (simp add: paper_port_def paper_submit_wf)
  show replay: "dict_get (pb_fills b) k = Some f \<Longrightarrow> br_submit paper_port b k t s q p tol = (b, replay_order f)"
    by (simp add: paper_port_def paper_submit_def)
  show "dict_get (pb_fills b) k = None \<Longrightarrow> br_submit paper_port b k t s q p tol = (b', r) \<Longrightarrow>
      (\<exists>f. dict_get (pb_fills b') k = Some f \<and> bf_key f = k \<and> (r = Inr f \<or> r = Inl (BrokerRejected f)))
      \<or> (\<exists>e. r = Inl (BrokerFailed e))"
    using paper_submit_cases [of b k t s q p tol] by (fastforce simp: paper_port_def dict_simps)
  show "k' \<noteq> k \<Longrightarrow> dict_get (pb_fills (fst (br_submit paper_port b k t s q p tol))) k' = dict_get (pb_fills b) k'"
    using paper_submit_cases [of b k t s q p tol] replay
    by (cases "dict_get (pb_fills b) k") (auto simp: paper_port_def paper_submit_def dict_simps)
  show "paper_wf b \<Longrightarrow> dict_get (pb_fills b) k = Some f \<Longrightarrow> bf_key f = k"
    by (auto simp: paper_wf_def dict_get_Some_iff)
qed

lemma paper_never_fails: "snd (br_submit paper_port b k t s q p tol) \<noteq> Inl (BrokerFailed e)"
  by (auto simp: paper_port_def paper_submit_def reject_order_def replay_order_def Let_def
      split: option.split)

text \<open>
  C8. Submitting is exactly-once: when a run hands its orders to the paper broker, each order comes
  back with an outcome under its own idempotency key and no outcome recorded before changes, and
  handing the same orders over again, after a crash for instance, places nothing, changes no recorded outcome and answers every order with
  the same outcome, rejections included.
\<close>

theorem submission_exactly_once:
  assumes "paper_wf b" "submit_orders paper_port now cap ords (b, flts) = ((b', flts'), fs)"
  shows "map bf_key fs = map bo_key ords
    \<and> fst (fst (submit_orders paper_port later cap ords (b', flts''))) = b'
    \<and> snd (submit_orders paper_port later cap ords (b', flts'')) = fs
    \<and> (\<forall>k f. dict_get (pb_fills b) k = Some f \<longrightarrow> dict_get (pb_fills b') k = Some f)
    \<and> paper_wf b'"
proof -
  have kept: "\<forall>k f. dict_get (pb_fills b) k = Some f \<longrightarrow> dict_get (pb_fills b') k = Some f"
    using paper.submit_orders_keeps [of "(b, flts)" _ _ now cap ords] assms(2) by simp
  note again = paper.submit_orders_again [OF paper_never_fails, of "(b, flts)" now cap ords "(b', flts')" fs]
  have all: "list_all2 (\<lambda>ord f. \<exists>g. dict_get (pb_fills b') (bo_key ord) = Some g
        \<and> f = attach_order_tolerance g (bo_evidence ord)) ords fs" and wf: "paper_wf b'"
    using again assms by simp_all
  from paper.submit_orders_replay [of "(b', flts'')" ords fs later cap] all wf
  have "fst (fst (submit_orders paper_port later cap ords (b', flts''))) = b'"
    "snd (submit_orders paper_port later cap ords (b', flts'')) = fs" by simp_all
  moreover have "map bf_key fs = map bo_key ords"
    using all
  proof (induction rule: list_all2_induct)
    case (Cons ord ords f fs)
    with paper.recorded_key [OF wf] show ?case by auto
  qed simp
  ultimately show ?thesis using wf kept by blast
qed

definition sample_order :: "string \<Rightarrow> broker_order" where
  "sample_order ticker =
     (let e = resolve_order_tolerance (usd 10) None Buy sample_tolerance
      in \<lparr>bo_key = ''run1:'' @ ticker @ '':buy'', bo_ticker = ticker, bo_side = Buy, bo_quantity = 2,
          bo_limit_price = usd 10, bo_tolerance_bps = 50, bo_evidence = e\<rparr>)"

lemma submission_exactly_once_witness:
  "\<exists>b' flts' fs. submit_orders paper_port sample_time ''submit'' [sample_order ''ACME'', sample_order ''BAD'']
      (new_paper_broker 0 0 [''BAD''] (usd 1000) ''new'', []) = ((b', flts'), fs)
    \<and> map bf_key fs = [''run1:ACME:buy'', ''run1:BAD:buy'']
    \<and> snd (submit_orders paper_port sample_time ''submit'' [sample_order ''ACME'', sample_order ''BAD''] (b', flts')) = fs"
proof -
  obtain b' flts' fs where sub: "submit_orders paper_port sample_time ''submit''
      [sample_order ''ACME'', sample_order ''BAD'']
      (new_paper_broker 0 0 [''BAD''] (usd 1000) ''new'', []) = ((b', flts'), fs)"
    by (metis prod.exhaust)
  from submission_exactly_once [OF new_paper_broker_wf sub, of sample_time flts'] sub show ?thesis
    by (simp add: sample_order_def Let_def)
qed

section \<open>A run reconciles with its broker\<close>

lemma list_all2_right: "list_all2 P xs ys \<Longrightarrow> y \<in> set ys \<Longrightarrow> \<exists>x \<in> set xs. P x y"
  by (induction rule: list_all2_induct) auto

lemma remember_get:
  "dict_get (remember d fs) k =
     (case List.find (\<lambda>f. bf_key f = k) (rev fs) of None \<Rightarrow> dict_get d k | Some f \<Rightarrow> Some f)"
proof (induction fs arbitrary: d)
  case (Cons f fs)
  have find_append: "List.find P (xs @ ys) = (case List.find P xs of None \<Rightarrow> List.find P ys | Some x \<Rightarrow> Some x)"
    for P and xs ys :: "broker_fill list"
    by (induction xs) auto
  show ?case
    using Cons.IH [of "dict_set (bf_key f) f d"]
    by (auto simp: remember_def find_append dict_simps split: option.split)
qed (simp add: remember_def)

lemma remember_wf: "dict_wf d \<Longrightarrow> dict_wf (remember d fs)"
  by (induction fs arbitrary: d) (auto simp: remember_def dict_wf_set)

lemma remember_values:
  assumes "paper_wf b"
  shows "dict_get (remember [] (paper_fills b)) k = dict_get (pb_fills b) k"
proof -
  have in_iff: "f \<in> set (rev (paper_fills b)) \<and> bf_key f = k \<longleftrightarrow> dict_get (pb_fills b) k = Some f" for f
    using assms by (force simp: paper_fills_def paper_wf_def dict_get_Some_iff)
  show ?thesis
  proof (cases "List.find (\<lambda>f. bf_key f = k) (rev (paper_fills b))")
    case None
    then have "dict_get (pb_fills b) k \<noteq> Some f" for f
      using in_iff [of f] by (auto simp: find_None_iff)
    with None show ?thesis by (cases "dict_get (pb_fills b) k") (auto simp: remember_get)
  next
    case (Some f)
    then have "f \<in> set (rev (paper_fills b))" "bf_key f = k"
      by (auto simp: find_Some_iff) (metis nth_mem length_rev set_rev)
    with in_iff [of f] Some show ?thesis by (simp add: remember_get)
  qed
qed

lemma reconcile_equal:
  assumes "\<And>k. map_option fill_signature (dict_get (remember [] rec) k)
      = map_option fill_signature (dict_get (remember [] brk) k)"
  shows "reconcile_fills rec brk = (length (remember [] rec), [])"
proof -
  let ?r = "remember [] rec" and ?b = "remember [] brk"
  have keys: "k \<in> set (dict_keys ?b) \<longleftrightarrow> k \<in> set (dict_keys ?r)" for k
    using assms [of k] dict_get_None_iff [of ?b k] dict_get_None_iff [of ?r k] by (metis option.map_disc_iff)
  have "reconcile_key ?r ?b k = None" if "k \<in> set (dict_keys ?r)" for k
  proof -
    from that keys obtain f where "dict_get ?b k = Some f"
      by (metis dict_get_None_iff option.exhaust)
    with assms [of k] show ?thesis by (simp add: reconcile_key_def)
  qed
  then have "filter (\<lambda>k. reconcile_key ?r ?b k = None) (sort (dict_keys ?r)) = sort (dict_keys ?r)"
    "List.map_filter (reconcile_key ?r ?b) (sort (dict_keys ?r)) = []"
    by (auto simp: filter_id_conv map_filter_def filter_empty_conv)
  moreover have "filter (\<lambda>k. k \<notin> set (dict_keys ?r)) (dict_keys ?b) = []"
    using keys by (auto simp: filter_empty_conv simp del: set_map)
  ultimately show ?thesis by (simp add: reconcile_fills_def Let_def)
qed

lemma submit_orders_domain:
  "dict_get (pb_fills (fst (fst (submit_orders paper_port now cap ords bs)))) k \<noteq> None \<Longrightarrow>
     dict_get (pb_fills (fst bs)) k \<noteq> None \<or> k \<in> bo_key ` set ords"
proof (induction ords arbitrary: bs)
  case (Cons ord ords)
  obtain bs0 f where one: "submit_order paper_port now cap ord bs = (bs0, f)" by (rule prod.exhaust)
  have "fst bs0 = fst (paper_submit (fst bs) (bo_key ord) (bo_ticker ord) (bo_side ord) (bo_quantity ord)
      (bo_limit_price ord) (Some (bo_tolerance_bps ord)))"
    using one by (auto simp: submit_order_def paper_port_def Let_def
        split: prod.splits sum.splits broker_exn.splits)
  then have "dict_get (pb_fills (fst bs0)) k = dict_get (pb_fills (fst bs)) k" if "k \<noteq> bo_key ord"
    using that paper.submit_other [of k "bo_key ord"] by (simp add: paper_port_def)
  with Cons.IH [of bs0] Cons.prems one show ?case by (auto simp: Let_def case_prod_beta)
qed simp

text \<open>
  What a run remembers of its submissions reconciles with the broker it submitted to: on a
  broker that knew no order before, comparing the recorded fills with the broker's own finds every
  recorded key matched and no discrepancy, although the recorded fills carry tolerance evidence the
  broker never saw.
\<close>

lemma run_reconciles:
  assumes "paper_wf b" "pb_fills b = []"
    "submit_orders paper_port now cap ords (b, flts) = ((b', flts'), fs)"
  shows "reconcile_fills fs (paper_fills b') = (card (set (map bo_key ords)), [])"
proof -
  have all: "list_all2 (\<lambda>ord f. \<exists>g. dict_get (pb_fills b') (bo_key ord) = Some g
        \<and> f = attach_order_tolerance g (bo_evidence ord)) ords fs" and wf: "paper_wf b'"
    using paper.submit_orders_again [OF paper_never_fails, of "(b, flts)" now cap ords "(b', flts')" fs]
      assms by simp_all
  have recd: "\<exists>g. dict_get (pb_fills b') (bf_key f) = Some g \<and> fill_signature f = fill_signature g
      \<and> bf_key f \<in> bo_key ` set ords" if "f \<in> set fs" for f
  proof -
    from list_all2_right [OF all that] obtain ord g where ord: "ord \<in> set ords"
      "dict_get (pb_fills b') (bo_key ord) = Some g" "f = attach_order_tolerance g (bo_evidence ord)"
      by (elim bexE exE conjE)
    with paper.recorded_key [OF wf ord(2)] show ?thesis by (auto simp: fill_signature_def)
  qed
  have keys: "bo_key ` set ords = bf_key ` set fs"
  proof -
    from all have "map bf_key fs = map bo_key ords"
    proof (induction rule: list_all2_induct)
      case (Cons ord ords f fs)
      with paper.recorded_key [OF wf] show ?case by auto
    qed simp
    then show ?thesis by (metis set_map)
  qed
  have same: "map_option fill_signature (dict_get (remember [] fs) k)
      = map_option fill_signature (dict_get (remember [] (paper_fills b')) k)" for k
  proof (cases "List.find (\<lambda>f. bf_key f = k) (rev fs)")
    case None
    then have "k \<notin> bf_key ` set fs" by (auto simp: find_None_iff)
    with submit_orders_domain [of now cap ords "(b, flts)" k] assms keys
    have "dict_get (pb_fills b') k = None" by auto
    with None show ?thesis by (simp add: remember_get [of _ fs] remember_values [OF wf])
  next
    case (Some f)
    then have "f \<in> set fs" "bf_key f = k"
      by (auto simp: find_Some_iff) (metis nth_mem length_rev set_rev)
    with recd [of f] Some show ?thesis by (auto simp: remember_get [of _ fs] remember_values [OF wf])
  qed
  have "dict_wf (remember [] fs)" by (rule remember_wf) simp
  then have "length (remember [] fs) = card (set (dict_keys (remember [] fs)))"
    using distinct_card [of "dict_keys (remember [] fs)"] by (simp add: dict_wf_def del: set_map)
  also have "set (dict_keys (remember [] fs)) = bf_key ` set fs"
  proof -
    have "fst ` set (fold (\<lambda>f d. dict_set (bf_key f) f d) fs d) = bf_key ` set fs \<union> fst ` set d" for d
      by (induction fs arbitrary: d) (auto simp: dict_keys_set)
    then show ?thesis by (simp add: remember_def)
  qed
  finally have "length (remember [] fs) = card (set (map bo_key ords))" by (simp add: keys)
  with reconcile_equal [OF same] show ?thesis by simp
qed

end
