(* ===== verification/PyRead.thy ===== *)
theory PyRead
  imports Vocabulary
begin

text \<open>
  Reading values back from graph properties: \<open>props[name]\<close>, \<open>props.get(name, default)\<close>, the
  conversions \<open>int(v)\<close> and \<open>float(v)\<close>, iteration over a value, and \<open>max(..., key=...)\<close>.

  The text of a float is read by the parameter \<open>parse\<close>; texts of ints are ASCII.
\<close>

definition get_or :: "props \<Rightarrow> string \<Rightarrow> pyval \<Rightarrow> pyval" where
  "get_or d name dflt = (case dict_get d name of None \<Rightarrow> dflt | Some v \<Rightarrow> v)"

definition prop_at :: "props \<Rightarrow> string \<Rightarrow> pyval res" where
  "prop_at d name = (case dict_get d name of None \<Rightarrow> Inl (KeyError name) | Some v \<Rightarrow> Inr v)"

fun mapping_of :: "pyval \<Rightarrow> props option" where
  "mapping_of (PDict d) = Some d"
| "mapping_of (PProxy d) = Some d"
| "mapping_of _ = None"

text \<open>\<open>v if isinstance(v, str) and v else None\<close>.\<close>

definition truthy_str :: "pyval \<Rightarrow> string option" where
  "truthy_str v = (case v of PStr s \<Rightarrow> if s = [] then None else Some s | _ \<Rightarrow> None)"

fun type_name :: "pyval \<Rightarrow> string" where
  "type_name PNone = ''NoneType''"
| "type_name (PBool b) = ''bool''"
| "type_name (PInt i) = ''int''"
| "type_name (PFloat q) = ''float''"
| "type_name (PStr s) = ''str''"
| "type_name (PList xs) = ''list''"
| "type_name (PTuple xs) = ''tuple''"
| "type_name (PDict d) = ''dict''"
| "type_name (PProxy d) = ''mappingproxy''"
| "type_name (PSet xs) = ''set''"
| "type_name (PFrozenSet xs) = ''frozenset''"
| "type_name (PObj s) = ''object''"

abbreviation TypeError :: "string \<Rightarrow> py_exn" where
  "TypeError msg \<equiv> PyExn ''TypeError'' msg"

text \<open>What \<open>for x in v\<close> goes through.\<close>

fun items_of :: "pyval \<Rightarrow> pyval list res" where
  "items_of (PList xs) = Inr xs"
| "items_of (PTuple xs) = Inr xs"
| "items_of (PSet xs) = Inr xs"
| "items_of (PFrozenSet xs) = Inr xs"
| "items_of (PDict d) = Inr (map (\<lambda>k. PStr k) (dict_keys d))"
| "items_of (PProxy d) = Inr (map (\<lambda>k. PStr k) (dict_keys d))"
| "items_of (PStr s) = Inr (map (\<lambda>c. PStr [c]) s)"
| "items_of v = Inl (TypeError (repr_str (type_name v) @ '' object is not iterable''))"

section \<open>Numbers\<close>

text \<open>\<open>s.isdigit()\<close> and \<open>int(s)\<close> on ASCII digits.\<close>

definition is_digit :: "char \<Rightarrow> bool" where
  "is_digit c = (let n = of_char c :: nat in 48 \<le> n \<and> n \<le> 57)"

definition all_digits :: "string \<Rightarrow> bool" where
  "all_digits s \<longleftrightarrow> s \<noteq> [] \<and> list_all is_digit s"

definition digits_value :: "string \<Rightarrow> nat" where
  "digits_value s = foldl (\<lambda>a c. 10 * a + ((of_char c :: nat) - 48)) 0 s"

lemma digit_char_value: "n < 10 \<Longrightarrow> (of_char (digit_char n) :: nat) = 48 + n"
  by (simp add: mod_less)

lemma digits_value_nat_digits: "digits_value (nat_digits n) = n"
proof (induction n rule: nat_digits.induct)
  case (1 n)
  show ?case
  proof (cases "n < 10")
    case True
    then show ?thesis
      by (simp add: nat_digits.simps [of n] digits_value_def digit_char_value del: digit_char.simps)
  next
    case False
    with 1 have "digits_value (nat_digits (n div 10)) = n div 10" by simp
    with False show ?thesis
      by (simp add: nat_digits.simps [of n] digits_value_def digit_char_value del: digit_char.simps)
  qed
qed

lemma nat_digits_digits: "all_digits (nat_digits n)"
proof (induction n rule: nat_digits.induct)
  case (1 n)
  have "is_digit (digit_char m)" if "m < 10" for m
    using that digit_char_value [of m] by (simp add: is_digit_def Let_def del: digit_char.simps)
  with 1 show ?case
    by (cases "n < 10") (simp_all add: nat_digits.simps [of n] all_digits_def del: digit_char.simps)
qed

lemma str_nat_inj: "str_nat m = str_nat n \<Longrightarrow> m = n"
  using digits_value_nat_digits by (metis str_nat_def)

lemma nat_digits_no_sign: "\<not> is_digit c \<Longrightarrow> c \<notin> set (nat_digits n)"
  using nat_digits_digits [of n] by (auto simp: all_digits_def list_all_iff)

lemma str_int_inj: "str_int i = str_int j \<Longrightarrow> i = j"
proof -
  have sign: "CHR ''-'' \<notin> set (nat_digits n)" for n
    by (rule nat_digits_no_sign) (simp add: is_digit_def)
  then have "CHR ''-'' # nat_digits m \<noteq> nat_digits n" for m n
    by (metis list.set_intros(1))
  moreover have "nat_digits m = nat_digits n \<longleftrightarrow> m = n" for m n
    using digits_value_nat_digits by metis
  ultimately show "str_int i = str_int j \<Longrightarrow> i = j"
    by (auto simp: str_int_def split: if_splits) metis+
qed

text \<open>A text ends in at most one way in a separator and a numeral without it.\<close>

lemma split_last_eq:
  assumes "x @ c # a = y @ c # b" "c \<notin> set a" "c \<notin> set b"
  shows "x = y \<and> a = b"
proof -
  from assms(1) have "rev a @ c # rev x = rev b @ c # rev y" by (metis rev_append rev.simps(2) append.assoc append_Cons append_Nil)
  moreover have "takeWhile (\<lambda>d. d \<noteq> c) (rev l @ c # z) = rev l" if "c \<notin> set l" for l z
    using that by (subst takeWhile_append2) auto
  ultimately have "rev a = rev b" using assms(2, 3) by metis
  with assms(1) show ?thesis by simp
qed

lemma str_int_no_colon: "CHR '':'' \<notin> set (str_int i)"
  using nat_digits_no_sign [of "CHR '':''"] by (simp add: str_int_def is_digit_def)

text \<open>The whitespace \<open>int\<close> strips, and the digits between which single underscores may stand.\<close>

definition is_blank :: "char \<Rightarrow> bool" where
  "is_blank c = (let n = of_char c :: nat in (9 \<le> n \<and> n \<le> 13) \<or> (28 \<le> n \<and> n \<le> 32))"

definition strip :: "string \<Rightarrow> string" where
  "strip s = rev (dropWhile is_blank (rev (dropWhile is_blank s)))"

fun plain_digits :: "bool \<Rightarrow> string \<Rightarrow> string option" where
  "plain_digits after [] = (if after then Some [] else None)"
| "plain_digits after (c # s) =
     (if is_digit c then map_option ((#) c) (plain_digits True s)
      else if c = CHR ''_'' \<and> after then plain_digits False s else None)"

definition int_text :: "string \<Rightarrow> int option" where
  "int_text s =
     (case strip s of
        [] \<Rightarrow> None
      | c # t \<Rightarrow>
          if c = CHR ''-'' then map_option (\<lambda>d. - int (digits_value d)) (plain_digits False t)
          else if c = CHR ''+'' then map_option (\<lambda>d. int (digits_value d)) (plain_digits False t)
          else map_option (\<lambda>d. int (digits_value d)) (plain_digits False (c # t)))"

fun py_int :: "pyval \<Rightarrow> int res" where
  "py_int (PInt i) = Inr i"
| "py_int (PBool b) = Inr (if b then 1 else 0)"
| "py_int (PFloat q) = Inr (if 0 \<le> q then \<lfloor>q\<rfloor> else - \<lfloor>- q\<rfloor>)"
| "py_int (PStr s) =
     (case int_text s of
        Some i \<Rightarrow> Inr i
      | None \<Rightarrow> Inl (ValueError (''invalid literal for int() with base 10: '' @ repr_str s)))"
| "py_int v = Inl (TypeError (''int() argument must be a string, a bytes-like object or a real number, not ''
     @ repr_str (type_name v)))"

text \<open>\<open>float(v)\<close>; \<open>float_of\<close> is \<open>None\<close> for a \<open>TypeError\<close> or a \<open>ValueError\<close>.\<close>

fun float_of :: "(string \<Rightarrow> rat option) \<Rightarrow> pyval \<Rightarrow> rat option" where
  "float_of parse (PInt i) = Some (of_int i)"
| "float_of parse (PFloat q) = Some q"
| "float_of parse (PBool b) = Some (if b then 1 else 0)"
| "float_of parse (PStr s) = parse s"
| "float_of parse _ = None"

definition py_float :: "(string \<Rightarrow> rat option) \<Rightarrow> pyval \<Rightarrow> rat res" where
  "py_float parse v =
     (case float_of parse v of
        Some q \<Rightarrow> Inr q
      | None \<Rightarrow>
          (case v of
             PStr s \<Rightarrow> Inl (ValueError (''could not convert string to float: '' @ repr_str s))
           | _ \<Rightarrow> Inl (TypeError (''float() argument must be a string or a real number, not ''
                     @ repr_str (type_name v)))))"

text \<open>An \<open>int\<close> that is no \<open>bool\<close>.\<close>

definition whole :: "pyval \<Rightarrow> int option" where
  "whole v = (case v of PInt i \<Rightarrow> Some i | _ \<Rightarrow> None)"

section \<open>Maxima and lists of results\<close>

text \<open>\<open>max(nodes, key=...)\<close>: the first of the greatest.\<close>

fun first_max :: "('a \<Rightarrow> 'b :: linorder) \<Rightarrow> 'a \<Rightarrow> 'a list \<Rightarrow> 'a" where
  "first_max key best [] = best"
| "first_max key best (x # xs) = first_max key (if key best < key x then x else best) xs"

lemma first_max_in: "first_max key x xs \<in> set (x # xs)"
  by (induction xs arbitrary: x) (auto split: if_splits)

fun all_res :: "'a res list \<Rightarrow> 'a list res" where
  "all_res [] = Inr []"
| "all_res (r # rs) = res_bind r (\<lambda>x. res_bind (all_res rs) (\<lambda>xs. Inr (x # xs)))"

lemma all_res_Inr: "all_res rs = Inr xs \<longleftrightarrow> rs = map Inr xs"
  by (induction rs arbitrary: xs) (auto simp: res_bind_Inr_iff Cons_eq_map_conv)

end
