(* ===== verification/StageGate.thy ===== *)
theory StageGate
  imports PyRead
begin

text \<open>
  The execution stage and its promotion gate (\<open>agents/execution/domain/stage_gate.py\<close>,
  \<open>stage_metrics.py\<close>, \<open>stage_flow.py\<close>, and the stage transitions of \<open>store.py\<close>).

  The graph is a \<open>graph_port\<close> over a world that also holds the message bus; the request that asks
  the supervisor for a human confirmation is the parameter \<open>ask\<close>.  Approval rates are exact
  rationals; \<open>parse_float\<close> reads the text of a number.
\<close>

section \<open>Stages\<close>

datatype execution_stage = PaperStage | BrokerShadow | LiveManual | LiveAutopilot

fun stage_index :: "execution_stage \<Rightarrow> nat" where
  "stage_index PaperStage = 0"
| "stage_index BrokerShadow = 1"
| "stage_index LiveManual = 2"
| "stage_index LiveAutopilot = 3"

lemma stage_index_inj [simp]: "stage_index a = stage_index b \<longleftrightarrow> a = b"
  by (cases a; cases b) auto

text \<open>\<open>STAGE_ORDER\<close> as an order.\<close>

instantiation execution_stage :: linorder
begin

definition less_eq_execution_stage :: "execution_stage \<Rightarrow> execution_stage \<Rightarrow> bool" where
  "less_eq_execution_stage a b = (stage_index a \<le> stage_index b)"

definition less_execution_stage :: "execution_stage \<Rightarrow> execution_stage \<Rightarrow> bool" where
  "less_execution_stage a b = (stage_index a < stage_index b)"

instance
  by standard (auto simp: less_eq_execution_stage_def less_execution_stage_def)

end

fun stage_text :: "execution_stage \<Rightarrow> string" where
  "stage_text PaperStage = ''paper''"
| "stage_text BrokerShadow = ''broker_shadow''"
| "stage_text LiveManual = ''live_manual''"
| "stage_text LiveAutopilot = ''live_autopilot''"

definition stage_of_text :: "string \<Rightarrow> execution_stage option" where
  "stage_of_text s = List.find (\<lambda>st. stage_text st = s) [PaperStage, BrokerShadow, LiveManual, LiveAutopilot]"

lemma stage_of_text_text [simp]: "stage_of_text (stage_text st) = Some st"
  by (cases st) (simp_all add: stage_of_text_def)

lemma stage_of_text_Some: "stage_of_text s = Some st \<Longrightarrow> s = stage_text st"
  by (auto simp: stage_of_text_def split: if_splits)

definition is_valid_promotion :: "execution_stage \<Rightarrow> execution_stage \<Rightarrow> bool" where
  "is_valid_promotion from_stage to_stage \<longleftrightarrow>
     to_stage \<noteq> LiveAutopilot \<and> stage_index to_stage = stage_index from_stage + 1"

definition is_valid_demotion :: "execution_stage \<Rightarrow> execution_stage \<Rightarrow> bool" where
  "is_valid_demotion from_stage to_stage \<longleftrightarrow> to_stage < from_stage"

section \<open>Evidence\<close>

definition approval_rate :: "(string \<Rightarrow> rat option) \<Rightarrow> gnode \<Rightarrow> rat" where
  "approval_rate parse n =
     (case mapping_of (get_or (gn_props n) ''metrics'' (PDict [])) of
        None \<Rightarrow> 0
      | Some metrics \<Rightarrow>
          (case mapping_of (get_or metrics ''portfolio'' (PDict [])) of
             None \<Rightarrow> 0
           | Some portfolio \<Rightarrow>
               (case float_of parse (get_or portfolio ''approval_rate'' (PFloat 0)) of
                  None \<Rightarrow> 0 | Some r \<Rightarrow> r)))"

definition avg_approval_rate :: "(string \<Rightarrow> rat option) \<Rightarrow> gnode list \<Rightarrow> rat" where
  "avg_approval_rate parse snapshots =
     (if snapshots = [] then 0
      else sum_list (map (approval_rate parse) snapshots) / of_nat (length snapshots))"

record stage_evidence =
  sev_snapshot_count :: nat
  sev_avg_approval_rate :: rat
  sev_critical_fault_count :: nat

definition collect_stage_evidence ::
  "(string \<Rightarrow> rat option) \<Rightarrow> 'w graph_port \<Rightarrow> 'w \<Rightarrow> stage_evidence" where
  "collect_stage_evidence parse port w =
     (let snapshots = gp_list port w ''Snapshot''
      in \<lparr>sev_snapshot_count = length snapshots,
          sev_avg_approval_rate = avg_approval_rate parse snapshots,
          sev_critical_fault_count =
            length (filter (\<lambda>n. prop_is (gn_props n) ''severity'' ''critical'') (gp_list port w ''Fault''))\<rparr>)"

record stage_settings =
  ss_stage :: execution_stage
  ss_min_promotion_runs :: int
  ss_min_approval_rate :: rat

definition check_promotion_allowed :: "stage_evidence \<Rightarrow> stage_settings \<Rightarrow> bool \<times> string" where
  "check_promotion_allowed e st =
     (if int (sev_snapshot_count e) < ss_min_promotion_runs st
      then (False, ''need '' @ str_int (ss_min_promotion_runs st) @ '' runs; have ''
              @ str_nat (sev_snapshot_count e))
      else if sev_avg_approval_rate e < ss_min_approval_rate st
      then (False, ''approval_rate '' @ fixed_text 2 (sev_avg_approval_rate e) @ '' below ''
              @ fixed_text 2 (ss_min_approval_rate st))
      else if 0 < sev_critical_fault_count e
      then (False, str_nat (sev_critical_fault_count e) @ '' critical fault(s) unresolved'')
      else (True, ''evidence gate passed''))"

section \<open>Transitions\<close>

definition current_stage_from_graph ::
  "(rat \<Rightarrow> string) \<Rightarrow> 'w graph_port \<Rightarrow> 'w \<Rightarrow> execution_stage \<Rightarrow> execution_stage" where
  "current_stage_from_graph flt port w dflt =
     (case gp_list port w ''StageTransition'' of
        [] \<Rightarrow> dflt
      | n # ns \<Rightarrow>
          (let latest = first_max (\<lambda>n. py_str flt (get_or (gn_props n) ''transitioned_at'' (PStr []))) n ns;
               v = py_str flt (get_or (gn_props latest) ''to_stage'' (PStr (stage_text dflt)))
           in case stage_of_text v of None \<Rightarrow> dflt | Some st \<Rightarrow> st))"

definition write_stage_transition ::
  "'w graph_port \<Rightarrow> ('w \<Rightarrow> timestamp) \<Rightarrow> 'w \<Rightarrow> execution_stage \<Rightarrow> execution_stage \<Rightarrow> string
     \<Rightarrow> 'w \<times> gnode res" where
  "write_stage_transition port wall w from_stage to_stage reason =
     (let at = isoformat (wall w)
      in gp_merge port (wall w) w ''StageTransition'' (''stage:'' @ stage_text to_stage @ '':'' @ at)
           [(''from_stage'', PStr (stage_text from_stage)), (''to_stage'', PStr (stage_text to_stage)),
            (''reason'', PStr reason), (''transitioned_at'', PStr at)] 1)"

section \<open>Promotion\<close>

record promote_request =
  prq_target :: execution_stage
  prq_confirmed :: bool
  prq_reason :: string

record promote_result =
  prs_accepted :: bool
  prs_previous :: execution_stage
  prs_current :: execution_stage
  prs_reason :: string
  prs_node_id :: "string option"

record 'w stage_env =
  sge_port :: "'w graph_port"
  sge_wall :: "'w \<Rightarrow> timestamp"
  sge_ask :: "props \<Rightarrow> 'w \<Rightarrow> 'w"
  sge_float_text :: "rat \<Rightarrow> string"
  sge_parse_float :: "string \<Rightarrow> rat option"
  sge_settings :: stage_settings

definition subject_ref_of :: "execution_stage \<Rightarrow> string" where
  "subject_ref_of target = ''stage_promote:'' @ stage_text target"

definition flag_resolved :: "'w graph_port \<Rightarrow> 'w \<Rightarrow> string \<Rightarrow> bool" where
  "flag_resolved port w subject_ref =
     (gp_get port w ''FlagResolution'' (''resolution:flag:'' @ subject_ref @ '':info'') \<noteq> None)"

definition stage_result ::
  "bool \<Rightarrow> execution_stage \<Rightarrow> execution_stage \<Rightarrow> string \<Rightarrow> gnode option \<Rightarrow> promote_result" where
  "stage_result accepted previous current reason node =
     \<lparr>prs_accepted = accepted, prs_previous = previous, prs_current = current, prs_reason = reason,
      prs_node_id = map_option (\<lambda>n. gn_label n @ '':'' @ gn_key n) node\<rparr>"

definition stage_transition ::
  "'w stage_env \<Rightarrow> 'w \<Rightarrow> execution_stage \<Rightarrow> execution_stage \<Rightarrow> string \<Rightarrow> string \<Rightarrow> 'w \<times> promote_result res"
where
  "stage_transition env w from_stage to_stage reason result_reason =
     (case write_stage_transition (sge_port env) (sge_wall env) w from_stage to_stage reason of
        (w', Inl e) \<Rightarrow> (w', Inl e)
      | (w', Inr n) \<Rightarrow> (w', Inr (stage_result True from_stage to_stage result_reason (Some n))))"

definition request_confirmation :: "'w stage_env \<Rightarrow> 'w \<Rightarrow> execution_stage \<Rightarrow> execution_stage \<Rightarrow> 'w" where
  "request_confirmation env w current target =
     sge_ask env [(''subject_ref'', PStr (subject_ref_of target)), (''severity'', PStr ''info''),
       (''reason'', PStr (''Promote execution stage '' @ stage_text current @ ''->'' @ stage_text target))] w"

definition promote_stage :: "'w stage_env \<Rightarrow> promote_request \<Rightarrow> 'w \<Rightarrow> 'w \<times> promote_result res" where
  "promote_stage env rq w =
     (let port = sge_port env;
          current = current_stage_from_graph (sge_float_text env) port w (ss_stage (sge_settings env));
          target = prq_target rq
      in if is_valid_demotion current target
         then stage_transition env w current target (prq_reason rq) ''demotion applied''
         else if \<not> is_valid_promotion current target
         then (w, Inr (stage_result False current current
                  (''invalid transition '' @ stage_text current @ ''->'' @ stage_text target) None))
         else if prq_confirmed rq \<and> flag_resolved port w (subject_ref_of target)
         then stage_transition env w current target (prq_reason rq) ''promotion confirmed and applied''
         else
           let (allowed, reason) = check_promotion_allowed
                 (collect_stage_evidence (sge_parse_float env) port w) (sge_settings env)
           in if \<not> allowed then (w, Inr (stage_result False current current reason None))
              else (request_confirmation env w current target,
                    Inr (stage_result False current current
                      (''confirmation required - approve stage:promote:'' @ stage_text target
                         @ '' to proceed'') None)))"

section \<open>Properties\<close>

lemma promote_accepted:
  assumes "promote_stage env rq w = (w', Inr r)" "prs_accepted r"
    "current = current_stage_from_graph (sge_float_text env) (sge_port env) w (ss_stage (sge_settings env))"
  shows "prs_previous r = current \<and> prs_current r = prq_target rq
         \<and> (prq_target rq < current
            \<or> stage_index (prq_target rq) = stage_index current + 1 \<and> prq_target rq \<noteq> LiveAutopilot
              \<and> prq_confirmed rq
              \<and> gp_get (sge_port env) w ''FlagResolution''
                  (''resolution:flag:stage_promote:'' @ stage_text (prq_target rq) @ '':info'') \<noteq> None)"
  using assms
  by (auto simp: promote_stage_def Let_def stage_transition_def stage_result_def is_valid_promotion_def
      is_valid_demotion_def flag_resolved_def subject_ref_of_def split: if_splits prod.splits sum.splits)

text \<open>
  C25. A promotion request moves the stage at most one step up, never to \<open>live_autopilot\<close>, and
  only when it is confirmed and a human resolution of exactly that promotion is on record; any step
  down is applied, confirmed or not.  An accepted request writes one StageTransition node, from the
  current stage to the requested one, with the reason and the time, and answers with that node; a
  request that is not accepted reports the stage unchanged and writes nothing itself; and a first
  request for the next stage asks for a confirmation only when the evidence gate passes: enough
  runs, a high enough approval rate, no critical fault.
\<close>

theorem promotion_gated:
  assumes "promote_stage env rq w = (w', Inr r)"
    "current = current_stage_from_graph (sge_float_text env) (sge_port env) w (ss_stage (sge_settings env))"
  shows "prs_previous r = current
    \<and> (prs_accepted r \<longrightarrow> prs_current r = prq_target rq
         \<and> (prq_target rq < current
            \<or> stage_index (prq_target rq) = stage_index current + 1 \<and> prq_target rq \<noteq> LiveAutopilot
              \<and> prq_confirmed rq
              \<and> gp_get (sge_port env) w ''FlagResolution''
                  (''resolution:flag:stage_promote:'' @ stage_text (prq_target rq) @ '':info'') \<noteq> None)
         \<and> (\<exists>n. gp_merge (sge_port env) (sge_wall env w) w ''StageTransition''
                (''stage:'' @ stage_text (prq_target rq) @ '':'' @ isoformat (sge_wall env w))
                [(''from_stage'', PStr (stage_text current)),
                 (''to_stage'', PStr (stage_text (prq_target rq))),
                 (''reason'', PStr (prq_reason rq)),
                 (''transitioned_at'', PStr (isoformat (sge_wall env w)))] 1 = (w', Inr n)
              \<and> prs_node_id r = Some (gn_label n @ '':'' @ gn_key n)))
    \<and> (prq_target rq < current \<longrightarrow> prs_accepted r)
    \<and> (\<not> prs_accepted r \<longrightarrow> prs_current r = current \<and> prs_node_id r = None
         \<and> (w' = w
            \<or> w' = request_confirmation env w current (prq_target rq)
              \<and> ss_min_promotion_runs (sge_settings env) \<le> int (length (gp_list (sge_port env) w ''Snapshot''))
              \<and> ss_min_approval_rate (sge_settings env)
                  \<le> avg_approval_rate (sge_parse_float env) (gp_list (sge_port env) w ''Snapshot'')
              \<and> filter (\<lambda>n. prop_is (gn_props n) ''severity'' ''critical'')
                  (gp_list (sge_port env) w ''Fault'') = []))"
  using assms
  by (auto simp: promote_stage_def Let_def stage_transition_def write_stage_transition_def
      stage_result_def is_valid_promotion_def
      is_valid_demotion_def flag_resolved_def subject_ref_of_def check_promotion_allowed_def
      collect_stage_evidence_def split: if_splits prod.splits sum.splits)

definition sample_stage_env :: "store stage_env" where
  "sample_stage_env = \<lparr>sge_port = mem_port, sge_wall = \<lambda>s. sample_time, sge_ask = \<lambda>p s. s,
     sge_float_text = \<lambda>q. [], sge_parse_float = \<lambda>s. None,
     sge_settings = \<lparr>ss_stage = PaperStage, ss_min_promotion_runs = 3, ss_min_approval_rate = 1 / 2\<rparr>\<rparr>"

lemma sample_stage_current:
  "current_stage_from_graph (\<lambda>q. []) mem_port empty_store PaperStage = PaperStage"
  by (simp add: current_stage_from_graph_def list_nodes_def empty_store_def)

lemma promotion_gated_witness:
  "\<exists>r. promote_stage sample_stage_env \<lparr>prq_target = LiveManual, prq_confirmed = True, prq_reason = []\<rparr>
      empty_store = (empty_store, Inr r) \<and> \<not> prs_accepted r \<and> prs_current r = PaperStage"
proof -
  let ?rq = "\<lparr>prq_target = LiveManual, prq_confirmed = True, prq_reason = []\<rparr>"
  have cur: "PaperStage = current_stage_from_graph (sge_float_text sample_stage_env)
      (sge_port sample_stage_env) empty_store (ss_stage (sge_settings sample_stage_env))"
    by (simp add: sample_stage_env_def sample_stage_current)
  obtain r where run: "promote_stage sample_stage_env ?rq empty_store = (empty_store, Inr r)"
    "\<not> prs_accepted r"
    by (simp add: promote_stage_def sample_stage_env_def sample_stage_current is_valid_demotion_def
        is_valid_promotion_def less_execution_stage_def stage_result_def)
  with promotion_gated [OF run(1) cur] show ?thesis by simp
qed

text \<open>
  A confirmation does not consult the evidence: once a human resolution for the next stage is
  on record, a confirmed request promotes whatever the evidence gate would say then, critical
  faults and missing runs included, and, the record being append-only, it does so again after any
  demotion without a new one.
\<close>

lemma confirmed_promotion_skips_evidence:
  assumes "current_stage_from_graph (sge_float_text env) (sge_port env) w (ss_stage (sge_settings env)) = current"
    "is_valid_promotion current (prq_target rq)" "prq_confirmed rq"
    "flag_resolved (sge_port env) w (subject_ref_of (prq_target rq))"
  shows "promote_stage env rq w =
      stage_transition env w current (prq_target rq) (prq_reason rq) ''promotion confirmed and applied''
    \<and> promote_stage (env\<lparr>sge_settings := (sge_settings env)\<lparr>ss_min_promotion_runs := m,
         ss_min_approval_rate := q\<rparr>\<rparr>) rq w = promote_stage env rq w"
proof -
  have "\<not> is_valid_demotion current (prq_target rq)"
    using assms(2) by (simp add: is_valid_demotion_def is_valid_promotion_def less_execution_stage_def)
  then show ?thesis
    using assms
    by (simp add: promote_stage_def Let_def stage_transition_def)
qed

section \<open>The autopilot is never reached by promotion\<close>

definition no_autopilot :: "store stage_env \<Rightarrow> store \<Rightarrow> bool" where
  "no_autopilot env s \<longleftrightarrow> store_wf s \<and> ss_stage (sge_settings env) \<noteq> LiveAutopilot
     \<and> (\<forall>n \<in> set (list_nodes s ''StageTransition'').
          py_str (sge_float_text env) (get_or (gn_props n) ''to_stage'' (PStr (stage_text (ss_stage (sge_settings env)))))
            \<noteq> ''live_autopilot'')"

lemma no_autopilot_current:
  assumes "no_autopilot env s"
  shows "current_stage_from_graph (sge_float_text env) mem_port s (ss_stage (sge_settings env)) \<noteq> LiveAutopilot"
proof (cases "list_nodes s ''StageTransition''")
  case (Cons n ns)
  let ?key = "\<lambda>n. py_str (sge_float_text env) (get_or (gn_props n) ''transitioned_at'' (PStr []))"
  from assms Cons have "py_str (sge_float_text env) (get_or (gn_props (first_max ?key n ns)) ''to_stage''
      (PStr (stage_text (ss_stage (sge_settings env))))) \<noteq> ''live_autopilot''"
    unfolding no_autopilot_def by (metis first_max_in)
  then show ?thesis
    using Cons assms stage_of_text_Some [of _ LiveAutopilot]
    by (auto simp: current_stage_from_graph_def Let_def no_autopilot_def split: option.splits)
qed (use assms in \<open>simp add: current_stage_from_graph_def no_autopilot_def\<close>)

lemma list_nodes_merge:
  "merge_node now s label key p version = (s', Inr n) \<Longrightarrow> x \<in> set (list_nodes s' lab) \<Longrightarrow>
     x \<in> set (list_nodes s lab) \<or> x = n"
  by (auto simp: merge_node_def merge_core_def list_nodes_def Let_def
      split: sum.splits if_splits option.splits dest!: dict_set_entry intro: rev_image_eqI)

lemma stage_transition_no_autopilot:
  assumes "no_autopilot env s" "target \<noteq> LiveAutopilot" "sge_port env = mem_port"
  shows "no_autopilot env (fst (stage_transition env s current target reason why))"
proof -
  let ?at = "isoformat (sge_wall env s)"
  let ?p = "[(''from_stage'', PStr (stage_text current)), (''to_stage'', PStr (stage_text target)),
      (''reason'', PStr reason), (''transitioned_at'', PStr ?at)]"
  obtain s' r where step: "merge_node (sge_wall env s) s ''StageTransition''
      (''stage:'' @ stage_text target @ '':'' @ ?at) ?p 1 = (s', r)" by (rule prod.exhaust)
  have wf: "store_wf s" "dict_wf ?p" using assms(1) by (simp_all add: no_autopilot_def dict_wf_def)
  have world: "fst (stage_transition env s current target reason why) = s'"
    using step by (auto simp: stage_transition_def write_stage_transition_def assms(3) Let_def split: sum.split)
  show ?thesis
  proof (cases r)
    case (Inl e)
    with step have "s' = guarded_faults (sge_wall env s) (Inl e :: gnode res) s"
      by (auto simp: merge_node_def split: sum.splits)
    with assms(1) world show ?thesis by (simp add: no_autopilot_def)
  next
    case (Inr n)
    note step = step [unfolded Inr]
    from merge_node_written [OF wf step] have "dict_get (gn_props n) ''to_stage'' = Some (PStr (stage_text target))"
      by (auto simp: holds_props_def)
    moreover have "stage_text target \<noteq> ''live_autopilot''" using assms(2) by (cases target) auto
    moreover have "store_wf s'" using merge_node_wf [OF wf, of "sge_wall env s"] step by (metis fst_conv)
    ultimately show ?thesis
      using assms(1) list_nodes_merge [OF step] unfolding world
      by (fastforce simp: no_autopilot_def get_or_def)
  qed
qed

text \<open>
  No sequence of promotion requests, confirmed or not, resolved or not, ever brings a system that
  was not on \<open>live_autopilot\<close> to it, as long as asking for a confirmation does not itself write
  such a transition.
\<close>

lemma never_promoted_to_autopilot:
  assumes "no_autopilot env s" "sge_port env = mem_port"
    "\<And>p s. no_autopilot env s \<Longrightarrow> no_autopilot env (sge_ask env p s)"
  shows "current_stage_from_graph (sge_float_text env) mem_port
      (fold (\<lambda>rq s. fst (promote_stage env rq s)) rqs s) (ss_stage (sge_settings env)) \<noteq> LiveAutopilot"
proof -
  have step: "no_autopilot env (fst (promote_stage env rq s))" if "no_autopilot env s" for rq s
  proof -
    let ?c = "current_stage_from_graph (sge_float_text env) mem_port s (ss_stage (sge_settings env))"
    have "?c \<noteq> LiveAutopilot" by (rule no_autopilot_current [OF that])
    then have "prq_target rq \<noteq> LiveAutopilot" if "is_valid_demotion ?c (prq_target rq) \<or> is_valid_promotion ?c (prq_target rq)"
      using that by (cases ?c) (auto simp: is_valid_demotion_def is_valid_promotion_def less_execution_stage_def)
    then show ?thesis
      using that assms(2,3)
      by (auto simp: promote_stage_def Let_def request_confirmation_def
          intro!: stage_transition_no_autopilot split: prod.split)
  qed
  have "no_autopilot env (fold (\<lambda>rq s. fst (promote_stage env rq s)) rqs s)"
    using assms(1) by (induction rqs arbitrary: s) (auto intro: step)
  then show ?thesis by (rule no_autopilot_current)
qed

end
