(* ===== verification/RiskGates.thy ===== *)
theory RiskGates
  imports Payloads
begin

text \<open>
  The gates of the portfolio manager (\<open>agents/portfolio_manager/domain/\<close>): sizing, the position
  gates of an entry and of an exit, the deployment floor, the reward-risk gate and the sector
  gates, each as the outcome it reports, and the maps from a failing outcome to a rejection.

  A \<open>Decimal\<close> and a \<open>float\<close> are exact rationals, so the conversions between them are identities; a
  set of tickers is a finite set, rendered in sorted order.
\<close>

section \<open>The portfolio\<close>

record portfolio_state =
  ps_cash :: money
  ps_positions :: "(string, int) dict"
  ps_position_refs :: "(string, string) dict"
  ps_position_values :: "(string, money) dict"
  ps_account_fresh :: bool
  ps_stale_reason :: "string option"
  ps_cash_cents :: "int option"
  ps_equity_cents :: "int option"
  ps_buying_power_cents :: "int option"

definition equity_value :: "portfolio_state \<Rightarrow> rat" where
  "equity_value p = mny_amount (ps_cash p)"

definition deployed_value :: "portfolio_state \<Rightarrow> rat" where
  "deployed_value p = sum_list (map mny_amount (dict_values (ps_position_values p)))"

definition available_for_buys :: "portfolio_state \<Rightarrow> rat \<Rightarrow> rat \<Rightarrow> rat" where
  "available_for_buys p cash_buffer_pct reserved_cash =
     (if \<not> ps_account_fresh p then 0
      else equity_value p * (1 - cash_buffer_pct) - (deployed_value p + reserved_cash))"

definition default_portfolio :: "rat \<Rightarrow> portfolio_state" where
  "default_portfolio starting_cash =
     \<lparr>ps_cash = usd starting_cash, ps_positions = [], ps_position_refs = [], ps_position_values = [],
      ps_account_fresh = True, ps_stale_reason = None, ps_cash_cents = None, ps_equity_cents = None,
      ps_buying_power_cents = None\<rparr>"

section \<open>Sizing, issuers, volatility\<close>

definition size_quantity :: "rat \<Rightarrow> rat \<Rightarrow> rat \<Rightarrow> int" where
  "size_quantity portfolio_value max_position_pct est_price =
     (if portfolio_value \<le> 0 \<or> max_position_pct \<le> 0 \<or> est_price \<le> 0 then 0
      else \<lfloor>portfolio_value * max_position_pct / est_price\<rfloor>)"

definition issuer_key :: "string \<Rightarrow> (string, string) dict \<Rightarrow> string" where
  "issuer_key ticker issuer_map =
     (let symbol = upper ticker
      in case dict_get issuer_map symbol of None \<Rightarrow> symbol | Some i \<Rightarrow> i)"

definition decision_atr_pct :: "recommendation \<Rightarrow> rat option" where
  "decision_atr_pct item =
     map_option qm_value (List.find (\<lambda>m. qm_name m = ''atr_pct'') (rec_metrics item))"

definition ratio :: "rat \<Rightarrow> rat \<Rightarrow> rat" where
  "ratio numerator denominator = (if denominator \<le> 0 then 0 else numerator / denominator)"

definition gate_if :: "bool \<Rightarrow> gate_status" where
  "gate_if ok = (if ok then Passed else Failed)"

definition bool_text :: "bool \<Rightarrow> string" where
  "bool_text b = (if b then ''true'' else ''false'')"

definition tickers_text :: "string set \<Rightarrow> string" where
  "tickers_text s = (if s = {} then ''none'' else join_strs '','' (sorted_list_of_set s))"

lemma gate_if_simps [simp]:
  "gate_if b = Passed \<longleftrightarrow> b" "gate_if b = Failed \<longleftrightarrow> \<not> b" "gate_if b \<noteq> NotEvaluated"
  "NotEvaluated \<noteq> gate_if b"
  by (auto simp: gate_if_def)

section \<open>The position gates\<close>

definition sizing_outcome :: "string \<Rightarrow> rat \<Rightarrow> int \<Rightarrow> rat \<Rightarrow> portfolio_state \<Rightarrow> rat \<Rightarrow> gate_outcome" where
  "sizing_outcome issuer existing quantity price p max_position_pct =
     (let cost = of_int quantity * price; issuer_value = existing + cost
      in \<lparr>go_name = ''sizing'', go_value = ratio issuer_value (equity_value p),
          go_threshold = max_position_pct,
          go_outcome = gate_if (issuer_value \<le> max_position_pct * equity_value p),
          go_detail = ''issuer='' @ issuer @ ''; existing_issuer_value_usd='' @ fixed_text 2 existing
            @ ''; quantity_shares='' @ str_int quantity @ ''; est_price_usd='' @ fixed_text 2 price
            @ ''; position_value_usd='' @ fixed_text 2 cost
            @ ''; portfolio_value_usd='' @ fixed_text 2 (equity_value p)\<rparr>)"

definition min_quantity_outcome :: "int \<Rightarrow> int \<Rightarrow> string \<Rightarrow> gate_outcome" where
  "min_quantity_outcome quantity min_order_quantity detail =
     \<lparr>go_name = ''min_order_quantity'', go_value = of_int quantity,
      go_threshold = of_int min_order_quantity,
      go_outcome = gate_if (min_order_quantity \<le> quantity), go_detail = detail\<rparr>"

definition max_positions_outcome :: "string \<Rightarrow> string set \<Rightarrow> int \<Rightarrow> gate_outcome" where
  "max_positions_outcome issuer open_issuers max_positions =
     (let is_new = issuer \<notin> open_issuers
      in \<lparr>go_name = ''max_positions'',
          go_value = of_nat (card open_issuers + (if is_new then 1 else 0)),
          go_threshold = of_int max_positions,
          go_outcome = gate_if (\<not> is_new \<or> int (card open_issuers) < max_positions),
          go_detail = ''held_issuers='' @ tickers_text open_issuers @ ''; is_new_issuer='' @ bool_text is_new\<rparr>)"

definition cash_outcome :: "portfolio_state \<Rightarrow> rat \<Rightarrow> rat \<Rightarrow> rat \<Rightarrow> gate_outcome" where
  "cash_outcome p cash_buffer_pct reserved_cash cost =
     (let available = available_for_buys p cash_buffer_pct reserved_cash
      in \<lparr>go_name = ''cash_available'', go_value = cost, go_threshold = available,
          go_outcome = gate_if (cost \<le> available),
          go_detail = ''portfolio_value_usd='' @ fixed_text 2 (equity_value p)
            @ ''; deployed_portfolio_usd='' @ fixed_text 2 (deployed_value p)
            @ ''; cash_buffer_pct='' @ fixed_text 4 cash_buffer_pct
            @ ''; reserved_cash_this_batch_usd='' @ fixed_text 2 reserved_cash\<rparr>)"

text \<open>The limits one evaluation applies.\<close>

record risk_limits =
  rl_max_position_pct :: rat
  rl_max_positions :: int
  rl_cash_buffer_pct :: rat
  rl_min_order_quantity :: int
  rl_default_stop_pct :: rat
  rl_default_target_pct :: rat
  rl_min_reward_risk :: rat
  rl_max_sector_pct :: rat
  rl_max_names_per_sector :: int

definition position_outcomes ::
  "recommendation \<Rightarrow> int \<Rightarrow> rat \<Rightarrow> portfolio_state \<Rightarrow> rat \<Rightarrow> string set \<Rightarrow> string \<Rightarrow> rat \<Rightarrow> risk_limits
   \<Rightarrow> gate_outcome list" where
  "position_outcomes item quantity price p reserved_cash open_issuers issuer existing l =
     [sizing_outcome issuer existing quantity price p (rl_max_position_pct l),
      min_quantity_outcome quantity (rl_min_order_quantity l)
        (''whole-share quantity for '' @ rec_ticker item),
      max_positions_outcome issuer open_issuers (rl_max_positions l),
      cash_outcome p (rl_cash_buffer_pct l) reserved_cash (of_int quantity * price)]"

definition position_gate_reasons :: "(string, string) dict" where
  "position_gate_reasons =
     [(''sizing'', ''sizing''), (''min_order_quantity'', ''below_min_quantity''),
      (''max_positions'', ''max_positions''), (''cash_available'', ''insufficient_cash'')]"

fun position_rejection_from :: "string \<Rightarrow> gate_outcome list \<Rightarrow> gate_outcome list \<Rightarrow> rejected_order option" where
  "position_rejection_from ticker report [] = None"
| "position_rejection_from ticker report (g # gs) =
     (case dict_get position_gate_reasons (go_name g) of
        None \<Rightarrow> position_rejection_from ticker report gs
      | Some reason \<Rightarrow>
          if go_outcome g = Failed
          then Some \<lparr>ro_ticker = ticker, ro_reason = reason, ro_gate_report = report\<rparr>
          else position_rejection_from ticker report gs)"

definition position_rejection :: "string \<Rightarrow> gate_outcome list \<Rightarrow> rejected_order option" where
  "position_rejection ticker outcomes = position_rejection_from ticker outcomes outcomes"

text \<open>The reasons raised outside the position gates, and the derived map back to the gate.\<close>

definition non_position_reason_gates :: "(string, string) dict" where
  "non_position_reason_gates =
     [(''invalid_stop_loss'', ''reward_risk''), (''reward_risk_below_min'', ''reward_risk''),
      (''sector_name_count'', ''max_names_per_sector''), (''sector_concentration'', ''max_sector_pct''),
      (''sector_not_evaluated'', ''max_sector_pct''),
      (''correlated_cluster_concentration'', ''correlated_cluster_pct''),
      (''correlation_not_evaluated'', ''correlated_cluster_pct'')]"

definition reason_to_gate :: "(string, string) dict" where
  "reason_to_gate = map (\<lambda>(gate, reason). (reason, gate)) position_gate_reasons @ non_position_reason_gates"

definition ungated_reasons :: "string list" where
  "ungated_reasons = [''hold_recommendation'', ''unsupported_action'', ''position_unavailable'',
     ''account_unavailable'', ''price_unavailable'']"

section \<open>The deployment floor\<close>

definition floor_pct :: "int \<Rightarrow> rat \<Rightarrow> rat \<Rightarrow> rat" where
  "floor_pct max_names_per_sector max_position_pct cap =
     (if max_names_per_sector \<le> 0 \<or> max_position_pct \<le> 0 \<or> cap \<le> 0 then 0
      else of_int max_names_per_sector * max_position_pct / cap)"

definition deployment_pct :: "rat \<Rightarrow> rat \<Rightarrow> rat" where
  "deployment_pct deployed equity = (if equity \<le> 0 then 0 else deployed / equity)"

definition is_below_floor :: "rat \<Rightarrow> rat \<Rightarrow> int \<Rightarrow> rat \<Rightarrow> rat \<Rightarrow> bool" where
  "is_below_floor deployed equity max_names_per_sector max_position_pct cap =
     (let floor = floor_pct max_names_per_sector max_position_pct cap
      in 0 < floor \<and> deployment_pct deployed equity < floor)"

definition floor_reason :: string where
  "floor_reason = ''reason=deployment_below_floor''"

definition floor_detail :: "rat \<Rightarrow> rat \<Rightarrow> int \<Rightarrow> rat \<Rightarrow> rat \<Rightarrow> string \<Rightarrow> string" where
  "floor_detail deployed equity max_names_per_sector max_position_pct cap denominator_name =
     ''denominator='' @ denominator_name @ ''; '' @ floor_reason
     @ ''; deployed_portfolio_usd='' @ fixed_text 2 deployed
     @ ''; portfolio_value_usd='' @ fixed_text 2 equity
     @ ''; deployment_pct='' @ fixed_text 4 (deployment_pct deployed equity)
     @ ''; deployment_floor_pct='' @ fixed_text 4 (floor_pct max_names_per_sector max_position_pct cap)"

section \<open>The sector gates\<close>

definition sector_pct_not_evaluated :: "rat \<Rightarrow> string \<Rightarrow> gate_outcome" where
  "sector_pct_not_evaluated max_sector_pct detail =
     \<lparr>go_name = ''max_sector_pct'', go_value = 0, go_threshold = max_sector_pct,
      go_outcome = NotEvaluated, go_detail = detail\<rparr>"

definition not_evaluated_outcomes :: "string \<Rightarrow> rat \<Rightarrow> int \<Rightarrow> gate_outcome list" where
  "not_evaluated_outcomes ticker max_sector_pct max_names_per_sector =
     (let detail = ''ticker='' @ ticker @ ''; missing_input=sector_label''
      in sector_pct_not_evaluated max_sector_pct detail
         # (if 0 < max_names_per_sector
            then [\<lparr>go_name = ''max_names_per_sector'', go_value = 0,
                   go_threshold = of_int max_names_per_sector, go_outcome = NotEvaluated,
                   go_detail = detail\<rparr>]
            else []))"

definition sector_exposure_outcome ::
  "string \<Rightarrow> rat \<Rightarrow> rat \<Rightarrow> rat \<Rightarrow> rat \<Rightarrow> rat \<Rightarrow> rat \<Rightarrow> rat \<Rightarrow> int \<Rightarrow> string \<Rightarrow> gate_outcome" where
  "sector_exposure_outcome sector held batch cost equity deployed max_sector_pct max_position_pct
     max_names_per_sector denominator_name =
     (if max_sector_pct < 1
         \<and> (deployed \<le> 0 \<or> is_below_floor deployed equity max_names_per_sector max_position_pct max_sector_pct)
      then sector_pct_not_evaluated max_sector_pct
             (''sector='' @ sector @ ''; ''
              @ floor_detail deployed equity max_names_per_sector max_position_pct max_sector_pct denominator_name)
      else let value = ratio (held + batch + cost) deployed
           in \<lparr>go_name = ''max_sector_pct'', go_value = value, go_threshold = max_sector_pct,
               go_outcome = gate_if (value \<le> max_sector_pct),
               go_detail = ''sector='' @ sector @ ''; held_sector_value_usd='' @ fixed_text 2 held
                 @ ''; deployed_this_batch_usd='' @ fixed_text 2 batch
                 @ ''; order_cost_usd='' @ fixed_text 2 cost @ ''; denominator='' @ denominator_name
                 @ ''; deployed_portfolio_usd='' @ fixed_text 2 deployed
                 @ ''; portfolio_value_usd='' @ fixed_text 2 equity\<rparr>)"

definition sector_names_outcome :: "string \<Rightarrow> string \<Rightarrow> int \<Rightarrow> bool \<Rightarrow> int \<Rightarrow> gate_outcome" where
  "sector_names_outcome sector issuer existing is_new max_names_per_sector =
     \<lparr>go_name = ''max_names_per_sector'',
      go_value = of_int (existing + (if is_new then 1 else 0)),
      go_threshold = of_int max_names_per_sector,
      go_outcome = gate_if (\<not> is_new \<or> existing < max_names_per_sector),
      go_detail = ''sector='' @ sector @ ''; issuer='' @ issuer @ ''; existing_sector_issuers='' @ str_int existing
        @ ''; is_new_issuer='' @ bool_text is_new\<rparr>"

definition exit_outcomes_for_sector :: "string \<Rightarrow> int \<Rightarrow> int \<Rightarrow> gate_outcome list" where
  "exit_outcomes_for_sector sector issuer_count max_names_per_sector =
     \<lparr>go_name = ''max_sector_pct'', go_value = 0, go_threshold = 1, go_outcome = Passed,
      go_detail = ''sector='' @ sector @ ''; sell reduces sector deployment''\<rparr>
     # (if 0 < max_names_per_sector
        then [\<lparr>go_name = ''max_names_per_sector'', go_value = of_int (max 0 (issuer_count - 1)),
               go_threshold = of_int max_names_per_sector, go_outcome = Passed,
               go_detail = ''sector='' @ sector @ ''; sell reduces held sector issuers''\<rparr>]
        else [])"

definition not_evaluated_reason :: "string \<Rightarrow> string" where
  "not_evaluated_reason gate_name =
     (if gate_name = ''correlated_cluster_pct'' then ''correlation_not_evaluated''
      else ''sector_not_evaluated'')"

text \<open>
  The loop of \<open>sector_rejection\<close>: a gate that was not evaluated rejects, unless the deployment
  floor suppressed it; so does a failed concentration gate.
\<close>

fun sector_rejection_reason :: "gate_outcome list \<Rightarrow> string option" where
  "sector_rejection_reason [] = None"
| "sector_rejection_reason (g # gs) =
     (if go_outcome g = NotEvaluated
      then if contains_text floor_reason (go_detail g) then sector_rejection_reason gs
           else Some (not_evaluated_reason (go_name g))
      else if go_name g = ''correlated_cluster_pct'' \<and> go_outcome g = Failed
      then Some ''correlated_cluster_concentration''
      else if go_name g = ''max_names_per_sector'' \<and> go_outcome g = Failed
      then Some ''sector_name_count''
      else if go_name g = ''max_sector_pct'' \<and> go_outcome g = Failed
      then Some ''sector_concentration''
      else sector_rejection_reason gs)"

definition sector_rejection :: "string \<Rightarrow> gate_outcome list \<Rightarrow> gate_outcome list \<Rightarrow> rejected_order option" where
  "sector_rejection ticker outcomes prior =
     map_option (\<lambda>reason. \<lparr>ro_ticker = ticker, ro_reason = reason, ro_gate_report = prior @ outcomes\<rparr>)
       (sector_rejection_reason outcomes)"

text \<open>
  The reward-risk gate with its disclosure (\<open>gate_report.py\<close>, \<open>reward_risk_detail.py\<close>) and the two
  intent builders, of an entry (\<open>gate_report.order_intent\<close>) and of a full exit (\<open>exits.py\<close>).
\<close>

section \<open>What the reward-risk gate discloses\<close>

definition float_tolerance :: rat where
  "float_tolerance = 1 / 10 ^ 12"

definition close_to :: "rat \<Rightarrow> rat \<Rightarrow> bool" where
  "close_to left right \<longleftrightarrow> \<bar>left - right\<bar> \<le> float_tolerance"

definition same_ratio :: "rat \<Rightarrow> rat \<Rightarrow> rat \<Rightarrow> rat \<Rightarrow> bool" where
  "same_ratio left_target left_stop right_target right_stop \<longleftrightarrow>
     0 < left_stop \<and> 0 < right_stop \<and> close_to (left_target / left_stop) (right_target / right_stop)"

definition is_structurally_determined :: "recommendation \<Rightarrow> rat \<Rightarrow> rat \<Rightarrow> rat \<Rightarrow> rat \<Rightarrow> bool" where
  "is_structurally_determined item stop_pct target_pct default_stop default_target =
     (case rec_evidence item of
        None \<Rightarrow> rec_stop_pct item = None \<and> rec_target_pct item = None
      | Some e \<Rightarrow>
          ste_favorable_sample_count e = None
          \<and> close_to (ste_flat_stop_pct e) default_stop \<and> close_to (ste_flat_target_pct e) default_target
          \<and> close_to (ste_applied_stop_pct e) stop_pct \<and> close_to (ste_applied_target_pct e) target_pct
          \<and> same_ratio target_pct stop_pct default_target default_stop)"

definition comparison_kind :: "recommendation \<Rightarrow> rat \<Rightarrow> rat \<Rightarrow> rat \<Rightarrow> rat \<Rightarrow> rat \<Rightarrow> string" where
  "comparison_kind item stop_pct target_pct min_ratio default_stop default_target =
     (if min_ratio \<le> 0 \<and> 0 < stop_pct then ''DISCLOSURE_ONLY''
      else if is_structurally_determined item stop_pct target_pct default_stop default_target
      then ''STRUCTURALLY_DETERMINED''
      else ''INFORMATIVE'')"

definition stop_target_source :: "recommendation \<Rightarrow> string" where
  "stop_target_source item =
     (if rec_stop_pct item \<noteq> None \<or> rec_target_pct item \<noteq> None then ''recommendation'' else ''regime'')"

definition applied_mode :: "recommendation \<Rightarrow> string" where
  "applied_mode item =
     (case rec_evidence item of None \<Rightarrow> stop_target_source item
      | Some e \<Rightarrow> (case ste_mode e of Flat \<Rightarrow> ''flat'' | Scaled \<Rightarrow> ''scaled''))"

definition structural_basis :: "recommendation \<Rightarrow> string" where
  "structural_basis item =
     (if rec_evidence item \<noteq> None then ''base_take_profit_pct/base_stop_loss_pct''
      else if rec_stop_pct item = None \<and> rec_target_pct item = None
      then ''base_take_profit_pct/base_stop_loss_pct''
      else ''recommendation_stop_pct/recommendation_target_pct'')"

definition target_basis :: "recommendation \<Rightarrow> string" where
  "target_basis item =
     (case rec_evidence item of None \<Rightarrow> structural_basis item
      | Some e \<Rightarrow> if ste_favorable_sample_count e \<noteq> None then ''trailing_favorable_excursion''
                  else structural_basis item)"

definition favorable_excursion_pct :: "recommendation \<Rightarrow> string" where
  "favorable_excursion_pct item =
     (case Option.bind (rec_evidence item) ste_favorable_pct of None \<Rightarrow> ''n/a'' | Some v \<Rightarrow> fixed_text 4 v)"

definition favorable_excursion_horizon_days :: "recommendation \<Rightarrow> string" where
  "favorable_excursion_horizon_days item =
     (case Option.bind (rec_evidence item) ste_favorable_horizon_days of None \<Rightarrow> ''n/a'' | Some v \<Rightarrow> str_int v)"

definition favorable_excursion_sample_count :: "recommendation \<Rightarrow> string" where
  "favorable_excursion_sample_count item =
     (case Option.bind (rec_evidence item) ste_favorable_sample_count of None \<Rightarrow> ''n/a'' | Some v \<Rightarrow> str_int v)"

definition reward_risk_detail :: "recommendation \<Rightarrow> rat \<Rightarrow> rat \<Rightarrow> rat \<Rightarrow> rat \<Rightarrow> rat \<Rightarrow> string" where
  "reward_risk_detail item stop_pct target_pct min_ratio default_stop default_target =
     join_strs ''; ''
       [''target_pct='' @ fixed_text 4 target_pct, ''stop_pct='' @ fixed_text 4 stop_pct,
        ''base_take_profit_pct='' @ fixed_text 4 default_target,
        ''base_stop_loss_pct='' @ fixed_text 4 default_stop,
        ''source='' @ stop_target_source item, ''applied_mode='' @ applied_mode item,
        ''structural_basis='' @ structural_basis item, ''target_basis='' @ target_basis item,
        ''favorable_excursion_pct='' @ favorable_excursion_pct item,
        ''favorable_excursion_horizon_days='' @ favorable_excursion_horizon_days item,
        ''favorable_excursion_sample_count='' @ favorable_excursion_sample_count item,
        ''comparison='' @ comparison_kind item stop_pct target_pct min_ratio default_stop default_target]"

section \<open>The gate\<close>

record stop_target =
  st_stop_pct :: rat
  st_target_pct :: rat
  st_outcome :: gate_outcome

definition stop_target_report :: "recommendation \<Rightarrow> rat \<Rightarrow> rat \<Rightarrow> rat \<Rightarrow> stop_target" where
  "stop_target_report item default_stop default_target min_ratio =
     (let stop_pct = (case rec_stop_pct item of None \<Rightarrow> default_stop | Some s \<Rightarrow> s);
          target_pct = (case rec_target_pct item of None \<Rightarrow> default_target | Some t \<Rightarrow> t);
          r = (if stop_pct \<le> 0 then 0 else target_pct / stop_pct)
      in \<lparr>st_stop_pct = stop_pct, st_target_pct = target_pct,
          st_outcome = \<lparr>go_name = ''reward_risk'', go_value = r, go_threshold = min_ratio,
            go_outcome = gate_if (0 < stop_pct \<and> min_ratio \<le> r),
            go_detail = reward_risk_detail item stop_pct target_pct min_ratio default_stop default_target\<rparr>\<rparr>)"

definition reward_risk_rejection :: "string \<Rightarrow> stop_target \<Rightarrow> gate_outcome list \<Rightarrow> rejected_order option" where
  "reward_risk_rejection ticker report prior =
     (if st_stop_pct report \<le> 0
      then Some \<lparr>ro_ticker = ticker, ro_reason = ''invalid_stop_loss'', ro_gate_report = prior @ [st_outcome report]\<rparr>
      else if go_outcome (st_outcome report) = Failed
      then Some \<lparr>ro_ticker = ticker, ro_reason = ''reward_risk_below_min'', ro_gate_report = prior @ [st_outcome report]\<rparr>
      else None)"

section \<open>The intents\<close>

definition entry_intent :: "recommendation \<Rightarrow> int \<Rightarrow> money \<Rightarrow> stop_target \<Rightarrow> gate_outcome list \<Rightarrow> order_intent" where
  "entry_intent item quantity price report outcomes =
     \<lparr>oi_ticker = rec_ticker item, oi_action = rec_action item, oi_quantity = quantity,
      oi_est_price = price, oi_decision_atr_pct = decision_atr_pct item,
      oi_stop_pct = Some (st_stop_pct report), oi_target_pct = Some (st_target_pct report),
      oi_position_ref = None,
      oi_rationale = \<lparr>ex_summary = ''Approved '' @ rec_ticker item @ '': sized '' @ str_int quantity
          @ '' shares from PM policy.'',
        ex_evidence_refs = [''portfolio_manager.sizing'', ''provider.regime'']\<rparr>,
      oi_gate_report = outcomes\<rparr>"

definition exit_outcomes :: "recommendation \<Rightarrow> int \<Rightarrow> money \<Rightarrow> portfolio_state \<Rightarrow> int \<Rightarrow> int \<Rightarrow> gate_outcome list" where
  "exit_outcomes item quantity price p min_order_quantity max_positions =
     (let exit_value = of_int quantity * mny_amount price
      in [\<lparr>go_name = ''sizing'', go_value = ratio exit_value (equity_value p), go_threshold = 1,
           go_outcome = Passed,
           go_detail = ''full_exit_quantity_shares='' @ str_int quantity @ ''; exit_value_usd='' @ fixed_text 2 exit_value\<rparr>,
          min_quantity_outcome quantity min_order_quantity
            (''whole-share exit quantity for '' @ rec_ticker item),
          \<lparr>go_name = ''max_positions'', go_value = of_int (max 0 (int (length (ps_positions p)) - 1)),
           go_threshold = of_int max_positions, go_outcome = Passed,
           go_detail = ''sell reduces open position count''\<rparr>,
          \<lparr>go_name = ''cash_available'', go_value = 0, go_threshold = equity_value p, go_outcome = Passed,
           go_detail = ''sell raises cash; no buying-power draw''\<rparr>])"

definition exit_intent :: "recommendation \<Rightarrow> int \<Rightarrow> money \<Rightarrow> gate_outcome list \<Rightarrow> string option \<Rightarrow> order_intent" where
  "exit_intent item quantity price outcomes position_ref =
     \<lparr>oi_ticker = rec_ticker item, oi_action = SellAction, oi_quantity = quantity,
      oi_est_price = price, oi_decision_atr_pct = decision_atr_pct item,
      oi_stop_pct = None, oi_target_pct = None, oi_position_ref = position_ref,
      oi_rationale = \<lparr>ex_summary = ''Approved '' @ rec_ticker item @ '': full exit of '' @ str_int quantity
          @ '' held shares.'',
        ex_evidence_refs = [''portfolio_manager.sizing'', ''analyst.technical_score'']\<rparr>,
      oi_gate_report = outcomes\<rparr>"

end
