(* ===== verification/SectorBook.thy ===== *)
theory SectorBook
  imports RiskGates
begin

text \<open>
  The concentration book (\<open>agents/portfolio_manager/domain/sector_book.py\<close>): the running values per
  sector, issuer and ticker that the sector and correlation gates read.  The abstract book is the
  value held per ticker; the last section shows that every running total is what the values per
  ticker imply.

  A set over which the code iterates is visited in sorted order: the totals do not depend on it.
\<close>

record sector_book =
  sb_sectors :: "(string, string) dict"
  sb_issuer_map :: "(string, string) dict"
  sb_held_tickers :: "string set"
  sb_held_values :: "(string, rat) dict"
  sb_batch_values :: "(string, rat) dict"
  sb_sector_issuers :: "(string, string set) dict"
  sb_issuer_tickers :: "(string, string set) dict"
  sb_issuer_values :: "(string, rat) dict"
  sb_ticker_values :: "(string, rat) dict"

definition value_at :: "(string, rat) dict \<Rightarrow> string \<Rightarrow> rat" where
  "value_at d k = (case dict_get d k of None \<Rightarrow> 0 | Some v \<Rightarrow> v)"

definition set_at :: "(string, 'a set) dict \<Rightarrow> string \<Rightarrow> 'a set" where
  "set_at d k = (case dict_get d k of None \<Rightarrow> {} | Some s \<Rightarrow> s)"

definition add_value :: "string \<Rightarrow> rat \<Rightarrow> (string, rat) dict \<Rightarrow> (string, rat) dict" where
  "add_value k v d = dict_set k (value_at d k + v) d"

definition add_member :: "string \<Rightarrow> 'a \<Rightarrow> (string, 'a set) dict \<Rightarrow> (string, 'a set) dict" where
  "add_member k x d = dict_set k (insert x (set_at d k)) d"

definition issuer_for :: "sector_book \<Rightarrow> string \<Rightarrow> string" where
  "issuer_for b ticker = issuer_key ticker (sb_issuer_map b)"

definition sector_of :: "sector_book \<Rightarrow> string \<Rightarrow> string option" where
  "sector_of b ticker = dict_get (sb_sectors b) (upper ticker)"

definition held_value :: "(string, money) dict \<Rightarrow> string \<Rightarrow> rat" where
  "held_value values ticker =
     (case dict_get values ticker of
        Some m \<Rightarrow> mny_amount m
      | None \<Rightarrow> (case dict_get values (upper ticker) of None \<Rightarrow> 0 | Some m \<Rightarrow> mny_amount m))"

definition seed_ticker :: "(string, money) dict \<Rightarrow> string \<Rightarrow> sector_book \<Rightarrow> sector_book" where
  "seed_ticker values ticker b =
     (let v = held_value values ticker; issuer = issuer_for b ticker;
          b1 = b\<lparr>sb_ticker_values := dict_set ticker v (sb_ticker_values b),
                 sb_issuer_values := add_value issuer v (sb_issuer_values b),
                 sb_issuer_tickers := add_member issuer ticker (sb_issuer_tickers b)\<rparr>
      in case sector_of b ticker of
           None \<Rightarrow> b1
         | Some sector \<Rightarrow>
             b1\<lparr>sb_held_values := add_value sector v (sb_held_values b1),
                sb_sector_issuers := add_member sector issuer (sb_sector_issuers b1)\<rparr>)"

definition upper_keys :: "(string, string) dict \<Rightarrow> (string, string) dict" where
  "upper_keys d = fold (\<lambda>(k, v). dict_set (upper k) v) d []"

definition new_sector_book ::
  "(string, string) dict \<Rightarrow> string list \<Rightarrow> (string, money) dict \<Rightarrow> (string, string) dict \<Rightarrow> sector_book" where
  "new_sector_book sectors held values issuer_map =
     (let tickers = upper ` set held
      in fold (seed_ticker values) (sorted_list_of_set tickers)
           \<lparr>sb_sectors = upper_keys sectors, sb_issuer_map = issuer_map, sb_held_tickers = tickers,
            sb_held_values = [], sb_batch_values = [], sb_sector_issuers = [], sb_issuer_tickers = [],
            sb_issuer_values = [], sb_ticker_values = []\<rparr>)"

definition issuer_value :: "sector_book \<Rightarrow> string \<Rightarrow> rat" where
  "issuer_value b issuer = value_at (sb_issuer_values b) issuer"

definition issuer_tickers :: "sector_book \<Rightarrow> (string, string list) dict" where
  "issuer_tickers b = map (\<lambda>(issuer, tickers). (issuer, sorted_list_of_set tickers)) (sb_issuer_tickers b)"

text \<open>
  The sector gates of a tentative order.  The one caller passes the deployed value, so the
  denominator is the deployed capital; the equity is the fallback of the optional argument.
\<close>

definition sector_outcomes ::
  "sector_book \<Rightarrow> recommendation \<Rightarrow> rat \<Rightarrow> rat \<Rightarrow> rat option \<Rightarrow> rat \<Rightarrow> rat \<Rightarrow> int \<Rightarrow> gate_outcome list" where
  "sector_outcomes b item cost equity deployed max_position_pct max_sector_pct max_names_per_sector =
     (let denominator = (case deployed of None \<Rightarrow> equity | Some d \<Rightarrow> d);
          denominator_name = (case deployed of None \<Rightarrow> ''portfolio_equity'' | Some _ \<Rightarrow> ''deployed_capital'')
      in case sector_of b (rec_ticker item) of
           None \<Rightarrow>
             if 1 \<le> max_sector_pct \<and> max_names_per_sector \<le> 0 then []
             else not_evaluated_outcomes (rec_ticker item) max_sector_pct max_names_per_sector
         | Some sector \<Rightarrow>
             let issuer = issuer_for b (rec_ticker item);
                 issuers = set_at (sb_sector_issuers b) sector
             in sector_exposure_outcome sector (value_at (sb_held_values b) sector)
                  (value_at (sb_batch_values b) sector) cost equity denominator max_sector_pct
                  max_position_pct max_names_per_sector denominator_name
                # (if 0 < max_names_per_sector
                   then [sector_names_outcome sector issuer (int (card issuers)) (issuer \<notin> issuers)
                           max_names_per_sector]
                   else []))"

definition record_entry :: "string \<Rightarrow> rat \<Rightarrow> sector_book \<Rightarrow> sector_book" where
  "record_entry ticker0 cost b =
     (let ticker = upper ticker0; issuer = issuer_for b ticker;
          b1 = b\<lparr>sb_issuer_values := add_value issuer cost (sb_issuer_values b),
                 sb_issuer_tickers := add_member issuer ticker (sb_issuer_tickers b),
                 sb_ticker_values := add_value ticker cost (sb_ticker_values b)\<rparr>
      in case sector_of b ticker of
           None \<Rightarrow> b1
         | Some sector \<Rightarrow>
             b1\<lparr>sb_batch_values := add_value sector cost (sb_batch_values b1),
                sb_sector_issuers := add_member sector issuer (sb_sector_issuers b1),
                sb_held_tickers := insert ticker (sb_held_tickers b1)\<rparr>)"

definition sector_exit_outcomes :: "sector_book \<Rightarrow> recommendation \<Rightarrow> int \<Rightarrow> gate_outcome list" where
  "sector_exit_outcomes b item max_names_per_sector =
     (case sector_of b (rec_ticker item) of
        None \<Rightarrow> []
      | Some sector \<Rightarrow>
          exit_outcomes_for_sector sector (int (card (set_at (sb_sector_issuers b) sector)))
            max_names_per_sector)"

definition drop_member :: "string \<Rightarrow> 'a \<Rightarrow> (string, 'a set) dict \<Rightarrow> (string, 'a set) dict" where
  "drop_member k x d = (case dict_get d k of None \<Rightarrow> d | Some s \<Rightarrow> dict_set k (s - {x}) d)"

definition record_exit :: "string \<Rightarrow> sector_book \<Rightarrow> sector_book" where
  "record_exit ticker b =
     (let symbol = upper ticker; issuer = issuer_for b symbol;
          v = value_at (sb_ticker_values b) symbol;
          values = dict_set issuer (max 0 (issuer_value b issuer - v)) (sb_issuer_values b);
          tickers = drop_member issuer symbol (sb_issuer_tickers b);
          gone = set_at tickers issuer = {};
          b1 = b\<lparr>sb_ticker_values := dict_pop symbol (sb_ticker_values b),
                 sb_held_tickers := sb_held_tickers b - {symbol},
                 sb_issuer_values := (if gone then dict_pop issuer values else values),
                 sb_issuer_tickers := (if gone then dict_pop issuer tickers else tickers)\<rparr>
      in case sector_of b symbol of
           None \<Rightarrow> b1
         | Some sector \<Rightarrow>
             b1\<lparr>sb_held_values := dict_set sector (max 0 (value_at (sb_held_values b) sector - v)) (sb_held_values b),
                sb_sector_issuers :=
                  (if dict_get (sb_issuer_tickers b1) issuer = None
                   then drop_member sector issuer (sb_sector_issuers b)
                   else sb_sector_issuers b)\<rparr>)"

section \<open>The abstract book\<close>

text \<open>The value held per ticker, and the totals it implies.\<close>

type_synonym holdings = "string \<Rightarrow> rat option"

definition held_at :: "holdings \<Rightarrow> string \<Rightarrow> rat" where
  "held_at A t = (case A t of None \<Rightarrow> 0 | Some v \<Rightarrow> v)"

definition total :: "holdings \<Rightarrow> (string \<Rightarrow> bool) \<Rightarrow> rat" where
  "total A P = (\<Sum>t \<in> {t \<in> dom A. P t}. held_at A t)"

definition holdings_entry :: "string \<Rightarrow> rat \<Rightarrow> holdings \<Rightarrow> holdings" where
  "holdings_entry t cost A = A(upper t \<mapsto> held_at A (upper t) + cost)"

definition holdings_exit :: "string \<Rightarrow> holdings \<Rightarrow> holdings" where
  "holdings_exit t A = A(upper t := None)"

definition holdings_of :: "string list \<Rightarrow> (string, money) dict \<Rightarrow> holdings" where
  "holdings_of held values t = (if t \<in> upper ` set held then Some (held_value values t) else None)"

lemma total_del:
  assumes "finite (dom A)"
  shows "total (A(t := None)) P = total A P - (if P t then held_at A t else 0)"
proof -
  have fin: "finite {u \<in> dom A. P u}" using assms by simp
  have eq: "(\<Sum>u \<in> {u \<in> dom (A(t := None)). P u}. held_at (A(t := None)) u)
      = (\<Sum>u \<in> {u \<in> dom A. P u} - {t}. held_at A u)"
    by (rule sum.cong) (auto simp: held_at_def)
  show ?thesis
  proof (cases "t \<in> {u \<in> dom A. P u}")
    case True
    then show ?thesis unfolding total_def eq using fin by (simp only: sum_diff1) simp
  next
    case False
    then have "held_at A t = 0 \<or> \<not> P t" by (auto simp: held_at_def split: option.split)
    moreover from False have "{u \<in> dom A. P u} - {t} = {u \<in> dom A. P u}" by blast
    ultimately show ?thesis unfolding total_def eq by auto
  qed
qed

lemma total_upd:
  assumes "finite (dom A)"
  shows "total (A(t \<mapsto> v)) P = total A P - (if P t then held_at A t else 0) + (if P t then v else 0)"
proof -
  have dom: "{u \<in> dom (A(t \<mapsto> v)). P u} = (if P t then insert t {u \<in> dom (A(t := None)). P u}
      else {u \<in> dom (A(t := None)). P u})" by auto
  have eq: "(\<Sum>u \<in> {u \<in> dom (A(t := None)). P u}. held_at (A(t \<mapsto> v)) u) = total (A(t := None)) P"
    unfolding total_def by (rule sum.cong) (auto simp: held_at_def)
  have fin: "finite {u \<in> dom (A(t := None)). P u}" using assms by simp
  have "total (A(t \<mapsto> v)) P = total (A(t := None)) P + (if P t then v else 0)"
    unfolding total_def [of "A(t \<mapsto> v)"] dom using fin eq
    by (auto simp: held_at_def)
  with total_del [OF assms, of t P] show ?thesis by simp
qed

lemma total_nonneg: "(\<And>t. 0 \<le> held_at A t) \<Longrightarrow> 0 \<le> total A P"
  unfolding total_def by (rule sum_nonneg) auto

lemma total_part:
  assumes "finite (dom A)" "\<And>u. 0 \<le> held_at A u" "P t"
  shows "held_at A t \<le> total A P"
proof -
  have "0 \<le> total (A(t := None)) P"
    using assms(2) by (intro total_nonneg) (auto simp: held_at_def)
  with total_del [OF assms(1), of t P] assms(3) show ?thesis by simp
qed

section \<open>The book refines the holdings\<close>

definition book_refines :: "sector_book \<Rightarrow> holdings \<Rightarrow> bool" where
  "book_refines b A \<longleftrightarrow>
     dict_get (sb_ticker_values b) = A
     \<and> (\<forall>t. 0 \<le> held_at A t) \<and> (\<forall>t \<in> dom A. upper t = t)
     \<and> (\<forall>i. set_at (sb_issuer_tickers b) i = {t \<in> dom A. issuer_for b t = i})
     \<and> (\<forall>i. issuer_value b i = total A (\<lambda>t. issuer_for b t = i))
     \<and> (\<forall>s. value_at (sb_held_values b) s + value_at (sb_batch_values b) s
            = total A (\<lambda>t. sector_of b t = Some s))
     \<and> (\<forall>s. \<forall>t \<in> dom A. sector_of b t = Some s \<longrightarrow> issuer_for b t \<in> set_at (sb_sector_issuers b) s)
     \<and> (\<forall>s. finite (set_at (sb_sector_issuers b) s))"

lemma value_at_add [simp]: "value_at (add_value k v d) k' = value_at d k' + (if k' = k then v else 0)"
  by (auto simp: value_at_def add_value_def dict_simps)

lemma set_at_add [simp]: "set_at (add_member k x d) k' = (if k' = k then insert x (set_at d k') else set_at d k')"
  by (auto simp: set_at_def add_member_def dict_simps)

lemma set_at_drop [simp]: "set_at (drop_member k x d) k' = (if k' = k then set_at d k' - {x} else set_at d k')"
  by (auto simp: set_at_def drop_member_def dict_simps split: option.split)

lemma value_at_set [simp]: "value_at (dict_set k v d) k' = (if k' = k then v else value_at d k')"
  by (auto simp: value_at_def dict_simps)

lemma value_at_pop [simp]: "value_at (dict_pop k d) k' = (if k' = k then 0 else value_at d k')"
  by (auto simp: value_at_def dict_simps)

lemma set_at_pop [simp]: "set_at (dict_pop k d) k' = (if k' = k then {} else set_at d k')"
  by (auto simp: set_at_def dict_simps)

lemma held_at_upd [simp]: "held_at (A(t \<mapsto> v)) u = (if u = t then v else held_at A u)"
  by (simp add: held_at_def)

lemma held_at_del [simp]: "held_at (A(t := None)) u = (if u = t then 0 else held_at A u)"
  by (simp add: held_at_def)

lemma value_at_held: "dict_get d = A \<Longrightarrow> value_at d t = held_at A t"
  by (auto simp: value_at_def held_at_def)

lemma finite_book: "dict_get d = A \<Longrightarrow> finite (dom A)"
  using finite_dom_map_of by metis

lemma book_tables [simp]:
  "sb_issuer_map (record_entry t c b) = sb_issuer_map b" "sb_sectors (record_entry t c b) = sb_sectors b"
  "sb_issuer_map (record_exit t b) = sb_issuer_map b" "sb_sectors (record_exit t b) = sb_sectors b"
  "sb_issuer_map (seed_ticker vs t b) = sb_issuer_map b" "sb_sectors (seed_ticker vs t b) = sb_sectors b"
  by (simp_all add: record_entry_def record_exit_def seed_ticker_def Let_def split: option.split)

lemma book_maps [simp]:
  "issuer_for (record_entry t c b) = issuer_for b" "sector_of (record_entry t c b) = sector_of b"
  "issuer_for (record_exit t b) = issuer_for b" "sector_of (record_exit t b) = sector_of b"
  "issuer_for (seed_ticker vs t b) = issuer_for b" "sector_of (seed_ticker vs t b) = sector_of b"
  by (simp_all add: fun_eq_iff issuer_for_def sector_of_def)

lemma sector_of_upper [simp]: "sector_of b (upper t) = sector_of b t"
  by (simp add: sector_of_def)

lemma issuer_for_upper [simp]: "issuer_for b (upper t) = issuer_for b t"
  by (simp add: issuer_for_def issuer_key_def)

lemma book_refinesD:
  assumes "book_refines b A"
  shows "dict_get (sb_ticker_values b) = A" "0 \<le> held_at A t" "u \<in> dom A \<Longrightarrow> upper u = u"
    "set_at (sb_issuer_tickers b) i = {t \<in> dom A. issuer_for b t = i}"
    "issuer_value b i = total A (\<lambda>t. issuer_for b t = i)"
    "value_at (sb_held_values b) s + value_at (sb_batch_values b) s = total A (\<lambda>t. sector_of b t = Some s)"
    "u \<in> dom A \<Longrightarrow> sector_of b u = Some s \<Longrightarrow> issuer_for b u \<in> set_at (sb_sector_issuers b) s"
    "finite (set_at (sb_sector_issuers b) s)" "finite (dom A)"
  using assms unfolding book_refines_def by (simp_all, elim conjE, intro finite_book)

lemma book_refinesI:
  assumes "dict_get (sb_ticker_values b) = A" "\<And>t. 0 \<le> held_at A t" "\<And>u. u \<in> dom A \<Longrightarrow> upper u = u"
    "\<And>i. set_at (sb_issuer_tickers b) i = {t \<in> dom A. issuer_for b t = i}"
    "\<And>i. issuer_value b i = total A (\<lambda>t. issuer_for b t = i)"
    "\<And>s. value_at (sb_held_values b) s + value_at (sb_batch_values b) s = total A (\<lambda>t. sector_of b t = Some s)"
    "\<And>s u. u \<in> dom A \<Longrightarrow> sector_of b u = Some s \<Longrightarrow> issuer_for b u \<in> set_at (sb_sector_issuers b) s"
    "\<And>s. finite (set_at (sb_sector_issuers b) s)"
  shows "book_refines b A"
  unfolding book_refines_def using assms by simp

lemma book_ticker_value: "book_refines b A \<Longrightarrow> value_at (sb_ticker_values b) t = held_at A t"
  by (rule value_at_held) (rule book_refinesD(1))

lemma record_entry_fields:
  "sb_ticker_values (record_entry t c b) = add_value (upper t) c (sb_ticker_values b)"
  "sb_issuer_values (record_entry t c b) = add_value (issuer_for b t) c (sb_issuer_values b)"
  "sb_issuer_tickers (record_entry t c b) = add_member (issuer_for b t) (upper t) (sb_issuer_tickers b)"
  "sb_held_values (record_entry t c b) = sb_held_values b"
  "sb_batch_values (record_entry t c b) =
     (case sector_of b t of None \<Rightarrow> sb_batch_values b | Some s \<Rightarrow> add_value s c (sb_batch_values b))"
  "sb_sector_issuers (record_entry t c b) =
     (case sector_of b t of None \<Rightarrow> sb_sector_issuers b
      | Some s \<Rightarrow> add_member s (issuer_for b t) (sb_sector_issuers b))"
  by (simp_all add: record_entry_def Let_def split: option.split)

lemma add_value_refines:
  assumes "dict_get d = A"
  shows "dict_get (add_value (upper t) c d) = holdings_entry t c A"
  by (simp add: fun_eq_iff holdings_entry_def add_value_def dict_simps value_at_held [OF assms] assms)

lemma record_entry_refines:
  assumes "book_refines b A" "0 \<le> cost"
  shows "book_refines (record_entry t cost b) (holdings_entry t cost A)"
proof (rule book_refinesI)
  let ?A = "holdings_entry t cost A" and ?b = "record_entry t cost b"
  note r = book_refinesD [OF assms(1)]
  have tot: "total ?A P = total A P + (if P (upper t) then cost else 0)" for P
    by (simp add: holdings_entry_def total_upd [OF r(9)])
  have dom: "dom ?A = insert (upper t) (dom A)" by (auto simp: holdings_entry_def)
  show "dict_get (sb_ticker_values ?b) = ?A"
    by (simp add: record_entry_fields add_value_refines [OF r(1)])
  show "0 \<le> held_at ?A u" for u using r(2) assms(2) by (simp add: holdings_entry_def)
  show "upper u = u" if "u \<in> dom ?A" for u using that r(3) by (auto simp: dom)
  show "set_at (sb_issuer_tickers ?b) i = {u \<in> dom ?A. issuer_for ?b u = i}" for i
    by (auto simp: record_entry_fields dom r(4))
  show "issuer_value ?b i = total ?A (\<lambda>u. issuer_for ?b u = i)" for i
    using r(5) [of i] by (simp add: issuer_value_def record_entry_fields tot)
  show "value_at (sb_held_values ?b) s + value_at (sb_batch_values ?b) s
      = total ?A (\<lambda>u. sector_of ?b u = Some s)" for s
    using r(6) [of s] by (simp add: record_entry_fields tot split: option.split)
  show "issuer_for ?b u \<in> set_at (sb_sector_issuers ?b) s" if "u \<in> dom ?A" "sector_of ?b u = Some s" for s u
    using that r(7) [of u s] by (auto simp: record_entry_fields dom split: option.split)
  show "finite (set_at (sb_sector_issuers ?b) s)" for s
    using r(8) [of s] by (simp add: record_entry_fields split: option.split)
qed

lemma record_exit_fields:
  "sb_ticker_values (record_exit t b) = dict_pop (upper t) (sb_ticker_values b)"
  "sb_batch_values (record_exit t b) = sb_batch_values b"
  "set_at (sb_issuer_tickers (record_exit t b)) i =
     set_at (sb_issuer_tickers b) i - (if i = issuer_for b t then {upper t} else {})"
  "issuer_value (record_exit t b) i =
     (if i \<noteq> issuer_for b t then issuer_value b i
      else if set_at (sb_issuer_tickers b) i - {upper t} = {} then 0
      else max 0 (issuer_value b i - value_at (sb_ticker_values b) (upper t)))"
  "value_at (sb_held_values (record_exit t b)) s =
     (if sector_of b t = Some s then max 0 (value_at (sb_held_values b) s - value_at (sb_ticker_values b) (upper t))
      else value_at (sb_held_values b) s)"
  by (auto simp: record_exit_def Let_def issuer_value_def split: option.split)

lemma record_exit_sector_issuers:
  "set_at (sb_sector_issuers (record_exit t b)) s =
     set_at (sb_sector_issuers b) s
     - (if sector_of b t = Some s \<and> set_at (sb_issuer_tickers b) (issuer_for b t) \<subseteq> {upper t}
        then {issuer_for b t} else {})"
proof -
  let ?d = "drop_member (issuer_for b t) (upper t) (sb_issuer_tickers b)"
  have "set_at ?d (issuer_for b t) = {} \<longleftrightarrow> set_at (sb_issuer_tickers b) (issuer_for b t) \<subseteq> {upper t}"
    by auto
  moreover from this have "dict_get ?d (issuer_for b t) = None \<Longrightarrow>
      set_at (sb_issuer_tickers b) (issuer_for b t) \<subseteq> {upper t}"
    by (simp add: set_at_def)
  ultimately show ?thesis
    by (auto simp: record_exit_def Let_def dict_simps split: option.split)
qed

lemma record_exit_refines:
  assumes "book_refines b A" "\<And>s. value_at (sb_batch_values b) s = 0"
  shows "book_refines (record_exit t b) (holdings_exit t A)"
proof (rule book_refinesI)
  let ?A = "holdings_exit t A" and ?b = "record_exit t b"
  note r = book_refinesD [OF assms(1)]
  have tot: "total ?A P = total A P - (if P (upper t) then held_at A (upper t) else 0)" for P
    by (simp add: holdings_exit_def total_del [OF r(9)])
  have dom: "dom ?A = dom A - {upper t}" by (auto simp: holdings_exit_def)
  have part: "P (upper t) \<Longrightarrow> held_at A (upper t) \<le> total A P" for P
    by (rule total_part) (use r in auto)
  show "dict_get (sb_ticker_values ?b) = ?A"
    by (simp add: record_exit_fields fun_eq_iff dict_simps holdings_exit_def r(1))
  show "0 \<le> held_at ?A u" for u using r(2) by (simp add: holdings_exit_def)
  show "upper u = u" if "u \<in> dom ?A" for u using that r(3) by (auto simp: dom)
  show "set_at (sb_issuer_tickers ?b) i = {u \<in> dom ?A. issuer_for ?b u = i}" for i
    by (auto simp: record_exit_fields dom r(4))
  show "issuer_value ?b i = total ?A (\<lambda>u. issuer_for ?b u = i)" for i
  proof (cases "i = issuer_for b t \<and> set_at (sb_issuer_tickers b) i - {upper t} = {}")
    case True
    then have "{u \<in> dom ?A. issuer_for b u = i} = {}" using r(4) [of i] by (auto simp: dom)
    then have "total ?A (\<lambda>u. issuer_for b u = i) = 0" unfolding total_def by (simp only: sum.empty)
    moreover from True have "i = issuer_for b t" "set_at (sb_issuer_tickers b) (issuer_for b t) - {upper t} = {}"
      by auto
    ultimately show ?thesis by (simp add: record_exit_fields)
  next
    case False
    then show ?thesis
      using r(5) [of i] part [of "\<lambda>u. issuer_for b u = i"]
      by (auto simp: record_exit_fields tot book_ticker_value [OF assms(1)])
  qed
  show "value_at (sb_held_values ?b) s + value_at (sb_batch_values ?b) s
      = total ?A (\<lambda>u. sector_of ?b u = Some s)" for s
    using r(6) [of s] assms(2) [of s] part [of "\<lambda>u. sector_of b u = Some s"]
    by (auto simp: record_exit_fields tot book_ticker_value [OF assms(1)])
  show "issuer_for ?b u \<in> set_at (sb_sector_issuers ?b) s" if "u \<in> dom ?A" "sector_of ?b u = Some s" for s u
  proof -
    from that have u: "u \<in> dom A" "u \<noteq> upper t" "sector_of b u = Some s" by (auto simp: dom)
    then have "issuer_for b u = issuer_for b t \<Longrightarrow> u \<in> set_at (sb_issuer_tickers b) (issuer_for b t)"
      by (simp add: r(4))
    with u r(7) [OF u(1,3)] show ?thesis by (auto simp: record_exit_sector_issuers)
  qed
  show "finite (set_at (sb_sector_issuers ?b) s)" for s
    using r(8) [of s] by (simp add: record_exit_sector_issuers)
qed

lemma seed_ticker_fields:
  "sb_ticker_values (seed_ticker vs t b) = dict_set t (held_value vs t) (sb_ticker_values b)"
  "sb_issuer_values (seed_ticker vs t b) = add_value (issuer_for b t) (held_value vs t) (sb_issuer_values b)"
  "sb_issuer_tickers (seed_ticker vs t b) = add_member (issuer_for b t) t (sb_issuer_tickers b)"
  "sb_batch_values (seed_ticker vs t b) = sb_batch_values b"
  "sb_held_values (seed_ticker vs t b) =
     (case sector_of b t of None \<Rightarrow> sb_held_values b | Some s \<Rightarrow> add_value s (held_value vs t) (sb_held_values b))"
  "sb_sector_issuers (seed_ticker vs t b) =
     (case sector_of b t of None \<Rightarrow> sb_sector_issuers b
      | Some s \<Rightarrow> add_member s (issuer_for b t) (sb_sector_issuers b))"
  by (simp_all add: seed_ticker_def Let_def split: option.split)

lemma seed_ticker_refines:
  assumes "book_refines b A" "0 \<le> held_value vs t" "upper t = t" "t \<notin> dom A"
  shows "book_refines (seed_ticker vs t b) (A(t \<mapsto> held_value vs t))"
proof (rule book_refinesI)
  let ?A = "A(t \<mapsto> held_value vs t)" and ?b = "seed_ticker vs t b"
  note r = book_refinesD [OF assms(1)]
  from assms(4) have "held_at A t = 0" by (auto simp: held_at_def split: option.split)
  then have tot: "total ?A P = total A P + (if P t then held_value vs t else 0)" for P
    by (simp add: total_upd [OF r(9)])
  show "dict_get (sb_ticker_values ?b) = ?A"
    by (simp add: seed_ticker_fields fun_eq_iff dict_simps r(1))
  show "0 \<le> held_at ?A u" for u using r(2) assms(2) by simp
  show "upper u = u" if "u \<in> dom ?A" for u using that r(3) assms(3) by (auto split: if_splits)
  show "set_at (sb_issuer_tickers ?b) i = {u \<in> dom ?A. issuer_for ?b u = i}" for i
    by (auto simp: seed_ticker_fields r(4))
  show "issuer_value ?b i = total ?A (\<lambda>u. issuer_for ?b u = i)" for i
    using r(5) [of i] by (simp add: issuer_value_def seed_ticker_fields tot)
  show "value_at (sb_held_values ?b) s + value_at (sb_batch_values ?b) s
      = total ?A (\<lambda>u. sector_of ?b u = Some s)" for s
    using r(6) [of s] by (simp add: seed_ticker_fields tot split: option.split)
  show "issuer_for ?b u \<in> set_at (sb_sector_issuers ?b) s" if "u \<in> dom ?A" "sector_of ?b u = Some s" for s u
    using that r(7) [of u s] by (auto simp: seed_ticker_fields split: option.split if_splits)
  show "finite (set_at (sb_sector_issuers ?b) s)" for s
    using r(8) [of s] by (simp add: seed_ticker_fields split: option.split)
qed

lemma fold_exits_refine:
  "book_refines b A \<Longrightarrow> (\<And>s. value_at (sb_batch_values b) s = 0) \<Longrightarrow>
   book_refines (fold record_exit ts b) (fold holdings_exit ts A)
   \<and> (\<forall>s. value_at (sb_batch_values (fold record_exit ts b)) s = 0)"
proof (induction ts arbitrary: b A)
  case (Cons t ts)
  from Cons.IH [OF record_exit_refines [OF Cons.prems]] Cons.prems(2) show ?case
    by (simp add: record_exit_fields)
qed simp

lemma fold_entries_refine:
  "book_refines b A \<Longrightarrow> list_all (\<lambda>(t, c). 0 \<le> c) es \<Longrightarrow>
   book_refines (fold (\<lambda>(t, c). record_entry t c) es b) (fold (\<lambda>(t, c). holdings_entry t c) es A)"
  by (induction es arbitrary: b A) (auto intro: record_entry_refines)

lemma fold_seed_refines:
  assumes "book_refines b A" "distinct ts" "set ts \<inter> dom A = {}"
    "list_all (\<lambda>t. upper t = t \<and> 0 \<le> held_value vs t) ts" "\<And>s. value_at (sb_batch_values b) s = 0"
  shows "book_refines (fold (seed_ticker vs) ts b)
      (\<lambda>t. if t \<in> set ts then Some (held_value vs t) else A t)
    \<and> (\<forall>s. value_at (sb_batch_values (fold (seed_ticker vs) ts b)) s = 0)"
  using assms
proof (induction ts arbitrary: b A)
  case (Cons t ts)
  let ?b = "seed_ticker vs t b" and ?A = "A(t \<mapsto> held_value vs t)"
  have "book_refines ?b ?A" using Cons.prems by (intro seed_ticker_refines) auto
  moreover have "set ts \<inter> dom ?A = {}" using Cons.prems(2,3) by auto
  moreover have "value_at (sb_batch_values ?b) s = 0" for s
    using Cons.prems(5) by (simp add: seed_ticker_fields)
  moreover have "distinct ts" "list_all (\<lambda>t. upper t = t \<and> 0 \<le> held_value vs t) ts"
    using Cons.prems(2,4) by simp_all
  ultimately have "book_refines (fold (seed_ticker vs) ts ?b)
      (\<lambda>u. if u \<in> set ts then Some (held_value vs u) else ?A u)
    \<and> (\<forall>s. value_at (sb_batch_values (fold (seed_ticker vs) ts ?b)) s = 0)"
    by (intro Cons.IH)
  moreover have "(\<lambda>u. if u \<in> set ts then Some (held_value vs u) else ?A u)
      = (\<lambda>u. if u \<in> set (t # ts) then Some (held_value vs u) else A u)"
    by (auto simp: fun_eq_iff)
  ultimately show ?case by simp
qed simp

lemma held_value_nonneg: "list_all (\<lambda>(k, m). money_valid m) vs \<Longrightarrow> 0 \<le> held_value vs t"
  by (auto simp: held_value_def money_valid_def list_all_iff dest!: map_of_SomeD split: option.split)

lemma new_book_refines:
  assumes "list_all (\<lambda>(k, m). money_valid m) vals"
  shows "book_refines (new_sector_book sectors held vals imap) (holdings_of held vals)
    \<and> (\<forall>s. value_at (sb_batch_values (new_sector_book sectors held vals imap)) s = 0)"
proof -
  let ?b0 = "\<lparr>sb_sectors = upper_keys sectors, sb_issuer_map = imap, sb_held_tickers = upper ` set held,
     sb_held_values = [], sb_batch_values = [], sb_sector_issuers = [], sb_issuer_tickers = [],
     sb_issuer_values = [], sb_ticker_values = []\<rparr>"
  have "book_refines ?b0 (\<lambda>_. None)"
    by (auto simp: book_refines_def held_at_def set_at_def value_at_def issuer_value_def total_def)
  from fold_seed_refines [OF this, of "sorted_list_of_set (upper ` set held)" vals]
  have "book_refines (new_sector_book sectors held vals imap)
      (\<lambda>t. if t \<in> set (sorted_list_of_set (upper ` set held)) then Some (held_value vals t) else None)
    \<and> (\<forall>s. value_at (sb_batch_values (new_sector_book sectors held vals imap)) s = 0)"
    using held_value_nonneg [OF assms]
    by (auto simp: new_sector_book_def Let_def list_all_iff value_at_def)
  moreover have "(\<lambda>t. if t \<in> set (sorted_list_of_set (upper ` set held)) then Some (held_value vals t) else None)
      = holdings_of held vals"
    by (auto simp: fun_eq_iff holdings_of_def)
  ultimately show ?thesis by simp
qed

lemma fold_exit_maps [simp]:
  "issuer_for (fold record_exit ts b) = issuer_for b" "sector_of (fold record_exit ts b) = sector_of b"
  by (induction ts arbitrary: b; simp)+

lemma fold_entry_maps [simp]:
  "issuer_for (fold (\<lambda>(t, c). record_entry t c) es b) = issuer_for b"
  "sector_of (fold (\<lambda>(t, c). record_entry t c) es b) = sector_of b"
  by (induction es arbitrary: b; auto)+

lemma fold_seed_maps:
  "sb_issuer_map (fold (seed_ticker vs) ts b) = sb_issuer_map b"
  "sb_sectors (fold (seed_ticker vs) ts b) = sb_sectors b"
  by (induction ts arbitrary: b; simp)+

lemma new_book_maps [simp]:
  "issuer_for (new_sector_book sectors held vals imap) t = issuer_key t imap"
  "sector_of (new_sector_book sectors held vals imap) t = dict_get (upper_keys sectors) (upper t)"
  by (simp_all add: issuer_for_def sector_of_def new_sector_book_def Let_def fold_seed_maps)

text \<open>
  C22. The concentration book is a refinement of the value held per ticker.  Built from the held
  positions, with any exits recorded and then any entries, the value of an issuer is the sum over
  its tickers, the value of a sector, held and in this batch, is the sum over the tickers the sector
  map puts there, the tickers of an issuer are exactly the ones held, and no issuer with a ticker in
  a sector is missing from the sector's count.
\<close>

theorem sector_book_refines:
  assumes "list_all (\<lambda>(k, m). money_valid m) vals" "list_all (\<lambda>(t, c). 0 \<le> c) entries"
    "b = fold (\<lambda>(t, c). record_entry t c) entries (fold record_exit exits (new_sector_book sectors held vals imap))"
    "A = fold (\<lambda>(t, c). holdings_entry t c) entries (fold holdings_exit exits (holdings_of held vals))"
  shows "dict_get (sb_ticker_values b) = A
    \<and> issuer_value b i = total A (\<lambda>t. issuer_key t imap = i)
    \<and> set_at (sb_issuer_tickers b) i = {t \<in> dom A. issuer_key t imap = i}
    \<and> value_at (sb_held_values b) s + value_at (sb_batch_values b) s
        = total A (\<lambda>t. dict_get (upper_keys sectors) (upper t) = Some s)
    \<and> {issuer_key t imap | t. t \<in> dom A \<and> dict_get (upper_keys sectors) (upper t) = Some s}
        \<subseteq> set_at (sb_sector_issuers b) s"
proof -
  note seed = new_book_refines [OF assms(1), of sectors held imap]
  note exits = fold_exits_refine [OF conjunct1 [OF seed], of exits]
  have "book_refines b A"
    unfolding assms(3,4) using exits seed assms(2) by (intro fold_entries_refine) auto
  note r = book_refinesD [OF this]
  have maps: "issuer_for b t = issuer_key t imap" "sector_of b t = dict_get (upper_keys sectors) (upper t)" for t
    by (simp_all add: assms(3))
  have "{issuer_for b t | t. t \<in> dom A \<and> sector_of b t = Some s} \<subseteq> set_at (sb_sector_issuers b) s"
    using r(7) [of _ s] by blast
  with r(1) r(4) [of i] r(5) [of i] r(6) [of s] show ?thesis unfolding maps by blast
qed

lemma sector_book_refines_witness:
  "let b = fold (\<lambda>(t, c). record_entry t c) [(''NVDA'', 25)]
             (fold record_exit [''MSFT''] (new_sector_book [(''AAPL'', ''tech''), (''NVDA'', ''tech'')]
                [''AAPL'', ''MSFT''] [(''AAPL'', usd 100), (''MSFT'', usd 50)] []))
   in issuer_value b ''AAPL'' = 100 \<and> issuer_value b ''MSFT'' = 0
      \<and> value_at (sb_held_values b) ''tech'' + value_at (sb_batch_values b) ''tech'' = 125
      \<and> total (dict_get (sb_ticker_values b)) (\<lambda>t. issuer_key t [] = ''AAPL'') = 100"
proof -
  let ?b = "fold (\<lambda>(t, c). record_entry t c) [(''NVDA'', 25)]
             (fold record_exit [''MSFT''] (new_sector_book [(''AAPL'', ''tech''), (''NVDA'', ''tech'')]
                [''AAPL'', ''MSFT''] [(''AAPL'', usd 100), (''MSFT'', usd 50)] []))"
  have v: "list_all (\<lambda>(k, m). money_valid m) [(''AAPL'', usd 100), (''MSFT'', usd 50)]"
    "list_all (\<lambda>(t, c). 0 \<le> c) [(''NVDA'', 25 :: rat)]"
    by (simp_all add: money_valid_def usd_def)
  have num: "issuer_value ?b ''AAPL'' = 100" "issuer_value ?b ''MSFT'' = 0"
    "value_at (sb_held_values ?b) ''tech'' + value_at (sb_batch_values ?b) ''tech'' = 125"
    by code_simp+
  from sector_book_refines [OF v refl refl, where i = "''AAPL''" and sectors = "[(''AAPL'', ''tech''), (''NVDA'', ''tech'')]"
      and held = "[''AAPL'', ''MSFT'']" and exits = "[''MSFT'']" and imap = "[]" and s = "''tech''"]
  have "issuer_value ?b ''AAPL'' = total (dict_get (sb_ticker_values ?b)) (\<lambda>t. issuer_key t [] = ''AAPL'')"
    by metis
  with num show ?thesis by (simp only: Let_def)
qed

end
