(* ===== verification/Correlation.thy ===== *)
theory Correlation
  imports RiskGates "HOL-Library.Product_Lexorder"
begin

text \<open>
  The correlated-cluster gate (\<open>correlation.py\<close>, \<open>correlation_math.py\<close>, \<open>correlation_ramp.py\<close>,
  \<open>correlation_census.py\<close>, \<open>correlation_census_builder.py\<close>).

  Floats are exact rationals, and \<open>math.sqrt\<close>, whose value is irrational in general, is the
  parameter \<open>sq\<close>.  The pair cache of the book is a memo: \<open>cached_pair\<close> models it, and a cache that
  only holds what was computed gives the computed value.
\<close>

section \<open>Returns and correlation\<close>

definition returns_of :: "ohlcv_bar list \<Rightarrow> (int, rat) dict" where
  "returns_of series =
     fold (\<lambda>(previous, current). dict_set (bar_date current) (bar_close current / bar_close previous - 1))
       (pairwise (sort_key bar_date series)) []"

definition group_bar :: "ohlcv_bar \<Rightarrow> (string, ohlcv_bar list) dict \<Rightarrow> (string, ohlcv_bar list) dict" where
  "group_bar bar d =
     (let t = upper (bar_ticker bar)
      in dict_set t ((case dict_get d t of None \<Rightarrow> [] | Some bs \<Rightarrow> bs) @ [bar]) d)"

definition returns_by_ticker :: "ohlcv_bar list \<Rightarrow> int \<Rightarrow> (string, (int, rat) dict) dict" where
  "returns_by_ticker bars lookback_days =
     (case bars of [] \<Rightarrow> []
      | _ \<Rightarrow>
        let start = Max (set (map bar_date bars)) - lookback_days
        in map (\<lambda>(t, series). (t, returns_of series))
             (fold group_bar (filter (\<lambda>bar. start \<le> bar_date bar) bars) []))"

definition pearson :: "(rat \<Rightarrow> rat) \<Rightarrow> rat list \<Rightarrow> rat list \<Rightarrow> rat option" where
  "pearson sq xs ys =
     (if length xs < 2 then None
      else
        let mean_x = sum_list xs / of_nat (length xs);
            mean_y = sum_list ys / of_nat (length ys);
            var_x = sum_list (map (\<lambda>x. (x - mean_x) ^ 2) xs);
            var_y = sum_list (map (\<lambda>y. (y - mean_y) ^ 2) ys)
        in if var_x = 0 \<or> var_y = 0 then None
           else Some (sum_list (map2 (\<lambda>x y. (x - mean_x) * (y - mean_y)) xs ys) / sq (var_x * var_y)))"

definition pair_correlation ::
  "(rat \<Rightarrow> rat) \<Rightarrow> (int, rat) dict \<Rightarrow> (int, rat) dict \<Rightarrow> rat option \<times> nat" where
  "pair_correlation sq left right =
     (let shared = List.map_filter (\<lambda>(day, v). map_option (Pair v) (dict_get right day)) left
      in (pearson sq (map fst shared) (map snd shared), length shared))"

section \<open>The ramp\<close>

definition contribution :: "rat option \<Rightarrow> rat \<Rightarrow> rat \<Rightarrow> rat" where
  "contribution correlation lo hi =
     (case correlation of None \<Rightarrow> 0
      | Some c \<Rightarrow>
          if hi \<le> lo then (if lo \<le> c then 1 else 0)
          else if c \<le> lo then 0
          else if hi \<le> c then 1
          else (c - lo) / (hi - lo))"

definition rounded_contribution :: "rat option \<Rightarrow> rat \<Rightarrow> rat \<Rightarrow> rat" where
  "rounded_contribution correlation lo hi =
     of_int (round_half_even (contribution correlation lo hi * 10000)) / 10000"

section \<open>The census\<close>

record issuer_comparison =
  ic_issuer :: string
  ic_correlation :: "rat option"
  ic_overlap_bars :: nat
  ic_contribution :: rat

record skipped_pair =
  sk_issuer :: string
  sk_overlap_bars :: nat

record correlation_census =
  cc_comparisons :: "issuer_comparison list"
  cc_threshold :: rat
  cc_ceiling :: rat
  cc_skipped :: "skipped_pair list"

definition contributing :: "correlation_census \<Rightarrow> issuer_comparison list" where
  "contributing c =
     sort_key (\<lambda>i. (- ic_contribution i, ic_issuer i))
       (filter (\<lambda>i. 0 < ic_contribution i) (cc_comparisons c))"

definition all_pairs_unusable :: "correlation_census \<Rightarrow> bool" where
  "all_pairs_unusable c \<longleftrightarrow> cc_comparisons c = [] \<and> cc_skipped c \<noteq> []"

definition first_skipped :: "correlation_census \<Rightarrow> skipped_pair option" where
  "first_skipped c = (case cc_skipped c of [] \<Rightarrow> None | s # _ \<Rightarrow> Some s)"

definition max_skipped_overlap :: "correlation_census \<Rightarrow> nat" where
  "max_skipped_overlap c = fold max (map sk_overlap_bars (cc_skipped c)) 0"

definition below :: "correlation_census \<Rightarrow> issuer_comparison list" where
  "below c =
     sort_key (\<lambda>i. (ic_correlation i = None, (- (case ic_correlation i of None \<Rightarrow> 0 | Some r \<Rightarrow> r), ic_issuer i)))
       (filter (\<lambda>i. ic_contribution i = 0) (cc_comparisons c))"

definition min_overlap_text :: "correlation_census \<Rightarrow> string" where
  "min_overlap_text c =
     (if cc_comparisons c = [] then ''none''
      else str_nat (Min (set (map ic_overlap_bars (cc_comparisons c)))))"

definition render_comparison :: "issuer_comparison \<Rightarrow> string" where
  "render_comparison i =
     ic_issuer i @ '':'' @ (case ic_correlation i of None \<Rightarrow> ''unmeasured'' | Some r \<Rightarrow> fixed_text 4 r)"

definition render_weighted :: "issuer_comparison \<Rightarrow> string" where
  "render_weighted i =
     ic_issuer i @ '':'' @ fixed_text 4 (case ic_correlation i of None \<Rightarrow> 0 | Some r \<Rightarrow> r)
     @ '':w'' @ fixed_text 4 (ic_contribution i)"

definition render_skipped :: "skipped_pair \<Rightarrow> string" where
  "render_skipped s = sk_issuer s @ '':'' @ str_nat (sk_overlap_bars s)"

definition joined :: "('a \<Rightarrow> string) \<Rightarrow> 'a list \<Rightarrow> string" where
  "joined f xs = (if xs = [] then ''none'' else join_strs '','' (map f xs))"

definition census_detail :: "correlation_census \<Rightarrow> string" where
  "census_detail c =
     join_strs ''; ''
       [''examined_issuers='' @ str_nat (length (cc_comparisons c)),
        ''correlated_issuers='' @ joined render_weighted (contributing c),
        ''below_threshold_top='' @ joined render_comparison (take 3 (below c)),
        ''correlation_ramp='' @ fixed_text 4 (cc_threshold c) @ ''..'' @ fixed_text 4 (cc_ceiling c)
          @ (if cc_ceiling c \<le> cc_threshold c then '':degenerate'' else []),
        ''cluster_weight_total='' @ fixed_text 4 (sum_list (map ic_contribution (contributing c))),
        ''min_pair_overlap_bars='' @ min_overlap_text c,
        ''skipped_pairs='' @ str_nat (length (cc_skipped c)),
        ''skipped_pair_issuers='' @ joined render_skipped (cc_skipped c)]"

text \<open>The best usable correlation of a candidate with the tickers of one held issuer.\<close>

fun compare_tickers ::
  "(string \<Rightarrow> string \<Rightarrow> rat option \<times> nat) \<Rightarrow> string \<Rightarrow> nat \<Rightarrow> string list \<Rightarrow> rat option \<Rightarrow> nat
   \<Rightarrow> rat option \<times> nat" where
  "compare_tickers pair candidate min_bars [] best widest = (best, widest)"
| "compare_tickers pair candidate min_bars (t # ts) best widest =
     (let (corr, overlap) = pair candidate t; widest' = max widest overlap
      in if overlap < min_bars then compare_tickers pair candidate min_bars ts best widest'
         else case corr of
           None \<Rightarrow> compare_tickers pair candidate min_bars ts best widest'
         | Some c \<Rightarrow>
             compare_tickers pair candidate min_bars ts
               (Some (case best of None \<Rightarrow> c | Some b \<Rightarrow> max b c)) widest')"

definition compare_issuer ::
  "(string \<Rightarrow> string \<Rightarrow> rat option \<times> nat) \<Rightarrow> string \<Rightarrow> nat \<Rightarrow> rat \<Rightarrow> rat
   \<Rightarrow> (string, string list) dict \<Rightarrow> string \<Rightarrow> issuer_comparison" where
  "compare_issuer pair candidate min_bars threshold hi tickers held =
     (let (best, widest) = compare_tickers pair candidate min_bars
             (case dict_get tickers held of None \<Rightarrow> [] | Some ts \<Rightarrow> ts) None 0
      in \<lparr>ic_issuer = held, ic_correlation = best, ic_overlap_bars = widest,
          ic_contribution = rounded_contribution best threshold hi\<rparr>)"

definition build_census ::
  "(string \<Rightarrow> string \<Rightarrow> rat option \<times> nat) \<Rightarrow> string \<Rightarrow> string \<Rightarrow> string list
   \<Rightarrow> (string, string list) dict \<Rightarrow> rat \<Rightarrow> nat \<Rightarrow> rat \<Rightarrow> correlation_census" where
  "build_census pair candidate issuer issuers tickers threshold min_bars hi =
     (let all = map (compare_issuer pair candidate min_bars threshold hi tickers)
                  (filter (\<lambda>held. held \<noteq> issuer) (sort issuers))
      in \<lparr>cc_comparisons = filter (\<lambda>i. min_bars \<le> ic_overlap_bars i) all,
          cc_threshold = threshold, cc_ceiling = hi,
          cc_skipped = map (\<lambda>i. \<lparr>sk_issuer = ic_issuer i, sk_overlap_bars = ic_overlap_bars i\<rparr>)
             (filter (\<lambda>i. ic_overlap_bars i < min_bars) all)\<rparr>)"

section \<open>The book\<close>

record correlation_book =
  cb_returns :: "(string, (int, rat) dict) dict"
  cb_issuer_map :: "(string, string) dict"
  cb_threshold :: rat
  cb_max_cluster_pct :: "rat option"
  cb_min_bars :: nat
  cb_ceiling :: rat

definition new_correlation_book ::
  "ohlcv_bar list \<Rightarrow> (string, string) dict \<Rightarrow> int \<Rightarrow> rat \<Rightarrow> rat option \<Rightarrow> nat \<Rightarrow> rat \<Rightarrow> correlation_book" where
  "new_correlation_book bars issuer_map lookback_days threshold max_cluster_pct min_bars hi =
     \<lparr>cb_returns = returns_by_ticker bars lookback_days, cb_issuer_map = issuer_map,
      cb_threshold = threshold, cb_max_cluster_pct = max_cluster_pct, cb_min_bars = min_bars,
      cb_ceiling = hi\<rparr>"

definition pair_key :: "string \<Rightarrow> string \<Rightarrow> string \<times> string" where
  "pair_key left right =
     (let l = upper left; r = upper right in if l \<le> r then (l, r) else (r, l))"

definition returns_at :: "correlation_book \<Rightarrow> string \<Rightarrow> (int, rat) dict" where
  "returns_at b t = (case dict_get (cb_returns b) t of None \<Rightarrow> [] | Some d \<Rightarrow> d)"

definition pair_of :: "(rat \<Rightarrow> rat) \<Rightarrow> correlation_book \<Rightarrow> string \<Rightarrow> string \<Rightarrow> rat option \<times> nat" where
  "pair_of sq b left right =
     (let (l, r) = pair_key left right in pair_correlation sq (returns_at b l) (returns_at b r))"

type_synonym pair_cache = "(string \<times> string, rat option \<times> nat) dict"

definition cached_pair ::
  "(rat \<Rightarrow> rat) \<Rightarrow> correlation_book \<Rightarrow> string \<Rightarrow> string \<Rightarrow> pair_cache \<Rightarrow> pair_cache \<times> (rat option \<times> nat)" where
  "cached_pair sq b left right cache =
     (let key = pair_key left right
      in case dict_get cache key of
           Some v \<Rightarrow> (cache, v)
         | None \<Rightarrow>
             let v = pair_correlation sq (returns_at b (fst key)) (returns_at b (snd key))
             in (dict_set key v cache, v))"

definition cluster_name :: string where
  "cluster_name = ''correlated_cluster_pct''"

definition correlation_not_evaluated :: "correlation_book \<Rightarrow> string \<Rightarrow> correlation_census \<Rightarrow> gate_outcome" where
  "correlation_not_evaluated b candidate c =
     (let held = (case first_skipped c of None \<Rightarrow> ''none'' | Some s \<Rightarrow> sk_issuer s);
          observed = (case first_skipped c of None \<Rightarrow> 0 | Some s \<Rightarrow> sk_overlap_bars s)
      in \<lparr>go_name = cluster_name, go_value = of_nat (max_skipped_overlap c),
          go_threshold = of_nat (cb_min_bars b), go_outcome = NotEvaluated,
          go_detail = ''missing_input=overlapping_return_bars; candidate_ticker='' @ candidate
            @ ''; held_issuer='' @ held @ ''; observed_bars='' @ str_nat observed
            @ ''; min_correlation_bars='' @ str_nat (cb_min_bars b) @ ''; '' @ census_detail c\<rparr>)"

definition floor_not_evaluated :: "rat \<Rightarrow> rat \<Rightarrow> rat \<Rightarrow> rat \<Rightarrow> int \<Rightarrow> gate_outcome" where
  "floor_not_evaluated cap equity deployed max_position_pct max_names_per_sector =
     \<lparr>go_name = cluster_name, go_value = 0, go_threshold = cap, go_outcome = NotEvaluated,
      go_detail = floor_detail deployed equity max_names_per_sector max_position_pct cap ''deployed_capital''\<rparr>"

definition correlation_outcomes ::
  "(rat \<Rightarrow> rat) \<Rightarrow> correlation_book \<Rightarrow> recommendation \<Rightarrow> rat \<Rightarrow> rat \<Rightarrow> rat option \<Rightarrow> rat \<Rightarrow> int
   \<Rightarrow> (string, rat) dict \<Rightarrow> (string, string list) dict \<Rightarrow> gate_outcome list" where
  "correlation_outcomes sq b item cost equity deployed max_position_pct max_names_per_sector
     issuer_values tickers =
     (case cb_max_cluster_pct b of
        None \<Rightarrow> []
      | Some cap \<Rightarrow>
        let denominator = (case deployed of None \<Rightarrow> equity | Some d \<Rightarrow> d);
            denominator_name = (case deployed of None \<Rightarrow> ''portfolio_equity'' | Some _ \<Rightarrow> ''deployed_capital'')
        in if deployed \<noteq> None
              \<and> (denominator \<le> 0
                 \<or> is_below_floor denominator equity max_names_per_sector max_position_pct cap)
           then [floor_not_evaluated cap equity denominator max_position_pct max_names_per_sector]
           else
             let issuer = issuer_key (rec_ticker item) (cb_issuer_map b);
                 census = build_census (pair_of sq b) (rec_ticker item) issuer (dict_keys issuer_values)
                   tickers (cb_threshold b) (cb_min_bars b) (cb_ceiling b);
                 at = (\<lambda>i. case dict_get issuer_values i of None \<Rightarrow> 0 | Some v \<Rightarrow> v)
             in if all_pairs_unusable census then [correlation_not_evaluated b (rec_ticker item) census]
                else
                  let cluster = insert issuer (ic_issuer ` set (contributing census));
                      value = cost + at issuer
                        + sum_list (map (\<lambda>i. at (ic_issuer i) * ic_contribution i) (contributing census));
                      r = ratio value denominator
                  in [\<lparr>go_name = cluster_name, go_value = r, go_threshold = cap,
                       go_outcome = gate_if (r \<le> cap),
                       go_detail = ''candidate_issuer='' @ issuer
                         @ ''; cluster_issuers='' @ join_strs '','' (sorted_list_of_set cluster)
                         @ ''; '' @ census_detail census
                         @ ''; cluster_value_usd='' @ fixed_text 2 value
                         @ ''; denominator='' @ denominator_name
                         @ ''; deployed_portfolio_usd='' @ fixed_text 2 denominator
                         @ ''; portfolio_value_usd='' @ fixed_text 2 equity\<rparr>])"

section \<open>The weight of a held issuer\<close>

lemma contribution_bounds: "0 \<le> contribution c lo hi" "contribution c lo hi \<le> 1"
  by (auto simp: contribution_def divide_simps split: option.split)

lemma contribution_mono: "c \<le> c' \<Longrightarrow> contribution (Some c) lo hi \<le> contribution (Some c') lo hi"
  by (auto simp: contribution_def divide_simps)

lemma rounded_contribution_mono: "c \<le> c' \<Longrightarrow> rounded_contribution (Some c) lo hi \<le> rounded_contribution (Some c') lo hi"
  unfolding rounded_contribution_def
  by (intro divide_right_mono) (simp_all add: round_half_even_mono contribution_mono)

lemma rounded_contribution_bounds: "0 \<le> rounded_contribution c lo hi" "rounded_contribution c lo hi \<le> 1"
proof -
  have "round_half_even 0 \<le> round_half_even (contribution c lo hi * 10000)"
    "round_half_even (contribution c lo hi * 10000) \<le> round_half_even 10000"
    using contribution_bounds [of c lo hi] by (auto intro: round_half_even_mono)
  moreover have "round_half_even 0 = 0" "round_half_even 10000 = 10000"
    using round_half_even_of_int [of 0] round_half_even_of_int [of 10000] by simp_all
  ultimately have "0 \<le> round_half_even (contribution c lo hi * 10000)"
    "round_half_even (contribution c lo hi * 10000) \<le> 10000" by simp_all
  then show "0 \<le> rounded_contribution c lo hi" "rounded_contribution c lo hi \<le> 1"
    by (simp_all add: rounded_contribution_def)
qed

lemma rounded_contribution_error: "\<bar>rounded_contribution c lo hi - contribution c lo hi\<bar> \<le> 1 / 20000"
  using round_half_even_error [of "contribution c lo hi * 10000"]
  by (simp add: rounded_contribution_def abs_le_iff field_simps)

text \<open>
  The weight with which a held issuer counts into a candidate's correlated cluster is a share:
  between nothing and all of its value, within half a unit of the fourth decimal of the ramp, and never
  smaller for a higher correlation; an issuer that could not be measured counts nothing, one at or
  below the ramp floor counts nothing and one at or above the ceiling counts whole.
\<close>

theorem ramp_weight_banded:
  "0 \<le> rounded_contribution c lo hi \<and> rounded_contribution c lo hi \<le> 1
   \<and> \<bar>rounded_contribution c lo hi - contribution c lo hi\<bar> \<le> 1 / 20000
   \<and> (case c of
        None \<Rightarrow> rounded_contribution c lo hi = 0
      | Some r \<Rightarrow> (lo < hi \<longrightarrow> r \<le> lo \<longrightarrow> rounded_contribution c lo hi = 0)
          \<and> (lo < hi \<longrightarrow> hi \<le> r \<longrightarrow> rounded_contribution c lo hi = 1)
          \<and> (r \<le> r' \<longrightarrow> rounded_contribution (Some r) lo hi \<le> rounded_contribution (Some r') lo hi))"
proof -
  have ends: "contribution c lo hi = 0 \<Longrightarrow> rounded_contribution c lo hi = 0"
    "contribution c lo hi = 1 \<Longrightarrow> rounded_contribution c lo hi = 1"
    using round_half_even_of_int [of 0] round_half_even_of_int [of 10000]
    by (simp_all add: rounded_contribution_def)
  have "case c of None \<Rightarrow> contribution c lo hi = 0
      | Some r \<Rightarrow> (lo < hi \<longrightarrow> r \<le> lo \<longrightarrow> contribution c lo hi = 0) \<and> (lo < hi \<longrightarrow> hi \<le> r \<longrightarrow> contribution c lo hi = 1)"
    by (auto simp: contribution_def split: option.split)
  then show ?thesis
    using ends rounded_contribution_bounds [of c lo hi] rounded_contribution_error [of c lo hi]
    by (cases c) (auto intro: rounded_contribution_mono)
qed

section \<open>The pair cache\<close>

definition cache_right :: "(rat \<Rightarrow> rat) \<Rightarrow> correlation_book \<Rightarrow> pair_cache \<Rightarrow> bool" where
  "cache_right sq b cache \<longleftrightarrow>
     (\<forall>l r v. dict_get cache (l, r) = Some v \<longrightarrow> v = pair_correlation sq (returns_at b l) (returns_at b r))"

fun cached_pairs ::
  "(rat \<Rightarrow> rat) \<Rightarrow> correlation_book \<Rightarrow> (string \<times> string) list \<Rightarrow> pair_cache \<Rightarrow> pair_cache \<times> (rat option \<times> nat) list" where
  "cached_pairs sq b [] cache = (cache, [])"
| "cached_pairs sq b ((l, r) # ps) cache =
     (let (cache', v) = cached_pair sq b l r cache; (cache'', vs) = cached_pairs sq b ps cache' in (cache'', v # vs))"

lemma cached_pair_right:
  assumes "cache_right sq b cache"
  shows "snd (cached_pair sq b l r cache) = pair_of sq b l r \<and> cache_right sq b (fst (cached_pair sq b l r cache))"
  using assms
  by (cases "pair_key l r")
    (auto simp: cached_pair_def pair_of_def Let_def cache_right_def dict_simps split: option.split)

lemma pair_key_sym: "pair_key l r = pair_key r l"
  by (auto simp: pair_key_def Let_def)

lemma cached_pairs_right:
  "cache_right sq b cache \<Longrightarrow> snd (cached_pairs sq b ps cache) = map (\<lambda>(l, r). pair_of sq b l r) ps"
proof (induction ps arbitrary: cache)
  case (Cons p ps)
  obtain l r where p: "p = (l, r)" by (rule prod.exhaust)
  obtain c v where cv: "cached_pair sq b l r cache = (c, v)" by (rule prod.exhaust)
  obtain c' vs where rest: "cached_pairs sq b ps c = (c', vs)" by (rule prod.exhaust)
  from cached_pair_right [OF Cons.prems, of l r] cv have "v = pair_of sq b l r" "cache_right sq b c" by auto
  with Cons.IH [of c] rest show ?case by (simp add: p cv)
qed simp

text \<open>
  The pair cache is transparent: starting from the empty cache of a new book, any sequence of
  queries, repeated ones and ones with the two tickers swapped included, gets for each query the
  correlation and overlap that a fresh computation gives, and a swapped query gets the same answer.
\<close>

theorem pair_cache_transparent:
  "snd (cached_pairs sq b ps []) = map (\<lambda>(l, r). pair_of sq b l r) ps
   \<and> pair_of sq b l r = pair_of sq b r l"
  using cached_pairs_right [of sq b "[]" ps] pair_key_sym [of l r]
  by (simp add: cache_right_def pair_of_def)

end
