(* ===== verification/OrderDecision.thy ===== *)
theory OrderDecision
  imports RiskGates SectorBook Correlation
begin

text \<open>
  The decisions of the portfolio manager (\<open>domain/order_decision.py\<close>, \<open>domain/risk.py\<close>): one
  prechecked recommendation at a time, sells first, then buys by falling confidence, with the book
  and the reserved cash carried from one to the next.

  Building an intent can raise a validation error, whose text is the parameter \<open>vtext\<close>.  The
  \<open>unsupported_action\<close> branch of the precheck has no counterpart: the type of an action has no other
  value.
\<close>

record risk_env =
  re_sqrt :: "rat \<Rightarrow> rat"
  re_vtext :: "order_intent \<Rightarrow> string"
  re_portfolio :: portfolio_state
  re_limits :: risk_limits
  re_prices :: "(string, money) dict"
  re_correlations :: correlation_book

section \<open>One recommendation\<close>

definition decide_exit :: "risk_env \<Rightarrow> recommendation \<Rightarrow> money \<Rightarrow> sector_book \<Rightarrow> (rejected_order + order_intent) res" where
  "decide_exit env item price book =
     (let p = re_portfolio env; l = re_limits env
      in case dict_get (ps_positions p) (rec_ticker item) of
           None \<Rightarrow> Inl (KeyError (rec_ticker item))
         | Some quantity \<Rightarrow>
             let gates = exit_outcomes item quantity price p (rl_min_order_quantity l) (rl_max_positions l)
             in case position_rejection (rec_ticker item) gates of
                  Some r \<Rightarrow> Inr (Inl r)
                | None \<Rightarrow>
                    res_bind (make_intent (re_vtext env)
                      (exit_intent item quantity price
                         (gates @ sector_exit_outcomes book item (rl_max_names_per_sector l))
                         (dict_get (ps_position_refs p) (rec_ticker item))))
                      (\<lambda>oi. Inr (Inr oi)))"

definition decide_entry ::
  "risk_env \<Rightarrow> recommendation \<Rightarrow> money \<Rightarrow> sector_book \<Rightarrow> rat \<Rightarrow> string set
   \<Rightarrow> ((rejected_order + order_intent) \<times> rat) res" where
  "decide_entry env item price book reserved_cash open_issuers =
     (let p = re_portfolio env; l = re_limits env; ticker = rec_ticker item;
          quantity = size_quantity (equity_value p) (rl_max_position_pct l) (mny_amount price);
          issuer = issuer_for book ticker;
          gates = position_outcomes item quantity (mny_amount price) p reserved_cash open_issuers issuer
                    (issuer_value book issuer) l
      in case position_rejection ticker gates of
           Some r \<Rightarrow> Inr (Inl r, 0)
         | None \<Rightarrow>
         let stop_target = stop_target_report item (rl_default_stop_pct l) (rl_default_target_pct l) (rl_min_reward_risk l)
         in case reward_risk_rejection ticker stop_target gates of
           Some r \<Rightarrow> Inr (Inl r, 0)
         | None \<Rightarrow>
         let cost = of_int quantity * mny_amount price;
             sector_gates = sector_outcomes book item cost (equity_value p) (Some (deployed_value p))
               (rl_max_position_pct l) (rl_max_sector_pct l) (rl_max_names_per_sector l)
         in case sector_rejection ticker sector_gates (gates @ [st_outcome stop_target]) of
           Some r \<Rightarrow> Inr (Inl r, 0)
         | None \<Rightarrow>
         let report = gates @ [st_outcome stop_target] @ sector_gates;
             correlation_gates = correlation_outcomes (re_sqrt env) (re_correlations env) item cost
               (equity_value p) (Some (deployed_value p)) (rl_max_position_pct l)
               (rl_max_names_per_sector l) (sb_issuer_values book) (issuer_tickers book)
         in case sector_rejection ticker correlation_gates report of
           Some r \<Rightarrow> Inr (Inl r, 0)
         | None \<Rightarrow>
             res_bind (make_intent (re_vtext env)
                         (entry_intent item quantity price stop_target (report @ correlation_gates)))
               (\<lambda>oi. Inr (Inr oi, cost)))"

definition precheck :: "recommendation \<Rightarrow> money option \<Rightarrow> portfolio_state \<Rightarrow> rejected_order option" where
  "precheck item price p =
     (let reject = (\<lambda>reason. Some \<lparr>ro_ticker = rec_ticker item, ro_reason = reason, ro_gate_report = []\<rparr>)
      in if rec_action item = HoldAction then reject ''hold_recommendation''
         else if rec_action item = SellAction \<and> dict_get (ps_positions p) (rec_ticker item) = None
         then reject ''position_unavailable''
         else if rec_action item = BuyAction \<and> \<not> ps_account_fresh p then reject ''account_unavailable''
         else case price of
           None \<Rightarrow> reject ''price_unavailable''
         | Some m \<Rightarrow> if mny_amount m \<le> 0 then reject ''price_unavailable'' else None)"

section \<open>The run over the recommendations\<close>

record eval_state =
  ev_approved :: "order_intent list"
  ev_rejected :: "rejected_order list"
  ev_reserved :: rat
  ev_book :: sector_book
  ev_open_tickers :: "string set"
  ev_open_issuers :: "string set"

definition ev_reject :: "rejected_order \<Rightarrow> eval_state \<Rightarrow> eval_state" where
  "ev_reject r s = s\<lparr>ev_rejected := ev_rejected s @ [r]\<rparr>"

definition ev_exit :: "recommendation \<Rightarrow> order_intent \<Rightarrow> eval_state \<Rightarrow> eval_state" where
  "ev_exit item oi s =
     (let tickers = ev_open_tickers s - {upper (rec_ticker item)}
      in s\<lparr>ev_approved := ev_approved s @ [oi], ev_open_tickers := tickers,
           ev_open_issuers := issuer_for (ev_book s) ` tickers,
           ev_book := record_exit (rec_ticker item) (ev_book s)\<rparr>)"

definition ev_entry :: "recommendation \<Rightarrow> order_intent \<Rightarrow> rat \<Rightarrow> eval_state \<Rightarrow> eval_state" where
  "ev_entry item oi cost s =
     s\<lparr>ev_approved := ev_approved s @ [oi], ev_reserved := ev_reserved s + cost,
       ev_open_tickers := insert (upper (rec_ticker item)) (ev_open_tickers s),
       ev_open_issuers := insert (issuer_for (ev_book s) (rec_ticker item)) (ev_open_issuers s),
       ev_book := record_entry (rec_ticker item) cost (ev_book s)\<rparr>"

definition evaluate_item :: "risk_env \<Rightarrow> recommendation \<Rightarrow> eval_state \<Rightarrow> eval_state res" where
  "evaluate_item env item s =
     (let price = dict_get (re_prices env) (rec_ticker item)
      in case (precheck item price (re_portfolio env), price) of
           (Some r, _) \<Rightarrow> Inr (ev_reject r s)
         | (None, None) \<Rightarrow> Inl (PyExn ''AssertionError'' [])
         | (None, Some m) \<Rightarrow>
             if rec_action item = SellAction
             then res_bind (decide_exit env item m (ev_book s))
                    (\<lambda>d. case d of Inl r \<Rightarrow> Inr (ev_reject r s) | Inr oi \<Rightarrow> Inr (ev_exit item oi s))
             else res_bind (decide_entry env item m (ev_book s) (ev_reserved s) (ev_open_issuers s))
                    (\<lambda>(d, cost). case d of Inl r \<Rightarrow> Inr (ev_reject r s) | Inr oi \<Rightarrow> Inr (ev_entry item oi cost s)))"

fun evaluate_items :: "risk_env \<Rightarrow> recommendation list \<Rightarrow> eval_state \<Rightarrow> eval_state res" where
  "evaluate_items env [] s = Inr s"
| "evaluate_items env (item # items) s = res_bind (evaluate_item env item s) (evaluate_items env items)"

fun action_rank :: "trade_action \<Rightarrow> nat" where
  "action_rank SellAction = 0"
| "action_rank BuyAction = 1"
| "action_rank HoldAction = 2"

definition rank_key :: "recommendation \<Rightarrow> nat \<times> rat \<times> string" where
  "rank_key item = (action_rank (rec_action item), - rec_confidence item, rec_ticker item)"

definition ordered :: "recommendation list \<Rightarrow> recommendation list" where
  "ordered items = sort_key rank_key items"

definition initial_state ::
  "risk_env \<Rightarrow> (string, string) dict \<Rightarrow> (string, string) dict \<Rightarrow> eval_state" where
  "initial_state env sectors issuer_map =
     (let p = re_portfolio env;
          book = new_sector_book sectors (dict_keys (ps_positions p)) (ps_position_values p) issuer_map;
          tickers = upper ` set (dict_keys (ps_positions p))
      in \<lparr>ev_approved = [], ev_rejected = [], ev_reserved = 0, ev_book = book,
          ev_open_tickers = tickers, ev_open_issuers = issuer_for book ` tickers\<rparr>)"

definition evaluate_recommendations ::
  "risk_env \<Rightarrow> (string, string) dict \<Rightarrow> (string, string) dict \<Rightarrow> recommendation list
   \<Rightarrow> (order_intent list \<times> rejected_order list) res" where
  "evaluate_recommendations env sectors issuer_map recommendations =
     res_bind (evaluate_items env (ordered recommendations) (initial_state env sectors issuer_map))
       (\<lambda>s. Inr (ev_approved s, ev_rejected s))"

end
