(* ===== verification/PortfolioSteps.thy ===== *)
theory PortfolioSteps
  imports OrderDecision "HOL-Library.Multiset"
begin

text \<open>
  How one step of an evaluation ends: the gates an approved order cleared, the inversion of a step
  into its three outcomes, and the induction over a run.
\<close>

section \<open>What the gates of an approved order say\<close>

text \<open>A gate that does not stand in the way: passed, or suppressed by the deployment floor.\<close>

definition gate_clear :: "gate_outcome \<Rightarrow> bool" where
  "gate_clear g \<longleftrightarrow> go_outcome g = Passed
     \<or> go_outcome g = NotEvaluated \<and> contains_text floor_reason (go_detail g)"

lemma position_rejection_from_None:
  "position_rejection_from t report gs = None \<Longrightarrow> g \<in> set gs \<Longrightarrow>
   dict_get position_gate_reasons (go_name g) \<noteq> None \<Longrightarrow> go_outcome g \<noteq> Failed"
  by (induction gs) (auto split: option.splits if_splits)

lemma position_gates_named:
  "g \<in> set (position_outcomes item q price p r opn i v l) \<Longrightarrow>
   dict_get position_gate_reasons (go_name g) \<noteq> None \<and> go_outcome g \<noteq> NotEvaluated"
  by (auto simp: position_outcomes_def sizing_outcome_def min_quantity_outcome_def
      max_positions_outcome_def cash_outcome_def position_gate_reasons_def Let_def)

lemma exit_gates_named:
  "g \<in> set (exit_outcomes item q price p mq mp) \<Longrightarrow>
   dict_get position_gate_reasons (go_name g) \<noteq> None \<and> go_outcome g \<noteq> NotEvaluated"
  by (auto simp: exit_outcomes_def min_quantity_outcome_def position_gate_reasons_def Let_def)

lemma not_failed_clear: "go_outcome g \<noteq> Failed \<Longrightarrow> go_outcome g \<noteq> NotEvaluated \<Longrightarrow> gate_clear g"
  by (cases "go_outcome g") (auto simp: gate_clear_def)

lemma position_rejection_None_clear:
  assumes "position_rejection t gs = None"
    "\<And>g. g \<in> set gs \<Longrightarrow> dict_get position_gate_reasons (go_name g) \<noteq> None \<and> go_outcome g \<noteq> NotEvaluated"
  shows "list_all gate_clear gs"
  using assms by (auto simp: list_all_iff position_rejection_def
      intro!: not_failed_clear dest: position_rejection_from_None)

text \<open>The names of the concentration gates, which are the ones \<open>sector_rejection\<close> looks at.\<close>

definition concentration_gate :: "gate_outcome \<Rightarrow> bool" where
  "concentration_gate g \<longleftrightarrow>
     go_name g \<in> {''max_sector_pct'', ''max_names_per_sector'', ''correlated_cluster_pct''}"

lemma sector_reason_None_clear:
  "sector_rejection_reason gs = None \<Longrightarrow> list_all concentration_gate gs \<Longrightarrow> list_all gate_clear gs"
proof (induction gs)
  case (Cons g gs)
  then show ?case
    by (cases "go_outcome g") (auto simp: gate_clear_def concentration_gate_def split: if_splits)
qed simp

lemma sector_rejection_None_clear:
  "sector_rejection t gs prior = None \<Longrightarrow> list_all concentration_gate gs \<Longrightarrow> list_all gate_clear gs"
  by (rule sector_reason_None_clear) (simp_all add: sector_rejection_def)

lemma sector_outcomes_named: "list_all concentration_gate (sector_outcomes b item c e d mp ms mn)"
  by (auto simp: sector_outcomes_def concentration_gate_def not_evaluated_outcomes_def
      sector_exposure_outcome_def sector_pct_not_evaluated_def sector_names_outcome_def Let_def
      split: option.split)

lemma correlation_outcomes_named:
  "list_all concentration_gate (correlation_outcomes sq b item c e d mp mn vs ts)"
  by (auto simp: correlation_outcomes_def concentration_gate_def floor_not_evaluated_def
      correlation_not_evaluated_def cluster_name_def Let_def split: option.split)

lemma sector_exit_clear: "list_all gate_clear (sector_exit_outcomes b item mn)"
  by (auto simp: sector_exit_outcomes_def exit_outcomes_for_sector_def gate_clear_def split: option.split)

lemma reward_risk_None_clear:
  assumes "reward_risk_rejection t (stop_target_report item ds dt mr) prior = None"
  shows "gate_clear (st_outcome (stop_target_report item ds dt mr))"
  using assms
  by (auto simp: reward_risk_rejection_def stop_target_report_def Let_def gate_clear_def split: if_splits)

section \<open>What an approval says\<close>

lemma make_intent_Inr: "make_intent v oi = Inr oi' \<longleftrightarrow> oi' = oi \<and> intent_valid oi"
  by (auto simp: make_intent_def)

lemma decide_entry_approved:
  assumes "decide_entry env item price book reserved opn = Inr (Inr oi, cost)"
  shows "cost = of_int (oi_quantity oi) * mny_amount price" "oi_ticker oi = rec_ticker item"
    "oi_action oi = rec_action item" "oi_est_price oi = price" "oi_position_ref oi = None"
    "intent_valid oi" "list_all gate_clear (oi_gate_report oi)"
    "cost \<le> available_for_buys (re_portfolio env) (rl_cash_buffer_pct (re_limits env)) reserved"
    "issuer_value book (issuer_for book (rec_ticker item)) + cost
       \<le> rl_max_position_pct (re_limits env) * equity_value (re_portfolio env)"
    "issuer_for book (rec_ticker item) \<in> opn \<or> int (card opn) < rl_max_positions (re_limits env)"
proof -
  let ?l = "re_limits env" and ?p = "re_portfolio env"
  let ?q = "size_quantity (equity_value ?p) (rl_max_position_pct ?l) (mny_amount price)"
  let ?issuer = "issuer_for book (rec_ticker item)"
  let ?gates = "position_outcomes item ?q (mny_amount price) ?p reserved opn ?issuer (issuer_value book ?issuer) ?l"
  let ?st = "stop_target_report item (rl_default_stop_pct ?l) (rl_default_target_pct ?l) (rl_min_reward_risk ?l)"
  let ?c = "of_int ?q * mny_amount price"
  let ?sec = "sector_outcomes book item ?c (equity_value ?p) (Some (deployed_value ?p))
      (rl_max_position_pct ?l) (rl_max_sector_pct ?l) (rl_max_names_per_sector ?l)"
  let ?cor = "correlation_outcomes (re_sqrt env) (re_correlations env) item ?c
      (equity_value ?p) (Some (deployed_value ?p)) (rl_max_position_pct ?l)
      (rl_max_names_per_sector ?l) (sb_issuer_values book) (issuer_tickers book)"
  have all: "position_rejection (rec_ticker item) ?gates = None
    \<and> reward_risk_rejection (rec_ticker item) ?st ?gates = None
    \<and> sector_rejection (rec_ticker item) ?sec (?gates @ [st_outcome ?st]) = None
    \<and> sector_rejection (rec_ticker item) ?cor (?gates @ [st_outcome ?st] @ ?sec) = None
    \<and> oi = entry_intent item ?q price ?st (?gates @ [st_outcome ?st] @ ?sec @ ?cor)
    \<and> intent_valid oi \<and> cost = ?c"
    using assms unfolding decide_entry_def Let_def
    by (auto simp: res_bind_Inr_iff make_intent_Inr split: option.splits)
  then have oi: "oi = entry_intent item ?q price ?st (?gates @ [st_outcome ?st] @ ?sec @ ?cor)"
    and valid: "intent_valid oi" and cost: "cost = ?c" by blast+
  show "cost = of_int (oi_quantity oi) * mny_amount price" "oi_ticker oi = rec_ticker item"
    "oi_action oi = rec_action item" "oi_est_price oi = price" "oi_position_ref oi = None"
    unfolding oi cost by (simp_all add: entry_intent_def)
  show "intent_valid oi" by (rule valid)
  from all have clear: "list_all gate_clear ?gates"
    by (intro position_rejection_None_clear [OF _ position_gates_named]) auto
  moreover from all have "gate_clear (st_outcome ?st)" by (intro reward_risk_None_clear) auto
  moreover from all have "list_all gate_clear ?sec" "list_all gate_clear ?cor"
    by (auto intro: sector_rejection_None_clear [OF _ sector_outcomes_named]
        sector_rejection_None_clear [OF _ correlation_outcomes_named])
  ultimately show "list_all gate_clear (oi_gate_report oi)" unfolding oi by (simp add: entry_intent_def)
  show "cost \<le> available_for_buys ?p (rl_cash_buffer_pct ?l) reserved"
    "issuer_value book ?issuer + cost \<le> rl_max_position_pct ?l * equity_value ?p"
    "?issuer \<in> opn \<or> int (card opn) < rl_max_positions ?l"
    using clear unfolding cost position_outcomes_def
    by (auto simp: gate_clear_def cash_outcome_def sizing_outcome_def max_positions_outcome_def Let_def)
qed

lemma decide_exit_approved:
  assumes "decide_exit env item price book = Inr (Inr oi)"
  shows "dict_get (ps_positions (re_portfolio env)) (rec_ticker item) = Some (oi_quantity oi)"
    "oi_ticker oi = rec_ticker item" "oi_action oi = SellAction" "oi_est_price oi = price"
    "oi_position_ref oi = dict_get (ps_position_refs (re_portfolio env)) (rec_ticker item)"
    "intent_valid oi" "list_all gate_clear (oi_gate_report oi)"
proof -
  let ?p = "re_portfolio env" and ?l = "re_limits env"
  from assms obtain q where q: "dict_get (ps_positions ?p) (rec_ticker item) = Some q"
    by (auto simp: decide_exit_def Let_def split: option.splits)
  let ?gates = "exit_outcomes item q price ?p (rl_min_order_quantity ?l) (rl_max_positions ?l)"
  let ?sec = "sector_exit_outcomes book item (rl_max_names_per_sector ?l)"
  have all: "position_rejection (rec_ticker item) ?gates = None
    \<and> oi = exit_intent item q price (?gates @ ?sec) (dict_get (ps_position_refs ?p) (rec_ticker item))
    \<and> intent_valid oi"
    using assms q unfolding decide_exit_def Let_def
    by (auto simp: res_bind_Inr_iff make_intent_Inr split: option.splits)
  then have oi: "oi = exit_intent item q price (?gates @ ?sec) (dict_get (ps_position_refs ?p) (rec_ticker item))"
    and valid: "intent_valid oi" by blast+
  show "dict_get (ps_positions ?p) (rec_ticker item) = Some (oi_quantity oi)"
    "oi_ticker oi = rec_ticker item" "oi_action oi = SellAction" "oi_est_price oi = price"
    "oi_position_ref oi = dict_get (ps_position_refs ?p) (rec_ticker item)"
    unfolding oi using q by (simp_all add: exit_intent_def)
  show "intent_valid oi" by (rule valid)
  from all have "list_all gate_clear ?gates"
    by (intro position_rejection_None_clear [OF _ exit_gates_named]) auto
  with sector_exit_clear [of book item] show "list_all gate_clear (oi_gate_report oi)"
    unfolding oi by (simp add: exit_intent_def)
qed

section \<open>One step of the run\<close>

lemma precheck_None:
  assumes "precheck item price p = None"
  shows "rec_action item \<noteq> HoldAction" "\<exists>m. price = Some m \<and> 0 < mny_amount m"
    "rec_action item = BuyAction \<Longrightarrow> ps_account_fresh p"
  using assms by (auto simp: precheck_def Let_def split: if_splits option.splits)

lemma precheck_Some:
  assumes "precheck item price p = Some r"
  shows "ro_ticker r = rec_ticker item" "ro_gate_report r = []" "ro_reason r \<in> set ungated_reasons"
  using assms by (auto simp: precheck_def Let_def ungated_reasons_def split: if_splits option.splits)

text \<open>
  The three ways a step ends: a rejection, a full exit, an entry.  The rules below are the only way
  the proofs look into a step.
\<close>

inductive step_result :: "risk_env \<Rightarrow> recommendation \<Rightarrow> eval_state \<Rightarrow> eval_state \<Rightarrow> bool"
  for env item s where
  rejects: "precheck item (dict_get (re_prices env) (rec_ticker item)) (re_portfolio env) = Some r \<Longrightarrow>
     step_result env item s (ev_reject r s)"
| exit_rejects: "rec_action item = SellAction \<Longrightarrow>
     decide_exit env item m (ev_book s) = Inr (Inl r) \<Longrightarrow> step_result env item s (ev_reject r s)"
| entry_rejects: "rec_action item = BuyAction \<Longrightarrow>
     decide_entry env item m (ev_book s) (ev_reserved s) (ev_open_issuers s) = Inr (Inl r, cost) \<Longrightarrow>
     step_result env item s (ev_reject r s)"
| exits: "rec_action item = SellAction \<Longrightarrow> decide_exit env item m (ev_book s) = Inr (Inr oi) \<Longrightarrow>
     step_result env item s (ev_exit item oi s)"
| enters: "rec_action item = BuyAction \<Longrightarrow> ps_account_fresh (re_portfolio env) \<Longrightarrow> 0 < mny_amount m \<Longrightarrow>
     decide_entry env item m (ev_book s) (ev_reserved s) (ev_open_issuers s) = Inr (Inr oi, cost) \<Longrightarrow>
     step_result env item s (ev_entry item oi cost s)"

lemma evaluate_item_step:
  assumes "evaluate_item env item s = Inr s'"
  shows "step_result env item s s'"
proof (cases "precheck item (dict_get (re_prices env) (rec_ticker item)) (re_portfolio env)")
  case (Some r)
  with assms show ?thesis by (auto simp: evaluate_item_def Let_def intro: rejects)
next
  case None
  from precheck_None(2) [OF this] obtain m
    where m: "dict_get (re_prices env) (rec_ticker item) = Some m" "0 < mny_amount m" by blast
  show ?thesis
  proof (cases "rec_action item")
    case SellAction
    with assms None m obtain d where d: "decide_exit env item m (ev_book s) = Inr d"
      "(case d of Inl r \<Rightarrow> Inr (ev_reject r s) | Inr oi \<Rightarrow> Inr (ev_exit item oi s)) = (Inr s' :: eval_state res)"
      by (auto simp: evaluate_item_def Let_def res_bind_Inr_iff)
    with SellAction show ?thesis by (cases d) (auto intro: exit_rejects exits)
  next
    case BuyAction
    with assms None m obtain d cost
      where d: "decide_entry env item m (ev_book s) (ev_reserved s) (ev_open_issuers s) = Inr (d, cost)"
      "(case d of Inl r \<Rightarrow> Inr (ev_reject r s) | Inr oi \<Rightarrow> Inr (ev_entry item oi cost s)) = (Inr s' :: eval_state res)"
      by (auto simp: evaluate_item_def Let_def res_bind_Inr_iff)
    with BuyAction precheck_None(3) [OF None BuyAction] m show ?thesis
      by (cases d) (auto intro: entry_rejects enters)
  qed (use precheck_None(1) [OF None] in simp)
qed

lemma evaluate_items_induct [consumes 1, case_names Nil Cons]:
  assumes "evaluate_items env items s = Inr s'"
    "\<And>s. P [] s s"
    "\<And>item items s s1 s'. step_result env item s s1 \<Longrightarrow> evaluate_items env items s1 = Inr s' \<Longrightarrow>
       P items s1 s' \<Longrightarrow> P (item # items) s s'"
  shows "P items s s'"
  using assms(1)
proof (induction items arbitrary: s)
  case (Cons item items)
  then obtain s1 where "evaluate_item env item s = Inr s1" "evaluate_items env items s1 = Inr s'"
    by (auto simp: res_bind_Inr_iff)
  with Cons.IH assms(3) evaluate_item_step show ?case by blast
qed (use assms(2) in simp)

lemma evaluate_items_invariant:
  assumes "evaluate_items env items s = Inr s'" "I s"
    "\<And>item s s'. item \<in> set items \<Longrightarrow> step_result env item s s' \<Longrightarrow> I s \<Longrightarrow> I s'"
  shows "I s'"
proof -
  have "I s \<longrightarrow> (\<forall>item s s'. item \<in> set items \<longrightarrow> step_result env item s s' \<longrightarrow> I s \<longrightarrow> I s') \<longrightarrow> I s'"
    using assms(1) by (induction rule: evaluate_items_induct) auto
  with assms(2,3) show ?thesis by blast
qed

lemma evaluate_recommendations_Inr:
  assumes "evaluate_recommendations env sectors imap recs = Inr (approved, rejected)"
  obtains s where "evaluate_items env (ordered recs) (initial_state env sectors imap) = Inr s"
    "approved = ev_approved s" "rejected = ev_rejected s"
  using assms by (auto simp: evaluate_recommendations_def res_bind_Inr_iff)

lemma set_ordered [simp]: "set (ordered recs) = set recs" "mset (ordered recs) = mset recs"
  by (simp_all add: ordered_def)

lemma initial_state_fields [simp]:
  "ev_approved (initial_state env sectors imap) = []" "ev_rejected (initial_state env sectors imap) = []"
  "ev_reserved (initial_state env sectors imap) = 0"
  by (simp_all add: initial_state_def Let_def)

lemma ev_fields [simp]:
  "ev_approved (ev_reject r s) = ev_approved s" "ev_rejected (ev_reject r s) = ev_rejected s @ [r]"
  "ev_reserved (ev_reject r s) = ev_reserved s" "ev_book (ev_reject r s) = ev_book s"
  "ev_open_tickers (ev_reject r s) = ev_open_tickers s" "ev_open_issuers (ev_reject r s) = ev_open_issuers s"
  "ev_approved (ev_exit item oi s) = ev_approved s @ [oi]" "ev_rejected (ev_exit item oi s) = ev_rejected s"
  "ev_reserved (ev_exit item oi s) = ev_reserved s" "ev_book (ev_exit item oi s) = record_exit (rec_ticker item) (ev_book s)"
  "ev_open_tickers (ev_exit item oi s) = ev_open_tickers s - {upper (rec_ticker item)}"
  "ev_open_issuers (ev_exit item oi s) = issuer_for (ev_book s) ` (ev_open_tickers s - {upper (rec_ticker item)})"
  "ev_approved (ev_entry item oi c s) = ev_approved s @ [oi]" "ev_rejected (ev_entry item oi c s) = ev_rejected s"
  "ev_reserved (ev_entry item oi c s) = ev_reserved s + c"
  "ev_book (ev_entry item oi c s) = record_entry (rec_ticker item) c (ev_book s)"
  "ev_open_tickers (ev_entry item oi c s) = insert (upper (rec_ticker item)) (ev_open_tickers s)"
  "ev_open_issuers (ev_entry item oi c s) = insert (issuer_for (ev_book s) (rec_ticker item)) (ev_open_issuers s)"
  by (simp_all add: ev_reject_def ev_exit_def ev_entry_def Let_def)

section \<open>Costs\<close>

definition order_cost :: "order_intent \<Rightarrow> rat" where
  "order_cost oi = of_int (oi_quantity oi) * mny_amount (oi_est_price oi)"

definition buys :: "order_intent list \<Rightarrow> order_intent list" where
  "buys = filter (\<lambda>oi. oi_action oi = BuyAction)"

lemma buys_append [simp]: "buys (xs @ ys) = buys xs @ buys ys"
  "buys [oi] = (if oi_action oi = BuyAction then [oi] else [])"
  by (simp_all add: buys_def)

text \<open>A small run, on which the properties of the evaluation are witnessed.\<close>

section \<open>A small run\<close>

definition sample_portfolio :: portfolio_state where
  "sample_portfolio = (default_portfolio 1000)
     \<lparr>ps_positions := [(''AAPL'', 2), (''MSFT'', 3)], ps_position_refs := [(''MSFT'', ''pos-1'')],
      ps_position_values := [(''AAPL'', usd 80), (''MSFT'', usd 60)]\<rparr>"

definition sample_limits :: risk_limits where
  "sample_limits = \<lparr>rl_max_position_pct = 1 / 10, rl_max_positions = 2, rl_cash_buffer_pct = 1 / 20,
     rl_min_order_quantity = 1, rl_default_stop_pct = 1 / 20, rl_default_target_pct = 1 / 10,
     rl_min_reward_risk = 0, rl_max_sector_pct = 1, rl_max_names_per_sector = 0\<rparr>"

definition sample_risk_env :: risk_env where
  "sample_risk_env = \<lparr>re_sqrt = (\<lambda>x. x), re_vtext = (\<lambda>_. []), re_portfolio = sample_portfolio,
     re_limits = sample_limits, re_prices = [(''MSFT'', usd 20), (''NVDA'', usd 30), (''INTC'', usd 3000)],
     re_correlations = new_correlation_book [] [] 120 (1 / 2) None 60 (9 / 10)\<rparr>"

definition sample_rec :: "string \<Rightarrow> trade_action \<Rightarrow> rat \<Rightarrow> recommendation" where
  "sample_rec t a c = \<lparr>rec_ticker = t, rec_action = a, rec_confidence = c, rec_stop_pct = None,
     rec_target_pct = None, rec_metrics = [], rec_evidence = None\<rparr>"

definition sample_recs :: "recommendation list" where
  "sample_recs = [sample_rec ''INTC'' BuyAction (4 / 5), sample_rec ''IBM'' HoldAction (1 / 2),
     sample_rec ''NVDA'' BuyAction (9 / 10), sample_rec ''MSFT'' SellAction (7 / 10)]"

lemma sample_ordered: "ordered sample_recs = [sample_rec ''MSFT'' SellAction (7 / 10), sample_rec ''NVDA'' BuyAction (9 / 10),
    sample_rec ''INTC'' BuyAction (4 / 5), sample_rec ''IBM'' HoldAction (1 / 2)]"
  by (simp add: ordered_def sample_recs_def sample_rec_def rank_key_def less_eq_prod_def)

lemma sample_env_simps [simp]:
  "re_portfolio sample_risk_env = sample_portfolio" "re_limits sample_risk_env = sample_limits"
  "re_prices sample_risk_env = [(''MSFT'', usd 20), (''NVDA'', usd 30), (''INTC'', usd 3000)]"
  "cb_max_cluster_pct (re_correlations sample_risk_env) = None"
  "equity_value sample_portfolio = 1000" "deployed_value sample_portfolio = 140"
  "ps_positions sample_portfolio = [(''AAPL'', 2), (''MSFT'', 3)]" "ps_account_fresh sample_portfolio"
  by (simp_all add: sample_risk_env_def new_correlation_book_def sample_portfolio_def default_portfolio_def
      equity_value_def deployed_value_def usd_def)

lemma no_sector_gates:
  assumes "sb_sectors b = []" 
  shows "sector_outcomes b item c e d mp 1 0 = []" "sector_exit_outcomes b item n = []"
  using assms by (simp_all add: sector_outcomes_def sector_exit_outcomes_def sector_of_def)

lemmas gate_simps = position_rejection_def min_quantity_outcome_def sizing_outcome_def max_positions_outcome_def
  cash_outcome_def position_gate_reasons_def make_intent_def intent_valid_def sample_limits_def sample_rec_def
  usd_def Let_def

lemma sample_sell:
  assumes "sb_sectors b = []"
  shows "\<exists>oi. decide_exit sample_risk_env (sample_rec ''MSFT'' SellAction (7 / 10)) (usd 20) b = Inr (Inr oi)
     \<and> oi_ticker oi = ''MSFT'' \<and> oi_action oi = SellAction \<and> oi_quantity oi = 3"
  by (simp add: decide_exit_def exit_outcomes_def exit_intent_def no_sector_gates [OF assms] gate_simps)

lemma sample_quantity: "size_quantity 1000 (1 / 10) 30 = 3" "size_quantity 1000 (1 / 10) 3000 = 0"
  by (simp_all add: size_quantity_def floor_unique)

lemma sample_buy:
  assumes "sb_sectors b = []" "issuer_value b (issuer_for b ''NVDA'') = 0" "card opn = 1"
  shows "\<exists>oi. decide_entry sample_risk_env (sample_rec ''NVDA'' BuyAction (9 / 10)) (usd 30) b 0 opn = Inr (Inr oi, 90)
     \<and> oi_ticker oi = ''NVDA'' \<and> oi_action oi = BuyAction \<and> oi_quantity oi = 3"
  by (simp add: decide_entry_def position_outcomes_def entry_intent_def no_sector_gates [OF assms(1)] sample_quantity
      assms(2,3) available_for_buys_def stop_target_report_def reward_risk_rejection_def correlation_outcomes_def
      sector_rejection_def gate_simps)

lemma sample_small:
  "\<exists>r. decide_entry sample_risk_env (sample_rec ''INTC'' BuyAction (4 / 5)) (usd 3000) b v opn = Inr (Inl r, 0)
     \<and> ro_ticker r = ''INTC'' \<and> ro_reason r = ''below_min_quantity''"
  if "issuer_value b (issuer_for b ''INTC'') = 0"
  using that by (simp add: decide_entry_def position_outcomes_def sample_quantity gate_simps)

lemma sample_precheck:
  "precheck (sample_rec ''MSFT'' SellAction (7 / 10)) (Some (usd 20)) sample_portfolio = None"
  "precheck (sample_rec ''NVDA'' BuyAction (9 / 10)) (Some (usd 30)) sample_portfolio = None"
  "precheck (sample_rec ''INTC'' BuyAction (4 / 5)) (Some (usd 3000)) sample_portfolio = None"
  "precheck (sample_rec ''IBM'' HoldAction (1 / 2)) None sample_portfolio
     = Some \<lparr>ro_ticker = ''IBM'', ro_reason = ''hold_recommendation'', ro_gate_report = []\<rparr>"
  by (simp_all add: precheck_def sample_rec_def usd_def)

definition sample_book :: sector_book where
  "sample_book = new_sector_book [] [''AAPL'', ''MSFT''] [(''AAPL'', usd 80), (''MSFT'', usd 60)] []"

lemma sample_books:
  "sb_sectors sample_book = []" "sb_sectors (record_exit ''MSFT'' sample_book) = []"
  "issuer_value (record_exit ''MSFT'' sample_book) (issuer_for sample_book ''NVDA'') = 0"
  "issuer_value (record_entry ''NVDA'' 90 (record_exit ''MSFT'' sample_book)) (issuer_for sample_book ''INTC'') = 0"
  "card (issuer_for sample_book ` ({''AAPL'', ''MSFT''} - {upper ''MSFT''})) = 1"
  by code_simp+

lemma sample_initial: "initial_state sample_risk_env [] [] =
    \<lparr>ev_approved = [], ev_rejected = [], ev_reserved = 0, ev_book = sample_book,
     ev_open_tickers = {''AAPL'', ''MSFT''}, ev_open_issuers = issuer_for sample_book ` {''AAPL'', ''MSFT''}\<rparr>"
proof -
  have "upper ` {''AAPL'', ''MSFT''} = {''AAPL'', ''MSFT''}" by code_simp
  moreover have "ps_position_values sample_portfolio = [(''AAPL'', usd 80), (''MSFT'', usd 60)]"
    by (simp add: sample_portfolio_def)
  ultimately show ?thesis by (simp add: initial_state_def sample_book_def Let_def)
qed

lemma sample_run:
  "\<exists>approved rejected. evaluate_recommendations sample_risk_env [] [] sample_recs = Inr (approved, rejected)
     \<and> map (\<lambda>oi. (oi_ticker oi, oi_action oi, oi_quantity oi)) approved
         = [(''MSFT'', SellAction, 3), (''NVDA'', BuyAction, 3)]
     \<and> map (\<lambda>r. (ro_ticker r, ro_reason r)) rejected
         = [(''INTC'', ''below_min_quantity''), (''IBM'', ''hold_recommendation'')]"
proof -
  obtain sell where sell: "decide_exit sample_risk_env (sample_rec ''MSFT'' SellAction (7 / 10)) (usd 20) sample_book
      = Inr (Inr sell)" "oi_ticker sell = ''MSFT''" "oi_action sell = SellAction" "oi_quantity sell = 3"
    using sample_sell [OF sample_books(1)] by blast
  let ?b = "record_exit ''MSFT'' sample_book"
  let ?opn = "issuer_for sample_book ` ({''AAPL'', ''MSFT''} - {upper ''MSFT''})"
  obtain buy where buy: "decide_entry sample_risk_env (sample_rec ''NVDA'' BuyAction (9 / 10)) (usd 30) ?b 0 ?opn
      = Inr (Inr buy, 90)" "oi_ticker buy = ''NVDA''" "oi_action buy = BuyAction" "oi_quantity buy = 3"
    using sample_buy [of ?b ?opn] sample_books by auto
  obtain small where small: "decide_entry sample_risk_env (sample_rec ''INTC'' BuyAction (4 / 5)) (usd 3000)
      (record_entry ''NVDA'' 90 ?b) 90 (insert (issuer_for sample_book ''NVDA'') ?opn) = Inr (Inl small, 0)"
    "ro_ticker small = ''INTC''" "ro_reason small = ''below_min_quantity''"
    using sample_small [of "record_entry ''NVDA'' 90 ?b"] sample_books(4) by auto
  have tickers: "rec_ticker (sample_rec t a c) = t" "rec_action (sample_rec t a c) = a" for t a c
    by (simp_all add: sample_rec_def)
  show ?thesis
    using sell buy small
    by (simp add: evaluate_recommendations_def sample_ordered evaluate_item_def sample_precheck tickers
        sample_initial ev_exit_def ev_entry_def ev_reject_def Let_def)
qed

lemma sample_buys:
  assumes "map (\<lambda>oi. (oi_ticker oi, oi_action oi, oi_quantity oi)) approved
         = [(''MSFT'', SellAction, 3), (''NVDA'', BuyAction, 3)]"
  shows "map oi_ticker (buys approved) = [''NVDA'']"
proof -
  from assms obtain x y where "approved = [x, y]" by (auto simp: map_eq_Cons_conv)
  with assms show ?thesis by (simp add: buys_def)
qed

lemma sample_runE:
  obtains approved rejected
  where "evaluate_recommendations sample_risk_env [] [] sample_recs = Inr (approved, rejected)"
    "map oi_ticker (buys approved) = [''NVDA'']" "length approved = 2"
    "map ro_reason rejected = [''below_min_quantity'', ''hold_recommendation'']"
proof -
  from sample_run obtain a r
    where run: "evaluate_recommendations sample_risk_env [] [] sample_recs = Inr (a, r)"
      "map (\<lambda>oi. (oi_ticker oi, oi_action oi, oi_quantity oi)) a
         = [(''MSFT'', SellAction, 3), (''NVDA'', BuyAction, 3)]"
      "map (\<lambda>r. (ro_ticker r, ro_reason r)) r
         = [(''INTC'', ''below_min_quantity''), (''IBM'', ''hold_recommendation'')]"
    by (elim exE conjE)
  from arg_cong [OF run(2), of length] have "length a = 2" by simp
  moreover from arg_cong [OF run(3), of "map snd"]
  have "map ro_reason r = [''below_min_quantity'', ''hold_recommendation'']" by (simp add: comp_def)
  ultimately show thesis by (rule that [OF run(1) sample_buys [OF run(2)]])
qed

end
