(* ===== verification/PortfolioSafety.thy ===== *)
theory PortfolioSafety
  imports PortfolioSteps
begin

text \<open>
  What an evaluation of the portfolio manager guarantees: every recommendation is decided once on
  gates that were cleared, the approved buys are paid for, a rejection names the gate that caused it,
  and the order in which the recommendations arrive does not matter.
\<close>

section \<open>Every recommendation is decided once, on gates that were cleared\<close>

lemma decided_ticker:
  "decide_exit env item m b = Inr (Inl r) \<Longrightarrow> ro_ticker r = rec_ticker item"
  "decide_entry env item m b v opn = Inr (Inl r, c) \<Longrightarrow> ro_ticker r = rec_ticker item"
proof -
  have pr: "position_rejection_from t rep gs = Some r \<Longrightarrow> ro_ticker r = t" for t rep gs
    by (induction gs) (auto split: option.splits if_splits)
  show "decide_exit env item m b = Inr (Inl r) \<Longrightarrow> ro_ticker r = rec_ticker item"
    by (auto simp: decide_exit_def Let_def res_bind_Inr_iff position_rejection_def dest: pr split: option.splits)
  show "decide_entry env item m b v opn = Inr (Inl r, c) \<Longrightarrow> ro_ticker r = rec_ticker item"
    by (auto simp: decide_entry_def Let_def res_bind_Inr_iff position_rejection_def reward_risk_rejection_def
        sector_rejection_def dest: pr split: option.splits if_splits)
qed

lemma step_ticker:
  assumes "step_result env item s s'"
  shows "image_mset oi_ticker (mset (ev_approved s')) + image_mset ro_ticker (mset (ev_rejected s'))
    = add_mset (rec_ticker item)
        (image_mset oi_ticker (mset (ev_approved s)) + image_mset ro_ticker (mset (ev_rejected s)))"
  using assms
  by cases (simp_all add: precheck_Some decided_ticker decide_exit_approved(2) decide_entry_approved(2))

lemma items_tickers:
  assumes "evaluate_items env items s = Inr s'"
  shows "image_mset oi_ticker (mset (ev_approved s')) + image_mset ro_ticker (mset (ev_rejected s'))
    = image_mset rec_ticker (mset items)
        + (image_mset oi_ticker (mset (ev_approved s)) + image_mset ro_ticker (mset (ev_rejected s)))"
  using assms by (induction rule: evaluate_items_induct) (auto simp: step_ticker)

text \<open>An order that reached the approved list.\<close>

definition approval_sound :: "risk_env \<Rightarrow> order_intent \<Rightarrow> bool" where
  "approval_sound env oi \<longleftrightarrow> intent_valid oi \<and> list_all gate_clear (oi_gate_report oi)
     \<and> (case oi_action oi of
          HoldAction \<Rightarrow> False
        | SellAction \<Rightarrow> dict_get (ps_positions (re_portfolio env)) (oi_ticker oi) = Some (oi_quantity oi)
            \<and> oi_position_ref oi = dict_get (ps_position_refs (re_portfolio env)) (oi_ticker oi)
        | BuyAction \<Rightarrow> ps_account_fresh (re_portfolio env) \<and> oi_position_ref oi = None
            \<and> oi_quantity oi = size_quantity (equity_value (re_portfolio env))
                 (rl_max_position_pct (re_limits env)) (mny_amount (oi_est_price oi)))"

lemma decide_entry_quantity:
  assumes "decide_entry env item price book reserved opn = Inr (Inr oi, cost)"
  shows "oi_quantity oi = size_quantity (equity_value (re_portfolio env))
                 (rl_max_position_pct (re_limits env)) (mny_amount price)"
  using assms unfolding decide_entry_def Let_def
  by (auto simp: res_bind_Inr_iff make_intent_Inr entry_intent_def split: option.splits)

lemma step_sound:
  assumes "step_result env item s s'" "list_all (approval_sound env) (ev_approved s)"
  shows "list_all (approval_sound env) (ev_approved s')"
  using assms
proof cases
  case (exits m oi)
  note d = decide_exit_approved [OF exits(3)]
  have "approval_sound env oi" using d by (simp add: approval_sound_def)
  with exits assms(2) show ?thesis by simp
next
  case (enters m oi cost)
  note d = decide_entry_approved [OF enters(5)] decide_entry_quantity [OF enters(5)]
  have "approval_sound env oi" using d enters(2,3) by (simp add: approval_sound_def)
  with enters assms(2) show ?thesis by simp
qed simp_all

text \<open>
  C21. An evaluation that returns decides every recommendation exactly once: the tickers of the
  approved and the rejected orders together are the tickers of the recommendations.  An approved
  order cleared every gate of its report, so none failed and one that was not evaluated is there only
  because the deployment floor suppressed it; no hold is approved, a sell exits exactly the held
  quantity of the held position, and a buy has the sized quantity and needs a fresh account.
\<close>

theorem every_recommendation_decided:
  assumes "evaluate_recommendations env sectors imap recs = Inr (approved, rejected)"
  shows "mset (map oi_ticker approved) + mset (map ro_ticker rejected) = mset (map rec_ticker recs)
    \<and> list_all (approval_sound env) approved"
proof -
  from assms obtain s where run: "evaluate_items env (ordered recs) (initial_state env sectors imap) = Inr s"
    and out: "approved = ev_approved s" "rejected = ev_rejected s" by (rule evaluate_recommendations_Inr)
  from items_tickers [OF run] have "mset (map oi_ticker approved) + mset (map ro_ticker rejected)
      = mset (map rec_ticker recs)" by (simp add: out)
  moreover have "list_all (approval_sound env) (ev_approved s)"
    by (rule evaluate_items_invariant [OF run]) (auto intro: step_sound)
  ultimately show ?thesis by (simp add: out)
qed

lemma every_recommendation_decided_witness:
  "\<exists>approved rejected. evaluate_recommendations sample_risk_env [] [] sample_recs = Inr (approved, rejected)
     \<and> mset (map oi_ticker approved) + mset (map ro_ticker rejected) = mset (map rec_ticker sample_recs)
     \<and> list_all (approval_sound sample_risk_env) approved \<and> length approved = 2"
proof -
  obtain approved rejected
    where run: "evaluate_recommendations sample_risk_env [] [] sample_recs = Inr (approved, rejected)"
      "map oi_ticker (buys approved) = [''NVDA'']" "length approved = 2"
      "map ro_reason rejected = [''below_min_quantity'', ''hold_recommendation'']" by (rule sample_runE)
  from every_recommendation_decided [OF run(1)] run show ?thesis by blast
qed

section \<open>The approved buys stay inside the cash\<close>

definition cash_invariant :: "risk_env \<Rightarrow> eval_state \<Rightarrow> bool" where
  "cash_invariant env s \<longleftrightarrow>
     ev_reserved s = sum_list (map order_cost (buys (ev_approved s)))
     \<and> (buys (ev_approved s) \<noteq> [] \<longrightarrow>
          deployed_value (re_portfolio env) + ev_reserved s
            \<le> equity_value (re_portfolio env) * (1 - rl_cash_buffer_pct (re_limits env)))"

lemma step_cash:
  assumes "step_result env item s s'" "cash_invariant env s"
  shows "cash_invariant env s'"
  using assms
proof cases
  case (exits m oi)
  have "buys [oi] = []" using decide_exit_approved(3) [OF exits(3)] by (simp add: buys_def)
  with exits assms(2) show ?thesis by (auto simp: cash_invariant_def)
next
  case (enters m oi cost)
  note d = decide_entry_approved [OF enters(5)]
  have "buys [oi] = [oi]" "order_cost oi = cost"
    using d enters(2) by (simp_all add: buys_def order_cost_def)
  with enters assms(2) d(8) show ?thesis
    by (simp add: cash_invariant_def available_for_buys_def)
qed (auto simp: cash_invariant_def)

text \<open>
  C3. The buys one evaluation approves are paid for: their estimated cost together with what is
  already deployed never exceeds the equity less the cash buffer, whatever the number of
  recommendations, their prices and their order; without a fresh account there is no buy at all.
\<close>

theorem approved_buys_within_cash:
  assumes "evaluate_recommendations env sectors imap recs = Inr (approved, rejected)"
    "buys approved \<noteq> []"
  shows "deployed_value (re_portfolio env) + sum_list (map order_cost (buys approved))
      \<le> equity_value (re_portfolio env) * (1 - rl_cash_buffer_pct (re_limits env))
    \<and> ps_account_fresh (re_portfolio env)"
proof -
  from assms(1) obtain s where run: "evaluate_items env (ordered recs) (initial_state env sectors imap) = Inr s"
    and out: "approved = ev_approved s" by (rule evaluate_recommendations_Inr)
  have "cash_invariant env (initial_state env sectors imap)"
    by (simp add: cash_invariant_def buys_def)
  then have "cash_invariant env s"
    by (rule evaluate_items_invariant [OF run]) (erule step_cash)
  moreover have "list_all (approval_sound env) (ev_approved s)"
    by (rule evaluate_items_invariant [OF run]) (auto intro: step_sound)
  moreover from assms(2) obtain oi where "oi \<in> set approved" "oi_action oi = BuyAction"
    by (auto simp: buys_def filter_empty_conv)
  ultimately show ?thesis using assms(2)
    by (auto simp: cash_invariant_def out list_all_iff approval_sound_def)
qed

lemma approved_buys_within_cash_witness:
  "\<exists>approved rejected. evaluate_recommendations sample_risk_env [] [] sample_recs = Inr (approved, rejected)
     \<and> map oi_ticker (buys approved) = [''NVDA'']
     \<and> 140 + sum_list (map order_cost (buys approved)) \<le> (950 :: rat)"
proof -
  obtain approved rejected
    where run: "evaluate_recommendations sample_risk_env [] [] sample_recs = Inr (approved, rejected)"
      "map oi_ticker (buys approved) = [''NVDA'']" "length approved = 2"
      "map ro_reason rejected = [''below_min_quantity'', ''hold_recommendation'']" by (rule sample_runE)
  from run(2) have "buys approved \<noteq> []" by auto
  from approved_buys_within_cash [OF run(1) this] run show ?thesis
    by (auto simp: sample_limits_def)
qed

section \<open>A rejection names the gate that caused it\<close>

definition rejection_named :: "rejected_order \<Rightarrow> bool" where
  "rejection_named r \<longleftrightarrow>
     (if ro_reason r \<in> set ungated_reasons then ro_gate_report r = []
      else case dict_get reason_to_gate (ro_reason r) of
             None \<Rightarrow> False
           | Some gate \<Rightarrow> list_ex (\<lambda>g. go_name g = gate \<and> go_outcome g \<noteq> Passed) (ro_gate_report r))"

definition gate_blamed :: "string \<Rightarrow> gate_outcome list \<Rightarrow> bool" where
  "gate_blamed reason gs \<longleftrightarrow>
     (\<exists>g \<in> set gs. dict_get reason_to_gate reason = Some (go_name g) \<and> go_outcome g \<noteq> Passed)"

lemma gate_blamed_named:
  assumes "gate_blamed (ro_reason r) gs" "set gs \<subseteq> set (ro_gate_report r)"
  shows "rejection_named r"
proof -
  from assms obtain g where g: "g \<in> set (ro_gate_report r)" "go_outcome g \<noteq> Passed"
    "dict_get reason_to_gate (ro_reason r) = Some (go_name g)" by (auto simp: gate_blamed_def)
  have "list_all (\<lambda>reason. dict_get reason_to_gate reason = None) ungated_reasons" by code_simp
  with g(3) have "ro_reason r \<notin> set ungated_reasons" by (auto simp: list_all_iff)
  with g show ?thesis by (auto simp: rejection_named_def list_ex_iff)
qed

lemma position_reason_blamed:
  "position_rejection_from t rep gs = Some r \<Longrightarrow> gate_blamed (ro_reason r) gs \<and> ro_gate_report r = rep"
proof (induction gs)
  case (Cons g gs)
  show ?case
  proof (cases "dict_get position_gate_reasons (go_name g) \<noteq> None \<and> go_outcome g = Failed")
    case True
    with Cons.prems have r: "r = \<lparr>ro_ticker = t, ro_reason = the (dict_get position_gate_reasons (go_name g)),
        ro_gate_report = rep\<rparr>" by auto
    have "list_all (\<lambda>(gate, reason). dict_get reason_to_gate reason = Some gate) position_gate_reasons"
      by code_simp
    moreover from True obtain reason where "dict_get position_gate_reasons (go_name g) = Some reason" by blast
    ultimately have "dict_get reason_to_gate (the (dict_get position_gate_reasons (go_name g))) = Some (go_name g)"
      by (auto simp: list_all_iff dest: map_of_SomeD)
    then show ?thesis using True r by (auto simp: gate_blamed_def)
  next
    case False
    with Cons.prems have "position_rejection_from t rep gs = Some r"
      by (auto split: option.splits if_splits)
    with Cons.IH show ?thesis by (auto simp: gate_blamed_def)
  qed
qed simp

text \<open>A names gate is left out of the evaluation only together with the share gate.\<close>

definition names_follow :: "gate_outcome list \<Rightarrow> bool" where
  "names_follow gs \<longleftrightarrow>
     (\<forall>g \<in> set gs. go_name g = ''max_names_per_sector'' \<and> go_outcome g = NotEvaluated \<longrightarrow>
        (\<exists>h \<in> set gs. go_name h = ''max_sector_pct'' \<and> go_outcome h = NotEvaluated))"

lemma sector_gate_facts:
  "go_name (sector_exposure_outcome sec h v c e d ms mp mn dn) = ''max_sector_pct''"
  "go_outcome (sector_names_outcome sec i n new mn) \<noteq> NotEvaluated"
  by (simp_all add: sector_exposure_outcome_def sector_pct_not_evaluated_def sector_names_outcome_def Let_def)

lemma not_evaluated_follow: "names_follow (not_evaluated_outcomes t ms mn)"
  unfolding names_follow_def not_evaluated_outcomes_def Let_def
  by (intro ballI impI bexI [of _ "sector_pct_not_evaluated ms (''ticker='' @ t @ ''; missing_input=sector_label'')"])
    (simp_all add: sector_pct_not_evaluated_def)

lemma sector_outcomes_follow: "names_follow (sector_outcomes b item c e d mp ms mn)"
proof (cases "sector_of b (rec_ticker item)")
  case None
  then show ?thesis
    using not_evaluated_follow by (simp add: sector_outcomes_def Let_def) (simp add: names_follow_def)
next
  case (Some sector)
  then show ?thesis
    unfolding names_follow_def sector_outcomes_def Let_def by (simp add: sector_gate_facts)
qed

lemma correlation_outcomes_follow: "names_follow (correlation_outcomes sq b item c e d mp mn vs ts)"
proof -
  have "list_all (\<lambda>g. go_name g = cluster_name) (correlation_outcomes sq b item c e d mp mn vs ts)"
    by (auto simp: correlation_outcomes_def floor_not_evaluated_def correlation_not_evaluated_def Let_def
        split: option.split)
  then show ?thesis by (auto simp: names_follow_def list_all_iff cluster_name_def)
qed

lemma sector_reason_cases:
  "sector_rejection_reason gs = Some reason \<Longrightarrow> list_all concentration_gate gs \<Longrightarrow>
   \<exists>g \<in> set gs. go_outcome g = NotEvaluated \<and> reason = not_evaluated_reason (go_name g)
     \<or> go_outcome g = Failed \<and> dict_get reason_to_gate reason = Some (go_name g)"
proof (induction gs)
  case (Cons g gs)
  have codes: "dict_get reason_to_gate ''correlated_cluster_concentration'' = Some ''correlated_cluster_pct''"
    "dict_get reason_to_gate ''sector_name_count'' = Some ''max_names_per_sector''"
    "dict_get reason_to_gate ''sector_concentration'' = Some ''max_sector_pct''"
    by code_simp+
  show ?case
  proof (cases "sector_rejection_reason gs = Some reason")
    case True
    with Cons show ?thesis by auto
  next
    case False
    with Cons.prems(1) show ?thesis by (auto simp: codes split: if_splits)
  qed
qed simp

lemma sector_reason_blamed:
  assumes "sector_rejection_reason gs = Some reason" "list_all concentration_gate gs" "names_follow gs"
  shows "gate_blamed reason gs"
proof -
  have codes: "dict_get reason_to_gate ''correlation_not_evaluated'' = Some ''correlated_cluster_pct''"
    "dict_get reason_to_gate ''sector_not_evaluated'' = Some ''max_sector_pct''"
    by code_simp+
  from sector_reason_cases [OF assms(1,2)] obtain g where g: "g \<in> set gs"
    "go_outcome g = NotEvaluated \<and> reason = not_evaluated_reason (go_name g)
     \<or> go_outcome g = Failed \<and> dict_get reason_to_gate reason = Some (go_name g)" by blast
  with assms(2) have "concentration_gate g" by (auto simp: list_all_iff)
  then consider "go_name g = ''correlated_cluster_pct''" | "go_name g = ''max_sector_pct''"
    | "go_name g = ''max_names_per_sector''" by (auto simp: concentration_gate_def)
  then show ?thesis
  proof cases
    case 1
    with g show ?thesis unfolding gate_blamed_def
      by (intro bexI [of _ g]) (auto simp: not_evaluated_reason_def codes)
  next
    case 2
    with g show ?thesis unfolding gate_blamed_def
      by (intro bexI [of _ g]) (auto simp: not_evaluated_reason_def codes)
  next
    case 3
    show ?thesis
    proof (cases "go_outcome g = NotEvaluated")
      case True
      with 3 g(1) assms(3) obtain h where "h \<in> set gs" "go_name h = ''max_sector_pct''" "go_outcome h = NotEvaluated"
        unfolding names_follow_def by blast
      with True 3 g(2) show ?thesis unfolding gate_blamed_def
        by (intro bexI [of _ h]) (auto simp: not_evaluated_reason_def codes)
    next
      case False
      with g show ?thesis unfolding gate_blamed_def by (intro bexI [of _ g]) auto
    qed
  qed
qed

lemma sector_rejection_named:
  assumes "sector_rejection t gs prior = Some r" "list_all concentration_gate gs" "names_follow gs"
  shows "rejection_named r"
proof -
  from assms(1) obtain reason where reason: "sector_rejection_reason gs = Some reason"
    "r = \<lparr>ro_ticker = t, ro_reason = reason, ro_gate_report = prior @ gs\<rparr>"
    by (auto simp: sector_rejection_def)
  show ?thesis
    by (rule gate_blamed_named [where gs = gs]) (use sector_reason_blamed [OF reason(1) assms(2,3)] reason(2) in auto)
qed

lemma position_rejection_named: "position_rejection t gs = Some r \<Longrightarrow> rejection_named r"
  unfolding position_rejection_def by (rule gate_blamed_named [where gs = gs]) (auto dest: position_reason_blamed)

lemma reward_risk_rejection_named:
  assumes "reward_risk_rejection t (stop_target_report item ds dt mr) prior = Some r"
  shows "rejection_named r"
proof -
  let ?g = "st_outcome (stop_target_report item ds dt mr)"
  have codes: "dict_get reason_to_gate ''invalid_stop_loss'' = Some ''reward_risk''"
    "dict_get reason_to_gate ''reward_risk_below_min'' = Some ''reward_risk''" by code_simp+
  have g: "go_name ?g = ''reward_risk''"
    "st_stop_pct (stop_target_report item ds dt mr) \<le> 0 \<Longrightarrow> go_outcome ?g = Failed"
    by (auto simp: stop_target_report_def Let_def)
  show ?thesis
  proof (rule gate_blamed_named [where gs = "[?g]"])
    show "gate_blamed (ro_reason r) [?g]"
      using assms g by (auto simp: reward_risk_rejection_def gate_blamed_def codes split: if_splits)
    show "set [?g] \<subseteq> set (ro_gate_report r)"
      using assms by (auto simp: reward_risk_rejection_def split: if_splits)
  qed
qed

lemma decide_exit_named: "decide_exit env item m b = Inr (Inl r) \<Longrightarrow> rejection_named r"
  by (auto simp: decide_exit_def Let_def res_bind_Inr_iff intro: position_rejection_named split: option.splits)

lemma decide_entry_named: "decide_entry env item m b v opn = Inr (Inl r, c) \<Longrightarrow> rejection_named r"
  unfolding decide_entry_def Let_def
  by (auto simp: res_bind_Inr_iff split: option.splits
      intro: position_rejection_named reward_risk_rejection_named
        sector_rejection_named [OF _ sector_outcomes_named sector_outcomes_follow]
        sector_rejection_named [OF _ correlation_outcomes_named correlation_outcomes_follow])

lemma step_named:
  assumes "step_result env item s s'" "list_all rejection_named (ev_rejected s)"
  shows "list_all rejection_named (ev_rejected s')"
  using assms
proof cases
  case (rejects r)
  with precheck_Some [OF rejects(2)] assms(2) show ?thesis by (simp add: rejection_named_def)
qed (auto dest: decide_exit_named decide_entry_named)

text \<open>
  The reason of every rejection and its gate report agree: a reason raised before any gate runs
  carries an empty report, and any other reason belongs, by the one reason-to-gate map, to a gate
  that is in the report and did not pass.
\<close>

lemma rejection_names_its_gate:
  assumes "evaluate_recommendations env sectors imap recs = Inr (approved, rejected)"
  shows "list_all rejection_named rejected"
proof -
  from assms obtain s where run: "evaluate_items env (ordered recs) (initial_state env sectors imap) = Inr s"
    and out: "rejected = ev_rejected s" by (rule evaluate_recommendations_Inr)
  have "list_all rejection_named (ev_rejected s)"
    by (rule evaluate_items_invariant [OF run]) (auto intro: step_named)
  then show ?thesis by (simp add: out)
qed

section \<open>The order of arrival does not matter\<close>

text \<open>
  The decisions do not depend on the order in which the recommendations arrive, as long as no two
  of them agree in action, confidence and ticker.
\<close>

lemma decisions_order_independent:
  assumes "mset recs = mset recs'" "inj_on rank_key (set recs)"
  shows "evaluate_recommendations env sectors imap recs = evaluate_recommendations env sectors imap recs'"
proof -
  have "ordered recs = ordered recs'"
    unfolding ordered_def by (rule sort_key_inj_key_eq) (use assms in auto)
  then show ?thesis by (simp add: evaluate_recommendations_def)
qed

end
