(* ===== verification/PortfolioLimits.thy ===== *)
theory PortfolioLimits
  imports PortfolioSafety
begin

text \<open>
  The concentration limits: the book of the evaluation refines the holdings its approved orders lead
  to, so the caps the gates check on the book hold of the holdings.
\<close>

section \<open>The approved buys stay inside the concentration limits\<close>

text \<open>What the approved orders do to the holdings.\<close>

definition apply_order :: "order_intent \<Rightarrow> holdings \<Rightarrow> holdings" where
  "apply_order oi A =
     (if oi_action oi = SellAction then holdings_exit (oi_ticker oi) A
      else holdings_entry (oi_ticker oi) (order_cost oi) A)"

definition holdings_after :: "portfolio_state \<Rightarrow> order_intent list \<Rightarrow> holdings" where
  "holdings_after p orders =
     fold apply_order orders (holdings_of (dict_keys (ps_positions p)) (ps_position_values p))"

definition bought_issuers :: "(string, string) dict \<Rightarrow> order_intent list \<Rightarrow> string set" where
  "bought_issuers imap orders = (\<lambda>oi. issuer_key (oi_ticker oi) imap) ` set (buys orders)"

definition issuers_of :: "(string, string) dict \<Rightarrow> holdings \<Rightarrow> string set" where
  "issuers_of imap A = (\<lambda>t. issuer_key t imap) ` dom A"

definition limits_invariant :: "risk_env \<Rightarrow> (string, string) dict \<Rightarrow> int \<Rightarrow> eval_state \<Rightarrow> bool" where
  "limits_invariant env imap n s \<longleftrightarrow>
     (let A = holdings_after (re_portfolio env) (ev_approved s); b = ev_book s
      in book_refines b A \<and> sb_issuer_map b = imap
         \<and> (buys (ev_approved s) = [] \<longrightarrow> (\<forall>k. value_at (sb_batch_values b) k = 0))
         \<and> ev_open_tickers s = dom A \<and> ev_open_issuers s = issuers_of imap A
         \<and> int (card (issuers_of imap A)) \<le> n
         \<and> (\<forall>i \<in> bought_issuers imap (ev_approved s).
              total A (\<lambda>t. issuer_key t imap = i)
                \<le> rl_max_position_pct (re_limits env) * equity_value (re_portfolio env)))"

lemma issuer_key_upper [simp]: "issuer_key (upper t) imap = issuer_key t imap"
  by (simp add: issuer_key_def)

lemma issuer_for_key: "issuer_for b t = issuer_key t (sb_issuer_map b)"
  by (simp add: issuer_for_def)

lemma holdings_after_snoc: "holdings_after p (xs @ [oi]) = apply_order oi (holdings_after p xs)"
  by (simp add: holdings_after_def)

lemma dom_holdings: "dom (holdings_exit t A) = dom A - {upper t}"
  "dom (holdings_entry t c A) = insert (upper t) (dom A)"
  by (auto simp: holdings_exit_def holdings_entry_def)

lemma exit_limits:
  assumes "limits_invariant env imap n s" "buys (ev_approved s) = []"
    "oi_action oi = SellAction" "oi_ticker oi = rec_ticker item"
  shows "limits_invariant env imap n (ev_exit item oi s)"
proof -
  let ?A = "holdings_after (re_portfolio env) (ev_approved s)" and ?b = "ev_book s"
  have inv: "book_refines ?b ?A" "sb_issuer_map ?b = imap" "\<And>k. value_at (sb_batch_values ?b) k = 0"
    "ev_open_tickers s = dom ?A" "int (card (issuers_of imap ?A)) \<le> n"
    using assms(1,2) by (simp_all add: limits_invariant_def Let_def)
  have A: "holdings_after (re_portfolio env) (ev_approved s @ [oi]) = holdings_exit (rec_ticker item) ?A"
    using assms(3,4) by (simp add: holdings_after_snoc apply_order_def)
  have nobuy: "buys (ev_approved s @ [oi]) = []" "bought_issuers imap (ev_approved s @ [oi]) = {}"
    using assms(2,3) by (simp_all add: bought_issuers_def)
  have "finite (dom ?A)" by (rule book_refinesD(9) [OF inv(1)])
  then have "card (issuers_of imap (holdings_exit (rec_ticker item) ?A)) \<le> card (issuers_of imap ?A)"
    unfolding issuers_of_def dom_holdings by (intro card_mono) auto
  then have "int (card (issuers_of imap (holdings_exit (rec_ticker item) ?A))) \<le> n"
    using inv(5) by linarith
  moreover have "issuer_for ?b ` (dom ?A - {upper (rec_ticker item)})
      = issuers_of imap (holdings_exit (rec_ticker item) ?A)"
    by (simp add: issuers_of_def dom_holdings issuer_for_key inv(2))
  ultimately show ?thesis
    using record_exit_refines [OF inv(1,3), of "rec_ticker item"] inv(2,3,4) nobuy(2)
    by (simp add: limits_invariant_def Let_def A record_exit_fields dom_holdings(1) assms(2,3))
qed

lemma entry_limits:
  assumes "limits_invariant env imap n s"
    "decide_entry env item m (ev_book s) (ev_reserved s) (ev_open_issuers s) = Inr (Inr oi, cost)"
    "rec_action item = BuyAction" "0 < mny_amount m" "rl_max_positions (re_limits env) \<le> n"
  shows "limits_invariant env imap n (ev_entry item oi cost s)"
proof -
  let ?A = "holdings_after (re_portfolio env) (ev_approved s)" and ?b = "ev_book s"
  let ?t = "rec_ticker item" and ?cap = "rl_max_position_pct (re_limits env) * equity_value (re_portfolio env)"
  let ?A' = "holdings_entry ?t cost ?A"
  have inv: "book_refines ?b ?A" "sb_issuer_map ?b = imap" "ev_open_tickers s = dom ?A"
    "ev_open_issuers s = issuers_of imap ?A" "int (card (issuers_of imap ?A)) \<le> n"
    "\<And>i. i \<in> bought_issuers imap (ev_approved s) \<Longrightarrow> total ?A (\<lambda>t. issuer_key t imap = i) \<le> ?cap"
    using assms(1) by (simp_all add: limits_invariant_def Let_def)
  note d = decide_entry_approved [OF assms(2)] and r = book_refinesD [OF inv(1)]
  from d(6) have "1 \<le> oi_quantity oi" by (simp add: intent_valid_def)
  then have cost: "0 \<le> cost" using d(1) assms(4) by simp
  have order: "order_cost oi = cost" "oi_action oi = BuyAction"
    using d(1,3,4) assms(3) by (simp_all add: order_cost_def)
  then have A: "holdings_after (re_portfolio env) (ev_approved s @ [oi]) = ?A'"
    by (simp add: holdings_after_snoc apply_order_def d(2))
  have tot: "total ?A' P = total ?A P + (if P (upper ?t) then cost else 0)" for P
    by (simp add: holdings_entry_def total_upd [OF r(9)])
  have bought: "total ?A' (\<lambda>t. issuer_key t imap = i) \<le> ?cap"
    if "i \<in> bought_issuers imap (ev_approved s @ [oi])" for i
  proof (cases "i = issuer_key ?t imap")
    case True
    with d(9) r(5) [of i] show ?thesis by (simp add: tot issuer_for_key inv(2))
  next
    case False
    with that have "i \<in> bought_issuers imap (ev_approved s)"
      by (auto simp: bought_issuers_def order d(2))
    with inv(6) False show ?thesis by (simp add: tot)
  qed
  have iss: "issuers_of imap ?A' = insert (issuer_key ?t imap) (issuers_of imap ?A)"
    by (simp add: issuers_of_def dom_holdings)
  have fin: "finite (issuers_of imap ?A)" using r(9) by (simp add: issuers_of_def)
  have "int (card (issuers_of imap ?A')) \<le> n"
    using d(10) inv(5) assms(5) fin unfolding iss
    by (auto simp: issuer_for_key inv(2,4) card_insert_if)
  then show ?thesis
    using record_entry_refines [OF inv(1) cost, of ?t] inv(2,3,4) bought
    by (simp add: limits_invariant_def Let_def A dom_holdings(2) iss issuer_for_key order)
qed

lemma step_limits:
  assumes "step_result env item s s'" "limits_invariant env imap n s"
    "rec_action item = SellAction \<Longrightarrow> buys (ev_approved s) = []" "rl_max_positions (re_limits env) \<le> n"
  shows "limits_invariant env imap n s'"
  using assms(1)
proof cases
  case (exits m oi)
  with decide_exit_approved(2,3) [OF exits(3)] assms(2,3) show ?thesis by (simp add: exit_limits)
next
  case (enters m oi cost)
  with assms(2,4) show ?thesis by (simp add: entry_limits)
qed (use assms(2) in \<open>simp_all add: limits_invariant_def Let_def\<close>)

lemma step_no_buy:
  "step_result env item s s' \<Longrightarrow> rec_action item = SellAction \<Longrightarrow> buys (ev_approved s) = [] \<Longrightarrow>
   buys (ev_approved s') = []"
  by (erule step_result.cases) (auto simp: buys_def decide_exit_approved(3))

lemma items_limits:
  assumes "evaluate_items env items s = Inr s'" "rl_max_positions (re_limits env) \<le> n"
  shows "sorted (map (action_rank \<circ> rec_action) items) \<Longrightarrow> limits_invariant env imap n s \<Longrightarrow>
    (\<And>item. item \<in> set items \<Longrightarrow> rec_action item = SellAction \<Longrightarrow> buys (ev_approved s) = []) \<Longrightarrow>
    limits_invariant env imap n s'"
  using assms(1)
proof (induction rule: evaluate_items_induct)
  case (Cons item items s s1 s')
  have "limits_invariant env imap n s1"
    by (rule step_limits [OF Cons.hyps(1) Cons.prems(2)]) (use Cons.prems(3) assms(2) in auto)
  moreover have "buys (ev_approved s1) = []" if "other \<in> set items" "rec_action other = SellAction" for other
  proof -
    from that Cons.prems(1) have "action_rank (rec_action item) \<le> 0" by force
    then have "rec_action item = SellAction" by (cases "rec_action item") auto
    then show ?thesis using step_no_buy [OF Cons.hyps(1)] Cons.prems(3) by auto
  qed
  ultimately show ?case using Cons.IH Cons.prems(1) by auto
qed simp

lemma sorted_map_mono:
  assumes "sorted (map f xs)" "\<And>x y. f x \<le> f y \<Longrightarrow> g x \<le> g y"
  shows "sorted (map g xs)"
  using assms(1) by (induction xs) (auto intro: assms(2))

lemma ordered_ranks: "sorted (map (action_rank \<circ> rec_action) (ordered recs))"
proof (rule sorted_map_mono)
  show "sorted (map rank_key (ordered recs))" by (simp add: ordered_def)
qed (auto simp: rank_key_def less_eq_prod_def)

text \<open>
  C10. The approved orders keep the book inside its limits.  With all of them applied to the holdings,
  the value of every issuer bought, over all its listings, is at most the position share of the
  equity, and the number of issuers held is at most the larger of the position limit and what was
  held before: exits count before entries, and two listings of one issuer count once.  A book that
  starts above the limit is not brought back to it.  The held values are valid amounts of money.
\<close>

theorem approved_orders_within_limits:
  assumes "evaluate_recommendations env sectors imap recs = Inr (approved, rejected)"
    "list_all (\<lambda>(k, m). money_valid m) (ps_position_values (re_portfolio env))"
    "A0 = holdings_of (dict_keys (ps_positions (re_portfolio env))) (ps_position_values (re_portfolio env))"
    "A = holdings_after (re_portfolio env) approved"
  shows "(\<forall>oi \<in> set (buys approved).
            total A (\<lambda>t. issuer_key t imap = issuer_key (oi_ticker oi) imap)
              \<le> rl_max_position_pct (re_limits env) * equity_value (re_portfolio env))
    \<and> int (card (issuers_of imap A)) \<le> max (int (card (issuers_of imap A0))) (rl_max_positions (re_limits env))"
proof -
  let ?n = "max (int (card (issuers_of imap A0))) (rl_max_positions (re_limits env))"
  let ?s0 = "initial_state env sectors imap"
  from assms(1) obtain s where run: "evaluate_items env (ordered recs) ?s0 = Inr s"
    and out: "approved = ev_approved s" by (rule evaluate_recommendations_Inr)
  have dom0: "dom A0 = upper ` set (dict_keys (ps_positions (re_portfolio env)))"
    unfolding assms(3) holdings_of_def dom_def by simp
  have "limits_invariant env imap ?n ?s0"
    using new_book_refines [OF assms(2), of sectors "dict_keys (ps_positions (re_portfolio env))" imap]
    by (simp add: limits_invariant_def Let_def initial_state_def holdings_after_def buys_def
        bought_issuers_def assms(3) [symmetric] dom0 issuers_of_def issuer_for_key new_sector_book_def fold_seed_maps)
  then have "limits_invariant env imap ?n s"
    by (intro items_limits [OF run _ ordered_ranks]) (auto simp: buys_def)
  then show ?thesis by (auto simp: limits_invariant_def Let_def out assms(4) bought_issuers_def)
qed

lemma approved_orders_within_limits_witness:
  "\<exists>approved rejected. evaluate_recommendations sample_risk_env [] [] sample_recs = Inr (approved, rejected)
     \<and> total (holdings_after sample_portfolio approved) (\<lambda>t. issuer_key t [] = ''NVDA'') \<le> 100
     \<and> int (card (issuers_of [] (holdings_after sample_portfolio approved))) \<le> 2"
proof -
  obtain approved rejected
    where run: "evaluate_recommendations sample_risk_env [] [] sample_recs = Inr (approved, rejected)"
      "map oi_ticker (buys approved) = [''NVDA'']" "length approved = 2"
      "map ro_reason rejected = [''below_min_quantity'', ''hold_recommendation'']" by (rule sample_runE)
  have vals: "list_all (\<lambda>(k, m). money_valid m) (ps_position_values (re_portfolio sample_risk_env))"
    by (simp add: sample_portfolio_def usd_def money_valid_def)
  let ?A0 = "holdings_of (dict_keys (ps_positions sample_portfolio)) (ps_position_values sample_portfolio)"
  have "dom ?A0 = {''AAPL'', ''MSFT''}"
    by (auto simp: holdings_of_def upper_def upper_char_def Let_def split: if_splits)
  then have "card (issuers_of [] ?A0) \<le> 2"
    using card_image_le [of "{''AAPL'', ''MSFT''}" "\<lambda>t. issuer_key t []"] by (simp add: issuers_of_def)
  moreover from run(2) obtain oi where "oi \<in> set (buys approved)" "oi_ticker oi = ''NVDA''"
    by (cases "buys approved") auto
  moreover have "issuer_key ''NVDA'' [] = ''NVDA''" by code_simp
  ultimately show ?thesis
    using approved_orders_within_limits [OF run(1) vals refl refl] run(1)
    by (force simp: sample_limits_def)
qed

end
