(* ===== verification/PortfolioRun.thy ===== *)
theory PortfolioRun
  imports PortfolioSafety GraphPort
begin

text \<open>
  One evaluation as the agent runs it (\<open>agents/portfolio_manager/run.py\<close>, \<open>result.py\<close>, \<open>store.py\<close>,
  \<open>provider_client.latest_close_prices\<close>): the checks of the market and regime inputs, the evaluation
  behind its fault boundary, and the run, intents and rejections written to the graph.

  The world is whatever the graph port and the fault sink act on; the clock, the fresh run id and
  the text of a validation error are parameters.
\<close>

record pm_settings =
  pms_starting_cash :: rat
  pms_limits :: risk_limits
  pms_price_lookback_days :: int
  pms_lookback_days :: int
  pms_threshold :: rat
  pms_ceiling :: rat
  pms_max_cluster_pct :: "rat option"
  pms_min_bars :: nat

text \<open>
  Of \<open>pms_limits\<close> the default stop and target are not settings: the evaluation takes them from the
  regime.
\<close>

definition pm_settings_valid :: "pm_settings \<Rightarrow> bool" where
  "pm_settings_valid s \<longleftrightarrow>
     (let l = pms_limits s
      in 0 \<le> pms_starting_cash s \<and> pms_starting_cash s \<le> 1000000000
         \<and> 0 \<le> rl_max_position_pct l \<and> rl_max_position_pct l \<le> 1
         \<and> 1 \<le> rl_max_positions l \<and> rl_max_positions l \<le> 500
         \<and> 0 \<le> rl_cash_buffer_pct l \<and> rl_cash_buffer_pct l \<le> 95 / 100
         \<and> 1 \<le> rl_min_order_quantity l \<and> rl_min_order_quantity l \<le> 1000000
         \<and> 0 \<le> pms_price_lookback_days s \<and> pms_price_lookback_days s \<le> 14
         \<and> 0 \<le> rl_min_reward_risk l \<and> rl_min_reward_risk l \<le> 10
         \<and> 0 \<le> rl_max_sector_pct l \<and> rl_max_sector_pct l \<le> 1
         \<and> 0 \<le> rl_max_names_per_sector l \<and> rl_max_names_per_sector l \<le> 500
         \<and> 20 \<le> pms_lookback_days s \<and> pms_lookback_days s \<le> 250
         \<and> 0 \<le> pms_threshold s \<and> pms_threshold s \<le> 1
         \<and> 0 \<le> pms_ceiling s \<and> pms_ceiling s \<le> 1
         \<and> (case pms_max_cluster_pct s of None \<Rightarrow> False | Some q \<Rightarrow> 0 \<le> q \<and> q \<le> 1)
         \<and> 20 \<le> pms_min_bars s \<and> pms_min_bars s \<le> 250)"

record 'w pm_env =
  pme_port :: "'w graph_port"
  pme_wall :: "'w \<Rightarrow> timestamp"
  pme_uuid :: "'w \<Rightarrow> string"
  pme_submit :: "'w \<Rightarrow> agent_fault \<Rightarrow> 'w"
  pme_sqrt :: "rat \<Rightarrow> rat"
  pme_vtext :: "order_intent \<Rightarrow> string"
  pme_settings :: pm_settings

section \<open>Prices\<close>

definition latest_bar :: "ohlcv_bar \<Rightarrow> (string, ohlcv_bar) dict \<Rightarrow> (string, ohlcv_bar) dict" where
  "latest_bar bar d =
     (case dict_get d (bar_ticker bar) of
        None \<Rightarrow> dict_set (bar_ticker bar) bar d
      | Some current \<Rightarrow> if bar_date current < bar_date bar then dict_set (bar_ticker bar) bar d else d)"

definition latest_close_prices :: "market_data \<Rightarrow> (string, money) dict" where
  "latest_close_prices m = map (\<lambda>(t, bar). (t, usd (bar_close bar))) (fold latest_bar (mkt_bars m) [])"

section \<open>The graph write\<close>

definition outcome_dump :: "gate_outcome \<Rightarrow> pyval" where
  "outcome_dump g = PDict [(''name'', PStr (go_name g)), (''value'', PFloat (go_value g)),
     (''threshold'', PFloat (go_threshold g)), (''outcome'', PStr (gate_status_text (go_outcome g))),
     (''detail'', PStr (go_detail g))]"

definition opt_float :: "rat option \<Rightarrow> pyval" where
  "opt_float v = (case v of None \<Rightarrow> PNone | Some q \<Rightarrow> PFloat q)"

definition opt_str :: "string option \<Rightarrow> pyval" where
  "opt_str v = (case v of None \<Rightarrow> PNone | Some s \<Rightarrow> PStr s)"

definition run_props :: "timestamp \<Rightarrow> recommendation_set \<Rightarrow> order_intent list \<Rightarrow> rejected_order list \<Rightarrow> props" where
  "run_props now rs approved rejected =
     [(''approved_count'', PInt (int (length approved))), (''rejected_count'', PInt (int (length rejected))),
      (''source_analyst_run_id'', PStr (rs_run_id rs)), (''created_at'', PStr (isoformat now))]"

definition intent_props :: "order_intent \<Rightarrow> props" where
  "intent_props oi =
     [(''ticker'', PStr (oi_ticker oi)), (''action'', PStr (action_text (oi_action oi))),
      (''quantity'', PInt (oi_quantity oi)), (''est_price_cents'', PInt (money_to_cents (oi_est_price oi))),
      (''est_price_currency'', PStr (mny_currency (oi_est_price oi))),
      (''decision_atr_pct'', opt_float (oi_decision_atr_pct oi)), (''stop_pct'', opt_float (oi_stop_pct oi)),
      (''target_pct'', opt_float (oi_target_pct oi)), (''position_ref'', opt_str (oi_position_ref oi)),
      (''gate_report'', PList (map outcome_dump (oi_gate_report oi)))]"

definition rejection_props :: "rejected_order \<Rightarrow> props" where
  "rejection_props r =
     [(''ticker'', PStr (ro_ticker r)), (''reason'', PStr (ro_reason r)),
      (''gate_report'', PList (map outcome_dump (ro_gate_report r)))]"

definition analyst_key :: "recommendation_set \<Rightarrow> string option" where
  "analyst_key rs =
     (case pv_graph_node_id (rs_provenance rs) of
        None \<Rightarrow> None
      | Some gid \<Rightarrow> if starts_with gid ''AnalystRun:'' then Some (drop (length ''AnalystRun:'') gid) else None)"

definition pm_merge :: "'w pm_env \<Rightarrow> string \<Rightarrow> string \<Rightarrow> props \<Rightarrow> ('w, gnode) step" where
  "pm_merge env label key p w = gp_merge (pme_port env) (pme_wall env w) w label key p 1"

definition pm_edge :: "'w pm_env \<Rightarrow> gnode \<Rightarrow> gnode \<Rightarrow> string \<Rightarrow> ('w, unit) step" where
  "pm_edge env a b t w = gp_edge (pme_port env) (pme_wall env w) w a b t None"

definition link_recommendation :: "'w pm_env \<Rightarrow> gnode \<Rightarrow> string option \<Rightarrow> string \<Rightarrow> string \<Rightarrow> ('w, unit) step" where
  "link_recommendation env node akey ticker edge_type w =
     (case akey of
        None \<Rightarrow> step_return () w
      | Some k \<Rightarrow>
          (case gp_get (pme_port env) w ''Recommendation'' (k @ '':'' @ ticker) of
             None \<Rightarrow> step_return () w
           | Some n \<Rightarrow> pm_edge env node n edge_type w))"

definition write_item ::
  "'w pm_env \<Rightarrow> gnode \<Rightarrow> string option \<Rightarrow> string \<Rightarrow> string \<Rightarrow> string \<Rightarrow> string \<Rightarrow> string \<Rightarrow> props \<Rightarrow> ('w, unit) step" where
  "write_item env run akey label edge link run_id ticker p =
     step_bind (pm_merge env label (run_id @ '':'' @ ticker) p) (\<lambda>node.
     step_bind (pm_edge env node run edge) (\<lambda>_.
     link_recommendation env node akey ticker link))"

definition write_order_decision ::
  "'w pm_env \<Rightarrow> recommendation_set \<Rightarrow> order_intent list \<Rightarrow> rejected_order list \<Rightarrow> string list
   \<Rightarrow> ('w, provenance) step" where
  "write_order_decision env rs approved rejected incidents w =
     (let run_id = ''pm-run-'' @ pme_uuid env w; akey = analyst_key rs
      in step_bind (pm_merge env ''PMRun'' run_id (run_props (pme_wall env w) rs approved rejected)) (\<lambda>run.
         step_bind (step_each (\<lambda>oi. write_item env run akey ''OrderIntent'' ''EMITTED_BY'' ''APPROVES''
                      run_id (oi_ticker oi) (intent_props oi)) approved) (\<lambda>_.
         step_bind (step_each (\<lambda>r. write_item env run akey ''Rejection'' ''REJECTED_IN'' ''REJECTS''
                      run_id (ro_ticker r) (rejection_props r)) rejected) (\<lambda>_.
         step_return \<lparr>pv_run_id = run_id, pv_source_agent = ''portfolio_manager'', pv_correlation_id = None,
           pv_graph_node_id = Some (gn_label run @ '':'' @ gn_key run), pv_incident_refs = incidents\<rparr>))) w)"

section \<open>The result\<close>

definition run_explanation :: "order_intent list \<Rightarrow> rejected_order list \<Rightarrow> explanation" where
  "run_explanation approved rejected =
     (if approved = []
      then \<lparr>ex_summary = ''No orders approved; '' @ str_nat (length rejected) @ '' recommendations rejected.'',
            ex_evidence_refs = [''portfolio_manager.risk'']\<rparr>
      else \<lparr>ex_summary = str_nat (length approved) @ '' orders approved; '' @ str_nat (length rejected)
              @ '' rejected by PM risk.'',
            ex_evidence_refs = [''portfolio_manager.sizing'', ''portfolio_manager.risk'']\<rparr>)"

definition build_order_set ::
  "'w pm_env \<Rightarrow> recommendation_set \<Rightarrow> order_intent list \<Rightarrow> rejected_order list \<Rightarrow> string list
   \<Rightarrow> ('w, order_intent_set) step" where
  "build_order_set env rs approved rejected incidents =
     step_bind (write_order_decision env rs approved rejected incidents) (\<lambda>pv.
       step_return \<lparr>ois_run_id = pv_run_id pv, ois_approved = approved, ois_rejected = rejected,
         ois_explanation = run_explanation approved rejected, ois_provenance = pv\<rparr>)"

definition reject_all ::
  "'w pm_env \<Rightarrow> recommendation_set \<Rightarrow> string \<Rightarrow> string list \<Rightarrow> ('w, order_intent_set) step" where
  "reject_all env rs reason incidents =
     build_order_set env rs []
       (map (\<lambda>item. \<lparr>ro_ticker = rec_ticker item, ro_reason = reason, ro_gate_report = []\<rparr>) (rs_recommendations rs))
       incidents"

definition incident_refs :: "market_data option \<Rightarrow> regime_context option \<Rightarrow> string list" where
  "incident_refs market regime =
     (let refs = (case market of None \<Rightarrow> [] | Some m \<Rightarrow> pv_incident_refs (mkt_provenance m))
                 @ (case regime of None \<Rightarrow> [] | Some r \<Rightarrow> pv_incident_refs (rc_provenance r))
      in rev (remdups (rev refs)))"

section \<open>The run\<close>

definition pm_capture :: "'w pm_env \<Rightarrow> 'a res \<Rightarrow> 'w \<Rightarrow> 'w" where
  "pm_capture env r w =
     fst (fault_boundary (pme_submit env) (pme_wall env w) ''portfolio_manager'' ''agents.portfolio_manager.run''
            (Some ''evaluate_orders'') w r)"

definition record_pm_fault :: "'w pm_env \<Rightarrow> string \<Rightarrow> 'w \<Rightarrow> 'w" where
  "record_pm_fault env message w = pm_capture env (Inl (RuntimeError message) :: unit res) w"

definition provider_rejection ::
  "'w pm_env \<Rightarrow> market_data option \<Rightarrow> regime_context option \<Rightarrow> 'w \<Rightarrow> 'w \<times> string option" where
  "provider_rejection env market regime w =
     (case (market, regime) of
        (Some m, Some r) \<Rightarrow>
          if mkt_used_fallback m
          then (record_pm_fault env ''provider returned degraded market data'' w, Some ''provider_degraded'')
          else if pv_incident_refs (rc_provenance r) \<noteq> []
          then (record_pm_fault env ''provider returned degraded regime data'' w, Some ''provider_degraded'')
          else (w, None)
      | _ \<Rightarrow> (w, Some ''provider_unavailable''))"

definition has_buy :: "recommendation_set \<Rightarrow> bool" where
  "has_buy rs \<longleftrightarrow> list_ex (\<lambda>item. rec_action item = BuyAction) (rs_recommendations rs)"

definition evaluation_env ::
  "'w pm_env \<Rightarrow> portfolio_state \<Rightarrow> market_data \<Rightarrow> regime_context \<Rightarrow> ohlcv_bar list \<Rightarrow> (string, string) dict \<Rightarrow> risk_env" where
  "evaluation_env env p m r bars imap =
     (let st = pme_settings env
      in \<lparr>re_sqrt = pme_sqrt env, re_vtext = pme_vtext env, re_portfolio = p,
          re_limits = (pms_limits st)\<lparr>rl_default_stop_pct := rc_base_stop_loss_pct r,
                                     rl_default_target_pct := rc_base_take_profit_pct r\<rparr>,
          re_prices = latest_close_prices m,
          re_correlations = new_correlation_book bars imap (pms_lookback_days st) (pms_threshold st)
             (pms_max_cluster_pct st) (pms_min_bars st) (pms_ceiling st)\<rparr>)"

definition run_evaluation ::
  "'w pm_env \<Rightarrow> recommendation_set \<Rightarrow> market_data option \<Rightarrow> regime_context option \<Rightarrow> market_data option
   \<Rightarrow> portfolio_state \<Rightarrow> (string, string) dict \<Rightarrow> ('w, order_intent_set) step" where
  "run_evaluation env rs market regime correlation_market p imap w =
     (if rs_recommendations rs = [] then reject_all env rs ''no_recommendations'' [] w
      else
        let w1 = (if has_buy rs \<and> \<not> ps_account_fresh p
                  then record_pm_fault env (''account state stale: ''
                         @ (case ps_stale_reason p of
                              None \<Rightarrow> ''missing fresh account snapshot''
                            | Some [] \<Rightarrow> ''missing fresh account snapshot''
                            | Some s \<Rightarrow> s)) w
                  else w);
            refs = incident_refs market regime
        in case (provider_rejection env market regime w1, market, regime) of
             ((w2, Some reason), _, _) \<Rightarrow> reject_all env rs reason refs w2
           | ((w2, None), Some m, Some r) \<Rightarrow>
               let bars = mkt_bars (case correlation_market of Some c \<Rightarrow> c | None \<Rightarrow> m);
                   result = evaluate_recommendations (evaluation_env env p m r bars imap) (mkt_sectors m) imap
                              (rs_recommendations rs);
                   w3 = pm_capture env result w2
               in (case result of
                     Inl e \<Rightarrow> reject_all env rs ''portfolio_evaluation_failed'' refs w3
                   | Inr (approved, rejected) \<Rightarrow> build_order_set env rs approved rejected refs w3)
           | ((w2, None), _, _) \<Rightarrow> (w2, Inl (PyExn ''AssertionError'' [])))"

section \<open>What the write leaves in the graph\<close>

definition recorded :: "'w graph_port \<Rightarrow> 'w \<Rightarrow> string \<Rightarrow> string \<Rightarrow> props \<Rightarrow> bool" where
  "recorded port w label key p \<longleftrightarrow> (\<exists>n. gp_get port w label key = Some n \<and> holds_props n p)"

lemma item_props_wf: "dict_wf (intent_props oi)" "dict_wf (rejection_props r)" "dict_wf (run_props now rs a rj)"
  by (simp_all add: intent_props_def rejection_props_def run_props_def dict_wf_def)

context graph_store begin

lemma pm_edge_keeps:
  assumes "pme_port env = port"
  shows "step_keeps (\<lambda>w. ok w \<and> recorded port w label key p) (pm_edge env a b t)" "step_keeps ok (pm_edge env a b t)"
  using edge_ok edge_get by (auto simp: step_keeps_def pm_edge_def recorded_def assms)

lemma link_keeps:
  assumes "pme_port env = port"
  shows "step_keeps (\<lambda>w. ok w \<and> recorded port w label key p) (link_recommendation env n ak tk t)"
    "step_keeps ok (link_recommendation env n ak tk t)"
  using pm_edge_keeps [OF assms]
  by (auto simp: step_keeps_def link_recommendation_def step_return_def split: option.split)

lemma pm_merge_ok: "pme_port env = port \<Longrightarrow> dict_wf q \<Longrightarrow> step_keeps ok (pm_merge env l k q)"
  using merge_ok by (simp add: step_keeps_def pm_merge_def)

lemma pm_merge_keeps:
  assumes "pme_port env = port" "dict_wf q" "(label, key) \<noteq> (l, k)"
  shows "step_keeps (\<lambda>w. ok w \<and> recorded port w label key p) (pm_merge env l k q)"
  using merge_ok assms(2) merge_other [OF assms(3)]
  by (auto simp: step_keeps_def pm_merge_def recorded_def assms(1))

lemma write_item_ok:
  assumes "pme_port env = port" "dict_wf q"
  shows "step_keeps ok (write_item env run ak l e lk rid tk q)"
  unfolding write_item_def
  by (intro step_keeps_bind pm_merge_ok pm_edge_keeps(2) link_keeps(2) assms)

lemma write_item_keeps:
  assumes "pme_port env = port" "dict_wf q" "(label, key) \<noteq> (l, rid @ '':'' @ tk)"
  shows "step_keeps (\<lambda>w. ok w \<and> recorded port w label key p) (write_item env run ak l e lk rid tk q)"
  unfolding write_item_def
  by (intro step_keeps_bind pm_merge_keeps pm_edge_keeps(1) link_keeps(1) assms)

lemma write_item_records:
  assumes "pme_port env = port" "dict_wf q" "ok w" "write_item env run ak l e lk rid tk q w = (w', Inr ())"
  shows "ok w' \<and> recorded port w' l (rid @ '':'' @ tk) q"
proof -
  from assms(4) obtain w1 n where m: "pm_merge env l (rid @ '':'' @ tk) q w = (w1, Inr n)"
    and rest: "step_bind (pm_edge env n run e) (\<lambda>_. link_recommendation env n ak tk lk) w1 = (w', Inr ())"
    by (auto simp: write_item_def step_bind_Inr)
  have one: "ok w1 \<and> recorded port w1 l (rid @ '':'' @ tk) q"
    using m merge_written [OF assms(3,2)] step_keepsD [OF pm_merge_ok [OF assms(1,2)] assms(3) m]
    unfolding pm_merge_def assms(1) recorded_def by blast
  have K: "step_keeps (\<lambda>w. ok w \<and> recorded port w l (rid @ '':'' @ tk) q)
      (step_bind (pm_edge env n run e) (\<lambda>_. link_recommendation env n ak tk lk))"
    by (intro step_keeps_bind pm_edge_keeps(1) link_keeps(1) assms(1))
  from step_keepsD [OF K one rest] show ?thesis .
qed

lemma write_items_record:
  assumes "pme_port env = port" "\<And>x. dict_wf (f x)" "distinct (map g xs)" "ok w"
    "step_each (\<lambda>x. write_item env run ak l e lk rid (g x) (f x)) xs w = (w', Inr ())"
  shows "ok w' \<and> (\<forall>x \<in> set xs. recorded port w' l (rid @ '':'' @ g x) (f x))"
  using assms(3-5)
proof (induction xs arbitrary: w)
  case (Cons x xs)
  let ?step = "\<lambda>x. write_item env run ak l e lk rid (g x) (f x)"
  from Cons.prems(3) obtain w1 where first: "?step x w = (w1, Inr ())"
    and rest: "step_each ?step xs w1 = (w', Inr ())" by (auto simp: step_bind_Inr)
  note one = write_item_records [OF assms(1,2) Cons.prems(2) first]
  from Cons.IH [OF _ _ rest] one Cons.prems(1)
  have "\<forall>x \<in> set xs. recorded port w' l (rid @ '':'' @ g x) (f x)" "ok w'" by auto
  moreover have "step_keeps (\<lambda>w. ok w \<and> recorded port w l (rid @ '':'' @ g x) (f x)) (step_each ?step xs)"
  proof (rule step_keeps_each)
    fix y assume "y \<in> set xs"
    with Cons.prems(1) have "g y \<noteq> g x" by (simp, metis imageI)
    then show "step_keeps (\<lambda>w. ok w \<and> recorded port w l (rid @ '':'' @ g x) (f x)) (?step y)"
      by (intro write_item_keeps assms(1,2)) auto
  qed
  from step_keepsD [OF this one rest] have "recorded port w' l (rid @ '':'' @ g x) (f x)" by simp
  ultimately show ?case by auto
qed (simp add: step_return_def)

lemma decision_recorded:
  assumes "pme_port env = port" "ok w" "distinct (map oi_ticker approved)" "distinct (map ro_ticker rejected)"
    "write_order_decision env rs approved rejected incidents w = (w', Inr pv)"
  shows "(\<forall>oi \<in> set approved. recorded port w' ''OrderIntent'' (pv_run_id pv @ '':'' @ oi_ticker oi) (intent_props oi))
    \<and> (\<forall>r \<in> set rejected. recorded port w' ''Rejection'' (pv_run_id pv @ '':'' @ ro_ticker r) (rejection_props r))"
proof -
  let ?rid = "''pm-run-'' @ pme_uuid env w" and ?ak = "analyst_key rs"
  let ?intent = "\<lambda>run oi. write_item env run ?ak ''OrderIntent'' ''EMITTED_BY'' ''APPROVES'' ?rid (oi_ticker oi) (intent_props oi)"
  let ?reject = "\<lambda>run r. write_item env run ?ak ''Rejection'' ''REJECTED_IN'' ''REJECTS'' ?rid (ro_ticker r) (rejection_props r)"
  from assms(5) obtain w1 run w2 where
      m: "pm_merge env ''PMRun'' ?rid (run_props (pme_wall env w) rs approved rejected) w = (w1, Inr run)"
    and a: "step_each (?intent run) approved w1 = (w2, Inr ())"
    and r: "step_each (?reject run) rejected w2 = (w', Inr ())" and pv: "pv_run_id pv = ?rid"
    by (auto simp: write_order_decision_def Let_def step_bind_Inr step_return_Inr)
  have "ok w1" by (rule step_keepsD [OF pm_merge_ok [OF assms(1) item_props_wf(3)] assms(2) m])
  from write_items_record [OF assms(1) item_props_wf(1) assms(3) this a]
  have a2: "ok w2" "\<forall>oi \<in> set approved. recorded port w2 ''OrderIntent'' (?rid @ '':'' @ oi_ticker oi) (intent_props oi)"
    by auto
  have "recorded port w' ''OrderIntent'' (?rid @ '':'' @ oi_ticker oi) (intent_props oi)" if "oi \<in> set approved" for oi
  proof -
    have K: "step_keeps (\<lambda>w. ok w \<and> recorded port w ''OrderIntent'' (?rid @ '':'' @ oi_ticker oi) (intent_props oi))
        (step_each (?reject run) rejected)"
      by (intro step_keeps_each write_item_keeps assms(1) item_props_wf) simp
    from a2 that have "ok w2 \<and> recorded port w2 ''OrderIntent'' (?rid @ '':'' @ oi_ticker oi) (intent_props oi)"
      by blast
    from step_keepsD [OF K this r] show ?thesis by simp
  qed
  moreover from write_items_record [OF assms(1) item_props_wf(2) assms(4) a2(1) r]
  have "\<forall>x \<in> set rejected. recorded port w' ''Rejection'' (?rid @ '':'' @ ro_ticker x) (rejection_props x)" by simp
  ultimately show ?thesis by (simp add: pv)
qed

end

section \<open>What a run gives back\<close>

definition unusable_inputs :: "market_data option \<Rightarrow> regime_context option \<Rightarrow> string option" where
  "unusable_inputs market regime =
     (case (market, regime) of
        (Some m, Some r) \<Rightarrow>
          if mkt_used_fallback m \<or> pv_incident_refs (rc_provenance r) \<noteq> [] then Some ''provider_degraded'' else None
      | _ \<Rightarrow> Some ''provider_unavailable'')"

lemma provider_rejection_reason: "snd (provider_rejection env market regime w) = unusable_inputs market regime"
  by (auto simp: provider_rejection_def unusable_inputs_def split: option.split)

definition rejected_with :: "string \<Rightarrow> recommendation list \<Rightarrow> rejected_order list" where
  "rejected_with reason = map (\<lambda>item. \<lparr>ro_ticker = rec_ticker item, ro_reason = reason, ro_gate_report = []\<rparr>)"

lemma build_order_set_Inr:
  assumes "build_order_set env rs a r inc w = (w', Inr out)"
  shows "ois_approved out = a \<and> ois_rejected out = r
    \<and> (\<exists>pv. write_order_decision env rs a r inc w = (w', Inr pv) \<and> ois_run_id out = pv_run_id pv)"
  using assms by (auto simp: build_order_set_def step_bind_Inr step_return_Inr)

text \<open>
  The decision of a run and the one write that records it: what the inputs and the evaluation say,
  and the world the write starts from.
\<close>

definition run_decision ::
  "'w pm_env \<Rightarrow> recommendation_set \<Rightarrow> market_data option \<Rightarrow> regime_context option \<Rightarrow> market_data option
   \<Rightarrow> portfolio_state \<Rightarrow> (string, string) dict \<Rightarrow> order_intent list \<times> rejected_order list" where
  "run_decision env rs market regime cm p imap =
     (let items = rs_recommendations rs
      in if items = [] then ([], [])
         else case unusable_inputs market regime of
           Some reason \<Rightarrow> ([], rejected_with reason items)
         | None \<Rightarrow>
             let m = the market; bars = mkt_bars (case cm of Some c \<Rightarrow> c | None \<Rightarrow> m)
             in case evaluate_recommendations (evaluation_env env p m (the regime) bars imap) (mkt_sectors m) imap items of
                  Inl e \<Rightarrow> ([], rejected_with ''portfolio_evaluation_failed'' items)
                | Inr d \<Rightarrow> d)"

lemma reject_all_write:
  "reject_all env rs reason inc = build_order_set env rs [] (rejected_with reason (rs_recommendations rs)) inc"
  by (simp add: reject_all_def rejected_with_def)

definition submit_keeps :: "('w \<Rightarrow> bool) \<Rightarrow> 'w pm_env \<Rightarrow> bool" where
  "submit_keeps ok env \<longleftrightarrow> (\<forall>w f. ok w \<longrightarrow> ok (pme_submit env w f))"

lemma pm_capture_keeps: "submit_keeps ok env \<Longrightarrow> ok w \<Longrightarrow> ok (pm_capture env r w)"
  by (cases r) (simp_all add: pm_capture_def submit_keeps_def Let_def)

lemma record_pm_fault_keeps: "submit_keeps ok env \<Longrightarrow> ok w \<Longrightarrow> ok (record_pm_fault env msg w)"
  unfolding record_pm_fault_def by (rule pm_capture_keeps)

lemma provider_rejection_keeps:
  assumes "submit_keeps ok env" "ok w"
  shows "ok (fst (provider_rejection env market regime w))"
  using record_pm_fault_keeps [OF assms] assms(2)
  by (auto simp: provider_rejection_def split: option.split)

lemma run_evaluation_write:
  assumes "submit_keeps ok env" "ok w"
  obtains w1 inc where "ok w1"
    "run_evaluation env rs market regime cm p imap w =
       build_order_set env rs (fst (run_decision env rs market regime cm p imap))
         (snd (run_decision env rs market regime cm p imap)) inc w1"
proof (cases "rs_recommendations rs = []")
  case True
  show ?thesis
    by (rule that [OF assms(2)])
      (simp add: run_evaluation_def run_decision_def True reject_all_write rejected_with_def)
next
  case False
  let ?w1 = "if has_buy rs \<and> \<not> ps_account_fresh p
     then record_pm_fault env (''account state stale: ''
            @ (case ps_stale_reason p of None \<Rightarrow> ''missing fresh account snapshot''
               | Some [] \<Rightarrow> ''missing fresh account snapshot'' | Some s \<Rightarrow> s)) w
     else w"
  obtain w2 r where pr: "provider_rejection env market regime ?w1 = (w2, r)" by (rule prod.exhaust)
  have w1: "ok ?w1" using assms record_pm_fault_keeps [OF assms] by simp
  have "ok (fst (provider_rejection env market regime ?w1))"
    by (rule provider_rejection_keeps [OF assms(1)]) (rule w1)
  with pr have w2: "ok w2" by (simp only: fst_conv)
  have r: "r = unusable_inputs market regime"
    using provider_rejection_reason [of env market regime ?w1] pr by (simp only: snd_conv)
  show ?thesis
  proof (cases "unusable_inputs market regime")
    case (Some reason)
    with pr r False show ?thesis
      by (intro that [OF w2, of "incident_refs market regime"])
        (simp add: run_evaluation_def run_decision_def Let_def reject_all_write)
  next
    case None
    then obtain m g where mg: "market = Some m" "regime = Some g"
      by (auto simp: unusable_inputs_def split: option.splits)
    let ?res = "evaluate_recommendations (evaluation_env env p m g (mkt_bars (case cm of Some c \<Rightarrow> c | None \<Rightarrow> m)) imap)
      (mkt_sectors m) imap (rs_recommendations rs)"
    show ?thesis
      using pr r None mg False
      by (intro that [OF pm_capture_keeps [OF assms(1) w2, of ?res], of "incident_refs market regime"])
        (simp add: run_evaluation_def run_decision_def Let_def reject_all_write split: sum.split prod.split)
  qed
qed

lemma run_decision_tickers:
  "mset (map oi_ticker (fst (run_decision env rs market regime cm p imap)))
     + mset (map ro_ticker (snd (run_decision env rs market regime cm p imap)))
   = mset (map rec_ticker (rs_recommendations rs))"
proof -
  have rej: "map ro_ticker (rejected_with reason items) = map rec_ticker items" for reason items
    by (simp add: rejected_with_def)
  have eval: "mset (map oi_ticker a) + mset (map ro_ticker r) = mset (map rec_ticker items)"
    if "evaluate_recommendations e sec imap items = Inr (a, r)" for e sec items a r
  proof -
    from that obtain s where run: "evaluate_items e (ordered items) (initial_state e sec imap) = Inr s"
      "a = ev_approved s" "r = ev_rejected s" by (rule evaluate_recommendations_Inr)
    from items_tickers [OF run(1)] show ?thesis by (simp add: run(2,3))
  qed
  show ?thesis
    by (auto simp: run_decision_def Let_def rej simp del: mset_map dest: eval split: option.split sum.split)
qed


definition sample_pm_env :: "store pm_env" where
  "sample_pm_env = \<lparr>pme_port = mem_port, pme_wall = (\<lambda>_. sample_time), pme_uuid = (\<lambda>_. ''1''),
     pme_submit = (\<lambda>s _. s), pme_sqrt = (\<lambda>x. x), pme_vtext = (\<lambda>_. []),
     pme_settings = \<lparr>pms_starting_cash = 1000, pms_limits = sample_limits, pms_price_lookback_days = 7, pms_lookback_days = 120, pms_threshold = 1 / 2,
       pms_ceiling = 9 / 10, pms_max_cluster_pct = None, pms_min_bars = 60\<rparr>\<rparr>"

definition sample_set :: recommendation_set where
  "sample_set = \<lparr>rs_run_id = ''analyst-1'', rs_recommendations = sample_recs,
     rs_provenance = \<lparr>pv_run_id = ''analyst-1'', pv_source_agent = ''analyst'', pv_correlation_id = None,
       pv_graph_node_id = None, pv_incident_refs = []\<rparr>\<rparr>"

lemma sample_pm_outcome:
  "case snd (run_evaluation sample_pm_env sample_set None None None sample_portfolio [] empty_store) of
     Inl e \<Rightarrow> False
   | Inr out \<Rightarrow> ois_run_id out = ''pm-run-1''"
  by code_simp


end
