(* ===== verification/ListedStore.thy ===== *)
theory ListedStore
  imports Vocabulary GraphPort
begin

text \<open>
  Readers that list the nodes of a label rely on more of the graph protocol: \<open>list_nodes\<close> shows
  exactly the nodes \<open>get_node\<close> finds.  The in-memory store keeps that, and so does its guarded form.
\<close>

locale listed_store = graph_store port ok for port :: "'s graph_port" and ok +
  assumes list_iff: "ok s \<Longrightarrow>
    n \<in> set (gp_list port s label) \<longleftrightarrow> gn_label n = label \<and> gp_get port s label (gn_key n) = Some n"
    and node_identity: "ok s \<Longrightarrow> gp_get port s label key = Some n \<Longrightarrow> gn_label n = label \<and> gn_key n = key"
begin

text \<open>What a write leaves of the lists.\<close>

lemma list_edge:
  assumes "ok s"
  shows "set (gp_list port (fst (gp_edge port now s a b t q)) label) = set (gp_list port s label)"
  using list_iff [OF assms] list_iff [OF edge_ok [OF assms]] by (auto simp: edge_get)

lemma list_merge:
  assumes "ok s" "dict_wf p"
  shows "set (gp_list port (fst (gp_merge port now s label key p version)) l) =
     (case snd (gp_merge port now s label key p version) of
        Inl e \<Rightarrow> set (gp_list port s l)
      | Inr n \<Rightarrow> if l = label then insert n {m \<in> set (gp_list port s l). gn_key m \<noteq> key}
                 else set (gp_list port s l))"
proof (cases "gp_merge port now s label key p version")
  case (Pair s' r)
  show ?thesis
  proof (cases r)
    case (Inl e)
    with Pair merge_failed have "gp_get port s' = gp_get port s" by fastforce
    moreover have "ok s'" using merge_ok [OF assms] Pair by (metis fst_conv)
    ultimately show ?thesis using Pair Inl by (auto simp: list_iff assms(1))
  next
    case (Inr n)
    have "ok s'" using merge_ok [OF assms] Pair by (metis fst_conv)
    moreover note merge_get [OF assms, of now label key version, unfolded Pair Inr]
      and merge_written [OF assms Pair [unfolded Inr]]
    ultimately show ?thesis using Pair Inr assms(1) by (auto simp: list_iff split: if_splits)
  qed
qed

lemma list_merge_other:
  assumes "ok s" "dict_wf p" "l \<noteq> label"
  shows "set (gp_list port (fst (gp_merge port now s label key p version)) l) = set (gp_list port s l)"
  using assms by (simp add: list_merge split: sum.splits)

text \<open>A merge under a key not yet there only adds.\<close>

lemma list_merge_new:
  assumes "ok s" "dict_wf p" "gp_get port s label key = None"
    "gp_merge port now s label key p version = (s', r)"
  shows "ok s'"
    "set (gp_list port s' l) =
       (if l = label then (case r of Inl e \<Rightarrow> {} | Inr n \<Rightarrow> {n}) else {}) \<union> set (gp_list port s l)"
proof -
  show "ok s'" using merge_ok [OF assms(1, 2)] assms(4) by (metis fst_conv)
  have "\<forall>m \<in> set (gp_list port s label). gn_key m \<noteq> key"
    using assms(1, 3) by (auto simp: list_iff)
  then have "{m \<in> set (gp_list port s label). gn_key m \<noteq> key} = set (gp_list port s label)" by blast
  then show "set (gp_list port s' l) =
       (if l = label then (case r of Inl e \<Rightarrow> {} | Inr n \<Rightarrow> {n}) else {}) \<union> set (gp_list port s l)"
    using list_merge [OF assms(1, 2), of now label key version l] assms(4) by (auto split: sum.splits)
qed

end

lemma mem_list_iff:
  assumes "store_wf s"
  shows "n \<in> set (list_nodes s label) \<longleftrightarrow> gn_label n = label \<and> get_node s label (gn_key n) = Some n"
proof -
  have wf: "dict_wf (st_nodes s)" and nodes: "\<forall>(k, n) \<in> set (st_nodes s). node_wf k n"
    using assms by (simp_all add: store_wf_def)
  have "n \<in> set (dict_values (st_nodes s)) \<longleftrightarrow> ((gn_label n, gn_key n), n) \<in> set (st_nodes s)"
    using nodes by (force simp: node_wf_def node_key_of_def)
  with wf show ?thesis by (auto simp: list_nodes_def get_node_def dict_get_Some_iff)
qed

lemma distinct_list_nodes:
  assumes "store_wf s"
  shows "distinct (list_nodes s label)"
proof -
  have wf: "dict_wf (st_nodes s)" and keys: "\<forall>(k, n) \<in> set (st_nodes s). node_key_of n = k"
    using assms by (auto simp: store_wf_def node_wf_def)
  from keys have "map node_key_of (dict_values (st_nodes s)) = dict_keys (st_nodes s)" by auto
  with wf have "distinct (map node_key_of (dict_values (st_nodes s)))" by (simp only: dict_wf_def)
  then have "distinct (dict_values (st_nodes s))" by (simp only: distinct_map)
  then show ?thesis by (simp add: list_nodes_def)
qed

lemma mem_node_identity:
  "store_wf s \<Longrightarrow> get_node s label key = Some n \<Longrightarrow> gn_label n = label \<and> gn_key n = key"
  using store_wf_node [of s "(label, key)" n] by (simp add: get_node_def node_wf_def node_key_of_def)

interpretation mem_listed: listed_store mem_port store_wf
  by unfold_locales (simp_all add: mem_list_iff mem_node_identity)

interpretation guarded_listed: listed_store "guarded_port voc writer mem_port" store_wf for voc writer
  by unfold_locales (simp_all add: guarded_port_def mem_list_iff mem_node_identity)

text \<open>
  C29. Every store reached from the empty one by writes, failed ones included, is well typed: a node is
  listed under its own label exactly when it is found under its own label and key, no node is listed
  twice, its properties have distinct names and hold only immutable values, its schema version is
  positive; every edge joins two nodes of the store and no two edges have the same ends and type.
\<close>

theorem store_well_typed:
  assumes "list_all write_ok ws"
  shows "let s = apply_writes empty_store ws in
    (\<forall>n label. n \<in> set (list_nodes s label) \<longleftrightarrow>
        gn_label n = label \<and> get_node s label (gn_key n) = Some n)
    \<and> (\<forall>label. distinct (list_nodes s label))
    \<and> (\<forall>n label. n \<in> set (list_nodes s label) \<longrightarrow>
        dict_wf (gn_props n) \<and> list_all (\<lambda>(k, v). immutable v) (gn_props n) \<and> 1 \<le> gn_version n)
    \<and> (\<forall>e \<in> set (st_edges s). {ge_parent e, ge_child e} \<subseteq> node_keys (st_nodes s))
    \<and> distinct (map edge_key_of (st_edges s))"
proof -
  let ?s = "apply_writes empty_store ws"
  have wf: "store_wf ?s" by (rule apply_writes_wf [OF store_wf_empty assms])
  have "dict_wf (gn_props n) \<and> list_all (\<lambda>(k, v). immutable v) (gn_props n) \<and> 1 \<le> gn_version n"
    if "n \<in> set (list_nodes ?s label)" for n label
  proof -
    have "get_node ?s label (gn_key n) = Some n" using that mem_list_iff [OF wf] by blast
    then have "node_wf (label, gn_key n) n" using store_wf_node [OF wf] by (simp add: get_node_def)
    then show ?thesis by (simp add: node_wf_def props_frozen_def)
  qed
  with wf mem_list_iff [OF wf] distinct_list_nodes [OF wf] show ?thesis
    by (simp add: Let_def) (auto simp: store_wf_def)
qed

lemma store_well_typed_witness:
  "distinct (list_nodes (apply_writes empty_store
     [MergeNode sample_time ''Fill'' ''f1'' [(''qty'', PList [PInt 3])] 1]) ''Fill'')"
  using store_well_typed [of "[MergeNode sample_time ''Fill'' ''f1'' [(''qty'', PList [PInt 3])] 1]"]
  by (simp add: dict_wf_def Let_def)

text \<open>Writes of the in-memory store in closed form.\<close>

lemma mem_merge_new:
  "get_node s label key = None \<Longrightarrow> merge_node now s label key p 1 =
     (s\<lparr>st_nodes := st_nodes s @ [((label, key), make_node label key p 1)]\<rparr>, Inr (make_node label key p 1))"
  by (simp add: merge_node_def merge_core_def get_node_def dict_set_new Let_def)

lemma mem_add_edge_ok:
  assumes "get_node s (gn_label a) (gn_key a) \<noteq> None" "get_node s (gn_label b) (gn_key b) \<noteq> None"
  shows "\<exists>edges. add_edge now s a b t q = (s\<lparr>st_edges := edges\<rparr>, Inr ())"
proof -
  have "\<exists>edges. add_edge_core s a b t q = Inr edges"
    using assms by (simp add: add_edge_core_def require_node_def get_node_def node_key_of_def Let_def)
  then show ?thesis by (auto simp: add_edge_def)
qed

lemma filter_values_set:
  assumes "\<forall>(k, n) \<in> set d. gn_label n = fst k" "gn_label n = label" "l \<noteq> label"
  shows "filter (\<lambda>n. gn_label n = l) (dict_values (dict_set (label, key) n d))
      = filter (\<lambda>n. gn_label n = l) (dict_values d)"
  using assms by (induction d) auto

lemma mem_merge_list_other:
  assumes "store_wf s" "l \<noteq> label"
  shows "list_nodes (fst (merge_node now s label key p v)) l = list_nodes s l"
proof -
  have "\<forall>(k, n) \<in> set (st_nodes s). gn_label n = fst k"
    using assms(1) by (auto simp: store_wf_def node_wf_def node_key_of_def)
  from filter_values_set [OF this _ assms(2)] show ?thesis
    by (auto simp: merge_node_def merge_core_def list_nodes_def Let_def split: sum.splits option.splits)
qed

lemma mem_merge_same:
  assumes "store_wf s" "get_node s label key = Some n" "gn_version n = 1"
    "\<And>k v. (k, v) \<in> set p \<Longrightarrow> dict_get (gn_props n) k = Some (frozen_value v)"
  shows "merge_node now s label key p 1 = (s, Inr n)"
proof -
  have wf: "node_wf (label, key) n"
    using store_wf_node [OF assms(1), of "(label, key)" n] assms(2) by (simp add: get_node_def)
  have "append_props (gn_props n) p = Inr (gn_props n)"
    unfolding append_props_def by (rule append_loop_same) (rule assms(4))
  moreover have "make_node label key (gn_props n) 1 = n"
    using wf assms(3) by (simp add: make_node_def node_wf_def node_key_of_def props_frozen_id)
  ultimately show ?thesis
    using assms(2, 3) by (simp add: merge_node_def merge_core_def get_node_def dict_set_idem Let_def)
qed

text \<open>A write compatible with the node that is there, of values already frozen, is accepted.\<close>

lemma append_loop_fits:
  assumes "dict_wf items" "list_all (\<lambda>(k, v). immutable v) items"
    "\<And>k v old. (k, v) \<in> set items \<Longrightarrow> dict_get merged k = Some old \<Longrightarrow> immutable old \<and> py_eq old v"
  shows "\<exists>p. append_props_loop existing new items merged = Inr p"
  using assms
proof (induction items arbitrary: merged)
  case (Cons item rest)
  obtain k x where item: "item = (k, x)" by (cases item)
  from Cons.prems(2) have x: "frozen_value x = x" by (simp add: item immutable_frozen_value)
  have fits: "case dict_get merged k of None \<Rightarrow> False | Some old \<Rightarrow> \<not> py_eq (frozen_value old) x \<Longrightarrow> False"
    using Cons.prems(3) [of k x] by (auto simp: item immutable_frozen_value split: option.splits)
  have "\<exists>p. append_props_loop existing new rest (dict_set k x merged) = Inr p"
  proof (rule Cons.IH)
    show "dict_wf rest" "list_all (\<lambda>(k, v). immutable v) rest"
      using Cons.prems(1, 2) by (auto simp: item dict_wf_Cons)
    fix k' v old
    assume "(k', v) \<in> set rest" "dict_get (dict_set k x merged) k' = Some old"
    moreover have "k \<noteq> k'" if "(k', v) \<in> set rest"
      using Cons.prems(1) that by (force simp: item dict_wf_Cons)
    ultimately show "immutable old \<and> py_eq old v"
      using Cons.prems(3) [of k' v] by (simp add: item dict_simps)
  qed
  then show ?case using fits x by (auto simp: item Let_def)
qed simp

end
