(* ===== verification/SupervisorStore.thy ===== *)
theory SupervisorStore
  imports FaultSink Payloads StageGate ListedStore Bus "HOL-Library.Product_Lexorder"
begin

text \<open>
  What the supervisor keeps in the graph (\<open>agents/supervisor/store.py\<close>, \<open>fault_resolution.py\<close>):
  dispatch messages, faults, human-review flags and their resolutions; and the health it derives
  from them (\<open>domain/health.py\<close>, the report of \<open>result.py\<close>).

  The world is what the graph port, the bus and the fault sink act on.  SHA-256 is the parameter
  \<open>digest\<close>, the text of a float the parameter \<open>float_text\<close>; the two validations are those of the
  answers the supervisor reads from the bus.
\<close>

record resume_placement =
  rpl_child_run_id :: string
  rpl_node_key :: string

record 'w sup_env =
  sue_port :: "'w graph_port"
  sue_wall :: "'w \<Rightarrow> timestamp"
  sue_bus_env :: "'w bus_env"
  sue_submit :: "'w \<Rightarrow> agent_fault \<Rightarrow> 'w"
  sue_digest :: "string \<Rightarrow> string"
  sue_float_text :: "rat \<Rightarrow> string"
  sue_placement :: "props \<Rightarrow> resume_placement res"
  sue_stage_answer :: "props \<Rightarrow> (promote_result \<times> provenance) res"
  sue_max_message_chars :: nat

definition sup_merge :: "'w sup_env \<Rightarrow> string \<Rightarrow> string \<Rightarrow> props \<Rightarrow> ('w, gnode) step" where
  "sup_merge env label key p w = gp_merge (sue_port env) (sue_wall env w) w label key p 1"

definition sup_edge :: "'w sup_env \<Rightarrow> gnode \<Rightarrow> gnode \<Rightarrow> string \<Rightarrow> ('w, unit) step" where
  "sup_edge env a b t w = gp_edge (sue_port env) (sue_wall env w) w a b t None"

section \<open>Messages and faults\<close>

definition write_message :: "'w sup_env \<Rightarrow> string \<Rightarrow> string \<Rightarrow> string \<Rightarrow> ('w, gnode) step" where
  "write_message env run_id step_name status w =
     (let key = run_id @ '':'' @ step_name;
          p = [(''run_id'', PStr run_id), (''step'', PStr step_name), (''status'', PStr status)]
      in sup_merge env ''Message'' key
           (if gp_get (sue_port env) w ''Message'' key = None
            then p @ [(''created_at'', PStr (isoformat (sue_wall env w)))] else p) w)"

text \<open>\<open>run_id or fault.correlation_id or "unscoped"\<close>.\<close>

definition text_or :: "string option \<Rightarrow> string \<Rightarrow> string" where
  "text_or s d = (case s of None \<Rightarrow> d | Some t \<Rightarrow> if t = [] then d else t)"

definition fault_key :: "(string \<Rightarrow> string) \<Rightarrow> agent_fault \<Rightarrow> string option \<Rightarrow> string \<Rightarrow> string" where
  "fault_key digest f run_id message =
     text_or run_id (text_or (flt_correlation_id f) ''unscoped'') @ '':'' @ flt_agent f @ '':''
       @ flt_module f @ '':'' @ text_or (flt_capability f) ''unknown'' @ '':'' @ flt_error_type f @ '':''
       @ take 12 (digest message)"

definition write_fault :: "'w sup_env \<Rightarrow> agent_fault \<Rightarrow> string option \<Rightarrow> ('w, gnode) step" where
  "write_fault env f run_id w =
     (let message = take (sue_max_message_chars env) (flt_message f);
          key = fault_key (sue_digest env) f run_id message;
          p = [(''run_id'', opt_str run_id), (''source_agent'', PStr (flt_agent f)),
               (''source_module'', PStr (flt_module f)), (''capability'', opt_str (flt_capability f)),
               (''severity'', PStr (severity_text (flt_severity f))),
               (''error_type'', PStr (flt_error_type f)), (''message'', PStr message),
               (''correlation_id'', opt_str (flt_correlation_id f))]
      in sup_merge env ''Fault'' key
           (if gp_get (sue_port env) w ''Fault'' key = None
            then p @ [(''occurred_at'', PStr (isoformat (flt_occurred_at f))),
                      (''created_at'', PStr (isoformat (sue_wall env w)))] else p) w)"

definition write_dispatch_run ::
  "'w sup_env \<Rightarrow> string \<Rightarrow> string list \<Rightarrow> bool \<Rightarrow> agent_fault list \<Rightarrow> ('w, provenance) step" where
  "write_dispatch_run env run_id steps_attempted completed faults =
     (let status = (if completed then ''completed'' else ''attempted'')
      in step_bind (write_nodes (map (\<lambda>s. write_message env run_id s status) steps_attempted
                     @ map (\<lambda>f. write_fault env f (Some run_id)) faults) None) (\<lambda>first.
         step_return \<lparr>pv_run_id = run_id, pv_source_agent = ''supervisor'', pv_correlation_id = None,
           pv_graph_node_id = map_option (\<lambda>n. gn_label n @ '':'' @ gn_key n) first,
           pv_incident_refs = []\<rparr>))"

section \<open>Flags and resolutions\<close>

definition flag_key :: "string \<Rightarrow> string \<Rightarrow> string" where
  "flag_key subject_ref sev = ''flag:'' @ subject_ref @ '':'' @ sev"

definition resolution_key :: "string \<Rightarrow> string \<Rightarrow> string" where
  "resolution_key subject_ref sev = ''resolution:'' @ flag_key subject_ref sev"

definition write_flag :: "'w sup_env \<Rightarrow> string \<Rightarrow> string \<Rightarrow> string \<Rightarrow> ('w, gnode) step" where
  "write_flag env subject_ref sev reason w =
     (case gp_get (sue_port env) w ''Flag'' (flag_key subject_ref sev) of
        Some current \<Rightarrow> (w, Inr current)
      | None \<Rightarrow> sup_merge env ''Flag'' (flag_key subject_ref sev)
          [(''subject_ref'', PStr subject_ref), (''severity'', PStr sev), (''reason'', PStr reason),
           (''status'', PStr ''pending''), (''created_at'', PStr (isoformat (sue_wall env w)))] w)"

definition resolve_flag :: "'w sup_env \<Rightarrow> string \<Rightarrow> string \<Rightarrow> ('w, gnode option) step" where
  "resolve_flag env subject_ref sev w =
     (case gp_get (sue_port env) w ''Flag'' (flag_key subject_ref sev) of
        None \<Rightarrow> (w, Inr None)
      | Some flag \<Rightarrow>
          (let key = resolution_key subject_ref sev
           in case gp_get (sue_port env) w ''FlagResolution'' key of
                Some current \<Rightarrow> (w, Inr (Some current))
              | None \<Rightarrow>
                  step_bind (sup_merge env ''FlagResolution'' key
                    [(''subject_ref'', PStr subject_ref), (''severity'', PStr sev),
                     (''resolved_at'', PStr (isoformat (sue_wall env w)))]) (\<lambda>resolution.
                  step_bind (sup_edge env resolution flag ''RESOLVES'') (\<lambda>_.
                  step_return (Some resolution))) w))"

fun resolve_first :: "'w sup_env \<Rightarrow> string \<Rightarrow> gnode list \<Rightarrow> ('w, bool) step" where
  "resolve_first env subject_ref [] w = (w, Inr False)"
| "resolve_first env subject_ref (n # ns) w =
     (if \<not> prop_is (gn_props n) ''subject_ref'' subject_ref then resolve_first env subject_ref ns w
      else let sev = py_str (sue_float_text env) (get_or (gn_props n) ''severity'' (PStr ''critical''))
        in if gp_get (sue_port env) w ''FlagResolution'' (resolution_key subject_ref sev) \<noteq> None
           then resolve_first env subject_ref ns w
           else step_bind (resolve_flag env subject_ref sev) (\<lambda>r. step_return (r \<noteq> None)) w)"

definition resolve_flag_by_subject :: "'w sup_env \<Rightarrow> string \<Rightarrow> ('w, bool) step" where
  "resolve_flag_by_subject env subject_ref w =
     (if subject_ref = [] then (w, Inr False)
      else resolve_first env subject_ref (gp_list (sue_port env) w ''Flag'') w)"

definition fault_resolution_key :: "string \<Rightarrow> string" where
  "fault_resolution_key key = ''resolution:fault:'' @ key"

definition resolve_fault :: "'w sup_env \<Rightarrow> gnode \<Rightarrow> string \<Rightarrow> string \<Rightarrow> ('w, gnode) step" where
  "resolve_fault env f resolved_by reason w =
     (let key = fault_resolution_key (gn_key f)
      in case gp_get (sue_port env) w ''FaultResolution'' key of
           Some current \<Rightarrow> (w, Inr current)
         | None \<Rightarrow>
             step_bind (sup_merge env ''FaultResolution'' key
               [(''fault_key'', PStr (gn_key f)), (''resolved_at'', PStr (isoformat (sue_wall env w))),
                (''resolved_by'', PStr resolved_by), (''resolution_reason'', PStr reason)]) (\<lambda>resolution.
             step_bind (sup_edge env resolution f ''RESOLVES'') (\<lambda>_. step_return resolution)) w)"

section \<open>Health\<close>

definition chain_edges :: "string list" where
  "chain_edges = [''INGESTED_BY'', ''SCANNED_BY'', ''ANALYZED_BY'', ''EVALUATED_BY'', ''EXECUTED_BY'',
     ''MONITORED_BY'', ''REPORTED_BY'']"

record health_fields =
  hf_healthy :: bool
  hf_open_incidents :: nat
  hf_pending_human_flags :: nat
  hf_last_successful_run :: "string option"

definition flag_identity :: "(rat \<Rightarrow> string) \<Rightarrow> gnode \<Rightarrow> string \<times> string" where
  "flag_identity flt n =
     (py_str flt (data_get (gn_props n) ''subject_ref''), py_str flt (data_get (gn_props n) ''severity''))"

definition pending_critical_flags :: "'w sup_env \<Rightarrow> 'w \<Rightarrow> gnode list" where
  "pending_critical_flags env w =
     (let flt = sue_float_text env;
          resolved = map (flag_identity flt) (gp_list (sue_port env) w ''FlagResolution'')
      in filter (\<lambda>n. flag_identity flt n \<notin> set resolved \<and> prop_is (gn_props n) ''severity'' ''critical'')
           (gp_list (sue_port env) w ''Flag''))"

text \<open>A snapshot is as old as the portfolio run it names, or as its own stamp.\<close>

definition snapshot_when :: "(rat \<Rightarrow> string) \<Rightarrow> gnode \<Rightarrow> (string, string) dict \<Rightarrow> string" where
  "snapshot_when flt snapshot pm_created =
     (let own = data_get (gn_props snapshot) ''created_at''
      in text_or (dict_get pm_created (py_str flt (get_or (gn_props snapshot) ''run_id'' (PStr []))))
           (if py_truth own then py_str flt own else []))"

definition latest_snapshot :: "'w sup_env \<Rightarrow> 'w \<Rightarrow> gnode option" where
  "latest_snapshot env w =
     (let flt = sue_float_text env;
          created = fold (\<lambda>n. dict_set (gn_key n) (py_str flt (get_or (gn_props n) ''created_at'' (PStr []))))
                      (gp_list (sue_port env) w ''PMRun'') []
      in case gp_list (sue_port env) w ''Snapshot'' of
           [] \<Rightarrow> None
         | n # ns \<Rightarrow> Some (first_max (\<lambda>n. (snapshot_when flt n created, gn_key n)) n ns))"

definition run_name :: "'w sup_env \<Rightarrow> gnode \<Rightarrow> ('w, string) step" where
  "run_name env snapshot w =
     (case gp_ancestors (sue_port env) (sue_wall env w) w snapshot (int (length chain_edges)) (Some chain_edges) of
        (w', Inl e) \<Rightarrow> (w', Inl e)
      | (w', Inr upstream) \<Rightarrow>
          (w', Inr (case List.find (\<lambda>n. gn_label n = ''RunRequest'') upstream of
                      None \<Rightarrow> gn_key snapshot
                    | Some rq \<Rightarrow>
                        (let v = data_get (gn_props rq) ''run_id''
                         in if py_truth v then py_str (sue_float_text env) v else gn_key snapshot))))"

definition compute_health :: "'w sup_env \<Rightarrow> ('w, health_fields) step" where
  "compute_health env w =
     (let incidents = length (live_fault_incidents (sue_float_text env) (sue_port env) w);
          pending = length (pending_critical_flags env w);
          fields = (\<lambda>name. \<lparr>hf_healthy = (incidents = 0 \<and> pending = 0), hf_open_incidents = incidents,
                            hf_pending_human_flags = pending, hf_last_successful_run = name\<rparr>)
      in case latest_snapshot env w of
           None \<Rightarrow> (w, Inr (fields None))
         | Some latest \<Rightarrow> step_bind (run_name env latest) (\<lambda>name. step_return (fields (Some name))) w)"

definition failed_health :: health_fields where
  "failed_health = \<lparr>hf_healthy = False, hf_open_incidents = 1, hf_pending_human_flags = 0,
     hf_last_successful_run = None\<rparr>"

definition health_summary :: "health_fields \<Rightarrow> string" where
  "health_summary h =
     (if hf_healthy h then ''System health is green.''
      else str_nat (hf_open_incidents h) @ '' open incidents; ''
        @ str_nat (hf_pending_human_flags h) @ '' pending critical flags.'')"

record master_report =
  mr_health :: health_fields
  mr_summary :: explanation
  mr_provenance :: provenance

definition supervisor_provenance :: "string \<Rightarrow> string option \<Rightarrow> provenance" where
  "supervisor_provenance run_id node =
     \<lparr>pv_run_id = run_id, pv_source_agent = ''supervisor'', pv_correlation_id = None,
      pv_graph_node_id = node, pv_incident_refs = []\<rparr>"

definition make_master_report :: "string \<Rightarrow> health_fields \<Rightarrow> master_report" where
  "make_master_report run_id h =
     \<lparr>mr_health = h, mr_summary = \<lparr>ex_summary = health_summary h, ex_evidence_refs = []\<rparr>,
      mr_provenance = supervisor_provenance run_id None\<rparr>"

text \<open>
  The life of a human-review flag: raised once per subject and severity, pending until exactly it is
  resolved, and not raised again after that.
\<close>

section \<open>Histories of supervisor writes\<close>

datatype sup_op =
    RecordRun string "string list" bool "agent_fault list"
  | ReportFault agent_fault
  | RaiseFlag string string string
  | ResolveFlag string string
  | ResolveSubject string
  | ResolveFault gnode string string

fun sup_apply :: "'w sup_env \<Rightarrow> sup_op \<Rightarrow> ('w, unit) step" where
  "sup_apply env (RecordRun run_id steps completed faults) =
     step_forget (write_dispatch_run env run_id steps completed faults)"
| "sup_apply env (ReportFault f) = step_forget (write_fault env f None)"
| "sup_apply env (RaiseFlag subject sev reason) = step_forget (write_flag env subject sev reason)"
| "sup_apply env (ResolveFlag subject sev) = step_forget (resolve_flag env subject sev)"
| "sup_apply env (ResolveSubject subject) = step_forget (resolve_flag_by_subject env subject)"
| "sup_apply env (ResolveFault f who reason) = step_forget (resolve_fault env f who reason)"

text \<open>A failed operation ends with its fault; the history goes on.\<close>

definition sup_history :: "'w sup_env \<Rightarrow> sup_op list \<Rightarrow> 'w \<Rightarrow> 'w" where
  "sup_history env ops w = fold (\<lambda>op w. fst (sup_apply env op w)) ops w"

fun resolves :: "string \<Rightarrow> string \<Rightarrow> sup_op \<Rightarrow> bool" where
  "resolves subject sev (ResolveFlag s v) = (s = subject \<and> v = sev)"
| "resolves subject sev (ResolveSubject s) = (s = subject)"
| "resolves subject sev op = False"

lemma sup_history_keeps:
  assumes "\<And>op. op \<in> set ops \<Longrightarrow> step_keeps P (sup_apply env op)" "P w"
  shows "P (sup_history env ops w)"
  using assms by (induction ops arbitrary: w) (auto simp: sup_history_def step_keeps_def)

section \<open>What the operations leave of the flags\<close>

definition flag_on :: "string \<Rightarrow> string \<Rightarrow> gnode \<Rightarrow> bool" where
  "flag_on subject sev n \<longleftrightarrow>
     prop_is (gn_props n) ''subject_ref'' subject \<and> prop_is (gn_props n) ''severity'' sev"

definition flag_raised :: "'w sup_env \<Rightarrow> string \<Rightarrow> string \<Rightarrow> 'w \<Rightarrow> bool" where
  "flag_raised env subject sev w \<longleftrightarrow> list_ex (flag_on subject sev) (gp_list (sue_port env) w ''Flag'')"

definition flag_settled :: "'w sup_env \<Rightarrow> string \<Rightarrow> string \<Rightarrow> 'w \<Rightarrow> bool" where
  "flag_settled env subject sev w \<longleftrightarrow>
     (subject, sev) \<in> flag_identity (sue_float_text env) ` set (gp_list (sue_port env) w ''FlagResolution'')"

lemma resolve_first_keeps [intro]:
  assumes "\<And>sev. step_keeps P (resolve_flag env subject sev)"
  shows "step_keeps P (resolve_first env subject ns)"
proof (induction ns)
  case (Cons n ns)
  have "step_keeps P (step_bind (resolve_flag env subject sev) (\<lambda>r. step_return (r \<noteq> None)))" for sev
    using assms by blast
  with Cons show ?case by (auto simp: step_keeps_def Let_def)
qed (simp add: step_keeps_def)

lemma resolve_by_subject_keeps [intro]:
  assumes "\<And>sev. step_keeps P (resolve_flag env subject sev)"
  shows "step_keeps P (resolve_flag_by_subject env subject)"
  using resolve_first_keeps [OF assms]
  by (auto simp: step_keeps_def resolve_flag_by_subject_def)

lemma sup_props_wf:
  "dict_wf [(''run_id'', a), (''step'', b), (''status'', c)]"
  "dict_wf [(''run_id'', a), (''step'', b), (''status'', c), (''created_at'', d)]"
  "dict_wf [(''subject_ref'', a), (''severity'', b), (''reason'', c), (''status'', d), (''created_at'', e)]"
  "dict_wf [(''subject_ref'', a), (''severity'', b), (''resolved_at'', c)]"
  "dict_wf [(''fault_key'', a), (''resolved_at'', b), (''resolved_by'', c), (''resolution_reason'', d)]"
  by (simp_all add: dict_wf_def)

lemma fault_write_wf:
  "dict_wf [(''run_id'', a), (''source_agent'', b), (''source_module'', c), (''capability'', d),
     (''severity'', e), (''error_type'', f), (''message'', g), (''correlation_id'', h)]"
  "dict_wf [(''run_id'', a), (''source_agent'', b), (''source_module'', c), (''capability'', d),
     (''severity'', e), (''error_type'', f), (''message'', g), (''correlation_id'', h),
     (''occurred_at'', i), (''created_at'', j)]"
  by (simp_all add: dict_wf_def)

definition flag_view :: "'w sup_env \<Rightarrow> 'w \<Rightarrow> gnode set \<times> gnode set" where
  "flag_view env w =
     (set (gp_list (sue_port env) w ''Flag''), set (gp_list (sue_port env) w ''FlagResolution''))"

lemma flag_raised_view: "flag_raised env subject sev w \<longleftrightarrow> (\<exists>n \<in> fst (flag_view env w). flag_on subject sev n)"
  by (auto simp: flag_raised_def flag_view_def list_ex_iff)

lemma flag_settled_view: "flag_settled env subject sev w \<longleftrightarrow>
    (subject, sev) \<in> flag_identity (sue_float_text env) ` snd (flag_view env w)"
  by (simp add: flag_settled_def flag_view_def)

definition flag_state :: "'w sup_env \<Rightarrow> ('w \<Rightarrow> bool) \<Rightarrow> (gnode set \<times> gnode set \<Rightarrow> bool) \<Rightarrow> 'w \<Rightarrow> bool" where
  "flag_state env ok R w \<longleftrightarrow> ok w \<and> R (flag_view env w)"

text \<open>
  A predicate of the flags and resolutions that more flags cannot falsify, nor more resolutions
  other than of the subject and severity it watches.
\<close>

definition stable :: "(rat \<Rightarrow> string) \<Rightarrow> (string \<times> string) set \<Rightarrow> (gnode set \<times> gnode set \<Rightarrow> bool) \<Rightarrow> bool" where
  "stable flt watched R \<longleftrightarrow>
     (\<forall>F S n. R (F, S) \<longrightarrow> R (insert n F, S))
     \<and> (\<forall>F S n. R (F, S) \<longrightarrow> flag_identity flt n \<notin> watched \<longrightarrow> R (F, insert n S))"

context listed_store begin

lemma other_label_keeps:
  assumes "sue_port env = port" "label \<noteq> ''Flag''" "label \<noteq> ''FlagResolution''" "dict_wf p"
  shows "step_keeps (flag_state env ok R) (sup_merge env label key p)"
  using assms merge_ok
  by (simp add: step_keeps_def flag_state_def flag_view_def sup_merge_def list_merge_other)

lemma sup_edge_keeps:
  assumes "sue_port env = port"
  shows "step_keeps (flag_state env ok R) (sup_edge env a b t)"
  using assms edge_ok by (simp add: step_keeps_def flag_state_def flag_view_def sup_edge_def list_edge)

lemma write_message_keeps:
  assumes "sue_port env = port"
  shows "step_keeps (flag_state env ok R) (write_message env run_id s status)"
proof -
  note k = other_label_keeps [OF assms, of "''Message''", unfolded step_keeps_def, rule_format]
  show ?thesis by (simp add: step_keeps_def write_message_def Let_def k sup_props_wf)
qed

lemma write_fault_keeps:
  assumes "sue_port env = port"
  shows "step_keeps (flag_state env ok R) (write_fault env f run_id)"
proof -
  note k = other_label_keeps [OF assms, of "''Fault''", unfolded step_keeps_def, rule_format]
  show ?thesis by (simp add: step_keeps_def write_fault_def Let_def k fault_write_wf)
qed

lemma write_dispatch_run_keeps:
  assumes "sue_port env = port"
  shows "step_keeps (flag_state env ok R) (write_dispatch_run env run_id steps completed faults)"
  unfolding write_dispatch_run_def Let_def
  by (intro step_keeps_bind write_nodes_keeps step_keeps_return)
    (auto intro: write_message_keeps [OF assms] write_fault_keeps [OF assms])

lemma resolve_fault_keeps:
  assumes "sue_port env = port"
  shows "step_keeps (flag_state env ok R) (resolve_fault env f who reason)"
proof -
  have "step_keeps (flag_state env ok R)
      (step_bind (sup_merge env ''FaultResolution'' key
        [(''fault_key'', a), (''resolved_at'', b), (''resolved_by'', c), (''resolution_reason'', d)])
        (\<lambda>n. step_bind (sup_edge env n f ''RESOLVES'') (\<lambda>_. step_return n)))" for key a b c d
    by (intro step_keeps_bind other_label_keeps sup_edge_keeps step_keeps_return assms sup_props_wf) simp_all
  note k = this [unfolded step_keeps_def, rule_format]
  show ?thesis by (simp add: step_keeps_def resolve_fault_def Let_def k split: option.split)
qed

lemma write_flag_keeps:
  assumes "sue_port env = port" "stable (sue_float_text env) watched R"
  shows "step_keeps (flag_state env ok R) (write_flag env subject sev reason)"
  unfolding step_keeps_def
proof (intro allI impI)
  fix w assume w: "flag_state env ok R w"
  then have ok: "ok w" by (simp add: flag_state_def)
  let ?p = "[(''subject_ref'', PStr subject), (''severity'', PStr sev), (''reason'', PStr reason),
           (''status'', PStr ''pending''), (''created_at'', PStr (isoformat (sue_wall env w)))]"
  show "flag_state env ok R (fst (write_flag env subject sev reason w))"
  proof (cases "gp_get port w ''Flag'' (flag_key subject sev)")
    case None
    obtain w' r where m: "gp_merge port (sue_wall env w) w ''Flag'' (flag_key subject sev) ?p 1 = (w', r)"
      by (cases "gp_merge port (sue_wall env w) w ''Flag'' (flag_key subject sev) ?p 1")
    have run: "fst (write_flag env subject sev reason w) = w'"
      using None m assms(1) by (simp add: write_flag_def sup_merge_def)
    show ?thesis
      using list_merge_new [OF ok sup_props_wf(3) None m] w assms(2)
      by (cases r) (simp_all add: run flag_state_def flag_view_def stable_def assms(1))
  next
    case (Some n)
    with w assms(1) show ?thesis by (simp add: write_flag_def)
  qed
qed

lemma resolve_flag_keeps:
  assumes "sue_port env = port" "stable (sue_float_text env) watched R" "(subject, sev) \<notin> watched"
  shows "step_keeps (flag_state env ok R) (resolve_flag env subject sev)"
  unfolding step_keeps_def
proof (intro allI impI)
  fix w assume w: "flag_state env ok R w"
  then have ok: "ok w" by (simp add: flag_state_def)
  let ?k = "resolution_key subject sev"
  let ?p = "[(''subject_ref'', PStr subject), (''severity'', PStr sev),
             (''resolved_at'', PStr (isoformat (sue_wall env w)))]"
  show "flag_state env ok R (fst (resolve_flag env subject sev w))"
  proof (cases "gp_get port w ''Flag'' (flag_key subject sev)")
    case None
    with w assms(1) show ?thesis by (simp add: resolve_flag_def)
  next
    case (Some flag)
    show ?thesis
    proof (cases "gp_get port w ''FlagResolution'' ?k")
      case None
      obtain w' r where m: "gp_merge port (sue_wall env w) w ''FlagResolution'' ?k ?p 1 = (w', r)"
        by (cases "gp_merge port (sue_wall env w) w ''FlagResolution'' ?k ?p 1")
      note new = list_merge_new [OF ok sup_props_wf(4) None m]
      show ?thesis
      proof (cases r)
        case (Inl e)
        with new w Some None m assms(1) show ?thesis
          by (simp add: resolve_flag_def sup_merge_def step_bind_def flag_state_def flag_view_def)
      next
        case (Inr n)
        have "holds_props n ?p" using merge_written [OF ok sup_props_wf(4) m [unfolded Inr]] by simp
        then have "flag_identity (sue_float_text env) n = (subject, sev)"
          by (simp add: holds_props_def flag_identity_def data_get_def)
        with new w assms Inr have "flag_state env ok R w'"
          by (simp add: flag_state_def flag_view_def stable_def)
        from this [THEN sup_edge_keeps [OF assms(1), unfolded step_keeps_def, rule_format]]
        show ?thesis using Some None m Inr assms(1)
          by (simp add: resolve_flag_def sup_merge_def step_bind_def step_return_def Let_def
              split: prod.split sum.split)
            (metis fst_conv)
      qed
    next
      case (Some n)
      with w assms(1) \<open>gp_get port w ''Flag'' _ = _\<close> show ?thesis by (simp add: resolve_flag_def)
    qed
  qed
qed

text \<open>Any history of operations keeps what is stable, unless one resolves the subject watched.\<close>

lemma history_keeps:
  assumes "sue_port env = port" "stable (sue_float_text env) watched R" "flag_state env ok R w"
    "\<And>op s v. op \<in> set ops \<Longrightarrow> (s, v) \<in> watched \<Longrightarrow> \<not> resolves s v op"
  shows "flag_state env ok R (sup_history env ops w)"
proof (rule sup_history_keeps [where P = "flag_state env ok R", OF _ assms(3)])
  fix op assume op: "op \<in> set ops"
  show "step_keeps (flag_state env ok R) (sup_apply env op)"
  proof (cases op)
    case (ResolveFlag s v)
    with assms(4) [OF op, of s v] have "(s, v) \<notin> watched" by auto
    with resolve_flag_keeps [OF assms(1, 2)] ResolveFlag show ?thesis
      by (auto intro!: step_keeps_forget)
  next
    case (ResolveSubject s)
    with assms(4) [OF op] have "(s, v) \<notin> watched" for v by auto
    with resolve_flag_keeps [OF assms(1, 2)] ResolveSubject show ?thesis
      by (auto intro!: step_keeps_forget)
  qed (use write_dispatch_run_keeps write_fault_keeps write_flag_keeps resolve_fault_keeps assms(1, 2)
    in \<open>auto intro!: step_keeps_forget\<close>)
qed

end

end
