(* ===== verification/SupervisorGate.thy ===== *)
theory SupervisorGate
  imports SupervisorStore
begin

text \<open>
  The supervisor's intent gate (\<open>agents/supervisor/domain/hard_no.py\<close>, \<open>matrix.py\<close>, \<open>gate.py\<close>, with
  the intents of \<open>contracts/operator.py\<close> and the stages of \<open>contracts/resume.py\<close>) and the agent's
  handlers (\<open>agent.py\<close>).
\<close>

section \<open>Intents\<close>

datatype intent_family = FStatus | FExplain | FApprove | FReject | FModify | FRun | FMode | FStage
  | FPause | FResume

fun family_text :: "intent_family \<Rightarrow> string" where
  "family_text FStatus = ''status''"
| "family_text FExplain = ''explain''"
| "family_text FApprove = ''approve''"
| "family_text FReject = ''reject''"
| "family_text FModify = ''modify''"
| "family_text FRun = ''run''"
| "family_text FMode = ''mode''"
| "family_text FStage = ''stage''"
| "family_text FPause = ''pause''"
| "family_text FResume = ''resume''"

record typed_intent =
  ti_family :: intent_family
  ti_parameters :: "(string, string) dict"
  ti_requires_confirmation :: bool
  ti_provenance :: provenance

record dispatch_result =
  dr_accepted :: bool
  dr_routed_to :: "string option"
  dr_rejection :: "string option"
  dr_provenance :: provenance

definition dispatch_rejected :: "string \<Rightarrow> string \<Rightarrow> dispatch_result" where
  "dispatch_rejected run_id reason =
     \<lparr>dr_accepted = False, dr_routed_to = None, dr_rejection = Some reason,
      dr_provenance = supervisor_provenance run_id None\<rparr>"

section \<open>The hard-NO surface and the capability matrix\<close>

definition param_is :: "typed_intent \<Rightarrow> string \<Rightarrow> string \<Rightarrow> bool" where
  "param_is ti name v \<longleftrightarrow> dict_get (ti_parameters ti) name = Some v"

definition is_hard_no :: "typed_intent \<Rightarrow> bool \<times> string" where
  "is_hard_no ti =
     (if param_is ti ''stage'' ''live'' \<and> ti_family ti = FRun
      then (True, ''live-stage trading is not enabled in this build phase'')
      else if param_is ti ''bypass_gate'' ''true''
      then (True, ''bypassing the capability gate is permanently forbidden'')
      else if param_is ti ''disable_supervisor'' ''true''
      then (True, ''disabling the supervisor is permanently forbidden'')
      else (False, []))"

record route_spec =
  rt_agent :: "string option"
  rt_capability :: "string option"
  rt_available :: bool

definition routed_to :: "route_spec \<Rightarrow> string option" where
  "routed_to r =
     (case (rt_agent r, rt_capability r) of (Some a, Some c) \<Rightarrow> Some (a @ ''.'' @ c) | _ \<Rightarrow> None)"

definition open_route :: "string \<Rightarrow> string \<Rightarrow> route_spec" where
  "open_route agent capability = \<lparr>rt_agent = Some agent, rt_capability = Some capability, rt_available = True\<rparr>"

definition closed_route :: route_spec where
  "closed_route = \<lparr>rt_agent = None, rt_capability = None, rt_available = False\<rparr>"

fun capability_matrix :: "intent_family \<Rightarrow> route_spec" where
  "capability_matrix FStatus = open_route ''reporter'' ''report''"
| "capability_matrix FExplain = open_route ''reporter'' ''narrative''"
| "capability_matrix FRun = open_route ''orchestration'' ''execute_run''"
| "capability_matrix FApprove = open_route ''supervisor'' ''resolve_flag''"
| "capability_matrix FReject = closed_route"
| "capability_matrix FModify = closed_route"
| "capability_matrix FMode = closed_route"
| "capability_matrix FStage = open_route ''execution'' ''promote_stage''"
| "capability_matrix FPause = closed_route"
| "capability_matrix FResume = open_route ''orchestration'' ''resume_run''"

declare capability_matrix.simps [simp del]

definition build_phases :: "(string, string) dict" where
  "build_phases = [(''reject'', ''P7''), (''modify'', ''P7''), (''mode'', ''P8''), (''pause'', ''P8'')]"

definition not_available_reason :: "intent_family \<Rightarrow> string res" where
  "not_available_reason family =
     (case dict_get build_phases (family_text family) of
        None \<Rightarrow> Inl (KeyError (family_text family))
      | Some phase \<Rightarrow> Inr (''not available in current build phase: '' @ family_text family
          @ '' requires '' @ phase))"

section \<open>The gate\<close>

definition resume_stages :: "string list" where
  "resume_stages = [''position_sync'', ''provider'', ''scanner'', ''analyst'', ''pm'', ''execution'',
     ''monitor'', ''reporter'']"

definition broker_resume_stages :: "string list" where
  "broker_resume_stages = [''position_sync'', ''provider'', ''scanner'', ''analyst'', ''pm'', ''execution'']"

definition broker_resume_consequence :: string where
  "broker_resume_consequence = ''re-running from this stage can submit new orders at the broker''"

text \<open>\<open>params.get(a) or params.get(b, "")\<close>.\<close>

definition first_param :: "typed_intent \<Rightarrow> string \<Rightarrow> string \<Rightarrow> string" where
  "first_param ti a b =
     text_or (dict_get (ti_parameters ti) a)
       (case dict_get (ti_parameters ti) b of None \<Rightarrow> [] | Some v \<Rightarrow> v)"

definition confirmed :: "typed_intent \<Rightarrow> bool" where
  "confirmed ti \<longleftrightarrow> param_is ti ''confirmed'' ''true''"

definition needs_confirmation :: "typed_intent \<Rightarrow> bool" where
  "needs_confirmation ti \<longleftrightarrow> ti_requires_confirmation ti \<and> \<not> confirmed ti"

definition resume_stage :: "typed_intent \<Rightarrow> string" where
  "resume_stage ti = first_param ti ''from_stage'' ''stage''"

definition confirmation_reason :: "typed_intent \<Rightarrow> string" where
  "confirmation_reason ti =
     (let base = ''Confirm the typed resume intent to create a superseding child run.''
      in if ti_family ti = FResume \<and> resume_stage ti \<in> set broker_resume_stages
         then base @ '' Broker consequence: '' @ broker_resume_consequence @ ''.''
         else if ti_family ti = FResume then base
         else ''confirmation required - resubmit with confirmed=true'')"

definition ti_run_id :: "typed_intent \<Rightarrow> string" where
  "ti_run_id ti = pv_run_id (ti_provenance ti)"

text \<open>A request of the supervisor on the bus.\<close>

definition ask_agent :: "'w sup_env \<Rightarrow> 'w bus \<Rightarrow> string \<Rightarrow> string \<Rightarrow> props \<Rightarrow> ('w, agent_message) step" where
  "ask_agent env b recipient capability payload w =
     (case new_message (sue_bus_env env) w ''supervisor'' recipient MRequest capability payload None of
        (w1, Inl e) \<Rightarrow> (w1, Inl e)
      | (w1, Inr m) \<Rightarrow> bus_request (sue_bus_env env) b m w1)"

definition error_text :: "'w sup_env \<Rightarrow> agent_message \<Rightarrow> string \<Rightarrow> string" where
  "error_text env m dflt = py_str (sue_float_text env) (get_or (am_payload m) ''message'' (PStr dflt))"

definition dispatch_resume :: "'w sup_env \<Rightarrow> 'w bus option \<Rightarrow> typed_intent \<Rightarrow> ('w, dispatch_result) step" where
  "dispatch_resume env bus ti w =
     (case bus of
        None \<Rightarrow> (w, Inr (dispatch_rejected (ti_run_id ti) ''resume dispatch requires bus context''))
      | Some b \<Rightarrow>
          if resume_stage ti \<notin> set resume_stages
          then (w, Inr (dispatch_rejected (ti_run_id ti) (''invalid resume stage: '' @ resume_stage ti)))
          else
            step_bind (ask_agent env b ''orchestration'' ''resume_run''
              [(''source_run_id'', PStr (case dict_get (ti_parameters ti) ''run_id'' of None \<Rightarrow> [] | Some r \<Rightarrow> r)),
               (''resume_from'', PStr (resume_stage ti))]) (\<lambda>response w1.
              if am_type response = MError
              then (w1, Inr (dispatch_rejected (ti_run_id ti) (error_text env response ''resume placement failed'')))
              else case sue_placement env (am_payload response) of
                Inl e \<Rightarrow> (w1, Inl e)
              | Inr placed \<Rightarrow>
                  step_bind (write_message env (ti_run_id ti) (family_text (ti_family ti)) ''dispatched'') (\<lambda>_.
                  step_return \<lparr>dr_accepted = True, dr_routed_to = Some ''orchestration.resume_run'',
                    dr_rejection = None,
                    dr_provenance = \<lparr>pv_run_id = rpl_child_run_id placed, pv_source_agent = ''orchestration'',
                      pv_correlation_id = None,
                      pv_graph_node_id = Some (''RunRequest:'' @ rpl_node_key placed),
                      pv_incident_refs = []\<rparr>\<rparr>) w1) w)"

definition promote_request_props :: "promote_request \<Rightarrow> props" where
  "promote_request_props rq =
     [(''target_stage'', PStr (stage_text (prq_target rq))), (''reason'', PStr (prq_reason rq)),
      (''confirmed'', PBool (prq_confirmed rq))]"

definition dispatch_stage :: "'w sup_env \<Rightarrow> 'w bus option \<Rightarrow> typed_intent \<Rightarrow> ('w, dispatch_result) step" where
  "dispatch_stage env bus ti w =
     (case bus of
        None \<Rightarrow> (w, Inr (dispatch_rejected (ti_run_id ti) ''stage dispatch requires bus context''))
      | Some b \<Rightarrow>
          (let target = first_param ti ''stage'' ''target''
           in case stage_of_text target of
                None \<Rightarrow> (w, Inr (dispatch_rejected (ti_run_id ti) (''invalid stage target: '' @ target)))
              | Some stage \<Rightarrow>
                  step_bind (ask_agent env b ''execution'' ''promote_stage''
                    (promote_request_props \<lparr>prq_target = stage, prq_confirmed = confirmed ti,
                       prq_reason = ''operator stage request via '' @ pv_source_agent (ti_provenance ti)\<rparr>))
                    (\<lambda>response w1.
                      if am_type response = MError
                      then (w1, Inr (dispatch_rejected (ti_run_id ti) (error_text env response ''stage failed'')))
                      else case sue_stage_answer env (am_payload response) of
                        Inl e \<Rightarrow> (w1, Inl e)
                      | Inr (result, pv) \<Rightarrow>
                          if \<not> prs_accepted result
                          then (w1, Inr (dispatch_rejected (ti_run_id ti) (prs_reason result)))
                          else (w1, Inr \<lparr>dr_accepted = True, dr_routed_to = Some ''execution.promote_stage'',
                                          dr_rejection = None, dr_provenance = pv\<rparr>)) w))"

definition dispatch_message :: "'w sup_env \<Rightarrow> typed_intent \<Rightarrow> ('w, dispatch_result) step" where
  "dispatch_message env ti =
     step_bind (write_message env (ti_run_id ti) (family_text (ti_family ti)) ''dispatched'') (\<lambda>node.
     step_return \<lparr>dr_accepted = True, dr_routed_to = routed_to (capability_matrix (ti_family ti)),
       dr_rejection = None,
       dr_provenance = supervisor_provenance (ti_run_id ti) (Some (''Message:'' @ gn_key node))\<rparr>)"

definition dispatch_intent :: "'w sup_env \<Rightarrow> 'w bus option \<Rightarrow> typed_intent \<Rightarrow> ('w, dispatch_result) step" where
  "dispatch_intent env bus ti w =
     (case is_hard_no ti of
        (True, reason) \<Rightarrow> (w, Inr (dispatch_rejected (ti_run_id ti) reason))
      | (False, _) \<Rightarrow>
          if ti_family ti = FStage then dispatch_stage env bus ti w
          else if needs_confirmation ti
          then step_bind (write_flag env (ti_run_id ti) ''warn'' (confirmation_reason ti)) (\<lambda>_.
                 step_return (dispatch_rejected (ti_run_id ti) (confirmation_reason ti))) w
          else step_bind (if confirmed ti then step_forget (resolve_flag env (ti_run_id ti) ''warn'')
                          else step_return ()) (\<lambda>_ w1.
            if \<not> rt_available (capability_matrix (ti_family ti))
            then (case not_available_reason (ti_family ti) of
                    Inl e \<Rightarrow> (w1, Inl e)
                  | Inr reason \<Rightarrow> (w1, Inr (dispatch_rejected (ti_run_id ti) reason)))
            else step_bind (if ti_family ti = FApprove
                            then step_forget (resolve_flag_by_subject env (first_param ti ''subject'' ''target''))
                            else step_return ()) (\<lambda>_.
              if ti_family ti = FResume then dispatch_resume env bus ti else dispatch_message env ti) w1) w)"

section \<open>The handlers\<close>

text \<open>\<open>fault_boundary(..., reraise=False)\<close>: an exception leaves its fault and the fallback.\<close>

definition sup_guard :: "'w sup_env \<Rightarrow> string \<Rightarrow> 'a \<Rightarrow> ('w, 'a) step \<Rightarrow> 'w \<Rightarrow> 'w \<times> 'a" where
  "sup_guard env capability fallback m w =
     (case m w of (w1, r) \<Rightarrow>
        (fst (fault_boundary (sue_submit env) (sue_wall env w1) ''supervisor'' ''agents.supervisor.agent''
                (Some capability) w1 r),
         case r of Inl e \<Rightarrow> fallback | Inr x \<Rightarrow> x))"

definition accepted_at :: "provenance \<Rightarrow> dispatch_result" where
  "accepted_at pv = \<lparr>dr_accepted = True, dr_routed_to = None, dr_rejection = None, dr_provenance = pv\<rparr>"

definition handle_dispatch_intent :: "'w sup_env \<Rightarrow> 'w bus \<Rightarrow> typed_intent \<Rightarrow> 'w \<Rightarrow> 'w \<times> dispatch_result" where
  "handle_dispatch_intent env b ti =
     sup_guard env ''dispatch_intent'' (dispatch_rejected (ti_run_id ti) ''supervisor dispatch failed'')
       (dispatch_intent env (Some b) ti)"

definition handle_record_dispatch_run ::
  "'w sup_env \<Rightarrow> string \<Rightarrow> string list \<Rightarrow> bool \<Rightarrow> agent_fault list \<Rightarrow> 'w \<Rightarrow> 'w \<times> dispatch_result" where
  "handle_record_dispatch_run env run_id steps completed faults =
     sup_guard env ''record_dispatch_run'' (dispatch_rejected run_id ''supervisor could not record dispatch run'')
       (step_bind (write_dispatch_run env run_id steps completed faults) (\<lambda>pv. step_return (accepted_at pv)))"

definition handle_system_status :: "'w sup_env \<Rightarrow> string option \<Rightarrow> 'w \<Rightarrow> 'w \<times> master_report" where
  "handle_system_status env run_id w =
     (case sup_guard env ''system_status'' failed_health (compute_health env) w of
        (w1, h) \<Rightarrow> (w1, make_master_report (text_or run_id ''system-status'') h))"

definition handle_flag_for_human ::
  "'w sup_env \<Rightarrow> string \<Rightarrow> string \<Rightarrow> string \<Rightarrow> 'w \<Rightarrow> 'w \<times> dispatch_result" where
  "handle_flag_for_human env subject sev reason =
     sup_guard env ''flag_for_human'' (dispatch_rejected subject ''supervisor could not flag'')
       (step_bind (write_flag env subject sev reason) (\<lambda>node.
          step_return (accepted_at (supervisor_provenance subject (Some (''Flag:'' @ gn_key node))))))"

definition handle_report_fault :: "'w sup_env \<Rightarrow> agent_fault \<Rightarrow> 'w \<Rightarrow> 'w \<times> dispatch_result" where
  "handle_report_fault env f =
     sup_guard env ''report_fault'' (dispatch_rejected ''fault'' ''supervisor could not record fault'')
       (step_bind (write_fault env f None) (\<lambda>node.
          step_return (accepted_at (supervisor_provenance (''fault:'' @ gn_key node)
            (Some (gn_label node @ '':'' @ gn_key node))))))"

end
