(* ===== verification/SupervisorSafety.thy ===== *)
theory SupervisorSafety
  imports SupervisorGate
begin

text \<open>
  What the supervisor guarantees: no forbidden or unconfirmed intent is routed, an accepted one goes
  where the capability matrix says, and a critical flag keeps the system unhealthy until it is
  resolved.
\<close>

section \<open>The gate\<close>

lemma closed_reason: "\<not> rt_available (capability_matrix f) \<Longrightarrow> \<exists>reason. not_available_reason f = Inr reason"
  by (cases f) (simp_all add: not_available_reason_def build_phases_def open_route_def capability_matrix.simps)

definition rejected_with :: "dispatch_result \<Rightarrow> string \<Rightarrow> bool" where
  "rejected_with r reason \<longleftrightarrow> \<not> dr_accepted r \<and> dr_routed_to r = None \<and> dr_rejection r = Some reason"

definition accepted_as :: "dispatch_result \<Rightarrow> string option \<Rightarrow> bool" where
  "accepted_as r target \<longleftrightarrow> dr_accepted r \<and> dr_routed_to r = target \<and> dr_rejection r = None"

lemma rejected_with_reason [simp]: "rejected_with (dispatch_rejected run_id reason) reason"
  by (simp add: rejected_with_def dispatch_rejected_def)

lemma dispatch_stage_result:
  assumes "dispatch_stage env bus ti w = (w', Inr r)"
  shows "accepted_as r (Some ''execution.promote_stage'') \<or> (\<exists>reason. rejected_with r reason)"
  using assms
  by (auto simp: dispatch_stage_def Let_def step_bind_Inr rejected_with_def dispatch_rejected_def accepted_as_def
      split: option.splits if_splits sum.splits prod.splits)

lemma dispatch_resume_result:
  assumes "dispatch_resume env bus ti w = (w', Inr r)"
  shows "accepted_as r (Some ''orchestration.resume_run'') \<or> (\<exists>reason. rejected_with r reason)"
  using assms
  by (auto simp: dispatch_resume_def step_bind_Inr step_return_Inr rejected_with_def dispatch_rejected_def
      accepted_as_def split: option.splits if_splits sum.splits)

lemma dispatch_message_result:
  "dispatch_message env ti w = (w', Inr r) \<Longrightarrow> accepted_as r (routed_to (capability_matrix (ti_family ti)))"
  by (auto simp: dispatch_message_def step_bind_Inr step_return_Inr accepted_as_def)

lemma routes [simp]:
  "routed_to (capability_matrix FStage) = Some ''execution.promote_stage''"
  "routed_to (capability_matrix FResume) = Some ''orchestration.resume_run''"
  "rt_available (capability_matrix FStage)"
  by (simp_all add: routed_to_def open_route_def capability_matrix.simps)

text \<open>The shape of every intent that gets past the two refusals.\<close>

lemma dispatch_past_gate:
  assumes "dispatch_intent env bus ti w = (w', Inr r)" "\<not> fst (is_hard_no ti)"
    "ti_family ti = FStage \<or> \<not> needs_confirmation ti"
  shows "rt_available (capability_matrix (ti_family ti)) \<and> accepted_as r (routed_to (capability_matrix (ti_family ti)))
    \<or> (\<exists>reason. rejected_with r reason)"
proof -
  obtain reason where no: "is_hard_no ti = (False, reason)"
    using assms(2) by (cases "is_hard_no ti") simp
  show ?thesis
  proof (cases "ti_family ti = FStage")
    case True
    with assms(1) no dispatch_stage_result [of env bus ti w w' r] show ?thesis
      by (auto simp: dispatch_intent_def)
  next
    case stage: False
    show ?thesis
    proof (cases "rt_available (capability_matrix (ti_family ti))")
      case True
      with assms no stage obtain w2 where
        "(if ti_family ti = FResume then dispatch_resume env bus ti else dispatch_message env ti) w2 = (w', Inr r)"
        by (auto simp: dispatch_intent_def step_bind_Inr)
      with True dispatch_resume_result [of env bus ti w2 w' r] dispatch_message_result [of env ti w2 w' r]
      show ?thesis by (auto split: if_splits)
    next
      case False
      from closed_reason [OF this] obtain why where "not_available_reason (ti_family ti) = Inr why" ..
      with False assms no stage have "r = dispatch_rejected (ti_run_id ti) why"
        by (auto simp: dispatch_intent_def step_bind_Inr)
      then show ?thesis using rejected_with_reason by blast
    qed
  qed
qed


definition sample_sup_env :: "store sup_env" where
  "sample_sup_env = \<lparr>sue_port = mem_port, sue_wall = \<lambda>s. sample_time,
     sue_bus_env = \<lparr>be_new_id = \<lambda>s. (s, ''id''), be_now = \<lambda>s. sample_time, be_submit = \<lambda>s f. s,
       be_record_request = \<lambda>a c ok s. s\<rparr>,
     sue_submit = \<lambda>s f. s, sue_digest = \<lambda>s. s, sue_float_text = \<lambda>q. [], sue_placement = \<lambda>p. Inl (ValueError []),
     sue_stage_answer = \<lambda>p. Inl (ValueError []), sue_max_message_chars = 500\<rparr>"

lemma sample_sup_env_simps [simp]:
  "sue_port sample_sup_env = mem_port" "sue_wall sample_sup_env s = sample_time"
  "sue_submit sample_sup_env s f = s"
  by (simp_all add: sample_sup_env_def)

definition sample_intent :: "intent_family \<Rightarrow> (string, string) dict \<Rightarrow> typed_intent" where
  "sample_intent f ps = \<lparr>ti_family = f, ti_parameters = ps, ti_requires_confirmation = True,
     ti_provenance = supervisor_provenance ''r1'' None\<rparr>"


section \<open>Critical flags\<close>

definition standing :: "(rat \<Rightarrow> string) \<Rightarrow> string \<Rightarrow> string \<Rightarrow> gnode set \<times> gnode set \<Rightarrow> bool" where
  "standing flt subject sev v \<longleftrightarrow>
     (\<exists>n \<in> fst v. flag_on subject sev n) \<and> (subject, sev) \<notin> flag_identity flt ` snd v"

definition closed :: "(rat \<Rightarrow> string) \<Rightarrow> string \<Rightarrow> string \<Rightarrow> gnode set \<times> gnode set \<Rightarrow> bool" where
  "closed flt subject sev v \<longleftrightarrow> (subject, sev) \<in> flag_identity flt ` snd v"

lemma standing_stable: "stable flt {(subject, sev)} (standing flt subject sev)"
  by (auto simp: stable_def standing_def image_iff)

lemma closed_stable: "stable flt {} (closed flt subject sev)"
  by (auto simp: stable_def closed_def)

lemma flag_on_identity: "flag_on subject sev n \<Longrightarrow> flag_identity flt n = (subject, sev)"
  by (simp add: flag_on_def flag_identity_def prop_is_iff data_get_def)

lemma standing_pending:
  assumes "standing (sue_float_text env) subject ''critical'' (flag_view env w)"
  shows "pending_critical_flags env w \<noteq> []"
proof -
  from assms obtain n where n: "n \<in> set (gp_list (sue_port env) w ''Flag'')" "flag_on subject ''critical'' n"
    and free: "(subject, ''critical'') \<notin> flag_identity (sue_float_text env)
      ` set (gp_list (sue_port env) w ''FlagResolution'')"
    by (auto simp: standing_def flag_view_def)
  with flag_on_identity [OF n(2), of "sue_float_text env"] have "n \<in> set (pending_critical_flags env w)"
    by (auto simp: pending_critical_flags_def Let_def flag_on_def image_iff)
  then show ?thesis by force
qed

lemma pending_unhealthy:
  assumes "pending_critical_flags env w \<noteq> []"
  shows "\<not> hf_healthy (mr_health (snd (handle_system_status env run_id w)))"
  using assms
  by (auto simp: handle_system_status_def sup_guard_def make_master_report_def failed_health_def
      compute_health_def Let_def step_bind_def step_return_def split: prod.split sum.split option.split)

context listed_store begin

lemma write_flag_raises:
  assumes "sue_port env = port" "ok w" "gp_get port w ''Flag'' (flag_key subject sev) = None"
    "(subject, sev) \<notin> flag_identity (sue_float_text env) ` snd (flag_view env w)"
    "write_flag env subject sev reason w = (w', Inr n)"
  shows "flag_state env ok (standing (sue_float_text env) subject sev) w'"
proof -
  let ?p = "[(''subject_ref'', PStr subject), (''severity'', PStr sev), (''reason'', PStr reason),
           (''status'', PStr ''pending''), (''created_at'', PStr (isoformat (sue_wall env w)))]"
  have m: "gp_merge port (sue_wall env w) w ''Flag'' (flag_key subject sev) ?p 1 = (w', Inr n)"
    using assms(1, 3, 5) by (simp add: write_flag_def sup_merge_def)
  note new = list_merge_new [OF assms(2) sup_props_wf(3) assms(3) m]
  have "holds_props n ?p" using merge_written [OF assms(2) sup_props_wf(3) m] by simp
  then have "flag_on subject sev n" by (simp add: holds_props_def flag_on_def prop_is_iff)
  with new assms(1, 4) show ?thesis by (simp add: flag_state_def standing_def flag_view_def)
qed

end

text \<open>
  C34. A critical flag stands until it is resolved: once a critical flag was accepted for a subject that
  had none yet and whose critical flag was never resolved, the system status reports the system unhealthy
  after every history of supervisor writes, other flags and resolutions and failed writes included, in
  which that subject's flag is not resolved.  A flag raised again after its resolution is accepted but not
  pending.
\<close>

theorem critical_flag_stands:
  assumes "sue_port env = mem_port" "store_wf s"
    "get_node s ''Flag'' (flag_key subject ''critical'') = None" "\<not> flag_settled env subject ''critical'' s"
    "handle_flag_for_human env subject ''critical'' reason s = (s', r)" "dr_accepted r"
    "\<forall>op \<in> set ops. \<not> resolves subject ''critical'' op"
  shows "\<not> hf_healthy (mr_health (snd (handle_system_status env run_id (sup_history env ops s'))))"
proof -
  obtain n where w: "write_flag env subject ''critical'' reason s = (s', Inr n)"
    using assms(5, 6)
    by (auto simp: handle_flag_for_human_def sup_guard_def step_bind_def step_return_def dispatch_rejected_def
        split: prod.splits sum.splits)
  have start: "flag_state env store_wf (standing (sue_float_text env) subject ''critical'') s'"
    by (rule mem_listed.write_flag_raises [OF assms(1, 2) _ _ w]) (use assms(3, 4) in \<open>auto simp: flag_settled_view\<close>)
  have "flag_state env store_wf (standing (sue_float_text env) subject ''critical'') (sup_history env ops s')"
    by (rule mem_listed.history_keeps [OF assms(1) standing_stable start]) (use assms(7) in auto)
  then show ?thesis by (intro pending_unhealthy standing_pending [where subject = subject]) (simp add: flag_state_def)
qed

lemma critical_flag_stands_witness:
  "\<not> hf_healthy (mr_health (snd (handle_system_status sample_sup_env None
      (sup_history sample_sup_env [RaiseFlag ''y'' ''critical'' [], ResolveSubject ''y'']
        (fst (handle_flag_for_human sample_sup_env ''x'' ''critical'' [] empty_store))))))"
proof (rule critical_flag_stands [where s = empty_store and subject = "''x''" and reason = "[]"])
  let ?run = "handle_flag_for_human sample_sup_env ''x'' ''critical'' [] empty_store"
  show "?run = (fst ?run, snd ?run)" by simp
  show "dr_accepted (snd ?run)"
    by (simp add: handle_flag_for_human_def sup_guard_def step_bind_def step_return_def write_flag_def
        sup_merge_def get_node_def empty_store_def merge_node_def merge_core_def Let_def accepted_at_def)
qed (simp_all add: get_node_def empty_store_def flag_settled_def list_nodes_def store_wf_def)

text \<open>
  C35. And it can be raised only once: after the flag of a subject has been resolved, no history of
  supervisor writes, raising it again included, makes it pending, so the report no longer shows it.
\<close>

theorem resolved_flag_stays_silent:
  assumes "sue_port env = mem_port" "store_wf s" "flag_settled env subject ''critical'' s"
  shows "(subject, ''critical'')
    \<notin> flag_identity (sue_float_text env) ` set (pending_critical_flags env (sup_history env ops s))"
proof -
  have "flag_state env store_wf (closed (sue_float_text env) subject ''critical'') (sup_history env ops s)"
    by (rule mem_listed.history_keeps [OF assms(1) closed_stable])
      (use assms in \<open>auto simp: flag_settled_view flag_state_def closed_def\<close>)
  then show ?thesis
    by (auto simp: flag_state_def closed_def flag_view_def pending_critical_flags_def Let_def)
qed

lemma resolved_flag_stays_silent_witness:
  "let s = fst (merge_node sample_time empty_store ''FlagResolution'' ''k''
             [(''subject_ref'', PStr ''x''), (''severity'', PStr ''critical'')] 1)
   in (''x'', ''critical'') \<notin> flag_identity (\<lambda>q. [])
        ` set (pending_critical_flags sample_sup_env (sup_history sample_sup_env [RaiseFlag ''x'' ''critical'' []] s))"
proof -
  let ?s = "fst (merge_node sample_time empty_store ''FlagResolution'' ''k''
             [(''subject_ref'', PStr ''x''), (''severity'', PStr ''critical'')] 1)"
  have wf: "store_wf ?s" by (rule merge_node_wf) (simp_all add: dict_wf_def)
  have "st_nodes ?s = [((''FlagResolution'', ''k''), make_node ''FlagResolution'' ''k''
      [(''subject_ref'', PStr ''x''), (''severity'', PStr ''critical'')] 1)]"
    by (simp add: merge_node_def merge_core_def empty_store_def Let_def)
  then have "flag_settled sample_sup_env ''x'' ''critical'' ?s"
    by (simp add: flag_settled_def list_nodes_def flag_identity_def data_get_def)
  from resolved_flag_stays_silent [OF sample_sup_env_simps(1) wf this]
  show ?thesis by (simp add: sample_sup_env_def Let_def)
qed

end
