(* ===== verification/SupervisedStage.thy ===== *)
theory SupervisedStage
  imports SupervisorSafety
begin

text \<open>
  A stage change from end to end: the operator's intent at the supervisor's gate, the request on the
  bus, and the promotion gate of execution that answers it, over one graph.
\<close>

text \<open>
  Execution serves \<open>promote_stage\<close> on the bus, and the two validations of the messages between it and
  the supervisor read back what was dumped.
\<close>

definition serves_stage ::
  "'w sup_env \<Rightarrow> 'w stage_env \<Rightarrow> (promote_request, promote_result) capability \<Rightarrow> 'w bus \<Rightarrow> bool" where
  "serves_stage env senv cap b \<longleftrightarrow>
     dict_get (bus_handlers b) (''execution'', ''promote_stage'') = Some (bus_handler cap (promote_stage senv))
     \<and> caller_authorized (case dict_get (bus_allowed b) (''execution'', ''promote_stage'') of
         None \<Rightarrow> [] | Some a \<Rightarrow> a) ''supervisor''
     \<and> sge_port senv = sue_port env
     \<and> (\<forall>rq. cap_request cap (promote_request_props rq) = Inr rq)
     \<and> (\<forall>r. \<exists>p pv. cap_response cap r = Inr p \<and> sue_stage_answer env p = Inr (r, pv))"

text \<open>What leaves the graph alone: drawing a message id, reporting a fault.\<close>

definition quiet :: "'w graph_port \<Rightarrow> ('w \<Rightarrow> 'w) \<Rightarrow> bool" where
  "quiet port f \<longleftrightarrow> (\<forall>w. gp_get port (f w) = gp_get port w \<and> gp_list port (f w) = gp_list port w)"

definition quiet_ids :: "'w sup_env \<Rightarrow> bool" where
  "quiet_ids env \<longleftrightarrow> quiet (sue_port env) (\<lambda>w. fst (be_new_id (sue_bus_env env) w))"

definition quiet_sink :: "'w sup_env \<Rightarrow> bool" where
  "quiet_sink env \<longleftrightarrow> (\<forall>f. quiet (sue_port env) (\<lambda>w. sue_submit env w f))"

definition stage_now :: "'w stage_env \<Rightarrow> 'w \<Rightarrow> execution_stage" where
  "stage_now senv w =
     current_stage_from_graph (sge_float_text senv) (sge_port senv) w (ss_stage (sge_settings senv))"

lemma quiet_stage:
  assumes "quiet_ids env" "sge_port senv = sue_port env"
  shows "stage_now senv (fst (be_new_id (sue_bus_env env) w)) = stage_now senv w"
  using assms by (simp add: quiet_ids_def quiet_def stage_now_def current_stage_from_graph_def Let_def)

text \<open>The request the gate sends is a valid message, so the bus answers it with what the handler did.\<close>

definition stage_message :: "'w sup_env \<Rightarrow> 'w \<Rightarrow> promote_request \<Rightarrow> agent_message" where
  "stage_message env w rq =
     (let (w1, i) = be_new_id (sue_bus_env env) w
      in \<lparr>am_id = i, am_sent_at = be_now (sue_bus_env env) w1, am_sender = ''supervisor'',
          am_recipient = ''execution'', am_type = MRequest, am_capability = ''promote_stage'',
          am_payload = promote_request_props rq, am_correlation_id = None\<rparr>)"

lemma stage_message_simps [simp]:
  "am_recipient (stage_message env w rq) = ''execution''" "am_sender (stage_message env w rq) = ''supervisor''"
  "am_capability (stage_message env w rq) = ''promote_stage''"
  "am_payload (stage_message env w rq) = promote_request_props rq"
  by (simp_all add: stage_message_def split: prod.split)

lemma stage_message_valid: "valid_message (stage_message env w rq)"
  by (simp add: stage_message_def valid_message_def validate_message_def str_strip_def is_space_def
      split: prod.split)

lemma ask_stage:
  "ask_agent env b ''execution'' ''promote_stage'' (promote_request_props rq) w
     = bus_request (sue_bus_env env) b (stage_message env w rq) (fst (be_new_id (sue_bus_env env) w))"
  using stage_message_valid [of env w rq]
  by (auto simp: ask_agent_def new_message_def stage_message_def valid_message_def split: prod.splits)

text \<open>What the bus answers, by the outcome of the promotion.\<close>

lemma stage_outcome:
  assumes "serves_stage env senv cap b" "promote_stage senv rq w = (w1, r)"
  shows "rpc_outcome (sue_bus_env env) b (stage_message env v rq) w =
     (case r of
        Inl e \<Rightarrow> (be_submit (sue_bus_env env) w1 (fault_from_exception (be_now (sue_bus_env env) w1) ''execution''
                   ''kernel.bus'' (Some ''promote_stage'') Error None [] e), Inl (exn_type e, exn_text e))
      | Inr x \<Rightarrow> (w1, Inr (case cap_response cap x of Inr p \<Rightarrow> p | Inl e \<Rightarrow> [])))"
proof -
  have "\<exists>p. cap_response cap x = Inr p" for x using assms(1) by (auto simp: serves_stage_def)
  then show ?thesis using assms
    by (auto simp: rpc_outcome_def serves_stage_def bus_handler_def split: sum.splits)
      (metis sum.distinct(1))
qed

lemma stage_request:
  assumes "serves_stage env senv cap b"
    "ask_agent env b ''execution'' ''promote_stage'' (promote_request_props rq) w = (w', Inr a)"
    "am_type a \<noteq> MError"
  shows "\<exists>w1 x pv. promote_stage senv rq (fst (be_new_id (sue_bus_env env) w)) = (w1, Inr x)
    \<and> sue_stage_answer env (am_payload a) = Inr (x, pv)"
proof -
  let ?m = "stage_message env w rq" and ?w = "fst (be_new_id (sue_bus_env env) w)"
  obtain w1 r where p: "promote_stage senv rq ?w = (w1, r)" by (rule prod.exhaust)
  obtain w2 out where o: "rpc_outcome (sue_bus_env env) b ?m ?w = (w2, out)" by (rule prod.exhaust)
  from dispatch_outcome [OF stage_message_valid o] assms(2)
  have "(am_type a, am_payload a) = outcome_payload out"
    by (auto simp: ask_stage bus_request_def)
  with assms(3) have out: "out = Inr (am_payload a)" by (cases out) auto
  with stage_outcome [OF assms(1) p, of w] o obtain x where
    x: "r = Inr x" "am_payload a = (case cap_response cap x of Inr p \<Rightarrow> p | Inl e \<Rightarrow> [])"
    by (auto split: sum.splits)
  have "\<exists>q pv. cap_response cap x = Inr q \<and> sue_stage_answer env q = Inr (x, pv)"
    using assms(1) by (simp add: serves_stage_def)
  with x p show ?thesis by auto
qed

lemma dispatch_stage_accepted:
  assumes "dispatch_intent env (Some b) ti w = (w', Inr r)" "ti_family ti = FStage" "dr_accepted r"
  shows "\<exists>target response w1 result pv. stage_of_text (first_param ti ''stage'' ''target'') = Some target
    \<and> ask_agent env b ''execution'' ''promote_stage'' (promote_request_props
        \<lparr>prq_target = target, prq_confirmed = confirmed ti,
         prq_reason = ''operator stage request via '' @ pv_source_agent (ti_provenance ti)\<rparr>) w = (w1, Inr response)
    \<and> am_type response \<noteq> MError \<and> sue_stage_answer env (am_payload response) = Inr (result, pv)
    \<and> prs_accepted result"
proof -
  have "dispatch_stage env (Some b) ti w = (w', Inr r)"
    using assms by (auto simp: dispatch_intent_def dispatch_rejected_def split: prod.splits bool.splits)
  with assms(3) show ?thesis
    by (auto simp: dispatch_stage_def Let_def step_bind_Inr dispatch_rejected_def
        split: option.splits if_splits sum.splits prod.splits)
qed

text \<open>
  A stage change the operator's intent brings about was allowed from end to end: when the
  supervisor reports a stage intent accepted, execution, asked over the bus, moved to the stage the
  intent names, which is a lower one, or exactly the next one, never the autopilot, and then the
  intent carried the operator's confirmation and the graph the resolution of the flag that asks for
  this promotion.
\<close>

lemma supervised_promotion:
  assumes "serves_stage env senv cap b" "quiet_ids env"
    "dispatch_intent env (Some b) ti w = (w', Inr r)" "ti_family ti = FStage" "dr_accepted r"
  shows "\<exists>target. stage_of_text (first_param ti ''stage'' ''target'') = Some target
    \<and> (target < stage_now senv w
       \<or> stage_index target = stage_index (stage_now senv w) + 1 \<and> target \<noteq> LiveAutopilot \<and> confirmed ti
         \<and> gp_get (sue_port env) w ''FlagResolution'' (resolution_key (subject_ref_of target) ''info'') \<noteq> None)"
proof -
  have port: "sge_port senv = sue_port env" using assms(1) by (simp add: serves_stage_def)
  from dispatch_stage_accepted [OF assms(3-5)] obtain target response w1 result pv where
    target: "stage_of_text (first_param ti ''stage'' ''target'') = Some target"
    and ask: "ask_agent env b ''execution'' ''promote_stage'' (promote_request_props
        \<lparr>prq_target = target, prq_confirmed = confirmed ti,
         prq_reason = ''operator stage request via '' @ pv_source_agent (ti_provenance ti)\<rparr>) w = (w1, Inr response)"
      "am_type response \<noteq> MError"
    and result: "sue_stage_answer env (am_payload response) = Inr (result, pv)" "prs_accepted result"
    by (elim exE conjE)
  from stage_request [OF assms(1) ask] result obtain w2 where
    run: "promote_stage senv \<lparr>prq_target = target, prq_confirmed = confirmed ti,
         prq_reason = ''operator stage request via '' @ pv_source_agent (ti_provenance ti)\<rparr>
         (fst (be_new_id (sue_bus_env env) w)) = (w2, Inr result)"
    by auto
  from promote_accepted [OF run result(2) refl] assms(2) port
  have "target < stage_now senv w
       \<or> stage_index target = stage_index (stage_now senv w) + 1 \<and> target \<noteq> LiveAutopilot \<and> confirmed ti
         \<and> gp_get (sue_port env) w ''FlagResolution'' (resolution_key (subject_ref_of target) ''info'') \<noteq> None"
    unfolding stage_now_def [symmetric] quiet_stage [OF assms(2) port]
    by (auto simp: resolution_key_def flag_key_def subject_ref_of_def quiet_ids_def quiet_def)
  with target show ?thesis by blast
qed

section \<open>An approved promotion goes through\<close>

text \<open>On the in-memory store the resolution of a flag that is there never fails.\<close>

lemma mem_resolve_flag:
  assumes "sue_port env = mem_port" "store_wf s"
  shows "\<exists>s' r. resolve_flag env subject sev s = (s', Inr r) \<and> store_wf s'
    \<and> (\<forall>l. l \<noteq> ''FlagResolution'' \<longrightarrow> list_nodes s' l = list_nodes s l \<and> get_node s' l = get_node s l)
    \<and> (get_node s ''Flag'' (flag_key subject sev) \<noteq> None \<longrightarrow>
         get_node s' ''FlagResolution'' (resolution_key subject sev) \<noteq> None)"
proof (cases "get_node s ''Flag'' (flag_key subject sev)")
  case None
  with assms show ?thesis by (simp add: resolve_flag_def)
next
  case (Some flag)
  then have flag: "gn_label flag = ''Flag''" "gn_key flag = flag_key subject sev"
    using store_wf_node [OF assms(2), of "(''Flag'', flag_key subject sev)"]
    by (simp_all add: get_node_def node_wf_def node_key_of_def)
  let ?k = "resolution_key subject sev"
  show ?thesis
  proof (cases "get_node s ''FlagResolution'' ?k")
    case None
    let ?p = "[(''subject_ref'', PStr subject), (''severity'', PStr sev),
               (''resolved_at'', PStr (isoformat (sue_wall env s)))]"
    let ?n = "make_node ''FlagResolution'' ?k ?p 1"
    let ?s = "s\<lparr>st_nodes := st_nodes s @ [((''FlagResolution'', ?k), ?n)]\<rparr>"
    have m: "merge_node (sue_wall env s) s ''FlagResolution'' ?k ?p 1 = (?s, Inr ?n)"
      by (rule mem_merge_new [OF None])
    have wf: "store_wf ?s" using merge_node_wf [OF assms(2) sup_props_wf(4)] m by (metis fst_conv)
    have "get_node ?s ''FlagResolution'' ?k \<noteq> None" "get_node ?s ''Flag'' (flag_key subject sev) \<noteq> None"
      using Some by (simp_all add: get_node_def map_of_append map_add_Some_iff split: option.split)
    then obtain edges where e: "add_edge (sue_wall env ?s) ?s ?n flag ''RESOLVES'' None
        = (?s\<lparr>st_edges := edges\<rparr>, Inr ())"
      using mem_add_edge_ok [where s = "?s" and a = "?n" and b = flag and now = "sue_wall env ?s"
          and t = "''RESOLVES''" and q = None]
      by (simp only: make_node_simps flag) blast
    have "store_wf (?s\<lparr>st_edges := edges\<rparr>)"
      using add_edge_wf [OF wf, of "sue_wall env ?s" ?n flag "''RESOLVES''" None] by (simp only: e fst_conv)
    moreover have "resolve_flag env subject sev s = (?s\<lparr>st_edges := edges\<rparr>, Inr (Some ?n))"
      using Some None m e assms(1)
      by (simp add: resolve_flag_def sup_merge_def sup_edge_def step_bind_def step_return_def Let_def)
    ultimately show ?thesis
      by (auto simp: list_nodes_def get_node_def map_add_def fun_eq_iff split: option.split)
  next
    case (Some r)
    with assms \<open>get_node s ''Flag'' _ = _\<close> show ?thesis by (simp add: resolve_flag_def)
  qed
qed

text \<open>What approving a promotion has to reach: its flag is resolved, the stage is as before.\<close>

definition approved_from :: "string \<Rightarrow> store \<Rightarrow> store \<Rightarrow> bool" where
  "approved_from key s s' \<longleftrightarrow> store_wf s' \<and> get_node s' ''FlagResolution'' key \<noteq> None
     \<and> list_nodes s' ''StageTransition'' = list_nodes s ''StageTransition''
     \<and> get_node s' ''StageTransition'' = get_node s ''StageTransition''"

lemma write_message_approved:
  assumes "sue_port env = mem_port"
  shows "step_keeps (approved_from key s) (write_message env run_id step status)"
proof -
  have keep: "approved_from key s (fst (merge_node now s' ''Message'' k p 1))"
    if "approved_from key s s'" "dict_wf p" for now s' k p
    using that merge_node_wf [of s' p now "''Message''" k 1] mem_merge_list_other [of s' "''StageTransition''" "''Message''"]
      merge_node_other [of "''StageTransition''" _ "''Message''" k now s' p 1]
      merge_node_other [of "''FlagResolution''" key "''Message''" k now s' p 1]
    by (auto simp: approved_from_def fun_eq_iff)
  then show ?thesis
    by (simp add: step_keeps_def write_message_def sup_merge_def assms sup_props_wf Let_def keep)
qed

lemma mem_resolve_first:
  assumes "sue_port env = mem_port" "store_wf s"
    "\<forall>n \<in> set ns. prop_is (gn_props n) ''subject_ref'' subject \<longrightarrow> prop_is (gn_props n) ''severity'' sev"
    "get_node s ''Flag'' (flag_key subject sev) \<noteq> None"
    "get_node s ''FlagResolution'' (resolution_key subject sev) \<noteq> None \<or> (\<exists>n \<in> set ns. flag_on subject sev n)"
  shows "\<exists>s' r. resolve_first env subject ns s = (s', Inr r) \<and> approved_from (resolution_key subject sev) s s'"
  using assms(3, 5)
proof (induction ns)
  case Nil
  with assms(2) show ?case by (intro exI [of _ s] exI [of _ False]) (simp add: approved_from_def)
next
  case (Cons n ns)
  show ?case
  proof (cases "prop_is (gn_props n) ''subject_ref'' subject
      \<and> get_node s ''FlagResolution'' (resolution_key subject sev) = None")
    case True
    with Cons.prems(1) have "py_str (sue_float_text env) (get_or (gn_props n) ''severity'' (PStr ''critical'')) = sev"
      by (simp add: prop_is_iff get_or_def)
    moreover obtain s' r where "resolve_flag env subject sev s = (s', Inr r)"
      "approved_from (resolution_key subject sev) s s'"
      using mem_resolve_flag [OF assms(1, 2), of subject sev] assms(4) by (auto simp: approved_from_def)
    ultimately show ?thesis using True assms(1)
      by (simp add: Let_def step_bind_def step_return_def)
  next
    case False
    then have "resolve_first env subject (n # ns) s = resolve_first env subject ns s"
      using Cons.prems(1) assms(1) by (auto simp: prop_is_iff get_or_def)
    moreover have "get_node s ''FlagResolution'' (resolution_key subject sev) \<noteq> None
        \<or> (\<exists>n \<in> set ns. flag_on subject sev n)"
      using False Cons.prems(2) by (auto simp: flag_on_def)
    ultimately show ?thesis using Cons by auto
  qed
qed

lemma approve_resolves:
  assumes "sue_port env = mem_port" "quiet_sink env" "store_wf s" "subject \<noteq> []"
    "\<forall>n \<in> set (list_nodes s ''Flag''). prop_is (gn_props n) ''subject_ref'' subject
       \<longrightarrow> prop_is (gn_props n) ''severity'' sev"
    "get_node s ''Flag'' (flag_key subject sev) = Some f" "flag_on subject sev f"
    "ti_family a = FApprove" "\<not> fst (is_hard_no a)" "\<not> needs_confirmation a"
    "first_param a ''subject'' ''target'' = subject"
  shows "approved_from (resolution_key subject sev) s (fst (dispatch_intent env bus a s))"
proof -
  obtain why where no: "is_hard_no a = (False, why)" using assms(9) by (cases "is_hard_no a") simp
  obtain s1 where first: "(if confirmed a then step_forget (resolve_flag env (ti_run_id a) ''warn'')
      else step_return ()) s = (s1, Inr ())" and wf1: "store_wf s1"
    and same: "\<forall>l. l \<noteq> ''FlagResolution'' \<longrightarrow> list_nodes s1 l = list_nodes s l \<and> get_node s1 l = get_node s l"
    using mem_resolve_flag [OF assms(1, 3), of "ti_run_id a" "''warn''"] assms(3)
    by (cases "confirmed a") (auto simp: step_forget_def step_bind_def step_return_def)
  have "gn_label f = ''Flag''" "gn_key f = flag_key subject sev"
    using store_wf_node [OF assms(3), of "(''Flag'', flag_key subject sev)"] assms(6)
    by (simp_all add: get_node_def node_wf_def node_key_of_def)
  then have "f \<in> set (list_nodes s1 ''Flag'')"
    using mem_list_iff [OF wf1, of f "''Flag''"] same assms(6) by simp
  then obtain s2 r where second: "resolve_flag_by_subject env subject s1 = (s2, Inr r)"
    and over: "approved_from (resolution_key subject sev) s1 s2"
    using mem_resolve_first [OF assms(1) wf1, of "list_nodes s1 ''Flag''" subject sev] assms(1, 4-7) same
    by (auto simp: resolve_flag_by_subject_def)
  from over same have s2: "approved_from (resolution_key subject sev) s s2"
    by (simp add: approved_from_def)
  have "fst (dispatch_intent env bus a s) = fst (dispatch_message env a s2)"
    using assms(8, 10, 11) no first second
    by (simp add: dispatch_intent_def step_bind_def step_forget_def step_return_def
        capability_matrix.simps open_route_def)
  moreover have "step_keeps (approved_from (resolution_key subject sev) s) (dispatch_message env a)"
    unfolding dispatch_message_def
    by (intro step_keeps_bind write_message_approved step_keeps_return assms(1))
  ultimately show ?thesis using s2 by (simp add: step_keeps_def)
qed

text \<open>The next stage, confirmed and on record, at an instant no transition is stamped with.\<close>

lemma promote_confirmed:
  assumes "sge_port senv = mem_port" "is_valid_promotion (stage_now senv w) (prq_target rq)" "prq_confirmed rq"
    "get_node w ''FlagResolution'' (resolution_key (subject_ref_of (prq_target rq)) ''info'') \<noteq> None"
    "get_node w ''StageTransition'' (''stage:'' @ stage_text (prq_target rq) @ '':'' @ isoformat (sge_wall senv w)) = None"
  shows "\<exists>w' x. promote_stage senv rq w = (w', Inr x) \<and> prs_accepted x"
proof -
  have "\<not> is_valid_demotion (stage_now senv w) (prq_target rq)"
    using assms(2) by (simp add: is_valid_demotion_def is_valid_promotion_def less_execution_stage_def)
  with assms show ?thesis
    by (simp add: promote_stage_def stage_now_def flag_resolved_def resolution_key_def flag_key_def
        stage_transition_def write_stage_transition_def mem_merge_new stage_result_def Let_def)
qed

lemma stage_answered:
  assumes "serves_stage env senv cap b"
    "promote_stage senv rq (fst (be_new_id (sue_bus_env env) w)) = (w1, Inr x)"
  shows "\<exists>w' a pv. ask_agent env b ''execution'' ''promote_stage'' (promote_request_props rq) w = (w', Inr a)
    \<and> am_type a \<noteq> MError \<and> sue_stage_answer env (am_payload a) = Inr (x, pv)"
proof -
  obtain p pv where p: "cap_response cap x = Inr p" "sue_stage_answer env p = Inr (x, pv)"
    using assms(1) unfolding serves_stage_def by blast
  from stage_outcome [OF assms, of w] p(1)
  have "rpc_outcome (sue_bus_env env) b (stage_message env w rq) (fst (be_new_id (sue_bus_env env) w)) = (w1, Inr p)"
    by simp
  from dispatch_outcome [OF stage_message_valid this] p(2) show ?thesis
    by (auto simp: ask_stage bus_request_def)
qed

lemma dispatch_stage_goes:
  assumes "serves_stage env senv cap b"
    "ti_family t = FStage" "\<not> fst (is_hard_no t)" "confirmed t"
    "first_param t ''stage'' ''target'' = stage_text target"
    "promote_stage senv \<lparr>prq_target = target, prq_confirmed = confirmed t,
       prq_reason = ''operator stage request via '' @ pv_source_agent (ti_provenance t)\<rparr>
       (fst (be_new_id (sue_bus_env env) w)) = (w1, Inr x)" "prs_accepted x"
  shows "\<exists>w2 r. dispatch_intent env (Some b) t w = (w2, Inr r)
    \<and> accepted_as r (Some ''execution.promote_stage'')"
proof -
  obtain why where no: "is_hard_no t = (False, why)" using assms(3) by (cases "is_hard_no t") simp
  from stage_answered [OF assms(1, 6)] obtain w2 m pv where
    "ask_agent env b ''execution'' ''promote_stage'' (promote_request_props
       \<lparr>prq_target = target, prq_confirmed = confirmed t,
        prq_reason = ''operator stage request via '' @ pv_source_agent (ti_provenance t)\<rparr>) w = (w2, Inr m)"
      "am_type m \<noteq> MError" "sue_stage_answer env (am_payload m) = Inr (x, pv)"
    by (elim exE conjE)
  with assms(7) show ?thesis
    by (simp add: dispatch_intent_def no assms(2, 5) dispatch_stage_def step_bind_def accepted_as_def)
qed

text \<open>
  And an approved promotion goes through: on the in-memory graph, when the one flag of a promotion
  is pending, an approve intent for it, whatever the answer it gets, followed by a confirmed stage
  intent naming the next stage is accepted, with no other step needed; the fault sink and the drawing
  of message ids leave the graph alone, and no transition is stamped with that very instant.
\<close>

lemma approved_promotion_applied:
  assumes "sue_port env = mem_port" "serves_stage env senv cap b" "quiet_ids env" "quiet_sink env" "store_wf s"
    "is_valid_promotion (stage_now senv s) target"
    "get_node s ''Flag'' (flag_key (subject_ref_of target) ''info'') = Some f"
    "\<forall>n \<in> set (list_nodes s ''Flag''). prop_is (gn_props n) ''subject_ref'' (subject_ref_of target)
       \<longrightarrow> prop_is (gn_props n) ''severity'' ''info''"
    "flag_on (subject_ref_of target) ''info'' f"
    "\<forall>at. get_node s ''StageTransition'' (''stage:'' @ stage_text target @ '':'' @ at) = None"
    "ti_family a = FApprove" "\<not> fst (is_hard_no a)" "\<not> needs_confirmation a"
    "first_param a ''subject'' ''target'' = subject_ref_of target"
    "ti_family t = FStage" "\<not> fst (is_hard_no t)" "confirmed t"
    "first_param t ''stage'' ''target'' = stage_text target"
  shows "accepted_as (snd (handle_dispatch_intent env b t (fst (handle_dispatch_intent env b a s))))
           (Some ''execution.promote_stage'')"
proof -
  have port: "sge_port senv = mem_port" using assms(1, 2) by (simp add: serves_stage_def)
  let ?s1 = "fst (handle_dispatch_intent env b a s)"
  let ?s2 = "fst (be_new_id (sue_bus_env env) ?s1)"
  let ?rq = "\<lparr>prq_target = target, prq_confirmed = confirmed t,
     prq_reason = ''operator stage request via '' @ pv_source_agent (ti_provenance t)\<rparr>"
  have "subject_ref_of target \<noteq> []" by (simp add: subject_ref_of_def)
  from approve_resolves [OF assms(1, 4, 5) this assms(8, 7, 9, 11-14)]
  have resolved: "approved_from (resolution_key (subject_ref_of target) ''info'') s
      (fst (dispatch_intent env (Some b) a s))" .
  have sink: "get_node (sue_submit env w g) = get_node w" "list_nodes (sue_submit env w g) = list_nodes w"
    for w g using assms(1, 4) by (simp_all add: quiet_sink_def quiet_def)
  have s1: "get_node ?s1 = get_node (fst (dispatch_intent env (Some b) a s))"
    "list_nodes ?s1 = list_nodes (fst (dispatch_intent env (Some b) a s))"
    by (cases "dispatch_intent env (Some b) a s"; cases "snd (dispatch_intent env (Some b) a s)";
        simp add: handle_dispatch_intent_def sup_guard_def Let_def sink)+
  have s2: "get_node ?s2 = get_node ?s1" "list_nodes ?s2 = list_nodes ?s1"
    using assms(1, 3) by (simp_all add: quiet_ids_def quiet_def)
  have "stage_now senv ?s2 = stage_now senv s"
    using resolved by (simp add: stage_now_def current_stage_from_graph_def port s1 s2 approved_from_def)
  with assms(6, 10, 17) resolved obtain w1 x where
    x: "promote_stage senv ?rq ?s2 = (w1, Inr x)" "prs_accepted x"
    using promote_confirmed [OF port, of ?s2 ?rq] by (auto simp: s1 s2 approved_from_def)
  from dispatch_stage_goes [OF assms(2, 15-18) x] obtain w2 r where
    "dispatch_intent env (Some b) t ?s1 = (w2, Inr r)" "accepted_as r (Some ''execution.promote_stage'')"
    by (elim exE conjE)
  then show ?thesis
    by (simp add: handle_dispatch_intent_def [of env b t] sup_guard_def accepted_as_def)
qed

section \<open>A sample round\<close>

text \<open>Messages dumped field by field and read back.\<close>

definition sample_request_of :: "props \<Rightarrow> promote_request res" where
  "sample_request_of p =
     (case (dict_get p ''target_stage'', dict_get p ''reason'', dict_get p ''confirmed'') of
        (Some (PStr t), Some (PStr r), Some (PBool c)) \<Rightarrow>
          (case stage_of_text t of None \<Rightarrow> Inl (ValueError t)
           | Some st \<Rightarrow> Inr \<lparr>prq_target = st, prq_confirmed = c, prq_reason = r\<rparr>)
      | _ \<Rightarrow> Inl (ValueError []))"

definition sample_result_props :: "promote_result \<Rightarrow> props" where
  "sample_result_props r =
     [(''accepted'', PBool (prs_accepted r)), (''previous'', PStr (stage_text (prs_previous r))),
      (''current'', PStr (stage_text (prs_current r))), (''reason'', PStr (prs_reason r)),
      (''node'', opt_str (prs_node_id r))]"

definition sample_result_of :: "props \<Rightarrow> (promote_result \<times> provenance) res" where
  "sample_result_of p =
     (case (dict_get p ''accepted'', dict_get p ''previous'', dict_get p ''current'', dict_get p ''reason'',
            dict_get p ''node'') of
        (Some (PBool a), Some (PStr f), Some (PStr t), Some (PStr r), Some n) \<Rightarrow>
          (case (stage_of_text f, stage_of_text t) of
             (Some fs, Some ts) \<Rightarrow>
               Inr (\<lparr>prs_accepted = a, prs_previous = fs, prs_current = ts, prs_reason = r,
                     prs_node_id = (case n of PStr i \<Rightarrow> Some i | _ \<Rightarrow> None)\<rparr>, supervisor_provenance [] None)
           | _ \<Rightarrow> Inl (ValueError []))
      | _ \<Rightarrow> Inl (ValueError []))"

lemma sample_result_roundtrip:
  "sample_result_of (sample_result_props r) = Inr (r, supervisor_provenance [] None)"
  by (simp add: sample_result_of_def sample_result_props_def opt_str_def split: option.split)

definition sample_cap :: "(promote_request, promote_result) capability" where
  "sample_cap = \<lparr>cap_name = ''promote_stage'', cap_summary = [], cap_request = sample_request_of,
     cap_response = \<lambda>r. Inr (sample_result_props r), cap_mcp = False, cap_allowed_callers = []\<rparr>"

definition stage_sup_env :: "store sup_env" where
  "stage_sup_env = sample_sup_env\<lparr>sue_stage_answer := sample_result_of\<rparr>"

definition stage_bus :: "store bus" where
  "stage_bus = bus_register new_bus ''execution'' ''promote_stage''
     (bus_handler sample_cap (promote_stage sample_stage_env)) []"

lemma sample_serves: "serves_stage stage_sup_env sample_stage_env sample_cap stage_bus"
proof -
  have "sample_request_of (promote_request_props rq) = Inr rq" for rq
    by (simp add: sample_request_of_def promote_request_props_def)
  then show ?thesis
    by (simp add: serves_stage_def stage_bus_def bus_register_def new_bus_def caller_authorized_def
        stage_sup_env_def sample_sup_env_def sample_stage_env_def sample_cap_def sample_result_roundtrip)
qed

lemma sample_quiet: "quiet_ids stage_sup_env" "quiet_sink stage_sup_env"
  by (simp_all add: quiet_ids_def quiet_sink_def quiet_def stage_sup_env_def sample_sup_env_def)

definition flagged_store :: store where
  "flagged_store = fst (merge_node sample_time empty_store ''Flag'' (flag_key (subject_ref_of BrokerShadow) ''info'')
     [(''subject_ref'', PStr (subject_ref_of BrokerShadow)), (''severity'', PStr ''info'')] 1)"

lemma flagged_store_nodes: "st_nodes flagged_store =
    [((''Flag'', flag_key (subject_ref_of BrokerShadow) ''info''),
      make_node ''Flag'' (flag_key (subject_ref_of BrokerShadow) ''info'')
        [(''subject_ref'', PStr (subject_ref_of BrokerShadow)), (''severity'', PStr ''info'')] 1)]"
  by (simp add: flagged_store_def merge_node_def merge_core_def empty_store_def Let_def)

lemma flagged_store_wf: "store_wf flagged_store"
  unfolding flagged_store_def by (rule merge_node_wf) (simp_all add: dict_wf_def)

definition approve_intent :: typed_intent where
  "approve_intent = sample_intent FApprove
     [(''subject'', subject_ref_of BrokerShadow), (''confirmed'', ''true'')]"

definition stage_intent :: typed_intent where
  "stage_intent = sample_intent FStage [(''stage'', ''broker_shadow''), (''confirmed'', ''true'')]"

end
