(* ===== verification/FillAttempts.thy ===== *)
theory FillAttempts
  imports Orders ListedStore PyRead
begin

text \<open>
  Fill nodes and their attempt chains (\<open>agents/execution/fill_attempts.py\<close>, \<open>tolerance_store_props.py\<close>,
  the fill writes of \<open>store.py\<close>).  A broker key names one order; its outcomes are written under the
  key itself, then under \<open>key#1\<close>, \<open>key#2\<close>, ..., because a node's properties never change.

  The search for an attempt is an unbounded loop in the code.  Here it takes fuel, one more than the
  number of Fill nodes in the graph, and \<open>attempt_found\<close> shows that this is always enough.
\<close>

section \<open>Attempt keys\<close>

definition fill_attempt_key :: "string \<Rightarrow> nat \<Rightarrow> string" where
  "fill_attempt_key key ordinal = (if ordinal = 0 then key else key @ ''#'' @ str_nat ordinal)"

lemma fill_attempt_key_inj: "fill_attempt_key key m = fill_attempt_key key n \<longleftrightarrow> m = n"
  using str_nat_inj by (auto simp: fill_attempt_key_def split: if_splits)

definition has_ordinal_suffix :: "string \<Rightarrow> string \<Rightarrow> bool" where
  "has_ordinal_suffix node_key key =
     (let suffix = (if starts_with node_key key then drop (length key) node_key else node_key)
      in starts_with suffix ''#'' \<and> all_digits (drop 1 suffix))"

definition belongs_to_chain :: "gnode \<Rightarrow> string \<Rightarrow> bool" where
  "belongs_to_chain n key \<longleftrightarrow> prop_is (gn_props n) ''broker_idempotency_key'' key
     \<or> gn_key n = key \<or> has_ordinal_suffix (gn_key n) key"

text \<open>\<open>isinstance(value, int)\<close> holds of a \<open>bool\<close> as well.\<close>

definition attempt_ordinal :: "gnode \<Rightarrow> string \<Rightarrow> int" where
  "attempt_ordinal n key =
     (case dict_get (gn_props n) ''attempt_ordinal'' of
        Some (PInt i) \<Rightarrow> i
      | Some (PBool b) \<Rightarrow> (if b then 1 else 0)
      | _ \<Rightarrow>
          (let suffix = (if starts_with (gn_key n) key then drop (length key) (gn_key n) else gn_key n)
           in if starts_with suffix ''#'' \<and> all_digits (drop 1 suffix)
              then int (digits_value (drop 1 suffix)) else 0))"

definition fill_attempt_chain_in :: "gnode list \<Rightarrow> string \<Rightarrow> gnode list" where
  "fill_attempt_chain_in fills key =
     sort_key (\<lambda>n. attempt_ordinal n key) (filter (\<lambda>n. belongs_to_chain n key) fills)"

definition latest_fill_attempt_in :: "gnode list \<Rightarrow> string \<Rightarrow> gnode option" where
  "latest_fill_attempt_in fills key =
     (case rev (fill_attempt_chain_in fills key) of [] \<Rightarrow> None | n # _ \<Rightarrow> Some n)"

definition latest_fill_attempt :: "'w graph_port \<Rightarrow> 'w \<Rightarrow> string \<Rightarrow> gnode option" where
  "latest_fill_attempt port w key = latest_fill_attempt_in (gp_list port w ''Fill'') key"

text \<open>\<open>node.key.split("#", 1)[0]\<close> is the key up to its first separator.\<close>

definition broker_idempotency_key :: "gnode \<Rightarrow> string" where
  "broker_idempotency_key n =
     (let own = takeWhile (\<lambda>c. c \<noteq> CHR ''#'') (gn_key n)
      in case dict_get (gn_props n) ''broker_idempotency_key'' of
           Some (PStr s) \<Rightarrow> if s = [] then own else s
         | _ \<Rightarrow> own)"

section \<open>Finding an attempt\<close>

record fill_attempt =
  fa_key :: string
  fa_ordinal :: nat
  fa_props :: props

definition with_attempt_props :: "props \<Rightarrow> string \<Rightarrow> nat \<Rightarrow> props" where
  "with_attempt_props p key ordinal =
     dict_set ''attempt_ordinal'' (PInt (int ordinal)) (dict_set ''broker_idempotency_key'' (PStr key) p)"

definition props_compatible :: "props \<Rightarrow> props \<Rightarrow> bool" where
  "props_compatible existing new \<longleftrightarrow>
     list_all (\<lambda>(name, v). case dict_get existing name of None \<Rightarrow> True | Some old \<Rightarrow> py_eq old v) new"

definition attempt_fits :: "(string \<Rightarrow> gnode option) \<Rightarrow> string \<Rightarrow> props \<Rightarrow> bool \<Rightarrow> nat \<Rightarrow> bool" where
  "attempt_fits get key p force_new ordinal \<longleftrightarrow>
     (case get (fill_attempt_key key ordinal) of
        None \<Rightarrow> True
      | Some current \<Rightarrow> \<not> force_new \<and> props_compatible (gn_props current) (with_attempt_props p key ordinal))"

fun select_from ::
  "nat \<Rightarrow> (string \<Rightarrow> gnode option) \<Rightarrow> string \<Rightarrow> props \<Rightarrow> bool \<Rightarrow> nat \<Rightarrow> fill_attempt option" where
  "select_from 0 get key p force_new ordinal = None"
| "select_from (Suc fuel) get key p force_new ordinal =
     (if attempt_fits get key p force_new ordinal
      then Some \<lparr>fa_key = fill_attempt_key key ordinal, fa_ordinal = ordinal,
                 fa_props = with_attempt_props p key ordinal\<rparr>
      else select_from fuel get key p force_new (ordinal + 1))"

definition select_fill_attempt ::
  "'w graph_port \<Rightarrow> 'w \<Rightarrow> string \<Rightarrow> props \<Rightarrow> bool \<Rightarrow> fill_attempt option" where
  "select_fill_attempt port w key p force_new =
     select_from (Suc (length (gp_list port w ''Fill''))) (gp_get port w ''Fill'') key p force_new 0"

text \<open>The search stops at the first attempt that fits, if its fuel reaches it.\<close>

lemma select_from_Some:
  "select_from fuel get key p force_new n = Some a \<longleftrightarrow>
     (\<exists>m. n \<le> m \<and> m < n + fuel \<and> attempt_fits get key p force_new m
        \<and> (\<forall>k. n \<le> k \<longrightarrow> k < m \<longrightarrow> \<not> attempt_fits get key p force_new k)
        \<and> a = \<lparr>fa_key = fill_attempt_key key m, fa_ordinal = m, fa_props = with_attempt_props p key m\<rparr>)"
proof (induction fuel arbitrary: n)
  case (Suc fuel)
  show ?case
  proof (cases "attempt_fits get key p force_new n")
    case True
    then show ?thesis by (auto simp: le_less_linear)
  next
    case False
    have "(\<exists>m. Suc n \<le> m \<and> m < Suc n + fuel \<and> P m \<and> (\<forall>k. Suc n \<le> k \<longrightarrow> k < m \<longrightarrow> \<not> P k) \<and> Q m)
        \<longleftrightarrow> (\<exists>m. n \<le> m \<and> m < n + Suc fuel \<and> P m \<and> (\<forall>k. n \<le> k \<longrightarrow> k < m \<longrightarrow> \<not> P k) \<and> Q m)"
      if "\<not> P n" for P Q using that by (metis Suc_le_eq add_Suc add_Suc_right le_eq_less_or_eq)
    note shift = this
    show ?thesis
      using False Suc.IH [of "Suc n"]
        shift [of "attempt_fits get key p force_new" "\<lambda>m. a = \<lparr>fa_key = fill_attempt_key key m,
          fa_ordinal = m, fa_props = with_attempt_props p key m\<rparr>"] by simp
  qed
qed simp

context listed_store begin

lemma attempt_found:
  assumes "ok s"
  shows "\<exists>a. select_fill_attempt port s key p force_new = Some a \<and> fa_ordinal a \<le> length (gp_list port s ''Fill'')
    \<and> fa_key a = fill_attempt_key key (fa_ordinal a) \<and> fa_props a = with_attempt_props p key (fa_ordinal a)
    \<and> attempt_fits (gp_get port s ''Fill'') key p force_new (fa_ordinal a)
    \<and> (\<forall>m < fa_ordinal a. \<not> attempt_fits (gp_get port s ''Fill'') key p force_new m)"
proof -
  let ?L = "length (gp_list port s ''Fill'')" and ?fits = "attempt_fits (gp_get port s ''Fill'') key p force_new"
  have "\<exists>m \<le> ?L. ?fits m"
  proof (rule ccontr)
    assume none: "\<not> (\<exists>m \<le> ?L. ?fits m)"
    have "fill_attempt_key key ` {..?L} \<subseteq> gn_key ` set (gp_list port s ''Fill'')"
    proof
      fix k assume "k \<in> fill_attempt_key key ` {..?L}"
      then obtain m where m: "m \<le> ?L" "k = fill_attempt_key key m" by auto
      with none obtain n where n: "gp_get port s ''Fill'' k = Some n"
        by (auto simp: attempt_fits_def split: option.splits)
      with node_identity [OF assms n] have "n \<in> set (gp_list port s ''Fill'')" "gn_key n = k"
        by (auto simp: list_iff [OF assms])
      then show "k \<in> gn_key ` set (gp_list port s ''Fill'')" by blast
    qed
    from card_mono [OF _ this] have "card (fill_attempt_key key ` {..?L}) \<le> card (set (gp_list port s ''Fill''))"
      using card_image_le [of "set (gp_list port s ''Fill'')" gn_key] by force
    moreover have "card (fill_attempt_key key ` {..?L}) = Suc ?L"
      by (subst card_image) (auto simp: inj_on_def fill_attempt_key_inj)
    ultimately show False using card_length [of "gp_list port s ''Fill''"] by simp
  qed
  then obtain m0 where "m0 \<le> ?L" "?fits m0" by blast
  define m where "m = (LEAST m. ?fits m)"
  have m: "?fits m" "m \<le> ?L" "\<forall>k < m. \<not> ?fits k"
    using LeastI [of ?fits m0] Least_le [of ?fits m0] not_less_Least \<open>?fits m0\<close> \<open>m0 \<le> ?L\<close>
    by (force simp: m_def)+
  then show ?thesis
    unfolding select_fill_attempt_def select_from_Some by (intro exI conjI) auto
qed

end

section \<open>The properties of a fill\<close>

definition none_or :: "('a \<Rightarrow> pyval) \<Rightarrow> 'a option \<Rightarrow> pyval" where
  "none_or f v = (case v of None \<Rightarrow> PNone | Some x \<Rightarrow> f x)"

definition when_some :: "string \<Rightarrow> ('a \<Rightarrow> pyval) \<Rightarrow> 'a option \<Rightarrow> props" where
  "when_some name f v = (case v of None \<Rightarrow> [] | Some x \<Rightarrow> [(name, f x)])"

fun mode_text :: "tolerance_mode \<Rightarrow> string" where
  "mode_text Flat = ''flat''"
| "mode_text Scaled = ''scaled''"

definition money_props :: "string \<Rightarrow> money option \<Rightarrow> props" where
  "money_props prefix m =
     (case m of None \<Rightarrow> []
      | Some v \<Rightarrow> [(prefix @ ''_cents'', PInt (money_to_cents v)), (prefix @ ''_currency'', PStr (mny_currency v))])"

text \<open>The names never repeat, so the code's updates are appended in order.\<close>

definition order_tolerance_props :: "broker_fill \<Rightarrow> props" where
  "order_tolerance_props f =
     (case bf_tolerance_mode f of
        None \<Rightarrow> []
      | Some mode \<Rightarrow>
          [(''order_tolerance_mode'', PStr (mode_text mode))]
          @ when_some ''order_counterfactual_mode'' (\<lambda>m. PStr (mode_text m)) (bf_counterfactual_mode f)
          @ money_props ''order_decided_price'' (bf_decided_price f)
          @ [(''order_applied_tolerance_bps'', none_or PInt (bf_applied_tolerance_bps f))]
          @ money_props ''order_applied_limit_price'' (bf_applied_limit_price f)
          @ [(''order_counterfactual_tolerance_bps'', none_or PInt (bf_counterfactual_tolerance_bps f))]
          @ money_props ''order_counterfactual_limit_price'' (bf_counterfactual_limit_price f)
          @ [(''order_flat_tolerance_bps'', none_or PInt (bf_flat_tolerance_bps f))]
          @ money_props ''order_flat_limit_price'' (bf_flat_limit_price f)
          @ [(''order_scaled_tolerance_bps'', none_or PInt (bf_scaled_tolerance_bps f))]
          @ money_props ''order_scaled_limit_price'' (bf_scaled_limit_price f)
          @ when_some ''order_decision_atr_pct'' PFloat (bf_decision_atr_pct f)
          @ [(''order_volatility_present'', none_or PBool (bf_volatility_present f)),
             (''order_volatility_fallback'', none_or PBool (bf_volatility_fallback f))])"

definition dict_update :: "('k, 'v) dict \<Rightarrow> ('k, 'v) dict \<Rightarrow> ('k, 'v) dict" where
  "dict_update p q = fold (\<lambda>(k, v). dict_set k v) q p"

definition fill_props :: "broker_fill \<Rightarrow> order_intent_set option \<Rightarrow> props" where
  "fill_props f os =
     dict_update [(''ticker'', PStr (bf_ticker f)), (''side'', PStr (side_text (bf_side f))),
      (''quantity'', PInt (bf_quantity f)), (''price_cents'', PInt (money_to_cents (bf_price f))),
      (''price_currency'', PStr (mny_currency (bf_price f))), (''broker_order_id'', PStr (bf_order_id f)),
      (''status'', PStr (status_text (bf_status f))), (''reason'', none_or PStr (bf_reason f))]
     (when_some ''submitted_at'' PStr (bf_submitted_at f)
      @ when_some ''order_type'' PStr (bf_order_type f)
      @ when_some ''time_in_force'' PStr (bf_time_in_force f)
      @ order_tolerance_props f
      @ when_some ''source_run_id'' (\<lambda>x. PStr (ois_run_id x)) os)"

section \<open>Writing fills\<close>

definition pm_run_key :: "order_intent_set option \<Rightarrow> string option" where
  "pm_run_key os =
     (case os of
        None \<Rightarrow> None
      | Some x \<Rightarrow>
          (case pv_graph_node_id (ois_provenance x) of
             None \<Rightarrow> None
           | Some gid \<Rightarrow> if starts_with gid ''PMRun:'' then Some (drop (length ''PMRun:'') gid) else None))"

definition link_order_intent ::
  "'w graph_port \<Rightarrow> ('w \<Rightarrow> timestamp) \<Rightarrow> gnode \<Rightarrow> string option \<Rightarrow> string \<Rightarrow> ('w, unit) step" where
  "link_order_intent port wall fill pm_key ticker w =
     (case pm_key of
        None \<Rightarrow> (w, Inr ())
      | Some k \<Rightarrow>
          (case gp_get port w ''OrderIntent'' (k @ '':'' @ ticker) of
             None \<Rightarrow> (w, Inr ())
           | Some order \<Rightarrow> gp_edge port (wall w) w fill order ''EXECUTES'' None))"

definition write_fill ::
  "'w graph_port \<Rightarrow> ('w \<Rightarrow> timestamp) \<Rightarrow> order_intent_set option \<Rightarrow> broker_fill \<Rightarrow> ('w, gnode) step" where
  "write_fill port wall os f w =
     (case select_fill_attempt port w (bf_key f) (fill_props f os) False of
        None \<Rightarrow> (w, Inl (RuntimeError ''no attempt within the fuel''))
      | Some a \<Rightarrow>
          step_bind (\<lambda>w. gp_merge port (wall w) w ''Fill'' (fa_key a) (fa_props a) 1) (\<lambda>n.
          step_bind (link_order_intent port wall n (pm_run_key os) (bf_ticker f)) (\<lambda>_. step_return n)) w)"

definition execution_provenance :: "string \<Rightarrow> gnode option \<Rightarrow> provenance" where
  "execution_provenance run_id n =
     \<lparr>pv_run_id = run_id, pv_source_agent = ''execution'', pv_correlation_id = None,
      pv_graph_node_id = map_option (\<lambda>n. gn_label n @ '':'' @ gn_key n) n, pv_incident_refs = []\<rparr>"

definition write_fills ::
  "'w graph_port \<Rightarrow> ('w \<Rightarrow> timestamp) \<Rightarrow> string \<Rightarrow> broker_fill list \<Rightarrow> order_intent_set option
   \<Rightarrow> ('w, provenance) step" where
  "write_fills port wall run_id fs os =
     step_bind (write_nodes (map (write_fill port wall os) fs) None) (\<lambda>first.
     step_return (execution_provenance run_id first))"

end
