(* ===== verification/BrokerLifecycle.thy ===== *)
theory BrokerLifecycle
  imports PyRead Broker
begin

text \<open>
  The lifecycle of broker orders and of the nodes that record them (\<open>contracts/broker_lifecycle.py\<close>):
  which statuses end an order, whether a stop still protects a position, what a fill executed.
\<close>

definition lower_char :: "char \<Rightarrow> char" where
  "lower_char c = (let n = of_char c :: nat in if 65 \<le> n \<and> n \<le> 90 then char_of (n + 32) else c)"

definition lower :: "string \<Rightarrow> string" where
  "lower s = map lower_char s"

text \<open>\<open>str(value or "").lower()\<close>.\<close>

definition normalise :: "(rat \<Rightarrow> string) \<Rightarrow> pyval \<Rightarrow> string" where
  "normalise flt v = (if py_truth v then lower (py_str flt v) else [])"

definition normalise_opt :: "string option \<Rightarrow> string" where
  "normalise_opt s = (case s of None \<Rightarrow> [] | Some t \<Rightarrow> lower t)"

section \<open>Statuses\<close>

definition broker_stop_order_types :: "string list" where
  "broker_stop_order_types = [''stop'', ''stop_limit'']"

definition terminal_fill_statuses :: "string list" where
  "terminal_fill_statuses = [''filled'', ''rejected'']"

definition terminal_order_statuses :: "string list" where
  "terminal_order_statuses = [''canceled'', ''cancelled'', ''expired'', ''filled'', ''rejected'', ''replaced'']"

definition resolved_unfilled_statuses :: "string list" where
  "resolved_unfilled_statuses = [''canceled'', ''cancelled'', ''expired'']"

definition completed_exit_statuses :: "string list" where
  "completed_exit_statuses = [''filled'', ''partial'', ''partially_filled'']"

definition is_terminal_fill_status :: "(rat \<Rightarrow> string) \<Rightarrow> pyval \<Rightarrow> bool" where
  "is_terminal_fill_status flt v \<longleftrightarrow> normalise flt v \<in> set terminal_fill_statuses"

definition is_terminal_order_status :: "string \<Rightarrow> bool" where
  "is_terminal_order_status s \<longleftrightarrow> lower s \<in> set terminal_order_statuses"

definition is_resolved_unfilled_status :: "(rat \<Rightarrow> string) \<Rightarrow> pyval \<Rightarrow> bool" where
  "is_resolved_unfilled_status flt v \<longleftrightarrow> normalise flt v \<in> set resolved_unfilled_statuses"

section \<open>Broker orders\<close>

definition is_broker_stop_order :: "broker_fill \<Rightarrow> bool" where
  "is_broker_stop_order f \<longleftrightarrow>
     starts_with (bf_key f) ''stop:'' \<or> normalise_opt (bf_order_type f) \<in> set broker_stop_order_types"

definition broker_order_lifecycle_status :: "broker_fill \<Rightarrow> string" where
  "broker_order_lifecycle_status f =
     (let reason = normalise_opt (bf_reason f)
      in if reason \<in> set terminal_order_statuses then reason else lower (status_text (bf_status f)))"

definition is_live_broker_stop_order :: "broker_fill \<Rightarrow> bool" where
  "is_live_broker_stop_order f \<longleftrightarrow>
     is_broker_stop_order f \<and> \<not> is_terminal_order_status (broker_order_lifecycle_status f)"

section \<open>Fill and stop nodes\<close>

definition effective_fill_status :: "(rat \<Rightarrow> string) \<Rightarrow> gnode \<Rightarrow> string" where
  "effective_fill_status flt n =
     normalise flt (get_or (gn_props n) ''broker_status'' (data_get (gn_props n) ''status''))"

definition is_completed_exit_fill :: "(rat \<Rightarrow> string) \<Rightarrow> gnode \<Rightarrow> bool" where
  "is_completed_exit_fill flt n \<longleftrightarrow> effective_fill_status flt n \<in> set completed_exit_statuses"

definition is_filled_buy_fill :: "(rat \<Rightarrow> string) \<Rightarrow> gnode \<Rightarrow> bool" where
  "is_filled_buy_fill flt n \<longleftrightarrow>
     prop_is (gn_props n) ''side'' ''buy'' \<and> effective_fill_status flt n = ''filled''"

definition fill_quantity_key :: "gnode \<Rightarrow> string" where
  "fill_quantity_key n =
     (if dict_get (gn_props n) ''broker_filled_quantity'' \<noteq> None then ''broker_filled_quantity''
      else ''quantity'')"

definition is_resting_stop_fill :: "gnode \<Rightarrow> bool" where
  "is_resting_stop_fill n \<longleftrightarrow> truthy_str (data_get (gn_props n) ''stop_order_key'') \<noteq> None"

definition is_open_order_fill :: "(rat \<Rightarrow> string) \<Rightarrow> gnode \<Rightarrow> bool" where
  "is_open_order_fill flt n \<longleftrightarrow>
     gn_label n = ''Fill'' \<and> prop_is (gn_props n) ''status'' ''pending''
     \<and> \<not> is_terminal_fill_status flt (data_get (gn_props n) ''broker_status'')
     \<and> data_get (gn_props n) ''drop_reason'' = PNone \<and> \<not> is_resting_stop_fill n"

text \<open>The Fill that carries the broker's word on a stop: its own key, else its broker order id.\<close>

definition sibling_fill_for_broker_stop :: "'w graph_port \<Rightarrow> 'w \<Rightarrow> gnode \<Rightarrow> gnode option" where
  "sibling_fill_for_broker_stop port w stop =
     (case gp_get port w ''Fill'' (gn_key stop) of
        Some n \<Rightarrow> Some n
      | None \<Rightarrow>
          (case truthy_str (data_get (gn_props stop) ''broker_order_id'') of
             None \<Rightarrow> None
           | Some order_id \<Rightarrow>
               List.find (\<lambda>n. prop_is (gn_props n) ''broker_order_id'' order_id) (gp_list port w ''Fill'')))"

definition is_live_broker_stop_fact :: "(rat \<Rightarrow> string) \<Rightarrow> 'w graph_port \<Rightarrow> 'w \<Rightarrow> gnode \<Rightarrow> bool" where
  "is_live_broker_stop_fact flt port w stop =
     (if \<exists>name \<in> set [''cancelled_at'', ''replaced_at'']. truthy_str (data_get (gn_props stop) name) \<noteq> None
      then False
      else case sibling_fill_for_broker_stop port w stop of
             None \<Rightarrow> True
           | Some n \<Rightarrow> \<not> is_terminal_fill_status flt (data_get (gn_props n) ''broker_status''))"

end
