(* ===== verification/ExecutionRun.thy ===== *)
theory ExecutionRun
  imports FillAttempts StageGate BrokerLifecycle
begin

text \<open>
  Submitting an approved order set (\<open>agents/execution/run.py\<close>, the live gate of
  \<open>live_gate.py\<close>).

  The state is the graph behind its port, the broker behind its port, the faults the collecting sink
  (the agent's default) holds, and the outcomes remembered for reconciliation.
\<close>

record ('g, 'b) exec_env =
  xe_port :: "'g graph_port"
  xe_wall :: "'g \<Rightarrow> timestamp"
  xe_broker :: "'b broker_port"
  xe_float_text :: "rat \<Rightarrow> string"
  xe_stage :: execution_stage
  xe_tolerance :: tolerance_config

record ('g, 'b) exec_state =
  xs_graph :: 'g
  xs_broker :: 'b
  xs_faults :: "agent_fault list"

record execution_outcome =
  xo_result :: execution_result
  xo_stage :: execution_stage
  xo_provenance :: provenance

section \<open>The run\<close>

definition execution_run_id :: "string \<Rightarrow> string \<Rightarrow> string" where
  "execution_run_id prefix source_run_id = ''execution-'' @ prefix @ ''-'' @ source_run_id"

definition orders_of :: "('g, 'b) exec_env \<Rightarrow> order_intent_set \<Rightarrow> broker_order list res" where
  "orders_of env os =
     all_res (map (\<lambda>intent. order_from_intent (ois_run_id os) intent (xe_tolerance env)) (ois_approved os))"

definition completed_exit_fill ::
  "('g, 'b) exec_env \<Rightarrow> 'g \<Rightarrow> order_intent \<Rightarrow> broker_order \<Rightarrow> gnode option" where
  "completed_exit_fill env g intent ord =
     (if oi_action intent \<noteq> SellAction \<or> oi_position_ref intent = None then None
      else case latest_fill_attempt (xe_port env) g (bo_key ord) of
             None \<Rightarrow> None
           | Some n \<Rightarrow> if is_completed_exit_fill (xe_float_text env) n then Some n else None)"

definition skip_fault :: "timestamp \<Rightarrow> order_intent \<Rightarrow> gnode \<Rightarrow> agent_fault" where
  "skip_fault now intent prior =
     \<lparr>flt_occurred_at = now, flt_agent = ''execution'', flt_module = ''agents.execution.run'',
      flt_capability = Some ''skip_completed_exit'', flt_severity = Warning,
      flt_error_type = ''CompletedExitReplaySkipped'',
      flt_message = ''skipped completed exit for '' @ oi_ticker intent @ '' position_ref=''
        @ (case oi_position_ref intent of None \<Rightarrow> ''unknown'' | Some r \<Rightarrow> if r = [] then ''unknown'' else r)
        @ ''; prior_fill_key='' @ gn_key prior,
      flt_correlation_id = None,
      flt_context = [(''ticker'', PStr (oi_ticker intent)),
        (''position_ref'', PStr (case oi_position_ref intent of None \<Rightarrow> ''unknown''
           | Some r \<Rightarrow> if r = [] then ''unknown'' else r)),
        (''prior_fill_key'', PStr (gn_key prior))]\<rparr>"

text \<open>What the loop carries: the state, the fills so far, the skips, and the provenance.\<close>

type_synonym ('g, 'b) submit_acc = "('g, 'b) exec_state \<times> broker_fill list \<times> nat \<times> provenance"

definition submit_one ::
  "('g, 'b) exec_env \<Rightarrow> order_intent_set \<Rightarrow> order_intent \<times> broker_order \<Rightarrow> ('g, 'b) submit_acc \<Rightarrow> ('g, 'b) submit_acc"
where
  "submit_one env os io acc =
     (case (io, acc) of ((intent, ord), (st, fs, skipped, pv)) \<Rightarrow>
       let now = xe_wall env (xs_graph st); run_id = execution_run_id ''submit'' (ois_run_id os) in
       case completed_exit_fill env (xs_graph st) intent ord of
         Some prior \<Rightarrow>
           (st\<lparr>xs_faults := collect_fault (xs_faults st) (skip_fault now intent prior)\<rparr>, fs, skipped + 1, pv)
       | None \<Rightarrow>
           (let ((b1, faults1), f) = submit_order (xe_broker env) now ''submit'' ord (xs_broker st, xs_faults st);
                (g1, r) = write_fills (xe_port env) (xe_wall env) run_id [f] (Some os) (xs_graph st);
                faults2 = fst (fault_boundary collect_fault now ''execution'' ''agents.execution.run''
                                 (Some ''submit'') faults1 r);
                st1 = \<lparr>xs_graph = g1, xs_broker = b1, xs_faults = faults2\<rparr>
            in case r of
                 Inl e \<Rightarrow> (st1, fs, skipped, pv)
               | Inr fpv \<Rightarrow> (st1, fs @ [f], skipped, if pv_graph_node_id pv = None then fpv else pv)))"

definition live_gate_rejected ::
  "('g, 'b) exec_env \<Rightarrow> order_intent_set \<Rightarrow> broker_order list \<Rightarrow> execution_stage \<Rightarrow> ('g, 'b) exec_state
   \<Rightarrow> ('g, 'b) exec_state \<times> execution_outcome res" where
  "live_gate_rejected env os orders stage st =
     (let fs = map (\<lambda>ord. rejected_broker_fill ord (''stage '' @ stage_text stage
                 @ '' requires live broker gating'')) orders;
          run_id = execution_run_id ''submit'' (ois_run_id os);
          (g1, r) = write_fills (xe_port env) (xe_wall env) run_id fs (Some os) (xs_graph st)
      in (st\<lparr>xs_graph := g1\<rparr>,
          case r of Inl e \<Rightarrow> Inl e
          | Inr pv \<Rightarrow> Inr \<lparr>xo_result = execution_result_of run_id fs 0, xo_stage = stage, xo_provenance = pv\<rparr>))"

definition submit_stage :: "('g, 'b) exec_env \<Rightarrow> 'g \<Rightarrow> execution_stage" where
  "submit_stage env g = current_stage_from_graph (xe_float_text env) (xe_port env) g (xe_stage env)"

definition run_submit ::
  "('g, 'b) exec_env \<Rightarrow> order_intent_set \<Rightarrow> ('g, 'b) exec_state \<times> fills
   \<Rightarrow> (('g, 'b) exec_state \<times> fills) \<times> execution_outcome res" where
  "run_submit env os sr =
     (case sr of (st, recorded) \<Rightarrow>
       let stage = submit_stage env (xs_graph st); run_id = execution_run_id ''submit'' (ois_run_id os) in
       case orders_of env os of
         Inl e \<Rightarrow> (sr, Inl e)
       | Inr orders \<Rightarrow>
           if stage \<notin> {PaperStage, BrokerShadow}
           then (case live_gate_rejected env os orders stage st of (st1, r) \<Rightarrow> ((st1, recorded), r))
           else (case fold (submit_one env os) (zip (ois_approved os) orders)
                        (st, [], 0, execution_provenance run_id None) of
                   (st1, fs, skipped, pv) \<Rightarrow>
                     ((st1, remember recorded fs),
                      Inr \<lparr>xo_result = execution_result_of run_id fs skipped, xo_stage = stage,
                           xo_provenance = pv\<rparr>)))"

end
