(* ===== verification/ExecutionRerun.thy ===== *)
theory ExecutionRerun
  imports ExecutionRun
begin

text \<open>
  Submitting is repeatable: what a run of the paper broker on the in-memory graph has submitted and
  written, a second run of the same order set finds, so it places nothing and writes nothing.
\<close>

section \<open>Properties of a fill are frozen and distinct\<close>

lemma dict_update_keeps:
  "dict_wf p \<Longrightarrow> dict_wf (dict_update p q)"
  "props_frozen p \<Longrightarrow> props_frozen q \<Longrightarrow> props_frozen (dict_update p q)"
proof -
  show "dict_wf p \<Longrightarrow> dict_wf (dict_update p q)"
    unfolding dict_update_def by (induction q arbitrary: p) auto
  show "props_frozen p \<Longrightarrow> props_frozen q \<Longrightarrow> props_frozen (dict_update p q)"
    unfolding dict_update_def
    by (induction q arbitrary: p) (auto simp: props_frozen_def intro: props_frozen_set [unfolded props_frozen_def])
qed

lemma frozen_parts:
  "props_frozen (when_some name (\<lambda>x. PStr (f x)) v)" "props_frozen (when_some name PFloat r)"
  "props_frozen (money_props name m)"
  by (simp_all add: props_frozen_def when_some_def money_props_def split: option.split)

lemma none_or_frozen: "(\<And>x. immutable (f x)) \<Longrightarrow> immutable (none_or f v)"
  by (simp add: none_or_def split: option.split)

lemma props_frozen_append: "props_frozen (p @ q) \<longleftrightarrow> props_frozen p \<and> props_frozen q"
  by (simp add: props_frozen_def)

lemma tolerance_props_frozen: "props_frozen (order_tolerance_props f)"
proof (cases "bf_tolerance_mode f")
  case (Some m)
  have one: "props_frozen [(name, v)] = immutable v" "props_frozen [(name, v), (name', v')] = (immutable v \<and> immutable v')"
    for name name' v v' by (simp_all add: props_frozen_def)
  show ?thesis unfolding order_tolerance_props_def Some option.case props_frozen_append one
    by (intro conjI frozen_parts none_or_frozen) simp_all
qed (simp add: order_tolerance_props_def props_frozen_def)

lemma fill_props_ok:
  "dict_wf (with_attempt_props (fill_props f os) key i)"
  "list_all (\<lambda>(k, v). immutable v) (with_attempt_props (fill_props f os) key i)"
proof -
  have "dict_wf (fill_props f os)"
    unfolding fill_props_def by (rule dict_update_keeps) (simp add: dict_wf_def)
  then show "dict_wf (with_attempt_props (fill_props f os) key i)" by (auto simp: with_attempt_props_def)
  have "props_frozen (fill_props f os)"
    unfolding fill_props_def
  proof (rule dict_update_keeps)
    show "props_frozen (when_some ''submitted_at'' PStr (bf_submitted_at f)
      @ when_some ''order_type'' PStr (bf_order_type f) @ when_some ''time_in_force'' PStr (bf_time_in_force f)
      @ order_tolerance_props f @ when_some ''source_run_id'' (\<lambda>x. PStr (ois_run_id x)) os)"
      using frozen_parts(1) [where f = "\<lambda>x. x"] frozen_parts(1) [where f = ois_run_id]
      by (simp add: props_frozen_append tolerance_props_frozen)
  qed (auto simp: props_frozen_def none_or_def split: option.split)
  then show "list_all (\<lambda>(k, v). immutable v) (with_attempt_props (fill_props f os) key i)"
    unfolding with_attempt_props_def props_frozen_def [symmetric] by (intro props_frozen_set) simp_all
qed

section \<open>One fill on the in-memory graph\<close>

definition base_versions :: "store \<Rightarrow> bool" where
  "base_versions s \<longleftrightarrow> list_all (\<lambda>n. gn_version n = 1) (list_nodes s ''Fill'')"

text \<open>The node of a fill is there, under the first attempt that fits, and linked to its order.\<close>

definition fill_written :: "order_intent_set option \<Rightarrow> broker_fill \<Rightarrow> store \<Rightarrow> bool" where
  "fill_written os f s \<longleftrightarrow>
     (\<exists>i n. get_node s ''Fill'' (fill_attempt_key (bf_key f) i) = Some n
        \<and> (\<forall>(k, v) \<in> set (with_attempt_props (fill_props f os) (bf_key f) i). dict_get (gn_props n) k = Some v)
        \<and> (\<forall>m < i. \<not> attempt_fits (get_node s ''Fill'') (bf_key f) (fill_props f os) False m)
        \<and> (\<forall>pm order. pm_run_key os = Some pm \<longrightarrow> get_node s ''OrderIntent'' (pm @ '':'' @ bf_ticker f) = Some order
             \<longrightarrow> (node_key_of n, node_key_of order, ''EXECUTES'') \<in> edge_key_of ` set (st_edges s)))"

definition same_but :: "string \<Rightarrow> store \<Rightarrow> store \<Rightarrow> bool" where
  "same_but key s s' \<longleftrightarrow>
     (\<forall>l k. l \<noteq> ''Fill'' \<or> (\<forall>i. k \<noteq> fill_attempt_key key i) \<longrightarrow> get_node s' l k = get_node s l k)
     \<and> (\<forall>l. l \<noteq> ''Fill'' \<longrightarrow> list_nodes s' l = list_nodes s l)
     \<and> edge_key_of ` set (st_edges s) \<subseteq> edge_key_of ` set (st_edges s')"

text \<open>What a chosen attempt says of the node it found.\<close>

lemma attempt_old:
  assumes "store_wf s" "attempt_fits (get_node s ''Fill'') key p False i"
    "get_node s ''Fill'' (fill_attempt_key key i) = Some old" "(k, v) \<in> set (with_attempt_props p key i)"
    "dict_get (gn_props old) k = Some x"
  shows "immutable x \<and> py_eq x v"
proof
  have "node_wf (''Fill'', fill_attempt_key key i) old"
    using store_wf_node [OF assms(1), of "(''Fill'', fill_attempt_key key i)" old] assms(3) by (simp add: get_node_def)
  with assms(5) show "immutable x"
    by (auto simp: node_wf_def props_frozen_def list_all_iff dest: map_of_SomeD)
  show "py_eq x v"
    using assms(2-5) by (force simp: attempt_fits_def props_compatible_def list_all_iff split: option.splits)
qed

lemma fill_merge:
  assumes "store_wf s" "base_versions s" "attempt_fits (get_node s ''Fill'') (bf_key f) (fill_props f os) False i"
  shows "\<exists>n. merge_node now s ''Fill'' (fill_attempt_key (bf_key f) i)
        (with_attempt_props (fill_props f os) (bf_key f) i) 1
      = (s\<lparr>st_nodes := dict_set (''Fill'', fill_attempt_key (bf_key f) i) n (st_nodes s)\<rparr>, Inr n)
    \<and> gn_label n = ''Fill'' \<and> gn_key n = fill_attempt_key (bf_key f) i \<and> gn_version n = 1
    \<and> (\<forall>(k, v) \<in> set (with_attempt_props (fill_props f os) (bf_key f) i). dict_get (gn_props n) k = Some v)"
proof -
  let ?k = "fill_attempt_key (bf_key f) i" and ?p = "with_attempt_props (fill_props f os) (bf_key f) i"
  have "\<exists>n. merge_core (st_nodes s) ''Fill'' ?k ?p 1 = Inr (dict_set (''Fill'', ?k) n (st_nodes s), n)
      \<and> gn_version n = 1"
  proof (cases "get_node s ''Fill'' ?k")
    case None
    then show ?thesis by (simp add: merge_core_def get_node_def Let_def)
  next
    case (Some old)
    with assms(1, 2) mem_node_identity [OF assms(1) Some] have "gn_version old = 1"
      by (auto simp: base_versions_def list_all_iff mem_list_iff)
    moreover obtain m where "append_props (gn_props old) ?p = Inr m"
      using append_loop_fits [OF fill_props_ok, where merged = "gn_props old"] attempt_old [OF assms(1, 3) Some]
      unfolding append_props_def by blast
    ultimately show ?thesis using Some by (simp add: merge_core_def get_node_def Let_def)
  qed
  then obtain n where core: "merge_core (st_nodes s) ''Fill'' ?k ?p 1 = Inr (dict_set (''Fill'', ?k) n (st_nodes s), n)"
    and version: "gn_version n = 1" by blast
  then have run: "merge_node now s ''Fill'' ?k ?p 1 = (s\<lparr>st_nodes := dict_set (''Fill'', ?k) n (st_nodes s)\<rparr>, Inr n)"
    by (simp add: merge_node_def)
  have facts: "gn_label n = ''Fill''" "gn_key n = ?k" "holds_props n ?p"
    using merge_node_written [OF assms(1) fill_props_ok(1) run] by simp_all
  have "dict_get (gn_props n) k = Some v" if "(k, v) \<in> set ?p" for k v
  proof -
    have "dict_get ?p k = Some v" using that fill_props_ok(1) by (simp add: dict_get_Some_iff)
    moreover have "frozen_value v = v" using that fill_props_ok(2) [of f os "bf_key f" i]
      by (auto simp: list_all_iff immutable_frozen_value)
    ultimately show ?thesis using facts(3) by (simp add: holds_props_def)
  qed
  with run version facts show ?thesis by blast
qed

lemma mem_add_edge_keys:
  assumes "get_node s (gn_label a) (gn_key a) \<noteq> None" "get_node s (gn_label b) (gn_key b) \<noteq> None"
  shows "\<exists>edges. add_edge now s a b t q = (s\<lparr>st_edges := edges\<rparr>, Inr ())
    \<and> edge_key_of ` set edges = insert (node_key_of a, node_key_of b, t) (edge_key_of ` set (st_edges s))
    \<and> ((node_key_of a, node_key_of b, t) \<in> edge_key_of ` set (st_edges s) \<longrightarrow> edges = st_edges s)"
proof -
  let ?key = "(node_key_of a, node_key_of b, t)"
  have "\<exists>edges. add_edge_core s a b t q = Inr edges
    \<and> edge_key_of ` set edges = insert ?key (edge_key_of ` set (st_edges s))
    \<and> (?key \<in> edge_key_of ` set (st_edges s) \<longrightarrow> edges = st_edges s)"
  proof (cases "?key \<in> edge_key_of ` set (st_edges s)")
    case True
    then have "\<not> list_all (\<lambda>e. edge_key_of e \<noteq> ?key) (st_edges s)" by (auto simp: list_all_iff)
    with True assms show ?thesis
      by (simp add: add_edge_core_def require_node_def get_node_def node_key_of_def Let_def edge_key_of_def
          make_edge_def insert_absorb)
  next
    case False
    then have "list_all (\<lambda>e. edge_key_of e \<noteq> ?key) (st_edges s)" by (auto simp: list_all_iff image_iff)
    with False assms show ?thesis
      by (simp add: add_edge_core_def require_node_def get_node_def node_key_of_def Let_def edge_key_of_def
          make_edge_def)
  qed
  then obtain edges where "add_edge_core s a b t q = Inr edges"
    "edge_key_of ` set edges = insert ?key (edge_key_of ` set (st_edges s))"
    "?key \<in> edge_key_of ` set (st_edges s) \<longrightarrow> edges = st_edges s" by blast
  then show ?thesis by (intro exI [of _ edges]) (simp add: add_edge_def)
qed

lemma write_fill_ok:
  assumes "store_wf s" "base_versions s"
  shows "\<exists>s' n. write_fill mem_port wall os f s = (s', Inr n) \<and> store_wf s' \<and> base_versions s'
    \<and> fill_written os f s' \<and> same_but (bf_key f) s s'
    \<and> (\<exists>i edges. attempt_fits (get_node s ''Fill'') (bf_key f) (fill_props f os) False i
        \<and> dict_get (gn_props n) ''broker_idempotency_key'' = Some (PStr (bf_key f))
        \<and> gn_key n = fill_attempt_key (bf_key f) i \<and> gn_label n = ''Fill''
        \<and> s' = s\<lparr>st_nodes := dict_set (''Fill'', fill_attempt_key (bf_key f) i) n (st_nodes s), st_edges := edges\<rparr>)"
proof -
  from mem_listed.attempt_found [OF assms(1), of "bf_key f" "fill_props f os" False] obtain i where
    sel: "select_fill_attempt mem_port s (bf_key f) (fill_props f os) False
        = Some \<lparr>fa_key = fill_attempt_key (bf_key f) i, fa_ordinal = i,
                fa_props = with_attempt_props (fill_props f os) (bf_key f) i\<rparr>"
    and fits: "attempt_fits (get_node s ''Fill'') (bf_key f) (fill_props f os) False i"
    and least: "\<forall>m < i. \<not> attempt_fits (get_node s ''Fill'') (bf_key f) (fill_props f os) False m"
    by auto (metis fill_attempt.surjective old.unit.exhaust)
  let ?k = "fill_attempt_key (bf_key f) i" and ?p = "with_attempt_props (fill_props f os) (bf_key f) i"
  from fill_merge [OF assms fits, of "wall s"] obtain n where
    m: "merge_node (wall s) s ''Fill'' ?k ?p 1 = (s\<lparr>st_nodes := dict_set (''Fill'', ?k) n (st_nodes s)\<rparr>, Inr n)"
    and n: "gn_label n = ''Fill''" "gn_key n = ?k" "gn_version n = 1"
    and props: "\<forall>(k, v) \<in> set ?p. dict_get (gn_props n) k = Some v" by blast
  let ?s = "s\<lparr>st_nodes := dict_set (''Fill'', ?k) n (st_nodes s)\<rparr>"
  have wf: "store_wf ?s" using merge_node_wf [OF assms(1) fill_props_ok(1)] m by (metis fst_conv)
  have get: "get_node ?s l k = (if l = ''Fill'' \<and> k = ?k then Some n else get_node s l k)" for l k
    by (auto simp: get_node_def dict_simps)
  have lists: "list_nodes ?s l = list_nodes s l" if "l \<noteq> ''Fill''" for l
    using mem_merge_list_other [OF assms(1) that, of "wall s" ?k ?p 1] m by simp
  have versions: "base_versions ?s"
    using assms(2) n(3) unfolding base_versions_def list_all_iff
    by (auto simp: mem_list_iff [OF wf] mem_list_iff [OF assms(1)] get split: if_splits)
  have least': "\<forall>m < i. \<not> attempt_fits (get_node ?s ''Fill'') (bf_key f) (fill_props f os) False m"
  proof (intro allI impI)
    fix m assume "m < i"
    then have "get_node ?s ''Fill'' (fill_attempt_key (bf_key f) m) = get_node s ''Fill'' (fill_attempt_key (bf_key f) m)"
      by (simp add: get fill_attempt_key_inj)
    with least \<open>m < i\<close> show "\<not> attempt_fits (get_node ?s ''Fill'') (bf_key f) (fill_props f os) False m"
      by (simp add: attempt_fits_def)
  qed
  obtain edges where link: "link_order_intent mem_port wall n (pm_run_key os) (bf_ticker f) ?s
      = (?s\<lparr>st_edges := edges\<rparr>, Inr ())"
    and sup: "edge_key_of ` set (st_edges s) \<subseteq> edge_key_of ` set edges"
    and linked: "\<forall>pm order. pm_run_key os = Some pm \<longrightarrow> get_node s ''OrderIntent'' (pm @ '':'' @ bf_ticker f) = Some order
         \<longrightarrow> (node_key_of n, node_key_of order, ''EXECUTES'') \<in> edge_key_of ` set edges"
    and ewf: "store_wf (?s\<lparr>st_edges := edges\<rparr>)"
  proof (cases "pm_run_key os")
    case None
    have "?s\<lparr>st_edges := st_edges s\<rparr> = ?s" by simp
    with None wf show thesis by (intro that [of "st_edges s"]) (simp_all add: link_order_intent_def)
  next
    case (Some pm)
    show thesis
    proof (cases "get_node s ''OrderIntent'' (pm @ '':'' @ bf_ticker f)")
      case None
      have "?s\<lparr>st_edges := st_edges s\<rparr> = ?s" by simp
      with None Some wf show thesis
        by (intro that [of "st_edges s"]) (simp_all add: link_order_intent_def get)
    next
      case (Some order)
      have id: "gn_label order = ''OrderIntent''" "gn_key order = pm @ '':'' @ bf_ticker f"
        using mem_node_identity [OF assms(1) Some] by simp_all
      have "get_node ?s (gn_label n) (gn_key n) \<noteq> None" "get_node ?s (gn_label order) (gn_key order) \<noteq> None"
        using Some by (simp_all add: get n id)
      from mem_add_edge_keys [OF this, of "wall ?s" "''EXECUTES''" None] obtain edges where
        e: "add_edge (wall ?s) ?s n order ''EXECUTES'' None = (?s\<lparr>st_edges := edges\<rparr>, Inr ())"
          "edge_key_of ` set edges = insert (node_key_of n, node_key_of order, ''EXECUTES'') (edge_key_of ` set (st_edges s))"
        by auto
      have "store_wf (?s\<lparr>st_edges := edges\<rparr>)"
        using add_edge_wf [OF wf, of "wall ?s" n order "''EXECUTES''" None] by (simp only: e(1) fst_conv)
      with e Some \<open>pm_run_key os = Some pm\<close> show thesis
        by (intro that [of edges]) (simp_all add: link_order_intent_def get subset_insertI)
    qed
  qed
  let ?s' = "?s\<lparr>st_edges := edges\<rparr>"
  have run: "write_fill mem_port wall os f s = (?s', Inr n)"
    using sel m link by (simp add: write_fill_def step_bind_def step_return_def)
  have get': "get_node ?s' = get_node ?s" "list_nodes ?s' = list_nodes ?s"
    by (simp_all add: get_node_def list_nodes_def fun_eq_iff)
  have "fill_written os f ?s'"
    unfolding fill_written_def get'
    using props least' linked by (intro exI [of _ i] exI [of _ n]) (simp add: get)
  moreover have "same_but (bf_key f) s ?s'"
    unfolding same_but_def get' using sup by (auto simp: get lists)
  moreover have "base_versions ?s'" using versions by (simp add: base_versions_def get')
  moreover have "dict_get (gn_props n) ''broker_idempotency_key'' = Some (PStr (bf_key f))"
  proof -
    have "dict_get ?p ''broker_idempotency_key'' = Some (PStr (bf_key f))"
      by (simp add: with_attempt_props_def dict_simps)
    with props show ?thesis by (auto dest: map_of_SomeD)
  qed
  ultimately show ?thesis using run ewf fits n by (intro exI conjI) auto
qed

lemma fill_written_again:
  assumes "store_wf s" "base_versions s" "fill_written os f s"
  shows "\<exists>n. write_fill mem_port wall os f s = (s, Inr n)"
proof -
  let ?fits = "attempt_fits (get_node s ''Fill'') (bf_key f) (fill_props f os) False"
  from assms(3) obtain i n where n: "get_node s ''Fill'' (fill_attempt_key (bf_key f) i) = Some n"
    and props: "\<forall>(k, v) \<in> set (with_attempt_props (fill_props f os) (bf_key f) i). dict_get (gn_props n) k = Some v"
    and least: "\<forall>m < i. \<not> ?fits m"
    and linked: "\<forall>pm order. pm_run_key os = Some pm \<longrightarrow> get_node s ''OrderIntent'' (pm @ '':'' @ bf_ticker f) = Some order
         \<longrightarrow> (node_key_of n, node_key_of order, ''EXECUTES'') \<in> edge_key_of ` set (st_edges s)"
    unfolding fill_written_def by blast
  have id: "gn_label n = ''Fill''" "gn_key n = fill_attempt_key (bf_key f) i"
    using mem_node_identity [OF assms(1) n] by simp_all
  have fits: "?fits i" using n props by (auto simp: attempt_fits_def props_compatible_def list_all_iff)
  from mem_listed.attempt_found [OF assms(1), of "bf_key f" "fill_props f os" False] obtain a where
    a: "select_fill_attempt mem_port s (bf_key f) (fill_props f os) False = Some a"
      "fa_key a = fill_attempt_key (bf_key f) (fa_ordinal a)"
      "fa_props a = with_attempt_props (fill_props f os) (bf_key f) (fa_ordinal a)"
      "?fits (fa_ordinal a)" "\<forall>m < fa_ordinal a. \<not> ?fits m" by auto
  with fits least have ord: "fa_ordinal a = i" by (metis linorder_neqE_nat)
  have "gn_version n = 1"
    using assms(2) n id by (auto simp: base_versions_def list_all_iff mem_list_iff [OF assms(1)])
  moreover have "dict_get (gn_props n) k = Some (frozen_value v)"
    if "(k, v) \<in> set (with_attempt_props (fill_props f os) (bf_key f) i)" for k v
  proof -
    have "immutable v" using that fill_props_ok(2) [of f os "bf_key f" i] by (auto simp: list_all_iff)
    with that props show ?thesis by (auto simp: immutable_frozen_value)
  qed
  ultimately have m: "merge_node (wall s) s ''Fill'' (fa_key a) (fa_props a) 1 = (s, Inr n)"
    using n by (intro mem_merge_same [OF assms(1)]) (simp_all add: a ord)
  have "link_order_intent mem_port wall n (pm_run_key os) (bf_ticker f) s = (s, Inr ())"
  proof (cases "pm_run_key os")
    case (Some pm)
    show ?thesis
    proof (cases "get_node s ''OrderIntent'' (pm @ '':'' @ bf_ticker f)")
      case (Some order)
      have "get_node s (gn_label n) (gn_key n) \<noteq> None" "get_node s (gn_label order) (gn_key order) \<noteq> None"
        using n Some mem_node_identity [OF assms(1) Some] by (simp_all add: id)
      from mem_add_edge_keys [OF this, of "wall s" "''EXECUTES''" None] linked \<open>pm_run_key os = _\<close> Some
      have "add_edge (wall s) s n order ''EXECUTES'' None = (s, Inr ())" by auto
      with Some \<open>pm_run_key os = _\<close> show ?thesis by (simp add: link_order_intent_def)
    qed (simp add: link_order_intent_def Some)
  qed (simp add: link_order_intent_def)
  with a(1) m show ?thesis by (simp add: write_fill_def step_bind_def step_return_def)
qed

section \<open>Fills of other keys\<close>

text \<open>A key without the attempt separator is the part of its attempt keys before the separator.\<close>

definition plain_key :: "string \<Rightarrow> bool" where
  "plain_key k \<longleftrightarrow> k \<noteq> [] \<and> CHR ''#'' \<notin> set k"

lemma take_base: "CHR ''#'' \<notin> set k \<Longrightarrow> takeWhile (\<lambda>c. c \<noteq> CHR ''#'') (k @ CHR ''#'' # rest) = k"
  "CHR ''#'' \<notin> set k \<Longrightarrow> takeWhile (\<lambda>c. c \<noteq> CHR ''#'') k = k"
  by (induction k) auto

lemma attempt_key_base: "plain_key k \<Longrightarrow> takeWhile (\<lambda>c. c \<noteq> CHR ''#'') (fill_attempt_key k i) = k"
  by (simp add: plain_key_def fill_attempt_key_def take_base)

lemma attempt_key_other:
  "plain_key k \<Longrightarrow> plain_key k' \<Longrightarrow> k \<noteq> k' \<Longrightarrow> fill_attempt_key k i \<noteq> fill_attempt_key k' j"
  using attempt_key_base by metis

lemma fill_written_other:
  assumes "fill_written os f s" "same_but key s s'" "plain_key (bf_key f)" "plain_key key" "bf_key f \<noteq> key"
  shows "fill_written os f s'"
proof -
  have get: "get_node s' ''Fill'' (fill_attempt_key (bf_key f) i) = get_node s ''Fill'' (fill_attempt_key (bf_key f) i)" for i
    using assms(2) attempt_key_other [OF assms(3-5)] by (simp add: same_but_def)
  have order: "get_node s' ''OrderIntent'' = get_node s ''OrderIntent''"
    using assms(2) by (auto simp: same_but_def fun_eq_iff)
  have fits: "attempt_fits (get_node s' ''Fill'') (bf_key f) p False m = attempt_fits (get_node s ''Fill'') (bf_key f) p False m"
    for p m by (simp add: attempt_fits_def get)
  have edges: "edge_key_of ` set (st_edges s) \<subseteq> edge_key_of ` set (st_edges s')"
    using assms(2) by (simp add: same_but_def)
  from assms(1) obtain i n where "get_node s ''Fill'' (fill_attempt_key (bf_key f) i) = Some n"
    "\<forall>(k, v) \<in> set (with_attempt_props (fill_props f os) (bf_key f) i). dict_get (gn_props n) k = Some v"
    "\<forall>m < i. \<not> attempt_fits (get_node s ''Fill'') (bf_key f) (fill_props f os) False m"
    and linked: "\<forall>pm order. pm_run_key os = Some pm \<longrightarrow> get_node s ''OrderIntent'' (pm @ '':'' @ bf_ticker f) = Some order
         \<longrightarrow> (node_key_of n, node_key_of order, ''EXECUTES'') \<in> edge_key_of ` set (st_edges s)"
    unfolding fill_written_def by blast
  moreover have "\<forall>pm order. pm_run_key os = Some pm \<longrightarrow> get_node s' ''OrderIntent'' (pm @ '':'' @ bf_ticker f) = Some order
         \<longrightarrow> (node_key_of n, node_key_of order, ''EXECUTES'') \<in> edge_key_of ` set (st_edges s')"
    unfolding order using linked edges by blast
  ultimately show ?thesis
    unfolding fill_written_def by (intro exI [of _ i] exI [of _ n]) (simp add: get fits)
qed

lemma starts_with_take: "starts_with s p \<longleftrightarrow> take (length p) s = p"
proof (induction s p rule: starts_with.induct)
  case (2 p ps)
  then show ?case by simp
qed auto

lemma other_chain:
  assumes "plain_key k" "plain_key k'" "k \<noteq> k'" "gn_key n = fill_attempt_key k' i"
    "dict_get (gn_props n) ''broker_idempotency_key'' \<in> {None, Some (PStr k')}"
  shows "\<not> belongs_to_chain n k"
proof -
  have own: "takeWhile (\<lambda>c. c \<noteq> CHR ''#'') (gn_key n) = k'"
    using attempt_key_base [OF assms(2)] assms(4) by simp
  have "gn_key n \<noteq> k" using attempt_key_other [OF assms(1-3), of 0 i] assms(4) by (simp add: fill_attempt_key_def)
  moreover have "\<not> has_ordinal_suffix (gn_key n) k"
  proof
    assume suffix: "has_ordinal_suffix (gn_key n) k"
    show False
    proof (cases "starts_with (gn_key n) k")
      case True
      with suffix obtain rest where "drop (length k) (gn_key n) = CHR ''#'' # rest"
        by (cases "drop (length k) (gn_key n)") (auto simp: has_ordinal_suffix_def Let_def)
      with True have "gn_key n = k @ CHR ''#'' # rest"
        unfolding starts_with_take by (metis append_take_drop_id)
      with assms(1) own assms(3) show False by (simp add: plain_key_def take_base)
    next
      case False
      with suffix obtain rest where "gn_key n = CHR ''#'' # rest"
        by (cases "gn_key n") (auto simp: has_ordinal_suffix_def Let_def)
      with own assms(2) show False by (auto simp: plain_key_def)
    qed
  qed
  ultimately show ?thesis using assms(3, 5) by (auto simp: belongs_to_chain_def prop_is_iff)
qed

lemma filter_values_other:
  assumes "\<not> P n" "\<And>old. dict_get d k = Some old \<Longrightarrow> \<not> P old" "dict_wf d"
  shows "filter P (dict_values (dict_set k n d)) = filter P (dict_values d)"
  using assms(2, 3)
proof (induction d)
  case (Cons e d)
  then show ?case using assms(1) by (cases e) (auto simp: dict_wf_Cons split: if_splits)
qed (simp add: assms(1))

lemma write_fill_chain:
  assumes "store_wf s" "base_versions s" "write_fill mem_port wall os f s = (s', r)"
    "plain_key k" "plain_key (bf_key f)" "k \<noteq> bf_key f"
  shows "latest_fill_attempt mem_port s' k = latest_fill_attempt mem_port s k"
proof -
  from write_fill_ok [OF assms(1, 2), of wall os f] assms(3) obtain n i edges where
    fits: "attempt_fits (get_node s ''Fill'') (bf_key f) (fill_props f os) False i"
    and n: "dict_get (gn_props n) ''broker_idempotency_key'' = Some (PStr (bf_key f))"
      "gn_key n = fill_attempt_key (bf_key f) i"
    and s': "s' = s\<lparr>st_nodes := dict_set (''Fill'', fill_attempt_key (bf_key f) i) n (st_nodes s), st_edges := edges\<rparr>"
    by auto
  let ?P = "\<lambda>n. gn_label n = ''Fill'' \<and> belongs_to_chain n k"
  have "filter ?P (dict_values (st_nodes s')) = filter ?P (dict_values (st_nodes s))"
    unfolding s'
  proof (simp, rule filter_values_other)
    show "\<not> ?P n" using other_chain [OF assms(4-6) n(2)] n(1) by simp
    show "dict_wf (st_nodes s)" using assms(1) by (simp add: store_wf_def)
    fix old assume "dict_get (st_nodes s) (''Fill'', fill_attempt_key (bf_key f) i) = Some old"
    then have old: "get_node s ''Fill'' (fill_attempt_key (bf_key f) i) = Some old" by (simp add: get_node_def)
    have "(''broker_idempotency_key'', PStr (bf_key f)) \<in> set (with_attempt_props (fill_props f os) (bf_key f) i)"
    proof -
      have "dict_get (with_attempt_props (fill_props f os) (bf_key f) i) ''broker_idempotency_key'' = Some (PStr (bf_key f))"
        by (simp add: with_attempt_props_def dict_simps)
      then show ?thesis by (rule map_of_SomeD)
    qed
    from attempt_old [OF assms(1) fits old this]
    have "dict_get (gn_props old) ''broker_idempotency_key'' \<in> {None, Some (PStr (bf_key f))}"
      by (cases "dict_get (gn_props old) ''broker_idempotency_key''") (auto dest: py_eq_sym)
    then show "\<not> ?P old"
      using other_chain [OF assms(4-6), of old i] mem_node_identity [OF assms(1) old] by simp
  qed
  then show ?thesis
    by (simp add: latest_fill_attempt_def latest_fill_attempt_in_def fill_attempt_chain_in_def list_nodes_def
        filter_filter conj_commute)
qed

section \<open>Runs on the in-memory graph with the paper broker\<close>

type_synonym paper_state = "(store, paper_broker) exec_state"

definition exec_ok :: "paper_state \<Rightarrow> bool" where
  "exec_ok st \<longleftrightarrow> store_wf (xs_graph st) \<and> base_versions (xs_graph st) \<and> paper_wf (xs_broker st)"

definition submitted :: "order_intent_set \<Rightarrow> broker_order \<Rightarrow> paper_state \<Rightarrow> bool" where
  "submitted os ord st \<longleftrightarrow>
     (\<exists>f. dict_get (pb_fills (xs_broker st)) (bo_key ord) = Some f
        \<and> fill_written (Some os) (attach_order_tolerance f (bo_evidence ord)) (xs_graph st))"

definition intent_settled ::
  "(store, paper_broker) exec_env \<Rightarrow> order_intent_set \<Rightarrow> order_intent \<times> broker_order \<Rightarrow> paper_state \<Rightarrow> bool" where
  "intent_settled env os io st \<longleftrightarrow>
     completed_exit_fill env (xs_graph st) (fst io) (snd io) \<noteq> None \<or> submitted os (snd io) st"

definition same_world :: "paper_state \<Rightarrow> paper_state \<Rightarrow> bool" where
  "same_world st st' \<longleftrightarrow> xs_graph st' = xs_graph st \<and> xs_broker st' = xs_broker st"

lemma write_fills_one:
  "write_fill port wall os f w = (w', Inr n) \<Longrightarrow>
     write_fills port wall run_id [f] os w = (w', Inr (execution_provenance run_id (Some n)))"
  by (simp add: write_fills_def step_bind_def step_return_def)

text \<open>What one intent does: it is skipped, or its order is placed and its fill written.\<close>

lemma submit_one_cases:
  assumes "xe_port env = mem_port" "xe_broker env = paper_port" "exec_ok st"
    "submit_one env os (intent, ord) (st, fs, skipped, pv) = (st', fs', skipped', pv')"
  shows "(completed_exit_fill env (xs_graph st) intent ord \<noteq> None \<and> same_world st st' \<and> fs' = fs \<and> skipped' = skipped + 1)
    \<or> (\<exists>b1 faults1 g n. completed_exit_fill env (xs_graph st) intent ord = None
        \<and> submit_order paper_port (xe_wall env (xs_graph st)) ''submit'' ord (xs_broker st, xs_faults st)
            = ((b1, faults1), attach_order_tolerance g (bo_evidence ord))
        \<and> dict_get (pb_fills b1) (bo_key ord) = Some g
        \<and> write_fill mem_port (xe_wall env) (Some os) (attach_order_tolerance g (bo_evidence ord)) (xs_graph st)
            = (xs_graph st', Inr n)
        \<and> xs_broker st' = b1 \<and> fs' = fs @ [attach_order_tolerance g (bo_evidence ord)] \<and> skipped' = skipped)"
proof (cases "completed_exit_fill env (xs_graph st) intent ord")
  case None
  let ?now = "xe_wall env (xs_graph st)"
  have ok: "paper_wf (fst (xs_broker st, xs_faults st))" using assms(3) by (simp add: exec_ok_def)
  obtain b1 faults1 f where sub:
    "submit_order paper_port ?now ''submit'' ord (xs_broker st, xs_faults st) = ((b1, faults1), f)"
    by (metis prod.exhaust)
  with paper.submit_order_records [OF ok paper_never_fails, of ?now "''submit''" ord] obtain g where
    g: "dict_get (pb_fills b1) (bo_key ord) = Some g" "f = attach_order_tolerance g (bo_evidence ord)" by auto
  from write_fill_ok [of "xs_graph st" "xe_wall env" "Some os" f] assms(3) obtain g1 n where
    w: "write_fill mem_port (xe_wall env) (Some os) f (xs_graph st) = (g1, Inr n)"
    by (auto simp: exec_ok_def)
  from assms(4) None sub write_fills_one [OF w] show ?thesis
    using g w assms(1, 2) by (auto simp: submit_one_def Let_def)
next
  case (Some prior)
  with assms(4) show ?thesis by (auto simp: submit_one_def same_world_def)
qed

lemma submit_one_ok:
  assumes "xe_port env = mem_port" "xe_broker env = paper_port" "exec_ok st"
    "submit_one env os (intent, ord) (st, fs, skipped, pv) = (st', fs', skipped', pv')"
  shows "exec_ok st' \<and> intent_settled env os (intent, ord) st'"
proof -
  from submit_one_cases [OF assms] show ?thesis
  proof (elim disjE exE conjE)
    assume skip: "completed_exit_fill env (xs_graph st) intent ord \<noteq> None" "same_world st st'"
    then show ?thesis using assms(3) by (simp add: exec_ok_def intent_settled_def same_world_def)
  next
    fix b1 faults1 g n
    assume sub: "submit_order paper_port (xe_wall env (xs_graph st)) ''submit'' ord (xs_broker st, xs_faults st)
            = ((b1, faults1), attach_order_tolerance g (bo_evidence ord))"
      and g: "dict_get (pb_fills b1) (bo_key ord) = Some g"
      and w: "write_fill mem_port (xe_wall env) (Some os) (attach_order_tolerance g (bo_evidence ord)) (xs_graph st)
            = (xs_graph st', Inr n)"
      and b: "xs_broker st' = b1"
    have "paper_wf b1"
      using paper.submit_order_ok [of "(xs_broker st, xs_faults st)" "xe_wall env (xs_graph st)" "''submit''" ord]
        sub assms(3) by (simp add: exec_ok_def)
    with write_fill_ok [of "xs_graph st" "xe_wall env" "Some os" "attach_order_tolerance g (bo_evidence ord)"]
      assms(3) w b g show ?thesis by (auto simp: exec_ok_def intent_settled_def submitted_def)
  qed
qed

text \<open>Another order, of another key, keeps what is settled.\<close>

lemma submit_one_other:
  assumes "xe_port env = mem_port" "xe_broker env = paper_port" "exec_ok st"
    "submit_one env os (intent, ord) (st, fs, skipped, pv) = (st', fs', skipped', pv')"
    "intent_settled env os (intent', ord') st" "bo_key ord' \<noteq> bo_key ord"
    "plain_key (bo_key ord)" "plain_key (bo_key ord')"
  shows "intent_settled env os (intent', ord') st'"
proof -
  from submit_one_cases [OF assms(1-4)] show ?thesis
  proof (elim disjE exE conjE)
    assume "same_world st st'"
    with assms(5) show ?thesis by (simp add: intent_settled_def submitted_def same_world_def)
  next
    fix b1 faults1 g n
    let ?f = "attach_order_tolerance g (bo_evidence ord)"
    assume sub: "submit_order paper_port (xe_wall env (xs_graph st)) ''submit'' ord (xs_broker st, xs_faults st)
            = ((b1, faults1), ?f)"
      and g: "dict_get (pb_fills b1) (bo_key ord) = Some g"
      and w: "write_fill mem_port (xe_wall env) (Some os) ?f (xs_graph st) = (xs_graph st', Inr n)"
      and b: "xs_broker st' = b1"
    have wf: "store_wf (xs_graph st)" "base_versions (xs_graph st)" using assms(3) by (simp_all add: exec_ok_def)
    have "paper_wf b1"
      using paper.submit_order_ok [of "(xs_broker st, xs_faults st)" "xe_wall env (xs_graph st)" "''submit''" ord]
        sub assms(3) by (simp add: exec_ok_def)
    then have key: "bf_key ?f = bo_key ord" using g paper.recorded_key by simp
    have same: "same_but (bf_key ?f) (xs_graph st) (xs_graph st')"
      using write_fill_ok [OF wf, of "xe_wall env" "Some os" ?f] w by auto
    have chain: "latest_fill_attempt mem_port (xs_graph st') (bo_key ord')
        = latest_fill_attempt mem_port (xs_graph st) (bo_key ord')"
      using write_fill_chain [OF wf w, of "bo_key ord'"] assms(6-8) key by simp
    show ?thesis
    proof (cases "completed_exit_fill env (xs_graph st) intent' ord' = None")
      case False
      moreover have "completed_exit_fill env (xs_graph st') intent' ord' = completed_exit_fill env (xs_graph st) intent' ord'"
        using chain assms(1) by (simp add: completed_exit_fill_def)
      ultimately show ?thesis by (simp add: intent_settled_def)
    next
      case True
      with assms(5) obtain f' where f': "dict_get (pb_fills (xs_broker st)) (bo_key ord') = Some f'"
        "fill_written (Some os) (attach_order_tolerance f' (bo_evidence ord')) (xs_graph st)"
        by (auto simp: intent_settled_def submitted_def)
      have "bf_key f' = bo_key ord'"
        using paper.recorded_key [OF _ f'(1)] assms(3) by (simp add: exec_ok_def)
      with fill_written_other [OF f'(2) same] assms(6-8) key
      have "fill_written (Some os) (attach_order_tolerance f' (bo_evidence ord')) (xs_graph st')" by simp
      moreover have "dict_get (pb_fills b1) (bo_key ord') = Some f'"
        using paper.submit_order_keeps [of "(xs_broker st, xs_faults st)" "bo_key ord'" f'
            "xe_wall env (xs_graph st)" "''submit''" ord] f'(1) sub by simp
      ultimately show ?thesis using b by (auto simp: intent_settled_def submitted_def)
    qed
  qed
qed

text \<open>A settled intent leaves the graph and the broker alone.\<close>

lemma submit_one_again:
  assumes "xe_port env = mem_port" "xe_broker env = paper_port" "exec_ok st"
    "submit_one env os (intent, ord) (st, fs, skipped, pv) = (st', fs', skipped', pv')"
    "intent_settled env os (intent, ord) st"
  shows "same_world st st'"
proof -
  from submit_one_cases [OF assms(1-4)] show ?thesis
  proof (elim disjE exE conjE)
    fix b1 faults1 g n
    let ?f = "attach_order_tolerance g (bo_evidence ord)"
    assume none: "completed_exit_fill env (xs_graph st) intent ord = None"
      and sub: "submit_order paper_port (xe_wall env (xs_graph st)) ''submit'' ord (xs_broker st, xs_faults st)
            = ((b1, faults1), ?f)"
      and w: "write_fill mem_port (xe_wall env) (Some os) ?f (xs_graph st) = (xs_graph st', Inr n)"
      and b: "xs_broker st' = b1"
    from none assms(5) obtain f' where f': "dict_get (pb_fills (xs_broker st)) (bo_key ord) = Some f'"
      "fill_written (Some os) (attach_order_tolerance f' (bo_evidence ord)) (xs_graph st)"
      by (auto simp: intent_settled_def submitted_def)
    have "b1 = xs_broker st" "?f = attach_order_tolerance f' (bo_evidence ord)"
      using paper.submit_order_recorded [of "(xs_broker st, xs_faults st)" ord f' "xe_wall env (xs_graph st)" "''submit''"]
        f'(1) sub assms(3) by (simp_all add: exec_ok_def)
    with fill_written_again [of "xs_graph st" "Some os" ?f "xe_wall env"] f'(2) assms(3) w b show ?thesis
      by (auto simp: same_world_def exec_ok_def)
  qed
qed

lemma submit_one_stages:
  assumes "xe_port env = mem_port" "xe_broker env = paper_port" "exec_ok st"
    "submit_one env os (intent, ord) (st, fs, skipped, pv) = (st', fs', skipped', pv')"
  shows "list_nodes (xs_graph st') ''StageTransition'' = list_nodes (xs_graph st) ''StageTransition''
    \<and> length fs' + skipped' = Suc (length fs + skipped)"
  using submit_one_cases [OF assms]
proof (elim disjE exE conjE)
  fix b1 faults1 g n
  assume "write_fill mem_port (xe_wall env) (Some os) (attach_order_tolerance g (bo_evidence ord)) (xs_graph st)
            = (xs_graph st', Inr n)" "fs' = fs @ [attach_order_tolerance g (bo_evidence ord)]" "skipped' = skipped"
  with write_fill_ok [of "xs_graph st" "xe_wall env" "Some os" "attach_order_tolerance g (bo_evidence ord)"] assms(3)
  show ?thesis by (auto simp: exec_ok_def same_but_def)
qed (simp add: same_world_def)

lemma submit_all:
  assumes "xe_port env = mem_port" "xe_broker env = paper_port" "exec_ok st"
    "distinct (map (\<lambda>io. bo_key (snd io)) ios)" "\<forall>io \<in> set ios. plain_key (bo_key (snd io))"
    "fold (submit_one env os) ios (st, fs, skipped, pv) = (st', fs', skipped', pv')"
  shows "exec_ok st' \<and> (\<forall>io \<in> set ios. intent_settled env os io st')
    \<and> (\<forall>io. intent_settled env os io st \<longrightarrow> plain_key (bo_key (snd io))
         \<longrightarrow> bo_key (snd io) \<notin> set (map (\<lambda>io. bo_key (snd io)) ios) \<longrightarrow> intent_settled env os io st')
    \<and> list_nodes (xs_graph st') ''StageTransition'' = list_nodes (xs_graph st) ''StageTransition''
    \<and> length fs' + skipped' = length ios + length fs + skipped"
  using assms(3-6)
proof (induction ios arbitrary: st fs skipped pv)
  case (Cons io ios)
  obtain intent ord where io: "io = (intent, ord)" by (rule prod.exhaust)
  obtain st1 fs1 sk1 pv1 where one: "submit_one env os io (st, fs, skipped, pv) = (st1, fs1, sk1, pv1)"
    by (metis prod.exhaust)
  note ok = submit_one_ok [OF assms(1, 2) Cons.prems(1) one [unfolded io]]
  note stages = submit_one_stages [OF assms(1, 2) Cons.prems(1) one [unfolded io]]
  have other: "intent_settled env os io' st1"
    if "intent_settled env os io' st" "plain_key (bo_key (snd io'))" "bo_key (snd io') \<noteq> bo_key ord" for io'
    using submit_one_other [OF assms(1, 2) Cons.prems(1) one [unfolded io], of "fst io'" "snd io'"] that Cons.prems(3)
    by (simp add: io)
  have rest: "distinct (map (\<lambda>io. bo_key (snd io)) ios)" "\<forall>io \<in> set ios. plain_key (bo_key (snd io))"
    "fold (submit_one env os) ios (st1, fs1, sk1, pv1) = (st', fs', skipped', pv')"
    "bo_key ord \<notin> set (map (\<lambda>io. bo_key (snd io)) ios)" "plain_key (bo_key ord)"
    using Cons.prems one by (simp_all add: io)
  from Cons.IH [OF ok [THEN conjunct1] rest(1-3)] ok stages other rest(4, 5) show ?case
    by (simp add: io)
qed simp

lemma submit_all_again:
  assumes "xe_port env = mem_port" "xe_broker env = paper_port" "exec_ok st"
    "\<forall>io \<in> set ios. intent_settled env os io st"
    "fold (submit_one env os) ios (st, fs, skipped, pv) = (st', fs', skipped', pv')"
  shows "same_world st st'"
  using assms(3-5)
proof (induction ios arbitrary: st fs skipped pv)
  case (Cons io ios)
  obtain intent ord where io: "io = (intent, ord)" by (rule prod.exhaust)
  obtain st1 fs1 sk1 pv1 where one: "submit_one env os io (st, fs, skipped, pv) = (st1, fs1, sk1, pv1)"
    by (metis prod.exhaust)
  have same: "same_world st st1"
    using submit_one_again [OF assms(1, 2) Cons.prems(1) one [unfolded io]] Cons.prems(2) by (simp add: io)
  then have "exec_ok st1" "\<forall>io \<in> set ios. intent_settled env os io st1"
    using Cons.prems(1, 2) by (simp_all add: same_world_def exec_ok_def intent_settled_def submitted_def)
  from Cons.IH [OF this] Cons.prems(3) one same show ?case by (simp add: same_world_def)
qed (simp add: same_world_def)


definition sample_exec_env :: "execution_stage \<Rightarrow> (store, paper_broker) exec_env" where
  "sample_exec_env stage = \<lparr>xe_port = mem_port, xe_wall = \<lambda>s. sample_time, xe_broker = paper_port,
     xe_float_text = \<lambda>q. [], xe_stage = stage, xe_tolerance = sample_tolerance\<rparr>"

definition sample_intents :: order_intent_set where
  "sample_intents = \<lparr>ois_run_id = ''run1'',
     ois_approved = [\<lparr>oi_ticker = ''ACME'', oi_action = BuyAction, oi_quantity = 2, oi_est_price = usd 10,
        oi_decision_atr_pct = None, oi_stop_pct = None, oi_target_pct = None, oi_position_ref = None,
        oi_rationale = \<lparr>ex_summary = [], ex_evidence_refs = []\<rparr>, oi_gate_report = []\<rparr>],
     ois_rejected = [], ois_explanation = \<lparr>ex_summary = [], ex_evidence_refs = []\<rparr>,
     ois_provenance = execution_provenance ''pm'' None\<rparr>"

definition sample_exec_state :: paper_state where
  "sample_exec_state = \<lparr>xs_graph = empty_store, xs_broker = new_paper_broker 0 0 [] (usd 1000) ''new'', xs_faults = []\<rparr>"

lemma sample_orders:
  "\<exists>ord. orders_of (sample_exec_env stage) sample_intents = Inr [ord] \<and> bo_key ord = ''run1:ACME:buy''"
  by (simp add: orders_of_def sample_intents_def order_from_intent_def order_key_def Let_def)

lemma sample_stage_of: "submit_stage (sample_exec_env stage) (xs_graph sample_exec_state) = stage"
  by (simp add: submit_stage_def current_stage_from_graph_def sample_exec_env_def sample_exec_state_def
      list_nodes_def empty_store_def)


section \<open>The live gate\<close>

text \<open>The main properties of a written fill: no later key of its record touches them.\<close>

lemma dict_update_other: "k \<notin> fst ` set q \<Longrightarrow> dict_get (dict_update p q) k = dict_get p k"
  unfolding dict_update_def by (induction q arbitrary: p) (auto simp: dict_simps)

lemma fill_part_keys:
  "fst ` set (when_some name g v) \<subseteq> {name}"
  "fst ` set (money_props name m) \<subseteq> {name @ ''_cents'', name @ ''_currency''}"
  by (auto simp: when_some_def money_props_def split: option.splits)

lemma tolerance_keys: "fst ` set (order_tolerance_props f) \<subseteq> {k. take 6 k = ''order_''}"
proof (cases "bf_tolerance_mode f")
  case (Some m)
  have part: "fst ` set (when_some name g v) \<subseteq> {k. take 6 k = ''order_''} \<longleftrightarrow> True" if "take 6 name = ''order_''"
    for name g and v :: "'x option" using that fill_part_keys(1) [of name g v] by auto
  have money: "fst ` set (money_props name v) \<subseteq> {k. take 6 k = ''order_''} \<longleftrightarrow> True"
    if "take 6 (name @ ''_cents'') = ''order_''" "take 6 (name @ ''_currency'') = ''order_''" for name v
    using that fill_part_keys(2) [of name v] by auto
  show ?thesis by (simp add: order_tolerance_props_def Some image_Un part money)
qed (simp add: order_tolerance_props_def)

lemma fill_props_main:
  assumes "k \<noteq> ''attempt_ordinal''" "k \<noteq> ''broker_idempotency_key''" "k \<noteq> ''submitted_at''"
    "k \<noteq> ''time_in_force''" "k \<noteq> ''source_run_id''" "take 6 k \<noteq> ''order_''"
  shows "dict_get (with_attempt_props (fill_props f os) key i) k
    = dict_get [(''ticker'', PStr (bf_ticker f)), (''side'', PStr (side_text (bf_side f))),
      (''quantity'', PInt (bf_quantity f)), (''price_cents'', PInt (money_to_cents (bf_price f))),
      (''price_currency'', PStr (mny_currency (bf_price f))), (''broker_order_id'', PStr (bf_order_id f)),
      (''status'', PStr (status_text (bf_status f))), (''reason'', none_or PStr (bf_reason f))] k"
proof -
  have tol: "k \<notin> fst ` set (order_tolerance_props f)" using assms(6) tolerance_keys [of f] by blast
  have otype: "k \<noteq> ''order_type''" using assms(6) by (rule contrapos_nn) simp
  have part: "k \<noteq> name \<Longrightarrow> k \<notin> fst ` set (when_some name g v)" for name g and v :: "'x option"
    using fill_part_keys(1) [of name g v] by blast
  note parts = part [OF assms(3)] part [OF assms(4)] part [OF assms(5)] part [OF otype]
  have "k \<notin> fst ` set (when_some ''submitted_at'' PStr (bf_submitted_at f)
      @ when_some ''order_type'' PStr (bf_order_type f) @ when_some ''time_in_force'' PStr (bf_time_in_force f)
      @ order_tolerance_props f @ when_some ''source_run_id'' (\<lambda>x. PStr (ois_run_id x)) os)"
    unfolding set_append image_Un Un_iff using tol parts by blast
  from dict_update_other [OF this] show ?thesis
    unfolding with_attempt_props_def fill_props_def dict_get_set using assms(1, 2) by simp
qed

text \<open>A Fill of the order's chain that records its rejection; no write of a fill removes it.\<close>

definition rejection_recorded :: "string \<Rightarrow> string \<Rightarrow> order_side \<Rightarrow> string \<Rightarrow> store \<Rightarrow> bool" where
  "rejection_recorded key ticker side reason s \<longleftrightarrow>
     (\<exists>i n. get_node s ''Fill'' (fill_attempt_key key i) = Some n
        \<and> prop_is (gn_props n) ''ticker'' ticker \<and> prop_is (gn_props n) ''side'' (side_text side)
        \<and> prop_is (gn_props n) ''status'' ''rejected'' \<and> prop_is (gn_props n) ''reason'' reason)"

lemma keeps_prop_is:
  "keeps n n' \<Longrightarrow> prop_is (gn_props n) k v \<Longrightarrow> k \<notin> set partial_completion_props \<Longrightarrow> prop_is (gn_props n') k v"
  unfolding prop_is_iff by (erule (1) keeps_get) auto

lemma rejection_stays:
  assumes "store_wf s" "write_ok w" "rejection_recorded key ticker side reason s"
  shows "rejection_recorded key ticker side reason (apply_write s w)"
proof -
  from assms(3) obtain i n where n: "get_node s ''Fill'' (fill_attempt_key key i) = Some n"
    and p: "prop_is (gn_props n) ''ticker'' ticker" "prop_is (gn_props n) ''side'' (side_text side)"
      "prop_is (gn_props n) ''status'' ''rejected''" "prop_is (gn_props n) ''reason'' reason"
    unfolding rejection_recorded_def by (elim exE conjE)
  from apply_write_keeps [OF assms(1, 2) n [unfolded get_node_def]] obtain n' where
    "get_node (apply_write s w) ''Fill'' (fill_attempt_key key i) = Some n'" "keeps n n'"
    unfolding get_node_def by blast
  moreover from keeps_prop_is [OF this(2) p(1)] keeps_prop_is [OF this(2) p(2)]
    keeps_prop_is [OF this(2) p(3)] keeps_prop_is [OF this(2) p(4)]
  have "prop_is (gn_props n') ''ticker'' ticker \<and> prop_is (gn_props n') ''side'' (side_text side)
      \<and> prop_is (gn_props n') ''status'' ''rejected'' \<and> prop_is (gn_props n') ''reason'' reason"
    by (simp add: partial_completion_props_def)
  ultimately show ?thesis unfolding rejection_recorded_def by blast
qed

lemma write_fill_rejection_stays:
  "step_keeps (\<lambda>s. store_wf s \<and> rejection_recorded key ticker side reason s) (write_fill mem_port wall os f)"
  (is "step_keeps ?P _")
proof -
  have merge: "step_keeps ?P (\<lambda>s. merge_node (wall s) s ''Fill'' k (with_attempt_props (fill_props f os) (bf_key f) i) 1)"
    for k i
    using rejection_stays [where w = "MergeNode now ''Fill'' k (with_attempt_props (fill_props f os) (bf_key f) i) 1" for now]
      merge_node_wf fill_props_ok(1) by (auto simp: step_keeps_def)
  have edge: "step_keeps ?P (\<lambda>s. add_edge (wall s) s a b ''EXECUTES'' None)" for a b
    using rejection_stays [where w = "AddEdge now a b ''EXECUTES'' None" for now] add_edge_wf
    by (auto simp: step_keeps_def)
  have link: "step_keeps ?P (link_order_intent mem_port wall n (pm_run_key os) (bf_ticker f))" for n
    using edge by (auto simp: step_keeps_def link_order_intent_def split: option.splits)
  show ?thesis
    unfolding step_keeps_def
  proof (intro allI impI)
    fix s assume P: "?P s"
    then obtain i where sel: "select_fill_attempt mem_port s (bf_key f) (fill_props f os) False
        = Some \<lparr>fa_key = fill_attempt_key (bf_key f) i, fa_ordinal = i,
                fa_props = with_attempt_props (fill_props f os) (bf_key f) i\<rparr>"
      using mem_listed.attempt_found [of s "bf_key f" "fill_props f os" False]
      by auto (metis fill_attempt.surjective old.unit.exhaust)
    have "step_keeps ?P (step_bind (\<lambda>s. merge_node (wall s) s ''Fill'' (fill_attempt_key (bf_key f) i)
        (with_attempt_props (fill_props f os) (bf_key f) i) 1) (\<lambda>n.
      step_bind (link_order_intent mem_port wall n (pm_run_key os) (bf_ticker f)) (\<lambda>_. step_return n)))"
      by (intro step_keeps_bind merge link step_keeps_return)
    with P sel show "?P (fst (write_fill mem_port wall os f s))"
      by (simp add: write_fill_def step_keeps_def)
  qed
qed

text \<open>Writing rejected fills records the rejection of each.\<close>

lemma write_rejections:
  assumes "store_wf s" "base_versions s" "\<forall>f \<in> set fs. bf_status f = Rejected"
  shows "\<exists>s' first'. write_nodes (map (write_fill mem_port wall os) fs) first s = (s', Inr first')
    \<and> (\<forall>f \<in> set fs. \<forall>reason. bf_reason f = Some reason \<longrightarrow>
          rejection_recorded (bf_key f) (bf_ticker f) (bf_side f) reason s')"
  using assms
proof (induction fs arbitrary: s first)
  case (Cons f fs)
  from write_fill_ok [OF Cons.prems(1, 2)] obtain s1 n where
    step: "write_fill mem_port wall os f s = (s1, Inr n)" "store_wf s1" "base_versions s1" "fill_written os f s1"
    by blast
  let ?first = "case first of None \<Rightarrow> Some n | Some k \<Rightarrow> Some k"
  from Cons.IH [OF step(2, 3), of ?first] Cons.prems(3) obtain s' first' where
    rest: "write_nodes (map (write_fill mem_port wall os) fs) ?first s1 = (s', Inr first')"
      "\<forall>f \<in> set fs. \<forall>reason. bf_reason f = Some reason \<longrightarrow>
          rejection_recorded (bf_key f) (bf_ticker f) (bf_side f) reason s'" by auto
  have "rejection_recorded (bf_key f) (bf_ticker f) (bf_side f) reason s'" if reason: "bf_reason f = Some reason" for reason
  proof -
    obtain i m where m: "get_node s1 ''Fill'' (fill_attempt_key (bf_key f) i) = Some m"
      "\<forall>(k, v) \<in> set (with_attempt_props (fill_props f os) (bf_key f) i). dict_get (gn_props m) k = Some v"
      using step(4) unfolding fill_written_def by blast
    have at: "dict_get (gn_props m) k = Some v"
      if "dict_get (with_attempt_props (fill_props f os) (bf_key f) i) k = Some v" for k v
      using m(2) that by (auto dest: map_of_SomeD)
    have "dict_get (gn_props m) ''ticker'' = Some (PStr (bf_ticker f))" by (rule at) (simp add: fill_props_main)
    moreover have "dict_get (gn_props m) ''side'' = Some (PStr (side_text (bf_side f)))" by (rule at) (simp add: fill_props_main)
    moreover have "dict_get (gn_props m) ''status'' = Some (PStr ''rejected'')"
      by (rule at) (use Cons.prems(3) in \<open>simp add: fill_props_main\<close>)
    moreover have "dict_get (gn_props m) ''reason'' = Some (PStr reason)"
      by (rule at) (simp add: fill_props_main reason none_or_def)
    ultimately have "rejection_recorded (bf_key f) (bf_ticker f) (bf_side f) reason s1"
      using m(1) unfolding rejection_recorded_def prop_is_iff by blast
    moreover have "step_keeps (\<lambda>s. store_wf s \<and> rejection_recorded (bf_key f) (bf_ticker f) (bf_side f) reason s)
        (write_nodes (map (write_fill mem_port wall os) fs) ?first)"
      by (intro write_nodes_keeps) (auto intro: write_fill_rejection_stays)
    ultimately show ?thesis using step(2) rest(1) unfolding step_keeps_def by (metis fst_conv)
  qed
  with step(1) rest show ?case by (auto simp: step_bind_def)
qed (simp add: step_return_def)

lemma all_res_orders: "all_res (map f xs) = Inr ys \<Longrightarrow> length ys = length xs"
  by (induction xs arbitrary: ys) (auto simp: res_bind_Inr_iff)

lemma all_res_member: "all_res (map f xs) = Inr ys \<Longrightarrow> x \<in> set xs \<Longrightarrow> \<exists>y \<in> set ys. f x = Inr y"
  by (induction xs arbitrary: ys) (auto simp: res_bind_Inr_iff)



end
