(* ===== verification/HeldStops.thy ===== *)
theory HeldStops
  imports BrokerLifecycle GraphPort "HOL-Library.Product_Lexorder"
begin

text \<open>
  The stop of a held position: the floor (\<open>contracts/stop_rule.py\<close>) and its width
  (\<open>contracts/stop_width.py\<close>).  A position adopted from the broker reads its width from the most
  recent filled buy of a production run that equals it exactly in ticker, quantity and price; any
  other position has recorded its own.

  \<open>LineageFills\<close>, which reads the Fill nodes once for a pass over the book and only when asked, is
  the list of nodes it holds, \<open>None\<close> before the first read.
\<close>

section \<open>The floor\<close>

definition pct_scale :: int where
  "pct_scale = 10000"

definition stop_price_cents :: "int \<Rightarrow> rat \<Rightarrow> int" where
  "stop_price_cents opened stop_pct =
     opened * (pct_scale - round_half_even (stop_pct * of_int pct_scale)) div pct_scale"

definition check_stop :: "int \<Rightarrow> int \<Rightarrow> rat \<Rightarrow> bool" where
  "check_stop current opened stop_pct \<longleftrightarrow> current \<le> stop_price_cents opened stop_pct"

lemma stop_pct_scaled:
  assumes "0 \<le> stop_pct" "stop_pct \<le> 1"
  shows "0 \<le> round_half_even (stop_pct * of_int pct_scale)"
    "round_half_even (stop_pct * of_int pct_scale) \<le> pct_scale"
proof -
  have "0 \<le> stop_pct * of_int pct_scale" "stop_pct * of_int pct_scale \<le> of_int pct_scale"
    using assms by (simp_all add: pct_scale_def)
  from round_half_even_mono [OF this(1)] round_half_even_mono [OF this(2)]
  show "0 \<le> round_half_even (stop_pct * of_int pct_scale)"
    "round_half_even (stop_pct * of_int pct_scale) \<le> pct_scale"
    using round_half_even_of_int [of 0] by simp_all
qed

text \<open>
  For a width between nothing and everything the stop floor lies between nothing and the opening
  price, no further than a cent and half a basis point of the price from the exact one; a wider stop
  has a floor no higher, so a price that breaches it breaches every narrower one.
\<close>

lemma stop_floor_banded:
  assumes "0 \<le> opened" "0 \<le> a" "a \<le> b" "b \<le> 1"
  shows "0 \<le> stop_price_cents opened b \<and> stop_price_cents opened a \<le> opened
    \<and> \<bar>of_int (stop_price_cents opened a) - of_int opened * (1 - a)\<bar> \<le> 1 + of_int opened / 20000
    \<and> stop_price_cents opened b \<le> stop_price_cents opened a
    \<and> (check_stop current opened b \<longrightarrow> check_stop current opened a)"
proof -
  let ?r = "\<lambda>w. round_half_even (w * of_int pct_scale)"
  have range: "0 \<le> ?r w" "?r w \<le> pct_scale" if "w \<in> {a, b}" for w
    using stop_pct_scaled [of w] assms that by auto
  have "?r a \<le> ?r b" using assms(3) by (intro round_half_even_mono) (simp add: pct_scale_def)
  then have mono: "opened * (pct_scale - ?r b) \<le> opened * (pct_scale - ?r a)"
    using assms(1) by (intro mult_left_mono) simp_all
  then have floors: "stop_price_cents opened b \<le> stop_price_cents opened a"
    unfolding stop_price_cents_def by (rule zdiv_mono1) (simp add: pct_scale_def)
  have "opened * (pct_scale - ?r a) \<le> opened * pct_scale"
    using assms(1) range [of a] by (intro mult_left_mono) simp_all
  then have "stop_price_cents opened a \<le> opened * pct_scale div pct_scale"
    unfolding stop_price_cents_def by (rule zdiv_mono1) (simp add: pct_scale_def)
  then have upper: "stop_price_cents opened a \<le> opened" by (simp add: pct_scale_def)
  have lower: "0 \<le> stop_price_cents opened b"
    using assms(1) range [of b] by (simp add: stop_price_cents_def pct_scale_def pos_imp_zdiv_nonneg_iff)
  let ?n = "opened * (pct_scale - ?r a)"
  have "?n = ?n div 10000 * 10000 + ?n mod 10000" "0 \<le> ?n mod 10000" "?n mod 10000 < 10000" by simp_all
  then have "(of_int (stop_price_cents opened a) :: rat) * 10000 \<le> of_int ?n"
    "of_int ?n \<le> (of_int (stop_price_cents opened a) :: rat) * 10000 + 10000"
    unfolding stop_price_cents_def pct_scale_def by linarith+
  moreover have "\<bar>of_int ?n - (of_int opened * (1 - a)) * 10000\<bar> \<le> of_int opened / 2"
  proof -
    have "of_int ?n - (of_int opened * (1 - a)) * 10000 = of_int opened * (a * 10000 - of_int (?r a))"
      by (simp add: pct_scale_def algebra_simps)
    moreover have "\<bar>a * 10000 - of_int (?r a)\<bar> \<le> 1 / 2"
      using round_half_even_error [of "a * of_int pct_scale"] by (simp add: pct_scale_def abs_minus_commute)
    then have "of_int opened * \<bar>a * 10000 - of_int (?r a)\<bar> \<le> of_int opened * (1 / 2)"
      using assms(1) by (intro mult_left_mono) simp_all
    ultimately show ?thesis using assms(1) by (simp add: abs_mult)
  qed
  ultimately have "\<bar>of_int (stop_price_cents opened a) - of_int opened * (1 - a)\<bar> \<le> 1 + of_int opened / 20000"
    unfolding abs_le_iff by linarith
  with floors upper lower show ?thesis by (auto simp: check_stop_def)
qed

section \<open>The width\<close>

record 'w graph_env =
  ge_port :: "'w graph_port"
  ge_wall :: "'w \<Rightarrow> timestamp"
  ge_float_text :: "rat \<Rightarrow> string"
  ge_parse_float :: "string \<Rightarrow> rat option"

text \<open>\<open>graph.descendants(n, max_depth=1, edge_types={t})\<close> and its mirror image.\<close>

definition descend :: "('w, 'x) graph_env_scheme \<Rightarrow> gnode \<Rightarrow> string \<Rightarrow> ('w, gnode list) step" where
  "descend env n t w = gp_descendants (ge_port env) (ge_wall env w) w n 1 (Some [t])"

definition ascend :: "('w, 'x) graph_env_scheme \<Rightarrow> gnode \<Rightarrow> string \<Rightarrow> ('w, gnode list) step" where
  "ascend env n t w = gp_ancestors (ge_port env) (ge_wall env w) w n 1 (Some [t])"

datatype stop_width_source = LineageWidth | PositionWidth | FallbackWidth

record decided_stop =
  dst_pct :: rat
  dst_source :: stop_width_source

definition recorded_stop_pct :: "(string \<Rightarrow> rat option) \<Rightarrow> gnode \<Rightarrow> rat option res" where
  "recorded_stop_pct parse position =
     (case data_get (gn_props position) ''stop_pct'' of
        PNone \<Rightarrow> Inr None
      | PBool b \<Rightarrow> Inl (TypeError ''stop_pct'')
      | v \<Rightarrow> res_bind (py_float parse v) (\<lambda>q. Inr (Some q)))"

definition or_fallback :: "rat option \<Rightarrow> rat option \<Rightarrow> rat res" where
  "or_fallback recorded fallback =
     (case (case recorded of None \<Rightarrow> fallback | Some q \<Rightarrow> Some q) of
        None \<Rightarrow> Inl (ValueError ''position records no stop width and no fallback was given'')
      | Some q \<Rightarrow> Inr q)"

definition equals_holding :: "(rat \<Rightarrow> string) \<Rightarrow> gnode \<Rightarrow> gnode \<Rightarrow> bool" where
  "equals_holding flt fill position \<longleftrightarrow>
     (case (whole (data_get (gn_props fill) (fill_quantity_key fill)),
            whole (data_get (gn_props fill) ''broker_price_cents'')) of
        (Some quantity, Some price) \<Rightarrow>
          py_eq (data_get (gn_props fill) ''ticker'') (data_get (gn_props position) ''ticker'')
          \<and> is_filled_buy_fill flt fill
          \<and> (case data_get (gn_props fill) ''source_run_id'' of
               PStr run_id \<Rightarrow> starts_with run_id ''pm-run-'' | _ \<Rightarrow> False)
          \<and> Some quantity = whole (data_get (gn_props position) ''quantity'')
          \<and> Some price = whole (data_get (gn_props position) ''opened_price_cents'')
      | _ \<Rightarrow> False)"

definition fill_recency :: "(rat \<Rightarrow> string) \<Rightarrow> gnode \<Rightarrow> string \<times> string" where
  "fill_recency flt n =
     (let v = data_get (gn_props n) ''submitted_at''
      in (if py_truth v then py_str flt v else [], gn_key n))"

definition order_stop_pct :: "('w, 'x) graph_env_scheme \<Rightarrow> gnode \<Rightarrow> ('w, rat option) step" where
  "order_stop_pct env fill =
     step_bind (descend env fill ''EXECUTES'') (\<lambda>orders.
       step_return (case orders of
           [] \<Rightarrow> None
         | order # _ \<Rightarrow>
             (case data_get (gn_props order) ''stop_pct'' of
                PInt i \<Rightarrow> Some (of_int i) | PFloat q \<Rightarrow> Some q | _ \<Rightarrow> None)))"

definition lineage_stop_pct :: "('w, 'x) graph_env_scheme \<Rightarrow> gnode list \<Rightarrow> gnode \<Rightarrow> ('w, rat option) step" where
  "lineage_stop_pct env fills position =
     (case sort_key (fill_recency (ge_float_text env))
             (filter (\<lambda>f. equals_holding (ge_float_text env) f position) fills) of
        [] \<Rightarrow> step_return None
      | m # ms \<Rightarrow> order_stop_pct env (last (m # ms)))"

definition lineage_fills :: "('w, 'x) graph_env_scheme \<Rightarrow> 'w \<Rightarrow> gnode list option \<Rightarrow> gnode list" where
  "lineage_fills env w held = (case held of None \<Rightarrow> gp_list (ge_port env) w ''Fill'' | Some fs \<Rightarrow> fs)"

definition decided_stop_pct ::
  "('w, 'x) graph_env_scheme \<Rightarrow> rat option \<Rightarrow> gnode \<Rightarrow> gnode list option
   \<Rightarrow> ('w, decided_stop \<times> gnode list option) step" where
  "decided_stop_pct env fallback position held w =
     step_bind (step_res (recorded_stop_pct (ge_parse_float env) position)) (\<lambda>recorded.
       if prop_is (gn_props position) ''provenance'' ''reconciled-from-broker''
       then (let fills = lineage_fills env w held in
             step_bind (lineage_stop_pct env fills position) (\<lambda>decided.
               case decided of
                 Some q \<Rightarrow> step_return (\<lparr>dst_pct = q, dst_source = LineageWidth\<rparr>, Some fills)
               | None \<Rightarrow> step_bind (step_res (or_fallback recorded fallback)) (\<lambda>q.
                   step_return (\<lparr>dst_pct = q, dst_source = FallbackWidth\<rparr>, Some fills))))
       else (case recorded of
               Some q \<Rightarrow> step_return (\<lparr>dst_pct = q, dst_source = PositionWidth\<rparr>, held)
             | None \<Rightarrow> step_bind (step_res (or_fallback None fallback)) (\<lambda>q.
                 step_return (\<lparr>dst_pct = q, dst_source = FallbackWidth\<rparr>, held)))) w"

end
