(* ===== verification/PositionBook.thy ===== *)
theory PositionBook
  imports HeldStops ListedStore
begin

text \<open>
  The book of open positions as every agent reads it (\<open>contracts/positions.py\<close>,
  \<open>contracts/position_refs.py\<close>).  SHA-256 is the parameter \<open>digest\<close>.
\<close>

record held_position =
  op_ticker :: string
  op_quantity :: int
  op_position_ref :: string

record position_basis_lot =
  pbl_node_key :: string
  pbl_ticker :: string
  pbl_quantity :: int
  pbl_opened_price_cents :: int

record position_basis =
  pbs_ticker :: string
  pbs_position_ref :: string
  pbs_lots :: "position_basis_lot list"

definition basis_quantity :: "position_basis \<Rightarrow> int" where
  "basis_quantity b = sum_list (map pbl_quantity (pbs_lots b))"

record position_stop_threshold =
  pst_ticker :: string
  pst_quantity :: int
  pst_position_ref :: string
  pst_opened_price_cents :: int
  pst_stop_pct :: rat

section \<open>Active positions\<close>

definition is_active_position_node :: "gnode \<Rightarrow> bool" where
  "is_active_position_node n \<longleftrightarrow>
     py_eq (get_or (gn_props n) ''status'' (PStr ''open'')) (PStr ''open'')
     \<and> \<not> (py_truth (data_get (gn_props n) ''broker_absent'')
           \<or> py_truth (data_get (gn_props n) ''broker_superseded_by''))"

definition active_position_nodes :: "'w graph_port \<Rightarrow> 'w \<Rightarrow> gnode list" where
  "active_position_nodes port w = filter is_active_position_node (gp_list port w ''Position'')"

definition read_str :: "(rat \<Rightarrow> string) \<Rightarrow> gnode \<Rightarrow> string \<Rightarrow> string res" where
  "read_str flt n name = res_bind (prop_at (gn_props n) name) (\<lambda>v. Inr (py_str flt v))"

definition read_int :: "gnode \<Rightarrow> string \<Rightarrow> int res" where
  "read_int n name = res_bind (prop_at (gn_props n) name) py_int"

text \<open>\<open>grouped.setdefault(ticker, []).append(node)\<close>, node by node.\<close>

fun group_nodes ::
  "(rat \<Rightarrow> string) \<Rightarrow> gnode list \<Rightarrow> (string, gnode list) dict \<Rightarrow> (string, gnode list) dict res" where
  "group_nodes flt [] d = Inr d"
| "group_nodes flt (n # ns) d =
     res_bind (read_str flt n ''ticker'') (\<lambda>t.
       group_nodes flt ns (dict_set t ((case dict_get d t of None \<Rightarrow> [] | Some ms \<Rightarrow> ms) @ [n]) d))"

definition active_nodes_by_ticker ::
  "(rat \<Rightarrow> string) \<Rightarrow> 'w graph_port \<Rightarrow> 'w \<Rightarrow> (string, gnode list) dict res" where
  "active_nodes_by_ticker flt port w = group_nodes flt (active_position_nodes port w) []"

section \<open>References and views\<close>

definition position_ref_for_keys :: "(string \<Rightarrow> string) \<Rightarrow> string list \<Rightarrow> string" where
  "position_ref_for_keys digest keys = take 16 (digest (join_strs [CHR 0x0A] (sort keys)))"

definition open_position_of ::
  "(string \<Rightarrow> string) \<Rightarrow> string \<times> gnode list \<Rightarrow> held_position res" where
  "open_position_of digest = (\<lambda>(t, ns).
     res_bind (all_res (map (\<lambda>n. read_int n ''quantity'') ns)) (\<lambda>qs.
       Inr \<lparr>op_ticker = t, op_quantity = sum_list qs,
            op_position_ref = position_ref_for_keys digest (map gn_key ns)\<rparr>))"

definition open_positions ::
  "(rat \<Rightarrow> string) \<Rightarrow> (string \<Rightarrow> string) \<Rightarrow> 'w graph_port \<Rightarrow> 'w \<Rightarrow> held_position list res" where
  "open_positions flt digest port w =
     res_bind (active_nodes_by_ticker flt port w) (\<lambda>d.
       all_res (map (open_position_of digest) (sort_key fst d)))"

definition open_position_tickers ::
  "(rat \<Rightarrow> string) \<Rightarrow> (string \<Rightarrow> string) \<Rightarrow> 'w graph_port \<Rightarrow> 'w \<Rightarrow> string list res" where
  "open_position_tickers flt digest port w =
     res_bind (open_positions flt digest port w) (\<lambda>ps. Inr (map op_ticker ps))"

text \<open>\<open>_basis_lot\<close>: a lot that cannot be read is \<open>None\<close>; every exception the reads can raise is caught.\<close>

definition basis_lot :: "(rat \<Rightarrow> string) \<Rightarrow> gnode \<Rightarrow> position_basis_lot option" where
  "basis_lot flt n =
     (case (read_str flt n ''ticker'', read_int n ''quantity'', read_int n ''opened_price_cents'') of
        (Inr t, Inr q, Inr p) \<Rightarrow>
          Some \<lparr>pbl_node_key = gn_key n, pbl_ticker = t, pbl_quantity = q, pbl_opened_price_cents = p\<rparr>
      | _ \<Rightarrow> None)"

definition position_basis_for_ref ::
  "(rat \<Rightarrow> string) \<Rightarrow> (string \<Rightarrow> string) \<Rightarrow> 'w graph_port \<Rightarrow> 'w \<Rightarrow> string \<Rightarrow> string
   \<Rightarrow> position_basis option res" where
  "position_basis_for_ref flt digest port w ref ticker =
     res_bind (active_nodes_by_ticker flt port w) (\<lambda>d.
       Inr (case dict_get d ticker of
          None \<Rightarrow> None
        | Some nodes \<Rightarrow>
            (let ns = sort_key gn_key nodes; lots = map (basis_lot flt) ns
             in if position_ref_for_keys digest (map gn_key ns) \<noteq> ref then None
                else if None \<in> set lots then None
                else Some \<lparr>pbs_ticker = ticker, pbs_position_ref = ref, pbs_lots = map the lots\<rparr>)))"

section \<open>Stop thresholds\<close>

text \<open>
  \<open>_stop_lot\<close>: a failure of the three kinds caught becomes a \<open>ValueError\<close>; any other exception,
  which only the graph can raise, passes.
\<close>

definition stop_lot ::
  "('w, 'x) graph_env_scheme \<Rightarrow> string \<Rightarrow> gnode \<Rightarrow> gnode list option
   \<Rightarrow> ('w, (int \<times> int \<times> rat) \<times> gnode list option) step" where
  "stop_lot env ticker n held w =
     (case step_bind (step_res (read_int n ''quantity'')) (\<lambda>q.
             step_bind (step_res (read_int n ''opened_price_cents'')) (\<lambda>p.
               step_bind (decided_stop_pct env None n held) (\<lambda>(d, held').
                 step_return ((q, p, dst_pct d), held')))) w of
        (w', Inl e) \<Rightarrow>
          (w', Inl (if exn_type e \<in> {''KeyError'', ''TypeError'', ''ValueError''}
                    then ValueError (''active lot for '' @ ticker @ '' lacks stop threshold inputs'') else e))
      | r \<Rightarrow> r)"

fun stop_lots ::
  "('w, 'x) graph_env_scheme \<Rightarrow> string \<Rightarrow> gnode list \<Rightarrow> gnode list option
   \<Rightarrow> ('w, (int \<times> int \<times> rat) list \<times> gnode list option) step" where
  "stop_lots env ticker [] held = step_return ([], held)"
| "stop_lots env ticker (n # ns) held =
     step_bind (stop_lot env ticker n held) (\<lambda>(lot, held').
       step_bind (stop_lots env ticker ns held') (\<lambda>(lots, held'').
         step_return (lot # lots, held'')))"

definition threshold_of_lots ::
  "string \<Rightarrow> string \<Rightarrow> (int \<times> int \<times> rat) list \<Rightarrow> position_stop_threshold res" where
  "threshold_of_lots ticker ref lots =
     (let widths = remdups (map (\<lambda>(q, p, s). s) lots); quantity = sum_list (map fst lots);
          numerator = sum_list (map (\<lambda>(q, p, s). p * q) lots)
      in case widths of
           [stop_pct] \<Rightarrow>
             if quantity \<le> 0
             then Inl (ValueError (''active lots for '' @ ticker @ '' carry non-positive quantity''))
             else Inr \<lparr>pst_ticker = ticker, pst_quantity = quantity, pst_position_ref = ref,
                       pst_opened_price_cents = round_half_up (of_int numerator / of_int quantity),
                       pst_stop_pct = stop_pct\<rparr>
         | _ \<Rightarrow> Inl (ValueError (''active lots for '' @ ticker @ '' carry different stop_pct values'')))"

definition stop_threshold ::
  "('w, 'x) graph_env_scheme \<Rightarrow> (string \<Rightarrow> string) \<Rightarrow> string \<Rightarrow> gnode list \<Rightarrow> gnode list option
   \<Rightarrow> ('w, position_stop_threshold \<times> gnode list option) step" where
  "stop_threshold env digest ticker ns held =
     step_bind (stop_lots env ticker ns held) (\<lambda>(lots, held').
       step_bind (step_res (threshold_of_lots ticker (position_ref_for_keys digest (map gn_key ns)) lots)) (\<lambda>t.
         step_return (t, held')))"

fun stop_thresholds ::
  "('w, 'x) graph_env_scheme \<Rightarrow> (string \<Rightarrow> string) \<Rightarrow> (string \<times> gnode list) list \<Rightarrow> gnode list option
   \<Rightarrow> ('w, position_stop_threshold list) step" where
  "stop_thresholds env digest [] held = step_return []"
| "stop_thresholds env digest ((t, ns) # ts) held =
     step_bind (stop_threshold env digest t (sort_key gn_key ns) held) (\<lambda>(threshold, held').
       step_bind (stop_thresholds env digest ts held') (\<lambda>rest. step_return (threshold # rest)))"

definition open_position_stop_thresholds ::
  "('w, 'x) graph_env_scheme \<Rightarrow> (string \<Rightarrow> string) \<Rightarrow> ('w, position_stop_threshold list) step" where
  "open_position_stop_thresholds env digest w =
     step_bind (step_res (active_nodes_by_ticker (ge_float_text env) (ge_port env) w)) (\<lambda>d.
       stop_thresholds env digest (sort_key fst d) None) w"

definition realized_pnl_cents :: "int \<Rightarrow> int \<Rightarrow> int \<Rightarrow> int" where
  "realized_pnl_cents exit_price entry_price quantity = (exit_price - entry_price) * quantity"

text \<open>
  The facts that stops rest at the broker (\<open>contracts/broker_stops.py\<close>).

  The searches for an attempt key are unbounded loops in the code.  Here they take fuel, one more than
  the number of stop facts in the graph, and \<open>free_key_found\<close> shows that this is always enough.
\<close>

record broker_stop_fact =
  bso_key :: string
  bso_ticker :: string
  bso_position_ref :: string
  bso_stop_price_cents :: int
  bso_order_id :: string
  bso_placed_at :: string
  bso_cancelled_at :: "string option"

definition broker_stop_fact_of :: "(rat \<Rightarrow> string) \<Rightarrow> gnode \<Rightarrow> broker_stop_fact res" where
  "broker_stop_fact_of flt n =
     res_bind (read_str flt n ''ticker'') (\<lambda>ticker.
     res_bind (read_str flt n ''position_ref'') (\<lambda>ref.
     res_bind (read_int n ''stop_price_cents'') (\<lambda>cents.
     res_bind (read_str flt n ''broker_order_id'') (\<lambda>order_id.
     res_bind (read_str flt n ''placed_at'') (\<lambda>placed_at.
       Inr \<lparr>bso_key = gn_key n, bso_ticker = ticker, bso_position_ref = ref, bso_stop_price_cents = cents,
            bso_order_id = order_id, bso_placed_at = placed_at,
            bso_cancelled_at = truthy_str (data_get (gn_props n) ''cancelled_at'')\<rparr>)))))"

definition broker_stop_nodes :: "'w graph_port \<Rightarrow> 'w \<Rightarrow> gnode list" where
  "broker_stop_nodes port w = sort_key gn_key (gp_list port w ''BrokerStopOrder'')"

definition broker_stop_orders ::
  "(rat \<Rightarrow> string) \<Rightarrow> 'w graph_port \<Rightarrow> 'w \<Rightarrow> broker_stop_fact list res" where
  "broker_stop_orders flt port w = all_res (map (broker_stop_fact_of flt) (broker_stop_nodes port w))"

definition active_broker_stop_orders ::
  "(rat \<Rightarrow> string) \<Rightarrow> 'w graph_port \<Rightarrow> 'w \<Rightarrow> broker_stop_fact list res" where
  "active_broker_stop_orders flt port w =
     all_res (map (broker_stop_fact_of flt)
       (filter (is_live_broker_stop_fact flt port w) (broker_stop_nodes port w)))"

definition active_broker_stop_refs ::
  "(rat \<Rightarrow> string) \<Rightarrow> 'w graph_port \<Rightarrow> 'w \<Rightarrow> string list res" where
  "active_broker_stop_refs flt port w =
     res_bind (active_broker_stop_orders flt port w) (\<lambda>ss. Inr (map bso_position_ref ss))"

section \<open>Attempt keys\<close>

definition broker_stop_order_key :: "string \<Rightarrow> string \<Rightarrow> string" where
  "broker_stop_order_key ref ticker = ''stop:'' @ ref @ '':'' @ ticker"

definition stop_attempt_key :: "string \<Rightarrow> string \<Rightarrow> nat \<Rightarrow> string" where
  "stop_attempt_key ref ticker ordinal =
     (if ordinal = 0 then broker_stop_order_key ref ticker
      else broker_stop_order_key ref ticker @ ''#'' @ str_nat ordinal)"

text \<open>The free key, or \<open>None\<close> while a stop under an earlier attempt is live; out of fuel is an error.\<close>

fun next_stop_key_from ::
  "nat \<Rightarrow> (string \<Rightarrow> gnode option) \<Rightarrow> (gnode \<Rightarrow> bool) \<Rightarrow> string \<Rightarrow> string \<Rightarrow> nat \<Rightarrow> string option res" where
  "next_stop_key_from 0 get live ref ticker ordinal = Inl (RuntimeError ''no attempt within the fuel'')"
| "next_stop_key_from (Suc fuel) get live ref ticker ordinal =
     (case get (stop_attempt_key ref ticker ordinal) of
        None \<Rightarrow> Inr (Some (stop_attempt_key ref ticker ordinal))
      | Some n \<Rightarrow> if live n then Inr None else next_stop_key_from fuel get live ref ticker (ordinal + 1))"

definition next_broker_stop_order_key ::
  "(rat \<Rightarrow> string) \<Rightarrow> 'w graph_port \<Rightarrow> 'w \<Rightarrow> string \<Rightarrow> string \<Rightarrow> string option res" where
  "next_broker_stop_order_key flt port w ref ticker =
     next_stop_key_from (Suc (length (gp_list port w ''BrokerStopOrder'')))
       (gp_get port w ''BrokerStopOrder'') (is_live_broker_stop_fact flt port w) ref ticker 0"

definition free_broker_stop_order_key :: "'w graph_port \<Rightarrow> 'w \<Rightarrow> string \<Rightarrow> string \<Rightarrow> string res" where
  "free_broker_stop_order_key port w ref ticker =
     res_bind (next_stop_key_from (Suc (length (gp_list port w ''BrokerStopOrder'')))
         (gp_get port w ''BrokerStopOrder'') (\<lambda>n. False) ref ticker 0) (\<lambda>key.
       case key of None \<Rightarrow> Inl (RuntimeError ''no free key'') | Some k \<Rightarrow> Inr k)"

lemma stop_attempt_key_inj: "stop_attempt_key ref ticker m = stop_attempt_key ref ticker n \<longleftrightarrow> m = n"
  using str_nat_inj by (auto simp: stop_attempt_key_def split: if_splits)

lemma next_stop_key_from_Inr:
  "next_stop_key_from fuel get live ref ticker n = Inr r \<Longrightarrow>
     (case r of
        None \<Rightarrow> (\<exists>m node. get (stop_attempt_key ref ticker m) = Some node \<and> live node)
      | Some k \<Rightarrow> get k = None \<and> (\<exists>m. k = stop_attempt_key ref ticker m))"
  by (induction fuel arbitrary: n) (auto split: option.splits if_splits)

lemma next_stop_key_from_ends:
  "\<exists>m. n \<le> m \<and> m < n + fuel \<and> get (stop_attempt_key ref ticker m) = None \<Longrightarrow>
     \<exists>r. next_stop_key_from fuel get live ref ticker n = Inr r"
proof (induction fuel arbitrary: n)
  case (Suc fuel)
  then obtain m where m: "n \<le> m" "m < n + Suc fuel" "get (stop_attempt_key ref ticker m) = None" by blast
  show ?case
  proof (cases "get (stop_attempt_key ref ticker n)")
    case (Some node)
    with m have "m \<noteq> n" by auto
    with m have "n + 1 \<le> m" "m < n + 1 + fuel" by auto
    with m(3) have "\<exists>r. next_stop_key_from fuel get live ref ticker (n + 1) = Inr r"
      by (intro Suc.IH) blast
    with Some show ?thesis by auto
  qed simp
qed auto

context listed_store begin

text \<open>Among one more keys than there are facts, one is free.\<close>

lemma stop_key_free:
  assumes "ok s"
  shows "\<exists>m \<le> length (gp_list port s ''BrokerStopOrder'').
    gp_get port s ''BrokerStopOrder'' (stop_attempt_key ref ticker m) = None"
proof (rule ccontr)
  let ?L = "length (gp_list port s ''BrokerStopOrder'')"
  assume none: "\<not> ?thesis"
  have "stop_attempt_key ref ticker ` {..?L} \<subseteq> gn_key ` set (gp_list port s ''BrokerStopOrder'')"
  proof
    fix k assume "k \<in> stop_attempt_key ref ticker ` {..?L}"
    then obtain m where m: "m \<le> ?L" "k = stop_attempt_key ref ticker m" by auto
    with none obtain n where n: "gp_get port s ''BrokerStopOrder'' k = Some n" by auto
    with node_identity [OF assms n] have "n \<in> set (gp_list port s ''BrokerStopOrder'')" "gn_key n = k"
      by (auto simp: list_iff [OF assms])
    then show "k \<in> gn_key ` set (gp_list port s ''BrokerStopOrder'')" by blast
  qed
  from card_mono [OF _ this]
  have "card (stop_attempt_key ref ticker ` {..?L}) \<le> card (set (gp_list port s ''BrokerStopOrder''))"
    using card_image_le [of "set (gp_list port s ''BrokerStopOrder'')" gn_key] by force
  moreover have "card (stop_attempt_key ref ticker ` {..?L}) = Suc ?L"
    by (subst card_image) (auto simp: inj_on_def stop_attempt_key_inj)
  ultimately show False using card_length [of "gp_list port s ''BrokerStopOrder''"] by simp
qed

lemma next_key_found:
  assumes "ok s"
  shows "\<exists>r. next_broker_stop_order_key flt port s ref ticker = Inr r"
  unfolding next_broker_stop_order_key_def
  using stop_key_free [OF assms, of ref ticker]
  by (intro next_stop_key_from_ends) (metis add_0 le0 less_Suc_eq_le)

lemma free_key_found:
  assumes "ok s"
  shows "\<exists>k. free_broker_stop_order_key port s ref ticker = Inr k
    \<and> gp_get port s ''BrokerStopOrder'' k = None \<and> (\<exists>m. k = stop_attempt_key ref ticker m)"
proof -
  have "\<exists>r. next_stop_key_from (Suc (length (gp_list port s ''BrokerStopOrder'')))
      (gp_get port s ''BrokerStopOrder'') (\<lambda>n. False) ref ticker 0 = Inr r"
    using stop_key_free [OF assms, of ref ticker]
    by (intro next_stop_key_from_ends) (metis add_0 le0 less_Suc_eq_le)
  then obtain r where r: "next_stop_key_from (Suc (length (gp_list port s ''BrokerStopOrder'')))
      (gp_get port s ''BrokerStopOrder'') (\<lambda>n. False) ref ticker 0 = Inr r" ..
  from next_stop_key_from_Inr [OF r] obtain k where "r = Some k"
    "gp_get port s ''BrokerStopOrder'' k = None" "\<exists>m. k = stop_attempt_key ref ticker m"
    by (auto split: option.splits)
  with r show ?thesis by (auto simp: free_broker_stop_order_key_def)
qed

end

end
