(* ===== verification/BookSync.thy ===== *)
theory BookSync
  imports PositionBook Payloads
begin

text \<open>
  The monitor's position book and the broker's holdings: adopting a snapshot
  (\<open>agents/monitor/reconcile.py\<close>), the marker that a run has done so (\<open>position_sync.py\<close>), and the
  readers of that marker (\<open>contracts/position_sync.py\<close>).

  The world is what the graph port and the fault sink act on.
\<close>

record monitor_settings =
  mos_default_horizon_days :: int
  mos_price_lookback_days :: int
  mos_default_stop_pct :: rat
  mos_default_target_pct :: rat

definition monitor_settings_valid :: "monitor_settings \<Rightarrow> bool" where
  "monitor_settings_valid st \<longleftrightarrow>
     0 \<le> mos_default_horizon_days st \<and> mos_default_horizon_days st \<le> 365
     \<and> 0 \<le> mos_price_lookback_days st \<and> mos_price_lookback_days st \<le> 14
     \<and> 0 \<le> mos_default_stop_pct st \<and> mos_default_stop_pct st \<le> 1
     \<and> 0 \<le> mos_default_target_pct st \<and> mos_default_target_pct st \<le> 1"

text \<open>
  The sink a monitor is given submits by \<open>mo_submit\<close>; \<open>mo_graph_submit\<close> submits to a graph sink around
  it, and \<open>mo_sink_is_graph\<close> says that it already is one.  \<open>mo_hex\<close> is the next random identifier and
  \<open>mo_market\<close> the validation of a market payload.
\<close>

record 'w monitor_env = "'w graph_env" +
  mo_settings :: monitor_settings
  mo_submit :: "'w \<Rightarrow> agent_fault \<Rightarrow> 'w"
  mo_graph_submit :: "'w \<Rightarrow> agent_fault \<Rightarrow> 'w"
  mo_sink_is_graph :: bool
  mo_hex :: "'w \<Rightarrow> string"
  mo_market :: "pyval \<Rightarrow> market_data res"

definition mo_merge :: "('w, 'x) graph_env_scheme \<Rightarrow> string \<Rightarrow> string \<Rightarrow> props \<Rightarrow> ('w, gnode) step" where
  "mo_merge env label key p w = gp_merge (ge_port env) (ge_wall env w) w label key p 1"

definition mo_edge :: "('w, 'x) graph_env_scheme \<Rightarrow> gnode \<Rightarrow> gnode \<Rightarrow> string \<Rightarrow> ('w, unit) step" where
  "mo_edge env a b t w = gp_edge (ge_port env) (ge_wall env w) w a b t None"

section \<open>Holdings of a snapshot\<close>

record snapshot_holding =
  shd_ticker :: string
  shd_quantity :: int
  shd_avg_entry_cents :: int
  shd_market_value_cents :: int

definition snapshot_row :: "(rat \<Rightarrow> string) \<Rightarrow> pyval \<Rightarrow> snapshot_holding option res" where
  "snapshot_row flt item =
     (case mapping_of item of
        None \<Rightarrow> Inr None
      | Some row \<Rightarrow>
          res_bind (py_int (get_or row ''quantity'' (PInt 0))) (\<lambda>q.
          res_bind (py_int (get_or row ''avg_entry_cents'' (PInt 0))) (\<lambda>a.
          res_bind (py_int (get_or row ''market_value_cents'' (PInt 0))) (\<lambda>m.
            Inr (Some \<lparr>shd_ticker = py_str flt (get_or row ''ticker'' (PStr [])), shd_quantity = q,
                       shd_avg_entry_cents = a, shd_market_value_cents = m\<rparr>)))))"

definition snapshot_holdings :: "(rat \<Rightarrow> string) \<Rightarrow> gnode \<Rightarrow> snapshot_holding list res" where
  "snapshot_holdings flt snapshot =
     res_bind (items_of (get_or (gn_props snapshot) ''holdings'' (PTuple []))) (\<lambda>items.
     res_bind (all_res (map (snapshot_row flt) items)) (\<lambda>rows.
       Inr (filter (\<lambda>h. shd_ticker h \<noteq> [] \<and> 0 < shd_quantity h) (List.map_filter id rows))))"

definition latest_fresh_snapshot :: "('w, 'x) graph_env_scheme \<Rightarrow> 'w \<Rightarrow> gnode option" where
  "latest_fresh_snapshot env w =
     (case filter (\<lambda>n. prop_is (gn_props n) ''status'' ''fresh'')
             (gp_list (ge_port env) w ''BrokerPositionSnapshot'') of
        [] \<Rightarrow> None
      | n # ns \<Rightarrow>
          Some (first_max (\<lambda>n. py_str (ge_float_text env) (get_or (gn_props n) ''created_at'' (PStr []))) n ns))"

section \<open>Adoption\<close>

fun matching_position :: "gnode list \<Rightarrow> snapshot_holding \<Rightarrow> gnode option res" where
  "matching_position [] h = Inr None"
| "matching_position (n # ns) h =
     res_bind (read_int n ''quantity'') (\<lambda>q.
       if q \<noteq> shd_quantity h then matching_position ns h
       else res_bind (read_int n ''opened_price_cents'') (\<lambda>p.
              if p = shd_avg_entry_cents h then Inr (Some n) else matching_position ns h))"

definition broker_position_key :: "snapshot_holding \<Rightarrow> string" where
  "broker_position_key h =
     ''broker:'' @ shd_ticker h @ '':'' @ str_int (shd_quantity h) @ '':'' @ str_int (shd_avg_entry_cents h)"

definition broker_position_props ::
  "monitor_settings \<Rightarrow> gnode \<Rightarrow> snapshot_holding \<Rightarrow> pyval \<Rightarrow> pyval \<Rightarrow> props" where
  "broker_position_props st snapshot h run_id created_at =
     [(''run_id'', run_id), (''ticker'', PStr (shd_ticker h)),
      (''opened_price_cents'', PInt (shd_avg_entry_cents h)), (''quantity'', PInt (shd_quantity h)),
      (''stop_pct'', PFloat (mos_default_stop_pct st)), (''target_pct'', PFloat (mos_default_target_pct st)),
      (''horizon_days'', PInt (mos_default_horizon_days st)), (''opened_at'', created_at),
      (''status'', PStr ''open''), (''degraded'', PBool True),
      (''provenance'', PStr ''reconciled-from-broker''), (''source_snapshot'', PStr (gn_key snapshot)),
      (''broker_market_value_cents'', PInt (shd_market_value_cents h))]"

definition create_broker_position ::
  "('w, 'x) graph_env_scheme \<Rightarrow> monitor_settings \<Rightarrow> gnode \<Rightarrow> snapshot_holding \<Rightarrow> ('w, gnode) step" where
  "create_broker_position env st snapshot h w =
     (case gp_get (ge_port env) w ''Position'' (broker_position_key h) of
        Some current \<Rightarrow> step_return current w
      | None \<Rightarrow>
          step_bind (step_res (prop_at (gn_props snapshot) ''run_id'')) (\<lambda>run_id.
          step_bind (step_res (prop_at (gn_props snapshot) ''created_at'')) (\<lambda>created_at.
            mo_merge env ''Position'' (broker_position_key h)
              (broker_position_props st snapshot h run_id created_at))) w)"

definition superseded_props :: "gnode \<Rightarrow> gnode \<Rightarrow> props" where
  "superseded_props replacement snapshot =
     [(''broker_superseded_by'', PStr (gn_key replacement)),
      (''broker_superseded_snapshot'', PStr (gn_key snapshot))]"

definition mark_superseded ::
  "('w, 'x) graph_env_scheme \<Rightarrow> gnode \<Rightarrow> gnode \<Rightarrow> gnode \<Rightarrow> ('w, unit) step" where
  "mark_superseded env snapshot replacement n =
     (if dict_get (gn_props n) ''broker_superseded_by'' = None
      then step_forget (mo_merge env ''Position'' (gn_key n) (superseded_props replacement snapshot))
      else step_return ())"

definition absent_props :: "gnode \<Rightarrow> props" where
  "absent_props snapshot =
     [(''broker_absent'', PBool True), (''broker_absent_snapshot'', PStr (gn_key snapshot))]"

definition mark_absent :: "('w, 'x) graph_env_scheme \<Rightarrow> gnode \<Rightarrow> gnode \<Rightarrow> ('w, unit) step" where
  "mark_absent env snapshot n =
     (if dict_get (gn_props n) ''broker_absent'' = None
      then step_forget (mo_merge env ''Position'' (gn_key n) (absent_props snapshot))
      else step_return ())"

definition candidates_of :: "(string, gnode list) dict \<Rightarrow> string \<Rightarrow> gnode list" where
  "candidates_of d t = (case dict_get d t of None \<Rightarrow> [] | Some ns \<Rightarrow> ns)"

definition adopt_holding ::
  "('w, 'x) graph_env_scheme \<Rightarrow> monitor_settings \<Rightarrow> gnode \<Rightarrow> (string, gnode list) dict
   \<Rightarrow> snapshot_holding \<Rightarrow> ('w, unit) step" where
  "adopt_holding env st snapshot d h =
     (let cs = candidates_of d (shd_ticker h) in
      step_bind (step_res (matching_position cs h)) (\<lambda>found.
      step_bind (case found of Some m \<Rightarrow> step_return m | None \<Rightarrow> create_broker_position env st snapshot h) (\<lambda>m.
        step_each (mark_superseded env snapshot m) (filter (\<lambda>n. gn_key n \<noteq> gn_key m) cs))))"

definition positions_by_ticker ::
  "(rat \<Rightarrow> string) \<Rightarrow> gnode list \<Rightarrow> (string, gnode list) dict res" where
  "positions_by_ticker flt ns = group_nodes flt ns []"

definition reconcile_from_snapshot ::
  "('w, 'x) graph_env_scheme \<Rightarrow> monitor_settings \<Rightarrow> gnode \<Rightarrow> ('w, unit) step" where
  "reconcile_from_snapshot env st snapshot w =
     (if \<not> prop_is (gn_props snapshot) ''status'' ''fresh'' then step_return () w
      else
        step_bind (step_res (snapshot_holdings (ge_float_text env) snapshot)) (\<lambda>hs.
        step_bind (step_res (positions_by_ticker (ge_float_text env)
                     (active_position_nodes (ge_port env) w))) (\<lambda>d.
        step_bind (step_each (adopt_holding env st snapshot d) hs) (\<lambda>_.
          step_each (mark_absent env snapshot)
            (concat (map snd (filter (\<lambda>(t, ns). t \<notin> set (map shd_ticker hs)) d)))))) w)"

definition reconcile_from_latest_snapshot ::
  "('w, 'x) graph_env_scheme \<Rightarrow> monitor_settings \<Rightarrow> ('w, unit) step" where
  "reconcile_from_latest_snapshot env st w =
     (case latest_fresh_snapshot env w of
        None \<Rightarrow> step_return () w
      | Some snapshot \<Rightarrow> reconcile_from_snapshot env st snapshot w)"

section \<open>The marker of a run\<close>

definition run_request_key :: "string \<Rightarrow> string" where
  "run_request_key run_id = ''run-request:'' @ run_id"

definition linked_snapshot :: "('w, 'x) graph_env_scheme \<Rightarrow> gnode \<Rightarrow> ('w, gnode option) step" where
  "linked_snapshot env run_request =
     step_bind (descend env run_request ''REFRESHES'') (\<lambda>ns.
       step_return (List.find (\<lambda>n. gn_label n = ''BrokerPositionSnapshot'') ns))"

datatype sync_status = FreshBook | StaleBook

record book_sync_state =
  bss_status :: sync_status
  bss_marker :: gnode
  bss_stale_reason :: "string option"

definition sync_status_of :: "pyval \<Rightarrow> sync_status option" where
  "sync_status_of v = (if v = PStr ''fresh'' then Some FreshBook else if v = PStr ''stale'' then Some StaleBook else None)"

definition position_book_sync_state ::
  "('w, 'x) graph_env_scheme \<Rightarrow> string \<Rightarrow> ('w, book_sync_state option) step" where
  "position_book_sync_state env run_id w =
     (case gp_get (ge_port env) w ''RunRequest'' (run_request_key run_id) of
        None \<Rightarrow> step_return None w
      | Some run_request \<Rightarrow>
          step_bind (descend env run_request ''POSITION_SYNCED_BY'') (\<lambda>ns.
            step_return (case List.find (\<lambda>n. gn_label n = ''MonitorRun''
                                \<and> prop_is (gn_props n) ''phase'' ''sync'') ns of
                None \<Rightarrow> None
              | Some marker \<Rightarrow>
                  (case sync_status_of (data_get (gn_props marker) ''position_book_status'') of
                     None \<Rightarrow> None
                   | Some status \<Rightarrow>
                       (let reason = data_get (gn_props marker) ''position_book_stale_reason''
                        in Some \<lparr>bss_status = status, bss_marker = marker,
                             bss_stale_reason = (if py_truth reason
                               then Some (py_str (ge_float_text env) reason) else None)\<rparr>)))) w)"

definition position_book_sync_attempted :: "('w, 'x) graph_env_scheme \<Rightarrow> string \<Rightarrow> ('w, bool) step" where
  "position_book_sync_attempted env run_id =
     step_bind (position_book_sync_state env run_id) (\<lambda>s. step_return (s \<noteq> None))"

definition sync_marker_key :: "string \<Rightarrow> string" where
  "sync_marker_key run_id = ''position-sync:'' @ run_id"

definition link_sync_marker ::
  "('w, 'x) graph_env_scheme \<Rightarrow> gnode \<Rightarrow> string \<Rightarrow> gnode \<Rightarrow> ('w, gnode) step" where
  "link_sync_marker env snapshot run_id marker =
     step_bind (mo_edge env snapshot marker ''MONITORED_BY'') (\<lambda>_ w.
       (case gp_get (ge_port env) w ''RunRequest'' (run_request_key run_id) of
          None \<Rightarrow> step_return marker w
        | Some request \<Rightarrow>
            step_bind (mo_edge env request marker ''POSITION_SYNCED_BY'') (\<lambda>_. step_return marker) w))"

definition sync_marker_props ::
  "(rat \<Rightarrow> string) \<Rightarrow> timestamp \<Rightarrow> gnode \<Rightarrow> string \<Rightarrow> string \<Rightarrow> props" where
  "sync_marker_props flt now snapshot run_id status =
     (let reason = data_get (gn_props snapshot) ''stale_reason''
      in [(''source_run_id'', PStr run_id), (''phase'', PStr ''sync''),
          (''position_book_status'', PStr (if status = ''fresh'' then ''fresh'' else ''stale'')),
          (''snapshot_key'', PStr (gn_key snapshot)), (''positions_checked'', PInt 0),
          (''closes'', PInt 0), (''holds'', PInt 0), (''stop_breaches'', PInt 0),
          (''created_at'', PStr (isoformat now))]
         @ (if py_truth reason then [(''position_book_stale_reason'', PStr (py_str flt reason))] else []))"

definition write_sync_marker ::
  "('w, 'x) graph_env_scheme \<Rightarrow> gnode \<Rightarrow> string \<Rightarrow> ('w, gnode) step" where
  "write_sync_marker env snapshot status =
     step_bind (step_res (read_str (ge_float_text env) snapshot ''run_id'')) (\<lambda>run_id w.
       (case gp_get (ge_port env) w ''MonitorRun'' (sync_marker_key run_id) of
          Some marker \<Rightarrow> link_sync_marker env snapshot run_id marker w
        | None \<Rightarrow>
            step_bind (mo_merge env ''MonitorRun'' (sync_marker_key run_id)
                 (sync_marker_props (ge_float_text env) (ge_wall env w) snapshot run_id status))
              (link_sync_marker env snapshot run_id) w))"

definition sync_positions_snapshot :: "'w monitor_env \<Rightarrow> gnode \<Rightarrow> 'w \<Rightarrow> 'w" where
  "sync_positions_snapshot env snapshot w =
     (let status = py_str (ge_float_text env) (get_or (gn_props snapshot) ''status'' (PStr ''stale''));
          (w1, r) = step_bind (if status = ''fresh''
                               then reconcile_from_snapshot env (mo_settings env) snapshot
                               else step_return ()) (\<lambda>_.
                      step_forget (write_sync_marker env snapshot status)) w
      in fst (fault_boundary (mo_submit env) (ge_wall env w1) ''monitor'' ''agents.monitor.position_sync''
                (Some ''position_sync'') w1 r))"

text \<open>\<open>pending_nodes\<close> of \<open>kernel/graph_pending.py\<close> over any store of the protocol.\<close>

definition pending_step ::
  "('w, 'x) graph_env_scheme \<Rightarrow> string \<Rightarrow> string \<Rightarrow> ('w, gnode list) step" where
  "pending_step env label edge_type =
     step_bind (\<lambda>w. gp_keys (ge_port env) (ge_wall env w) w label edge_type True None) (\<lambda>keys w.
       step_return (List.map_filter (gp_get (ge_port env) w label) keys) w)"

fun linked_snapshots :: "('w, 'x) graph_env_scheme \<Rightarrow> gnode list \<Rightarrow> ('w, gnode list) step" where
  "linked_snapshots env [] = step_return []"
| "linked_snapshots env (n # ns) =
     step_bind (linked_snapshot env n) (\<lambda>s.
       step_bind (linked_snapshots env ns) (\<lambda>rest.
         step_return ((case s of None \<Rightarrow> [] | Some x \<Rightarrow> [x]) @ rest)))"

definition find_pending_position_sync :: "('w, 'x) graph_env_scheme \<Rightarrow> ('w, gnode list) step" where
  "find_pending_position_sync env =
     step_bind (pending_step env ''RunRequest'' ''POSITION_SYNCED_BY'') (linked_snapshots env)"

end
