(* ===== verification/MonitorRun.thy ===== *)
theory MonitorRun
  imports BookSync Bus
begin

text \<open>
  The monitor's run (\<open>agents/monitor/run.py\<close>, \<open>decide.py\<close>, \<open>store.py\<close>, \<open>domain/\<close>, \<open>poll.py\<close>,
  \<open>provider_client.py\<close>, the handlers of \<open>agent.py\<close>): it opens a position for every filled buy of a
  run, adopts the latest broker snapshot, and observes every active position against its stop.  It
  decides no exit: a breached stop is a check in the graph and a fault.
\<close>

section \<open>The exit rule\<close>

record exit_position =
  xp_opened_price_cents :: int
  xp_stop_pct :: rat

datatype observation = StopBreached | ClearOfStop

fun observation_text :: "observation \<Rightarrow> string" where
  "observation_text StopBreached = ''stop_breached''"
| "observation_text ClearOfStop = ''clear''"

fun trigger_text :: "observation \<Rightarrow> string" where
  "trigger_text StopBreached = ''stop''"
| "trigger_text ClearOfStop = ''none''"

definition evaluate_position :: "exit_position \<Rightarrow> int \<Rightarrow> observation" where
  "evaluate_position p current =
     (if check_stop current (xp_opened_price_cents p) (xp_stop_pct p) then StopBreached else ClearOfStop)"

section \<open>Positions from fills\<close>

record position_draft =
  pdr_run_id :: string
  pdr_ticker :: string
  pdr_opened_price_cents :: int
  pdr_quantity :: int
  pdr_stop_pct :: rat
  pdr_target_pct :: rat
  pdr_horizon_days :: int
  pdr_opened_at :: string
  pdr_degraded :: bool

definition order_stop_target ::
  "(string \<Rightarrow> rat option) \<Rightarrow> monitor_settings \<Rightarrow> gnode option \<Rightarrow> (rat \<times> rat \<times> bool) res" where
  "order_stop_target parse st order =
     (case order of
        None \<Rightarrow> Inr (mos_default_stop_pct st, mos_default_target_pct st, True)
      | Some n \<Rightarrow>
          (let stop = data_get (gn_props n) ''stop_pct''; target = data_get (gn_props n) ''target_pct'' in
           res_bind (if stop = PNone then Inr (mos_default_stop_pct st) else py_float parse stop) (\<lambda>s.
           res_bind (if target = PNone then Inr (mos_default_target_pct st) else py_float parse target) (\<lambda>t.
             Inr (s, t, stop = PNone \<or> target = PNone)))))"

definition first_of :: "'a list \<Rightarrow> 'a option" where
  "first_of xs = (case xs of [] \<Rightarrow> None | x # _ \<Rightarrow> Some x)"

definition position_from_fill :: "'w monitor_env \<Rightarrow> string \<Rightarrow> gnode \<Rightarrow> ('w, position_draft) step" where
  "position_from_fill env run_id fill =
     step_bind (descend env fill ''EXECUTES'') (\<lambda>orders.
     step_bind (step_res (order_stop_target (ge_parse_float env) (mo_settings env) (first_of orders))) (\<lambda>(s, t, degraded).
     step_bind (step_res (read_str (ge_float_text env) fill ''ticker'')) (\<lambda>ticker.
     step_bind (step_res (read_int fill ''price_cents'')) (\<lambda>price.
     step_bind (step_res (read_int fill (fill_quantity_key fill))) (\<lambda>quantity w.
       step_return \<lparr>pdr_run_id = run_id, pdr_ticker = ticker, pdr_opened_price_cents = price,
         pdr_quantity = quantity, pdr_stop_pct = s, pdr_target_pct = t,
         pdr_horizon_days = mos_default_horizon_days (mo_settings env),
         pdr_opened_at = isoformat (ge_wall env w), pdr_degraded = degraded\<rparr> w)))))"

definition exit_position_of ::
  "('w, 'x) graph_env_scheme \<Rightarrow> gnode \<Rightarrow> gnode list option \<Rightarrow> ('w, exit_position \<times> gnode list option) step" where
  "exit_position_of env n held =
     step_bind (step_res (read_int n ''opened_price_cents'')) (\<lambda>p.
     step_bind (decided_stop_pct env None n held) (\<lambda>(d, held').
       step_return (\<lparr>xp_opened_price_cents = p, xp_stop_pct = dst_pct d\<rparr>, held')))"

section \<open>The graph\<close>

text \<open>The filled buy Fills of a PM run, by its buy OrderIntents.\<close>

fun buy_fills :: "('w, 'x) graph_env_scheme \<Rightarrow> string \<Rightarrow> gnode list \<Rightarrow> ('w, gnode list) step" where
  "buy_fills env run_id [] = step_return []"
| "buy_fills env run_id (order # orders) =
     (if \<not> prop_is (gn_props order) ''action'' ''buy'' then buy_fills env run_id orders
      else step_bind (step_res (read_str (ge_float_text env) order ''ticker'')) (\<lambda>ticker w.
        (let found = (case gp_get (ge_port env) w ''Fill'' (run_id @ '':'' @ ticker @ '':buy'') of
                        Some fill \<Rightarrow> if prop_is (gn_props fill) ''status'' ''filled'' then [fill] else []
                      | None \<Rightarrow> [])
         in step_bind (buy_fills env run_id orders) (\<lambda>rest. step_return (found @ rest)) w)))"

definition fills_for_run :: "('w, 'x) graph_env_scheme \<Rightarrow> string \<Rightarrow> ('w, gnode list) step" where
  "fills_for_run env run_id w =
     (case gp_get (ge_port env) w ''PMRun'' run_id of
        None \<Rightarrow> step_return [] w
      | Some run \<Rightarrow> step_bind (ascend env run ''EMITTED_BY'') (buy_fills env run_id) w)"

definition draft_props :: "position_draft \<Rightarrow> props" where
  "draft_props d =
     [(''run_id'', PStr (pdr_run_id d)), (''ticker'', PStr (pdr_ticker d)),
      (''opened_price_cents'', PInt (pdr_opened_price_cents d)), (''quantity'', PInt (pdr_quantity d)),
      (''stop_pct'', PFloat (pdr_stop_pct d)), (''target_pct'', PFloat (pdr_target_pct d)),
      (''horizon_days'', PInt (pdr_horizon_days d)), (''opened_at'', PStr (pdr_opened_at d)),
      (''status'', PStr ''open''), (''degraded'', PBool (pdr_degraded d))]"

definition open_position :: "('w, 'x) graph_env_scheme \<Rightarrow> position_draft \<Rightarrow> gnode \<Rightarrow> ('w, gnode) step" where
  "open_position env d fill w =
     (let key = pdr_run_id d @ '':'' @ pdr_ticker d in
      step_bind (case gp_get (ge_port env) w ''Position'' key of
                   Some current \<Rightarrow> step_return current
                 | None \<Rightarrow> mo_merge env ''Position'' key (draft_props d)) (\<lambda>n.
      step_bind (mo_edge env fill n ''OPENS'') (\<lambda>_. step_return n)) w)"

definition check_props :: "string \<Rightarrow> pyval \<Rightarrow> string \<Rightarrow> observation \<Rightarrow> int \<Rightarrow> props" where
  "check_props run_id ticker now obs price =
     [(''run_id'', PStr run_id), (''ticker'', ticker), (''checked_at'', PStr now),
      (''observation'', PStr (observation_text obs)), (''stop_breached'', PBool (obs = StopBreached)),
      (''trigger'', PStr (trigger_text obs)), (''current_price_cents'', PInt price)]"

definition check_key :: "string \<Rightarrow> gnode \<Rightarrow> string" where
  "check_key run_id position = run_id @ '':'' @ gn_key position @ '':check''"

definition write_check ::
  "('w, 'x) graph_env_scheme \<Rightarrow> string \<Rightarrow> gnode \<Rightarrow> observation \<Rightarrow> int \<Rightarrow> ('w, gnode) step" where
  "write_check env run_id position obs price =
     step_bind (step_res (prop_at (gn_props position) ''ticker'')) (\<lambda>ticker w.
       step_bind (mo_merge env ''PositionCheck'' (check_key run_id position)
                    (check_props run_id ticker (isoformat (ge_wall env w)) obs price)) (\<lambda>n.
       step_bind (mo_edge env n position ''CHECKS'') (\<lambda>_. step_return n)) w)"

definition write_close_decision ::
  "('w, 'x) graph_env_scheme \<Rightarrow> string \<Rightarrow> gnode \<Rightarrow> string \<Rightarrow> string \<Rightarrow> explanation \<Rightarrow> ('w, gnode) step" where
  "write_close_decision env run_id position decision trigger rationale =
     step_bind (step_res (prop_at (gn_props position) ''ticker'')) (\<lambda>ticker w.
       step_bind (mo_merge env ''CloseDecision'' (run_id @ '':'' @ gn_key position @ '':close'')
         [(''run_id'', PStr run_id), (''ticker'', ticker), (''position_id'', PStr (gn_key position)),
          (''decision'', PStr decision), (''trigger'', PStr trigger),
          (''rationale'', PStr (ex_summary rationale)),
          (''evidence_refs'', PList (map (\<lambda>r. PStr r) (ex_evidence_refs rationale))),
          (''created_at'', PStr (isoformat (ge_wall env w)))]) (\<lambda>n.
       step_bind (mo_edge env n position ''CLOSES'') (\<lambda>_. step_return n)) w)"

definition monitor_run_props :: "string \<Rightarrow> nat \<Rightarrow> nat \<Rightarrow> nat \<Rightarrow> nat \<Rightarrow> string \<Rightarrow> props" where
  "monitor_run_props source_run_id checked closes holds breaches now =
     [(''source_run_id'', PStr source_run_id), (''exec_run_id'', PStr (''execution-submit-'' @ source_run_id)),
      (''positions_checked'', PInt (int checked)), (''closes'', PInt (int closes)),
      (''holds'', PInt (int holds)), (''stop_breaches'', PInt (int breaches)), (''created_at'', PStr now)]"

definition write_monitor_run ::
  "('w, 'x) graph_env_scheme \<Rightarrow> string \<Rightarrow> string \<Rightarrow> nat \<Rightarrow> nat \<Rightarrow> nat \<Rightarrow> nat \<Rightarrow> ('w, provenance) step" where
  "write_monitor_run env run_id source_run_id checked closes holds breaches w =
     step_bind (mo_merge env ''MonitorRun'' run_id
         (monitor_run_props source_run_id checked closes holds breaches (isoformat (ge_wall env w)))) (\<lambda>n.
     step_return \<lparr>pv_run_id = run_id, pv_source_agent = ''monitor'', pv_correlation_id = None,
       pv_graph_node_id = Some (gn_label n @ '':'' @ gn_key n), pv_incident_refs = []\<rparr>) w"

section \<open>Observing one position\<close>

definition breach_fault :: "timestamp \<Rightarrow> string \<Rightarrow> agent_fault" where
  "breach_fault now ticker =
     \<lparr>flt_occurred_at = now, flt_agent = ''monitor'', flt_module = ''agents.monitor.decide'',
      flt_capability = Some ''check_positions'', flt_severity = Error, flt_error_type = ''StopBreached'',
      flt_message = ''stop breached on '' @ ticker @ '', still held'', flt_correlation_id = None,
      flt_context = []\<rparr>"

definition breach_submit :: "'w monitor_env \<Rightarrow> 'w \<Rightarrow> agent_fault \<Rightarrow> 'w" where
  "breach_submit env = (if mo_sink_is_graph env then mo_submit env else mo_graph_submit env)"

definition evaluate_one ::
  "'w monitor_env \<Rightarrow> string \<Rightarrow> gnode \<Rightarrow> int \<Rightarrow> gnode list option \<Rightarrow> ('w, bool \<times> gnode list option) step" where
  "evaluate_one env run_id position price held =
     step_bind (step_res (read_str (ge_float_text env) position ''ticker'')) (\<lambda>ticker.
     step_bind (exit_position_of env position held) (\<lambda>(xp, held').
       (let obs = evaluate_position xp price; breached = (obs = StopBreached) in
        step_bind (write_check env run_id position obs price) (\<lambda>_ w.
          ((if breached then breach_submit env w (breach_fault (ge_wall env w) ticker) else w),
           Inr (breached, held'))))))"

section \<open>The run\<close>

text \<open>\<open>_record_degraded\<close>: a fault for a \<open>RuntimeError\<close>, and the run goes on.\<close>

definition record_degraded :: "'w monitor_env \<Rightarrow> string \<Rightarrow> 'w \<Rightarrow> 'w" where
  "record_degraded env message w =
     fst (fault_boundary (mo_submit env) (ge_wall env w) ''monitor'' ''agents.monitor.run''
            (Some ''check_positions'') w (Inl (RuntimeError message) :: unit res))"

definition open_fill :: "'w monitor_env \<Rightarrow> string \<Rightarrow> gnode \<Rightarrow> ('w, unit) step" where
  "open_fill env run_id fill =
     step_bind (position_from_fill env run_id fill) (\<lambda>d w.
       step_forget (open_position env d fill)
         (if pdr_degraded d then record_degraded env ''position opened with fallback stop/target'' w else w))"

definition open_run_positions :: "'w monitor_env \<Rightarrow> string \<Rightarrow> ('w, gnode list) step" where
  "open_run_positions env run_id =
     step_bind (fills_for_run env run_id) (\<lambda>fills.
     step_bind (step_each (open_fill env run_id) fills) (\<lambda>_.
     step_bind (reconcile_from_latest_snapshot env (mo_settings env)) (\<lambda>_ w.
       step_return (active_position_nodes (ge_port env) w) w)))"

fun evaluate_positions ::
  "'w monitor_env \<Rightarrow> string \<Rightarrow> gnode list \<Rightarrow> (string, int) dict \<Rightarrow> gnode list option
   \<Rightarrow> ('w, nat \<times> nat) step" where
  "evaluate_positions env run_id [] prices held = step_return (0, 0)"
| "evaluate_positions env run_id (n # ns) prices held =
     step_bind (step_res (read_str (ge_float_text env) n ''ticker'')) (\<lambda>ticker.
       case dict_get prices ticker of
         None \<Rightarrow> (\<lambda>w. evaluate_positions env run_id ns prices held
                    (record_degraded env (''provider returned no current price for '' @ ticker) w))
       | Some price \<Rightarrow>
           step_bind (evaluate_one env run_id n price held) (\<lambda>(breached, held').
           step_bind (evaluate_positions env run_id ns prices held') (\<lambda>(checked, breaches).
             step_return (Suc checked, (if breached then Suc breaches else breaches)))))"

record close_decision =
  cld_ticker :: string
  cld_position_id :: string
  cld_decision :: string
  cld_trigger :: string
  cld_rationale :: explanation
  cld_quantity :: int
  cld_reference_price_cents :: int
  cld_pnl_cents :: "int option"

record close_decision_set =
  cds_run_id :: string
  cds_decisions :: "close_decision list"
  cds_positions_checked :: nat
  cds_explanation :: explanation
  cds_provenance :: provenance

definition monitor_explanation :: "nat \<Rightarrow> nat \<Rightarrow> explanation" where
  "monitor_explanation checked breaches =
     \<lparr>ex_summary = ''Monitor checked '' @ str_nat checked @ '' positions; '' @ str_nat breaches
        @ '' stop breaches surfaced.'',
      ex_evidence_refs = [''contracts.stop_rule'', ''provider.get_market_data'']\<rparr>"

definition monitor_run_id :: "'w monitor_env \<Rightarrow> 'w \<Rightarrow> string" where
  "monitor_run_id env w = ''monitor-run-'' @ mo_hex env w"

definition evaluate_and_write ::
  "'w monitor_env \<Rightarrow> string \<Rightarrow> gnode list \<Rightarrow> (string, int) dict option \<Rightarrow> ('w, close_decision_set) step" where
  "evaluate_and_write env source_run_id positions prices w =
     (let run_id = monitor_run_id env w in
      step_bind (case prices of
                   None \<Rightarrow> step_return (0, 0)
                 | Some ps \<Rightarrow> evaluate_positions env run_id positions ps None) (\<lambda>(checked, breaches).
      step_bind (write_monitor_run env run_id source_run_id checked 0 checked breaches) (\<lambda>pv.
        step_return \<lparr>cds_run_id = run_id, cds_decisions = [], cds_positions_checked = checked,
          cds_explanation = monitor_explanation checked breaches, cds_provenance = pv\<rparr>)) w)"

section \<open>Prices\<close>

definition latest_close :: "ohlcv_bar \<Rightarrow> (string, int \<times> rat) dict \<Rightarrow> (string, int \<times> rat) dict" where
  "latest_close bar d =
     (case dict_get d (bar_ticker bar) of
        None \<Rightarrow> dict_set (bar_ticker bar) (bar_date bar, bar_close bar) d
      | Some current \<Rightarrow>
          if fst current < bar_date bar then dict_set (bar_ticker bar) (bar_date bar, bar_close bar) d else d)"

definition latest_cents :: "market_data \<Rightarrow> (string, int) dict" where
  "latest_cents m =
     map (\<lambda>(t, _, close). (t, round_half_up (close * 100))) (fold latest_close (mkt_bars m) [])"

text \<open>\<open>date.isoformat()\<close> of a day number, and the request for a window of days that ends today.\<close>

definition date_text :: "nat \<Rightarrow> string" where
  "date_text n = (case ord2ymd n of (y, m, d) \<Rightarrow> pad_digits 4 y @ ''-'' @ pad_digits 2 m @ ''-'' @ pad_digits 2 d)"

definition lookback_window :: "timestamp \<Rightarrow> int \<Rightarrow> (string \<times> string) res" where
  "lookback_window now days =
     (let e = ymd2ord (ts_year now) (ts_month now) (ts_day now)
      in if int e - days < 1 then Inl (PyExn ''OverflowError'' ''date value out of range'')
         else Inr (date_text (nat (int e - days)), date_text e))"

definition data_request :: "string list \<Rightarrow> string \<times> string \<Rightarrow> props" where
  "data_request tickers window =
     [(''tickers'', PList (map (\<lambda>t. PStr t) tickers)),
      (''window'', PDict [(''start'', PStr (fst window)), (''end'', PStr (snd window))]),
      (''fields'', PList [PStr ''ohlcv'']), (''benchmark_ticker'', PNone)]"

definition ask_market ::
  "'w monitor_env \<Rightarrow> 'w bus_env \<Rightarrow> 'w bus \<Rightarrow> string list \<Rightarrow> int \<Rightarrow> ('w, market_data) step" where
  "ask_market env benv b tickers days w =
     step_bind (step_res (lookback_window (ge_wall env w) days)) (\<lambda>window.
     step_bind (\<lambda>w. new_message benv w ''monitor'' ''provider'' MRequest ''get_market_data''
                      (data_request tickers window) None) (\<lambda>m.
     step_bind (bus_request benv b m) (\<lambda>response.
       if am_type response = MError
       then step_res (Inl (RuntimeError (py_str (ge_float_text env)
              (get_or (am_payload response) ''message'' (PStr ''provider error'')))))
       else step_bind (step_res (mo_market env (PDict (am_payload response)))) (\<lambda>market.
         if mkt_used_fallback market
         then step_res (Inl (RuntimeError ''provider returned degraded market data''))
         else step_return market)))) w"

definition latest_close_cents ::
  "'w monitor_env \<Rightarrow> 'w bus_env \<Rightarrow> 'w bus \<Rightarrow> string list \<Rightarrow> int \<Rightarrow> 'w \<Rightarrow> 'w \<times> (string, int) dict option" where
  "latest_close_cents env benv b tickers days w =
     (if tickers = [] then (w, Some [])
      else case ask_market env benv b tickers days w of
        (w1, r) \<Rightarrow>
          (fst (fault_boundary (mo_submit env) (ge_wall env w1) ''monitor'' ''agents.monitor.provider_client''
                  (Some ''check_positions'') w1 r),
           case r of Inl e \<Rightarrow> None | Inr m \<Rightarrow> Some (latest_cents m)))"

section \<open>The handlers\<close>

definition check_positions :: "'w monitor_env \<Rightarrow> 'w bus_env \<Rightarrow> 'w bus \<Rightarrow> string \<Rightarrow> ('w, close_decision_set) step" where
  "check_positions env benv b run_id =
     step_bind (open_run_positions env run_id) (\<lambda>positions.
     step_bind (step_res (all_res (map (\<lambda>n. read_str (ge_float_text env) n ''ticker'') positions))) (\<lambda>tickers w.
       (case latest_close_cents env benv b tickers (mos_price_lookback_days (mo_settings env)) w of
          (w1, prices) \<Rightarrow> evaluate_and_write env run_id positions prices w1)))"

fun opened_positions :: "('w, 'x) graph_env_scheme \<Rightarrow> gnode list \<Rightarrow> ('w, gnode list) step" where
  "opened_positions env [] = step_return []"
| "opened_positions env (fill # fills) =
     step_bind (descend env fill ''OPENS'') (\<lambda>ns.
     step_bind (opened_positions env fills) (\<lambda>rest. step_return (ns @ rest)))"

definition held_explanation :: "string \<Rightarrow> string list \<Rightarrow> explanation" where
  "held_explanation run_id held =
     (if held = []
      then \<lparr>ex_summary = ''No open held positions found for '' @ run_id @ ''.'',
             ex_evidence_refs = [''monitor.positions'']\<rparr>
      else \<lparr>ex_summary = ''Held '' @ str_nat (length held) @ '' open positions: ''
               @ join_strs '', '' (sort held)
               @ ''. Monitor has not surfaced a stop breach for them in this check.'',
             ex_evidence_refs = [''contracts.stop_rule'']\<rparr>)"

definition explain_hold :: "('w, 'x) graph_env_scheme \<Rightarrow> string \<Rightarrow> ('w, explanation) step" where
  "explain_hold env run_id =
     step_bind (fills_for_run env run_id) (\<lambda>fills.
     step_bind (opened_positions env fills) (\<lambda>ns.
     step_bind (step_res (all_res (map (\<lambda>n. read_str (ge_float_text env) n ''ticker'')
                  (filter is_active_position_node ns)))) (\<lambda>held.
       step_return (held_explanation run_id held))))"

section \<open>The poll\<close>

datatype monitor_work = SyncWork gnode | EvaluateWork gnode

definition find_pending_work :: "('w, 'x) graph_env_scheme \<Rightarrow> ('w, monitor_work list) step" where
  "find_pending_work env =
     step_bind (find_pending_position_sync env) (\<lambda>syncs.
     step_bind (pending_step env ''ExecutionRun'' ''MONITORED_BY'') (\<lambda>runs.
       step_return (map SyncWork syncs @ map EvaluateWork runs)))"

definition market_node :: "('w, 'x) graph_env_scheme \<Rightarrow> gnode \<Rightarrow> ('w, gnode option) step" where
  "market_node env pm_run =
     step_bind (ascend env pm_run ''EVALUATED_BY'') (\<lambda>analysts.
       case analysts of
         [] \<Rightarrow> step_return None
       | analyst # _ \<Rightarrow>
           step_bind (ascend env analyst ''ANALYZED_BY'') (\<lambda>scans.
             case scans of
               [] \<Rightarrow> step_return None
             | scan # _ \<Rightarrow> step_bind (descend env scan ''DERIVED_FROM'') (\<lambda>ms. step_return (first_of ms))))"

definition prices_from_graph :: "'w monitor_env \<Rightarrow> gnode \<Rightarrow> ('w, (string, int) dict option) step" where
  "prices_from_graph env pm_run =
     step_bind (market_node env pm_run) (\<lambda>m.
       case m of
         None \<Rightarrow> step_return None
       | Some n \<Rightarrow>
           step_bind (step_res (res_bind (prop_at (gn_props n) ''snapshot'') (mo_market env))) (\<lambda>market.
             step_return (Some (latest_cents market))))"

definition assertion_error :: py_exn where
  "assertion_error = PyExn ''AssertionError'' []"

definition monitor_pm_node :: "'w monitor_env \<Rightarrow> gnode \<Rightarrow> ('w, unit) step" where
  "monitor_pm_node env n =
     step_bind (ascend env n ''EXECUTED_BY'') (\<lambda>runs.
       case runs of
         [] \<Rightarrow> step_res (Inl assertion_error)
       | pm_run # _ \<Rightarrow>
           step_bind (open_run_positions env
               (py_str (ge_float_text env) (get_or (gn_props pm_run) ''linked_from_key'' (PStr (gn_key pm_run)))))
             (\<lambda>positions.
           step_bind (prices_from_graph env pm_run) (\<lambda>prices.
           step_bind (evaluate_and_write env (gn_key pm_run) positions prices) (\<lambda>result w.
             (case gp_get (ge_port env) w ''MonitorRun'' (cds_run_id result) of
                None \<Rightarrow> (w, Inl assertion_error)
              | Some run \<Rightarrow> mo_edge env n run ''MONITORED_BY'' w)))))"

definition process_work_item :: "'w monitor_env \<Rightarrow> monitor_work \<Rightarrow> ('w, unit) step" where
  "process_work_item env item =
     (case item of
        SyncWork n \<Rightarrow> (\<lambda>w. (sync_positions_snapshot env n w, Inr ()))
      | EvaluateWork n \<Rightarrow> monitor_pm_node env n)"

end
