(* ===== verification/BookAdoption.thy ===== *)
theory BookAdoption
  imports BookSync
begin

text \<open>
  What adopting a broker snapshot does to the position book in the in-memory store: afterwards the
  active positions are the broker's holdings, one for each ticker, except for a holding whose
  adoption key names a position that was ended earlier.
\<close>

section \<open>The book\<close>

definition position_fields :: "gnode \<Rightarrow> (string \<times> int \<times> int) option" where
  "position_fields n =
     (case (dict_get (gn_props n) ''ticker'', dict_get (gn_props n) ''quantity'',
            dict_get (gn_props n) ''opened_price_cents'') of
        (Some (PStr t), Some (PInt q), Some (PInt p)) \<Rightarrow> Some (t, q, p)
      | _ \<Rightarrow> None)"

definition holding_fields :: "snapshot_holding \<Rightarrow> string \<times> int \<times> int" where
  "holding_fields h = (shd_ticker h, shd_quantity h, shd_avg_entry_cents h)"

definition end_markers :: "string list" where
  "end_markers = [''broker_absent'', ''broker_absent_snapshot'', ''broker_superseded_by'',
     ''broker_superseded_snapshot'']"

text \<open>
  A position node as the monitor writes it: its fields can be read, the markers that end it come with
  its end, and a key of the adoption's form says what the node holds.
\<close>

definition position_ok :: "gnode \<Rightarrow> bool" where
  "position_ok n \<longleftrightarrow>
     gn_version n = 1 \<and> gn_key n \<noteq> [] \<and> position_fields n \<noteq> None
     \<and> (is_active_position_node n \<longrightarrow> list_all (\<lambda>m. dict_get (gn_props n) m = None) end_markers)
     \<and> (\<forall>h. gn_key n = broker_position_key h \<longrightarrow> position_fields n = Some (holding_fields h))"

definition positions_ok :: "store \<Rightarrow> bool" where
  "positions_ok s \<longleftrightarrow> store_wf s \<and> (\<forall>n \<in> set (list_nodes s ''Position''). position_ok n)"

definition active :: "store \<Rightarrow> gnode set" where
  "active s = set (active_position_nodes mem_port s)"

definition held_in :: "store \<Rightarrow> string \<Rightarrow> gnode set" where
  "held_in s t = {n \<in> active s. \<exists>q p. position_fields n = Some (t, q, p)}"

lemma positions_okD:
  assumes "positions_ok s"
  shows "store_wf s" "get_node s ''Position'' k = Some n \<Longrightarrow> gn_label n = ''Position'' \<and> gn_key n = k \<and> position_ok n"
  using assms mem_list_iff mem_node_identity by (auto simp: positions_ok_def)

lemma active_iff:
  assumes "store_wf s"
  shows "n \<in> active s \<longleftrightarrow> gn_label n = ''Position'' \<and> is_active_position_node n
    \<and> get_node s ''Position'' (gn_key n) = Some n"
  using mem_list_iff [OF assms] by (auto simp: active_def active_position_nodes_def)

lemma position_fields_Some:
  "position_fields n = Some (t, q, p) \<longleftrightarrow> dict_get (gn_props n) ''ticker'' = Some (PStr t)
     \<and> dict_get (gn_props n) ''quantity'' = Some (PInt q)
     \<and> dict_get (gn_props n) ''opened_price_cents'' = Some (PInt p)"
  by (auto simp: position_fields_def split: option.splits pyval.splits)

lemma position_reads:
  assumes "position_fields n = Some (t, q, p)"
  shows "read_str flt n ''ticker'' = Inr t" "read_int n ''quantity'' = Inr q"
    "read_int n ''opened_price_cents'' = Inr p"
  using assms by (simp_all add: position_fields_Some read_str_def read_int_def prop_at_def)

lemma broker_position_key_inj:
  "broker_position_key h = broker_position_key k \<longleftrightarrow> holding_fields h = holding_fields k"
proof
  assume "broker_position_key h = broker_position_key k"
  then have "(shd_ticker h @ CHR '':'' # str_int (shd_quantity h)) @ CHR '':'' # str_int (shd_avg_entry_cents h)
      = (shd_ticker k @ CHR '':'' # str_int (shd_quantity k)) @ CHR '':'' # str_int (shd_avg_entry_cents k)"
    by (simp add: broker_position_key_def)
  from split_last_eq [OF this str_int_no_colon str_int_no_colon]
  have rest: "shd_ticker h @ CHR '':'' # str_int (shd_quantity h) = shd_ticker k @ CHR '':'' # str_int (shd_quantity k)"
    and price: "str_int (shd_avg_entry_cents h) = str_int (shd_avg_entry_cents k)" by auto
  from split_last_eq [OF rest str_int_no_colon str_int_no_colon] price
  show "holding_fields h = holding_fields k" by (auto simp: holding_fields_def dest: str_int_inj)
qed (simp add: holding_fields_def broker_position_key_def)

section \<open>Ending a position\<close>

definition ends_position :: "props \<Rightarrow> bool" where
  "ends_position p \<longleftrightarrow> p \<in> {superseded_props m snapshot | m snapshot. gn_key m \<noteq> []} \<union> range absent_props"

lemma ending_merge:
  assumes "positions_ok s" "n \<in> active s" "ends_position p"
  shows "\<exists>s' n'. merge_node now s ''Position'' (gn_key n) p 1 = (s', Inr n')
    \<and> positions_ok s' \<and> active s' = active s - {n}
    \<and> (\<forall>k. get_node s' ''Position'' k = None \<longleftrightarrow> get_node s ''Position'' k = None)"
proof -
  note wf = positions_okD(1) [OF assms(1)]
  from assms(2) wf have there: "get_node s ''Position'' (gn_key n) = Some n" and act: "is_active_position_node n"
    by (simp_all add: active_iff)
  then have label: "gn_label n = ''Position''" and ok: "position_ok n"
    using positions_okD(2) [OF assms(1)] by auto
  have free: "dict_get (gn_props n) m = None" if "m \<in> set end_markers" for m
    using ok act that by (auto simp: position_ok_def list_all_iff)
  from assms(3) obtain a v b w where p: "p = [(a, v), (b, PStr w)]" and ab: "a \<noteq> b"
      "a \<in> {''broker_absent'', ''broker_superseded_by''}" "b \<in> set end_markers"
      and v: "py_truth v" "immutable v"
    by (auto simp: ends_position_def superseded_props_def absent_props_def end_markers_def py_truth_def)
  let ?props = "dict_set b (PStr w) (dict_set a v (gn_props n))"
  let ?n = "n\<lparr>gn_props := ?props\<rparr>"
  let ?s = "s\<lparr>st_nodes := dict_set (''Position'', gn_key n) ?n (st_nodes s)\<rparr>"
  have in_markers: "a \<in> set end_markers" using ab(2) by (auto simp: end_markers_def)
  have node: "node_wf (''Position'', gn_key n) n"
    using store_wf_node [OF wf, of "(''Position'', gn_key n)" n] there by (simp add: get_node_def)
  have "append_props (gn_props n) p = Inr ?props"
    using free [OF in_markers] free [OF ab(3)] ab(1) v(2)
    by (simp add: append_props_def p dict_simps Let_def immutable_frozen_value)
  moreover have "make_node ''Position'' (gn_key n) ?props 1 = ?n"
  proof -
    have "props_frozen ?props" using node v(2) by (simp add: node_wf_def props_frozen_set)
    then show ?thesis using ok label by (simp add: make_node_def position_ok_def props_frozen_id)
  qed
  ultimately have merged: "merge_node now s ''Position'' (gn_key n) p 1 = (?s, Inr ?n)"
    using there ok by (simp add: merge_node_def merge_core_def get_node_def position_ok_def Let_def)
  have "dict_wf p" using ab(1) by (simp add: p dict_wf_Cons)
  then have wf': "store_wf ?s" using merge_node_wf [OF wf, of p] merged by (metis fst_conv)
  have get: "get_node ?s ''Position'' k = (if k = gn_key n then Some ?n else get_node s ''Position'' k)" for k
    by (simp add: get_node_def dict_simps)
  have ended: "\<not> is_active_position_node ?n"
    using ab v(1) by (auto simp: is_active_position_node_def data_get_def dict_simps)
  have "dict_get ?props k = dict_get (gn_props n) k" if "k \<notin> set end_markers" for k
    using that in_markers ab(3) by (auto simp: dict_simps)
  then have "position_fields ?n = position_fields n"
    by (simp add: position_fields_def end_markers_def)
  with ok ended have "position_ok ?n" by (simp add: position_ok_def)
  then have pos: "position_ok m" if "get_node ?s ''Position'' k = Some m" for k m
    using that positions_okD(2) [OF assms(1)] by (cases "k = gn_key n") (simp_all add: get)
  have book: "positions_ok ?s"
    unfolding positions_ok_def using wf' pos mem_list_iff [OF wf'] by blast
  have acts: "m \<in> active ?s \<longleftrightarrow> m \<in> active s - {n}" for m
  proof (cases "gn_key m = gn_key n")
    case True
    then show ?thesis using ended there by (auto simp: active_iff [OF wf'] active_iff [OF wf] get)
  next
    case False
    then show ?thesis by (auto simp: active_iff [OF wf'] active_iff [OF wf] get)
  qed
  then have acts: "active ?s = active s - {n}" by blast
  show ?thesis using merged book acts get there by (intro exI [of _ ?s] exI [of _ ?n]) auto
qed

section \<open>Opening a position for a holding\<close>

lemma creating_merge:
  assumes "positions_ok s" "get_node s ''Position'' (broker_position_key h) = None"
  shows "\<exists>s' n. merge_node now s ''Position'' (broker_position_key h) (broker_position_props st snapshot h r c) 1
      = (s', Inr n) \<and> positions_ok s' \<and> active s' = insert n (active s)
    \<and> gn_key n = broker_position_key h \<and> position_fields n = Some (holding_fields h)
    \<and> (\<forall>k. k \<noteq> broker_position_key h \<longrightarrow> get_node s' ''Position'' k = get_node s ''Position'' k)"
proof -
  note wf = positions_okD(1) [OF assms(1)]
  let ?p = "broker_position_props st snapshot h r c"
  define n where "n = make_node ''Position'' (broker_position_key h) ?p 1"
  define s' where "s' = s\<lparr>st_nodes := st_nodes s @ [((''Position'', broker_position_key h), n)]\<rparr>"
  have merged: "merge_node now s ''Position'' (broker_position_key h) ?p 1 = (s', Inr n)"
    using mem_merge_new [OF assms(2)] by (simp add: s'_def n_def)
  have "dict_wf ?p" by (simp add: broker_position_props_def dict_wf_def)
  then have wf': "store_wf s'" using merge_node_wf [OF wf, of ?p] merged by (metis fst_conv)
  have get: "get_node s' ''Position'' k = (if k = broker_position_key h then Some n else get_node s ''Position'' k)" for k
    using assms(2) by (simp add: s'_def get_node_def map_add_def split: option.splits)
  have key: "gn_key n = broker_position_key h" "gn_label n = ''Position''" "gn_version n = 1" by (simp_all add: n_def)
  have fields: "position_fields n = Some (holding_fields h)"
    by (simp add: position_fields_def n_def broker_position_props_def holding_fields_def)
  have "is_active_position_node n"
    by (simp add: is_active_position_node_def n_def broker_position_props_def get_or_def data_get_def py_truth_def)
  moreover have "list_all (\<lambda>m. dict_get (gn_props n) m = None) end_markers"
    by (simp add: n_def broker_position_props_def end_markers_def)
  ultimately have ok: "position_ok n" and act: "is_active_position_node n"
    using key fields broker_position_key_inj by (auto simp: position_ok_def broker_position_key_def)
  have pos: "position_ok m" if "get_node s' ''Position'' k = Some m" for k m
    using that ok positions_okD(2) [OF assms(1)] by (cases "k = broker_position_key h") (simp_all add: get)
  then have book: "positions_ok s'"
    unfolding positions_ok_def using wf' mem_list_iff [OF wf'] by blast
  have "m \<in> active s' \<longleftrightarrow> m \<in> insert n (active s)" for m
    using key act assms(2) by (cases "gn_key m = broker_position_key h")
      (auto simp: active_iff [OF wf'] active_iff [OF wf] get)
  then have "active s' = insert n (active s)" by blast
  with merged book key fields get show ?thesis by auto
qed

section \<open>Ending several positions\<close>

lemma marking_all:
  assumes "positions_ok s" "distinct ns" "set ns \<subseteq> active s" "ge_port env = mem_port"
    "\<And>n s. n \<in> set ns \<Longrightarrow> positions_ok s \<Longrightarrow> n \<in> active s \<Longrightarrow>
       \<exists>p. ends_position p \<and> mark n = step_forget (mo_merge env ''Position'' (gn_key n) p)"
  shows "\<exists>s'. step_each mark ns s = (s', Inr ()) \<and> positions_ok s' \<and> active s' = active s - set ns
    \<and> (\<forall>k. get_node s' ''Position'' k = None \<longleftrightarrow> get_node s ''Position'' k = None)"
  using assms(1-3,5)
proof (induction ns arbitrary: s)
  case Nil
  then show ?case by (simp add: step_return_def)
next
  case (Cons n ns)
  from Cons.prems(3) have here: "n \<in> active s" by simp
  obtain p where p: "ends_position p" "mark n = step_forget (mo_merge env ''Position'' (gn_key n) p)"
    using Cons.prems(4) [OF _ Cons.prems(1) here] by auto
  obtain s1 n1 where s1: "merge_node (ge_wall env s) s ''Position'' (gn_key n) p 1 = (s1, Inr n1)"
    "positions_ok s1" "active s1 = active s - {n}"
    "\<forall>k. get_node s1 ''Position'' k = None \<longleftrightarrow> get_node s ''Position'' k = None"
    using ending_merge [OF Cons.prems(1) here p(1)] by blast
  have first: "mark n s = (s1, Inr ())"
    using s1(1) by (simp add: p(2) step_forget_def step_bind_def mo_merge_def assms(4) step_return_def)
  have "\<exists>s'. step_each mark ns s1 = (s', Inr ()) \<and> positions_ok s' \<and> active s' = active s1 - set ns
    \<and> (\<forall>k. get_node s' ''Position'' k = None \<longleftrightarrow> get_node s1 ''Position'' k = None)"
    by (rule Cons.IH) (use Cons.prems s1(2, 3) in auto)
  with first s1(3, 4) show ?case by (auto simp: step_bind_def)
qed

lemma active_unmarked:
  assumes "positions_ok s" "n \<in> active s" "m \<in> set end_markers"
  shows "dict_get (gn_props n) m = None"
  using assms positions_okD [OF assms(1)] by (auto simp: active_iff position_ok_def list_all_iff)

lemma mark_superseded_active:
  "positions_ok s \<Longrightarrow> n \<in> active s \<Longrightarrow> gn_key m \<noteq> [] \<Longrightarrow> \<exists>p. ends_position p
    \<and> mark_superseded env snapshot m n = step_forget (mo_merge env ''Position'' (gn_key n) p)"
  using active_unmarked [of s n "''broker_superseded_by''"]
  by (auto simp: mark_superseded_def ends_position_def end_markers_def)

lemma mark_absent_active:
  "positions_ok s \<Longrightarrow> n \<in> active s \<Longrightarrow> \<exists>p. ends_position p
    \<and> mark_absent env snapshot n = step_forget (mo_merge env ''Position'' (gn_key n) p)"
  using active_unmarked [of s n "''broker_absent''"]
  by (intro exI [of _ "absent_props snapshot"]) (simp add: mark_absent_def ends_position_def end_markers_def)

section \<open>The book by ticker\<close>

definition ticker_of :: "gnode \<Rightarrow> string" where
  "ticker_of n = fst (the (position_fields n))"

lemma group_nodes_ok:
  assumes "\<forall>n \<in> set ns. position_fields n \<noteq> None"
  shows "\<exists>d'. group_nodes flt ns d = Inr d' \<and> (dict_wf d \<longrightarrow> dict_wf d')
    \<and> (\<forall>t. candidates_of d' t = candidates_of d t @ filter (\<lambda>n. ticker_of n = t) ns)"
  using assms
proof (induction ns arbitrary: d)
  case (Cons n ns)
  have "position_fields n \<noteq> None" using Cons.prems by simp
  then obtain x where "position_fields n = Some x" by blast
  then obtain t q p where f: "position_fields n = Some (t, q, p)" by (cases x) simp
  let ?d = "dict_set t (candidates_of d t @ [n]) d"
  have cand: "candidates_of ?d k = candidates_of d k @ (if t = k then [n] else [])" for k
    by (simp add: candidates_of_def dict_simps)
  have "\<forall>n \<in> set ns. position_fields n \<noteq> None" using Cons.prems by simp
  from Cons.IH [OF this, of ?d] obtain d' where d': "group_nodes flt ns ?d = Inr d'" "dict_wf ?d \<longrightarrow> dict_wf d'"
    "\<And>k. candidates_of d' k = candidates_of ?d k @ filter (\<lambda>n. ticker_of n = k) ns" by blast
  have "group_nodes flt (n # ns) d = Inr d'"
    using d'(1) by (simp add: position_reads(1) [OF f] candidates_of_def)
  moreover have "candidates_of d' k = candidates_of d k @ filter (\<lambda>n. ticker_of n = k) (n # ns)" for k
    using f by (simp add: d'(3) cand ticker_of_def)
  ultimately show ?case using d'(2) by blast
qed simp

lemma distinct_groups:
  assumes "dict_wf d" "\<forall>(t, g) \<in> set d. distinct g \<and> (\<forall>n \<in> set g. ticker_of n = t)"
  shows "distinct (concat (map snd (filter P d)))"
  using assms
proof (induction d)
  case (Cons x d)
  obtain t g where x: "x = (t, g)" by (cases x)
  have new: "t \<notin> set (dict_keys d)" using Cons.prems(1) by (simp add: x dict_wf_Cons)
  have "n \<notin> set (concat (map snd (filter P d)))" if "n \<in> set g" for n
  proof
    assume "n \<in> set (concat (map snd (filter P d)))"
    then obtain t' g' where "(t', g') \<in> set d" "n \<in> set g'" by auto
    moreover from this have "ticker_of n = t'" using Cons.prems(2) by fastforce
    moreover have "ticker_of n = t" using Cons.prems(2) that by (simp add: x)
    ultimately show False using new by force
  qed
  moreover have "distinct (concat (map snd (filter P d)))"
    using Cons.IH Cons.prems by (simp add: x dict_wf_Cons)
  ultimately show ?case using Cons.prems(2) by (auto simp: x)
qed simp

text \<open>The grouped book: every group is what the book holds of its ticker.\<close>

lemma book_groups:
  assumes "positions_ok s"
  shows "\<exists>d. positions_by_ticker flt (active_position_nodes mem_port s) = Inr d
    \<and> (\<forall>t. distinct (candidates_of d t) \<and> set (candidates_of d t) = held_in s t)
    \<and> distinct (concat (map snd (filter (\<lambda>(t, ns). t \<notin> T) d)))
    \<and> set (concat (map snd (filter (\<lambda>(t, ns). t \<notin> T) d))) = {n \<in> active s. ticker_of n \<notin> T}"
proof -
  let ?ns = "active_position_nodes mem_port s"
  have readable: "position_fields n \<noteq> None" if "n \<in> active s" for n
    using that positions_okD(2) [OF assms] active_iff [OF positions_okD(1) [OF assms]] unfolding position_ok_def by blast
  then have "\<forall>n \<in> set ?ns. position_fields n \<noteq> None" by (simp add: active_def)
  from group_nodes_ok [OF this, of flt "[]"]
  obtain d where d: "positions_by_ticker flt ?ns = Inr d" "dict_wf d"
    "\<And>t. candidates_of d t = filter (\<lambda>n. ticker_of n = t) ?ns"
    unfolding positions_by_ticker_def by (force simp: candidates_of_def)
  have dist: "distinct ?ns"
    using distinct_list_nodes [OF positions_okD(1) [OF assms]] by (simp add: active_position_nodes_def)
  have held: "set (candidates_of d t) = held_in s t" for t
    using readable by (force simp: d(3) held_in_def active_def ticker_of_def)
  have groups: "g = candidates_of d t" if "(t, g) \<in> set d" for t g
    using that d(2) by (simp add: candidates_of_def dict_get_Some_iff [symmetric])
  have homogeneous: "\<forall>(t, g) \<in> set d. distinct g \<and> (\<forall>n \<in> set g. ticker_of n = t)"
  proof clarify
    fix t g assume "(t, g) \<in> set d"
    then have "g = filter (\<lambda>n. ticker_of n = t) ?ns" using groups d(3) by simp
    with dist show "distinct g \<and> (\<forall>n \<in> set g. ticker_of n = t)" by simp
  qed
  have "n \<in> set (concat (map snd (filter (\<lambda>(t, ns). t \<notin> T) d)))" if "n \<in> active s" "ticker_of n \<notin> T" for n
  proof -
    have "n \<in> set (candidates_of d (ticker_of n))" using that by (simp add: d(3) active_def)
    then obtain g where "(ticker_of n, g) \<in> set d" "n \<in> set g"
      by (cases "dict_get d (ticker_of n)") (auto simp: candidates_of_def dest: map_of_SomeD)
    with that show ?thesis by force
  qed
  moreover have "n \<in> active s \<and> ticker_of n \<notin> T" if "n \<in> set (concat (map snd (filter (\<lambda>(t, ns). t \<notin> T) d)))" for n
    using that groups d(3) by (fastforce simp: active_def)
  ultimately have "set (concat (map snd (filter (\<lambda>(t, ns). t \<notin> T) d))) = {n \<in> active s. ticker_of n \<notin> T}"
    by blast
  moreover have "distinct (candidates_of d t)" for t using dist by (simp add: d(3))
  ultimately show ?thesis using d(1) held distinct_groups [OF d(2) homogeneous] by blast
qed

section \<open>Adopting a holding\<close>

text \<open>
  A holding is adoptable when the book has a position that equals it, or its adoption key is free.
  Otherwise the key names a position that was ended, and the adoption takes that one for the match.
\<close>

definition adoptable :: "store \<Rightarrow> snapshot_holding \<Rightarrow> bool" where
  "adoptable s h \<longleftrightarrow>
     list_ex (\<lambda>n. position_fields n = Some (holding_fields h)) (active_position_nodes mem_port s)
     \<or> get_node s ''Position'' (broker_position_key h) = None"

lemma adoptable_iff:
  "adoptable s h \<longleftrightarrow> (\<exists>n \<in> active s. position_fields n = Some (holding_fields h))
     \<or> get_node s ''Position'' (broker_position_key h) = None"
  by (simp add: adoptable_def active_def list_ex_iff)

lemma held_inD: "n \<in> held_in s t \<Longrightarrow> n \<in> active s \<and> position_fields n \<noteq> None \<and> ticker_of n = t"
  by (auto simp: held_in_def ticker_of_def)

lemma held_in_fields: "n \<in> active s \<Longrightarrow> position_fields n = Some (holding_fields h) \<Longrightarrow> n \<in> held_in s (shd_ticker h)"
  by (simp add: held_in_def holding_fields_def)

lemma matching_position_find:
  assumes "\<forall>n \<in> set ns. position_fields n \<noteq> None \<and> ticker_of n = shd_ticker h"
  shows "matching_position ns h = Inr (List.find (\<lambda>n. position_fields n = Some (holding_fields h)) ns)"
  using assms
proof (induction ns)
  case (Cons n ns)
  then have "position_fields n \<noteq> None" by simp
  then obtain x where "position_fields n = Some x" by blast
  then obtain t q p where f: "position_fields n = Some (t, q, p)" by (cases x) simp
  with Cons.prems have "t = shd_ticker h" by (simp add: ticker_of_def)
  with Cons f show ?case by (simp add: position_reads [OF f] holding_fields_def)
qed simp

lemma active_key_eq: "positions_ok s \<Longrightarrow> n \<in> active s \<Longrightarrow> get_node s ''Position'' (gn_key n) = Some n \<and> gn_key n \<noteq> []"
  using positions_okD by (fastforce simp: active_iff position_ok_def)

lemma marking_superseded:
  assumes "positions_ok s" "distinct ns" "set ns \<subseteq> active s" "ge_port env = mem_port" "gn_key m \<noteq> []"
  shows "\<exists>s'. step_each (mark_superseded env snapshot m) ns s = (s', Inr ()) \<and> positions_ok s'
    \<and> active s' = active s - set ns
    \<and> (\<forall>k. get_node s' ''Position'' k = None \<longleftrightarrow> get_node s ''Position'' k = None)"
  by (rule marking_all [OF assms(1-4)]) (rule mark_superseded_active [OF _ _ assms(5)])

lemma marking_absent:
  assumes "positions_ok s" "distinct ns" "set ns \<subseteq> active s" "ge_port env = mem_port"
  shows "\<exists>s'. step_each (mark_absent env snapshot) ns s = (s', Inr ()) \<and> positions_ok s'
    \<and> active s' = active s - set ns
    \<and> (\<forall>k. get_node s' ''Position'' k = None \<longleftrightarrow> get_node s ''Position'' k = None)"
  by (rule marking_all [OF assms]) (rule mark_absent_active)

lemma adopt_matched:
  assumes "positions_ok s" "ge_port env = mem_port" "distinct cs" "set cs = held_in s (shd_ticker h)"
    "List.find (\<lambda>n. position_fields n = Some (holding_fields h)) cs = Some m"
  shows "\<exists>s'. step_each (mark_superseded env snapshot m) (filter (\<lambda>n. gn_key n \<noteq> gn_key m) cs) s = (s', Inr ())
    \<and> positions_ok s' \<and> active s' = active s - held_in s (shd_ticker h) \<union> {m}
    \<and> position_fields m = Some (holding_fields h)
    \<and> (\<forall>k. get_node s' ''Position'' k = None \<longleftrightarrow> get_node s ''Position'' k = None)"
proof -
  have m: "m \<in> set cs" "position_fields m = Some (holding_fields h)"
    using assms(5) by (auto simp: find_Some_iff)
  then have act: "m \<in> active s" using assms(4) held_inD by blast
  let ?ns = "filter (\<lambda>n. gn_key n \<noteq> gn_key m) cs"
  have only: "n = m" if "n \<in> active s" "gn_key n = gn_key m" for n
    using active_key_eq [OF assms(1)] act that by (metis option.inject)
  have sub: "set cs \<subseteq> active s" using assms(4) held_inD by blast
  have ns: "set ?ns = set cs - {m}"
  proof (rule set_eqI)
    show "n \<in> set ?ns \<longleftrightarrow> n \<in> set cs - {m}" for n using only [of n] sub by (cases "n = m") auto
  qed
  have "set ?ns \<subseteq> active s" using sub unfolding ns by blast
  moreover have "distinct ?ns" using assms(3) by simp
  moreover have "gn_key m \<noteq> []" using active_key_eq [OF assms(1) act] by blast
  moreover have "active s - set ?ns = active s - held_in s (shd_ticker h) \<union> {m}"
    using act m(1) unfolding ns assms(4) by blast
  ultimately show ?thesis using marking_superseded [OF assms(1) _ _ assms(2), of ?ns m] m(2) by metis
qed

lemma adopt_unmatched:
  assumes "positions_ok s" "ge_port env = mem_port" "distinct cs" "set cs \<subseteq> active s"
    "m \<notin> set cs" "gn_key m \<noteq> []" "\<And>n. n \<in> active s \<Longrightarrow> gn_key n = gn_key m \<Longrightarrow> n = m"
  shows "\<exists>s'. step_each (mark_superseded env snapshot m) (filter (\<lambda>n. gn_key n \<noteq> gn_key m) cs) s = (s', Inr ())
    \<and> positions_ok s' \<and> active s' = active s - set cs
    \<and> (\<forall>k. get_node s' ''Position'' k = None \<longleftrightarrow> get_node s ''Position'' k = None)"
proof -
  have "filter (\<lambda>n. gn_key n \<noteq> gn_key m) cs = cs" using assms(4, 5, 7) by (fastforce simp: filter_id_conv)
  then show ?thesis using marking_superseded [OF assms(1, 3, 4, 2, 6)] by simp
qed

lemma adopt_one:
  assumes book: "positions_ok s" and port: "ge_port env = mem_port"
    and cs: "distinct (candidates_of d (shd_ticker h))" "set (candidates_of d (shd_ticker h)) = held_in s (shd_ticker h)"
    and snap: "prop_at (gn_props snapshot) ''run_id'' = Inr r" "prop_at (gn_props snapshot) ''created_at'' = Inr c"
  shows "\<exists>s' R. adopt_holding env st snapshot d h s = (s', Inr ()) \<and> positions_ok s'
    \<and> active s' = active s - held_in s (shd_ticker h) \<union> R
    \<and> (if adoptable s h then \<exists>m. R = {m} \<and> position_fields m = Some (holding_fields h) else R = {})
    \<and> (\<forall>k. k \<noteq> broker_position_key h \<longrightarrow>
         (get_node s' ''Position'' k = None \<longleftrightarrow> get_node s ''Position'' k = None))"
proof -
  let ?cs = "candidates_of d (shd_ticker h)"
  have find: "matching_position ?cs h = Inr (List.find (\<lambda>n. position_fields n = Some (holding_fields h)) ?cs)"
    using held_inD by (intro matching_position_find) (simp add: cs(2))
  have sub: "set ?cs \<subseteq> active s" using held_inD cs(2) by blast
  show ?thesis
  proof (cases "List.find (\<lambda>n. position_fields n = Some (holding_fields h)) ?cs")
    case (Some m)
    from adopt_matched [OF book port cs Some, of snapshot] obtain s' where
      s': "step_each (mark_superseded env snapshot m) (filter (\<lambda>n. gn_key n \<noteq> gn_key m) ?cs) s = (s', Inr ())"
      "positions_ok s'" "active s' = active s - held_in s (shd_ticker h) \<union> {m}"
      "position_fields m = Some (holding_fields h)"
      "\<forall>k. get_node s' ''Position'' k = None \<longleftrightarrow> get_node s ''Position'' k = None" by blast
    have "m \<in> active s" using Some sub by (auto simp: find_Some_iff)
    then have "adoptable s h" using s'(4) adoptable_iff by blast
    moreover have "adopt_holding env st snapshot d h s = (s', Inr ())"
      using s'(1) by (simp add: adopt_holding_def find Some step_bind_def step_res_def step_return_def Let_def)
    ultimately show ?thesis using s' by (intro exI [of _ s'] exI [of _ "{m}"]) simp
  next
    case None
    then have nomatch: "position_fields n \<noteq> Some (holding_fields h)" if "n \<in> active s" for n
      using held_in_fields [OF that] cs(2) by (auto simp: find_None_iff)
    show ?thesis
    proof (cases "get_node s ''Position'' (broker_position_key h)")
      case (Some m)
      then have m: "gn_key m = broker_position_key h" "position_fields m = Some (holding_fields h)"
        using positions_okD(2) [OF book Some] by (auto simp: position_ok_def)
      then have "m \<notin> active s" "gn_key m \<noteq> []" using nomatch by (auto simp: broker_position_key_def)
      moreover have "n = m" if "n \<in> active s" "gn_key n = gn_key m" for n
        using active_key_eq [OF book that(1)] that(2) m(1) Some by simp
      ultimately obtain s' where
        s': "step_each (mark_superseded env snapshot m) (filter (\<lambda>n. gn_key n \<noteq> gn_key m) ?cs) s = (s', Inr ())"
        "positions_ok s'" "active s' = active s - held_in s (shd_ticker h)"
        "\<forall>k. get_node s' ''Position'' k = None \<longleftrightarrow> get_node s ''Position'' k = None"
        using adopt_unmatched [OF book port cs(1) sub, of m snapshot] sub cs(2) by blast
      have "adopt_holding env st snapshot d h s = (s', Inr ())"
        using s'(1) Some by (simp add: adopt_holding_def find None create_broker_position_def port
            step_bind_def step_res_def step_return_def Let_def)
      moreover have "\<not> adoptable s h" using nomatch Some by (simp add: adoptable_iff)
      ultimately show ?thesis using s' by (intro exI [of _ s'] exI [of _ "{}"]) simp
    next
      case free: None
      from creating_merge [OF book free, of "ge_wall env s" st snapshot r c] obtain s1 m where
        s1: "merge_node (ge_wall env s) s ''Position'' (broker_position_key h)
               (broker_position_props st snapshot h r c) 1 = (s1, Inr m)"
          "positions_ok s1" "active s1 = insert m (active s)" "gn_key m = broker_position_key h"
          "position_fields m = Some (holding_fields h)"
          "\<forall>k. k \<noteq> broker_position_key h \<longrightarrow> get_node s1 ''Position'' k = get_node s ''Position'' k" by blast
      have new: "n \<notin> active s" if "gn_key n = broker_position_key h" for n
        using active_key_eq [OF book, of n] free that by auto
      have "gn_key m \<noteq> []" "set ?cs \<subseteq> active s1" "m \<notin> set ?cs"
        using sub new [OF s1(4)] by (auto simp: s1(3, 4) broker_position_key_def)
      moreover have "n = m" if "n \<in> active s1" "gn_key n = gn_key m" for n
        using that new [of n] by (auto simp: s1(3, 4))
      ultimately obtain s' where
        s': "step_each (mark_superseded env snapshot m) (filter (\<lambda>n. gn_key n \<noteq> gn_key m) ?cs) s1 = (s', Inr ())"
        "positions_ok s'" "active s' = active s1 - held_in s (shd_ticker h)"
        "\<forall>k. get_node s' ''Position'' k = None \<longleftrightarrow> get_node s1 ''Position'' k = None"
        using adopt_unmatched [OF s1(2) port cs(1), of m snapshot] cs(2) by blast
      have "adopt_holding env st snapshot d h s = (s', Inr ())"
        using s1(1) s'(1) free by (simp add: adopt_holding_def find None create_broker_position_def port snap
            mo_merge_def step_bind_def step_res_def step_return_def Let_def)
      moreover have "active s' = active s - held_in s (shd_ticker h) \<union> {m}"
        using s'(3) s1(3) new [OF s1(4)] held_inD by blast
      moreover have "adoptable s h" using free by (simp add: adoptable_iff)
      ultimately show ?thesis using s' s1(5, 6) by (intro exI [of _ s'] exI [of _ "{m}"]) simp
    qed
  qed
qed

section \<open>Adopting a snapshot\<close>

text \<open>What the adoption of some holdings has put into the book.\<close>

definition adopted :: "store \<Rightarrow> snapshot_holding list \<Rightarrow> gnode set \<Rightarrow> bool" where
  "adopted s hs R \<longleftrightarrow> inj_on position_fields R
     \<and> position_fields ` R = (\<lambda>h. Some (holding_fields h)) ` {h \<in> set hs. adoptable s h}"

lemma adopted_tickers: "adopted s hs R \<Longrightarrow> n \<in> R \<Longrightarrow> \<exists>h \<in> set hs. position_fields n = Some (holding_fields h)"
  by (auto simp: adopted_def)

lemma adopt_all:
  assumes "positions_ok s" "ge_port env = mem_port" "distinct (map shd_ticker hs)"
    "\<forall>h \<in> set hs. distinct (candidates_of d (shd_ticker h))
       \<and> set (candidates_of d (shd_ticker h)) = held_in s (shd_ticker h)"
    "prop_at (gn_props snapshot) ''run_id'' = Inr r" "prop_at (gn_props snapshot) ''created_at'' = Inr c"
  shows "\<exists>s' R. step_each (adopt_holding env st snapshot d) hs s = (s', Inr ()) \<and> positions_ok s'
    \<and> active s' = (active s - (\<Union>h \<in> set hs. held_in s (shd_ticker h))) \<union> R \<and> adopted s hs R"
  using assms(1, 3, 4)
proof (induction hs arbitrary: s)
  case Nil
  then show ?case by (simp add: step_return_def adopted_def)
next
  case (Cons h hs)
  from adopt_one [OF Cons.prems(1) assms(2) _ _ assms(5, 6), of d h st] Cons.prems(3)
  obtain s1 R1 where s1: "adopt_holding env st snapshot d h s = (s1, Inr ())" "positions_ok s1"
    "active s1 = active s - held_in s (shd_ticker h) \<union> R1"
    "if adoptable s h then \<exists>m. R1 = {m} \<and> position_fields m = Some (holding_fields h) else R1 = {}"
    "\<forall>k. k \<noteq> broker_position_key h \<longrightarrow>
         (get_node s1 ''Position'' k = None \<longleftrightarrow> get_node s ''Position'' k = None)" by auto
  have R1: "\<forall>n \<in> R1. position_fields n = Some (holding_fields h)" using s1(4) by (auto split: if_splits)
  have other: "held_in s1 (shd_ticker h') = held_in s (shd_ticker h') \<and> (adoptable s1 h' \<longleftrightarrow> adoptable s h')"
    if "h' \<in> set hs" for h'
  proof -
    have t: "shd_ticker h' \<noteq> shd_ticker h"
      using imageI [OF that, of shd_ticker] Cons.prems(2) by auto
    then have "broker_position_key h' \<noteq> broker_position_key h"
      by (simp add: broker_position_key_inj holding_fields_def)
    moreover have held: "held_in s1 (shd_ticker h') = held_in s (shd_ticker h')"
      using t R1 by (auto simp: held_in_def s1(3) holding_fields_def)
    moreover have "(\<exists>n \<in> active s'. position_fields n = Some (holding_fields h')) \<longleftrightarrow>
        (\<exists>n \<in> held_in s' (shd_ticker h'). position_fields n = Some (holding_fields h'))" for s'
      using held_in_fields held_inD by blast
    ultimately show ?thesis using s1(5) by (simp add: adoptable_iff)
  qed
  have "\<exists>s' R. step_each (adopt_holding env st snapshot d) hs s1 = (s', Inr ()) \<and> positions_ok s'
    \<and> active s' = (active s1 - (\<Union>h \<in> set hs. held_in s1 (shd_ticker h))) \<union> R \<and> adopted s1 hs R"
    by (rule Cons.IH) (use Cons.prems s1(2) other in auto)
  then obtain s' R2 where s': "step_each (adopt_holding env st snapshot d) hs s1 = (s', Inr ())" "positions_ok s'"
    "active s' = (active s1 - (\<Union>h \<in> set hs. held_in s1 (shd_ticker h))) \<union> R2" "adopted s1 hs R2" by blast
  have apart: "n \<notin> held_in s (shd_ticker h')" if "n \<in> R1" "h' \<in> set hs" for n h'
  proof -
    have "ticker_of n = shd_ticker h" using R1 that(1) by (simp add: ticker_of_def holding_fields_def)
    then show ?thesis using held_inD [of n s "shd_ticker h'"] Cons.prems(2) that(2) by auto
  qed
  have "active s' = (active s - (\<Union>h \<in> set (h # hs). held_in s (shd_ticker h))) \<union> (R1 \<union> R2)"
    using apart other by (auto simp: s'(3) s1(3))
  moreover have "adopted s (h # hs) (R1 \<union> R2)"
  proof -
    have R2: "adopted s hs R2" using s'(4) other by (auto simp: adopted_def)
    have "position_fields n \<noteq> position_fields m" if n: "n \<in> R1" and m: "m \<in> R2" for n m
    proof -
      obtain h' where "h' \<in> set hs" "position_fields m = Some (holding_fields h')"
        using adopted_tickers [OF R2 m] by blast
      with R1 n Cons.prems(2) show ?thesis by (auto simp: holding_fields_def)
    qed
    then have "position_fields ` (R1 - R2) \<inter> position_fields ` (R2 - R1) = {}" by blast
    moreover have "inj_on position_fields R1" using s1(4) by (auto split: if_splits)
    ultimately have "inj_on position_fields (R1 \<union> R2)"
      using R2 by (simp add: adopted_def inj_on_Un)
    moreover have "position_fields ` R1 = (\<lambda>h. Some (holding_fields h)) ` {x. x = h \<and> adoptable s x}"
      using s1(4) by (auto split: if_splits)
    moreover have "{x \<in> set (h # hs). adoptable s x} = {x. x = h \<and> adoptable s x} \<union> {x \<in> set hs. adoptable s x}"
      by auto
    ultimately show ?thesis using R2 unfolding adopted_def by (simp only: image_Un)
  qed
  moreover have "step_each (adopt_holding env st snapshot d) (h # hs) s = (s', Inr ())"
    using s1(1) s'(1) by (simp add: step_bind_def)
  ultimately show ?case using s'(2) by blast
qed

text \<open>
  C9. Adopting a fresh broker snapshot with one row per ticker makes the book equal the broker's
  holdings: the adoption succeeds, keeps the book well-formed, and afterwards the active positions are
  exactly the adoptable holdings, one position for each, with the broker's quantity and entry price; any
  other position is ended. The exception is the code's: a holding that no active position equals and
  whose adoption key names a position ended before has no active position afterwards.
\<close>

theorem adoption_refines_holdings:
  assumes "ge_port env = mem_port" "positions_ok s" "prop_is (gn_props snapshot) ''status'' ''fresh''"
    "snapshot_holdings (ge_float_text env) snapshot = Inr hs" "distinct (map shd_ticker hs)"
    "dict_get (gn_props snapshot) ''run_id'' = Some r" "dict_get (gn_props snapshot) ''created_at'' = Some c"
  shows "\<exists>s'. reconcile_from_snapshot env st snapshot s = (s', Inr ()) \<and> positions_ok s'
    \<and> inj_on position_fields (active s')
    \<and> position_fields ` active s' = (\<lambda>h. Some (holding_fields h)) ` {h \<in> set hs. adoptable s h}"
proof -
  let ?T = "set (map shd_ticker hs)"
  from book_groups [OF assms(2), of "ge_float_text env" ?T] obtain d where
    d: "positions_by_ticker (ge_float_text env) (active_position_nodes mem_port s) = Inr d"
    "\<And>t. distinct (candidates_of d t) \<and> set (candidates_of d t) = held_in s t"
    and gone: "distinct (concat (map snd (filter (\<lambda>(t, ns). t \<notin> ?T) d)))"
      "set (concat (map snd (filter (\<lambda>(t, ns). t \<notin> ?T) d))) = {n \<in> active s. ticker_of n \<notin> ?T}" by blast
  have "prop_at (gn_props snapshot) ''run_id'' = Inr r" "prop_at (gn_props snapshot) ''created_at'' = Inr c"
    using assms(6, 7) by (simp_all add: prop_at_def)
  from adopt_all [OF assms(2, 1, 5) _ this, of d st] d(2) obtain s1 R where
    s1: "step_each (adopt_holding env st snapshot d) hs s = (s1, Inr ())" "positions_ok s1"
      "active s1 = (active s - (\<Union>h \<in> set hs. held_in s (shd_ticker h))) \<union> R" and R: "adopted s hs R" by blast
  have held: "n \<in> held_in s (ticker_of n)" if "n \<in> active s" for n
  proof -
    have "position_ok n" using active_key_eq [OF assms(2) that] positions_okD(2) [OF assms(2)] by blast
    then obtain x where "position_fields n = Some x" by (auto simp: position_ok_def)
    with that show ?thesis by (cases x) (simp add: held_in_def ticker_of_def)
  qed
  have "{n \<in> active s. ticker_of n \<notin> ?T} \<subseteq> active s1"
    using held_inD unfolding s1(3) by fastforce
  from marking_absent [OF s1(2) gone(1) _ assms(1)] this obtain s2 where
    s2: "step_each (mark_absent env snapshot) (concat (map snd (filter (\<lambda>(t, ns). t \<notin> ?T) d))) s1 = (s2, Inr ())"
      "positions_ok s2" "active s2 = active s1 - {n \<in> active s. ticker_of n \<notin> ?T}"
    unfolding gone(2) by blast
  have "ticker_of n \<in> ?T" if "n \<in> R" for n
    using adopted_tickers [OF R that] by (auto simp: ticker_of_def holding_fields_def)
  then have "active s2 = R" using held unfolding s2(3) s1(3) by fastforce
  moreover have "reconcile_from_snapshot env st snapshot s = (s2, Inr ())"
    using s1(1) s2(1) by (simp add: reconcile_from_snapshot_def assms(1, 3, 4) d(1) step_bind_def step_res_def)
  ultimately show ?thesis using s2(2) R by (auto simp: adopted_def)
qed

section \<open>A sample book\<close>

definition sample_holding :: "string \<Rightarrow> int \<Rightarrow> int \<Rightarrow> snapshot_holding" where
  "sample_holding t q p = \<lparr>shd_ticker = t, shd_quantity = q, shd_avg_entry_cents = p, shd_market_value_cents = q * p\<rparr>"

definition sample_position :: "string \<Rightarrow> string \<Rightarrow> int \<Rightarrow> int \<Rightarrow> props \<Rightarrow> gnode" where
  "sample_position key t q p extra = \<lparr>gn_label = ''Position'', gn_key = key,
     gn_props = [(''ticker'', PStr t), (''quantity'', PInt q), (''opened_price_cents'', PInt p),
                 (''status'', PStr ''open'')] @ extra, gn_version = 1\<rparr>"

text \<open>An open position, and one adopted from the broker that was absent later.\<close>

definition sample_open :: gnode where
  "sample_open = sample_position ''r1:AAPL'' ''AAPL'' 4 15000 []"

definition sample_ended :: gnode where
  "sample_ended = sample_position ''broker:MSFT:5:30000'' ''MSFT'' 5 30000
     [(''broker_absent'', PBool True), (''broker_absent_snapshot'', PStr ''s1'')]"

definition sample_positions :: store where
  "sample_positions = empty_store\<lparr>st_nodes := [((''Position'', ''r1:AAPL''), sample_open),
     ((''Position'', ''broker:MSFT:5:30000''), sample_ended)]\<rparr>"

definition sample_row :: "string \<Rightarrow> int \<Rightarrow> int \<Rightarrow> pyval" where
  "sample_row t q p = PProxy [(''ticker'', PStr t), (''quantity'', PInt q), (''avg_entry_cents'', PInt p),
     (''market_value_cents'', PInt (q * p))]"

definition sample_snapshot :: gnode where
  "sample_snapshot = \<lparr>gn_label = ''BrokerPositionSnapshot'', gn_key = ''s2'',
     gn_props = [(''run_id'', PStr ''r2''), (''created_at'', PStr ''2026-01-02''), (''status'', PStr ''fresh''),
       (''holdings'', PTuple [sample_row ''AAPL'' 10 15500, sample_row ''MSFT'' 5 30000])], gn_version = 1\<rparr>"

definition sample_graph_env :: "store graph_env" where
  "sample_graph_env = \<lparr>ge_port = mem_port, ge_wall = \<lambda>s. sample_time, ge_float_text = \<lambda>q. [], ge_parse_float = \<lambda>s. None\<rparr>"

definition sample_monitor_settings :: monitor_settings where
  "sample_monitor_settings = \<lparr>mos_default_horizon_days = 14, mos_price_lookback_days = 2,
     mos_default_stop_pct = 1 / 20, mos_default_target_pct = 1 / 10\<rparr>"

lemma sample_keys: "broker_position_key (sample_holding ''MSFT'' 5 30000) = ''broker:MSFT:5:30000''"
  "broker_position_key (sample_holding ''AAPL'' 10 15500) = ''broker:AAPL:10:15500''"
proof -
  have "str_int 5 = ''5''" "str_int 30000 = ''30000''" "str_int 10 = ''10''" "str_int 15500 = ''15500''"
    by (simp_all add: str_int_def nat_digits.simps char_of_def bit_0)
  then show "broker_position_key (sample_holding ''MSFT'' 5 30000) = ''broker:MSFT:5:30000''"
    "broker_position_key (sample_holding ''AAPL'' 10 15500) = ''broker:AAPL:10:15500''"
    by (simp_all add: broker_position_key_def sample_holding_def)
qed

lemma sample_fields: "position_fields sample_open = Some (''AAPL'', 4, 15000)"
  "position_fields sample_ended = Some (''MSFT'', 5, 30000)"
  by (simp_all add: position_fields_def sample_open_def sample_ended_def sample_position_def)

lemma sample_activity: "is_active_position_node sample_open" "\<not> is_active_position_node sample_ended"
  by (simp_all add: is_active_position_node_def sample_open_def sample_ended_def sample_position_def
      get_or_def data_get_def py_truth_def)

lemma sample_positions_list: "list_nodes sample_positions ''Position'' = [sample_open, sample_ended]"
  by (simp add: list_nodes_def sample_positions_def sample_open_def sample_ended_def sample_position_def)

lemma sample_positions_ok: "positions_ok sample_positions"
proof -
  have "store_wf sample_positions"
    by (simp add: sample_positions_def store_wf_def empty_store_def node_wf_def node_key_of_def dict_wf_def
        sample_open_def sample_ended_def sample_position_def props_frozen_def)
  moreover have "position_ok sample_open"
    using sample_fields(1) by (simp add: position_ok_def sample_open_def sample_position_def end_markers_def
        broker_position_key_def)
  moreover have "position_fields sample_ended = Some (holding_fields h)"
    if "''broker:MSFT:5:30000'' = broker_position_key h" for h
    using that sample_fields(2) broker_position_key_inj [of "sample_holding ''MSFT'' 5 30000" h]
    by (simp add: sample_keys) (simp add: sample_holding_def holding_fields_def)
  then have "position_ok sample_ended"
    using sample_fields(2) sample_activity(2) by (simp add: position_ok_def sample_ended_def sample_position_def)
  ultimately show ?thesis by (simp add: positions_ok_def sample_positions_list)
qed

lemma sample_holdings: "snapshot_holdings flt sample_snapshot
    = Inr [sample_holding ''AAPL'' 10 15500, sample_holding ''MSFT'' 5 30000]"
  by (simp add: snapshot_holdings_def sample_snapshot_def sample_row_def snapshot_row_def get_or_def
      List.map_filter_def sample_holding_def)

lemma adoption_refines_holdings_witness:
  "\<exists>s'. reconcile_from_snapshot sample_graph_env sample_monitor_settings sample_snapshot sample_positions = (s', Inr ())
    \<and> position_fields ` active s' = {Some (''AAPL'', 10, 15500)}"
proof -
  have "position_fields sample_open \<noteq> Some (holding_fields (sample_holding t q p))" if "p \<noteq> 15000" for t q p
    using that by (simp add: sample_fields sample_holding_def holding_fields_def)
  moreover have "active_position_nodes mem_port sample_positions = [sample_open]"
    by (simp add: active_position_nodes_def sample_positions_list sample_activity)
  moreover have "get_node sample_positions ''Position'' ''broker:MSFT:5:30000'' = Some sample_ended"
    "get_node sample_positions ''Position'' ''broker:AAPL:10:15500'' = None"
    by (simp_all add: get_node_def sample_positions_def)
  ultimately have "adoptable sample_positions (sample_holding ''AAPL'' 10 15500)"
    "\<not> adoptable sample_positions (sample_holding ''MSFT'' 5 30000)"
    by (simp_all add: adoptable_def sample_keys)
  then have only: "{h \<in> set [sample_holding ''AAPL'' 10 15500, sample_holding ''MSFT'' 5 30000]. adoptable sample_positions h}
      = {sample_holding ''AAPL'' 10 15500}" by auto
  have snap: "dict_get (gn_props sample_snapshot) ''run_id'' = Some (PStr ''r2'')"
    "dict_get (gn_props sample_snapshot) ''created_at'' = Some (PStr ''2026-01-02'')"
    "prop_is (gn_props sample_snapshot) ''status'' ''fresh''" "ge_port sample_graph_env = mem_port"
    by (simp_all add: sample_snapshot_def sample_graph_env_def prop_is_iff)
  have "distinct (map shd_ticker [sample_holding ''AAPL'' 10 15500, sample_holding ''MSFT'' 5 30000])"
    by (simp add: sample_holding_def)
  from adoption_refines_holdings [OF snap(4) sample_positions_ok snap(3) sample_holdings this snap(1, 2),
      of sample_monitor_settings]
  show ?thesis unfolding only by (auto simp: sample_holding_def holding_fields_def)
qed

end
