(* ===== verification/MonitorWatch.thy ===== *)
theory MonitorWatch
  imports MonitorRun BookAdoption
begin

text \<open>
  What one observation of the book leaves behind, on the in-memory graph: every priced position has its
  check, every breached check and every missing price its fault, and the run's counters are those of the
  checks.  The sinks may write what they like but the nodes of the observation; the faults are read off
  any log a submission adds its fault to.
\<close>

definition logs_into :: "(store \<Rightarrow> agent_fault list) \<Rightarrow> (store \<Rightarrow> agent_fault \<Rightarrow> store) \<Rightarrow> bool" where
  "logs_into log submit \<longleftrightarrow> (\<forall>s f. log (submit s f) = log s @ [f]
     \<and> (store_wf s \<longrightarrow> store_wf (submit s f))
     \<and> (\<forall>label k. label \<in> {''PositionCheck'', ''MonitorRun''} \<longrightarrow> get_node (submit s f) label k = get_node s label k))"

definition logging :: "(store \<Rightarrow> agent_fault list) \<Rightarrow> store monitor_env \<Rightarrow> bool" where
  "logging log env \<longleftrightarrow> ge_port env = mem_port
     \<and> logs_into log (mo_submit env) \<and> logs_into log (mo_graph_submit env)
     \<and> (\<forall>now s label k p s' n. label \<in> {''PositionCheck'', ''MonitorRun''} \<longrightarrow>
          merge_node now s label k p 1 = (s', Inr n) \<longrightarrow> log s' = log s)
     \<and> (\<forall>now s a b t s'. add_edge now s a b t None = (s', Inr ()) \<longrightarrow> log s' = log s)"

definition ticker_text :: "'w monitor_env \<Rightarrow> gnode \<Rightarrow> string" where
  "ticker_text env n = (case read_str (ge_float_text env) n ''ticker'' of Inl e \<Rightarrow> [] | Inr t \<Rightarrow> t)"

definition price_of :: "'w monitor_env \<Rightarrow> (string, int) dict \<Rightarrow> gnode \<Rightarrow> int option" where
  "price_of env prices n =
     (case read_str (ge_float_text env) n ''ticker'' of Inl e \<Rightarrow> None | Inr t \<Rightarrow> dict_get prices t)"

text \<open>The check of a position against a price, at the width the position recorded unless it was adopted.\<close>

definition watched :: "store monitor_env \<Rightarrow> store \<Rightarrow> string \<Rightarrow> gnode \<Rightarrow> int \<Rightarrow> bool" where
  "watched env s run_id n price \<longleftrightarrow>
     (\<exists>m opened width. get_node s ''PositionCheck'' (check_key run_id n) = Some m
        \<and> read_int n ''opened_price_cents'' = Inr opened
        \<and> (prop_is (gn_props n) ''provenance'' ''reconciled-from-broker''
           \<or> recorded_stop_pct (ge_parse_float env) n = Inr (Some width))
        \<and> dict_get (gn_props m) ''stop_breached'' = Some (PBool (check_stop price opened width))
        \<and> dict_get (gn_props m) ''current_price_cents'' = Some (PInt price))"

text \<open>What the check of a position in the graph says of its stop.\<close>

definition breach_noted :: "store \<Rightarrow> string \<Rightarrow> gnode \<Rightarrow> bool" where
  "breach_noted s run_id n \<longleftrightarrow>
     (\<exists>m. get_node s ''PositionCheck'' (check_key run_id n) = Some m
        \<and> dict_get (gn_props m) ''stop_breached'' = Some (PBool True))"

text \<open>The kinds and the messages of the faults one position leads to.\<close>

definition fault_tag :: "agent_fault \<Rightarrow> string \<times> string" where
  "fault_tag f = (flt_error_type f, flt_message f)"

definition faults_due ::
  "store monitor_env \<Rightarrow> (string, int) dict \<Rightarrow> store \<Rightarrow> string \<Rightarrow> gnode \<Rightarrow> (string \<times> string) list" where
  "faults_due env prices s run_id n =
     (case price_of env prices n of
        None \<Rightarrow> [(''RuntimeError'', ''provider returned no current price for '' @ ticker_text env n)]
      | Some p \<Rightarrow>
          if breach_noted s run_id n
          then [(''StopBreached'', ''stop breached on '' @ ticker_text env n @ '', still held'')] else [])"

lemma logging_port [simp]: "logging log env \<Longrightarrow> ge_port env = mem_port"
  by (simp add: logging_def)

lemma logging_submit:
  assumes "logging log env" "submit = mo_submit env \<or> submit = mo_graph_submit env"
  shows "log (submit s f) = log s @ [f]" "store_wf s \<Longrightarrow> store_wf (submit s f)"
    "label \<in> {''PositionCheck'', ''MonitorRun''} \<Longrightarrow> get_node (submit s f) label k = get_node s label k"
proof -
  have a: "logs_into log (mo_submit env)" using assms(1) unfolding logging_def by (elim conjE)
  have b: "logs_into log (mo_graph_submit env)" using assms(1) unfolding logging_def by (elim conjE)
  have "logs_into log submit" using assms(2) a b by (elim disjE) simp_all
  then have at: "log (submit s f) = log s @ [f] \<and> (store_wf s \<longrightarrow> store_wf (submit s f))
     \<and> (\<forall>label k. label \<in> {''PositionCheck'', ''MonitorRun''} \<longrightarrow> get_node (submit s f) label k = get_node s label k)"
    unfolding logs_into_def by (elim allE)
  show "log (submit s f) = log s @ [f]" using at by (rule conjunct1)
  show "store_wf s \<Longrightarrow> store_wf (submit s f)" using at by (rule conjunct2 [THEN conjunct1, THEN mp])
  show "label \<in> {''PositionCheck'', ''MonitorRun''} \<Longrightarrow> get_node (submit s f) label k = get_node s label k"
    using conjunct2 [OF conjunct2 [OF at]] by (rule allE) (erule allE, erule mp)
qed

lemma logging_merge:
  assumes "logging log env" "label \<in> {''PositionCheck'', ''MonitorRun''}" "merge_node now s label k p 1 = (s', Inr n)"
  shows "log s' = log s"
proof -
  have "\<forall>now s label k p s' n. label \<in> {''PositionCheck'', ''MonitorRun''} \<longrightarrow>
      merge_node now s label k p 1 = (s', Inr n) \<longrightarrow> log s' = log s"
    using assms(1) unfolding logging_def by (elim conjE)
  from this [rule_format, OF assms(2,3)] show ?thesis .
qed

lemma logging_edge:
  assumes "logging log env" "add_edge now s a b t None = (s', Inr ())"
  shows "log s' = log s"
proof -
  have "\<forall>now s a b t s'. add_edge now s a b t None = (s', Inr ()) \<longrightarrow> log s' = log s"
    using assms(1) unfolding logging_def by (elim conjE)
  from this [rule_format, OF assms(2)] show ?thesis .
qed

lemma breach_submit_is: "breach_submit env = mo_submit env \<or> breach_submit env = mo_graph_submit env"
  by (simp add: breach_submit_def)

lemma record_degraded_logs:
  "\<exists>f. fault_tag f = (''RuntimeError'', message) \<and> record_degraded env message s = mo_submit env s f"
  unfolding record_degraded_def fault_boundary.simps Let_def fst_conv
  by (intro exI conjI) (simp_all add: fault_tag_def fault_from_exception_def)

lemma mem_walk_Inr: "ge_port env = mem_port \<Longrightarrow> descend env n t s = (s', Inr ns) \<Longrightarrow> s' = s"
  by (auto simp: descend_def descendants_def Let_def)

lemma decided_stop_mem:
  assumes "ge_port env = mem_port" "decided_stop_pct env None n held s = (s', Inr (d, held'))"
  shows "s' = s \<and> (prop_is (gn_props n) ''provenance'' ''reconciled-from-broker''
     \<or> recorded_stop_pct (ge_parse_float env) n = Inr (Some (dst_pct d)))"
proof -
  have order: "order_stop_pct env m s = (s1, Inr q) \<Longrightarrow> s1 = s" for m s1 q
    using mem_walk_Inr [OF assms(1)] by (auto simp: order_stop_pct_def step_bind_Inr step_return_Inr)
  have lineage: "lineage_stop_pct env fs n s = (s1, Inr q) \<Longrightarrow> s1 = s" for fs s1 q
    using order by (auto simp: lineage_stop_pct_def step_return_Inr split: list.splits)
  show ?thesis
    using assms(2)
    by (auto simp: decided_stop_pct_def step_bind_Inr step_res_Inr step_return_Inr Let_def or_fallback_def
        split: if_splits option.splits dest!: lineage)
qed

text \<open>One position.\<close>

lemma evaluate_one_mem:
  assumes env: "logging log env" and wf: "store_wf s"
    and run: "evaluate_one env run_id n price held s = (s', Inr (breached, held'))"
  shows "store_wf s' \<and> watched env s' run_id n price \<and> breach_noted s' run_id n = breached
    \<and> (\<forall>k. k \<noteq> check_key run_id n \<longrightarrow> get_node s' ''PositionCheck'' k = get_node s ''PositionCheck'' k)
    \<and> (\<exists>fs. log s' = log s @ fs \<and> map fault_tag fs =
         (if breached then [(''StopBreached'', ''stop breached on '' @ ticker_text env n @ '', still held'')] else []))"
proof -
  from run obtain ticker xp s1 where t: "read_str (ge_float_text env) n ''ticker'' = Inr ticker"
    and x: "exit_position_of env n held s = (s1, Inr (xp, held'))"
    and w: "step_bind (write_check env run_id n (evaluate_position xp price) price) (\<lambda>_ w.
          ((if evaluate_position xp price = StopBreached then breach_submit env w (breach_fault (ge_wall env w) ticker) else w),
           Inr (evaluate_position xp price = StopBreached, held'))) s1 = (s', Inr (breached, held'))"
    by (auto simp: evaluate_one_def step_bind_Inr step_res_Inr Let_def)
  let ?obs = "evaluate_position xp price"
  from x obtain d where xp: "read_int n ''opened_price_cents'' = Inr (xp_opened_price_cents xp)"
      "xp_stop_pct xp = dst_pct d" and dec: "decided_stop_pct env None n held s = (s1, Inr (d, held'))"
    by (auto simp: exit_position_of_def step_bind_Inr step_res_Inr step_return_Inr)
  note dec = decided_stop_mem [OF logging_port [OF env] dec]
  obtain tv p m s2 s3 where p: "p = check_props run_id tv (isoformat (ge_wall env s)) ?obs price"
      and m: "merge_node (ge_wall env s) s ''PositionCheck'' (check_key run_id n) p 1 = (s2, Inr m)"
      and e: "add_edge (ge_wall env s2) s2 m n ''CHECKS'' None = (s3, Inr ())"
      and s': "s' = (if ?obs = StopBreached then breach_submit env s3 (breach_fault (ge_wall env s3) ticker) else s3)"
      and br: "breached = (?obs = StopBreached)"
    using w dec env by (auto simp: write_check_def step_bind_Inr step_res_Inr step_return_Inr mo_merge_def mo_edge_def split: if_splits)
  note submit = logging_submit [OF env breach_submit_is]
  have "dict_wf p" by (simp add: p check_props_def dict_wf_def)
  note written = merge_node_written [OF wf this m]
  have wf2: "store_wf s2" using merge_node_wf [OF wf \<open>dict_wf p\<close>] m by (metis fst_conv)
  then have wf3: "store_wf s3" using add_edge_wf e by (metis fst_conv)
  have logs: "log s3 = log s"
    using logging_merge [OF env _ m] logging_edge [OF env e] by simp
  have get: "get_node s' ''PositionCheck'' k = get_node s2 ''PositionCheck'' k" for k
    using add_edge_get [of "ge_wall env s2" s2 m n "''CHECKS''" None] e submit(3) [of "''PositionCheck''"] by (simp add: s')
  have flag: "dict_get (gn_props m) ''stop_breached'' = Some (PBool (?obs = StopBreached))"
    and price: "dict_get (gn_props m) ''current_price_cents'' = Some (PInt price)"
    using written unfolding holds_props_def p by (simp_all add: check_props_def)
  have "?obs = StopBreached \<longleftrightarrow> check_stop price (xp_opened_price_cents xp) (dst_pct d)"
    by (simp add: evaluate_position_def xp(2))
  with flag price have "watched env s' run_id n price"
    unfolding watched_def get using written xp(1) dec by auto
  moreover have "breach_noted s' run_id n = breached"
    unfolding breach_noted_def get using written flag br by auto
  moreover have "get_node s' ''PositionCheck'' k = get_node s ''PositionCheck'' k" if "k \<noteq> check_key run_id n" for k
    using merge_node_other [of "''PositionCheck''" k "''PositionCheck''" "check_key run_id n" "ge_wall env s" s p 1] that m
    by (simp add: get)
  moreover have "store_wf s'" using wf3 submit(2) by (simp add: s')
  moreover have "fault_tag (breach_fault now ticker) = (''StopBreached'', ''stop breached on '' @ ticker_text env n @ '', still held'')" for now
    by (simp add: fault_tag_def breach_fault_def ticker_text_def t)
  ultimately show ?thesis using logs submit(1) by (auto simp: s' br)
qed

lemma check_key_inj: "check_key run_id a = check_key run_id b \<longleftrightarrow> gn_key a = gn_key b"
  by (simp add: check_key_def)

text \<open>A check that is not written again stays as it is.\<close>

lemma watched_mono:
  assumes "get_node s' ''PositionCheck'' (check_key run_id n) = get_node s ''PositionCheck'' (check_key run_id n)"
  shows "watched env s' run_id n price = watched env s run_id n price"
    "breach_noted s' run_id n = breach_noted s run_id n"
    "faults_due env prices s' run_id n = faults_due env prices s run_id n"
proof -
  show b: "breach_noted s' run_id n = breach_noted s run_id n"
    using assms by (simp add: breach_noted_def)
  show "watched env s' run_id n price = watched env s run_id n price"
    using assms by (simp add: watched_def)
  show "faults_due env prices s' run_id n = faults_due env prices s run_id n"
    by (simp add: faults_due_def b cong: option.case_cong)
qed

text \<open>The whole book.\<close>

lemma evaluate_positions_mem:
  assumes "logging log env" "store_wf s" "distinct (map gn_key ns)"
    "evaluate_positions env run_id ns prices held s = (s', Inr (checked, breaches))"
  shows "store_wf s' \<and> checked = length (filter (\<lambda>n. price_of env prices n \<noteq> None) ns)
    \<and> (\<forall>n \<in> set ns. case price_of env prices n of None \<Rightarrow> True | Some p \<Rightarrow> watched env s' run_id n p)
    \<and> (\<forall>k. k \<notin> check_key run_id ` set ns \<longrightarrow> get_node s' ''PositionCheck'' k = get_node s ''PositionCheck'' k)
    \<and> breaches = length (filter (\<lambda>n. price_of env prices n \<noteq> None \<and> breach_noted s' run_id n) ns)
    \<and> (\<exists>fs. log s' = log s @ fs \<and> map fault_tag fs = concat (map (faults_due env prices s' run_id) ns))"
  using assms(2-4)
proof (induction ns arbitrary: s held checked breaches)
  case Nil
  then show ?case by (simp add: step_return_def)
next
  case (Cons n ns)
  from Cons.prems(3) obtain t where t: "read_str (ge_float_text env) n ''ticker'' = Inr t"
    by (auto simp: step_bind_Inr step_res_Inr)
  have named: "ticker_text env n = t" by (simp add: ticker_text_def t)
  have keys: "check_key run_id n \<notin> check_key run_id ` set ns" "distinct (map gn_key ns)"
    using Cons.prems(2) by (auto simp: check_key_inj)
  show ?case
  proof (cases "dict_get prices t")
    case None
    then have price: "price_of env prices n = None" using t by (simp add: price_of_def)
    obtain f where f: "fault_tag f = (''RuntimeError'', ''provider returned no current price for '' @ t)"
      "record_degraded env (''provider returned no current price for '' @ t) s = mo_submit env s f"
      using record_degraded_logs [of "''provider returned no current price for '' @ t" env s] by (elim exE conjE)
    note submit = logging_submit [OF assms(1), of "mo_submit env", simplified]
    have rest: "evaluate_positions env run_id ns prices held (mo_submit env s f) = (s', Inr (checked, breaches))"
      using Cons.prems(3) t None f(2) by (simp add: step_bind_def step_res_def)
    from Cons.IH [OF submit(2) [OF Cons.prems(1)] keys(2) rest]
    obtain fs where ih: "store_wf s'" "checked = length (filter (\<lambda>n. price_of env prices n \<noteq> None) ns)"
      "\<forall>n \<in> set ns. case price_of env prices n of None \<Rightarrow> True | Some p \<Rightarrow> watched env s' run_id n p"
      "\<forall>k. k \<notin> check_key run_id ` set ns \<longrightarrow>
         get_node s' ''PositionCheck'' k = get_node (mo_submit env s f) ''PositionCheck'' k"
      "breaches = length (filter (\<lambda>n. price_of env prices n \<noteq> None \<and> breach_noted s' run_id n) ns)"
      "log s' = log (mo_submit env s f) @ fs" "map fault_tag fs = concat (map (faults_due env prices s' run_id) ns)"
      by blast
    have "get_node (mo_submit env s f) ''PositionCheck'' k = get_node s ''PositionCheck'' k" for k
      by (rule submit(3)) simp
    moreover have "log s' = log s @ f # fs" using ih(6) submit(1) by simp
    moreover have "faults_due env prices s' run_id n = [fault_tag f]" by (simp add: faults_due_def price f named)
    ultimately show ?thesis using ih price by (auto intro!: exI [of _ "f # fs"])
  next
    case (Some p)
    then have price: "price_of env prices n = Some p" using t by (simp add: price_of_def)
    from Cons.prems(3) t Some obtain s1 br held' c b where
      one: "evaluate_one env run_id n p held s = (s1, Inr (br, held'))"
      and rest: "evaluate_positions env run_id ns prices held' s1 = (s', Inr (c, b))"
      and count: "checked = Suc c" "breaches = (if br then Suc b else b)"
      by (auto simp: step_bind_Inr step_res_Inr step_return_Inr)
    from evaluate_one_mem [OF assms(1) Cons.prems(1) one] obtain f1 where
      s1: "store_wf s1" "watched env s1 run_id n p" "breach_noted s1 run_id n = br"
      "\<forall>k. k \<noteq> check_key run_id n \<longrightarrow> get_node s1 ''PositionCheck'' k = get_node s ''PositionCheck'' k"
      "log s1 = log s @ f1" "map fault_tag f1 = (if br
         then [(''StopBreached'', ''stop breached on '' @ ticker_text env n @ '', still held'')] else [])"
      by blast
    from Cons.IH [OF s1(1) keys(2) rest] obtain f2 where s2: "store_wf s'"
      "c = length (filter (\<lambda>n. price_of env prices n \<noteq> None) ns)"
      "\<forall>n \<in> set ns. case price_of env prices n of None \<Rightarrow> True | Some p \<Rightarrow> watched env s' run_id n p"
      "\<forall>k. k \<notin> check_key run_id ` set ns \<longrightarrow> get_node s' ''PositionCheck'' k = get_node s1 ''PositionCheck'' k"
      "b = length (filter (\<lambda>n. price_of env prices n \<noteq> None \<and> breach_noted s' run_id n) ns)"
      "log s' = log s1 @ f2" "map fault_tag f2 = concat (map (faults_due env prices s' run_id) ns)"
      by blast
    have "get_node s' ''PositionCheck'' (check_key run_id n) = get_node s1 ''PositionCheck'' (check_key run_id n)"
      using s2(4) keys(1) by blast
    note kept = watched_mono [OF this]
    have noted: "breach_noted s' run_id n = br" by (simp add: kept s1(3))
    then have "faults_due env prices s' run_id n = map fault_tag f1"
      by (simp add: faults_due_def price s1(6))
    moreover have "log s' = log s @ f1 @ f2" by (simp add: s2(6) s1(5))
    moreover have "watched env s' run_id n p" by (simp add: kept s1(2))
    moreover have "\<forall>k. k \<notin> check_key run_id ` set (n # ns) \<longrightarrow>
        get_node s' ''PositionCheck'' k = get_node s ''PositionCheck'' k" using s1(4) s2(4) by simp
    ultimately show ?thesis
      using s2(1-3,5,7) price count noted by (intro conjI) (auto intro!: exI [of _ "f1 @ f2"])
  qed
qed


section \<open>A sample observation\<close>

definition sample_monitor_env :: "store monitor_env" where
  "sample_monitor_env = \<lparr>ge_port = mem_port, ge_wall = \<lambda>s. sample_time, ge_float_text = \<lambda>q. [],
     ge_parse_float = \<lambda>s. None, mo_settings = sample_monitor_settings,
     mo_submit = \<lambda>s f. s\<lparr>st_faults := st_faults s @ [f]\<rparr>,
     mo_graph_submit = \<lambda>s f. s\<lparr>st_faults := st_faults s @ [f]\<rparr>, mo_sink_is_graph = True,
     mo_hex = \<lambda>s. ''00'', mo_market = \<lambda>v. Inl (ValueError [])\<rparr>"

definition watched_position :: gnode where
  "watched_position = sample_position ''p'' ''AAPL'' 4 15000 [(''stop_pct'', PFloat (1 / 20))]"

definition watched_store :: store where
  "watched_store = empty_store\<lparr>st_nodes := [((''Position'', ''p''), watched_position)]\<rparr>"

lemma sample_logging: "logging st_faults sample_monitor_env"
  by (auto simp: logging_def logs_into_def sample_monitor_env_def get_node_def merge_node_def add_edge_def
      split: sum.splits)

lemma sample_submit: "breach_submit sample_monitor_env s f = s\<lparr>st_faults := st_faults s @ [f]\<rparr>"
  by (simp add: breach_submit_def sample_monitor_env_def)

lemma watched_store_wf: "store_wf watched_store"
  by (simp add: watched_store_def store_wf_def empty_store_def node_wf_def node_key_of_def dict_wf_def
      watched_position_def sample_position_def props_frozen_def)

lemma watched_reads:
  "read_str flt watched_position ''ticker'' = Inr ''AAPL''"
  "exit_position_of env watched_position None s = (s, Inr (\<lparr>xp_opened_price_cents = 15000, xp_stop_pct = 1 / 20\<rparr>, None))"
  "prop_at (gn_props watched_position) ''ticker'' = Inr (PStr ''AAPL'')"
  by (simp_all add: read_str_def read_int_def prop_at_def watched_position_def sample_position_def exit_position_of_def
      decided_stop_pct_def step_bind_def step_res_def step_return_def recorded_stop_pct_def data_get_def
      py_float_def prop_is_def)

lemma watched_breach: "evaluate_position \<lparr>xp_opened_price_cents = 15000, xp_stop_pct = 1 / 20\<rparr> 14000 = StopBreached"
  by (simp add: evaluate_position_def check_stop_def stop_price_cents_def pct_scale_def round_half_even_def)

lemma watched_run:
  "\<exists>s' cds. evaluate_and_write sample_monitor_env ''r'' [watched_position] (Some [(''AAPL'', 14000)]) watched_store
     = (s', Inr cds)"
proof -
  let ?p = "check_props (monitor_run_id sample_monitor_env watched_store) (PStr ''AAPL'') (isoformat sample_time) StopBreached 14000"
  let ?k = "check_key (monitor_run_id sample_monitor_env watched_store) watched_position"
  define m where "m = make_node ''PositionCheck'' ?k ?p 1"
  define s2 where "s2 = watched_store\<lparr>st_nodes := st_nodes watched_store @ [((''PositionCheck'', ?k), m)]\<rparr>"
  have "get_node watched_store ''PositionCheck'' ?k = None" by (simp add: get_node_def watched_store_def)
  note merged = mem_merge_new [OF this, of sample_time ?p, folded m_def, folded s2_def]
  have "get_node s2 (gn_label m) (gn_key m) \<noteq> None"
    "get_node s2 (gn_label watched_position) (gn_key watched_position) \<noteq> None"
    by (simp_all add: s2_def m_def get_node_def watched_store_def watched_position_def sample_position_def map_add_def)
  from mem_add_edge_ok [OF this, of sample_time "''CHECKS''" None] obtain es where
    edge: "add_edge sample_time s2 m watched_position ''CHECKS'' None = (s2\<lparr>st_edges := es\<rparr>, Inr ())" by blast
  define s3 where "s3 = breach_submit sample_monitor_env (s2\<lparr>st_edges := es\<rparr>) (breach_fault sample_time ''AAPL'')"
  have one: "evaluate_one sample_monitor_env (monitor_run_id sample_monitor_env watched_store) watched_position 14000 None
      watched_store = (s3, Inr (True, None))"
    using merged edge
    by (simp add: evaluate_one_def write_check_def mo_merge_def mo_edge_def watched_reads watched_breach s3_def
        step_bind_def step_res_def step_return_def sample_monitor_env_def)
  have "get_node s3 ''MonitorRun'' k = None" for k
    by (simp add: s3_def sample_submit s2_def get_node_def watched_store_def map_add_def)
  note new = mem_merge_new [OF this]
  show ?thesis
    by (simp add: evaluate_and_write_def watched_reads one write_monitor_run_def mo_merge_def new
        logging_port [OF sample_logging] step_bind_def step_res_def step_return_def Let_def)
qed


end
