(* ===== verification/ExecWorld.thy ===== *)
theory ExecWorld
  imports ExecutionRun PositionBook
begin

text \<open>
  The world a graph-pulled execution run acts on: the graph, the broker behind its whole port
  (\<open>agents/execution/broker.py\<close>), and the faults its collecting sink holds; and the order reads of a
  run start (\<open>run_start_orders.py\<close>).

  A broker call changes the broker's state and answers or raises.  \<open>px_current_orders\<close> is the narrow
  read, for a broker that offers one.  The validation of an order set, the reading of an ISO
  timestamp, the reading of a float, SHA-256 and the text of a refused amount are parameters.
\<close>

datatype deliberation_posture = Advisory | Binding

fun posture_text :: "deliberation_posture \<Rightarrow> string" where
  "posture_text Advisory = ''advisory''"
| "posture_text Binding = ''binding''"

record order_ref =
  orf_order_id :: string
  orf_key :: string

record ('g, 'b) pull_env = "('g, 'b) exec_env" +
  px_parse_float :: "string \<Rightarrow> rat option"
  px_parse_time :: "string \<Rightarrow> timestamp option"
  px_order_set :: "pyval \<Rightarrow> order_intent_set res"
  px_digest :: "string \<Rightarrow> string"
  px_money_error :: "rat \<Rightarrow> string"
  px_submit_stop :: "'b \<Rightarrow> string \<Rightarrow> string \<Rightarrow> order_side \<Rightarrow> int \<Rightarrow> money \<Rightarrow> string
     \<Rightarrow> 'b \<times> (broker_exn + broker_fill)"
  px_replace_stop :: "'b \<Rightarrow> string \<Rightarrow> int \<Rightarrow> string \<Rightarrow> 'b \<times> (broker_exn + broker_fill)"
  px_cancel :: "'b \<Rightarrow> string \<Rightarrow> 'b \<times> unit res"
  px_current_orders :: "('b \<Rightarrow> order_ref list \<Rightarrow> 'b \<times> (broker_fill list) res) option"
  px_fills :: "'b \<Rightarrow> 'b \<times> (broker_fill list) res"
  px_positions :: "'b \<Rightarrow> 'b \<times> (broker_position list) res"
  px_account :: "'b \<Rightarrow> 'b \<times> broker_account res"
  px_grace_seconds :: int
  px_posture :: deliberation_posture
  px_fallback_stop_pct :: rat

text \<open>What the readers of the graph need of it.\<close>

definition genv :: "('g, 'b, 'x) pull_env_scheme \<Rightarrow> 'g graph_env" where
  "genv env = \<lparr>ge_port = xe_port env, ge_wall = xe_wall env, ge_float_text = xe_float_text env,
     ge_parse_float = px_parse_float env\<rparr>"

lemma genv_simps [simp]:
  "ge_port (genv env) = xe_port env" "ge_wall (genv env) = xe_wall env"
  "ge_float_text (genv env) = xe_float_text env" "ge_parse_float (genv env) = px_parse_float env"
  by (simp_all add: genv_def)

section \<open>Steps of the world\<close>

definition on_graph :: "('g, 'a) step \<Rightarrow> (('g, 'b) exec_state, 'a) step" where
  "on_graph m st = (case m (xs_graph st) of (g, r) \<Rightarrow> (st\<lparr>xs_graph := g\<rparr>, r))"

definition on_broker :: "('b \<Rightarrow> 'b \<times> 'a res) \<Rightarrow> (('g, 'b) exec_state, 'a) step" where
  "on_broker m st = (case m (xs_broker st) of (b, r) \<Rightarrow> (st\<lparr>xs_broker := b\<rparr>, r))"

definition read_graph :: "('g \<Rightarrow> 'a) \<Rightarrow> (('g, 'b) exec_state, 'a) step" where
  "read_graph f st = (st, Inr (f (xs_graph st)))"

definition world_now :: "('g, 'b, 'x) pull_env_scheme \<Rightarrow> (('g, 'b) exec_state, timestamp) step" where
  "world_now env = read_graph (xe_wall env)"

definition submit_fault :: "agent_fault \<Rightarrow> (('g, 'b) exec_state, unit) step" where
  "submit_fault f st = (st\<lparr>xs_faults := collect_fault (xs_faults st) f\<rparr>, Inr ())"

text \<open>
  A fault of the agent, stamped when it is made; \<open>fault_boundary\<close> around a block, which answers
  \<open>None\<close> when the block raised and the boundary swallowed it.
\<close>

definition execution_fault ::
  "timestamp \<Rightarrow> string \<Rightarrow> string \<Rightarrow> severity \<Rightarrow> string \<Rightarrow> string \<Rightarrow> props \<Rightarrow> agent_fault" where
  "execution_fault now modul capability sev error_type message context =
     \<lparr>flt_occurred_at = now, flt_agent = ''execution'', flt_module = modul,
      flt_capability = Some capability, flt_severity = sev, flt_error_type = error_type,
      flt_message = message, flt_correlation_id = None, flt_context = context\<rparr>"

definition raise_fault ::
  "('g, 'b, 'x) pull_env_scheme \<Rightarrow> string \<Rightarrow> string \<Rightarrow> severity \<Rightarrow> string \<Rightarrow> string \<Rightarrow> props
   \<Rightarrow> (('g, 'b) exec_state, unit) step" where
  "raise_fault env modul capability sev error_type message context =
     step_bind (world_now env) (\<lambda>now.
       submit_fault (execution_fault now modul capability sev error_type message context))"

definition bounded ::
  "('g, 'b, 'x) pull_env_scheme \<Rightarrow> string \<Rightarrow> string \<Rightarrow> (('g, 'b) exec_state, 'a) step
   \<Rightarrow> (('g, 'b) exec_state, 'a option) step" where
  "bounded env modul capability m st =
     (case m st of (st', r) \<Rightarrow>
        (st'\<lparr>xs_faults := fst (fault_boundary collect_fault (xe_wall env (xs_graph st')) ''execution''
               modul (Some capability) (xs_faults st') r)\<rparr>,
         Inr (case r of Inl e \<Rightarrow> None | Inr x \<Rightarrow> Some x)))"

text \<open>\<open>try: ... except Exception as exc: handler\<close>.\<close>

definition attempting ::
  "('w, 'a) step \<Rightarrow> (py_exn \<Rightarrow> ('w, 'a) step) \<Rightarrow> ('w, 'a) step" where
  "attempting m handler w = (case m w of (w', Inl e) \<Rightarrow> handler e w' | (w', Inr x) \<Rightarrow> (w', Inr x))"

definition px_merge ::
  "('g, 'b, 'x) pull_env_scheme \<Rightarrow> string \<Rightarrow> string \<Rightarrow> props \<Rightarrow> (('g, 'b) exec_state, gnode) step" where
  "px_merge env label key p = on_graph (\<lambda>g. gp_merge (xe_port env) (xe_wall env g) g label key p 1)"

definition px_edge ::
  "('g, 'b, 'x) pull_env_scheme \<Rightarrow> gnode \<Rightarrow> gnode \<Rightarrow> string \<Rightarrow> (('g, 'b) exec_state, unit) step" where
  "px_edge env a b t = on_graph (\<lambda>g. gp_edge (xe_port env) (xe_wall env g) g a b t None)"

section \<open>The orders a run start reads\<close>

definition run_start_orders ::
  "('g, 'b, 'x) pull_env_scheme \<Rightarrow> order_ref list \<Rightarrow> (('g, 'b) exec_state, broker_fill list) step" where
  "run_start_orders env waiting =
     (case px_current_orders env of
        Some current \<Rightarrow> on_broker (\<lambda>b. current b waiting)
      | None \<Rightarrow> on_broker (px_fills env))"

definition awaits_broker :: "(rat \<Rightarrow> string) \<Rightarrow> gnode \<Rightarrow> bool" where
  "awaits_broker flt n \<longleftrightarrow>
     prop_is (gn_props n) ''status'' ''pending''
     \<and> \<not> is_terminal_fill_status flt (data_get (gn_props n) ''broker_status'')"

definition waiting_order_refs :: "(rat \<Rightarrow> string) \<Rightarrow> gnode list \<Rightarrow> order_ref list" where
  "waiting_order_refs flt ns =
     map (\<lambda>n. \<lparr>orf_order_id = (let v = data_get (gn_props n) ''broker_order_id''
                               in if py_truth v then py_str flt v else []),
              orf_key = broker_idempotency_key n\<rparr>)
       (filter (awaits_broker flt) ns)"

section \<open>The paper broker behind the port\<close>

definition paper_backed :: "('g, paper_broker, 'x) pull_env_scheme \<Rightarrow> bool" where
  "paper_backed env \<longleftrightarrow>
     xe_broker env = paper_port \<and> px_submit_stop env = paper_submit_stop
     \<and> px_replace_stop env = paper_replace_stop
     \<and> px_cancel env = (\<lambda>b order_id. (paper_cancel b order_id, Inr ()))
     \<and> px_current_orders env = None \<and> px_fills env = (\<lambda>b. (b, Inr (paper_fills b)))
     \<and> px_positions env = (\<lambda>b. (b, Inr (paper_positions b)))
     \<and> px_account env = (\<lambda>b. (b, Inr (paper_account b)))"

definition sample_pull_env :: "(pyval \<Rightarrow> order_intent_set res) \<Rightarrow> (store, paper_broker) pull_env" where
  "sample_pull_env parse =
     \<lparr>xe_port = mem_port, xe_wall = \<lambda>s. sample_time, xe_broker = paper_port, xe_float_text = \<lambda>q. [],
      xe_stage = PaperStage, xe_tolerance = sample_tolerance, px_parse_float = \<lambda>s. None,
      px_parse_time = \<lambda>s. None, px_order_set = parse, px_digest = \<lambda>s. s, px_money_error = \<lambda>q. [],
      px_submit_stop = paper_submit_stop, px_replace_stop = paper_replace_stop,
      px_cancel = (\<lambda>b order_id. (paper_cancel b order_id, Inr ())), px_current_orders = None,
      px_fills = (\<lambda>b. (b, Inr (paper_fills b))), px_positions = (\<lambda>b. (b, Inr (paper_positions b))),
      px_account = (\<lambda>b. (b, Inr (paper_account b))), px_grace_seconds = 900, px_posture = Binding,
      px_fallback_stop_pct = 1 / 20\<rparr>"

lemma sample_pm_backed: "paper_backed (sample_pull_env parse)"
  by (simp add: paper_backed_def sample_pull_env_def)

section \<open>What a run keeps of the broker\<close>

lemma keeps_bind_value:
  assumes "step_keeps P m" "\<And>w w' x. m w = (w', Inr x) \<Longrightarrow> step_keeps P (f x)"
  shows "step_keeps P (step_bind m f)"
proof -
  have "P (fst (step_bind m f w))" if "P w" for w
  proof (cases "m w")
    case (Pair w1 r)
    from assms(1) that Pair have P1: "P w1" by (metis step_keeps_def fst_conv)
    show ?thesis
    proof (cases r)
      case (Inr x)
      from assms(2) Pair Inr P1 have "P (fst (f x w1))" by (auto simp: step_keeps_def)
      with Pair Inr show ?thesis by (simp add: step_bind_def)
    qed (simp add: step_bind_def Pair P1)
  qed
  then show ?thesis by (simp add: step_keeps_def)
qed

text \<open>Only a broker call changes the broker, so every other step keeps whatever is said of it.\<close>

named_theorems broker_keeps

abbreviation keeps_broker :: "('b \<Rightarrow> bool) \<Rightarrow> (('g, 'b) exec_state, 'a) step \<Rightarrow> bool" where
  "keeps_broker P m \<equiv> step_keeps (\<lambda>st. P (xs_broker st)) m"

lemma keeps_on_graph [broker_keeps]: "keeps_broker P (on_graph m)"
  by (simp add: step_keeps_def on_graph_def split: prod.split)

lemma keeps_read_graph [broker_keeps]: "keeps_broker P (read_graph f)"
  by (simp add: step_keeps_def read_graph_def)

lemma keeps_submit_fault [broker_keeps]: "keeps_broker P (submit_fault f)"
  by (simp add: step_keeps_def submit_fault_def)

lemma keeps_on_broker:
  "(\<And>b. P b \<Longrightarrow> P (fst (m b))) \<Longrightarrow> keeps_broker P (on_broker m)"
  by (auto simp: step_keeps_def on_broker_def split: prod.split dest: meta_spec) (metis fst_conv)

lemmas keeps_sequence [broker_keeps] =
  step_keeps_return step_keeps_res step_keeps_bind step_keeps_forget step_keeps_each

lemma keeps_cases [broker_keeps]:
  "keeps_broker P a \<Longrightarrow> (\<And>y. keeps_broker P (f y)) \<Longrightarrow> keeps_broker P (case v of None \<Rightarrow> a | Some y \<Rightarrow> f y)"
  "(\<And>x. keeps_broker P (h x)) \<Longrightarrow> (\<And>y. keeps_broker P (k y)) \<Longrightarrow>
     keeps_broker P (case s of Inl x \<Rightarrow> h x | Inr y \<Rightarrow> k y)"
  "(\<And>x y. keeps_broker P (g x y)) \<Longrightarrow> keeps_broker P (case p of (x, y) \<Rightarrow> g x y)"
  "keeps_broker P m1 \<Longrightarrow> keeps_broker P m2 \<Longrightarrow> keeps_broker P (if c then m1 else m2)"
  by (simp_all split: option.split sum.split prod.split)

lemma keeps_world_now [broker_keeps]: "keeps_broker P (world_now env)"
  by (simp add: world_now_def keeps_read_graph)

lemma keeps_raise_fault [broker_keeps]: "keeps_broker P (raise_fault env m c s e t x)"
  unfolding raise_fault_def by (intro broker_keeps)

lemma keeps_merge [broker_keeps]: "keeps_broker P (px_merge env l k p)"
  by (simp add: px_merge_def keeps_on_graph)

lemma keeps_edge [broker_keeps]: "keeps_broker P (px_edge env a b t)"
  by (simp add: px_edge_def keeps_on_graph)

lemma keeps_bounded [broker_keeps]: "keeps_broker P m \<Longrightarrow> keeps_broker P (bounded env mo c m)"
  by (simp add: step_keeps_def bounded_def split: prod.split) (metis fst_conv)

lemma keeps_attempting [broker_keeps]:
  "keeps_broker P m \<Longrightarrow> (\<And>e. keeps_broker P (h e)) \<Longrightarrow> keeps_broker P (attempting m h)"
  by (auto simp: step_keeps_def attempting_def split: prod.split sum.split)+

lemma keeps_run_start_orders [broker_keeps]:
  assumes "\<And>current b w. px_current_orders env = Some current \<Longrightarrow> P b \<Longrightarrow> P (fst (current b w))"
    "\<And>b. P b \<Longrightarrow> P (fst (px_fills env b))"
  shows "keeps_broker P (run_start_orders env waiting)"
  unfolding run_start_orders_def using assms by (auto intro!: keeps_on_broker split: option.split)

lemma bounded_Inr: "bounded env mo c m st = (st', r) \<Longrightarrow> \<exists>x. r = Inr x"
  by (auto simp: bounded_def split: prod.splits)

end
