(* ===== verification/StopActions.thy ===== *)
theory StopActions
  imports ExecWorld PositionBook
begin

text \<open>
  Placing and cancelling one stop at the broker, and the facts written of it
  (\<open>agents/execution/broker_stop_types.py\<close>, \<open>broker_stop_writes.py\<close>, \<open>broker_stop_actions.py\<close>).
\<close>

section \<open>Plans\<close>

datatype stop_derivation = ActivePosition | PendingFill

fun stop_source_text :: "stop_width_source \<Rightarrow> string" where
  "stop_source_text LineageWidth = ''lineage''"
| "stop_source_text PositionWidth = ''position''"
| "stop_source_text FallbackWidth = ''fallback''"

fun stop_derivation_text :: "stop_derivation \<Rightarrow> string" where
  "stop_derivation_text ActivePosition = ''active_position''"
| "stop_derivation_text PendingFill = ''pending_fill''"

record stop_provenance =
  spv_source :: stop_width_source
  spv_derived_from :: stop_derivation

record stop_plan =
  spl_threshold :: position_stop_threshold
  spl_source :: stop_width_source
  spl_derived_from :: stop_derivation

definition plan_provenance :: "stop_plan \<Rightarrow> stop_provenance" where
  "plan_provenance p = \<lparr>spv_source = spl_source p, spv_derived_from = spl_derived_from p\<rparr>"

record stop_plan_error =
  spe_ticker :: string
  spe_reason :: string

record stop_plans =
  sps_plans :: "stop_plan list"
  sps_errors :: "stop_plan_error list"

section \<open>Facts\<close>

definition stop_fill_props ::
  "position_stop_threshold \<Rightarrow> string \<Rightarrow> broker_fill \<Rightarrow> int \<Rightarrow> stop_provenance \<Rightarrow> props" where
  "stop_fill_props t key f cents pv =
     [(''ticker'', PStr (pst_ticker t)), (''side'', PStr ''sell''), (''quantity'', PInt (pst_quantity t)),
      (''price_cents'', PInt cents), (''price_currency'', PStr (mny_currency (bf_price f))),
      (''broker_order_id'', PStr (bf_order_id f)), (''status'', PStr (status_text (bf_status f))),
      (''reason'', none_or PStr (bf_reason f)), (''position_ref'', PStr (pst_position_ref t)),
      (''stop_order_key'', PStr key), (''stop_pct'', PFloat (pst_stop_pct t)),
      (''stop_pct_source'', PStr (stop_source_text (spv_source pv))),
      (''derived_from'', PStr (stop_derivation_text (spv_derived_from pv)))]"

definition write_stop_fill ::
  "('g, 'b, 'x) pull_env_scheme \<Rightarrow> position_stop_threshold \<Rightarrow> string \<Rightarrow> broker_fill \<Rightarrow> int
   \<Rightarrow> stop_provenance \<Rightarrow> (('g, 'b) exec_state, gnode) step" where
  "write_stop_fill env t key f cents pv =
     step_bind (read_graph (\<lambda>g. select_fill_attempt (xe_port env) g key (stop_fill_props t key f cents pv)
         (bf_status f = Rejected
          \<and> fill_attempt_chain_in (gp_list (xe_port env) g ''Fill'') key \<noteq> []))) (\<lambda>attempt.
       case attempt of
         None \<Rightarrow> step_res (Inl (RuntimeError ''no attempt within the fuel''))
       | Some a \<Rightarrow> px_merge env ''Fill'' (fa_key a) (fa_props a))"

definition stop_order_props ::
  "timestamp \<Rightarrow> position_stop_threshold \<Rightarrow> broker_fill \<Rightarrow> int \<Rightarrow> stop_provenance
   \<Rightarrow> broker_stop_fact option \<Rightarrow> props" where
  "stop_order_props now t f cents pv replaces =
     [(''ticker'', PStr (pst_ticker t)), (''position_ref'', PStr (pst_position_ref t)),
      (''stop_price_cents'', PInt cents), (''stop_pct'', PFloat (pst_stop_pct t)),
      (''stop_pct_source'', PStr (stop_source_text (spv_source pv))),
      (''derived_from'', PStr (stop_derivation_text (spv_derived_from pv))),
      (''broker_order_id'', PStr (bf_order_id f)), (''placed_at'', PStr (isoformat now))]
     @ (case replaces of
          None \<Rightarrow> []
        | Some old \<Rightarrow> [(''replaces'', PStr (bso_key old)),
            (''replaces_broker_order_id'', PStr (bso_order_id old))])"

definition write_stop_order ::
  "('g, 'b, 'x) pull_env_scheme \<Rightarrow> position_stop_threshold \<Rightarrow> string \<Rightarrow> broker_fill \<Rightarrow> int
   \<Rightarrow> stop_provenance \<Rightarrow> broker_stop_fact option \<Rightarrow> (('g, 'b) exec_state, gnode) step" where
  "write_stop_order env t key f cents pv replaces =
     step_bind (world_now env) (\<lambda>now.
       px_merge env ''BrokerStopOrder'' key (stop_order_props now t f cents pv replaces))"

definition mark_replaced ::
  "('g, 'b, 'x) pull_env_scheme \<Rightarrow> broker_stop_fact \<Rightarrow> gnode \<Rightarrow> (('g, 'b) exec_state, unit) step" where
  "mark_replaced env old new =
     step_bind (world_now env) (\<lambda>now.
     step_bind (step_res (prop_at (gn_props new) ''broker_order_id'')) (\<lambda>order_id.
       step_forget (px_merge env ''BrokerStopOrder'' (bso_key old)
         [(''replaced_at'', PStr (isoformat now)), (''replaced_by'', PStr (gn_key new)),
          (''replaced_by_broker_order_id'', order_id)])))"

definition link_positions ::
  "('g, 'b, 'x) pull_env_scheme \<Rightarrow> position_stop_threshold \<Rightarrow> gnode \<Rightarrow> (('g, 'b) exec_state, unit) step" where
  "link_positions env t stop =
     step_bind (read_graph (\<lambda>g. position_basis_for_ref (xe_float_text env) (px_digest env) (xe_port env) g
         (pst_position_ref t) (pst_ticker t))) (\<lambda>basis_r.
     step_bind (step_res basis_r) (\<lambda>basis.
       case basis of
         None \<Rightarrow> step_return ()
       | Some b \<Rightarrow>
           step_bind (read_graph (\<lambda>g. fold (\<lambda>n. dict_set (gn_key n) n)
               (active_position_nodes (xe_port env) g) [])) (\<lambda>by_key.
             step_each (\<lambda>l. case dict_get by_key (pbl_node_key l) of
                 None \<Rightarrow> step_return ()
               | Some position \<Rightarrow> px_edge env position stop ''PROTECTED_BY'') (pbs_lots b))))"

section \<open>Actions\<close>

definition stop_actions_module :: string where
  "stop_actions_module = ''agents.execution.broker_stop_actions''"

text \<open>The model of an amount of money refuses a negative one.\<close>

definition money_from_cents :: "('g, 'b, 'x) pull_env_scheme \<Rightarrow> int \<Rightarrow> money res" where
  "money_from_cents env cents =
     (let m = usd (of_int cents / 100)
      in if money_valid m then Inr m else Inl (PyExn ''ValidationError'' (px_money_error env (mny_amount m))))"

text \<open>A broker call that may raise; what is raised is recorded first, then handled.\<close>

definition submit_stop ::
  "('g, 'b, 'x) pull_env_scheme \<Rightarrow> position_stop_threshold \<Rightarrow> string \<Rightarrow> money
   \<Rightarrow> (('g, 'b) exec_state, broker_fill) step" where
  "submit_stop env t key price st =
     (case px_submit_stop env (xs_broker st) key (pst_ticker t) Sell (pst_quantity t)
             price ''gtc'' of
        (b, Inr f) \<Rightarrow> (st\<lparr>xs_broker := b\<rparr>, Inr f)
      | (b, Inl x) \<Rightarrow>
          (let st' = st\<lparr>xs_broker := b, xs_faults := fst (fault_boundary collect_fault
                 (xe_wall env (xs_graph st)) ''execution'' stop_actions_module (Some ''submit_stop'')
                 (xs_faults st) (Inl (broker_exn_exn x) :: unit res))\<rparr>
           in case x of
                BrokerRejected f \<Rightarrow> (st', Inr f)
              | BrokerFailed e \<Rightarrow>
                  (st', Inr ((broker_fill_of key (pst_ticker t) Sell (pst_quantity t)
                       price (''rejected:'' @ key) Rejected)\<lparr>bf_reason := Some (exn_text e)\<rparr>))))"

definition place_stop ::
  "('g, 'b, 'x) pull_env_scheme \<Rightarrow> position_stop_threshold \<Rightarrow> string \<Rightarrow> stop_provenance
   \<Rightarrow> (('g, 'b) exec_state, broker_fill) step" where
  "place_stop env t key pv =
     (let cents = stop_price_cents (pst_opened_price_cents t) (pst_stop_pct t)
      in step_bind (step_res (money_from_cents env cents)) (\<lambda>price.
         step_bind (submit_stop env t key price) (\<lambda>f.
         step_bind (write_stop_fill env t key f cents pv) (\<lambda>fill_node.
         if bf_status f = Rejected then step_return f
         else
           step_bind (write_stop_order env t key f cents pv None) (\<lambda>stop.
           step_bind (px_edge env fill_node stop ''STOPS_WITH'') (\<lambda>_.
           step_bind (link_positions env t stop) (\<lambda>_. step_return f)))))))"

definition cancel_stop ::
  "('g, 'b, 'x) pull_env_scheme \<Rightarrow> broker_stop_fact \<Rightarrow> (('g, 'b) exec_state, unit) step" where
  "cancel_stop env s =
     step_bind (bounded env stop_actions_module ''cancel_stop'' (on_broker (\<lambda>b. px_cancel env b (bso_order_id s))))
       (\<lambda>r. case r of
          None \<Rightarrow> step_return ()
        | Some _ \<Rightarrow>
            step_bind (world_now env) (\<lambda>now.
              step_forget (px_merge env ''BrokerStopOrder'' (bso_key s)
                [(''cancelled_at'', PStr (isoformat now))])))"

end
