(* ===== verification/StopPlacement.thy ===== *)
theory StopPlacement
  imports StopActions
begin

text \<open>
  Which stop each held position is to have (\<open>agents/execution/broker_stop_thresholds.py\<close>), and the
  stop of a filled buy whose position the monitor has not adopted yet (\<open>filled_entry_stops.py\<close>).
\<close>

section \<open>Active positions\<close>

record stop_lot_plan =
  slp_quantity :: int
  slp_opened_price_cents :: int
  slp_stop_pct :: rat
  slp_source :: stop_width_source

definition strict_int :: "gnode \<Rightarrow> string \<Rightarrow> int res" where
  "strict_int n name =
     res_bind (prop_at (gn_props n) name) (\<lambda>v.
       case v of PBool b \<Rightarrow> Inl (TypeError name) | _ \<Rightarrow> py_int v)"

text \<open>A lot; a missing property is a \<open>KeyError\<close>, which passes.\<close>

definition plan_lot ::
  "('g, 'b, 'x) pull_env_scheme \<Rightarrow> string \<Rightarrow> gnode \<Rightarrow> gnode list option
   \<Rightarrow> ('g, stop_lot_plan \<times> gnode list option) step" where
  "plan_lot env ticker n held =
     attempting
       (step_bind (step_res (strict_int n ''quantity'')) (\<lambda>q.
        step_bind (step_res (strict_int n ''opened_price_cents'')) (\<lambda>p.
        step_bind (decided_stop_pct (genv env) (Some (px_fallback_stop_pct env)) n held) (\<lambda>(d, held').
          step_return (\<lparr>slp_quantity = q, slp_opened_price_cents = p, slp_stop_pct = dst_pct d,
                        slp_source = dst_source d\<rparr>, held')))))
       (\<lambda>e. step_res (Inl (if exn_type e \<in> {''TypeError'', ''ValueError''}
          then ValueError (''active lot for '' @ ticker @ '' lacks stop threshold inputs'') else e)))"

fun plan_lots ::
  "('g, 'b, 'x) pull_env_scheme \<Rightarrow> string \<Rightarrow> gnode list \<Rightarrow> gnode list option
   \<Rightarrow> ('g, stop_lot_plan list \<times> gnode list option) step" where
  "plan_lots env ticker [] held = step_return ([], held)"
| "plan_lots env ticker (n # ns) held =
     step_bind (plan_lot env ticker n held) (\<lambda>(lot, held').
     step_bind (plan_lots env ticker ns held') (\<lambda>(lots, held'').
       step_return (lot # lots, held'')))"

definition weakest_source :: "stop_width_source set \<Rightarrow> stop_width_source" where
  "weakest_source S =
     (if FallbackWidth \<in> S then FallbackWidth else if LineageWidth \<in> S then LineageWidth else PositionWidth)"

definition average_cents :: "(int \<times> int) list \<Rightarrow> int" where
  "average_cents pqs =
     round_half_up (of_int (sum_list (map (\<lambda>(p, q). p * q) pqs)) / of_int (sum_list (map snd pqs)))"

definition plan_of_lots :: "string \<Rightarrow> string \<Rightarrow> stop_lot_plan list \<Rightarrow> stop_plan res" where
  "plan_of_lots ticker ref lots =
     (let quantity = sum_list (map slp_quantity lots)
      in case remdups (map slp_stop_pct lots) of
           [stop_pct] \<Rightarrow>
             if quantity \<le> 0
             then Inl (ValueError (''active lots for '' @ ticker @ '' carry non-positive quantity''))
             else Inr \<lparr>spl_threshold = \<lparr>pst_ticker = ticker, pst_quantity = quantity, pst_position_ref = ref,
                         pst_opened_price_cents =
                           average_cents (map (\<lambda>l. (slp_opened_price_cents l, slp_quantity l)) lots),
                         pst_stop_pct = stop_pct\<rparr>,
                       spl_source = weakest_source (set (map slp_source lots)),
                       spl_derived_from = ActivePosition\<rparr>
         | _ \<Rightarrow> Inl (ValueError (''active lots for '' @ ticker @ '' carry different stop_pct values'')))"

fun group_by_ticker :: "(rat \<Rightarrow> string) \<Rightarrow> gnode list \<Rightarrow> (string, gnode list) dict \<Rightarrow> (string, gnode list) dict" where
  "group_by_ticker flt [] d = d"
| "group_by_ticker flt (n # ns) d =
     (let t = py_str flt (get_or (gn_props n) ''ticker'' (PStr []))
      in group_by_ticker flt ns
           (if t = [] then d else dict_set t ((case dict_get d t of None \<Rightarrow> [] | Some ms \<Rightarrow> ms) @ [n]) d))"

text \<open>
  A ticker without a plan is an error of that ticker only.  After one that raised, the Fill nodes held
  are those of before: no Fill is written while plans are made, so that a fresh read gives the same.
\<close>

definition ticker_plan ::
  "('g, 'b, 'x) pull_env_scheme \<Rightarrow> (string, string) dict \<Rightarrow> string \<times> gnode list \<Rightarrow> gnode list option
   \<Rightarrow> ('g, (stop_plan_error + stop_plan) \<times> gnode list option) step" where
  "ticker_plan env refs tn held =
     (case tn of (ticker, ns) \<Rightarrow>
        attempting
          (step_bind (step_res (case dict_get refs ticker of None \<Rightarrow> Inl (KeyError ticker) | Some r \<Rightarrow> Inr r)) (\<lambda>ref.
           step_bind (plan_lots env ticker (sort_key gn_key ns) held) (\<lambda>(lots, held').
           step_bind (step_res (case plan_of_lots ticker ref lots of
               Inl e \<Rightarrow> Inr (Inl \<lparr>spe_ticker = ticker, spe_reason = exn_text e\<rparr>)
             | Inr p \<Rightarrow> Inr (Inr p))) (\<lambda>r.
             step_return (r, held')))))
          (\<lambda>e. if exn_type e = ''ValueError''
               then step_return (Inl \<lparr>spe_ticker = ticker, spe_reason = exn_text e\<rparr>, held)
               else step_res (Inl e)))"

fun ticker_plans ::
  "('g, 'b, 'x) pull_env_scheme \<Rightarrow> (string, string) dict \<Rightarrow> (string \<times> gnode list) list \<Rightarrow> gnode list option
   \<Rightarrow> ('g, stop_plans) step" where
  "ticker_plans env refs [] held = step_return \<lparr>sps_plans = [], sps_errors = []\<rparr>"
| "ticker_plans env refs (tn # tns) held =
     step_bind (ticker_plan env refs tn held) (\<lambda>(r, held').
     step_bind (ticker_plans env refs tns held') (\<lambda>rest.
       step_return (case r of
           Inl e \<Rightarrow> rest\<lparr>sps_errors := e # sps_errors rest\<rparr>
         | Inr p \<Rightarrow> rest\<lparr>sps_plans := p # sps_plans rest\<rparr>)))"

definition broker_stop_thresholds ::
  "('g, 'b, 'x) pull_env_scheme \<Rightarrow> ('g, stop_plans) step" where
  "broker_stop_thresholds env g =
     (let flt = xe_float_text env; by_ticker = group_by_ticker flt (active_position_nodes (xe_port env) g) []
      in step_bind (step_res (open_positions flt (px_digest env) (xe_port env) g)) (\<lambda>ps.
           ticker_plans env (fold (\<lambda>p. dict_set (op_ticker p) (op_position_ref p)) ps [])
             (sort_key fst by_ticker) None) g)"

section \<open>Filled buys awaiting adoption\<close>

record pending_lot =
  pl_position_key :: string
  pl_ticker :: string
  pl_quantity :: int
  pl_opened_price_cents :: int
  pl_stop_pct :: rat
  pl_source :: stop_width_source

fun int_value :: "pyval \<Rightarrow> int res" where
  "int_value (PInt i) = Inr i"
| "int_value (PStr s) = py_int (PStr s)"
| "int_value (PBool b) = Inl (TypeError ''bool is not an integer field'')"
| "int_value v = Inl (TypeError ''expected integer-like graph property'')"

definition pending_price_cents :: "gnode \<Rightarrow> int res" where
  "pending_price_cents fill =
     (case data_get (gn_props fill) ''broker_price_cents'' of
        PNone \<Rightarrow> res_bind (prop_at (gn_props fill) ''price_cents'') int_value
      | v \<Rightarrow> int_value v)"

definition source_run_of :: "('g, 'b, 'x) pull_env_scheme \<Rightarrow> gnode \<Rightarrow> ('g, string option) step" where
  "source_run_of env fill =
     (case truthy_str (data_get (gn_props fill) ''source_run_id'') of
        Some s \<Rightarrow> step_return (Some s)
      | None \<Rightarrow>
          step_bind (descend (genv env) fill ''EXECUTES'') (\<lambda>orders.
            foldr (\<lambda>ord rest. step_bind (descend (genv env) ord ''EMITTED_BY'') (\<lambda>runs.
                case runs of [] \<Rightarrow> rest | r # _ \<Rightarrow> step_return (Some (gn_key r))))
              orders (step_return None)))"

definition pending_stop_pct ::
  "('g, 'b, 'x) pull_env_scheme \<Rightarrow> gnode option \<Rightarrow> (rat \<times> stop_width_source) res" where
  "pending_stop_pct env ord =
     (case (case ord of None \<Rightarrow> PNone | Some n \<Rightarrow> data_get (gn_props n) ''stop_pct'') of
        PNone \<Rightarrow> Inr (px_fallback_stop_pct env, FallbackWidth)
      | PBool b \<Rightarrow> Inr (px_fallback_stop_pct env, FallbackWidth)
      | v \<Rightarrow> res_bind (py_float (px_parse_float env) v) (\<lambda>q. Inr (q, PositionWidth)))"

text \<open>The quantity and the price of a pending lot; what cannot be read as a number is no lot.\<close>

definition pending_amounts :: "gnode \<Rightarrow> (int \<times> int) option res" where
  "pending_amounts fill =
     (case res_bind (res_bind (prop_at (gn_props fill) (fill_quantity_key fill)) int_value) (\<lambda>q.
             res_bind (pending_price_cents fill) (\<lambda>p. Inr (q, p))) of
        Inl e \<Rightarrow> if exn_type e \<in> {''TypeError'', ''ValueError''} then Inr None else Inl e
      | Inr qp \<Rightarrow> Inr (Some qp))"

definition pending_lot_of ::
  "('g, 'b, 'x) pull_env_scheme \<Rightarrow> gnode \<Rightarrow> ('g, pending_lot option) step" where
  "pending_lot_of env fill =
     (if \<not> is_filled_buy_fill (xe_float_text env) fill then step_return None
      else
        let ticker = py_str (xe_float_text env) (get_or (gn_props fill) ''ticker'' (PStr [])) in
        step_bind (source_run_of env fill) (\<lambda>source.
          case source of
            None \<Rightarrow> step_return None
          | Some run_id \<Rightarrow>
              if ticker = [] then step_return None
              else
                let key = run_id @ '':'' @ ticker in
                step_bind (\<lambda>g. (g, Inr (gp_get (xe_port env) g ''Position'' key))) (\<lambda>position.
                if position \<noteq> None then step_return None
                else step_bind (step_res (pending_amounts fill)) (\<lambda>amounts.
                  case amounts of
                    None \<Rightarrow> step_return None
                  | Some (q, p) \<Rightarrow>
                      if q \<le> 0 then step_return None
                      else
                        step_bind (descend (genv env) fill ''EXECUTES'') (\<lambda>orders.
                        step_bind (step_res (pending_stop_pct env (case orders of [] \<Rightarrow> None | ord # _ \<Rightarrow> Some ord)))
                          (\<lambda>(pct, source).
                          step_return (Some \<lparr>pl_position_key = key, pl_ticker = ticker, pl_quantity = q,
                            pl_opened_price_cents = p, pl_stop_pct = pct, pl_source = source\<rparr>)))))))"

definition pending_plan ::
  "('g, 'b, 'x) pull_env_scheme \<Rightarrow> string \<Rightarrow> pending_lot list \<Rightarrow> stop_plan option" where
  "pending_plan env ticker lots =
     (case remdups (map pl_stop_pct lots) of
        [stop_pct] \<Rightarrow>
          Some \<lparr>spl_threshold = \<lparr>pst_ticker = ticker, pst_quantity = sum_list (map pl_quantity lots),
                  pst_position_ref = position_ref_for_keys (px_digest env) (map pl_position_key lots),
                  pst_opened_price_cents =
                    average_cents (map (\<lambda>l. (pl_opened_price_cents l, pl_quantity l)) lots),
                  pst_stop_pct = stop_pct\<rparr>,
                spl_source = (if FallbackWidth \<in> set (map pl_source lots) then FallbackWidth else PositionWidth),
                spl_derived_from = PendingFill\<rparr>
      | _ \<Rightarrow> None)"

fun pending_lots ::
  "('g, 'b, 'x) pull_env_scheme \<Rightarrow> (string \<Rightarrow> bool) \<Rightarrow> gnode list \<Rightarrow> (string, pending_lot list) dict
   \<Rightarrow> ('g, (string, pending_lot list) dict) step" where
  "pending_lots env wanted [] d = step_return d"
| "pending_lots env wanted (n # ns) d =
     step_bind (pending_lot_of env n) (\<lambda>lot.
       pending_lots env wanted ns
         (case lot of
            None \<Rightarrow> d
          | Some l \<Rightarrow>
              if \<not> wanted (pl_ticker l) then d
              else dict_set (pl_ticker l)
                     ((case dict_get d (pl_ticker l) of None \<Rightarrow> [] | Some ls \<Rightarrow> ls) @ [l]) d))"

definition filled_entry_stop_thresholds ::
  "('g, 'b, 'x) pull_env_scheme \<Rightarrow> (string, int) dict \<Rightarrow> string set \<Rightarrow> ('g, stop_plan list) step" where
  "filled_entry_stop_thresholds env broker_qty blocked g =
     step_bind (pending_lots env (\<lambda>t. dict_get broker_qty t \<noteq> None \<and> t \<notin> blocked)
         (gp_list (xe_port env) g ''Fill'') []) (\<lambda>by_ticker.
       step_return (List.map_filter (\<lambda>(ticker, lots). pending_plan env ticker (sort_key pl_position_key lots))
         (sort_key fst by_ticker))) g"

text \<open>
  The stops of the whole book before a run submits (\<open>agents/execution/broker_stops.py\<close>,
  \<open>broker_stop_realign.py\<close>, \<open>exit_stops.py\<close>): stops of positions that are gone are cancelled, stops
  of the positions this run exits are cancelled so that their shares are free, missing stops are
  placed, and live stops that rest off their decided price are replaced in place.
\<close>

section \<open>Moving a stop\<close>

definition realign_module :: string where
  "realign_module = ''agents.execution.broker_stop_realign''"

type_synonym realign_target = "stop_plan \<times> broker_stop_fact \<times> int"

definition dollars :: "rat \<Rightarrow> string" where
  "dollars cents = fixed_text 2 (cents / 100)"

definition plan_stop_cents :: "stop_plan \<Rightarrow> int" where
  "plan_stop_cents p =
     stop_price_cents (pst_opened_price_cents (spl_threshold p)) (pst_stop_pct (spl_threshold p))"

definition replace_tolerance_cents :: int where
  "replace_tolerance_cents = 1"

definition mismatched_stops :: "broker_stop_fact list \<Rightarrow> stop_plan list \<Rightarrow> realign_target list" where
  "mismatched_stops active plans =
     (let live = fold (\<lambda>s. dict_set (bso_position_ref s) s) active []
      in List.map_filter (\<lambda>p.
           case dict_get live (pst_position_ref (spl_threshold p)) of
             None \<Rightarrow> None
           | Some s \<Rightarrow>
               if replace_tolerance_cents \<le> \<bar>bso_stop_price_cents s - plan_stop_cents p\<bar>
               then Some (p, s, plan_stop_cents p) else None) plans)"

definition realign_fault ::
  "('g, 'b, 'x) pull_env_scheme \<Rightarrow> string \<Rightarrow> realign_target \<Rightarrow> string \<Rightarrow> props \<Rightarrow> (('g, 'b) exec_state, unit) step"
where
  "realign_fault env error_type target reason extra =
     (case target of (plan, stop, decided) \<Rightarrow>
        raise_fault env realign_module ''replace_stop'' Warning error_type
          (''stop for '' @ pst_ticker (spl_threshold plan) @ '' not replaced: '' @ reason @ ''; ''
            @ dollars (of_int (bso_stop_price_cents stop)) @ '' stays live'')
          ([(''ticker'', PStr (pst_ticker (spl_threshold plan))),
            (''position_ref'', PStr (pst_position_ref (spl_threshold plan))),
            (''broker_order_id'', PStr (bso_order_id stop)),
            (''stop_price_cents'', PInt (bso_stop_price_cents stop)), (''decided_stop_cents'', PInt decided),
            (''stop_pct'', PFloat (pst_stop_pct (spl_threshold plan))),
            (''stop_pct_source'', PStr (stop_source_text (spl_source plan))), (''reason'', PStr reason)] @ extra))"

text \<open>\<open>snapshot.props.get("holdings", ())\<close>, the items that are mappings.\<close>

definition holding_rows :: "gnode \<Rightarrow> props list res" where
  "holding_rows snapshot =
     res_bind (items_of (get_or (gn_props snapshot) ''holdings'' (PTuple []))) (\<lambda>items.
       Inr (List.map_filter mapping_of items))"

definition holding_int :: "(rat \<Rightarrow> string) \<Rightarrow> string \<Rightarrow> props \<Rightarrow> (string \<times> int) res" where
  "holding_int flt name row =
     res_bind (py_int (get_or row name (PInt 0))) (\<lambda>v.
       Inr (py_str flt (get_or row ''ticker'' (PStr [])), v))"

definition market_values :: "(rat \<Rightarrow> string) \<Rightarrow> gnode option \<Rightarrow> (string, int) dict res" where
  "market_values flt snapshot =
     res_bind (case snapshot of None \<Rightarrow> Inr [] | Some n \<Rightarrow> holding_rows n) (\<lambda>rows.
     res_bind (all_res (map (holding_int flt ''market_value_cents'') rows)) (\<lambda>tvs.
       Inr (fold (\<lambda>(t, v). dict_set t v) tvs [])))"

text \<open>
  A stop is moved only while the broker calls its order \<open>new\<close>, never to or above the market, and in
  place: whatever is refused or fails leaves the old stop live.
\<close>

definition replace_stop ::
  "('g, 'b, 'x) pull_env_scheme \<Rightarrow> broker_stop_fact \<Rightarrow> int \<Rightarrow> string \<Rightarrow> (('g, 'b) exec_state, broker_fill) step"
where
  "replace_stop env s decided key =
     on_broker (\<lambda>b. case px_replace_stop env b (bso_order_id s) decided key of
         (b', Inl x) \<Rightarrow> (b', Inl (broker_exn_exn x)) | (b', Inr f) \<Rightarrow> (b', Inr f))"

definition write_replacement ::
  "('g, 'b, 'x) pull_env_scheme \<Rightarrow> realign_target \<Rightarrow> string \<Rightarrow> broker_fill \<Rightarrow> (('g, 'b) exec_state, unit) step"
where
  "write_replacement env target key f =
     (case target of (plan, stop, decided) \<Rightarrow>
        let t = spl_threshold plan; pv = plan_provenance plan
        in step_bind (write_stop_fill env t key f decided pv) (\<lambda>fill_node.
           step_bind (write_stop_order env t key f decided pv (Some stop)) (\<lambda>new.
           step_bind (px_edge env fill_node new ''STOPS_WITH'') (\<lambda>_.
           step_bind (link_positions env t new) (\<lambda>_. mark_replaced env stop new)))))"

definition realign_one ::
  "('g, 'b, 'x) pull_env_scheme \<Rightarrow> string option \<Rightarrow> int \<Rightarrow> realign_target \<Rightarrow> (('g, 'b) exec_state, unit) step" where
  "realign_one env status value target =
     (case target of (plan, stop, decided) \<Rightarrow>
        let t = spl_threshold plan in
        if status \<noteq> Some ''new''
        then (let shown = (case status of None \<Rightarrow> ''unknown'' | Some s \<Rightarrow> if s = [] then ''unknown'' else s)
              in realign_fault env ''StopReplaceSkipped'' target
                   (''broker order status is '' @ shown @ '', not new'') [(''order_status'', PStr shown)])
        else if value \<le> decided * pst_quantity t
        then (let price = dollars (of_int value / of_int (pst_quantity t))
              in realign_fault env ''StopReplaceRefused'' target
                   (''decided stop '' @ dollars (of_int decided) @ '' is at or above the price '' @ price)
                   [(''price'', PStr price)])
        else
          step_bind (read_graph (\<lambda>g. free_broker_stop_order_key (xe_port env) g (pst_position_ref t) (pst_ticker t)))
            (\<lambda>key_r. step_bind (step_res key_r) (\<lambda>key.
            step_bind (attempting (step_bind (replace_stop env stop decided key) (\<lambda>f. step_return (Inr f)))
                 (\<lambda>e. step_return (Inl e))) (\<lambda>r.
              case r of
                Inl e \<Rightarrow> realign_fault env ''StopReplaceFailed'' target (exn_text e) []
              | Inr f \<Rightarrow> write_replacement env target key f))))"

definition order_statuses ::
  "('g, 'b, 'x) pull_env_scheme \<Rightarrow> realign_target list
   \<Rightarrow> (('g, 'b) exec_state, (string, string option) dict option) step" where
  "order_statuses env targets =
     attempting
       (step_bind (run_start_orders env
           (map (\<lambda>(p, s, d). \<lparr>orf_order_id = bso_order_id s, orf_key = bso_key s\<rparr>) targets)) (\<lambda>fs.
          step_return (Some (fold (\<lambda>f. dict_set (bf_order_id f) (bf_order_status f)) fs []))))
       (\<lambda>e. step_bind (step_each (\<lambda>target. realign_fault env ''StopReplaceFailed'' target
              (''broker orders unreadable: '' @ exn_text e) []) targets) (\<lambda>_. step_return None))"

definition realign_broker_stops ::
  "('g, 'b, 'x) pull_env_scheme \<Rightarrow> stop_plan list \<Rightarrow> gnode option \<Rightarrow> (('g, 'b) exec_state, unit) step" where
  "realign_broker_stops env plans snapshot =
     step_bind (read_graph (active_broker_stop_orders (xe_float_text env) (xe_port env))) (\<lambda>active_r.
     step_bind (step_res active_r) (\<lambda>active.
       let targets = mismatched_stops active plans
       in if targets = [] then step_return ()
          else step_bind (order_statuses env targets) (\<lambda>statuses.
            case statuses of
              None \<Rightarrow> step_return ()
            | Some sts \<Rightarrow>
                step_bind (step_res (market_values (xe_float_text env) snapshot)) (\<lambda>vals.
                  step_each (\<lambda>(plan, stop, decided).
                    realign_one env
                      (case dict_get sts (bso_order_id stop) of None \<Rightarrow> None | Some s \<Rightarrow> s)
                      (case dict_get vals (pst_ticker (spl_threshold plan)) of None \<Rightarrow> 0 | Some v \<Rightarrow> v)
                      (plan, stop, decided)) targets))))"

section \<open>Placing missing stops\<close>

definition stops_module :: string where
  "stops_module = ''agents.execution.broker_stops''"

definition fresh_quantities :: "(rat \<Rightarrow> string) \<Rightarrow> gnode option \<Rightarrow> (string, int) dict option res" where
  "fresh_quantities flt snapshot =
     (case snapshot of
        None \<Rightarrow> Inr None
      | Some n \<Rightarrow>
          if \<not> prop_is (gn_props n) ''status'' ''fresh'' then Inr None
          else res_bind (holding_rows n) (\<lambda>rows.
               res_bind (all_res (map (holding_int flt ''quantity'') rows)) (\<lambda>tqs.
                 Inr (Some (fold (\<lambda>(t, q) d. if t \<noteq> [] \<and> 0 < q then dict_set t q d else d) tqs [])))))"

definition unprotected_fault ::
  "('g, 'b, 'x) pull_env_scheme \<Rightarrow> string \<Rightarrow> int \<Rightarrow> string \<Rightarrow> string option \<Rightarrow> (('g, 'b) exec_state, unit) step"
where
  "unprotected_fault env ticker quantity reason ref =
     raise_fault env stops_module ''place_broker_stops'' Error ''UnprotectedPosition''
       (''unprotected held position '' @ ticker @ '' qty='' @ str_int quantity @ '': '' @ reason)
       [(''ticker'', PStr ticker), (''quantity'', PInt quantity), (''reason'', PStr reason),
        (''position_ref'', none_or PStr ref)]"

definition sold_tickers :: "order_intent_set \<Rightarrow> string set" where
  "sold_tickers os = oi_ticker ` {i \<in> set (ois_approved os). oi_action i = SellAction}"

definition place_planned_stop ::
  "('g, 'b, 'x) pull_env_scheme \<Rightarrow> stop_plan \<Rightarrow> (('g, 'b) exec_state, broker_fill option) step" where
  "place_planned_stop env plan =
     (let t = spl_threshold plan
      in step_bind (read_graph (\<lambda>g. next_broker_stop_order_key (xe_float_text env) (xe_port env) g
             (pst_position_ref t) (pst_ticker t))) (\<lambda>key_r.
         step_bind (step_res key_r) (\<lambda>key.
           case key of
             None \<Rightarrow> step_return None
           | Some k \<Rightarrow> step_bind (place_stop env t k (plan_provenance plan)) (\<lambda>f. step_return (Some f)))))"

text \<open>One held ticker: whether its plan already has a live stop, or a fault, or a stop placed now.\<close>

definition protect_ticker ::
  "('g, 'b, 'x) pull_env_scheme \<Rightarrow> string list \<Rightarrow> (string, int) dict \<Rightarrow> (string, stop_plan) dict
   \<Rightarrow> string \<times> int \<Rightarrow> (('g, 'b) exec_state, stop_plan list) step" where
  "protect_ticker env protected_refs broker_qty plans tq =
     (case tq of (ticker, quantity) \<Rightarrow>
        case dict_get plans ticker of
          None \<Rightarrow> step_bind (unprotected_fault env ticker quantity ''no active graph position'' None)
                    (\<lambda>_. step_return [])
        | Some plan \<Rightarrow>
            let t = spl_threshold plan; ref = Some (pst_position_ref t) in
            if dict_get broker_qty (pst_ticker t) \<noteq> Some (pst_quantity t)
            then step_bind (unprotected_fault env ticker quantity
                   (''graph quantity '' @ str_int (pst_quantity t) @ '' does not match broker quantity'') ref)
                   (\<lambda>_. step_return [])
            else if pst_position_ref t \<in> set protected_refs then step_return [plan]
            else step_bind (place_planned_stop env plan) (\<lambda>placed.
              step_bind (case placed of
                  None \<Rightarrow> unprotected_fault env ticker quantity
                            ''active BrokerStopOrder fact blocks duplicate stop placement'' ref
                | Some f \<Rightarrow>
                    if bf_status f = Rejected
                    then unprotected_fault env ticker quantity
                           (''stop submission rejected: ''
                             @ (case bf_reason f of None \<Rightarrow> ''rejected'' | Some r \<Rightarrow> if r = [] then ''rejected'' else r)) ref
                    else step_return ()) (\<lambda>_. step_return [])))"

fun protect_tickers ::
  "('g, 'b, 'x) pull_env_scheme \<Rightarrow> string list \<Rightarrow> (string, int) dict \<Rightarrow> (string, stop_plan) dict
   \<Rightarrow> (string \<times> int) list \<Rightarrow> (('g, 'b) exec_state, stop_plan list) step" where
  "protect_tickers env protected_refs broker_qty plans [] = step_return []"
| "protect_tickers env protected_refs broker_qty plans (tq # tqs) =
     step_bind (protect_ticker env protected_refs broker_qty plans tq) (\<lambda>a.
     step_bind (protect_tickers env protected_refs broker_qty plans tqs) (\<lambda>b. step_return (a @ b)))"

definition plans_by_ticker :: "stop_plan list \<Rightarrow> (string, stop_plan) dict \<Rightarrow> (string, stop_plan) dict" where
  "plans_by_ticker ps d = fold (\<lambda>p. dict_set (pst_ticker (spl_threshold p)) p) ps d"

definition place_broker_stops ::
  "('g, 'b, 'x) pull_env_scheme \<Rightarrow> order_intent_set \<Rightarrow> gnode option \<Rightarrow> (('g, 'b) exec_state, unit) step" where
  "place_broker_stops env os snapshot =
     step_bind (step_res (fresh_quantities (xe_float_text env) snapshot)) (\<lambda>quantities.
     case quantities of
       None \<Rightarrow> step_return ()
     | Some broker_qty \<Rightarrow>
         step_bind (read_graph (active_broker_stop_refs (xe_float_text env) (xe_port env))) (\<lambda>refs_r.
         step_bind (step_res refs_r) (\<lambda>protected_refs.
         step_bind (on_graph (broker_stop_thresholds env)) (\<lambda>plan_set.
         let plans = plans_by_ticker (sps_plans plan_set) [];
             error_tickers = spe_ticker ` set (sps_errors plan_set) in
         step_bind (step_each (\<lambda>e.
             if spe_ticker e \<in> sold_tickers os then step_return ()
             else unprotected_fault env (spe_ticker e)
               (case dict_get broker_qty (spe_ticker e) of None \<Rightarrow> 0 | Some q \<Rightarrow> q)
               (''no stop threshold: '' @ spe_reason e) None) (sps_errors plan_set)) (\<lambda>_.
         step_bind (on_graph (filled_entry_stop_thresholds env broker_qty
             (set (dict_keys plans) \<union> error_tickers))) (\<lambda>entries.
         step_bind (protect_tickers env protected_refs broker_qty (plans_by_ticker entries plans)
             (filter (\<lambda>(t, q). t \<notin> sold_tickers os \<and> t \<notin> error_tickers) (sort_key fst broker_qty))) (\<lambda>protected.
           realign_broker_stops env protected snapshot)))))))"

section \<open>Settling before submission\<close>

definition reconcile_broker_stops ::
  "('g, 'b, 'x) pull_env_scheme \<Rightarrow> (('g, 'b) exec_state, unit) step" where
  "reconcile_broker_stops env =
     step_bind (read_graph (open_positions (xe_float_text env) (px_digest env) (xe_port env))) (\<lambda>ps_r.
     step_bind (step_res ps_r) (\<lambda>ps.
     step_bind (read_graph (active_broker_stop_orders (xe_float_text env) (xe_port env))) (\<lambda>active_r.
     step_bind (step_res active_r) (\<lambda>active.
       step_each (cancel_stop env)
         (filter (\<lambda>s. bso_position_ref s \<notin> op_position_ref ` set ps) active)))))"

definition cancel_stops_for_exits ::
  "('g, 'b, 'x) pull_env_scheme \<Rightarrow> order_intent_set \<Rightarrow> (('g, 'b) exec_state, string list) step" where
  "cancel_stops_for_exits env os =
     (if sold_tickers os = {} then step_return []
      else
        step_bind (read_graph (active_broker_stop_orders (xe_float_text env) (xe_port env))) (\<lambda>active_r.
        step_bind (step_res active_r) (\<lambda>active.
        let targets = filter (\<lambda>s. bso_ticker s \<in> sold_tickers os) active in
        step_bind (step_each (cancel_stop env) targets) (\<lambda>_.
        step_bind (read_graph (active_broker_stop_orders (xe_float_text env) (xe_port env))) (\<lambda>still_r.
        step_bind (step_res still_r) (\<lambda>still.
          step_return (filter (\<lambda>t. t \<notin> set (map bso_ticker still)) (map bso_ticker targets))))))))"

definition settle_stops ::
  "('g, 'b, 'x) pull_env_scheme \<Rightarrow> order_intent_set \<Rightarrow> gnode option \<Rightarrow> (('g, 'b) exec_state, string list) step"
where
  "settle_stops env os snapshot =
     step_bind (reconcile_broker_stops env) (\<lambda>_.
     step_bind (cancel_stops_for_exits env os) (\<lambda>freed.
     step_bind (place_broker_stops env os snapshot) (\<lambda>_. step_return freed)))"

definition unprotected_exit ::
  "('g, 'b, 'x) pull_env_scheme \<Rightarrow> fill \<Rightarrow> (('g, 'b) exec_state, unit) step" where
  "unprotected_exit env f =
     (let reason = ''exit rejected after its resting stop was cancelled''
      in raise_fault env ''agents.execution.exit_stops'' ''report_unprotected_exits'' Error ''UnprotectedPosition''
           (''unprotected held position '' @ fl_ticker f @ '' qty='' @ str_int (fl_quantity f) @ '': '' @ reason)
           [(''ticker'', PStr (fl_ticker f)), (''quantity'', PInt (fl_quantity f)), (''reason'', PStr reason)])"

definition report_unprotected_exits ::
  "('g, 'b, 'x) pull_env_scheme \<Rightarrow> execution_result \<Rightarrow> string list \<Rightarrow> (('g, 'b) exec_state, unit) step" where
  "report_unprotected_exits env result freed =
     step_each (unprotected_exit env)
       (filter (\<lambda>f. fl_side f = Sell \<and> fl_status f = Rejected \<and> fl_ticker f \<in> set freed) (er_fills result))"

end
