(* ===== verification/DivergenceFlags.thy ===== *)
theory DivergenceFlags
  imports PositionBook
begin

text \<open>
  Where the graph's positions and the broker's holdings differ, and the flags that say so
  (\<open>agents/execution/divergence_episodes.py\<close>, \<open>reconciliation_flags.py\<close>, the comparison of
  \<open>reconciliation_store.py\<close>).  A divergence has one episode at a time: a flag of severity \<open>warn\<close>
  under the snapshot that first saw it, then one of severity \<open>critical\<close> once it outlives a run, and
  a resolution for each when it is gone.
\<close>

section \<open>Divergences\<close>

record divergence =
  dv_kind :: string
  dv_ticker :: string
  dv_detail :: string

definition divergence_id :: "divergence \<Rightarrow> string \<times> string" where
  "divergence_id d = (dv_kind d, dv_ticker d)"

definition divergence_text :: "divergence \<Rightarrow> string" where
  "divergence_text d = dv_kind d @ '' '' @ dv_ticker d @ '' '' @ dv_detail d"

definition broker_quantities :: "broker_position list \<Rightarrow> (string, int) dict" where
  "broker_quantities ps = fold (\<lambda>p. dict_set (bp_ticker p) (bp_quantity p)) ps []"

fun add_quantities :: "(rat \<Rightarrow> string) \<Rightarrow> gnode list \<Rightarrow> (string, int) dict \<Rightarrow> (string, int) dict res" where
  "add_quantities flt [] d = Inr d"
| "add_quantities flt (n # ns) d =
     res_bind (read_str flt n ''ticker'') (\<lambda>t.
     res_bind (read_int n ''quantity'') (\<lambda>q.
       add_quantities flt ns (dict_set t ((case dict_get d t of None \<Rightarrow> 0 | Some k \<Rightarrow> k) + q) d)))"

definition graph_quantities :: "(rat \<Rightarrow> string) \<Rightarrow> 'w graph_port \<Rightarrow> 'w \<Rightarrow> (string, int) dict res" where
  "graph_quantities flt port w = add_quantities flt (active_position_nodes port w) []"

definition qty_at :: "(string, int) dict \<Rightarrow> string \<Rightarrow> int" where
  "qty_at d t = (case dict_get d t of None \<Rightarrow> 0 | Some q \<Rightarrow> q)"

definition missing_divergence :: "(string, int) dict \<Rightarrow> string \<Rightarrow> divergence" where
  "missing_divergence broker t = \<lparr>dv_kind = ''missing_graph_position'', dv_ticker = t,
     dv_detail = ''broker_qty='' @ str_int (qty_at broker t)\<rparr>"

definition extra_divergence :: "(string, int) dict \<Rightarrow> string \<Rightarrow> divergence" where
  "extra_divergence graph t = \<lparr>dv_kind = ''extra_graph_position'', dv_ticker = t,
     dv_detail = ''graph_qty='' @ str_int (qty_at graph t)\<rparr>"

definition mismatch_divergence :: "(string, int) dict \<Rightarrow> (string, int) dict \<Rightarrow> string \<Rightarrow> divergence" where
  "mismatch_divergence graph broker t = \<lparr>dv_kind = ''qty_mismatch'', dv_ticker = t,
     dv_detail = ''graph_qty='' @ str_int (qty_at graph t) @ '' broker_qty='' @ str_int (qty_at broker t)\<rparr>"

definition divergences_between :: "(string, int) dict \<Rightarrow> (string, int) dict \<Rightarrow> divergence list" where
  "divergences_between graph broker =
     (let held = dict_keys broker; known = dict_keys graph
      in map (missing_divergence broker) (sort (filter (\<lambda>t. t \<notin> set known) held))
         @ map (extra_divergence graph) (sort (filter (\<lambda>t. t \<notin> set held) known))
         @ map (mismatch_divergence graph broker)
             (filter (\<lambda>t. qty_at graph t \<noteq> qty_at broker t) (sort (filter (\<lambda>t. t \<in> set known) held))))"

definition position_divergences ::
  "(rat \<Rightarrow> string) \<Rightarrow> 'w graph_port \<Rightarrow> 'w \<Rightarrow> broker_position list \<Rightarrow> divergence list res" where
  "position_divergences flt port w ps =
     res_bind (graph_quantities flt port w) (\<lambda>graph.
       Inr (divergences_between graph (broker_quantities ps)))"

section \<open>Episodes\<close>

type_synonym episode = "(string, gnode) dict"

type_synonym episodes = "(string \<times> string, episode) dict"

definition divergence_prefix :: string where
  "divergence_prefix = ''broker-position-divergence:''"

definition legacy_prefix :: string where
  "legacy_prefix = divergence_prefix @ ''broker-position-snapshot:''"

definition flag_join :: "(rat \<Rightarrow> string) \<Rightarrow> gnode \<Rightarrow> string \<times> string" where
  "flag_join flt n =
     (py_str flt (get_or (gn_props n) ''subject_ref'' (PStr [])),
      py_str flt (get_or (gn_props n) ''severity'' (PStr ''critical'')))"

text \<open>\<open>s.partition(":")\<close> without the separator, and \<open>s.split(":", 1)[0]\<close>.\<close>

definition until_colon :: "string \<Rightarrow> string" where
  "until_colon s = takeWhile (\<lambda>c. c \<noteq> CHR '':'') s"

definition after_colon :: "string \<Rightarrow> string" where
  "after_colon s = drop (Suc (length (until_colon s))) s"

definition episode_identity :: "string \<Rightarrow> string \<times> string" where
  "episode_identity subject =
     (let own = (if starts_with subject divergence_prefix then drop (length divergence_prefix) subject else subject)
      in (until_colon own, until_colon (after_colon own)))"

definition is_family :: "string \<Rightarrow> bool" where
  "is_family subject \<longleftrightarrow> starts_with subject divergence_prefix \<and> \<not> starts_with subject legacy_prefix"

definition add_episode ::
  "(rat \<Rightarrow> string) \<Rightarrow> (string \<times> string) set \<Rightarrow> gnode \<Rightarrow> episodes \<Rightarrow> episodes" where
  "add_episode flt resolved flag eps =
     (case flag_join flt flag of (subject, sev) \<Rightarrow>
        if \<not> is_family subject \<or> (subject, sev) \<in> resolved then eps
        else let i = episode_identity subject
          in dict_set i (dict_set sev flag (case dict_get eps i of None \<Rightarrow> [] | Some e \<Rightarrow> e)) eps)"

definition open_episodes :: "(rat \<Rightarrow> string) \<Rightarrow> gnode list \<Rightarrow> gnode list \<Rightarrow> episodes" where
  "open_episodes flt flags resolutions =
     fold (add_episode flt (set (map (flag_join flt) resolutions))) flags []"

section \<open>Flags and their resolutions\<close>

definition subject_ref_for :: "divergence \<Rightarrow> string \<Rightarrow> string" where
  "subject_ref_for d ep = divergence_prefix @ dv_kind d @ '':'' @ dv_ticker d @ '':'' @ ep"

definition flag_key_for :: "string \<Rightarrow> string \<Rightarrow> string" where
  "flag_key_for subject sev = ''flag:'' @ subject @ '':'' @ sev"

definition resolution_key_for :: "string \<Rightarrow> string \<Rightarrow> string" where
  "resolution_key_for subject sev = ''resolution:'' @ flag_key_for subject sev"

definition flag_reason :: "gnode \<Rightarrow> string \<Rightarrow> divergence \<Rightarrow> string" where
  "flag_reason snapshot sev d =
     (if sev = ''warn'' then ''Broker position divergence at run start (''
      else ''Divergence survived a full run without adoption ('')
     @ gn_key snapshot @ ''):'' @ [CHR 0x0A] @ ''- '' @ divergence_text d"

definition flag_props_for :: "timestamp \<Rightarrow> string \<Rightarrow> string \<Rightarrow> gnode \<Rightarrow> divergence \<Rightarrow> props" where
  "flag_props_for now subject sev snapshot d =
     [(''subject_ref'', PStr subject), (''severity'', PStr sev),
      (''reason'', PStr (flag_reason snapshot sev d)), (''status'', PStr ''pending''),
      (''created_at'', PStr (isoformat now))]"

text \<open>A spent key is never rewritten; the answer says whether a flag was written, and the keys then.\<close>

definition write_divergence_flag ::
  "('w, 'x) graph_env_scheme \<Rightarrow> string list \<Rightarrow> string \<Rightarrow> string \<Rightarrow> gnode \<Rightarrow> divergence
   \<Rightarrow> ('w, bool \<times> string list) step" where
  "write_divergence_flag env written subject sev snapshot d w =
     (let key = flag_key_for subject sev
      in if key \<in> set written then step_return (False, written) w
         else step_bind (\<lambda>w. gp_merge (ge_port env) (ge_wall env w) w ''Flag'' key
                (flag_props_for (ge_wall env w) subject sev snapshot d) 1)
              (\<lambda>_. step_return (True, key # written)) w)"

definition resolution_props_for :: "timestamp \<Rightarrow> string \<Rightarrow> string \<Rightarrow> gnode option \<Rightarrow> string \<Rightarrow> props" where
  "resolution_props_for now subject sev snapshot reason =
     [(''subject_ref'', PStr subject), (''severity'', PStr sev), (''resolved_at'', PStr (isoformat now)),
      (''resolved_by'', PStr ''run-start-reconciliation''), (''resolution_reason'', PStr reason)]
     @ (case snapshot of None \<Rightarrow> [] | Some n \<Rightarrow> [(''resolving_snapshot_key'', PStr (gn_key n))])"

definition append_resolution ::
  "('w, 'x) graph_env_scheme \<Rightarrow> gnode \<Rightarrow> string \<times> string \<Rightarrow> gnode option \<Rightarrow> string \<Rightarrow> ('w, unit) step" where
  "append_resolution env flag join snapshot reason =
     (case join of (subject, sev) \<Rightarrow>
        step_bind (\<lambda>w. gp_merge (ge_port env) (ge_wall env w) w ''FlagResolution'' (resolution_key_for subject sev)
               (resolution_props_for (ge_wall env w) subject sev snapshot reason) 1)
          (\<lambda>resolution w. gp_edge (ge_port env) (ge_wall env w) w resolution flag ''RESOLVES'' None))"

definition close_flag ::
  "('w, 'x) graph_env_scheme \<Rightarrow> gnode \<Rightarrow> string \<Rightarrow> gnode \<Rightarrow> ('w, unit) step" where
  "close_flag env snapshot reason flag =
     append_resolution env flag (flag_join (ge_float_text env) flag) (Some snapshot) reason"

definition superseded_reason :: string where
  "superseded_reason = ''superseded by critical''"

definition gone_reason :: string where
  "gone_reason = ''divergence no longer present''"

text \<open>The snapshot that opened an episode is no run it survived.\<close>

definition escalate_flag ::
  "('w, 'x) graph_env_scheme \<Rightarrow> string list \<Rightarrow> gnode \<Rightarrow> divergence \<Rightarrow> gnode \<Rightarrow> ('w, bool \<times> string list) step" where
  "escalate_flag env written snapshot d warn =
     step_bind (step_res (read_str (ge_float_text env) warn ''subject_ref'')) (\<lambda>subject.
       if subject = subject_ref_for d (gn_key snapshot) then step_return (False, written)
       else write_divergence_flag env written subject ''critical'' snapshot d)"

definition advance_episode ::
  "('w, 'x) graph_env_scheme \<Rightarrow> string list \<Rightarrow> gnode \<Rightarrow> divergence \<Rightarrow> episode \<Rightarrow> ('w, string list) step" where
  "advance_episode env written snapshot d ep =
     (case (dict_get ep ''warn'', dict_get ep ''critical'') of
        (None, None) \<Rightarrow>
          step_bind (write_divergence_flag env written (subject_ref_for d (gn_key snapshot)) ''warn'' snapshot d)
            (\<lambda>(wrote, written'). step_return written')
      | (None, Some critical) \<Rightarrow> step_return written
      | (Some warn, Some critical) \<Rightarrow>
          step_bind (close_flag env snapshot superseded_reason warn) (\<lambda>_. step_return written)
      | (Some warn, None) \<Rightarrow>
          step_bind (escalate_flag env written snapshot d warn) (\<lambda>(wrote, written').
            if \<not> wrote then step_return written'
            else step_bind (close_flag env snapshot superseded_reason warn) (\<lambda>_. step_return written')))"

fun advance_episodes ::
  "('w, 'x) graph_env_scheme \<Rightarrow> gnode \<Rightarrow> divergence list \<Rightarrow> episodes \<Rightarrow> string list \<Rightarrow> ('w, episodes) step" where
  "advance_episodes env snapshot [] eps written = step_return eps"
| "advance_episodes env snapshot (d # ds) eps written =
     step_bind (advance_episode env written snapshot d
         (case dict_get eps (divergence_id d) of None \<Rightarrow> [] | Some e \<Rightarrow> e)) (\<lambda>written'.
       advance_episodes env snapshot ds (dict_pop (divergence_id d) eps) written')"

definition record_divergences ::
  "('w, 'x) graph_env_scheme \<Rightarrow> gnode \<Rightarrow> divergence list \<Rightarrow> ('w, unit) step" where
  "record_divergences env snapshot ds w =
     (let flags = gp_list (ge_port env) w ''Flag'';
          eps = open_episodes (ge_float_text env) flags (gp_list (ge_port env) w ''FlagResolution'')
      in step_bind (advance_episodes env snapshot ds eps (map gn_key flags)) (\<lambda>rest.
           step_each (close_flag env snapshot gone_reason) (concat (map dict_values (dict_values rest)))) w)"

text \<open>Flags from before the episodes are retired by a script, never by a run.\<close>

definition resolve_legacy_flag ::
  "('w, 'x) graph_env_scheme \<Rightarrow> string \<Rightarrow> gnode \<Rightarrow> ('w, string list) step" where
  "resolve_legacy_flag env reason n w =
     (case flag_join (ge_float_text env) n of (subject, sev) \<Rightarrow>
        if \<not> starts_with subject legacy_prefix then step_return [] w
        else case gp_get (ge_port env) w ''Flag'' (flag_key_for subject sev) of
               None \<Rightarrow> step_return [] w
             | Some flag \<Rightarrow>
                 if gp_get (ge_port env) w ''FlagResolution'' (''resolution:'' @ gn_key flag) \<noteq> None
                 then step_return [] w
                 else step_bind (append_resolution env flag (subject, sev) None reason)
                        (\<lambda>_. step_return [subject]) w)"

fun resolve_legacy_all ::
  "('w, 'x) graph_env_scheme \<Rightarrow> string \<Rightarrow> gnode list \<Rightarrow> ('w, string list) step" where
  "resolve_legacy_all env reason [] = step_return []"
| "resolve_legacy_all env reason (n # ns) =
     step_bind (resolve_legacy_flag env reason n) (\<lambda>a.
     step_bind (resolve_legacy_all env reason ns) (\<lambda>b. step_return (a @ b)))"

definition resolve_legacy_flags ::
  "('w, 'x) graph_env_scheme \<Rightarrow> string \<Rightarrow> ('w, string list) step" where
  "resolve_legacy_flags env reason w =
     resolve_legacy_all env reason (gp_list (ge_port env) w ''Flag'') w"

end
