(* ===== verification/RunStart.thy ===== *)
theory RunStart
  imports ExecWorld DivergenceFlags
begin

text \<open>
  What a run start learns of orders still pending in the graph: the status reads
  (\<open>agents/execution/order_status_store.py\<close>), what each appends to its Fill
  (\<open>broker_status_refresh.py\<close>), the realized profit of a sale (\<open>realized_pnl.py\<close>), the remainder a
  broker did not execute (\<open>partial_fill.py\<close>) and the refresh itself (\<open>reconciliation_store.py\<close>).
\<close>

section \<open>Status reads\<close>

definition order_status_props :: "timestamp \<Rightarrow> gnode \<Rightarrow> broker_fill \<Rightarrow> props" where
  "order_status_props now n f =
     [(''fill_key'', PStr (gn_key n)), (''ticker'', PStr (bf_ticker f)), (''quantity'', PInt (bf_quantity f)),
      (''filled_quantity'', none_or PInt (bf_filled_quantity f)), (''broker_order_id'', PStr (bf_order_id f)),
      (''status'', PStr (status_text (bf_status f))), (''reason'', none_or PStr (bf_reason f)),
      (''price_cents'', PInt (money_to_cents (bf_price f))), (''created_at'', PStr (isoformat now))]"

definition write_order_status ::
  "('g, 'b, 'x) pull_env_scheme \<Rightarrow> gnode \<Rightarrow> broker_fill \<Rightarrow> (('g, 'b) exec_state, gnode) step" where
  "write_order_status env n f =
     step_bind (world_now env) (\<lambda>now.
     step_bind (px_merge env ''BrokerOrderStatus'' (''broker-order-status:'' @ gn_key n @ '':'' @ isoformat now)
         (order_status_props now n f)) (\<lambda>status.
     step_bind (px_edge env status n ''REFRESHES'') (\<lambda>_. step_return status)))"

section \<open>What a read appends to a Fill\<close>

text \<open>The only status advance there is: a partial fill completes.\<close>

definition completes_partial_fill :: "gnode \<Rightarrow> broker_fill \<Rightarrow> bool" where
  "completes_partial_fill n f \<longleftrightarrow> prop_is (gn_props n) ''broker_status'' ''partial'' \<and> bf_status f = Filled"

definition has_prop :: "gnode \<Rightarrow> string \<Rightarrow> bool" where
  "has_prop n name \<longleftrightarrow> dict_get (gn_props n) name \<noteq> None"

definition should_write_status :: "gnode \<Rightarrow> broker_fill \<Rightarrow> bool" where
  "should_write_status n f \<longleftrightarrow> \<not> has_prop n ''broker_status'' \<or> completes_partial_fill n f"

definition should_write_price :: "gnode \<Rightarrow> broker_fill \<Rightarrow> bool" where
  "should_write_price n f \<longleftrightarrow>
     bf_status f \<in> {Filled, Partial} \<and> (\<not> has_prop n ''broker_price_cents'' \<or> completes_partial_fill n f)"

definition exit_price_cents :: "gnode \<Rightarrow> broker_fill \<Rightarrow> int \<Rightarrow> int res" where
  "exit_price_cents n f current =
     (if completes_partial_fill n f then Inr current
      else py_int (get_or (gn_props n) ''broker_price_cents'' (PInt current)))"

definition broker_status_props :: "timestamp \<Rightarrow> gnode \<Rightarrow> broker_fill \<Rightarrow> int \<Rightarrow> props" where
  "broker_status_props now n f current =
     (if should_write_status n f
      then [(''broker_status'', PStr (status_text (bf_status f))),
            (''broker_status_broker_order_id'', PStr (bf_order_id f)),
            (''broker_status_refreshed_at'', PStr (isoformat now))]
           @ (if bf_status f = Filled then [(''broker_filled_quantity'', PInt (executed_quantity f))] else [])
      else [])
     @ (if should_write_price n f then [(''broker_price_cents'', PInt current)] else [])"

section \<open>Realized profit\<close>

definition needs_realized_pnl :: "gnode \<Rightarrow> broker_fill \<Rightarrow> bool" where
  "needs_realized_pnl n f \<longleftrightarrow>
     bf_side f = Sell \<and> bf_status f \<in> {Filled, Partial}
     \<and> (\<not> has_prop n ''realized_pnl_cents'' \<or> completes_partial_fill n f)
     \<and> \<not> has_prop n ''pnl_unresolved_at''"

definition position_ref_from_order ::
  "('g, 'b, 'x) pull_env_scheme \<Rightarrow> gnode \<Rightarrow> (('g, 'b) exec_state, string option) step" where
  "position_ref_from_order env n =
     (case truthy_str (data_get (gn_props n) ''position_ref'') of
        Some ref \<Rightarrow> step_return (Some ref)
      | None \<Rightarrow>
          step_bind (on_graph (descend (genv env) n ''EXECUTES'')) (\<lambda>orders.
            step_return (case orders of [] \<Rightarrow> None
              | ord # _ \<Rightarrow> truthy_str (data_get (gn_props ord) ''position_ref''))))"

text \<open>
  A sale of shares bought at one price has one entry price; a sale of all lots sums over them; anything
  between has no entry price.
\<close>

definition pnl_from_basis :: "position_basis option \<Rightarrow> int \<Rightarrow> int \<Rightarrow> int option" where
  "pnl_from_basis basis quantity exit_cents =
     (case basis of
        None \<Rightarrow> None
      | Some b \<Rightarrow>
          if quantity \<le> 0 \<or> basis_quantity b < quantity then None
          else case remdups (map pbl_opened_price_cents (pbs_lots b)) of
                 [entry] \<Rightarrow> Some (realized_pnl_cents exit_cents entry quantity)
               | _ \<Rightarrow>
                   if quantity = basis_quantity b
                   then Some (sum_list (map (\<lambda>l. realized_pnl_cents exit_cents (pbl_opened_price_cents l)
                                                   (pbl_quantity l)) (pbs_lots b)))
                   else None)"

definition record_unresolved ::
  "('g, 'b, 'x) pull_env_scheme \<Rightarrow> gnode \<Rightarrow> broker_fill \<Rightarrow> string \<Rightarrow> (('g, 'b) exec_state, props) step" where
  "record_unresolved env n f reason =
     step_bind (raise_fault env ''agents.execution.realized_pnl'' ''refresh_pending_fills'' Error
         ''UnresolvedEntryBasis''
         (''realized PnL skipped for '' @ bf_ticker f @ '' sell fill '' @ gn_key n @ '': '' @ reason)
         [(''fill_key'', PStr (gn_key n)), (''ticker'', PStr (bf_ticker f)),
          (''broker_order_id'', PStr (bf_order_id f)), (''quantity'', PInt (bf_quantity f))]) (\<lambda>_.
     step_bind (world_now env) (\<lambda>now. step_return [(''pnl_unresolved_at'', PStr (isoformat now))]))"

definition realized_pnl_props ::
  "('g, 'b, 'x) pull_env_scheme \<Rightarrow> gnode \<Rightarrow> broker_fill \<Rightarrow> int \<Rightarrow> (('g, 'b) exec_state, props) step" where
  "realized_pnl_props env n f exit_cents =
     (if \<not> needs_realized_pnl n f then step_return []
      else step_bind (position_ref_from_order env n) (\<lambda>found.
        case found of
          None \<Rightarrow> record_unresolved env n f ''missing position_ref''
        | Some ref \<Rightarrow>
            step_bind (read_graph (\<lambda>g. position_basis_for_ref (xe_float_text env) (px_digest env)
                (xe_port env) g ref (bf_ticker f))) (\<lambda>basis_r.
            step_bind (step_res basis_r) (\<lambda>basis.
              case pnl_from_basis basis (executed_quantity f) exit_cents of
                None \<Rightarrow> record_unresolved env n f ''entry basis unresolved''
              | Some pnl \<Rightarrow> step_return [(''realized_pnl_cents'', PInt pnl)]))))"

section \<open>The remainder\<close>

definition report_unfilled_remainder ::
  "('g, 'b, 'x) pull_env_scheme \<Rightarrow> gnode \<Rightarrow> broker_fill \<Rightarrow> (('g, 'b) exec_state, unit) step" where
  "report_unfilled_remainder env n f =
     step_bind (step_res (py_int (PStr (py_str (xe_float_text env) (get_or (gn_props n) ''quantity'' (PInt 0))))))
       (\<lambda>ordered.
        let filled = executed_quantity f
        in if bf_status f \<noteq> Filled \<or> ordered \<le> filled then step_return ()
           else raise_fault env ''agents.execution.partial_fill'' ''refresh_pending_fills'' Warning
             ''UnfilledRemainder''
             (''filled '' @ str_int filled @ '' of '' @ str_int ordered @ '' '' @ bf_ticker f @ '' side=''
               @ side_text (bf_side f) @ ''; the broker ended the rest ('' @ opt_text (bf_order_status f)
               @ '') broker_order_id='' @ bf_order_id f @ '' client_order_id='' @ bf_key f)
             [(''fill_key'', PStr (gn_key n)), (''ticker'', PStr (bf_ticker f)), (''ordered'', PInt ordered),
              (''filled'', PInt filled), (''broker_order_status'', none_or PStr (bf_order_status f))])"

section \<open>The refresh\<close>

definition broker_fill_for :: "(rat \<Rightarrow> string) \<Rightarrow> broker_fill list \<Rightarrow> gnode \<Rightarrow> broker_fill option" where
  "broker_fill_for flt fs n =
     (let by_key = fold (\<lambda>f. dict_set (bf_key f) f) fs [];
          by_order_id = fold (\<lambda>f. dict_set (bf_order_id f) f) (filter (\<lambda>f. bf_order_id f \<noteq> []) fs) []
      in case dict_get by_key (broker_idempotency_key n) of
           Some f \<Rightarrow> Some f
         | None \<Rightarrow> dict_get by_order_id (py_str flt (get_or (gn_props n) ''broker_order_id'' (PStr []))))"

definition refresh_fill ::
  "('g, 'b, 'x) pull_env_scheme \<Rightarrow> broker_fill list \<Rightarrow> gnode \<Rightarrow> (('g, 'b) exec_state, unit) step" where
  "refresh_fill env fs n =
     (if \<not> awaits_broker (xe_float_text env) n then step_return ()
      else case broker_fill_for (xe_float_text env) fs n of
             None \<Rightarrow> step_return ()
           | Some f \<Rightarrow>
               step_bind (write_order_status env n f) (\<lambda>_.
               if bf_status f = Pending then step_return ()
               else
                 let current = money_to_cents (bf_price f) in
                 step_bind (step_res (exit_price_cents n f current)) (\<lambda>exit_cents.
                 step_bind (world_now env) (\<lambda>now.
                 step_bind (realized_pnl_props env n f exit_cents) (\<lambda>pnl.
                 step_bind (let p = dict_update (broker_status_props now n f current) pnl
                            in if p = [] then step_return () else step_forget (px_merge env ''Fill'' (gn_key n) p))
                   (\<lambda>_. report_unfilled_remainder env n f))))))"

definition refresh_pending_fills ::
  "('g, 'b, 'x) pull_env_scheme \<Rightarrow> broker_fill list \<Rightarrow> gnode list \<Rightarrow> (('g, 'b) exec_state, unit) step" where
  "refresh_pending_fills env fs fills = step_each (refresh_fill env fs) fills"

text \<open>
  The reconciliation a run starts with (\<open>agents/execution/reconciliation.py\<close>, the snapshot of
  \<open>reconciliation_store.py\<close> and \<open>snapshot_account.py\<close>): pending fills are refreshed, the broker's
  holdings and account are written as a snapshot, stale when the broker cannot be read, and the
  divergences of a fresh one are flagged.
\<close>

section \<open>The snapshot\<close>

definition account_snapshot_props :: "broker_account option \<Rightarrow> string option \<Rightarrow> props" where
  "account_snapshot_props account stale_reason =
     (case account of
        None \<Rightarrow> (''account_status'', PStr ''stale'')
          # (case stale_reason of None \<Rightarrow> [] | Some r \<Rightarrow> if r = [] then [] else [(''account_stale_reason'', PStr r)])
      | Some a \<Rightarrow>
          [(''account_status'', PStr ''fresh''), (''account_cash_cents'', PInt (ba_cash_cents a)),
           (''account_equity_cents'', PInt (ba_equity_cents a)),
           (''account_buying_power_cents'', PInt (ba_buying_power_cents a))])"

definition holding_props :: "broker_position \<Rightarrow> pyval" where
  "holding_props p =
     PDict [(''ticker'', PStr (bp_ticker p)), (''quantity'', PInt (bp_quantity p)),
            (''avg_entry_cents'', PInt (bp_avg_entry_cents p)),
            (''market_value_cents'', PInt (bp_market_value_cents p))]"

definition snapshot_props ::
  "timestamp \<Rightarrow> string \<Rightarrow> broker_position list \<Rightarrow> broker_account option \<Rightarrow> string \<Rightarrow> string option \<Rightarrow> props" where
  "snapshot_props now run_id holdings account status stale_reason =
     [(''run_id'', PStr run_id), (''status'', PStr status), (''created_at'', PStr (isoformat now)),
      (''holding_count'', PInt (int (length holdings))), (''holdings'', PList (map holding_props holdings))]
     @ account_snapshot_props account stale_reason
     @ (case stale_reason of None \<Rightarrow> [] | Some r \<Rightarrow> [(''stale_reason'', PStr r)])"

definition write_snapshot ::
  "('g, 'b, 'x) pull_env_scheme \<Rightarrow> string \<Rightarrow> broker_position list \<Rightarrow> broker_account option \<Rightarrow> string
   \<Rightarrow> string option \<Rightarrow> (('g, 'b) exec_state, gnode) step" where
  "write_snapshot env run_id holdings account status stale_reason =
     step_bind (world_now env) (\<lambda>now.
       px_merge env ''BrokerPositionSnapshot'' (''broker-position-snapshot:'' @ run_id @ '':'' @ isoformat now)
         (snapshot_props now run_id holdings account status stale_reason))"

section \<open>Reading the broker\<close>

definition read_fault ::
  "('g, 'b, 'x) pull_env_scheme \<Rightarrow> string \<Rightarrow> (('g, 'b) exec_state, unit) step" where
  "read_fault env message =
     step_forget (bounded env ''agents.execution.reconciliation'' ''reconcile_run_start''
       (step_res (Inl (RuntimeError message) :: unit res)))"

text \<open>A read that raises is a fault and answers its reason.\<close>

definition reading ::
  "('g, 'b, 'x) pull_env_scheme \<Rightarrow> string \<Rightarrow> (('g, 'b) exec_state, 'a) step
   \<Rightarrow> (('g, 'b) exec_state, string + 'a) step" where
  "reading env what m =
     attempting (step_bind m (\<lambda>x. step_return (Inr x))) (\<lambda>e.
       let reason = ''broker '' @ what @ '' read failed: '' @ exn_type e
       in step_bind (read_fault env reason) (\<lambda>_. step_return (Inl reason)))"

section \<open>Reconciliation\<close>

definition reconcile_run_start ::
  "('g, 'b, 'x) pull_env_scheme \<Rightarrow> string \<Rightarrow> (('g, 'b) exec_state, gnode option) step" where
  "reconcile_run_start env run_id =
     step_bind (read_graph (\<lambda>g. gp_list (xe_port env) g ''Fill'')) (\<lambda>fills.
     step_bind (reading env ''fills'' (run_start_orders env (waiting_order_refs (xe_float_text env) fills))) (\<lambda>orders.
     step_bind (case orders of Inl r \<Rightarrow> step_return () | Inr fs \<Rightarrow> refresh_pending_fills env fs fills) (\<lambda>_.
     step_bind (reading env ''positions'' (on_broker (px_positions env))) (\<lambda>positions_r.
     case positions_r of
       Inl reason \<Rightarrow>
         step_bind (write_snapshot env run_id [] None ''stale'' (Some reason)) (\<lambda>n. step_return (Some n))
     | Inr positions \<Rightarrow>
         step_bind (reading env ''account'' (on_broker (px_account env))) (\<lambda>account_r.
         case account_r of
           Inl reason \<Rightarrow>
             step_bind (write_snapshot env run_id positions None ''stale'' (Some reason)) (\<lambda>n. step_return (Some n))
         | Inr account \<Rightarrow>
             step_bind (write_snapshot env run_id positions (Some account) ''fresh'' None) (\<lambda>snapshot.
             step_bind (read_graph (\<lambda>g. position_divergences (xe_float_text env) (xe_port env) g positions)) (\<lambda>ds_r.
             step_bind (step_res ds_r) (\<lambda>ds.
             step_bind (on_graph (record_divergences (genv env) snapshot ds)) (\<lambda>_.
               step_return (Some snapshot))))))))))"

end
