(* ===== verification/DropSweep.thy ===== *)
theory DropSweep
  imports ExecWorld PositionBook
begin

text \<open>
  The sweep at the head of a run (\<open>agents/execution/drop_sweep.py\<close>, \<open>drop_sweep_ack.py\<close>,
  \<open>drop_sweep_reads.py\<close>, \<open>drop_sweep_records.py\<close>): orders an earlier run left pending at the broker
  are cancelled and their decisions marked as dropped.  Stops, orders of the current run and orders
  that are not the pipeline's are left alone.

  The touched runs are a set in the code, marked in no fixed order; here they are marked in the order
  they were touched.
\<close>

definition drop_reason :: string where
  "drop_reason = ''unfilled at session end''"

definition sweep_module :: string where
  "sweep_module = ''agents.execution.drop_sweep''"

definition sweep_capability :: string where
  "sweep_capability = ''drop_unfilled_orders''"

section \<open>What a sweep holds\<close>

record sweep_reads =
  swr_fills :: "(string, gnode) dict"
  swr_stops :: "broker_stop_fact list"

definition read_sweep :: "('g, 'b, 'x) pull_env_scheme \<Rightarrow> 'g \<Rightarrow> sweep_reads res" where
  "read_sweep env g =
     (let fills = fold (\<lambda>n. dict_set (gn_key n) n) (gp_list (xe_port env) g ''Fill'') []
      in res_bind (broker_stop_orders (xe_float_text env) (xe_port env) g) (\<lambda>stops.
           Inr \<lparr>swr_fills = fills, swr_stops = stops\<rparr>))"

definition sweep_latest_fill :: "sweep_reads \<Rightarrow> string \<Rightarrow> gnode option" where
  "sweep_latest_fill reads key = latest_fill_attempt_in (dict_values (swr_fills reads)) key"

definition reread_fill :: "('g, 'b, 'x) pull_env_scheme \<Rightarrow> gnode \<Rightarrow> sweep_reads \<Rightarrow> 'g \<Rightarrow> sweep_reads" where
  "reread_fill env n reads g =
     reads\<lparr>swr_fills := dict_set (gn_key n)
       (case gp_get (xe_port env) g ''Fill'' (gn_key n) of None \<Rightarrow> n | Some m \<Rightarrow> m) (swr_fills reads)\<rparr>"

section \<open>Orders without a Fill\<close>

definition untracked_order_ack_key :: "broker_fill \<Rightarrow> string" where
  "untracked_order_ack_key f = ''broker-order-status:untracked:'' @ bf_key f @ '':'' @ bf_order_id f"

definition has_untracked_order_ack :: "('g, 'b, 'x) pull_env_scheme \<Rightarrow> 'g \<Rightarrow> broker_fill \<Rightarrow> bool" where
  "has_untracked_order_ack env g f \<longleftrightarrow>
     gp_get (xe_port env) g ''BrokerOrderStatus'' (untracked_order_ack_key f) \<noteq> None"

definition untracked_ack_props :: "timestamp \<Rightarrow> broker_fill \<Rightarrow> string \<Rightarrow> props" where
  "untracked_ack_props now f drop_status =
     [(''broker_idempotency_key'', PStr (bf_key f)), (''ticker'', PStr (bf_ticker f)),
      (''side'', PStr (side_text (bf_side f))), (''quantity'', PInt (bf_quantity f)),
      (''broker_order_id'', PStr (bf_order_id f)), (''status'', PStr drop_status),
      (''reason'', PStr ''missing Fill chain acknowledged once''),
      (''lineage_status'', PStr ''missing_fill_ack''),
      (''order_type'', PStr (case bf_order_type f of None \<Rightarrow> [] | Some t \<Rightarrow> t)),
      (''created_at'', PStr (isoformat now))]"

definition record_untracked_order_ack ::
  "('g, 'b, 'x) pull_env_scheme \<Rightarrow> broker_fill \<Rightarrow> string \<Rightarrow> (('g, 'b) exec_state, unit) step" where
  "record_untracked_order_ack env f drop_status =
     step_bind (read_graph (\<lambda>g. has_untracked_order_ack env g f)) (\<lambda>known.
     step_bind (if known then step_return ()
        else step_bind (world_now env) (\<lambda>now.
          step_forget (px_merge env ''BrokerOrderStatus'' (untracked_order_ack_key f)
            (untracked_ack_props now f drop_status)))) (\<lambda>_.
     raise_fault env sweep_module sweep_capability Error ''UntrackedOpenOrder''
       (''open order '' @ bf_key f @ '' for '' @ bf_ticker f
         @ '' has no Fill chain; durable drop lineage was not recorded'') []))"

section \<open>Records\<close>

definition record_dropped_fault ::
  "('g, 'b, 'x) pull_env_scheme \<Rightarrow> broker_fill \<Rightarrow> (('g, 'b) exec_state, unit) step" where
  "record_dropped_fault env f =
     raise_fault env sweep_module sweep_capability Warning ''DroppedDecision''
       (''dropped unfilled order '' @ bf_ticker f @ '' side='' @ side_text (bf_side f) @ '' qty=''
         @ str_int (bf_quantity f) @ '' decided_price='' @ xe_float_text env (mny_amount (bf_price f))
         @ '' reason='' @ drop_reason @ '' broker_order_id='' @ bf_order_id f
         @ '' client_order_id='' @ bf_key f) []"

definition drop_status_props :: "timestamp \<Rightarrow> gnode \<Rightarrow> broker_fill \<Rightarrow> string \<Rightarrow> props" where
  "drop_status_props now n f drop_status =
     [(''fill_key'', PStr (gn_key n)), (''ticker'', PStr (bf_ticker f)), (''quantity'', PInt (bf_quantity f)),
      (''broker_order_id'', PStr (bf_order_id f)), (''status'', PStr drop_status),
      (''reason'', PStr drop_reason), (''created_at'', PStr (isoformat now))]"

definition record_drop ::
  "('g, 'b, 'x) pull_env_scheme \<Rightarrow> broker_fill \<Rightarrow> gnode option \<Rightarrow> string \<Rightarrow> (('g, 'b) exec_state, bool) step" where
  "record_drop env f fill drop_status =
     (case fill of
        None \<Rightarrow> step_bind (record_untracked_order_ack env f drop_status) (\<lambda>_. step_return False)
      | Some n \<Rightarrow>
          step_bind (world_now env) (\<lambda>now.
          step_bind (px_merge env ''Fill'' (gn_key n)
              [(''drop_reason'', PStr drop_reason), (''dropped_at'', PStr (isoformat now))]) (\<lambda>_.
          step_bind (px_merge env ''BrokerOrderStatus''
              (''broker-order-status:'' @ gn_key n @ '':drop:'' @ isoformat now)
              (drop_status_props now n f drop_status)) (\<lambda>status.
          step_bind (px_edge env status n ''REFRESHES'') (\<lambda>_.
          step_bind (record_dropped_fault env f) (\<lambda>_. step_return True))))))"

definition py_bool_text :: "bool \<Rightarrow> string" where
  "py_bool_text b = (if b then ''True'' else ''False'')"

definition record_stop_mismatch ::
  "('g, 'b, 'x) pull_env_scheme \<Rightarrow> broker_fill \<Rightarrow> bool \<Rightarrow> bool \<Rightarrow> (('g, 'b) exec_state, unit) step" where
  "record_stop_mismatch env f broker_stop graph_stop =
     raise_fault env sweep_module sweep_capability Warning ''BrokerStopIdentityMismatch''
       (''stop identity mismatch for '' @ bf_key f @ '': broker_stop='' @ py_bool_text broker_stop
         @ '' graph_stop='' @ py_bool_text graph_stop @ ''; order exempted'')
       [(''idempotency_key'', PStr (bf_key f)), (''broker_order_id'', PStr (bf_order_id f)),
        (''order_type'', none_or PStr (bf_order_type f)),
        (''broker_status'', PStr (broker_order_lifecycle_status f)),
        (''broker_stop'', PBool broker_stop), (''graph_stop'', PBool graph_stop)]"

text \<open>The run a fill was executed by: the first order's first decision run's first execution.\<close>

definition execution_run_for_fill ::
  "('g, 'b, 'x) pull_env_scheme \<Rightarrow> gnode \<Rightarrow> ('g, gnode option) step" where
  "execution_run_for_fill env n =
     step_bind (descend (genv env) n ''EXECUTES'') (\<lambda>orders.
       let first_run = (\<lambda>ord rest. step_bind (descend (genv env) ord ''EMITTED_BY'') (\<lambda>runs.
             case runs of
               [] \<Rightarrow> rest
             | r # _ \<Rightarrow> step_bind (descend (genv env) r ''EXECUTED_BY'') (\<lambda>xs.
                 step_return (case xs of [] \<Rightarrow> None | x # _ \<Rightarrow> Some x))))
       in foldr first_run orders (step_return None))"

text \<open>The touched runs by key, each once.\<close>

definition remember_execution_run ::
  "('g, 'b, 'x) pull_env_scheme \<Rightarrow> gnode \<Rightarrow> string list \<Rightarrow> (('g, 'b) exec_state, string list) step" where
  "remember_execution_run env n touched =
     step_bind (on_graph (execution_run_for_fill env n)) (\<lambda>r.
       step_return (case r of None \<Rightarrow> touched
         | Some x \<Rightarrow> if gn_key x \<in> set touched then touched else touched @ [gn_key x]))"

fun gather :: "('a \<Rightarrow> ('w, 'b list) step) \<Rightarrow> 'a list \<Rightarrow> ('w, 'b list) step" where
  "gather f [] = step_return []"
| "gather f (x # xs) = step_bind (f x) (\<lambda>a. step_bind (gather f xs) (\<lambda>b. step_return (a @ b)))"

definition fills_for_execution_run ::
  "('g, 'b, 'x) pull_env_scheme \<Rightarrow> gnode \<Rightarrow> ('g, gnode list) step" where
  "fills_for_execution_run env x =
     step_bind (ascend (genv env) x ''EXECUTED_BY'') (\<lambda>runs.
     step_bind (gather (\<lambda>r. ascend (genv env) r ''EMITTED_BY'') runs) (\<lambda>orders.
       gather (\<lambda>ord. ascend (genv env) ord ''EXECUTES'') orders))"

definition is_dropped_fill :: "gnode \<Rightarrow> bool" where
  "is_dropped_fill n \<longleftrightarrow> prop_is (gn_props n) ''drop_reason'' drop_reason"

definition mark_execution_run ::
  "('g, 'b, 'x) pull_env_scheme \<Rightarrow> string \<Rightarrow> (('g, 'b) exec_state, unit) step" where
  "mark_execution_run env key =
     step_bind (read_graph (\<lambda>g. gp_get (xe_port env) g ''ExecutionRun'' key)) (\<lambda>run.
       case run of
         None \<Rightarrow> step_return ()
       | Some x \<Rightarrow>
           if dict_get (gn_props x) ''dropped'' \<noteq> None then step_return ()
           else step_bind (on_graph (fills_for_execution_run env x)) (\<lambda>fills.
                  step_forget (px_merge env ''ExecutionRun'' key
                    [(''dropped'', PInt (int (length (filter is_dropped_fill fills))))])))"

section \<open>The sweep\<close>

definition count_char :: "char \<Rightarrow> string \<Rightarrow> nat" where
  "count_char c s = length (filter (\<lambda>d. d = c) s)"

definition pipeline_owned :: "broker_fill \<Rightarrow> bool" where
  "pipeline_owned f \<longleftrightarrow> starts_with (bf_key f) ''exit:'' \<or> 2 \<le> count_char CHR '':'' (bf_key f)"

definition is_current_run :: "broker_fill \<Rightarrow> gnode option \<Rightarrow> string \<Rightarrow> bool" where
  "is_current_run f fill run_id \<longleftrightarrow>
     starts_with (bf_key f) (run_id @ '':'')
     \<or> (case fill of None \<Rightarrow> False | Some n \<Rightarrow> prop_is (gn_props n) ''source_run_id'' run_id)"

definition tracked_as_stop :: "sweep_reads \<Rightarrow> broker_fill \<Rightarrow> bool" where
  "tracked_as_stop reads f \<longleftrightarrow>
     list_ex (\<lambda>stop. bf_key f = bso_key stop \<or> bf_order_id f = bso_order_id stop) (swr_stops reads)"

definition is_stop_order ::
  "('g, 'b, 'x) pull_env_scheme \<Rightarrow> sweep_reads \<Rightarrow> broker_fill \<Rightarrow> (('g, 'b) exec_state, bool) step" where
  "is_stop_order env reads f =
     (let broker_stop = is_broker_stop_order f; graph_stop = tracked_as_stop reads f
      in step_bind (if broker_stop \<noteq> graph_stop then record_stop_mismatch env f broker_stop graph_stop
                    else step_return ()) (\<lambda>_. step_return (broker_stop \<or> graph_stop)))"

definition skip_order ::
  "('g, 'b, 'x) pull_env_scheme \<Rightarrow> sweep_reads \<Rightarrow> broker_fill \<Rightarrow> gnode option \<Rightarrow> string
   \<Rightarrow> (('g, 'b) exec_state, bool) step" where
  "skip_order env reads f fill run_id =
     (if \<not> pipeline_owned f then step_return True
      else if (case fill of None \<Rightarrow> False | Some n \<Rightarrow> is_dropped_fill n) then step_return True
      else if is_current_run f fill run_id then step_return True
      else step_bind (read_graph (\<lambda>g. fill = None \<and> has_untracked_order_ack env g f)) (\<lambda>acked.
             if acked then step_return True else is_stop_order env reads f))"

definition resolved_drop_status :: "broker_fill \<Rightarrow> string" where
  "resolved_drop_status f = normalise_opt (bf_reason f)"

definition is_resolved_drop_status :: "string \<Rightarrow> bool" where
  "is_resolved_drop_status s \<longleftrightarrow> lower s \<in> set resolved_unfilled_statuses"

definition is_resolved_drop :: "broker_fill \<Rightarrow> bool" where
  "is_resolved_drop f \<longleftrightarrow> bf_status f = Rejected \<and> is_resolved_drop_status (resolved_drop_status f)"

definition cancel_order ::
  "('g, 'b, 'x) pull_env_scheme \<Rightarrow> broker_fill \<Rightarrow> (('g, 'b) exec_state, unit) step" where
  "cancel_order env f =
     attempting (on_broker (\<lambda>b. px_cancel env b (bf_order_id f))) (\<lambda>e.
       step_res (Inl (RuntimeError (''cancel failed for '' @ bf_ticker f @ '' broker_order_id=''
         @ bf_order_id f @ '': '' @ exn_text e))))"

text \<open>One order; the answer says whether a drop was recorded, which takes a Fill.\<close>

definition sweep_order ::
  "('g, 'b, 'x) pull_env_scheme \<Rightarrow> string \<Rightarrow> broker_fill \<Rightarrow> sweep_reads
   \<Rightarrow> (('g, 'b) exec_state, bool) step" where
  "sweep_order env run_id f reads =
     (let fill = sweep_latest_fill reads (bf_key f)
      in step_bind (skip_order env reads f fill run_id) (\<lambda>skip.
           if skip then step_return False
           else if is_resolved_drop f then record_drop env f fill (resolved_drop_status f)
           else if bf_status f = Pending
           then step_bind (cancel_order env f) (\<lambda>_. record_drop env f fill ''canceled'')
           else step_return False))"

text \<open>
  The order inside its boundary.  The reads and the touched runs are updated in place, so that the Fill
  stays held afresh when looking up its run raises: the boundary is drawn around the two parts, one
  after the other.
\<close>

type_synonym sweep_acc = "sweep_reads \<times> string list \<times> nat"

definition sweep_bounded ::
  "('g, 'b, 'x) pull_env_scheme \<Rightarrow> (('g, 'b) exec_state, 'a) step \<Rightarrow> (('g, 'b) exec_state, 'a option) step" where
  "sweep_bounded env = bounded env sweep_module sweep_capability"

definition sweep_one ::
  "('g, 'b, 'x) pull_env_scheme \<Rightarrow> string \<Rightarrow> broker_fill \<Rightarrow> sweep_acc \<Rightarrow> (('g, 'b) exec_state, sweep_acc) step" where
  "sweep_one env run_id f acc =
     (case acc of (reads, touched, dropped) \<Rightarrow>
        step_bind (sweep_bounded env (sweep_order env run_id f reads)) (\<lambda>recorded.
          case (recorded, sweep_latest_fill reads (bf_key f)) of
            (Some True, Some n) \<Rightarrow>
              step_bind (read_graph (reread_fill env n reads)) (\<lambda>reads'.
              step_bind (sweep_bounded env (remember_execution_run env n touched)) (\<lambda>t.
                step_return (case t of
                    None \<Rightarrow> (reads', touched, dropped)
                  | Some touched' \<Rightarrow> (reads', touched', dropped + 1))))
          | _ \<Rightarrow> step_return (reads, touched, dropped)))"

fun sweep_all ::
  "('g, 'b, 'x) pull_env_scheme \<Rightarrow> string \<Rightarrow> broker_fill list \<Rightarrow> sweep_acc \<Rightarrow> (('g, 'b) exec_state, sweep_acc) step"
where
  "sweep_all env run_id [] acc = step_return acc"
| "sweep_all env run_id (f # fs) acc = step_bind (sweep_one env run_id f acc) (sweep_all env run_id fs)"

definition sweep_unfilled_orders ::
  "('g, 'b, 'x) pull_env_scheme \<Rightarrow> string \<Rightarrow> (('g, 'b) exec_state, nat) step" where
  "sweep_unfilled_orders env run_id =
     step_bind (sweep_bounded env (run_start_orders env [])) (\<lambda>orders.
       let fs = (case orders of None \<Rightarrow> [] | Some fs \<Rightarrow> fs)
       in if fs = [] then step_return 0
          else step_bind (read_graph (read_sweep env)) (\<lambda>r.
               step_bind (sweep_bounded env (step_res r)) (\<lambda>reads.
                 case reads of
                   None \<Rightarrow> step_return 0
                 | Some rd \<Rightarrow>
                     step_bind (sweep_all env run_id fs (rd, [], 0)) (\<lambda>(rd', touched, dropped).
                     step_bind (sweep_bounded env (step_each (mark_execution_run env) touched)) (\<lambda>_.
                       step_return dropped)))))"

end
