(* ===== verification/PmExecution.thy ===== *)
theory PmExecution
  imports ExecWorld StopPlacement RunStart DropSweep BookSync
begin

text \<open>
  The veto of an approved order set (\<open>agents/execution/deliberation_gate.py\<close>,
  \<open>deliberation_posture.py\<close>, \<open>deliberation_faults.py\<close>, \<open>contracts/run_posture.py\<close>): whether a run
  may be submitted yet, which of its orders survive, and the faults that keep an absent veto from
  looking like a clean run.
\<close>

section \<open>The veto of a run\<close>

datatype deliberation_status =
  Applied | AppliedFailedOpen | NotRequired | Waiting | HeldDegraded | ProceededUnvetoed

fun deliberation_text :: "deliberation_status \<Rightarrow> string" where
  "deliberation_text Applied = ''applied''"
| "deliberation_text AppliedFailedOpen = ''applied_failed_open''"
| "deliberation_text NotRequired = ''not_required''"
| "deliberation_text Waiting = ''waiting''"
| "deliberation_text HeldDegraded = ''held_degraded''"
| "deliberation_text ProceededUnvetoed = ''proceeded_unvetoed''"

definition linked_deliberation ::
  "('g, 'b, 'x) pull_env_scheme \<Rightarrow> gnode \<Rightarrow> ('g, gnode option) step" where
  "linked_deliberation env pm_run =
     step_bind (descend (genv env) pm_run ''DELIBERATED_BY'') (\<lambda>ds.
       step_return (case ds of [] \<Rightarrow> None | d # _ \<Rightarrow> Some d))"

text \<open>A frozenset, which is what the store makes of a set, is not one of the types asked for.\<close>

definition failed_open_of :: "gnode \<Rightarrow> string list" where
  "failed_open_of delib =
     (let items = (case get_or (gn_props delib) ''failed_open_tickers'' (PTuple []) of
                     PList xs \<Rightarrow> xs | PTuple xs \<Rightarrow> xs | PSet xs \<Rightarrow> xs | _ \<Rightarrow> [])
      in List.map_filter (\<lambda>v. case v of PStr s \<Rightarrow> Some s | _ \<Rightarrow> None) items)"

definition failed_open_tickers ::
  "('g, 'b, 'x) pull_env_scheme \<Rightarrow> gnode \<Rightarrow> ('g, string list) step" where
  "failed_open_tickers env pm_run =
     step_bind (linked_deliberation env pm_run) (\<lambda>delib.
       step_return (case delib of None \<Rightarrow> [] | Some d \<Rightarrow> failed_open_of d))"

definition has_buy_intent :: "order_intent_set \<Rightarrow> bool" where
  "has_buy_intent os \<longleftrightarrow> list_ex (\<lambda>i. oi_action i = BuyAction) (ois_approved os)"

definition is_degraded_posture :: "props option \<Rightarrow> bool" where
  "is_degraded_posture p = (case p of None \<Rightarrow> False | Some d \<Rightarrow> prop_is d ''run_posture'' ''degraded'')"

definition is_degraded_run :: "('g, 'b, 'x) pull_env_scheme \<Rightarrow> 'g \<Rightarrow> order_intent_set \<Rightarrow> bool" where
  "is_degraded_run env g os =
     is_degraded_posture (map_option gn_props
       (gp_get (xe_port env) g ''RunRequest'' (''run-request:'' @ ois_run_id os)))"

definition age_seconds :: "('g, 'b, 'x) pull_env_scheme \<Rightarrow> gnode \<Rightarrow> timestamp \<Rightarrow> rat option" where
  "age_seconds env pm_run now =
     (case dict_get (gn_props pm_run) ''created_at'' of
        Some (PStr raw) \<Rightarrow>
          (case px_parse_time env raw of
             None \<Rightarrow> None
           | Some created \<Rightarrow> if ts_offset created = None then None else Some (seconds_between now created))
      | _ \<Rightarrow> None)"

definition grace_expired :: "('g, 'b, 'x) pull_env_scheme \<Rightarrow> gnode \<Rightarrow> timestamp \<Rightarrow> bool" where
  "grace_expired env pm_run now =
     (case age_seconds env pm_run now of None \<Rightarrow> True | Some age \<Rightarrow> of_int (px_grace_seconds env) \<le> age)"

definition deliberation_status_of ::
  "('g, 'b, 'x) pull_env_scheme \<Rightarrow> gnode \<Rightarrow> order_intent_set \<Rightarrow> timestamp
   \<Rightarrow> ('g, deliberation_status) step" where
  "deliberation_status_of env pm_run os now =
     step_bind (linked_deliberation env pm_run) (\<lambda>delib g.
       (g, Inr (case delib of
          Some d \<Rightarrow> if failed_open_of d \<noteq> [] then AppliedFailedOpen else Applied
        | None \<Rightarrow>
            if \<not> has_buy_intent os then NotRequired
            else if is_degraded_run env g os then HeldDegraded
            else if grace_expired env pm_run now then ProceededUnvetoed
            else Waiting)))"

definition is_waiting ::
  "('g, 'b, 'x) pull_env_scheme \<Rightarrow> timestamp \<Rightarrow> gnode \<Rightarrow> ('g, bool) step" where
  "is_waiting env now node =
     (case data_get (gn_props node) ''order_intent_set'' of
        PNone \<Rightarrow> step_return False
      | raw \<Rightarrow>
          step_bind (step_res (px_order_set env raw)) (\<lambda>os.
            step_bind (deliberation_status_of env node os now) (\<lambda>status.
              step_return (status = Waiting))))"

section \<open>Which orders survive\<close>

text \<open>\<open>set(value)\<close> refuses the unhashable: of what a graph holds, a mapping, also inside a tuple.\<close>

fun hashable :: "pyval \<Rightarrow> bool" where
  "hashable (PTuple xs) = list_all hashable xs"
| "hashable (PList xs) = False"
| "hashable (PDict d) = False"
| "hashable (PProxy d) = False"
| "hashable (PSet xs) = False"
| "hashable v = True"

definition set_of_value :: "pyval \<Rightarrow> pyval list res" where
  "set_of_value v =
     res_bind (items_of v) (\<lambda>xs.
       if list_all hashable xs then Inr xs else Inl (TypeError ''unhashable type''))"

definition drop_vetoed ::
  "('g, 'b, 'x) pull_env_scheme \<Rightarrow> gnode \<Rightarrow> order_intent_set \<Rightarrow> ('g, order_intent_set) step" where
  "drop_vetoed env pm_run os =
     step_bind (linked_deliberation env pm_run) (\<lambda>delib.
       (case delib of
          None \<Rightarrow> step_return os
        | Some d \<Rightarrow>
            step_bind (step_res (set_of_value (get_or (gn_props d) ''vetoed_tickers'' (PTuple [])))) (\<lambda>vetoed.
              if vetoed = [] then step_return os
              else step_return (os\<lparr>ois_approved :=
                     filter (\<lambda>i. PStr (oi_ticker i) \<notin> set vetoed) (ois_approved os)\<rparr>))))"

record posture_filtered =
  pfo_order_set :: order_intent_set
  pfo_blocked_count :: nat

definition apply_deliberation_posture ::
  "order_intent_set \<Rightarrow> deliberation_status \<Rightarrow> deliberation_posture \<Rightarrow> posture_filtered" where
  "apply_deliberation_posture os status posture =
     (if status \<noteq> HeldDegraded \<and> (posture \<noteq> Binding \<or> status \<noteq> ProceededUnvetoed)
      then \<lparr>pfo_order_set = os, pfo_blocked_count = 0\<rparr>
      else
        let survivors = filter (\<lambda>i. oi_action i \<noteq> BuyAction) (ois_approved os);
            blocked = length (ois_approved os) - length survivors
        in if blocked = 0 then \<lparr>pfo_order_set = os, pfo_blocked_count = 0\<rparr>
           else \<lparr>pfo_order_set = os\<lparr>ois_approved := survivors\<rparr>, pfo_blocked_count = blocked\<rparr>)"

text \<open>The head of \<open>execute_pm_node\<close>: the status, the tickers reviewed open, the orders left.\<close>

record screened_orders =
  sco_status :: deliberation_status
  sco_failed_open :: "string list"
  sco_filtered :: posture_filtered

definition screen_orders ::
  "('g, 'b, 'x) pull_env_scheme \<Rightarrow> gnode \<Rightarrow> order_intent_set \<Rightarrow> timestamp \<Rightarrow> ('g, screened_orders) step" where
  "screen_orders env node os now =
     step_bind (deliberation_status_of env node os now) (\<lambda>status.
     step_bind (failed_open_tickers env node) (\<lambda>failed_open.
     step_bind (drop_vetoed env node os) (\<lambda>os'.
       step_return \<lparr>sco_status = status, sco_failed_open = failed_open,
         sco_filtered = apply_deliberation_posture os' status (px_posture env)\<rparr>)))"

section \<open>What is recorded\<close>

definition posture_severity :: "deliberation_posture \<Rightarrow> severity" where
  "posture_severity p = (if p = Advisory then Warning else Error)"

definition record_unvetoed_submit ::
  "('g, 'b, 'x) pull_env_scheme \<Rightarrow> string \<Rightarrow> nat \<Rightarrow> nat \<Rightarrow> (('g, 'b) exec_state, unit) step" where
  "record_unvetoed_submit env pm_run_id submitted blocked =
     (let grace = str_int (px_grace_seconds env); posture = posture_text (px_posture env)
      in raise_fault env ''agents.execution.deliberation_faults'' ''execute_pm_node''
           (posture_severity (px_posture env)) ''DeliberationGraceExpired''
           (pm_run_id @ '': posture='' @ posture @ '' submitted '' @ str_nat submitted
             @ '' order(s) and blocked '' @ str_nat blocked
             @ '' buy order(s) with no DeliberationRun after '' @ grace @ ''s'')
           [(''pm_run_id'', PStr pm_run_id), (''submitted'', PInt (int submitted)),
            (''blocked_count'', PInt (int blocked)), (''grace_seconds'', PInt (px_grace_seconds env)),
            (''deliberation_posture'', PStr posture)])"

definition record_degraded_hold ::
  "('g, 'b, 'x) pull_env_scheme \<Rightarrow> string \<Rightarrow> nat \<Rightarrow> nat \<Rightarrow> (('g, 'b) exec_state, unit) step" where
  "record_degraded_hold env pm_run_id submitted blocked =
     raise_fault env ''agents.execution.deliberation_faults'' ''execute_pm_node'' Warning
       ''DeliberationHeldDegraded''
       (pm_run_id @ '': posture=degraded submitted '' @ str_nat submitted @ '' order(s) and held ''
         @ str_nat blocked @ '' buy order(s); no DeliberationRun is expected for this run'')
       [(''pm_run_id'', PStr pm_run_id), (''submitted'', PInt (int submitted)),
        (''blocked_count'', PInt (int blocked)), (''run_posture'', PStr ''degraded'')]"

definition record_failed_open_submit ::
  "('g, 'b, 'x) pull_env_scheme \<Rightarrow> string \<Rightarrow> nat \<Rightarrow> string list \<Rightarrow> (('g, 'b) exec_state, unit) step" where
  "record_failed_open_submit env pm_run_id submitted tickers =
     (let posture = posture_text (px_posture env)
      in raise_fault env ''agents.execution.deliberation_faults'' ''execute_pm_node''
           (posture_severity (px_posture env)) ''DeliberationFailedOpenSubmit''
           (pm_run_id @ '': posture='' @ posture @ '' submitted '' @ str_nat submitted
             @ '' order(s) after failed-open deliberation for ticker(s): '' @ join_strs '', '' tickers)
           [(''pm_run_id'', PStr pm_run_id), (''submitted'', PInt (int submitted)),
            (''failed_open_tickers'', PList (map PStr tickers)), (''deliberation_posture'', PStr posture)])"

text \<open>
  The graph-pulled run of the execution agent (\<open>agents/execution/pm_execution.py\<close>, \<open>poll.py\<close>): which
  decision runs are ready, and what executing one does, from the veto to the anchor written back.
  The faults go to a collecting sink, as in \<open>ExecutionRun\<close>.
\<close>

section \<open>One decision run\<close>

definition submit_env :: "('g, 'b, 'x) pull_env_scheme \<Rightarrow> ('g, 'b) exec_env" where
  "submit_env env = \<lparr>xe_port = xe_port env, xe_wall = xe_wall env, xe_broker = xe_broker env,
     xe_float_text = xe_float_text env, xe_stage = xe_stage env, xe_tolerance = xe_tolerance env\<rparr>"

definition submit_step ::
  "('g, 'b, 'x) pull_env_scheme \<Rightarrow> order_intent_set \<Rightarrow> (('g, 'b) exec_state, execution_result) step" where
  "submit_step env os st =
     (case run_submit (submit_env env) os (st, []) of
        ((st', recorded), Inl e) \<Rightarrow> (st', Inl e)
      | ((st', recorded), Inr x) \<Rightarrow> (st', Inr (xo_result x)))"

definition execution_run_props ::
  "('g, 'b, 'x) pull_env_scheme \<Rightarrow> string \<Rightarrow> execution_result \<Rightarrow> deliberation_status \<Rightarrow> nat \<Rightarrow> props" where
  "execution_run_props env source_run_id r status blocked =
     [(''source_pm_run_id'', PStr source_run_id), (''submitted'', PInt (int (er_submitted r))),
      (''rejected'', PInt (int (er_rejected r))), (''skipped'', PInt (int (er_skipped r + blocked))),
      (''deliberation_status'', PStr (deliberation_text status)),
      (''deliberation_posture'', PStr (posture_text (px_posture env))),
      (''deliberation_blocked_count'', PInt (int blocked))]"

definition record_deliberation ::
  "('g, 'b, 'x) pull_env_scheme \<Rightarrow> string \<Rightarrow> screened_orders \<Rightarrow> nat \<Rightarrow> (('g, 'b) exec_state, unit) step" where
  "record_deliberation env run_id sc submitted =
     (let blocked = pfo_blocked_count (sco_filtered sc)
      in case sco_status sc of
           ProceededUnvetoed \<Rightarrow> record_unvetoed_submit env run_id submitted blocked
         | HeldDegraded \<Rightarrow> record_degraded_hold env run_id submitted blocked
         | AppliedFailedOpen \<Rightarrow> record_failed_open_submit env run_id submitted (sco_failed_open sc)
         | _ \<Rightarrow> step_return ())"

text \<open>What follows the veto, on the orders it left.\<close>

definition submit_screened ::
  "('g, 'b, 'x) pull_env_scheme \<Rightarrow> gnode \<Rightarrow> screened_orders \<Rightarrow> (('g, 'b) exec_state, unit) step" where
  "submit_screened env node sc =
     (let os = pfo_order_set (sco_filtered sc); blocked = pfo_blocked_count (sco_filtered sc)
      in step_bind (reconcile_run_start env (ois_run_id os)) (\<lambda>snapshot.
         step_bind (settle_stops env os snapshot) (\<lambda>freed.
         step_bind (submit_step env os) (\<lambda>result.
         step_bind (report_unprotected_exits env result freed) (\<lambda>_.
         step_bind (px_merge env ''ExecutionRun'' (er_run_id result)
             (execution_run_props env (ois_run_id os) result (sco_status sc) blocked)) (\<lambda>execution_run.
         step_bind (record_deliberation env (ois_run_id os) sc (er_submitted result)) (\<lambda>_.
           px_edge env node execution_run ''EXECUTED_BY'')))))))"

definition execute_pm_node ::
  "('g, 'b, 'x) pull_env_scheme \<Rightarrow> gnode \<Rightarrow> (('g, 'b) exec_state, unit) step" where
  "execute_pm_node env node =
     step_bind (step_res (prop_at (gn_props node) ''order_intent_set'')) (\<lambda>raw.
     step_bind (step_res (px_order_set env raw)) (\<lambda>os.
     step_bind (world_now env) (\<lambda>now.
     step_bind (on_graph (screen_orders env node os now)) (submit_screened env node))))"

section \<open>The poll\<close>

datatype execution_work_item = PositionSync gnode | SubmitRun gnode

definition find_pending_snapshots :: "('g, 'b, 'x) pull_env_scheme \<Rightarrow> ('g, gnode list) step" where
  "find_pending_snapshots env = pending_step (genv env) ''RunRequest'' ''REFRESHES''"

fun not_waiting ::
  "('g, 'b, 'x) pull_env_scheme \<Rightarrow> timestamp \<Rightarrow> gnode list \<Rightarrow> ('g, gnode list) step" where
  "not_waiting env now [] = step_return []"
| "not_waiting env now (n # ns) =
     step_bind (is_waiting env now n) (\<lambda>waits.
     step_bind (not_waiting env now ns) (\<lambda>rest.
       step_return (if waits then rest else n # rest)))"

definition find_pending_runs :: "('g, 'b, 'x) pull_env_scheme \<Rightarrow> ('g, gnode list) step" where
  "find_pending_runs env g =
     step_bind (pending_step (genv env) ''PMRun'' ''EXECUTED_BY'') (not_waiting env (xe_wall env g)) g"

text \<open>
  The poll reads its grace from settings of its own, made anew from the process environment, whatever
  settings the run is executed with.
\<close>

definition find_execution_work ::
  "('g, 'b, 'x) pull_env_scheme \<Rightarrow> int \<Rightarrow> ('g, execution_work_item list) step" where
  "find_execution_work env own_grace =
     step_bind (find_pending_snapshots env) (\<lambda>requests.
     step_bind (find_pending_runs (env\<lparr>px_grace_seconds := own_grace\<rparr>)) (\<lambda>runs.
       step_return (map PositionSync requests @ map SubmitRun runs)))"

definition poll_module :: string where
  "poll_module = ''agents.execution.poll''"

definition sync_run_request ::
  "('g, 'b, 'x) pull_env_scheme \<Rightarrow> gnode \<Rightarrow> (('g, 'b) exec_state, unit) step" where
  "sync_run_request env node =
     step_bind (step_res (read_str (xe_float_text env) node ''run_id'')) (\<lambda>run_id.
     step_bind (bounded env poll_module ''drop_unfilled_orders'' (sweep_unfilled_orders env run_id)) (\<lambda>_.
       step_forget (bounded env poll_module ''position_sync''
         (step_bind (reconcile_run_start env run_id) (\<lambda>snapshot.
            case snapshot of
              None \<Rightarrow> step_return ()
            | Some n \<Rightarrow> px_edge env node n ''REFRESHES'')))))"

definition process_execution_item ::
  "('g, 'b, 'x) pull_env_scheme \<Rightarrow> execution_work_item \<Rightarrow> (('g, 'b) exec_state, unit) step" where
  "process_execution_item env item =
     (case item of PositionSync node \<Rightarrow> sync_run_request env node | SubmitRun node \<Rightarrow> execute_pm_node env node)"

section \<open>Reconciliation on request\<close>

text \<open>\<open>write_reconciliation\<close> of \<open>store.py\<close> and the handler around it; \<open>hex\<close> is the random identifier.\<close>

definition write_reconciliation ::
  "('g, 'b, 'x) pull_env_scheme \<Rightarrow> string \<Rightarrow> nat \<Rightarrow> string list \<Rightarrow> (('g, 'b) exec_state, provenance) step" where
  "write_reconciliation env hex matched discrepancies =
     (let run_id = ''reconciliation-'' @ hex
      in step_bind (world_now env) (\<lambda>now.
         step_bind (px_merge env ''Reconciliation'' run_id
             [(''matched'', PInt (int matched)), (''discrepancy_count'', PInt (int (length discrepancies))),
              (''discrepancies'', PList (map PStr discrepancies)), (''created_at'', PStr (isoformat now))]) (\<lambda>n.
           step_return (execution_provenance run_id (Some n)))))"

record reconcile_result =
  rcr_matched :: nat
  rcr_discrepancies :: "string list"
  rcr_provenance :: provenance

definition reconcile_handler ::
  "('g, 'b, 'x) pull_env_scheme \<Rightarrow> string \<Rightarrow> fills \<Rightarrow> (('g, 'b) exec_state, reconcile_result) step" where
  "reconcile_handler env hex recorded =
     step_bind (on_broker (px_fills env)) (\<lambda>fs.
       case reconcile_fills (dict_values recorded) fs of
         (matched, discrepancies) \<Rightarrow>
           step_bind (write_reconciliation env hex matched discrepancies) (\<lambda>pv.
             step_return \<lparr>rcr_matched = matched, rcr_discrepancies = discrepancies, rcr_provenance = pv\<rparr>))"

end
