(* ===== verification/VetoGate.thy ===== *)
theory VetoGate
  imports PmExecution
begin

text \<open>
  What a graph-pulled run asks of the broker.  Whatever the reads, the cancellations, the stops and
  the submissions of the orders left by the veto keep of the broker, the whole run keeps; so no order
  outside those is ever submitted.
\<close>

section \<open>The broker calls of a run\<close>

definition stop_key :: "string \<Rightarrow> bool" where
  "stop_key key \<longleftrightarrow> starts_with key ''stop:''"

text \<open>Everything a run asks of the broker but the submission of orders; stops go by keys of their own.\<close>

definition broker_calls_keep :: "('g, 'b, 'x) pull_env_scheme \<Rightarrow> ('b \<Rightarrow> bool) \<Rightarrow> bool" where
  "broker_calls_keep env P \<longleftrightarrow>
     (\<forall>b. P b \<longrightarrow>
        P (fst (px_fills env b)) \<and> P (fst (px_positions env b)) \<and> P (fst (px_account env b))
        \<and> (\<forall>order_id. P (fst (px_cancel env b order_id)))
        \<and> (\<forall>current waiting. px_current_orders env = Some current \<longrightarrow> P (fst (current b waiting)))
        \<and> (\<forall>key t s q p tif. stop_key key \<longrightarrow> P (fst (px_submit_stop env b key t s q p tif)))
        \<and> (\<forall>order_id cents key. stop_key key \<longrightarrow> P (fst (px_replace_stop env b order_id cents key))))"

lemma stop_key_attempt: "stop_key (stop_attempt_key ref ticker m)"
  by (simp add: stop_key_def stop_attempt_key_def broker_stop_order_key_def)

lemma next_stop_key:
  "next_broker_stop_order_key flt port g ref ticker = Inr (Some k) \<Longrightarrow> stop_key k"
  unfolding next_broker_stop_order_key_def
  by (drule next_stop_key_from_Inr) (auto simp: stop_key_attempt)

lemma free_stop_key:
  assumes "free_broker_stop_order_key port g ref ticker = Inr k"
  shows "stop_key k"
proof -
  from assms obtain r where r: "next_stop_key_from (Suc (length (gp_list port g ''BrokerStopOrder'')))
      (gp_get port g ''BrokerStopOrder'') (\<lambda>n. False) ref ticker 0 = Inr r"
    and k: "(case r of None \<Rightarrow> Inl (RuntimeError ''no free key'') | Some k \<Rightarrow> Inr k) = Inr k"
    unfolding free_broker_stop_order_key_def res_bind_Inr_iff by blast
  from k have "r = Some k" by (cases r) simp_all
  with next_stop_key_from_Inr [OF r] stop_key_attempt show ?thesis by auto
qed

lemma kept_orders: "broker_calls_keep env P \<Longrightarrow> keeps_broker P (run_start_orders env waiting)"
  by (rule keeps_run_start_orders) (auto simp: broker_calls_keep_def)

lemma kept_positions: "broker_calls_keep env P \<Longrightarrow> keeps_broker P (on_broker (px_positions env))"
  by (rule keeps_on_broker) (simp add: broker_calls_keep_def)

lemma kept_account: "broker_calls_keep env P \<Longrightarrow> keeps_broker P (on_broker (px_account env))"
  by (rule keeps_on_broker) (simp add: broker_calls_keep_def)

lemma kept_cancel: "broker_calls_keep env P \<Longrightarrow> keeps_broker P (on_broker (\<lambda>b. px_cancel env b order_id))"
  by (rule keeps_on_broker) (simp add: broker_calls_keep_def)

lemma kept_replace:
  assumes "broker_calls_keep env P" "stop_key key"
  shows "keeps_broker P (replace_stop env s decided key)"
  unfolding replace_stop_def
proof (rule keeps_on_broker)
  fix b assume "P b"
  with assms have "P (fst (px_replace_stop env b (bso_order_id s) decided key))" by (simp add: broker_calls_keep_def)
  then show "P (fst (case px_replace_stop env b (bso_order_id s) decided key of
      (b', Inl x) \<Rightarrow> (b', Inl (broker_exn_exn x)) | (b', Inr f) \<Rightarrow> (b', Inr f)))"
    by (auto split: prod.split sum.split)
qed

lemma kept_submit_stop:
  assumes "broker_calls_keep env P" "stop_key key"
  shows "keeps_broker P (submit_stop env t key price)"
  unfolding step_keeps_def
proof (intro allI impI)
  fix st :: "('a, 'b) exec_state" assume "P (xs_broker st)"
  with assms have "P (fst (px_submit_stop env (xs_broker st) key (pst_ticker t) Sell (pst_quantity t) price ''gtc''))"
    by (simp add: broker_calls_keep_def)
  then show "P (xs_broker (fst (submit_stop env t key price st)))"
    by (auto simp: submit_stop_def Let_def split: prod.split sum.split broker_exn.split)
qed

section \<open>Refreshing\<close>

lemma kept_refresh: "keeps_broker P (refresh_pending_fills env fs fills)"
  unfolding refresh_pending_fills_def refresh_fill_def write_order_status_def realized_pnl_props_def
    position_ref_from_order_def record_unresolved_def report_unfilled_remainder_def Let_def
  by (intro step_keeps_each) (auto intro!: broker_keeps split: option.split)

lemma kept_reading: "keeps_broker P m \<Longrightarrow> keeps_broker P (reading env what m)"
  unfolding reading_def read_fault_def Let_def by (intro broker_keeps)

lemma kept_snapshot: "keeps_broker P (write_snapshot env run_id hs acc status reason)"
  unfolding write_snapshot_def by (intro broker_keeps)

lemma kept_reconcile:
  assumes "broker_calls_keep env P"
  shows "keeps_broker P (reconcile_run_start env run_id)"
  unfolding reconcile_run_start_def
  by (auto intro!: broker_keeps kept_reading kept_orders kept_positions kept_account kept_refresh kept_snapshot assms
      split: sum.split)

section \<open>Stops\<close>

lemma kept_link: "keeps_broker P (link_positions env t stop)"
  unfolding link_positions_def by (auto intro!: broker_keeps split: option.split)

lemma kept_stop_fill: "keeps_broker P (write_stop_fill env t key f cents pv)"
  unfolding write_stop_fill_def by (auto intro!: broker_keeps split: option.split)

lemma kept_stop_order: "keeps_broker P (write_stop_order env t key f cents pv old)"
  unfolding write_stop_order_def by (intro broker_keeps)

lemma kept_place_stop:
  assumes "broker_calls_keep env P" "stop_key key"
  shows "keeps_broker P (place_stop env t key pv)"
  unfolding place_stop_def Let_def
  by (auto intro!: broker_keeps kept_submit_stop [OF assms] kept_stop_fill kept_stop_order kept_link)

lemma kept_cancel_stop: "broker_calls_keep env P \<Longrightarrow> keeps_broker P (cancel_stop env s)"
  unfolding cancel_stop_def by (auto intro!: broker_keeps kept_cancel split: option.split)

lemma kept_realign_fault: "keeps_broker P (realign_fault env e target reason extra)"
  unfolding realign_fault_def by (auto intro!: broker_keeps split: prod.split)

lemma kept_write_replacement: "keeps_broker P (write_replacement env target key f)"
  unfolding write_replacement_def mark_replaced_def Let_def
  by (auto intro!: broker_keeps kept_stop_fill kept_stop_order kept_link split: prod.split)

lemma kept_realign_one:
  assumes "broker_calls_keep env P"
  shows "keeps_broker P (realign_one env status v target)"
proof -
  obtain plan stop decided where target: "target = (plan, stop, decided)" by (cases target) auto
  let ?t = "spl_threshold plan"
  have "keeps_broker P (step_bind (step_res (free_broker_stop_order_key (xe_port env) g (pst_position_ref ?t) (pst_ticker ?t))) (\<lambda>key.
      step_bind (attempting (step_bind (replace_stop env stop decided key) (\<lambda>f. step_return (Inr f)))
           (\<lambda>e. step_return (Inl e))) (\<lambda>r.
        case r of Inl e \<Rightarrow> realign_fault env ''StopReplaceFailed'' target (exn_text e) []
        | Inr f \<Rightarrow> write_replacement env target key f)))" for g
    by (rule keeps_bind_value)
      (auto simp: step_res_def intro!: broker_keeps kept_replace [OF assms] free_stop_key kept_realign_fault
         kept_write_replacement split: sum.split)
  note placed = this
  have "keeps_broker P (step_bind (read_graph (\<lambda>g. free_broker_stop_order_key (xe_port env) g (pst_position_ref ?t) (pst_ticker ?t)))
      (\<lambda>key_r. step_bind (step_res key_r) (\<lambda>key.
      step_bind (attempting (step_bind (replace_stop env stop decided key) (\<lambda>f. step_return (Inr f)))
           (\<lambda>e. step_return (Inl e))) (\<lambda>r.
        case r of Inl e \<Rightarrow> realign_fault env ''StopReplaceFailed'' target (exn_text e) []
        | Inr f \<Rightarrow> write_replacement env target key f))))"
    by (rule keeps_bind_value [OF keeps_read_graph]) (use placed in \<open>auto simp: read_graph_def\<close>)
  then have "keeps_broker P (if c then realign_fault env e1 target x1 y1
      else if c' then realign_fault env e2 target x2 y2 else M)"
    if "M = step_bind (read_graph (\<lambda>g. free_broker_stop_order_key (xe_port env) g (pst_position_ref ?t) (pst_ticker ?t)))
      (\<lambda>key_r. step_bind (step_res key_r) (\<lambda>key.
      step_bind (attempting (step_bind (replace_stop env stop decided key) (\<lambda>f. step_return (Inr f)))
           (\<lambda>e. step_return (Inl e))) (\<lambda>r.
        case r of Inl e \<Rightarrow> realign_fault env ''StopReplaceFailed'' target (exn_text e) []
        | Inr f \<Rightarrow> write_replacement env target key f)))" for M c c' e1 x1 y1 e2 x2 y2
    using that by (simp add: kept_realign_fault)
  then show ?thesis unfolding realign_one_def target prod.case Let_def by blast
qed

lemma kept_realign:
  assumes "broker_calls_keep env P"
  shows "keeps_broker P (realign_broker_stops env plans snapshot)"
  unfolding realign_broker_stops_def order_statuses_def Let_def
  by (auto intro!: broker_keeps kept_orders kept_realign_fault kept_realign_one assms split: option.split prod.split)

lemma kept_place_planned:
  assumes "broker_calls_keep env P"
  shows "keeps_broker P (place_planned_stop env plan)"
proof -
  have "keeps_broker P (step_bind (step_res (next_broker_stop_order_key flt port g ref ticker)) (\<lambda>key.
      case key of None \<Rightarrow> step_return None
      | Some k \<Rightarrow> step_bind (place_stop env t k pv) (\<lambda>f. step_return (Some f))))" for flt port g ref ticker t pv
    by (rule keeps_bind_value)
      (auto simp: step_res_def intro!: broker_keeps kept_place_stop assms next_stop_key split: option.split)
  then show ?thesis
    unfolding place_planned_stop_def Let_def
    by (intro keeps_bind_value [OF keeps_read_graph]) (auto simp: read_graph_def)
qed

lemma kept_protect: "broker_calls_keep env P \<Longrightarrow> keeps_broker P (protect_tickers env refs qty plans tqs)"
proof (induction tqs)
  case (Cons tq tqs)
  then show ?case
    by (auto simp: protect_ticker_def unprotected_fault_def Let_def
        intro!: broker_keeps kept_place_planned split: option.split prod.split)
qed (simp add: broker_keeps)

lemma kept_settle:
  assumes "broker_calls_keep env P"
  shows "keeps_broker P (settle_stops env os snapshot)"
  unfolding settle_stops_def reconcile_broker_stops_def cancel_stops_for_exits_def place_broker_stops_def
    unprotected_fault_def Let_def
  by (auto intro!: broker_keeps kept_cancel_stop kept_protect kept_realign assms split: option.split)

section \<open>Submission\<close>

definition submissions_keep ::
  "('g, 'b, 'x) exec_env_scheme \<Rightarrow> string \<Rightarrow> order_intent list \<Rightarrow> ('b \<Rightarrow> bool) \<Rightarrow> bool" where
  "submissions_keep env run_id approved P \<longleftrightarrow>
     (\<forall>i \<in> set approved. \<forall>ord b. order_from_intent run_id i (xe_tolerance env) = Inr ord \<longrightarrow> P b \<longrightarrow>
        P (fst (br_submit (xe_broker env) b (bo_key ord) (bo_ticker ord) (bo_side ord) (bo_quantity ord)
                  (bo_limit_price ord) (Some (bo_tolerance_bps ord)))))"

lemma submit_order_broker:
  "fst (fst (submit_order port now cap ord bs)) =
     fst (br_submit port (fst bs) (bo_key ord) (bo_ticker ord) (bo_side ord) (bo_quantity ord)
            (bo_limit_price ord) (Some (bo_tolerance_bps ord)))"
  by (auto simp: submit_order_def Let_def split: prod.split sum.split broker_exn.split)

lemma submit_one_broker:
  "xs_broker (fst (submit_one env os (i, ord) acc)) =
     (if completed_exit_fill env (xs_graph (fst acc)) i ord \<noteq> None then xs_broker (fst acc)
      else fst (br_submit (xe_broker env) (xs_broker (fst acc)) (bo_key ord) (bo_ticker ord) (bo_side ord)
             (bo_quantity ord) (bo_limit_price ord) (Some (bo_tolerance_bps ord))))"
proof -
  obtain st fs skipped pv where acc: "acc = (st, fs, skipped, pv)" by (cases acc) auto
  obtain b1 faults1 f where sub: "submit_order (xe_broker env) (xe_wall env (xs_graph st)) ''submit'' ord
      (xs_broker st, xs_faults st) = ((b1, faults1), f)" by (metis prod.collapse)
  then have b1: "b1 = fst (br_submit (xe_broker env) (xs_broker st) (bo_key ord) (bo_ticker ord) (bo_side ord)
             (bo_quantity ord) (bo_limit_price ord) (Some (bo_tolerance_bps ord)))"
    using submit_order_broker [of "xe_broker env" "xe_wall env (xs_graph st)" "''submit''" ord
      "(xs_broker st, xs_faults st)"] by simp
  show ?thesis
    by (auto simp: submit_one_def acc Let_def sub b1 split: prod.split sum.split option.split)
qed

lemma orders_zip:
  assumes "all_res (map f is) = Inr ords" "(i, ord) \<in> set (zip is ords)"
  shows "i \<in> set is \<and> f i = Inr ord"
proof -
  from assms(1) have "map f is = map Inr ords" by (simp only: all_res_Inr)
  with assms(2) show ?thesis by (auto simp: in_set_zip) (metis length_map nth_map)
qed

lemma kept_submit:
  assumes "submissions_keep env (ois_run_id os) (ois_approved os) P"
  shows "keeps_broker P (submit_step env os)"
  unfolding step_keeps_def
proof (intro allI impI)
  fix st :: "('a, 'b) exec_state" assume P: "P (xs_broker st)"
  show "P (xs_broker (fst (submit_step env os st)))"
  proof (cases "orders_of (submit_env env) os")
    case (Inl e)
    with P show ?thesis by (simp add: submit_step_def run_submit_def Let_def)
  next
    case (Inr ords)
    have "P (xs_broker (fst (fold (submit_one (submit_env env) os) ios acc)))"
      if "set ios \<subseteq> set (zip (ois_approved os) ords)" "P (xs_broker (fst acc))" for ios acc
      using that
    proof (induction ios arbitrary: acc)
      case (Cons io ios)
      obtain i ord where io: "io = (i, ord)" by (cases io)
      with Cons.prems orders_zip [OF Inr [unfolded orders_of_def], of i ord]
      have "i \<in> set (ois_approved os)" "order_from_intent (ois_run_id os) i (xe_tolerance env) = Inr ord"
        by (auto simp: submit_env_def)
      with assms Cons.prems(2) have "P (xs_broker (fst (submit_one (submit_env env) os io acc)))"
        by (auto simp: io submit_one_broker submissions_keep_def submit_env_def)
      with Cons show ?case by simp
    qed simp
    note folded = this
    let ?start = "(st, [], 0, execution_provenance (execution_run_id ''submit'' (ois_run_id os)) None)"
    obtain st1 fs skipped pv where run: "fold (submit_one (submit_env env) os) (zip (ois_approved os) ords) ?start
        = (st1, fs, skipped, pv)" by (cases "fold (submit_one (submit_env env) os) (zip (ois_approved os) ords) ?start") auto
    from folded [OF order_refl, of ?start] P run have "P (xs_broker st1)" by simp
    with P Inr run show ?thesis
      by (auto simp: submit_step_def run_submit_def live_gate_rejected_def Let_def split: prod.split sum.split)
  qed
qed

lemma kept_screened:
  assumes "broker_calls_keep env P"
    "submissions_keep env (ois_run_id (pfo_order_set (sco_filtered sc)))
       (ois_approved (pfo_order_set (sco_filtered sc))) P"
  shows "keeps_broker P (submit_screened env node sc)"
  unfolding submit_screened_def report_unprotected_exits_def unprotected_exit_def record_deliberation_def
    record_unvetoed_submit_def record_degraded_hold_def record_failed_open_submit_def Let_def
  by (auto intro!: broker_keeps kept_reconcile kept_settle kept_submit assms split: deliberation_status.split)

section \<open>The veto\<close>

definition vetoed_by :: "gnode list \<Rightarrow> string set" where
  "vetoed_by ds =
     (case ds of
        [] \<Rightarrow> {}
      | d # _ \<Rightarrow>
          (case set_of_value (get_or (gn_props d) ''vetoed_tickers'' (PTuple [])) of
             Inl e \<Rightarrow> {}
           | Inr vs \<Rightarrow> {t. PStr t \<in> set vs}))"

text \<open>Buys are held when no veto has come: in a degraded run, or once a binding posture's grace is over.\<close>

definition buys_held ::
  "('g, 'b, 'x) pull_env_scheme \<Rightarrow> 'g \<Rightarrow> gnode \<Rightarrow> order_intent_set \<Rightarrow> timestamp \<Rightarrow> gnode list \<Rightarrow> bool" where
  "buys_held env g node os now ds \<longleftrightarrow>
     ds = [] \<and> has_buy_intent os \<and> (is_degraded_run env g os \<or> px_posture env = Binding \<and> grace_expired env node now)"

definition left_by_veto ::
  "('g, 'b, 'x) pull_env_scheme \<Rightarrow> 'g \<Rightarrow> gnode \<Rightarrow> order_intent_set \<Rightarrow> timestamp \<Rightarrow> gnode list \<Rightarrow> order_intent list" where
  "left_by_veto env g node os now ds =
     filter (\<lambda>i. oi_ticker i \<notin> vetoed_by ds \<and> \<not> (buys_held env g node os now ds \<and> oi_action i = BuyAction))
       (ois_approved os)"

lemma filter_all: "length xs - length (filter Q xs) = 0 \<Longrightarrow> filter Q xs = xs"
  by (metis length_filter_le diff_is_0_eq le_antisym length_filter_less linorder_not_less filter_id_conv)

lemma apply_posture_approved:
  "ois_approved (pfo_order_set (apply_deliberation_posture os status posture)) =
     filter (\<lambda>i. \<not> ((status = HeldDegraded \<or> posture = Binding \<and> status = ProceededUnvetoed) \<and> oi_action i = BuyAction))
       (ois_approved os)"
  "ois_run_id (pfo_order_set (apply_deliberation_posture os status posture)) = ois_run_id os"
  using filter_all [of "ois_approved os" "\<lambda>i. oi_action i \<noteq> BuyAction"]
  by (auto simp: apply_deliberation_posture_def Let_def)

lemma linked_deliberation_is:
  assumes "descend (genv env) node ''DELIBERATED_BY'' g = (g, Inr ds)"
  shows "linked_deliberation env node g = (g, Inr (case ds of [] \<Rightarrow> None | d # _ \<Rightarrow> Some d))"
  using assms by (simp add: linked_deliberation_def step_bind_def step_return_def)

lemma screened_orders_left:
  assumes linked: "descend (genv env) node ''DELIBERATED_BY'' g = (g, Inr ds)"
    and screened: "screen_orders env node os now g = (g', Inr sc)"
  shows "g' = g \<and> ois_run_id (pfo_order_set (sco_filtered sc)) = ois_run_id os
    \<and> ois_approved (pfo_order_set (sco_filtered sc)) = left_by_veto env g node os now ds"
proof (cases ds)
  case Nil
  with linked_deliberation_is [OF linked] have none: "linked_deliberation env node g = (g, Inr None)" by simp
  let ?status = "if \<not> has_buy_intent os then NotRequired else if is_degraded_run env g os then HeldDegraded
    else if grace_expired env node now then ProceededUnvetoed else Waiting"
  from none have "deliberation_status_of env node os now g = (g, Inr ?status)"
    "failed_open_tickers env node g = (g, Inr [])" "drop_vetoed env node os g = (g, Inr os)"
    by (simp_all add: deliberation_status_of_def failed_open_tickers_def drop_vetoed_def step_bind_def step_return_def)
  with screened have "g' = g"
    "sco_filtered sc = apply_deliberation_posture os ?status (px_posture env)"
    by (auto simp: screen_orders_def step_bind_def step_return_def)
  then show ?thesis
    by (auto simp: apply_posture_approved left_by_veto_def buys_held_def vetoed_by_def Nil has_buy_intent_def list_ex_iff
        intro!: filter_cong)
next
  case (Cons d rest)
  with linked_deliberation_is [OF linked] have some: "linked_deliberation env node g = (g, Inr (Some d))" by simp
  let ?status = "if failed_open_of d \<noteq> [] then AppliedFailedOpen else Applied"
  let ?set = "set_of_value (get_or (gn_props d) ''vetoed_tickers'' (PTuple []))"
  from some have status: "deliberation_status_of env node os now g = (g, Inr ?status)"
    "failed_open_tickers env node g = (g, Inr (failed_open_of d))"
    by (simp_all add: deliberation_status_of_def failed_open_tickers_def step_bind_def step_return_def)
  show ?thesis
  proof (cases ?set)
    case (Inl e)
    with some have "drop_vetoed env node os g = (g, Inl e)" by (simp add: drop_vetoed_def step_bind_def step_res_def)
    with status screened show ?thesis by (simp add: screen_orders_def step_bind_def)
  next
    case (Inr vs)
    with some have "drop_vetoed env node os g = (g, Inr (if vs = [] then os
        else os\<lparr>ois_approved := filter (\<lambda>i. PStr (oi_ticker i) \<notin> set vs) (ois_approved os)\<rparr>))"
      by (simp add: drop_vetoed_def step_bind_def step_res_def step_return_def)
    with status screened have "g' = g"
      "sco_filtered sc = apply_deliberation_posture (if vs = [] then os
        else os\<lparr>ois_approved := filter (\<lambda>i. PStr (oi_ticker i) \<notin> set vs) (ois_approved os)\<rparr>) ?status (px_posture env)"
      by (auto simp: screen_orders_def step_bind_def step_return_def)
    with Inr show ?thesis
      by (auto simp: apply_posture_approved left_by_veto_def buys_held_def vetoed_by_def Cons intro!: filter_cong)
  qed
qed

text \<open>
  C2. Executing a decision run from the graph asks the broker to submit nothing but orders of approved
  intents whose ticker the linked deliberation does not veto, and no buys where they are held: when no
  deliberation is linked and the run is degraded, or the grace is over under a binding posture.
  Whatever the reads, cancellations and stops, and those submissions, keep of the broker, the run keeps.
\<close>

theorem veto_bounds_submissions:
  assumes "dict_get (gn_props node) ''order_intent_set'' = Some raw" "px_order_set env raw = Inr os"
    and linked: "descend (genv env) node ''DELIBERATED_BY'' (xs_graph st) = (xs_graph st, Inr ds)"
    and calls: "broker_calls_keep env P"
    and submits: "submissions_keep env (ois_run_id os)
       (left_by_veto env (xs_graph st) node os (xe_wall env (xs_graph st)) ds) P"
    and "P (xs_broker st)"
  shows "P (xs_broker (fst (execute_pm_node env node st)))"
proof -
  let ?now = "xe_wall env (xs_graph st)"
  have run: "execute_pm_node env node st
      = step_bind (on_graph (screen_orders env node os ?now)) (submit_screened env node) st"
    using assms(1, 2)
    by (simp add: execute_pm_node_def prop_at_def step_bind_def step_res_def world_now_def read_graph_def)
  obtain g' r where sc: "screen_orders env node os ?now (xs_graph st) = (g', r)" by (cases "screen_orders env node os ?now (xs_graph st)")
  show ?thesis
  proof (cases r)
    case (Inl e)
    with sc run assms(6) show ?thesis by (simp add: on_graph_def step_bind_def)
  next
    case (Inr s)
    from screened_orders_left [OF linked sc [unfolded Inr]] submits
    have "keeps_broker P (submit_screened env node s)" by (intro kept_screened calls) simp
    with run sc Inr assms(6) show ?thesis
      by (simp add: on_graph_def step_bind_def step_keeps_def)
  qed
qed

section \<open>A vetoed buy on the paper broker\<close>

lemma paper_keeps_absent:
  assumes "paper_backed env" "\<not> stop_key k"
  shows "broker_calls_keep env (\<lambda>b. dict_get (pb_fills b) k = None)"
proof -
  have cancel: "dict_get (pb_fills (paper_cancel b i)) k = None" if "dict_get (pb_fills b) k = None" for b i
    using that by (force simp: paper_cancel_def dict_get_None_iff)
  have stop: "dict_get (pb_fills (fst (paper_submit_stop b key t s q p tif))) k = None"
    if "dict_get (pb_fills b) k = None" "stop_key key" for b key t s q p tif
    using that assms(2) by (auto simp: paper_submit_stop_def reject_order_def put_fill_def dict_get_set Let_def split: option.split)
  have replace: "dict_get (pb_fills (fst (paper_replace_stop b i c key))) k = None"
    if "dict_get (pb_fills b) k = None" "stop_key key" for b i c key
  proof (cases "find_open_order i (pb_fills b)")
    case (Some ko)
    obtain key0 old where ko: "ko = (key0, old)" by (cases ko)
    from find_open_order_some [OF Some [unfolded ko]] have "(key0, old) \<in> set (pb_fills b)" by blast
    with that(1) have "key0 \<noteq> k" by (auto simp: dict_get_None_iff image_iff)
    with Some ko that assms(2) show ?thesis by (auto simp: paper_replace_stop_def dict_get_set Let_def)
  qed (simp add: paper_replace_stop_def that)
  show ?thesis
    using assms(1) cancel stop replace by (simp add: broker_calls_keep_def paper_backed_def)
qed

definition sample_buy :: "string \<Rightarrow> order_intent" where
  "sample_buy ticker = \<lparr>oi_ticker = ticker, oi_action = BuyAction, oi_quantity = 2, oi_est_price = usd 10,
     oi_decision_atr_pct = None, oi_stop_pct = None, oi_target_pct = None, oi_position_ref = None,
     oi_rationale = \<lparr>ex_summary = [], ex_evidence_refs = []\<rparr>, oi_gate_report = []\<rparr>"

definition sample_decision :: order_intent_set where
  "sample_decision = \<lparr>ois_run_id = ''run1'', ois_approved = [sample_buy ''ACME'', sample_buy ''BETA''],
     ois_rejected = [], ois_explanation = \<lparr>ex_summary = [], ex_evidence_refs = []\<rparr>,
     ois_provenance = execution_provenance ''pm'' None\<rparr>"

definition sample_pm_run :: gnode where
  "sample_pm_run = make_node ''PMRun'' ''run1'' [(''order_intent_set'', PStr ''approved'')] 1"

definition sample_veto :: gnode where
  "sample_veto = make_node ''DeliberationRun'' ''d1'' [(''vetoed_tickers'', PTuple [PStr ''ACME''])] 1"

definition sample_veto_store :: store where
  "sample_veto_store = empty_store\<lparr>st_nodes := [((''PMRun'', ''run1''), sample_pm_run), ((''DeliberationRun'', ''d1''), sample_veto)],
     st_edges := [make_edge (''PMRun'', ''run1'') (''DeliberationRun'', ''d1'') ''DELIBERATED_BY'' []]\<rparr>"

definition sample_pm_state :: "(store, paper_broker) exec_state" where
  "sample_pm_state = \<lparr>xs_graph = sample_veto_store, xs_broker = new_paper_broker 0 0 [] (usd 1000) ''new'', xs_faults = []\<rparr>"

lemma sample_veto_linked:
  "descend (genv (sample_pull_env parse)) sample_pm_run ''DELIBERATED_BY'' sample_veto_store = (sample_veto_store, Inr [sample_veto])"
  by (simp add: descend_def sample_pull_env_def genv_def descendants_def walk_def sample_veto_store_def empty_store_def
      make_edge_def edge_source_def edge_target_def edge_allowed_def node_key_of_def sample_pm_run_def sample_veto_def
      make_node_def numeral_eq_Suc Let_def guarded_faults_Inr)

lemma sample_vetoed: "vetoed_by [sample_veto] = {''ACME''}"
  by (auto simp: vetoed_by_def set_of_value_def get_or_def sample_veto_def make_node_def frozen_props_def)

lemma veto_bounds_submissions_witness:
  "dict_get (pb_fills (xs_broker (fst (execute_pm_node (sample_pull_env (\<lambda>v. Inr sample_decision)) sample_pm_run sample_pm_state))))
     ''run1:ACME:buy'' = None"
proof (rule veto_bounds_submissions [where P = "\<lambda>b. dict_get (pb_fills b) ''run1:ACME:buy'' = None"
      and raw = "PStr ''approved''" and os = sample_decision and ds = "[sample_veto]"])
  let ?env = "sample_pull_env (\<lambda>v. Inr sample_decision)"
  have left: "left_by_veto ?env g sample_pm_run sample_decision now [sample_veto] = [sample_buy ''BETA'']" for g now
    by (simp add: left_by_veto_def sample_vetoed buys_held_def sample_decision_def sample_buy_def)
  show "submissions_keep ?env (ois_run_id sample_decision)
      (left_by_veto ?env (xs_graph sample_pm_state) sample_pm_run sample_decision
        (xe_wall ?env (xs_graph sample_pm_state)) [sample_veto]) (\<lambda>b. dict_get (pb_fills b) ''run1:ACME:buy'' = None)"
    unfolding left
    by (auto simp: submissions_keep_def order_from_intent_def sample_buy_def order_key_def sample_decision_def
        sample_pull_env_def paper_port_def paper_submit_def reject_order_def put_fill_def dict_get_set Let_def
        split: option.split)
  show "broker_calls_keep ?env (\<lambda>b. dict_get (pb_fills b) ''run1:ACME:buy'' = None)"
    by (rule paper_keeps_absent) (simp_all add: sample_pm_backed stop_key_def)
  show "descend (genv ?env) sample_pm_run ''DELIBERATED_BY'' (xs_graph sample_pm_state)
      = (xs_graph sample_pm_state, Inr [sample_veto])"
    using sample_veto_linked by (simp add: sample_pm_state_def)
  show "dict_get (gn_props sample_pm_run) ''order_intent_set'' = Some (PStr ''approved'')"
    by (simp add: sample_pm_run_def make_node_def frozen_props_def)
  show "px_order_set ?env (PStr ''approved'') = Inr sample_decision" by (simp add: sample_pull_env_def)
  show "dict_get (pb_fills (xs_broker sample_pm_state)) ''run1:ACME:buy'' = None"
    by (simp add: sample_pm_state_def new_paper_broker_def)
qed

end
