(* ===== verification/SweepSafety.thy ===== *)
theory SweepSafety
  imports DropSweep
begin

text \<open>
  What the sweep cancels.  It never raises, and the only orders it cancels are pending orders of the
  pipeline, from another run, that neither the broker nor the graph knows as a stop.
\<close>

definition sweepable :: "sweep_reads \<Rightarrow> string \<Rightarrow> broker_fill \<Rightarrow> bool" where
  "sweepable reads run_id f \<longleftrightarrow>
     bf_status f = Pending
     \<and> (starts_with (bf_key f) ''exit:'' \<or> 2 \<le> count_char CHR '':'' (bf_key f))
     \<and> \<not> starts_with (bf_key f) (run_id @ '':'')
     \<and> (\<forall>n. sweep_latest_fill reads (bf_key f) = Some n \<longrightarrow>
          \<not> prop_is (gn_props n) ''source_run_id'' run_id
          \<and> \<not> prop_is (gn_props n) ''drop_reason'' ''unfilled at session end'')
     \<and> \<not> is_broker_stop_order f
     \<and> (\<forall>stop \<in> set (swr_stops reads). bf_key f \<noteq> bso_key stop \<and> bf_order_id f \<noteq> bso_order_id stop)"

lemma sweepable_iff:
  "sweepable reads run_id f \<longleftrightarrow>
     bf_status f = Pending \<and> pipeline_owned f
     \<and> \<not> is_current_run f (sweep_latest_fill reads (bf_key f)) run_id
     \<and> \<not> (case sweep_latest_fill reads (bf_key f) of None \<Rightarrow> False | Some n \<Rightarrow> is_dropped_fill n)
     \<and> \<not> is_broker_stop_order f \<and> \<not> tracked_as_stop reads f"
  by (auto simp: sweepable_def pipeline_owned_def is_current_run_def is_dropped_fill_def drop_reason_def
      tracked_as_stop_def list_ex_iff split: option.splits)

lemma skip_order_passes:
  assumes "skip_order env reads f fill run_id st = (st', Inr False)"
  shows "pipeline_owned f \<and> \<not> is_current_run f fill run_id
    \<and> \<not> (case fill of None \<Rightarrow> False | Some n \<Rightarrow> is_dropped_fill n)
    \<and> \<not> is_broker_stop_order f \<and> \<not> tracked_as_stop reads f"
  using assms
  by (auto simp: skip_order_def is_stop_order_def step_bind_Inr step_return_Inr Let_def
      split: if_splits)

lemma keeps_skip: "keeps_broker P (skip_order env reads f fill run_id)"
  unfolding skip_order_def is_stop_order_def record_stop_mismatch_def Let_def by (intro broker_keeps)

lemma keeps_record_drop: "keeps_broker P (record_drop env f fill s)"
  unfolding record_drop_def record_untracked_order_ack_def record_dropped_fault_def Let_def
  by (intro broker_keeps)

definition cancel_keeps :: "('g, 'b, 'x) pull_env_scheme \<Rightarrow> ('b \<Rightarrow> bool) \<Rightarrow> broker_fill \<Rightarrow> bool" where
  "cancel_keeps env P f \<longleftrightarrow> (\<forall>b. P b \<longrightarrow> P (fst (px_cancel env b (bf_order_id f))))"

lemma keeps_cancel_order: "cancel_keeps env P f \<Longrightarrow> keeps_broker P (cancel_order env f)"
  unfolding cancel_order_def cancel_keeps_def by (intro broker_keeps keeps_on_broker) blast

lemma keeps_sweep_order:
  assumes "sweepable reads run_id f \<Longrightarrow> cancel_keeps env P f"
  shows "keeps_broker P (sweep_order env run_id f reads)"
  unfolding sweep_order_def Let_def
proof (rule keeps_bind_value [OF keeps_skip])
  fix st st' x
  assume skip: "skip_order env reads f (sweep_latest_fill reads (bf_key f)) run_id st = (st', Inr x)"
  let ?fill = "sweep_latest_fill reads (bf_key f)"
  have cancel: "keeps_broker P (cancel_order env f)" if "\<not> x" "bf_status f = Pending"
  proof -
    from skip_order_passes [of env reads f ?fill run_id st st'] skip that
    have "sweepable reads run_id f" by (simp add: sweepable_iff)
    from assms [OF this] show ?thesis by (rule keeps_cancel_order)
  qed
  show "keeps_broker P (if x then step_return False
      else if is_resolved_drop f then record_drop env f ?fill (resolved_drop_status f)
      else if bf_status f = Pending then step_bind (cancel_order env f) (\<lambda>_. record_drop env f ?fill ''canceled'')
      else step_return False)"
  proof (cases "\<not> x \<and> bf_status f = Pending")
    case True
    with cancel have "keeps_broker P (cancel_order env f)" by blast
    then show ?thesis by (intro broker_keeps keeps_record_drop)
  next
    case False
    then have "(if x then step_return False
      else if is_resolved_drop f then record_drop env f ?fill (resolved_drop_status f)
      else if bf_status f = Pending then step_bind (cancel_order env f) (\<lambda>_. record_drop env f ?fill ''canceled'')
      else step_return False) = (if x \<or> \<not> is_resolved_drop f then step_return False
      else record_drop env f ?fill (resolved_drop_status f))" by auto
    then show ?thesis by (simp only:) (intro broker_keeps keeps_record_drop)
  qed
qed

lemma sweep_bounded_ends: "\<exists>st' x. sweep_bounded env m st = (st', Inr x)"
  using bounded_Inr [of env sweep_module sweep_capability m st] unfolding sweep_bounded_def by (metis surj_pair)

section \<open>The fills a sweep holds\<close>

text \<open>A \<open>Fill\<close> node and the same node later in the sweep, which writes nothing to it but its drop.\<close>

definition same_fill :: "gnode \<Rightarrow> gnode \<Rightarrow> bool" where
  "same_fill n m \<longleftrightarrow> gn_key m = gn_key n
     \<and> (\<forall>name \<in> {''broker_idempotency_key'', ''attempt_ordinal'', ''source_run_id''}.
          dict_get (gn_props m) name = dict_get (gn_props n) name)
     \<and> (is_dropped_fill n \<longrightarrow> is_dropped_fill m)"

lemma same_fill_refl [simp]: "same_fill n n"
  by (simp add: same_fill_def)

lemma same_fill_trans: "same_fill n m \<Longrightarrow> same_fill m k \<Longrightarrow> same_fill n k"
  by (simp add: same_fill_def)

lemma same_fill_chain:
  assumes "same_fill n m"
  shows "belongs_to_chain m key = belongs_to_chain n key" "attempt_ordinal m key = attempt_ordinal n key"
    "is_current_run f (Some m) run_id = is_current_run f (Some n) run_id"
  using assms by (auto simp: same_fill_def belongs_to_chain_def attempt_ordinal_def is_current_run_def
      prop_is_def cong: option.case_cong pyval.case_cong)

lemma sort_key_same: "(\<And>x. x \<in> set xs \<Longrightarrow> f x = g x) \<Longrightarrow> sort_key f xs = sort_key g xs"
proof (induction xs)
  case (Cons x xs)
  have ins: "insort_key f x ys = insort_key g x ys" if "set ys \<subseteq> set (x # xs)" for ys
    using that Cons.prems by (induction ys) auto
  have "sort_key f xs = sort_key g xs" using Cons by simp
  with ins [of "sort_key g xs"] show ?case by auto
qed simp

lemma sort_key_fst: "sort_key f (map g xs) = map g (sort_key (\<lambda>x. f (g x)) xs)"
proof -
  have "insort_key f (g x) (map g ys) = map g (insort_key (\<lambda>x. f (g x)) x ys)" for x ys
    by (induction ys) auto
  then show ?thesis by (induction xs) simp_all
qed

lemma latest_attempt_in:
  assumes "latest_fill_attempt_in ns key = Some n"
  shows "n \<in> set ns"
proof -
  from assms have "n \<in> set (rev (fill_attempt_chain_in ns key))"
    by (auto simp: latest_fill_attempt_in_def split: list.splits)
  then show ?thesis by (simp add: fill_attempt_chain_in_def)
qed

lemma latest_attempt_same:
  assumes "list_all2 same_fill ns ms"
  shows "rel_option same_fill (latest_fill_attempt_in ns key) (latest_fill_attempt_in ms key)"
proof -
  define zs where "zs = zip ns ms"
  have len: "length ns = length ms" using assms by (rule list_all2_lengthD)
  have zs: "ns = map fst zs" "ms = map snd zs" by (simp_all add: zs_def len)
  have same: "same_fill (fst z) (snd z)" if "z \<in> set zs" for z
    using assms that unfolding zs_def list_all2_iff by (cases z) auto
  define ys where "ys = sort_key (\<lambda>z. attempt_ordinal (fst z) key) (filter (\<lambda>z. belongs_to_chain (fst z) key) zs)"
  have ys: "z \<in> set ys \<Longrightarrow> same_fill (fst z) (snd z)" for z
    using same by (auto simp: ys_def)
  have "filter (\<lambda>z. belongs_to_chain (snd z) key) zs = filter (\<lambda>z. belongs_to_chain (fst z) key) zs"
    using same by (intro filter_cong) (simp_all add: same_fill_chain)
  moreover have "sort_key (\<lambda>z. attempt_ordinal (snd z) key) xs = sort_key (\<lambda>z. attempt_ordinal (fst z) key) xs"
    if "set xs \<subseteq> set zs" for xs
    using that same by (intro sort_key_same) (auto simp: same_fill_chain)
  ultimately have "fill_attempt_chain_in ns key = map fst ys" "fill_attempt_chain_in ms key = map snd ys"
    by (simp_all add: fill_attempt_chain_in_def zs filter_map sort_key_fst comp_def ys_def)
  then show ?thesis
    using ys by (cases ys rule: rev_cases) (auto simp: latest_fill_attempt_in_def)
qed

text \<open>What every step of the sweep keeps: the fills it read, as the store holds them now.\<close>

definition fills_kept :: "(string, gnode) dict \<Rightarrow> store \<Rightarrow> bool" where
  "fills_kept fills s \<longleftrightarrow> store_wf s
     \<and> (\<forall>(k, n) \<in> set fills. gn_key n = k \<and> (\<exists>m. get_node s ''Fill'' k = Some m \<and> same_fill n m))"

lemma fills_kept_step:
  assumes "fills_kept fills s" "store_wf s'"
    "\<And>k m. get_node s ''Fill'' k = Some m \<Longrightarrow> \<exists>m'. get_node s' ''Fill'' k = Some m' \<and> same_fill m m'"
  shows "fills_kept fills s'"
  using assms unfolding fills_kept_def by (fastforce intro: same_fill_trans)

lemma merge_fill_same:
  assumes "store_wf s" "dict_wf p" "get_node s ''Fill'' k = Some m"
    and "label \<noteq> ''Fill'' \<or> dict_get p ''drop_reason'' = Some (PStr drop_reason)
      \<and> set (dict_keys p) = {''drop_reason'', ''dropped_at''}"
  shows "\<exists>m'. get_node (fst (merge_node now s label key p v)) ''Fill'' k = Some m' \<and> same_fill m m'"
proof (cases "(''Fill'', k) = (label, key)")
  case False
  with merge_node_other [of "''Fill''" k label key now s p v] assms(3) show ?thesis by simp
next
  case True
  obtain s' r where merge: "merge_node now s label key p v = (s', r)" by fastforce
  show ?thesis
  proof (cases r)
    case (Inl e)
    with merge_node_failed [of now s label key p v] merge assms(3) show ?thesis by auto
  next
    case (Inr n)
    note merge = merge [unfolded Inr]
    from merge_node_written [OF assms(1,2) merge] True
    have n: "get_node s' ''Fill'' k = Some n" "gn_key n = k" "holds_props n p" by auto
    from merge True assms(3) obtain merged where ap: "append_props (gn_props m) p = Inr merged"
      and made: "n = make_node label key merged v"
      by (auto simp: merge_node_def merge_core_def get_node_def Let_def split: sum.splits if_splits)
    have wf: "node_wf (''Fill'', k) m" using assms(1,3) by (auto simp: get_node_def intro: store_wf_node)
    have props: "gn_props n = frozen_props merged" by (simp add: made)
    have frozen: "frozen_props merged = merged"
      using append_loop_wf [OF ap [unfolded append_props_def]] wf by (simp add: node_wf_def props_frozen_id)
    have other: "dict_get (gn_props n) name = dict_get (gn_props m) name" if "name \<notin> set (dict_keys p)" for name
    proof -
      have "dict_get p name = None" using that by (simp add: dict_get_None_iff)
      then show ?thesis
        using append_loop_written [OF ap [unfolded append_props_def] assms(2), of name] by (simp add: props frozen)
    qed
    have keys: "set (dict_keys p) = {''drop_reason'', ''dropped_at''}"
      and reason: "dict_get p ''drop_reason'' = Some (PStr drop_reason)" using assms(4) True by auto
    have "is_dropped_fill n"
      using n(3) reason by (simp add: is_dropped_fill_def holds_props_def prop_is_iff)
    moreover have "gn_key m = k" using wf by (simp add: node_wf_def node_key_of_def)
    moreover have "''broker_idempotency_key'' \<notin> set (dict_keys p)" "''attempt_ordinal'' \<notin> set (dict_keys p)"
      "''source_run_id'' \<notin> set (dict_keys p)" by (simp_all only: keys) simp_all
    ultimately have "same_fill m n"
      using n(2) by (simp add: same_fill_def other)
    with n(1) merge show ?thesis by auto
  qed
qed

named_theorems graph_keeps

abbreviation keeps_graph :: "('g \<Rightarrow> bool) \<Rightarrow> (('g, 'b) exec_state, 'a) step \<Rightarrow> bool" where
  "keeps_graph P m \<equiv> step_keeps (\<lambda>st. P (xs_graph st)) m"

lemma graph_on_graph: "step_keeps P m \<Longrightarrow> keeps_graph P (on_graph m)"
  by (simp add: step_keeps_def on_graph_def split: prod.split) (metis fst_conv)

lemma graph_on_broker [graph_keeps]: "keeps_graph P (on_broker m)"
  by (simp add: step_keeps_def on_broker_def split: prod.split)

lemma graph_read [graph_keeps]: "keeps_graph P (read_graph f)"
  by (simp add: step_keeps_def read_graph_def)

lemma graph_submit_fault [graph_keeps]: "keeps_graph P (submit_fault f)"
  by (simp add: step_keeps_def submit_fault_def)

lemmas graph_sequence [graph_keeps] =
  step_keeps_return step_keeps_res step_keeps_bind step_keeps_forget step_keeps_each

lemma graph_cases [graph_keeps]:
  "keeps_graph P a \<Longrightarrow> (\<And>y. keeps_graph P (f y)) \<Longrightarrow> keeps_graph P (case v of None \<Rightarrow> a | Some y \<Rightarrow> f y)"
  "(\<And>x y. keeps_graph P (g x y)) \<Longrightarrow> keeps_graph P (case p of (x, y) \<Rightarrow> g x y)"
  "keeps_graph P m1 \<Longrightarrow> keeps_graph P m2 \<Longrightarrow> keeps_graph P (if c then m1 else m2)"
  by (simp_all split: option.split prod.split)

lemma graph_world_now [graph_keeps]: "keeps_graph P (world_now env)"
  by (simp add: world_now_def graph_read)

lemma graph_raise_fault [graph_keeps]: "keeps_graph P (raise_fault env m c s e t x)"
  unfolding raise_fault_def by (intro graph_keeps)

lemma graph_bounded [graph_keeps]: "keeps_graph P m \<Longrightarrow> keeps_graph P (bounded env mo c m)"
  by (simp add: step_keeps_def bounded_def split: prod.split) (metis fst_conv)

lemma graph_attempting [graph_keeps]:
  "keeps_graph P m \<Longrightarrow> (\<And>e. keeps_graph P (h e)) \<Longrightarrow> keeps_graph P (attempting m h)"
  by (auto simp: step_keeps_def attempting_def split: prod.split sum.split)

text \<open>The steps of the sweep on the in-memory store.\<close>

lemma fills_kept_merge:
  assumes "xe_port env = mem_port" "dict_wf p"
    and "label \<noteq> ''Fill'' \<or> dict_get p ''drop_reason'' = Some (PStr drop_reason)
      \<and> set (dict_keys p) = {''drop_reason'', ''dropped_at''}"
  shows "keeps_graph (fills_kept fills) (px_merge env label key p)"
  unfolding px_merge_def
proof (rule graph_on_graph)
  show "step_keeps (fills_kept fills) (\<lambda>g. gp_merge (xe_port env) (xe_wall env g) g label key p 1)"
    unfolding step_keeps_def assms(1) mem_port_simps
  proof (intro allI impI)
    fix s assume s: "fills_kept fills s"
    then have wf: "store_wf s" by (simp add: fills_kept_def)
    show "fills_kept fills (fst (merge_node (xe_wall env s) s label key p 1))"
      by (rule fills_kept_step [OF s merge_node_wf [OF wf assms(2)] merge_fill_same [OF wf assms(2) _ assms(3)]])
  qed
qed

lemma fills_kept_edge:
  assumes "xe_port env = mem_port"
  shows "keeps_graph (fills_kept fills) (px_edge env a b t)"
  unfolding px_edge_def
proof (rule graph_on_graph)
  show "step_keeps (fills_kept fills) (\<lambda>g. gp_edge (xe_port env) (xe_wall env g) g a b t None)"
    unfolding step_keeps_def assms mem_port_simps
    by (auto simp: fills_kept_def add_edge_wf add_edge_get)
qed

lemma fills_kept_walk:
  assumes "xe_port env = mem_port"
  shows "step_keeps (fills_kept fills) (descend (genv env) n t)" "step_keeps (fills_kept fills) (ascend (genv env) n t)"
  by (simp_all add: step_keeps_def descend_def ascend_def assms descendants_def ancestors_def Let_def fills_kept_def)

lemma fills_kept_record_drop:
  assumes "xe_port env = mem_port"
  shows "keeps_graph (fills_kept fills) (record_drop env f fill s)"
  unfolding record_drop_def record_untracked_order_ack_def record_dropped_fault_def Let_def
  by (intro graph_keeps fills_kept_merge [OF assms] fills_kept_edge [OF assms])
    (simp_all add: dict_wf_def untracked_ack_props_def drop_status_props_def)

lemma fills_kept_order:
  assumes "xe_port env = mem_port"
  shows "keeps_graph (fills_kept fills) (sweep_order env run_id f reads)"
  unfolding sweep_order_def skip_order_def is_stop_order_def record_stop_mismatch_def cancel_order_def Let_def
  by (intro graph_keeps fills_kept_record_drop [OF assms])

lemma fills_kept_run:
  assumes "xe_port env = mem_port"
  shows "step_keeps (fills_kept fills) (execution_run_for_fill env n)"
proof -
  have "step_keeps (fills_kept fills) (foldr (\<lambda>ord rest. step_bind (descend (genv env) ord ''EMITTED_BY'') (\<lambda>runs.
             case runs of
               [] \<Rightarrow> rest
             | r # _ \<Rightarrow> step_bind (descend (genv env) r ''EXECUTED_BY'') (\<lambda>xs.
                 step_return (case xs of [] \<Rightarrow> None | x # _ \<Rightarrow> Some x)))) orders (step_return None))" for orders
    by (induction orders)
      (auto intro!: step_keeps_bind fills_kept_walk [OF assms] step_keeps_return split: list.split)
  then show ?thesis
    unfolding execution_run_for_fill_def Let_def by (intro step_keeps_bind fills_kept_walk [OF assms])
qed

lemma fills_kept_one:
  assumes "xe_port env = mem_port"
  shows "keeps_graph (fills_kept fills) (sweep_one env run_id f acc)"
proof -
  obtain reads touched n where acc: "acc = (reads, touched, n)" by (cases acc)
  show ?thesis
    unfolding sweep_one_def sweep_bounded_def remember_execution_run_def acc prod.case
    by (rule step_keeps_bind [OF graph_bounded [OF fills_kept_order [OF assms]]])
      (auto intro!: graph_keeps graph_on_graph fills_kept_run [OF assms] split: option.split bool.split)
qed

section \<open>The sweep\<close>

text \<open>What a sweep holds after some orders, against what it read.\<close>

definition reads_like :: "sweep_reads \<Rightarrow> sweep_reads \<Rightarrow> bool" where
  "reads_like rd reads \<longleftrightarrow> swr_stops reads = swr_stops rd
     \<and> list_all2 (\<lambda>(k, n) (k', n'). k' = k \<and> same_fill n n') (swr_fills rd) (swr_fills reads)"

lemma reads_like_refl: "reads_like rd rd"
  by (auto simp: reads_like_def list_all2_same)

lemma sweepable_same:
  assumes "reads_like rd reads" "sweepable reads run_id f"
  shows "sweepable rd run_id f"
proof -
  have "list_all2 same_fill (dict_values (swr_fills rd)) (dict_values (swr_fills reads))"
    using assms(1) by (simp add: reads_like_def list_all2_map1 list_all2_map2 case_prod_beta list_all2_conv_all_nth)
  from latest_attempt_same [OF this, of "bf_key f"]
  have "rel_option same_fill (sweep_latest_fill rd (bf_key f)) (sweep_latest_fill reads (bf_key f))"
    by (simp add: sweep_latest_fill_def)
  note rel = this
  have "is_current_run f (sweep_latest_fill rd (bf_key f)) run_id = is_current_run f (sweep_latest_fill reads (bf_key f)) run_id"
    using rel by (cases rule: option.rel_cases) (simp_all add: same_fill_chain)
  moreover have "(case sweep_latest_fill rd (bf_key f) of None \<Rightarrow> False | Some n \<Rightarrow> is_dropped_fill n)
       \<longrightarrow> (case sweep_latest_fill reads (bf_key f) of None \<Rightarrow> False | Some n \<Rightarrow> is_dropped_fill n)"
    using rel by (cases rule: option.rel_cases) (simp_all add: same_fill_def)
  moreover have "tracked_as_stop reads f = tracked_as_stop rd f"
    using assms(1) by (simp add: reads_like_def tracked_as_stop_def)
  ultimately show ?thesis using assms(2) by (auto simp: sweepable_iff)
qed

lemma update_like:
  assumes "list_all2 (\<lambda>(k, n) (k', n'). k' = k \<and> R n n') ns d" "k \<in> set (dict_keys d)"
    and "\<And>n. (k, n) \<in> set ns \<Longrightarrow> R n m"
  shows "list_all2 (\<lambda>(k, n) (k', n'). k' = k \<and> R n n') ns (dict_set k m d)"
  using assms by (induction rule: list_all2_induct) auto

lemma list_all2_in: "list_all2 R xs ys \<Longrightarrow> y \<in> set ys \<Longrightarrow> \<exists>x\<in>set xs. R x y"
  by (induction rule: list_all2_induct) auto

lemma reread_like:
  assumes "reads_like rd reads" "fills_kept (swr_fills rd) g" "xe_port env = mem_port"
    and "sweep_latest_fill reads key = Some n"
  shows "reads_like rd (reread_fill env n reads g)"
proof -
  have "n \<in> set (dict_values (swr_fills reads))"
    using assms(4) unfolding sweep_latest_fill_def by (rule latest_attempt_in)
  then obtain k where "(k, n) \<in> set (swr_fills reads)" by auto
  with assms(1) obtain n0 where n0: "(k, n0) \<in> set (swr_fills rd)" "same_fill n0 n"
    using list_all2_in [of _ "swr_fills rd" "swr_fills reads" "(k, n)"] by (auto simp: reads_like_def)
  have F: "gn_key n1 = k1 \<and> (\<exists>m. get_node g ''Fill'' k1 = Some m \<and> same_fill n1 m)"
    if "(k1, n1) \<in> set (swr_fills rd)" for k1 n1
    using assms(2) that by (auto simp: fills_kept_def)
  have key: "gn_key n = k" using F [OF n0(1)] n0(2) by (simp add: same_fill_def)
  let ?m = "case get_node g ''Fill'' k of None \<Rightarrow> n | Some m \<Rightarrow> m"
  have "k \<in> set (dict_keys (swr_fills reads))" using \<open>(k, n) \<in> set (swr_fills reads)\<close> by force
  moreover have "same_fill n1 ?m" if "(k, n1) \<in> set (swr_fills rd)" for n1
    using F [OF that] by auto
  ultimately show ?thesis
    using assms(1) update_like [of same_fill "swr_fills rd" "swr_fills reads" k ?m]
    by (simp add: reads_like_def reread_fill_def assms(3) key)
qed

lemma keeps_sweep_one:
  assumes "sweepable reads run_id f \<Longrightarrow> cancel_keeps env P f"
  shows "keeps_broker P (sweep_one env run_id f (reads, touched, n))"
  unfolding sweep_one_def sweep_bounded_def remember_execution_run_def prod.case
  by (rule step_keeps_bind [OF keeps_bounded [OF keeps_sweep_order [OF assms]]])
    (auto intro!: broker_keeps split: option.split bool.split)

text \<open>One order always ends, and what the sweep holds stays like what it read.\<close>

lemma sweep_one_result:
  assumes "xe_port env = mem_port" "reads_like rd reads" "fills_kept (swr_fills rd) (xs_graph st)"
  shows "\<exists>st' reads' touched' n'. sweep_one env run_id f (reads, touched, n) st = (st', Inr (reads', touched', n'))
     \<and> reads_like rd reads' \<and> fills_kept (swr_fills rd) (xs_graph st') \<and> n' \<le> n + 1"
proof -
  obtain st1 r where first: "sweep_bounded env (sweep_order env run_id f reads) st = (st1, Inr r)"
    using sweep_bounded_ends by blast
  have kept1: "fills_kept (swr_fills rd) (xs_graph st1)"
    using step_keepsD [OF graph_bounded [OF fills_kept_order [OF assms(1)]] _ first [unfolded sweep_bounded_def]] assms(3) .
  have ends: "\<exists>st' reads' touched' n'. sweep_one env run_id f (reads, touched, n) st = (st', Inr (reads', touched', n'))
     \<and> reads_like rd reads' \<and> n' \<le> n + 1"
  proof (cases "r = Some True \<and> sweep_latest_fill reads (bf_key f) \<noteq> None")
    case True
    then obtain nd where nd: "r = Some True" "sweep_latest_fill reads (bf_key f) = Some nd" by blast
    have "reads_like rd (reread_fill env nd reads (xs_graph st1))"
      by (rule reread_like [OF assms(2) kept1 assms(1) nd(2)])
    moreover obtain st2 t where "sweep_bounded env (remember_execution_run env nd touched) st1 = (st2, Inr t)"
      using sweep_bounded_ends by blast
    ultimately show ?thesis using first nd
      by (cases t) (simp_all add: sweep_one_def step_bind_def read_graph_def step_return_def)
  next
    case False
    with first assms(2) show ?thesis
      by (auto simp: sweep_one_def step_bind_def step_return_def split: option.split bool.split)
  qed
  then obtain st' x where "sweep_one env run_id f (reads, touched, n) st = (st', Inr x)" by blast
  from step_keepsD [OF fills_kept_one [OF assms(1)] assms(3) this] this ends show ?thesis by auto
qed

lemma sweep_all_keeps:
  assumes "xe_port env = mem_port" "\<And>f. f \<in> set fs \<Longrightarrow> sweepable rd run_id f \<Longrightarrow> cancel_keeps env P f"
    and "reads_like rd reads" "fills_kept (swr_fills rd) (xs_graph st)" "P (xs_broker st)"
  shows "\<exists>st' reads' touched' n'. sweep_all env run_id fs (reads, touched, n) st = (st', Inr (reads', touched', n'))
    \<and> P (xs_broker st') \<and> n' \<le> n + length fs"
  using assms(2-)
proof (induction fs arbitrary: reads touched n st)
  case (Cons f fs)
  obtain st1 reads1 touched1 n1 where one: "sweep_one env run_id f (reads, touched, n) st = (st1, Inr (reads1, touched1, n1))"
    and like: "reads_like rd reads1" "fills_kept (swr_fills rd) (xs_graph st1)" "n1 \<le> n + 1"
    using sweep_one_result [OF assms(1) Cons.prems(2,3), of run_id f touched n] by blast
  have "keeps_broker P (sweep_one env run_id f (reads, touched, n))"
    using Cons.prems(1) sweepable_same [OF Cons.prems(2)] by (intro keeps_sweep_one) simp
  from step_keepsD [OF this Cons.prems(4) one] have P1: "P (xs_broker st1)" .
  from Cons.IH [OF Cons.prems(1) like(1,2) P1, where touched = touched1 and n = n1] obtain st' reads' touched' n' where
    "sweep_all env run_id fs (reads1, touched1, n1) st1 = (st', Inr (reads', touched', n'))"
    "P (xs_broker st')" "n' \<le> n1 + length fs" by auto
  with one like show ?case by (auto simp: step_bind_def)
qed (simp add: step_return_def)

lemma keeps_mark: "keeps_broker P (step_each (mark_execution_run env) touched)"
  unfolding mark_execution_run_def by (intro step_keeps_each) (auto intro!: broker_keeps split: option.split)

text \<open>The fills a sweep reads are those of the store.\<close>

lemma read_fills_kept:
  assumes "store_wf g" "xe_port env = mem_port" "read_sweep env g = Inr rd"
  shows "fills_kept (swr_fills rd) g"
proof -
  have node: "get_node g ''Fill'' (gn_key n) = Some n" if "n \<in> set (list_nodes g ''Fill'')" for n
  proof -
    from that obtain k where k: "(k, n) \<in> set (st_nodes g)" "gn_label n = ''Fill''"
      by (auto simp: list_nodes_def)
    with assms(1) have "dict_get (st_nodes g) k = Some n" "k = node_key_of n"
      by (auto simp: store_wf_def dict_get_Some_iff node_wf_def)
    with k(2) show ?thesis by (simp add: get_node_def node_key_of_def)
  qed
  have "\<forall>(k, n) \<in> set (fold (\<lambda>n. dict_set (gn_key n) n) ns d). gn_key n = k \<and> get_node g ''Fill'' k = Some n"
    if "set ns \<subseteq> set (list_nodes g ''Fill'')" "\<forall>(k, n) \<in> set d. gn_key n = k \<and> get_node g ''Fill'' k = Some n" for ns d
    using that
  proof (induction ns arbitrary: d)
    case (Cons n ns)
    have "\<forall>(k, m) \<in> set (dict_set (gn_key n) n d). gn_key m = k \<and> get_node g ''Fill'' k = Some m"
      using Cons.prems node [of n] by (induction d) auto
    with Cons show ?case by simp
  qed simp
  from this [OF order_refl, of "[]"] assms show ?thesis
    by (fastforce simp: read_sweep_def Let_def res_bind_Inr_iff fills_kept_def)
qed

lemma sweep_keeps:
  assumes read: "run_start_orders env [] st = (st1, r)" "P (xs_broker st1)"
    and store: "xe_port env = mem_port" "store_wf (xs_graph st1)"
    and cancels: "\<And>fs reads f. r = Inr fs \<Longrightarrow> read_sweep env (xs_graph st1) = Inr reads \<Longrightarrow> f \<in> set fs \<Longrightarrow>
      sweepable reads run_id f \<Longrightarrow> cancel_keeps env P f"
  shows "\<exists>st' n. sweep_unfilled_orders env run_id st = (st', Inr n) \<and> P (xs_broker st')
    \<and> n \<le> (case r of Inl e \<Rightarrow> 0 | Inr fs \<Rightarrow> length fs)"
proof -
  obtain st2 where orders: "sweep_bounded env (run_start_orders env []) st
      = (st2, Inr (case r of Inl e \<Rightarrow> None | Inr fs \<Rightarrow> Some fs))"
    and st2: "xs_broker st2 = xs_broker st1" "xs_graph st2 = xs_graph st1"
    using read by (auto simp: sweep_bounded_def bounded_def)
  show ?thesis
  proof (cases "r = Inr [] \<or> (\<exists>e. r = Inl e)")
    case True
    with orders st2 read show ?thesis
      by (auto simp: sweep_unfilled_orders_def step_bind_def step_return_def Let_def)
  next
    case False
    then obtain fs where fs: "r = Inr fs" "fs \<noteq> []" by (cases r) auto
    obtain st3 where reads: "sweep_bounded env (step_res (read_sweep env (xs_graph st2))) st2
        = (st3, Inr (case read_sweep env (xs_graph st2) of Inl e \<Rightarrow> None | Inr x \<Rightarrow> Some x))"
      and st3: "xs_broker st3 = xs_broker st2" and g3: "xs_graph st3 = xs_graph st2"
      by (auto simp: sweep_bounded_def bounded_def step_res_def)
    show ?thesis
    proof (cases "read_sweep env (xs_graph st2)")
      case (Inl e)
      with orders reads fs st2 st3 read show ?thesis
        by (auto simp: sweep_unfilled_orders_def step_bind_def step_return_def read_graph_def Let_def)
    next
      case (Inr rd)
      have "cancel_keeps env P f"
        if "f \<in> set fs" "sweepable rd run_id f" for f
        using cancels [OF fs(1) _ that] Inr st2 by simp
      note cancels_keep = this
      have "P (xs_broker st3)" using st3 st2 read by simp
      moreover have "fills_kept (swr_fills rd) (xs_graph st3)"
        using read_fills_kept [OF _ store(1) Inr] store(2) st2 g3 by simp
      ultimately
      obtain st4 rd' touched n where all: "sweep_all env run_id fs (rd, [], 0) st3 = (st4, Inr (rd', touched, n))"
        and st4: "P (xs_broker st4)" "n \<le> length fs"
        using sweep_all_keeps [OF store(1), of fs rd run_id P rd st3 "[]" 0] cancels_keep reads_like_refl by auto
      obtain st5 x where mark: "sweep_bounded env (step_each (mark_execution_run env) touched) st4 = (st5, Inr x)"
        using sweep_bounded_ends by blast
      have "keeps_broker P (sweep_bounded env (step_each (mark_execution_run env) touched))"
        unfolding sweep_bounded_def by (intro keeps_bounded keeps_mark)
      with mark st4 have "P (xs_broker st5)" by (metis step_keepsD)
      with orders reads fs Inr all mark st4 show ?thesis
        by (auto simp: sweep_unfilled_orders_def step_bind_def step_return_def read_graph_def Let_def)
    qed
  qed
qed

text \<open>
  C4. On the paper broker and the in-memory store the sweep at the head of a run always returns, with at
  most as many drops as there are orders, and leaves as it was every order that is not pending, not the
  pipeline's, of the current run (by its key or by the run its \<open>Fill\<close> names as its source), already
  dropped, or a stop to the broker or in the graph: the protection of held positions outlives it.
\<close>

theorem sweep_spares_protection:
  assumes "paper_backed env" "xe_port env = mem_port" "store_wf (xs_graph st)" "paper_wf (xs_broker st)"
    "dict_get (pb_fills (xs_broker st)) key = Some f"
    "\<And>reads. read_sweep env (xs_graph st) = Inr reads \<Longrightarrow> \<not> sweepable reads run_id f"
  shows "\<exists>st' n. sweep_unfilled_orders env run_id st = (st', Inr n)
    \<and> n \<le> length (paper_fills (xs_broker st)) \<and> dict_get (pb_fills (xs_broker st')) key = Some f"
proof -
  let ?b = "xs_broker st" and ?P = "\<lambda>b. dict_get (pb_fills b) key = Some f"
  have wf: "dict_wf (pb_fills ?b)" and ids: "\<And>k g. (k, g) \<in> set (pb_fills ?b) \<Longrightarrow> bf_key g = k \<and> bf_order_id g = paper_order_id k"
    using assms(4) by (auto simp: paper_wf_def)
  have fid: "bf_order_id f = paper_order_id key"
    using ids [of key f] assms(5) wf by (simp add: dict_get_Some_iff)
  have read: "run_start_orders env [] st = (st, Inr (paper_fills ?b))"
    using assms(1) by (simp add: run_start_orders_def paper_backed_def on_broker_def)
  have cancels: "cancel_keeps env ?P g"
    if "g \<in> set (paper_fills ?b)" "g \<noteq> f" for g
  proof -
    from that(1) obtain k where "(k, g) \<in> set (pb_fills ?b)" by (auto simp: paper_fills_def)
    with ids wf assms(5) that(2) have "bf_order_id g \<noteq> bf_order_id f"
      unfolding fid by (metis dict_get_Some_iff option.inject paper_order_id_inj)
    then have same: "cancel_fill (bf_order_id g) f = f" by (auto simp: cancel_fill_def)
    have "dict_get (map (\<lambda>(k, x). (k, cancel_fill (bf_order_id g) x)) d) key = map_option (cancel_fill (bf_order_id g)) (dict_get d key)" for d
      by (induction d) auto
    with same assms(1) show ?thesis
      by (simp add: cancel_keeps_def paper_backed_def paper_cancel_def)
  qed
  have "cancel_keeps env ?P g"
    if "read_sweep env (xs_graph st) = Inr reads" "g \<in> set (paper_fills ?b)" "sweepable reads run_id g" for reads g
    using cancels [OF that(2)] assms(6) [OF that(1)] that(3) by blast
  with sweep_keeps [OF read _ assms(2,3), of ?P run_id] assms(5) show ?thesis by auto
qed

definition resting_order :: "string \<Rightarrow> string \<Rightarrow> broker_fill" where
  "resting_order key ticker = broker_fill_of key ticker Sell 3 (usd 10) (paper_order_id key) Pending"

definition resting_broker :: paper_broker where
  "resting_broker = (new_paper_broker 0 0 [] (usd 1000) ''new'')\<lparr>pb_fills :=
     [(''exit:p:ACME:sell'', resting_order ''exit:p:ACME:sell'' ''ACME''),
      (''run0:BETA:sell'', resting_order ''run0:BETA:sell'' ''BETA'')]\<rparr>"

text \<open>An exit of the current run, known as such only by the source its \<open>Fill\<close> names.\<close>

definition exit_store :: store where
  "exit_store = fst (merge_node sample_time empty_store ''Fill'' ''exit:p:ACME:sell''
     [(''source_run_id'', PStr ''run1'')] 1)"

lemma exit_store_fills:
  "store_wf exit_store"
  "\<exists>n. list_nodes exit_store ''Fill'' = [n] \<and> gn_key n = ''exit:p:ACME:sell''
     \<and> gn_props n = [(''source_run_id'', PStr ''run1'')]"
  unfolding exit_store_def
  by (rule merge_node_wf) (simp_all add: dict_wf_def list_nodes_def merge_node_def merge_core_def empty_store_def
      frozen_props_def Let_def del: store_wf_empty, simp add: store_wf_empty [unfolded empty_store_def])

lemma sweep_spares_protection_witness:
  "\<exists>st' n. sweep_unfilled_orders (sample_pull_env (\<lambda>v. Inl (ValueError []))) ''run1''
       \<lparr>xs_graph = exit_store, xs_broker = resting_broker, xs_faults = []\<rparr> = (st', Inr n)
     \<and> n \<le> 2 \<and> dict_get (pb_fills (xs_broker st')) ''exit:p:ACME:sell''
         = Some (resting_order ''exit:p:ACME:sell'' ''ACME'')"
proof -
  let ?env = "sample_pull_env (\<lambda>v. Inl (ValueError []))" and ?f = "resting_order ''exit:p:ACME:sell'' ''ACME''"
  let ?st = "\<lparr>xs_graph = exit_store, xs_broker = resting_broker, xs_faults = []\<rparr>"
  have "paper_wf resting_broker"
    by (simp add: paper_wf_def resting_broker_def resting_order_def dict_wf_def new_paper_broker_def)
  moreover have "dict_get (pb_fills resting_broker) ''exit:p:ACME:sell'' = Some ?f"
    by (simp add: resting_broker_def)
  moreover have "\<not> sweepable reads ''run1'' ?f" if "read_sweep ?env exit_store = Inr reads" for reads
  proof -
    obtain n where n: "list_nodes exit_store ''Fill'' = [n]" "gn_key n = ''exit:p:ACME:sell''"
      "gn_props n = [(''source_run_id'', PStr ''run1'')]" using exit_store_fills(2) by blast
    have "swr_fills reads = [(''exit:p:ACME:sell'', n)]"
      using that by (auto simp: read_sweep_def Let_def res_bind_Inr_iff sample_pull_env_def n)
    then have "sweep_latest_fill reads ''exit:p:ACME:sell'' = Some n"
      by (simp add: sweep_latest_fill_def latest_fill_attempt_in_def fill_attempt_chain_in_def belongs_to_chain_def n)
    then show ?thesis
      by (simp add: sweepable_iff is_current_run_def resting_order_def n prop_is_iff)
  qed
  moreover have "length (paper_fills resting_broker) = 2" by (simp add: resting_broker_def paper_fills_def)
  moreover have "xe_port ?env = mem_port" by (simp add: sample_pull_env_def)
  ultimately show ?thesis
    using sweep_spares_protection [OF sample_pm_backed, of _ ?st "''exit:p:ACME:sell''" ?f "''run1''"]
      exit_store_fills(1) by simp
qed

end
