(* ===== verification/DivergenceEpisodes.thy ===== *)
theory DivergenceEpisodes
  imports DivergenceFlags
begin

text \<open>
  The flags of a divergence implement a machine of three phases: quiet, warned, persisting.  A
  divergence that a run start sees moves on, one that it no longer sees is quiet again.
\<close>

section \<open>The machine\<close>

datatype episode_phase = Quiet | Warned | Persisting

fun phase_step :: "bool \<Rightarrow> episode_phase \<Rightarrow> episode_phase" where
  "phase_step False p = Quiet"
| "phase_step True Quiet = Warned"
| "phase_step True Warned = Persisting"
| "phase_step True Persisting = Persisting"

section \<open>Open flags\<close>

text \<open>The flags \<open>F\<close> and the resolutions \<open>R\<close> of a store.\<close>

definition flag_id :: "(rat \<Rightarrow> string) \<Rightarrow> gnode \<Rightarrow> string \<times> string" where
  "flag_id flt n = episode_identity (fst (flag_join flt n))"

definition flag_sev :: "(rat \<Rightarrow> string) \<Rightarrow> gnode \<Rightarrow> string" where
  "flag_sev flt n = snd (flag_join flt n)"

definition open_flags :: "(rat \<Rightarrow> string) \<Rightarrow> gnode set \<Rightarrow> gnode set \<Rightarrow> gnode set" where
  "open_flags flt F R = {n \<in> F. is_family (fst (flag_join flt n)) \<and> flag_join flt n \<notin> flag_join flt ` R}"

definition phase_of :: "(rat \<Rightarrow> string) \<Rightarrow> gnode set \<Rightarrow> gnode set \<Rightarrow> string \<times> string \<Rightarrow> episode_phase" where
  "phase_of flt F R i =
     (let sevs = flag_sev flt ` {n \<in> open_flags flt F R. flag_id flt n = i}
      in if sevs = {} then Quiet else if ''critical'' \<in> sevs then Persisting else Warned)"

definition severities :: "string set" where
  "severities = {''warn'', ''critical''}"

definition unspent :: "(rat \<Rightarrow> string) \<Rightarrow> gnode set \<Rightarrow> gnode set \<Rightarrow> string \<Rightarrow> string \<Rightarrow> bool" where
  "unspent flt F R subject sev \<longleftrightarrow>
     (\<forall>n \<in> F. gn_key n \<noteq> flag_key_for subject sev) \<and> (subject, sev) \<notin> flag_join flt ` R"

text \<open>A flag of the family as this code writes it, and a resolution under the key it resolves.\<close>

definition flag_well :: "(rat \<Rightarrow> string) \<Rightarrow> gnode \<Rightarrow> bool" where
  "flag_well flt n \<longleftrightarrow>
     (\<exists>subject. dict_get (gn_props n) ''subject_ref'' = Some (PStr subject))
     \<and> gn_label n = ''Flag'' \<and> flag_sev flt n \<in> severities
     \<and> gn_key n = flag_key_for (fst (flag_join flt n)) (flag_sev flt n)"

definition resolution_well :: "(rat \<Rightarrow> string) \<Rightarrow> gnode \<Rightarrow> bool" where
  "resolution_well flt r \<longleftrightarrow>
     (\<forall>subject sev. is_family subject \<and> sev \<in> severities \<and> gn_key r = resolution_key_for subject sev \<longrightarrow>
        flag_join flt r = (subject, sev))"

definition flags_well :: "(rat \<Rightarrow> string) \<Rightarrow> gnode set \<Rightarrow> gnode set \<Rightarrow> bool" where
  "flags_well flt F R \<longleftrightarrow>
     (\<forall>n \<in> F. is_family (fst (flag_join flt n)) \<longrightarrow> flag_well flt n)
     \<and> (\<forall>r \<in> R. resolution_well flt r)
     \<and> (\<forall>n \<in> open_flags flt F R. \<forall>m \<in> open_flags flt F R.
          flag_id flt n = flag_id flt m \<and> flag_sev flt n = flag_sev flt m \<longrightarrow> n = m)"

text \<open>An open warning that nothing superseded can still be escalated.\<close>

definition escalatable :: "(rat \<Rightarrow> string) \<Rightarrow> gnode set \<Rightarrow> gnode set \<Rightarrow> bool" where
  "escalatable flt F R \<longleftrightarrow>
     (\<forall>n \<in> open_flags flt F R. flag_sev flt n = ''warn''
        \<and> (\<forall>m \<in> open_flags flt F R. flag_id flt m = flag_id flt n \<longrightarrow> flag_sev flt m \<noteq> ''critical'')
        \<longrightarrow> unspent flt F R (fst (flag_join flt n)) ''critical'')"

lemma flag_key_for_inj:
  assumes "v \<in> severities" "w \<in> severities"
  shows "flag_key_for a v = flag_key_for b w \<longleftrightarrow> a = b \<and> v = w"
proof
  assume eq: "flag_key_for a v = flag_key_for b w"
  then have "last (flag_key_for a v) = last (flag_key_for b w)" by simp
  with assms have "v = w" by (auto simp: severities_def flag_key_for_def)
  with eq show "a = b \<and> v = w" by (simp add: flag_key_for_def)
qed simp

lemma resolution_key_for_inj:
  "v \<in> severities \<Longrightarrow> w \<in> severities \<Longrightarrow> resolution_key_for a v = resolution_key_for b w \<longleftrightarrow> a = b \<and> v = w"
  using flag_key_for_inj [of v w a b] by (simp add: resolution_key_for_def)

lemma open_flags_well:
  "flags_well flt F R \<Longrightarrow> n \<in> open_flags flt F R \<Longrightarrow> flag_well flt n \<and> n \<in> F"
  by (auto simp: flags_well_def open_flags_def)

lemma same_join_same_flag:
  assumes "flags_well flt F R" "n \<in> open_flags flt F R" "m \<in> open_flags flt F R" "flag_join flt n = flag_join flt m"
  shows "n = m"
  using assms by (auto simp: flags_well_def flag_id_def flag_sev_def)

section \<open>A flag written\<close>

lemma open_insert_flag:
  assumes "is_family (fst (flag_join flt m))" "flag_join flt m \<notin> flag_join flt ` R"
  shows "open_flags flt (insert m F) R = insert m (open_flags flt F R)"
  using assms by (auto simp: open_flags_def)

lemma flags_well_insert:
  assumes "flags_well flt F R" "is_family (fst (flag_join flt m))" "flag_well flt m"
    "flag_join flt m \<notin> flag_join flt ` R"
    "\<And>n. n \<in> open_flags flt F R \<Longrightarrow> flag_id flt n = flag_id flt m \<Longrightarrow> flag_sev flt n \<noteq> flag_sev flt m"
  shows "flags_well flt (insert m F) R"
  using assms(1, 3, 5) by (auto simp: flags_well_def open_insert_flag [OF assms(2, 4)]) metis+

lemma unspent_insert:
  assumes "unspent flt F R subject sev" "flag_well flt m" "sev \<in> severities"
    "flag_join flt m \<noteq> (subject, sev)"
  shows "unspent flt (insert m F) R subject sev"
  using assms flag_key_for_inj [of "flag_sev flt m" sev "fst (flag_join flt m)" subject]
  by (auto simp: unspent_def flag_well_def flag_sev_def prod_eq_iff)

lemma escalatable_insert:
  assumes "escalatable flt F R" "is_family (fst (flag_join flt m))" "flag_well flt m"
    "flag_join flt m \<notin> flag_join flt ` R"
    "flag_sev flt m = ''warn'' \<Longrightarrow> unspent flt F R (fst (flag_join flt m)) ''critical''"
  shows "escalatable flt (insert m F) R"
  unfolding escalatable_def open_insert_flag [OF assms(2, 4)]
proof (intro ballI impI)
  fix n assume n: "n \<in> insert m (open_flags flt F R)" "flag_sev flt n = ''warn'' \<and>
     (\<forall>k \<in> insert m (open_flags flt F R). flag_id flt k = flag_id flt n \<longrightarrow> flag_sev flt k \<noteq> ''critical'')"
  have "unspent flt F R (fst (flag_join flt n)) ''critical''"
    using n assms(1, 5) by (auto simp: escalatable_def)
  moreover have "flag_join flt m \<noteq> (fst (flag_join flt n), ''critical'')"
    using n(2) by (auto simp: flag_id_def flag_sev_def)
  ultimately show "unspent flt (insert m F) R (fst (flag_join flt n)) ''critical''"
    using assms(3) by (intro unspent_insert) (simp_all add: severities_def)
qed

section \<open>A flag closed\<close>

lemma open_insert_resolution:
  assumes "flags_well flt F R" "n \<in> open_flags flt F R" "flag_join flt r = flag_join flt n"
  shows "open_flags flt F (insert r R) = open_flags flt F R - {n}"
proof -
  have "m = n" if "m \<in> open_flags flt F R" "flag_join flt m = flag_join flt n" for m
    using same_join_same_flag [OF assms(1) that(1) assms(2) that(2)] .
  with assms(2, 3) show ?thesis by (auto simp: open_flags_def)
qed

lemma flags_well_resolved:
  assumes "flags_well flt F R" "n \<in> open_flags flt F R" "flag_join flt r = flag_join flt n" "resolution_well flt r"
  shows "flags_well flt F (insert r R)"
  using assms(1, 4) by (auto simp: flags_well_def open_insert_resolution [OF assms(1-3)])

lemma escalatable_closed_warn:
  assumes "flags_well flt F R" "escalatable flt F R" "n \<in> open_flags flt F R" "flag_sev flt n = ''warn''"
    "flag_join flt r = flag_join flt n"
  shows "escalatable flt F (insert r R)"
  unfolding escalatable_def open_insert_resolution [OF assms(1, 3, 5)]
proof (intro ballI impI)
  let ?O = "open_flags flt F R"
  fix k assume k: "k \<in> ?O - {n}" "flag_sev flt k = ''warn'' \<and>
     (\<forall>m \<in> ?O - {n}. flag_id flt m = flag_id flt k \<longrightarrow> flag_sev flt m \<noteq> ''critical'')"
  have "flag_sev flt m \<noteq> ''critical''" if "m \<in> ?O" "flag_id flt m = flag_id flt k" for m
    using k(2) that assms(4) by (cases "m = n") auto
  with k assms(2) have "unspent flt F R (fst (flag_join flt k)) ''critical''" by (simp add: escalatable_def)
  moreover have "(subject, ''critical'') \<noteq> flag_join flt r" for subject
    using assms(4, 5) by (cases "flag_join flt n") (auto simp: flag_sev_def)
  ultimately show "unspent flt F (insert r R) (fst (flag_join flt k)) ''critical''"
    by (auto simp: unspent_def)
qed

section \<open>The store\<close>

definition flags_view :: "store \<Rightarrow> gnode set \<Rightarrow> gnode set \<Rightarrow> bool" where
  "flags_view s F R \<longleftrightarrow>
     store_wf s \<and> F = set (list_nodes s ''Flag'') \<and> R = set (list_nodes s ''FlagResolution'')"

lemma flags_view_absent:
  assumes "flags_view s F R"
  shows "(\<forall>n \<in> F. gn_key n \<noteq> key) \<longleftrightarrow> get_node s ''Flag'' key = None"
    "(\<forall>n \<in> R. gn_key n \<noteq> key) \<longleftrightarrow> get_node s ''FlagResolution'' key = None"
proof -
  have wf: "store_wf s" and F: "F = set (list_nodes s ''Flag'')" and R: "R = set (list_nodes s ''FlagResolution'')"
    using assms by (simp_all add: flags_view_def)
  have "(\<forall>n \<in> set (list_nodes s l). gn_key n \<noteq> key) \<longleftrightarrow> get_node s l key = None" for l
  proof (cases "get_node s l key")
    case (Some n)
    with mem_node_identity [OF wf Some] have "n \<in> set (list_nodes s l)" "gn_key n = key"
      by (simp_all add: mem_list_iff [OF wf])
    with Some show ?thesis by auto
  qed (auto simp: mem_list_iff [OF wf])
  then show "(\<forall>n \<in> F. gn_key n \<noteq> key) \<longleftrightarrow> get_node s ''Flag'' key = None"
    "(\<forall>n \<in> R. gn_key n \<noteq> key) \<longleftrightarrow> get_node s ''FlagResolution'' key = None" by (simp_all add: F R)
qed

lemma list_nodes_add:
  "list_nodes (s\<lparr>st_nodes := st_nodes s @ [((l, k), make_node l k p v)], st_edges := es\<rparr>) label =
     list_nodes s label @ (if label = l then [make_node l k p v] else [])"
  "list_nodes (s\<lparr>st_nodes := st_nodes s @ [((l, k), make_node l k p v)]\<rparr>) label =
     list_nodes s label @ (if label = l then [make_node l k p v] else [])"
  by (simp_all add: list_nodes_def)

lemma flag_props_wf [simp]: "dict_wf (flag_props_for now subject sev snapshot d)"
  by (simp add: flag_props_for_def dict_wf_def)

lemma resolution_props_wf [simp]: "dict_wf (resolution_props_for now subject sev snapshot reason)"
  by (simp add: resolution_props_for_def dict_wf_def split: option.split)

lemma written_flag:
  assumes "ge_port env = mem_port" "flags_view s F R" "unspent flt F R subject sev" "key \<notin> set written"
    "key = flag_key_for subject sev" "sev \<in> severities"
  shows "\<exists>s' m. write_divergence_flag env written subject sev snapshot d s = (s', Inr (True, key # written))
    \<and> flags_view s' (insert m F) R \<and> flag_join flt m = (subject, sev) \<and> flag_well flt m \<and> gn_key m = key"
proof -
  let ?p = "flag_props_for (ge_wall env s) subject sev snapshot d"
  define m where "m = make_node ''Flag'' key ?p 1"
  define s' where "s' = s\<lparr>st_nodes := st_nodes s @ [((''Flag'', key), m)]\<rparr>"
  from assms(2, 3, 5) have "get_node s ''Flag'' key = None"
    using flags_view_absent(1) [OF assms(2), of key] by (simp add: unspent_def)
  from mem_merge_new [OF this] have merge: "merge_node (ge_wall env s) s ''Flag'' key ?p 1 = (s', Inr m)"
    by (simp add: s'_def m_def)
  with merge_node_wf [of s ?p "ge_wall env s" "''Flag''" key 1] assms(2) have "store_wf s'"
    by (simp add: flags_view_def)
  then have view: "flags_view s' (insert m F) R"
    using assms(2) by (simp add: flags_view_def s'_def m_def list_nodes_add)
  have join: "flag_join flt m = (subject, sev)"
    by (simp add: flag_join_def m_def get_or_def flag_props_for_def)
  then have well: "flag_well flt m"
    using assms(5, 6) by (simp add: flag_well_def flag_sev_def) (simp add: m_def flag_props_for_def)
  have "write_divergence_flag env written subject sev snapshot d s = (s', Inr (True, key # written))"
    using assms(1, 4, 5) merge by (simp add: write_divergence_flag_def step_bind_def step_return_def)
  with view join well show ?thesis by (auto simp: m_def)
qed

lemma closed_flag:
  assumes "ge_port env = mem_port" "flags_view s F R" "flags_well (ge_float_text env) F R"
    "n \<in> open_flags (ge_float_text env) F R"
  shows "\<exists>s' r. close_flag env snapshot reason n s = (s', Inr ()) \<and> flags_view s' F (insert r R)
    \<and> flag_join (ge_float_text env) r = flag_join (ge_float_text env) n \<and> resolution_well (ge_float_text env) r"
proof -
  let ?flt = "ge_float_text env"
  obtain subject sev where join: "flag_join ?flt n = (subject, sev)" by (cases "flag_join ?flt n")
  let ?key = "resolution_key_for subject sev"
  let ?p = "resolution_props_for (ge_wall env s) subject sev (Some snapshot) reason"
  have wf: "store_wf s" and F: "F = set (list_nodes s ''Flag'')" using assms(2) by (simp_all add: flags_view_def)
  from open_flags_well [OF assms(3, 4)] join have n: "n \<in> F" "sev \<in> severities" "gn_label n = ''Flag''"
    and family: "is_family subject"
    using assms(4) by (auto simp: flag_well_def flag_sev_def open_flags_def)
  have "gn_key r \<noteq> ?key" if "r \<in> R" for r
  proof
    assume "gn_key r = ?key"
    with assms(3) that n(2) family have "flag_join ?flt r = (subject, sev)"
      by (auto simp: flags_well_def resolution_well_def)
    with that have "(subject, sev) \<in> flag_join ?flt ` R" by (metis imageI)
    with assms(4) join show False by (simp add: open_flags_def)
  qed
  then have "get_node s ''FlagResolution'' ?key = None" using flags_view_absent(2) [OF assms(2), of ?key] by blast
  define r where "r = make_node ''FlagResolution'' ?key ?p 1"
  define s1 where "s1 = s\<lparr>st_nodes := st_nodes s @ [((''FlagResolution'', ?key), r)]\<rparr>"
  from mem_merge_new [OF \<open>get_node s ''FlagResolution'' ?key = None\<close>]
  have merge: "merge_node t s ''FlagResolution'' ?key ?p 1 = (s1, Inr r)" for t by (simp add: s1_def r_def)
  from merge_node_wf [OF wf, of ?p "ge_wall env s" "''FlagResolution''" ?key 1] merge
  have wf1: "store_wf s1" by simp
  have "get_node s (gn_label n) (gn_key n) \<noteq> None" using n F mem_list_iff [OF wf, of n "''Flag''"] by simp
  then have "get_node s1 (gn_label r) (gn_key r) \<noteq> None" "get_node s1 (gn_label n) (gn_key n) \<noteq> None"
    by (auto simp: get_node_def s1_def r_def map_add_def split: option.splits)
  from mem_add_edge_ok [OF this, of "ge_wall env s1" "''RESOLVES''" None] obtain es where
    edge: "add_edge (ge_wall env s1) s1 r n ''RESOLVES'' None = (s1\<lparr>st_edges := es\<rparr>, Inr ())" by blast
  define s' where "s' = s1\<lparr>st_edges := es\<rparr>"
  from add_edge_wf [OF wf1, of "ge_wall env s1" r n "''RESOLVES''" None] edge have "store_wf s'" by (simp add: s'_def)
  then have view: "flags_view s' F (insert r R)"
    using assms(2) by (simp add: flags_view_def s'_def s1_def r_def list_nodes_add)
  have rjoin: "flag_join ?flt r = (subject, sev)"
    by (simp add: flag_join_def r_def get_or_def resolution_props_for_def)
  have "resolution_well ?flt r"
    using n(2) resolution_key_for_inj [of sev] rjoin by (auto simp: resolution_well_def r_def)
  moreover have "close_flag env snapshot reason n s = (s', Inr ())"
    using assms(1) merge edge by (simp add: close_flag_def append_resolution_def join step_bind_def s'_def)
  ultimately show ?thesis using view rjoin join by auto
qed

section \<open>One divergence\<close>

definition divergence_kinds :: "string set" where
  "divergence_kinds = {''missing_graph_position'', ''extra_graph_position'', ''qty_mismatch''}"

definition divergence_ok :: "divergence \<Rightarrow> bool" where
  "divergence_ok d \<longleftrightarrow> dv_kind d \<in> divergence_kinds \<and> CHR '':'' \<notin> set (dv_ticker d)"

text \<open>The snapshot is a new one: no flag and no resolution bears its key.\<close>

definition fresh_snapshot ::
  "(rat \<Rightarrow> string) \<Rightarrow> gnode set \<Rightarrow> gnode set \<Rightarrow> gnode \<Rightarrow> divergence \<Rightarrow> bool" where
  "fresh_snapshot flt F R snapshot d \<longleftrightarrow>
     (\<forall>sev \<in> severities. unspent flt F R (subject_ref_for d (gn_key snapshot)) sev)"

lemma until_colon_append: "CHR '':'' \<notin> set a \<Longrightarrow> until_colon (a @ '':'' @ b) = a"
  by (induction a) (auto simp: until_colon_def)

lemma after_colon_append: "CHR '':'' \<notin> set a \<Longrightarrow> after_colon (a @ '':'' @ b) = b"
  using until_colon_append [of a b] by (simp add: after_colon_def)

lemma starts_with_append: "starts_with (p @ s) (p @ q) = starts_with s q"
  by (induction p) auto

lemma subject_parts:
  assumes "divergence_ok d"
  shows "is_family (subject_ref_for d ep)" "episode_identity (subject_ref_for d ep) = divergence_id d"
proof -
  have kind: "CHR '':'' \<notin> set (dv_kind d)" using assms by (auto simp: divergence_ok_def divergence_kinds_def)
  let ?rest = "dv_kind d @ '':'' @ dv_ticker d @ '':'' @ ep"
  have subject: "subject_ref_for d ep = divergence_prefix @ ?rest" by (simp add: subject_ref_for_def)
  have "\<not> starts_with ?rest ''broker-position-snapshot:''"
    using assms by (auto simp: divergence_ok_def divergence_kinds_def)
  then show "is_family (subject_ref_for d ep)"
    using starts_with_append [of divergence_prefix ?rest "[]"]
      starts_with_append [of divergence_prefix ?rest "''broker-position-snapshot:''"]
    unfolding is_family_def subject legacy_prefix_def by simp
  have "episode_identity (subject_ref_for d ep) = (until_colon ?rest, until_colon (after_colon ?rest))"
    using starts_with_append [of divergence_prefix ?rest "[]"]
    unfolding episode_identity_def subject by (simp add: Let_def)
  also have "until_colon ?rest = dv_kind d" by (rule until_colon_append [OF kind])
  also have "after_colon ?rest = dv_ticker d @ '':'' @ ep" by (rule after_colon_append [OF kind])
  also have "until_colon (dv_ticker d @ '':'' @ ep) = dv_ticker d"
    using assms by (intro until_colon_append) (simp add: divergence_ok_def)
  finally show "episode_identity (subject_ref_for d ep) = divergence_id d" by (simp add: divergence_id_def)
qed

definition episode_of :: "(rat \<Rightarrow> string) \<Rightarrow> gnode set \<Rightarrow> gnode set \<Rightarrow> string \<times> string \<Rightarrow> (string \<Rightarrow> gnode option) \<Rightarrow> bool"
where
  "episode_of flt F R i e \<longleftrightarrow>
     (\<forall>v n. e v = Some n \<longleftrightarrow> n \<in> open_flags flt F R \<and> flag_id flt n = i \<and> flag_sev flt n = v)"

lemma phase_of_episode:
  assumes "flags_well flt F R" "episode_of flt F R i e"
  shows "phase_of flt F R i =
    (if e ''critical'' \<noteq> None then Persisting else if e ''warn'' \<noteq> None then Warned else Quiet)"
proof -
  define S where "S = flag_sev flt ` {n \<in> open_flags flt F R. flag_id flt n = i}"
  have mem: "v \<in> S \<longleftrightarrow> e v \<noteq> None" for v
  proof -
    have "v \<in> S \<longleftrightarrow> (\<exists>n. n \<in> open_flags flt F R \<and> flag_id flt n = i \<and> flag_sev flt n = v)"
      unfolding S_def by blast
    also have "\<dots> \<longleftrightarrow> (\<exists>n. e v = Some n)" using assms(2) by (simp add: episode_of_def)
    finally show ?thesis by simp
  qed
  have "S \<subseteq> severities" unfolding S_def using open_flags_well [OF assms(1)] by (auto simp: flag_well_def)
  then have "S = {} \<longleftrightarrow> ''critical'' \<notin> S \<and> ''warn'' \<notin> S" unfolding severities_def by blast
  then show ?thesis using mem by (simp add: phase_of_def S_def [symmetric] Let_def)
qed

text \<open>What a step leaves: the flags of other divergences as they were, and a new snapshot new for them.\<close>

definition only_touches ::
  "(rat \<Rightarrow> string) \<Rightarrow> gnode \<Rightarrow> string \<times> string \<Rightarrow> gnode set \<Rightarrow> gnode set \<Rightarrow> gnode set \<Rightarrow> gnode set \<Rightarrow> bool" where
  "only_touches flt snapshot i F R F' R' \<longleftrightarrow>
     {n \<in> open_flags flt F' R'. flag_id flt n \<noteq> i} = {n \<in> open_flags flt F R. flag_id flt n \<noteq> i}
     \<and> (\<forall>d. divergence_ok d \<longrightarrow> divergence_id d \<noteq> i \<longrightarrow> fresh_snapshot flt F R snapshot d \<longrightarrow>
          fresh_snapshot flt F' R' snapshot d)"

lemma only_touches_refl: "only_touches flt snapshot i F R F R"
  by (simp add: only_touches_def)

lemma only_touches_trans:
  "only_touches flt sn i F R F1 R1 \<Longrightarrow> only_touches flt sn i F1 R1 F2 R2 \<Longrightarrow> only_touches flt sn i F R F2 R2"
  by (simp add: only_touches_def)

lemma touches_flag:
  assumes "is_family (fst (flag_join flt m))" "flag_well flt m" "flag_join flt m \<notin> flag_join flt ` R" "flag_id flt m = i"
  shows "only_touches flt sn i F R (insert m F) R"
proof -
  have "fresh_snapshot flt (insert m F) R sn d" if "divergence_ok d" "divergence_id d \<noteq> i" "fresh_snapshot flt F R sn d" for d
    unfolding fresh_snapshot_def
  proof
    fix sev assume "sev \<in> severities"
    moreover have "fst (flag_join flt m) \<noteq> subject_ref_for d (gn_key sn)"
      using subject_parts(2) [OF that(1)] that(2) assms(4) by (auto simp: flag_id_def)
    ultimately show "unspent flt (insert m F) R (subject_ref_for d (gn_key sn)) sev"
      using that(3) assms(2) by (intro unspent_insert) (auto simp: fresh_snapshot_def)
  qed
  then show ?thesis using assms(4) by (auto simp: only_touches_def open_insert_flag [OF assms(1, 3)])
qed

lemma touches_resolution:
  assumes "flags_well flt F R" "n \<in> open_flags flt F R" "flag_join flt r = flag_join flt n" "flag_id flt n = i"
  shows "only_touches flt sn i F R F (insert r R)"
proof -
  have "fresh_snapshot flt F (insert r R) sn d" if "divergence_ok d" "divergence_id d \<noteq> i" "fresh_snapshot flt F R sn d" for d
  proof -
    have "fst (flag_join flt r) \<noteq> subject_ref_for d (gn_key sn)"
      using subject_parts(2) [OF that(1)] that(2) assms(3, 4) by (auto simp: flag_id_def)
    then have "(subject_ref_for d (gn_key sn), sev) \<noteq> flag_join flt r" for sev by (metis fst_conv)
    with that(3) show ?thesis by (simp add: fresh_snapshot_def unspent_def)
  qed
  then show ?thesis using assms(4) by (auto simp: only_touches_def open_insert_resolution [OF assms(1-3)])
qed

lemma phase_persisting:
  "n \<in> open_flags flt F R \<Longrightarrow> flag_id flt n = i \<Longrightarrow> flag_sev flt n = ''critical'' \<Longrightarrow> phase_of flt F R i = Persisting"
  by (force simp: phase_of_def Let_def)

definition flags_state ::
  "(rat \<Rightarrow> string) \<Rightarrow> store \<Rightarrow> gnode set \<Rightarrow> gnode set \<Rightarrow> string list \<Rightarrow> bool" where
  "flags_state flt s F R written \<longleftrightarrow>
     flags_view s F R \<and> flags_well flt F R \<and> escalatable flt F R \<and> set written = gn_key ` F"

lemma opened:
  assumes env: "ge_port env = mem_port" and flt: "flt = ge_float_text env"
    and st: "flags_state flt s F R written" and d: "divergence_ok d" "fresh_snapshot flt F R snapshot d"
    and none: "{n \<in> open_flags flt F R. flag_id flt n = divergence_id d} = {}"
  shows "\<exists>s' F' written'. write_divergence_flag env written (subject_ref_for d (gn_key snapshot)) ''warn'' snapshot d s
      = (s', Inr (True, written')) \<and> flags_state flt s' F' R written'
    \<and> only_touches flt snapshot (divergence_id d) F R F' R \<and> phase_of flt F' R (divergence_id d) = Warned"
proof -
  let ?subject = "subject_ref_for d (gn_key snapshot)"
  have view: "flags_view s F R" and well: "flags_well flt F R" and esc: "escalatable flt F R"
    and keys: "set written = gn_key ` F" using st by (simp_all add: flags_state_def)
  have spent: "unspent flt F R ?subject ''warn''" "unspent flt F R ?subject ''critical''"
    using d(2) by (simp_all add: fresh_snapshot_def severities_def)
  then have "flag_key_for ?subject ''warn'' \<notin> set written" unfolding keys by (auto simp: unspent_def)
  from written_flag [OF env view spent(1) [unfolded flt] this refl, of snapshot d] obtain s' m where
    w: "write_divergence_flag env written ?subject ''warn'' snapshot d s
        = (s', Inr (True, flag_key_for ?subject ''warn'' # written))"
    and m: "flags_view s' (insert m F) R" "flag_join flt m = (?subject, ''warn'')" "flag_well flt m"
      "gn_key m = flag_key_for ?subject ''warn''" by (auto simp: flt severities_def)
  have family: "is_family (fst (flag_join flt m))" and id: "flag_id flt m = divergence_id d"
    using subject_parts [OF d(1)] m(2) by (simp_all add: flag_id_def)
  have unresolved: "flag_join flt m \<notin> flag_join flt ` R" using spent(1) m(2) by (simp add: unspent_def)
  have "flags_well flt (insert m F) R"
    using none id by (intro flags_well_insert well family m(3) unresolved) auto
  moreover have "escalatable flt (insert m F) R"
    using spent(2) m(2) by (intro escalatable_insert esc family m(3) unresolved) simp
  ultimately have "flags_state flt s' (insert m F) R (flag_key_for ?subject ''warn'' # written)"
    using m keys by (simp add: flags_state_def)
  moreover have "{n \<in> open_flags flt (insert m F) R. flag_id flt n = divergence_id d} = {m}"
    using none id by (auto simp: open_insert_flag [OF family unresolved])
  then have "phase_of flt (insert m F) R (divergence_id d) = Warned"
    using m(2) by (simp add: phase_of_def flag_sev_def Let_def)
  ultimately show ?thesis using w touches_flag [OF family m(3) unresolved id] by blast
qed

lemma superseded:
  assumes env: "ge_port env = mem_port" and flt: "flt = ge_float_text env"
    and st: "flags_state flt s F R written" and warn: "w \<in> open_flags flt F R" "flag_sev flt w = ''warn''"
    and critical: "c \<in> open_flags flt F R" "flag_id flt c = flag_id flt w" "flag_sev flt c = ''critical''"
  shows "\<exists>s' R'. close_flag env snapshot reason w s = (s', Inr ()) \<and> flags_state flt s' F R' written
    \<and> only_touches flt sn (flag_id flt w) F R F R' \<and> phase_of flt F R' (flag_id flt w) = Persisting"
proof -
  have view: "flags_view s F R" and well: "flags_well flt F R" and esc: "escalatable flt F R"
    using st by (simp_all add: flags_state_def)
  from closed_flag [OF env view well [unfolded flt] warn(1) [unfolded flt]] obtain s' r where
    s': "close_flag env snapshot reason w s = (s', Inr ())" "flags_view s' F (insert r R)"
    and r: "flag_join flt r = flag_join flt w" "resolution_well flt r" unfolding flt by blast
  have "flags_state flt s' F (insert r R) written"
    using st s' flags_well_resolved [OF well warn(1) r] escalatable_closed_warn [OF well esc warn r(1)]
    by (simp add: flags_state_def)
  moreover have "c \<in> open_flags flt F (insert r R)"
    using critical warn(2) by (auto simp: open_insert_resolution [OF well warn(1) r(1)])
  ultimately show ?thesis
    using s'(1) touches_resolution [OF well warn(1) r(1) refl] phase_persisting critical(2, 3) by blast
qed

lemma escalated:
  assumes env: "ge_port env = mem_port" and flt: "flt = ge_float_text env"
    and st: "flags_state flt s F R written" and fresh: "fresh_snapshot flt F R snapshot d"
    and warn: "w \<in> open_flags flt F R" "flag_sev flt w = ''warn''"
    and none: "\<And>n. n \<in> open_flags flt F R \<Longrightarrow> flag_id flt n = flag_id flt w \<Longrightarrow> flag_sev flt n \<noteq> ''critical''"
  shows "\<exists>s' F' written' c. escalate_flag env written snapshot d w s = (s', Inr (True, written'))
    \<and> flags_state flt s' F' R written' \<and> only_touches flt sn (flag_id flt w) F R F' R
    \<and> w \<in> open_flags flt F' R \<and> c \<in> open_flags flt F' R \<and> flag_id flt c = flag_id flt w \<and> flag_sev flt c = ''critical''"
proof -
  have view: "flags_view s F R" and well: "flags_well flt F R" and esc: "escalatable flt F R"
    and keys: "set written = gn_key ` F" using st by (simp_all add: flags_state_def)
  let ?subject = "fst (flag_join flt w)"
  from open_flags_well [OF well warn(1)] have ww: "flag_well flt w" "w \<in> F" by simp_all
  then obtain subject where "dict_get (gn_props w) ''subject_ref'' = Some (PStr subject)" by (auto simp: flag_well_def)
  then have read: "read_str flt w ''subject_ref'' = Inr ?subject"
    by (simp add: read_str_def prop_at_def flag_join_def get_or_def)
  have "?subject \<noteq> subject_ref_for d (gn_key snapshot)"
    using fresh ww warn(2) by (auto simp: fresh_snapshot_def severities_def unspent_def flag_well_def)
  then have esc_is: "escalate_flag env written snapshot d w s
      = write_divergence_flag env written ?subject ''critical'' snapshot d s"
    using read by (simp add: escalate_flag_def flt step_bind_def step_res_def)
  have spent: "unspent flt F R ?subject ''critical''"
    using esc warn none unfolding escalatable_def by blast
  then have "flag_key_for ?subject ''critical'' \<notin> set written" unfolding keys by (auto simp: unspent_def)
  from written_flag [OF env view spent [unfolded flt] this [unfolded flt] refl, of snapshot d] obtain s' c where
    c: "write_divergence_flag env written ?subject ''critical'' snapshot d s
        = (s', Inr (True, flag_key_for ?subject ''critical'' # written))"
      "flags_view s' (insert c F) R" "flag_join flt c = (?subject, ''critical'')" "flag_well flt c"
      "gn_key c = flag_key_for ?subject ''critical''" by (auto simp: flt severities_def)
  have family: "is_family (fst (flag_join flt c))" and id: "flag_id flt c = flag_id flt w"
    using c(3) warn(1) by (simp_all add: flag_id_def open_flags_def)
  have sev: "flag_sev flt c = ''critical''" using c(3) by (simp add: flag_sev_def)
  have unresolved: "flag_join flt c \<notin> flag_join flt ` R" using spent c(3) by (simp add: unspent_def)
  have "flags_well flt (insert c F) R"
    using none by (intro flags_well_insert well family c(4) unresolved) (simp add: id sev)
  moreover have "escalatable flt (insert c F) R"
    by (intro escalatable_insert esc family c(4) unresolved) (simp add: sev)
  ultimately have "flags_state flt s' (insert c F) R (flag_key_for ?subject ''critical'' # written)"
    using c keys by (simp add: flags_state_def)
  moreover have "w \<in> open_flags flt (insert c F) R" "c \<in> open_flags flt (insert c F) R"
    using warn(1) by (simp_all add: open_insert_flag [OF family unresolved])
  ultimately show ?thesis
    using esc_is c(1) touches_flag [OF family c(4) unresolved id] id sev by (metis (no_types))
qed

lemma advanced:
  assumes env: "ge_port env = mem_port" and flt: "flt = ge_float_text env"
    and st: "flags_state flt s F R written" and d: "divergence_ok d" "fresh_snapshot flt F R snapshot d"
    and ep: "episode_of flt F R (divergence_id d) (dict_get e)"
  shows "\<exists>s' F' R' written'. advance_episode env written snapshot d e s = (s', Inr written')
    \<and> flags_state flt s' F' R' written' \<and> only_touches flt snapshot (divergence_id d) F R F' R'
    \<and> phase_of flt F' R' (divergence_id d) = phase_step True (phase_of flt F R (divergence_id d))"
proof -
  let ?i = "divergence_id d"
  have well: "flags_well flt F R" using st by (simp add: flags_state_def)
  note phase = phase_of_episode [OF well ep]
  have none: "v = ''warn'' \<or> v = ''critical''" if "dict_get e v = Some n" for v n
    using that ep open_flags_well [OF well] by (auto simp: episode_of_def flag_well_def severities_def)
  consider (quiet) "dict_get e ''warn'' = None" "dict_get e ''critical'' = None"
    | (critical) c where "dict_get e ''warn'' = None" "dict_get e ''critical'' = Some c"
    | (both) w c where "dict_get e ''warn'' = Some w" "dict_get e ''critical'' = Some c"
    | (warned) w where "dict_get e ''warn'' = Some w" "dict_get e ''critical'' = None" by fastforce
  then show ?thesis
  proof cases
    case quiet
    have "dict_get e v = None" for v using none [of v] quiet by (cases "dict_get e v") auto
    then have "{n \<in> open_flags flt F R. flag_id flt n = ?i} = {}" using ep by (auto simp: episode_of_def)
    from opened [OF env flt st d this] obtain s' F' written' where
      w: "write_divergence_flag env written (subject_ref_for d (gn_key snapshot)) ''warn'' snapshot d s
          = (s', Inr (True, written'))"
      and rest: "flags_state flt s' F' R written'" "only_touches flt snapshot ?i F R F' R"
        "phase_of flt F' R ?i = Warned" by blast
    have "advance_episode env written snapshot d e s = (s', Inr written')"
      using quiet w by (simp add: advance_episode_def step_bind_def step_return_def)
    moreover have "phase_step True (phase_of flt F R ?i) = Warned" using quiet phase by simp
    ultimately show ?thesis using rest by metis
  next
    case critical
    then have "advance_episode env written snapshot d e s = (s, Inr written)"
      by (simp add: advance_episode_def step_return_def)
    moreover have "phase_step True (phase_of flt F R ?i) = phase_of flt F R ?i" using critical phase by simp
    ultimately show ?thesis using st only_touches_refl by metis
  next
    case both
    with ep have w: "w \<in> open_flags flt F R" "flag_id flt w = ?i" "flag_sev flt w = ''warn''"
      and c: "c \<in> open_flags flt F R" "flag_id flt c = ?i" "flag_sev flt c = ''critical''"
      by (auto simp: episode_of_def)
    from superseded [OF env flt st w(1, 3) c(1) _ c(3), of snapshot superseded_reason snapshot] w(2) c(2)
    obtain s' R' where close: "close_flag env snapshot superseded_reason w s = (s', Inr ())"
      and rest: "flags_state flt s' F R' written" "only_touches flt snapshot ?i F R F R'"
        "phase_of flt F R' ?i = Persisting" by auto
    have "advance_episode env written snapshot d e s = (s', Inr written)"
      using both close by (simp add: advance_episode_def step_bind_def step_return_def)
    moreover have "phase_step True (phase_of flt F R ?i) = Persisting" using both phase by simp
    ultimately show ?thesis using rest by metis
  next
    case warned
    with ep have w: "w \<in> open_flags flt F R" "flag_id flt w = ?i" "flag_sev flt w = ''warn''"
      and no_critical: "\<And>n. n \<in> open_flags flt F R \<Longrightarrow> flag_id flt n = flag_id flt w \<Longrightarrow> flag_sev flt n \<noteq> ''critical''"
      by (auto simp: episode_of_def) (metis option.distinct(1))
    from escalated [OF env flt st d(2) w(1, 3) no_critical, of snapshot] obtain s1 F1 written1 c where
      one: "escalate_flag env written snapshot d w s = (s1, Inr (True, written1))" "flags_state flt s1 F1 R written1"
        "only_touches flt snapshot ?i F R F1 R" "w \<in> open_flags flt F1 R"
      and c: "c \<in> open_flags flt F1 R" "flag_id flt c = flag_id flt w" "flag_sev flt c = ''critical''"
      unfolding w(2) by blast
    from superseded [OF env flt one(2) one(4) w(3) c, of snapshot superseded_reason snapshot] obtain s2 R2 where
      two: "close_flag env snapshot superseded_reason w s1 = (s2, Inr ())" "flags_state flt s2 F1 R2 written1"
        "only_touches flt snapshot ?i F1 R F1 R2" "phase_of flt F1 R2 ?i = Persisting"
      unfolding w(2) by blast
    have "advance_episode env written snapshot d e s = (s2, Inr written1)"
      using warned one(1) two(1) by (simp add: advance_episode_def step_bind_def step_return_def)
    with two only_touches_trans [OF one(3) two(3)] phase warned show ?thesis by auto
  qed
qed

section \<open>All divergences\<close>

definition episode_at :: "episodes \<Rightarrow> string \<times> string \<Rightarrow> episode" where
  "episode_at eps i = (case dict_get eps i of None \<Rightarrow> [] | Some e \<Rightarrow> e)"

definition episodes_wf :: "episodes \<Rightarrow> bool" where
  "episodes_wf eps \<longleftrightarrow> dict_wf eps \<and> (\<forall>e \<in> set (dict_values eps). dict_wf e)"

lemma episodes_wf_set: "episodes_wf eps \<Longrightarrow> dict_wf e \<Longrightarrow> episodes_wf (dict_set i e eps)"
  using dict_set_entry [of _ _ i e eps] by (fastforce simp: episodes_wf_def dict_wf_set)

lemma episodes_wf_pop: "episodes_wf eps \<Longrightarrow> episodes_wf (dict_pop i eps)"
  using dict_wf_pop [of eps i] by (auto simp: episodes_wf_def AList.delete_eq)

lemma episodes_wf_at: "episodes_wf eps \<Longrightarrow> dict_wf (episode_at eps i)"
  by (auto simp: episodes_wf_def episode_at_def dest!: map_of_SomeD split: option.split)

lemma episode_at_pop: "episode_at (dict_pop i eps) k = (if k = i then [] else episode_at eps k)"
  by (simp add: episode_at_def dict_get_pop)

text \<open>Reading the open episodes reads exactly the open flags.\<close>

lemma open_episodes_exact:
  assumes "flags_well flt (set ns) R"
  shows "episodes_wf (fold (add_episode flt (flag_join flt ` R)) ns [])
    \<and> (\<forall>i. episode_of flt (set ns) R i (dict_get (episode_at (fold (add_episode flt (flag_join flt ` R)) ns []) i)))"
  using assms
proof (induction ns rule: rev_induct)
  case Nil
  show ?case by (simp add: episodes_wf_def episode_of_def episode_at_def open_flags_def)
next
  case (snoc n ns)
  let ?eps = "fold (add_episode flt (flag_join flt ` R)) ns []"
  have "open_flags flt (set ns) R \<subseteq> open_flags flt (set (ns @ [n])) R" by (auto simp: open_flags_def)
  with snoc.prems have "flags_well flt (set ns) R" by (auto simp: flags_well_def subset_iff)
  with snoc.IH have wf: "episodes_wf ?eps" and ex: "\<And>i. episode_of flt (set ns) R i (dict_get (episode_at ?eps i))"
    by blast+
  let ?new = "fold (add_episode flt (flag_join flt ` R)) (ns @ [n]) []"
  show ?case
  proof (cases "is_family (fst (flag_join flt n)) \<and> flag_join flt n \<notin> flag_join flt ` R")
    case False
    obtain subject sev where join: "flag_join flt n = (subject, sev)" by (cases "flag_join flt n")
    with False have "?new = ?eps" by (simp add: add_episode_def)
    moreover have "open_flags flt (set (ns @ [n])) R = open_flags flt (set ns) R" using False by (auto simp: open_flags_def)
    ultimately show ?thesis using wf ex by (simp add: episode_of_def)
  next
    case True
    then have op: "open_flags flt (set (ns @ [n])) R = insert n (open_flags flt (set ns) R)" by (auto simp: open_flags_def)
    have new: "?new = dict_set (flag_id flt n) (dict_set (flag_sev flt n) n (episode_at ?eps (flag_id flt n))) ?eps"
      using True by (auto simp: add_episode_def flag_id_def flag_sev_def episode_at_def Let_def split: prod.split)
    have same: "m = n" if "m \<in> open_flags flt (set ns) R" "flag_id flt m = flag_id flt n" "flag_sev flt m = flag_sev flt n" for m
      using snoc.prems that unfolding flags_well_def op by blast
    have "episode_of flt (set (ns @ [n])) R i (dict_get (episode_at ?new i))" for i
      unfolding episode_of_def op
    proof (intro allI)
      fix v m
      have old: "dict_get (episode_at ?eps i) v = Some m \<longleftrightarrow>
          m \<in> open_flags flt (set ns) R \<and> flag_id flt m = i \<and> flag_sev flt m = v"
        using ex [of i] by (simp add: episode_of_def)
      have "dict_get (episode_at ?new i) v =
          (if i = flag_id flt n \<and> v = flag_sev flt n then Some n else dict_get (episode_at ?eps i) v)"
        unfolding new by (auto simp: episode_at_def dict_get_set)
      then show "dict_get (episode_at ?new i) v = Some m \<longleftrightarrow>
          m \<in> insert n (open_flags flt (set ns) R) \<and> flag_id flt m = i \<and> flag_sev flt m = v"
        using old same by auto
    qed
    moreover have "episodes_wf ?new"
      unfolding new by (intro episodes_wf_set dict_wf_set episodes_wf_at wf)
    ultimately show ?thesis by blast
  qed
qed

text \<open>What is left of the episodes stands for the open flags of the divergences still to come.\<close>

definition rest_of :: "(rat \<Rightarrow> string) \<Rightarrow> gnode set \<Rightarrow> gnode set \<Rightarrow> (string \<times> string) set \<Rightarrow> episodes \<Rightarrow> bool" where
  "rest_of flt F R done_ids eps \<longleftrightarrow> episodes_wf eps
     \<and> (\<forall>i. if i \<in> done_ids then episode_at eps i = [] else episode_of flt F R i (dict_get (episode_at eps i)))"

lemma phase_untouched:
  assumes "only_touches flt sn i F R F' R'" "k \<noteq> i"
  shows "phase_of flt F' R' k = phase_of flt F R k"
    "episode_of flt F' R' k e \<longleftrightarrow> episode_of flt F R k e"
proof -
  have "n \<in> open_flags flt F' R' \<and> flag_id flt n = k \<longleftrightarrow> n \<in> open_flags flt F R \<and> flag_id flt n = k" for n
  proof -
    have "{n \<in> open_flags flt F' R'. flag_id flt n \<noteq> i} = {n \<in> open_flags flt F R. flag_id flt n \<noteq> i}"
      using assms(1) by (simp only: only_touches_def)
    then have "n \<in> open_flags flt F' R' \<and> flag_id flt n \<noteq> i \<longleftrightarrow> n \<in> open_flags flt F R \<and> flag_id flt n \<noteq> i" by blast
    with assms(2) show ?thesis by metis
  qed
  note same = this
  then have "{n \<in> open_flags flt F' R'. flag_id flt n = k} = {n \<in> open_flags flt F R. flag_id flt n = k}" by blast
  then show "phase_of flt F' R' k = phase_of flt F R k" by (simp add: phase_of_def)
  show "episode_of flt F' R' k e \<longleftrightarrow> episode_of flt F R k e"
  proof -
    have "(n \<in> open_flags flt F' R' \<and> flag_id flt n = k \<and> flag_sev flt n = v)
        = (n \<in> open_flags flt F R \<and> flag_id flt n = k \<and> flag_sev flt n = v)" for n v
      using same [of n] by blast
    then show ?thesis by (simp only: episode_of_def)
  qed
qed

lemma advanced_all:
  assumes env: "ge_port env = mem_port" and flt: "flt = ge_float_text env"
  shows "flags_state flt s F R written \<Longrightarrow> rest_of flt F R done_ids eps \<Longrightarrow>
    distinct (map divergence_id ds) \<Longrightarrow> divergence_id ` set ds \<inter> done_ids = {} \<Longrightarrow>
    (\<And>d. d \<in> set ds \<Longrightarrow> divergence_ok d \<and> fresh_snapshot flt F R snapshot d) \<Longrightarrow>
    \<exists>s' F' R' written' eps'. advance_episodes env snapshot ds eps written s = (s', Inr eps')
      \<and> flags_state flt s' F' R' written' \<and> rest_of flt F' R' (done_ids \<union> divergence_id ` set ds) eps'
      \<and> (\<forall>i. phase_of flt F' R' i = (if i \<in> divergence_id ` set ds then phase_step True (phase_of flt F R i)
               else phase_of flt F R i))"
proof (induction ds arbitrary: s F R written done_ids eps)
  case Nil
  then show ?case by (auto simp: step_return_def)
next
  case (Cons d ds)
  let ?i = "divergence_id d"
  have new: "?i \<notin> done_ids" and d: "divergence_ok d" "fresh_snapshot flt F R snapshot d" using Cons.prems by auto
  have ep: "episode_of flt F R ?i (dict_get (episode_at eps ?i))"
    using Cons.prems(2) new unfolding rest_of_def by metis
  from advanced [OF env flt Cons.prems(1) d ep] obtain s1 F1 R1 written1 where
    one: "advance_episode env written snapshot d (episode_at eps ?i) s = (s1, Inr written1)"
    and st1: "flags_state flt s1 F1 R1 written1" and touch: "only_touches flt snapshot ?i F R F1 R1"
    and phase1: "phase_of flt F1 R1 ?i = phase_step True (phase_of flt F R ?i)" by blast
  have rest1: "rest_of flt F1 R1 (insert ?i done_ids) (dict_pop ?i eps)"
    using Cons.prems(2) phase_untouched(2) [OF touch]
    by (auto simp: rest_of_def episode_at_pop intro: episodes_wf_pop)
  have fresh1: "divergence_ok d' \<and> fresh_snapshot flt F1 R1 snapshot d'" if "d' \<in> set ds" for d'
  proof -
    have "divergence_id d' \<in> divergence_id ` set ds" using that by (rule imageI)
    then have "divergence_id d' \<noteq> ?i" using Cons.prems(3) by auto
    moreover have "divergence_ok d'" "fresh_snapshot flt F R snapshot d'" using Cons.prems(5) [of d'] that by simp_all
    ultimately show ?thesis using touch by (simp add: only_touches_def)
  qed
  have apart: "divergence_id ` set ds \<inter> insert ?i done_ids = {}" using Cons.prems(3, 4) by auto
  from Cons.IH [OF st1 rest1 _ apart fresh1] Cons.prems(3) obtain s' F' R' written' eps' where
    two: "advance_episodes env snapshot ds (dict_pop ?i eps) written1 s1 = (s', Inr eps')"
    and st': "flags_state flt s' F' R' written'"
    and rest': "rest_of flt F' R' (insert ?i done_ids \<union> divergence_id ` set ds) eps'"
    and phase': "\<And>i. phase_of flt F' R' i = (if i \<in> divergence_id ` set ds then phase_step True (phase_of flt F1 R1 i)
               else phase_of flt F1 R1 i)" by auto
  have "advance_episodes env snapshot (d # ds) eps written s = (s', Inr eps')"
    using one two by (simp add: step_bind_def episode_at_def)
  moreover have "phase_of flt F' R' i = (if i \<in> divergence_id ` set (d # ds) then phase_step True (phase_of flt F R i)
               else phase_of flt F R i)" for i
    using phase' [of i] phase1 phase_untouched(1) [OF touch, of i] apart by (cases "i = ?i") auto
  moreover have "rest_of flt F' R' (done_ids \<union> divergence_id ` set (d # ds)) eps'" using rest' by simp
  ultimately show ?case using st' by blast
qed

section \<open>The end of episodes\<close>

lemma closed_all:
  assumes env: "ge_port env = mem_port" and flt: "flt = ge_float_text env"
  shows "flags_view s F R \<Longrightarrow> flags_well flt F R \<Longrightarrow> distinct ns \<Longrightarrow> set ns \<subseteq> open_flags flt F R \<Longrightarrow>
    \<exists>s' R'. step_each (close_flag env snapshot reason) ns s = (s', Inr ()) \<and> flags_view s' F R' \<and> flags_well flt F R'
      \<and> open_flags flt F R' = open_flags flt F R - set ns
      \<and> flag_join flt ` R' = flag_join flt ` R \<union> flag_join flt ` set ns"
proof (induction ns arbitrary: s R)
  case Nil
  then show ?case by (auto simp: step_return_def)
next
  case (Cons n ns)
  then have n: "n \<in> open_flags flt F R" by simp
  from closed_flag [OF env Cons.prems(1) Cons.prems(2) [unfolded flt] n [unfolded flt]] obtain s1 r where
    one: "close_flag env snapshot reason n s = (s1, Inr ())" "flags_view s1 F (insert r R)"
    and r: "flag_join flt r = flag_join flt n" "resolution_well flt r" unfolding flt by blast
  have op: "open_flags flt F (insert r R) = open_flags flt F R - {n}"
    by (rule open_insert_resolution [OF Cons.prems(2) n r(1)])
  with Cons.prems(3, 4) have "set ns \<subseteq> open_flags flt F (insert r R)" by auto
  from Cons.IH [OF one(2) flags_well_resolved [OF Cons.prems(2) n r] _ this] Cons.prems(3) obtain s' R' where
    "step_each (close_flag env snapshot reason) ns s1 = (s', Inr ())" "flags_view s' F R'" "flags_well flt F R'"
    "open_flags flt F R' = open_flags flt F (insert r R) - set ns"
    "flag_join flt ` R' = flag_join flt ` insert r R \<union> flag_join flt ` set ns" by auto
  with one(1) op r(1) show ?case by (auto simp: step_bind_def)
qed

lemma distinct_dict_values:
  "dict_wf eps \<Longrightarrow> (\<And>i e. (i, e) \<in> set eps \<Longrightarrow> dict_wf e \<and> (\<forall>(v, n) \<in> set e. key n = (i, v))) \<Longrightarrow>
     distinct (concat (map dict_values (dict_values eps)))"
proof (induction eps)
  case (Cons ie eps)
  obtain i e where ie: "ie = (i, e)" by (cases ie)
  from Cons.prems(2) [of i e] have e: "dict_wf e" "\<forall>(v, n) \<in> set e. key n = (i, v)" by (simp_all add: ie)
  then have "map key (dict_values e) = map (Pair i) (dict_keys e)" by auto
  moreover have "distinct (map (Pair i) (dict_keys e))" using e(1) by (simp add: dict_wf_def distinct_map inj_on_def)
  ultimately have own: "distinct (dict_values e)" by (metis distinct_map)
  have "fst (key n) = i" if "n \<in> set (dict_values e)" for n using that e(2) by auto
  moreover have "fst (key n) \<noteq> i" if "n \<in> set (concat (map dict_values (dict_values eps)))" for n
  proof -
    from that obtain f where f: "f \<in> set (dict_values eps)" "n \<in> set (dict_values f)" by auto
    then obtain k where kf: "(k, f) \<in> set eps" by auto
    with f Cons.prems(2) [of k f] have "fst (key n) = k" by auto
    moreover have "k \<noteq> i" using kf(1) Cons.prems(1) by (force simp: ie dict_wf_def)
    ultimately show ?thesis by simp
  qed
  ultimately have "set (dict_values e) \<inter> set (concat (map dict_values (dict_values eps))) = {}" by blast
  moreover have "dict_wf eps" using Cons.prems(1) by (simp add: ie dict_wf_Cons)
  from Cons.IH [OF this] Cons.prems(2) have "distinct (concat (map dict_values (dict_values eps)))"
    by (meson list.set_intros(2))
  ultimately show ?case using own by (simp add: ie)
qed simp

lemma rest_values:
  assumes "rest_of flt F R ids eps"
  shows "set (concat (map dict_values (dict_values eps))) = {n \<in> open_flags flt F R. flag_id flt n \<notin> ids}"
    "distinct (concat (map dict_values (dict_values eps)))"
proof -
  have wf: "dict_wf eps" "\<And>e. e \<in> set (dict_values eps) \<Longrightarrow> dict_wf e"
    using assms unfolding rest_of_def episodes_wf_def by blast+
  have at: "episode_at eps i = e" if "(i, e) \<in> set eps" for i e
    using that wf(1) by (simp add: episode_at_def dict_get_Some_iff [symmetric])
  have rest: "if i \<in> ids then episode_at eps i = [] else episode_of flt F R i (dict_get (episode_at eps i))" for i
    using assms unfolding rest_of_def by blast
  have entry: "n \<in> open_flags flt F R \<and> flag_id flt n = i \<and> flag_sev flt n = v \<and> i \<notin> ids"
    if "(i, e) \<in> set eps" "(v, n) \<in> set e" for i e v n
  proof -
    have "dict_wf e" using wf(2) that(1) by force
    with that have "dict_get (episode_at eps i) v = Some n" by (simp add: at dict_get_Some_iff)
    with rest [of i] show ?thesis by (auto simp: episode_of_def split: if_splits)
  qed
  show "distinct (concat (map dict_values (dict_values eps)))"
  proof (rule distinct_dict_values [OF wf(1), of "\<lambda>n. (flag_id flt n, flag_sev flt n)"])
    fix i e assume "(i, e) \<in> set eps"
    then show "dict_wf e \<and> (\<forall>(v, n) \<in> set e. (flag_id flt n, flag_sev flt n) = (i, v))"
      using entry [of i e] wf(2) [of e] by force
  qed
  show "set (concat (map dict_values (dict_values eps))) = {n \<in> open_flags flt F R. flag_id flt n \<notin> ids}"
  proof (intro equalityI subsetI)
    fix n assume "n \<in> set (concat (map dict_values (dict_values eps)))"
    then obtain i e v where "(i, e) \<in> set eps" "(v, n) \<in> set e" by auto
    from entry [OF this] show "n \<in> {n \<in> open_flags flt F R. flag_id flt n \<notin> ids}" by auto
  next
    fix n assume n: "n \<in> {n \<in> open_flags flt F R. flag_id flt n \<notin> ids}"
    let ?i = "flag_id flt n"
    have get: "dict_get (episode_at eps ?i) (flag_sev flt n) = Some n"
      using rest [of ?i] n by (auto simp: episode_of_def split: if_splits)
    then obtain e where "dict_get eps ?i = Some e" by (auto simp: episode_at_def split: option.splits)
    moreover from this get have "dict_get e (flag_sev flt n) = Some n" by (simp add: episode_at_def)
    ultimately have "(?i, e) \<in> set eps" "(flag_sev flt n, n) \<in> set e" by (simp_all add: map_of_SomeD)
    then show "n \<in> set (concat (map dict_values (dict_values eps)))" by force
  qed
qed

section \<open>The refinement\<close>

text \<open>The comparison gives one divergence for each ticker whose quantities differ, and no other.\<close>

lemma divergences_between_exact:
  assumes "dict_wf graph" "dict_wf broker"
  shows "distinct (map divergence_id (divergences_between graph broker))"
    "dv_kind ` set (divergences_between graph broker) \<subseteq> divergence_kinds"
    "t \<in> dv_ticker ` set (divergences_between graph broker) \<longleftrightarrow> dict_get graph t \<noteq> dict_get broker t"
proof -
  have keys: "distinct (dict_keys graph)" "distinct (dict_keys broker)" using assms by (simp_all add: dict_wf_def)
  then show "distinct (map divergence_id (divergences_between graph broker))"
    by (auto simp: divergences_between_def divergence_id_def missing_divergence_def extra_divergence_def
        mismatch_divergence_def distinct_map inj_on_def Let_def)
  show "dv_kind ` set (divergences_between graph broker) \<subseteq> divergence_kinds"
    by (auto simp: divergences_between_def divergence_kinds_def missing_divergence_def extra_divergence_def
        mismatch_divergence_def Let_def)
  have known: "k \<in> set (dict_keys d) \<longleftrightarrow> dict_get d k \<noteq> None" for k and d :: "(string, int) dict"
    by (simp add: dict_get_None_iff)
  have ticker: "dv_ticker (missing_divergence broker u) = u" "dv_ticker (extra_divergence graph u) = u"
    "dv_ticker (mismatch_divergence graph broker u) = u" for u
    by (simp_all add: missing_divergence_def extra_divergence_def mismatch_divergence_def)
  define B G where "B = dict_keys broker" and "G = dict_keys graph"
  have "t \<in> dv_ticker ` set (divergences_between graph broker) \<longleftrightarrow>
      t \<in> set B \<and> t \<notin> set G \<or> t \<in> set G \<and> t \<notin> set B
      \<or> t \<in> set B \<and> t \<in> set G \<and> qty_at graph t \<noteq> qty_at broker t"
    unfolding divergences_between_def Let_def B_def [symmetric] G_def [symmetric]
    by (auto simp: image_Un image_image ticker)
  then show "t \<in> dv_ticker ` set (divergences_between graph broker) \<longleftrightarrow> dict_get graph t \<noteq> dict_get broker t"
    unfolding B_def G_def known by (auto simp: qty_at_def split: option.splits)
qed

definition flags_of :: "store \<Rightarrow> gnode set" where
  "flags_of s = set (list_nodes s ''Flag'')"

definition resolutions_of :: "store \<Rightarrow> gnode set" where
  "resolutions_of s = set (list_nodes s ''FlagResolution'')"

definition identity_phase :: "(rat \<Rightarrow> string) \<Rightarrow> store \<Rightarrow> string \<times> string \<Rightarrow> episode_phase" where
  "identity_phase flt s = phase_of flt (flags_of s) (resolutions_of s)"

definition flags_ok :: "(rat \<Rightarrow> string) \<Rightarrow> store \<Rightarrow> bool" where
  "flags_ok flt s \<longleftrightarrow> flags_state flt s (flags_of s) (resolutions_of s) (map gn_key (list_nodes s ''Flag''))"

lemma flags_state_ok: "flags_state flt s F R written \<Longrightarrow> flags_ok flt s \<and> F = flags_of s \<and> R = resolutions_of s"
  by (auto simp: flags_state_def flags_ok_def flags_view_def flags_of_def resolutions_of_def)

text \<open>
  C7. Recording the divergences of a new snapshot moves every episode as the machine of phases does: a
  divergence seen for the first time warns, one seen again persists, one no longer seen ends; all writes
  succeed, and the flags stay well formed, so that the next run start moves them on again.
\<close>

theorem divergence_episodes_refine:
  assumes env: "ge_port env = mem_port" and ok: "flags_ok (ge_float_text env) s"
    and ds: "distinct (map divergence_id ds)"
      "\<And>d. d \<in> set ds \<Longrightarrow> divergence_ok d
         \<and> fresh_snapshot (ge_float_text env) (flags_of s) (resolutions_of s) snapshot d"
  shows "\<exists>s'. record_divergences env snapshot ds s = (s', Inr ()) \<and> flags_ok (ge_float_text env) s'
    \<and> (\<forall>i. identity_phase (ge_float_text env) s' i
          = phase_step (i \<in> divergence_id ` set ds) (identity_phase (ge_float_text env) s i))"
proof -
  let ?flt = "ge_float_text env" and ?ids = "divergence_id ` set ds"
  let ?flags = "list_nodes s ''Flag''" and ?F = "flags_of s" and ?R = "resolutions_of s"
  let ?eps = "open_episodes ?flt ?flags (list_nodes s ''FlagResolution'')"
  have st: "flags_state ?flt s ?F ?R (map gn_key ?flags)" using ok by (simp add: flags_ok_def)
  then have "flags_well ?flt (set ?flags) ?R" by (simp add: flags_state_def flags_of_def)
  from open_episodes_exact [OF this] have "rest_of ?flt ?F ?R {} ?eps"
    by (simp add: rest_of_def open_episodes_def flags_of_def resolutions_of_def)
  from advanced_all [OF env refl st this ds(1) Int_empty_right ds(2)] obtain s1 F1 R1 written1 eps1 where
    adv: "advance_episodes env snapshot ds ?eps (map gn_key ?flags) s = (s1, Inr eps1)"
    and st1: "flags_state ?flt s1 F1 R1 written1" and rest1': "rest_of ?flt F1 R1 ({} \<union> ?ids) eps1"
    and phase1: "\<And>i. phase_of ?flt F1 R1 i =
        (if i \<in> ?ids then phase_step True (phase_of ?flt ?F ?R i) else phase_of ?flt ?F ?R i)" by blast
  from rest1' have rest1: "rest_of ?flt F1 R1 ?ids eps1" by simp
  let ?L = "concat (map dict_values (dict_values eps1))"
  have view1: "flags_view s1 F1 R1" and well1: "flags_well ?flt F1 R1" and esc1: "escalatable ?flt F1 R1"
    using st1 by (simp_all add: flags_state_def)
  note L = rest_values [OF rest1]
  have "set ?L \<subseteq> open_flags ?flt F1 R1" unfolding L(1) by blast
  from closed_all [OF env refl view1 well1 L(2) this] obtain s2 R2 where
    close: "step_each (close_flag env snapshot gone_reason) ?L s1 = (s2, Inr ())"
    and view2: "flags_view s2 F1 R2" and well2: "flags_well ?flt F1 R2"
    and open2: "open_flags ?flt F1 R2 = open_flags ?flt F1 R1 - set ?L"
    and join2: "flag_join ?flt ` R2 = flag_join ?flt ` R1 \<union> flag_join ?flt ` set ?L" by blast
  have open2': "open_flags ?flt F1 R2 = {n \<in> open_flags ?flt F1 R1. flag_id ?flt n \<in> ?ids}"
    unfolding open2 L(1) by blast
  have esc2: "escalatable ?flt F1 R2"
    unfolding escalatable_def
  proof (intro ballI impI)
    fix n assume n: "n \<in> open_flags ?flt F1 R2" "flag_sev ?flt n = ''warn''
      \<and> (\<forall>m \<in> open_flags ?flt F1 R2. flag_id ?flt m = flag_id ?flt n \<longrightarrow> flag_sev ?flt m \<noteq> ''critical'')"
    then have in1: "n \<in> open_flags ?flt F1 R1" "flag_id ?flt n \<in> ?ids" by (simp_all add: open2')
    have "flag_sev ?flt m \<noteq> ''critical''" if "m \<in> open_flags ?flt F1 R1" "flag_id ?flt m = flag_id ?flt n" for m
      using n(2) in1(2) that by (simp add: open2')
    with esc1 in1(1) n(2) have "unspent ?flt F1 R1 (fst (flag_join ?flt n)) ''critical''"
      by (simp add: escalatable_def)
    moreover have "(fst (flag_join ?flt n), ''critical'') \<notin> flag_join ?flt ` set ?L"
    proof
      assume "(fst (flag_join ?flt n), ''critical'') \<in> flag_join ?flt ` set ?L"
      then obtain c where c: "(fst (flag_join ?flt n), ''critical'') = flag_join ?flt c" "c \<in> set ?L" by (rule imageE)
      then have "flag_id ?flt c = flag_id ?flt n" unfolding flag_id_def by (metis fst_conv)
      with c(2) in1(2) show False unfolding L(1) by simp
    qed
    ultimately show "unspent ?flt F1 R2 (fst (flag_join ?flt n)) ''critical''"
      unfolding unspent_def join2 by blast
  qed
  have st2: "flags_state ?flt s2 F1 R2 written1"
    using view2 well2 esc2 st1 by (simp add: flags_state_def)
  have "phase_of ?flt F1 R2 i = phase_step (i \<in> ?ids) (phase_of ?flt ?F ?R i)" for i
  proof (cases "i \<in> ?ids")
    case True
    then have "{n \<in> open_flags ?flt F1 R2. flag_id ?flt n = i} = {n \<in> open_flags ?flt F1 R1. flag_id ?flt n = i}"
      by (auto simp: open2')
    with True phase1 [of i] show ?thesis by (simp add: phase_of_def)
  next
    case False
    then have "{n \<in> open_flags ?flt F1 R2. flag_id ?flt n = i} = {}" by (auto simp: open2')
    with False show ?thesis by (simp add: phase_of_def)
  qed
  moreover have "record_divergences env snapshot ds s = (s2, Inr ())"
    using adv close env by (simp add: record_divergences_def step_bind_def)
  ultimately show ?thesis using flags_state_ok [OF st2] by (auto simp: identity_phase_def)
qed

definition sample_flag_env :: "store graph_env" where
  "sample_flag_env = \<lparr>ge_port = mem_port, ge_wall = \<lambda>s. sample_time, ge_float_text = \<lambda>q. [],
     ge_parse_float = \<lambda>s. None\<rparr>"

definition sample_divergence :: divergence where
  "sample_divergence = missing_divergence [(''ACME'', 3)] ''ACME''"

lemma divergence_episodes_refine_witness:
  "\<exists>s'. record_divergences sample_flag_env (make_node ''BrokerPositionSnapshot'' ''s1'' [] 1) [sample_divergence] empty_store
       = (s', Inr ())
     \<and> identity_phase (ge_float_text sample_flag_env) s' (''missing_graph_position'', ''ACME'') = Warned"
proof -
  let ?flt = "ge_float_text sample_flag_env"
  have none: "flags_of empty_store = {}" "resolutions_of empty_store = {}"
    by (simp_all add: flags_of_def resolutions_of_def list_nodes_def empty_store_def)
  have "flags_ok ?flt empty_store"
    unfolding flags_ok_def flags_state_def none
    by (simp add: flags_view_def flags_well_def escalatable_def open_flags_def list_nodes_def store_wf_empty)
      (simp add: empty_store_def)
  moreover have "divergence_ok sample_divergence"
    by (simp add: divergence_ok_def divergence_kinds_def sample_divergence_def missing_divergence_def)
  moreover have "fresh_snapshot ?flt (flags_of empty_store) (resolutions_of empty_store) sn d" for sn d
    by (simp add: none fresh_snapshot_def unspent_def)
  moreover have "ge_port sample_flag_env = mem_port" by (simp add: sample_flag_env_def)
  moreover have "divergence_id sample_divergence = (''missing_graph_position'', ''ACME'')"
    by (simp add: divergence_id_def sample_divergence_def missing_divergence_def)
  moreover have "identity_phase ?flt empty_store i = Quiet" for i
    by (simp add: identity_phase_def phase_of_def none open_flags_def)
  ultimately show ?thesis
    using divergence_episodes_refine [of sample_flag_env empty_store "[sample_divergence]"
      "make_node ''BrokerPositionSnapshot'' ''s1'' [] 1"] by auto
qed

end
