(* ===== verification/Indicators.thy ===== *)
theory Indicators
  imports Payloads "HOL-Library.Product_Lexorder"
begin

text \<open>
  The indicators of the analyst (\<open>agents/analyst/domain/indicators*.py\<close>), from the closes, highs,
  lows, volumes and dates of one ticker's bars in ascending order.

  The square root, the exponential and the decimal logarithm are parameters, their values being
  irrational in general.  Prices are positive, as the payload contract has them, so that no divisor
  here is zero.
\<close>

section \<open>Windows\<close>

text \<open>\<open>xs[-n:]\<close> and \<open>xs[i:j]\<close>.\<close>

definition last_n :: "nat \<Rightarrow> 'a list \<Rightarrow> 'a list" where
  "last_n n xs = (if n = 0 then xs else drop (length xs - n) xs)"

definition slice :: "nat \<Rightarrow> nat \<Rightarrow> 'a list \<Rightarrow> 'a list" where
  "slice i j xs = take (j - i) (drop i xs)"

definition mean :: "rat list \<Rightarrow> rat" where
  "mean xs = sum_list xs / of_nat (length xs)"

definition sma :: "rat list \<Rightarrow> nat \<Rightarrow> rat" where
  "sma values period = mean (last_n period values)"

definition pstdev :: "(rat \<Rightarrow> rat) \<Rightarrow> rat list \<Rightarrow> rat" where
  "pstdev sq values =
     (if length values < 2 then 0
      else let mu = mean values
           in sq (sum_list (map (\<lambda>v. (v - mu) ^ 2) values) / of_nat (length values)))"

fun ema_from :: "rat \<Rightarrow> rat \<Rightarrow> rat list \<Rightarrow> rat list" where
  "ema_from m e [] = [e]"
| "ema_from m e (v # vs) = e # ema_from m ((v - e) * m + e) vs"

definition ema_series :: "rat list \<Rightarrow> nat \<Rightarrow> rat list" where
  "ema_series values period =
     ema_from (2 / (of_nat period + 1)) (mean (take period values)) (drop period values)"

definition ema :: "rat list \<Rightarrow> nat \<Rightarrow> rat" where
  "ema values period = last (ema_series values period)"

section \<open>Momentum and trend\<close>

definition rsi :: "rat list \<Rightarrow> nat \<Rightarrow> rat option" where
  "rsi closes period =
     (if length closes < period + 1 then None
      else
        let window = last_n (period + 1) closes;
            gains = map (\<lambda>(a, b). max (b - a) 0) (pairwise window);
            losses = map (\<lambda>(a, b). max (a - b) 0) (pairwise window);
            avg_loss = mean losses
        in if avg_loss = 0 then Some 100
           else Some (100 - 100 / (1 + mean gains / avg_loss)))"

text \<open>The settings order the spans, so that the slow series is the shorter one and the zip is exact.\<close>

definition macd :: "rat list \<Rightarrow> nat \<Rightarrow> nat \<Rightarrow> nat \<Rightarrow> (rat \<times> rat \<times> rat) option" where
  "macd closes fast slow signal =
     (if length closes < slow + signal then None
      else
        let fast_series = ema_series closes fast; slow_series = ema_series closes slow;
            macd_series = map2 (\<lambda>f s. f - s) (last_n (length slow_series) fast_series) slow_series;
            line = last macd_series; signal_line = ema macd_series signal
        in Some (line, signal_line, line - signal_line))"

definition bollinger_position :: "(rat \<Rightarrow> rat) \<Rightarrow> rat list \<Rightarrow> nat \<Rightarrow> rat \<Rightarrow> rat option" where
  "bollinger_position sq closes window sigma =
     (if length closes < window then None
      else
        let mid = sma closes window; spread = sigma * pstdev sq (last_n window closes);
            upper_band = mid + spread; lower_band = mid - spread
        in if upper_band = lower_band then Some (1 / 2)
           else Some (max 0 (min 1 ((last closes - lower_band) / (upper_band - lower_band)))))"

definition sma_distance :: "rat list \<Rightarrow> nat \<Rightarrow> rat option" where
  "sma_distance closes period =
     (if length closes < period then None
      else let s = sma closes period in Some ((last closes - s) / s * 100))"

definition ema_crossover_spread :: "rat list \<Rightarrow> nat \<Rightarrow> nat \<Rightarrow> rat option" where
  "ema_crossover_spread closes short long =
     (if length closes < long then None
      else let short_ema = ema closes short; long_ema = ema closes long
           in Some ((short_ema - long_ema) / long_ema * 100))"

section \<open>Ranges\<close>

definition true_ranges :: "rat list \<Rightarrow> rat list \<Rightarrow> rat list \<Rightarrow> rat list" where
  "true_ranges highs lows closes =
     map (\<lambda>i. let prev_close = closes ! (i - 1)
              in max (max (highs ! i - lows ! i) \<bar>highs ! i - prev_close\<bar>) \<bar>lows ! i - prev_close\<bar>)
       [1..<length closes]"

definition atr :: "rat list \<Rightarrow> rat list \<Rightarrow> rat list \<Rightarrow> nat \<Rightarrow> rat option" where
  "atr highs lows closes period =
     (if length closes < period + 1 then None
      else Some (mean (last_n period (true_ranges highs lows closes))))"

definition stochastic_k :: "rat list \<Rightarrow> rat list \<Rightarrow> rat list \<Rightarrow> nat \<Rightarrow> nat \<Rightarrow> rat" where
  "stochastic_k highs lows closes k e =
     (let hh = Max (set (slice (e - k) e highs)); ll = Min (set (slice (e - k) e lows))
      in if hh = ll then 50 else (closes ! (e - 1) - ll) / (hh - ll) * 100)"

definition stochastic :: "rat list \<Rightarrow> rat list \<Rightarrow> rat list \<Rightarrow> nat \<Rightarrow> nat \<Rightarrow> (rat \<times> rat) option" where
  "stochastic highs lows closes k d =
     (if length closes + 1 < k + d then None
      else
        let k_values = map (\<lambda>offset. stochastic_k highs lows closes k (length closes - offset)) [0..<d]
        in Some (k_values ! 0, mean k_values))"

definition williams_r :: "rat list \<Rightarrow> rat list \<Rightarrow> rat list \<Rightarrow> nat \<Rightarrow> rat option" where
  "williams_r highs lows closes period =
     (if length closes < period then None
      else
        let hh = Max (set (last_n period highs)); ll = Min (set (last_n period lows))
        in if hh = ll then Some (- 50) else Some ((hh - last closes) / (hh - ll) * - 100))"

definition choppiness ::
  "(rat \<Rightarrow> rat) \<Rightarrow> rat list \<Rightarrow> rat list \<Rightarrow> rat list \<Rightarrow> nat \<Rightarrow> rat option" where
  "choppiness log_10 highs lows closes period =
     (if length closes < period + 1 then None
      else
        let sum_tr = sum_list (last_n period (true_ranges highs lows closes));
            rng = Max (set (last_n period highs)) - Min (set (last_n period lows))
        in if rng = 0 \<or> sum_tr = 0 then None
           else Some (100 * log_10 (sum_tr / rng) / log_10 (of_nat period)))"

section \<open>Volume and events\<close>

fun obv_from :: "rat \<Rightarrow> rat list \<Rightarrow> rat list \<Rightarrow> rat list" where
  "obv_from acc (c0 # c1 # cs) (v0 # v1 # vs) =
     (let next = (if c1 > c0 then acc + v1 else if c1 < c0 then acc - v1 else acc)
      in acc # obv_from next (c1 # cs) (v1 # vs))"
| "obv_from acc closes volumes = [acc]"

definition obv :: "rat list \<Rightarrow> rat list \<Rightarrow> nat \<Rightarrow> (rat \<times> rat) option" where
  "obv closes volumes signal_period =
     (if length closes < signal_period + 1 then None
      else
        let series = obv_from 0 closes volumes
        in Some (last series, sum_list (last_n signal_period series) / of_nat signal_period))"

definition golden_cross :: "rat list \<Rightarrow> nat \<Rightarrow> nat \<Rightarrow> bool option" where
  "golden_cross closes short long =
     (if length closes < long then None
      else Some (sum_list (last_n short closes) / of_nat short > sum_list (last_n long closes) / of_nat long))"

section \<open>Kernel and calendar\<close>

definition nadaraya_watson :: "(rat \<Rightarrow> rat) \<Rightarrow> rat list \<Rightarrow> rat \<Rightarrow> nat \<Rightarrow> rat option" where
  "nadaraya_watson ex closes bandwidth lookback =
     (let n = min lookback (length closes)
      in if n < 10 then None
         else
           let prices = last_n n closes;
               weights = map (\<lambda>i. ex (- (1 / 2) * ((of_nat i - of_nat (n - 1)) / bandwidth) ^ 2)) [0..<n];
               wsum = sum_list weights
           in if wsum = 0 then None
              else
                let smoothed = sum_list (map2 (\<lambda>w p. w * p) weights prices) / wsum
                in if smoothed = 0 then None
                   else Some ((last prices - smoothed) / smoothed * 100))"

text \<open>\<open>dates\<close> are day numbers; the search goes back over at most four of them.\<close>

definition day_is :: "nat \<Rightarrow> int \<Rightarrow> bool" where
  "day_is d day \<longleftrightarrow> weekday (nat day) = d"

definition turnaround_signal :: "rat list \<Rightarrow> int list \<Rightarrow> bool option" where
  "turnaround_signal closes dates =
     (if length closes < 3 then None
      else if \<not> day_is 0 (last dates) then Some False
      else
        let last_index = length dates - 1;
            indices = map (\<lambda>offset. last_index - offset) (filter (\<lambda>offset. offset \<le> last_index) [1..<5])
        in case find (\<lambda>i. day_is 4 (dates ! i)) indices of
             None \<Rightarrow> Some False
           | Some i \<Rightarrow> Some (last closes < closes ! i))"

section \<open>Chart patterns\<close>

datatype swing_kind = SwingHigh | SwingLow

type_synonym swing = "nat \<times> rat \<times> swing_kind"

definition swing_at :: "rat list \<Rightarrow> rat list \<Rightarrow> nat \<Rightarrow> swing option" where
  "swing_at highs lows i =
     (let neighbours = [i - 2, i - 1, i + 1, i + 2]
      in if list_all (\<lambda>j. highs ! j < highs ! i) neighbours then Some (i, highs ! i, SwingHigh)
         else if list_all (\<lambda>j. lows ! i < lows ! j) neighbours then Some (i, lows ! i, SwingLow)
         else None)"

definition find_swing_points :: "rat list \<Rightarrow> rat list \<Rightarrow> rat list \<Rightarrow> rat \<Rightarrow> swing list" where
  "find_swing_points closes highs lows min_swing_pct =
     (if length closes < 5 then []
      else
        let swings = List.map_filter (swing_at highs lows) [2..<length closes - 2]; final = last closes
        in if swings = [] \<or> final = 0 then swings
           else filter (\<lambda>(i, p, k). min_swing_pct * (1 / 2) \<le> \<bar>p - final\<bar> / final * 100) swings)"

definition matching_swings :: "rat \<Rightarrow> rat \<Rightarrow> rat \<Rightarrow> bool" where
  "matching_swings a b tolerance \<longleftrightarrow> \<bar>a - b\<bar> / a < tolerance"

definition round_2 :: "rat \<Rightarrow> rat" where
  "round_2 x = of_int (round_half_even (x * 100)) / 100"

definition double_conf :: "rat \<Rightarrow> rat \<Rightarrow> rat \<Rightarrow> rat" where
  "double_conf a b tolerance = round_2 (min (1 - \<bar>a - b\<bar> / a / tolerance) (85 / 100))"

definition double_pattern ::
  "(nat \<times> rat) list \<Rightarrow> (nat \<times> rat) list \<Rightarrow> rat \<Rightarrow> rat \<Rightarrow> (string \<times> rat) option" where
  "double_pattern highs_s lows_s final tolerance =
     (let top = (case rev highs_s of
                   (i2, b) # (i1, a) # _ \<Rightarrow>
                     if matching_swings a b tolerance \<and> i1 + 5 \<le> i2 \<and> final < b * (1 - tolerance)
                     then Some (''double_top'', double_conf a b tolerance) else None
                 | _ \<Rightarrow> None)
      in case top of
           Some p \<Rightarrow> Some p
         | None \<Rightarrow>
             (case rev lows_s of
                (i2, b) # (i1, a) # _ \<Rightarrow>
                  if matching_swings a b tolerance \<and> i1 + 5 \<le> i2 \<and> b * (1 + tolerance) < final
                  then Some (''double_bottom'', double_conf a b tolerance) else None
              | _ \<Rightarrow> None))"

definition shoulder_pattern ::
  "(nat \<times> rat) list \<Rightarrow> (nat \<times> rat) list \<Rightarrow> rat \<Rightarrow> rat \<Rightarrow> (string \<times> rat) option" where
  "shoulder_pattern highs_s lows_s final tolerance =
     (let top = (case rev highs_s of
                   (_, s2) # (_, head) # (_, s1) # _ \<Rightarrow>
                     if s1 < head \<and> s2 < head \<and> matching_swings s1 s2 tolerance \<and> final < min s1 s2
                     then Some (''head_and_shoulders'', 70 / 100) else None
                 | _ \<Rightarrow> None)
      in case top of
           Some p \<Rightarrow> Some p
         | None \<Rightarrow>
             (case rev lows_s of
                (_, s2) # (_, head) # (_, s1) # _ \<Rightarrow>
                  if head < s1 \<and> head < s2 \<and> matching_swings s1 s2 tolerance \<and> max s1 s2 < final
                  then Some (''inverse_head_and_shoulders'', 70 / 100) else None
              | _ \<Rightarrow> None))"

definition triangle_pattern ::
  "(nat \<times> rat) list \<Rightarrow> (nat \<times> rat) list \<Rightarrow> rat \<Rightarrow> (string \<times> rat) option" where
  "triangle_pattern highs_s lows_s tolerance =
     (case (rev highs_s, rev lows_s) of
        ((_, high2) # (_, high1) # _, (_, low2) # (_, low1) # _) \<Rightarrow>
          (let half = tolerance * (1 / 2)
           in if matching_swings high1 high2 tolerance \<and> low1 * (1 + half) < low2
              then Some (''ascending_triangle'', 65 / 100)
              else if matching_swings low1 low2 tolerance \<and> high2 < high1 * (1 - half)
              then Some (''descending_triangle'', 65 / 100)
              else None)
      | _ \<Rightarrow> None)"

definition swings_of :: "swing_kind \<Rightarrow> swing list \<Rightarrow> (nat \<times> rat) list" where
  "swings_of kind swings = map (\<lambda>(i, p, k). (i, p)) (filter (\<lambda>(i, p, k). k = kind) swings)"

definition geometric_patterns ::
  "rat list \<Rightarrow> rat list \<Rightarrow> rat list \<Rightarrow> nat \<Rightarrow> rat \<Rightarrow> (string \<times> rat) option" where
  "geometric_patterns closes highs lows lookback min_swing_pct =
     (let n = min lookback (length closes)
      in if n < 20 then None
         else
           let close_w = last_n n closes;
               swings = find_swing_points close_w (last_n n highs) (last_n n lows) min_swing_pct
           in if length swings < 3 then None
              else
                let tolerance = min_swing_pct / 100; final = last close_w;
                    highs_s = swings_of SwingHigh swings; lows_s = swings_of SwingLow swings
                in case double_pattern highs_s lows_s final tolerance of
                     Some p \<Rightarrow> Some p
                   | None \<Rightarrow> (case shoulder_pattern highs_s lows_s final tolerance of
                                Some p \<Rightarrow> Some p
                              | None \<Rightarrow> triangle_pattern highs_s lows_s tolerance))"

end
