(* ===== verification/AnalystRules.thy ===== *)
theory AnalystRules
  imports Indicators
begin

text \<open>
  How the analyst scores (\<open>agents/analyst/settings*.py\<close>, \<open>history_requirements.py\<close> and, under
  \<open>domain/\<close>, \<open>technical_rules*.py\<close>, \<open>fundamental_rules.py\<close>, \<open>relative_strength.py\<close>): every indicator
  and every fundamental is mapped to a sub-score between 0 and 100, and a pillar is their mean.
\<close>

section \<open>Settings\<close>

record analyst_settings =
  as_rsi_period :: nat
  as_macd_fast :: nat
  as_macd_slow :: nat
  as_macd_signal :: nat
  as_bollinger_window :: nat
  as_bollinger_sigma :: rat
  as_sma_long_period :: nat
  as_ema_short_period :: nat
  as_ema_long_period :: nat
  as_atr_period :: nat
  as_stoch_k_period :: nat
  as_stoch_d_period :: nat
  as_williams_period :: nat
  as_choppiness_period :: nat
  as_obv_signal_period :: nat
  as_golden_cross_short_period :: nat
  as_rsi2_period :: nat
  as_nw_bandwidth :: rat
  as_nw_lookback :: nat
  as_pattern_lookback :: nat
  as_pattern_min_swing_pct :: rat
  as_stop_target_mode :: tolerance_mode
  as_drawdown_horizon_days :: nat
  as_excursion_lookback_windows :: nat
  as_scaled_stop_atr_multiplier :: rat
  as_scaled_stop_floor_pct :: rat
  as_scaled_stop_ceiling_pct :: rat
  as_lookback_days :: nat
  as_min_history_bars :: nat
  as_confidence_floor :: rat
  as_exit_confidence_floor :: rat
  as_confidence_span :: rat
  as_technical_weight :: rat
  as_fundamental_weight :: rat
  as_sentiment_weight :: rat
  as_sentiment_min_own_headlines :: nat
  as_benchmark_ticker :: string
  as_rs_window :: nat
  as_relative_strength_weight :: rat
  as_signal_diversity_slack :: rat
  as_max_top_signals :: nat
  as_alpha158_pillar_weight :: rat

record indicator_requirement =
  irq_metric_name :: string
  irq_label :: string
  irq_required_bars :: nat

definition momentum_indicator_requirements :: "analyst_settings \<Rightarrow> indicator_requirement list" where
  "momentum_indicator_requirements st =
     [\<lparr>irq_metric_name = ''rsi'', irq_label = ''RSI'', irq_required_bars = as_rsi_period st + 1\<rparr>,
      \<lparr>irq_metric_name = ''macd_histogram'', irq_label = ''MACD'',
        irq_required_bars = as_macd_slow st + as_macd_signal st\<rparr>,
      \<lparr>irq_metric_name = ''bollinger_position'', irq_label = ''Bollinger'',
        irq_required_bars = as_bollinger_window st\<rparr>,
      \<lparr>irq_metric_name = ''sma_distance_pct'', irq_label = ''SMA-200 distance'',
        irq_required_bars = as_sma_long_period st\<rparr>,
      \<lparr>irq_metric_name = ''ema_spread_pct'', irq_label = ''EMA crossover'',
        irq_required_bars = as_ema_long_period st\<rparr>]"

definition required_history_bars :: "analyst_settings \<Rightarrow> nat" where
  "required_history_bars st = Max (set (map irq_required_bars (momentum_indicator_requirements st)))"

definition in_unit :: "rat \<Rightarrow> bool" where
  "in_unit x \<longleftrightarrow> 0 \<le> x \<and> x \<le> 1"

text \<open>The bounds of the indicator windows, and those of the scores, stops and horizons.\<close>

definition indicator_settings_valid :: "analyst_settings \<Rightarrow> bool" where
  "indicator_settings_valid st \<longleftrightarrow>
     2 \<le> as_rsi_period st \<and> as_rsi_period st \<le> 100 \<and> 2 \<le> as_macd_fast st \<and> as_macd_fast st \<le> 100
     \<and> 3 \<le> as_macd_slow st \<and> as_macd_slow st \<le> 200 \<and> 2 \<le> as_macd_signal st \<and> as_macd_signal st \<le> 100
     \<and> 2 \<le> as_bollinger_window st \<and> as_bollinger_window st \<le> 200
     \<and> 1 / 2 \<le> as_bollinger_sigma st \<and> as_bollinger_sigma st \<le> 4
     \<and> 20 \<le> as_sma_long_period st \<and> as_sma_long_period st \<le> 400
     \<and> 2 \<le> as_ema_short_period st \<and> as_ema_short_period st \<le> 200
     \<and> 3 \<le> as_ema_long_period st \<and> as_ema_long_period st \<le> 400
     \<and> 2 \<le> as_atr_period st \<and> as_atr_period st \<le> 100
     \<and> 2 \<le> as_stoch_k_period st \<and> as_stoch_k_period st \<le> 100
     \<and> 1 \<le> as_stoch_d_period st \<and> as_stoch_d_period st \<le> 20
     \<and> 2 \<le> as_williams_period st \<and> as_williams_period st \<le> 100
     \<and> 2 \<le> as_choppiness_period st \<and> as_choppiness_period st \<le> 100
     \<and> 2 \<le> as_obv_signal_period st \<and> as_obv_signal_period st \<le> 100
     \<and> 2 \<le> as_golden_cross_short_period st \<and> as_golden_cross_short_period st \<le> 200
     \<and> 2 \<le> as_rsi2_period st \<and> as_rsi2_period st \<le> 10
     \<and> 1 / 2 \<le> as_nw_bandwidth st \<and> as_nw_bandwidth st \<le> 50
     \<and> 10 \<le> as_nw_lookback st \<and> as_nw_lookback st \<le> 200
     \<and> 20 \<le> as_pattern_lookback st \<and> as_pattern_lookback st \<le> 200
     \<and> 1 / 2 \<le> as_pattern_min_swing_pct st \<and> as_pattern_min_swing_pct st \<le> 10"

definition stop_target_settings_valid :: "analyst_settings \<Rightarrow> bool" where
  "stop_target_settings_valid st \<longleftrightarrow>
     1 \<le> as_drawdown_horizon_days st \<and> as_drawdown_horizon_days st \<le> 60
     \<and> 1 \<le> as_excursion_lookback_windows st \<and> as_excursion_lookback_windows st \<le> 250
     \<and> 0 \<le> as_scaled_stop_atr_multiplier st \<and> as_scaled_stop_atr_multiplier st \<le> 5
     \<and> 0 \<le> as_scaled_stop_floor_pct st \<and> as_scaled_stop_floor_pct st \<le> 8 / 100
     \<and> 0 \<le> as_scaled_stop_ceiling_pct st \<and> as_scaled_stop_ceiling_pct st \<le> 8 / 100"

definition score_settings_valid :: "analyst_settings \<Rightarrow> bool" where
  "score_settings_valid st \<longleftrightarrow>
     2 \<le> as_lookback_days st \<and> as_lookback_days st \<le> 512
     \<and> 2 \<le> as_min_history_bars st \<and> as_min_history_bars st \<le> 60
     \<and> in_unit (as_confidence_floor st) \<and> in_unit (as_exit_confidence_floor st) \<and> in_unit (as_confidence_span st)
     \<and> in_unit (as_technical_weight st) \<and> in_unit (as_fundamental_weight st) \<and> in_unit (as_sentiment_weight st)
     \<and> 1 \<le> as_sentiment_min_own_headlines st \<and> as_sentiment_min_own_headlines st \<le> 10
     \<and> 2 \<le> as_rs_window st \<and> as_rs_window st \<le> 120 \<and> in_unit (as_relative_strength_weight st)
     \<and> 0 \<le> as_signal_diversity_slack st \<and> as_signal_diversity_slack st \<le> 50
     \<and> 1 \<le> as_max_top_signals st \<and> as_max_top_signals st \<le> 20
     \<and> in_unit (as_alpha158_pillar_weight st)"

definition analyst_settings_valid :: "analyst_settings \<Rightarrow> bool" where
  "analyst_settings_valid st \<longleftrightarrow>
     indicator_settings_valid st \<and> stop_target_settings_valid st \<and> score_settings_valid st
     \<and> as_macd_fast st < as_macd_slow st \<and> as_ema_short_period st < as_ema_long_period st
     \<and> as_scaled_stop_floor_pct st \<le> as_scaled_stop_ceiling_pct st
     \<and> required_history_bars st \<le> as_lookback_days st"

text \<open>The irrational functions of the language's library, and the texts the sentiment reads.\<close>

record analyst_math =
  am_sqrt :: "rat \<Rightarrow> rat"
  am_exp :: "rat \<Rightarrow> rat"
  am_log10 :: "rat \<Rightarrow> rat"

section \<open>Technical sub-scores\<close>

definition score_rsi :: "rat \<Rightarrow> rat" where
  "score_rsi v = (if v < 30 then 80 else if v < 50 then 65 else if v < 70 then 50 else 25)"

definition score_macd :: "rat \<Rightarrow> rat \<Rightarrow> rat" where
  "score_macd line histogram =
     (if line > 0 \<and> histogram > 0 then 75 else if histogram > 0 then 60
      else if line < 0 \<and> histogram < 0 then 25 else 45)"

definition score_bollinger :: "rat \<Rightarrow> rat" where
  "score_bollinger position = (if position < 30 / 100 then 75 else if position < 70 / 100 then 50 else 30)"

definition score_sma_distance :: "rat \<Rightarrow> rat" where
  "score_sma_distance d = (if d > 5 then 75 else if d > 0 then 60 else if d > - 5 then 40 else 20)"

definition score_ema_crossover :: "rat \<Rightarrow> rat" where
  "score_ema_crossover s = (if s > 1 then 75 else if s > 0 then 60 else if s > - 1 then 40 else 25)"

definition score_atr :: "rat \<Rightarrow> rat" where
  "score_atr a = (if a < 2 then 70 else if a < 4 then 55 else 35)"

definition score_stochastic :: "rat \<Rightarrow> rat \<Rightarrow> rat" where
  "score_stochastic k d =
     (if k < 20 \<and> d < 20 then 80 else if k < 20 then 65
      else if k > 80 \<and> d > 80 then 20 else if k > 80 then 35 else 50)"

definition score_williams :: "rat \<Rightarrow> rat" where
  "score_williams v = (if v < - 80 then 75 else if v > - 20 then 25 else 50)"

definition score_choppiness :: "rat \<Rightarrow> rat" where
  "score_choppiness v = (if v < 382 / 10 then 75 else if v > 618 / 10 then 30 else 50)"

definition score_obv :: "rat \<Rightarrow> rat \<Rightarrow> rat" where
  "score_obv v signal = (if v > signal then 70 else 35)"

definition score_golden_cross :: "bool \<Rightarrow> rat" where
  "score_golden_cross golden = (if golden then 75 else 25)"

definition score_rsi2 :: "rat \<Rightarrow> rat" where
  "score_rsi2 v = (if v < 10 then 80 else if v > 90 then 20 else 50)"

definition score_kernel :: "rat \<Rightarrow> rat" where
  "score_kernel d = (if d < - 1 then 70 else if d > 1 then 30 else 50)"

definition score_pattern :: "string \<Rightarrow> rat \<Rightarrow> rat" where
  "score_pattern name conf =
     (if name \<in> {''double_bottom'', ''inverse_head_and_shoulders'', ''ascending_triangle''}
      then 50 + conf * 30 else 50 - conf * 30)"

definition score_turnaround :: "bool \<Rightarrow> rat" where
  "score_turnaround signal = (if signal then 75 else 50)"

section \<open>The technical pillar\<close>

type_synonym scored = "string \<times> rat \<times> rat"

definition scored_if :: "string \<Rightarrow> 'a option \<Rightarrow> ('a \<Rightarrow> rat) \<Rightarrow> ('a \<Rightarrow> rat) \<Rightarrow> scored list" where
  "scored_if name found value score =
     (case found of None \<Rightarrow> [] | Some x \<Rightarrow> [(name, value x, score x)])"

definition momentum_scores :: "analyst_math \<Rightarrow> rat list \<Rightarrow> analyst_settings \<Rightarrow> scored list" where
  "momentum_scores am closes st =
     scored_if ''rsi'' (rsi closes (as_rsi_period st)) id score_rsi
     @ scored_if ''macd_histogram'' (macd closes (as_macd_fast st) (as_macd_slow st) (as_macd_signal st))
         (\<lambda>(line, signal, histogram). histogram) (\<lambda>(line, signal, histogram). score_macd line histogram)
     @ scored_if ''bollinger_position''
         (bollinger_position (am_sqrt am) closes (as_bollinger_window st) (as_bollinger_sigma st)) id score_bollinger
     @ scored_if ''sma_distance_pct'' (sma_distance closes (as_sma_long_period st)) id score_sma_distance
     @ scored_if ''ema_spread_pct'' (ema_crossover_spread closes (as_ema_short_period st) (as_ema_long_period st))
         id score_ema_crossover"

definition range_indicator_scores ::
  "analyst_math \<Rightarrow> rat list \<Rightarrow> rat list \<Rightarrow> rat list \<Rightarrow> analyst_settings \<Rightarrow> scored list" where
  "range_indicator_scores am highs lows closes st =
     scored_if ''atr_pct'' (map_option (\<lambda>a. a / last closes * 100) (atr highs lows closes (as_atr_period st)))
       id score_atr
     @ scored_if ''stochastic_k'' (stochastic highs lows closes (as_stoch_k_period st) (as_stoch_d_period st))
         fst (\<lambda>(k, d). score_stochastic k d)
     @ scored_if ''williams_r'' (williams_r highs lows closes (as_williams_period st)) id score_williams
     @ scored_if ''choppiness'' (choppiness (am_log10 am) highs lows closes (as_choppiness_period st))
         id score_choppiness"

definition event_indicator_scores :: "rat list \<Rightarrow> rat list \<Rightarrow> analyst_settings \<Rightarrow> scored list" where
  "event_indicator_scores closes volumes st =
     scored_if ''obv'' (obv closes volumes (as_obv_signal_period st)) fst (\<lambda>(v, signal). score_obv v signal)
     @ scored_if ''golden_cross'' (golden_cross closes (as_golden_cross_short_period st) (as_sma_long_period st))
         of_bool score_golden_cross
     @ scored_if ''rsi2'' (rsi closes (as_rsi2_period st)) id score_rsi2"

definition pattern_indicator_scores ::
  "analyst_math \<Rightarrow> rat list \<Rightarrow> rat list \<Rightarrow> rat list \<Rightarrow> int list \<Rightarrow> analyst_settings \<Rightarrow> scored list" where
  "pattern_indicator_scores am closes highs lows dates st =
     scored_if ''nw_deviation_pct'' (nadaraya_watson (am_exp am) closes (as_nw_bandwidth st) (as_nw_lookback st))
       id score_kernel
     @ scored_if ''geometric_pattern''
         (geometric_patterns closes highs lows (as_pattern_lookback st) (as_pattern_min_swing_pct st))
         snd (\<lambda>(name, conf). score_pattern name conf)
     @ scored_if ''turnaround'' (turnaround_signal closes dates) of_bool score_turnaround"

type_synonym metrics = "(string, rat) dict"

definition technical_triples :: "analyst_math \<Rightarrow> ohlcv_bar list \<Rightarrow> analyst_settings \<Rightarrow> scored list" where
  "technical_triples am bars st =
     (let closes = map bar_close bars; highs = map bar_high bars; lows = map bar_low bars;
          volumes = map (\<lambda>b. of_int (bar_volume b)) bars; dates = map bar_date bars
      in momentum_scores am closes st @ range_indicator_scores am highs lows closes st
         @ event_indicator_scores closes volumes st @ pattern_indicator_scores am closes highs lows dates st)"

definition metrics_of :: "scored list \<Rightarrow> metrics" where
  "metrics_of triples =
     fold (\<lambda>(name, v, score) d. dict_set (name @ ''_score'') score (dict_set name v d)) triples []"

definition record_missing_momentum :: "nat \<Rightarrow> analyst_settings \<Rightarrow> metrics \<Rightarrow> metrics" where
  "record_missing_momentum available st d =
     fold (\<lambda>req d.
         if dict_get d (irq_metric_name req) = None \<and> available < irq_required_bars req
         then dict_set (irq_metric_name req @ ''_missing_bars'') (of_nat (irq_required_bars req - available)) d
         else d)
       (momentum_indicator_requirements st) d"

text \<open>\<open>bars\<close> are in ascending order of their dates.\<close>

definition score_technical :: "analyst_math \<Rightarrow> ohlcv_bar list \<Rightarrow> analyst_settings \<Rightarrow> rat \<times> metrics" where
  "score_technical am bars st =
     (let triples = technical_triples am bars st;
          sub_scores = map (snd \<circ> snd) triples;
          d = dict_set ''indicators_available'' (of_nat (length sub_scores))
                (record_missing_momentum (length bars) st (metrics_of triples))
      in (if sub_scores = [] then 50 else sum_list sub_scores / of_nat (length sub_scores), d))"

section \<open>The fundamental pillar\<close>

datatype band_op = BandLt | BandLe | BandGt

record fundamental_rule =
  fru_name :: string
  fru_keys :: "string list"
  fru_require_positive :: bool
  fru_bands :: "(band_op \<times> rat \<times> rat) list"
  fru_default :: rat

definition fundamental_rules :: "fundamental_rule list" where
  "fundamental_rules =
     [\<lparr>fru_name = ''pe'', fru_keys = [''peBasicExclExtraTTM'', ''peTTM''], fru_require_positive = True,
        fru_bands = [(BandLt, 10, 80), (BandLe, 25, 60)], fru_default = 30\<rparr>,
      \<lparr>fru_name = ''roe'', fru_keys = [''roeTTM''], fru_require_positive = False,
        fru_bands = [(BandGt, 15, 80), (BandGt, 5, 55)], fru_default = 25\<rparr>,
      \<lparr>fru_name = ''net_margin'', fru_keys = [''netProfitMarginTTM''], fru_require_positive = False,
        fru_bands = [(BandGt, 20, 80), (BandGt, 10, 55)], fru_default = 30\<rparr>,
      \<lparr>fru_name = ''current_ratio'', fru_keys = [''currentRatioQuarterly''], fru_require_positive = True,
        fru_bands = [(BandGt, 3 / 2, 70), (BandGt, 1, 50)], fru_default = 25\<rparr>,
      \<lparr>fru_name = ''pb'', fru_keys = [''pbQuarterly'', ''pbAnnual''], fru_require_positive = True,
        fru_bands = [(BandLt, 3 / 2, 80), (BandLe, 3, 60), (BandLe, 5, 40)], fru_default = 20\<rparr>,
      \<lparr>fru_name = ''debt_equity'',
        fru_keys = [''totalDebt/totalEquityQuarterly'', ''totalDebt/totalEquityAnnual''],
        fru_require_positive = False,
        fru_bands = [(BandLt, 1 / 2, 80), (BandLt, 1, 65), (BandLt, 2, 45)], fru_default = 20\<rparr>,
      \<lparr>fru_name = ''eps_growth'', fru_keys = [''epsGrowthTTMYoy''], fru_require_positive = False,
        fru_bands = [(BandGt, 20, 85), (BandGt, 5, 65), (BandGt, - 5, 45)], fru_default = 20\<rparr>,
      \<lparr>fru_name = ''revenue_growth'', fru_keys = [''revenueGrowthTTMYoy''], fru_require_positive = False,
        fru_bands = [(BandGt, 15, 80), (BandGt, 5, 60), (BandGt, - 5, 45)], fru_default = 25\<rparr>]"

fun band_match :: "rat \<Rightarrow> band_op \<Rightarrow> rat \<Rightarrow> bool" where
  "band_match v BandLt threshold = (v < threshold)"
| "band_match v BandLe threshold = (v \<le> threshold)"
| "band_match v BandGt threshold = (threshold < v)"

fun lookup_first :: "metrics \<Rightarrow> string list \<Rightarrow> rat option" where
  "lookup_first d [] = None"
| "lookup_first d (k # ks) = (case dict_get d k of Some v \<Rightarrow> Some v | None \<Rightarrow> lookup_first d ks)"

fun score_metric :: "rat \<Rightarrow> (band_op \<times> rat \<times> rat) list \<Rightarrow> rat \<Rightarrow> rat" where
  "score_metric v [] dflt = dflt"
| "score_metric v ((op, threshold, score) # bands) dflt =
     (if band_match v op threshold then score else score_metric v bands dflt)"

definition fundamental_sub_score :: "metrics \<Rightarrow> fundamental_rule \<Rightarrow> (string \<times> rat) option" where
  "fundamental_sub_score d r =
     (case lookup_first d (fru_keys r) of
        None \<Rightarrow> None
      | Some v \<Rightarrow> if fru_require_positive r \<and> v \<le> 0 then None
                  else Some (fru_name r, score_metric v (fru_bands r) (fru_default r)))"

definition score_fundamental :: "metrics \<Rightarrow> rat option \<times> metrics" where
  "score_fundamental d =
     (let sub_scores = List.map_filter (fundamental_sub_score d) fundamental_rules
      in if sub_scores = [] then (None, [])
         else (Some (mean (map snd sub_scores)),
               dict_set ''fundamentals_available'' (of_nat (length sub_scores)) sub_scores))"

section \<open>Relative strength\<close>

definition return_pct :: "ohlcv_bar list \<Rightarrow> nat \<Rightarrow> rat option" where
  "return_pct bars window =
     (if length bars < window + 1 then None
      else
        let by_date = sort_key bar_date bars
        in Some ((bar_close (last by_date) / bar_close (by_date ! (length by_date - (window + 1))) - 1) * 100))"

definition compute_relative_strength ::
  "ohlcv_bar list \<Rightarrow> ohlcv_bar list \<Rightarrow> nat \<Rightarrow> rat option" where
  "compute_relative_strength stock benchmark window =
     (case (return_pct stock window, return_pct benchmark window) of
        (Some s, Some b) \<Rightarrow> Some (s - b)
      | _ \<Rightarrow> None)"

definition score_relative_strength :: "rat \<Rightarrow> rat" where
  "score_relative_strength r = (if r > 5 then 80 else if r > 0 then 60 else if r > - 5 then 40 else 20)"

end
