(* ===== verification/Sentiment.thy ===== *)
theory Sentiment
  imports AnalystRules BrokerLifecycle Bus
begin

text \<open>
  The sentiment pillar (\<open>sentiment_rules.py\<close>, \<open>sentiment_subject.py\<close>, \<open>sentiment_weights.py\<close>,
  \<open>sentiment_reading.py\<close>): which of the served headlines name the ticker's own company, and the mean
  tone of those that carry a word of the lexicon.

  The two word lists and the company table, which are data files, are parameters; the headline terms
  the code adds to them are its own.  Headlines are read as ASCII text.
\<close>

section \<open>Division that may raise\<close>

definition py_div :: "rat \<Rightarrow> rat \<Rightarrow> rat res" where
  "py_div a b = (if b = 0 then Inl (PyExn ''ZeroDivisionError'' ''division by zero'') else Inr (a / b))"

section \<open>Matching a name\<close>

definition between :: "char \<Rightarrow> char \<Rightarrow> char \<Rightarrow> bool" where
  "between lo hi c \<longleftrightarrow> (of_char lo :: nat) \<le> of_char c \<and> (of_char c :: nat) \<le> of_char hi"

definition is_lower_char :: "char \<Rightarrow> bool" where
  "is_lower_char c \<longleftrightarrow> between CHR ''a'' CHR ''z'' c"

definition is_upper_char :: "char \<Rightarrow> bool" where
  "is_upper_char c \<longleftrightarrow> between CHR ''A'' CHR ''Z'' c"

definition is_alnum_char :: "char \<Rightarrow> bool" where
  "is_alnum_char c \<longleftrightarrow> is_lower_char c \<or> is_upper_char c \<or> between CHR ''0'' CHR ''9'' c"

definition is_word_char :: "char \<Rightarrow> bool" where
  "is_word_char c \<longleftrightarrow> is_alnum_char c \<or> c = CHR ''_''"

text \<open>The word boundary between positions \<open>i - 1\<close> and \<open>i\<close>.\<close>

definition word_at :: "string \<Rightarrow> nat \<Rightarrow> bool" where
  "word_at s i \<longleftrightarrow> i < length s \<and> is_word_char (s ! i)"

definition boundary :: "string \<Rightarrow> nat \<Rightarrow> bool" where
  "boundary s i \<longleftrightarrow> (0 < i \<and> word_at s (i - 1)) \<noteq> word_at s i"

definition text_at :: "string \<Rightarrow> nat \<Rightarrow> string \<Rightarrow> bool" where
  "text_at s i part \<longleftrightarrow> starts_with (drop i s) part"

definition ends_at :: "string \<Rightarrow> nat \<Rightarrow> string \<Rightarrow> bool" where
  "ends_at s i part \<longleftrightarrow> length part \<le> i \<and> text_at s (i - length part) part"

definition name_at :: "string \<Rightarrow> string \<Rightarrow> nat \<Rightarrow> bool" where
  "name_at s name i \<longleftrightarrow>
     \<not> (0 < i \<and> (is_alnum_char (s ! (i - 1)) \<or> s ! (i - 1) = CHR ''$''))
     \<and> \<not> ends_at s i ''Price '' \<and> \<not> ends_at s i ''price '' \<and> text_at s i name
     \<and> \<not> (i + length name < length s \<and> is_lower_char (s ! (i + length name)))"

text \<open>The ticker marks \<open>$T\<close>, \<open>(T)\<close> and \<open>NYSE:T\<close>, the last with an optional space.\<close>

definition dollar_mark_at :: "string \<Rightarrow> string \<Rightarrow> nat \<Rightarrow> bool" where
  "dollar_mark_at s mark i \<longleftrightarrow> text_at s i (''$'' @ mark) \<and> boundary s (i + 1 + length mark)"

definition paren_mark_at :: "string \<Rightarrow> string \<Rightarrow> nat \<Rightarrow> bool" where
  "paren_mark_at s mark i \<longleftrightarrow> text_at s i (''('' @ mark @ '')'')"

definition exchange_mark_at :: "string \<Rightarrow> string \<Rightarrow> nat \<Rightarrow> bool" where
  "exchange_mark_at s mark i \<longleftrightarrow>
     (let exchange = takeWhile is_upper_char (drop i s); colon = i + length exchange;
          at = (\<lambda>j. text_at s j mark \<and> boundary s (j + length mark))
      in boundary s i \<and> 2 \<le> length exchange \<and> text_at s colon '':''
         \<and> (at (colon + 1) \<or> (colon + 1 < length s \<and> is_space (s ! (colon + 1)) \<and> at (colon + 2))))"

definition names_company :: "string list \<Rightarrow> string \<Rightarrow> string \<Rightarrow> bool" where
  "names_company names ticker s \<longleftrightarrow>
     list_ex (\<lambda>i. list_ex (\<lambda>name. name_at s name i) names \<or> dollar_mark_at s ticker i
                 \<or> paren_mark_at s ticker i \<or> exchange_mark_at s ticker i) [0..<length s + 1]"

record sentiment_data =
  sd_positive :: "string set"
  sd_negative :: "string set"
  sd_companies :: "string \<Rightarrow> string list option"

definition own_headlines :: "sentiment_data \<Rightarrow> string \<Rightarrow> string list \<Rightarrow> string list option" where
  "own_headlines sd ticker headlines =
     map_option (\<lambda>names. filter (names_company names ticker) headlines) (sd_companies sd ticker)"

section \<open>Tone\<close>

definition headline_positive :: "string list" where
  "headline_positive =
     [''beat'', ''beats'', ''beating'', ''exceed'', ''exceeds'', ''exceeded'', ''surge'', ''surges'',
      ''surged'', ''soar'', ''soars'', ''soared'', ''rally'', ''rallies'', ''rallied'', ''gain'',
      ''gains'', ''gained'', ''profit'', ''profits'', ''profitable'', ''record'', ''records'',
      ''upgrade'', ''upgrades'', ''upgraded'', ''raise'', ''raised'', ''boost'', ''boosted'',
      ''strong'', ''stronger'', ''strength'', ''growth'', ''grew'', ''outperform'', ''outperformed'',
      ''rebound'', ''rebounds'', ''jump'', ''jumps'', ''jumped'', ''rise'', ''rises'', ''climb'',
      ''climbed'', ''win'', ''wins'', ''expansion'', ''improve'', ''improved'', ''improves'',
      ''optimistic'', ''upbeat'', ''bullish'', ''breakthrough'', ''approval'', ''approved'', ''rose'',
      ''higher'']"

definition headline_negative :: "string list" where
  "headline_negative =
     [''miss'', ''misses'', ''missed'', ''plunge'', ''plunges'', ''plunged'', ''slump'', ''slumps'',
      ''slumped'', ''fall'', ''falls'', ''fell'', ''drop'', ''drops'', ''dropped'', ''decline'',
      ''declines'', ''declined'', ''loss'', ''losses'', ''weak'', ''weaker'', ''weakness'', ''cut'',
      ''cuts'', ''downgrade'', ''downgrades'', ''downgraded'', ''lawsuit'', ''lawsuits'',
      ''investigation'', ''investigations'', ''probe'', ''probes'', ''fraud'', ''bankruptcy'',
      ''bankrupt'', ''default'', ''defaults'', ''warning'', ''warn'', ''warns'', ''warned'',
      ''recall'', ''recalls'', ''recalled'', ''layoff'', ''layoffs'', ''deficit'', ''breach'',
      ''litigation'', ''sue'', ''sued'', ''sinks'', ''sank'', ''tumble'', ''tumbles'', ''tumbled'',
      ''crash'', ''crashes'', ''crashed'', ''slide'', ''slides'', ''slid'', ''halt'', ''halted'',
      ''delay'', ''delayed'', ''shortfall'', ''concern'', ''concerns'', ''fear'', ''fears'', ''risk'',
      ''risks'', ''downturn'', ''recession'', ''selloff'', ''plummet'', ''plummeted'', ''slowdown'',
      ''struggle'', ''struggles'', ''struggling'', ''disappointing'', ''disappoint'', ''disappoints'',
      ''scandal'', ''resign'', ''resigns'', ''resigned'', ''bearish'', ''pessimistic'', ''lower'',
      ''weighed'', ''woes'']"

definition positive_words :: "sentiment_data \<Rightarrow> string set" where
  "positive_words sd = sd_positive sd \<union> set headline_positive"

definition negative_words :: "sentiment_data \<Rightarrow> string set" where
  "negative_words sd = sd_negative sd \<union> set headline_negative"

text \<open>The runs of letters of the lower-cased headline; \<open>run\<close> is the run being read.\<close>

fun letter_runs :: "string \<Rightarrow> string \<Rightarrow> string list" where
  "letter_runs run [] = (if run = [] then [] else [run])"
| "letter_runs run (c # cs) =
     (if is_lower_char c then letter_runs (run @ [c]) cs
      else if run = [] then letter_runs [] cs else run # letter_runs [] cs)"

definition headline_tokens :: "string \<Rightarrow> string list" where
  "headline_tokens headline = letter_runs [] (lower headline)"

definition bounded_100 :: "rat \<Rightarrow> rat" where
  "bounded_100 v = max 0 (min 100 v)"

record tone =
  to_weighted_sum :: rat
  to_weight_total :: rat
  to_articles :: nat
  to_positive :: nat
  to_negative :: nat

definition no_tone :: tone where
  "no_tone = \<lparr>to_weighted_sum = 0, to_weight_total = 0, to_articles = 0, to_positive = 0, to_negative = 0\<rparr>"

definition headline_weight :: "(string, rat) dict option \<Rightarrow> string \<Rightarrow> rat" where
  "headline_weight weights headline =
     (case weights of None \<Rightarrow> 1
      | Some d \<Rightarrow> (case dict_get d headline of None \<Rightarrow> 1 | Some w \<Rightarrow> w))"

definition add_headline :: "sentiment_data \<Rightarrow> (string, rat) dict option \<Rightarrow> string \<Rightarrow> tone \<Rightarrow> tone" where
  "add_headline sd weights headline t =
     (let tokens = headline_tokens headline;
          pos = length (filter (\<lambda>x. x \<in> positive_words sd) tokens);
          neg = length (filter (\<lambda>x. x \<in> negative_words sd) tokens)
      in if pos + neg = 0 then t
         else
           let weight = headline_weight weights headline;
               sub_score = bounded_100 (50 + 50 * (of_nat pos - of_nat neg) / of_nat (pos + neg))
           in \<lparr>to_weighted_sum = to_weighted_sum t + sub_score * weight,
                to_weight_total = to_weight_total t + weight, to_articles = to_articles t + 1,
                to_positive = to_positive t + pos, to_negative = to_negative t + neg\<rparr>)"

definition tone_metrics :: "tone \<Rightarrow> metrics" where
  "tone_metrics t =
     [(''sentiment_articles'', of_nat (to_articles t)),
      (''sentiment_batch_weighted_articles'', to_weight_total t),
      (''sentiment_positive_words'', of_nat (to_positive t)),
      (''sentiment_negative_words'', of_nat (to_negative t))]"

definition score_sentiment ::
  "sentiment_data \<Rightarrow> string list \<Rightarrow> (string, rat) dict option \<Rightarrow> (rat option \<times> metrics) res" where
  "score_sentiment sd headlines weights =
     (let t = fold (add_headline sd weights) headlines no_tone
      in if to_articles t = 0 then Inr (None, [])
         else res_bind (py_div (to_weighted_sum t) (to_weight_total t)) (\<lambda>m. Inr (Some m, tone_metrics t)))"

section \<open>The ticker's own headlines\<close>

text \<open>\<open>{**a, **b}\<close>: the keys of \<open>a\<close> keep their place, \<open>b\<close> has the last word.\<close>

definition merge_metrics :: "metrics \<Rightarrow> metrics \<Rightarrow> metrics" where
  "merge_metrics a b = fold (\<lambda>(k, v) d. dict_set k v d) b a"

definition own_counts :: "nat \<Rightarrow> nat \<Rightarrow> bool \<Rightarrow> metrics" where
  "own_counts served own filtered =
     [(''sentiment_served_headlines'', of_nat served), (''sentiment_own_headlines'', of_nat own),
      (''sentiment_subject_filtered'', of_bool filtered)]"

definition subject_sentiment ::
  "sentiment_data \<Rightarrow> string \<Rightarrow> string list \<Rightarrow> nat \<Rightarrow> (string, rat) dict option \<Rightarrow> (rat option \<times> metrics) res" where
  "subject_sentiment sd ticker headlines min_own weights =
     (if headlines = [] then Inr (None, [])
      else
        let own = own_headlines sd ticker headlines;
            scored = (case own of None \<Rightarrow> headlines | Some hs \<Rightarrow> hs);
            counts = own_counts (length headlines) (length scored) (own \<noteq> None)
        in res_bind (score_sentiment sd scored weights) (\<lambda>(raw, m).
             case raw of
               None \<Rightarrow> Inr (None, counts)
             | Some r \<Rightarrow>
                 if own \<noteq> None \<and> (case dict_get m ''sentiment_articles'' of None \<Rightarrow> False | Some n \<Rightarrow> n < of_nat min_own)
                 then Inr (None, counts) else Inr (Some r, merge_metrics m counts)))"

section \<open>Batch weights\<close>

definition add_owner :: "string \<Rightarrow> string \<Rightarrow> (string, string set) dict \<Rightarrow> (string, string set) dict" where
  "add_owner ticker headline d =
     dict_set headline (insert ticker (case dict_get d headline of None \<Rightarrow> {} | Some s \<Rightarrow> s)) d"

definition batch_headline_weights :: "(string, string list) dict \<Rightarrow> (string, rat) dict" where
  "batch_headline_weights news =
     map (\<lambda>(h, owners). (h, 1 / of_nat (card owners)))
       (fold (\<lambda>(ticker, headlines). fold (add_owner ticker) headlines) news [])"

section \<open>Readings\<close>

record sentiment_reading =
  sr_ticker :: string
  sr_scorer :: string
  sr_score :: rat
  sr_articles :: int
  sr_positive :: int
  sr_negative :: int

text \<open>\<open>int(x)\<close> of a float truncates towards zero.\<close>

definition trunc :: "rat \<Rightarrow> int" where
  "trunc x = (if 0 \<le> x then \<lfloor>x\<rfloor> else \<lceil>x\<rceil>)"

definition metric_or_zero :: "metrics \<Rightarrow> string \<Rightarrow> rat" where
  "metric_or_zero d name = (case dict_get d name of None \<Rightarrow> 0 | Some v \<Rightarrow> v)"

definition lexicon_reading :: "string \<Rightarrow> rat option \<Rightarrow> metrics \<Rightarrow> sentiment_reading option" where
  "lexicon_reading ticker score d =
     (case score of
        None \<Rightarrow> None
      | Some s \<Rightarrow> Some \<lparr>sr_ticker = ticker, sr_scorer = ''lexicon'', sr_score = s,
          sr_articles = trunc (metric_or_zero d ''sentiment_articles''),
          sr_positive = trunc (metric_or_zero d ''sentiment_positive_words''),
          sr_negative = trunc (metric_or_zero d ''sentiment_negative_words'')\<rparr>)"

definition provider_reading :: "string \<Rightarrow> rat \<Rightarrow> sentiment_reading" where
  "provider_reading ticker score =
     \<lparr>sr_ticker = ticker, sr_scorer = ''provider'', sr_score = score, sr_articles = 0, sr_positive = 0, sr_negative = 0\<rparr>"

end
