(* ===== verification/ScanFilters.thy ===== *)
theory ScanFilters
  imports Indicators
begin

text \<open>
  The scanner's domain (\<open>agents/scanner/domain/\<close>, \<open>settings.py\<close>, and the payloads of
  \<open>contracts/scanner.py\<close> and \<open>contracts/provider.py\<close> it reads and makes): the filter chain that
  reduces a universe of tickers to survivors, with a verdict for every ticker, and the ranking.
\<close>

section \<open>Payloads\<close>

type_synonym features = "(string, rat) dict"

record candidate =
  cand_ticker :: string
  cand_rank :: int
  cand_score :: rat
  cand_survived :: "string list"
  cand_skipped :: "string list"
  cand_metrics :: features

datatype scan_decision = Survived | Dropped

fun scan_decision_text :: "scan_decision \<Rightarrow> string" where
  "scan_decision_text Survived = ''survived''"
| "scan_decision_text Dropped = ''dropped''"

record filter_verdict =
  fv_ticker :: string
  fv_decision :: scan_decision
  fv_fired :: "string option"
  fv_skipped :: "string list"
  fv_features :: features
  fv_bypassed :: bool

record filter_trace =
  ftr_universe_size :: nat
  ftr_evaluated :: nat
  ftr_dropped :: "(string, nat) dict"
  ftr_verdicts :: "filter_verdict list"

record candidate_set =
  cs_run_id :: string
  cs_candidates :: "candidate list"
  cs_trace :: filter_trace
  cs_explanation :: explanation
  cs_provenance :: provenance

text \<open>The market data as the scanner and the analyst read it; a date is its day number.\<close>

record market_snapshot = market_data +
  mkt_earnings_horizon :: "int option"
  mkt_benchmark :: "ohlcv_bar list"
  mkt_fundamentals :: "(string, (string, rat) dict) dict"
  mkt_news :: "(string, string list) dict"
  mkt_sentiment :: "(string, rat) dict"
  mkt_earnings :: "(string, int) dict"

section \<open>Settings\<close>

record scanner_settings =
  sst_lookback_days :: int
  sst_min_relative_strength :: rat
  sst_min_price :: rat
  sst_min_average_volume :: rat
  sst_candidate_cap :: nat
  sst_benchmark_ticker :: string
  sst_max_beta :: rat
  sst_beta_min_observations :: nat
  sst_earnings_exclusion_days :: int
  sst_bypass_filter :: bool

definition scanner_settings_valid :: "scanner_settings \<Rightarrow> bool" where
  "scanner_settings_valid st \<longleftrightarrow>
     2 \<le> sst_lookback_days st \<and> sst_lookback_days st \<le> 252
     \<and> - 1 \<le> sst_min_relative_strength st \<and> sst_min_relative_strength st \<le> 5
     \<and> 1 / 100 \<le> sst_min_price st \<and> sst_min_price st \<le> 1000
     \<and> 0 \<le> sst_min_average_volume st \<and> sst_min_average_volume st \<le> 1000000000
     \<and> 1 \<le> sst_candidate_cap st \<and> sst_candidate_cap st \<le> 50
     \<and> 0 \<le> sst_max_beta st \<and> sst_max_beta st \<le> 10
     \<and> 2 \<le> sst_beta_min_observations st \<and> sst_beta_min_observations st \<le> 252
     \<and> 0 \<le> sst_earnings_exclusion_days st \<and> sst_earnings_exclusion_days st \<le> 60"

section \<open>Beta\<close>

definition closes_by_date :: "ohlcv_bar list \<Rightarrow> (int, rat) dict" where
  "closes_by_date bars = fold (\<lambda>b. dict_set (bar_date b) (bar_close b)) bars []"

definition close_on :: "(int, rat) dict \<Rightarrow> int \<Rightarrow> rat" where
  "close_on d day = (case dict_get d day of None \<Rightarrow> 0 | Some c \<Rightarrow> c)"

definition daily_return :: "(int, rat) dict \<Rightarrow> int \<Rightarrow> int \<Rightarrow> rat" where
  "daily_return closes previous current = (close_on closes current - close_on closes previous) / close_on closes previous"

text \<open>The dates are those of both series, so that every look-up finds its close.\<close>

definition aligned_returns :: "ohlcv_bar list \<Rightarrow> ohlcv_bar list \<Rightarrow> rat list \<times> rat list" where
  "aligned_returns stock benchmark =
     (let s = closes_by_date stock; b = closes_by_date benchmark;
          dates = sort (filter (\<lambda>day. day \<in> set (dict_keys b)) (dict_keys s))
      in (map (\<lambda>(p, c). daily_return s p c) (pairwise dates),
          map (\<lambda>(p, c). daily_return b p c) (pairwise dates)))"

definition covariance :: "rat list \<Rightarrow> rat list \<Rightarrow> rat" where
  "covariance xs ys =
     sum_list (map2 (\<lambda>x y. (x - mean xs) * (y - mean ys)) xs ys) / of_nat (length xs - 1)"

definition variance :: "rat list \<Rightarrow> rat" where
  "variance xs = sum_list (map (\<lambda>x. (x - mean xs) ^ 2) xs) / of_nat (length xs - 1)"

definition compute_beta :: "ohlcv_bar list \<Rightarrow> ohlcv_bar list \<Rightarrow> nat \<Rightarrow> rat option" where
  "compute_beta stock benchmark min_observations =
     (case aligned_returns stock benchmark of
        (stock_returns, benchmark_returns) \<Rightarrow>
          if length benchmark_returns < max min_observations 2 then None
          else let v = variance benchmark_returns
               in if v = 0 then None else Some (covariance stock_returns benchmark_returns / v))"

section \<open>The gates\<close>

definition absence_is_an_answer :: "scanner_settings \<Rightarrow> int option \<Rightarrow> bool" where
  "absence_is_an_answer st horizon =
     (case horizon of None \<Rightarrow> False | Some h \<Rightarrow> sst_earnings_exclusion_days st < h)"

definition feature :: "features \<Rightarrow> string \<Rightarrow> rat" where
  "feature f name = (case dict_get f name of None \<Rightarrow> 0 | Some v \<Rightarrow> v)"

text \<open>
  The gates in order: the gate that drops the ticker, if any, the gates passed before it and the gates
  skipped.  The first three features are always there.
\<close>

definition beta_gate :: "features \<Rightarrow> scanner_settings \<Rightarrow> string option \<times> string list \<times> string list" where
  "beta_gate f st =
     (case dict_get f ''beta'' of
        None \<Rightarrow> (None, [], [''max_beta''])
      | Some b \<Rightarrow> if sst_max_beta st < b then (Some ''max_beta'', [], []) else (None, [''max_beta''], []))"

definition earnings_gate ::
  "features \<Rightarrow> scanner_settings \<Rightarrow> int option \<Rightarrow> string option \<times> string list \<times> string list" where
  "earnings_gate f st horizon =
     (case dict_get f ''days_to_earnings'' of
        Some d \<Rightarrow> if 0 \<le> d \<and> d \<le> of_int (sst_earnings_exclusion_days st) then (Some ''earnings_window'', [], [])
                   else (None, [''earnings_window''], [])
      | None \<Rightarrow> if absence_is_an_answer st horizon then (None, [''earnings_window''], [])
                else (None, [], [''earnings_window'']))"

definition evaluate_filters ::
  "features \<Rightarrow> scanner_settings \<Rightarrow> int option \<Rightarrow> string option \<times> string list \<times> string list" where
  "evaluate_filters f st horizon =
     (if feature f ''latest_close'' < sst_min_price st then (Some ''min_price'', [], [])
      else if feature f ''average_volume'' < sst_min_average_volume st
      then (Some ''min_average_volume'', [''min_price''], [])
      else if feature f ''relative_strength'' < sst_min_relative_strength st
      then (Some ''min_relative_strength'', [''min_price'', ''min_average_volume''], [])
      else
        let core = [''min_price'', ''min_average_volume'', ''min_relative_strength'']
        in case beta_gate f st of
             (Some gate, passed, skipped) \<Rightarrow> (Some gate, core @ passed, skipped)
           | (None, passed, skipped) \<Rightarrow>
               (case earnings_gate f st horizon of
                  (fired, passed', skipped') \<Rightarrow> (fired, core @ passed @ passed', skipped @ skipped')))"

section \<open>The chain\<close>

record survivor =
  sv_ticker :: string
  sv_survived :: "string list"
  sv_skipped :: "string list"
  sv_metrics :: features

definition group_bars :: "ohlcv_bar list \<Rightarrow> (string, ohlcv_bar list) dict" where
  "group_bars bars =
     fold (\<lambda>b d. dict_set (bar_ticker b)
         ((case dict_get d (bar_ticker b) of None \<Rightarrow> [] | Some bs \<Rightarrow> bs) @ [b]) d) bars []"

definition bars_of :: "(string, ohlcv_bar list) dict \<Rightarrow> string \<Rightarrow> ohlcv_bar list" where
  "bars_of d ticker = (case dict_get d ticker of None \<Rightarrow> [] | Some bs \<Rightarrow> bs)"

definition days_to_earnings :: "string \<Rightarrow> (string, int) dict \<Rightarrow> int \<Rightarrow> int option" where
  "days_to_earnings ticker earnings as_of = map_option (\<lambda>day. day - as_of) (dict_get earnings ticker)"

text \<open>The bars of one ticker in order, at least two; the closes are positive.\<close>

definition features_of ::
  "ohlcv_bar list \<Rightarrow> ohlcv_bar list \<Rightarrow> (string, int) dict \<Rightarrow> int \<Rightarrow> scanner_settings \<Rightarrow> features" where
  "features_of bars benchmark earnings as_of st =
     (let latest = last bars; first = hd bars;
          core = [(''latest_close'', bar_close latest),
                  (''average_volume'', of_int (sum_list (map bar_volume bars)) / of_nat (length bars)),
                  (''relative_strength'', (bar_close latest - bar_close first) / bar_close first)];
          beta = (case compute_beta bars benchmark (sst_beta_min_observations st) of
                    None \<Rightarrow> [] | Some b \<Rightarrow> [(''beta'', b)]);
          days = (case days_to_earnings (bar_ticker first) earnings as_of of
                    None \<Rightarrow> [] | Some d \<Rightarrow> [(''days_to_earnings'', of_int d)])
      in core @ beta @ days)"

record scan_tally =
  tal_drops :: "(string, nat) dict"
  tal_survivors :: "survivor list"
  tal_verdicts :: "filter_verdict list"

definition count_drop :: "string \<Rightarrow> scan_tally \<Rightarrow> scan_tally" where
  "count_drop gate t =
     t\<lparr>tal_drops := dict_set gate ((case dict_get (tal_drops t) gate of None \<Rightarrow> 0 | Some n \<Rightarrow> n) + 1) (tal_drops t)\<rparr>"

definition add_verdict :: "filter_verdict \<Rightarrow> scan_tally \<Rightarrow> scan_tally" where
  "add_verdict v t = t\<lparr>tal_verdicts := tal_verdicts t @ [v]\<rparr>"

definition add_survivor :: "survivor \<Rightarrow> scan_tally \<Rightarrow> scan_tally" where
  "add_survivor s t = t\<lparr>tal_survivors := tal_survivors t @ [s]\<rparr>"

definition judge_ticker ::
  "(string, ohlcv_bar list) dict \<Rightarrow> ohlcv_bar list \<Rightarrow> (string, int) dict \<Rightarrow> int \<Rightarrow> scanner_settings \<Rightarrow> int option
   \<Rightarrow> string \<Rightarrow> scan_tally \<Rightarrow> scan_tally" where
  "judge_ticker grouped benchmark earnings as_of st horizon ticker t =
     (let bars = sort_key bar_date (bars_of grouped ticker)
      in if length bars < 2
         then add_verdict \<lparr>fv_ticker = ticker, fv_decision = Dropped, fv_fired = Some ''missing_history'',
                fv_skipped = [], fv_features = [], fv_bypassed = False\<rparr> (count_drop ''missing_history'' t)
         else
           let f = features_of bars benchmark earnings as_of st
           in case evaluate_filters f st horizon of
                (None, passed, skipped) \<Rightarrow>
                  add_survivor \<lparr>sv_ticker = ticker, sv_survived = passed, sv_skipped = skipped, sv_metrics = f\<rparr>
                    (add_verdict \<lparr>fv_ticker = ticker, fv_decision = Survived, fv_fired = None,
                       fv_skipped = skipped, fv_features = f, fv_bypassed = False\<rparr> t)
              | (Some gate, passed, skipped) \<Rightarrow>
                  (let t' = add_verdict \<lparr>fv_ticker = ticker, fv_decision = Dropped, fv_fired = Some gate,
                              fv_skipped = skipped, fv_features = f, fv_bypassed = sst_bypass_filter st\<rparr>
                              (count_drop gate t)
                   in if sst_bypass_filter st
                      then add_survivor \<lparr>sv_ticker = ticker, sv_survived = passed, sv_skipped = skipped,
                             sv_metrics = f\<rparr> t'
                      else t'))"

definition empty_tally :: scan_tally where
  "empty_tally = \<lparr>tal_drops = [], tal_survivors = [], tal_verdicts = []\<rparr>"

definition apply_filters ::
  "string list \<Rightarrow> ohlcv_bar list \<Rightarrow> ohlcv_bar list \<Rightarrow> (string, int) dict \<Rightarrow> int \<Rightarrow> scanner_settings
   \<Rightarrow> int option \<Rightarrow> survivor list \<times> filter_trace" where
  "apply_filters tickers bars benchmark earnings as_of st horizon =
     (let t = fold (judge_ticker (group_bars bars) benchmark earnings as_of st horizon) tickers empty_tally
      in (tal_survivors t,
          \<lparr>ftr_universe_size = length tickers, ftr_evaluated = length tickers,
           ftr_dropped = tal_drops t, ftr_verdicts = tal_verdicts t\<rparr>))"

section \<open>The ranking\<close>

definition survivor_key :: "survivor \<Rightarrow> rat \<times> rat \<times> string" where
  "survivor_key s = (- feature (sv_metrics s) ''relative_strength'', - feature (sv_metrics s) ''average_volume'', sv_ticker s)"

definition candidate_of :: "nat \<Rightarrow> survivor \<Rightarrow> candidate" where
  "candidate_of rank s =
     \<lparr>cand_ticker = sv_ticker s, cand_rank = int rank, cand_score = feature (sv_metrics s) ''relative_strength'',
      cand_survived = sv_survived s, cand_skipped = sv_skipped s, cand_metrics = sv_metrics s\<rparr>"

definition rank_survivors :: "survivor list \<Rightarrow> nat \<Rightarrow> candidate list" where
  "rank_survivors survivors cap =
     (let best = take cap (sort_key survivor_key survivors)
      in map2 candidate_of [1..<length best + 1] best)"

end
