(* ===== verification/AnalystScore.thy ===== *)
theory AnalystScore
  imports Sentiment ScanFilters
begin

text \<open>
  The score of one candidate (under \<open>agents/analyst/domain/\<close>: \<open>scoring.py\<close>, \<open>score_arithmetic.py\<close>,
  \<open>signal_selection.py\<close>, \<open>alpha_features.py\<close>, \<open>alpha_pillar.py\<close>, \<open>target_excursion_metrics.py\<close>,
  \<open>stop_target_outcome.py\<close>): the pillars, their blend, the confidence, and the metrics and signals
  recorded with it.
\<close>

section \<open>Signals\<close>

record signal =
  sig_name :: string
  sig_pillar :: string
  sig_score :: rat

text \<open>\<open>key.endswith(suffix)\<close>.\<close>

definition ends_with :: "string \<Rightarrow> string \<Rightarrow> bool" where
  "ends_with s suffix \<longleftrightarrow> length suffix \<le> length s \<and> drop (length s - length suffix) s = suffix"

definition technical_signals :: "metrics \<Rightarrow> signal list" where
  "technical_signals d =
     map (\<lambda>(k, v). \<lparr>sig_name = take (length k - length ''_score'') k, sig_pillar = ''technical'', sig_score = v\<rparr>)
       (filter (\<lambda>(k, v). ends_with k ''_score'') d)"

definition fundamental_signals :: "metrics \<Rightarrow> signal list" where
  "fundamental_signals d =
     map (\<lambda>(k, v). \<lparr>sig_name = k, sig_pillar = ''fundamental'', sig_score = v\<rparr>)
       (filter (\<lambda>(k, v). \<not> ends_with k ''_available'') d)"

definition contribution_of :: "(string, rat) dict \<Rightarrow> signal \<Rightarrow> rat" where
  "contribution_of weights s =
     \<bar>sig_score s - 50\<bar> * (case dict_get weights (sig_pillar s) of None \<Rightarrow> 0 | Some w \<Rightarrow> w)"

definition signal_key :: "(string, rat) dict \<Rightarrow> signal \<Rightarrow> rat \<times> rat" where
  "signal_key weights s = (contribution_of weights s, \<bar>sig_score s - 50\<bar>)"

text \<open>\<open>sorted(xs, key=..., reverse=True)\<close>, which keeps the order of equal elements.\<close>

definition sorted_down :: "('a \<Rightarrow> 'b::linorder) \<Rightarrow> 'a list \<Rightarrow> 'a list" where
  "sorted_down key xs = rev (sort_key key (rev xs))"

definition pick_signal :: "(string, rat) dict \<Rightarrow> rat \<Rightarrow> string set \<Rightarrow> signal list \<Rightarrow> signal \<Rightarrow> signal" where
  "pick_signal weights slack used remaining best =
     (case find (\<lambda>s. sig_pillar s \<notin> used \<and> contribution_of weights best \<le> contribution_of weights s + slack) remaining of
        None \<Rightarrow> best | Some s \<Rightarrow> s)"

fun pick_signals ::
  "(string, rat) dict \<Rightarrow> rat \<Rightarrow> string set \<Rightarrow> signal list \<Rightarrow> nat \<Rightarrow> signal list" where
  "pick_signals weights slack used remaining 0 = []"
| "pick_signals weights slack used [] (Suc n) = []"
| "pick_signals weights slack used (best # rest) (Suc n) =
     (let pick = pick_signal weights slack used (best # rest) best
      in pick # pick_signals weights slack (insert (sig_pillar pick) used) (remove1 pick (best # rest)) n)"

definition select_top_signals :: "signal list \<Rightarrow> (string, rat) dict \<Rightarrow> rat \<Rightarrow> nat \<Rightarrow> signal list" where
  "select_top_signals signals weights slack max_signals =
     pick_signals weights slack {} (sorted_down (signal_key weights) signals) max_signals"

section \<open>The Alpha158 pillar\<close>

text \<open>The 22 features of a row, in the order the class declares them.\<close>

type_synonym alpha_row = "rat list"

definition roc :: "rat list \<Rightarrow> nat \<Rightarrow> rat" where
  "roc closes w = (let base = closes ! (length closes - 1 - w) in (last closes - base) / base)"

definition return_std :: "(rat \<Rightarrow> rat) \<Rightarrow> rat list \<Rightarrow> nat \<Rightarrow> rat" where
  "return_std sq returns w =
     (let rets = last_n w returns; m = sum_list rets / of_nat w
      in sq (sum_list (map (\<lambda>r. (r - m) ^ 2) rets) / of_nat w))"

definition index_of :: "rat \<Rightarrow> rat list \<Rightarrow> nat" where
  "index_of x xs = length (takeWhile (\<lambda>y. y \<noteq> x) xs)"

definition imax :: "rat list \<Rightarrow> nat \<Rightarrow> rat" where
  "imax closes w =
     (let window = last_n (w + 1) closes in 1 - of_nat (index_of (Max (set window)) window) / of_nat w)"

definition imin :: "rat list \<Rightarrow> nat \<Rightarrow> rat" where
  "imin closes w =
     (let window = last_n (w + 1) closes in 1 - of_nat (index_of (Min (set window)) window) / of_nat w)"

definition compute_alpha_features :: "(rat \<Rightarrow> rat) \<Rightarrow> ohlcv_bar list \<Rightarrow> alpha_row option" where
  "compute_alpha_features sq bars =
     (if length bars < 62 then None
      else
        let closes = map bar_close bars;
            returns = map (\<lambda>(p, c). (c - p) / p) (pairwise closes)
        in Some (map (roc closes) [5, 10, 20, 60] @ map (return_std sq returns) [5, 10, 20, 60]
             @ map (\<lambda>w. Max (set (last_n w returns))) [5, 10, 20, 60]
             @ map (\<lambda>w. Min (set (last_n w returns))) [5, 10, 20, 60]
             @ map (imax closes) [10, 20, 60] @ map (imin closes) [10, 20, 60]))"

definition alpha_z :: "(rat \<Rightarrow> rat) \<Rightarrow> alpha_row \<Rightarrow> alpha_row list \<Rightarrow> nat \<Rightarrow> rat" where
  "alpha_z sq row rows i =
     (let vals = map (\<lambda>r. r ! i) rows; m = mean vals;
          std = sq (sum_list (map (\<lambda>v. (v - m) ^ 2) vals) / of_nat (length rows))
      in if std > 1 / 1000000000 then (row ! i - m) / std else 0)"

definition score_alpha158 :: "analyst_math \<Rightarrow> alpha_row \<Rightarrow> alpha_row list \<Rightarrow> rat" where
  "score_alpha158 am row population =
     (let rows = (if row \<in> set population then population else population @ [row]);
          mean_z = mean (map (alpha_z (am_sqrt am) row rows) [0..<22])
      in 100 / (1 + am_exp am (- mean_z)))"

section \<open>Excursions\<close>

record drawdown_observation =
  dd_drawdown_pct :: rat
  dd_horizon_days :: nat

record excursion_estimate =
  ee_excursion_pct :: rat
  ee_horizon_days :: nat
  ee_sample_count :: nat

definition anchor_bar :: "ohlcv_bar list \<Rightarrow> int \<Rightarrow> ohlcv_bar option" where
  "anchor_bar in_order day =
     (let settled = filter (\<lambda>b. bar_date b \<le> day) in_order in if settled = [] then None else Some (last settled))"

definition observed_drawdown :: "ohlcv_bar list \<Rightarrow> int \<Rightarrow> nat \<Rightarrow> drawdown_observation option" where
  "observed_drawdown bars day horizon =
     (if horizon < 1 then None
      else
        let in_order = sort_key bar_date bars
        in case anchor_bar in_order day of
             None \<Rightarrow> None
           | Some a \<Rightarrow>
               (let later = filter (\<lambda>b. bar_date a < bar_date b) in_order
                in if length later < horizon then None
                   else Some \<lparr>dd_drawdown_pct =
                       max ((bar_close a - Min (set (map bar_low (take horizon later)))) / bar_close a) 0,
                     dd_horizon_days = horizon\<rparr>))"

definition favorable_window :: "ohlcv_bar \<Rightarrow> ohlcv_bar list \<Rightarrow> rat" where
  "favorable_window a window = max ((Max (set (map bar_high window)) - bar_close a) / bar_close a) 0"

definition median :: "rat list \<Rightarrow> rat" where
  "median xs =
     (let s = sort xs; n = length xs
      in if odd n then s ! (n div 2) else (s ! (n div 2 - 1) + s ! (n div 2)) / 2)"

definition trailing_favorable_excursion ::
  "ohlcv_bar list \<Rightarrow> int \<Rightarrow> nat \<Rightarrow> nat \<Rightarrow> excursion_estimate option" where
  "trailing_favorable_excursion bars day horizon lookback =
     (if horizon < 1 \<or> lookback < 1 then None
      else
        let in_order = sort_key bar_date bars
        in case anchor_bar in_order day of
             None \<Rightarrow> None
           | Some a \<Rightarrow>
               (let decision = length (takeWhile (\<lambda>b. b \<noteq> a) in_order)
                in if decision < horizon then None
                   else
                     let latest = decision - horizon; first = (if lookback \<le> latest then latest + 1 - lookback else 0);
                         excursions = map (\<lambda>i. favorable_window (in_order ! i) (slice (i + 1) (i + 1 + horizon) in_order))
                                        [first..<latest + 1]
                     in Some \<lparr>ee_excursion_pct = median excursions, ee_horizon_days = horizon,
                          ee_sample_count = length excursions\<rparr>))"

text \<open>\<open>rows\<close> in ascending order, at least one.\<close>

definition target_excursion_metrics :: "ohlcv_bar list \<Rightarrow> analyst_settings \<Rightarrow> metrics" where
  "target_excursion_metrics rows st =
     (let horizon = as_drawdown_horizon_days st; lookback = as_excursion_lookback_windows st;
          base = [(''favorable_excursion_horizon_days'', of_nat horizon),
                  (''favorable_excursion_lookback_windows'', of_nat lookback),
                  (''favorable_excursion_sample_count'', 0)]
      in case trailing_favorable_excursion rows (bar_date (last rows)) horizon lookback of
           None \<Rightarrow> base
         | Some e \<Rightarrow>
             dict_set ''favorable_excursion_sample_count'' (of_nat (ee_sample_count e))
               (dict_set ''favorable_excursion_pct'' (ee_excursion_pct e) base))"

section \<open>The score\<close>

record score_arithmetic =
  sa_technical_weight :: rat
  sa_fundamental_weight :: rat
  sa_sentiment_weight :: rat
  sa_alpha158_weight :: rat
  sa_relative_strength_weight :: rat
  sa_confidence_floor :: rat
  sa_confidence_span :: rat
  sa_technical_sub_scores :: "string list"
  sa_fundamental_sub_scores :: "string list"

definition record_arithmetic :: "analyst_settings \<Rightarrow> metrics \<Rightarrow> metrics \<Rightarrow> score_arithmetic" where
  "record_arithmetic st technical fundamental =
     \<lparr>sa_technical_weight = as_technical_weight st, sa_fundamental_weight = as_fundamental_weight st,
      sa_sentiment_weight = as_sentiment_weight st, sa_alpha158_weight = as_alpha158_pillar_weight st,
      sa_relative_strength_weight = as_relative_strength_weight st,
      sa_confidence_floor = as_confidence_floor st, sa_confidence_span = as_confidence_span st,
      sa_technical_sub_scores = filter (\<lambda>k. ends_with k ''_score'') (dict_keys technical),
      sa_fundamental_sub_scores = filter (\<lambda>k. k \<noteq> ''fundamentals_available'') (dict_keys fundamental)\<rparr>"

record score_breakdown =
  scb_technical_score :: rat
  scb_confidence :: rat
  scb_metrics :: metrics
  scb_fundamental_score :: "rat option"
  scb_sentiment_score :: "rat option"
  scb_alpha158_score :: "rat option"
  scb_top_signals :: "string list"
  scb_rejection_reason :: "string option"
  scb_arithmetic :: score_arithmetic

definition bounded_1 :: "rat \<Rightarrow> rat" where
  "bounded_1 v = max 0 (min 1 v)"

definition apply_relative_strength ::
  "rat \<Rightarrow> ohlcv_bar list \<Rightarrow> ohlcv_bar list \<Rightarrow> analyst_settings \<Rightarrow> rat \<times> metrics" where
  "apply_relative_strength technical bars benchmark st =
     (case compute_relative_strength bars benchmark (as_rs_window st) of
        None \<Rightarrow> (technical, [])
      | Some raw \<Rightarrow>
          (let rs_score = score_relative_strength raw; weight = as_relative_strength_weight st
           in (bounded_1 ((1 - weight) * technical + weight * bounded_1 (rs_score / 100)),
               [(''relative_strength'', raw), (''rs_score'', rs_score)])))"

text \<open>The present pillars with their weights; the blend raises where the weights sum to zero.\<close>

definition pillar_sum :: "(rat option \<times> rat) list \<Rightarrow> rat" where
  "pillar_sum pillars = sum_list (map (\<lambda>(p, w). case p of None \<Rightarrow> 0 | Some v \<Rightarrow> w * v) pillars)"

definition pillar_weights :: "(rat option \<times> rat) list \<Rightarrow> rat" where
  "pillar_weights pillars = sum_list (map (\<lambda>(p, w). case p of None \<Rightarrow> 0 | Some v \<Rightarrow> w) pillars)"

definition composite ::
  "rat \<Rightarrow> rat option \<Rightarrow> rat option \<Rightarrow> rat option \<Rightarrow> analyst_settings \<Rightarrow> rat res" where
  "composite technical fundamental sentiment alpha st =
     (if fundamental = None \<and> sentiment = None \<and> alpha = None then Inr technical
      else
        let pillars = [(Some technical, as_technical_weight st), (fundamental, as_fundamental_weight st),
                       (sentiment, as_sentiment_weight st), (alpha, as_alpha158_pillar_weight st)]
        in py_div (pillar_sum pillars) (pillar_weights pillars))"

definition opt_metric :: "string \<Rightarrow> rat option \<Rightarrow> metrics \<Rightarrow> metrics" where
  "opt_metric name v d = (case v of None \<Rightarrow> d | Some x \<Rightarrow> dict_set name x d)"

definition short_history :: "analyst_settings \<Rightarrow> nat \<Rightarrow> rat option \<Rightarrow> score_breakdown" where
  "short_history st n alpha =
     \<lparr>scb_technical_score = 0, scb_confidence = 0, scb_metrics = [(''history_bars'', of_nat n)],
      scb_fundamental_score = None, scb_sentiment_score = None, scb_alpha158_score = alpha, scb_top_signals = [],
      scb_rejection_reason = Some ''insufficient_market_history'', scb_arithmetic = record_arithmetic st [] []\<rparr>"

definition pillar_signal_weights :: "analyst_settings \<Rightarrow> (string, rat) dict" where
  "pillar_signal_weights st =
     [(''technical'', as_technical_weight st), (''fundamental'', as_fundamental_weight st),
      (''sentiment'', as_sentiment_weight st)]"

definition score_candidate ::
  "analyst_math \<Rightarrow> sentiment_data \<Rightarrow> candidate \<Rightarrow> ohlcv_bar list \<Rightarrow> metrics \<Rightarrow> ohlcv_bar list \<Rightarrow> string list
   \<Rightarrow> analyst_settings \<Rightarrow> (string, rat) dict option \<Rightarrow> rat option \<Rightarrow> score_breakdown res" where
  "score_candidate am sd c bars fundamentals benchmark news st weights alpha_score =
     (let rows = sort_key bar_date bars
      in if length rows < as_min_history_bars st then Inr (short_history st (length rows) alpha_score)
         else
           case score_technical am rows st of (raw, tmetrics) \<Rightarrow>
           case apply_relative_strength (bounded_1 (raw / 100)) bars benchmark st of (technical, rs_metrics) \<Rightarrow>
           case score_fundamental fundamentals of (raw_fund, fmetrics) \<Rightarrow>
           res_bind (subject_sentiment sd (cand_ticker c) news (as_sentiment_min_own_headlines st) weights)
             (\<lambda>(raw_sent, smetrics).
           let fundamental = map_option (\<lambda>v. bounded_1 (v / 100)) raw_fund;
               sentiment = map_option (\<lambda>v. bounded_1 (v / 100)) raw_sent;
               alpha = map_option (\<lambda>v. bounded_1 (v / 100)) alpha_score
           in res_bind (composite technical fundamental sentiment alpha st) (\<lambda>blend.
             let confidence = bounded_1 (as_confidence_floor st + blend * as_confidence_span st);
                 base = [(''history_bars'', of_nat (length rows)), (''technical_score'', technical),
                         (''composite_score'', blend), (''confidence'', confidence)];
                 all_metrics = fold (\<lambda>m d. merge_metrics d m)
                   [tmetrics, fmetrics, rs_metrics, smetrics, target_excursion_metrics rows st] base;
                 signals = technical_signals tmetrics @ fundamental_signals fmetrics
                   @ (case raw_sent of None \<Rightarrow> []
                      | Some v \<Rightarrow> [\<lparr>sig_name = ''sentiment'', sig_pillar = ''sentiment'', sig_score = v\<rparr>])
             in Inr \<lparr>scb_technical_score = technical, scb_confidence = confidence,
                  scb_metrics = opt_metric ''alpha158_score'' alpha_score
                    (opt_metric ''sentiment_score'' sentiment (opt_metric ''fundamental_score'' fundamental all_metrics)),
                  scb_fundamental_score = fundamental, scb_sentiment_score = sentiment,
                  scb_alpha158_score = alpha_score,
                  scb_top_signals = map sig_name (select_top_signals signals (pillar_signal_weights st)
                    (as_signal_diversity_slack st) (as_max_top_signals st)),
                  scb_rejection_reason = None, scb_arithmetic = record_arithmetic st tmetrics fmetrics\<rparr>)))"

end
