(* ===== verification/AgentSteps.thy ===== *)
theory AgentSteps
  imports MonitorRun FillAttempts
begin

text \<open>
  What the agents of the pipeline share: writing a node and an edge, a block that faults instead of
  raising (\<open>kernel/errors.py\<close>), a request to the provider, and the JSON form of the evidence every
  payload carries.
\<close>

section \<open>Writes\<close>

definition ge_merge :: "('w, 'x) graph_env_scheme \<Rightarrow> string \<Rightarrow> string \<Rightarrow> props \<Rightarrow> ('w, gnode) step" where
  "ge_merge env label key p w = gp_merge (ge_port env) (ge_wall env w) w label key p 1"

definition ge_edge :: "('w, 'x) graph_env_scheme \<Rightarrow> gnode \<Rightarrow> gnode \<Rightarrow> string \<Rightarrow> ('w, unit) step" where
  "ge_edge env a b t w = gp_edge (ge_port env) (ge_wall env w) w a b t None"

text \<open>\<open>label, key = ref.split(":", 1)\<close> and a link to that node, where the reference names one.\<close>

definition node_ref :: "string \<Rightarrow> (string \<times> string) option" where
  "node_ref ref =
     (let label = takeWhile (\<lambda>c. c \<noteq> CHR '':'') ref
      in if length label < length ref then Some (label, drop (length label + 1) ref) else None)"

definition link_ref :: "('w, 'x) graph_env_scheme \<Rightarrow> gnode \<Rightarrow> string option \<Rightarrow> string \<Rightarrow> ('w, unit) step" where
  "link_ref env node ref edge_type w =
     (case ref of
        None \<Rightarrow> step_return () w
      | Some r \<Rightarrow>
          (case node_ref r of
             None \<Rightarrow> step_return () w
           | Some (label, key) \<Rightarrow>
               (case gp_get (ge_port env) w label key of
                  None \<Rightarrow> step_return () w
                | Some target \<Rightarrow> ge_edge env node target edge_type w)))"

definition graph_ref :: "gnode \<Rightarrow> string" where
  "graph_ref n = gn_label n @ '':'' @ gn_key n"

section \<open>Blocks that fault\<close>

record 'w agent_env = "'w graph_env" +
  ag_submit :: "'w \<Rightarrow> agent_fault \<Rightarrow> 'w"
  ag_hex :: "'w \<Rightarrow> string"

text \<open>\<open>with fault_boundary(..., reraise=False) as capture\<close>: what the block gave, unless it raised.\<close>

definition captured ::
  "('w, 'x) agent_env_scheme \<Rightarrow> string \<Rightarrow> string \<Rightarrow> string \<Rightarrow> ('w, 'a) step \<Rightarrow> ('w, 'a option) step" where
  "captured env agent modul capability m w =
     (case m w of (w1, r) \<Rightarrow>
        (fst (fault_boundary (ag_submit env) (ge_wall env w1) agent modul (Some capability) w1 r),
         Inr (case r of Inl e \<Rightarrow> None | Inr x \<Rightarrow> Some x)))"

definition record_runtime_fault ::
  "('w, 'x) agent_env_scheme \<Rightarrow> string \<Rightarrow> string \<Rightarrow> string \<Rightarrow> string \<Rightarrow> ('w, unit) step" where
  "record_runtime_fault env agent modul capability message =
     step_forget (captured env agent modul capability (step_res (Inl (RuntimeError message) :: unit res)))"

section \<open>Requests\<close>

definition send_request ::
  "'w bus_env \<Rightarrow> 'w bus \<Rightarrow> string \<Rightarrow> string \<Rightarrow> props \<Rightarrow> ('w, agent_message) step" where
  "send_request benv b sender capability payload =
     step_bind (\<lambda>w. new_message benv w sender ''provider'' MRequest capability payload None) (bus_request benv b)"

definition raise_error_reply ::
  "('w, 'x) graph_env_scheme \<Rightarrow> agent_message \<Rightarrow> ('w, unit) step" where
  "raise_error_reply env response =
     (if am_type response = MError
      then step_res (Inl (RuntimeError (py_str (ge_float_text env)
             (get_or (am_payload response) ''message'' (PStr ''provider error'')))))
      else step_return ())"

section \<open>Evidence as JSON\<close>

definition json_strs :: "string list \<Rightarrow> pyval" where
  "json_strs xs = PList (map PStr xs)"

definition provenance_json :: "provenance \<Rightarrow> pyval" where
  "provenance_json pv =
     PDict [(''run_id'', PStr (pv_run_id pv)), (''source_agent'', PStr (pv_source_agent pv)),
       (''correlation_id'', none_or PStr (pv_correlation_id pv)),
       (''graph_node_id'', none_or PStr (pv_graph_node_id pv)), (''incident_refs'', json_strs (pv_incident_refs pv))]"

definition explanation_json :: "explanation \<Rightarrow> pyval" where
  "explanation_json e =
     PDict [(''summary'', PStr (ex_summary e)), (''evidence_refs'', json_strs (ex_evidence_refs e))]"

text \<open>The day numbers of the window that ends today.\<close>

definition day_of :: "timestamp \<Rightarrow> int" where
  "day_of t = int (ymd2ord (ts_year t) (ts_month t) (ts_day t))"

definition run_provenance :: "string \<Rightarrow> string \<Rightarrow> gnode \<Rightarrow> string list \<Rightarrow> provenance" where
  "run_provenance agent run_id run incidents =
     \<lparr>pv_run_id = run_id, pv_source_agent = agent, pv_correlation_id = None,
      pv_graph_node_id = Some (graph_ref run), pv_incident_refs = incidents\<rparr>"

end
