(* ===== verification/AnalystDecide.thy ===== *)
theory AnalystDecide
  imports AnalystScore AgentSteps
begin

text \<open>
  From a score to a recommendation or a rejection, and the batch (under \<open>agents/analyst/domain/\<close>:
  \<open>stop_target.py\<close>, \<open>recommend.py\<close>, \<open>recommend_summary.py\<close>, \<open>recommend_text.py\<close>, \<open>analyze.py\<close>), with
  the payload bounds of \<open>contracts/analyst.py\<close>.  A held name is only ever sold or kept, and a name not
  held only ever bought.

  The text of a payload's validation error is a parameter.
\<close>

section \<open>Payloads\<close>

record stop_target_record = stop_target_evidence +
  ste_counterfactual_mode :: tolerance_mode
  ste_atr_pct :: "rat option"
  ste_volatility_present :: bool
  ste_volatility_fallback :: bool
  ste_counterfactual_stop_pct :: rat
  ste_counterfactual_target_pct :: rat
  ste_scaled_stop_pct :: rat
  ste_scaled_target_pct :: rat
  ste_favorable_lookback_windows :: "int option"

datatype exit_trigger = StopExit | ThesisExit

fun exit_trigger_text :: "exit_trigger \<Rightarrow> string" where
  "exit_trigger_text StopExit = ''stop''"
| "exit_trigger_text ThesisExit = ''thesis''"

text \<open>The PM's reading of a recommendation is the base of the record; the evidence it reads is part of the whole.\<close>

record analyst_recommendation = recommendation +
  arc_exit_trigger :: "exit_trigger option"
  arc_technical_score :: rat
  arc_fundamental_score :: "rat option"
  arc_sentiment_score :: "rat option"
  arc_stop_target :: "stop_target_record option"
  arc_arithmetic :: score_arithmetic
  arc_rationale :: explanation

record analyst_rejection =
  arj_ticker :: string
  arj_reason :: string

record market_regime = regime_context +
  rg_label :: string
  rg_min_confidence :: rat

fun opt_ok :: "('a \<Rightarrow> bool) \<Rightarrow> 'a option \<Rightarrow> bool" where
  "opt_ok P None = True"
| "opt_ok P (Some x) = P x"

definition stop_target_valid :: "stop_target_record \<Rightarrow> bool" where
  "stop_target_valid e \<longleftrightarrow>
     opt_ok (\<lambda>a. 0 \<le> a) (ste_atr_pct e)
     \<and> in_unit (ste_applied_stop_pct e) \<and> in_unit (ste_applied_target_pct e)
     \<and> in_unit (ste_counterfactual_stop_pct e) \<and> in_unit (ste_counterfactual_target_pct e)
     \<and> in_unit (ste_flat_stop_pct e) \<and> in_unit (ste_flat_target_pct e)
     \<and> in_unit (ste_scaled_stop_pct e) \<and> in_unit (ste_scaled_target_pct e)
     \<and> opt_ok in_unit (ste_favorable_pct e) \<and> opt_ok (\<lambda>d. 1 \<le> d) (ste_favorable_horizon_days e)
     \<and> opt_ok (\<lambda>n. 0 \<le> n) (ste_favorable_sample_count e) \<and> opt_ok (\<lambda>n. 1 \<le> n) (ste_favorable_lookback_windows e)"

definition metric_valid :: "quant_metric \<Rightarrow> bool" where
  "metric_valid m \<longleftrightarrow> 1 \<le> length (qm_name m) \<and> length (qm_name m) \<le> 80"

definition recommendation_valid :: "analyst_recommendation \<Rightarrow> bool" where
  "recommendation_valid r \<longleftrightarrow>
     in_unit (rec_confidence r) \<and> opt_ok in_unit (rec_stop_pct r) \<and> opt_ok in_unit (rec_target_pct r)
     \<and> list_all metric_valid (rec_metrics r) \<and> length (rec_metrics r) \<le> 128"

definition validated :: "('a \<Rightarrow> bool) \<Rightarrow> ('a \<Rightarrow> string) \<Rightarrow> 'a \<Rightarrow> 'a res" where
  "validated ok vtext x = (if ok x then Inr x else Inl (PyExn ''ValidationError'' (vtext x)))"

record analyst_decision =
  dec_recommendation :: "analyst_recommendation option"
  dec_rejection :: "analyst_rejection option"
  dec_reading :: "sentiment_reading option"

section \<open>Stop and target\<close>

definition usable_atr :: "metrics \<Rightarrow> rat option" where
  "usable_atr d = (case dict_get d ''atr_pct'' of None \<Rightarrow> None | Some v \<Rightarrow> if v \<le> 0 then None else Some v)"

definition scaled_stop :: "rat \<Rightarrow> rat option \<Rightarrow> analyst_settings \<Rightarrow> rat" where
  "scaled_stop flat_stop vol st =
     (case vol of
        None \<Rightarrow> flat_stop
      | Some a \<Rightarrow> min (max (a / 100 * as_scaled_stop_atr_multiplier st) (as_scaled_stop_floor_pct st))
                    (as_scaled_stop_ceiling_pct st))"

definition scaled_target :: "rat \<Rightarrow> rat \<Rightarrow> rat \<Rightarrow> rat" where
  "scaled_target flat_stop flat_target scaled =
     (if flat_stop \<le> 0 then flat_target else min (flat_target * (scaled / flat_stop)) 1)"

definition measured_target :: "metrics \<Rightarrow> rat option" where
  "measured_target d =
     (case dict_get d ''favorable_excursion_sample_count'' of
        None \<Rightarrow> None
      | Some n \<Rightarrow>
          if n \<le> 0 then None
          else (case dict_get d ''favorable_excursion_pct'' of
                  None \<Rightarrow> None
                | Some v \<Rightarrow> if v < 0 then None else Some (min v 1)))"

definition targets_of :: "metrics \<Rightarrow> rat \<Rightarrow> rat \<Rightarrow> rat \<Rightarrow> (rat \<times> rat) option" where
  "targets_of d flat_stop base_target scaled =
     (if dict_get d ''favorable_excursion_sample_count'' = None
      then Some (base_target, scaled_target flat_stop base_target scaled)
      else map_option (\<lambda>t. (t, t)) (measured_target d))"

definition other_mode :: "tolerance_mode \<Rightarrow> tolerance_mode" where
  "other_mode m = (if m = Flat then Scaled else Flat)"

definition stop_target_of ::
  "tolerance_mode \<Rightarrow> metrics \<Rightarrow> rat option \<Rightarrow> rat \<Rightarrow> rat \<Rightarrow> rat \<Rightarrow> rat \<Rightarrow> stop_target_record" where
  "stop_target_of mode d vol flat_stop flat_target scaled target =
     (let int_metric = \<lambda>name. map_option trunc (dict_get d name)
      in \<lparr>ste_mode = mode,
          ste_applied_stop_pct = (if mode = Flat then flat_stop else scaled),
          ste_applied_target_pct = (if mode = Flat then flat_target else target),
          ste_flat_stop_pct = flat_stop, ste_flat_target_pct = flat_target,
          ste_favorable_pct = dict_get d ''favorable_excursion_pct'',
          ste_favorable_horizon_days = int_metric ''favorable_excursion_horizon_days'',
          ste_favorable_sample_count = int_metric ''favorable_excursion_sample_count'',
          ste_counterfactual_mode = other_mode mode, ste_atr_pct = vol,
          ste_volatility_present = (vol \<noteq> None), ste_volatility_fallback = (vol = None),
          ste_counterfactual_stop_pct = (if mode = Flat then scaled else flat_stop),
          ste_counterfactual_target_pct = (if mode = Flat then target else flat_target),
          ste_scaled_stop_pct = scaled, ste_scaled_target_pct = target,
          ste_favorable_lookback_windows = int_metric ''favorable_excursion_lookback_windows''\<rparr>)"

text \<open>The applied stop and target are those of the evidence; \<open>None\<close> where no target can be measured.\<close>

definition resolve_stop_target ::
  "(stop_target_record \<Rightarrow> string) \<Rightarrow> ('r regime_context_scheme) \<Rightarrow> metrics \<Rightarrow> analyst_settings
   \<Rightarrow> stop_target_record option res" where
  "resolve_stop_target vtext regime d st =
     (let flat_stop = rc_base_stop_loss_pct regime; vol = usable_atr d; scaled = scaled_stop flat_stop vol st
      in case targets_of d flat_stop (rc_base_take_profit_pct regime) scaled of
           None \<Rightarrow> Inr None
         | Some (flat_target, target) \<Rightarrow>
             res_bind (validated stop_target_valid vtext
                 (stop_target_of (as_stop_target_mode st) d vol flat_stop flat_target scaled target))
               (\<lambda>e. Inr (Some e)))"

section \<open>Texts\<close>

definition scored_indicator_text :: "metrics \<Rightarrow> analyst_settings \<Rightarrow> string" where
  "scored_indicator_text d st =
     (let labels = map irq_label (filter (\<lambda>r. dict_get d (irq_metric_name r) \<noteq> None)
            (momentum_indicator_requirements st))
      in case labels of
           [] \<Rightarrow> ''available technical inputs''
         | [l] \<Rightarrow> l
         | _ \<Rightarrow> join_strs '', '' (butlast labels) @ '', and '' @ last labels)"

definition buy_summary :: "string \<Rightarrow> score_breakdown \<Rightarrow> string \<Rightarrow> analyst_settings \<Rightarrow> string" where
  "buy_summary ticker score label st =
     ticker @ '' cleared the '' @ label @ '' confidence gate on its composite technical score (''
       @ scored_indicator_text (scb_metrics score) st @ '').''"

definition held_recommendation_context ::
  "string \<Rightarrow> rat \<Rightarrow> rat \<Rightarrow> exit_trigger option \<Rightarrow> explanation" where
  "held_recommendation_context ticker confidence exit_floor trigger =
     (case trigger of
        Some StopExit \<Rightarrow>
          \<lparr>ex_summary = ticker @ '' is already held; forced stop exit because the latest close is at or through the stop threshold.'',
           ex_evidence_refs = [''contracts.stop_rule'', ''provider.market_data'']\<rparr>
      | Some ThesisExit \<Rightarrow>
          \<lparr>ex_summary = ticker @ '' is already held; thesis exit because confidence '' @ fixed_text 3 confidence
             @ '' is below the conservative exit floor '' @ fixed_text 3 exit_floor @ ''.'',
           ex_evidence_refs = [''analyst.technical_score'', ''provider.market_data'', ''provider.regime'']\<rparr>
      | None \<Rightarrow>
          \<lparr>ex_summary = ticker @ '' is already held; analyst says hold because confidence '' @ fixed_text 3 confidence
             @ '' is at or above the conservative exit floor '' @ fixed_text 3 exit_floor @ ''.'',
           ex_evidence_refs = [''analyst.technical_score'', ''provider.market_data'', ''provider.regime'']\<rparr>)"

section \<open>The decision\<close>

record analyst_texts =
  at_recommendation :: "analyst_recommendation \<Rightarrow> string"
  at_stop_target :: "stop_target_record \<Rightarrow> string"

definition quant_metrics :: "metrics \<Rightarrow> quant_metric list" where
  "quant_metrics d = map (\<lambda>(k, v). \<lparr>qm_name = k, qm_value = v\<rparr>) (sort_key fst d)"

definition build_recommendation ::
  "string \<Rightarrow> score_breakdown \<Rightarrow> trade_action \<Rightarrow> explanation \<Rightarrow> exit_trigger option \<Rightarrow> stop_target_record option
   \<Rightarrow> analyst_recommendation" where
  "build_recommendation ticker score action rationale trigger proposal =
     \<lparr>rec_ticker = ticker, rec_action = action, rec_confidence = scb_confidence score,
      rec_stop_pct = map_option ste_applied_stop_pct proposal,
      rec_target_pct = map_option ste_applied_target_pct proposal,
      rec_metrics = quant_metrics (scb_metrics score),
      rec_evidence = map_option stop_target_evidence.truncate proposal,
      arc_exit_trigger = trigger, arc_technical_score = scb_technical_score score,
      arc_fundamental_score = scb_fundamental_score score, arc_sentiment_score = scb_sentiment_score score,
      arc_stop_target = proposal, arc_arithmetic = scb_arithmetic score, arc_rationale = rationale\<rparr>"

definition recommended ::
  "analyst_texts \<Rightarrow> sentiment_reading option \<Rightarrow> analyst_recommendation \<Rightarrow> analyst_decision res" where
  "recommended texts reading r =
     res_bind (validated recommendation_valid (at_recommendation texts) r) (\<lambda>r.
       Inr \<lparr>dec_recommendation = Some r, dec_rejection = None, dec_reading = reading\<rparr>)"

definition rejected_for :: "sentiment_reading option \<Rightarrow> string \<Rightarrow> string \<Rightarrow> analyst_decision" where
  "rejected_for reading ticker reason =
     \<lparr>dec_recommendation = None, dec_rejection = Some \<lparr>arj_ticker = ticker, arj_reason = reason\<rparr>, dec_reading = reading\<rparr>"

definition held_recommendation ::
  "string \<Rightarrow> score_breakdown \<Rightarrow> trade_action \<Rightarrow> rat \<Rightarrow> exit_trigger option \<Rightarrow> analyst_recommendation" where
  "held_recommendation ticker score action exit_floor trigger =
     build_recommendation ticker score action
       (held_recommendation_context ticker (scb_confidence score) exit_floor trigger) trigger None"

definition buy_rationale ::
  "string \<Rightarrow> score_breakdown \<Rightarrow> string \<Rightarrow> analyst_settings \<Rightarrow> explanation" where
  "buy_rationale ticker score label st =
     (let opt = \<lambda>v f. (case v of None \<Rightarrow> [] | Some x \<Rightarrow> f x)
      in \<lparr>ex_summary = buy_summary ticker score label st
            @ opt (scb_fundamental_score score) (\<lambda>x. '' and a fundamental score of '' @ fixed_text 3 x)
            @ opt (scb_sentiment_score score) (\<lambda>x. '' and a news-sentiment score of '' @ fixed_text 3 x),
          ex_evidence_refs = [''analyst.technical_score'', ''provider.market_data'', ''provider.regime'']
            @ (if scb_fundamental_score score = None then [] else [''analyst.fundamental_score''])
            @ (if scb_sentiment_score score = None then [] else [''analyst.sentiment_score''])
            @ map (\<lambda>name. ''analyst.signal.'' @ name) (scb_top_signals score)\<rparr>)"

definition decide ::
  "analyst_texts \<Rightarrow> string \<Rightarrow> score_breakdown \<Rightarrow> market_regime \<Rightarrow> bool \<Rightarrow> rat \<Rightarrow> bool \<Rightarrow> analyst_settings
   \<Rightarrow> analyst_decision res" where
  "decide texts ticker score regime held exit_floor stop_breached st =
     (let reading = lexicon_reading ticker (scb_sentiment_score score) (scb_metrics score)
      in if held \<and> stop_breached
         then recommended texts reading (held_recommendation ticker score SellAction exit_floor (Some StopExit))
         else case scb_rejection_reason score of
                Some reason \<Rightarrow> Inr (rejected_for reading ticker reason)
              | None \<Rightarrow>
                  if held
                  then (let leaves = scb_confidence score < exit_floor
                        in recommended texts reading
                             (held_recommendation ticker score (if leaves then SellAction else HoldAction) exit_floor
                                (if leaves then Some ThesisExit else None)))
                  else if scb_confidence score < rg_min_confidence regime
                  then Inr (rejected_for reading ticker (''confidence '' @ fixed_text 3 (scb_confidence score)
                              @ '' below regime floor '' @ fixed_text 3 (rg_min_confidence regime)))
                  else
                    res_bind (resolve_stop_target (at_stop_target texts) regime (scb_metrics score) st) (\<lambda>proposal.
                      case proposal of
                        None \<Rightarrow> Inr (rejected_for reading ticker ''target_estimate_unavailable'')
                      | Some e \<Rightarrow>
                          recommended texts reading
                            (build_recommendation ticker score BuyAction
                               (buy_rationale ticker score (rg_label regime) st) None (Some e))))"

section \<open>The batch\<close>

record 'w analyst_env = "'w agent_env" +
  an_settings :: analyst_settings
  an_math :: analyst_math
  an_sentiment :: sentiment_data
  an_texts :: analyst_texts

definition last_close_cents :: "ohlcv_bar list \<Rightarrow> int" where
  "last_close_cents bars = round_half_up (bar_close (first_max bar_date (hd bars) (tl bars)) * 100)"

definition stop_breached_now ::
  "string \<Rightarrow> ohlcv_bar list \<Rightarrow> position_stop_threshold list \<Rightarrow> string list \<Rightarrow> bool" where
  "stop_breached_now ticker bars thresholds active_refs =
     (case find (\<lambda>t. pst_ticker t = ticker) (rev thresholds) of
        None \<Rightarrow> False
      | Some t \<Rightarrow> bars \<noteq> [] \<and> pst_position_ref t \<notin> set active_refs
          \<and> check_stop (last_close_cents bars) (pst_opened_price_cents t) (pst_stop_pct t))"

definition alpha_rows ::
  "analyst_math \<Rightarrow> (string, ohlcv_bar list) dict \<Rightarrow> string list \<Rightarrow> (string, alpha_row) dict" where
  "alpha_rows am bars tickers =
     List.map_filter (\<lambda>t. map_option (Pair t) (compute_alpha_features (am_sqrt am) (bars_of bars t))) (remdups tickers)"

text \<open>The tickers of the batch are a set; the order in which it is walked does not show.\<close>

definition alpha_scores ::
  "analyst_math \<Rightarrow> analyst_settings \<Rightarrow> (string, ohlcv_bar list) dict \<Rightarrow> string list \<Rightarrow> (string, rat) dict" where
  "alpha_scores am st bars tickers =
     (if as_alpha158_pillar_weight st > 0
      then (let rows = alpha_rows am bars tickers
            in map (\<lambda>(t, row). (t, score_alpha158 am row (map snd rows))) rows)
      else [])"

definition unpriced_fault :: "timestamp \<Rightarrow> string \<Rightarrow> agent_fault" where
  "unpriced_fault now ticker =
     fault_from_exception now ''analyst'' ''agents.analyst.domain.analyze'' (Some ''analyze'') Error None []
       (RuntimeError (''held ticker '' @ ticker @ '' has no market data''))"

definition score_one ::
  "('w, 'x) analyst_env_scheme \<Rightarrow> market_snapshot \<Rightarrow> market_regime \<Rightarrow> string list \<Rightarrow> position_stop_threshold list \<Rightarrow> string list
   \<Rightarrow> (string, ohlcv_bar list) dict \<Rightarrow> (string, rat) dict \<Rightarrow> (string, rat) dict \<Rightarrow> candidate \<Rightarrow> ('w, analyst_decision option) step"
where
  "score_one env market regime held stops active_refs bars alphas weights c w =
     (let st = an_settings env; ticker = cand_ticker c; ticker_bars = bars_of bars ticker
      in if ticker \<in> set held \<and> ticker_bars = []
         then (ag_submit env w (unpriced_fault (ge_wall env w) ticker), Inr None)
         else
           (w, res_bind (score_candidate (an_math env) (an_sentiment env) c ticker_bars
                  (case dict_get (mkt_fundamentals market) ticker of None \<Rightarrow> [] | Some d \<Rightarrow> d)
                  (mkt_benchmark market)
                  (case dict_get (mkt_news market) ticker of None \<Rightarrow> [] | Some hs \<Rightarrow> hs)
                  st (Some weights) (dict_get alphas ticker)) (\<lambda>score.
                res_bind (decide (an_texts env) ticker score regime (ticker \<in> set held) (as_exit_confidence_floor st)
                   (stop_breached_now ticker ticker_bars stops active_refs) st) (\<lambda>d. Inr (Some d)))))"

fun score_each :: "('a \<Rightarrow> ('w, 'b option) step) \<Rightarrow> 'a list \<Rightarrow> ('w, 'b list) step" where
  "score_each f [] = step_return []"
| "score_each f (x # xs) =
     step_bind (f x) (\<lambda>d. step_bind (score_each f xs) (\<lambda>rest.
       step_return (case d of None \<Rightarrow> rest | Some y \<Rightarrow> y # rest)))"

definition score_candidates ::
  "('w, 'x) analyst_env_scheme \<Rightarrow> candidate_set \<Rightarrow> market_snapshot \<Rightarrow> market_regime \<Rightarrow> string list
   \<Rightarrow> position_stop_threshold list \<Rightarrow> string list \<Rightarrow> ('w, analyst_decision list option) step" where
  "score_candidates env cs market regime held stops active_refs =
     (let bars = group_bars (mkt_bars market);
          alphas = alpha_scores (an_math env) (an_settings env) bars (map cand_ticker (cs_candidates cs));
          weights = batch_headline_weights (mkt_news market)
      in captured env ''analyst'' ''agents.analyst.agent'' ''analyze''
           (score_each (score_one env market regime held stops active_refs bars alphas weights) (cs_candidates cs)))"

end
