(* ===== verification/ScanRun.thy ===== *)
theory ScanRun
  imports ScanFilters AgentSteps ClaimCheck
begin

text \<open>
  The scanner's run (\<open>agents/scanner/agent.py\<close>, \<open>poll.py\<close>, \<open>store.py\<close>, \<open>results.py\<close>,
  \<open>universe.py\<close>, \<open>provider_client.py\<close>): it scans a universe from the provider's answer, or one
  \<open>MarketData\<close> node from the graph, and writes the run, its candidates and their lineage.

  The validation of market data, of the request and of an ISO date are parameters.
\<close>

record 'w scan_env = "'w agent_env" +
  sc_settings :: scanner_settings
  sc_market :: "pyval \<Rightarrow> market_snapshot res"
  sc_members :: "string \<Rightarrow> string list res"
  sc_parse_day :: "string \<Rightarrow> int res"

section \<open>Universes\<close>

definition default_universe :: "string list" where
  "default_universe = [''AAPL'', ''MSFT'', ''NVDA'', ''SPY'']"

definition static_members :: "(string, string list) dict option \<Rightarrow> string \<Rightarrow> string list res" where
  "static_members universes name =
     Inr (case dict_get (case universes of None \<Rightarrow> [(''sp500'', default_universe)]
                         | Some d \<Rightarrow> if d = [] then [(''sp500'', default_universe)] else d) name of
            None \<Rightarrow> [] | Some ts \<Rightarrow> ts)"

text \<open>The lines of a universe file, its path, and the tickers they name.\<close>

definition universe_of_lines :: "string \<Rightarrow> string list \<Rightarrow> string list res" where
  "universe_of_lines path file_lines =
     (let syms = map (\<lambda>s. upper (str_strip s))
            (filter (\<lambda>s. str_strip s \<noteq> [] \<and> \<not> starts_with (dropWhile is_space s) ''#'') file_lines)
      in if syms = [] then Inl (ValueError (''universe file '' @ path @ '' has no tickers'')) else Inr syms)"

definition file_members ::
  "(string, string) dict \<Rightarrow> (string \<Rightarrow> string list res) \<Rightarrow> string \<Rightarrow> string list res" where
  "file_members paths read_lines name =
     (case dict_get paths name of
        None \<Rightarrow> Inr []
      | Some path \<Rightarrow> res_bind (read_lines path) (universe_of_lines path))"

section \<open>JSON forms\<close>

definition features_json :: "features \<Rightarrow> pyval" where
  "features_json f = PDict (map (\<lambda>(k, v). (k, PFloat v)) f)"

definition verdict_json :: "filter_verdict \<Rightarrow> pyval" where
  "verdict_json v =
     PDict [(''ticker'', PStr (fv_ticker v)), (''decision'', PStr (scan_decision_text (fv_decision v))),
       (''filter_fired'', none_or PStr (fv_fired v)), (''skipped_filters'', json_strs (fv_skipped v)),
       (''features'', features_json (fv_features v)), (''bypassed'', PBool (fv_bypassed v))]"

definition trace_json :: "filter_trace \<Rightarrow> pyval" where
  "trace_json t =
     PDict [(''universe_size'', PInt (int (ftr_universe_size t))), (''evaluated'', PInt (int (ftr_evaluated t))),
       (''dropped_by_filter'', PDict (map (\<lambda>(k, n). (k, PInt (int n))) (ftr_dropped t))),
       (''verdicts'', PList (map verdict_json (ftr_verdicts t)))]"

definition candidate_json :: "candidate \<Rightarrow> pyval" where
  "candidate_json c =
     PDict [(''ticker'', PStr (cand_ticker c)), (''rank'', PInt (cand_rank c)), (''score'', PFloat (cand_score c)),
       (''survived_filters'', json_strs (cand_survived c)), (''skipped_filters'', json_strs (cand_skipped c)),
       (''metrics'', features_json (cand_metrics c))]"

definition candidate_set_json :: "candidate_set \<Rightarrow> pyval" where
  "candidate_set_json cs =
     PDict [(''run_id'', PStr (cs_run_id cs)), (''candidates'', PList (map candidate_json (cs_candidates cs))),
       (''filter_trace'', trace_json (cs_trace cs)), (''explanation'', explanation_json (cs_explanation cs)),
       (''provenance'', provenance_json (cs_provenance cs))]"

section \<open>The graph write\<close>

definition scan_props :: "timestamp \<Rightarrow> string \<Rightarrow> candidate list \<Rightarrow> filter_trace \<Rightarrow> props" where
  "scan_props now universe cs t =
     [(''universe'', PStr universe), (''candidate_count'', PInt (int (length cs))),
      (''universe_size'', PInt (int (ftr_universe_size t))), (''evaluated'', PInt (int (ftr_evaluated t))),
      (''filter_trace'', trace_json t), (''created_at'', PStr (isoformat now))]"

definition candidate_props :: "candidate \<Rightarrow> props" where
  "candidate_props c =
     [(''ticker'', PStr (cand_ticker c)), (''rank'', PInt (cand_rank c)), (''score'', PFloat (cand_score c))]"

definition candidate_key :: "string \<Rightarrow> candidate \<Rightarrow> string" where
  "candidate_key run_id c = run_id @ '':'' @ cand_ticker c"

definition write_candidate ::
  "('w, 'x) graph_env_scheme \<Rightarrow> string \<Rightarrow> gnode \<Rightarrow> candidate \<Rightarrow> ('w, unit) step" where
  "write_candidate env run_id scan c =
     step_bind (ge_merge env ''Candidate'' (candidate_key run_id c) (candidate_props c)) (\<lambda>node.
       ge_edge env node scan ''SURVIVED'')"

definition write_scan ::
  "('w, 'x) agent_env_scheme \<Rightarrow> string \<Rightarrow> candidate list \<Rightarrow> filter_trace \<Rightarrow> string option
   \<Rightarrow> ('w, provenance) step" where
  "write_scan env universe cs t provider w =
     (let run_id = ''scanner-run-'' @ ag_hex env w
      in step_bind (ge_merge env ''ScanRun'' run_id (scan_props (ge_wall env w) universe cs t)) (\<lambda>scan.
         step_bind (step_each (write_candidate env run_id scan) cs) (\<lambda>_.
         step_bind (link_ref env scan provider ''DERIVED_FROM'') (\<lambda>_.
           step_return (run_provenance ''scanner'' run_id scan [])))) w)"

definition scan_explanation :: "candidate list \<Rightarrow> filter_trace \<Rightarrow> explanation" where
  "scan_explanation cs t =
     \<lparr>ex_summary =
        (if cs = [] then ''No candidates survived the scanner filters.''
         else str_nat (length cs) @ '' candidates survived from '' @ str_nat (ftr_evaluated t)
           @ '' evaluated tickers using price, liquidity, relative-strength, beta, and earnings-window filters.''),
      ex_evidence_refs = [''scanner.filters.core'']\<rparr>"

definition scan_result ::
  "candidate list \<Rightarrow> filter_trace \<Rightarrow> explanation \<Rightarrow> provenance \<Rightarrow> candidate_set" where
  "scan_result cs t e pv =
     \<lparr>cs_run_id = pv_run_id pv, cs_candidates = cs, cs_trace = t, cs_explanation = e, cs_provenance = pv\<rparr>"

section \<open>The poll\<close>

definition find_pending_scans :: "('w, 'x) graph_env_scheme \<Rightarrow> ('w, gnode list) step" where
  "find_pending_scans env = pending_step env ''MarketData'' ''SCANNED_BY''"

definition scan_survivors ::
  "scanner_settings \<Rightarrow> string list \<Rightarrow> market_snapshot \<Rightarrow> ohlcv_bar list \<Rightarrow> int \<Rightarrow> candidate list \<times> filter_trace" where
  "scan_survivors st tickers market benchmark as_of =
     (case apply_filters tickers (mkt_bars market) benchmark (mkt_earnings market) as_of st
             (mkt_earnings_horizon market) of
        (survivors, t) \<Rightarrow> (rank_survivors survivors (sst_candidate_cap st), t))"

definition scan_market_node :: "'w scan_env \<Rightarrow> gnode \<Rightarrow> ('w, unit) step" where
  "scan_market_node env node =
     step_bind (step_res (res_bind (prop_at (gn_props node) ''snapshot'') (sc_market env))) (\<lambda>market.
     step_bind (step_res (res_bind (prop_at (gn_props node) ''tickers'') items_of)) (\<lambda>tickers.
     step_bind (step_res (res_bind (prop_at (gn_props node) ''window_end'')
         (\<lambda>v. sc_parse_day env (py_str (ge_float_text env) v)))) (\<lambda>window_end.
       (case scan_survivors (sc_settings env) (map (py_str (ge_float_text env)) tickers) market
               (mkt_benchmark market) window_end of
          (cs, t) \<Rightarrow>
            step_bind (write_scan env ''sp500'' cs t (Some (graph_ref node))) (\<lambda>pv.
            step_bind (ge_merge env ''ScanRun'' (pv_run_id pv)
                [(''candidate_set'', candidate_set_json (scan_result cs t (scan_explanation cs t) pv))]) (\<lambda>run.
              ge_edge env node run ''SCANNED_BY''))))))"

section \<open>The handlers\<close>

definition scan_module :: string where
  "scan_module = ''agents.scanner.provider_client''"

definition scan_request_payload :: "string list \<Rightarrow> string \<times> string \<Rightarrow> string list \<Rightarrow> props" where
  "scan_request_payload tickers window wanted =
     [(''tickers'', json_strs tickers),
      (''window'', PDict [(''start'', PStr (fst window)), (''end'', PStr (snd window))]),
      (''fields'', json_strs wanted), (''benchmark_ticker'', PNone)]"

definition scan_request_market ::
  "'w scan_env \<Rightarrow> 'w bus_env \<Rightarrow> 'w bus \<Rightarrow> string list \<Rightarrow> string \<times> string \<Rightarrow> ('w, market_snapshot option) step" where
  "scan_request_market env benv b tickers window =
     captured env ''scanner'' scan_module ''run_scan''
       (step_bind (send_request benv b ''scanner'' ''get_market_data''
           (scan_request_payload tickers window [''ohlcv'', ''earnings_calendar''])) (\<lambda>response.
        step_bind (raise_error_reply env response) (\<lambda>_.
          step_res (sc_market env (PDict (am_payload response))))))"

text \<open>The benchmark is asked for alone, and a fault only forgoes the beta gate.\<close>

definition scan_request_benchmark ::
  "'w scan_env \<Rightarrow> 'w bus_env \<Rightarrow> 'w bus \<Rightarrow> string \<Rightarrow> string \<times> string \<Rightarrow> ('w, ohlcv_bar list) step" where
  "scan_request_benchmark env benv b ticker window =
     step_bind (captured env ''scanner'' scan_module ''run_scan''
       (step_bind (send_request benv b ''scanner'' ''get_market_data''
           (scan_request_payload [ticker] window [''ohlcv''])) (\<lambda>response.
          step_res (sc_market env (PDict (am_payload response)))))) (\<lambda>m.
       step_return (case m of None \<Rightarrow> [] | Some market \<Rightarrow> mkt_bars market))"

definition empty_scan ::
  "'w scan_env \<Rightarrow> string \<Rightarrow> string list \<Rightarrow> market_snapshot option \<Rightarrow> ('w, candidate_set) step" where
  "empty_scan env universe tickers market =
     (let t = \<lparr>ftr_universe_size = length tickers, ftr_evaluated = 0,
                ftr_dropped = (if tickers = [] then [] else [(''provider_degraded'', length tickers)]),
                ftr_verdicts = []\<rparr>
      in step_bind (write_scan env universe [] t
             (case market of None \<Rightarrow> None | Some m \<Rightarrow> pv_graph_node_id (mkt_provenance m))) (\<lambda>pv.
           step_return (scan_result [] t
             \<lparr>ex_summary = ''No candidates: provider market data was unavailable or degraded.'',
              ex_evidence_refs = [''provider.get_market_data'']\<rparr> pv)))"

definition run_scan :: "'w scan_env \<Rightarrow> 'w bus_env \<Rightarrow> 'w bus \<Rightarrow> string \<Rightarrow> ('w, candidate_set) step" where
  "run_scan env benv b universe w =
     (let st = sc_settings env
      in step_bind (step_res (sc_members env universe)) (\<lambda>tickers.
         step_bind (step_res (lookback_window (ge_wall env w) (sst_lookback_days st))) (\<lambda>window.
         step_bind (scan_request_market env benv b tickers window) (\<lambda>found.
           (case found of
              None \<Rightarrow> empty_scan env universe tickers None
            | Some market \<Rightarrow>
                if mkt_used_fallback market
                then step_bind (record_runtime_fault env ''scanner'' ''agents.scanner.agent'' ''run_scan''
                         ''provider returned degraded market data'') (\<lambda>_.
                       empty_scan env universe tickers (Some market))
                else
                  step_bind (scan_request_benchmark env benv b (sst_benchmark_ticker st) window) (\<lambda>benchmark.
                    (case scan_survivors st tickers market benchmark (day_of (ge_wall env w)) of
                       (cs, t) \<Rightarrow>
                         step_bind (write_scan env universe cs t (pv_graph_node_id (mkt_provenance market))) (\<lambda>pv.
                           step_return (scan_result cs t (scan_explanation cs t) pv)))))))) w)"

definition explain_filter :: "scanner_settings \<Rightarrow> (rat \<Rightarrow> string) \<Rightarrow> string list \<Rightarrow> string \<Rightarrow> explanation" where
  "explain_filter st float_text tickers universe =
     \<lparr>ex_summary = ''Scanner applies price >= '' @ float_text (sst_min_price st)
        @ '', average volume >= '' @ fixed_text 0 (sst_min_average_volume st)
        @ '', relative strength >= '' @ fixed_text 3 (sst_min_relative_strength st)
        @ '', beta <= '' @ fixed_text 2 (sst_max_beta st)
        @ '', and excludes names with earnings within '' @ str_int (sst_earnings_exclusion_days st)
        @ '' days, to '' @ str_nat (length tickers) @ '' configured '' @ universe @ '' members.'',
      ex_evidence_refs = [''scanner.filters.core'']\<rparr>"

text \<open>
  The trigger: \<open>requested\<close> is the run id of the event, and one is made up where it has none; the
  artifact goes by reference.
\<close>

definition on_run_trigger ::
  "'w scan_env \<Rightarrow> 'w bus_env \<Rightarrow> 'w bus \<Rightarrow> string option \<Rightarrow> string \<Rightarrow> ('w, unit) step" where
  "on_run_trigger env benv b requested universe w =
     (let run_id = (case requested of None \<Rightarrow> ag_hex env w | Some r \<Rightarrow> if r = [] then ag_hex env w else r)
      in step_bind (run_scan env benv b universe) (\<lambda>cs.
           step_forget (\<lambda>w. claim_check_write b (ge_port env) (ge_wall env) w ''scan.candidates.ready'' ''ScanResult''
             (''scan:'' @ run_id) [(''candidates'', candidate_set_json cs)] requested)) w)"

end
