(* ===== verification/AnalystRun.thy ===== *)
theory AnalystRun
  imports AnalystDecide ScanRun PositionBook
begin

text \<open>
  The analyst's run (\<open>agents/analyst/run.py\<close>, \<open>result.py\<close>, \<open>store.py\<close>, \<open>recommendation_props.py\<close>,
  \<open>outcome_backfill.py\<close>, \<open>held_universe.py\<close>, \<open>poll.py\<close>, \<open>provider_client.py\<close>, \<open>agent.py\<close>): it scores
  the scanner's candidates and the open positions, and writes the run, its recommendations and its
  sentiment readings.

  The validation of the payloads read from the graph, SHA-256 and the reading of an ISO timestamp are
  parameters.
\<close>

record 'w analyst_run_env = "'w analyst_env" +
  an_digest :: "string \<Rightarrow> string"
  an_parse_day :: "string \<Rightarrow> int option"
  an_market :: "pyval \<Rightarrow> market_snapshot res"
  an_regime :: "pyval \<Rightarrow> market_regime res"
  an_candidates :: "pyval \<Rightarrow> candidate_set res"

section \<open>The held universe\<close>

definition held_candidate :: "held_position \<Rightarrow> nat \<Rightarrow> candidate" where
  "held_candidate p rank =
     \<lparr>cand_ticker = op_ticker p, cand_rank = int rank, cand_score = 0, cand_survived = [''held_position''],
      cand_skipped = [], cand_metrics = [(''held_quantity'', of_int (op_quantity p))]\<rparr>"

definition scoring_universe :: "candidate_set \<Rightarrow> held_position list \<Rightarrow> candidate_set" where
  "scoring_universe cs held =
     (let seen = remdups (map cand_ticker (cs_candidates cs)); first = length seen + 1;
          additions = map (\<lambda>(p, rank). held_candidate p rank)
            (filter (\<lambda>(p, rank). op_ticker p \<notin> set seen) (zip held [first..<first + length held]))
      in cs\<lparr>cs_candidates := cs_candidates cs @ additions\<rparr>)"

section \<open>The graph write\<close>

definition analyst_mode_text :: "tolerance_mode \<Rightarrow> string" where
  "analyst_mode_text m = (if m = Flat then ''flat'' else ''scaled'')"

definition stop_target_props :: "stop_target_record \<Rightarrow> props" where
  "stop_target_props e =
     [(''stop_target_mode'', PStr (analyst_mode_text (ste_mode e))),
      (''stop_target_counterfactual_mode'', PStr (analyst_mode_text (ste_counterfactual_mode e))),
      (''stop_target_atr_pct'', none_or PFloat (ste_atr_pct e)),
      (''stop_target_volatility_present'', PBool (ste_volatility_present e)),
      (''stop_target_volatility_fallback'', PBool (ste_volatility_fallback e)),
      (''stop_target_applied_stop_pct'', PFloat (ste_applied_stop_pct e)),
      (''stop_target_applied_target_pct'', PFloat (ste_applied_target_pct e)),
      (''stop_target_counterfactual_stop_pct'', PFloat (ste_counterfactual_stop_pct e)),
      (''stop_target_counterfactual_target_pct'', PFloat (ste_counterfactual_target_pct e)),
      (''stop_target_flat_stop_pct'', PFloat (ste_flat_stop_pct e)),
      (''stop_target_flat_target_pct'', PFloat (ste_flat_target_pct e)),
      (''stop_target_scaled_stop_pct'', PFloat (ste_scaled_stop_pct e)),
      (''stop_target_scaled_target_pct'', PFloat (ste_scaled_target_pct e)),
      (''stop_target_favorable_excursion_pct'', none_or PFloat (ste_favorable_pct e)),
      (''stop_target_favorable_excursion_horizon_days'', none_or PInt (ste_favorable_horizon_days e)),
      (''stop_target_favorable_excursion_sample_count'', none_or PInt (ste_favorable_sample_count e)),
      (''stop_target_favorable_excursion_lookback_windows'', none_or PInt (ste_favorable_lookback_windows e))]"

definition metric_json :: "quant_metric \<Rightarrow> pyval" where
  "metric_json m = PDict [(''name'', PStr (qm_name m)), (''value'', PFloat (qm_value m))]"

definition recommendation_props :: "analyst_recommendation \<Rightarrow> props" where
  "recommendation_props r =
     [(''ticker'', PStr (rec_ticker r)), (''action'', PStr (action_text (rec_action r))),
      (''exit_trigger'', none_or (\<lambda>t. PStr (exit_trigger_text t)) (arc_exit_trigger r)),
      (''confidence'', PFloat (rec_confidence r)), (''technical_score'', PFloat (arc_technical_score r)),
      (''suggested_stop_pct'', none_or PFloat (rec_stop_pct r)),
      (''suggested_target_pct'', none_or PFloat (rec_target_pct r)),
      (''quant_metrics'', PList (map metric_json (rec_metrics r)))]
     @ (case arc_stop_target r of None \<Rightarrow> [] | Some e \<Rightarrow> stop_target_props e)"

definition analyst_run_props ::
  "timestamp \<Rightarrow> candidate_set \<Rightarrow> nat \<Rightarrow> nat \<Rightarrow> nat \<Rightarrow> props" where
  "analyst_run_props now cs rec_count rej_count held =
     [(''recommendation_count'', PInt (int rec_count)), (''rejection_count'', PInt (int rej_count)),
      (''held_count'', PInt (int held)), (''source_scan_run_id'', PStr (cs_run_id cs)),
      (''created_at'', PStr (isoformat now))]"

text \<open>\<open>_scan_key\<close>: what follows the first colon of a \<open>ScanRun:\<close> reference.\<close>

definition scan_key_of :: "candidate_set \<Rightarrow> string option" where
  "scan_key_of cs =
     (case pv_graph_node_id (cs_provenance cs) of
        None \<Rightarrow> None
      | Some gid \<Rightarrow> if starts_with gid ''ScanRun:'' then Some (drop (length ''ScanRun:'') gid) else None)"

definition link_candidate ::
  "('w, 'x) graph_env_scheme \<Rightarrow> gnode \<Rightarrow> string option \<Rightarrow> string \<Rightarrow> ('w, unit) step" where
  "link_candidate env node scan_key ticker w =
     (case scan_key of
        None \<Rightarrow> step_return () w
      | Some k \<Rightarrow>
          (case gp_get (ge_port env) w ''Candidate'' (k @ '':'' @ ticker) of
             None \<Rightarrow> step_return () w
           | Some c \<Rightarrow> ge_edge env node c ''DERIVED_FROM'' w))"

definition write_recommendation ::
  "('w, 'x) graph_env_scheme \<Rightarrow> string \<Rightarrow> string option \<Rightarrow> analyst_recommendation \<Rightarrow> ('w, unit) step" where
  "write_recommendation env run_id scan_key r =
     step_bind (ge_merge env ''Recommendation'' (run_id @ '':'' @ rec_ticker r) (recommendation_props r)) (\<lambda>node.
       link_candidate env node scan_key (rec_ticker r))"

definition reading_props :: "string \<Rightarrow> sentiment_reading \<Rightarrow> props" where
  "reading_props run_id s =
     [(''ticker'', PStr (sr_ticker s)), (''scorer'', PStr (sr_scorer s)), (''score'', PFloat (sr_score s)),
      (''articles'', PFloat (of_int (sr_articles s))), (''positive'', PFloat (of_int (sr_positive s))),
      (''negative'', PFloat (of_int (sr_negative s))), (''source_run_id'', PStr run_id)]"

definition write_reading ::
  "('w, 'x) graph_env_scheme \<Rightarrow> gnode \<Rightarrow> string \<Rightarrow> sentiment_reading \<Rightarrow> ('w, unit) step" where
  "write_reading env run run_id s =
     step_bind (ge_merge env ''SentimentReading'' (run_id @ '':'' @ sr_scorer s @ '':'' @ sr_ticker s)
         (reading_props run_id s)) (\<lambda>node. ge_edge env run node ''PRODUCED'')"

definition write_analysis ::
  "('w, 'x) agent_env_scheme \<Rightarrow> candidate_set \<Rightarrow> analyst_recommendation list \<Rightarrow> analyst_rejection list
   \<Rightarrow> sentiment_reading list \<Rightarrow> string list \<Rightarrow> nat \<Rightarrow> ('w, provenance) step" where
  "write_analysis env cs recs rejs readings incidents held_count w =
     (let run_id = ''analyst-run-'' @ ag_hex env w
      in step_bind (ge_merge env ''AnalystRun'' run_id
             (analyst_run_props (ge_wall env w) cs (length recs) (length rejs) held_count)) (\<lambda>run.
         step_bind (step_each (write_recommendation env run_id (scan_key_of cs)) recs) (\<lambda>_.
         step_bind (step_each (write_reading env run run_id) readings) (\<lambda>_.
           step_return (run_provenance ''analyst'' run_id run incidents)))) w)"

section \<open>Results\<close>

record analyst_result =
  ars_run_id :: string
  ars_recommendations :: "analyst_recommendation list"
  ars_rejections :: "analyst_rejection list"
  ars_explanation :: explanation
  ars_provenance :: provenance

definition build_empty_result ::
  "('w, 'x) agent_env_scheme \<Rightarrow> candidate_set \<Rightarrow> string \<Rightarrow> string list \<Rightarrow> nat \<Rightarrow> ('w, analyst_result) step" where
  "build_empty_result env cs reason incidents held_count =
     (let rejs = map (\<lambda>c. \<lparr>arj_ticker = cand_ticker c, arj_reason = reason\<rparr>) (cs_candidates cs)
      in step_bind (write_analysis env cs [] rejs [] incidents held_count) (\<lambda>pv.
           step_return \<lparr>ars_run_id = pv_run_id pv, ars_recommendations = [], ars_rejections = rejs,
             ars_explanation = \<lparr>ex_summary = ''No recommendations: '' @ reason @ ''.'',
                                ex_evidence_refs = [''analyst.technical_score'']\<rparr>,
             ars_provenance = pv\<rparr>))"

definition split_decisions ::
  "analyst_decision list \<Rightarrow> analyst_recommendation list \<times> analyst_rejection list" where
  "split_decisions ds = (List.map_filter dec_recommendation ds, List.map_filter dec_rejection ds)"

definition analysis_explanation ::
  "analyst_recommendation list \<Rightarrow> analyst_rejection list \<Rightarrow> string \<Rightarrow> explanation" where
  "analysis_explanation recs rejs label =
     \<lparr>ex_summary =
        (if recs = []
         then ''No candidates cleared the '' @ label @ '' confidence floor; '' @ str_nat (length rejs)
                @ '' were rejected with reasons.''
         else str_nat (length recs) @ '' recommendations cleared the '' @ label @ '' confidence floor; ''
                @ str_nat (length rejs) @ '' candidates were rejected.''),
      ex_evidence_refs = [''analyst.technical_score'', ''provider.regime'']\<rparr>"

text \<open>\<open>tuple(dict.fromkeys(refs))\<close>.\<close>

definition first_seen :: "string list \<Rightarrow> string list" where
  "first_seen xs = rev (remdups (rev xs))"

definition analyst_incidents :: "market_snapshot option \<Rightarrow> market_regime option \<Rightarrow> string list" where
  "analyst_incidents market regime =
     first_seen ((case market of None \<Rightarrow> [] | Some m \<Rightarrow> pv_incident_refs (mkt_provenance m))
                 @ (case regime of None \<Rightarrow> [] | Some r \<Rightarrow> pv_incident_refs (rc_provenance r)))"

section \<open>Settled drawdowns\<close>

definition group_upper :: "ohlcv_bar list \<Rightarrow> (string, ohlcv_bar list) dict" where
  "group_upper bars =
     fold (\<lambda>b d. dict_set (upper (bar_ticker b))
         ((case dict_get d (upper (bar_ticker b)) of None \<Rightarrow> [] | Some bs \<Rightarrow> bs) @ [b]) d) bars []"

definition decision_days :: "(string \<Rightarrow> int option) \<Rightarrow> gnode list \<Rightarrow> (string, int) dict" where
  "decision_days parse_day runs =
     fold (\<lambda>run d.
         case dict_get (gn_props run) ''created_at'' of
           Some (PStr created) \<Rightarrow> (case parse_day created of None \<Rightarrow> d | Some day \<Rightarrow> dict_set (gn_key run) day d)
         | _ \<Rightarrow> d) runs []"

definition observation_for ::
  "gnode \<Rightarrow> (string, ohlcv_bar list) dict \<Rightarrow> (string, int) dict \<Rightarrow> nat \<Rightarrow> drawdown_observation option" where
  "observation_for node series days horizon =
     (if get_or (gn_props node) ''stop_target_observed_drawdown_pct'' PNone \<noteq> PNone then None
      else
        case dict_get (gn_props node) ''ticker'' of
          Some (PStr ticker) \<Rightarrow>
            (case (dict_get series (upper ticker), dict_get days (takeWhile (\<lambda>c. c \<noteq> CHR '':'') (gn_key node))) of
               (Some bars, Some day) \<Rightarrow> observed_drawdown bars day horizon
             | _ \<Rightarrow> None)
        | _ \<Rightarrow> None)"

definition record_drawdown ::
  "('w, 'x) graph_env_scheme \<Rightarrow> (string, ohlcv_bar list) dict \<Rightarrow> (string, int) dict \<Rightarrow> nat \<Rightarrow> gnode \<Rightarrow> ('w, unit) step" where
  "record_drawdown env series days horizon node =
     (case observation_for node series days horizon of
        None \<Rightarrow> step_return ()
      | Some ob \<Rightarrow>
          step_forget (ge_merge env ''Recommendation'' (gn_key node)
            [(''stop_target_observed_drawdown_pct'', PFloat (dd_drawdown_pct ob)),
             (''stop_target_drawdown_horizon_days'', PInt (int (dd_horizon_days ob)))]))"

definition backfill_observed_drawdowns ::
  "('w, 'x) graph_env_scheme \<Rightarrow> (string \<Rightarrow> int option) \<Rightarrow> ohlcv_bar list \<Rightarrow> nat \<Rightarrow> ('w, unit) step" where
  "backfill_observed_drawdowns env parse_day bars horizon w =
     (let series = group_upper bars
      in if series = [] then step_return () w
         else step_each (record_drawdown env series (decision_days parse_day (gp_list (ge_port env) w ''AnalystRun''))
                horizon) (gp_list (ge_port env) w ''Recommendation'') w)"

section \<open>The run\<close>

definition analyst_run_module :: string where
  "analyst_run_module = ''agents.analyst.run''"

definition held_stop_thresholds ::
  "'w analyst_run_env \<Rightarrow> ('w, position_stop_threshold list option) step" where
  "held_stop_thresholds env =
     captured env ''analyst'' analyst_run_module ''analyze'' (open_position_stop_thresholds env (an_digest env))"

definition provider_readings :: "candidate_set \<Rightarrow> market_snapshot \<Rightarrow> sentiment_reading list" where
  "provider_readings cs market =
     List.map_filter (\<lambda>c. map_option (provider_reading (cand_ticker c)) (dict_get (mkt_sentiment market) (cand_ticker c)))
       (cs_candidates cs)"

definition finish_analysis ::
  "'w analyst_run_env \<Rightarrow> candidate_set \<Rightarrow> market_snapshot \<Rightarrow> market_regime \<Rightarrow> string list \<Rightarrow> nat
   \<Rightarrow> analyst_decision list \<Rightarrow> ('w, analyst_result) step" where
  "finish_analysis env cs market regime incidents held_count ds =
     (case split_decisions ds of
        (recs, rejs) \<Rightarrow>
          step_bind (write_analysis env cs recs rejs
              (List.map_filter dec_reading ds @ provider_readings cs market) incidents held_count) (\<lambda>pv.
          step_bind (captured env ''analyst'' analyst_run_module ''analyze''
              (backfill_observed_drawdowns env (an_parse_day env) (mkt_bars market)
                 (as_drawdown_horizon_days (an_settings env)))) (\<lambda>_.
            step_return \<lparr>ars_run_id = pv_run_id pv, ars_recommendations = recs, ars_rejections = rejs,
              ars_explanation = analysis_explanation recs rejs (rg_label regime), ars_provenance = pv\<rparr>)))"

definition run_analysis ::
  "'w analyst_run_env \<Rightarrow> candidate_set \<Rightarrow> market_snapshot \<Rightarrow> market_regime \<Rightarrow> string list \<Rightarrow> held_position list
   \<Rightarrow> ('w, analyst_result) step" where
  "run_analysis env candidates market regime incidents held =
     (let cs = scoring_universe candidates held; held_count = length held in
      if mkt_used_fallback market
      then step_bind (record_runtime_fault env ''analyst'' analyst_run_module ''analyze''
               ''provider returned degraded market data'') (\<lambda>_.
             build_empty_result env cs ''provider market data degraded''
               (if incidents = [] then [''market_data_degraded''] else incidents) held_count)
      else if pv_incident_refs (rc_provenance regime) \<noteq> []
      then step_bind (record_runtime_fault env ''analyst'' analyst_run_module ''analyze''
               ''provider regime data degraded'') (\<lambda>_.
             build_empty_result env cs ''provider regime data degraded'' incidents held_count)
      else
        step_bind (held_stop_thresholds env) (\<lambda>stops.
          case stops of
            None \<Rightarrow> build_empty_result env cs ''held position stop threshold unavailable'' [] held_count
          | Some thresholds \<Rightarrow>
              step_bind (\<lambda>w. (w, active_broker_stop_refs (ge_float_text env) (ge_port env) w)) (\<lambda>refs.
              step_bind (score_candidates env cs market regime (map op_ticker held) thresholds refs) (\<lambda>found.
                case found of
                  None \<Rightarrow> build_empty_result env cs ''analyst scoring failed'' [] held_count
                | Some ds \<Rightarrow> finish_analysis env cs market regime incidents held_count ds))))"

text \<open>
  How the analyst is reached (\<open>agents/analyst/poll.py\<close>, \<open>agent.py\<close>, \<open>provider_client.py\<close>): the poll,
  which analyses a \<open>ScanRun\<close> from the graph once the position book of its run was synchronised, and the
  handlers of the bus.
\<close>

section \<open>The result as JSON\<close>

definition stop_target_json :: "stop_target_record \<Rightarrow> pyval" where
  "stop_target_json e =
     PDict [(''mode'', PStr (analyst_mode_text (ste_mode e))),
       (''counterfactual_mode'', PStr (analyst_mode_text (ste_counterfactual_mode e))),
       (''atr_pct'', none_or PFloat (ste_atr_pct e)), (''volatility_present'', PBool (ste_volatility_present e)),
       (''volatility_fallback'', PBool (ste_volatility_fallback e)),
       (''applied_stop_pct'', PFloat (ste_applied_stop_pct e)),
       (''applied_target_pct'', PFloat (ste_applied_target_pct e)),
       (''counterfactual_stop_pct'', PFloat (ste_counterfactual_stop_pct e)),
       (''counterfactual_target_pct'', PFloat (ste_counterfactual_target_pct e)),
       (''flat_stop_pct'', PFloat (ste_flat_stop_pct e)), (''flat_target_pct'', PFloat (ste_flat_target_pct e)),
       (''scaled_stop_pct'', PFloat (ste_scaled_stop_pct e)), (''scaled_target_pct'', PFloat (ste_scaled_target_pct e)),
       (''favorable_excursion_pct'', none_or PFloat (ste_favorable_pct e)),
       (''favorable_excursion_horizon_days'', none_or PInt (ste_favorable_horizon_days e)),
       (''favorable_excursion_sample_count'', none_or PInt (ste_favorable_sample_count e)),
       (''favorable_excursion_lookback_windows'', none_or PInt (ste_favorable_lookback_windows e))]"

definition arithmetic_json :: "score_arithmetic \<Rightarrow> pyval" where
  "arithmetic_json a =
     PDict [(''technical_weight'', PFloat (sa_technical_weight a)),
       (''fundamental_weight'', PFloat (sa_fundamental_weight a)), (''sentiment_weight'', PFloat (sa_sentiment_weight a)),
       (''alpha158_weight'', PFloat (sa_alpha158_weight a)),
       (''relative_strength_weight'', PFloat (sa_relative_strength_weight a)),
       (''confidence_floor'', PFloat (sa_confidence_floor a)), (''confidence_span'', PFloat (sa_confidence_span a)),
       (''technical_sub_scores'', json_strs (sa_technical_sub_scores a)),
       (''fundamental_sub_scores'', json_strs (sa_fundamental_sub_scores a))]"

definition recommendation_json :: "analyst_recommendation \<Rightarrow> pyval" where
  "recommendation_json r =
     PDict [(''ticker'', PStr (rec_ticker r)), (''action'', PStr (action_text (rec_action r))),
       (''exit_trigger'', none_or (\<lambda>t. PStr (exit_trigger_text t)) (arc_exit_trigger r)),
       (''confidence'', PFloat (rec_confidence r)), (''technical_score'', PFloat (arc_technical_score r)),
       (''sentiment_score'', none_or PFloat (arc_sentiment_score r)),
       (''fundamental_score'', none_or PFloat (arc_fundamental_score r)),
       (''suggested_stop_pct'', none_or PFloat (rec_stop_pct r)),
       (''suggested_target_pct'', none_or PFloat (rec_target_pct r)),
       (''quant_metrics'', PList (map metric_json (rec_metrics r))),
       (''stop_target_evidence'', none_or stop_target_json (arc_stop_target r)),
       (''score_arithmetic'', arithmetic_json (arc_arithmetic r)), (''rationale'', explanation_json (arc_rationale r))]"

definition analyst_result_json :: "analyst_result \<Rightarrow> pyval" where
  "analyst_result_json r =
     PDict [(''run_id'', PStr (ars_run_id r)),
       (''recommendations'', PList (map recommendation_json (ars_recommendations r))),
       (''rejections'', PList (map (\<lambda>j. PDict [(''ticker'', PStr (arj_ticker j)), (''reason'', PStr (arj_reason j))])
          (ars_rejections r))),
       (''explanation'', explanation_json (ars_explanation r)), (''provenance'', provenance_json (ars_provenance r))]"

section \<open>The poll\<close>

definition scan_market :: "('w, 'x) graph_env_scheme \<Rightarrow> gnode \<Rightarrow> ('w, gnode option) step" where
  "scan_market env scan = step_bind (descend env scan ''DERIVED_FROM'') (\<lambda>ns. step_return (first_of ns))"

definition market_run_id :: "('w, 'x) graph_env_scheme \<Rightarrow> gnode \<Rightarrow> string" where
  "market_run_id env market = py_str (ge_float_text env) (get_or (gn_props market) ''run_id'' (PStr []))"

definition book_sync_of :: "('w, 'x) graph_env_scheme \<Rightarrow> gnode \<Rightarrow> ('w, book_sync_state option) step" where
  "book_sync_of env scan =
     step_bind (scan_market env scan) (\<lambda>m.
       case m of None \<Rightarrow> step_return None | Some n \<Rightarrow> position_book_sync_state env (market_run_id env n))"

fun synced_scans :: "('w, 'x) graph_env_scheme \<Rightarrow> gnode list \<Rightarrow> ('w, gnode list) step" where
  "synced_scans env [] = step_return []"
| "synced_scans env (n # ns) =
     step_bind (scan_market env n) (\<lambda>m.
     step_bind (case m of None \<Rightarrow> step_return False
                | Some k \<Rightarrow> position_book_sync_attempted env (market_run_id env k)) (\<lambda>synced.
     step_bind (synced_scans env ns) (\<lambda>rest.
       step_return (if synced then n # rest else rest))))"

definition find_pending_analyses :: "('w, 'x) graph_env_scheme \<Rightarrow> ('w, gnode list) step" where
  "find_pending_analyses env = step_bind (pending_step env ''ScanRun'' ''ANALYZED_BY'') (synced_scans env)"

definition market_regime_of :: "'w analyst_run_env \<Rightarrow> gnode \<Rightarrow> ('w, market_regime option) step" where
  "market_regime_of env market w =
     step_bind (step_res (prop_at (gn_props market) ''run_id'')) (\<lambda>v w.
       (case gp_get (ge_port env) w ''RegimeContext'' (''regime-context:'' @ py_str (ge_float_text env) v) of
          None \<Rightarrow> step_return None w
        | Some n \<Rightarrow>
            step_bind (step_res (res_bind (prop_at (gn_props n) ''snapshot'') (an_regime env))) (\<lambda>r.
              step_return (Some r)) w)) w"

definition record_stale_book :: "'w analyst_run_env \<Rightarrow> string option \<Rightarrow> ('w, unit) step" where
  "record_stale_book env reason =
     record_runtime_fault env ''analyst'' ''agents.analyst.poll'' ''position_book_sync''
       (''position book stale: '' @ (case reason of None \<Rightarrow> ''broker snapshot was stale''
          | Some r \<Rightarrow> if r = [] then ''broker snapshot was stale'' else r))"

definition run_from_graph ::
  "'w analyst_run_env \<Rightarrow> gnode \<Rightarrow> candidate_set \<Rightarrow> book_sync_state option \<Rightarrow> ('w, analyst_result) step" where
  "run_from_graph env node cs sync =
     (let stale = (case sync of None \<Rightarrow> False | Some s \<Rightarrow> bss_status s = StaleBook);
          stale_refs = (if stale then [''position_book_stale''] else [])
      in step_bind (if stale then record_stale_book env (case sync of None \<Rightarrow> None | Some s \<Rightarrow> bss_stale_reason s)
                    else step_return ()) (\<lambda>_.
         step_bind (\<lambda>w. (w, open_positions (ge_float_text env) (an_digest env) (ge_port env) w)) (\<lambda>held.
           if cs_candidates cs = [] \<and> held = []
           then build_empty_result env cs ''scanner produced no candidates'' stale_refs 0
           else
             step_bind (scan_market env node) (\<lambda>found.
               case found of
                 None \<Rightarrow> build_empty_result env cs ''provider data unavailable'' [] 0
               | Some m \<Rightarrow>
                   step_bind (step_res (res_bind (prop_at (gn_props m) ''snapshot'') (an_market env))) (\<lambda>market.
                   step_bind (market_regime_of env m) (\<lambda>found_regime.
                     case found_regime of
                       None \<Rightarrow> build_empty_result env cs ''provider data unavailable'' [] 0
                     | Some regime \<Rightarrow>
                         run_analysis env cs market regime
                           (analyst_incidents (Some market) (Some regime) @ stale_refs) held))))))"

definition sync_props :: "book_sync_state option \<Rightarrow> props" where
  "sync_props sync =
     (case sync of
        None \<Rightarrow> []
      | Some s \<Rightarrow>
          (''position_book_status'', PStr (if bss_status s = FreshBook then ''fresh'' else ''stale''))
          # (case bss_stale_reason s of None \<Rightarrow> []
             | Some r \<Rightarrow> if r = [] then [] else [(''position_book_stale_reason'', PStr r)]))"

definition analyze_scan_node :: "'w analyst_run_env \<Rightarrow> gnode \<Rightarrow> ('w, unit) step" where
  "analyze_scan_node env node =
     step_bind (step_res (res_bind (prop_at (gn_props node) ''candidate_set'') (an_candidates env))) (\<lambda>cs.
     step_bind (book_sync_of env node) (\<lambda>sync.
     step_bind (if sync = None then scan_market env node else step_return None) (\<lambda>unsynced.
       if sync = None \<and> unsynced \<noteq> None then step_return ()
       else
         step_bind (run_from_graph env node cs sync) (\<lambda>result.
         step_bind (ge_merge env ''AnalystRun'' (ars_run_id result)
             ((''recommendation_set'', analyst_result_json result) # sync_props sync)) (\<lambda>run.
           ge_edge env node run ''ANALYZED_BY'')))))"

section \<open>The handlers\<close>

definition analyst_client_module :: string where
  "analyst_client_module = ''agents.analyst.provider_client''"

definition analyst_market_payload :: "string list \<Rightarrow> string \<times> string \<Rightarrow> string \<Rightarrow> props" where
  "analyst_market_payload tickers window benchmark =
     [(''tickers'', json_strs tickers),
      (''window'', PDict [(''start'', PStr (fst window)), (''end'', PStr (snd window))]),
      (''fields'', json_strs [''ohlcv'', ''fundamentals'', ''news'', ''sentiment'', ''benchmark'']),
      (''benchmark_ticker'', PStr benchmark)]"

definition analyst_request_market ::
  "'w analyst_run_env \<Rightarrow> 'w bus_env \<Rightarrow> 'w bus \<Rightarrow> candidate_set \<Rightarrow> string \<times> string \<Rightarrow> string \<Rightarrow> held_position list
   \<Rightarrow> ('w, market_snapshot option) step" where
  "analyst_request_market env benv b cs window benchmark held =
     captured env ''analyst'' analyst_client_module ''analyze''
       (step_bind (send_request benv b ''analyst'' ''get_market_data''
           (analyst_market_payload (first_seen (map cand_ticker (cs_candidates cs) @ map op_ticker held)) window benchmark))
         (\<lambda>response. step_bind (raise_error_reply env response) (\<lambda>_.
            step_res (an_market env (PDict (am_payload response))))))"

definition analyst_request_regime ::
  "'w analyst_run_env \<Rightarrow> 'w bus_env \<Rightarrow> 'w bus \<Rightarrow> string \<Rightarrow> ('w, market_regime option) step" where
  "analyst_request_regime env benv b as_of =
     captured env ''analyst'' analyst_client_module ''analyze''
       (step_bind (send_request benv b ''analyst'' ''get_regime'' [(''as_of'', PStr as_of)])
         (\<lambda>response. step_bind (raise_error_reply env response) (\<lambda>_.
            step_res (an_regime env (PDict (am_payload response))))))"

text \<open>The window and the regime's day are read from the clock, each at its own call.\<close>

definition analyze_request ::
  "'w analyst_run_env \<Rightarrow> 'w bus_env \<Rightarrow> 'w bus \<Rightarrow> candidate_set \<Rightarrow> ('w, analyst_result) step" where
  "analyze_request env benv b cs =
     (let window = (\<lambda>w. (w, lookback_window (ge_wall env w) (int (as_lookback_days (an_settings env))))) in
      step_bind (\<lambda>w. (w, open_positions (ge_float_text env) (an_digest env) (ge_port env) w)) (\<lambda>held.
        if cs_candidates cs = [] \<and> held = []
        then build_empty_result env cs ''scanner produced no candidates'' [] 0
        else
          step_bind window (\<lambda>win.
          step_bind (analyst_request_market env benv b cs win (as_benchmark_ticker (an_settings env)) held) (\<lambda>market.
          step_bind window (\<lambda>win2.
          step_bind (analyst_request_regime env benv b (snd win2)) (\<lambda>regime.
            let refs = analyst_incidents market regime in
            case (market, regime) of
              (Some m, Some r) \<Rightarrow> run_analysis env cs m r refs held
            | _ \<Rightarrow> build_empty_result env cs ''provider data unavailable'' refs 0))))))"

definition explain_recommendation :: "candidate_set \<Rightarrow> explanation" where
  "explain_recommendation cs =
     \<lparr>ex_summary = ''Analyst confidence blends the technical indicators that have enough market history for ''
        @ str_nat (length (cs_candidates cs)) @ '' candidates, then gates each result against provider regime confidence.'',
      ex_evidence_refs = [''analyst.technical_score'', ''provider.regime'']\<rparr>"

definition on_candidates_ready ::
  "'w analyst_run_env \<Rightarrow> 'w bus_env \<Rightarrow> 'w bus \<Rightarrow> (props \<Rightarrow> string) \<Rightarrow> props \<Rightarrow> string option \<Rightarrow> ('w, unit) step" where
  "on_candidates_ready env benv b vtext event run_id =
     step_bind (\<lambda>w. (w, claim_check_read vtext (ge_port env) w event)) (\<lambda>node.
     step_bind (step_res (res_bind (prop_at (gn_props node) ''candidates'') (an_candidates env))) (\<lambda>cs.
     step_bind (analyze_request env benv b cs) (\<lambda>result w.
       step_forget (\<lambda>w. claim_check_write b (ge_port env) (ge_wall env) w ''analysis.recommendations.ready''
         ''RecommendationResult''
         (''analysis:'' @ (case run_id of None \<Rightarrow> ag_hex env w | Some r \<Rightarrow> if r = [] then ag_hex env w else r))
         [(''recommendations'', analyst_result_json result)] run_id) w)))"

end
