(* ===== verification/ScanAccounts.thy ===== *)
theory ScanAccounts
  imports ScanRun "HOL-Library.Multiset"
begin

text \<open>
  What a scan promises: a verdict for every ticker with the drops counted (\<open>scan_accounts\<close>), exactly
  the tickers that clear every gate surviving (\<open>survivors_clear_the_gates\<close>), and the best of the
  survivors as candidates, whatever the order of the universe (\<open>candidates_are_the_best\<close>).
\<close>

section \<open>Grouping the bars\<close>

lemma bars_of_fold:
  "bars_of (fold (\<lambda>b d. dict_set (bar_ticker b) (bars_of d (bar_ticker b) @ [b]) d) bars d) ticker
   = bars_of d ticker @ filter (\<lambda>b. bar_ticker b = ticker) bars"
  by (induction bars arbitrary: d) (auto simp: bars_of_def dict_simps)

lemma bars_of_group_bars: "bars_of (group_bars bars) ticker = filter (\<lambda>b. bar_ticker b = ticker) bars"
  using bars_of_fold [of bars "[]" ticker] by (simp add: group_bars_def bars_of_def)

definition own_bars :: "ohlcv_bar list \<Rightarrow> string \<Rightarrow> ohlcv_bar list" where
  "own_bars bars ticker = sort_key bar_date (filter (\<lambda>b. bar_ticker b = ticker) bars)"

lemma own_bars_ticker: "b \<in> set (own_bars bars ticker) \<Longrightarrow> bar_ticker b = ticker"
  by (simp add: own_bars_def)

section \<open>One ticker\<close>

definition verdict_of ::
  "(string, ohlcv_bar list) dict \<Rightarrow> ohlcv_bar list \<Rightarrow> (string, int) dict \<Rightarrow> int \<Rightarrow> scanner_settings \<Rightarrow> int option
   \<Rightarrow> string \<Rightarrow> filter_verdict" where
  "verdict_of grouped benchmark earnings as_of st horizon ticker =
     hd (tal_verdicts (judge_ticker grouped benchmark earnings as_of st horizon ticker empty_tally))"

definition survivors_of ::
  "(string, ohlcv_bar list) dict \<Rightarrow> ohlcv_bar list \<Rightarrow> (string, int) dict \<Rightarrow> int \<Rightarrow> scanner_settings \<Rightarrow> int option
   \<Rightarrow> string \<Rightarrow> survivor list" where
  "survivors_of grouped benchmark earnings as_of st horizon ticker =
     tal_survivors (judge_ticker grouped benchmark earnings as_of st horizon ticker empty_tally)"

lemmas judge_defs = judge_ticker_def verdict_of_def survivors_of_def empty_tally_def add_verdict_def
  add_survivor_def count_drop_def Let_def

lemma judge_verdicts:
  "tal_verdicts (judge_ticker g bm er as_of st hz ticker t) = tal_verdicts t @ [verdict_of g bm er as_of st hz ticker]"
  by (simp add: judge_defs split: prod.split option.split)

lemma judge_survivors:
  "tal_survivors (judge_ticker g bm er as_of st hz ticker t) = tal_survivors t @ survivors_of g bm er as_of st hz ticker"
  by (simp add: judge_defs split: prod.split option.split)

definition drops_at :: "(string, nat) dict \<Rightarrow> string \<Rightarrow> nat" where
  "drops_at d gate = (case dict_get d gate of None \<Rightarrow> 0 | Some n \<Rightarrow> n)"

lemma drops_at_count:
  "drops_at (tal_drops (count_drop g t)) gate = drops_at (tal_drops t) gate + (if g = gate then 1 else 0)"
  by (auto simp: drops_at_def count_drop_def dict_simps)

lemma drops_at_add:
  "drops_at (tal_drops (add_verdict v t)) gate = drops_at (tal_drops t) gate"
  "drops_at (tal_drops (add_survivor s t)) gate = drops_at (tal_drops t) gate"
  by (simp_all add: add_verdict_def add_survivor_def)

lemma hd_add_verdict:
  "hd (tal_verdicts (add_verdict v empty_tally)) = v" "hd (tal_verdicts (add_verdict v (count_drop g empty_tally))) = v"
  "tal_verdicts (add_survivor s t) = tal_verdicts t"
  by (simp_all add: add_verdict_def empty_tally_def count_drop_def add_survivor_def)

lemma judge_drops:
  "drops_at (tal_drops (judge_ticker g bm er as_of st hz ticker t)) gate
   = drops_at (tal_drops t) gate + (if fv_fired (verdict_of g bm er as_of st hz ticker) = Some gate then 1 else 0)"
  unfolding judge_ticker_def verdict_of_def Let_def
  by (simp add: drops_at_count drops_at_add hd_add_verdict split: prod.split option.split)

lemma verdict_of_ticker [simp]: "fv_ticker (verdict_of g bm er as_of st hz ticker) = ticker"
  by (simp add: judge_defs split: prod.split option.split)

definition verdict_consistent :: "scanner_settings \<Rightarrow> filter_verdict \<Rightarrow> bool" where
  "verdict_consistent st v \<longleftrightarrow>
     (fv_decision v = Survived) = (fv_fired v = None)
     \<and> fv_bypassed v = (sst_bypass_filter st \<and> fv_fired v \<noteq> None \<and> fv_fired v \<noteq> Some ''missing_history'')"

definition goes_on :: "filter_verdict \<Rightarrow> bool" where
  "goes_on v \<longleftrightarrow> fv_decision v = Survived \<or> fv_bypassed v"

lemma evaluate_filters_fired:
  "evaluate_filters f st hz = (Some gate, passed, skipped) \<Longrightarrow> gate \<noteq> ''missing_history''"
  by (auto simp: evaluate_filters_def beta_gate_def earnings_gate_def Let_def split: if_splits option.splits)

lemma verdict_of_consistent: "verdict_consistent st (verdict_of g bm er as_of st hz ticker)"
  unfolding judge_ticker_def verdict_of_def Let_def verdict_consistent_def
  by (auto simp: hd_add_verdict dest: evaluate_filters_fired split: prod.split option.split)

definition survivor_matches :: "filter_verdict \<Rightarrow> survivor \<Rightarrow> bool" where
  "survivor_matches v s \<longleftrightarrow>
     sv_ticker s = fv_ticker v \<and> sv_skipped s = fv_skipped v \<and> sv_metrics s = fv_features v"

lemma survivors_of_verdict:
  "list_all2 survivor_matches
     (filter goes_on [verdict_of g bm er as_of st hz ticker]) (survivors_of g bm er as_of st hz ticker)"
  by (auto simp: judge_defs goes_on_def survivor_matches_def split: prod.split option.split)

section \<open>The whole universe\<close>

lemma fold_judge:
  assumes "t = fold (judge_ticker g bm er as_of st hz) tickers empty_tally"
  shows "tal_verdicts t = map (verdict_of g bm er as_of st hz) tickers"
    and "tal_survivors t = concat (map (survivors_of g bm er as_of st hz) tickers)"
    and "drops_at (tal_drops t) gate = length (filter (\<lambda>v. fv_fired v = Some gate) (tal_verdicts t))"
proof -
  have "tal_verdicts t = map (verdict_of g bm er as_of st hz) tickers
    \<and> tal_survivors t = concat (map (survivors_of g bm er as_of st hz) tickers)
    \<and> drops_at (tal_drops t) gate = length (filter (\<lambda>v. fv_fired v = Some gate) (tal_verdicts t))"
    unfolding assms
    by (induction tickers rule: rev_induct)
      (simp_all add: judge_verdicts judge_survivors judge_drops, simp_all add: empty_tally_def drops_at_def)
  then show "tal_verdicts t = map (verdict_of g bm er as_of st hz) tickers"
    and "tal_survivors t = concat (map (survivors_of g bm er as_of st hz) tickers)"
    and "drops_at (tal_drops t) gate = length (filter (\<lambda>v. fv_fired v = Some gate) (tal_verdicts t))"
    by blast+
qed

lemma apply_filters_trace:
  "apply_filters tickers bars bm er as_of st hz
   = (concat (map (survivors_of (group_bars bars) bm er as_of st hz) tickers),
      \<lparr>ftr_universe_size = length tickers, ftr_evaluated = length tickers,
       ftr_dropped = tal_drops (fold (judge_ticker (group_bars bars) bm er as_of st hz) tickers empty_tally),
       ftr_verdicts = map (verdict_of (group_bars bars) bm er as_of st hz) tickers\<rparr>)"
  by (simp add: apply_filters_def Let_def fold_judge(1,2) [OF refl])

lemma survivors_match:
  "list_all2 survivor_matches (filter goes_on (map (verdict_of g bm er as_of st hz) tickers))
     (concat (map (survivors_of g bm er as_of st hz) tickers))"
proof (induction tickers)
  case (Cons ticker tickers)
  have "list_all2 survivor_matches
      (filter goes_on [verdict_of g bm er as_of st hz ticker] @ filter goes_on (map (verdict_of g bm er as_of st hz) tickers))
      (survivors_of g bm er as_of st hz ticker @ concat (map (survivors_of g bm er as_of st hz) tickers))"
    by (rule list_all2_appendI [OF survivors_of_verdict Cons.IH])
  then show ?case by (simp split: if_splits)
qed simp

text \<open>
  C37. A scan judges every ticker of its universe once, in order; the drops recorded for a gate are the
  verdicts that gate fired; and the survivors are, one by one and with the same gaps and features, the
  tickers that survived or that the bypass kept, which it never does to one without history.
\<close>

theorem scan_accounts:
  assumes "apply_filters tickers bars benchmark earnings as_of st horizon = (survivors, trace)"
  shows "map fv_ticker (ftr_verdicts trace) = tickers \<and> ftr_evaluated trace = length tickers
    \<and> (\<forall>gate. drops_at (ftr_dropped trace) gate = length (filter (\<lambda>v. fv_fired v = Some gate) (ftr_verdicts trace)))
    \<and> list_all2 survivor_matches (filter goes_on (ftr_verdicts trace)) survivors
    \<and> list_all (verdict_consistent st) (ftr_verdicts trace)"
proof -
  define g where "g = group_bars bars"
  have eqs: "survivors = concat (map (survivors_of g benchmark earnings as_of st horizon) tickers)"
    "ftr_verdicts trace = map (verdict_of g benchmark earnings as_of st horizon) tickers"
    "ftr_evaluated trace = length tickers"
    "ftr_dropped trace = tal_drops (fold (judge_ticker g benchmark earnings as_of st horizon) tickers empty_tally)"
    using assms by (auto simp: apply_filters_trace g_def)
  show ?thesis
    using fold_judge(1,3) [OF refl, of g benchmark earnings as_of st horizon tickers]
    by (simp add: eqs survivors_match list_all_iff verdict_of_consistent comp_def)
qed

text \<open>A concrete scan: two good tickers, one without history.\<close>

definition sample_bar :: "string \<Rightarrow> int \<Rightarrow> rat \<Rightarrow> ohlcv_bar" where
  "sample_bar ticker day close =
     \<lparr>bar_ticker = ticker, bar_date = day, bar_open = close, bar_high = close, bar_low = close, bar_close = close,
      bar_volume = 1000\<rparr>"

definition sample_scanner_settings :: scanner_settings where
  "sample_scanner_settings =
     \<lparr>sst_lookback_days = 60, sst_min_relative_strength = 0, sst_min_price = 5, sst_min_average_volume = 100,
      sst_candidate_cap = 1, sst_benchmark_ticker = ''SPY'', sst_max_beta = 2, sst_beta_min_observations = 20,
      sst_earnings_exclusion_days = 5, sst_bypass_filter = False\<rparr>"

definition sample_bars :: "ohlcv_bar list" where
  "sample_bars = [sample_bar ''AB'' 2 11, sample_bar ''CD'' 1 20, sample_bar ''AB'' 1 10, sample_bar ''CD'' 2 21, sample_bar ''E'' 1 7]"

lemmas sample_scan_defs = sample_bars_def sample_bar_def sample_scanner_settings_def

lemma scan_accounts_witness:
  "map fv_ticker (ftr_verdicts (snd (apply_filters [''AB'', ''CD'', ''E''] sample_bars [] [] 0 sample_scanner_settings None)))
   = [''AB'', ''CD'', ''E'']"
  using scan_accounts [of "[''AB'', ''CD'', ''E'']" sample_bars "[]" "[]" 0 sample_scanner_settings None, OF surjective_pairing]
  by blast

section \<open>Who survives\<close>

definition clears_gates ::
  "ohlcv_bar list \<Rightarrow> ohlcv_bar list \<Rightarrow> (string, int) dict \<Rightarrow> int \<Rightarrow> scanner_settings \<Rightarrow> string \<Rightarrow> bool" where
  "clears_gates bars benchmark earnings as_of st ticker \<longleftrightarrow>
     (let own = own_bars bars ticker; n = length own
      in 2 \<le> n
         \<and> sst_min_price st \<le> bar_close (last own)
         \<and> sst_min_average_volume st \<le> of_int (sum_list (map bar_volume own)) / of_nat n
         \<and> sst_min_relative_strength st \<le> (bar_close (last own) - bar_close (hd own)) / bar_close (hd own)
         \<and> (case compute_beta own benchmark (sst_beta_min_observations st) of None \<Rightarrow> True | Some b \<Rightarrow> b \<le> sst_max_beta st)
         \<and> (case dict_get earnings ticker of None \<Rightarrow> True
            | Some day \<Rightarrow> day < as_of \<or> as_of + sst_earnings_exclusion_days st < day))"

definition scan_gates :: "string list" where
  "scan_gates = [''min_price'', ''min_average_volume'', ''min_relative_strength'', ''max_beta'', ''earnings_window'']"

lemma features_core:
  "feature (features_of bars bm er as_of st) ''latest_close'' = bar_close (last bars)"
  "feature (features_of bars bm er as_of st) ''average_volume''
   = of_int (sum_list (map bar_volume bars)) / of_nat (length bars)"
  "feature (features_of bars bm er as_of st) ''relative_strength''
   = (bar_close (last bars) - bar_close (hd bars)) / bar_close (hd bars)"
  "dict_get (features_of bars bm er as_of st) ''beta'' = compute_beta bars bm (sst_beta_min_observations st)"
  "dict_get (features_of bars bm er as_of st) ''days_to_earnings''
   = map_option (\<lambda>day. of_int (day - as_of)) (dict_get er (bar_ticker (hd bars)))"
  by (simp_all add: features_of_def feature_def days_to_earnings_def Let_def option.map_comp split: option.split)

lemma fired_iff:
  "fst (evaluate_filters f st hz) = None \<longleftrightarrow>
     sst_min_price st \<le> feature f ''latest_close''
     \<and> sst_min_average_volume st \<le> feature f ''average_volume''
     \<and> sst_min_relative_strength st \<le> feature f ''relative_strength''
     \<and> (case dict_get f ''beta'' of None \<Rightarrow> True | Some b \<Rightarrow> b \<le> sst_max_beta st)
     \<and> (case dict_get f ''days_to_earnings'' of None \<Rightarrow> True
        | Some d \<Rightarrow> d < 0 \<or> of_int (sst_earnings_exclusion_days st) < d)"
  by (auto simp: evaluate_filters_def beta_gate_def earnings_gate_def Let_def split: option.split)

lemma passed_partition:
  "evaluate_filters f st hz = (None, passed, skipped) \<Longrightarrow> mset (passed @ skipped) = mset scan_gates"
  by (auto simp: evaluate_filters_def beta_gate_def earnings_gate_def Let_def scan_gates_def
      split: if_splits option.splits)

lemma earnings_days:
  "of_int n < (rat_of_int day - rat_of_int as_of) \<longleftrightarrow> as_of + n < day" "n < day - as_of \<longleftrightarrow> as_of + n < day"
  for n day as_of :: int
proof -
  have "rat_of_int day - rat_of_int as_of = of_int (day - as_of)"
    by simp
  then show "of_int n < (rat_of_int day - rat_of_int as_of) \<longleftrightarrow> as_of + n < day"
    by (metis of_int_less_iff less_diff_eq add.commute)
qed linarith

lemma features_clear:
  assumes "2 \<le> length (own_bars bars ticker)"
  shows "fst (evaluate_filters (features_of (own_bars bars ticker) bm er as_of st) st hz) = None
    \<longleftrightarrow> clears_gates bars bm er as_of st ticker"
proof -
  have "hd (own_bars bars ticker) \<in> set (own_bars bars ticker)"
    using assms by (cases "own_bars bars ticker") auto
  then have "bar_ticker (hd (own_bars bars ticker)) = ticker"
    by (rule own_bars_ticker)
  then show ?thesis
    using assms
    by (simp add: fired_iff features_core clears_gates_def Let_def earnings_days split: option.split)
qed

lemma survivors_of_clear:
  assumes "\<not> sst_bypass_filter st"
  shows "map sv_ticker (survivors_of (group_bars bars) bm er as_of st hz ticker)
      = (if clears_gates bars bm er as_of st ticker then [ticker] else [])"
    and "\<forall>s\<in>set (survivors_of (group_bars bars) bm er as_of st hz ticker).
      mset (sv_survived s @ sv_skipped s) = mset scan_gates"
proof -
  define own where "own = own_bars bars ticker"
  obtain fired passed skipped where e: "evaluate_filters (features_of own bm er as_of st) st hz = (fired, passed, skipped)"
    using prod_cases3 by blast
  have eq: "survivors_of (group_bars bars) bm er as_of st hz ticker
      = (if 2 \<le> length own \<and> fired = None
         then [\<lparr>sv_ticker = ticker, sv_survived = passed, sv_skipped = skipped, sv_metrics = features_of own bm er as_of st\<rparr>]
         else [])"
    using assms e
    by (simp add: judge_defs bars_of_group_bars own_def [unfolded own_bars_def, symmetric] split: option.split)
  have clear: "2 \<le> length own \<and> fired = None \<longleftrightarrow> clears_gates bars bm er as_of st ticker"
    using features_clear [of bars ticker bm er as_of st hz] e
    by (auto simp: own_def clears_gates_def Let_def)
  show "map sv_ticker (survivors_of (group_bars bars) bm er as_of st hz ticker)
      = (if clears_gates bars bm er as_of st ticker then [ticker] else [])"
    by (simp add: eq clear [symmetric])
  show "\<forall>s\<in>set (survivors_of (group_bars bars) bm er as_of st hz ticker).
      mset (sv_survived s @ sv_skipped s) = mset scan_gates"
    using passed_partition [of "features_of own bm er as_of st" st hz passed skipped] e by (auto simp: eq)
qed

text \<open>
  C12. Without the bypass, the survivors of a scan are exactly the tickers that clear every gate on their
  own bars: two bars of history, the price of the last, the average volume, the return over the window,
  and, where they are known, the beta and an earnings date outside the exclusion window.  What each was
  checked for and what could not be checked are together the five gates.
\<close>

theorem survivors_clear_the_gates:
  assumes "apply_filters tickers bars benchmark earnings as_of st horizon = (survivors, trace)"
    and "\<not> sst_bypass_filter st"
  shows "map sv_ticker survivors = filter (clears_gates bars benchmark earnings as_of st) tickers
    \<and> (\<forall>s\<in>set survivors. mset (sv_survived s @ sv_skipped s) = mset scan_gates)"
proof -
  have eq: "survivors = concat (map (survivors_of (group_bars bars) benchmark earnings as_of st horizon) tickers)"
    using assms(1) by (auto simp: apply_filters_trace)
  have "map sv_ticker survivors = filter (clears_gates bars benchmark earnings as_of st) tickers"
    unfolding eq by (induction tickers) (simp_all add: survivors_of_clear(1) [OF assms(2)])
  then show ?thesis
    using survivors_of_clear(2) [OF assms(2)] by (auto simp: eq)
qed

lemma survivors_clear_the_gates_witness:
  "map sv_ticker (fst (apply_filters [''AB'', ''CD'', ''E''] sample_bars [] [] 0 sample_scanner_settings None))
   = filter (clears_gates sample_bars [] [] 0 sample_scanner_settings) [''AB'', ''CD'', ''E'']"
  using survivors_clear_the_gates
    [of "[''AB'', ''CD'', ''E'']" sample_bars "[]" "[]" 0 sample_scanner_settings None, OF surjective_pairing]
  by (simp add: sample_scanner_settings_def)

section \<open>The ranking\<close>

definition ranks_before :: "survivor \<Rightarrow> survivor \<Rightarrow> bool" where
  "ranks_before a b \<longleftrightarrow>
     (let rs = \<lambda>s. feature (sv_metrics s) ''relative_strength''; vol = \<lambda>s. feature (sv_metrics s) ''average_volume''
      in rs b < rs a \<or> rs b = rs a \<and> (vol b < vol a \<or> vol b = vol a \<and> sv_ticker a < sv_ticker b))"

lemma ranks_before_iff: "ranks_before a b \<longleftrightarrow> survivor_key a < survivor_key b"
  by (auto simp: ranks_before_def survivor_key_def less_prod_def Let_def)

lemma survivor_key_inj: "distinct (map sv_ticker xs) \<Longrightarrow> inj_on survivor_key (set xs)"
  by (auto simp: survivor_key_def distinct_map inj_on_def)

lemma sorted_before:
  assumes "distinct (map sv_ticker xs)"
  shows "sorted_wrt ranks_before (sort_key survivor_key xs)"
proof -
  let ?s = "sort_key survivor_key xs"
  have "distinct (map survivor_key ?s)"
    using survivor_key_inj [OF assms] assms by (simp add: distinct_map)
  moreover have "sorted (map survivor_key ?s)"
    by simp
  ultimately have "sorted_wrt (<) (map survivor_key ?s)"
    by (simp only: strict_sorted_iff)
  then show ?thesis
    by (simp add: sorted_wrt_map ranks_before_iff [abs_def])
qed

lemma sort_key_order_free:
  assumes "distinct (map sv_ticker xs)" and "mset ys = mset xs"
  shows "sort_key survivor_key ys = sort_key survivor_key xs"
proof (rule map_sorted_distinct_set_unique [of survivor_key])
  have set: "set ys = set xs"
    using assms(2) by (rule mset_eq_setD)
  have dist: "distinct ys"
    using mset_eq_imp_distinct_iff [OF assms(2)] assms(1) by (simp add: distinct_map)
  show "inj_on survivor_key (set (sort_key survivor_key ys) \<union> set (sort_key survivor_key xs))"
    using survivor_key_inj [OF assms(1)] by (simp add: set)
  show "distinct (map survivor_key (sort_key survivor_key ys))"
    using survivor_key_inj [OF assms(1)] dist by (simp add: distinct_map set)
  show "distinct (map survivor_key (sort_key survivor_key xs))"
    using survivor_key_inj [OF assms(1)] assms(1) by (simp add: distinct_map)
  show "set (sort_key survivor_key ys) = set (sort_key survivor_key xs)"
    by (simp add: set)
qed simp_all

lemma take_before:
  assumes "sorted_wrt P xs" "a \<in> set (take n xs)" "b \<in> set xs" "b \<notin> set (take n xs)"
  shows "P a b"
  using assms by (metis append_take_drop_id in_set_conv_decomp set_append sorted_wrt_append Un_iff)

lemma survivors_of_ticker: "s \<in> set (survivors_of g bm er as_of st hz ticker) \<Longrightarrow> sv_ticker s = ticker"
  by (auto simp: judge_defs split: prod.splits option.splits if_splits)

lemma survivors_of_short: "length (survivors_of g bm er as_of st hz ticker) \<le> 1"
  by (auto simp: judge_defs split: prod.splits option.splits if_splits)

lemma survivors_distinct:
  "distinct tickers \<Longrightarrow> distinct (map sv_ticker (concat (map (survivors_of g bm er as_of st hz) tickers)))"
proof (induction tickers)
  case (Cons ticker tickers)
  have "distinct (map sv_ticker (survivors_of g bm er as_of st hz ticker))"
    using survivors_of_short [of g bm er as_of st hz ticker] by (cases "survivors_of g bm er as_of st hz ticker") auto
  then show ?case
    using Cons by auto (metis survivors_of_ticker)
qed simp

lemma survivors_mset:
  "mset (concat (map f xs)) = sum_mset (image_mset (\<lambda>x. mset (f x)) (mset xs))"
  by (induction xs) simp_all

text \<open>
  C38. The candidates of a scan of distinct tickers are the best survivors, at most the cap, ranked from 1
  in strict order of relative strength, then average volume, then ticker, with no survivor left out that
  ranks before one taken; and the order in which the universe lists the tickers does not change them.
\<close>

theorem candidates_are_the_best:
  assumes "apply_filters tickers bars benchmark earnings as_of st horizon = (survivors, trace)"
    and "distinct tickers" and "mset tickers' = mset tickers"
  shows "(\<exists>best. rank_survivors survivors cap = map2 candidate_of [1..<length best + 1] best
      \<and> length best = min cap (length survivors) \<and> set best \<subseteq> set survivors \<and> sorted_wrt ranks_before best
      \<and> (\<forall>b\<in>set best. \<forall>s\<in>set survivors - set best. ranks_before b s))
    \<and> rank_survivors (fst (apply_filters tickers' bars benchmark earnings as_of st horizon)) cap
      = rank_survivors survivors cap"
proof -
  let ?f = "survivors_of (group_bars bars) benchmark earnings as_of st horizon"
  have eq: "survivors = concat (map ?f tickers)"
    using assms(1) by (auto simp: apply_filters_trace)
  have dist: "distinct (map sv_ticker survivors)"
    unfolding eq by (rule survivors_distinct [OF assms(2)])
  define best where "best = take cap (sort_key survivor_key survivors)"
  have sorted: "sorted_wrt ranks_before (sort_key survivor_key survivors)"
    by (rule sorted_before [OF dist])
  have "rank_survivors survivors cap = map2 candidate_of [1..<length best + 1] best"
    by (simp add: rank_survivors_def best_def Let_def)
  moreover have "length best = min cap (length survivors)"
    by (simp add: best_def)
  moreover have "set best \<subseteq> set survivors"
    unfolding best_def using set_take_subset by fastforce
  moreover have "sorted_wrt ranks_before best"
    unfolding best_def using sorted by (rule sorted_wrt_take)
  moreover have "\<forall>b\<in>set best. \<forall>s\<in>set survivors - set best. ranks_before b s"
    unfolding best_def using take_before [OF sorted] by fastforce
  moreover have "rank_survivors (concat (map ?f tickers')) cap = rank_survivors survivors cap"
    using sort_key_order_free [OF dist, of "concat (map ?f tickers')"]
    by (simp add: rank_survivors_def eq survivors_mset assms(3))
  ultimately show ?thesis
    unfolding apply_filters_trace fst_conv by blast
qed

lemma candidates_are_the_best_witness:
  "rank_survivors (fst (apply_filters [''CD'', ''AB''] sample_bars [] [] 0 sample_scanner_settings None)) 1
   = rank_survivors (fst (apply_filters [''AB'', ''CD''] sample_bars [] [] 0 sample_scanner_settings None)) 1"
  using candidates_are_the_best
    [of "[''AB'', ''CD'']" sample_bars "[]" "[]" 0 sample_scanner_settings None _ _ "[''CD'', ''AB'']" 1, OF surjective_pairing]
  by simp

end
