(* ===== verification/AnalystSafety.thy ===== *)
theory AnalystSafety
  imports AnalystRun ScanAccounts
begin

text \<open>
  What an analysis promises: every candidate is decided or its missing bars are faulted, and a decision
  fits what is held, what is breached and how confident the score is (\<open>analysis_decides_candidates\<close>);
  the confidence is a weighted mean of pillars between 0 and 1 on the configured span
  (\<open>confidence_banded\<close>); an excursion above the payload bound ends the batch
  (\<open>excursion_above_bound_ends_batch\<close>).
\<close>

section \<open>One decision\<close>

definition stop_within :: "analyst_settings \<Rightarrow> stop_target_record \<Rightarrow> bool" where
  "stop_within st e \<longleftrightarrow>
     stop_target_valid e
     \<and> (ste_mode e = Scaled \<and> ste_volatility_present e \<longrightarrow>
          min (as_scaled_stop_floor_pct st) (as_scaled_stop_ceiling_pct st) \<le> ste_applied_stop_pct e
          \<and> ste_applied_stop_pct e \<le> as_scaled_stop_ceiling_pct st)"

definition buy_sound ::
  "market_regime \<Rightarrow> analyst_settings \<Rightarrow> score_breakdown \<Rightarrow> analyst_recommendation \<Rightarrow> bool" where
  "buy_sound regime st score r \<longleftrightarrow>
     rec_action r = BuyAction \<and> scb_rejection_reason score = None
     \<and> rg_min_confidence regime \<le> rec_confidence r \<and> arc_exit_trigger r = None
     \<and> (\<exists>e. arc_stop_target r = Some e \<and> stop_within st e
          \<and> rec_stop_pct r = Some (ste_applied_stop_pct e) \<and> rec_target_pct r = Some (ste_applied_target_pct e))"

definition held_sound ::
  "analyst_settings \<Rightarrow> bool \<Rightarrow> score_breakdown \<Rightarrow> analyst_recommendation \<Rightarrow> bool" where
  "held_sound st breached score r \<longleftrightarrow>
     (let leaves = rec_confidence r < as_exit_confidence_floor st
      in rec_action r = (if breached \<or> leaves then SellAction else HoldAction)
         \<and> arc_exit_trigger r = (if breached then Some StopExit else if leaves then Some ThesisExit else None)
         \<and> (\<not> breached \<longrightarrow> scb_rejection_reason score = None)
         \<and> rec_stop_pct r = None \<and> rec_target_pct r = None)"

definition rejection_sound ::
  "market_regime \<Rightarrow> bool \<Rightarrow> bool \<Rightarrow> score_breakdown \<Rightarrow> string \<Rightarrow> bool" where
  "rejection_sound regime held breached score reason \<longleftrightarrow>
     \<not> (held \<and> breached)
     \<and> (scb_rejection_reason score = Some reason
        \<or> \<not> held \<and> scb_rejection_reason score = None
          \<and> (scb_confidence score < rg_min_confidence regime
             \<or> reason = ''target_estimate_unavailable'' \<and> measured_target (scb_metrics score) = None))"

definition decision_sound ::
  "market_regime \<Rightarrow> analyst_settings \<Rightarrow> bool \<Rightarrow> bool \<Rightarrow> string \<Rightarrow> score_breakdown \<Rightarrow> analyst_decision \<Rightarrow> bool" where
  "decision_sound regime st held breached ticker score d \<longleftrightarrow>
     (case (dec_recommendation d, dec_rejection d) of
        (Some r, None) \<Rightarrow>
          rec_ticker r = ticker \<and> rec_confidence r = scb_confidence score \<and> recommendation_valid r
          \<and> (if held then held_sound st breached score r else buy_sound regime st score r)
      | (None, Some j) \<Rightarrow> arj_ticker j = ticker \<and> rejection_sound regime held breached score (arj_reason j)
      | _ \<Rightarrow> False)"

lemma validated_Inr: "validated ok vtext x = Inr y \<longleftrightarrow> ok x \<and> y = x"
  by (auto simp: validated_def)

lemma recommended_Inr:
  "recommended texts reading r = Inr d \<longleftrightarrow>
     recommendation_valid r \<and> d = \<lparr>dec_recommendation = Some r, dec_rejection = None, dec_reading = reading\<rparr>"
  by (auto simp: recommended_def res_bind_Inr_iff validated_Inr)

lemma decision_sound_recommended:
  assumes "recommended texts reading r = Inr d" "rec_ticker r = ticker" "rec_confidence r = scb_confidence score"
    and "if held then held_sound st breached score r else buy_sound regime st score r"
  shows "decision_sound regime st held breached ticker score d"
  using assms by (auto simp: recommended_Inr decision_sound_def)

lemma decision_sound_rejected:
  "rejection_sound regime held breached score reason
   \<Longrightarrow> decision_sound regime st held breached ticker score (rejected_for reading ticker reason)"
  by (simp add: decision_sound_def rejected_for_def)

lemma build_recommendation_fields:
  "rec_ticker (build_recommendation t s a x g p) = t" "rec_confidence (build_recommendation t s a x g p) = scb_confidence s"
  "rec_action (build_recommendation t s a x g p) = a" "arc_exit_trigger (build_recommendation t s a x g p) = g"
  "rec_stop_pct (build_recommendation t s a x g p) = map_option ste_applied_stop_pct p"
  "rec_target_pct (build_recommendation t s a x g p) = map_option ste_applied_target_pct p"
  "arc_stop_target (build_recommendation t s a x g p) = p"
  by (simp_all add: build_recommendation_def)

lemma scaled_stop_banded:
  "min (as_scaled_stop_floor_pct st) (as_scaled_stop_ceiling_pct st) \<le> scaled_stop flat_stop (Some a) st
   \<and> scaled_stop flat_stop (Some a) st \<le> as_scaled_stop_ceiling_pct st"
  by (auto simp: scaled_stop_def)

lemma resolved_within:
  assumes "resolve_stop_target vtext regime d st = Inr (Some e)"
  shows "stop_within st e"
proof -
  obtain flat_target target where
    "validated stop_target_valid vtext
       (stop_target_of (as_stop_target_mode st) d (usable_atr d) (rc_base_stop_loss_pct regime) flat_target
          (scaled_stop (rc_base_stop_loss_pct regime) (usable_atr d) st) target) = Inr e"
    using assms by (auto simp: resolve_stop_target_def Let_def res_bind_Inr_iff split: option.splits)
  then have e: "stop_target_valid e" "e = stop_target_of (as_stop_target_mode st) d (usable_atr d)
      (rc_base_stop_loss_pct regime) flat_target (scaled_stop (rc_base_stop_loss_pct regime) (usable_atr d) st) target"
    by (auto simp: validated_Inr)
  then have "ste_mode e = Scaled \<Longrightarrow> ste_volatility_present e \<Longrightarrow>
      (\<exists>a. ste_applied_stop_pct e = scaled_stop (rc_base_stop_loss_pct regime) (Some a) st)"
    by (auto simp: stop_target_of_def Let_def)
  then show ?thesis
    using e(1) scaled_stop_banded [of st "rc_base_stop_loss_pct regime"] unfolding stop_within_def by metis
qed

lemma unresolved_unmeasured:
  "resolve_stop_target vtext regime d st = Inr None \<Longrightarrow> measured_target d = None"
  by (auto simp: resolve_stop_target_def Let_def res_bind_Inr_iff targets_of_def split: option.splits if_splits)

lemma held_recommendation_sound:
  assumes "recommended texts reading (held_recommendation ticker score action x trigger) = Inr d" and "held"
    and "action = (if breached \<or> scb_confidence score < as_exit_confidence_floor st then SellAction else HoldAction)"
    and "trigger = (if breached then Some StopExit
      else if scb_confidence score < as_exit_confidence_floor st then Some ThesisExit else None)"
    and "\<not> breached \<longrightarrow> scb_rejection_reason score = None"
  shows "decision_sound regime st held breached ticker score d"
  using assms(2-)
  by (intro decision_sound_recommended [OF assms(1)])
    (auto simp: held_recommendation_def build_recommendation_fields held_sound_def Let_def)

lemma decide_sound:
  assumes "decide texts ticker score regime held (as_exit_confidence_floor st) breached st = Inr d"
  shows "decision_sound regime st held breached ticker score d"
proof -
  define reading where "reading = lexicon_reading ticker (scb_sentiment_score score) (scb_metrics score)"
  note d = assms [unfolded decide_def Let_def, folded reading_def]
  consider (stop) "held" "breached" | (scored) reason where "\<not> (held \<and> breached)" "scb_rejection_reason score = Some reason"
    | (keep) "held" "\<not> breached" "scb_rejection_reason score = None"
    | (low) "\<not> held" "scb_rejection_reason score = None" "scb_confidence score < rg_min_confidence regime"
    | (buy) "\<not> held" "scb_rejection_reason score = None" "\<not> scb_confidence score < rg_min_confidence regime"
    by (cases "scb_rejection_reason score") auto
  then show ?thesis
  proof cases
    case stop
    then show ?thesis using d by (auto intro!: held_recommendation_sound)
  next
    case scored
    then show ?thesis using d by (auto intro!: decision_sound_rejected simp: rejection_sound_def split: if_splits)
  next
    case keep
    have "recommended texts reading (held_recommendation ticker score
        (if scb_confidence score < as_exit_confidence_floor st then SellAction else HoldAction)
        (as_exit_confidence_floor st)
        (if scb_confidence score < as_exit_confidence_floor st then Some ThesisExit else None)) = Inr d"
      using d keep by simp
    then show ?thesis
      by (rule held_recommendation_sound) (use keep in simp_all)
  next
    case low
    then show ?thesis using d by (auto intro!: decision_sound_rejected simp: rejection_sound_def)
  next
    case buy
    then obtain proposal where p: "resolve_stop_target (at_stop_target texts) regime (scb_metrics score) st = Inr proposal"
      and rest: "(case proposal of None \<Rightarrow> Inr (rejected_for reading ticker ''target_estimate_unavailable'')
        | Some e \<Rightarrow> recommended texts reading (build_recommendation ticker score BuyAction
            (buy_rationale ticker score (rg_label regime) st) None (Some e))) = Inr d"
      using d by (auto simp: res_bind_Inr_iff)
    show ?thesis
    proof (cases proposal)
      case None
      then show ?thesis
        using rest p buy by (auto intro!: decision_sound_rejected simp: rejection_sound_def dest: unresolved_unmeasured)
    next
      case (Some e)
      have "stop_within st e" using p Some by (auto intro: resolved_within)
      then show ?thesis
        using rest Some buy
        by (auto intro!: decision_sound_recommended simp: build_recommendation_fields buy_sound_def)
    qed
  qed
qed

section \<open>The batch\<close>

definition unpriced_held :: "market_snapshot \<Rightarrow> string list \<Rightarrow> candidate \<Rightarrow> bool" where
  "unpriced_held market held c \<longleftrightarrow>
     cand_ticker c \<in> set held \<and> (\<forall>b\<in>set (mkt_bars market). bar_ticker b \<noteq> cand_ticker c)"

definition score_for ::
  "('w, 'x) analyst_env_scheme \<Rightarrow> candidate_set \<Rightarrow> market_snapshot \<Rightarrow> candidate \<Rightarrow> score_breakdown res" where
  "score_for env cs market c =
     (let bars = group_bars (mkt_bars market); ticker = cand_ticker c
      in score_candidate (an_math env) (an_sentiment env) c (bars_of bars ticker)
           (case dict_get (mkt_fundamentals market) ticker of None \<Rightarrow> [] | Some d \<Rightarrow> d) (mkt_benchmark market)
           (case dict_get (mkt_news market) ticker of None \<Rightarrow> [] | Some hs \<Rightarrow> hs) (an_settings env)
           (Some (batch_headline_weights (mkt_news market)))
           (dict_get (alpha_scores (an_math env) (an_settings env) bars (map cand_ticker (cs_candidates cs))) ticker))"

definition decision_fits ::
  "('w, 'x) analyst_env_scheme \<Rightarrow> candidate_set \<Rightarrow> market_snapshot \<Rightarrow> market_regime \<Rightarrow> string list
   \<Rightarrow> position_stop_threshold list \<Rightarrow> string list \<Rightarrow> candidate \<Rightarrow> analyst_decision \<Rightarrow> bool" where
  "decision_fits env cs market regime held stops active_refs c d \<longleftrightarrow>
     (let ticker = cand_ticker c
      in \<exists>score. score_for env cs market c = Inr score
         \<and> decision_sound regime (an_settings env) (ticker \<in> set held)
             (stop_breached_now ticker (bars_of (group_bars (mkt_bars market)) ticker) stops active_refs) ticker score d)"

definition fault_unpriced :: "('w, 'x) analyst_env_scheme \<Rightarrow> candidate \<Rightarrow> 'w \<Rightarrow> 'w" where
  "fault_unpriced env c w = ag_submit env w (unpriced_fault (ge_wall env w) (cand_ticker c))"

lemma captured_Some:
  "captured env agent modul capability m w = (w', Inr (Some x)) \<longleftrightarrow> m w = (w', Inr x)"
  by (cases "m w") (auto simp: captured_def split: sum.splits)

text \<open>The candidates walked: each answer goes through \<open>f\<close>, a missing one only moves the world.\<close>

lemma score_each_Inr:
  assumes "score_each f cs w = (w', Inr ds)"
    and skip: "\<And>c w. skips c \<Longrightarrow> f c w = (moved c w, Inr None)"
    and ok: "\<And>c w w1 r. \<not> skips c \<Longrightarrow> f c w = (w1, Inr r) \<Longrightarrow> w1 = w \<and> (\<exists>d. r = Some d \<and> fits c d)"
  shows "list_all2 fits (filter (\<lambda>c. \<not> skips c) cs) ds \<and> w' = fold moved (filter skips cs) w"
  using assms(1)
proof (induction cs arbitrary: w ds)
  case Nil
  then show ?case by (simp add: step_return_def)
next
  case (Cons c cs)
  from Cons.prems obtain w1 r rest where f: "f c w = (w1, Inr r)" and each: "score_each f cs w1 = (w', Inr rest)"
    and ds: "ds = (case r of None \<Rightarrow> rest | Some y \<Rightarrow> y # rest)"
    by (auto simp: step_bind_Inr step_return_def)
  note IH = Cons.IH [OF each]
  show ?case
  proof (cases "skips c")
    case True
    then have "w1 = moved c w" "r = None" using f skip [of c w] by auto
    then show ?thesis using IH ds True by simp
  next
    case False
    then obtain d where "w1 = w" "r = Some d" "fits c d" using ok [OF False f] by auto
    then show ?thesis using IH ds False by simp
  qed
qed

lemma bars_of_none:
  "bars_of (group_bars bars) ticker = [] \<longleftrightarrow> (\<forall>b\<in>set bars. bar_ticker b \<noteq> ticker)"
  by (simp add: bars_of_group_bars filter_empty_conv)

lemma score_one_unpriced:
  assumes "unpriced_held market held c"
  shows "score_one env market regime held stops active_refs (group_bars (mkt_bars market)) alphas weights c w
    = (fault_unpriced env c w, Inr None)"
  using assms by (simp add: score_one_def unpriced_held_def bars_of_none fault_unpriced_def Let_def)

lemma score_one_decides:
  assumes "\<not> unpriced_held market held c"
    and "score_one env market regime held stops active_refs (group_bars (mkt_bars market))
      (alpha_scores (an_math env) (an_settings env) (group_bars (mkt_bars market)) (map cand_ticker (cs_candidates cs)))
      (batch_headline_weights (mkt_news market)) c w = (w1, Inr r)"
  shows "w1 = w \<and> (\<exists>d. r = Some d \<and> decision_fits env cs market regime held stops active_refs c d)"
proof -
  have priced: "\<not> (cand_ticker c \<in> set held \<and> bars_of (group_bars (mkt_bars market)) (cand_ticker c) = [])"
    using assms(1) by (simp add: unpriced_held_def bars_of_none)
  have "w1 = w" and score: "res_bind (score_for env cs market c) (\<lambda>score.
      res_bind (decide (an_texts env) (cand_ticker c) score regime (cand_ticker c \<in> set held)
        (as_exit_confidence_floor (an_settings env))
        (stop_breached_now (cand_ticker c) (bars_of (group_bars (mkt_bars market)) (cand_ticker c)) stops active_refs)
        (an_settings env)) (\<lambda>d. Inr (Some d))) = Inr r"
    using assms(2) unfolding score_one_def Let_def if_not_P [OF priced] score_for_def by simp_all
  from score obtain score d where "score_for env cs market c = Inr score" "r = Some d"
    and "decide (an_texts env) (cand_ticker c) score regime (cand_ticker c \<in> set held)
        (as_exit_confidence_floor (an_settings env))
        (stop_breached_now (cand_ticker c) (bars_of (group_bars (mkt_bars market)) (cand_ticker c)) stops active_refs)
        (an_settings env) = Inr d"
    by (auto simp: res_bind_Inr_iff)
  then show ?thesis
    using \<open>w1 = w\<close> decide_sound unfolding decision_fits_def Let_def by blast
qed

text \<open>
  C11. An analysis that scores its candidates decides each of them, in order, except the held names without
  a bar of market data, each of which faults and moves nothing else.  A decision is one of recommendation
  and rejection: a held name is sold exactly on a breached stop or a confidence below the exit floor and
  otherwise kept, also when it scores too low to be bought; a name not held is only ever bought, above the
  confidence floor of the regime and with a stop and a target inside the bounds; and a rejection has its
  cause, which is never given to a held name whose stop is breached.
\<close>

theorem analysis_decides_candidates:
  assumes "score_candidates env cs market regime held stops active_refs w = (w', Inr (Some ds))"
  shows "list_all2 (decision_fits env cs market regime held stops active_refs)
      (filter (\<lambda>c. \<not> unpriced_held market held c) (cs_candidates cs)) ds
    \<and> w' = fold (fault_unpriced env) (filter (unpriced_held market held) (cs_candidates cs)) w"
proof -
  let ?f = "score_one env market regime held stops active_refs (group_bars (mkt_bars market))
      (alpha_scores (an_math env) (an_settings env) (group_bars (mkt_bars market)) (map cand_ticker (cs_candidates cs)))
      (batch_headline_weights (mkt_news market))"
  have "score_each ?f (cs_candidates cs) w = (w', Inr ds)"
    using assms by (simp add: score_candidates_def Let_def captured_Some)
  then show ?thesis
    by (rule score_each_Inr [where f = ?f]) (fact score_one_unpriced, fact score_one_decides)
qed

section \<open>A concrete batch\<close>

definition sample_analyst_settings :: analyst_settings where
  "sample_analyst_settings =
     \<lparr>as_rsi_period = 14, as_macd_fast = 12, as_macd_slow = 26, as_macd_signal = 9, as_bollinger_window = 20,
      as_bollinger_sigma = 2, as_sma_long_period = 200, as_ema_short_period = 20, as_ema_long_period = 50,
      as_atr_period = 14, as_stoch_k_period = 14, as_stoch_d_period = 3, as_williams_period = 14,
      as_choppiness_period = 14, as_obv_signal_period = 20, as_golden_cross_short_period = 50, as_rsi2_period = 2,
      as_nw_bandwidth = 8, as_nw_lookback = 50, as_pattern_lookback = 60, as_pattern_min_swing_pct = 2,
      as_stop_target_mode = Flat, as_drawdown_horizon_days = 10, as_excursion_lookback_windows = 120,
      as_scaled_stop_atr_multiplier = 2, as_scaled_stop_floor_pct = 25 / 1000, as_scaled_stop_ceiling_pct = 8 / 100,
      as_lookback_days = 260, as_min_history_bars = 2, as_confidence_floor = 3 / 10, as_exit_confidence_floor = 1 / 2,
      as_confidence_span = 6 / 10, as_technical_weight = 1 / 2, as_fundamental_weight = 3 / 10,
      as_sentiment_weight = 2 / 10, as_sentiment_min_own_headlines = 2, as_benchmark_ticker = ''SPY'',
      as_rs_window = 20, as_relative_strength_weight = 2 / 10, as_signal_diversity_slack = 5, as_max_top_signals = 5,
      as_alpha158_pillar_weight = 0\<rparr>"

definition sample_candidate :: "string \<Rightarrow> int \<Rightarrow> candidate" where
  "sample_candidate ticker rank =
     \<lparr>cand_ticker = ticker, cand_rank = rank, cand_score = 0, cand_survived = [], cand_skipped = [], cand_metrics = []\<rparr>"

definition sample_provenance :: provenance where
  "sample_provenance = \<lparr>pv_run_id = ''r'', pv_source_agent = ''scanner'', pv_correlation_id = None,
     pv_graph_node_id = None, pv_incident_refs = []\<rparr>"

definition sample_candidates :: candidate_set where
  "sample_candidates =
     \<lparr>cs_run_id = ''r'', cs_candidates = [sample_candidate ''AB'' 1, sample_candidate ''CD'' 2],
      cs_trace = \<lparr>ftr_universe_size = 2, ftr_evaluated = 2, ftr_dropped = [], ftr_verdicts = []\<rparr>,
      cs_explanation = \<lparr>ex_summary = [], ex_evidence_refs = []\<rparr>, cs_provenance = sample_provenance\<rparr>"

definition sample_market :: "ohlcv_bar list \<Rightarrow> market_snapshot" where
  "sample_market bars =
     \<lparr>mkt_bars = bars, mkt_sectors = [], mkt_used_fallback = False, mkt_provenance = sample_provenance,
      mkt_earnings_horizon = None, mkt_benchmark = [], mkt_fundamentals = [], mkt_news = [], mkt_sentiment = [],
      mkt_earnings = []\<rparr>"

definition sample_regime :: market_regime where
  "sample_regime = \<lparr>rc_base_stop_loss_pct = 5 / 100, rc_base_take_profit_pct = 1 / 10,
     rc_provenance = sample_provenance, rg_label = ''neutral'', rg_min_confidence = 7 / 10\<rparr>"

definition sample_math :: analyst_math where
  "sample_math = \<lparr>am_sqrt = (\<lambda>x. x), am_exp = (\<lambda>x. 1), am_log10 = (\<lambda>x. x)\<rparr>"

definition sample_sentiment :: sentiment_data where
  "sample_sentiment = \<lparr>sd_positive = {}, sd_negative = {}, sd_companies = (\<lambda>t. None)\<rparr>"

definition sample_own :: "ohlcv_bar list" where
  "sample_own = [sample_bar ''AB'' 1 10, sample_bar ''AB'' 2 11]"

lemma sample_rows: "sort_key bar_date sample_own = sample_own"
  by (simp add: sample_own_def sample_bar_def)

lemma sample_closes: "map bar_close sample_own = [10, 11]" "map bar_high sample_own = [10, 11]" "map bar_low sample_own = [10, 11]"
  "map bar_date sample_own = [1, 2]" "length sample_own = 2"
  "map (\<lambda>b. rat_of_int (bar_volume b)) sample_own = [1000, 1000]"
  by (simp_all add: sample_own_def sample_bar_def)

lemma sample_triples: "technical_triples am sample_own sample_analyst_settings = []"
  by (simp add: technical_triples_def sample_closes momentum_scores_def range_indicator_scores_def
     event_indicator_scores_def pattern_indicator_scores_def scored_if_def sample_analyst_settings_def
     rsi_def macd_def bollinger_position_def sma_distance_def ema_crossover_spread_def atr_def stochastic_def williams_r_def
     choppiness_def obv_def golden_cross_def nadaraya_watson_def geometric_patterns_def turnaround_signal_def)

lemma sample_scored:
  "\<exists>s. score_candidate am sd (sample_candidate ''AB'' 1) sample_own [] [] [] sample_analyst_settings ws None = Inr s
     \<and> scb_rejection_reason s = None \<and> scb_confidence s = 6 / 10 \<and> scb_fundamental_score s = None \<and> scb_sentiment_score s = None
     \<and> scb_technical_score s = 1 / 2 \<and> scb_alpha158_score s = None"
  apply (simp add: score_candidate_def sample_rows sample_closes Let_def score_technical_def sample_triples
      score_fundamental_def fundamental_rules_def fundamental_sub_score_def subject_sentiment_def composite_def
      apply_relative_strength_def compute_relative_strength_def return_pct_def List.map_filter_def bounded_1_def split: prod.split)
  apply (simp add: sample_analyst_settings_def)
  done
definition sample_analyst_env :: "store analyst_env" where
  "sample_analyst_env =
     \<lparr>ge_port = mem_port, ge_wall = \<lambda>g. sample_time, ge_float_text = \<lambda>q. [], ge_parse_float = \<lambda>s. None,
      ag_submit = \<lambda>g f. fst (gp_merge mem_port sample_time g ''Fault'' ''f1'' [] 1), ag_hex = \<lambda>g. ''0'',
      an_settings = sample_analyst_settings, an_math = sample_math, an_sentiment = sample_sentiment,
      an_texts = \<lparr>at_recommendation = \<lambda>r. [], at_stop_target = \<lambda>e. []\<rparr>\<rparr>"

lemma sample_grouped:
  "bars_of (group_bars sample_own) ''AB'' = sample_own" "bars_of (group_bars sample_own) ''CD'' = []"
  by (simp_all add: bars_of_group_bars) (simp_all add: sample_own_def sample_bar_def)

lemma sample_batch:
  "\<exists>w' ds. score_candidates sample_analyst_env sample_candidates (sample_market sample_own) sample_regime [''CD''] [] [] w
     = (w', Inr (Some ds))"
proof -
  have env: "an_settings sample_analyst_env = sample_analyst_settings" "as_alpha158_pillar_weight sample_analyst_settings = 0"
    and market: "mkt_bars (sample_market bars) = bars" "mkt_news (sample_market bars) = []"
      "mkt_fundamentals (sample_market bars) = []" "mkt_benchmark (sample_market bars) = []"
      "cs_candidates sample_candidates = [sample_candidate ''AB'' 1, sample_candidate ''CD'' 2]"
      "cand_ticker (sample_candidate ticker n) = ticker" for bars ticker n
    by (simp_all add: sample_analyst_env_def sample_market_def sample_candidates_def sample_analyst_settings_def
        sample_candidate_def)
  obtain s where s: "score_candidate (an_math sample_analyst_env) (an_sentiment sample_analyst_env)
      (sample_candidate ''AB'' 1) sample_own [] [] [] sample_analyst_settings (Some (batch_headline_weights [])) None = Inr s"
    "scb_rejection_reason s = None" "scb_confidence s = 6 / 10"
    using sample_scored by blast
  have "\<exists>d. decide (an_texts sample_analyst_env) ''AB'' s sample_regime False
      (as_exit_confidence_floor sample_analyst_settings) False sample_analyst_settings = Inr d"
    by (simp add: decide_def s(2, 3) sample_regime_def Let_def)
  then show ?thesis
    unfolding score_candidates_def captured_Some Let_def env market
    by (auto simp: step_bind_Inr score_one_def env market sample_grouped stop_breached_now_def alpha_scores_def s(1)
        step_return_def res_bind_Inr_iff Let_def step_bind_def)
qed

lemma analysis_decides_candidates_witness:
  "\<exists>w' ds. list_all2
      (decision_fits sample_analyst_env sample_candidates (sample_market sample_own) sample_regime [''CD''] [] [])
      [sample_candidate ''AB'' 1] ds
    \<and> w' = fault_unpriced sample_analyst_env (sample_candidate ''CD'' 2) empty_store"
proof -
  obtain w' ds where batch: "score_candidates sample_analyst_env sample_candidates (sample_market sample_own)
      sample_regime [''CD''] [] [] empty_store = (w', Inr (Some ds))"
    using sample_batch by blast
  have unpriced: "unpriced_held (sample_market sample_own) [''CD''] (sample_candidate ''CD'' 2)"
    "\<not> unpriced_held (sample_market sample_own) [''CD''] (sample_candidate ''AB'' 1)"
    by (simp_all add: unpriced_held_def sample_market_def sample_candidate_def sample_own_def sample_bar_def)
  show ?thesis
    using analysis_decides_candidates [OF batch] unpriced by (auto simp: sample_candidates_def)
qed

section \<open>The confidence\<close>

text \<open>The pillars a score rests on, each between 0 and 1.\<close>

definition present :: "rat option list \<Rightarrow> rat list" where
  "present = List.map_filter id"

definition pillars_of :: "score_breakdown \<Rightarrow> rat list" where
  "pillars_of s =
     present [Some (scb_technical_score s), scb_fundamental_score s, scb_sentiment_score s,
       map_option (\<lambda>v. bounded_1 (v / 100)) (scb_alpha158_score s)]"

lemma bounded_1_unit: "in_unit (bounded_1 v)"
  by (simp add: bounded_1_def in_unit_def)

lemma py_div_Inr: "py_div a b = Inr x \<longleftrightarrow> b \<noteq> 0 \<and> x = a / b"
  by (auto simp: py_div_def)

lemma pillar_sum_between:
  assumes "list_all (\<lambda>(p, w). 0 \<le> w) pillars" and "\<forall>v\<in>set (present (map fst pillars)). lo \<le> v \<and> v \<le> hi"
  shows "lo * pillar_weights pillars \<le> pillar_sum pillars \<and> pillar_sum pillars \<le> hi * pillar_weights pillars
    \<and> 0 \<le> pillar_weights pillars"
  using assms
proof (induction pillars)
  case (Cons pw pillars)
  obtain p w where pw: "pw = (p, w)" by (cases pw)
  have "lo * w \<le> w * v \<and> w * v \<le> hi * w" if "p = Some v" for v
    using Cons.prems that by (auto simp: pw present_def map_filter_simps mult.commute mult_right_mono)
  then show ?case
    using Cons by (cases p) (auto simp: pw present_def map_filter_simps pillar_sum_def pillar_weights_def algebra_simps)
qed (simp add: pillar_sum_def pillar_weights_def)

lemma composite_between:
  assumes "score_settings_valid st" and "composite technical fundamental sentiment alpha st = Inr x"
    and "\<forall>v\<in>set (present [Some technical, fundamental, sentiment, alpha]). lo \<le> v \<and> v \<le> hi"
  shows "lo \<le> x \<and> x \<le> hi"
proof (cases "fundamental = None \<and> sentiment = None \<and> alpha = None")
  case True
  then show ?thesis using assms(2, 3) by (auto simp: composite_def present_def map_filter_simps)
next
  case False
  define ps where "ps = [(Some technical, as_technical_weight st), (fundamental, as_fundamental_weight st),
      (sentiment, as_sentiment_weight st), (alpha, as_alpha158_pillar_weight st)]"
  have "py_div (pillar_sum ps) (pillar_weights ps) = Inr x"
    using assms(2) False by (auto simp: composite_def ps_def Let_def)
  then have div: "pillar_weights ps \<noteq> 0" "x = pillar_sum ps / pillar_weights ps"
    by (simp_all add: py_div_Inr)
  have "list_all (\<lambda>(p, w). 0 \<le> w) ps"
    using assms(1) by (simp add: ps_def score_settings_valid_def in_unit_def)
  moreover have "\<forall>v\<in>set (present (map fst ps)). lo \<le> v \<and> v \<le> hi"
    using assms(3) by (simp add: ps_def)
  ultimately show ?thesis
    using pillar_sum_between [of ps lo hi] div
    by (metis less_le pos_divide_le_eq pos_le_divide_eq)
qed

lemma present_unit: "list_all (opt_ok in_unit) ps \<Longrightarrow> list_all in_unit (present ps)"
  by (induction ps) (auto simp: present_def map_filter_simps split: option.split)

lemma opt_ok_bounded: "opt_ok in_unit (map_option (\<lambda>v. bounded_1 (f v)) x)"
  by (cases x) (simp_all add: bounded_1_unit)

lemma clamp_banded:
  assumes "0 \<le> f" "0 \<le> s" "0 \<le> x" "lo \<le> x" "x \<le> (hi::rat)"
  shows "min 1 (f + lo * s) \<le> bounded_1 (f + x * s) \<and> bounded_1 (f + x * s) \<le> min 1 (f + hi * s)"
proof -
  have "lo * s \<le> x * s" "x * s \<le> hi * s" "0 \<le> x * s"
    using assms by (simp_all add: mult_right_mono)
  then show ?thesis using assms(1) unfolding bounded_1_def by linarith
qed

lemma score_candidate_scored:
  assumes "score_candidate am sd c bars fundamentals benchmark news st weights alpha = Inr s"
    and "scb_rejection_reason s = None"
  obtains blend where
    "composite (scb_technical_score s) (scb_fundamental_score s) (scb_sentiment_score s)
       (map_option (\<lambda>v. bounded_1 (v / 100)) (scb_alpha158_score s)) st = Inr blend"
    "scb_confidence s = bounded_1 (as_confidence_floor st + blend * as_confidence_span st)"
    "list_all in_unit (pillars_of s)"
proof -
  define rows where "rows = sort_key bar_date bars"
  have long: "\<not> length rows < as_min_history_bars st"
    using assms by (auto simp: score_candidate_def rows_def Let_def short_history_def)
  obtain raw tm where tech: "score_technical am rows st = (raw, tm)" by fastforce
  obtain technical rsm where rs: "apply_relative_strength (bounded_1 (raw / 100)) bars benchmark st = (technical, rsm)"
    by fastforce
  obtain raw_fund fm where fund: "score_fundamental fundamentals = (raw_fund, fm)" by fastforce
  have unit: "in_unit technical"
    using rs bounded_1_unit by (auto simp: apply_relative_strength_def Let_def split: option.splits)
  note eq = assms(1) [unfolded score_candidate_def rows_def [symmetric] Let_def if_not_P [OF long] tech rs fund prod.case
      res_bind_Inr_iff]
  then obtain raw_sent blend where
      comp: "composite technical (map_option (\<lambda>v. bounded_1 (v / 100)) raw_fund)
        (map_option (\<lambda>v. bounded_1 (v / 100)) raw_sent) (map_option (\<lambda>v. bounded_1 (v / 100)) alpha) st = Inr blend"
    and s: "scb_technical_score s = technical" "scb_fundamental_score s = map_option (\<lambda>v. bounded_1 (v / 100)) raw_fund"
      "scb_sentiment_score s = map_option (\<lambda>v. bounded_1 (v / 100)) raw_sent" "scb_alpha158_score s = alpha"
      "scb_confidence s = bounded_1 (as_confidence_floor st + blend * as_confidence_span st)"
    by (auto simp: res_bind_Inr_iff)
  have "list_all in_unit (pillars_of s)"
    unfolding pillars_of_def s by (rule present_unit) (simp add: unit opt_ok_bounded)
  then show thesis
    using comp by (intro that [of blend]) (simp_all add: s)
qed

text \<open>The weighted mean of what is there of a list of weights and values.\<close>

definition weighted_mean :: "(rat \<times> rat option) list \<Rightarrow> rat" where
  "weighted_mean wps =
     (let there = List.map_filter (\<lambda>(w, p). map_option (Pair w) p) wps
      in sum_list (map (\<lambda>(w, v). w * v) there) / sum_list (map fst there))"

definition pillar_mean :: "analyst_settings \<Rightarrow> score_breakdown \<Rightarrow> rat" where
  "pillar_mean st s =
     (let alpha = map_option (\<lambda>v. bounded_1 (v / 100)) (scb_alpha158_score s)
      in if scb_fundamental_score s = None \<and> scb_sentiment_score s = None \<and> alpha = None
         then scb_technical_score s
         else weighted_mean
           [(as_technical_weight st, Some (scb_technical_score s)),
            (as_fundamental_weight st, scb_fundamental_score s),
            (as_sentiment_weight st, scb_sentiment_score s),
            (as_alpha158_pillar_weight st, alpha)])"

lemma composite_mean:
  assumes "composite (scb_technical_score s) (scb_fundamental_score s) (scb_sentiment_score s)
       (map_option (\<lambda>v. bounded_1 (v / 100)) (scb_alpha158_score s)) st = Inr blend"
  shows "blend = pillar_mean st s"
  using assms
  by (cases "scb_fundamental_score s"; cases "scb_sentiment_score s"; cases "scb_alpha158_score s")
    (simp_all add: composite_def Let_def py_div_Inr pillar_sum_def pillar_weights_def pillar_mean_def
      weighted_mean_def map_filter_simps add.assoc)

text \<open>
  C39. Every pillar of a scored candidate is between 0 and 1, and its confidence is their weighted mean,
  each pillar there counted with its own configured weight and the technical score alone where there is no
  other, spread over the configured span from the floor and cut off at 1.  So whatever band holds the
  pillars, the confidence lies on the span between the images of the two ends of the band, and between the
  floor and the end of the span.
\<close>

theorem confidence_banded:
  assumes "score_settings_valid st"
    and "score_candidate am sd c bars fundamentals benchmark news st weights alpha = Inr s"
    and "scb_rejection_reason s = None"
    and "list_all (\<lambda>v. lo \<le> v \<and> v \<le> hi) (pillars_of s)"
  shows "list_all in_unit (pillars_of s)
    \<and> scb_confidence s = min 1 (as_confidence_floor st + pillar_mean st s * as_confidence_span st)
    \<and> min 1 (as_confidence_floor st + lo * as_confidence_span st) \<le> scb_confidence s
    \<and> scb_confidence s \<le> min 1 (as_confidence_floor st + hi * as_confidence_span st)
    \<and> as_confidence_floor st \<le> scb_confidence s
    \<and> scb_confidence s \<le> min 1 (as_confidence_floor st + as_confidence_span st)"
proof -
  from score_candidate_scored [OF assms(2, 3)] obtain blend where
    comp: "composite (scb_technical_score s) (scb_fundamental_score s) (scb_sentiment_score s)
       (map_option (\<lambda>v. bounded_1 (v / 100)) (scb_alpha158_score s)) st = Inr blend"
    and conf: "scb_confidence s = bounded_1 (as_confidence_floor st + blend * as_confidence_span st)"
    and unit: "list_all in_unit (pillars_of s)"
    by blast
  have st: "0 \<le> as_confidence_floor st" "as_confidence_floor st \<le> 1" "0 \<le> as_confidence_span st"
    using assms(1) by (auto simp: score_settings_valid_def in_unit_def)
  have between: "l \<le> blend \<and> blend \<le> h" if "list_all (\<lambda>v. l \<le> v \<and> v \<le> h) (pillars_of s)" for l h
    using composite_between [OF assms(1) comp, of l h] that by (simp add: pillars_of_def list_all_iff)
  have "0 \<le> blend \<and> blend \<le> 1" using unit by (intro between) (simp add: in_unit_def [abs_def])
  then have b: "0 \<le> blend" "blend \<le> 1" by simp_all
  then have "0 \<le> blend * as_confidence_span st" using st(3) by simp
  with st(1) have exact: "scb_confidence s = min 1 (as_confidence_floor st + pillar_mean st s * as_confidence_span st)"
    unfolding composite_mean [OF comp, symmetric] conf bounded_1_def by linarith
  have "lo \<le> blend" "blend \<le> hi" using between assms(4) by blast+
  then have "min 1 (as_confidence_floor st + lo * as_confidence_span st) \<le> scb_confidence s"
    "scb_confidence s \<le> min 1 (as_confidence_floor st + hi * as_confidence_span st)"
    "as_confidence_floor st \<le> scb_confidence s"
    "scb_confidence s \<le> min 1 (as_confidence_floor st + as_confidence_span st)"
    using clamp_banded [OF st(1, 3) b(1), of lo hi] clamp_banded [OF st(1, 3) b(1), of 0 1] b st(2)
    unfolding conf by simp_all
  with exact unit show ?thesis by blast
qed

definition alpha_settings :: analyst_settings where
  "alpha_settings = sample_analyst_settings\<lparr>as_alpha158_pillar_weight := 1 / 4\<rparr>"

lemma alpha_triples: "technical_triples am sample_own alpha_settings = []"
proof -
  have "technical_triples am sample_own alpha_settings = technical_triples am sample_own sample_analyst_settings"
    by (simp add: technical_triples_def sample_closes momentum_scores_def range_indicator_scores_def
       event_indicator_scores_def pattern_indicator_scores_def scored_if_def alpha_settings_def)
  then show ?thesis by (simp add: sample_triples)
qed

lemma alpha_scored:
  "\<exists>s. score_candidate am sd (sample_candidate ''AB'' 1) sample_own [] [] [] alpha_settings ws (Some 80) = Inr s
     \<and> scb_rejection_reason s = None \<and> scb_fundamental_score s = None \<and> scb_sentiment_score s = None
     \<and> scb_technical_score s = 1 / 2 \<and> scb_alpha158_score s = Some 80"
  apply (simp add: score_candidate_def sample_rows sample_closes Let_def score_technical_def alpha_triples
      score_fundamental_def fundamental_rules_def fundamental_sub_score_def subject_sentiment_def composite_def
      apply_relative_strength_def compute_relative_strength_def return_pct_def List.map_filter_def bounded_1_def
      split: prod.split)
  apply (simp add: alpha_settings_def sample_analyst_settings_def py_div_def pillar_sum_def pillar_weights_def)
  done

lemma confidence_banded_witness:
  "\<exists>s. score_candidate sample_math sample_sentiment (sample_candidate ''AB'' 1) sample_own [] [] []
        alpha_settings None (Some 80) = Inr s
     \<and> scb_confidence s = 3 / 10 + 6 / 10 * ((1 / 2 * (1 / 2) + 1 / 4 * (8 / 10)) / (1 / 2 + 1 / 4))"
proof -
  from alpha_scored [of sample_math sample_sentiment None] obtain s where
    s: "score_candidate sample_math sample_sentiment (sample_candidate ''AB'' 1) sample_own [] [] []
        alpha_settings None (Some 80) = Inr s" "scb_rejection_reason s = None"
      "scb_fundamental_score s = None" "scb_sentiment_score s = None"
      "scb_technical_score s = 1 / 2" "scb_alpha158_score s = Some 80"
    by blast
  have "score_settings_valid alpha_settings"
    by (simp add: score_settings_valid_def in_unit_def alpha_settings_def sample_analyst_settings_def)
  moreover have "list_all (\<lambda>v. 0 \<le> v \<and> v \<le> 1) (pillars_of s)"
    by (simp add: pillars_of_def s present_def map_filter_simps bounded_1_def)
  moreover have mean: "pillar_mean alpha_settings s = (1 / 2 * (1 / 2) + 1 / 4 * (8 / 10)) / (1 / 2 + 1 / 4)"
    unfolding pillar_mean_def weighted_mean_def s alpha_settings_def sample_analyst_settings_def
    by (simp add: bounded_1_def Let_def map_filter_simps)
  moreover have ends: "as_confidence_floor alpha_settings = 3 / 10" "as_confidence_span alpha_settings = 6 / 10"
    by (simp_all add: alpha_settings_def sample_analyst_settings_def)
  ultimately have "scb_confidence s = 3 / 10 + 6 / 10 * ((1 / 2 * (1 / 2) + 1 / 4 * (8 / 10)) / (1 / 2 + 1 / 4))"
    using confidence_banded [OF _ s(1, 2), of 0 1] unfolding mean ends by simp
  with s(1) show ?thesis by blast
qed

section \<open>The excursion bound\<close>

lemma score_each_raises:
  assumes "c \<in> set cs" and "\<And>w. \<exists>e. f c w = (w, Inl e)"
  shows "\<exists>w' e. score_each f cs w = (w', Inl e)"
  using assms(1)
proof (induction cs arbitrary: w)
  case (Cons b cs)
  show ?case
  proof (cases "b = c")
    case True
    then show ?thesis using assms(2) [of w] by (auto simp: step_bind_def)
  next
    case False
    obtain w1 r where b: "f b w = (w1, r)" by fastforce
    obtain w' e where "score_each f cs w1 = (w', Inl e)" using Cons.IH [of w1] Cons.prems False by auto
    then show ?thesis by (cases r) (simp_all add: b step_bind_def)
  qed
qed simp

lemma excursion_unresolved:
  assumes "dict_get d ''favorable_excursion_sample_count'' = Some n" "0 < n"
    and "dict_get d ''favorable_excursion_pct'' = Some v" "1 < v"
  shows "\<exists>e. resolve_stop_target vtext regime d st = Inl e"
proof -
  have invalid: "\<not> stop_target_valid (stop_target_of mode d vol fs ft s t)" for mode vol fs ft s t
    using assms(3, 4) by (simp add: stop_target_valid_def stop_target_of_def Let_def in_unit_def)
  have "targets_of d x y z = Some (1, 1)" for x y z
    using assms by (simp add: targets_of_def measured_target_def)
  then show ?thesis
    by (simp add: resolve_stop_target_def Let_def validated_def invalid)
qed

text \<open>
  C13. A name not held that scores above the floor of the regime and whose measured excursion is more than
  its price, so above the bound of the payload, raises where its stop and target are put together: the
  whole batch ends without a decision, those on the other candidates and the exits included.
\<close>

theorem excursion_above_bound_ends_batch:
  assumes "c \<in> set (cs_candidates cs)" and "cand_ticker c \<notin> set held"
    and "score_for env cs market c = Inr score" and "scb_rejection_reason score = None"
    and "rg_min_confidence regime \<le> scb_confidence score"
    and "dict_get (scb_metrics score) ''favorable_excursion_sample_count'' = Some n" and "0 < n"
    and "dict_get (scb_metrics score) ''favorable_excursion_pct'' = Some v" and "1 < v"
  shows "\<exists>w'. score_candidates env cs market regime held stops active_refs w = (w', Inr None)"
proof -
  let ?f = "score_one env market regime held stops active_refs (group_bars (mkt_bars market))
      (alpha_scores (an_math env) (an_settings env) (group_bars (mkt_bars market)) (map cand_ticker (cs_candidates cs)))
      (batch_headline_weights (mkt_news market))"
  obtain e where "resolve_stop_target (at_stop_target (an_texts env)) regime (scb_metrics score) (an_settings env) = Inl e"
    using excursion_unresolved [OF assms(6-9)] by blast
  then have "decide (an_texts env) (cand_ticker c) score regime False x y (an_settings env) = Inl e" for x y
    using assms(4, 5) by (simp add: decide_def Let_def)
  then have "?f c w = (w, Inl e)" for w
    using assms(2, 3) by (simp add: score_one_def score_for_def Let_def)
  then obtain w' e' where "score_each ?f (cs_candidates cs) w = (w', Inl e')"
    using score_each_raises [OF assms(1), of ?f] by blast
  then show ?thesis
    by (simp add: score_candidates_def Let_def captured_def)
qed

definition jump_bars :: "ohlcv_bar list" where
  "jump_bars = [sample_bar ''AB'' 1 10, sample_bar ''AB'' 2 30]"

definition jump_settings :: analyst_settings where
  "jump_settings = sample_analyst_settings\<lparr>as_drawdown_horizon_days := 1\<rparr>"

lemma jump_facts:
  "sort_key bar_date jump_bars = jump_bars" "map bar_close jump_bars = [10, 30]" "map bar_high jump_bars = [10, 30]"
  "map bar_low jump_bars = [10, 30]" "map bar_date jump_bars = [1, 2]" "length jump_bars = 2"
  "map (\<lambda>b. rat_of_int (bar_volume b)) jump_bars = [1000, 1000]"
  by (simp_all add: jump_bars_def sample_bar_def)

lemma jump_triples: "technical_triples am jump_bars jump_settings = []"
  by (simp add: technical_triples_def jump_facts momentum_scores_def range_indicator_scores_def
     event_indicator_scores_def pattern_indicator_scores_def scored_if_def jump_settings_def sample_analyst_settings_def
     rsi_def macd_def bollinger_position_def sma_distance_def ema_crossover_spread_def atr_def stochastic_def williams_r_def
     choppiness_def obv_def golden_cross_def nadaraya_watson_def geometric_patterns_def turnaround_signal_def)

lemma jump_excursion:
  "target_excursion_metrics jump_bars jump_settings
   = [(''favorable_excursion_horizon_days'', 1), (''favorable_excursion_lookback_windows'', 120),
      (''favorable_excursion_sample_count'', 1), (''favorable_excursion_pct'', 2)]"
  by (simp add: target_excursion_metrics_def trailing_favorable_excursion_def jump_bars_def jump_settings_def
     sample_analyst_settings_def sample_bar_def anchor_bar_def favorable_window_def slice_def median_def Let_def)

lemma jump_scored:
  "\<exists>s. score_candidate am sd (sample_candidate ''AB'' 1) jump_bars [] [] [] jump_settings ws None = Inr s
     \<and> scb_rejection_reason s = None \<and> scb_confidence s = 6 / 10
     \<and> dict_get (scb_metrics s) ''favorable_excursion_sample_count'' = Some 1
     \<and> dict_get (scb_metrics s) ''favorable_excursion_pct'' = Some 2"
  by (simp add: score_candidate_def jump_facts Let_def score_technical_def jump_triples
      score_fundamental_def fundamental_rules_def fundamental_sub_score_def subject_sentiment_def composite_def
      apply_relative_strength_def compute_relative_strength_def return_pct_def List.map_filter_def bounded_1_def
      jump_excursion merge_metrics_def opt_metric_def dict_simps split: prod.split)
    (simp add: jump_settings_def sample_analyst_settings_def)

lemma excursion_above_bound_ends_batch_witness:
  "\<exists>w'. score_candidates (sample_analyst_env\<lparr>an_settings := jump_settings\<rparr>) sample_candidates (sample_market jump_bars)
     (sample_regime\<lparr>rg_min_confidence := 1 / 2\<rparr>) [''CD''] [] [] empty_store = (w', Inr None)"
proof -
  define env where "env = sample_analyst_env\<lparr>an_settings := jump_settings\<rparr>"
  have env: "an_math env = sample_math" "an_sentiment env = sample_sentiment" "an_settings env = jump_settings"
    "as_alpha158_pillar_weight jump_settings = 0"
    by (simp_all add: env_def sample_analyst_env_def jump_settings_def sample_analyst_settings_def)
  have bars: "bars_of (group_bars jump_bars) ''AB'' = jump_bars"
    by (simp add: bars_of_group_bars jump_bars_def sample_bar_def)
  have "score_for env sample_candidates (sample_market jump_bars) (sample_candidate ''AB'' 1)
      = score_candidate sample_math sample_sentiment (sample_candidate ''AB'' 1) jump_bars [] [] [] jump_settings
          (Some (batch_headline_weights [])) None"
    by (simp add: score_for_def env bars alpha_scores_def sample_market_def Let_def)
      (simp add: sample_candidate_def bars)
  then obtain s where s: "score_for env sample_candidates (sample_market jump_bars) (sample_candidate ''AB'' 1) = Inr s"
    "scb_rejection_reason s = None" "scb_confidence s = 6 / 10"
    "dict_get (scb_metrics s) ''favorable_excursion_sample_count'' = Some 1"
    "dict_get (scb_metrics s) ''favorable_excursion_pct'' = Some 2"
    using jump_scored by metis
  have c: "sample_candidate ''AB'' 1 \<in> set (cs_candidates sample_candidates)"
    "cand_ticker (sample_candidate ''AB'' 1) \<notin> set [''CD'']"
    by (simp_all add: sample_candidates_def sample_candidate_def)
  have "rg_min_confidence (sample_regime\<lparr>rg_min_confidence := 1 / 2\<rparr>) \<le> scb_confidence s"
    by (simp add: s(3))
  from excursion_above_bound_ends_batch [OF c s(1, 2) this s(4) _ s(5), of "[]" "[]" empty_store]
  show ?thesis by (simp add: env_def)
qed

end
