(* ===== verification/MarketIntegrity.thy ===== *)
theory MarketIntegrity
  imports PyTime ScanFilters
begin

text \<open>
  The exchange's calendar (\<open>agents/provider/domain/market_calendar.py\<close>): a table of full-day closures,
  and the number of trading sessions between two days, by which the staleness of data and the history
  a run asks for are measured.  A day is its proleptic ordinal.
\<close>

section \<open>The table\<close>

definition nyse_closures :: "(nat \<times> (nat \<times> nat) list) list" where
  "nyse_closures =
     [(2016, [(1, 1), (1, 18), (2, 15), (3, 25), (5, 30), (7, 4), (9, 5), (11, 24), (12, 26)]),
      (2017, [(1, 2), (1, 16), (2, 20), (4, 14), (5, 29), (7, 4), (9, 4), (11, 23), (12, 25)]),
      (2018, [(1, 1), (1, 15), (2, 19), (3, 30), (5, 28), (7, 4), (9, 3), (11, 22), (12, 5), (12, 25)]),
      (2019, [(1, 1), (1, 21), (2, 18), (4, 19), (5, 27), (7, 4), (9, 2), (11, 28), (12, 25)]),
      (2020, [(1, 1), (1, 20), (2, 17), (4, 10), (5, 25), (7, 3), (9, 7), (11, 26), (12, 25)]),
      (2021, [(1, 1), (1, 18), (2, 15), (4, 2), (5, 31), (7, 5), (9, 6), (11, 25), (12, 24)]),
      (2022, [(1, 17), (2, 21), (4, 15), (5, 30), (6, 20), (7, 4), (9, 5), (11, 24), (12, 26)]),
      (2023, [(1, 2), (1, 16), (2, 20), (4, 7), (5, 29), (6, 19), (7, 4), (9, 4), (11, 23), (12, 25)]),
      (2024, [(1, 1), (1, 15), (2, 19), (3, 29), (5, 27), (6, 19), (7, 4), (9, 2), (11, 28), (12, 25)]),
      (2025, [(1, 1), (1, 9), (1, 20), (2, 17), (4, 18), (5, 26), (6, 19), (7, 4), (9, 1), (11, 27), (12, 25)]),
      (2026, [(1, 1), (1, 19), (2, 16), (4, 3), (5, 25), (6, 19), (7, 3), (9, 7), (11, 26), (12, 25)]),
      (2027, [(1, 1), (1, 18), (2, 15), (3, 26), (5, 31), (6, 18), (7, 5), (9, 6), (11, 25), (12, 24)])]"

definition nyse_holidays :: "int list" where
  "nyse_holidays = concat (map (\<lambda>(y, days). map (\<lambda>(m, d). int (ymd2ord y m d)) days) nyse_closures)"

definition calendar_window_end :: int where
  "calendar_window_end = int (ymd2ord (Max (fst ` set nyse_closures)) 12 31)"

section \<open>Sessions\<close>

definition weekday_of :: "int \<Rightarrow> int" where
  "weekday_of day = (day + 6) mod 7"

definition is_trading_session :: "int \<Rightarrow> bool" where
  "is_trading_session day \<longleftrightarrow> weekday_of day < 5 \<and> day \<notin> set nyse_holidays"

function count_sessions :: "int \<Rightarrow> int \<Rightarrow> nat \<Rightarrow> nat" where
  "count_sessions day through count =
     (if day \<le> through
      then count_sessions (day + 1) through (if is_trading_session day then count + 1 else count)
      else count)"
  by pat_completeness auto
termination by (relation "measure (\<lambda>(day, through, count). nat (through + 1 - day))") auto

declare count_sessions.simps [simp del]

definition trading_sessions_between :: "int \<Rightarrow> int \<Rightarrow> nat" where
  "trading_sessions_between after through = count_sessions (after + 1) through 0"

section \<open>Counting\<close>

text \<open>The loop counts the sessions of the interval.\<close>

lemma count_sessions_card:
  "count_sessions day through count = count + card {d \<in> {day..through}. is_trading_session d}"
proof (induction day through count rule: count_sessions.induct)
  case (1 day through count)
  show ?case
  proof (cases "day \<le> through")
    case True
    have split: "{d \<in> {day..through}. is_trading_session d}
        = (if is_trading_session day then {day} else {}) \<union> {d \<in> {day + 1..through}. is_trading_session d}"
    proof -
      have "d \<in> {day..through} \<longleftrightarrow> d = day \<or> d \<in> {day + 1..through}" for d
        using True by auto
      then show ?thesis by auto
    qed
    have "card {d \<in> {day..through}. is_trading_session d}
        = (if is_trading_session day then 1 else 0) + card {d \<in> {day + 1..through}. is_trading_session d}"
      unfolding split by (subst card_Un_disjoint) (auto intro: finite_subset [of _ "{day + 1..through}"])
    then show ?thesis
      using 1 [OF True] True by (subst count_sessions.simps) simp
  next
    case False
    then show ?thesis by (subst count_sessions.simps) simp
  qed
qed

lemma sessions_card: "trading_sessions_between after through = card {d. after < d \<and> d \<le> through \<and> is_trading_session d}"
proof -
  have "{d \<in> {after + 1..through}. is_trading_session d} = {d. after < d \<and> d \<le> through \<and> is_trading_session d}"
    by auto
  then show ?thesis by (simp add: trading_sessions_between_def count_sessions_card)
qed

lemma sessions_finite: "finite {d. after < d \<and> d \<le> through \<and> is_trading_session d}"
  by (rule finite_subset [of _ "{after..through}"]) auto

lemma sessions_add:
  assumes "a \<le> b" "b \<le> c"
  shows "trading_sessions_between a c = trading_sessions_between a b + trading_sessions_between b c"
proof -
  have "{d. a < d \<and> d \<le> c \<and> is_trading_session d}
      = {d. a < d \<and> d \<le> b \<and> is_trading_session d} \<union> {d. b < d \<and> d \<le> c \<and> is_trading_session d}"
    using assms by auto
  then show ?thesis
    unfolding sessions_card
    by (simp add: card_Un_disjoint [OF sessions_finite sessions_finite] disjoint_iff)
qed

lemma sessions_mono: "a \<le> b \<Longrightarrow> trading_sessions_between b c \<le> trading_sessions_between a c"
  unfolding sessions_card by (rule card_mono [OF sessions_finite]) auto

lemma sessions_weekend:
  assumes "\<And>d. after < d \<Longrightarrow> d \<le> through \<Longrightarrow> \<not> is_trading_session d"
  shows "trading_sessions_between after through = 0"
proof -
  have "{d. after < d \<and> d \<le> through \<and> is_trading_session d} = {}"
    using assms by blast
  then have "card {d. after < d \<and> d \<le> through \<and> is_trading_session d} = 0"
    by (simp only: card.empty)
  then show ?thesis by (simp only: sessions_card)
qed

lemma sessions_none: "through \<le> after \<Longrightarrow> trading_sessions_between after through = 0"
  by (rule sessions_weekend) simp

section \<open>Days that are not holidays\<close>

lemma ymd2ord_inj: "valid_date y m d \<Longrightarrow> valid_date y' m' d' \<Longrightarrow> ymd2ord y m d = ymd2ord y' m' d' \<Longrightarrow> (y, m, d) = (y', m', d')"
  using ymd2ord_less [of y m d y' m' d'] ymd2ord_less [of y' m' d' y m d]
  by (metis less_irrefl linorder_neqE_nat)

lemma closures_valid: "\<forall>(y, days) \<in> set nyse_closures. \<forall>(m, d) \<in> set days. valid_date y m d"
  by (simp add: nyse_closures_def valid_date_def is_leap_def)

lemma not_holiday:
  assumes "valid_date y m d" "\<forall>(y', days) \<in> set nyse_closures. y' = y \<longrightarrow> (m, d) \<notin> set days"
  shows "int (ymd2ord y m d) \<notin> set nyse_holidays"
proof
  assume "int (ymd2ord y m d) \<in> set nyse_holidays"
  then obtain y' days m' d' where c: "(y', days) \<in> set nyse_closures" "(m', d') \<in> set days"
    and e: "ymd2ord y m d = ymd2ord y' m' d'"
    by (auto simp: nyse_holidays_def)
  from ymd2ord_inj [OF assms(1) _ e] closures_valid c have "(y, m, d) = (y', m', d')" by blast
  then show False using assms(2) c by auto
qed

text \<open>
  What the provider does to a payload before anyone reads it (\<open>agents/provider/domain/\<close>: \<open>integrity.py\<close>,
  \<open>regime.py\<close>; \<open>settings.py\<close>, \<open>regime_arithmetic.py\<close>, \<open>contracts/provider.py\<close>): invalid bars are
  dropped with a note, a ticker whose newest bar is an outlier of its session is excluded, what is stale
  or missing is named, and the volatility index is mapped to a regime.

  Prices are exact numbers, so that a non-finite one does not occur; the square root of a variance is a
  parameter, \<open>sq\<close>.
\<close>

section \<open>Settings and payloads\<close>

record provider_settings =
  pvs_base_min_confidence :: rat
  pvs_base_stop_loss_pct :: rat
  pvs_base_take_profit_pct :: rat
  pvs_base_max_holding_days :: int
  pvs_max_daily_move_sigma :: rat
  pvs_max_staleness_days :: nat
  pvs_barrier_history_sessions :: nat
  pvs_vix_risk_on :: rat
  pvs_vix_risk_off :: rat
  pvs_vix_high :: rat
  pvs_vix_extreme :: rat
  pvs_ingest_chunk_size :: nat
  pvs_ingest_ohlcv_only :: bool
  pvs_earnings_lookahead_days :: int

definition provider_settings_valid :: "provider_settings \<Rightarrow> bool" where
  "provider_settings_valid st \<longleftrightarrow>
     0 \<le> pvs_base_min_confidence st \<and> pvs_base_min_confidence st \<le> 1
     \<and> 0 \<le> pvs_base_stop_loss_pct st \<and> pvs_base_stop_loss_pct st \<le> 8 / 100
     \<and> 1 / 100 \<le> pvs_base_take_profit_pct st \<and> pvs_base_take_profit_pct st \<le> 1
     \<and> 1 \<le> pvs_base_max_holding_days st \<and> pvs_base_max_holding_days st \<le> 60
     \<and> 1 / 10 \<le> pvs_max_daily_move_sigma st \<and> pvs_max_daily_move_sigma st \<le> 20
     \<and> pvs_max_staleness_days st \<le> 30
     \<and> 252 \<le> pvs_barrier_history_sessions st \<and> pvs_barrier_history_sessions st \<le> 2520
     \<and> 0 \<le> pvs_vix_risk_on st \<and> pvs_vix_risk_on st \<le> 100 \<and> 0 \<le> pvs_vix_risk_off st \<and> pvs_vix_risk_off st \<le> 100
     \<and> 0 \<le> pvs_vix_high st \<and> pvs_vix_high st \<le> 100 \<and> 0 \<le> pvs_vix_extreme st \<and> pvs_vix_extreme st \<le> 150"

record data_quality =
  dq_requested :: nat
  dq_returned :: nat
  dq_used_fallback :: bool
  dq_stale :: "string list"
  dq_anomalous :: "string list"
  dq_notes :: "string list"

section \<open>Bars\<close>

text \<open>
  Exact rationals have no infinity and no NaN: that a price of the bar is no finite number is a test of its
  own, given as \<open>non_finite\<close>, and such a bar is judged no further.
\<close>

definition bar_fault :: "(ohlcv_bar \<Rightarrow> bool) \<Rightarrow> ohlcv_bar \<Rightarrow> string option" where
  "bar_fault non_finite b =
     (if non_finite b then Some ''non_finite_price_rejected''
      else if bar_volume b < 0 \<or> Min {bar_open b, bar_high b, bar_low b, bar_close b} \<le> 0
      then Some ''invalid_ohlcv_rejected''
      else if bar_high b < max (bar_open b) (bar_close b) \<or> min (bar_open b) (bar_close b) < bar_low b
      then Some ''inconsistent_ohlcv_rejected''
      else None)"

definition valid_bars :: "(ohlcv_bar \<Rightarrow> bool) \<Rightarrow> ohlcv_bar list \<Rightarrow> ohlcv_bar list" where
  "valid_bars non_finite bars = filter (\<lambda>b. bar_fault non_finite b = None) bars"

definition bar_notes :: "(ohlcv_bar \<Rightarrow> bool) \<Rightarrow> ohlcv_bar list \<Rightarrow> string list" where
  "bar_notes non_finite bars = List.map_filter (bar_fault non_finite) bars"

text \<open>\<open>latest[ticker] = max(latest.get(ticker, date.min), day)\<close>, over the bars.\<close>

definition newest_days :: "ohlcv_bar list \<Rightarrow> (string, int) dict" where
  "newest_days bars =
     fold (\<lambda>b d. dict_set (bar_ticker b)
         (max (case dict_get d (bar_ticker b) of None \<Rightarrow> 1 | Some day \<Rightarrow> day) (bar_date b)) d) bars []"

section \<open>Outliers\<close>

definition day_move :: "ohlcv_bar \<Rightarrow> rat" where
  "day_move b = (bar_close b - bar_open b) / bar_open b"

definition outliers :: "(rat \<Rightarrow> rat) \<Rightarrow> (string \<times> rat) list \<Rightarrow> rat \<Rightarrow> string list" where
  "outliers sq moves max_sigma =
     (if length moves < 2 then []
      else
        let returns = map snd moves; sigma = pstdev sq returns
        in if sigma = 0 then []
           else let center = mean returns; limit = max_sigma * sigma
                in map fst (filter (\<lambda>(t, v). limit < \<bar>v - center\<bar>) moves))"

definition session_moves :: "ohlcv_bar list \<Rightarrow> (int, (string \<times> rat) list) dict" where
  "session_moves bars =
     fold (\<lambda>b d. dict_set (bar_date b)
         ((case dict_get d (bar_date b) of None \<Rightarrow> [] | Some ms \<Rightarrow> ms) @ [(bar_ticker b, day_move b)]) d) bars []"

text \<open>The set of tickers, here as their list.\<close>

definition anomalous_tickers :: "(rat \<Rightarrow> rat) \<Rightarrow> ohlcv_bar list \<Rightarrow> rat \<Rightarrow> string list" where
  "anomalous_tickers sq bars max_sigma =
     (let newest = newest_days bars; sessions = session_moves bars
      in remdups (concat (map (\<lambda>day.
           filter (\<lambda>t. dict_get newest t = Some day)
             (outliers sq (case dict_get sessions day of None \<Rightarrow> [] | Some ms \<Rightarrow> ms) max_sigma))
         (remdups (map snd newest)))))"

section \<open>Staleness\<close>

definition stale_tickers :: "string list \<Rightarrow> ohlcv_bar list \<Rightarrow> int \<Rightarrow> nat \<Rightarrow> string list" where
  "stale_tickers tickers bars window_end max_staleness =
     (let latest = newest_days bars
      in filter (\<lambda>t. case dict_get latest t of None \<Rightarrow> True
                     | Some day \<Rightarrow> max_staleness < trading_sessions_between day window_end) (remdups tickers))"

section \<open>The whole payload\<close>

text \<open>\<open>tuple(dict.fromkeys(xs))\<close>, which keeps the first of equal entries.\<close>

definition first_of_each :: "'a list \<Rightarrow> 'a list" where
  "first_of_each xs = rev (remdups (rev xs))"

definition validate_bars ::
  "(rat \<Rightarrow> rat) \<Rightarrow> (ohlcv_bar \<Rightarrow> bool) \<Rightarrow> string list \<Rightarrow> ohlcv_bar list \<Rightarrow> int \<Rightarrow> provider_settings
   \<Rightarrow> ohlcv_bar list \<times> data_quality" where
  "validate_bars sq non_finite tickers bars window_end st =
     (let valid = valid_bars non_finite bars;
          anomalous = anomalous_tickers sq valid (pvs_max_daily_move_sigma st);
          stale = stale_tickers tickers valid window_end (pvs_max_staleness_days st);
          notes = bar_notes non_finite bars @ (if stale = [] then [] else [''stale_or_missing_tickers'']);
          delivered = filter (\<lambda>b. bar_ticker b \<notin> set anomalous) valid;
          returned = length (filter (\<lambda>t. t \<in> bar_ticker ` set delivered) tickers)
      in (delivered,
          \<lparr>dq_requested = length tickers, dq_returned = returned,
           dq_used_fallback = (notes \<noteq> [] \<or> returned = 0),
           dq_stale = sort stale, dq_anomalous = sort anomalous, dq_notes = first_of_each notes\<rparr>))"

definition degraded_quality :: "string list \<Rightarrow> string \<Rightarrow> data_quality" where
  "degraded_quality tickers note =
     \<lparr>dq_requested = length tickers, dq_returned = 0, dq_used_fallback = True,
      dq_stale = sort tickers, dq_anomalous = [], dq_notes = [note]\<rparr>"

section \<open>The regime\<close>

datatype regime_label = Neutral | ExtremeVolatility | HighVolatility | RiskOff | RiskOn

fun regime_label_text :: "regime_label \<Rightarrow> string" where
  "regime_label_text Neutral = ''neutral''"
| "regime_label_text ExtremeVolatility = ''extreme_volatility''"
| "regime_label_text HighVolatility = ''high_volatility''"
| "regime_label_text RiskOff = ''risk_off''"
| "regime_label_text RiskOn = ''risk_on''"

definition classify_regime :: "rat option \<Rightarrow> provider_settings \<Rightarrow> regime_label" where
  "classify_regime vix st =
     (case vix of
        None \<Rightarrow> Neutral
      | Some v \<Rightarrow>
          if pvs_vix_extreme st \<le> v then ExtremeVolatility
          else if pvs_vix_high st \<le> v then HighVolatility
          else if pvs_vix_risk_off st \<le> v then RiskOff
          else if v \<le> pvs_vix_risk_on st then RiskOn
          else Neutral)"

end
