(* ===== verification/ProviderAgent.thy ===== *)
theory ProviderAgent
  imports MarketIntegrity AnalystDecide ClaimCheck
begin

text \<open>
  The provider's answers (\<open>agents/provider/agent.py\<close>, \<open>market_fields.py\<close>, \<open>store.py\<close>,
  \<open>regime_arithmetic.py\<close>, \<open>contracts/feed_notes.py\<close>): bars fetched and vetted, the optional fields each
  behind a fault boundary of its own, the regime, and the artifacts written for them.

  The data sources are steps of the environment: what they answer or raise, and the notes they leave.
\<close>

section \<open>Payloads\<close>

record data_request_of =
  drq_tickers :: "string list"
  drq_window :: "int \<times> int"
  drq_fields :: "string list"
  drq_benchmark :: "string option"

datatype vix_status = VixMeasured | VixPriorSession | VixMissing

fun vix_status_text :: "vix_status \<Rightarrow> string" where
  "vix_status_text VixMeasured = ''measured''"
| "vix_status_text VixPriorSession = ''prior_session''"
| "vix_status_text VixMissing = ''missing''"

record regime_inputs =
  rin_as_of :: int
  rin_vix :: "rat option"
  rin_status :: vix_status
  rin_vix_as_of :: "int option"
  rin_reason :: "string option"

record vix_thresholds =
  vth_risk_on_at_or_below :: rat
  vth_risk_off_from :: rat
  vth_high_from :: rat
  vth_extreme_from :: rat

record provider_market = market_snapshot +
  pmk_quality :: data_quality

record provider_regime = market_regime +
  prg_vix :: "rat option"
  prg_status :: vix_status
  prg_vix_as_of :: "int option"
  prg_as_of :: timestamp
  prg_max_holding_days :: int
  prg_thresholds :: vix_thresholds

section \<open>The environment\<close>

record 'w provider_env = "'w agent_env" +
  pe_settings :: provider_settings
  pe_sqrt :: "rat \<Rightarrow> rat"
  pe_non_finite :: "ohlcv_bar \<Rightarrow> bool"
  pe_ohlcv :: "string list \<Rightarrow> int \<times> int \<Rightarrow> ('w, ohlcv_bar list) step"
  pe_fundamentals :: "string list \<Rightarrow> int \<times> int \<Rightarrow> ('w, (string, (string, rat) dict) dict) step"
  pe_news :: "string list \<Rightarrow> int \<times> int \<Rightarrow> ('w, (string, string list) dict) step"
  pe_sentiment :: "string list \<Rightarrow> ('w, (string, rat) dict) step"
  pe_sectors :: "string list \<Rightarrow> ('w, (string, string) dict) step"
  pe_earnings :: "string list \<Rightarrow> int \<times> int \<Rightarrow> ('w, (string, int) dict) step"
  pe_regime_inputs :: "int \<Rightarrow> ('w, regime_inputs) step"
  pe_drain_notes :: "'w \<Rightarrow> 'w \<times> string list"
  pe_sleep :: "'w \<Rightarrow> 'w"
  pe_digest :: "string \<Rightarrow> string"
  pe_json_time :: "timestamp \<Rightarrow> string"
  pe_regime_text :: "regime_inputs \<Rightarrow> string"

section \<open>Feed notes\<close>

definition degraded_feed_name :: "string \<Rightarrow> string option" where
  "degraded_feed_name note =
     (let head = takeWhile (\<lambda>c. c \<noteq> CHR '':'') note; n = length head - length ''_degraded''
      in if length ''_degraded'' \<le> length head \<and> drop n head = ''_degraded'' then Some (take n head) else None)"

definition is_degraded_feed_note :: "string \<Rightarrow> bool" where
  "is_degraded_feed_note note \<longleftrightarrow> degraded_feed_name note \<noteq> None"

section \<open>Optional fields\<close>

definition fetch_optional ::
  "('w, 'x) provider_env_scheme \<Rightarrow> bool \<Rightarrow> ('w, 'a) step \<Rightarrow> 'a \<Rightarrow> string \<Rightarrow> data_quality
   \<Rightarrow> ('w, 'a \<times> data_quality) step" where
  "fetch_optional env requested fetch dflt note q =
     (if \<not> requested then step_return (dflt, q)
      else
        step_bind (captured env ''provider'' ''agents.provider.market_fields'' ''get_market_data'' fetch) (\<lambda>found w.
          (case found of
             None \<Rightarrow> (w, Inr (dflt, q\<lparr>dq_notes := dq_notes q @ [note]\<rparr>))
           | Some v \<Rightarrow>
               (case pe_drain_notes env w of
                  (w1, notes) \<Rightarrow>
                    (w1, Inr (v, if notes = [] then q
                                 else q\<lparr>dq_notes := first_of_each (dq_notes q @ notes)\<rparr>))))))"

record optional_fields =
  opf_fundamentals :: "(string, (string, rat) dict) dict"
  opf_news :: "(string, string list) dict"
  opf_sentiment :: "(string, rat) dict"
  opf_sectors :: "(string, string) dict"
  opf_earnings :: "(string, int) dict"
  opf_earnings_horizon :: "int option"
  opf_benchmark :: "ohlcv_bar list"
  opf_quality :: data_quality

definition earnings_horizon :: "string list \<Rightarrow> data_quality \<Rightarrow> int option \<Rightarrow> int option" where
  "earnings_horizon wanted q lookahead =
     (if ''earnings_calendar'' \<notin> set wanted \<or> lookahead = None then None
      else if list_ex (\<lambda>n. degraded_feed_name n = Some ''earnings'') (dq_notes q) then None
      else lookahead)"

definition collect_optional_fields ::
  "('w, 'x) provider_env_scheme \<Rightarrow> data_request_of \<Rightarrow> data_quality \<Rightarrow> ('w, optional_fields) step" where
  "collect_optional_fields env rq q =
     (let ts = drq_tickers rq; window = drq_window rq; wanted = drq_fields rq
      in step_bind (fetch_optional env (''fundamentals'' \<in> set wanted) (pe_fundamentals env ts window) []
             ''fundamentals_degraded'' q) (\<lambda>(fundamentals, q).
         step_bind (fetch_optional env (''news'' \<in> set wanted) (pe_news env ts window) [] ''news_degraded'' q)
           (\<lambda>(news, q).
         step_bind (fetch_optional env (''sentiment'' \<in> set wanted) (pe_sentiment env ts) []
             ''sentiment_degraded'' q) (\<lambda>(sentiment, q).
         step_bind (fetch_optional env (''sectors'' \<in> set wanted) (pe_sectors env ts) [] ''sectors_degraded'' q)
           (\<lambda>(sectors, q).
         step_bind (fetch_optional env (''earnings_calendar'' \<in> set wanted) (pe_earnings env ts window) []
             ''earnings_degraded'' q) (\<lambda>(earnings, q).
         step_bind (case drq_benchmark rq of
             None \<Rightarrow> step_return ([], q)
           | Some b \<Rightarrow> fetch_optional env (''benchmark'' \<in> set wanted) (pe_ohlcv env [b] window) []
                         ''benchmark_degraded'' q) (\<lambda>(benchmark, q).
           step_return \<lparr>opf_fundamentals = fundamentals, opf_news = news, opf_sentiment = sentiment,
             opf_sectors = sectors, opf_earnings = earnings,
             opf_earnings_horizon = earnings_horizon wanted q (Some (pvs_earnings_lookahead_days (pe_settings env))),
             opf_benchmark = benchmark, opf_quality = q\<rparr>)))))))"

section \<open>Artifacts\<close>

definition market_props :: "timestamp \<Rightarrow> string list \<Rightarrow> ohlcv_bar list \<Rightarrow> data_quality \<Rightarrow> props" where
  "market_props now tickers bars q =
     [(''tickers'', json_strs tickers), (''bar_count'', PInt (int (length bars))),
      (''requested'', PInt (int (dq_requested q))), (''returned'', PInt (int (dq_returned q))),
      (''used_fallback'', PBool (dq_used_fallback q)), (''created_at'', PStr (isoformat now))]"

definition write_ticker :: "('w, 'x) graph_env_scheme \<Rightarrow> gnode \<Rightarrow> string \<Rightarrow> ('w, unit) step" where
  "write_ticker env snapshot ticker =
     step_bind (ge_merge env ''Ticker'' ticker [(''symbol'', PStr ticker)]) (\<lambda>n.
       ge_edge env snapshot n ''CONTAINS_TICKER'')"

definition write_market_snapshot ::
  "('w, 'x) agent_env_scheme \<Rightarrow> string list \<Rightarrow> ohlcv_bar list \<Rightarrow> data_quality \<Rightarrow> ('w, provenance) step" where
  "write_market_snapshot env tickers bars q w =
     (let run_id = ''provider-market-'' @ ag_hex env w
      in step_bind (ge_merge env ''MarketSnapshot'' run_id (market_props (ge_wall env w) tickers bars q)) (\<lambda>n.
         step_bind (step_each (write_ticker env n) tickers) (\<lambda>_.
           step_return (run_provenance ''provider'' run_id n
             (if dq_used_fallback q then [''market_data_degraded''] else [])))) w)"

definition write_regime ::
  "('w, 'x) agent_env_scheme \<Rightarrow> string \<Rightarrow> rat option \<Rightarrow> timestamp \<Rightarrow> string list \<Rightarrow> ('w, provenance) step" where
  "write_regime env label vix as_of incidents w =
     (let run_id = ''provider-regime-'' @ ag_hex env w
      in step_bind (ge_merge env ''Regime'' run_id
             [(''label'', PStr label), (''vix'', none_or PFloat vix), (''as_of'', PStr (isoformat as_of))]) (\<lambda>n.
           step_return (run_provenance ''provider'' run_id n incidents)) w)"

section \<open>The handlers\<close>

definition vetted ::
  "('w, 'x) provider_env_scheme \<Rightarrow> data_request_of \<Rightarrow> ohlcv_bar list option \<Rightarrow> ohlcv_bar list \<times> data_quality" where
  "vetted env rq found =
     (case found of
        None \<Rightarrow> ([], degraded_quality (drq_tickers rq) ''source_unavailable'')
      | Some bars \<Rightarrow> validate_bars (pe_sqrt env) (pe_non_finite env) (drq_tickers rq) bars (snd (drq_window rq)) (pe_settings env))"

definition get_market_data ::
  "('w, 'x) provider_env_scheme \<Rightarrow> data_request_of \<Rightarrow> ('w, provider_market) step" where
  "get_market_data env rq =
     step_bind (captured env ''provider'' ''agents.provider.agent'' ''get_market_data''
         (pe_ohlcv env (drq_tickers rq) (drq_window rq))) (\<lambda>found.
       (case vetted env rq found of
          (bars, q) \<Rightarrow>
            step_bind (collect_optional_fields env rq q) (\<lambda>opf.
            step_bind (write_market_snapshot env (drq_tickers rq) bars (opf_quality opf)) (\<lambda>pv.
              step_return
                \<lparr>mkt_bars = bars, mkt_sectors = opf_sectors opf, mkt_used_fallback = dq_used_fallback (opf_quality opf),
                 mkt_provenance = pv, mkt_earnings_horizon = opf_earnings_horizon opf,
                 mkt_benchmark = opf_benchmark opf, mkt_fundamentals = opf_fundamentals opf, mkt_news = opf_news opf,
                 mkt_sentiment = opf_sentiment opf, mkt_earnings = opf_earnings opf,
                 pmk_quality = opf_quality opf\<rparr>))))"

definition record_thresholds :: "provider_settings \<Rightarrow> vix_thresholds" where
  "record_thresholds st =
     \<lparr>vth_risk_on_at_or_below = pvs_vix_risk_on st, vth_risk_off_from = pvs_vix_risk_off st,
      vth_high_from = pvs_vix_high st, vth_extreme_from = pvs_vix_extreme st\<rparr>"

definition midnight_utc :: "int \<Rightarrow> timestamp" where
  "midnight_utc day =
     (case ord2ymd (nat day) of
        (y, m, d) \<Rightarrow> \<lparr>ts_year = y, ts_month = m, ts_day = d, ts_hour = 0, ts_minute = 0, ts_second = 0, ts_micro = 0,
                      ts_offset = Some 0\<rparr>)"

definition vix_shortfall :: "timestamp \<Rightarrow> regime_inputs \<Rightarrow> agent_fault" where
  "vix_shortfall now inputs =
     (let reason = (case rin_reason inputs of None \<Rightarrow> vix_status_text (rin_status inputs)
                    | Some r \<Rightarrow> if r = [] then vix_status_text (rin_status inputs) else r)
      in \<lparr>flt_occurred_at = now, flt_agent = ''provider'', flt_module = ''agents.provider.agent'',
          flt_capability = Some ''get_regime'', flt_severity = Warning, flt_error_type = ''RegimeVixShortfall'',
          flt_message = ''regime VIX '' @ vix_status_text (rin_status inputs) @ '': '' @ reason,
          flt_correlation_id = None,
          flt_context = [(''as_of'', PStr (date_text (nat (rin_as_of inputs)))),
            (''vix_status'', PStr (vix_status_text (rin_status inputs))),
            (''vix_as_of'', none_or (\<lambda>d. PStr (date_text (nat d))) (rin_vix_as_of inputs)),
            (''reason'', PStr reason)]\<rparr>)"

definition regime_of ::
  "provider_settings \<Rightarrow> regime_inputs \<Rightarrow> provenance \<Rightarrow> provider_regime" where
  "regime_of st inputs pv =
     \<lparr>rc_base_stop_loss_pct = pvs_base_stop_loss_pct st, rc_base_take_profit_pct = pvs_base_take_profit_pct st,
      rc_provenance = pv, rg_label = regime_label_text (classify_regime (rin_vix inputs) st),
      rg_min_confidence = pvs_base_min_confidence st, prg_vix = rin_vix inputs, prg_status = rin_status inputs,
      prg_vix_as_of = rin_vix_as_of inputs, prg_as_of = midnight_utc (rin_as_of inputs),
      prg_max_holding_days = pvs_base_max_holding_days st, prg_thresholds = record_thresholds st\<rparr>"

definition opt_neg :: "rat option \<Rightarrow> bool" where
  "opt_neg v \<longleftrightarrow> (case v of None \<Rightarrow> False | Some x \<Rightarrow> x < 0)"

definition get_regime :: "('w, 'x) provider_env_scheme \<Rightarrow> int \<Rightarrow> ('w, provider_regime) step" where
  "get_regime env as_of =
     step_bind (captured env ''provider'' ''agents.provider.agent'' ''get_regime'' (pe_regime_inputs env as_of)) (\<lambda>found.
       let st = pe_settings env;
           inputs = (case found of
               None \<Rightarrow> \<lparr>rin_as_of = as_of, rin_vix = None, rin_status = VixMissing, rin_vix_as_of = None, rin_reason = None\<rparr>
             | Some i \<Rightarrow> i)
       in step_bind (\<lambda>w. ((if found \<noteq> None \<and> rin_status inputs \<noteq> VixMeasured
                           then ag_submit env w (vix_shortfall (ge_wall env w) inputs) else w), Inr ())) (\<lambda>_.
          step_bind (write_regime env (regime_label_text (classify_regime (rin_vix inputs) st)) (rin_vix inputs)
              (midnight_utc (rin_as_of inputs)) (if found = None then [''regime_source_degraded''] else [])) (\<lambda>pv.
            if opt_neg (rin_vix inputs)
            then step_res (Inl (PyExn ''ValidationError'' (pe_regime_text env inputs)))
            else step_return (regime_of st inputs pv))))"

text \<open>
  The provider's ingest (\<open>agents/provider/ingest.py\<close>, \<open>ingest_chunked.py\<close>, \<open>sector_cache.py\<close>,
  \<open>poll.py\<close>): one run request is served by one \<open>MarketData\<close> node and one \<open>RegimeContext\<close> node keyed by
  the run, fetched whole or in paced chunks, with the sectors the graph remembers.
\<close>

section \<open>JSON forms\<close>

definition day_json :: "int \<Rightarrow> pyval" where
  "day_json day = PStr (date_text (nat day))"

definition bar_json :: "ohlcv_bar \<Rightarrow> pyval" where
  "bar_json b =
     PDict [(''ticker'', PStr (bar_ticker b)), (''bar_date'', day_json (bar_date b)), (''open'', PFloat (bar_open b)),
       (''high'', PFloat (bar_high b)), (''low'', PFloat (bar_low b)), (''close'', PFloat (bar_close b)),
       (''volume'', PInt (bar_volume b))]"

definition dict_json :: "('a \<Rightarrow> pyval) \<Rightarrow> (string, 'a) dict \<Rightarrow> pyval" where
  "dict_json f d = PDict (map (\<lambda>(k, v). (k, f v)) d)"

definition quality_json :: "data_quality \<Rightarrow> pyval" where
  "quality_json q =
     PDict [(''requested'', PInt (int (dq_requested q))), (''returned'', PInt (int (dq_returned q))),
       (''used_fallback'', PBool (dq_used_fallback q)), (''stale_tickers'', json_strs (dq_stale q)),
       (''anomalous_tickers'', json_strs (dq_anomalous q)), (''notes'', json_strs (dq_notes q))]"

definition market_json :: "provider_market \<Rightarrow> pyval" where
  "market_json m =
     PDict [(''bars'', PList (map bar_json (mkt_bars m))),
       (''earnings_horizon_days'', none_or PInt (mkt_earnings_horizon m)),
       (''benchmark'', PList (map bar_json (mkt_benchmark m))),
       (''fundamentals'', dict_json (dict_json PFloat) (mkt_fundamentals m)),
       (''news'', dict_json json_strs (mkt_news m)), (''sentiment'', dict_json PFloat (mkt_sentiment m)),
       (''sectors'', dict_json PStr (mkt_sectors m)), (''earnings'', dict_json day_json (mkt_earnings m)),
       (''quality'', quality_json (pmk_quality m)), (''provenance'', provenance_json (mkt_provenance m))]"

definition thresholds_json :: "vix_thresholds \<Rightarrow> pyval" where
  "thresholds_json t =
     PDict [(''risk_on_at_or_below'', PFloat (vth_risk_on_at_or_below t)), (''risk_off_from'', PFloat (vth_risk_off_from t)),
       (''high_volatility_from'', PFloat (vth_high_from t)), (''extreme_volatility_from'', PFloat (vth_extreme_from t))]"

definition regime_json :: "(timestamp \<Rightarrow> string) \<Rightarrow> provider_regime \<Rightarrow> pyval" where
  "regime_json time_text r =
     PDict [(''label'', PStr (rg_label r)), (''vix'', none_or PFloat (prg_vix r)),
       (''vix_status'', PStr (vix_status_text (prg_status r))), (''vix_as_of'', none_or day_json (prg_vix_as_of r)),
       (''as_of'', PStr (time_text (prg_as_of r))), (''base_min_confidence'', PFloat (rg_min_confidence r)),
       (''base_stop_loss_pct'', PFloat (rc_base_stop_loss_pct r)),
       (''base_take_profit_pct'', PFloat (rc_base_take_profit_pct r)),
       (''base_max_holding_days'', PInt (prg_max_holding_days r)), (''vix_thresholds'', thresholds_json (prg_thresholds r)),
       (''provenance'', provenance_json (rc_provenance r))]"

section \<open>Sectors\<close>

definition sector_key :: "string \<Rightarrow> string" where
  "sector_key ticker = ''sector:'' @ ticker"

definition remember_sector :: "('w, 'x) graph_env_scheme \<Rightarrow> string \<times> string \<Rightarrow> ('w, unit) step" where
  "remember_sector env = (\<lambda>(ticker, sector) w.
     (case gp_get (ge_port env) w ''Sector'' (sector_key ticker) of
        None \<Rightarrow> step_forget (ge_merge env ''Sector'' (sector_key ticker)
                   [(''ticker'', PStr ticker), (''sector'', PStr sector)]) w
      | Some n \<Rightarrow> step_return () w))"

fun fill_sectors ::
  "('w, 'x) graph_env_scheme \<Rightarrow> string list \<Rightarrow> (string, string) dict \<Rightarrow> ('w, (string, string) dict) step" where
  "fill_sectors env [] merged w = (w, Inr merged)"
| "fill_sectors env (ticker # tickers) merged w =
     (if dict_get merged ticker \<noteq> None then fill_sectors env tickers merged w
      else (case gp_get (ge_port env) w ''Sector'' (sector_key ticker) of
              None \<Rightarrow> fill_sectors env tickers merged w
            | Some n \<Rightarrow>
                (case prop_at (gn_props n) ''sector'' of
                   Inl e \<Rightarrow> (w, Inl e)
                 | Inr v \<Rightarrow> fill_sectors env tickers
                              (dict_set ticker (py_str (ge_float_text env) v) merged) w)))"

definition resolve_sectors ::
  "('w, 'x) graph_env_scheme \<Rightarrow> (string, string) dict \<Rightarrow> string list \<Rightarrow> ('w, (string, string) dict) step" where
  "resolve_sectors env live universe =
     step_bind (step_each (remember_sector env) live) (\<lambda>_. fill_sectors env universe live)"

definition with_cached_sectors ::
  "('w, 'x) graph_env_scheme \<Rightarrow> provider_market \<Rightarrow> string list \<Rightarrow> ('w, provider_market) step" where
  "with_cached_sectors env m universe =
     step_bind (resolve_sectors env (mkt_sectors m) universe) (\<lambda>d. step_return (m\<lparr>mkt_sectors := d\<rparr>))"

section \<open>The ingest\<close>

definition market_fields :: "string list" where
  "market_fields = [''ohlcv'', ''news'', ''fundamentals'', ''sectors'', ''earnings_calendar'']"

definition with_benchmark_field :: "string list \<Rightarrow> string option \<Rightarrow> string list" where
  "with_benchmark_field wanted benchmark =
     (case benchmark of
        None \<Rightarrow> wanted
      | Some b \<Rightarrow> if b = [] \<or> ''benchmark'' \<in> set wanted then wanted else wanted @ [''benchmark''])"

definition ingest_fields :: "provider_settings \<Rightarrow> string option \<Rightarrow> string list" where
  "ingest_fields st benchmark =
     with_benchmark_field (if pvs_ingest_ohlcv_only st then [''ohlcv''] else market_fields) benchmark"

definition run_window :: "timestamp \<Rightarrow> int \<Rightarrow> int option \<Rightarrow> (int \<times> int) res" where
  "run_window now lookback as_of =
     (let last_day = (case as_of of None \<Rightarrow> day_of now | Some day \<Rightarrow> day)
      in if last_day - lookback < 1 then Inl (PyExn ''OverflowError'' ''date value out of range'')
         else Inr (last_day - lookback, last_day))"

definition market_data_key :: "string \<Rightarrow> string" where
  "market_data_key run_id = ''market-data:'' @ run_id"

definition write_market_data ::
  "('w, 'x) graph_env_scheme \<Rightarrow> provider_market \<Rightarrow> string list \<Rightarrow> int \<times> int \<Rightarrow> string \<Rightarrow> ('w, unit) step" where
  "write_market_data env m universe window run_id =
     step_forget (ge_merge env ''MarketData'' (market_data_key run_id)
       [(''snapshot'', market_json m), (''tickers'', json_strs universe), (''window_end'', day_json (snd window)),
        (''run_id'', PStr run_id)])"

definition write_regime_context ::
  "('w, 'x) provider_env_scheme \<Rightarrow> provider_regime \<Rightarrow> int \<times> int \<Rightarrow> string \<Rightarrow> ('w, unit) step" where
  "write_regime_context env r window run_id =
     step_forget (ge_merge env ''RegimeContext'' (''regime-context:'' @ run_id)
       [(''snapshot'', regime_json (pe_json_time env) r), (''window_end'', day_json (snd window)),
        (''run_id'', PStr run_id)])"

text \<open>What both ways of fetching end with: the two nodes of the run.\<close>

definition write_run ::
  "('w, 'x) provider_env_scheme \<Rightarrow> provider_market \<Rightarrow> string list \<Rightarrow> int \<times> int \<Rightarrow> string \<Rightarrow> ('w, string) step" where
  "write_run env m universe window run_id =
     step_bind (with_cached_sectors env m universe) (\<lambda>m.
     step_bind (write_market_data env m universe window run_id) (\<lambda>_.
     step_bind (get_regime env (snd window)) (\<lambda>r.
     step_bind (write_regime_context env r window run_id) (\<lambda>_.
       step_return (market_data_key run_id)))))"

section \<open>Chunks\<close>

function chunks :: "'a list \<Rightarrow> nat \<Rightarrow> 'a list list" where
  "chunks xs n = (if xs = [] then [] else take (max 1 n) xs # chunks (drop (max 1 n) xs) n)"
  by pat_completeness auto
termination by (relation "measure (\<lambda>(xs, n). length xs)") auto

declare chunks.simps [simp del]

fun fetch_chunks ::
  "('w, 'x) provider_env_scheme \<Rightarrow> string list list \<Rightarrow> int \<times> int \<Rightarrow> string list \<Rightarrow> string option
   \<Rightarrow> ('w, provider_market list) step" where
  "fetch_chunks env [] window wanted benchmark = step_return []"
| "fetch_chunks env (c # cs) window wanted benchmark =
     step_bind (get_market_data env \<lparr>drq_tickers = c, drq_window = window, drq_fields = wanted, drq_benchmark = benchmark\<rparr>)
       (\<lambda>part.
     step_bind (\<lambda>w. ((if cs = [] then w else pe_sleep env w), Inr ())) (\<lambda>_.
     step_bind (fetch_chunks env cs window wanted None) (\<lambda>parts.
       step_return (part # parts))))"

definition optional_notes :: "provider_market list \<Rightarrow> string list" where
  "optional_notes parts = first_of_each (filter is_degraded_feed_note (concat (map (dq_notes \<circ> pmk_quality) parts)))"

definition merge_dicts :: "(string, 'a) dict list \<Rightarrow> (string, 'a) dict" where
  "merge_dicts ds = fold (\<lambda>(k, v) d. dict_set k v d) (concat ds) []"

definition merged_earnings_horizon :: "provider_market list \<Rightarrow> int option" where
  "merged_earnings_horizon parts =
     (case remdups (map mkt_earnings_horizon parts) of [h] \<Rightarrow> h | _ \<Rightarrow> None)"

definition merged_quality :: "data_quality \<Rightarrow> provider_market list \<Rightarrow> data_quality" where
  "merged_quality q parts = q\<lparr>dq_notes := first_of_each (dq_notes q @ optional_notes parts)\<rparr>"

definition merge_parts ::
  "('w, 'x) provider_env_scheme \<Rightarrow> provider_market list \<Rightarrow> string list \<Rightarrow> int \<times> int \<Rightarrow> ('w, provider_market) step" where
  "merge_parts env parts universe window =
     (case validate_bars (pe_sqrt env) (pe_non_finite env) universe (concat (map mkt_bars parts)) (snd window) (pe_settings env) of
        (bars, q0) \<Rightarrow>
          (let q = merged_quality q0 parts
           in step_bind (write_market_snapshot env universe bars q) (\<lambda>pv.
                step_return
                  \<lparr>mkt_bars = bars, mkt_sectors = merge_dicts (map mkt_sectors parts),
                   mkt_used_fallback = dq_used_fallback q, mkt_provenance = pv,
                   mkt_earnings_horizon = merged_earnings_horizon parts,
                   mkt_benchmark = (case find (\<lambda>p. mkt_benchmark p \<noteq> []) parts of None \<Rightarrow> [] | Some p \<Rightarrow> mkt_benchmark p),
                   mkt_fundamentals = merge_dicts (map mkt_fundamentals parts),
                   mkt_news = merge_dicts (map mkt_news parts), mkt_sentiment = merge_dicts (map mkt_sentiment parts),
                   mkt_earnings = merge_dicts (map mkt_earnings parts), pmk_quality = q\<rparr>)))"

definition ingest_chunked ::
  "('w, 'x) provider_env_scheme \<Rightarrow> string list \<Rightarrow> string \<Rightarrow> string list \<Rightarrow> int \<Rightarrow> string option \<Rightarrow> int option
   \<Rightarrow> ('w, string option) step" where
  "ingest_chunked env universe run_id wanted lookback benchmark as_of w =
     (if universe = [] then (w, Inr None)
      else
        step_bind (step_res (run_window (ge_wall env w) lookback as_of)) (\<lambda>window.
        step_bind (fetch_chunks env (chunks universe (pvs_ingest_chunk_size (pe_settings env))) window
            (with_benchmark_field wanted benchmark) benchmark) (\<lambda>parts.
        step_bind (merge_parts env parts universe window) (\<lambda>m.
        step_bind (write_run env m universe window run_id) (\<lambda>key.
          step_return (Some key))))) w)"

definition ingest_whole ::
  "('w, 'x) provider_env_scheme \<Rightarrow> string list \<Rightarrow> string \<Rightarrow> string list \<Rightarrow> int \<Rightarrow> string option \<Rightarrow> int option
   \<Rightarrow> ('w, string option) step" where
  "ingest_whole env universe run_id wanted lookback benchmark as_of w =
     step_bind (step_res (run_window (ge_wall env w) lookback as_of)) (\<lambda>window.
     step_bind (get_market_data env \<lparr>drq_tickers = universe, drq_window = window, drq_fields = wanted,
         drq_benchmark = benchmark\<rparr>) (\<lambda>m.
     step_bind (write_run env m universe window run_id) (\<lambda>key.
       step_return (Some key)))) w"

definition ingest_once ::
  "('w, 'x) provider_env_scheme \<Rightarrow> string list \<Rightarrow> string option \<Rightarrow> int \<Rightarrow> string option \<Rightarrow> int option
   \<Rightarrow> ('w, string option) step" where
  "ingest_once env universe requested lookback benchmark as_of w =
     (if universe = [] then (w, Inr None)
      else
        (let st = pe_settings env; wanted = ingest_fields st benchmark;
             run_id = (case requested of None \<Rightarrow> ag_hex env w | Some r \<Rightarrow> if r = [] then ag_hex env w else r);
             step = pvs_ingest_chunk_size st
         in if 0 < step \<and> step < length universe
            then ingest_chunked env universe run_id wanted lookback benchmark as_of w
            else ingest_whole env universe run_id wanted lookback benchmark as_of w))"

end
