(* ===== verification/ProviderPoll.thy ===== *)
theory ProviderPoll
  imports ProviderAgent
begin

text \<open>
  The provider's work (\<open>agents/provider/poll.py\<close>, \<open>barrier_history.py\<close>, \<open>barrier_window.py\<close>,
  \<open>contracts/barrier_history.py\<close>) and its handlers on the bus: a run request is checked before anything
  is fetched for it, and an analyst's run gets the daily history its buys and the held names need.

  The validation of a recommendation set and the reading of a timestamp are parameters.
\<close>

section \<open>Run requests\<close>

record 'w provider_poll_env = "'w provider_env" +
  pp_recommendations :: "pyval \<Rightarrow> recommendation_set res"
  pp_parse_time :: "string \<Rightarrow> timestamp option"

text \<open>\<open>isinstance(v, int)\<close>, which holds of a boolean too.\<close>

definition instance_int :: "pyval \<Rightarrow> int option" where
  "instance_int v = (case v of PInt i \<Rightarrow> Some i | PBool b \<Rightarrow> Some (if b then 1 else 0) | _ \<Rightarrow> None)"

text \<open>The texts of dates, \<open>YYYY-MM-DD\<close>.\<close>

definition iso_day :: "string \<Rightarrow> int option" where
  "iso_day s =
     (if length s = 10 \<and> s ! 4 = CHR ''-'' \<and> s ! 7 = CHR ''-''
         \<and> all_digits (take 4 s) \<and> all_digits (take 2 (drop 5 s)) \<and> all_digits (drop 8 s)
         \<and> valid_date (digits_value (take 4 s)) (digits_value (take 2 (drop 5 s))) (digits_value (drop 8 s))
      then Some (int (ymd2ord (digits_value (take 4 s)) (digits_value (take 2 (drop 5 s))) (digits_value (drop 8 s))))
      else None)"

definition requested_day :: "timestamp \<Rightarrow> gnode \<Rightarrow> int res" where
  "requested_day now n =
     (case (case dict_get (gn_props n) ''requested_at'' of Some (PStr s) \<Rightarrow> iso_day s | _ \<Rightarrow> None) of
        None \<Rightarrow> Inl (ValueError ''RunRequest.requested_at must be an ISO date (YYYY-MM-DD)'')
      | Some day \<Rightarrow>
          if day_of now < day then Inl (ValueError ''RunRequest.requested_at is after today'') else Inr day)"

definition covered_sessions :: "int \<Rightarrow> int \<Rightarrow> nat" where
  "covered_sessions lookback as_of = trading_sessions_between (as_of - lookback - 1) as_of"

definition positive_int :: "pyval \<Rightarrow> int option" where
  "positive_int v = (case instance_int v of None \<Rightarrow> None | Some i \<Rightarrow> if i < 1 then None else Some i)"

definition declared_history :: "timestamp \<Rightarrow> gnode \<Rightarrow> (int \<times> int) res" where
  "declared_history now n =
     (case (positive_int (get_or (gn_props n) ''lookback_days'' PNone),
            positive_int (get_or (gn_props n) ''required_history_bars'' PNone)) of
        (Some lookback, Some required) \<Rightarrow>
          res_bind (requested_day now n) (\<lambda>as_of.
            if int (covered_sessions lookback as_of) < required
            then Inl (ValueError ''RunRequest.lookback_days does not cover required history'')
            else Inr (lookback, as_of))
      | _ \<Rightarrow> Inl (ValueError ''RunRequest.lookback_days and required_history_bars must be positive integers''))"

definition benchmark_of :: "gnode \<Rightarrow> string option" where
  "benchmark_of n =
     (case dict_get (gn_props n) ''benchmark_ticker'' of
        Some (PStr s) \<Rightarrow> if str_strip s = [] then None else Some (upper (str_strip s))
      | _ \<Rightarrow> None)"

definition union_tickers :: "string list \<Rightarrow> string list \<Rightarrow> string list" where
  "union_tickers left right = first_of_each (left @ right)"

definition find_pending_ingests :: "('w, 'x) graph_env_scheme \<Rightarrow> ('w, gnode list) step" where
  "find_pending_ingests env = pending_step env ''RunRequest'' ''INGESTED_BY''"

definition ingest_run_node :: "('w, 'x) provider_env_scheme \<Rightarrow> gnode \<Rightarrow> ('w, unit) step" where
  "ingest_run_node env node w =
     step_bind (step_res (declared_history (ge_wall env w) node)) (\<lambda>(lookback, as_of).
     step_bind (step_res (res_bind (prop_at (gn_props node) ''tickers'') items_of)) (\<lambda>tickers.
     step_bind (\<lambda>w. (w, open_position_tickers (ge_float_text env) (pe_digest env) (ge_port env) w)) (\<lambda>held.
     step_bind (step_res (prop_at (gn_props node) ''run_id'')) (\<lambda>run_id.
     step_bind (ingest_once env (union_tickers (map (py_str (ge_float_text env)) tickers) held)
         (Some (py_str (ge_float_text env) run_id)) lookback (benchmark_of node) (Some as_of)) (\<lambda>key w.
       (case key of
          None \<Rightarrow> (w, Inl assertion_error)
        | Some k \<Rightarrow>
            (case gp_get (ge_port env) w ''MarketData'' k of
               None \<Rightarrow> (w, Inl assertion_error)
             | Some m \<Rightarrow> ge_edge env node m ''INGESTED_BY'' w))))))) w"

section \<open>Barrier histories\<close>

record ticker_history =
  thi_bars :: "ohlcv_bar list"
  thi_count :: nat

record barrier_history =
  bhi_run_key :: string
  bhi_ok :: bool
  bhi_reason :: "string option"
  bhi_window :: "int \<times> int"
  bhi_sessions :: nat
  bhi_requested :: "string list"
  bhi_histories :: "(string, ticker_history) dict"
  bhi_dropped :: "(string, string) dict"
  bhi_stale :: "string list"
  bhi_created_at :: timestamp

definition barrier_history_key :: "string \<Rightarrow> string" where
  "barrier_history_key run_key = ''barrier-history:'' @ run_key"

definition barrier_buys :: "recommendation_set \<Rightarrow> recommendation list" where
  "barrier_buys s =
     filter (\<lambda>r. rec_action r = BuyAction \<and> rec_stop_pct r \<noteq> None \<and> rec_target_pct r \<noteq> None) (rs_recommendations s)"

definition day_micros :: int where
  "day_micros = 24 * 3600 * 1000000"

definition is_recent_run :: "(string \<Rightarrow> timestamp option) \<Rightarrow> props \<Rightarrow> timestamp \<Rightarrow> bool" where
  "is_recent_run parse p now =
     (case dict_get p ''created_at'' of
        Some (PStr s) \<Rightarrow>
          (case parse s of None \<Rightarrow> False
           | Some t \<Rightarrow> ts_offset t \<noteq> None \<and> instant now - day_micros \<le> instant t)
      | _ \<Rightarrow> False)"

text \<open>The run's day: that of the market data its scan was derived from.\<close>

definition run_as_of :: "('w, 'x) graph_env_scheme \<Rightarrow> gnode \<Rightarrow> ('w, int option) step" where
  "run_as_of env run =
     step_bind (ascend env run ''ANALYZED_BY'') (\<lambda>scans.
       case scans of
         [] \<Rightarrow> step_return None
       | scan # _ \<Rightarrow>
           step_bind (descend env scan ''DERIVED_FROM'') (\<lambda>markets.
             case markets of
               [] \<Rightarrow> step_return None
             | m # _ \<Rightarrow>
                 step_res (res_bind (prop_at (gn_props m) ''window_end'') (\<lambda>v.
                   case iso_day (py_str (ge_float_text env) v) of
                     None \<Rightarrow> Inl (ValueError ''Invalid isoformat string'')
                   | Some day \<Rightarrow> Inr (Some day)))))"

definition barrier_window :: "timestamp \<Rightarrow> nat \<Rightarrow> int option \<Rightarrow> int \<times> int" where
  "barrier_window now sessions as_of =
     (let last_day = (case as_of of None \<Rightarrow> day_of now | Some day \<Rightarrow> day);
          days = \<lceil>of_nat sessions * (36525 / 100 / 250 :: rat)\<rceil> + 14
      in (last_day - days, last_day))"

definition qualifying_tickers :: "('w, 'x) provider_poll_env_scheme \<Rightarrow> 'w \<Rightarrow> gnode \<Rightarrow> string list res" where
  "qualifying_tickers env w run =
     (case get_or (gn_props run) ''recommendation_set'' PNone of
        PNone \<Rightarrow> Inr []
      | raw \<Rightarrow>
          res_bind (pp_recommendations env raw) (\<lambda>s.
          res_bind (open_position_tickers (ge_float_text env) (pe_digest env) (ge_port env) w) (\<lambda>held.
            Inr (union_tickers (map rec_ticker (barrier_buys s)) held))))"

fun keep_qualifying ::
  "('w, 'x) provider_poll_env_scheme \<Rightarrow> timestamp option \<Rightarrow> gnode list \<Rightarrow> ('w, gnode list) step" where
  "keep_qualifying env now [] w = (w, Inr [])"
| "keep_qualifying env now (n # ns) w =
     step_bind (step_res
         (if (case now of None \<Rightarrow> False | Some t \<Rightarrow> \<not> is_recent_run (pp_parse_time env) (gn_props n) t) then Inr []
          else qualifying_tickers env w n)) (\<lambda>ts.
     step_bind (keep_qualifying env now ns) (\<lambda>rest.
       step_return (if ts = [] then rest else n # rest))) w"

definition pending_since ::
  "('w, 'x) graph_env_scheme \<Rightarrow> string \<Rightarrow> string \<Rightarrow> timestamp option \<Rightarrow> ('w, gnode list) step" where
  "pending_since env label edge_type since =
     step_bind (\<lambda>w. gp_keys (ge_port env) (ge_wall env w) w label edge_type True since) (\<lambda>keys w.
       step_return (List.map_filter (gp_get (ge_port env) w label) keys) w)"

definition find_pending_barrier_history ::
  "('w, 'x) provider_poll_env_scheme \<Rightarrow> timestamp option \<Rightarrow> ('w, gnode list) step" where
  "find_pending_barrier_history env now =
     step_bind (step_res (case now of None \<Rightarrow> Inr None
         | Some t \<Rightarrow> res_bind (utc_of_instant (instant t - day_micros)) (\<lambda>since. Inr (Some since)))) (\<lambda>since.
     step_bind (pending_since env ''AnalystRun'' ''BARRIER_HISTORY_BY'' since) (\<lambda>runs.
       keep_qualifying env now runs))"

definition history_of :: "ohlcv_bar list \<Rightarrow> nat \<Rightarrow> ticker_history" where
  "history_of bars sessions =
     (let kept = last_n sessions (sort_key bar_date bars) in \<lparr>thi_bars = kept, thi_count = length kept\<rparr>)"

definition drop_reason_for :: "string \<Rightarrow> data_quality \<Rightarrow> string" where
  "drop_reason_for ticker q =
     (if ticker \<in> set (dq_anomalous q) then ''extreme_move_guard: an open-to-close move beyond max_daily_move_sigma''
      else ''no_bars_returned: stale_or_missing'')"

definition history_failure :: "provider_market option \<Rightarrow> agent_fault option \<Rightarrow> string option" where
  "history_failure market fault =
     (case fault of
        Some f \<Rightarrow> Some (flt_error_type f @ '': '' @ flt_message f)
      | None \<Rightarrow>
          (case market of
             None \<Rightarrow> None
           | Some m \<Rightarrow> if ''source_unavailable'' \<in> set (dq_notes (pmk_quality m)) then Some ''source_unavailable'' else None))"

definition served_bars :: "provider_market \<Rightarrow> string \<Rightarrow> ohlcv_bar list" where
  "served_bars m ticker = filter (\<lambda>b. bar_ticker b = ticker) (mkt_bars m)"

definition make_history ::
  "timestamp \<Rightarrow> string \<Rightarrow> string list \<Rightarrow> int \<times> int \<Rightarrow> nat \<Rightarrow> provider_market option \<Rightarrow> agent_fault option
   \<Rightarrow> barrier_history" where
  "make_history now run_key tickers window sessions market fault =
     (let failure = history_failure market fault;
          base = \<lparr>bhi_run_key = run_key, bhi_ok = False, bhi_reason = failure, bhi_window = window,
                  bhi_sessions = sessions, bhi_requested = tickers, bhi_histories = [],
                  bhi_dropped = map (\<lambda>t. (t, ''fetch failed: '' @ (case failure of None \<Rightarrow> ''None'' | Some f \<Rightarrow> f)))
                    (first_of_each tickers),
                  bhi_stale = [], bhi_created_at = now\<rparr>
      in case market of
           None \<Rightarrow> base
         | Some m \<Rightarrow>
             if failure \<noteq> None then base
             else
               let served = filter (\<lambda>t. served_bars m t \<noteq> []) (first_of_each tickers)
               in base\<lparr>bhi_ok := True,
                       bhi_histories := map (\<lambda>t. (t, history_of (served_bars m t) sessions)) served,
                       bhi_dropped := map (\<lambda>t. (t, drop_reason_for t (pmk_quality m)))
                         (filter (\<lambda>t. served_bars m t = []) (first_of_each tickers)),
                       bhi_stale := filter (\<lambda>t. t \<in> set served) (dq_stale (pmk_quality m))\<rparr>)"

definition bar_row_json :: "ohlcv_bar \<Rightarrow> pyval" where
  "bar_row_json b =
     PList [day_json (bar_date b), PFloat (bar_open b), PFloat (bar_high b), PFloat (bar_low b), PFloat (bar_close b)]"

definition history_json :: "ticker_history \<Rightarrow> pyval" where
  "history_json h = PDict [(''bars'', PList (map bar_row_json (thi_bars h))), (''bar_count'', PInt (int (thi_count h)))]"

definition barrier_history_props :: "(timestamp \<Rightarrow> string) \<Rightarrow> barrier_history \<Rightarrow> props" where
  "barrier_history_props time_text h =
     [(''analyst_run_key'', PStr (bhi_run_key h)), (''status'', PStr (if bhi_ok h then ''ok'' else ''failed'')),
      (''reason'', none_or PStr (bhi_reason h)), (''window_start'', day_json (fst (bhi_window h))),
      (''window_end'', day_json (snd (bhi_window h))), (''sessions_requested'', PInt (int (bhi_sessions h))),
      (''requested'', json_strs (bhi_requested h)), (''histories'', dict_json history_json (bhi_histories h)),
      (''dropped'', dict_json PStr (bhi_dropped h)), (''stale'', json_strs (bhi_stale h)),
      (''created_at'', PStr (time_text (bhi_created_at h)))]"

text \<open>The block's fault is kept with its capture, since the history names it.\<close>

definition captured_fault ::
  "('w, 'x) agent_env_scheme \<Rightarrow> string \<Rightarrow> string \<Rightarrow> string \<Rightarrow> ('w, 'a) step \<Rightarrow> ('w, 'a option \<times> agent_fault option) step" where
  "captured_fault env agent modul capability m w =
     (case m w of (w1, r) \<Rightarrow>
        (case fault_boundary (ag_submit env) (ge_wall env w1) agent modul (Some capability) w1 r of
           (w2, f) \<Rightarrow> (w2, Inr (case r of Inl e \<Rightarrow> None | Inr x \<Rightarrow> Some x, f))))"

definition write_barrier_history :: "('w, 'x) provider_poll_env_scheme \<Rightarrow> gnode \<Rightarrow> ('w, unit) step" where
  "write_barrier_history env run w =
     step_bind (step_res (qualifying_tickers env w run)) (\<lambda>tickers.
     step_bind (run_as_of env run) (\<lambda>as_of w.
       (let sessions = pvs_barrier_history_sessions (pe_settings env);
            window = barrier_window (ge_wall env w) sessions as_of
        in step_bind (captured_fault env ''provider'' ''agents.provider.barrier_history'' ''barrier_history''
               (get_market_data env \<lparr>drq_tickers = tickers, drq_window = window, drq_fields = [''ohlcv''],
                  drq_benchmark = None\<rparr>)) (\<lambda>(market, fault) w.
             step_bind (ge_merge env ''BarrierHistory'' (barrier_history_key (gn_key run))
                 (barrier_history_props (pe_json_time env)
                   (make_history (ge_wall env w) (gn_key run) tickers window sessions market fault))) (\<lambda>n.
               ge_edge env run n ''BARRIER_HISTORY_BY'') w) w))) w"

section \<open>The work list and the handlers\<close>

datatype provider_work = IngestWork gnode | HistoryWork gnode

definition find_provider_work ::
  "('w, 'x) provider_poll_env_scheme \<Rightarrow> timestamp option \<Rightarrow> ('w, provider_work list) step" where
  "find_provider_work env now =
     step_bind (find_pending_ingests env) (\<lambda>ingests.
     step_bind (find_pending_barrier_history env now) (\<lambda>histories.
       step_return (map IngestWork ingests @ map HistoryWork histories)))"

definition process_provider_item :: "('w, 'x) provider_poll_env_scheme \<Rightarrow> provider_work \<Rightarrow> ('w, unit) step" where
  "process_provider_item env item =
     (case item of IngestWork n \<Rightarrow> ingest_run_node env n | HistoryWork n \<Rightarrow> write_barrier_history env n)"

definition on_market_data_request ::
  "('w, 'x) provider_env_scheme \<Rightarrow> 'w bus \<Rightarrow> string option \<Rightarrow> data_request_of \<Rightarrow> ('w, unit) step" where
  "on_market_data_request env b requested rq =
     step_bind (get_market_data env rq) (\<lambda>m w.
       (let run_id = (case requested of None \<Rightarrow> ag_hex env w | Some r \<Rightarrow> if r = [] then ag_hex env w else r)
        in step_forget (\<lambda>w. claim_check_write b (ge_port env) (ge_wall env) w ''data.ready.market'' ''MarketDataEvent''
             (market_data_key run_id) [(''snapshot'', market_json m)] requested) w))"

end
