(* ===== verification/ProviderSafety.thy ===== *)
theory ProviderSafety
  imports ProviderPoll
begin

text \<open>
  What the provider promises of a payload: only vetted bars, and a name for every ticker without any
  (\<open>delivery_vetted\<close>); no ticker excluded where its session pools too few bars to tell an outlier
  (\<open>small_pools_never_flagged\<close>); and what a ticker excluded from one chunk does to the whole batch
  (\<open>chunk_exclusion_taints_batch\<close>).
\<close>

section \<open>Newest days\<close>

text \<open>The newest day of a ticker, read off its bars; \<open>date.min\<close> is day 1.\<close>

lemma newest_days_fold:
  "dict_get (fold (\<lambda>b d. dict_set (bar_ticker b)
         (max (case dict_get d (bar_ticker b) of None \<Rightarrow> 1 | Some day \<Rightarrow> day) (bar_date b)) d) bars d) t
   = fold (\<lambda>b day. Some (max (case day of None \<Rightarrow> 1 | Some n \<Rightarrow> n) (bar_date b))) (filter (\<lambda>b. bar_ticker b = t) bars) (dict_get d t)"
  by (induction bars arbitrary: d) (simp_all add: dict_simps)

lemma newest_fold_Max:
  "fold (\<lambda>b day. Some (max (case day of None \<Rightarrow> 1 | Some n \<Rightarrow> n) (bar_date b))) bs (Some n)
     = Some (fold (\<lambda>b. max (bar_date b)) bs n)"
  by (induction bs arbitrary: n) (simp_all add: max.commute)

lemma newest_fold_is:
  "1 \<le> n \<Longrightarrow> fold (\<lambda>b. max (bar_date b)) bs n = Max (insert n ((\<lambda>b. max 1 (bar_date b)) ` set bs))"
proof (induction bs arbitrary: n)
  case (Cons b bs)
  have "max (bar_date b) n = max n (max 1 (bar_date b))" using Cons.prems by simp
  then have "fold (\<lambda>b. max (bar_date b)) (b # bs) n
      = Max (insert (max n (max 1 (bar_date b))) ((\<lambda>b. max 1 (bar_date b)) ` set bs))"
    using Cons by simp
  also have "\<dots> = Max (insert n ((\<lambda>b. max 1 (bar_date b)) ` set (b # bs)))"
    by (cases "set bs = {}") (simp_all add: max.assoc)
  finally show ?case .
qed simp

lemma newest_days_is:
  "dict_get (newest_days bars) t =
     (if \<exists>b\<in>set bars. bar_ticker b = t
      then Some (Max ((\<lambda>b. max 1 (bar_date b)) ` {b \<in> set bars. bar_ticker b = t})) else None)"
proof (cases "filter (\<lambda>b. bar_ticker b = t) bars")
  case Nil
  then show ?thesis by (auto simp: newest_days_def newest_days_fold filter_empty_conv)
next
  case (Cons b bs)
  have B: "set (b # bs) = {b \<in> set bars. bar_ticker b = t}" by (simp only: Cons [symmetric] set_filter)
  then have "\<exists>b\<in>set bars. bar_ticker b = t" by auto
  moreover have "dict_get (newest_days bars) t = Some (fold (\<lambda>b. max (bar_date b)) bs (max 1 (bar_date b)))"
    by (simp add: newest_days_def newest_days_fold Cons newest_fold_Max)
  moreover have "fold (\<lambda>b. max (bar_date b)) bs (max 1 (bar_date b)) = Max ((\<lambda>b. max 1 (bar_date b)) ` set (b # bs))"
    by (simp add: newest_fold_is)
  ultimately show ?thesis by (simp only: B if_True)
qed

lemma newest_days_None: "dict_get (newest_days bars) t = None \<longleftrightarrow> (\<forall>b\<in>set bars. bar_ticker b \<noteq> t)"
  by (auto simp: newest_days_is)

lemma newest_is_Some:
  "dict_get (newest_days bars) t = Some day \<longleftrightarrow>
     (\<exists>b\<in>set bars. bar_ticker b = t \<and> max 1 (bar_date b) = day)
     \<and> (\<forall>b\<in>set bars. bar_ticker b = t \<longrightarrow> max 1 (bar_date b) \<le> day)"
proof (cases "\<exists>b\<in>set bars. bar_ticker b = t")
  case True
  let ?B = "{b \<in> set bars. bar_ticker b = t}"
  have ne: "finite ?B" "?B \<noteq> {}" using True by auto
  have "dict_get (newest_days bars) t = Some day \<longleftrightarrow> Max ((\<lambda>b. max 1 (bar_date b)) ` ?B) = day"
    using True by (simp add: newest_days_is)
  also have "\<dots> \<longleftrightarrow> day \<in> (\<lambda>b. max 1 (bar_date b)) ` ?B \<and> (\<forall>x\<in>(\<lambda>b. max 1 (bar_date b)) ` ?B. x \<le> day)"
    using ne by (intro Max_eq_iff) simp_all
  finally show ?thesis by blast
qed (simp add: newest_days_is)

lemma missing_is_stale:
  assumes "t \<in> set tickers" and "\<forall>b\<in>set bars. bar_ticker b \<noteq> t"
  shows "t \<in> set (stale_tickers tickers bars window_end n)"
  using assms by (simp add: stale_tickers_def iffD2 [OF newest_days_None])

lemma set_first_of_each [simp]: "set (first_of_each xs) = set xs"
  by (simp add: first_of_each_def)

lemma first_of_each_Nil [simp]: "first_of_each xs = [] \<longleftrightarrow> xs = []"
  by (metis empty_set set_first_of_each set_empty)

lemma bar_notes_Nil: "bar_notes nf bars = [] \<longleftrightarrow> (\<forall>b\<in>set bars. bar_fault nf b = None)"
  by (induction bars) (auto simp: bar_notes_def map_filter_simps split: option.split)

section \<open>What is judged\<close>

text \<open>A bar the provider may deliver: finite positive prices that agree with each other.\<close>

definition sound_bar :: "(ohlcv_bar \<Rightarrow> bool) \<Rightarrow> ohlcv_bar \<Rightarrow> bool" where
  "sound_bar non_finite b \<longleftrightarrow> \<not> non_finite b \<and> 0 \<le> bar_volume b
     \<and> 0 < bar_open b \<and> 0 < bar_high b \<and> 0 < bar_low b \<and> 0 < bar_close b
     \<and> bar_open b \<le> bar_high b \<and> bar_close b \<le> bar_high b \<and> bar_low b \<le> bar_open b \<and> bar_low b \<le> bar_close b"

lemma bar_fault_None: "bar_fault nf b = None \<longleftrightarrow> sound_bar nf b"
  by (auto simp: bar_fault_def sound_bar_def not_le not_less)

lemma set_valid_bars: "set (valid_bars nf bars) = {b \<in> set bars. sound_bar nf b}"
  by (auto simp: valid_bars_def bar_fault_None)

lemma session_moves_fold:
  "(case dict_get (fold (\<lambda>b d. dict_set (bar_date b)
         ((case dict_get d (bar_date b) of None \<Rightarrow> [] | Some ms \<Rightarrow> ms) @ [(bar_ticker b, day_move b)]) d) bars d) day of
      None \<Rightarrow> [] | Some ms \<Rightarrow> ms)
   = (case dict_get d day of None \<Rightarrow> [] | Some ms \<Rightarrow> ms)
     @ map (\<lambda>b. (bar_ticker b, day_move b)) (filter (\<lambda>b. bar_date b = day) bars)"
  by (induction bars arbitrary: d) (auto simp: dict_simps)

definition session_pool :: "(ohlcv_bar \<Rightarrow> bool) \<Rightarrow> ohlcv_bar list \<Rightarrow> int \<Rightarrow> rat list" where
  "session_pool non_finite bars day =
     map day_move (filter (\<lambda>b. sound_bar non_finite b \<and> bar_date b = day) bars)"

text \<open>A bar beyond the limit of the moves its session pools.\<close>

definition stands_out ::
  "(rat \<Rightarrow> rat) \<Rightarrow> (ohlcv_bar \<Rightarrow> bool) \<Rightarrow> rat \<Rightarrow> ohlcv_bar list \<Rightarrow> ohlcv_bar \<Rightarrow> bool" where
  "stands_out sq non_finite max_sigma bars b \<longleftrightarrow>
     (let pool = session_pool non_finite bars (bar_date b)
      in 2 \<le> length pool \<and> pstdev sq pool \<noteq> 0 \<and> max_sigma * pstdev sq pool < \<bar>day_move b - mean pool\<bar>)"

lemma session_moves_get:
  "(case dict_get (session_moves (valid_bars nf bars)) day of None \<Rightarrow> [] | Some ms \<Rightarrow> ms)
     = map (\<lambda>b. (bar_ticker b, day_move b)) (filter (\<lambda>b. sound_bar nf b \<and> bar_date b = day) bars)"
  using session_moves_fold [of "valid_bars nf bars" "[]" day]
  by (simp add: session_moves_def valid_bars_def bar_fault_None conj_commute)

lemma set_outliers:
  "t \<in> set (outliers sq moves lim) \<longleftrightarrow>
     2 \<le> length moves \<and> pstdev sq (map snd moves) \<noteq> 0
     \<and> (\<exists>v. (t, v) \<in> set moves \<and> lim * pstdev sq (map snd moves) < \<bar>v - mean (map snd moves)\<bar>)"
  by (force simp: outliers_def Let_def)

text \<open>Who is stale, and who is excluded: both judged on every sound bar, the excluded names' included.\<close>

lemma set_stale:
  "t \<in> set (stale_tickers tickers (valid_bars nf bars) window_end n) \<longleftrightarrow>
     t \<in> set tickers \<and> (\<forall>b\<in>set bars. sound_bar nf b \<and> bar_ticker b = t \<longrightarrow>
        n < trading_sessions_between (max 1 (bar_date b)) window_end)"
proof (cases "dict_get (newest_days (valid_bars nf bars)) t")
  case None
  then show ?thesis
    using newest_days_None [of "valid_bars nf bars" t] by (auto simp: stale_tickers_def set_valid_bars)
next
  case (Some day)
  then have newest: "\<exists>b\<in>set bars. sound_bar nf b \<and> bar_ticker b = t \<and> max 1 (bar_date b) = day"
    "\<forall>b\<in>set bars. sound_bar nf b \<and> bar_ticker b = t \<longrightarrow> max 1 (bar_date b) \<le> day"
    using newest_is_Some [of "valid_bars nf bars" t day] by (auto simp: set_valid_bars)
  have "n < trading_sessions_between day window_end \<longleftrightarrow>
      (\<forall>b\<in>set bars. sound_bar nf b \<and> bar_ticker b = t \<longrightarrow> n < trading_sessions_between (max 1 (bar_date b)) window_end)"
    (is "?S \<longleftrightarrow> ?A")
  proof
    show "?S \<Longrightarrow> ?A"
      using newest(2) by (blast intro: less_le_trans sessions_mono)
    show "?A \<Longrightarrow> ?S" using newest(1) by blast
  qed
  then show ?thesis using Some by (simp add: stale_tickers_def)
qed

lemma set_anomalous:
  "t \<in> set (anomalous_tickers sq (valid_bars nf bars) lim) \<longleftrightarrow>
     (\<exists>b\<in>set bars. sound_bar nf b \<and> bar_ticker b = t \<and> stands_out sq nf lim bars b
        \<and> (\<forall>c\<in>set bars. sound_bar nf c \<and> bar_ticker c = t \<longrightarrow> max 1 (bar_date c) \<le> bar_date b))"
  (is "_ \<longleftrightarrow> ?R")
proof -
  let ?newest = "newest_days (valid_bars nf bars)"
  let ?moves = "\<lambda>day. map (\<lambda>b. (bar_ticker b, day_move b)) (filter (\<lambda>b. sound_bar nf b \<and> bar_date b = day) bars)"
  have pool: "map snd (?moves day) = session_pool nf bars day" for day
    by (simp add: session_pool_def comp_def)
  have "t \<in> set (anomalous_tickers sq (valid_bars nf bars) lim) \<longleftrightarrow>
      (\<exists>day. dict_get ?newest t = Some day \<and> t \<in> set (outliers sq (?moves day) lim))"
  proof -
    have "day \<in> snd ` set ?newest" if "dict_get ?newest t = Some day" for day
      using map_of_SomeD [OF that] by (rule image_eqI [rotated]) simp
    then have mem: "(\<exists>day\<in>snd ` set ?newest. dict_get ?newest t = Some day \<and> Q day)
        \<longleftrightarrow> (\<exists>day. dict_get ?newest t = Some day \<and> Q day)" for Q by blast
    have concat: "t \<in> set (remdups (concat (map F (remdups ys)))) \<longleftrightarrow> (\<exists>y\<in>set ys. t \<in> set (F y))" for F and ys :: "int list"
      by simp
    show ?thesis
      unfolding anomalous_tickers_def Let_def session_moves_get concat set_map
      by (subst mem [symmetric]) (simp add: conj_commute)
  qed
  also have "\<dots> \<longleftrightarrow> (\<exists>day. dict_get ?newest t = Some day
      \<and> (\<exists>b\<in>set bars. sound_bar nf b \<and> bar_date b = day \<and> bar_ticker b = t \<and> stands_out sq nf lim bars b))"
    unfolding set_outliers pool by (fastforce simp: stands_out_def Let_def session_pool_def)
  also have "\<dots> \<longleftrightarrow> ?R"
    unfolding newest_is_Some set_valid_bars by (fastforce simp: max_def)
  finally show ?thesis .
qed

section \<open>The delivery\<close>

lemma delivery_vetted_core:
  assumes "validate_bars sq nf tickers bars window_end st = (delivered, q)"
  shows "delivered = filter (\<lambda>b. sound_bar nf b \<and> bar_ticker b \<notin> set (dq_anomalous q)) bars
    \<and> set (dq_anomalous q) = set (anomalous_tickers sq (valid_bars nf bars) (pvs_max_daily_move_sigma st))
    \<and> set (dq_stale q) = set (stale_tickers tickers (valid_bars nf bars) window_end (pvs_max_staleness_days st))
    \<and> (dq_notes q = [] \<longleftrightarrow> (\<forall>b\<in>set bars. sound_bar nf b) \<and> dq_stale q = [])
    \<and> (dq_used_fallback q \<longleftrightarrow> dq_notes q \<noteq> [] \<or> dq_returned q = 0)
    \<and> dq_requested q = length tickers
    \<and> dq_returned q = length (filter (\<lambda>t. t \<in> bar_ticker ` set delivered) tickers)"
proof -
  define valid where "valid = valid_bars nf bars"
  define bad where "bad = anomalous_tickers sq valid (pvs_max_daily_move_sigma st)"
  define old where "old = stale_tickers tickers valid window_end (pvs_max_staleness_days st)"
  define remarks where "remarks = bar_notes nf bars @ (if old = [] then [] else [''stale_or_missing_tickers''])"
  have d: "delivered = filter (\<lambda>b. bar_ticker b \<notin> set bad) valid"
    and q: "dq_anomalous q = sort bad" "dq_stale q = sort old" "dq_requested q = length tickers"
      "dq_returned q = length (filter (\<lambda>t. t \<in> bar_ticker ` set delivered) tickers)"
      "dq_notes q = first_of_each remarks" "dq_used_fallback q \<longleftrightarrow> remarks \<noteq> [] \<or> dq_returned q = 0"
    using assms by (auto simp: validate_bars_def Let_def valid_def bad_def old_def remarks_def)
  have stale_Nil: "dq_stale q = [] \<longleftrightarrow> old = []"
    unfolding q by (metis set_empty set_sort)
  have "delivered = filter (\<lambda>b. sound_bar nf b \<and> bar_ticker b \<notin> set (dq_anomalous q)) bars"
    unfolding d q by (simp add: valid_def valid_bars_def bar_fault_None conj_commute)
  moreover have "dq_notes q = [] \<longleftrightarrow> (\<forall>b\<in>set bars. sound_bar nf b) \<and> dq_stale q = []"
    unfolding stale_Nil using bar_notes_Nil [of nf bars] by (simp add: q remarks_def bar_fault_None)
  ultimately show ?thesis
    using q by (simp add: bad_def old_def valid_def)
qed

text \<open>
  C18. The provider delivers exactly the sound bars of the tickers it does not exclude, in the order they
  came.  A ticker is excluded exactly where its newest sound bar stands out of the moves its session pools,
  and is stale exactly where all its sound bars, those of an excluded ticker included, are more than the
  allowed number of sessions old, or it has none; so a requested ticker without a delivered bar is named
  as one or the other.  The delivery is marked degraded exactly where a bar was unsound, a ticker stale,
  or nothing came back: with neither, an exclusion that leaves a requested ticker degrades nothing.
\<close>

theorem delivery_vetted:
  assumes "validate_bars sq nf tickers bars window_end st = (delivered, q)"
  shows "delivered = filter (\<lambda>b. sound_bar nf b \<and> bar_ticker b \<notin> set (dq_anomalous q)) bars
    \<and> (\<forall>t. t \<in> set (dq_anomalous q) \<longleftrightarrow> (\<exists>b\<in>set bars. sound_bar nf b \<and> bar_ticker b = t
          \<and> stands_out sq nf (pvs_max_daily_move_sigma st) bars b
          \<and> (\<forall>c\<in>set bars. sound_bar nf c \<and> bar_ticker c = t \<longrightarrow> max 1 (bar_date c) \<le> bar_date b)))
    \<and> (\<forall>t. t \<in> set (dq_stale q) \<longleftrightarrow> t \<in> set tickers
          \<and> (\<forall>b\<in>set bars. sound_bar nf b \<and> bar_ticker b = t \<longrightarrow>
               pvs_max_staleness_days st < trading_sessions_between (max 1 (bar_date b)) window_end))
    \<and> (\<forall>t\<in>set tickers. t \<in> bar_ticker ` set delivered \<or> t \<in> set (dq_anomalous q) \<or> t \<in> set (dq_stale q))
    \<and> (dq_used_fallback q \<longleftrightarrow> (\<exists>b\<in>set bars. \<not> sound_bar nf b) \<or> dq_stale q \<noteq> []
          \<or> (\<forall>t\<in>set tickers. t \<notin> bar_ticker ` set delivered))
    \<and> (dq_notes q = [] \<longleftrightarrow> (\<forall>b\<in>set bars. sound_bar nf b) \<and> dq_stale q = [])
    \<and> dq_requested q = length tickers
    \<and> dq_returned q = length (filter (\<lambda>t. t \<in> bar_ticker ` set delivered) tickers)"
proof -
  note core = delivery_vetted_core [OF assms]
  have sent: "delivered = filter (\<lambda>b. sound_bar nf b \<and> bar_ticker b \<notin> set (dq_anomalous q)) bars"
    and remarks: "dq_notes q = [] \<longleftrightarrow> (\<forall>b\<in>set bars. sound_bar nf b) \<and> dq_stale q = []"
    and counted: "dq_requested q = length tickers"
      "dq_returned q = length (filter (\<lambda>t. t \<in> bar_ticker ` set delivered) tickers)"
    using core by (simp_all only:)
  have excluded: "t \<in> set (dq_anomalous q) \<longleftrightarrow> (\<exists>b\<in>set bars. sound_bar nf b \<and> bar_ticker b = t
          \<and> stands_out sq nf (pvs_max_daily_move_sigma st) bars b
          \<and> (\<forall>c\<in>set bars. sound_bar nf c \<and> bar_ticker c = t \<longrightarrow> max 1 (bar_date c) \<le> bar_date b))" for t
    using core by (simp only: set_anomalous)
  have stale: "t \<in> set (dq_stale q) \<longleftrightarrow> t \<in> set tickers
          \<and> (\<forall>b\<in>set bars. sound_bar nf b \<and> bar_ticker b = t \<longrightarrow>
               pvs_max_staleness_days st < trading_sessions_between (max 1 (bar_date b)) window_end)" for t
    using core by (simp only: set_stale)
  have named: "t \<in> bar_ticker ` set delivered \<or> t \<in> set (dq_anomalous q) \<or> t \<in> set (dq_stale q)" if "t \<in> set tickers" for t
  proof (cases "\<exists>b\<in>set bars. sound_bar nf b \<and> bar_ticker b = t")
    case True
    then show ?thesis unfolding sent by auto
  next
    case False
    then show ?thesis using that by (auto simp only: stale)
  qed
  have "dq_returned q = 0 \<longleftrightarrow> (\<forall>t\<in>set tickers. t \<notin> bar_ticker ` set delivered)"
    unfolding counted(2) by (simp only: length_0_conv filter_empty_conv)
  moreover have "dq_used_fallback q \<longleftrightarrow> dq_notes q \<noteq> [] \<or> dq_returned q = 0" using core by (simp_all only:)
  ultimately have marked: "dq_used_fallback q \<longleftrightarrow> (\<exists>b\<in>set bars. \<not> sound_bar nf b) \<or> dq_stale q \<noteq> []
          \<or> (\<forall>t\<in>set tickers. t \<notin> bar_ticker ` set delivered)"
    using remarks by simp
  show ?thesis
    by (intro conjI allI ballI sent excluded stale named marked remarks counted)
qed

definition sample_provider_settings :: provider_settings where
  "sample_provider_settings =
     \<lparr>pvs_base_min_confidence = 6 / 10, pvs_base_stop_loss_pct = 5 / 100, pvs_base_take_profit_pct = 1 / 10,
      pvs_base_max_holding_days = 10, pvs_max_daily_move_sigma = 8, pvs_max_staleness_days = 3,
      pvs_barrier_history_sessions = 760, pvs_vix_risk_on = 15, pvs_vix_risk_off = 20, pvs_vix_high = 25,
      pvs_vix_extreme = 35, pvs_ingest_chunk_size = 0, pvs_ingest_ohlcv_only = False,
      pvs_earnings_lookahead_days = 30\<rparr>"

definition move_bar :: "string \<Rightarrow> rat \<Rightarrow> ohlcv_bar" where
  "move_bar ticker close =
     \<lparr>bar_ticker = ticker, bar_date = 738000, bar_open = 1, bar_high = max 1 close, bar_low = min 1 close,
      bar_close = close, bar_volume = 100\<rparr>"

lemma delivery_vetted_witness:
  "\<exists>q. validate_bars (\<lambda>x. x) (\<lambda>b. False) [''AB'', ''CD''] [move_bar ''AB'' 2] 738000 sample_provider_settings
        = ([move_bar ''AB'' 2], q)
     \<and> dq_stale q \<noteq> [] \<and> ''CD'' \<in> set (dq_stale q) \<and> ''AB'' \<notin> set (dq_stale q) \<and> dq_used_fallback q"
proof -
  let ?bars = "[move_bar ''AB'' 2]"
  obtain delivered q where v: "validate_bars (\<lambda>x. x) (\<lambda>b. False) [''AB'', ''CD''] ?bars 738000 sample_provider_settings
      = (delivered, q)" by fastforce
  note out = delivery_vetted [OF v]
  have sound: "sound_bar (\<lambda>b. False) (move_bar ''AB'' 2)" and ticker: "bar_ticker (move_bar ''AB'' 2) = ''AB''"
    and day: "bar_date (move_bar ''AB'' 2) = 738000"
    by (simp_all add: sound_bar_def move_bar_def)
  have "\<not> stands_out (\<lambda>x. x) (\<lambda>b. False) (pvs_max_daily_move_sigma sample_provider_settings) ?bars (move_bar ''AB'' 2)"
    by (simp add: stands_out_def session_pool_def Let_def)
  then have "t \<notin> set (dq_anomalous q)" for t
    using out [THEN conjunct2, THEN conjunct1, THEN spec, of t] by (auto simp only: list.set insert_iff empty_iff)
  then have "delivered = ?bars" using out [THEN conjunct1] sound by simp
  moreover have stale: "t \<in> set (dq_stale q) \<longleftrightarrow> t \<in> {''AB'', ''CD''}
          \<and> (\<forall>b\<in>set ?bars. sound_bar (\<lambda>b. False) b \<and> bar_ticker b = t \<longrightarrow>
               3 < trading_sessions_between (max 1 (bar_date b)) 738000)" for t
    using out [THEN conjunct2, THEN conjunct2, THEN conjunct1, THEN spec, of t] by (simp add: sample_provider_settings_def)
  have "''CD'' \<in> set (dq_stale q)" unfolding stale by (simp add: ticker)
  moreover have "''AB'' \<notin> set (dq_stale q)"
    unfolding stale by (simp add: sound ticker day sessions_none)
  moreover from \<open>''CD'' \<in> set (dq_stale q)\<close> have "dq_stale q \<noteq> []" by auto
  ultimately show ?thesis using v out by blast
qed

section \<open>Pools\<close>

lemma square_sum_le: "(sum_list xs) ^ 2 \<le> of_nat (length xs) * sum_list (map (\<lambda>x. x ^ 2) xs)" for xs :: "rat list"
proof (induction xs)
  case (Cons x xs)
  define s where "s = sum_list xs"
  define r where "r = sum_list (map (\<lambda>x. x ^ 2) xs)"
  define n where "n = (of_nat (length xs) :: rat)"
  have IH: "s ^ 2 \<le> n * r" using Cons.IH by (simp add: s_def r_def n_def)
  have "0 \<le> n" by (simp add: n_def)
  have "2 * x * s \<le> n * x ^ 2 + r"
  proof (cases "n = 0")
    case True
    then have "xs = []" by (simp add: n_def)
    then show ?thesis by (simp add: s_def r_def n_def)
  next
    case False
    then have pos: "0 < n" using \<open>0 \<le> n\<close> by simp
    have "0 \<le> (n * x - s) ^ 2" by simp
    then have "n * (2 * x * s) \<le> n * (n * x ^ 2 + r)"
      using IH by (simp add: power2_eq_square algebra_simps)
    then show ?thesis using pos by simp
  qed
  then have "(x + s) ^ 2 \<le> (n + 1) * (x ^ 2 + r)"
    using IH by (simp add: power2_eq_square algebra_simps)
  then show ?case by (simp add: s_def r_def n_def add.commute)
qed simp

lemma deviation_le:
  fixes xs :: "rat list"
  assumes "x \<in> set xs"
  shows "of_nat (length xs) * (x - mean xs) ^ 2
    \<le> (of_nat (length xs) - 1) * sum_list (map (\<lambda>v. (v - mean xs) ^ 2) xs)"
proof -
  define m where "m = mean xs"
  define d where "d = x - m"
  obtain ps qs where xs: "xs = ps @ x # qs" using split_list [OF assms] by blast
  define rest where "rest = map (\<lambda>v. v - m) (ps @ qs)"
  have n: "length xs = Suc (length rest)" by (simp add: xs rest_def)
  have "sum_list (map (\<lambda>v. v - m) xs) = sum_list xs - of_nat (length xs) * m"
    by (induction xs) (simp_all add: algebra_simps)
  also have "\<dots> = 0" by (simp add: m_def mean_def n)
  finally have "sum_list rest = - d" by (simp add: xs rest_def d_def algebra_simps)
  then have "d ^ 2 \<le> of_nat (length rest) * sum_list (map (\<lambda>x. x ^ 2) rest)"
    using square_sum_le [of rest] by simp
  moreover have "sum_list (map (\<lambda>v. (v - m) ^ 2) xs) = d ^ 2 + sum_list (map (\<lambda>x. x ^ 2) rest)"
    by (simp add: xs rest_def d_def comp_def)
  ultimately show ?thesis
    unfolding m_def [symmetric] d_def [symmetric] n by (simp add: algebra_simps)
qed

definition population_variance :: "rat list \<Rightarrow> rat" where
  "population_variance xs = sum_list (map (\<lambda>v. (v - mean xs) ^ 2) xs) / of_nat (length xs)"

text \<open>A square root that is nowhere more than \<open>eps\<close>, relative to the square, too small.\<close>

definition root_within :: "rat \<Rightarrow> (rat \<Rightarrow> rat) \<Rightarrow> rat \<Rightarrow> bool" where
  "root_within eps sq x \<longleftrightarrow> 0 \<le> sq x \<and> x \<le> (1 + eps) * (sq x) ^ 2"

lemma outliers_small:
  assumes "root_within eps sq (population_variance (map snd moves))" "0 \<le> eps"
    and "0 \<le> max_sigma" and "(of_nat (length moves) - 1) * (1 + eps) \<le> max_sigma ^ 2"
  shows "outliers sq moves max_sigma = []"
proof (cases "length moves < 2")
  case False
  define xs where "xs = map snd moves"
  define sigma where "sigma = sq (population_variance xs)"
  have sigma: "pstdev sq xs = sigma" "0 \<le> sigma" "population_variance xs \<le> (1 + eps) * sigma ^ 2"
    using False assms(1)
    by (auto simp: pstdev_def sigma_def population_variance_def xs_def root_within_def Let_def power2_eq_square)
  have "\<bar>x - mean xs\<bar> \<le> max_sigma * sigma" if "x \<in> set xs" for x
  proof -
    have "0 < (of_nat (length xs) :: rat)" using that by (cases xs) auto
    then have "(x - mean xs) ^ 2 \<le> (of_nat (length xs) - 1) * population_variance xs"
      using deviation_le [OF that] by (simp add: population_variance_def field_simps)
    also have "\<dots> \<le> (of_nat (length xs) - 1) * ((1 + eps) * sigma ^ 2)"
      using sigma(3) False by (intro mult_left_mono) (simp_all add: xs_def)
    also have "\<dots> = ((of_nat (length xs) - 1) * (1 + eps)) * sigma ^ 2" by simp
    also have "\<dots> \<le> max_sigma ^ 2 * sigma ^ 2"
      using assms(4) by (intro mult_right_mono) (simp_all add: xs_def)
    finally have "(x - mean xs) ^ 2 \<le> (max_sigma * sigma) ^ 2"
      by (simp add: power_mult_distrib)
    then show ?thesis
      using sigma(2) assms(3) by (simp add: abs_le_square_iff [symmetric])
  qed
  then have "filter (\<lambda>(t, v). max_sigma * sigma < \<bar>v - mean xs\<bar>) moves = []"
    by (force simp: filter_empty_conv xs_def)
  then show ?thesis
    by (simp add: outliers_def Let_def xs_def [symmetric] sigma(1))
qed (simp add: outliers_def)

text \<open>
  C28. A session that pools no more bars than the square of the sigma limit and one flags no outlier,
  whatever its moves: where every session is that small, nothing is excluded.  At the limit of 8 it takes
  66 tickers.  That is so with a square root that is never too small; with one that may be too small by a
  relative \<open>eps\<close> of its square, as a floating-point root is by some units of its last place, the bound
  shrinks by the same factor, so that at the limit of 8 sessions of up to 64 tickers still flag nothing.
\<close>

theorem small_pools_never_flagged:
  assumes "validate_bars sq nf tickers bars window_end st = (delivered, q)" and "provider_settings_valid st"
    and "0 \<le> eps"
    and "\<forall>day. (of_nat (length (session_pool nf bars day)) - 1) * (1 + eps) \<le> (pvs_max_daily_move_sigma st) ^ 2"
    and "\<forall>day. root_within eps sq (population_variance (session_pool nf bars day))"
  shows "dq_anomalous q = [] \<and> delivered = filter (sound_bar nf) bars"
proof -
  have "outliers sq (map (\<lambda>b. (bar_ticker b, day_move b)) (filter (\<lambda>b. sound_bar nf b \<and> bar_date b = day) bars))
      (pvs_max_daily_move_sigma st) = []" for day
  proof (rule outliers_small [OF _ assms(3)])
    let ?moves = "map (\<lambda>b. (bar_ticker b, day_move b)) (filter (\<lambda>b. sound_bar nf b \<and> bar_date b = day) bars)"
    show "root_within eps sq (population_variance (map snd ?moves))"
      using assms(5) by (simp add: session_pool_def comp_def)
    show "0 \<le> pvs_max_daily_move_sigma st"
      using assms(2) by (simp add: provider_settings_valid_def)
    show "(rat_of_nat (length ?moves) - 1) * (1 + eps) \<le> (pvs_max_daily_move_sigma st)\<^sup>2"
      using spec [OF assms(4), of day] by (simp add: session_pool_def)
  qed
  then have "anomalous_tickers sq (valid_bars nf bars) (pvs_max_daily_move_sigma st) = []"
    by (simp add: anomalous_tickers_def session_moves_get)
  then have "set (dq_anomalous q) = {}" using delivery_vetted_core [OF assms(1)] by simp
  then show ?thesis
    using delivery_vetted_core [OF assms(1)] by simp
qed

lemma small_pools_never_flagged_witness:
  "dq_anomalous (snd (validate_bars (\<lambda>x. x) (\<lambda>b. False) [''AB'', ''CD''] [move_bar ''AB'' 1, move_bar ''CD'' 3] 738000
     sample_provider_settings)) = []"
proof -
  let ?bars = "[move_bar ''AB'' 1, move_bar ''CD'' 3]" and ?nf = "\<lambda>b :: ohlcv_bar. False"
  have pool: "session_pool ?nf ?bars day = (if day = 738000 then [0, 2] else [])" for day
    by (simp add: session_pool_def sound_bar_def move_bar_def day_move_def)
  have "provider_settings_valid sample_provider_settings"
    by (simp add: provider_settings_valid_def sample_provider_settings_def)
  moreover have "\<forall>day. (of_nat (length (session_pool ?nf ?bars day)) - 1) * (1 + 1 / 1000)
      \<le> (pvs_max_daily_move_sigma sample_provider_settings) ^ 2"
    by (simp add: pool sample_provider_settings_def)
  moreover have "\<forall>day. root_within (1 / 1000) (\<lambda>x. x) (population_variance (session_pool ?nf ?bars day))"
    by (simp add: pool root_within_def population_variance_def mean_def)
  ultimately show ?thesis
    using small_pools_never_flagged [OF surjective_pairing, of _ "1 / 1000"] by force
qed

section \<open>Chunks\<close>

text \<open>
  C40. A requested ticker whose bars every chunk excluded is stale or missing in the batch put together
  again, which marks the whole batch degraded: the exclusion does not stay with its ticker, as it would
  where the universe is fetched at once.
\<close>

theorem chunk_exclusion_taints_batch:
  assumes "merge_parts env parts universe window w = (w', Inr m)"
    and "ticker \<in> set universe" and "\<forall>p\<in>set parts. \<forall>b\<in>set (mkt_bars p). bar_ticker b \<noteq> ticker"
  shows "ticker \<in> set (dq_stale (pmk_quality m)) \<and> mkt_used_fallback m"
proof -
  obtain bars q0 where v: "validate_bars (pe_sqrt env) (pe_non_finite env) universe (concat (map mkt_bars parts)) (snd window)
      (pe_settings env) = (bars, q0)" by fastforce
  then have m: "dq_stale (pmk_quality m) = dq_stale q0" "mkt_used_fallback m = dq_used_fallback q0"
    using assms(1) by (auto simp: merge_parts_def merged_quality_def Let_def step_bind_Inr step_return_def)
  have "ticker \<in> set (dq_stale q0)"
    using delivery_vetted_core [OF v] set_stale [of ticker universe] assms(2,3) by auto
  moreover from this have "dq_notes q0 \<noteq> []" using delivery_vetted_core [OF v] by auto
  moreover from this have "dq_used_fallback q0" using delivery_vetted_core [OF v] by blast
  ultimately show ?thesis by (simp only: m)
qed

definition sample_provider_env :: "store provider_env" where
  "sample_provider_env =
     \<lparr>ge_port = mem_port, ge_wall = \<lambda>g. sample_time, ge_float_text = \<lambda>q. [], ge_parse_float = \<lambda>s. None,
      ag_submit = \<lambda>g f. g, ag_hex = \<lambda>g. ''0'', pe_settings = sample_provider_settings, pe_sqrt = \<lambda>x. x,
      pe_non_finite = \<lambda>b. False,
      pe_ohlcv = \<lambda>ts window. step_return [], pe_fundamentals = \<lambda>ts window. step_return [],
      pe_news = \<lambda>ts window. step_return [], pe_sentiment = \<lambda>ts. step_return [], pe_sectors = \<lambda>ts. step_return [],
      pe_earnings = \<lambda>ts window. step_return [],
      pe_regime_inputs = \<lambda>day. step_return \<lparr>rin_as_of = day, rin_vix = Some 18, rin_status = VixMeasured,
        rin_vix_as_of = Some day, rin_reason = None\<rparr>,
      pe_drain_notes = \<lambda>g. (g, []), pe_sleep = \<lambda>g. g, pe_digest = \<lambda>s. s, pe_json_time = isoformat,
      pe_regime_text = \<lambda>r. []\<rparr>"

definition empty_part :: provider_market where
  "empty_part =
     \<lparr>mkt_bars = [], mkt_sectors = [], mkt_used_fallback = False,
      mkt_provenance = \<lparr>pv_run_id = ''p'', pv_source_agent = ''provider'', pv_correlation_id = None,
        pv_graph_node_id = None, pv_incident_refs = []\<rparr>,
      mkt_earnings_horizon = None, mkt_benchmark = [], mkt_fundamentals = [], mkt_news = [], mkt_sentiment = [],
      mkt_earnings = [],
      pmk_quality = \<lparr>dq_requested = 1, dq_returned = 0, dq_used_fallback = True, dq_stale = [],
        dq_anomalous = [''AB''], dq_notes = []\<rparr>\<rparr>"

lemma sample_merge: "\<exists>w' m. merge_parts sample_provider_env [empty_part] [''AB''] (737900, 738000) empty_store = (w', Inr m)"
proof -
  obtain bars q where v: "validate_bars (pe_sqrt sample_provider_env) (pe_non_finite sample_provider_env) [''AB''] (concat (map mkt_bars [empty_part]))
      (snd (737900 :: int, 738000 :: int)) (pe_settings sample_provider_env) = (bars, q)" by fastforce
  have "\<exists>w' pv. write_market_snapshot sample_provider_env [''AB''] bars (merged_quality q [empty_part]) empty_store
      = (w', Inr pv)"
    by (simp add: write_market_snapshot_def sample_provider_env_def Let_def step_bind_def ge_merge_def merge_node_def
        merge_core_def empty_store_def write_ticker_def ge_edge_def add_edge_def add_edge_core_def require_node_def
        node_key_of_def step_return_def dict_simps)
  then obtain w' pv where "write_market_snapshot sample_provider_env [''AB''] bars (merged_quality q [empty_part]) empty_store
      = (w', Inr pv)" by blast
  then show ?thesis
    by (simp add: merge_parts_def v [simplified] Let_def step_bind_def step_return_def)
qed

lemma chunk_exclusion_taints_batch_witness:
  "\<exists>w' m. merge_parts sample_provider_env [empty_part] [''AB''] (737900, 738000) empty_store = (w', Inr m)
     \<and> ''AB'' \<in> set (dq_stale (pmk_quality m)) \<and> mkt_used_fallback m"
proof -
  obtain w' m where m: "merge_parts sample_provider_env [empty_part] [''AB''] (737900, 738000) empty_store = (w', Inr m)"
    using sample_merge by blast
  have "\<forall>p\<in>set [empty_part]. \<forall>b\<in>set (mkt_bars p). bar_ticker b \<noteq> ''AB''"
    by (simp add: empty_part_def)
  then show ?thesis
    using chunk_exclusion_taints_batch [OF m, of "''AB''"] m by auto
qed

end
