(* ===== verification/PipelineHandover.thy ===== *)
theory PipelineHandover
  imports ProviderSafety ScanAccounts ListedStore
begin

text \<open>
  The graph as the queue between the agents: a run request the provider ingests, and a payload the
  scanner scans, each leaves its own queue with exactly one new node that waits in the next agent's, under
  the keys of the run (\<open>ingest_hands_over\<close>, \<open>scan_hands_over\<close>).  All writes are those of the in-memory
  store; a data source does not touch the graph, and a fault sink only adds fault nodes.
\<close>

section \<open>What waits\<close>

text \<open>No edge of the type leaves \<open>k\<close>, and \<open>k\<close> holds what it holds.\<close>

definition waiting :: "string \<Rightarrow> string \<times> string \<Rightarrow> gnode option \<Rightarrow> store \<Rightarrow> bool" where
  "waiting t k x s \<longleftrightarrow>
     store_wf s \<and> (\<forall>e\<in>set (st_edges s). ge_type e = t \<longrightarrow> ge_parent e \<noteq> k) \<and> get_node s (fst k) (snd k) = x"

lemma waiting_new:
  assumes "store_wf s" "get_node s label key = None"
  shows "waiting t (label, key) None s"
proof -
  have "(label, key) \<notin> node_keys (st_nodes s)"
    using assms(2) by (simp add: node_keys_def get_node_def dict_get_None_iff)
  then show ?thesis
    using assms by (auto simp: waiting_def store_wf_def)
qed

lemma merge_edges: "st_edges (fst (merge_node now s label key p v)) = st_edges s"
  by (auto simp: merge_node_def split: sum.splits)

lemma add_edge_edges:
  "add_edge now s a b t q = (s', r) \<Longrightarrow> e \<in> set (st_edges s') \<Longrightarrow>
     e \<in> set (st_edges s) \<or> ge_type e = t \<and> ge_parent e = node_key_of a"
  by (auto simp: add_edge_def add_edge_core_def res_bind_Inr_iff Let_def make_edge_def split: sum.splits if_splits)

lemma waiting_merge_other:
  assumes "waiting t k x s" "dict_wf p" "(label, key) \<noteq> k"
  shows "waiting t k x (fst (merge_node now s label key p v))"
proof -
  have "get_node (fst (merge_node now s label key p v)) (fst k) (snd k) = get_node s (fst k) (snd k)"
    using assms(3) by (intro merge_node_other) (simp add: prod_eq_iff eq_commute)
  then show ?thesis
    using assms(1) merge_node_wf [OF _ assms(2)] by (simp add: waiting_def merge_edges)
qed

lemma waiting_merge_same:
  assumes "waiting t (label, key) x s" "dict_wf p" "merge_node now s label key p v = (s', Inr n)"
  shows "waiting t (label, key) (Some n) s' \<and> holds_props n p \<and> gn_label n = label \<and> gn_key n = key"
proof -
  have "store_wf s" using assms(1) by (simp add: waiting_def)
  from merge_node_written [OF this assms(2, 3)] merge_node_wf [OF this assms(2), of now label key v]
    merge_edges [of now s label key p v]
  show ?thesis using assms(1, 3) by (simp add: waiting_def)
qed

lemma waiting_edge:
  assumes "waiting t k x s" "t' \<noteq> t"
  shows "waiting t k x (fst (add_edge now s a b t' q))"
proof -
  obtain s' r where e: "add_edge now s a b t' q = (s', r)" by fastforce
  have "get_node s' = get_node s" using add_edge_get [of now s a b t' q] by (simp add: e)
  then show ?thesis
    using assms add_edge_edges [OF e] add_edge_wf [of s now a b t' q] by (auto simp: waiting_def e)
qed

lemma add_edge_present:
  assumes "add_edge now s a b t q = (s', Inr ())"
  shows "\<exists>e\<in>set (st_edges s'). ge_parent e = node_key_of a \<and> ge_child e = node_key_of b \<and> ge_type e = t"
proof -
  obtain edges where core: "add_edge_core s a b t q = Inr edges" and s': "s' = s\<lparr>st_edges := edges\<rparr>"
    using assms by (auto simp: add_edge_def split: sum.splits)
  define e where "e = make_edge (node_key_of a) (node_key_of b) t (case q of None \<Rightarrow> [] | Some q \<Rightarrow> q)"
  have "\<exists>c\<in>set edges. edge_key_of c = edge_key_of e"
    using core by (auto simp: add_edge_core_def res_bind_Inr_iff Let_def e_def list_all_iff split: if_splits)
  then show ?thesis
    by (simp add: s' e_def make_edge_def edge_key_of_def)
qed

section \<open>Steps that keep it\<close>

lemma waiting_merge_step:
  assumes "ge_port env = mem_port" "dict_wf p" "(label, key) \<noteq> k"
  shows "step_keeps (waiting t k x) (ge_merge env label key p)"
  using waiting_merge_other [OF _ assms(2, 3)] by (simp add: step_keeps_def ge_merge_def assms(1))

lemma waiting_edge_step:
  assumes "ge_port env = mem_port" "t' \<noteq> t"
  shows "step_keeps (waiting t k x) (ge_edge env a b t')"
  using waiting_edge [OF _ assms(2)] by (simp add: step_keeps_def ge_edge_def assms(1))

lemma keeps_link:
  assumes "ge_port env = mem_port" "t' \<noteq> t"
  shows "step_keeps (waiting t k x) (link_ref env n ref t')"
  using waiting_edge_step [OF assms, of k x n]
  by (auto simp: step_keeps_def link_ref_def step_return_def split: option.split)

lemma wf_of [simp]: "dict_wf [(a, b)]"
  by (simp add: dict_wf_def)

section \<open>The scan\<close>

lemma keeps_write_candidate:
  assumes "ge_port env = mem_port" "fst k \<noteq> ''Candidate''" "t \<noteq> ''SURVIVED''"
  shows "step_keeps (waiting t k x) (write_candidate env run_id scan c)"
  unfolding write_candidate_def
  by (intro step_keeps_bind waiting_merge_step waiting_edge_step)
    (use assms in \<open>auto simp: candidate_props_def dict_wf_def\<close>)

lemma write_scan_waits:
  assumes "ge_port env = mem_port" "waiting ''ANALYZED_BY'' (''ScanRun'', run_id) None s"
    and "run_id = ''scanner-run-'' @ ag_hex env s"
    and "write_scan env universe cs trace provider s = (s', Inr pv)"
  shows "pv_run_id pv = run_id \<and> (\<exists>n. waiting ''ANALYZED_BY'' (''ScanRun'', run_id) (Some n) s')"
proof -
  let ?p = "scan_props (ge_wall env s) universe cs trace"
  obtain s1 n where m: "ge_merge env ''ScanRun'' run_id ?p s = (s1, Inr n)"
    and rest: "step_bind (step_each (write_candidate env run_id n) cs) (\<lambda>_.
         step_bind (link_ref env n provider ''DERIVED_FROM'') (\<lambda>_.
           step_return (run_provenance ''scanner'' run_id n []))) s1 = (s', Inr pv)"
    using assms(4) unfolding write_scan_def Let_def assms(3) [symmetric] step_bind_Inr by blast
  have "dict_wf ?p" by (simp add: scan_props_def dict_wf_def)
  then have w1: "waiting ''ANALYZED_BY'' (''ScanRun'', run_id) (Some n) s1"
    using waiting_merge_same [OF assms(2)] m by (auto simp: ge_merge_def assms(1))
  have "step_keeps (waiting ''ANALYZED_BY'' (''ScanRun'', run_id) (Some n))
      (step_bind (step_each (write_candidate env run_id n) cs) (\<lambda>_.
         step_bind (link_ref env n provider ''DERIVED_FROM'') (\<lambda>_.
           step_return (run_provenance ''scanner'' run_id n []))))"
    by (intro step_keeps_bind step_keeps_each keeps_write_candidate keeps_link step_keeps_return)
      (simp_all add: assms(1))
  from step_keepsD [OF this w1 rest] have "waiting ''ANALYZED_BY'' (''ScanRun'', run_id) (Some n) s'" .
  moreover have "pv_run_id pv = run_id"
    using rest by (auto simp: step_bind_Inr step_return_def run_provenance_def)
  ultimately show ?thesis by blast
qed

text \<open>
  C15. A payload the scanner scans without raising leaves the scanner's queue: an edge leads from it to one
  new run, which holds the candidate set under its own key and waits in the analyst's queue.
\<close>

theorem scan_hands_over:
  assumes "ge_port env = mem_port" and "store_wf s"
    and "get_node s ''ScanRun'' (''scanner-run-'' @ ag_hex env s) = None"
    and "scan_market_node env node s = (s', Inr ())"
  shows "\<exists>run cs. get_node s' ''ScanRun'' (''scanner-run-'' @ ag_hex env s) = Some run
    \<and> dict_get (gn_props run) ''candidate_set'' = Some (frozen_value (candidate_set_json cs))
    \<and> cs_run_id cs = gn_key run \<and> unprocessed s' ''ANALYZED_BY'' run \<and> \<not> unprocessed s' ''SCANNED_BY'' node"
proof -
  define run_id where "run_id = ''scanner-run-'' @ ag_hex env s"
  have new: "waiting ''ANALYZED_BY'' (''ScanRun'', run_id) None s"
    using waiting_new [OF assms(2, 3)] by (simp add: run_id_def)
  obtain cands trace s1 pv s2 run where
    ws: "write_scan env ''sp500'' cands trace (Some (graph_ref node)) s = (s1, Inr pv)"
    and m: "ge_merge env ''ScanRun'' (pv_run_id pv)
        [(''candidate_set'', candidate_set_json (scan_result cands trace (scan_explanation cands trace) pv))] s1
      = (s2, Inr run)"
    and e: "ge_edge env node run ''SCANNED_BY'' s2 = (s', Inr ())"
    using assms(4) unfolding scan_market_node_def
    by (auto simp: step_bind_Inr step_res_Inr case_prod_beta)
  from write_scan_waits [OF assms(1) new run_id_def ws] obtain n where
    pv: "pv_run_id pv = run_id" and w1: "waiting ''ANALYZED_BY'' (''ScanRun'', run_id) (Some n) s1" by blast
  let ?cs = "scan_result cands trace (scan_explanation cands trace) pv"
  have w2: "waiting ''ANALYZED_BY'' (''ScanRun'', run_id) (Some run) s2"
    and run: "holds_props run [(''candidate_set'', candidate_set_json ?cs)]" "gn_label run = ''ScanRun''" "gn_key run = run_id"
    using waiting_merge_same [OF w1, of "[(''candidate_set'', candidate_set_json ?cs)]"] m
    by (auto simp: ge_merge_def assms(1) pv)
  have "waiting ''ANALYZED_BY'' (''ScanRun'', run_id) (Some run) s'"
    using step_keepsD [OF waiting_edge_step [OF assms(1)] w2 e] by simp
  then have "get_node s' ''ScanRun'' run_id = Some run" "unprocessed s' ''ANALYZED_BY'' run"
    by (auto simp: waiting_def unprocessed_def node_key_of_def run)
  moreover have "\<not> unprocessed s' ''SCANNED_BY'' node"
    using add_edge_present [of _ s2 node run "''SCANNED_BY''" None s'] e
    by (auto simp: ge_edge_def assms(1) unprocessed_def)
  moreover have "dict_get (gn_props run) ''candidate_set'' = Some (frozen_value (candidate_set_json ?cs))"
    using run(1) by (simp add: holds_props_def)
  moreover have "cs_run_id ?cs = gn_key run"
    by (simp add: scan_result_def pv run)
  ultimately show ?thesis unfolding run_id_def by blast
qed

definition handover_payload :: gnode where
  "handover_payload = make_node ''MarketData'' ''m''
     [(''snapshot'', PNone), (''tickers'', json_strs []), (''window_end'', PStr ''2026-09-24'')] 1"

definition payload_store :: store where
  "payload_store = \<lparr>st_nodes = [((''MarketData'', ''m''), handover_payload)], st_edges = [], st_faults = []\<rparr>"

definition empty_snapshot :: market_snapshot where
  "empty_snapshot = market_snapshot.truncate empty_part"

definition handover_scan_env :: "store scan_env" where
  "handover_scan_env =
     \<lparr>ge_port = mem_port, ge_wall = \<lambda>g. sample_time, ge_float_text = \<lambda>q. [], ge_parse_float = \<lambda>s. None,
      ag_submit = \<lambda>g f. g, ag_hex = \<lambda>g. ''0'', sc_settings = sample_scanner_settings,
      sc_market = \<lambda>v. Inr empty_snapshot, sc_members = \<lambda>u. Inr [], sc_parse_day = \<lambda>s. Inr 739883\<rparr>"

lemma payload_store_merge:
  "payload_store = fst (merge_node sample_time empty_store ''MarketData'' ''m'' (gn_props handover_payload) 1)"
  by (simp add: payload_store_def merge_node_def merge_core_def empty_store_def handover_payload_def make_node_def
     dict_simps Let_def)

lemma payload_wf: "store_wf payload_store"
  unfolding payload_store_merge
  by (rule merge_node_wf) (simp_all add: handover_payload_def make_node_def dict_wf_def frozen_props_def)

lemma payload_scans: "\<exists>s'. scan_market_node handover_scan_env handover_payload payload_store = (s', Inr ())"
  by (simp add: scan_market_node_def handover_scan_env_def handover_payload_def make_node_def frozen_props_def dict_simps
  step_bind_def step_res_def prop_at_def json_strs_def scan_survivors_def apply_filters_def empty_snapshot_def empty_part_def
  market_snapshot.truncate_def rank_survivors_def write_scan_def Let_def step_return_def link_ref_def graph_ref_def payload_store_def
  ge_merge_def merge_node_def  merge_core_def ge_edge_def add_edge_def add_edge_core_def require_node_def node_key_of_def make_edge_def empty_tally_def node_ref_def get_node_def run_provenance_def append_props_def scan_props_def)


lemma scan_hands_over_witness:
  "\<exists>s' run cs. scan_market_node handover_scan_env handover_payload payload_store = (s', Inr ())
     \<and> get_node s' ''ScanRun'' ''scanner-run-0'' = Some run
     \<and> dict_get (gn_props run) ''candidate_set'' = Some (frozen_value (candidate_set_json cs))
     \<and> unprocessed s' ''ANALYZED_BY'' run \<and> \<not> unprocessed s' ''SCANNED_BY'' handover_payload"
proof -
  obtain s' where r: "scan_market_node handover_scan_env handover_payload payload_store = (s', Inr ())"
    using payload_scans by blast
  have "ge_port handover_scan_env = mem_port" and hex: "ag_hex handover_scan_env payload_store = ''0''"
    by (simp_all add: handover_scan_env_def)
  moreover have "get_node payload_store ''ScanRun'' (''scanner-run-'' @ ag_hex handover_scan_env payload_store) = None"
    by (simp add: get_node_def payload_store_def dict_simps)
  ultimately show ?thesis
    using scan_hands_over [OF _ payload_wf _ r] r by (simp only: hex append.simps) fast
qed

section \<open>The ingest\<close>

definition faults_only :: "store \<Rightarrow> store \<Rightarrow> bool" where
  "faults_only s s' \<longleftrightarrow>
     (store_wf s \<longrightarrow> store_wf s') \<and> st_edges s' = st_edges s
     \<and> (\<forall>label key. label \<noteq> ''Fault'' \<and> label \<noteq> ''FaultSuppression'' \<longrightarrow> get_node s' label key = get_node s label key)"

text \<open>A data source answers without touching the graph; the sink adds fault nodes at most.\<close>

definition sources_quiet :: "(store, 'x) provider_env_scheme \<Rightarrow> bool" where
  "sources_quiet env \<longleftrightarrow>
     (\<forall>s ts window. fst (pe_ohlcv env ts window s) = s \<and> fst (pe_fundamentals env ts window s) = s
        \<and> fst (pe_news env ts window s) = s \<and> fst (pe_sentiment env ts s) = s \<and> fst (pe_sectors env ts s) = s
        \<and> fst (pe_earnings env ts window s) = s)
     \<and> (\<forall>s day. fst (pe_regime_inputs env day s) = s)
     \<and> (\<forall>s. fst (pe_drain_notes env s) = s \<and> pe_sleep env s = s)
     \<and> (\<forall>s f. faults_only s (ag_submit env s f))"

definition sources_keep :: "(store, 'x) provider_env_scheme \<Rightarrow> (store \<Rightarrow> bool) \<Rightarrow> bool" where
  "sources_keep env P \<longleftrightarrow>
     (\<forall>ts window. step_keeps P (pe_ohlcv env ts window) \<and> step_keeps P (pe_fundamentals env ts window)
        \<and> step_keeps P (pe_news env ts window) \<and> step_keeps P (pe_sentiment env ts) \<and> step_keeps P (pe_sectors env ts)
        \<and> step_keeps P (pe_earnings env ts window))
     \<and> (\<forall>day. step_keeps P (pe_regime_inputs env day))
     \<and> (\<forall>s. P s \<longrightarrow> P (fst (pe_drain_notes env s)) \<and> P (pe_sleep env s))
     \<and> (\<forall>s f. P s \<longrightarrow> P (ag_submit env s f))"

lemma quiet_keep:
  assumes "sources_quiet env" "fst k \<noteq> ''Fault''" "fst k \<noteq> ''FaultSuppression''"
  shows "sources_keep env (waiting t k x)"
proof -
  have "waiting t k x s'" if "waiting t k x s" "faults_only s s'" for s s'
    using that assms(2, 3) by (simp add: waiting_def faults_only_def)
  moreover have "step_keeps (waiting t k x) f" if "\<And>s. fst (f s) = s" for f :: "(store, 'z) step"
    using that by (simp add: step_keeps_def)
  ultimately show ?thesis
    using assms(1) by (simp add: sources_keep_def sources_quiet_def step_keeps_def)
qed

lemma keeps_captured:
  assumes "step_keeps P m" "\<And>s f. P s \<Longrightarrow> P (ag_submit env s f)"
  shows "step_keeps P (captured env agent modul capability m)"
  unfolding step_keeps_def captured_def
proof (intro allI impI)
  fix w assume "P w"
  obtain w1 r where m: "m w = (w1, r)" by fastforce
  have "P w1" using step_keepsD [OF assms(1) \<open>P w\<close> m] .
  then show "P (fst (case m w of (w1, r) \<Rightarrow>
        (fst (fault_boundary (ag_submit env) (ge_wall env w1) agent modul (Some capability) w1 r),
         Inr (case r of Inl e \<Rightarrow> None | Inr x \<Rightarrow> Some x))))"
    using assms(2) by (cases r) (simp_all add: m Let_def)
qed

lemma sources_keepD:
  assumes "sources_keep env P"
  shows "step_keeps P (pe_ohlcv env ts window)" "step_keeps P (pe_fundamentals env ts window)"
    "step_keeps P (pe_news env ts window)" "step_keeps P (pe_sentiment env ts)" "step_keeps P (pe_sectors env ts)"
    "step_keeps P (pe_earnings env ts window)" "step_keeps P (pe_regime_inputs env day)"
    "P s \<Longrightarrow> P (ag_submit env s f)" "P s \<Longrightarrow> P (fst (pe_drain_notes env s))" "P s \<Longrightarrow> P (pe_sleep env s)"
  using assms unfolding sources_keep_def by blast+

lemma step_keeps_env: "(\<And>v. step_keeps P (f v)) \<Longrightarrow> step_keeps P (\<lambda>w. f w w)"
  by (simp add: step_keeps_def)

lemma keeps_fetch_optional:
  assumes "sources_keep env P" "step_keeps P fetch"
  shows "step_keeps P (fetch_optional env requested fetch dflt note q)"
proof -
  have "step_keeps P (captured env a mo c fetch)" for a mo c
    using assms(2) sources_keepD(8) [OF assms(1)] by (rule keeps_captured)
  then have "step_keeps P (step_bind (captured env a mo c fetch) (\<lambda>found w.
          (case found of
             None \<Rightarrow> (w, Inr (dflt, q\<lparr>dq_notes := dq_notes q @ [note]\<rparr>))
           | Some v \<Rightarrow>
               (case pe_drain_notes env w of
                  (w1, notes) \<Rightarrow>
                    (w1, Inr (v, if notes = [] then q else q\<lparr>dq_notes := first_of_each (dq_notes q @ notes)\<rparr>))))))"
    for a mo c
    using assms(1) by (intro step_keeps_bind) (auto simp: step_keeps_def sources_keep_def split: option.split prod.split)
  then show ?thesis by (simp add: fetch_optional_def)
qed

lemma keeps_collect:
  assumes "sources_keep env P"
  shows "step_keeps P (collect_optional_fields env rq q)"
proof -
  note src = sources_keepD [OF assms]
  have bench: "step_keeps P (case b of None \<Rightarrow> step_return ([], q') | Some c \<Rightarrow>
      fetch_optional env wanted (pe_ohlcv env [c] window) [] msg q')" for b q' wanted window msg
    using keeps_fetch_optional [OF assms src(1)] by (cases b) simp_all
  show ?thesis
    unfolding collect_optional_fields_def Let_def case_prod_beta
    by (intro step_keeps_bind keeps_fetch_optional [OF assms] src bench step_keeps_return)
qed

text \<open>The writes of the provider, none of which has the label of a payload or the type of its edges.\<close>

definition aside :: "string \<Rightarrow> string \<times> string \<Rightarrow> bool" where
  "aside t k \<longleftrightarrow>
     fst k \<noteq> ''Ticker'' \<and> fst k \<noteq> ''MarketSnapshot'' \<and> fst k \<noteq> ''Regime'' \<and> fst k \<noteq> ''Sector''
     \<and> fst k \<noteq> ''RegimeContext'' \<and> t \<noteq> ''CONTAINS_TICKER''"

lemma keeps_write_snapshot:
  assumes "ge_port env = mem_port" "aside t k"
  shows "step_keeps (waiting t k x) (write_market_snapshot env tickers bars q)"
proof -
  have eq: "write_market_snapshot env tickers bars q = (\<lambda>w. (\<lambda>v.
      step_bind (ge_merge env ''MarketSnapshot'' (''provider-market-'' @ ag_hex env v)
        (market_props (ge_wall env v) tickers bars q)) (\<lambda>n.
         step_bind (step_each (write_ticker env n) tickers) (\<lambda>_.
           step_return (run_provenance ''provider'' (''provider-market-'' @ ag_hex env v) n
             (if dq_used_fallback q then [''market_data_degraded''] else []))))) w w)"
    by (rule ext) (simp only: write_market_snapshot_def Let_def)
  have tick: "step_keeps (waiting t k x) (write_ticker env n ticker)" for n ticker
    unfolding write_ticker_def using assms
    by (intro step_keeps_bind waiting_merge_step waiting_edge_step) (auto simp: aside_def)
  show ?thesis
    unfolding eq
    by (rule step_keeps_env, intro step_keeps_bind waiting_merge_step step_keeps_each tick step_keeps_return)
      (use assms in \<open>auto simp: aside_def market_props_def dict_wf_def\<close>)
qed

lemma keeps_write_regime:
  assumes "ge_port env = mem_port" "aside t k"
  shows "step_keeps (waiting t k x) (write_regime env label vix as_of incidents)"
proof -
  have eq: "write_regime env label vix as_of incidents = (\<lambda>w. (\<lambda>v. step_bind (ge_merge env ''Regime''
      (''provider-regime-'' @ ag_hex env v)
      [(''label'', PStr label), (''vix'', none_or PFloat vix), (''as_of'', PStr (isoformat as_of))])
      (\<lambda>n. step_return (run_provenance ''provider'' (''provider-regime-'' @ ag_hex env v) n incidents))) w w)"
    by (rule ext) (simp only: write_regime_def Let_def)
  show ?thesis
    unfolding eq
    by (rule step_keeps_env, intro step_keeps_bind waiting_merge_step step_keeps_return)
      (use assms in \<open>auto simp: aside_def dict_wf_def\<close>)
qed

lemma keeps_market_data:
  assumes "ge_port env = mem_port" "aside t k" "sources_keep env (waiting t k x)"
  shows "step_keeps (waiting t k x) (get_market_data env rq)"
proof -
  have "step_keeps (waiting t k x) (captured env a mo c (pe_ohlcv env ts window))" for a mo c ts window
    by (rule keeps_captured [OF sources_keepD(1) [OF assms(3)] sources_keepD(8) [OF assms(3)]])
  then show ?thesis
    unfolding get_market_data_def case_prod_beta
    by (intro step_keeps_bind keeps_collect [OF assms(3)] keeps_write_snapshot [OF assms(1, 2)] step_keeps_return)
qed

lemma keeps_regime:
  assumes "ge_port env = mem_port" "aside t k" "sources_keep env (waiting t k x)"
  shows "step_keeps (waiting t k x) (get_regime env as_of)"
proof -
  have 1: "step_keeps (waiting t k x) (captured env a mo c (pe_regime_inputs env as_of))" for a mo c
    by (rule keeps_captured [OF sources_keepD(7) [OF assms(3)] sources_keepD(8) [OF assms(3)]])
  have 2: "step_keeps (waiting t k x) (\<lambda>w. ((if b then ag_submit env w (f w) else w), Inr ()))" for b f
    using assms(3) by (auto simp: step_keeps_def sources_keep_def)
  show ?thesis
    unfolding get_regime_def Let_def
    by (intro step_keeps_bind 1 2 keeps_write_regime [OF assms(1, 2)]) simp
qed

lemma keeps_sectors:
  assumes "ge_port env = mem_port" "aside t k"
  shows "step_keeps (waiting t k x) (with_cached_sectors env m universe)"
proof -
  have m: "step_keeps (waiting t k x) (step_forget (ge_merge env ''Sector'' key [(''ticker'', a), (''sector'', b)]))" for key a b
    using assms by (intro step_keeps_forget waiting_merge_step) (auto simp: aside_def dict_wf_def)
  have 1: "step_keeps (waiting t k x) (remember_sector env ts)" for ts
    using m by (auto simp: step_keeps_def remember_sector_def step_return_def split: prod.split option.split)
  have "fst (fill_sectors env ts d w) = w" for ts d w
    by (induction env ts d w rule: fill_sectors.induct) (simp_all split: option.split sum.split)
  then have 2: "step_keeps (waiting t k x) (fill_sectors env ts d)" for ts d
    by (simp add: step_keeps_def)
  show ?thesis
    unfolding with_cached_sectors_def resolve_sectors_def
    by (intro step_keeps_bind step_keeps_each 1 2 step_keeps_return)
qed

lemma keeps_chunks:
  assumes "ge_port env = mem_port" "aside t k" "sources_keep env (waiting t k x)"
  shows "step_keeps (waiting t k x) (fetch_chunks env cs window wanted b)"
proof (induction cs arbitrary: b)
  case (Cons c cs)
  have "step_keeps (waiting t k x) (\<lambda>w. ((if cs = [] then w else pe_sleep env w), Inr ()))"
    using assms(3) by (auto simp: step_keeps_def sources_keep_def)
  then show ?case
    by (simp, intro step_keeps_bind keeps_market_data [OF assms] Cons.IH step_keeps_return)
qed simp

lemma keeps_merge_parts:
  assumes "ge_port env = mem_port" "aside t k"
  shows "step_keeps (waiting t k x) (merge_parts env parts universe window)"
  unfolding merge_parts_def Let_def case_prod_beta
  by (intro step_keeps_bind keeps_write_snapshot [OF assms] step_keeps_return)

lemma write_run_waits:
  assumes "ge_port env = mem_port" "sources_quiet env"
    and "waiting ''SCANNED_BY'' (''MarketData'', market_data_key run_id) None s"
    and "write_run env m universe window run_id s = (s', Inr key)"
  shows "key = market_data_key run_id
    \<and> (\<exists>n. waiting ''SCANNED_BY'' (''MarketData'', market_data_key run_id) (Some n) s'
          \<and> gn_label n = ''MarketData'' \<and> gn_key n = market_data_key run_id \<and> dict_get (gn_props n) ''run_id'' = Some (PStr run_id))"
proof -
  let ?k = "(''MarketData'', market_data_key run_id)"
  have aside: "aside ''SCANNED_BY'' ?k" by (simp add: aside_def)
  have sk: "sources_keep env (waiting ''SCANNED_BY'' ?k x)" for x
    by (rule quiet_keep [OF assms(2)]) simp_all
  obtain s1 m1 s2 s3 r where c: "with_cached_sectors env m universe s = (s1, Inr m1)"
    and w: "write_market_data env m1 universe window run_id s1 = (s2, Inr ())"
    and g: "get_regime env (snd window) s2 = (s3, Inr r)"
    and x: "write_regime_context env r window run_id s3 = (s', Inr ())"
    and key: "key = market_data_key run_id"
    using assms(4) by (auto simp: write_run_def step_bind_Inr step_return_def)
  let ?p = "[(''snapshot'', market_json m1), (''tickers'', json_strs universe), (''window_end'', day_json (snd window)),
        (''run_id'', PStr run_id)]"
  obtain n where mg: "merge_node (ge_wall env s1) s1 ''MarketData'' (market_data_key run_id) ?p 1 = (s2, Inr n)"
    using w by (auto simp: write_market_data_def step_forget_def step_bind_Inr step_return_def ge_merge_def assms(1))
  have "waiting ''SCANNED_BY'' ?k None s1"
    using step_keepsD [OF keeps_sectors [OF assms(1) aside] assms(3) c] .
  from waiting_merge_same [OF this _ mg] have n: "waiting ''SCANNED_BY'' ?k (Some n) s2" "holds_props n ?p"
    "gn_label n = ''MarketData''" "gn_key n = market_data_key run_id"
    by (simp_all add: dict_wf_def)
  have w3: "waiting ''SCANNED_BY'' ?k (Some n) s3"
    using step_keepsD [OF keeps_regime [OF assms(1) aside sk] n(1) g] .
  have "step_keeps (waiting ''SCANNED_BY'' ?k (Some n)) (write_regime_context env r window run_id)"
    unfolding write_regime_context_def
    by (intro step_keeps_forget waiting_merge_step) (simp_all add: assms(1) dict_wf_def)
  from step_keepsD [OF this w3 x] have "waiting ''SCANNED_BY'' ?k (Some n) s'" .
  moreover have "dict_get (gn_props n) ''run_id'' = Some (PStr run_id)"
    using n(2) by (simp add: holds_props_def)
  ultimately show ?thesis
    using key n(3, 4) by blast
qed

lemma ingest_waits:
  assumes "ge_port env = mem_port" "sources_quiet env" "run_id \<noteq> []"
    and "waiting ''SCANNED_BY'' (''MarketData'', market_data_key run_id) None s"
    and "ingest_once env universe (Some run_id) lookback benchmark as_of s = (s', Inr (Some key))"
  shows "key = market_data_key run_id
    \<and> (\<exists>n. waiting ''SCANNED_BY'' (''MarketData'', market_data_key run_id) (Some n) s'
          \<and> gn_label n = ''MarketData'' \<and> gn_key n = market_data_key run_id \<and> dict_get (gn_props n) ''run_id'' = Some (PStr run_id))"
proof -
  let ?P = "waiting ''SCANNED_BY'' (''MarketData'', market_data_key run_id) None"
  have aside: "aside ''SCANNED_BY'' (''MarketData'', market_data_key run_id)" by (simp add: aside_def)
  have sk: "sources_keep env ?P" by (rule quiet_keep [OF assms(2)]) simp_all
  note keeps = keeps_market_data [OF assms(1) aside sk] keeps_chunks [OF assms(1) aside sk]
    keeps_merge_parts [OF assms(1) aside]
  obtain s1 m window where "?P s1" "write_run env m universe window run_id s1 = (s', Inr key)"
  proof (cases "0 < pvs_ingest_chunk_size (pe_settings env) \<and> pvs_ingest_chunk_size (pe_settings env) < length universe")
    case True
    with assms(3, 5) obtain window parts m s1 s2 where
      f: "fetch_chunks env (chunks universe (pvs_ingest_chunk_size (pe_settings env))) window
            (with_benchmark_field (ingest_fields (pe_settings env) benchmark) benchmark) benchmark s = (s1, Inr parts)" and
      mp: "merge_parts env parts universe window s1 = (s2, Inr m)" and
      w: "write_run env m universe window run_id s2 = (s', Inr key)"
      by (auto simp: ingest_once_def ingest_chunked_def step_bind_Inr step_res_Inr step_return_def Let_def split: if_splits)
    from step_keepsD [OF keeps(2) assms(4) f] have "?P s1" .
    from step_keepsD [OF keeps(3) this mp] have "?P s2" .
    then show ?thesis using w by (rule that)
  next
    case False
    with assms(3, 5) obtain window m s1 where
      f: "get_market_data env \<lparr>drq_tickers = universe, drq_window = window,
         drq_fields = ingest_fields (pe_settings env) benchmark, drq_benchmark = benchmark\<rparr> s = (s1, Inr m)" and
      w: "write_run env m universe window run_id s1 = (s', Inr key)"
      by (auto simp: ingest_once_def ingest_whole_def step_bind_Inr step_res_Inr step_return_def Let_def split: if_splits)
    from step_keepsD [OF keeps(1) assms(4) f] have "?P s1" .
    then show ?thesis using w by (rule that)
  qed
  then show ?thesis by (rule write_run_waits [OF assms(1, 2)])
qed

text \<open>
  C14. A run request the provider ingests without raising leaves the provider's queue: an edge leads from it
  to the run's one new payload, which carries the run's identity and waits in the scanner's queue.
\<close>

theorem ingest_hands_over:
  assumes "ge_port env = mem_port" and "sources_quiet env" and "store_wf s"
    and "dict_get (gn_props node) ''run_id'' = Some (PStr run_id)" and "run_id \<noteq> []"
    and "get_node s ''MarketData'' (market_data_key run_id) = None"
    and "ingest_run_node env node s = (s', Inr ())"
  shows "\<exists>payload. get_node s' ''MarketData'' (market_data_key run_id) = Some payload
    \<and> dict_get (gn_props payload) ''run_id'' = Some (PStr run_id)
    \<and> unprocessed s' ''SCANNED_BY'' payload \<and> \<not> unprocessed s' ''INGESTED_BY'' node"
proof -
  let ?k = "(''MarketData'', market_data_key run_id)"
  have new: "waiting ''SCANNED_BY'' ?k None s"
    using waiting_new [OF assms(3, 6)] .
  obtain universe lookback as_of s1 found where
    i: "ingest_once env universe (Some run_id) lookback (benchmark_of node) as_of s = (s1, Inr found)"
    and rest: "(case found of None \<Rightarrow> (s1, Inl assertion_error)
      | Some k \<Rightarrow> (case gp_get (ge_port env) s1 ''MarketData'' k of None \<Rightarrow> (s1, Inl assertion_error)
          | Some m \<Rightarrow> ge_edge env node m ''INGESTED_BY'' s1)) = (s', Inr ())"
    using assms(7) unfolding ingest_run_node_def
    by (auto simp: step_bind_Inr step_res_Inr prop_at_def assms(4) case_prod_beta simp del: split_paired_Ex)
  obtain key m where found: "found = Some key"
    and g: "gp_get (ge_port env) s1 ''MarketData'' key = Some m" and e: "ge_edge env node m ''INGESTED_BY'' s1 = (s', Inr ())"
    using rest by (auto split: option.splits)
  from ingest_waits [OF assms(1, 2, 5) new i [unfolded found]] obtain n where key: "key = market_data_key run_id"
    and n: "waiting ''SCANNED_BY'' ?k (Some n) s1" "gn_label n = ''MarketData''" "gn_key n = market_data_key run_id"
      "dict_get (gn_props n) ''run_id'' = Some (PStr run_id)" by blast
  have m: "m = n"
    using g n(1) by (simp add: assms(1) mem_port_def waiting_def key)
  have "waiting ''SCANNED_BY'' ?k (Some n) s'"
    using step_keepsD [OF waiting_edge_step [OF assms(1)] n(1) e] by simp
  then have "get_node s' ''MarketData'' (market_data_key run_id) = Some n" "unprocessed s' ''SCANNED_BY'' n"
    by (auto simp: waiting_def unprocessed_def node_key_of_def n)
  moreover have "\<not> unprocessed s' ''INGESTED_BY'' node"
    using add_edge_present [of _ s1 node m "''INGESTED_BY''" None s'] e
    by (auto simp: ge_edge_def assms(1) unprocessed_def)
  ultimately show ?thesis using n(4) by blast
qed

definition handover_request :: gnode where
  "handover_request = make_node ''RunRequest'' ''r''
     [(''lookback_days'', PInt 1), (''required_history_bars'', PInt 1), (''requested_at'', PStr ''2026-09-24''),
      (''tickers'', json_strs [''AB'']), (''run_id'', PStr ''7'')] 1"

definition handover_store :: store where
  "handover_store = \<lparr>st_nodes = [((''RunRequest'', ''r''), handover_request)], st_edges = [], st_faults = []\<rparr>"

definition handover_env :: "store provider_env" where
  "handover_env = sample_provider_env\<lparr>pe_settings := sample_provider_settings\<lparr>pvs_ingest_ohlcv_only := True\<rparr>\<rparr>"

lemma handover_store_merge: "handover_store = fst (merge_node sample_time empty_store ''RunRequest'' ''r'' (gn_props handover_request) 1)"
  by (simp add: handover_store_def merge_node_def merge_core_def empty_store_def handover_request_def make_node_def
     dict_simps Let_def)

lemma handover_wf: "store_wf handover_store"
  unfolding handover_store_merge by (rule merge_node_wf) (simp_all add: handover_request_def make_node_def dict_wf_def frozen_props_def)

lemma handover_day: "iso_day ''2026-09-24'' = Some 739883"
  by (simp add: iso_day_def all_digits_def digits_value_def valid_date_def ymd2ord_def days_before_year_def
     days_before_month_unfold is_leap_def is_digit_def)

lemma handover_session: "is_trading_session 739883"
proof -
  have o: "int (ymd2ord 2026 9 24) = 739883"
    by (simp add: ymd2ord_def days_before_year_def days_before_month_unfold is_leap_def)
  have "int (ymd2ord 2026 9 24) \<notin> set nyse_holidays"
    by (rule not_holiday) (simp_all add: valid_date_def nyse_closures_def)
  then show ?thesis by (simp only: o is_trading_session_def weekday_of_def) simp
qed

lemma handover_quiet: "sources_quiet handover_env"
  by (simp add: sources_quiet_def handover_env_def sample_provider_env_def step_return_def faults_only_def)

lemma handover_declared: "declared_history sample_time handover_request = Inr (1, 739883)"
proof -
  have "{739883} \<subseteq> {d. 739881 < d \<and> d \<le> 739883 \<and> is_trading_session d}"
    using handover_session by simp
  from card_mono [OF sessions_finite this] have "1 \<le> covered_sessions 1 739883"
    by (simp add: covered_sessions_def sessions_card)
  then show ?thesis
    by (simp add: declared_history_def handover_request_def make_node_def positive_int_def instance_int_def get_or_def
      requested_day_def day_of_def sample_time_def handover_day frozen_props_def frozen_value.simps ymd2ord_def days_before_year_def days_before_month_unfold is_leap_def dict_simps)
qed

lemma handover_props: "dict_get (gn_props handover_request) ''tickers'' = Some (frozen_value (json_strs [''AB'']))"
    "dict_get (gn_props handover_request) ''run_id'' = Some (PStr ''7'')" "benchmark_of handover_request = None"
  by (simp_all add: handover_request_def make_node_def frozen_props_def benchmark_of_def dict_simps)

lemma handover_held: "open_position_tickers flt digest mem_port handover_store = Inr []"
  by (simp add: open_position_tickers_def open_positions_def active_nodes_by_ticker_def active_position_nodes_def
    list_nodes_def handover_store_def handover_request_def make_node_def)

lemma handover_fetch: "\<exists>s' m. get_market_data handover_env \<lparr>drq_tickers = [''AB''], drq_window = (739882, 739883), drq_fields = [''ohlcv''],
    drq_benchmark = None\<rparr> handover_store = (s', Inr m) \<and> mkt_sectors m = [] \<and> (\<exists>snap tick. st_nodes s' = [((''RunRequest'', ''r''), handover_request), 
     ((''MarketSnapshot'', ''provider-market-0''), snap), ((''Ticker'', ''AB''), tick)])
     \<and> (\<exists>e. st_edges s' = [e] \<and> ge_type e = ''CONTAINS_TICKER'')"
  by (simp add: get_market_data_def step_bind_def captured_def handover_env_def sample_provider_env_def step_return_def
     collect_optional_fields_def fetch_optional_def Let_def write_market_snapshot_def ge_merge_def merge_node_def
        merge_core_def handover_store_def write_ticker_def ge_edge_def add_edge_def add_edge_core_def require_node_def
        node_key_of_def dict_simps make_node_def make_edge_def handover_request_def fault_boundary.simps split: prod.split)


lemma handover_write: "mkt_sectors m = [] \<Longrightarrow> st_nodes s = [((''RunRequest'', ''r''), handover_request), 
     ((''MarketSnapshot'', ''provider-market-0''), snap), ((''Ticker'', ''AB''), tick)] \<Longrightarrow>
     st_edges s = [e] \<Longrightarrow> ge_type e = ''CONTAINS_TICKER'' \<Longrightarrow>
   \<exists>s' n. write_run handover_env m [''AB''] (739882, 739883) ''7'' s = (s', Inr (market_data_key ''7''))
     \<and> get_node s' ''MarketData'' (market_data_key ''7'') = Some n
     \<and> gn_label n = ''MarketData'' \<and> gn_key n = market_data_key ''7''
     \<and> get_node s' ''RunRequest'' ''r'' = Some handover_request \<and> st_edges s' = [e]"
  by (simp add: write_run_def step_bind_def captured_def handover_env_def sample_provider_env_def step_return_def
     with_cached_sectors_def resolve_sectors_def sector_key_def get_node_def write_market_data_def step_forget_def
     get_regime_def write_regime_def write_regime_context_def opt_neg_def market_data_key_def
     Let_def ge_merge_def merge_node_def make_node_def 
        merge_core_def  dict_simps  split: prod.split)


lemma handover_runs: "\<exists>s'. ingest_run_node handover_env handover_request handover_store = (s', Inr ())"
proof -
  obtain s1 m snap tick e where g: "get_market_data handover_env \<lparr>drq_tickers = [''AB''], drq_window = (739882, 739883),
      drq_fields = [''ohlcv''], drq_benchmark = None\<rparr> handover_store = (s1, Inr m)"
    and s1: "mkt_sectors m = []" "st_nodes s1 = [((''RunRequest'', ''r''), handover_request),
      ((''MarketSnapshot'', ''provider-market-0''), snap), ((''Ticker'', ''AB''), tick)]"
      "st_edges s1 = [e]" "ge_type e = ''CONTAINS_TICKER''"
    using handover_fetch by blast
  from handover_write [OF s1] obtain s2 n where
    w: "write_run handover_env m [''AB''] (739882, 739883) ''7'' s1 = (s2, Inr (market_data_key ''7''))"
    and n: "get_node s2 ''MarketData'' (market_data_key ''7'') = Some n" "gn_label n = ''MarketData''"
      "gn_key n = market_data_key ''7''" "get_node s2 ''RunRequest'' ''r'' = Some handover_request" "st_edges s2 = [e]"
    by blast
  have "ingest_once handover_env [''AB''] (Some ''7'') 1 None (Some 739883) handover_store = (s2, Inr (Some (market_data_key ''7'')))"
    using g w by (simp add: ingest_once_def ingest_whole_def run_window_def step_bind_def step_res_def step_return_def
        handover_env_def sample_provider_settings_def ingest_fields_def with_benchmark_field_def)
  moreover have "ge_port handover_env = mem_port" "ge_wall handover_env = (\<lambda>g. sample_time)"
    by (simp_all add: handover_env_def sample_provider_env_def)
  moreover have "\<exists>s'. ge_edge handover_env handover_request n ''INGESTED_BY'' s2 = (s', Inr ())"
    using n s1(4) by (simp add: ge_edge_def handover_env_def sample_provider_env_def add_edge_def add_edge_core_def
        require_node_def node_key_of_def make_edge_def handover_request_def make_node_def get_node_def Let_def)
  ultimately show ?thesis
    using n(1) by (simp add: ingest_run_node_def step_bind_def step_res_def handover_declared handover_props handover_held prop_at_def
        json_strs_def union_tickers_def first_of_each_def)
qed

lemma ingest_hands_over_witness:
  "\<exists>s' payload. ingest_run_node handover_env handover_request handover_store = (s', Inr ())
     \<and> get_node s' ''MarketData'' (market_data_key ''7'') = Some payload
     \<and> unprocessed s' ''SCANNED_BY'' payload \<and> \<not> unprocessed s' ''INGESTED_BY'' handover_request"
proof -
  obtain s' where r: "ingest_run_node handover_env handover_request handover_store = (s', Inr ())"
    using handover_runs by blast
  have "ge_port handover_env = mem_port" by (simp add: handover_env_def sample_provider_env_def)
  moreover have "get_node handover_store ''MarketData'' (market_data_key ''7'') = None"
    by (simp add: get_node_def handover_store_def dict_simps)
  ultimately show ?thesis
    using ingest_hands_over [OF _ handover_quiet handover_wf handover_props(2) _ _ r] r by fast
qed

end
