(* ===== verification/ReportBook.thy ===== *)
theory ReportBook
  imports ProviderAgent Indicators
begin

text \<open>
  The reporter's pure parts (\<open>agents/reporter/domain/\<close>): the window of a run over the broker's fills
  (\<open>book_window.py\<close>), the outcomes of the trades (\<open>trade_outcomes.py\<close>), the metric reducers
  (\<open>metrics.py\<close>), and the performance against the benchmark (\<open>performance.py\<close>).

  An instant is its number of microseconds, a date its day number.  The reading of an ISO text is the
  parameter \<open>parse\<close>; an instant that the conversion to UTC would refuse, at the ends of the calendar,
  keeps its number.
\<close>

section \<open>Instants\<close>

fun zulu_text :: "string \<Rightarrow> string" where
  "zulu_text [] = []"
| "zulu_text (c # cs) = (if c = CHR ''Z'' then ''+00:00'' else [c]) @ zulu_text cs"

definition utc_instant :: "(string \<Rightarrow> timestamp option) \<Rightarrow> pyval \<Rightarrow> int option" where
  "utc_instant parse v =
     (case v of PStr s \<Rightarrow> map_option instant (parse (zulu_text s)) | _ \<Rightarrow> None)"

definition day_of_instant :: "int \<Rightarrow> int" where
  "day_of_instant moment = moment div 86400000000"

section \<open>The window\<close>

type_synonym timed_fill = "int \<times> gnode"

definition run_instant :: "(string \<Rightarrow> timestamp option) \<Rightarrow> gnode \<Rightarrow> int option" where
  "run_instant parse n = utc_instant parse (data_get (gn_props n) ''created_at'')"

definition window_start :: "(string \<Rightarrow> timestamp option) \<Rightarrow> gnode list \<Rightarrow> int \<Rightarrow> int option" where
  "window_start parse pm_runs reported_at =
     (case filter (\<lambda>m. m < reported_at) (List.map_filter (run_instant parse) pm_runs) of
        [] \<Rightarrow> None
      | m # ms \<Rightarrow> Some (fold max ms m))"

definition fill_moment :: "(rat \<Rightarrow> string) \<Rightarrow> (string \<Rightarrow> timestamp option) \<Rightarrow> gnode \<Rightarrow> int option" where
  "fill_moment flt parse n =
     (if normalise flt (data_get (gn_props n) ''broker_status'') = ''filled''
      then utc_instant parse (data_get (gn_props n) ''broker_status_refreshed_at'') else None)"

definition filled_fills ::
  "(rat \<Rightarrow> string) \<Rightarrow> (string \<Rightarrow> timestamp option) \<Rightarrow> gnode list \<Rightarrow> timed_fill list" where
  "filled_fills flt parse fills = List.map_filter (\<lambda>n. map_option (\<lambda>m. (m, n)) (fill_moment flt parse n)) fills"

definition in_window :: "int option \<Rightarrow> int \<Rightarrow> int \<Rightarrow> bool" where
  "in_window after until moment \<longleftrightarrow> moment \<le> until \<and> (case after of None \<Rightarrow> True | Some a \<Rightarrow> a < moment)"

definition fills_between :: "timed_fill list \<Rightarrow> int option \<Rightarrow> int \<Rightarrow> gnode list" where
  "fills_between timed after until = map snd (filter (\<lambda>(m, n). in_window after until m) timed)"

definition exits_since :: "timed_fill list \<Rightarrow> int \<Rightarrow> int \<Rightarrow> gnode list" where
  "exits_since timed since until =
     map snd (filter (\<lambda>(m, n). since \<le> m \<and> m \<le> until \<and> prop_is (gn_props n) ''side'' ''sell'') timed)"

definition count_of :: "('a \<Rightarrow> bool) \<Rightarrow> 'a list \<Rightarrow> rat" where
  "count_of p xs = of_nat (length (filter p xs))"

definition book_counts :: "gnode list \<Rightarrow> (string, rat) dict" where
  "book_counts window =
     (let sells = filter (\<lambda>n. prop_is (gn_props n) ''side'' ''sell'') window
      in [(''positions_opened'', count_of (\<lambda>n. prop_is (gn_props n) ''side'' ''buy'') window),
          (''positions_closed'', of_nat (length sells)),
          (''close_trigger_stop'', count_of is_resting_stop_fill sells)])"

section \<open>Trade outcomes\<close>

text \<open>A boolean is no amount; the fallback is read only where \<open>realized_pnl_cents\<close> is absent.\<close>

definition pnl_cents :: "(rat \<Rightarrow> string) \<Rightarrow> gnode \<Rightarrow> int option" where
  "pnl_cents flt n =
     (let p = gn_props n
      in if py_truth (data_get p ''drop_reason'') then None
         else if is_resolved_unfilled_status flt (data_get p ''broker_status'') then None
         else if dict_get p ''pnl_invalidated_at'' \<noteq> None then None
         else whole (get_or p ''realized_pnl_cents'' (data_get p ''pnl_cents'')))"

definition collect_trade_outcomes :: "(rat \<Rightarrow> string) \<Rightarrow> gnode list \<Rightarrow> gnode list \<Rightarrow> (string, rat) dict" where
  "collect_trade_outcomes flt fills closes =
     (let pnls = List.map_filter (pnl_cents flt) (fills @ closes)
      in if pnls = [] then [(''closed_trades_with_pnl'', 0)]
         else let wins = sum_list (filter (\<lambda>p. 0 < p) pnls); losses = - sum_list (filter (\<lambda>p. p < 0) pnls)
              in [(''profit_factor'', if 0 < losses then of_int wins / of_int losses else 0),
                  (''expectancy_cents'', of_int (sum_list pnls) / of_nat (length pnls)),
                  (''closed_trades_with_pnl'', of_nat (length pnls))])"

section \<open>Metrics\<close>

definition number_prop :: "(string \<Rightarrow> rat option) \<Rightarrow> gnode \<Rightarrow> string \<Rightarrow> rat" where
  "number_prop parse_float n name =
     (case float_of parse_float (get_or (gn_props n) name (PFloat 0)) of None \<Rightarrow> 0 | Some x \<Rightarrow> x)"

definition trigger_count :: "gnode list \<Rightarrow> string \<Rightarrow> rat" where
  "trigger_count closes trigger = count_of (\<lambda>n. prop_is (gn_props n) ''trigger'' trigger) closes"

definition collect_portfolio_metrics ::
  "(string \<Rightarrow> rat option) \<Rightarrow> gnode option \<Rightarrow> gnode list \<Rightarrow> (string, rat) dict" where
  "collect_portfolio_metrics parse_float pm_run closes =
     (let number = (\<lambda>name. case pm_run of None \<Rightarrow> 0 | Some n \<Rightarrow> number_prop parse_float n name);
          approved = number ''approved_count''; rejected = number ''rejected_count''
      in [(''approved_count'', approved), (''rejected_count'', rejected),
          (''close_trigger_target'', trigger_count closes ''target''),
          (''close_trigger_time'', trigger_count closes ''time''),
          (''approval_rate'', if approved + rejected \<noteq> 0 then approved / (approved + rejected) else 0)])"

definition average_prop :: "(string \<Rightarrow> rat option) \<Rightarrow> gnode list \<Rightarrow> string \<Rightarrow> rat" where
  "average_prop parse_float ns name =
     (if ns = [] then 0 else sum_list (map (\<lambda>n. number_prop parse_float n name) ns) / of_nat (length ns))"

definition collect_signal_metrics ::
  "(string \<Rightarrow> rat option) \<Rightarrow> gnode list \<Rightarrow> nat \<Rightarrow> (string, rat) dict" where
  "collect_signal_metrics parse_float recommendations rejection_count =
     [(''recommendation_count'', of_nat (length recommendations)),
      (''avg_confidence'', average_prop parse_float recommendations ''confidence''),
      (''avg_technical_score'', average_prop parse_float recommendations ''technical_score''),
      (''rejection_count'', of_nat rejection_count)]"

definition collect_regime_attribution ::
  "(string \<Rightarrow> rat option) \<Rightarrow> gnode list \<Rightarrow> gnode list \<Rightarrow> (string, rat) dict" where
  "collect_regime_attribution parse_float scan_runs snapshots =
     (if scan_runs = [] \<and> snapshots = [] then []
      else [(''snapshots_used'', of_nat (length snapshots)),
            (''bar_count_total'', sum_list (map (\<lambda>n. number_prop parse_float n ''bar_count'') snapshots))])"

section \<open>Performance\<close>

text \<open>A day, the equity and the value held long, in cents.\<close>

record performance_point =
  pfp_day :: int
  pfp_equity :: int
  pfp_long :: int

record usable_pair =
  upr_from :: performance_point
  upr_to :: performance_point
  upr_from_close :: rat
  upr_to_close :: rat

definition usable_pair_of :: "(int, rat) dict \<Rightarrow> performance_point \<times> performance_point \<Rightarrow> usable_pair option" where
  "usable_pair_of closes = (\<lambda>(p, c).
     (case (dict_get closes (pfp_day p), dict_get closes (pfp_day c)) of
        (Some x, Some y) \<Rightarrow>
          if x \<le> 0 \<or> y \<le> 0 \<or> pfp_equity p = 0 then None
          else Some \<lparr>upr_from = p, upr_to = c, upr_from_close = x, upr_to_close = y\<rparr>
      | _ \<Rightarrow> None))"

definition usable_pairs :: "performance_point list \<Rightarrow> (int, rat) dict \<Rightarrow> usable_pair list \<times> nat" where
  "usable_pairs points closes =
     (List.map_filter (usable_pair_of closes) (pairwise points),
      length (filter (\<lambda>pc. usable_pair_of closes pc = None) (pairwise points)))"

definition equity_ratio :: "usable_pair \<Rightarrow> rat" where
  "equity_ratio u = of_int (pfp_equity (upr_to u)) / of_int (pfp_equity (upr_from u))"

definition close_ratio :: "usable_pair \<Rightarrow> rat" where
  "close_ratio u = upr_to_close u / upr_from_close u"

definition exposure_of :: "usable_pair \<Rightarrow> rat" where
  "exposure_of u = of_int (pfp_long (upr_from u)) / of_int (pfp_equity (upr_from u))"

definition matched_ratio :: "usable_pair \<Rightarrow> rat" where
  "matched_ratio u = 1 + exposure_of u * (close_ratio u - 1)"

definition chained :: "(usable_pair \<Rightarrow> rat) \<Rightarrow> usable_pair list \<Rightarrow> rat" where
  "chained f us = fold (\<lambda>u a. a * f u) us 1"

definition percent_of :: "rat \<Rightarrow> rat" where
  "percent_of factor = (factor - 1) * 100"

fun drawdown_from :: "int \<Rightarrow> rat \<Rightarrow> performance_point list \<Rightarrow> rat" where
  "drawdown_from peak drawdown [] = drawdown"
| "drawdown_from peak drawdown (p # ps) =
     (let peak = max peak (pfp_equity p)
      in drawdown_from peak
           (if peak \<noteq> 0 then min drawdown (of_int (pfp_equity p) / of_int peak - 1) else drawdown) ps)"

definition max_drawdown :: "performance_point list \<Rightarrow> rat" where
  "max_drawdown points = drawdown_from (pfp_equity (hd points)) 0 points * 100"

definition empty_metrics :: "nat \<Rightarrow> (string, rat) dict" where
  "empty_metrics gaps =
     [(''portfolio_return_pct'', 0), (''benchmark_return_pct'', 0), (''exposure_matched_return_pct'', 0),
      (''excess_return_pct'', 0), (''average_exposure_pct'', 0), (''max_drawdown_pct'', 0),
      (''rolling_portfolio_return_pct'', 0), (''rolling_exposure_matched_return_pct'', 0),
      (''rolling_excess_return_pct'', 0), (''performance_sessions'', 0),
      (''performance_gap_sessions'', of_nat gaps), (''equity_cents'', 0)]"

definition calculate_performance ::
  "performance_point list \<Rightarrow> (int, rat) dict \<Rightarrow> nat \<Rightarrow> (string, rat) dict" where
  "calculate_performance points closes rolling =
     (let ordered = sort_key pfp_day points; (pairs, gaps) = usable_pairs ordered closes
      in if pairs = [] then empty_metrics gaps
         else
           let recent = last_n rolling pairs;
               portfolio = percent_of (chained equity_ratio pairs); matched = percent_of (chained matched_ratio pairs)
           in [(''portfolio_return_pct'', portfolio),
               (''benchmark_return_pct'', percent_of (chained close_ratio pairs)),
               (''exposure_matched_return_pct'', matched), (''excess_return_pct'', portfolio - matched),
               (''average_exposure_pct'', sum_list (map exposure_of pairs) / of_nat (length pairs) * 100),
               (''max_drawdown_pct'', max_drawdown ordered),
               (''rolling_portfolio_return_pct'', percent_of (chained equity_ratio recent)),
               (''rolling_exposure_matched_return_pct'', percent_of (chained matched_ratio recent)),
               (''rolling_excess_return_pct'',
                percent_of (chained equity_ratio recent) - percent_of (chained matched_ratio recent)),
               (''performance_sessions'', of_nat (length pairs)),
               (''performance_gap_sessions'', of_nat gaps),
               (''equity_cents'', of_int (pfp_equity (last ordered)))])"

end
