(* ===== verification/ReportRun.thy ===== *)
theory ReportRun
  imports ReportBook
begin

text \<open>
  The reporter (\<open>agents/reporter/\<close>): the provenance it walks (\<open>domain/lineage.py\<close>), the facts it reads
  (\<open>book_inputs.py\<close>, \<open>benchmark_input.py\<close>, \<open>performance_inputs.py\<close>), the texts it composes
  (\<open>domain/narrative.py\<close>, \<open>snapshot_result.py\<close>, \<open>narrative_result.py\<close>), the nodes it writes
  (\<open>store.py\<close>, \<open>result.py\<close>), its poll and its handlers.

  The readings of ISO texts and the validation of a decision set are parameters.
\<close>

record report_settings =
  rst_max_chars :: nat
  rst_inception :: int
  rst_rolling_sessions :: nat

record 'w report_env = "'w agent_env" +
  re_settings :: report_settings
  re_parse_time :: "string \<Rightarrow> timestamp option"
  re_parse_date :: "string \<Rightarrow> int option"
  re_decision_run :: "pyval \<Rightarrow> string res"
  re_validation_text :: "props \<Rightarrow> string"

section \<open>Lineage\<close>

definition read_world :: "('w \<Rightarrow> 'a) \<Rightarrow> ('w, 'a) step" where
  "read_world f w = (w, Inr (f w))"

definition parents_by :: "('w, 'x) graph_env_scheme \<Rightarrow> string \<Rightarrow> gnode \<Rightarrow> ('w, gnode list) step" where
  "parents_by env t n w = gp_ancestors (ge_port env) (ge_wall env w) w n 1 (Some [t])"

definition children_by :: "('w, 'x) graph_env_scheme \<Rightarrow> string \<Rightarrow> gnode \<Rightarrow> ('w, gnode list) step" where
  "children_by env t n w = gp_descendants (ge_port env) (ge_wall env w) w n 1 (Some [t])"

definition first_node :: "gnode list \<Rightarrow> gnode option" where
  "first_node ns = (case ns of [] \<Rightarrow> None | n # _ \<Rightarrow> Some n)"

definition unique_nodes :: "gnode list \<Rightarrow> gnode list" where
  "unique_nodes ns = map snd (fold (\<lambda>n. dict_set (node_key_of n) n) ns [])"

fun step_concat :: "('a \<Rightarrow> ('w, 'b list) step) \<Rightarrow> 'a list \<Rightarrow> ('w, 'b list) step" where
  "step_concat f [] = step_return []"
| "step_concat f (x # xs) = step_bind (f x) (\<lambda>ys. step_bind (step_concat f xs) (\<lambda>zs. step_return (ys @ zs)))"

record run_lineage =
  rl_orders :: "gnode list"
  rl_fills :: "gnode list"
  rl_positions :: "gnode list"
  rl_recommendations :: "gnode list"
  rl_rejections :: "gnode list"
  rl_closes :: "gnode list"
  rl_scan_runs :: "gnode list"
  rl_snapshots :: "gnode list"

record trade_lineage =
  tl_position :: gnode
  tl_fill :: "gnode option"
  tl_order :: "gnode option"
  tl_recommendation :: "gnode option"
  tl_candidate :: "gnode option"
  tl_scan_run :: "gnode option"
  tl_close :: "gnode option"

text \<open>\<open>None if n is None else _first(...)\<close>.\<close>

definition first_by ::
  "(gnode \<Rightarrow> ('w, gnode list) step) \<Rightarrow> gnode option \<Rightarrow> ('w, gnode option) step" where
  "first_by hop n = (case n of None \<Rightarrow> step_return None
     | Some n \<Rightarrow> step_bind (hop n) (\<lambda>ns. step_return (first_node ns)))"

definition scan_of_recommendation :: "('w, 'x) graph_env_scheme \<Rightarrow> gnode \<Rightarrow> ('w, gnode option) step" where
  "scan_of_recommendation env n =
     step_bind (first_by (children_by env ''DERIVED_FROM'') (Some n)) (first_by (children_by env ''SURVIVED''))"

fun market_pairs :: "('w, 'x) graph_env_scheme \<Rightarrow> gnode list \<Rightarrow> ('w, (gnode \<times> gnode list) list) step" where
  "market_pairs env [] = step_return []"
| "market_pairs env (n # ns) =
     step_bind (scan_of_recommendation env n) (\<lambda>scan.
       (case scan of
          None \<Rightarrow> market_pairs env ns
        | Some s \<Rightarrow>
            step_bind (children_by env ''DERIVED_FROM'' s) (\<lambda>snapshots.
            step_bind (market_pairs env ns) (\<lambda>rest.
              step_return ((s, snapshots) # rest)))))"

definition market_lineage :: "('w, 'x) graph_env_scheme \<Rightarrow> gnode list \<Rightarrow> ('w, gnode list \<times> gnode list) step" where
  "market_lineage env ns =
     step_bind (market_pairs env ns) (\<lambda>ps.
       step_return (unique_nodes (map fst ps), unique_nodes (concat (map snd ps))))"

definition collect_run_lineage :: "('w, 'x) graph_env_scheme \<Rightarrow> gnode \<Rightarrow> ('w, run_lineage) step" where
  "collect_run_lineage env pm_run =
     step_bind (parents_by env ''EMITTED_BY'' pm_run) (\<lambda>os. let orders = unique_nodes os in
     step_bind (step_concat (parents_by env ''EXECUTES'') orders) (\<lambda>fs. let fills = unique_nodes fs in
     step_bind (step_concat (children_by env ''OPENS'') fills) (\<lambda>ps. let positions = unique_nodes ps in
     step_bind (step_concat (children_by env ''APPROVES'') orders) (\<lambda>rs. let recommendations = unique_nodes rs in
     step_bind (step_concat (parents_by env ''CLOSES'') positions) (\<lambda>cs.
     step_bind (market_lineage env recommendations) (\<lambda>(scans, snapshots).
     step_bind (parents_by env ''REJECTED_IN'' pm_run) (\<lambda>rejections.
       step_return \<lparr>rl_orders = orders, rl_fills = fills, rl_positions = positions,
         rl_recommendations = recommendations, rl_rejections = unique_nodes rejections,
         rl_closes = unique_nodes cs, rl_scan_runs = scans, rl_snapshots = snapshots\<rparr>)))))))"

definition collect_trade_lineage :: "('w, 'x) graph_env_scheme \<Rightarrow> gnode \<Rightarrow> ('w, trade_lineage) step" where
  "collect_trade_lineage env position =
     step_bind (first_by (parents_by env ''OPENS'') (Some position)) (\<lambda>fill.
     step_bind (first_by (children_by env ''EXECUTES'') fill) (\<lambda>order.
     step_bind (first_by (children_by env ''APPROVES'') order) (\<lambda>recommendation.
     step_bind (first_by (children_by env ''DERIVED_FROM'') recommendation) (\<lambda>cand.
     step_bind (first_by (children_by env ''SURVIVED'') cand) (\<lambda>scan.
     step_bind (first_by (parents_by env ''CLOSES'') (Some position)) (\<lambda>closed.
       step_return \<lparr>tl_position = position, tl_fill = fill, tl_order = order, tl_recommendation = recommendation,
         tl_candidate = cand, tl_scan_run = scan, tl_close = closed\<rparr>))))))"

definition run_id_from_position_id :: "string \<Rightarrow> string" where
  "run_id_from_position_id position_id = takeWhile (\<lambda>c. c \<noteq> CHR '':'') position_id"

definition position_run_id :: "('w, 'x) graph_env_scheme \<Rightarrow> gnode \<Rightarrow> string" where
  "position_run_id env n =
     py_str (ge_float_text env) (get_or (gn_props n) ''run_id'' (PStr (run_id_from_position_id (gn_key n))))"

definition linked_pm_source :: "('w, 'x) graph_env_scheme \<Rightarrow> 'w \<Rightarrow> gnode \<Rightarrow> gnode" where
  "linked_pm_source env w pm_run =
     (let key = data_get (gn_props pm_run) ''linked_from_key''
      in if py_truth key
         then (case gp_get (ge_port env) w ''PMRun'' (py_str (ge_float_text env) key) of None \<Rightarrow> pm_run | Some n \<Rightarrow> n)
         else pm_run)"

section \<open>The book\<close>

definition inception_instant :: "int \<Rightarrow> int" where
  "inception_instant day = day * 86400000000"

definition read_book_metrics ::
  "('w, 'x) report_env_scheme \<Rightarrow> 'w \<Rightarrow> gnode \<Rightarrow> int \<Rightarrow> (string, rat) dict" where
  "read_book_metrics env w pm_run inception =
     (case run_instant (re_parse_time env) pm_run of
        None \<Rightarrow> []
      | Some reported_at \<Rightarrow>
          (let timed = filled_fills (ge_float_text env) (re_parse_time env) (gp_list (ge_port env) w ''Fill'');
               after = window_start (re_parse_time env) (gp_list (ge_port env) w ''PMRun'') reported_at
           in merge_dicts
                [book_counts (fills_between timed after reported_at),
                 collect_trade_outcomes (ge_float_text env)
                   (exits_since timed (inception_instant inception) reported_at) []]))"

definition book_metrics :: "('w, 'x) report_env_scheme \<Rightarrow> gnode \<Rightarrow> int \<Rightarrow> ('w, (string, rat) dict) step" where
  "book_metrics env pm_run inception =
     step_bind (captured env ''reporter'' ''agents.reporter.book_inputs'' ''report.book''
         (read_world (\<lambda>w. read_book_metrics env w pm_run inception))) (\<lambda>found.
       step_return (case found of None \<Rightarrow> [] | Some m \<Rightarrow> m))"

section \<open>The benchmark\<close>

definition date_only :: "('w, 'x) report_env_scheme \<Rightarrow> pyval \<Rightarrow> int option" where
  "date_only env v = (case v of PStr s \<Rightarrow> re_parse_date env (take 10 s) | _ \<Rightarrow> None)"

definition run_market_data :: "('w, 'x) graph_env_scheme \<Rightarrow> gnode \<Rightarrow> ('w, gnode option) step" where
  "run_market_data env pm_run =
     (case data_get (gn_props pm_run) ''source_analyst_run_id'' of
        PStr key \<Rightarrow>
          step_bind (read_world (\<lambda>w. gp_get (ge_port env) w ''AnalystRun'' key)) (\<lambda>analyst.
          step_bind (first_by (parents_by env ''ANALYZED_BY'') analyst)
            (first_by (children_by env ''DERIVED_FROM'')))
      | _ \<Rightarrow> step_return None)"

definition number_value :: "pyval \<Rightarrow> rat option" where
  "number_value v =
     (case v of PInt i \<Rightarrow> Some (of_int i) | PFloat q \<Rightarrow> Some q | PBool b \<Rightarrow> Some (if b then 1 else 0) | _ \<Rightarrow> None)"

text \<open>The bar of the series, dated and priced, with its ticker where it names one.\<close>

definition benchmark_bar ::
  "('w, 'x) report_env_scheme \<Rightarrow> int \<Rightarrow> pyval \<Rightarrow> (int \<times> rat \<times> string option) option" where
  "benchmark_bar env as_of v =
     (case mapping_of v of
        None \<Rightarrow> None
      | Some d \<Rightarrow>
          (case (date_only env (data_get d ''bar_date''), number_value (data_get d ''close'')) of
             (Some day, Some close) \<Rightarrow>
               if as_of < day then None
               else Some (day, close, case data_get d ''ticker'' of PStr s \<Rightarrow> Some s | _ \<Rightarrow> None)
           | _ \<Rightarrow> None))"

definition sequence_of :: "pyval \<Rightarrow> pyval list option" where
  "sequence_of v =
     (case v of PList xs \<Rightarrow> Some xs | PTuple xs \<Rightarrow> Some xs | PStr s \<Rightarrow> Some (map (\<lambda>c. PStr [c]) s) | _ \<Rightarrow> None)"

definition benchmark_series ::
  "('w, 'x) report_env_scheme \<Rightarrow> int \<Rightarrow> pyval list \<Rightarrow> (int, rat) dict \<times> string option" where
  "benchmark_series env as_of vs =
     (let bars = List.map_filter (benchmark_bar env as_of) vs
      in (fold (\<lambda>(day, close, t). dict_set day close) bars [],
          (case List.map_filter (\<lambda>(day, close, t). t) bars of [] \<Rightarrow> None | t # _ \<Rightarrow> Some t)))"

definition run_benchmark ::
  "('w, 'x) report_env_scheme \<Rightarrow> gnode \<Rightarrow> int \<Rightarrow> ('w, (int, rat) dict \<times> string option) step" where
  "run_benchmark env pm_run as_of =
     step_bind (run_market_data env pm_run) (\<lambda>market.
       step_return
         (case market of
            None \<Rightarrow> ([], None)
          | Some n \<Rightarrow>
              (case (date_only env (data_get (gn_props n) ''window_end''), mapping_of (data_get (gn_props n) ''snapshot'')) of
                 (Some window_end, Some snapshot) \<Rightarrow>
                   if as_of < window_end then ([], None)
                   else (case sequence_of (data_get snapshot ''benchmark'') of
                           None \<Rightarrow> ([], None)
                         | Some vs \<Rightarrow> if vs = [] then ([], None) else benchmark_series env as_of vs)
               | _ \<Rightarrow> ([], None))))"

section \<open>Performance inputs\<close>

definition usable_snapshot :: "('w, 'x) report_env_scheme \<Rightarrow> int \<Rightarrow> int \<Rightarrow> gnode \<Rightarrow> (int \<times> gnode) option" where
  "usable_snapshot env inception cutoff n =
     (let p = gn_props n
      in if \<not> prop_is p ''status'' ''fresh'' \<or> \<not> prop_is p ''account_status'' ''fresh'' then None
         else (case run_instant (re_parse_time env) n of
                 None \<Rightarrow> None
               | Some at \<Rightarrow>
                   if cutoff < at \<or> day_of_instant at < inception then None
                   else (case data_get p ''account_equity_cents'' of
                           PInt i \<Rightarrow> Some (at, n) | PBool b \<Rightarrow> Some (at, n) | _ \<Rightarrow> None)))"

definition keep_latest :: "int \<times> gnode \<Rightarrow> (int, int \<times> gnode) dict \<Rightarrow> (int, int \<times> gnode) dict" where
  "keep_latest c d =
     (case dict_get d (day_of_instant (fst c)) of
        None \<Rightarrow> dict_set (day_of_instant (fst c)) c d
      | Some previous \<Rightarrow> if fst previous < fst c then dict_set (day_of_instant (fst c)) c d else d)"

definition as_of_snapshots :: "('w, 'x) report_env_scheme \<Rightarrow> int \<Rightarrow> int \<Rightarrow> gnode list \<Rightarrow> (int \<times> gnode) list" where
  "as_of_snapshots env inception cutoff ns =
     sort_key fst (map snd (fold keep_latest (List.map_filter (usable_snapshot env inception cutoff) ns) []))"

definition whole_value :: "pyval \<Rightarrow> int option" where
  "whole_value v = (case v of PInt i \<Rightarrow> Some i | PBool b \<Rightarrow> Some (if b then 1 else 0) | _ \<Rightarrow> None)"

definition long_value_cents :: "pyval \<Rightarrow> int" where
  "long_value_cents v =
     (case sequence_of v of
        None \<Rightarrow> 0
      | Some hs \<Rightarrow> sum_list (List.map_filter (\<lambda>h. case mapping_of h of
            None \<Rightarrow> None | Some d \<Rightarrow> whole_value (data_get d ''market_value_cents'')) hs))"

definition point_of :: "int \<times> gnode \<Rightarrow> performance_point" where
  "point_of = (\<lambda>(at, n).
     \<lparr>pfp_day = day_of_instant at,
      pfp_equity = (case whole_value (data_get (gn_props n) ''account_equity_cents'') of None \<Rightarrow> 0 | Some i \<Rightarrow> i),
      pfp_long = long_value_cents (data_get (gn_props n) ''holdings'')\<rparr>)"

definition holding_count :: "gnode \<Rightarrow> rat option" where
  "holding_count n =
     (case data_get (gn_props n) ''holdings'' of
        PList xs \<Rightarrow> Some (of_nat (length xs)) | PTuple xs \<Rightarrow> Some (of_nat (length xs)) | _ \<Rightarrow> None)"

record performance_inputs =
  pfi_points :: "performance_point list"
  pfi_closes :: "(int, rat) dict"
  pfi_ticker :: "string option"
  pfi_as_of :: int
  pfi_held :: "rat option"

definition read_performance_inputs ::
  "('w, 'x) report_env_scheme \<Rightarrow> gnode \<Rightarrow> int \<Rightarrow> ('w, performance_inputs) step" where
  "read_performance_inputs env pm_run inception =
     step_bind (step_res (prop_at (gn_props pm_run) ''created_at'')) (\<lambda>v.
       (case utc_instant (re_parse_time env) v of
          None \<Rightarrow> step_res (Inl (ValueError ''PMRun.created_at must be an ISO-8601 timestamp''))
        | Some cutoff \<Rightarrow>
            step_bind (read_world (\<lambda>w. as_of_snapshots env inception cutoff
                (gp_list (ge_port env) w ''BrokerPositionSnapshot''))) (\<lambda>chosen.
            step_bind (run_benchmark env pm_run (day_of_instant cutoff)) (\<lambda>(closes, ticker).
              step_return \<lparr>pfi_points = map point_of chosen, pfi_closes = closes, pfi_ticker = ticker,
                pfi_as_of = day_of_instant cutoff,
                pfi_held = (if chosen = [] then None else holding_count (snd (last chosen)))\<rparr>))))"

section \<open>Texts\<close>

definition display_value :: "rat \<Rightarrow> rat" where
  "display_value x = (if fixed_text 2 x = ''-0.00'' then 0 else x)"

definition metric_of :: "(string, rat) dict \<Rightarrow> string \<Rightarrow> rat" where
  "metric_of d name = (case dict_get d name of None \<Rightarrow> 0 | Some x \<Rightarrow> x)"

definition performance_headline_clause ::
  "(string, rat) dict \<Rightarrow> string option \<Rightarrow> int \<Rightarrow> string \<Rightarrow> string" where
  "performance_headline_clause m ticker inception reason =
     (if metric_of m ''performance_sessions'' = 0
      then ''Performance: no usable sessions since '' @ date_text (nat inception) @ '' ('' @ reason @ '')''
      else ''vs '' @ (case ticker of None \<Rightarrow> ''benchmark'' | Some t \<Rightarrow> if t = [] then ''benchmark'' else t) @ '': ''
        @ fixed_text 2 (display_value (metric_of m ''excess_return_pct'')) @ '' pts over ''
        @ fixed_text 0 (metric_of m ''performance_sessions'') @ '' sessions at ''
        @ fixed_text 0 (display_value (metric_of m ''average_exposure_pct'')) @ ''% invested'')"

definition count_text :: "(string, rat) dict \<Rightarrow> string \<Rightarrow> string" where
  "count_text m name = (case dict_get m name of None \<Rightarrow> ''?'' | Some x \<Rightarrow> fixed_text 0 x)"

definition snapshot_headline :: "(string, rat) dict \<Rightarrow> (string, rat) dict \<Rightarrow> string \<Rightarrow> explanation" where
  "snapshot_headline portfolio signal clause =
     \<lparr>ex_summary = count_text portfolio ''positions_opened'' @ '' positions opened; ''
        @ count_text portfolio ''positions_closed'' @ '' closed; ''
        @ fixed_text 0 (metric_of signal ''recommendation_count'') @ '' recommendations stitched. '' @ clause,
      ex_evidence_refs = [''portfolio_manager'', ''execution'', ''monitor'', ''analyst'']\<rparr>"

definition no_sessions_reason :: "performance_inputs \<Rightarrow> string" where
  "no_sessions_reason i =
     (if pfi_points i = [] then ''no fresh snapshots''
      else if length (pfi_points i) < 2 then ''fewer than two fresh snapshots''
      else if pfi_closes i = [] then ''missing benchmark'' else ''no benchmark-aligned sessions'')"

record projection =
  ppj_metrics :: "(string, rat) dict"
  ppj_clause :: string
  ppj_held :: "rat option"

definition performance_projection ::
  "('w, 'x) report_env_scheme \<Rightarrow> gnode \<Rightarrow> int \<Rightarrow> nat \<Rightarrow> ('w, projection) step" where
  "performance_projection env pm_run inception rolling =
     step_bind (read_performance_inputs env pm_run inception) (\<lambda>i.
       let m = calculate_performance (pfi_points i) (pfi_closes i) rolling
       in step_return \<lparr>ppj_metrics = m,
            ppj_clause = performance_headline_clause m (pfi_ticker i) inception (no_sessions_reason i),
            ppj_held = pfi_held i\<rparr>)"

definition degraded_performance :: "int \<Rightarrow> nat \<Rightarrow> string \<Rightarrow> projection" where
  "degraded_performance inception rolling reason =
     (let m = calculate_performance [] [] rolling
      in \<lparr>ppj_metrics = m, ppj_clause = performance_headline_clause m None inception reason, ppj_held = None\<rparr>)"

section \<open>The story of a trade\<close>

definition unavailable :: string where
  "unavailable = ''(data unavailable)''"

text \<open>A property of a leg that may be missing; \<open>PNone\<close> where there is none.\<close>

definition leg_prop :: "gnode option \<Rightarrow> string \<Rightarrow> pyval" where
  "leg_prop n name = (case n of None \<Rightarrow> PNone | Some n \<Rightarrow> data_get (gn_props n) name)"

definition text_leg :: "(rat \<Rightarrow> string) \<Rightarrow> pyval \<Rightarrow> string" where
  "text_leg flt v = (if v = PNone then unavailable else py_str flt v)"

definition number_leg :: "(string \<Rightarrow> rat option) \<Rightarrow> (rat \<Rightarrow> string) \<Rightarrow> pyval \<Rightarrow> string" where
  "number_leg parse_float text v = (case float_of parse_float v of None \<Rightarrow> unavailable | Some x \<Rightarrow> text x)"

definition percent_text :: "rat \<Rightarrow> string" where
  "percent_text x = fixed_text 0 (x * 100) @ ''%''"

definition money_text :: "rat \<Rightarrow> string" where
  "money_text x = fixed_text 2 (x / 100)"

definition exit_text :: "(rat \<Rightarrow> string) \<Rightarrow> gnode option \<Rightarrow> string" where
  "exit_text flt closed =
     (case closed of
        None \<Rightarrow> ''Position still open.''
      | Some n \<Rightarrow> ''Exit: '' @ text_leg flt (data_get (gn_props n) ''trigger'') @ '' - ''
          @ text_leg flt (data_get (gn_props n) ''rationale'') @ ''.'')"

definition first_leg :: "string \<Rightarrow> gnode option list \<Rightarrow> pyval" where
  "first_leg name legs =
     (case filter (\<lambda>v. v \<noteq> PNone) (map (\<lambda>n. leg_prop n name) legs) of [] \<Rightarrow> PNone | v # _ \<Rightarrow> v)"

definition compose_story :: "(rat \<Rightarrow> string) \<Rightarrow> (string \<Rightarrow> rat option) \<Rightarrow> trade_lineage \<Rightarrow> string" where
  "compose_story flt parse_float t =
     (let position = Some (tl_position t); order = tl_order t; recommendation = tl_recommendation t
      in text_leg flt (first_leg ''ticker'' [position, tl_fill t, order, recommendation])
       @ '' scanned ['' @ text_leg flt (leg_prop (tl_scan_run t) ''created_at'') @ ''] as candidate rank ''
       @ text_leg flt (leg_prop (tl_candidate t) ''rank'')
       @ '' (score '' @ number_leg parse_float (fixed_text 2) (leg_prop (tl_candidate t) ''score'') @ ''). ''
       @ ''Technical score '' @ number_leg parse_float (fixed_text 2) (leg_prop recommendation ''technical_score'')
       @ '', confidence '' @ number_leg parse_float percent_text (leg_prop recommendation ''confidence'') @ '' -> ''
       @ text_leg flt (leg_prop order ''action'') @ ''. ''
       @ text_leg flt (leg_prop order ''quantity'') @ '' shares approved, est. ''
       @ number_leg parse_float money_text (leg_prop order ''est_price_cents'') @ '', stop ''
       @ number_leg parse_float percent_text (leg_prop order ''stop_pct'') @ '' / target ''
       @ number_leg parse_float percent_text (leg_prop order ''target_pct'') @ ''. ''
       @ ''Position opened at '' @ number_leg parse_float money_text (leg_prop position ''opened_price_cents'') @ ''. ''
       @ exit_text flt (tl_close t))"

section \<open>Artifacts\<close>

definition report_provenance :: "string \<Rightarrow> gnode \<Rightarrow> provenance" where
  "report_provenance prefix n = run_provenance ''reporter'' (prefix @ '':'' @ gn_key n) n []"

definition metrics_json :: "(string, (string, rat) dict) dict \<Rightarrow> pyval" where
  "metrics_json = dict_json (dict_json PFloat)"

definition snapshot_key :: "string \<Rightarrow> string" where
  "snapshot_key run_id = ''snapshot:'' @ run_id"

definition narrative_key :: "string \<Rightarrow> string" where
  "narrative_key position_id = ''narrative:'' @ position_id"

definition link_if_present ::
  "('w, 'x) graph_env_scheme \<Rightarrow> gnode \<Rightarrow> string \<Rightarrow> string \<Rightarrow> string \<Rightarrow> ('w, unit) step" where
  "link_if_present env n label key t w =
     (case gp_get (ge_port env) w label key of None \<Rightarrow> (w, Inr ()) | Some m \<Rightarrow> ge_edge env n m t w)"

definition write_run_snapshot ::
  "('w, 'x) graph_env_scheme \<Rightarrow> string \<Rightarrow> (string, (string, rat) dict) dict \<Rightarrow> string \<Rightarrow> ('w, provenance) step" where
  "write_run_snapshot env run_id blob summary =
     step_bind (ge_merge env ''Snapshot'' (snapshot_key run_id)
         [(''run_id'', PStr run_id), (''metrics'', metrics_json blob), (''headline_summary'', PStr summary)]) (\<lambda>n.
     step_bind (link_if_present env n ''PMRun'' run_id ''SUMMARISES'') (\<lambda>_.
       step_return (report_provenance ''snapshot'' n)))"

definition write_trade_narrative ::
  "('w, 'x) graph_env_scheme \<Rightarrow> string \<Rightarrow> string \<Rightarrow> string \<Rightarrow> ('w, provenance) step" where
  "write_trade_narrative env run_id position_id story =
     step_bind (ge_merge env ''TradeNarrative'' (narrative_key position_id)
         [(''run_id'', PStr run_id), (''position_id'', PStr position_id), (''summary'', PStr story)]) (\<lambda>n.
     step_bind (link_if_present env n ''Position'' position_id ''NARRATES'') (\<lambda>_.
       step_return (report_provenance ''narrative'' n)))"

record run_snapshot =
  rsn_run_id :: string
  rsn_portfolio :: "(string, rat) dict"
  rsn_signal :: "(string, rat) dict"
  rsn_regime :: "(string, rat) dict"
  rsn_performance :: "(string, rat) dict"
  rsn_headline :: explanation
  rsn_provenance :: provenance

record trade_narrative =
  tnr_position_id :: string
  tnr_story :: explanation
  tnr_provenance :: provenance

definition degraded_snapshot ::
  "('w, 'x) report_env_scheme \<Rightarrow> string \<Rightarrow> string \<Rightarrow> ('w, run_snapshot) step" where
  "degraded_snapshot env run_id message =
     (let portfolio = merge_dicts [collect_portfolio_metrics (ge_parse_float env) None [], book_counts [],
              collect_trade_outcomes (ge_float_text env) [] []];
          signal = collect_signal_metrics (ge_parse_float env) [] 0
      in step_bind (write_run_snapshot env run_id [(''portfolio'', portfolio), (''signal'', signal), (''regime'', [])] message)
           (\<lambda>pv. step_return
              \<lparr>rsn_run_id = run_id, rsn_portfolio = portfolio, rsn_signal = signal, rsn_regime = [],
               rsn_performance = [],
               rsn_headline = \<lparr>ex_summary = message, ex_evidence_refs = [''reporter.graph'']\<rparr>,
               rsn_provenance = pv\<rparr>))"

definition projected_performance :: "('w, 'x) report_env_scheme \<Rightarrow> gnode \<Rightarrow> ('w, projection) step" where
  "projected_performance env pm_run =
     (let st = re_settings env
      in step_bind (captured env ''reporter'' ''agents.reporter.result'' ''report.performance''
             (performance_projection env pm_run (rst_inception st) (rst_rolling_sessions st))) (\<lambda>found.
           step_return (case found of
              None \<Rightarrow> degraded_performance (rst_inception st) (rst_rolling_sessions st) ''performance inputs unavailable''
            | Some p \<Rightarrow> p)))"

definition full_snapshot :: "('w, 'x) report_env_scheme \<Rightarrow> string \<Rightarrow> gnode \<Rightarrow> ('w, run_snapshot) step" where
  "full_snapshot env run_id pm_run =
     step_bind (read_world (\<lambda>w. linked_pm_source env w pm_run)) (\<lambda>src.
     step_bind (collect_run_lineage env src) (\<lambda>l.
     step_bind (book_metrics env pm_run (rst_inception (re_settings env))) (\<lambda>book.
     step_bind (projected_performance env pm_run) (\<lambda>perf.
       let counted = merge_dicts [collect_portfolio_metrics (ge_parse_float env) (Some pm_run) (rl_closes l), book];
           portfolio = (case ppj_held perf of None \<Rightarrow> counted | Some h \<Rightarrow> dict_set ''positions_held'' h counted);
           signal = collect_signal_metrics (ge_parse_float env) (rl_recommendations l) (length (rl_rejections l));
           regime = collect_regime_attribution (ge_parse_float env) (rl_scan_runs l) (rl_snapshots l);
           headline = snapshot_headline portfolio signal (ppj_clause perf)
       in step_bind (write_run_snapshot env run_id
              [(''portfolio'', portfolio), (''signal'', signal), (''regime'', regime), (''performance'', ppj_metrics perf)]
              (ex_summary headline)) (\<lambda>pv.
            step_return
              \<lparr>rsn_run_id = run_id, rsn_portfolio = portfolio, rsn_signal = signal, rsn_regime = regime,
               rsn_performance = ppj_metrics perf, rsn_headline = headline, rsn_provenance = pv\<rparr>)))))"

definition build_snapshot :: "('w, 'x) report_env_scheme \<Rightarrow> string \<Rightarrow> ('w, run_snapshot) step" where
  "build_snapshot env run_id w =
     (case gp_get (ge_port env) w ''PMRun'' run_id of
        None \<Rightarrow> degraded_snapshot env run_id (''No PMRun found for '' @ run_id @ ''.'') w
      | Some pm_run \<Rightarrow> full_snapshot env run_id pm_run w)"

definition narrative_result ::
  "('w, 'x) graph_env_scheme \<Rightarrow> string \<Rightarrow> string \<Rightarrow> string \<Rightarrow> ('w, trade_narrative) step" where
  "narrative_result env run_id position_id summary =
     step_bind (write_trade_narrative env run_id position_id summary) (\<lambda>pv.
       step_return \<lparr>tnr_position_id = position_id,
         tnr_story = \<lparr>ex_summary = summary, ex_evidence_refs = [''reporter.graph'']\<rparr>, tnr_provenance = pv\<rparr>)"

text \<open>\<open>summary if len(summary) <= max_chars else summary[:max_chars]\<close>.\<close>

definition trim_summary :: "string \<Rightarrow> nat \<Rightarrow> string" where
  "trim_summary summary max_chars = (if length summary \<le> max_chars then summary else take max_chars summary)"

definition degraded_narrative :: "('w, 'x) graph_env_scheme \<Rightarrow> string \<Rightarrow> nat \<Rightarrow> ('w, trade_narrative) step" where
  "degraded_narrative env position_id max_chars =
     narrative_result env (run_id_from_position_id position_id) position_id
       (trim_summary (''No Position found for '' @ position_id @ ''; trade story data unavailable.'') max_chars)"

definition build_trade_narrative :: "('w, 'x) graph_env_scheme \<Rightarrow> string \<Rightarrow> nat \<Rightarrow> ('w, trade_narrative) step" where
  "build_trade_narrative env position_id max_chars w =
     (case gp_get (ge_port env) w ''Position'' position_id of
        None \<Rightarrow> degraded_narrative env position_id max_chars w
      | Some position \<Rightarrow>
          step_bind (collect_trade_lineage env position) (\<lambda>t.
            narrative_result env (position_run_id env position) position_id
              (trim_summary (compose_story (ge_float_text env) (ge_parse_float env) t) max_chars)) w)"

section \<open>The poll\<close>

definition find_pending_reports :: "('w, 'x) graph_env_scheme \<Rightarrow> ('w, gnode list) step" where
  "find_pending_reports env =
     step_bind (pending_step env ''MonitorRun'' ''REPORTED_BY'') (\<lambda>ns.
       step_return (filter (\<lambda>n. \<not> prop_is (gn_props n) ''phase'' ''sync'') ns))"

text \<open>The poll builds with a fault sink of its own, which is thrown away.\<close>

definition report_monitor_node :: "('w, 'x) report_env_scheme \<Rightarrow> gnode \<Rightarrow> ('w, unit) step" where
  "report_monitor_node env node =
     step_bind (step_res (prop_at (gn_props node) ''source_run_id'')) (\<lambda>v.
       let pm_run_id = py_str (ge_float_text env) v
       in step_bind (build_snapshot (env\<lparr>ag_submit := \<lambda>w f. w\<rparr>) pm_run_id) (\<lambda>_ w.
            (case gp_get (ge_port env) w ''Snapshot'' (snapshot_key pm_run_id) of
               None \<Rightarrow> (w, Inl assertion_error)
             | Some n \<Rightarrow> ge_edge env node n ''REPORTED_BY'' w)))"

section \<open>The handlers\<close>

definition report_module :: string where
  "report_module = ''agents.reporter.agent''"

definition report :: "('w, 'x) report_env_scheme \<Rightarrow> string \<Rightarrow> ('w, run_snapshot) step" where
  "report env run_id =
     step_bind (captured env ''reporter'' report_module ''report'' (build_snapshot env run_id)) (\<lambda>found.
       (case found of
          None \<Rightarrow> degraded_snapshot env run_id ''Reporter could not traverse the run graph.''
        | Some s \<Rightarrow> step_return s))"

definition narrative :: "('w, 'x) report_env_scheme \<Rightarrow> string \<Rightarrow> ('w, trade_narrative) step" where
  "narrative env position_id =
     (let max_chars = rst_max_chars (re_settings env)
      in step_bind (captured env ''reporter'' report_module ''narrative''
             (build_trade_narrative env position_id max_chars)) (\<lambda>found.
           (case found of
              None \<Rightarrow> degraded_narrative env position_id max_chars
            | Some t \<Rightarrow> step_return t)))"

definition run_snapshot_json :: "run_snapshot \<Rightarrow> pyval" where
  "run_snapshot_json s =
     PDict [(''run_id'', PStr (rsn_run_id s)), (''portfolio_metrics'', dict_json PFloat (rsn_portfolio s)),
       (''signal_metrics'', dict_json PFloat (rsn_signal s)), (''regime_attribution'', dict_json PFloat (rsn_regime s)),
       (''performance_metrics'', dict_json PFloat (rsn_performance s)), (''headline'', explanation_json (rsn_headline s)),
       (''provenance'', provenance_json (rsn_provenance s))]"

definition on_decisions_ready ::
  "('w, 'x) report_env_scheme \<Rightarrow> 'w bus \<Rightarrow> props \<Rightarrow> string option \<Rightarrow> ('w, unit) step" where
  "on_decisions_ready env b event requested =
     step_bind (\<lambda>w. (w, claim_check_read (re_validation_text env) (ge_port env) w event)) (\<lambda>node.
     step_bind (step_res (res_bind (prop_at (gn_props node) ''decisions'') (re_decision_run env))) (\<lambda>run_id.
       let named = data_get (gn_props node) ''pm_run_id'';
           pm_run_id = (if py_truth named then py_str (ge_float_text env) named else run_id)
       in step_bind (report env pm_run_id) (\<lambda>s w.
            (let ref = (case requested of None \<Rightarrow> ag_hex env w | Some r \<Rightarrow> if r = [] then ag_hex env w else r)
             in step_forget (\<lambda>w. claim_check_write b (ge_port env) (ge_wall env) w ''report.snapshot.ready''
                  ''ReportSnapshotResult'' (''snapshot:'' @ ref) [(''snapshot'', run_snapshot_json s)] requested) w))))"

end
