(* ===== verification/ReportSafety.thy ===== *)
theory ReportSafety
  imports ReportRun PipelineHandover "HOL-Library.Multiset"
begin

text \<open>
  What a report promises: the books of the runs count every filled fill once (\<open>book_counts_add_up\<close>), and
  without gaps the chained returns are the plain ones (\<open>performance_telescopes\<close>).  And what it does not: a
  narrative or a headline, once written, is repeated or the handler raises (\<open>reports_never_change\<close>).
\<close>

section \<open>Windows\<close>

definition run_instants :: "(string \<Rightarrow> timestamp option) \<Rightarrow> gnode list \<Rightarrow> int set" where
  "run_instants parse runs = set (List.map_filter (run_instant parse) runs)"

lemma in_window_start:
  "in_window (window_start parse runs u) u m \<longleftrightarrow> m \<le> u \<and> (\<forall>v\<in>run_instants parse runs. v < u \<longrightarrow> v < m)"
proof (cases "filter (\<lambda>m. m < u) (List.map_filter (run_instant parse) runs)")
  case Nil
  then have "\<forall>v\<in>run_instants parse runs. \<not> v < u"
    by (auto simp: run_instants_def filter_empty_conv)
  then show ?thesis
    using Nil by (auto simp: in_window_def window_start_def)
next
  case (Cons x xs)
  then have earlier: "{v \<in> run_instants parse runs. v < u} = set (x # xs)"
    by (metis run_instants_def set_filter)
  have "window_start parse runs u = Some (Max (set (x # xs)))"
    by (simp only: window_start_def Cons list.case Max.set_eq_fold)
  moreover have "Max (set (x # xs)) < m \<longleftrightarrow> (\<forall>v\<in>set (x # xs). v < m)"
    by (rule Max_less_iff) simp_all
  ultimately show ?thesis
    using earlier by (auto simp: in_window_def)
qed

lemma one_window:
  fixes m :: int
  assumes "finite I" "I \<noteq> {}"
  shows "card {u \<in> I. m \<le> u \<and> (\<forall>v\<in>I. v < u \<longrightarrow> v < m)} = (if m \<le> Max I then 1 else 0)"
proof (cases "m \<le> Max I")
  case True
  let ?L = "{u \<in> I. m \<le> u}"
  have L: "finite ?L" "?L \<noteq> {}" using assms True by (auto intro: Max_in)
  have "{u \<in> I. m \<le> u \<and> (\<forall>v\<in>I. v < u \<longrightarrow> v < m)} = {Min ?L}"
  proof (intro set_eqI iffI)
    fix u assume u: "u \<in> {u \<in> I. m \<le> u \<and> (\<forall>v\<in>I. v < u \<longrightarrow> v < m)}"
    have "Min ?L \<in> ?L" by (rule Min_in [OF L])
    moreover have "Min ?L \<le> u" using u L by simp
    ultimately show "u \<in> {Min ?L}" using u by fastforce
  next
    fix u assume "u \<in> {Min ?L}"
    then have u: "u = Min ?L" by simp
    then have "u \<in> ?L" using Min_in [OF L] by simp
    moreover have "v < m" if "v \<in> I" "v < u" for v
      using that Min_le [OF L(1), of v] u by fastforce
    ultimately show "u \<in> {u \<in> I. m \<le> u \<and> (\<forall>v\<in>I. v < u \<longrightarrow> v < m)}" by blast
  qed
  then show ?thesis using True by simp
next
  case False
  then have "{u \<in> I. m \<le> u \<and> (\<forall>v\<in>I. v < u \<longrightarrow> v < m)} = {}"
    using assms(1) Max_ge by fastforce
  then have "card {u \<in> I. m \<le> u \<and> (\<forall>v\<in>I. v < u \<longrightarrow> v < m)} = 0"
    by (simp only: card.empty)
  with False show ?thesis by (simp only: if_False)
qed

text \<open>Counting over all windows counts every fill known by the last instant once.\<close>

lemma windows_count:
  assumes "finite I" "I \<noteq> {}"
  shows "(\<Sum>u\<in>I. count_of p (map snd (filter (\<lambda>(m, n). m \<le> u \<and> (\<forall>v\<in>I. v < u \<longrightarrow> v < m)) timed)))
    = count_of (\<lambda>(m :: int, n). m \<le> Max I \<and> p n) timed"
proof (induction timed)
  case (Cons x timed)
  obtain m n where x: "x = (m, n)" by fastforce
  let ?W = "\<lambda>u. m \<le> u \<and> (\<forall>v\<in>I. v < u \<longrightarrow> v < m)"
  have step: "count_of p (map snd (filter (\<lambda>(m, n). m \<le> u \<and> (\<forall>v\<in>I. v < u \<longrightarrow> v < m)) (x # timed)))
      = count_of p (map snd (filter (\<lambda>(m, n). m \<le> u \<and> (\<forall>v\<in>I. v < u \<longrightarrow> v < m)) timed))
        + (if ?W u then if p n then 1 else 0 else 0)" for u
    by (simp add: count_of_def x)
  have "(\<Sum>u\<in>I. if ?W u then if p n then 1 else 0 else 0) = (\<Sum>u\<in>{u\<in>I. ?W u}. if p n then 1 else (0 :: rat))"
    by (rule sum.inter_filter [OF assms(1), symmetric])
  also have "\<dots> = (if m \<le> Max I \<and> p n then 1 else 0)"
    using one_window [OF assms, of m] by simp
  finally have new: "(\<Sum>u\<in>I. if ?W u then if p n then 1 else (0 :: rat) else 0) = (if m \<le> Max I \<and> p n then 1 else 0)" .
  show ?case
    unfolding step sum.distrib new Cons.IH by (simp add: count_of_def x)
qed (simp add: count_of_def)

lemma book_metric:
  fixes env :: "('w, 'x) report_env_scheme" and w :: 'w
  assumes "run_instant (re_parse_time env) r = Some u"
  defines "timed \<equiv> filled_fills (ge_float_text env) (re_parse_time env) (gp_list (ge_port env) w ''Fill'')"
  defines "window \<equiv> fills_between timed (window_start (re_parse_time env) (gp_list (ge_port env) w ''PMRun'') u) u"
  shows "metric_of (read_book_metrics env w r inception) ''positions_opened''
      = count_of (\<lambda>n. prop_is (gn_props n) ''side'' ''buy'') window"
    and "metric_of (read_book_metrics env w r inception) ''positions_closed''
      = count_of (\<lambda>n. prop_is (gn_props n) ''side'' ''sell'') window"
  by (simp_all add: read_book_metrics_def assms(1) metric_of_def merge_dicts_def book_counts_def
      collect_trade_outcomes_def Let_def dict_simps count_of_def timed_def [symmetric] window_def [symmetric])

text \<open>
  C17. Over one run for each instant at which the graph has a run, the positions the reports count as
  opened and as closed add up to the filled buys and the filled sells known by the last instant: no fill
  is counted at two instants, and none is left out.  Runs of one instant, as a resumed run is of the
  instant of the run it was cloned from, report the same counts, so these are not to be added.
\<close>

theorem book_counts_add_up:
  assumes "map (run_instant (re_parse_time env)) runs = map Some us" and "distinct us" and "us \<noteq> []"
    and "set us = run_instants (re_parse_time env) (gp_list (ge_port env) w ''PMRun'')"
  defines "timed \<equiv> filled_fills (ge_float_text env) (re_parse_time env) (gp_list (ge_port env) w ''Fill'')"
  shows "sum_list (map (\<lambda>r. metric_of (read_book_metrics env w r inception) ''positions_opened'') runs)
      = count_of (\<lambda>(m, n). m \<le> Max (set us) \<and> prop_is (gn_props n) ''side'' ''buy'') timed
    \<and> sum_list (map (\<lambda>r. metric_of (read_book_metrics env w r inception) ''positions_closed'') runs)
      = count_of (\<lambda>(m, n). m \<le> Max (set us) \<and> prop_is (gn_props n) ''side'' ''sell'') timed
    \<and> (\<forall>r\<in>set runs. \<forall>clone. run_instant (re_parse_time env) clone = run_instant (re_parse_time env) r \<longrightarrow>
        metric_of (read_book_metrics env w clone inception) ''positions_opened''
          = metric_of (read_book_metrics env w r inception) ''positions_opened''
        \<and> metric_of (read_book_metrics env w clone inception) ''positions_closed''
          = metric_of (read_book_metrics env w r inception) ''positions_closed'')"
proof -
  have clones: "metric_of (read_book_metrics env w clone inception) ''positions_opened''
          = metric_of (read_book_metrics env w r inception) ''positions_opened''
        \<and> metric_of (read_book_metrics env w clone inception) ''positions_closed''
          = metric_of (read_book_metrics env w r inception) ''positions_closed''"
    if "r \<in> set runs" "run_instant (re_parse_time env) clone = run_instant (re_parse_time env) r" for r clone
  proof -
    from that(1) have "run_instant (re_parse_time env) r \<in> set (map (run_instant (re_parse_time env)) runs)"
      by (simp only: set_map imageI)
    then obtain u where u: "run_instant (re_parse_time env) r = Some u" unfolding assms(1) by auto
    then have c: "run_instant (re_parse_time env) clone = Some u" using that(2) by simp
    show ?thesis by (simp only: book_metric [OF u] book_metric [OF c])
  qed
  have counted: "sum_list (map (\<lambda>r. metric_of (read_book_metrics env w r inception) name) runs)
      = count_of (\<lambda>(m, n). m \<le> Max (set us) \<and> p n) timed"
    if metric: "\<And>r u. run_instant (re_parse_time env) r = Some u \<Longrightarrow>
      metric_of (read_book_metrics env w r inception) name
        = count_of p (fills_between timed (window_start (re_parse_time env) (gp_list (ge_port env) w ''PMRun'') u) u)"
    for name p
  proof -
    let ?c = "\<lambda>u. count_of p (map snd (filter (\<lambda>(m, n). m \<le> u \<and> (\<forall>v\<in>set us. v < u \<longrightarrow> v < m)) timed))"
    have len: "length runs = length us" using assms(1) by (metis length_map)
    have "map (\<lambda>r. metric_of (read_book_metrics env w r inception) name) runs = map ?c us"
    proof (rule nth_equalityI)
      fix i assume i: "i < length (map (\<lambda>r. metric_of (read_book_metrics env w r inception) name) runs)"
      then have "run_instant (re_parse_time env) (runs ! i) = Some (us ! i)"
        using arg_cong [OF assms(1), of "\<lambda>xs. xs ! i"] len by simp
      then show "map (\<lambda>r. metric_of (read_book_metrics env w r inception) name) runs ! i = map ?c us ! i"
        using i len by (simp add: metric fills_between_def in_window_start assms(4))
    qed (simp add: len)
    then have "sum_list (map (\<lambda>r. metric_of (read_book_metrics env w r inception) name) runs) = (\<Sum>u\<in>set us. ?c u)"
      using assms(2) by (simp add: sum_list_distinct_conv_sum_set)
    also have "\<dots> = count_of (\<lambda>(m, n). m \<le> Max (set us) \<and> p n) timed"
      by (rule windows_count) (simp_all add: assms(3))
    finally show ?thesis .
  qed
  note metric = book_metric [where w = w and inception = inception and env = env]
  have opened: "sum_list (map (\<lambda>r. metric_of (read_book_metrics env w r inception) ''positions_opened'') runs)
      = count_of (\<lambda>(m, n). m \<le> Max (set us) \<and> prop_is (gn_props n) ''side'' ''buy'') timed"
    using metric(1) by (intro counted) (simp add: timed_def)
  have closed: "sum_list (map (\<lambda>r. metric_of (read_book_metrics env w r inception) ''positions_closed'') runs)
      = count_of (\<lambda>(m, n). m \<le> Max (set us) \<and> prop_is (gn_props n) ''side'' ''sell'') timed"
    using metric(2) by (intro counted) (simp add: timed_def)
  show ?thesis
    by (intro conjI ballI allI impI opened closed clones [THEN conjunct1] clones [THEN conjunct2])
qed

section \<open>Performance\<close>

lemma chained_prod: "chained f us = prod_list (map f us)"
proof -
  have "fold (\<lambda>u a. a * f u) us c = c * prod_list (map f us)" for c
    by (induction us arbitrary: c) (simp_all add: mult.assoc)
  then show ?thesis by (simp add: chained_def)
qed

lemma usable_pair:
  "usable_pair_of closes (p, c) = Some u \<Longrightarrow>
     upr_from u = p \<and> upr_to u = c \<and> upr_from_close u = close_on closes (pfp_day p) \<and> upr_to_close u = close_on closes (pfp_day c)
     \<and> 0 < close_on closes (pfp_day p) \<and> 0 < close_on closes (pfp_day c) \<and> pfp_equity p \<noteq> 0"
  by (auto simp: usable_pair_of_def close_on_def split: option.splits if_splits)

lemma telescopes:
  assumes "\<forall>pc\<in>set (pairwise (p # q # ps)). usable_pair_of closes pc \<noteq> None"
  shows "prod_list (map equity_ratio (List.map_filter (usable_pair_of closes) (pairwise (p # q # ps))))
      = of_int (pfp_equity (last (q # ps))) / of_int (pfp_equity p)
    \<and> prod_list (map close_ratio (List.map_filter (usable_pair_of closes) (pairwise (p # q # ps))))
      = close_on closes (pfp_day (last (q # ps))) / close_on closes (pfp_day p)"
  using assms
proof (induction ps arbitrary: p q)
  case Nil
  then obtain u where u: "usable_pair_of closes (p, q) = Some u" by auto
  then show ?case
    using usable_pair [OF u] by (simp add: List.map_filter_simps equity_ratio_def close_ratio_def)
next
  case (Cons r ps)
  then obtain u v where u: "usable_pair_of closes (p, q) = Some u" and v: "usable_pair_of closes (q, r) = Some v" by auto
  have IH: "prod_list (map equity_ratio (List.map_filter (usable_pair_of closes) (pairwise (q # r # ps))))
      = of_int (pfp_equity (last (r # ps))) / of_int (pfp_equity q)"
    "prod_list (map close_ratio (List.map_filter (usable_pair_of closes) (pairwise (q # r # ps))))
      = close_on closes (pfp_day (last (r # ps))) / close_on closes (pfp_day q)"
    using Cons.IH [of q r] Cons.prems by auto
  have pairs: "List.map_filter (usable_pair_of closes) (pairwise (p # q # r # ps))
      = u # List.map_filter (usable_pair_of closes) (pairwise (q # r # ps))"
    by (simp add: List.map_filter_simps u)
  have "equity_ratio u = of_int (pfp_equity q) / of_int (pfp_equity p)"
    "close_ratio u = close_on closes (pfp_day q) / close_on closes (pfp_day p)"
    using usable_pair [OF u] by (simp_all add: equity_ratio_def close_ratio_def)
  moreover have "of_int (pfp_equity q) \<noteq> (0 :: rat)" "close_on closes (pfp_day q) \<noteq> 0"
    using usable_pair [OF v] by auto
  ultimately show ?case
    unfolding pairs list.map prod_list.Cons IH last_ConsR [OF list.distinct(2)] by simp
qed

lemma drawdown_bounds:
  assumes "- 1 \<le> d" "d \<le> 0" "0 \<le> peak" "\<forall>p\<in>set ps. 0 \<le> pfp_equity p"
  shows "- 1 \<le> drawdown_from peak d ps \<and> drawdown_from peak d ps \<le> 0"
  using assms
proof (induction peak d ps rule: drawdown_from.induct)
  case (2 peak d p ps)
  let ?k = "max peak (pfp_equity p)"
  let ?d = "if ?k \<noteq> 0 then min d (of_int (pfp_equity p) / of_int ?k - 1) else d"
  have "0 \<le> (of_int (pfp_equity p) / of_int ?k :: rat)"
    using "2.prems" by (intro divide_nonneg_nonneg) auto
  then have "- 1 \<le> ?d" using "2.prems"(1) by (simp only: min_def) auto
  moreover have "?d \<le> 0" using "2.prems"(2) by (simp add: min_le_iff_disj)
  moreover have "0 \<le> ?k" "\<forall>p\<in>set ps. 0 \<le> pfp_equity p" using "2.prems" by auto
  ultimately show ?case
    using "2.IH" [OF refl] by (simp only: drawdown_from.simps Let_def)
qed simp

text \<open>
  C26. Where no session is a gap, the chained returns are those of the ends: the portfolio's from its first
  and last equity, the benchmark's from its first and last close, over one session less than there are
  points; and the drawdown of a book that is never negative lies between -100 and 0 per cent.
\<close>

theorem performance_telescopes:
  assumes "metric_of (calculate_performance points closes rolling) ''performance_gap_sessions'' = 0"
    and "2 \<le> length points" and "\<forall>p\<in>set points. 0 \<le> pfp_equity p"
  defines "m \<equiv> calculate_performance points closes rolling" and "ordered \<equiv> sort_key pfp_day points"
  shows "metric_of m ''portfolio_return_pct''
      = (of_int (pfp_equity (last ordered)) / of_int (pfp_equity (hd ordered)) - 1) * 100
    \<and> metric_of m ''benchmark_return_pct''
      = (close_on closes (pfp_day (last ordered)) / close_on closes (pfp_day (hd ordered)) - 1) * 100
    \<and> metric_of m ''performance_sessions'' = of_nat (length points - 1)
    \<and> - 100 \<le> metric_of m ''max_drawdown_pct'' \<and> metric_of m ''max_drawdown_pct'' \<le> 0"
proof -
  have len: "length ordered = length points" by (simp add: ordered_def)
  then obtain p q ps where o: "ordered = p # q # ps"
    using assms(2) by (metis Suc_le_length_iff numeral_2_eq_2)
  obtain pairs gaps where up: "usable_pairs ordered closes = (pairs, gaps)" by fastforce
  have "gaps = 0"
    using assms(1) unfolding calculate_performance_def ordered_def [symmetric] Let_def up
    by (simp add: metric_of_def empty_metrics_def dict_simps split: if_splits)
  then have usable: "\<forall>pc\<in>set (pairwise ordered). usable_pair_of closes pc \<noteq> None"
    using up by (auto simp: usable_pairs_def filter_empty_conv)
  have pairs: "pairs = List.map_filter (usable_pair_of closes) (pairwise ordered)"
    using up by (simp add: usable_pairs_def)
  have lp: "length (pairwise xs) = length xs - 1" for xs :: "performance_point list"
    by (induction xs rule: pairwise.induct) auto
  have mf: "length (List.map_filter f xs) = length xs" if "\<forall>x\<in>set xs. f x \<noteq> None"
    for f :: "performance_point \<times> performance_point \<Rightarrow> usable_pair option" and xs
    using that by (induction xs) (auto simp: List.map_filter_simps)
  have n: "length pairs = length points - 1"
    unfolding pairs mf [OF usable] lp len ..
  then have ne: "pairs \<noteq> []" using assms(2) by auto
  have tel: "prod_list (map equity_ratio pairs) = of_int (pfp_equity (last ordered)) / of_int (pfp_equity (hd ordered))"
    "prod_list (map close_ratio pairs) = close_on closes (pfp_day (last ordered)) / close_on closes (pfp_day (hd ordered))"
    using telescopes [OF usable [unfolded o]] unfolding pairs o by (simp_all only: last_ConsR [OF list.distinct(2)] list.sel)
  have draw: "- 1 \<le> drawdown_from (pfp_equity (hd ordered)) 0 ordered \<and> drawdown_from (pfp_equity (hd ordered)) 0 ordered \<le> 0"
  proof (rule drawdown_bounds)
    have eq: "set ordered = set points" by (simp add: ordered_def)
    show "\<forall>p\<in>set ordered. 0 \<le> pfp_equity p" using assms(3) eq by simp
    then show "0 \<le> pfp_equity (hd ordered)" by (simp add: o)
  qed simp_all
  have eqs: "m = (let recent = last_n rolling pairs;
               portfolio = percent_of (chained equity_ratio pairs); matched = percent_of (chained matched_ratio pairs)
           in [(''portfolio_return_pct'', portfolio),
               (''benchmark_return_pct'', percent_of (chained close_ratio pairs)),
               (''exposure_matched_return_pct'', matched), (''excess_return_pct'', portfolio - matched),
               (''average_exposure_pct'', sum_list (map exposure_of pairs) / of_nat (length pairs) * 100),
               (''max_drawdown_pct'', max_drawdown ordered),
               (''rolling_portfolio_return_pct'', percent_of (chained equity_ratio recent)),
               (''rolling_exposure_matched_return_pct'', percent_of (chained matched_ratio recent)),
               (''rolling_excess_return_pct'',
                percent_of (chained equity_ratio recent) - percent_of (chained matched_ratio recent)),
               (''performance_sessions'', of_nat (length pairs)),
               (''performance_gap_sessions'', of_nat gaps),
               (''equity_cents'', of_int (pfp_equity (last ordered)))])"
    using ne by (simp add: m_def calculate_performance_def ordered_def [symmetric] up Let_def)
  have "metric_of m ''portfolio_return_pct'' = percent_of (chained equity_ratio pairs)"
    "metric_of m ''benchmark_return_pct'' = percent_of (chained close_ratio pairs)"
    "metric_of m ''performance_sessions'' = of_nat (length pairs)"
    "metric_of m ''max_drawdown_pct'' = max_drawdown ordered"
    by (simp_all add: eqs metric_of_def Let_def dict_simps)
  then show ?thesis
    using draw by (simp add: chained_prod tel percent_of_def n max_drawdown_def)
qed

section \<open>What was told\<close>

definition told :: "string \<Rightarrow> string \<Rightarrow> string \<Rightarrow> string \<Rightarrow> store \<Rightarrow> bool" where
  "told label key name txt s \<longleftrightarrow>
     store_wf s \<and> (\<exists>n. get_node s label key = Some n \<and> dict_get (gn_props n) name = Some (PStr txt))"

definition lasting :: "string \<Rightarrow> string \<Rightarrow> bool" where
  "lasting label name \<longleftrightarrow>
     label \<noteq> ''Fault'' \<and> label \<noteq> ''FaultSuppression'' \<and> name \<notin> set partial_completion_props"

definition faults_aside :: "(store, 'x) agent_env_scheme \<Rightarrow> bool" where
  "faults_aside env \<longleftrightarrow> ge_port env = mem_port \<and> (\<forall>s f. faults_only s (ag_submit env s f))"

lemma told_merge:
  assumes "told label key name txt s" "lasting label name" "dict_wf p"
  shows "told label key name txt (fst (merge_node now s l k p v))"
proof -
  obtain n where s: "store_wf s" and n: "dict_get (st_nodes s) (label, key) = Some n"
    and reads: "dict_get (gn_props n) name = Some (PStr txt)"
    using assms(1) by (auto simp: told_def get_node_def)
  from apply_write_keeps [OF s _ n, of "MergeNode now l k p v"] assms(3) obtain n' where
    n': "dict_get (st_nodes (fst (merge_node now s l k p v))) (label, key) = Some n'" "keeps n n'" by auto
  have "dict_get (gn_props n') name = Some (PStr txt)"
    using n'(2) reads assms(2) by (fastforce simp: keeps_def lasting_def)
  then show ?thesis
    using n'(1) merge_node_wf [OF s assms(3)] by (auto simp: told_def get_node_def)
qed

lemma told_ge_merge:
  assumes "faults_aside env" "lasting label name" "dict_wf p"
  shows "step_keeps (told label key name txt) (ge_merge env l k p)"
  using told_merge [OF _ assms(2, 3)] assms(1) by (simp add: step_keeps_def ge_merge_def faults_aside_def)

lemma told_ge_edge:
  assumes "faults_aside env"
  shows "step_keeps (told label key name txt) (ge_edge env a b t)"
  using add_edge_wf assms
  by (auto simp: step_keeps_def ge_edge_def faults_aside_def told_def add_edge_get)

lemma told_walk:
  assumes "faults_aside env"
  shows "step_keeps (told label key name txt) (parents_by env t n)" "step_keeps (told label key name txt) (children_by env t n)"
  using assms
  by (auto simp: step_keeps_def parents_by_def children_by_def faults_aside_def told_def ancestors_def descendants_def
      get_node_def Let_def)

lemma told_read: "step_keeps P (read_world f)"
  by (simp add: step_keeps_def read_world_def)

lemma told_res: "step_keeps P (step_res r)"
  by (simp add: step_keeps_def step_res_def)

lemma told_captured:
  assumes "faults_aside env" "lasting label name" "step_keeps (told label key name txt) m"
  shows "step_keeps (told label key name txt) (captured env agent modul capability m)"
proof (rule keeps_captured [OF assms(3)])
  fix s f assume "told label key name txt s"
  then show "told label key name txt (ag_submit env s f)"
    using assms(1, 2) by (auto simp: told_def faults_aside_def faults_only_def lasting_def)
qed

lemma told_first:
  assumes "\<And>n. step_keeps P (hop n)"
  shows "step_keeps P (first_by hop n)"
  using assms by (cases n) (auto simp: first_by_def)

lemma told_concat:
  assumes "\<And>n. step_keeps P (f n)"
  shows "step_keeps P (step_concat f xs)"
  by (induction xs) (auto intro!: step_keeps_bind assms)

lemma told_link:
  assumes "faults_aside env"
  shows "step_keeps (told label key name txt) (link_if_present env n l k t)"
  using told_ge_edge [OF assms, of label key name "txt" n]
  by (auto simp: step_keeps_def link_if_present_def split: option.split)

lemma told_market:
  assumes "faults_aside env"
  shows "step_keeps (told label key name txt) (market_pairs env ns)"
proof (induction ns)
  case (Cons n ns)
  have "step_keeps (told label key name txt) (case scan of None \<Rightarrow> market_pairs env ns
      | Some s \<Rightarrow> step_bind (children_by env ''DERIVED_FROM'' s) (\<lambda>snapshots.
            step_bind (market_pairs env ns) (\<lambda>rest. step_return ((s, snapshots) # rest))))" for scan
    by (cases scan) (auto intro!: step_keeps_bind told_walk [OF assms] Cons.IH)
  then show ?case
    unfolding market_pairs.simps scan_of_recommendation_def
    by (intro step_keeps_bind told_first told_walk [OF assms])
qed simp

lemma told_run_lineage:
  assumes "faults_aside env"
  shows "step_keeps (told label key name txt) (collect_run_lineage env n)"
  unfolding collect_run_lineage_def market_lineage_def Let_def case_prod_beta
  by (intro step_keeps_bind told_walk [OF assms] told_concat told_market [OF assms] step_keeps_return)

lemma told_trade_lineage:
  assumes "faults_aside env"
  shows "step_keeps (told label key name txt) (collect_trade_lineage env n)"
  unfolding collect_trade_lineage_def
  by (intro step_keeps_bind told_first told_walk [OF assms] step_keeps_return)

lemma told_projection:
  assumes "faults_aside env"
  shows "step_keeps (told label key name txt) (performance_projection env n inception rolling)"
proof -
  have market: "step_keeps (told label key name txt) (run_market_data env n)"
    unfolding run_market_data_def
    by (cases "data_get (gn_props n) ''source_analyst_run_id''")
      (auto intro!: step_keeps_bind told_read told_first told_walk [OF assms])
  have "step_keeps (told label key name txt) (case utc_instant (re_parse_time env) v of
          None \<Rightarrow> step_res (Inl (ValueError ''PMRun.created_at must be an ISO-8601 timestamp''))
        | Some cutoff \<Rightarrow>
            step_bind (read_world (\<lambda>w. as_of_snapshots env inception cutoff
                (gp_list (ge_port env) w ''BrokerPositionSnapshot''))) (\<lambda>chosen.
            step_bind (run_benchmark env n (day_of_instant cutoff)) (\<lambda>p.
              step_return (f cutoff chosen p))))" for v and f :: "int \<Rightarrow> (int \<times> gnode) list \<Rightarrow> (int, rat) dict \<times> string option \<Rightarrow> 'p"
    unfolding run_benchmark_def
    by (cases "utc_instant (re_parse_time env) v") (auto intro!: step_keeps_bind told_read told_res market)
  then show ?thesis
    unfolding performance_projection_def read_performance_inputs_def Let_def case_prod_beta
    by (intro step_keeps_bind told_res step_keeps_return)
qed

lemma told_write_snapshot:
  assumes "faults_aside env" "lasting label name"
  shows "step_keeps (told label key name txt) (write_run_snapshot env run_id blob summary)"
  unfolding write_run_snapshot_def
  by (intro step_keeps_bind told_ge_merge [OF assms] told_link [OF assms(1)] step_keeps_return) (simp add: dict_wf_def)

lemma told_narrative_result:
  assumes "faults_aside env" "lasting label name"
  shows "step_keeps (told label key name txt) (narrative_result env run_id position_id summary)"
  unfolding narrative_result_def write_trade_narrative_def
  by (intro step_keeps_bind told_ge_merge [OF assms] told_link [OF assms(1)] step_keeps_return) (simp add: dict_wf_def)

lemma told_before_write:
  assumes "faults_aside env" "lasting label name"
  shows "step_keeps (told label key name txt) (book_metrics env n inception)"
    "step_keeps (told label key name txt) (projected_performance env n)"
  unfolding book_metrics_def projected_performance_def Let_def
  by (intro step_keeps_bind told_captured [OF assms] told_read told_projection [OF assms(1)] step_keeps_return)+

lemma told_build_snapshot:
  assumes "faults_aside env" "lasting label name"
  shows "step_keeps (told label key name txt) (build_snapshot env run_id)"
proof -
  have "step_keeps (told label key name txt) (degraded_snapshot env run_id msg)" for msg
    unfolding degraded_snapshot_def Let_def
    by (intro step_keeps_bind told_write_snapshot [OF assms] step_keeps_return)
  moreover have "step_keeps (told label key name txt) (full_snapshot env run_id n)" for n
    unfolding full_snapshot_def Let_def
    by (intro step_keeps_bind told_read told_run_lineage [OF assms(1)] told_before_write [OF assms]
        told_write_snapshot [OF assms] step_keeps_return)
  ultimately show ?thesis
    by (auto simp: step_keeps_def build_snapshot_def split: option.split)
qed

lemma told_build_narrative:
  assumes "faults_aside env" "lasting label name"
  shows "step_keeps (told label key name txt) (build_trade_narrative env position_id max_chars)"
proof -
  have "step_keeps (told label key name txt) (degraded_narrative env position_id max_chars)"
    unfolding degraded_narrative_def by (rule told_narrative_result [OF assms])
  moreover have "step_keeps (told label key name txt) (step_bind (collect_trade_lineage env n) (\<lambda>t.
      narrative_result env (position_run_id env n) position_id
        (trim_summary (compose_story (ge_float_text env) (ge_parse_float env) t) max_chars)))" for n
    by (intro step_keeps_bind told_trade_lineage [OF assms(1)] told_narrative_result [OF assms])
  ultimately show ?thesis
    by (auto simp: step_keeps_def build_trade_narrative_def split: option.split)
qed

section \<open>What can be told again\<close>

lemma told_again:
  assumes "faults_aside env" "lasting label name" "told label key name txt s" "dict_wf p"
    and "dict_get p name = Some (PStr new)" and "ge_merge env label key p s = (s', Inr n)"
  shows "new = txt"
proof -
  have m: "merge_node (ge_wall env s) s label key p 1 = (s', Inr n)"
    using assms(1, 6) by (simp add: faults_aside_def ge_merge_def)
  have "store_wf s" using assms(3) by (simp add: told_def)
  from merge_node_written [OF this assms(4) m] have n: "get_node s' label key = Some n" "holds_props n p" by auto
  have "told label key name txt s'"
    using told_merge [OF assms(3, 2, 4), of "ge_wall env s" label key 1] by (simp add: m)
  then have "dict_get (gn_props n) name = Some (PStr txt)" using n(1) by (simp add: told_def)
  moreover have "dict_get (gn_props n) name = Some (PStr new)"
    using n(2) assms(5) by (auto simp: holds_props_def)
  ultimately show ?thesis by simp
qed

lemma narrative_again:
  assumes "faults_aside env" "told ''TradeNarrative'' (narrative_key position_id) ''summary'' txt s"
    and "narrative_result env run_id position_id summary s = (s', Inr t)"
  shows "ex_summary (tnr_story t) = txt"
proof -
  let ?p = "[(''run_id'', PStr run_id), (''position_id'', PStr position_id), (''summary'', PStr summary)]"
  obtain s1 n where "ge_merge env ''TradeNarrative'' (narrative_key position_id) ?p s = (s1, Inr n)"
    and t: "ex_summary (tnr_story t) = summary"
    using assms(3) by (auto simp: narrative_result_def write_trade_narrative_def step_bind_Inr step_return_def)
  from told_again [OF assms(1) _ assms(2) _ _ this(1)] t show ?thesis
    by (simp add: lasting_def partial_completion_props_def dict_wf_def)
qed

lemma snapshot_again:
  assumes "faults_aside env" "told ''Snapshot'' (snapshot_key run_id) ''headline_summary'' txt s"
    and "write_run_snapshot env run_id blob summary s = (s', Inr pv)"
  shows "summary = txt"
proof -
  let ?p = "[(''run_id'', PStr run_id), (''metrics'', metrics_json blob), (''headline_summary'', PStr summary)]"
  obtain s1 n where "ge_merge env ''Snapshot'' (snapshot_key run_id) ?p s = (s1, Inr n)"
    using assms(3) by (auto simp: write_run_snapshot_def step_bind_Inr)
  from told_again [OF assms(1) _ assms(2) _ _ this] show ?thesis
    by (simp add: lasting_def partial_completion_props_def dict_wf_def)
qed

text \<open>A captured block that gave a value gave it itself; one that raised leaves what it wrote.\<close>

lemma captured_gives:
  assumes "captured env agent modul capability m w = (w', Inr (Some x))"
  shows "\<exists>w1. m w = (w1, Inr x)"
  using assms by (auto simp: captured_def split: prod.splits sum.splits)

lemma told_narrative_outcome:
  assumes "faults_aside env" "told ''TradeNarrative'' (narrative_key position_id) ''summary'' txt s"
    and "snd (narrative env position_id s) = Inr t"
  shows "ex_summary (tnr_story t) = txt"
proof -
  let ?T = "told ''TradeNarrative'' (narrative_key position_id) ''summary'' txt"
  let ?max = "rst_max_chars (re_settings env)"
  have lasting: "lasting ''TradeNarrative'' ''summary''" by (simp add: lasting_def partial_completion_props_def)
  have built: "ex_summary (tnr_story t) = txt" if "build_trade_narrative env position_id ?max s = (s', Inr t)" for s'
  proof (cases "gp_get (ge_port env) s ''Position'' position_id")
    case None
    then show ?thesis
      using that narrative_again [OF assms(1, 2)] by (simp add: build_trade_narrative_def degraded_narrative_def)
  next
    case (Some n)
    with that obtain s1 l where l: "collect_trade_lineage env n s = (s1, Inr l)"
      and r: "narrative_result env (position_run_id env n) position_id
          (trim_summary (compose_story (ge_float_text env) (ge_parse_float env) l) ?max) s1 = (s', Inr t)"
      by (auto simp: build_trade_narrative_def step_bind_Inr)
    from step_keepsD [OF told_trade_lineage [OF assms(1)] assms(2) l] have "?T s1" .
    from narrative_again [OF assms(1) this r] show ?thesis .
  qed
  obtain s' where "narrative env position_id s = (s', Inr t)"
    using assms(3) by (metis prod.collapse)
  then obtain s1 found where c: "captured env ''reporter'' report_module ''narrative''
        (build_trade_narrative env position_id ?max) s = (s1, Inr found)"
    and rest: "(case found of None \<Rightarrow> degraded_narrative env position_id ?max | Some t \<Rightarrow> step_return t) s1 = (s', Inr t)"
    by (auto simp: narrative_def Let_def step_bind_Inr)
  show ?thesis
  proof (cases found)
    case None
    from step_keepsD [OF told_captured [OF assms(1) lasting told_build_narrative [OF assms(1) lasting]] assms(2) c]
    have "?T s1" .
    from narrative_again [OF assms(1) this] rest None show ?thesis by (simp add: degraded_narrative_def)
  next
    case (Some t')
    with rest c show ?thesis
      using built captured_gives by (fastforce simp: step_return_def)
  qed
qed

lemma told_report_outcome:
  assumes "faults_aside env" "told ''Snapshot'' (snapshot_key run_id) ''headline_summary'' txt s"
    and "snd (report env run_id s) = Inr r"
  shows "ex_summary (rsn_headline r) = txt"
proof -
  let ?T = "told ''Snapshot'' (snapshot_key run_id) ''headline_summary'' txt"
  have lasting: "lasting ''Snapshot'' ''headline_summary''" by (simp add: lasting_def partial_completion_props_def)
  have degraded: "ex_summary (rsn_headline r) = txt" if "?T w" "degraded_snapshot env run_id msg w = (w', Inr r)" for w w' msg
    using that snapshot_again [OF assms(1) that(1)]
    by (auto simp: degraded_snapshot_def Let_def step_bind_Inr step_return_def)
  have built: "ex_summary (rsn_headline r) = txt" if "build_snapshot env run_id s = (s', Inr r)" for s'
  proof (cases "gp_get (ge_port env) s ''PMRun'' run_id")
    case None
    then show ?thesis using that degraded [OF assms(2)] by (simp add: build_snapshot_def)
  next
    case (Some n)
    with that have "full_snapshot env run_id n s = (s', Inr r)" by (simp add: build_snapshot_def)
    then obtain s1 s2 s3 src l book perf blob pv where
      src: "read_world (\<lambda>w. linked_pm_source env w n) s = (s, Inr src)"
      and l: "collect_run_lineage env src s = (s1, Inr l)"
      and b: "book_metrics env n (rst_inception (re_settings env)) s1 = (s2, Inr book)"
      and p: "projected_performance env n s2 = (s3, Inr perf)"
      and w: "write_run_snapshot env run_id blob (ex_summary (rsn_headline r)) s3 = (s', Inr pv)"
      by (auto simp: full_snapshot_def step_bind_Inr read_world_def Let_def step_return_def)
    from step_keepsD [OF told_run_lineage [OF assms(1)] assms(2) l] have "?T s1" .
    from step_keepsD [OF told_before_write(1) [OF assms(1) lasting] this b] have "?T s2" .
    from step_keepsD [OF told_before_write(2) [OF assms(1) lasting] this p] have "?T s3" .
    from snapshot_again [OF assms(1) this w] show ?thesis .
  qed
  obtain s' where "report env run_id s = (s', Inr r)"
    using assms(3) by (metis prod.collapse)
  then obtain s1 found where c: "captured env ''reporter'' report_module ''report'' (build_snapshot env run_id) s = (s1, Inr found)"
    and rest: "(case found of None \<Rightarrow> degraded_snapshot env run_id ''Reporter could not traverse the run graph.''
        | Some x \<Rightarrow> step_return x) s1 = (s', Inr r)"
    by (auto simp: report_def step_bind_Inr)
  show ?thesis
  proof (cases found)
    case None
    from step_keepsD [OF told_captured [OF assms(1) lasting told_build_snapshot [OF assms(1) lasting]] assms(2) c]
    have "?T s1" .
    with None rest show ?thesis using degraded by simp
  next
    case (Some x)
    with rest c show ?thesis
      using built captured_gives by (fastforce simp: step_return_def)
  qed
qed

text \<open>
  C27. Once a position has its narrative, and a run its headline, the handlers either repeat that text or
  raise: the story of a position told while it was open is never told again after its exit, not even as the
  degraded text a failed attempt falls back to.
\<close>

theorem reports_never_change:
  assumes "faults_aside env" and "store_wf s"
    and "get_node s ''TradeNarrative'' (narrative_key position_id) = Some n"
    and "dict_get (gn_props n) ''summary'' = Some (PStr story)"
    and "get_node s ''Snapshot'' (snapshot_key run_id) = Some m"
    and "dict_get (gn_props m) ''headline_summary'' = Some (PStr headline)"
  shows "((\<exists>e. snd (narrative env position_id s) = Inl e)
      \<or> (\<exists>t. snd (narrative env position_id s) = Inr t \<and> ex_summary (tnr_story t) = story))
    \<and> ((\<exists>e. snd (report env run_id s) = Inl e)
      \<or> (\<exists>r. snd (report env run_id s) = Inr r \<and> ex_summary (rsn_headline r) = headline))"
proof
  have told: "told ''TradeNarrative'' (narrative_key position_id) ''summary'' story s"
    "told ''Snapshot'' (snapshot_key run_id) ''headline_summary'' headline s"
    using assms(2-6) by (simp_all add: told_def)
  have lasting: "lasting ''TradeNarrative'' ''summary''" "lasting ''Snapshot'' ''headline_summary''"
    by (simp_all add: lasting_def partial_completion_props_def)
  show "(\<exists>e. snd (narrative env position_id s) = Inl e)
      \<or> (\<exists>t. snd (narrative env position_id s) = Inr t \<and> ex_summary (tnr_story t) = story)"
    using told_narrative_outcome [OF assms(1) told(1)] by (cases "snd (narrative env position_id s)") auto
  show "(\<exists>e. snd (report env run_id s) = Inl e)
      \<or> (\<exists>r. snd (report env run_id s) = Inr r \<and> ex_summary (rsn_headline r) = headline)"
    using told_report_outcome [OF assms(1) told(2)] by (cases "snd (report env run_id s)") auto
qed

section \<open>Worked instances\<close>

definition sample_report_env :: "store report_env" where
  "sample_report_env =
     \<lparr>ge_port = mem_port, ge_wall = \<lambda>g. sample_time, ge_float_text = \<lambda>q. [], ge_parse_float = \<lambda>s. None,
      ag_submit = \<lambda>g f. g, ag_hex = \<lambda>g. ''0'',
      re_settings = \<lparr>rst_max_chars = 2000, rst_inception = 739838, rst_rolling_sessions = 20\<rparr>,
      re_parse_time = \<lambda>s. Some (sample_time\<lparr>ts_second := length s\<rparr>), re_parse_date = \<lambda>s. None,
      re_decision_run = \<lambda>v. Inr ''r'', re_validation_text = \<lambda>p. []\<rparr>"

definition early_run :: gnode where
  "early_run = make_node ''PMRun'' ''1'' [(''created_at'', PStr ''a'')] 1"

definition late_run :: gnode where
  "late_run = make_node ''PMRun'' ''2'' [(''created_at'', PStr ''aaa'')] 1"

definition known_fill :: gnode where
  "known_fill = make_node ''Fill'' ''f'' [(''broker_status'', PStr ''filled''),
     (''broker_status_refreshed_at'', PStr ''aa''), (''side'', PStr ''buy'')] 1"

definition book_store :: store where
  "book_store = \<lparr>st_nodes = [((''PMRun'', ''1''), early_run), ((''PMRun'', ''2''), late_run), ((''Fill'', ''f''), known_fill)],
     st_edges = [], st_faults = []\<rparr>"

definition second_of :: "nat \<Rightarrow> int" where
  "second_of n = instant (sample_time\<lparr>ts_second := n\<rparr>)"

lemma second_of_eq [simp]: "second_of m = second_of n \<longleftrightarrow> m = n" "second_of m \<le> second_of n \<longleftrightarrow> m \<le> n"
  by (simp_all add: second_of_def instant_def local_micros_def sample_time_def)

lemma sample_instants: "run_instant (re_parse_time sample_report_env) early_run = Some (second_of 1)"
  "run_instant (re_parse_time sample_report_env) late_run = Some (second_of 3)"
  "fill_moment (ge_float_text sample_report_env) (re_parse_time sample_report_env) known_fill = Some (second_of 2)"
  by (simp_all add: run_instant_def utc_instant_def sample_report_env_def early_run_def late_run_def known_fill_def fill_moment_def
     make_node_def data_get_def dict_simps second_of_def numeral_eq_Suc py_truth_def frozen_props_def normalise_def lower_def lower_char_def)

lemma sample_lists: "gp_list (ge_port sample_report_env) book_store ''PMRun'' = [early_run, late_run]"
  "gp_list (ge_port sample_report_env) book_store ''Fill'' = [known_fill]"
  by (simp_all add: sample_report_env_def list_nodes_def book_store_def early_run_def late_run_def known_fill_def make_node_def)

lemma book_counts_add_up_witness:
  "sum_list (map (\<lambda>r. metric_of (read_book_metrics sample_report_env book_store r 0) ''positions_opened'') [early_run, late_run]) = 1"
proof -
  let ?timed = "filled_fills (ge_float_text sample_report_env) (re_parse_time sample_report_env)
      (gp_list (ge_port sample_report_env) book_store ''Fill'')"
  have "?timed = [(second_of 2, known_fill)]"
    by (simp add: filled_fills_def sample_lists sample_instants List.map_filter_simps)
  then have one: "count_of (\<lambda>(m, n). m \<le> Max (set [second_of 1, second_of 3]) \<and> prop_is (gn_props n) ''side'' ''buy'') ?timed = 1"
    by (simp add: count_of_def prop_is_iff known_fill_def make_node_def dict_simps frozen_props_def)
  have "run_instants (re_parse_time sample_report_env) [early_run, late_run] = set [second_of 1, second_of 3]"
    by (simp add: run_instants_def sample_instants List.map_filter_simps)
  then show ?thesis
    using book_counts_add_up [of sample_report_env "[early_run, late_run]" "[second_of 1, second_of 3]" book_store 0, THEN conjunct1] one
    by (simp add: sample_instants sample_lists)
qed

definition sample_point :: "int \<Rightarrow> int \<Rightarrow> performance_point" where
  "sample_point day equity = \<lparr>pfp_day = day, pfp_equity = equity, pfp_long = 0\<rparr>"

lemma performance_telescopes_witness:
  "metric_of (calculate_performance [sample_point 1 100, sample_point 2 90, sample_point 3 120] [(1, 10), (2, 11), (3, 12)] 20)
     ''portfolio_return_pct'' = 20"
proof -
  let ?ps = "[sample_point 1 100, sample_point 2 90, sample_point 3 120]"
  have o: "sort_key pfp_day ?ps = ?ps" by (simp add: sample_point_def)
  have "metric_of (calculate_performance ?ps [(1, 10), (2, 11), (3, 12)] 20) ''performance_gap_sessions'' = 0"
    unfolding calculate_performance_def o
    by (simp add: usable_pairs_def usable_pair_of_def sample_point_def metric_of_def dict_simps Let_def List.map_filter_simps)
  from performance_telescopes [OF this] show ?thesis
    by (simp add: o) (simp add: sample_point_def)
qed

definition told_store :: store where
  "told_store = fst (merge_node sample_time
     (fst (merge_node sample_time empty_store ''TradeNarrative'' (narrative_key ''p'') [(''summary'', PStr ''x'')] 1))
     ''Snapshot'' (snapshot_key ''r'') [(''headline_summary'', PStr ''y'')] 1)"

lemma told_store_wf: "store_wf told_store"
  unfolding told_store_def by (intro merge_node_wf) simp_all

lemma told_store_nodes:
  "get_node told_store ''TradeNarrative'' (narrative_key ''p'') =
     Some (make_node ''TradeNarrative'' (narrative_key ''p'') [(''summary'', PStr ''x'')] 1)"
  "get_node told_store ''Snapshot'' (snapshot_key ''r'') =
     Some (make_node ''Snapshot'' (snapshot_key ''r'') [(''headline_summary'', PStr ''y'')] 1)"
  "get_node told_store ''Position'' ''p'' = None"
  by (simp_all add: told_store_def merge_node_def merge_core_def empty_store_def get_node_def dict_simps Let_def)

lemma missing_position_text:
  assumes "snd (narrative env position_id s) = Inr t" "gp_get (ge_port env) s ''Position'' position_id = None"
  shows "ex_summary (tnr_story t) = trim_summary (''No Position found for '' @ position_id @ ''; trade story data unavailable.'')
      (rst_max_chars (re_settings env))"
proof -
  have result: "ex_summary (tnr_story t) = body" if "narrative_result env run_id position_id body w = (w', Inr t)" for run_id body w w'
    using that by (auto simp: narrative_result_def step_bind_Inr step_return_def)
  obtain s' s1 found where c: "captured env ''reporter'' report_module ''narrative''
        (build_trade_narrative env position_id (rst_max_chars (re_settings env))) s = (s1, Inr found)"
    and rest: "(case found of None \<Rightarrow> degraded_narrative env position_id (rst_max_chars (re_settings env))
        | Some t \<Rightarrow> step_return t) s1 = (s', Inr t)"
    using assms(1) by (cases "narrative env position_id s") (auto simp: narrative_def Let_def step_bind_Inr)
  show ?thesis
  proof (cases found)
    case None
    then show ?thesis using rest result by (simp add: degraded_narrative_def)
  next
    case (Some t')
    then obtain w1 where "build_trade_narrative env position_id (rst_max_chars (re_settings env)) s = (w1, Inr t)"
      using captured_gives c rest by (fastforce simp: step_return_def)
    then show ?thesis using result assms(2) by (simp add: build_trade_narrative_def degraded_narrative_def)
  qed
qed

lemma reports_never_change_witness:
  "\<exists>e. snd (narrative sample_report_env ''p'' told_store) = Inl e"
proof -
  have env: "faults_aside sample_report_env" "gp_get (ge_port sample_report_env) told_store ''Position'' ''p'' = None"
    by (simp_all add: faults_aside_def sample_report_env_def faults_only_def told_store_nodes)
  have "(\<exists>e. snd (narrative sample_report_env ''p'' told_store) = Inl e)
      \<or> (\<exists>t. snd (narrative sample_report_env ''p'' told_store) = Inr t \<and> ex_summary (tnr_story t) = ''x'')"
    using reports_never_change [OF env(1) told_store_wf told_store_nodes(1) _ told_store_nodes(2), of "''x''" "''y''"]
    by (simp add: make_node_def frozen_props_def)
  moreover have "ex_summary (tnr_story t) \<noteq> ''x''" if "snd (narrative sample_report_env ''p'' told_store) = Inr t" for t
    using missing_position_text [OF that env(2)] by (simp add: trim_summary_def sample_report_env_def)
  ultimately show ?thesis by blast
qed

end
