(* ===== verification/Spec2Isabelle.thy ===== *)
theory Spec2Isabelle
  imports GraphPending GraphWalk WorkLoop ClaimCheck ServeLoop EhloRetry FaultSink Orders StageGate
    PortfolioLimits PortfolioRun SupervisedStage ExecutionRerun MonitorWatch VetoGate
    SweepSafety DivergenceEpisodes AnalystSafety ProviderPoll PipelineHandover
    ReportSafety
begin

text \<open>
  A verification library for a fleet of trading agents. The agents never import each other: they
  exchange typed messages over a bus and leave their work in an append-only graph, which is both
  the record of what happened and the queue the next agent pulls from. The library models the
  plumbing every agent rests on (\<open>kernel/\<close>), the pipeline that leads to an order (the provider, which
  vets market data and hands it over, the scanner, which filters the universe, the analyst, which scores its candidates, the portfolio manager, which turns
  recommendations into sized, gated orders, and execution, which submits them), the monitor, which
  watches the positions they lead to, and the supervisor, through which a human steers them.

  \<^bold>\<open>How the parts interact.\<close> An agent polls the graph for nodes without an outgoing edge of some
  type (\<open>GraphPending\<close>), handles each through the work loop (\<open>WorkLoop\<close>), which counts failures,
  backs off and quarantines, and writes its results as nodes and edges (\<open>GraphStore\<close>), checked
  against the declared vocabulary (\<open>Vocabulary\<close>). Requests between agents go over the bus
  (\<open>Bus\<close>), served by the serve loop (\<open>ServeLoop\<close>); large artifacts pass by reference
  (\<open>ClaimCheck\<close>). A failure is a fault (\<open>Faults\<close>) the sink persists (\<open>FaultSink\<close>). A booting agent
  announces itself until it is answered (\<open>EhloRetry\<close>), and every loop ends at the stop signal
  (\<open>StopSignal\<close>). The portfolio manager evaluates recommendations against its gates and the running
  concentration book (\<open>RiskGates\<close> to \<open>PortfolioRun\<close>); execution turns the approved intents into
  idempotent orders (\<open>Orders\<close>), submits them to a broker (\<open>Broker\<close>, \<open>PaperBroker\<close>), reconciles, and
  decides what stage it may trade at (\<open>StageGate\<close>). A run of submissions (\<open>ExecutionRun\<close>) writes every
  outcome as a Fill node (\<open>FillAttempts\<close>). The supervisor takes the operator's intents, gates them and
  routes them (\<open>SupervisorGate\<close>), and reports the health of the system from the flags and snapshots in
  the graph (\<open>SupervisorStore\<close>); a stage intent becomes a promotion request execution
  answers (\<open>SupervisedStage\<close>).

  In the deployed fleet execution pulls its work from the graph (\<open>PmExecution\<close>). At the head of a run it
  sweeps the orders left unfilled (\<open>DropSweep\<close>) and writes a snapshot of the broker (\<open>RunStart\<close>), whose
  differences from the graph become flags (\<open>DivergenceFlags\<close>). The monitor adopts that snapshot as its
  book (\<open>BookSync\<close>) and checks every position against its stop (\<open>MonitorRun\<close>). A decision run waits for
  its deliberation (\<open>PmExecution\<close>); what the veto leaves is submitted once the resting stops of the
  positions it exits are freed and those of the others are placed (\<open>StopPlacement\<close>).
\<close>

text \<open>
  \<^bold>\<open>Which theory models which part.\<close>

  \<^item> \<open>Prelude\<close>, \<open>PyValue\<close>, \<open>PyTime\<close>: what the language gives the code. Exceptions as the left side of
    a sum (\<open>PyExn\<close> with the exception's type and text), dictionaries in insertion order
    (\<open>dict_get\<close>, \<open>dict_set\<close>), decimal texts and Python's rounding; the values graph properties carry,
    with Python's equality, and their freezing (\<open>kernel/graph_support.py\<close>); dates, aware timestamps and
    their isoformat.
  \<^item> \<open>GraphStore\<close>, \<open>GraphPort\<close>, \<open>GraphHistory\<close>, \<open>GraphWalk\<close>, \<open>GraphPending\<close>: \<open>kernel/graph.py\<close>,
    \<open>graph_memory.py\<close>, \<open>graph_support.py\<close>, \<open>graph_pending.py\<close>. The state \<open>graph_store\<close> is the code's two
    dictionaries, one definition per operation. \<open>GraphHistory\<close> has the history of operations and the
    append-only theorem, \<open>GraphWalk\<close> the bounded search, \<open>GraphPending\<close> the graph as a queue.
    \<open>GraphPort\<close> states the protocol as a record of operations and a locale of its laws, interpreted on
    the in-memory store, and sequences the writes of an agent.
  \<^item> \<open>Vocabulary\<close>: \<open>graph_vocabulary.py\<close> and \<open>graph_guarded.py\<close>, a second provider of the protocol.
  \<^item> \<open>Faults\<close>, \<open>FaultSink\<close>: \<open>errors.py\<close>; \<open>fault_collapse.py\<close>, \<open>fault_graph.py\<close>, \<open>fault_incidents.py\<close>.
  \<^item> \<open>StopSignal\<close>, \<open>WorkLoop\<close>, \<open>ServeLoop\<close>, \<open>EhloRetry\<close>: \<open>stop.py\<close>; \<open>work_loop.py\<close> with its policy, state
    and quarantine; \<open>serve_loop.py\<close>; \<open>ehlo_retry.py\<close> and \<open>ehlo_settings.py\<close>.
  \<^item> \<open>Bus\<close>, \<open>ClaimCheck\<close>: \<open>envelope.py\<close>, \<open>contract.py\<close>, \<open>bus.py\<close>, \<open>agent.py\<close>, \<open>metrics.py\<close>;
    \<open>claim_check.py\<close>.
  \<^item> \<open>Payloads\<close>: \<open>kernel/payload.py\<close> and the messages of \<open>contracts/\<close> the trading agents exchange.
  \<^item> \<open>MarketIntegrity\<close>, \<open>ProviderAgent\<close>, \<open>ProviderPoll\<close>: \<open>agents/provider/\<close>. The trading calendar and
    the checks of a batch of bars; the two handlers and the ingest of a run (whole or in chunks); the poll
    with the histories it serves. The data sources are fields of the environment. \<open>ProviderSafety\<close> has what
    a delivery holds, when the outlier check can fire at all, and what chunking does to an exclusion;
    \<open>PipelineHandover\<close> that an ingest and a scan each take their node off their own queue and leave one new
    node in the next.
  \<^item> \<open>ScanFilters\<close>, \<open>ScanRun\<close>: \<open>agents/scanner/\<close>, its filters and ranking, then its graph writes, its poll
    and its handlers. \<open>ScanAccounts\<close> shows that every ticker has its verdict, that the survivors are those
    that clear every gate, and that the candidates are the best of them. \<open>AgentSteps\<close> has what the agents
    share: a captured block, a request, a link.
  \<^item> \<open>Indicators\<close>, \<open>AnalystRules\<close>, \<open>Sentiment\<close>, \<open>AnalystScore\<close>: the indicators of \<open>agents/analyst/domain/\<close>, the
    tables that score them, the headlines, and the blend of the pillars into a confidence.
    \<open>AnalystDecide\<close> goes from a score to a recommendation or a rejection and over the batch, \<open>AnalystRun\<close>
    is the agent's run, its writes, its poll and its handlers. \<open>AnalystSafety\<close> has what
    an analysis promises: each candidate decided, held names never bought, the confidence in its band,
    and the one input that ends a batch.
  \<^item> \<open>RiskGates\<close>, \<open>SectorBook\<close>, \<open>Correlation\<close>, \<open>OrderDecision\<close>: the domain of the
    portfolio manager (\<open>agents/portfolio_manager/domain/\<close>), one group of definitions per file.
    \<open>PortfolioSteps\<close> has the inversion of an evaluation step and the induction over a run,
    \<open>PortfolioSafety\<close> and \<open>PortfolioLimits\<close> the guarantees of an evaluation; the last
    part of \<open>PortfolioSteps\<close> is a run to witness them on. \<open>PortfolioRun\<close> is the agent's run.
  \<^item> \<open>Broker\<close>, \<open>PaperBroker\<close>, \<open>Orders\<close>, \<open>StageGate\<close>: \<open>agents/execution/\<close>. The broker's values and
    price tolerance, the paper broker, the submission and reconciliation of orders, the stage gate.
    \<open>FillAttempts\<close>: \<open>fill_attempts.py\<close>, \<open>tolerance_store_props.py\<close> and the fill writes of \<open>store.py\<close>;
    \<open>ExecutionRun\<close>: \<open>run.py\<close> and \<open>live_gate.py\<close>; \<open>ExecutionRerun\<close> runs it twice on the in-memory graph
    and the paper broker.
  \<^item> \<open>ListedStore\<close>: the laws of a store whose lists and lookups agree, interpreted on the in-memory one.
  \<^item> \<open>SupervisorStore\<close>, \<open>SupervisorGate\<close>: \<open>agents/supervisor/\<close>, its graph writes, its
    health report and the life of a flag, its gate and handlers. \<open>SupervisorSafety\<close> has what a dispatch
    may do; \<open>SupervisedStage\<close> composes supervisor and execution over the bus.
  \<^item> \<open>PyRead\<close>, \<open>BrokerLifecycle\<close>, \<open>HeldStops\<close>, \<open>PositionBook\<close>: reading a node's property as the code does,
    and what \<open>contracts/\<close> says of orders, stop widths and positions (\<open>broker_lifecycle.py\<close>, \<open>stop_rule.py\<close>,
    \<open>stop_width.py\<close>, \<open>positions.py\<close>, \<open>position_refs.py\<close>, \<open>pnl.py\<close>). \<open>BookSync\<close>, \<open>BookAdoption\<close>: the
    monitor's \<open>reconcile.py\<close> and \<open>position_sync.py\<close>; \<open>MonitorRun\<close>, \<open>MonitorWatch\<close>: its \<open>run.py\<close>,
    \<open>decide.py\<close>, \<open>store.py\<close>, \<open>poll.py\<close> and \<open>domain/\<close>.
  \<^item> \<open>ReportBook\<close>, \<open>ReportRun\<close>: \<open>agents/reporter/\<close>, its reducers over fills and snapshots, then the
    provenance it walks, its texts, its writes, its poll and its handlers. \<open>ReportSafety\<close> has what the
    windows of the runs count, what the chained returns come to, and why a text once written stands.
  \<^item> \<open>ExecWorld\<close>: the state of a graph-pulled run (the graph, a broker behind its whole port, the faults),
    its steps, and \<open>run_start_orders.py\<close>. \<open>RunStart\<close>: \<open>reconciliation.py\<close> and
    \<open>reconciliation_store.py\<close> with the files they call. \<open>DivergenceFlags\<close>:
    \<open>divergence_episodes.py\<close> and \<open>reconciliation_flags.py\<close>; \<open>DivergenceEpisodes\<close> has the machine of phases
    they implement. \<open>DropSweep\<close>, \<open>SweepSafety\<close>: \<open>drop_sweep.py\<close> and its three companions.
    \<open>PositionBook\<close> (its last part), \<open>StopActions\<close>, \<open>StopPlacement\<close>: \<open>contracts/broker_stops.py\<close>, the
    \<open>broker_stop\<close> files, \<open>filled_entry_stops.py\<close> and \<open>exit_stops.py\<close>. \<open>PmExecution\<close>:
    \<open>deliberation_gate.py\<close>, \<open>deliberation_posture.py\<close>, \<open>deliberation_faults.py\<close>, then \<open>pm_execution.py\<close>,
    \<open>poll.py\<close> and the reconcile handler; \<open>VetoGate\<close> bounds what such a run submits.
\<close>

text \<open>
  \<^bold>\<open>What the lemmas show.\<close> The graph: no history of operations loses a node, an edge or a property or
  changes a property outside the one documented exception; merges are idempotent; the walk returns
  exactly the reachable nodes; a poll returns exactly the pending ones. The loops: they end, account
  for every item they took, cap a failing item's retries and never touch a blocked one. Messages: a
  request is answered exactly once, under the caller gate and the declared models. Faults: none is
  lost, though repeated ones are collapsed, where they differ in the keys of their nodes. The portfolio manager: every recommendation is decided
  once, whatever the order they arrive in; an approved order cleared every gate; the approved orders
  together respect the cash buffer and the concentration limits, because the running book refines the
  holdings they lead to; a rejection names its gate; the run records all of it. Execution: orders are
  submitted at most once per key, reconcile with the broker, fill within their band, and the stage
  moves up one confirmed step at a time, never to the last one, and down on any request; submitting a
  set again changes nothing, and at a live stage nothing is submitted and every approved intent is on
  record as rejected. The supervisor: a forbidden intent has no effect, an unconfirmed one only raises
  its flag (a stage intent is left to execution), a critical flag stands until it is resolved and is
  silent afterwards. The monitor: after adopting a fresh snapshot the active positions are the broker's
  holdings, one each, except a holding whose key names a position that has ended, which gets none; an
  observation decides no exit, checks every priced position against its stop and submits a fault exactly
  for the breached and the unpriced ones. The graph-pulled run: it submits only
  approved orders the deliberation did not veto, and no buys while they are held; the sweep leaves
  every stop and every order of the current run as it was; a divergence warns once, turns critical
  when it is seen again and is closed when it is gone. Every store reached by writes is well typed.
  The data pipeline: a delivery holds the valid bars of the tickers that are not excluded, a scan the
  tickers that clear every gate, an analysis one decision per candidate, and each agent's work ends in
  the next agent's queue. The reporter: one run per instant, the books count every filled fill once.
\<close>

text \<open>
  \<^bold>\<open>Conventions.\<close> Floats and Decimals are exact rationals: the rounding the code writes out is
  modelled, that of the machine's binary floats is not; which bars have a price that is not finite is a
  predicate the provider is given. Time, identifiers, SHA-256, the square root,
  the text of a validation error and everything a third party supplies are arguments of the
  definitions that use them. Code that may call back into a world outside (a handler, a graph behind
  the protocol, a broker) passes that world along as an explicit state. A loop without a bound in the
  code takes fuel and gives no result when it runs out; the termination properties give the fuel that
  is enough (the iteration count for the work loop, the attempt cap for the EHLO loop, the slices of
  the sleep for the stop signal). The search for a fill attempt takes one more than the number of Fill
  nodes, which \<open>attempt_found\<close> shows to be enough; the searches for a stop key take one more than the
  number of stop facts, which \<open>next_key_found\<close> and \<open>free_key_found\<close> show to be enough. The walk takes its
  bound \<open>max_depth\<close> from the code. In the graph-pulled run the faults go to a list, where the deployed
  agent also writes them to the graph (\<open>FaultSink\<close>).

  \<^bold>\<open>Interfaces.\<close> The graph protocol and the protocols a client relies on are locales, each
  interpreted on the definitions of the component that provides it, in that component's theory.

  \<^bold>\<open>Not modelled.\<close> Threads (each operation under a lock is one step); the transports of messages
  (Azure Service Bus, Celery), the PostgreSQL backend and the broker's HTTP adapters, which are SQL
  and requests to services; the validation of an order set and the reading of an ISO timestamp, which
  libraries do and which are parameters; the data feeds' HTTP and parsing, which are the provider's sources, and
  the agents that compute statistics (forecaster, researcher, curator); the language-model
  adapters and the debate built on them (deliberator, operator); bootstrap and credentials (master);
  the scheduler, the dashboards, the scripts and the tests.
\<close>

end
